(* ===== verification/Prelude.thy ===== *)
theory Prelude
  imports Main "HOL-Library.AList" "HOL-Library.Multiset" "HOL-Library.Char_ord"
    "HOL-Library.List_Lexorder"
begin

text \<open>
  What every component shares: the collections of hints, the model of Python's
  exceptions, strings, insertion-ordered dictionaries and sets, and the interface of a
  keyed store with its laws.

  A string is a list of \<^typ>\<open>char\<close>, each read as the code point with the same number, so
  the strings of the model are those over the code points below 256. Case folding,
  whitespace and word characters follow Python on that range.
\<close>

named_theorems brain_simps \<open>unfolding of the operations of the components\<close>
named_theorems store_simps \<open>what a store returns after an update\<close>

subsection \<open>Identifiers, time and exceptions\<close>

text \<open>
  A \<open>uuid.UUID\<close> is represented by its canonical text, so \<open>str(u)\<close> is \<open>u\<close> itself. A fresh
  identifier (\<open>uuid.uuid4()\<close>) and the current time (\<open>datetime.now(UTC)\<close>) are inputs of
  the operation that draws them; a time is an integer number of microseconds.
\<close>

type_synonym uuid = string
type_synonym datetime = int

text \<open>
  An exception carries what the code inspects of it: the name of its class
  (\<open>type(exc).__name__\<close>) and its message (\<open>str(exc)\<close>).
\<close>

datatype exn = Exn (exn_type: string) (exn_msg: string)

definition exn_text :: "exn \<Rightarrow> string" where
  "exn_text e = exn_type e @ '': '' @ exn_msg e"

text \<open>
  A call that may raise returns \<open>Inl\<close> of the exception; the state it was given is
  returned in both cases, because effects before a \<open>raise\<close> persist.
\<close>

type_synonym ('s, 'a) outcome = "(exn + 'a) \<times> 's"

text \<open>Tests of a bounded loop's result, for evaluating concrete runs.\<close>

definition returns :: "('s, 'a) outcome option \<Rightarrow> bool" where
  "returns r = (case r of Some (Inr _, _) \<Rightarrow> True | _ \<Rightarrow> False)"

definition raises :: "('s, 'a) outcome option \<Rightarrow> bool" where
  "raises r = (case r of Some (Inl _, _) \<Rightarrow> True | _ \<Rightarrow> False)"

lemma returnsD: "returns r \<Longrightarrow> \<exists>v s. r = Some (Inr v, s)"
  by (auto simp: returns_def split: option.splits prod.splits sum.splits)

lemma raisesD: "raises r \<Longrightarrow> \<exists>e s. r = Some (Inl e, s)"
  by (auto simp: raises_def split: option.splits prod.splits sum.splits)

text \<open>
  Calls one after the other, and a loop over a list: an exception ends both, and what
  happened before it stays.
\<close>

definition return_out :: "'a \<Rightarrow> 's \<Rightarrow> ('s, 'a) outcome" where
  "return_out a s = (Inr a, s)"

definition then_do :: "('s, 'a) outcome \<Rightarrow> ('a \<Rightarrow> 's \<Rightarrow> ('s, 'b) outcome) \<Rightarrow> ('s, 'b) outcome" where
  "then_do m k = (case m of (Inl e, s) \<Rightarrow> (Inl e, s) | (Inr a, s) \<Rightarrow> k a s)"

fun each_do :: "('a \<Rightarrow> 's \<Rightarrow> ('s, unit) outcome) \<Rightarrow> 'a list \<Rightarrow> 's \<Rightarrow> ('s, unit) outcome" where
  "each_do f [] s = (Inr (), s)"
| "each_do f (x # xs) s = then_do (f x s) (\<lambda>u. each_do f xs)"

lemma then_do_simps [simp]:
  "then_do (Inl e, s) k = (Inl e, s)" "then_do (Inr a, s) k = k a s" "then_do (return_out a s) k = k a s"
  by (simp_all add: then_do_def return_out_def)

lemma then_do_state:
  assumes "P (snd m)" and "\<And>a s. \<lbrakk>m = (Inr a, s); P s\<rbrakk> \<Longrightarrow> P (snd (k a s))"
  shows "P (snd (then_do m k))"
proof (cases m)
  case (Pair r s)
  with assms show ?thesis by (cases r) simp_all
qed

lemma each_do_state:
  assumes "P s" and step: "\<And>x s. \<lbrakk>x \<in> set xs; P s\<rbrakk> \<Longrightarrow> P (snd (f x s))"
  shows "P (snd (each_do f xs s))"
  using assms
proof (induction xs arbitrary: s)
  case (Cons x xs)
  show ?case
    unfolding each_do.simps
    by (rule then_do_state [of P]) (use Cons in \<open>simp_all\<close>)
qed simp

lemma then_do_InrE:
  assumes "then_do m k = (Inr b, t)"
  obtains a s where "m = (Inr a, s)" "k a s = (Inr b, t)"
  using assms by (cases m; cases "fst m") simp_all

subsection \<open>Strings\<close>

definition code :: "char \<Rightarrow> nat" where
  "code c = of_char c"

definition lower_char :: "char \<Rightarrow> char" where
  "lower_char c =
     (let n = code c in
      if 65 \<le> n \<and> n \<le> 90 \<or> 192 \<le> n \<and> n \<le> 222 \<and> n \<noteq> 215 then char_of (n + 32) else c)"

definition lower :: "string \<Rightarrow> string" where
  "lower s = map lower_char s"

definition is_space :: "char \<Rightarrow> bool" where
  "is_space c =
     (let n = code c in
      9 \<le> n \<and> n \<le> 13 \<or> 28 \<le> n \<and> n \<le> 32 \<or> n = 133 \<or> n = 160)"

definition strip :: "string \<Rightarrow> string" where
  "strip s = rev (dropWhile is_space (rev (dropWhile is_space s)))"

fun starts_with :: "'a list \<Rightarrow> 'a list \<Rightarrow> bool" where
  "starts_with xs [] = True"
| "starts_with [] (y # ys) = False"
| "starts_with (x # xs) (y # ys) = (x = y \<and> starts_with xs ys)"

definition ends_with :: "'a list \<Rightarrow> 'a list \<Rightarrow> bool" where
  "ends_with xs ys = starts_with (rev xs) (rev ys)"

text \<open>\<open>needle in text\<close>.\<close>

fun contains :: "'a list \<Rightarrow> 'a list \<Rightarrow> bool" where
  "contains needle [] = (needle = [])"
| "contains needle (x # xs) = (starts_with (x # xs) needle \<or> contains needle xs)"

text \<open>\<open>s.split(c)\<close> for a one-character separator: never the empty list.\<close>

fun split_on :: "'a \<Rightarrow> 'a list \<Rightarrow> 'a list list" where
  "split_on c [] = [[]]"
| "split_on c (x # xs) =
     (if x = c then [] # split_on c xs
      else (case split_on c xs of [] \<Rightarrow> [[x]] | y # ys \<Rightarrow> (x # y) # ys))"

text \<open>\<open>sep.join(parts)\<close>.\<close>

fun join :: "string \<Rightarrow> string list \<Rightarrow> string" where
  "join sep [] = []"
| "join sep [x] = x"
| "join sep (x # xs) = x @ sep @ join sep xs"

lemma starts_with_iff: "starts_with xs ys \<longleftrightarrow> (\<exists>zs. xs = ys @ zs)"
  by (induction xs ys rule: starts_with.induct) auto

lemma contains_iff: "contains needle xs \<longleftrightarrow> (\<exists>us vs. xs = us @ needle @ vs)"
proof (induction xs)
  case Nil
  then show ?case by auto
next
  case (Cons x xs)
  have "(\<exists>us vs. x # xs = us @ needle @ vs) \<longleftrightarrow>
      (\<exists>vs. x # xs = needle @ vs) \<or> (\<exists>us vs. xs = us @ needle @ vs)"
    by (auto simp: Cons_eq_append_conv)
  with Cons show ?case by (auto simp: starts_with_iff)
qed

lemma strip_empty: "strip s = [] \<Longrightarrow> \<forall>c \<in> set s. is_space c"
  by (auto simp: strip_def dropWhile_eq_Nil_conv dest: set_dropWhileD)
    (metis dropWhile_eq_Nil_conv hd_dropWhile hd_in_set)

lemma strip_spaces: "\<forall>c \<in> set s. is_space c \<Longrightarrow> strip s = []"
  by (auto simp: strip_def dest: set_dropWhileD)

lemma contains_append_left: "contains n xs \<Longrightarrow> contains n (ys @ xs)"
  unfolding contains_iff by (metis append.assoc)

lemma contains_append_right: "contains n xs \<Longrightarrow> contains n (xs @ ys)"
  unfolding contains_iff by (metis append.assoc)

lemma split_on_nonempty [simp]: "split_on c xs \<noteq> []"
  by (cases xs) (auto split: list.splits)

lemma lower_char_lower [simp]: "lower_char (lower_char c) = lower_char c"
proof -
  have "code (char_of (code c + 32)) = code c + 32" if "code c \<le> 222"
    using that by (simp add: code_def)
  then show ?thesis by (auto simp: lower_char_def Let_def)
qed

lemma lower_lower [simp]: "lower (lower s) = lower s"
  by (simp add: lower_def comp_def)

text \<open>A piece of a split has no separator.\<close>

lemma split_on_pieces: "p \<in> set (split_on c xs) \<Longrightarrow> c \<notin> set p"
  by (induction xs arbitrary: p) (auto split: if_splits list.splits)

lemma split_on_last: "c \<notin> set (last (split_on c xs))"
  by (rule split_on_pieces [OF last_in_set]) simp

text \<open>Decimal text of a natural number: \<open>str(n)\<close> for \<open>n \<ge> 0\<close>.\<close>

fun str_nat :: "nat \<Rightarrow> string" where
  "str_nat n = (if n < 10 then [char_of (48 + n)] else str_nat (n div 10) @ [char_of (48 + n mod 10)])"

declare str_nat.simps [simp del]

definition str_int :: "int \<Rightarrow> string" where
  "str_int i = (if i < 0 then ''-'' @ str_nat (nat (- i)) else str_nat (nat i))"

lemma str_nat_nonempty [simp]: "str_nat n \<noteq> []"
  by (subst str_nat.simps) simp

subsection \<open>Dictionaries\<close>

text \<open>
  A \<open>dict\<close> keeps its insertion order, which the code observes through \<open>values()\<close>: an
  association list with distinct keys. \<open>d[k] = v\<close> is \<^const>\<open>AList.update\<close> (it replaces in
  place, or appends), \<open>d.get(k)\<close> is \<^const>\<open>map_of\<close>, \<open>d.pop(k, None)\<close> is
  \<^const>\<open>AList.delete\<close>, and \<open>d.values()\<close> the list of the second components.
\<close>

type_synonym ('k, 'v) dict = "('k \<times> 'v) list"

abbreviation dict_get :: "('k, 'v) dict \<Rightarrow> 'k \<Rightarrow> 'v option" where
  "dict_get d k \<equiv> map_of d k"

abbreviation dict_set :: "'k \<Rightarrow> 'v \<Rightarrow> ('k, 'v) dict \<Rightarrow> ('k, 'v) dict" where
  "dict_set k v d \<equiv> AList.update k v d"

abbreviation dict_pop :: "'k \<Rightarrow> ('k, 'v) dict \<Rightarrow> ('k, 'v) dict" where
  "dict_pop k d \<equiv> AList.delete k d"

definition dict_values :: "('k, 'v) dict \<Rightarrow> 'v list" where
  "dict_values d = map snd d"

definition dict_keys :: "('k, 'v) dict \<Rightarrow> 'k list" where
  "dict_keys d = map fst d"

definition dict_ok :: "('k, 'v) dict \<Rightarrow> bool" where
  "dict_ok d = distinct (map fst d)"

lemma dict_ok_empty [simp]: "dict_ok []"
  by (simp add: dict_ok_def)

lemma dict_ok_set [simp]: "dict_ok d \<Longrightarrow> dict_ok (dict_set k v d)"
  by (simp add: dict_ok_def distinct_update)

lemma dict_ok_pop [simp]: "dict_ok d \<Longrightarrow> dict_ok (dict_pop k d)"
  by (simp add: dict_ok_def distinct_delete)

lemma dict_get_set [store_simps]: "dict_get (dict_set k v d) k' = (if k' = k then Some v else dict_get d k')"
  by (simp add: update_conv')

lemma dict_get_pop [store_simps]: "dict_get (dict_pop k d) k' = (if k' = k then None else dict_get d k')"
  by (simp add: delete_conv')

lemma dict_values_iff: "dict_ok d \<Longrightarrow> v \<in> set (dict_values d) \<longleftrightarrow> (\<exists>k. dict_get d k = Some v)"
  by (force simp: dict_ok_def dict_values_def intro: map_of_is_SomeI dest: map_of_SomeD)

lemma dict_set_fresh: "dict_get d k = None \<Longrightarrow> dict_set k v d = d @ [(k, v)]"
  by (induction d) (auto split: if_splits)

lemma dict_values_set_fresh [store_simps]:
  "dict_get d k = None \<Longrightarrow> dict_values (dict_set k v d) = dict_values d @ [v]"
  by (simp add: dict_set_fresh dict_values_def)

lemma dict_values_pop: "set (dict_values (dict_pop k d)) \<subseteq> set (dict_values d)"
  by (auto simp: dict_values_def AList.delete_eq)

subsection \<open>The interface of a keyed store\<close>

text \<open>
  Every in-memory adapter that keeps objects under an identifier promises the same laws:
  what a lookup returns after a \<open>put\<close> or a \<open>remove\<close>, and that listing shows exactly the
  stored objects. The components that only rely on these laws prove their lemmas here.
\<close>

locale keyed_store =
  fixes put :: "'k \<Rightarrow> 'v \<Rightarrow> 's \<Rightarrow> 's"
    and fetch :: "'s \<Rightarrow> 'k \<Rightarrow> 'v option"
    and remove :: "'k \<Rightarrow> 's \<Rightarrow> 's"
    and items :: "'s \<Rightarrow> 'v list"
    and ok :: "'s \<Rightarrow> bool"
  assumes fetch_put: "fetch (put k v s) k' = (if k' = k then Some v else fetch s k')"
    and fetch_remove: "fetch (remove k s) k' = (if k' = k then None else fetch s k')"
    and items_iff: "ok s \<Longrightarrow> v \<in> set (items s) \<longleftrightarrow> (\<exists>k. fetch s k = Some v)"
    and ok_put: "ok s \<Longrightarrow> ok (put k v s)"
    and ok_remove: "ok s \<Longrightarrow> ok (remove k s)"
begin

lemma put_put_same: "fetch (put k w (put k v s)) = fetch (put k w s)"
  by (rule ext) (simp add: fetch_put)

lemma put_commute: "k \<noteq> l \<Longrightarrow> fetch (put k v (put l w s)) = fetch (put l w (put k v s))"
  by (rule ext) (simp add: fetch_put)

lemma remove_put_fresh: "fetch s k = None \<Longrightarrow> fetch (remove k (put k v s)) = fetch s"
  by (rule ext) (simp add: fetch_put fetch_remove)

lemma items_put:
  assumes "ok s"
  shows "set (items (put k v s)) = insert v {w. \<exists>l. l \<noteq> k \<and> fetch s l = Some w}"
  using assms by (auto simp: items_iff ok_put fetch_put split: if_splits)

lemma items_put_subset: "ok s \<Longrightarrow> set (items (put k v s)) \<subseteq> insert v (set (items s))"
  by (auto simp: items_put items_iff)

lemma items_remove_subset: "ok s \<Longrightarrow> set (items (remove k s)) \<subseteq> set (items s)"
  by (auto simp: items_iff ok_remove fetch_remove split: if_splits)

text \<open>An invariant of the stored objects is kept by every put of an object that has it.\<close>

lemma all_items_put:
  assumes "ok s" and "\<And>w. w \<in> set (items s) \<Longrightarrow> P w" and "P v"
  shows "w \<in> set (items (put k v s)) \<Longrightarrow> P w"
  using assms items_put_subset [of s k v] by auto

end

interpretation dict: keyed_store AList.update map_of AList.delete dict_values dict_ok
  by unfold_locales (auto simp: store_simps dict_values_iff)

subsection \<open>Lists\<close>

text \<open>\<open>next((x for x in xs if P x), None)\<close>.\<close>

lemma find_SomeD: "List.find P xs = Some x \<Longrightarrow> x \<in> set xs \<and> P x"
  by (auto simp: find_Some_iff)

lemma find_None_iff': "List.find P xs = None \<longleftrightarrow> (\<forall>x \<in> set xs. \<not> P x)"
  by (auto simp: find_None_iff)

text \<open>
  \<open>sorted(set(xs))\<close>: the distinct elements in increasing order, code points first.
\<close>

definition sorted_set :: "'a::linorder list \<Rightarrow> 'a list" where
  "sorted_set xs = sort (remdups xs)"

lemma set_sorted_set [simp]: "set (sorted_set xs) = set xs"
  by (simp add: sorted_set_def)

lemma sorted_sorted_set [simp]: "sorted (sorted_set xs)" "distinct (sorted_set xs)"
  by (simp_all add: sorted_set_def)

lemma sorted_set_Nil [simp]: "sorted_set [] = []"
  by (simp add: sorted_set_def)

lemma sorted_set_eq_Nil [simp]: "sorted_set xs = [] \<longleftrightarrow> xs = []"
  by (metis set_empty set_sorted_set)

text \<open>\<open>xs[-n:]\<close> for \<open>n > 0\<close>.\<close>

definition last_n :: "nat \<Rightarrow> 'a list \<Rightarrow> 'a list" where
  "last_n n xs = drop (length xs - n) xs"

text \<open>\<open>xs[-n:]\<close> for any integer \<open>n\<close>: for 0 it is the whole list.\<close>

definition slice_last :: "int \<Rightarrow> 'a list \<Rightarrow> 'a list" where
  "slice_last n xs = (if n > 0 then last_n (nat n) xs else drop (nat (- n)) xs)"

end
