(* ===== verification/Commands.thy ===== *)
theory Commands
  imports Json
begin

text \<open>
  Commands (\<open>domain/commands.py\<close>), the failure record (\<open>domain/command_failure.py\<close>), the
  in-memory command queue (\<open>adapters/in_memory/commands.py\<close>) and its interface as a locale,
  and the two classifications of an exception (\<open>workers/loop.py\<close>, \<open>orchestration/retry.py\<close>).
\<close>

subsection \<open>Command envelopes\<close>

datatype trigger_type = TRIGGER_USER | TRIGGER_EVENT | TRIGGER_SCHEDULED | TRIGGER_INTERNAL

datatype command_type =
    ANALYZE_PROJECT | SYNC_REPOSITORY | INGEST_REPOSITORY | INGEST_DOCUMENT
  | EXTRACT_REQUIREMENTS | ANALYZE_WORK_ITEM | PLAN_WORK_ITEM | BUILD_CONTEXT
  | RUN_WORK_ITEM | EXECUTE_WORK_ITEM | VERIFY_EXECUTION | CREATE_PULL_REQUEST
  | RECONCILE_PROJECT | BOOTSTRAP_PROJECT | SYNC_WORK_MANAGEMENT

fun command_type_value :: "command_type \<Rightarrow> string" where
  "command_type_value ANALYZE_PROJECT = ''analyze_project''"
| "command_type_value SYNC_REPOSITORY = ''sync_repository''"
| "command_type_value INGEST_REPOSITORY = ''ingest_repository''"
| "command_type_value INGEST_DOCUMENT = ''ingest_document''"
| "command_type_value EXTRACT_REQUIREMENTS = ''extract_requirements''"
| "command_type_value ANALYZE_WORK_ITEM = ''analyze_work_item''"
| "command_type_value PLAN_WORK_ITEM = ''plan_work_item''"
| "command_type_value BUILD_CONTEXT = ''build_context''"
| "command_type_value RUN_WORK_ITEM = ''run_work_item''"
| "command_type_value EXECUTE_WORK_ITEM = ''execute_work_item''"
| "command_type_value VERIFY_EXECUTION = ''verify_execution''"
| "command_type_value CREATE_PULL_REQUEST = ''create_pull_request''"
| "command_type_value RECONCILE_PROJECT = ''reconcile_project''"
| "command_type_value BOOTSTRAP_PROJECT = ''bootstrap_project''"
| "command_type_value SYNC_WORK_MANAGEMENT = ''sync_work_management''"

record command_envelope =
  command_id :: uuid
  command_type :: command_type
  command_project_id :: "uuid option"
  requested_at :: datetime
  requested_by :: "uuid option"
  trigger_type :: trigger_type
  command_correlation_id :: uuid
  command_payload :: "(string \<times> json) list"

text \<open>The typed payloads, one constructor per model class.\<close>

datatype command_model =
    AnalyzeProjectCommand uuid
  | SyncRepositoryCommand uuid
  | IngestRepositoryCommand uuid "string option"
  | IngestDocumentCommand uuid "uuid option"
  | ExtractRequirementsCommand uuid "uuid option"
  | AnalyzeWorkItemCommand uuid
  | PlanWorkItemCommand uuid
  | BuildContextCommand uuid "uuid option" "string option" int
  | RunWorkItemCommand uuid
  | ExecuteWorkItemCommand uuid "uuid option"
  | VerifyExecutionCommand uuid uuid
  | CreatePullRequestCommand uuid uuid
  | ReconcileProjectCommand uuid
  | BootstrapProjectCommand uuid string string
  | SyncWorkManagementCommand uuid

text \<open>\<open>COMMAND_TYPE_TO_MODEL\<close> read from the model to its type.\<close>

fun model_command_type :: "command_model \<Rightarrow> command_type" where
  "model_command_type (AnalyzeProjectCommand _) = ANALYZE_PROJECT"
| "model_command_type (SyncRepositoryCommand _) = SYNC_REPOSITORY"
| "model_command_type (IngestRepositoryCommand _ _) = INGEST_REPOSITORY"
| "model_command_type (IngestDocumentCommand _ _) = INGEST_DOCUMENT"
| "model_command_type (ExtractRequirementsCommand _ _) = EXTRACT_REQUIREMENTS"
| "model_command_type (AnalyzeWorkItemCommand _) = ANALYZE_WORK_ITEM"
| "model_command_type (PlanWorkItemCommand _) = PLAN_WORK_ITEM"
| "model_command_type (BuildContextCommand _ _ _ _) = BUILD_CONTEXT"
| "model_command_type (RunWorkItemCommand _) = RUN_WORK_ITEM"
| "model_command_type (ExecuteWorkItemCommand _ _) = EXECUTE_WORK_ITEM"
| "model_command_type (VerifyExecutionCommand _ _) = VERIFY_EXECUTION"
| "model_command_type (CreatePullRequestCommand _ _) = CREATE_PULL_REQUEST"
| "model_command_type (ReconcileProjectCommand _) = RECONCILE_PROJECT"
| "model_command_type (BootstrapProjectCommand _ _ _) = BOOTSTRAP_PROJECT"
| "model_command_type (SyncWorkManagementCommand _) = SYNC_WORK_MANAGEMENT"

text \<open>\<open>model.model_dump(mode="json")\<close>: the fields in declaration order.\<close>

fun model_dump :: "command_model \<Rightarrow> (string \<times> json) list" where
  "model_dump (AnalyzeProjectCommand p) = [(''project_id'', JStr p)]"
| "model_dump (SyncRepositoryCommand r) = [(''repository_id'', JStr r)]"
| "model_dump (IngestRepositoryCommand r v) =
     [(''repository_id'', JStr r), (''revision'', jopt JStr v)]"
| "model_dump (IngestDocumentCommand d p) =
     [(''document_id'', JStr d), (''project_id'', jopt JStr p)]"
| "model_dump (ExtractRequirementsCommand p d) =
     [(''project_id'', JStr p), (''document_id'', jopt JStr d)]"
| "model_dump (AnalyzeWorkItemCommand w) = [(''work_item_id'', JStr w)]"
| "model_dump (PlanWorkItemCommand w) = [(''work_item_id'', JStr w)]"
| "model_dump (BuildContextCommand w r v b) =
     [(''work_item_id'', JStr w), (''repository_id'', jopt JStr r),
      (''revision'', jopt JStr v), (''budget'', JInt b)]"
| "model_dump (RunWorkItemCommand w) = [(''work_item_id'', JStr w)]"
| "model_dump (ExecuteWorkItemCommand w e) =
     [(''work_item_id'', JStr w), (''execution_id'', jopt JStr e)]"
| "model_dump (VerifyExecutionCommand e w) =
     [(''execution_id'', JStr e), (''work_item_id'', JStr w)]"
| "model_dump (CreatePullRequestCommand e w) =
     [(''execution_id'', JStr e), (''work_item_id'', JStr w)]"
| "model_dump (ReconcileProjectCommand p) = [(''project_id'', JStr p)]"
| "model_dump (BootstrapProjectCommand p v x) =
     [(''project_id'', JStr p), (''provider'', JStr v), (''external_project_id'', JStr x)]"
| "model_dump (SyncWorkManagementCommand p) = [(''project_id'', JStr p)]"

text \<open>\<open>getattr(model, "project_id", None)\<close>.\<close>

fun model_project_id :: "command_model \<Rightarrow> uuid option" where
  "model_project_id (AnalyzeProjectCommand p) = Some p"
| "model_project_id (IngestDocumentCommand d p) = p"
| "model_project_id (ExtractRequirementsCommand p d) = Some p"
| "model_project_id (ReconcileProjectCommand p) = Some p"
| "model_project_id (BootstrapProjectCommand p v x) = Some p"
| "model_project_id (SyncWorkManagementCommand p) = Some p"
| "model_project_id _ = None"

text \<open>
  \<open>make_command\<close>: \<open>cid\<close> and \<open>corr\<close> are the identifiers \<open>uuid4\<close> would draw for the command
  and, when the caller gives none, for the correlation chain.
\<close>

definition make_command ::
  "uuid \<Rightarrow> uuid \<Rightarrow> datetime \<Rightarrow> command_type \<Rightarrow> command_model \<Rightarrow> trigger_type \<Rightarrow> uuid option
    \<Rightarrow> uuid option \<Rightarrow> command_envelope" where
  "make_command cid corr now t m trig by given =
     \<lparr>command_id = cid, command_type = t, command_project_id = model_project_id m,
      requested_at = now, requested_by = by, trigger_type = trig,
      command_correlation_id = (case given of Some c \<Rightarrow> c | None \<Rightarrow> corr),
      command_payload = model_dump m\<rparr>"

text \<open>
  Validation of a payload by the model class. What pydantic accepts for a field of a given
  type is a parameter (\<open>v_uuid\<close>, \<open>v_str\<close>, \<open>v_int\<close>); a required field must be present, an
  optional one may be missing or null, and a field with a default takes it when missing.
\<close>

record validators =
  v_uuid :: "json \<Rightarrow> uuid option"
  v_str :: "json \<Rightarrow> string option"
  v_int :: "json \<Rightarrow> int option"

definition req :: "(json \<Rightarrow> 'a option) \<Rightarrow> (string \<times> json) list \<Rightarrow> string \<Rightarrow> 'a option" where
  "req v d k = (case map_of d k of None \<Rightarrow> None | Some x \<Rightarrow> v x)"

definition opt :: "(json \<Rightarrow> 'a option) \<Rightarrow> (string \<times> json) list \<Rightarrow> string \<Rightarrow> 'a option option" where
  "opt v d k =
     (case map_of d k of None \<Rightarrow> Some None
      | Some x \<Rightarrow> (if x = JNull then Some None else map_option Some (v x)))"

definition dflt :: "(json \<Rightarrow> 'a option) \<Rightarrow> 'a \<Rightarrow> (string \<times> json) list \<Rightarrow> string \<Rightarrow> 'a option" where
  "dflt v a d k = (case map_of d k of None \<Rightarrow> Some a | Some x \<Rightarrow> v x)"

text \<open>
  \<open>command_to_model\<close>: \<open>None\<close> stands for the \<open>ValidationError\<close> of \<open>model_validate\<close> (every
  command type has a model, so the \<open>model is None\<close> branch is not reached).
\<close>

definition command_to_model :: "validators \<Rightarrow> command_envelope \<Rightarrow> command_model option" where
  "command_to_model v c =
     (let d = command_payload c; u = req (v_uuid v) d; ou = opt (v_uuid v) d; os = opt (v_str v) d
      in case command_type c of
        ANALYZE_PROJECT \<Rightarrow> map_option AnalyzeProjectCommand (u ''project_id'')
      | SYNC_REPOSITORY \<Rightarrow> map_option SyncRepositoryCommand (u ''repository_id'')
      | INGEST_REPOSITORY \<Rightarrow>
          Option.bind (u ''repository_id'') (\<lambda>r.
            map_option (IngestRepositoryCommand r) (os ''revision''))
      | INGEST_DOCUMENT \<Rightarrow>
          Option.bind (u ''document_id'') (\<lambda>x.
            map_option (IngestDocumentCommand x) (ou ''project_id''))
      | EXTRACT_REQUIREMENTS \<Rightarrow>
          Option.bind (u ''project_id'') (\<lambda>p.
            map_option (ExtractRequirementsCommand p) (ou ''document_id''))
      | ANALYZE_WORK_ITEM \<Rightarrow> map_option AnalyzeWorkItemCommand (u ''work_item_id'')
      | PLAN_WORK_ITEM \<Rightarrow> map_option PlanWorkItemCommand (u ''work_item_id'')
      | BUILD_CONTEXT \<Rightarrow>
          Option.bind (u ''work_item_id'') (\<lambda>w.
            Option.bind (ou ''repository_id'') (\<lambda>r.
              Option.bind (os ''revision'') (\<lambda>s.
                map_option (BuildContextCommand w r s) (dflt (v_int v) 8000 d ''budget''))))
      | RUN_WORK_ITEM \<Rightarrow> map_option RunWorkItemCommand (u ''work_item_id'')
      | EXECUTE_WORK_ITEM \<Rightarrow>
          Option.bind (u ''work_item_id'') (\<lambda>w.
            map_option (ExecuteWorkItemCommand w) (ou ''execution_id''))
      | VERIFY_EXECUTION \<Rightarrow>
          Option.bind (u ''execution_id'') (\<lambda>e.
            map_option (VerifyExecutionCommand e) (u ''work_item_id''))
      | CREATE_PULL_REQUEST \<Rightarrow>
          Option.bind (u ''execution_id'') (\<lambda>e.
            map_option (CreatePullRequestCommand e) (u ''work_item_id''))
      | RECONCILE_PROJECT \<Rightarrow> map_option ReconcileProjectCommand (u ''project_id'')
      | BOOTSTRAP_PROJECT \<Rightarrow>
          Option.bind (u ''project_id'') (\<lambda>p.
            Option.bind (dflt (v_str v) ''openproject'' d ''provider'') (\<lambda>pr.
              map_option (BootstrapProjectCommand p pr) (req (v_str v) d ''external_project_id'')))
      | SYNC_WORK_MANAGEMENT \<Rightarrow> map_option SyncWorkManagementCommand (u ''project_id''))"

text \<open>What the code relies on: a validator gives back the value that was dumped.\<close>

definition validators_ok :: "validators \<Rightarrow> bool" where
  "validators_ok v \<longleftrightarrow>
     (\<forall>u. v_uuid v (JStr u) = Some u) \<and> (\<forall>s. v_str v (JStr s) = Some s) \<and>
     (\<forall>i. v_int v (JInt i) = Some i)"

lemma jopt_null [simp]: "(jopt JStr x = JNull) = (x = None)"
  by (cases x) (auto simp: jopt_def)

lemma field_simps_dump:
  "validators_ok v \<Longrightarrow> map_of d k = Some (JStr u) \<Longrightarrow> req (v_uuid v) d k = Some u"
  "validators_ok v \<Longrightarrow> map_of d k = Some (JStr u) \<Longrightarrow> req (v_str v) d k = Some u"
  "validators_ok v \<Longrightarrow> map_of d k = Some (jopt JStr x) \<Longrightarrow> opt (v_uuid v) d k = Some x"
  "validators_ok v \<Longrightarrow> map_of d k = Some (jopt JStr x) \<Longrightarrow> opt (v_str v) d k = Some x"
  "validators_ok v \<Longrightarrow> map_of d k = Some (JInt i) \<Longrightarrow> dflt (v_int v) a d k = Some i"
  "validators_ok v \<Longrightarrow> map_of d k = Some (JStr u) \<Longrightarrow> dflt (v_str v) b d k = Some u"
  by (auto simp: validators_ok_def req_def opt_def dflt_def jopt_def split: option.splits)

lemma command_to_model_dump:
  assumes "validators_ok v" and "command_payload c = model_dump m"
    and "command_type c = model_command_type m"
  shows "command_to_model v c = Some m"
  using assms(2,3)
  by (cases m) (auto simp: command_to_model_def Let_def field_simps_dump [OF assms(1)])

subsection \<open>The in-memory queue\<close>

text \<open>
  \<open>_pending\<close>, \<open>_inflight\<close> and \<open>_dead\<close> of \<open>InMemoryCommandQueue\<close>. The condition variable
  only makes \<open>consume\<close> wait: with no concurrent producer during the timeout, an empty
  queue gives \<open>None\<close>.
\<close>

record command_queue =
  pending :: "command_envelope list"
  inflight :: "(uuid, command_envelope) dict"
  dead :: "(command_envelope \<times> string) list"

definition empty_queue :: command_queue where
  "empty_queue = \<lparr>pending = [], inflight = [], dead = []\<rparr>"

definition enqueue :: "command_envelope \<Rightarrow> command_queue \<Rightarrow> command_queue" where
  "enqueue c q = q\<lparr>pending := pending q @ [c]\<rparr>"

definition consume :: "command_queue \<Rightarrow> command_envelope option \<times> command_queue" where
  "consume q =
     (case pending q of
        [] \<Rightarrow> (None, q)
      | c # cs \<Rightarrow> (Some c, q\<lparr>pending := cs, inflight := dict_set (command_id c) c (inflight q)\<rparr>))"

definition acknowledge :: "uuid \<Rightarrow> command_queue \<Rightarrow> command_queue" where
  "acknowledge i q = q\<lparr>inflight := dict_pop i (inflight q)\<rparr>"

text \<open>The delay before a requeue only passes time.\<close>

definition requeue :: "command_envelope \<Rightarrow> command_queue \<Rightarrow> command_queue" where
  "requeue c q = enqueue c (q\<lparr>inflight := dict_pop (command_id c) (inflight q)\<rparr>)"

definition dead_letter :: "command_envelope \<Rightarrow> string \<Rightarrow> command_queue \<Rightarrow> command_queue" where
  "dead_letter c reason q =
     q\<lparr>inflight := dict_pop (command_id c) (inflight q), dead := dead q @ [(c, reason)]\<rparr>"

definition pending_count :: "command_queue \<Rightarrow> nat" where
  "pending_count q = length (pending q)"

definition close_queue :: "command_queue \<Rightarrow> command_queue" where
  "close_queue q = q\<lparr>pending := [], inflight := []\<rparr>"

text \<open>
  The interface the worker relies on: what each operation does to the commands that wait,
  to those in flight and to the dead letters.
\<close>

locale queue_contract =
  fixes enq :: "'c \<Rightarrow> 'q \<Rightarrow> 'q"
    and deq :: "'q \<Rightarrow> 'c option \<times> 'q"
    and ack :: "'i \<Rightarrow> 'q \<Rightarrow> 'q"
    and bury :: "'c \<Rightarrow> string \<Rightarrow> 'q \<Rightarrow> 'q"
    and key :: "'c \<Rightarrow> 'i"
    and waiting :: "'q \<Rightarrow> 'c list"
    and taken :: "'q \<Rightarrow> 'i \<Rightarrow> 'c option"
    and buried :: "'q \<Rightarrow> ('c \<times> string) list"
  assumes waiting_enq: "waiting (enq c q) = waiting q @ [c]"
    and taken_enq: "taken (enq c q) = taken q"
    and buried_enq: "buried (enq c q) = buried q"
    and deq_empty: "waiting q = [] \<Longrightarrow> deq q = (None, q)"
    and deq_Cons: "waiting q = c # cs \<Longrightarrow> fst (deq q) = Some c"
    and waiting_deq: "waiting q = c # cs \<Longrightarrow> waiting (snd (deq q)) = cs"
    and taken_deq: "waiting q = c # cs \<Longrightarrow> taken (snd (deq q)) = (taken q)(key c \<mapsto> c)"
    and buried_deq: "buried (snd (deq q)) = buried q"
    and waiting_ack: "waiting (ack i q) = waiting q"
    and taken_ack: "taken (ack i q) = (taken q)(i := None)"
    and buried_ack: "buried (ack i q) = buried q"
    and waiting_bury: "waiting (bury c r q) = waiting q"
    and taken_bury: "taken (bury c r q) = (taken q)(key c := None)"
    and buried_bury: "buried (bury c r q) = buried q @ [(c, r)]"
begin

text \<open>Consuming and then settling a command leaves nothing of it in flight.\<close>

lemma taken_deq_ack:
  "waiting q = c # cs \<Longrightarrow> taken (ack (key c) (snd (deq q))) = (taken q)(key c := None)"
  by (simp add: taken_ack taken_deq)

lemma taken_deq_bury:
  "waiting q = c # cs \<Longrightarrow> taken (bury c r (snd (deq q))) = (taken q)(key c := None)"
  by (simp add: taken_bury taken_deq)

text \<open>First in, first out: after \<open>length (waiting q)\<close> removals the next is the one enqueued.\<close>

lemma fifo:
  "waiting q = cs \<Longrightarrow> fst (deq (((snd \<circ> deq) ^^ length cs) (enq c q))) = Some c"
proof -
  have drop: "waiting (((snd \<circ> deq) ^^ n) p) = drop n (waiting p)" if "n \<le> length (waiting p)" for n p
    using that
  proof (induction n arbitrary: p)
    case 0
    then show ?case by simp
  next
    case (Suc n)
    then obtain d ds where w: "waiting p = d # ds" by (cases "waiting p") auto
    have n: "n \<le> length (waiting (snd (deq p)))" using Suc.prems by (simp add: w waiting_deq [OF w])
    have "((snd \<circ> deq) ^^ Suc n) p = ((snd \<circ> deq) ^^ n) (snd (deq p))"
      by (simp only: funpow_Suc_right comp_apply)
    then show ?case
      by (simp only: Suc.IH [OF n] waiting_deq [OF w] w drop_Suc_Cons)
  qed
  assume "waiting q = cs"
  then have "waiting (((snd \<circ> deq) ^^ length cs) (enq c q)) = [c]"
    by (simp add: drop waiting_enq)
  then show ?thesis by (rule deq_Cons)
qed

end

lemmas queue_defs =
  enqueue_def consume_def acknowledge_def dead_letter_def requeue_def

interpretation cq: queue_contract enqueue consume acknowledge dead_letter command_id
    pending "\<lambda>q. dict_get (inflight q)" dead
  by unfold_locales
    (auto simp: queue_defs fun_eq_iff store_simps split: list.splits)

lemmas queue_laws [store_simps] =
  cq.waiting_enq cq.taken_enq cq.buried_enq cq.deq_empty cq.deq_Cons cq.waiting_deq
  cq.taken_deq cq.buried_deq cq.waiting_ack cq.taken_ack cq.buried_ack cq.waiting_bury
  cq.taken_bury cq.buried_bury

subsection \<open>Failures and their classification\<close>

datatype failure_category =
    TRANSIENT_PROVIDER | MODEL_FAILURE | EXECUTION_FAILURE | VERIFICATION_FAILURE
  | INVALID_INPUT | INTERNAL_FAILURE

text \<open>A recorded failure; its own identifier and time stamp are never read and left out.\<close>

record command_failure =
  failure_command_id :: uuid
  failure_command_type :: string
  attempt :: int
  category :: failure_category
  failure_message :: string
  failure_correlation_id :: "uuid option"
  retry_eligible :: bool

definition classify_failure :: "exn \<Rightarrow> failure_category \<times> bool" where
  "classify_failure e =
     (let message = lower (exn_text e) in
      if contains ''invalid'' message \<or> contains ''validation'' message
      then (INVALID_INPUT, False)
      else if contains ''verification'' message then (VERIFICATION_FAILURE, True)
      else if contains ''execution'' message then (EXECUTION_FAILURE, True)
      else (INTERNAL_FAILURE, True))"

datatype retry_kind =
    RETRY_TRANSIENT_PROVIDER | RETRY_MODEL_FAILURE | RETRY_EXECUTION_FAILURE
  | RETRY_VERIFICATION_FAILURE | RETRY_HUMAN_DECISION_REQUIRED | RETRY_INVALID_INPUT

record retry_classification =
  retry_kind :: retry_kind
  retryable :: bool
  max_attempts :: int

definition contains_any :: "string \<Rightarrow> string list \<Rightarrow> bool" where
  "contains_any message needles = list_ex (\<lambda>n. contains n message) needles"

definition classify_retry :: "exn \<Rightarrow> retry_classification" where
  "classify_retry e =
     (let message = lower (exn_text e);
          mk = (\<lambda>k r n. \<lparr>retry_kind = k, retryable = r, max_attempts = n\<rparr>) in
      if contains_any message [''invalid'', ''validation'', ''not found'', ''no executor'']
      then mk RETRY_INVALID_INPUT False 1
      else if contains_any message [''human'', ''approval'', ''clarification'']
      then mk RETRY_HUMAN_DECISION_REQUIRED False 1
      else if contains_any message [''verification'', ''verify'']
      then mk RETRY_VERIFICATION_FAILURE True 3
      else if contains_any message [''execution'', ''executor'']
      then mk RETRY_EXECUTION_FAILURE True 3
      else if contains_any message [''timeout'', ''unavailable'', ''connection'', ''transient'', ''retry'']
      then mk RETRY_TRANSIENT_PROVIDER True 5
      else if contains_any message [''model'', ''llm'', ''token'', ''context window'']
      then mk RETRY_MODEL_FAILURE True 3
      else mk RETRY_EXECUTION_FAILURE True 3)"

lemma classify_failure_eligible:
  "snd (classify_failure e) \<longleftrightarrow> fst (classify_failure e) \<noteq> INVALID_INPUT"
  by (simp add: classify_failure_def Let_def)

end
