(* ===== verification/Worker.thy ===== *)
theory Worker
  imports Commands "HOL-Library.Sublist"
begin

text \<open>
  The command dispatcher (\<open>application/command_dispatcher.py\<close>) and the worker loop
  (\<open>workers/loop.py\<close>): dispatching one command, persisting its failures, the attempts made
  at it, and the loop that settles every command it takes from the queue.

  The state holds the queue, the recorded failures, the stop flag and \<open>ext\<close>, everything else
  a handler can touch. A handler is a function on that state that returns or raises; the
  session commit of the container is a parameter that may raise.
\<close>

record 'x worker_state =
  queue :: command_queue
  failures :: "command_failure list"
  stopping :: bool
  ext :: 'x

type_synonym 'x handler = "command_envelope \<Rightarrow> 'x worker_state \<Rightarrow> ('x worker_state, unit) outcome"

type_synonym 'x dispatcher = "(command_type, 'x handler) dict"

definition register :: "command_type \<Rightarrow> 'x handler \<Rightarrow> 'x dispatcher \<Rightarrow> 'x dispatcher" where
  "register t h d = dict_set t h d"

definition unregister :: "command_type \<Rightarrow> 'x dispatcher \<Rightarrow> 'x dispatcher" where
  "unregister t d = dict_pop t d"

definition has_handler :: "command_type \<Rightarrow> 'x dispatcher \<Rightarrow> bool" where
  "has_handler t d = (dict_get d t \<noteq> None)"

definition command_handler_not_found :: "command_type \<Rightarrow> exn" where
  "command_handler_not_found t =
     Exn ''CommandHandlerNotFound'' (''no handler for command '' @ command_type_value t)"

definition dispatch :: "'x dispatcher \<Rightarrow> 'x handler" where
  "dispatch d c s =
     (case dict_get d (command_type c) of
        None \<Rightarrow> (Inl (command_handler_not_found (command_type c)), s)
      | Some h \<Rightarrow> h c s)"

text \<open>The loop of the dispatcher module: no retries, a failed command is a dead letter.\<close>

fun run_command_loop :: "'x dispatcher \<Rightarrow> nat \<Rightarrow> 'x worker_state \<Rightarrow> nat \<times> 'x worker_state" where
  "run_command_loop d 0 s = (0, s)"
| "run_command_loop d (Suc n) s =
     (case consume (queue s) of
        (None, q) \<Rightarrow> (0, s\<lparr>queue := q\<rparr>)
      | (Some c, q) \<Rightarrow>
          (let s' = (case dispatch d c (s\<lparr>queue := q\<rparr>) of
                       (Inr _, t) \<Rightarrow> t\<lparr>queue := acknowledge (command_id c) (queue t)\<rparr>
                     | (Inl e, t) \<Rightarrow> t\<lparr>queue := dead_letter c (exn_msg e) (queue t)\<rparr>);
               (k, r) = run_command_loop d n s'
           in (Suc k, r)))"

subsection \<open>One attempt\<close>

definition failure_of :: "command_envelope \<Rightarrow> int \<Rightarrow> exn \<Rightarrow> command_failure" where
  "failure_of c n e =
     \<lparr>failure_command_id = command_id c,
      failure_command_type = command_type_value (command_type c),
      attempt = n, category = fst (classify_failure e), failure_message = exn_text e,
      failure_correlation_id = Some (command_correlation_id c),
      retry_eligible = snd (classify_failure e)\<rparr>"

definition process_command :: "'x dispatcher \<Rightarrow> command_envelope \<Rightarrow> int \<Rightarrow> 'x worker_state
    \<Rightarrow> ('x worker_state, bool) outcome" where
  "process_command d c n s =
     (case dispatch d c s of
        (Inr _, t) \<Rightarrow> (Inr True, t)
      | (Inl e, t) \<Rightarrow> (Inl e, t\<lparr>failures := failures t @ [failure_of c n e]\<rparr>))"

subsection \<open>The attempts at one command\<close>

text \<open>
  The inner loop: at most \<open>maxa\<close> attempts, the last failure buries the command. The result
  says whether an attempt succeeded.
\<close>

function attempt_loop :: "'x dispatcher \<Rightarrow> int \<Rightarrow> command_envelope \<Rightarrow> int \<Rightarrow> 'x worker_state
    \<Rightarrow> bool \<times> 'x worker_state" where
  "attempt_loop d maxa c n s =
     (if n \<le> maxa then
        (case process_command d c n s of
           (Inr _, t) \<Rightarrow> (True, t)
         | (Inl e, t) \<Rightarrow>
             if n \<ge> maxa
             then (False, t\<lparr>queue := dead_letter c (''failed after '' @ str_int n @ '' attempts'') (queue t)\<rparr>)
             else attempt_loop d maxa c (n + 1) t)
      else (False, s))"
  by pat_completeness auto
termination
  by (relation "measure (\<lambda>(d, maxa, c, n, s). nat (maxa + 1 - n))") auto

declare attempt_loop.simps [simp del]

subsection \<open>The worker loop\<close>

text \<open>
  \<open>_commit_if_needed\<close>: without a session nothing happens; with one, a commit that raises is
  rolled back and the exception propagates.
\<close>

record 'x session =
  commit :: "'x \<Rightarrow> exn option \<times> 'x"
  rollback :: "'x \<Rightarrow> 'x"

definition commit_if_needed :: "'x session option \<Rightarrow> 'x worker_state \<Rightarrow> ('x worker_state, unit) outcome" where
  "commit_if_needed sess s =
     (case sess of
        None \<Rightarrow> (Inr (), s)
      | Some k \<Rightarrow>
          (case commit k (ext s) of
             (None, x) \<Rightarrow> (Inr (), s\<lparr>ext := x\<rparr>)
           | (Some e, x) \<Rightarrow> (Inl e, s\<lparr>ext := rollback k x\<rparr>)))"

text \<open>What the loop body does with the command it took.\<close>

definition settle :: "'x dispatcher \<Rightarrow> int \<Rightarrow> 'x session option \<Rightarrow> command_envelope
    \<Rightarrow> 'x worker_state \<Rightarrow> ('x worker_state, unit) outcome" where
  "settle d maxa sess c s =
     (case attempt_loop d maxa c 1 s of
        (False, t) \<Rightarrow> (Inr (), t)
      | (True, t) \<Rightarrow>
          (case commit_if_needed sess t of
             (Inl e, u) \<Rightarrow> (Inl e, u)
           | (Inr _, u) \<Rightarrow> (Inr (), u\<lparr>queue := acknowledge (command_id c) (queue u)\<rparr>)))"

text \<open>
  \<open>WorkerLoop.run\<close>. Without \<open>max_commands\<close> the loop ends only when it is stopped, so the
  iterations are bounded by \<open>fuel\<close>: \<open>None\<close> means that the loop is still running after
  \<open>fuel\<close> iterations.
\<close>

fun worker_run :: "nat \<Rightarrow> 'x dispatcher \<Rightarrow> int \<Rightarrow> 'x session option \<Rightarrow> int option \<Rightarrow> int
    \<Rightarrow> 'x worker_state \<Rightarrow> ('x worker_state, int) outcome option" where
  "worker_run 0 d maxa sess lim processed s = None"
| "worker_run (Suc fuel) d maxa sess lim processed s =
     (if \<not> stopping s \<and> (case lim of None \<Rightarrow> True | Some m \<Rightarrow> processed < m) then
        (case consume (queue s) of
           (None, q) \<Rightarrow>
             (if lim \<noteq> None then Some (Inr processed, s\<lparr>queue := q\<rparr>)
              else worker_run fuel d maxa sess lim processed (s\<lparr>queue := q\<rparr>))
         | (Some c, q) \<Rightarrow>
             (case settle d maxa sess c (s\<lparr>queue := q\<rparr>) of
                (Inl e, t) \<Rightarrow> Some (Inl e, t)
              | (Inr _, t) \<Rightarrow> worker_run fuel d maxa sess lim (processed + 1) t))
      else Some (Inr processed, s))"

subsection \<open>What handlers may do\<close>

text \<open>
  A handler may enqueue commands and change \<open>ext\<close> and the stop flag; consuming,
  acknowledging and burying is the worker's business, and so is recording failures.
\<close>

definition well_behaved :: "'x dispatcher \<Rightarrow> bool" where
  "well_behaved d \<longleftrightarrow>
     (\<forall>t h c s. dict_get d t = Some h \<longrightarrow>
        inflight (queue (snd (h c s))) = inflight (queue s) \<and>
        dead (queue (snd (h c s))) = dead (queue s) \<and>
        failures (snd (h c s)) = failures s \<and>
        (\<exists>new. pending (queue (snd (h c s))) = pending (queue s) @ new))"

lemma dispatch_frame:
  assumes "well_behaved d"
  shows "inflight (queue (snd (dispatch d c s))) = inflight (queue s)"
    and "dead (queue (snd (dispatch d c s))) = dead (queue s)"
    and "failures (snd (dispatch d c s)) = failures s"
    and "\<exists>new. pending (queue (snd (dispatch d c s))) = pending (queue s) @ new"
  using assms unfolding dispatch_def well_behaved_def by (auto split: option.splits)

lemma process_command_cases [consumes 1, case_names returned raised]:
  assumes "well_behaved d"
  obtains (returned) t new where "process_command d c n s = (Inr True, t)"
      "inflight (queue t) = inflight (queue s)" "dead (queue t) = dead (queue s)"
      "failures t = failures s" "pending (queue t) = pending (queue s) @ new"
  | (raised) e t new where "process_command d c n s = (Inl e, t)"
      "inflight (queue t) = inflight (queue s)" "dead (queue t) = dead (queue s)"
      "failures t = failures s @ [failure_of c n e]" "pending (queue t) = pending (queue s) @ new"
proof -
  obtain r u where ru: "dispatch d c s = (r, u)" by (cases "dispatch d c s")
  obtain new where new: "pending (queue u) = pending (queue s) @ new"
    using dispatch_frame(4) [OF assms, of c s] ru by auto
  note frame = dispatch_frame(1-3) [OF assms, of c s, unfolded ru, simplified]
  show thesis
  proof (cases r)
    case (Inl e)
    with ru frame new show thesis
      by (intro raised [of e "u\<lparr>failures := failures u @ [failure_of c n e]\<rparr>" new])
        (simp_all add: process_command_def)
  next
    case (Inr v)
    with ru frame new show thesis
      by (intro returned [of u new]) (simp_all add: process_command_def)
  qed
qed

subsection \<open>The attempts at a command\<close>

text \<open>
  What the loop of attempts did: the failures it appended are those of this command,
  numbered from \<open>n\<close>; there are \<open>maxa - n + 1\<close> of them exactly when it failed for good, and
  then the command is a dead letter and no longer in flight.
\<close>

definition attempts_done :: "int \<Rightarrow> command_envelope \<Rightarrow> int \<Rightarrow> 'x worker_state \<Rightarrow> bool
    \<Rightarrow> 'x worker_state \<Rightarrow> command_failure list \<Rightarrow> command_envelope list \<Rightarrow> bool" where
  "attempts_done maxa c n s b t fs new \<longleftrightarrow>
     failures t = failures s @ fs \<and> pending (queue t) = pending (queue s) @ new \<and>
     (\<forall>f \<in> set fs. failure_command_id f = command_id c) \<and>
     map attempt fs = map (\<lambda>i. n + int i) [0..<length fs] \<and>
     (if b then int (length fs) \<le> maxa - n \<and> inflight (queue t) = inflight (queue s) \<and>
             dead (queue t) = dead (queue s)
      else int (length fs) = maxa - n + 1 \<and>
           inflight (queue t) = dict_pop (command_id c) (inflight (queue s)) \<and>
           dead (queue t) = dead (queue s) @ [(c, ''failed after '' @ str_int maxa @ '' attempts'')])"

lemma attempts_done_Cons:
  assumes later: "attempts_done maxa c (n + 1) u b t fs new"
    and u: "inflight (queue u) = inflight (queue s)" "dead (queue u) = dead (queue s)"
      "failures u = failures s @ [failure_of c n e]" "pending (queue u) = pending (queue s) @ new'"
  shows "attempts_done maxa c n s b t (failure_of c n e # fs) (new' @ new)"
proof -
  have "map (\<lambda>i. n + int i) [0..<Suc (length fs)] = n # map (\<lambda>i. n + 1 + int i) [0..<length fs]"
    by (simp add: upt_conv_Cons map_Suc_upt [symmetric] o_def add.assoc del: upt_Suc)
  with assms show ?thesis
    by (auto simp: attempts_done_def failure_of_def split: if_splits)
qed

lemma attempt_loop_done:
  "well_behaved d \<Longrightarrow> n \<le> maxa \<Longrightarrow> attempt_loop d maxa c n s = (b, t) \<Longrightarrow>
    \<exists>fs new. attempts_done maxa c n s b t fs new"
proof (induction d maxa c n s rule: attempt_loop.induct)
  case (1 d maxa c n s)
  note eq = "1.prems"(3) [unfolded attempt_loop.simps [of d maxa c n s]]
  from "1.prems"(1) show ?case
  proof (cases rule: process_command_cases [where c = c and n = n and s = s])
    case (returned u new)
    with eq "1.prems"(2) have "b" "t = u" by auto
    with returned "1.prems"(2) have "attempts_done maxa c n s b t [] new"
      by (simp add: attempts_done_def)
    then show ?thesis by blast
  next
    case (raised e u new)
    show ?thesis
    proof (cases "n \<ge> maxa")
      case True
      with raised eq "1.prems"(2) have
        "\<not> b" "t = u\<lparr>queue := dead_letter c (''failed after '' @ str_int maxa @ '' attempts'') (queue u)\<rparr>"
        "n = maxa" by auto
      with raised have "attempts_done maxa c n s b t [failure_of c n e] new"
        by (simp add: attempts_done_def dead_letter_def failure_of_def)
      then show ?thesis by blast
    next
      case False
      with raised eq "1.prems"(2) have "attempt_loop d maxa c (n + 1) u = (b, t)" "n + 1 \<le> maxa"
        by auto
      with "1.IH" [OF "1.prems"(2) raised(1)[symmetric]] False "1.prems"(1) obtain fs new'
        where "attempts_done maxa c (n + 1) u b t fs new'" by auto
      from attempts_done_Cons [OF this raised(2-5)] show ?thesis by blast
    qed
  qed
qed

subsection \<open>Settling one command\<close>

text \<open>
  The outcome of one iteration for the command \<open>c\<close>: it left the flight in any case but a
  failing commit, and it is buried exactly when all its attempts failed.
\<close>

definition settled :: "int \<Rightarrow> command_envelope \<Rightarrow> 'x worker_state \<Rightarrow> 'x worker_state
    \<Rightarrow> command_failure list \<Rightarrow> command_envelope list \<Rightarrow> bool" where
  "settled maxa c s t fs new \<longleftrightarrow>
     failures t = failures s @ fs \<and> pending (queue t) = pending (queue s) @ new \<and>
     inflight (queue t) = dict_pop (command_id c) (inflight (queue s)) \<and>
     map attempt fs = map (\<lambda>i. 1 + int i) [0..<length fs] \<and>
     (if int (length fs) = maxa
      then dead (queue t) = dead (queue s) @ [(c, ''failed after '' @ str_int maxa @ '' attempts'')]
      else int (length fs) < maxa \<and> dead (queue t) = dead (queue s))"

lemma commit_if_needed_frame:
  "commit_if_needed sess s = (r, t) \<Longrightarrow>
     queue t = queue s \<and> failures t = failures s \<and> stopping t = stopping s"
  by (auto simp: commit_if_needed_def split: option.splits prod.splits)

lemma settle_settled:
  assumes "well_behaved d" and "1 \<le> maxa" and "settle d maxa sess c s = (Inr (), t)"
  shows "\<exists>fs new. settled maxa c s t fs new"
proof -
  obtain b u where loop: "attempt_loop d maxa c 1 s = (b, u)" by (cases "attempt_loop d maxa c 1 s")
  from attempt_loop_done [OF assms(1,2) loop] obtain fs new
    where fs: "attempts_done maxa c 1 s b u fs new" by blast
  show ?thesis
  proof (cases b)
    case True
    then obtain v where "commit_if_needed sess u = (Inr (), v)"
      and t: "t = v\<lparr>queue := acknowledge (command_id c) (queue v)\<rparr>"
      using assms(3) loop by (auto simp: settle_def split: prod.splits sum.splits)
    with commit_if_needed_frame have "queue v = queue u" "failures v = failures u" by blast+
    with fs True t have "settled maxa c s t fs new"
      by (auto simp: settled_def attempts_done_def acknowledge_def)
    then show ?thesis by blast
  next
    case False
    with assms(3) loop have "t = u" by (simp add: settle_def)
    with fs False have "settled maxa c s t fs new"
      by (auto simp: settled_def attempts_done_def)
    then show ?thesis by blast
  qed
qed

subsection \<open>The loop\<close>

text \<open>
  What a run of the loop did, from \<open>s\<close> to \<open>t\<close>: it took the commands \<open>cs\<close> from the front of
  the queue in order, buried some of them, and handlers appended \<open>new\<close>.
\<close>

definition run_effect :: "'x worker_state \<Rightarrow> 'x worker_state \<Rightarrow> command_envelope list \<Rightarrow> bool" where
  "run_effect s t cs \<longleftrightarrow>
     (\<exists>new ds. pending (queue s) @ new = cs @ pending (queue t) \<and>
        dead (queue t) = dead (queue s) @ ds \<and> subseq (map fst ds) cs \<and>
        inflight (queue t) = foldl (\<lambda>m c. dict_pop (command_id c) m) (inflight (queue s)) cs)"

lemma run_effect_refl: "run_effect s s []"
  by (simp add: run_effect_def)

lemma foldl_pop_commute:
  "dict_pop k (foldl (\<lambda>m c. dict_pop (command_id c) m) m cs) =
   foldl (\<lambda>m c. dict_pop (command_id c) m) (dict_pop k m) cs"
  by (induction cs arbitrary: m) (simp_all add: delete_twist)

lemma dict_pop_set: "dict_pop k (dict_set k v m) = dict_pop k m"
  by (induction m) (auto simp: AList.delete_eq)

lemma run_effect_step:
  assumes q: "pending (queue s) = c # rest"
    and q': "consume (queue s) = (Some c, q')"
    and st: "settled maxa c (s\<lparr>queue := q'\<rparr>) t fs new"
    and eff: "run_effect t u cs"
  shows "run_effect s u (c # cs)"
proof -
  from eff obtain new' ds where eff: "pending (queue t) @ new' = cs @ pending (queue u)"
      "dead (queue u) = dead (queue t) @ ds" "subseq (map fst ds) cs"
      "inflight (queue u) = foldl (\<lambda>m c. dict_pop (command_id c) m) (inflight (queue t)) cs"
    unfolding run_effect_def by blast
  have deq: "pending q' = rest" "dead q' = dead (queue s)"
    "inflight q' = dict_set (command_id c) c (inflight (queue s))"
    using q q' by (auto simp: consume_def)
  from st have t: "pending (queue t) = rest @ new"
      "inflight (queue t) = dict_pop (command_id c) (inflight (queue s))"
    by (simp_all add: settled_def deq dict_pop_set)
  from st obtain ds0 where ds0: "dead (queue t) = dead (queue s) @ ds0" "subseq (map fst ds0) [c]"
    by (auto simp: settled_def deq split: if_splits)
  have "subseq (map fst (ds0 @ ds)) (c # cs)"
    using ds0(2) eff(3) by (metis append_Cons append_Nil list_emb_append_mono map_append)
  with t q eff ds0(1) show ?thesis
    unfolding run_effect_def by (intro exI [of _ "new @ new'"] exI [of _ "ds0 @ ds"]) auto
qed

lemma worker_run_effect:
  assumes "well_behaved d" and "1 \<le> maxa"
  shows "worker_run fuel d maxa sess lim p s = Some (Inr n, t) \<Longrightarrow>
    \<exists>cs. run_effect s t cs \<and> n = p + int (length cs)"
proof (induction fuel arbitrary: p s)
  case 0
  then show ?case by simp
next
  case (Suc fuel)
  let ?go = "\<not> stopping s \<and> (case lim of None \<Rightarrow> True | Some m \<Rightarrow> p < m)"
  show ?case
  proof (cases "pending (queue s)")
    case Nil
    then have "consume (queue s) = (None, queue s)" by (simp add: consume_def)
    with Suc show ?thesis
      by (auto intro!: exI [of _ "[]"] simp: run_effect_refl split: if_splits)
  next
    case (Cons c rest)
    then obtain q where deq: "consume (queue s) = (Some c, q)"
      by (simp add: consume_def)
    show ?thesis
    proof (cases ?go)
      case True
      obtain r u where ru: "settle d maxa sess c (s\<lparr>queue := q\<rparr>) = (r, u)"
        by (cases "settle d maxa sess c (s\<lparr>queue := q\<rparr>)")
      have step: "r = Inr ()" "worker_run fuel d maxa sess lim (p + 1) u = Some (Inr n, t)"
        using Suc.prems True by (cases r; simp add: deq ru)+
      from settle_settled [OF assms ru [unfolded step(1)]] obtain fs new
        where st: "settled maxa c (s\<lparr>queue := q\<rparr>) u fs new" by blast
      from Suc.IH [OF step(2)] obtain cs
        where cs: "run_effect u t cs" "n = p + 1 + int (length cs)" by blast
      from run_effect_step [OF Cons deq st cs(1)] cs(2) show ?thesis
        by (intro exI [of _ "c # cs"]) simp
    next
      case False
      with Suc.prems have "t = s" "n = p" by auto
      then show ?thesis by (intro exI [of _ "[]"]) (simp add: run_effect_refl)
    qed
  qed
qed

lemma foldl_pop_Nil [simp]: "foldl (\<lambda>m c. dict_pop (command_id c) m) [] cs = []"
  by (induction cs) simp_all

lemma worker_run_within:
  "nat (m - p) < fuel \<Longrightarrow> worker_run fuel d maxa sess (Some m) p s \<noteq> None"
proof (induction fuel arbitrary: p s)
  case 0
  then show ?case by simp
next
  case (Suc fuel)
  show ?case
  proof (cases "p < m")
    case True
    with Suc.prems have "nat (m - (p + 1)) < fuel" by auto
    with Suc.IH show ?thesis by (auto split: option.splits prod.splits sum.splits)
  next
    case False
    then show ?thesis by simp
  qed
qed

lemma attempt_loop_always_failing:
  assumes "\<And>u. dispatch d c u = (Inl e, u)"
  shows "n \<le> maxa \<Longrightarrow> attempt_loop d maxa c n s =
    (False, s\<lparr>failures := failures s @ map (\<lambda>i. failure_of c (n + int i) e) [0..<nat (maxa + 1 - n)],
        queue := dead_letter c (''failed after '' @ str_int maxa @ '' attempts'') (queue s)\<rparr>)"
proof (induction "nat (maxa - n)" arbitrary: n s)
  case 0
  then have "n = maxa" by simp
  then show ?case
    by (simp add: attempt_loop.simps [of d maxa c maxa s] process_command_def assms)
next
  case (Suc k)
  then have n: "n + 1 \<le> maxa" "k = nat (maxa - (n + 1))" by auto
  let ?u = "s\<lparr>failures := failures s @ [failure_of c n e]\<rparr>"
  have len: "nat (maxa + 1 - n) = Suc (nat (maxa + 1 - (n + 1)))" using n by simp
  have "attempt_loop d maxa c n s = attempt_loop d maxa c (n + 1) ?u"
    using n by (subst attempt_loop.simps) (simp add: process_command_def assms)
  also note Suc.hyps(1) [OF n(2) n(1), of ?u]
  finally show ?case
    unfolding len
    by (simp add: upt_conv_Cons map_Suc_upt [symmetric] o_def add.assoc del: upt_Suc)
qed

subsection \<open>Properties of the worker\<close>

text \<open>Concrete commands and handlers for the witnesses.\<close>

definition demo_command :: "uuid \<Rightarrow> command_envelope" where
  "demo_command i = make_command i ''k'' 0 RUN_WORK_ITEM (RunWorkItemCommand ''w'') TRIGGER_USER None None"

definition demo_state :: "unit worker_state" where
  "demo_state = \<lparr>queue = enqueue (demo_command ''b'') (enqueue (demo_command ''a'') empty_queue),
     failures = [], stopping = False, ext = ()\<rparr>"

definition demo_failing :: "unit dispatcher" where
  "demo_failing = [(RUN_WORK_ITEM, \<lambda>c s. (Inl (Exn ''ValueError'' ''Invalid id''), s))]"

definition demo_picky :: "unit dispatcher" where
  "demo_picky = [(RUN_WORK_ITEM, \<lambda>c s.
     (if command_id c = ''a'' then Inl (Exn ''ValueError'' ''no'') else Inr (), s))]"

lemmas demo_defs = demo_command_def demo_state_def demo_failing_def demo_picky_def
  make_command_def enqueue_def empty_queue_def

lemma demo_well_behaved: "well_behaved demo_failing" "well_behaved demo_picky"
  by (auto simp: well_behaved_def demo_failing_def demo_picky_def)

text \<open>
  The worker settles what it takes. When a run of the loop returns the count \<open>n\<close>, it took
  exactly the first \<open>n\<close> commands of the queue (commands that handlers enqueued meanwhile wait
  behind the others), every one of them was acknowledged or became a dead letter, dead letters
  appear in the order the commands were taken, and nothing is left in flight.
\<close>

theorem worker_settles_everything:
  assumes "well_behaved d" and "1 \<le> maxa" and "inflight (queue s) = []"
    and "worker_run fuel d maxa sess lim 0 s = Some (Inr n, t)"
  shows "inflight (queue t) = [] \<and>
    (\<exists>cs new ds. n = int (length cs) \<and> pending (queue s) @ new = cs @ pending (queue t) \<and>
       dead (queue t) = dead (queue s) @ ds \<and> subseq (map fst ds) cs)"
proof -
  from worker_run_effect [OF assms(1,2,4)] obtain cs
    where "run_effect s t cs" "n = int (length cs)" by auto
  then show ?thesis
    unfolding run_effect_def using assms(3) by (simp, blast)
qed

theorem worker_settles_everything_witness:
  "\<exists>t. worker_run 3 demo_picky 2 None (Some 2) 0 demo_state = Some (Inr 2, t) \<and>
     inflight (queue t) = [] \<and> map (command_id \<circ> fst) (dead (queue t)) = [''a'']"
proof -
  let ?r = "worker_run 3 demo_picky 2 None (Some 2) 0 demo_state"
  obtain t where t: "?r = Some (Inr 2, t)" "map (command_id \<circ> fst) (dead (queue t)) = [''a'']"
    by (simp add: demo_defs numeral_eq_Suc settle_def consume_def attempt_loop.simps dead_letter_def
        process_command_def dispatch_def commit_if_needed_def acknowledge_def)
  have "inflight (queue demo_state) = []" by (simp add: demo_defs)
  from worker_settles_everything [OF demo_well_behaved(2) _ this t(1)] t show ?thesis by auto
qed

text \<open>
  A bounded run returns: with \<open>max_commands = m\<close> the loop ends, or propagates the failure
  of a commit, after at most \<open>m + 1\<close> iterations, whatever the handlers do.
\<close>

theorem worker_run_returns:
  "worker_run (Suc (nat m)) d maxa sess (Some m) 0 s \<noteq> None"
  by (rule worker_run_within) simp

text \<open>
  A command is attempted at most \<open>max_attempts\<close> times. The failures recorded while it is
  settled are numbered from 1 without gaps; it becomes a dead letter exactly when there are
  \<open>max_attempts\<close> of them, and otherwise the failures stay below the bound.
\<close>

theorem settle_attempts:
  assumes "well_behaved d" and "1 \<le> maxa" and "settle d maxa sess c s = (Inr (), t)"
  shows "\<exists>fs. failures t = failures s @ fs \<and>
    map attempt fs = map (\<lambda>i. 1 + int i) [0..<length fs] \<and> int (length fs) \<le> maxa \<and>
    dict_get (inflight (queue t)) (command_id c) = None \<and>
    (if int (length fs) = maxa
     then dead (queue t) = dead (queue s) @ [(c, ''failed after '' @ str_int maxa @ '' attempts'')]
     else dead (queue t) = dead (queue s))"
proof -
  from settle_settled [OF assms] obtain fs new where "settled maxa c s t fs new" by blast
  then show ?thesis
    by (intro exI [of _ fs]) (auto simp: settled_def store_simps)
qed

theorem settle_attempts_witness:
  "\<exists>t fs. settle demo_failing 2 None (demo_command ''a'') demo_state = (Inr (), t) \<and>
     failures t = fs \<and> length fs = 2 \<and> length (dead (queue t)) = 1"
proof -
  let ?r = "settle demo_failing 2 None (demo_command ''a'') demo_state"
  obtain t where t: "?r = (Inr (), t)" "length (failures t) = 2" "failures demo_state = []"
    "dead (queue demo_state) = []"
    by (simp add: demo_defs settle_def attempt_loop.simps process_command_def dispatch_def)
  from settle_attempts [OF demo_well_behaved(1) _ t(1)] t(2-4) t(1) show ?thesis by auto
qed

text \<open>
  An input the classification calls not eligible for a retry is retried all the same: for
  a handler that always raises an \<open>invalid\<close> message without other effect, settling the command
  records \<open>max_attempts\<close> failures, each of category invalid input and not retry eligible, and
  only then makes it a dead letter.
\<close>

theorem invalid_input_is_retried:
  assumes "\<And>u. dispatch d c u = (Inl e, u)" and "contains ''invalid'' (lower (exn_text e))"
    and "1 \<le> maxa"
  shows "\<exists>t fs. settle d maxa sess c s = (Inr (), t) \<and> failures t = failures s @ fs \<and>
    int (length fs) = maxa \<and>
    (\<forall>f \<in> set fs. category f = INVALID_INPUT \<and> \<not> retry_eligible f) \<and>
    dead (queue t) = dead (queue s) @ [(c, ''failed after '' @ str_int maxa @ '' attempts'')]"
proof -
  have "classify_failure e = (INVALID_INPUT, False)"
    using assms(2) by (simp add: classify_failure_def Let_def)
  then show ?thesis
    using assms(3) attempt_loop_always_failing [OF assms(1,3), of s]
    by (auto simp: settle_def failure_of_def dead_letter_def)
qed

theorem invalid_input_is_retried_witness:
  "\<exists>t. settle demo_failing 3 None (demo_command ''a'') demo_state = (Inr (), t) \<and>
     length (failures t) = 3"
proof -
  let ?e = "Exn ''ValueError'' ''Invalid id''"
  have d: "\<And>u. dispatch demo_failing (demo_command ''a'') u = (Inl ?e, u)"
    by (simp add: dispatch_def demo_defs)
  have e: "contains ''invalid'' (lower (exn_text ?e))"
    by code_simp
  from invalid_input_is_retried [OF d e, of 3 None demo_state] show ?thesis
    by (auto simp: demo_defs)
qed

text \<open>
  When the commit after a successful command raises, the exception leaves the loop, and the
  command is neither acknowledged nor a dead letter: it stays in flight.
\<close>

theorem commit_failure_strands_command:
  assumes "well_behaved d" and "1 \<le> maxa"
    and "attempt_loop d maxa c 1 s = (True, u)" and "commit k (ext u) = (Some e, x)"
  shows "\<exists>t. settle d maxa (Some k) c s = (Inl e, t) \<and> ext t = rollback k x \<and>
    inflight (queue t) = inflight (queue s) \<and> dead (queue t) = dead (queue s)"
proof -
  from attempt_loop_done [OF assms(1,2,3)] obtain fs new
    where "attempts_done maxa c 1 s True u fs new" by blast
  then show ?thesis
    using assms(3,4) by (simp add: settle_def commit_if_needed_def attempts_done_def)
qed

theorem commit_failure_strands_command_witness:
  "\<exists>t. settle demo_picky 3 (Some \<lparr>commit = \<lambda>x. (Some (Exn ''DBError'' ''gone''), x), rollback = id\<rparr>)
       (demo_command ''b'') demo_state = (Inl (Exn ''DBError'' ''gone''), t) \<and> dead (queue t) = []"
proof -
  let ?k = "\<lparr>commit = \<lambda>x. (Some (Exn ''DBError'' ''gone''), x), rollback = id\<rparr> :: unit session"
  have l: "attempt_loop demo_picky 3 (demo_command ''b'') 1 demo_state = (True, demo_state)"
    by (subst attempt_loop.simps) (simp add: process_command_def dispatch_def demo_defs)
  have "commit ?k (ext demo_state) = (Some (Exn ''DBError'' ''gone''), ())" by simp
  from commit_failure_strands_command [OF demo_well_behaved(2) _ l this] show ?thesis
    by (auto simp: demo_defs)
qed

text \<open>
  A command built from a typed model and dispatched under the model's own type is read
  back as the same model, for every command type, provided that validation accepts what was
  dumped.
\<close>

theorem command_roundtrip:
  assumes "validators_ok v"
  shows "command_to_model v (make_command cid corr now (model_command_type m) m trig by given) = Some m"
  by (rule command_to_model_dump [OF assms]) (simp_all add: make_command_def)

theorem command_roundtrip_witness:
  "command_to_model
     \<lparr>v_uuid = \<lambda>j. (case j of JStr s \<Rightarrow> Some s | _ \<Rightarrow> None),
      v_str = \<lambda>j. (case j of JStr s \<Rightarrow> Some s | _ \<Rightarrow> None),
      v_int = \<lambda>j. (case j of JInt i \<Rightarrow> Some i | _ \<Rightarrow> None)\<rparr>
     (make_command ''i'' ''k'' 0 BUILD_CONTEXT (BuildContextCommand ''w'' None (Some ''r'') 100)
        TRIGGER_USER None None) = Some (BuildContextCommand ''w'' None (Some ''r'') 100)"
  using command_roundtrip [of "\<lparr>v_uuid = \<lambda>j. (case j of JStr s \<Rightarrow> Some s | _ \<Rightarrow> None),
      v_str = \<lambda>j. (case j of JStr s \<Rightarrow> Some s | _ \<Rightarrow> None),
      v_int = \<lambda>j. (case j of JInt i \<Rightarrow> Some i | _ \<Rightarrow> None)\<rparr>"
      "''i''" "''k''" 0 "BuildContextCommand ''w'' None (Some ''r'') 100" TRIGGER_USER None None]
  by (simp add: validators_ok_def)

text \<open>
  The two classifications of an exception agree on what must not be retried: what the
  worker records as not retry eligible, the orchestrator also refuses to retry, as invalid
  input with a single attempt.
\<close>

theorem classifications_agree:
  "\<not> snd (classify_failure e) \<longrightarrow>
     classify_retry e = \<lparr>retry_kind = RETRY_INVALID_INPUT, retryable = False, max_attempts = 1\<rparr>"
  by (auto simp: classify_failure_def classify_retry_def contains_any_def Let_def split: if_splits)

theorem classifications_agree_witness:
  "classify_retry (Exn ''ValueError'' ''Validation error'') =
     \<lparr>retry_kind = RETRY_INVALID_INPUT, retryable = False, max_attempts = 1\<rparr>"
proof -
  have "\<not> snd (classify_failure (Exn ''ValueError'' ''Validation error''))" by code_simp
  with classifications_agree [of "Exn ''ValueError'' ''Validation error''"] show ?thesis by blast
qed

subsection \<open>What a run keeps\<close>

text \<open>
  A condition on the stop flag and on the world of the handlers that every handler keeps, in a run
  without a session.
\<close>

definition handlers_keep :: "(bool \<Rightarrow> 'x \<Rightarrow> bool) \<Rightarrow> 'x dispatcher \<Rightarrow> bool" where
  "handlers_keep Q d \<longleftrightarrow> (\<forall>t h c s. dict_get d t = Some h \<longrightarrow> Q (stopping s) (ext s) \<longrightarrow>
     Q (stopping (snd (h c s))) (ext (snd (h c s))))"

lemma process_command_ext:
  assumes "handlers_keep Q d" and "Q (stopping s) (ext s)"
  shows "Q (stopping (snd (process_command d c n s))) (ext (snd (process_command d c n s)))"
proof -
  have "Q (stopping (snd (dispatch d c s))) (ext (snd (dispatch d c s)))"
    using assms unfolding handlers_keep_def dispatch_def by (auto split: option.split)
  then show ?thesis by (cases "dispatch d c s"; cases "fst (dispatch d c s)") (simp_all add: process_command_def)
qed

lemma attempt_loop_ext:
  assumes "handlers_keep Q d"
  shows "Q (stopping s) (ext s) \<Longrightarrow>
    Q (stopping (snd (attempt_loop d maxa c n s))) (ext (snd (attempt_loop d maxa c n s)))"
proof (induction "nat (maxa + 1 - n)" arbitrary: n s)
  case (0 n s)
  then show ?case by (simp add: attempt_loop.simps [of d maxa c n s])
next
  case (Suc k n s)
  obtain r t where one: "process_command d c n s = (r, t)" by (cases "process_command d c n s")
  with process_command_ext [OF assms Suc.prems, of c n] have t: "Q (stopping t) (ext t)" by simp
  have "k = nat (maxa + 1 - (n + 1))" using Suc.hyps(2) by simp
  from Suc.hyps(1) [OF this t] t show ?case
    using Suc.prems by (cases r) (simp_all add: attempt_loop.simps [of d maxa c n s] one)
qed

lemma settle_ext:
  assumes "handlers_keep Q d" and "Q (stopping s) (ext s)"
  shows "\<exists>t. settle d maxa None c s = (Inr (), t) \<and> Q (stopping t) (ext t)"
  using attempt_loop_ext [OF assms, of maxa c 1]
  by (cases "attempt_loop d maxa c 1 s") (auto simp: settle_def commit_if_needed_def split: bool.split)

lemma worker_run_ext:
  assumes "handlers_keep Q d"
  shows "\<lbrakk>Q (stopping s) (ext s); worker_run fuel d maxa None lim p s = Some m\<rbrakk> \<Longrightarrow> \<exists>n t. m = (Inr n, t) \<and> Q (stopping t) (ext t)"
proof (induction fuel arbitrary: p s)
  case (Suc fuel)
  show ?case
  proof (cases "consume (queue s)")
    case (Pair oc q)
    show ?thesis
    proof (cases oc)
      case None
      have "Q (stopping (s\<lparr>queue := q\<rparr>)) (ext (s\<lparr>queue := q\<rparr>))" using Suc.prems(1) by simp
      from Suc.prems Suc.IH [OF this] show ?thesis by (auto simp: Pair None split: if_splits)
    next
      case (Some c)
      obtain t where t: "settle d maxa None c (s\<lparr>queue := q\<rparr>) = (Inr (), t)" "Q (stopping t) (ext t)"
        using settle_ext [OF assms, of "s\<lparr>queue := q\<rparr>" maxa c] Suc.prems(1) by auto
      from Suc.prems Suc.IH [OF t(2)] show ?thesis by (auto simp: Pair Some t(1) split: if_splits)
    qed
  qed
qed simp

lemma worker_run_end:
  "worker_run fuel d maxa sess (Some m) p s = Some (Inr n, t) \<Longrightarrow> stopping t \<or> m \<le> n \<or> pending (queue t) = []"
proof (induction fuel arbitrary: p s)
  case (Suc fuel)
  then show ?case
    by (auto simp: consume_def split: if_splits prod.splits option.splits list.splits sum.splits)
qed simp

end
