(* ===== verification/Domain.thy ===== *)
theory Domain
  imports Json
begin

text \<open>
  The canonical entities of the domain package: one record per pydantic model, with the
  field order of the source and a prefix per record (field names are global in HOL), and
  one datatype per enumeration. Identifiers and timestamps a model draws by default are
  supplied by the operation that builds it.
\<close>

subsection \<open>External references, priorities and projects\<close>

record external_reference =
  ref_provider :: string
  ref_external_id :: string
  ref_external_type :: "string option"
  ref_url :: "string option"
  ref_namespace :: "string option"

datatype priority = Low | Medium | High | Urgent | Critical

datatype project_status = Planned | Active | Paused | Archived

record project =
  pj_id :: uuid
  pj_name :: string
  pj_description :: "string option"
  pj_status :: project_status
  pj_parent_id :: "uuid option"
  pj_repositories :: "uuid list"
  pj_external_refs :: "external_reference list"

record repository =
  rp_id :: uuid
  rp_project_id :: uuid
  rp_name :: string
  rp_clone_url :: string
  rp_default_branch :: string
  rp_current_revision :: "string option"
  rp_external_refs :: "external_reference list"

datatype actor_type = Human_Actor | Agent_Actor | Automation_Actor | System_Actor | Ci_Actor

record actor =
  ac_id :: uuid
  ac_type :: actor_type
  ac_display_name :: string
  ac_capabilities :: "string list"

subsection \<open>Work items\<close>

datatype work_item_type = Epic | Feature | Story | Task | Bug | Investigation | Refactoring
  | Verification_Item | Documentation | Operations

datatype human_work_status = Hw_New | Hw_In_Progress | Hw_Blocked | Hw_Done | Hw_Cancelled

datatype implementation_status = Im_Not_Started | Im_In_Progress | Im_Code_Modified
  | Im_Implemented | Im_Implemented_Unverified

datatype verification_status = Ve_Not_Verified | Ve_Passed | Ve_Partial | Ve_Failed | Ve_Blocked

datatype pull_request_status = Pr_Not_Created | Pr_Created | Pr_Approved | Pr_Merged | Pr_Rejected

fun human_work_status_value :: "human_work_status \<Rightarrow> string" where
  "human_work_status_value Hw_New = ''new''"
| "human_work_status_value Hw_In_Progress = ''in_progress''"
| "human_work_status_value Hw_Blocked = ''blocked''"
| "human_work_status_value Hw_Done = ''done''"
| "human_work_status_value Hw_Cancelled = ''cancelled''"

fun implementation_status_value :: "implementation_status \<Rightarrow> string" where
  "implementation_status_value Im_Not_Started = ''not_started''"
| "implementation_status_value Im_In_Progress = ''in_progress''"
| "implementation_status_value Im_Code_Modified = ''code_modified''"
| "implementation_status_value Im_Implemented = ''implemented''"
| "implementation_status_value Im_Implemented_Unverified = ''implemented_unverified''"

record acceptance_criterion =
  cr_id :: uuid
  cr_description :: string
  cr_satisfied :: bool

record assignment =
  as_actor_id :: uuid
  as_assigned_at :: datetime
  as_assigned_by :: "uuid option"
  as_role :: "string option"

record work_item =
  wi_id :: uuid
  wi_project_id :: uuid
  wi_type :: work_item_type
  wi_title :: string
  wi_description :: string
  wi_priority :: "priority option"
  wi_parent_id :: "uuid option"
  wi_assignee :: "uuid option"
  wi_assignment :: "assignment option"
  wi_acceptance_criteria :: "acceptance_criterion list"
  wi_requirement_refs :: "uuid list"
  wi_external_refs :: "external_reference list"
  wi_human :: human_work_status
  wi_implementation :: implementation_status
  wi_verification :: verification_status
  wi_pull_request :: pull_request_status

text \<open>\<open>WorkItem(project_id=..., title=...)\<close>: every other field has its default.\<close>

definition new_work_item :: "uuid \<Rightarrow> uuid \<Rightarrow> string \<Rightarrow> work_item" where
  "new_work_item i p title =
     \<lparr>wi_id = i, wi_project_id = p, wi_type = Task, wi_title = title, wi_description = [],
      wi_priority = None, wi_parent_id = None, wi_assignee = None, wi_assignment = None,
      wi_acceptance_criteria = [], wi_requirement_refs = [], wi_external_refs = [],
      wi_human = Hw_New, wi_implementation = Im_Not_Started, wi_verification = Ve_Not_Verified,
      wi_pull_request = Pr_Not_Created\<rparr>"

datatype relation_kind = Parent_Of | Blocks | Relates_To | Precedes | Follows

record work_item_relation =
  rl_id :: uuid
  rl_source :: uuid
  rl_target :: uuid
  rl_type :: relation_kind
  rl_detected_at :: datetime
  rl_external_refs :: "external_reference list"

datatype comment_kind = Context_Comment | Feedback_Comment

record comment =
  cm_id :: uuid
  cm_work_item_id :: uuid
  cm_author_id :: "uuid option"
  cm_author_name :: "string option"
  cm_text :: string
  cm_kind :: comment_kind
  cm_created_at :: datetime
  cm_external_refs :: "external_reference list"

text \<open>
  The size of an attachment is kept as the dynamic value: a copy of the model with changed
  fields (\<open>model_copy(update=...)\<close>) is not validated, so it can be no integer.
\<close>

record attachment =
  at_id :: uuid
  at_work_item_id :: uuid
  at_file_name :: string
  at_content_type :: string
  at_file_size :: json
  at_download_url :: "string option"
  at_content_ingested :: bool
  at_created_at :: datetime
  at_external_refs :: "external_reference list"

subsection \<open>Executions\<close>

datatype execution_status = Ex_Requested | Ex_Started | Ex_Running | Ex_Completed | Ex_Failed
  | Ex_Cancelled | Ex_Blocked

fun execution_status_value :: "execution_status \<Rightarrow> string" where
  "execution_status_value Ex_Requested = ''requested''"
| "execution_status_value Ex_Started = ''started''"
| "execution_status_value Ex_Running = ''running''"
| "execution_status_value Ex_Completed = ''completed''"
| "execution_status_value Ex_Failed = ''failed''"
| "execution_status_value Ex_Cancelled = ''cancelled''"
| "execution_status_value Ex_Blocked = ''blocked''"

record execution =
  ex_id :: uuid
  ex_workflow_id :: uuid
  ex_work_item_id :: uuid
  ex_executor_id :: uuid
  ex_context_capsule_id :: "uuid option"
  ex_status :: execution_status
  ex_started_at :: datetime
  ex_completed_at :: "datetime option"
  ex_parent :: "uuid option"
  ex_correlation_id :: uuid
  ex_base_branch :: "string option"
  ex_working_branch :: "string option"
  ex_worktree_path :: "string option"

record execution_permissions =
  repository_read :: bool
  repository_write :: bool
  shell :: bool
  network :: bool
  git_commit :: bool
  git_push :: bool
  create_pull_request :: bool
  merge_pull_request :: bool
  run_containers :: bool
  access_secrets :: bool
  deploy :: bool

definition default_permissions :: execution_permissions where
  "default_permissions =
     \<lparr>repository_read = True, repository_write = False, shell = False, network = False,
      git_commit = False, git_push = False, create_pull_request = False,
      merge_pull_request = False, run_containers = False, access_secrets = False,
      deploy = False\<rparr>"

record execution_request =
  rq_execution_id :: uuid
  rq_workflow_id :: uuid
  rq_work_item_id :: uuid
  rq_repository_ref :: string
  rq_base_revision :: string
  rq_base_branch :: "string option"
  rq_working_branch :: "string option"
  rq_worktree_path :: "string option"
  rq_workspace_path :: "string option"
  rq_context_capsule_id :: "uuid option"
  rq_permissions :: execution_permissions
  rq_correlation_id :: uuid

record execution_result =
  rs_execution_id :: uuid
  rs_status :: execution_status
  rs_modified_files :: "string list"
  rs_created_files :: "string list"
  rs_deleted_files :: "string list"
  rs_commands_executed :: "string list"
  rs_tests_executed :: "string list"
  rs_diff :: "string option"
  rs_artifact_refs :: "uuid list"
  rs_evidence_refs :: "uuid list"
  rs_observations :: "string list"
  rs_blockers :: "string list"

end
