(* ===== verification/Workflow_Engine.thy ===== *)
theory Workflow_Engine
  imports Domain
begin

text \<open>
  The workflow engine: \<open>domain/workflow.py\<close>, \<open>application/workflow_engine.py\<close>, the
  checkpoint store \<open>adapters/in_memory/workflow.py\<close> and the executor registry
  \<open>adapters/in_memory/executor_registry.py\<close>.

  The engine's state is the checkpoint store, the registry and \<open>world\<close>, what the executor
  and the drawing of identifiers act on; both are parameters. The store and the running
  engine share the state object in the source; every mutation is followed by a save of the
  same object before the engine returns, so the model saves where the source does.
\<close>

subsection \<open>Stages, states and graphs\<close>

datatype workflow_stage = Intake | Understand | Build_Context | Route_Executor | Execute
  | Verify | Retry | Human | Create_Pr | Update_Brain | Complete | Failed

datatype workflow_status = Running | Completed | Failed_Status | Blocked

datatype approval_state = Not_Required | Pending | Approved | Rejected

datatype retry_policy_type = Transient_Tool_Failure | Llm_Failure | Verification_Failure
  | Invalid_Input_Policy | Human_Required

record workflow_state =
  wf_id :: uuid
  wf_project_id :: "uuid option"
  wf_work_item_id :: "uuid option"
  wf_repository_id :: "uuid option"
  wf_revision :: "string option"
  wf_execution_id :: "uuid option"
  wf_context_capsule_id :: "uuid option"
  wf_stage :: workflow_stage
  wf_status :: workflow_status
  wf_retry_count :: int
  wf_max_retries :: int
  wf_approval :: approval_state
  wf_last_error :: "string option"
  wf_verification_id :: "uuid option"
  wf_waiting_for_human :: bool
  wf_correlation_id :: "uuid option"
  wf_started_at :: datetime
  wf_updated_at :: datetime

record workflow_edge =
  edge_source :: workflow_stage
  edge_target :: workflow_stage
  edge_condition :: "string option"

type_synonym workflow_graph = "workflow_edge list"

definition next_stages :: "workflow_graph \<Rightarrow> workflow_stage \<Rightarrow> workflow_stage list" where
  "next_stages g st = map edge_target (filter (\<lambda>e. edge_source e = st) g)"

abbreviation edge :: "workflow_stage \<Rightarrow> workflow_stage \<Rightarrow> workflow_edge" where
  "edge a b \<equiv> \<lparr>edge_source = a, edge_target = b, edge_condition = None\<rparr>"

definition main_engineering_graph :: workflow_graph where
  "main_engineering_graph =
     [edge Intake Understand, edge Understand Build_Context, edge Build_Context Route_Executor,
      edge Route_Executor Execute, edge Execute Verify,
      \<lparr>edge_source = Verify, edge_target = Retry, edge_condition = Some ''verification_failed''\<rparr>,
      \<lparr>edge_source = Verify, edge_target = Human, edge_condition = Some ''human_required''\<rparr>,
      \<lparr>edge_source = Verify, edge_target = Create_Pr, edge_condition = Some ''passed''\<rparr>,
      edge Retry Execute, edge Create_Pr Update_Brain, edge Update_Brain Complete]"

definition planning_graph :: workflow_graph where
  "planning_graph =
     [edge Intake Understand, edge Understand Build_Context, edge Build_Context Complete]"

subsection \<open>The executor registry\<close>

datatype model_deployment = Local | Remote

fun model_deployment_value :: "model_deployment \<Rightarrow> string" where
  "model_deployment_value Local = ''local''"
| "model_deployment_value Remote = ''remote''"

datatype cost_class = Cost_Low | Cost_Medium | Cost_High

datatype executor_kind = Pi | Fake | Custom

record executor_capabilities =
  ec_coding :: bool
  ec_reasoning :: bool
  ec_tool_support :: bool
  ec_local_models :: bool
  ec_remote_models :: bool
  ec_context_window :: int
  ec_preferred_context_budget :: int
  ec_cost_class :: cost_class
  ec_deployment :: model_deployment
  ec_supported_tools :: "string list"

record executor_descriptor =
  ed_id :: uuid
  ed_name :: string
  ed_kind :: executor_kind
  ed_capabilities :: executor_capabilities
  ed_structured_tools :: bool

type_synonym executor_registry = "(uuid, executor_descriptor) dict"

definition register_executor :: "executor_descriptor \<Rightarrow> executor_registry \<Rightarrow> executor_registry" where
  "register_executor d r = dict_set (ed_id d) d r"

definition unregister_executor :: "uuid \<Rightarrow> executor_registry \<Rightarrow> executor_registry" where
  "unregister_executor i r = dict_pop i r"

definition executor_fits :: "bool \<Rightarrow> bool \<Rightarrow> int \<Rightarrow> string option \<Rightarrow> executor_descriptor \<Rightarrow> bool" where
  "executor_fits coding tools window dep d =
     (let c = ed_capabilities d in
      \<not> (coding \<and> \<not> ec_coding c) \<and> \<not> (tools \<and> \<not> ec_tool_support c) \<and>
      \<not> ec_context_window c < window \<and>
      (case dep of None \<Rightarrow> True | Some v \<Rightarrow> model_deployment_value (ec_deployment c) = v))"

definition select_executor :: "bool \<Rightarrow> bool \<Rightarrow> int \<Rightarrow> string option \<Rightarrow> executor_registry
    \<Rightarrow> executor_descriptor option" where
  "select_executor coding tools window dep r =
     List.find (executor_fits coding tools window dep) (dict_values r)"

subsection \<open>The engine\<close>

record 'x engine =
  checkpoints :: "(uuid, workflow_state) dict"
  registry :: executor_registry
  world :: 'x

type_synonym 'x executor = "execution_request \<Rightarrow> 'x \<Rightarrow> (exn + execution_result) \<times> 'x"

definition save_checkpoint :: "workflow_state \<Rightarrow> 'x engine \<Rightarrow> 'x engine" where
  "save_checkpoint st e = e\<lparr>checkpoints := dict_set (wf_id st) st (checkpoints e)\<rparr>"

definition load_checkpoint :: "uuid \<Rightarrow> 'x engine \<Rightarrow> workflow_state option" where
  "load_checkpoint i e = dict_get (checkpoints e) i"

definition delete_checkpoint :: "uuid \<Rightarrow> 'x engine \<Rightarrow> 'x engine" where
  "delete_checkpoint i e = e\<lparr>checkpoints := dict_pop i (checkpoints e)\<rparr>"

definition list_checkpoints :: "'x engine \<Rightarrow> workflow_state list" where
  "list_checkpoints e = dict_values (checkpoints e)"

text \<open>\<open>WorkflowEngine.start\<close> with the fresh workflow id and the time drawn by the model.\<close>

definition initial_workflow_state :: "uuid \<Rightarrow> datetime \<Rightarrow> uuid \<Rightarrow> uuid \<Rightarrow> uuid \<Rightarrow> string \<Rightarrow> workflow_state" where
  "initial_workflow_state i now p w r rvn =
     \<lparr>wf_id = i, wf_project_id = Some p, wf_work_item_id = Some w, wf_repository_id = Some r,
      wf_revision = Some rvn, wf_execution_id = None, wf_context_capsule_id = None,
      wf_stage = Intake, wf_status = Running, wf_retry_count = 0, wf_max_retries = 3,
      wf_approval = Not_Required, wf_last_error = None, wf_verification_id = None,
      wf_waiting_for_human = False, wf_correlation_id = None, wf_started_at = now,
      wf_updated_at = now\<rparr>"

definition start_workflow :: "uuid \<Rightarrow> datetime \<Rightarrow> project \<Rightarrow> work_item \<Rightarrow> repository \<Rightarrow> string
    \<Rightarrow> 'x engine \<Rightarrow> workflow_state \<times> 'x engine" where
  "start_workflow i now p w r rvn e =
     (let st = initial_workflow_state i now (pj_id p) (wi_id w) (rp_id r) rvn
      in (st, save_checkpoint st e))"

definition opt_or :: "'a option \<Rightarrow> 'a \<Rightarrow> 'a" where
  "opt_or x d = (case x of None \<Rightarrow> d | Some v \<Rightarrow> v)"

text \<open>
  \<open>_execute_stage\<close>. \<open>fresh\<close> draws an identifier: the execution's, the correlation's, and a
  stand-in for a missing work item.
\<close>

definition stage_request :: "('x \<Rightarrow> uuid \<times> 'x) \<Rightarrow> workflow_state \<Rightarrow> 'x \<Rightarrow> execution_request \<times> 'x" where
  "stage_request fresh st x =
     (let (xid, x1) = fresh x;
          (wid, x2) = (case wf_work_item_id st of None \<Rightarrow> fresh x1 | Some w \<Rightarrow> (w, x1));
          (cid, x3) = fresh x2
      in (\<lparr>rq_execution_id = xid, rq_workflow_id = wf_id st, rq_work_item_id = wid,
           rq_repository_ref = opt_or (wf_repository_id st) [],
           rq_base_revision = opt_or (wf_revision st) [],
           rq_base_branch = None, rq_working_branch = None, rq_worktree_path = None,
           rq_workspace_path = None, rq_context_capsule_id = None,
           rq_permissions = default_permissions, rq_correlation_id = cid\<rparr>, x3))"

definition execute_stage :: "('x \<Rightarrow> uuid \<times> 'x) \<Rightarrow> 'x executor \<Rightarrow> workflow_state \<Rightarrow> 'x engine
    \<Rightarrow> ('x engine, execution_result) outcome" where
  "execute_stage fresh run st e =
     (case select_executor True True 0 None (registry e) of
        None \<Rightarrow> (Inl (Exn ''RuntimeError'' ''no executor available''), e)
      | Some d \<Rightarrow>
          (let (req, x) = stage_request fresh st (world e);
               (r, x') = run req x
           in (r, e\<lparr>world := x'\<rparr>)))"

text \<open>\<open>_decide_after_verify\<close>.\<close>

definition decide_after_verify :: "workflow_state \<Rightarrow> workflow_stage \<times> workflow_state" where
  "decide_after_verify st =
     (if wf_retry_count st \<ge> wf_max_retries st then (Human, st\<lparr>wf_status := Blocked\<rparr>)
      else (if (case wf_last_error st of None \<Rightarrow> False | Some m \<Rightarrow> m \<noteq> []) then Retry else Create_Pr, st))"

record retry_decision =
  rd_retryable :: bool
  rd_policy :: "retry_policy_type option"
  rd_reason :: string

definition workflow_retry_decision :: "workflow_state \<Rightarrow> retry_decision" where
  "workflow_retry_decision st =
     (case wf_last_error st of
        None \<Rightarrow> \<lparr>rd_retryable = False, rd_policy = None, rd_reason = ''no retryable condition''\<rparr>
      | Some m \<Rightarrow>
          if contains ''verification'' m
          then \<lparr>rd_retryable = True, rd_policy = Some Verification_Failure, rd_reason = ''verification failed''\<rparr>
          else if contains ''tool'' m
          then \<lparr>rd_retryable = True, rd_policy = Some Transient_Tool_Failure, rd_reason = ''transient tool failure''\<rparr>
          else \<lparr>rd_retryable = False, rd_policy = None, rd_reason = ''no retryable condition''\<rparr>)"

text \<open>\<open>_advance\<close>: the next stage, the execution's result, and the mutated state.\<close>

definition advance :: "('x \<Rightarrow> uuid \<times> 'x) \<Rightarrow> 'x executor \<Rightarrow> workflow_graph \<Rightarrow> workflow_state \<Rightarrow> 'x engine
    \<Rightarrow> ('x engine, workflow_stage option \<times> execution_result option \<times> workflow_state) outcome" where
  "advance fresh run g st e =
     (case next_stages g (wf_stage st) of
        [] \<Rightarrow> (Inr (None, None, st), e)
      | c # _ \<Rightarrow>
          (case wf_stage st of
             Execute \<Rightarrow>
               (case execute_stage fresh run st e of
                  (Inl ex, e') \<Rightarrow> (Inl ex, e')
                | (Inr r, e') \<Rightarrow>
                    (Inr (Some Verify, Some r,
                       st\<lparr>wf_execution_id := Some (rs_execution_id r), wf_stage := Verify,
                          wf_last_error :=
                            (if execution_status_value (rs_status r) \<in> {''completed'', ''passed''}
                             then None else wf_last_error st)\<rparr>), e'))
           | Verify \<Rightarrow>
               (let (nxt, st') = decide_after_verify st in (Inr (Some nxt, None, st'), e))
           | Retry \<Rightarrow>
               (if rd_retryable (workflow_retry_decision st) \<and> wf_retry_count st < wf_max_retries st
                then (Inr (Some Execute, None, st\<lparr>wf_retry_count := wf_retry_count st + 1\<rparr>), e)
                else (Inr (Some Failed, None, st\<lparr>wf_status := Failed_Status\<rparr>), e))
           | Create_Pr \<Rightarrow> (Inr (Some Update_Brain, None, st), e)
           | _ \<Rightarrow> (Inr (Some c, None, st), e)))"

record workflow_outcome =
  wo_state :: workflow_state
  wo_result :: "execution_result option"
  wo_pr :: "string option"

text \<open>
  The loop of \<open>resume\<close>. The graph is a constructor argument and may have cycles, so the
  rounds are bounded by \<open>fuel\<close>, \<open>None\<close> meaning that the loop is still running.
\<close>

fun resume_loop :: "nat \<Rightarrow> ('x \<Rightarrow> uuid \<times> 'x) \<Rightarrow> 'x executor \<Rightarrow> workflow_graph \<Rightarrow> workflow_state
    \<Rightarrow> execution_result option \<Rightarrow> 'x engine
    \<Rightarrow> ('x engine, workflow_state \<times> execution_result option) outcome option" where
  "resume_loop 0 fresh run g st res e = None"
| "resume_loop (Suc fuel) fresh run g st res e =
     (if wf_status st = Running then
        (case advance fresh run g st e of
           (Inl ex, e') \<Rightarrow> Some (Inl ex, e')
         | (Inr (None, r, st'), e') \<Rightarrow>
             (let st'' = st'\<lparr>wf_status := Completed\<rparr>
              in Some (Inr (st'', res), save_checkpoint st'' e'))
         | (Inr (Some nxt, r, st'), e') \<Rightarrow>
             (let st1 = st'\<lparr>wf_stage := nxt\<rparr>;
                  res' = (case r of None \<Rightarrow> res | Some x \<Rightarrow> Some x);
                  e1 = save_checkpoint st1 e'
              in if nxt = Complete \<or> nxt = Failed
                 then (let st2 = st1\<lparr>wf_status := (if nxt = Complete then Completed else Failed_Status)\<rparr>
                       in Some (Inr (st2, res'), save_checkpoint st2 e1))
                 else resume_loop fuel fresh run g st1 res' e1))
      else Some (Inr (st, res), e))"

definition resume_workflow :: "nat \<Rightarrow> ('x \<Rightarrow> uuid \<times> 'x) \<Rightarrow> 'x executor \<Rightarrow> workflow_graph \<Rightarrow> bool
    \<Rightarrow> uuid \<Rightarrow> 'x engine \<Rightarrow> ('x engine, workflow_outcome) outcome option" where
  "resume_workflow fuel fresh run g has_pr i e =
     (case load_checkpoint i e of
        None \<Rightarrow> Some (Inl (Exn ''ValueError'' (''no checkpoint for workflow '' @ i)), e)
      | Some st \<Rightarrow>
          (case resume_loop fuel fresh run g st None e of
             None \<Rightarrow> None
           | Some (Inl ex, e') \<Rightarrow> Some (Inl ex, e')
           | Some (Inr (st', res), e') \<Rightarrow>
               Some (Inr \<lparr>wo_state = st', wo_result = res,
                          wo_pr = (if wf_stage st' = Create_Pr \<and> has_pr then Some ''PR-created'' else None)\<rparr>,
                     e')))"


subsection \<open>Rounds of the main graph\<close>

text \<open>The longest way from a stage to the end of the main graph with \<open>r\<close> retries left is
  \<open>stage_rank + 3 r\<close> rounds: a retry costs the three rounds retry, execute, verify.\<close>

fun stage_rank :: "workflow_stage \<Rightarrow> nat" where
  "stage_rank Intake = 10"
| "stage_rank Understand = 9"
| "stage_rank Build_Context = 8"
| "stage_rank Route_Executor = 7"
| "stage_rank Execute = 6"
| "stage_rank Verify = 5"
| "stage_rank Retry = 4"
| "stage_rank Create_Pr = 3"
| "stage_rank Update_Brain = 2"
| "stage_rank _ = 1"

definition rounds_left :: "workflow_state \<Rightarrow> nat" where
  "rounds_left st = stage_rank (wf_stage st) + 3 * nat (wf_max_retries st - wf_retry_count st)"

lemma next_stages_main [simp]:
  "next_stages main_engineering_graph st =
     (case st of Intake \<Rightarrow> [Understand] | Understand \<Rightarrow> [Build_Context]
      | Build_Context \<Rightarrow> [Route_Executor] | Route_Executor \<Rightarrow> [Execute] | Execute \<Rightarrow> [Verify]
      | Verify \<Rightarrow> [Retry, Human, Create_Pr] | Retry \<Rightarrow> [Execute] | Create_Pr \<Rightarrow> [Update_Brain]
      | Update_Brain \<Rightarrow> [Complete] | _ \<Rightarrow> [])"
  by (cases st) (simp_all add: next_stages_def main_engineering_graph_def)

lemma execute_stage_checkpoints: "checkpoints (snd (execute_stage fresh run st e)) = checkpoints e"
  by (auto simp: execute_stage_def Let_def split: option.splits prod.splits)

text \<open>
  What a round keeps: the identity and the bound of retries, the bound on the count, and the
  checkpoints; the rounds left go down.
\<close>

lemma advance_frame:
  assumes "advance fresh run g st e = (Inr (nxt, r, st'), e')"
  shows "wf_id st' = wf_id st" and "wf_max_retries st' = wf_max_retries st"
    and "checkpoints e' = checkpoints e"
    and "wf_retry_count st \<le> wf_max_retries st \<Longrightarrow> wf_retry_count st' \<le> wf_max_retries st"
  using assms execute_stage_checkpoints [of fresh run st e]
  by (auto simp: advance_def decide_after_verify_def Let_def
      split: list.splits workflow_stage.splits prod.splits sum.splits if_splits)

lemma advance_raises:
  "advance fresh run g st e = (Inl ex, e') \<Longrightarrow>
     wf_stage st = Execute \<and> execute_stage fresh run st e = (Inl ex, e')"
  by (auto simp: advance_def decide_after_verify_def Let_def
      split: list.splits workflow_stage.splits prod.splits sum.splits if_splits)

lemma advance_main_decreases:
  assumes "advance fresh run main_engineering_graph st e = (Inr (Some nxt, r, st'), e')"
    and "nxt \<noteq> Complete" "nxt \<noteq> Failed"
  shows "rounds_left (st'\<lparr>wf_stage := nxt\<rparr>) < rounds_left st"
  using assms
  by (cases "wf_stage st")
    (auto simp: advance_def rounds_left_def decide_after_verify_def
      split: prod.splits sum.splits if_splits)

lemma resume_loop_returns:
  "rounds_left st < fuel \<Longrightarrow> resume_loop fuel fresh run main_engineering_graph st res e \<noteq> None"
proof (induction fuel arbitrary: st res e)
  case (Suc fuel)
  obtain a e' where adv: "advance fresh run main_engineering_graph st e = (a, e')"
    by (cases "advance fresh run main_engineering_graph st e")
  show ?case
  proof (cases a)
    case (Inr v)
    obtain nxt r st' where v: "v = (nxt, r, st')" by (cases v)
    show ?thesis
    proof (cases nxt)
      case (Some n)
      have "rounds_left (st'\<lparr>wf_stage := n\<rparr>) < fuel" if "n \<noteq> Complete" "n \<noteq> Failed"
        using advance_main_decreases [of fresh run st e n r st' e'] that adv Inr v Some Suc.prems by simp
      with Suc.IH [of "st'\<lparr>wf_stage := n\<rparr>"] adv Inr v Some show ?thesis by (auto simp: Let_def)
    qed (use adv Inr v in \<open>simp add: Let_def\<close>)
  qed (use adv in simp)
qed simp

text \<open>
  What a run of the loop leaves: the state it returns is settled, is the checkpoint of its
  workflow, and keeps the bound of retries; other checkpoints are untouched.
\<close>

definition resumed :: "workflow_state \<Rightarrow> 'x engine \<Rightarrow> workflow_state \<Rightarrow> 'x engine \<Rightarrow> bool" where
  "resumed st e st' e' \<longleftrightarrow>
     wf_status st' \<noteq> Running \<and> wf_id st' = wf_id st \<and> load_checkpoint (wf_id st) e' = Some st' \<and>
     (wf_retry_count st \<le> wf_max_retries st \<longrightarrow> wf_retry_count st' \<le> wf_max_retries st') \<and>
     (\<forall>i. i \<noteq> wf_id st \<longrightarrow> load_checkpoint i e' = load_checkpoint i e)"

lemma resume_loop_resumed:
  "resume_loop fuel fresh run g st res e = Some (Inr (st', res'), e') \<Longrightarrow>
    load_checkpoint (wf_id st) e = Some st \<Longrightarrow> resumed st e st' e'"
proof (induction fuel arbitrary: st res e)
  case (Suc fuel)
  show ?case
  proof (cases "wf_status st = Running")
    case True
    obtain a u where adv: "advance fresh run g st e = (a, u)" by (cases "advance fresh run g st e")
    with Suc.prems(1) True obtain v where a: "a = Inr v" by (cases a) auto
    obtain nxt r s1 where v: "v = (nxt, r, s1)" by (cases v)
    note frame = advance_frame [OF adv [unfolded a v]]
    show ?thesis
    proof (cases nxt)
      case None
      with Suc.prems(1) True adv a v frame show ?thesis
        by (auto simp: resumed_def load_checkpoint_def save_checkpoint_def store_simps Let_def)
    next
      case (Some n)
      let ?s = "s1\<lparr>wf_stage := n\<rparr>"
      show ?thesis
      proof (cases "n = Complete \<or> n = Failed")
        case True
        with Suc.prems(1) \<open>wf_status st = Running\<close> adv a v Some frame show ?thesis
          by (auto simp: resumed_def load_checkpoint_def save_checkpoint_def store_simps Let_def)
      next
        case False
        with Suc.prems(1) True adv a v Some
        have "resume_loop fuel fresh run g ?s (case r of None \<Rightarrow> res | Some x \<Rightarrow> Some x)
            (save_checkpoint ?s u) = Some (Inr (st', res'), e')"
          by (auto simp: Let_def)
        from Suc.IH [OF this] have "resumed ?s (save_checkpoint ?s u) st' e'"
          by (simp add: load_checkpoint_def save_checkpoint_def store_simps)
        with frame show ?thesis
          by (auto simp: resumed_def load_checkpoint_def save_checkpoint_def store_simps)
      qed
    qed
  next
    case False
    with Suc.prems show ?thesis by (auto simp: resumed_def)
  qed
qed simp

lemma resume_loop_raised:
  "resume_loop fuel fresh run g st res e = Some (Inl ex, e') \<Longrightarrow>
    load_checkpoint (wf_id st) e = Some st \<Longrightarrow>
    \<exists>st' u. load_checkpoint (wf_id st) e' = Some st' \<and> wf_stage st' = Execute \<and>
      wf_status st' = Running \<and> wf_id st' = wf_id st \<and>
      execute_stage fresh run st' u = (Inl ex, e')"
proof (induction fuel arbitrary: st res e)
  case (Suc fuel)
  from Suc.prems(1) have running: "wf_status st = Running" by (auto split: if_splits)
  obtain a u where adv: "advance fresh run g st e = (a, u)" by (cases "advance fresh run g st e")
  show ?case
  proof (cases a)
    case (Inl x)
    with Suc.prems(1) running adv have eq: "x = ex" "u = e'" by auto
    from advance_raises [OF adv [unfolded Inl]] have ex: "wf_stage st = Execute"
      "execute_stage fresh run st e = (Inl x, u)" by auto
    with execute_stage_checkpoints [of fresh run st e] eq Suc.prems(2) running show ?thesis
      by (auto simp: load_checkpoint_def)
  next
    case (Inr v)
    obtain nxt r s1 where v: "v = (nxt, r, s1)" by (cases v)
    from Suc.prems(1) running adv Inr v obtain n where n: "nxt = Some n" "n \<noteq> Complete" "n \<noteq> Failed"
      by (cases nxt) (auto simp: Let_def split: if_splits)
    let ?s = "s1\<lparr>wf_stage := n\<rparr>"
    have "resume_loop fuel fresh run g ?s (case r of None \<Rightarrow> res | Some x \<Rightarrow> Some x)
        (save_checkpoint ?s u) = Some (Inl ex, e')"
      using Suc.prems(1) running adv Inr v n by (auto simp: Let_def)
    from Suc.IH [OF this] advance_frame(1) [OF adv [unfolded Inr v]] show ?thesis
      by (simp add: load_checkpoint_def save_checkpoint_def store_simps)
  qed
qed simp

lemma execute_stage_returns:
  assumes "select_executor True True 0 None (registry e) \<noteq> None"
    and "\<And>rq x. \<exists>r x'. run rq x = (Inr r, x')"
  shows "\<exists>rq x r x'. run rq x = (Inr r, x') \<and> execute_stage fresh run st e = (Inr r, e\<lparr>world := x'\<rparr>)"
proof -
  obtain d where d: "select_executor True True 0 None (registry e) = Some d" using assms(1) by auto
  obtain rq x where rq: "stage_request fresh st (world e) = (rq, x)"
    by (cases "stage_request fresh st (world e)")
  from assms(2) obtain r x' where "run rq x = (Inr r, x')" by blast
  with d rq show ?thesis by (auto simp: execute_stage_def)
qed

text \<open>The stretches of the main graph before and after the execution of a first attempt.\<close>

lemma resume_loop_to_execute:
  assumes "wf_stage st = Intake" and "wf_status st = Running"
  shows "\<exists>cs. resume_loop (Suc (Suc (Suc (Suc n)))) fresh run main_engineering_graph st res e =
    resume_loop n fresh run main_engineering_graph (st\<lparr>wf_stage := Execute\<rparr>) res (e\<lparr>checkpoints := cs\<rparr>)"
  using assms by (auto simp: advance_def save_checkpoint_def Let_def)

lemma resume_loop_execute:
  assumes "wf_stage st = Execute" and "wf_status st = Running" and "wf_last_error st = None"
    and "execute_stage fresh run st e = (Inr r, e')"
    and "st1 = st\<lparr>wf_execution_id := Some (rs_execution_id r), wf_stage := Verify, wf_last_error := None\<rparr>"
  shows "resume_loop (Suc n) fresh run main_engineering_graph st res e =
    resume_loop n fresh run main_engineering_graph st1 (Some r) (save_checkpoint st1 e')"
  using assms by (cases st) (auto simp: advance_def Let_def)

lemma resume_loop_from_verify:
  assumes "wf_stage st = Verify" and "wf_status st = Running" and "wf_last_error st = None"
    and "wf_retry_count st < wf_max_retries st"
  shows "\<exists>st' e'. resume_loop (Suc (Suc (Suc n))) fresh run main_engineering_graph st res e =
      Some (Inr (st', res), e') \<and> wf_stage st' = Complete \<and> wf_status st' = Completed \<and>
      wf_retry_count st' = wf_retry_count st"
  using assms by (auto simp: advance_def decide_after_verify_def save_checkpoint_def Let_def)

subsection \<open>An executor for the witnesses\<close>

definition demo_descriptor :: executor_descriptor where
  "demo_descriptor =
     \<lparr>ed_id = ''pi'', ed_name = ''pi'', ed_kind = Pi,
      ed_capabilities = \<lparr>ec_coding = True, ec_reasoning = True, ec_tool_support = True,
        ec_local_models = False, ec_remote_models = True, ec_context_window = 128000,
        ec_preferred_context_budget = 8000, ec_cost_class = Cost_Medium, ec_deployment = Remote,
        ec_supported_tools = []\<rparr>, ed_structured_tools = True\<rparr>"

definition demo_result :: "execution_status \<Rightarrow> execution_request \<Rightarrow> execution_result" where
  "demo_result s rq =
     \<lparr>rs_execution_id = rq_execution_id rq, rs_status = s, rs_modified_files = [],
      rs_created_files = [], rs_deleted_files = [], rs_commands_executed = [],
      rs_tests_executed = [], rs_diff = None, rs_artifact_refs = [], rs_evidence_refs = [],
      rs_observations = [], rs_blockers = []\<rparr>"

definition demo_fresh :: "nat \<Rightarrow> uuid \<times> nat" where
  "demo_fresh n = (str_nat n, Suc n)"

definition demo_executor :: "nat executor" where
  "demo_executor rq n = (Inr (demo_result Ex_Failed rq), n)"

definition demo_project :: project where
  "demo_project = \<lparr>pj_id = ''p'', pj_name = ''P'', pj_description = None, pj_status = Active,
     pj_parent_id = None, pj_repositories = [], pj_external_refs = []\<rparr>"

definition demo_repository :: repository where
  "demo_repository = \<lparr>rp_id = ''r'', rp_project_id = ''p'', rp_name = ''R'', rp_clone_url = ''u'',
     rp_default_branch = ''main'', rp_current_revision = None, rp_external_refs = []\<rparr>"

definition demo_engine :: "executor_registry \<Rightarrow> nat engine" where
  "demo_engine reg =
     snd (start_workflow ''wf'' 0 demo_project (new_work_item ''w'' ''p'' ''T'') demo_repository ''HEAD''
            \<lparr>checkpoints = [], registry = reg, world = 0\<rparr>)"

lemma demo_checkpoint:
  "load_checkpoint ''wf'' (demo_engine reg) =
     Some (initial_workflow_state ''wf'' 0 ''p'' ''w'' ''r'' ''HEAD'')"
  by (simp add: demo_engine_def start_workflow_def save_checkpoint_def load_checkpoint_def
      demo_project_def demo_repository_def new_work_item_def initial_workflow_state_def Let_def)

subsection \<open>Properties\<close>

text \<open>
  C3: resuming a workflow of the main engineering graph always ends. From a checkpoint with
  \<open>r\<close> retries left and its stage at most ten rounds before the end, the loop returns (or
  raises) within \<open>stage_rank + 3 r + 1\<close> rounds: the only cycle, verify, retry, execute,
  spends a retry each time.
\<close>

theorem workflow_resume_returns:
  assumes "load_checkpoint i e = Some st" and "rounds_left st < fuel"
  shows "resume_workflow fuel fresh run main_engineering_graph has_pr i e \<noteq> None"
  using assms resume_loop_returns [of st fuel fresh run None e]
  by (auto simp: resume_workflow_def split: option.splits prod.splits sum.splits)

theorem workflow_resume_returns_witness:
  "resume_workflow 20 demo_fresh demo_executor main_engineering_graph True ''wf''
     (demo_engine [(''pi'', demo_descriptor)]) \<noteq> None"
  by (rule workflow_resume_returns [OF demo_checkpoint])
    (simp add: initial_workflow_state_def rounds_left_def)

text \<open>
  C4: when resuming returns, on any graph, the workflow is settled (its status is not
  running), the state returned is the checkpoint stored under the same workflow id, the
  retry bound holds if it held before, and no other workflow's checkpoint changed.
\<close>

theorem resume_settles_workflow:
  assumes "load_checkpoint i e = Some st" and "wf_id st = i"
    and "resume_workflow fuel fresh run g has_pr i e = Some (Inr out, e')"
  shows "wf_status (wo_state out) \<noteq> Running \<and> load_checkpoint i e' = Some (wo_state out) \<and>
    (wf_retry_count st \<le> wf_max_retries st \<longrightarrow>
       wf_retry_count (wo_state out) \<le> wf_max_retries (wo_state out)) \<and>
    (\<forall>j. j \<noteq> i \<longrightarrow> load_checkpoint j e' = load_checkpoint j e)"
proof -
  from assms(1,3) obtain st' res where
    "resume_loop fuel fresh run g st None e = Some (Inr (st', res), e')" "wo_state out = st'"
    by (auto simp: resume_workflow_def split: option.splits prod.splits sum.splits)
  with resume_loop_resumed [of fuel fresh run g st None e st' res e'] assms(1,2) show ?thesis
    by (auto simp: resumed_def)
qed

theorem resume_settles_workflow_witness:
  "\<exists>out e'. resume_workflow 20 demo_fresh demo_executor main_engineering_graph True ''wf''
      (demo_engine [(''pi'', demo_descriptor)]) = Some (Inr out, e') \<and>
    wf_status (wo_state out) \<noteq> Running \<and> load_checkpoint ''wf'' e' = Some (wo_state out)"
proof -
  have "returns (resume_workflow 20 demo_fresh demo_executor main_engineering_graph True ''wf''
      (demo_engine [(''pi'', demo_descriptor)]))"
    by code_simp
  from returnsD [OF this] obtain out e' where run: "resume_workflow 20 demo_fresh demo_executor main_engineering_graph
      True ''wf'' (demo_engine [(''pi'', demo_descriptor)]) = Some (Inr out, e')" by blast
  from resume_settles_workflow [OF demo_checkpoint _ run] run show ?thesis
    by (simp add: initial_workflow_state_def)
qed

text \<open>
  When resuming raises, the exception came from the execute stage (no executor, or the
  executor itself raised), and the workflow's checkpoint is the running state at that stage:
  the next resume starts with the execution and repeats nothing before it.
\<close>

theorem resume_failure_stays_at_execute:
  assumes "load_checkpoint i e = Some st" and "wf_id st = i"
    and "resume_workflow fuel fresh run g has_pr i e = Some (Inl ex, e')"
  shows "\<exists>st' u. load_checkpoint i e' = Some st' \<and> wf_stage st' = Execute \<and>
    wf_status st' = Running \<and> execute_stage fresh run st' u = (Inl ex, e')"
proof -
  from assms(1,3) have "resume_loop fuel fresh run g st None e = Some (Inl ex, e')"
    by (auto simp: resume_workflow_def split: option.splits prod.splits sum.splits)
  from resume_loop_raised [OF this] assms(1,2) show ?thesis by auto
qed

theorem resume_failure_stays_at_execute_witness:
  "\<exists>ex e' st'. resume_workflow 20 demo_fresh demo_executor main_engineering_graph True ''wf''
      (demo_engine []) = Some (Inl ex, e') \<and>
    load_checkpoint ''wf'' e' = Some st' \<and> wf_stage st' = Execute"
proof -
  have "raises (resume_workflow 20 demo_fresh demo_executor main_engineering_graph True ''wf''
      (demo_engine []))"
    by code_simp
  from raisesD [OF this] obtain ex e' where run: "resume_workflow 20 demo_fresh demo_executor main_engineering_graph
      True ''wf'' (demo_engine []) = Some (Inl ex, e')" by blast
  from resume_failure_stays_at_execute [OF demo_checkpoint _ run] run show ?thesis
    by (auto simp: initial_workflow_state_def)
qed

text \<open>
  A started workflow whose executor returns any result at all, failed, cancelled or
  blocked ones included, runs to completion at its first attempt: no stage sets
  \<open>last_error\<close>, so verify always passes on to the pull request stage, and no pull
  request is reported (the loop never ends at that stage).
\<close>

theorem any_execution_result_completes:
  assumes "select_executor True True 0 None (registry e) \<noteq> None"
    and "\<And>rq x. \<exists>r x'. run rq x = (Inr r, x')"
    and "start_workflow i now p w r rvn e = (st, e0)"
  shows "\<exists>rq x res x' out e'. run rq x = (Inr res, x') \<and>
    resume_workflow 11 fresh run main_engineering_graph has_pr i e0 = Some (Inr out, e') \<and>
    wo_result out = Some res \<and> wo_pr out = None \<and> wf_retry_count (wo_state out) = 0 \<and>
    wf_stage (wo_state out) = Complete \<and> wf_status (wo_state out) = Completed"
proof -
  let ?st = "st\<lparr>wf_stage := Execute\<rparr>"
  have st: "st = initial_workflow_state i now (pj_id p) (wi_id w) (rp_id r) rvn"
    and load: "load_checkpoint i e0 = Some st" and reg: "registry e0 = registry e"
    using assms(3) by (auto simp: start_workflow_def load_checkpoint_def save_checkpoint_def
        initial_workflow_state_def Let_def store_simps)
  have eleven: "(11::nat) = Suc (Suc (Suc (Suc 7)))" and seven: "(7::nat) = Suc 6"
    and six: "(6::nat) = Suc (Suc (Suc 3))" by simp_all
  have fields: "wf_stage st = Intake" "wf_status st = Running" "wf_last_error st = None"
    "wf_retry_count st = 0" "wf_max_retries st = 3"
    by (simp_all add: st initial_workflow_state_def)
  obtain cs where first: "resume_loop 11 fresh run main_engineering_graph st None e0 =
      resume_loop 7 fresh run main_engineering_graph ?st None (e0\<lparr>checkpoints := cs\<rparr>)"
    using resume_loop_to_execute [OF fields(1,2)] unfolding eleven by blast
  obtain rq x res x' where run: "run rq x = (Inr res, x')"
    and ex: "execute_stage fresh run ?st (e0\<lparr>checkpoints := cs\<rparr>) = (Inr res, e0\<lparr>checkpoints := cs, world := x'\<rparr>)"
    using execute_stage_returns [of "e0\<lparr>checkpoints := cs\<rparr>" run fresh ?st] assms(1,2) reg by auto
  let ?s1 = "?st\<lparr>wf_execution_id := Some (rs_execution_id res), wf_stage := Verify, wf_last_error := None\<rparr>"
  have "resume_loop 7 fresh run main_engineering_graph ?st None (e0\<lparr>checkpoints := cs\<rparr>) =
      resume_loop 6 fresh run main_engineering_graph ?s1 (Some res)
        (save_checkpoint ?s1 (e0\<lparr>checkpoints := cs, world := x'\<rparr>))"
    unfolding seven using fields by (intro resume_loop_execute [OF _ _ _ ex]) simp_all
  moreover obtain st' e' where
    "resume_loop 6 fresh run main_engineering_graph ?s1 (Some res)
        (save_checkpoint ?s1 (e0\<lparr>checkpoints := cs, world := x'\<rparr>)) = Some (Inr (st', Some res), e')"
    "wf_stage st' = Complete" "wf_status st' = Completed" "wf_retry_count st' = wf_retry_count ?s1"
    using resume_loop_from_verify [of ?s1 3] fields unfolding six by fastforce
  ultimately have "resume_workflow 11 fresh run main_engineering_graph has_pr i e0 =
      Some (Inr \<lparr>wo_state = st', wo_result = Some res, wo_pr = None\<rparr>, e') \<and>
      wf_stage st' = Complete \<and> wf_status st' = Completed \<and> wf_retry_count st' = 0"
    using load first fields by (simp add: resume_workflow_def)
  with run show ?thesis by fastforce
qed

theorem any_execution_result_completes_witness:
  "\<exists>rq x res x' out e'. demo_executor rq x = (Inr res, x') \<and> rs_status res = Ex_Failed \<and>
    resume_workflow 11 demo_fresh demo_executor main_engineering_graph True ''wf''
      (demo_engine [(''pi'', demo_descriptor)]) = Some (Inr out, e') \<and>
    wo_result out = Some res \<and> wf_stage (wo_state out) = Complete"
proof -
  let ?e = "\<lparr>checkpoints = [], registry = [(''pi'', demo_descriptor)], world = 0::nat\<rparr>"
  have sel: "select_executor True True 0 None (registry ?e) \<noteq> None"
    by (simp add: select_executor_def dict_values_def executor_fits_def demo_descriptor_def)
  have tot: "\<exists>r x'. demo_executor rq x = (Inr r, x')" for rq x
    by (simp add: demo_executor_def)
  have start: "start_workflow ''wf'' 0 demo_project (new_work_item ''w'' ''p'' ''T'') demo_repository
      ''HEAD'' ?e = (fst (start_workflow ''wf'' 0 demo_project (new_work_item ''w'' ''p'' ''T'')
        demo_repository ''HEAD'' ?e), demo_engine [(''pi'', demo_descriptor)])"
    by (simp add: demo_engine_def)
  obtain rq x res x' out e' where "demo_executor rq x = (Inr res, x')"
    "resume_workflow 11 demo_fresh demo_executor main_engineering_graph True ''wf''
      (demo_engine [(''pi'', demo_descriptor)]) = Some (Inr out, e')"
    "wo_result out = Some res" "wf_stage (wo_state out) = Complete"
    using any_execution_result_completes [where run = demo_executor and fresh = demo_fresh
        and has_pr = True, OF sel tot start] by blast
  moreover from this(1) have "rs_status res = Ex_Failed"
    by (auto simp: demo_executor_def demo_result_def)
  ultimately show ?thesis by blast
qed

end
