(* ===== verification/Code_Graph.thy ===== *)
theory Code_Graph
  imports Json
begin

text \<open>
  Symbols and relations of a repository revision (\<open>domain/code_intelligence.py\<close>), the
  in-memory code graph (\<open>adapters/in_memory/code_graph.py\<close>), the queries of
  \<open>application/code_intelligence.py\<close> on it, and the impact analysis
  (\<open>application/impact_analysis.py\<close>). A confidence is kept in hundredths.
\<close>

subsection \<open>Symbols, relations and files\<close>

datatype symbol_kind = Module_Symbol | Class_Symbol | Function_Symbol | Method_Symbol
  | Import_Symbol | Variable_Symbol | Parameter_Symbol

fun symbol_kind_value :: "symbol_kind \<Rightarrow> string" where
  "symbol_kind_value Module_Symbol = ''module''"
| "symbol_kind_value Class_Symbol = ''class''"
| "symbol_kind_value Function_Symbol = ''function''"
| "symbol_kind_value Method_Symbol = ''method''"
| "symbol_kind_value Import_Symbol = ''import''"
| "symbol_kind_value Variable_Symbol = ''variable''"
| "symbol_kind_value Parameter_Symbol = ''parameter''"

record symbol_identity =
  si_repository_id :: uuid
  si_revision :: string
  si_module :: string
  si_qualified_name :: string
  si_kind :: symbol_kind

definition identity_key :: "symbol_identity \<Rightarrow> string" where
  "identity_key i =
     join '':'' [si_repository_id i, si_revision i, si_module i, si_qualified_name i,
                 symbol_kind_value (si_kind i)]"

record symbol_location =
  loc_path :: string
  loc_start_line :: int
  loc_start_column :: int
  loc_end_line :: int
  loc_end_column :: int

record symbol =
  sy_id :: uuid
  sy_identity :: symbol_identity
  sy_name :: string
  sy_path :: string
  sy_kind :: symbol_kind
  sy_location :: symbol_location
  sy_qualified_name :: string
  sy_parameters :: "string list"
  sy_return_annotation :: "string option"
  sy_decorators :: "string list"
  sy_docstring :: "string option"
  sy_content_hash :: "string option"
  sy_metadata :: "(string \<times> json) list"

definition symbol_key :: "symbol \<Rightarrow> string" where
  "symbol_key s = identity_key (sy_identity s)"

datatype code_relation_type = Imports | Calls | Instantiates | Inherits | Implements | Overrides
  | Reads | Writes | Tests

record code_relation =
  cr_rel_id :: uuid
  cr_type :: code_relation_type
  cr_source :: symbol_identity
  cr_target :: symbol_identity
  cr_repository_id :: uuid
  cr_revision :: string
  cr_source_path :: string
  cr_target_path :: "string option"
  cr_confidence :: int
  cr_metadata :: "(string \<times> json) list"

record import_statement =
  im_module :: string
  im_name :: "string option"
  im_alias :: "string option"
  im_is_relative :: bool
  im_level :: int
  im_is_local :: "bool option"
  im_location :: symbol_location

record parsed_file =
  pf_path :: string
  pf_module :: string
  pf_language :: string
  pf_repository_id :: uuid
  pf_revision :: string
  pf_content_hash :: string
  pf_symbols :: "symbol list"
  pf_imports :: "import_statement list"
  pf_relations :: "code_relation list"
  pf_metadata :: "(string \<times> json) list"

definition slashes :: "string \<Rightarrow> string" where
  "slashes p = map (\<lambda>c. if code c = 92 then CHR ''/'' else c) p"

text \<open>\<open>s.rsplit(c, 1)[-1]\<close> and \<open>s.rsplit(c, 1)[0]\<close> for a string that contains \<open>c\<close>.\<close>

definition after_last :: "char \<Rightarrow> string \<Rightarrow> string" where
  "after_last c s = last (split_on c s)"

definition before_last :: "char \<Rightarrow> string \<Rightarrow> string" where
  "before_last c s = join [c] (butlast (split_on c s))"

definition module_from_path :: "string \<Rightarrow> string" where
  "module_from_path path =
     (let n = slashes path;
          m = (if ends_with n ''.py'' then take (length n - 3) n
               else if CHR ''.'' \<in> set (after_last (CHR ''/'') n) then before_last (CHR ''.'') n
               else n);
          parts = filter (\<lambda>p. p \<noteq> [] \<and> p \<noteq> ''__init__'') (split_on (CHR ''/'') m)
      in join ''.'' parts)"

definition is_test_path :: "string \<Rightarrow> bool" where
  "is_test_path path =
     (let n = slashes path;
          parts = map lower (split_on (CHR ''/'') n);
          name = after_last (CHR ''/'') n
      in (\<exists>p \<in> set parts. p \<in> {''test'', ''tests'', ''spec'', ''specs'', ''__tests__''}) \<or>
         starts_with name ''test_'' \<or> ends_with name ''_test.py'')"

subsection \<open>The in-memory code graph\<close>

record code_graph =
  cg_symbols :: "(uuid \<times> string \<times> string, symbol) dict"
  cg_relations :: "(uuid \<times> string \<times> uuid, code_relation) dict"
  cg_files :: "(uuid \<times> string \<times> string, parsed_file) dict"

definition empty_code_graph :: code_graph where
  "empty_code_graph = \<lparr>cg_symbols = [], cg_relations = [], cg_files = []\<rparr>"

definition save_symbols :: "symbol list \<Rightarrow> code_graph \<Rightarrow> code_graph" where
  "save_symbols ss g =
     g\<lparr>cg_symbols := fold (\<lambda>s. dict_set (si_repository_id (sy_identity s), si_revision (sy_identity s),
                                        symbol_key s) s) ss (cg_symbols g)\<rparr>"

definition save_relations :: "code_relation list \<Rightarrow> code_graph \<Rightarrow> code_graph" where
  "save_relations rs g =
     g\<lparr>cg_relations := fold (\<lambda>r. dict_set (cr_repository_id r, cr_revision r, cr_rel_id r) r) rs
                             (cg_relations g)\<rparr>"

definition save_parsed_file :: "parsed_file \<Rightarrow> code_graph \<Rightarrow> code_graph" where
  "save_parsed_file p g =
     (let g' = save_relations (pf_relations p) (save_symbols (pf_symbols p) g)
      in g'\<lparr>cg_files := dict_set (pf_repository_id p, pf_revision p, pf_path p) p (cg_files g')\<rparr>)"

definition get_symbol :: "uuid \<Rightarrow> string \<Rightarrow> string \<Rightarrow> code_graph \<Rightarrow> symbol option" where
  "get_symbol repo rvn key g = dict_get (cg_symbols g) (repo, rvn, key)"

text \<open>Whether an entry of a dictionary belongs to the revision: \<open>key[:2] == prefix\<close>.\<close>

definition of_revision :: "uuid \<Rightarrow> string \<Rightarrow> (uuid \<times> string \<times> string) \<times> 'v \<Rightarrow> bool" where
  "of_revision repo rvn e = (fst (fst e) = repo \<and> fst (snd (fst e)) = rvn)"

definition list_symbols :: "uuid \<Rightarrow> string \<Rightarrow> code_graph \<Rightarrow> symbol list" where
  "list_symbols repo rvn g =
     map snd (filter (of_revision repo rvn) (cg_symbols g))"

definition list_relations :: "uuid \<Rightarrow> string \<Rightarrow> code_graph \<Rightarrow> code_relation list" where
  "list_relations repo rvn g =
     map snd (filter (of_revision repo rvn) (cg_relations g))"

definition find_symbol :: "uuid \<Rightarrow> string \<Rightarrow> string \<Rightarrow> code_graph \<Rightarrow> symbol list" where
  "find_symbol repo rvn q g = filter (\<lambda>s. sy_qualified_name s = q) (list_symbols repo rvn g)"

definition expire_revision :: "uuid \<Rightarrow> string \<Rightarrow> code_graph \<Rightarrow> code_graph" where
  "expire_revision repo rvn g =
     \<lparr>cg_symbols = filter (\<lambda>e. \<not> of_revision repo rvn e) (cg_symbols g),
      cg_relations = filter (\<lambda>e. \<not> of_revision repo rvn e) (cg_relations g),
      cg_files = filter (\<lambda>e. \<not> of_revision repo rvn e) (cg_files g)\<rparr>"

text \<open>\<open>where_defined\<close>, \<open>what_calls\<close> and \<open>what_is_called_by\<close> of the service.\<close>

definition where_defined :: "uuid \<Rightarrow> string \<Rightarrow> string \<Rightarrow> code_graph \<Rightarrow> symbol list" where
  "where_defined repo rvn q g = find_symbol repo rvn q g"

definition what_calls :: "uuid \<Rightarrow> string \<Rightarrow> string \<Rightarrow> code_graph \<Rightarrow> code_relation list" where
  "what_calls repo rvn q g =
     (let ss = find_symbol repo rvn q g in
      if ss = [] then []
      else filter (\<lambda>r. identity_key (cr_target r) \<in> set (map symbol_key ss) \<and> cr_type r = Calls)
             (list_relations repo rvn g))"

definition what_is_called_by :: "uuid \<Rightarrow> string \<Rightarrow> string \<Rightarrow> code_graph \<Rightarrow> code_relation list" where
  "what_is_called_by repo rvn q g =
     (let ss = find_symbol repo rvn q g in
      if ss = [] then []
      else filter (\<lambda>r. identity_key (cr_source r) \<in> set (map symbol_key ss) \<and> cr_type r = Calls)
             (list_relations repo rvn g))"

subsection \<open>Impact analysis\<close>

text \<open>The first of each group of elements with the same key, in order.\<close>

fun first_per_key :: "('a \<Rightarrow> 'k) \<Rightarrow> 'k list \<Rightarrow> 'a list \<Rightarrow> 'a list" where
  "first_per_key f seen [] = []"
| "first_per_key f seen (x # xs) =
     (if f x \<in> set seen then first_per_key f seen xs
      else x # first_per_key f (f x # seen) xs)"

definition select_primary :: "symbol list \<Rightarrow> string list \<Rightarrow> symbol list" where
  "select_primary ss targets =
     first_per_key symbol_key []
       (concat (map (\<lambda>t.
          let cands = filter (\<lambda>s. sy_qualified_name s = t) ss in
          if cands \<noteq> [] then cands
          else filter (\<lambda>s. after_last (CHR ''.'') (sy_qualified_name s) = t) ss) targets))"

text \<open>
  The risk score in hundredths: the source adds multiples of 0.05, so its rounding to two
  digits gives exactly this number.
\<close>

definition risk_score :: "symbol list \<Rightarrow> code_relation list \<Rightarrow> string list \<Rightarrow> int" where
  "risk_score primary revs files =
     (if primary = [] then 0
      else min 100 (min 40 (10 * int (length revs)) + min 30 (5 * int (length files)) +
        (if \<exists>s \<in> set primary. \<exists>t \<in> {''core'', ''service'', ''domain'', ''model''}.
              contains t (lower (si_module (sy_identity s)))
         then 15 else 0)))"

record impact_analysis =
  ia_primary :: "symbol list"
  ia_dependents :: "code_relation list"
  ia_reverse :: "code_relation list"
  ia_related_files :: "string list"
  ia_related_tests :: "string list"
  ia_interfaces :: "string list"
  ia_configuration :: "string list"
  ia_risk :: int

definition option_list :: "'a option \<Rightarrow> 'a list" where
  "option_list x = (case x of None \<Rightarrow> [] | Some v \<Rightarrow> [v])"

definition config_file :: "string \<Rightarrow> bool" where
  "config_file p = (\<exists>e \<in> {''.yaml'', ''.yml'', ''.toml'', ''.ini'', ''.cfg'', ''.env''}. ends_with p e)"

definition analyze_impact :: "uuid \<Rightarrow> string \<Rightarrow> string list \<Rightarrow> code_graph \<Rightarrow> impact_analysis" where
  "analyze_impact repo rvn targets g =
     (let symbols = list_symbols repo rvn g;
          relations = list_relations repo rvn g;
          primary = select_primary symbols targets;
          keys = set (map symbol_key primary);
          dependents = filter (\<lambda>r. cr_type r = Calls \<and> identity_key (cr_target r) \<in> keys) relations;
          reverse = filter (\<lambda>r. cr_type r = Calls \<and> identity_key (cr_source r) \<in> keys) relations;
          files = sorted_set
            (concat (map (\<lambda>r. filter (\<lambda>p. p \<noteq> []) (option_list (cr_target_path r)) @
                              filter (\<lambda>p. p \<noteq> []) [cr_source_path r]) (dependents @ reverse)) @
             map sy_path primary);
          tests = concat (map (\<lambda>r. if cr_type r = Tests
                                   then filter (\<lambda>p. p \<in> set files) (option_list (cr_target_path r))
                                   else []) relations);
          test_symbols = filter is_test_path (map sy_path symbols)
      in \<lparr>ia_primary = primary, ia_dependents = dependents, ia_reverse = reverse,
          ia_related_files = files, ia_related_tests = sorted_set (tests @ test_symbols),
          ia_interfaces = sorted_set (map (\<lambda>r. si_qualified_name (cr_target r))
                            (filter (\<lambda>r. cr_type r = Calls) reverse)),
          ia_configuration = filter config_file files,
          ia_risk = risk_score primary reverse files\<rparr>)"

subsection \<open>Lemmas\<close>

lemma first_per_key_keys:
  "set (map f (first_per_key f seen xs)) = set (map f xs) - set seen"
  by (induction xs arbitrary: seen) (auto split: if_splits)

lemma first_per_key_distinct:
  "distinct (map f (first_per_key f seen xs)) \<and> set (map f (first_per_key f seen xs)) \<inter> set seen = {}"
proof (induction xs arbitrary: seen)
  case (Cons x xs)
  from Cons [of seen] Cons [of "f x # seen"] show ?case by auto
qed simp

lemma first_per_key_subset: "set (first_per_key f seen xs) \<subseteq> set xs"
  by (induction xs arbitrary: seen) (auto split: if_splits)

lemma select_primary_member:
  assumes "s \<in> set (select_primary ss ts)"
  shows "s \<in> set ss \<and> (\<exists>t \<in> set ts. sy_qualified_name s = t \<or> after_last (CHR ''.'') (sy_qualified_name s) = t)"
  using subsetD [OF first_per_key_subset assms [unfolded select_primary_def]]
  by (auto simp: Let_def split: if_splits)

lemma select_primary_complete:
  assumes "s \<in> set ss" and "sy_qualified_name s \<in> set ts"
  shows "symbol_key s \<in> set (map symbol_key (select_primary ss ts))"
proof -
  have "s \<in> set (concat (map (\<lambda>t. let cands = filter (\<lambda>s. sy_qualified_name s = t) ss in
      if cands \<noteq> [] then cands
      else filter (\<lambda>s. after_last (CHR ''.'') (sy_qualified_name s) = t) ss) ts))"
    using assms by (auto simp: Let_def filter_empty_conv intro!: bexI [of _ "sy_qualified_name s"])
  then show ?thesis unfolding select_primary_def first_per_key_keys by simp
qed

lemma select_primary_none [simp]: "select_primary ss [] = []"
  by (simp add: select_primary_def)

lemma analyze_impact_none: "ia_related_files (analyze_impact repo rvn [] g) = []"
  by (simp add: analyze_impact_def Let_def)

lemma sorted_set_member: "x \<in> set xs \<Longrightarrow> x \<in> set (sorted_set xs)"
  by simp

subsection \<open>Properties\<close>


definition demo_identity :: "string \<Rightarrow> symbol_identity" where
  "demo_identity q = \<lparr>si_repository_id = ''r'', si_revision = ''v'', si_module = ''app'',
     si_qualified_name = q, si_kind = Function_Symbol\<rparr>"

definition demo_symbol :: "string \<Rightarrow> string \<Rightarrow> symbol" where
  "demo_symbol q p = \<lparr>sy_id = q, sy_identity = demo_identity q, sy_name = q, sy_path = p,
     sy_kind = Function_Symbol, sy_location = \<lparr>loc_path = p, loc_start_line = 1, loc_start_column = 0,
       loc_end_line = 2, loc_end_column = 0\<rparr>, sy_qualified_name = q, sy_parameters = [],
     sy_return_annotation = None, sy_decorators = [], sy_docstring = None, sy_content_hash = None,
     sy_metadata = []\<rparr>"

definition demo_call :: "string \<Rightarrow> string \<Rightarrow> code_relation" where
  "demo_call a b = \<lparr>cr_rel_id = a @ b, cr_type = Calls, cr_source = demo_identity a,
     cr_target = demo_identity b, cr_repository_id = ''r'', cr_revision = ''v'',
     cr_source_path = ''app/a.py'', cr_target_path = Some ''app/b.py'', cr_confidence = 80,
     cr_metadata = []\<rparr>"

definition demo_graph :: code_graph where
  "demo_graph = save_relations [demo_call ''app.f'' ''app.g'']
     (save_symbols [demo_symbol ''app.f'' ''app/a.py'', demo_symbol ''app.g'' ''app/b.py'']
        empty_code_graph)"


text \<open>
  Expiring a revision removes all of it and nothing else: the revision has no symbols and
  no relations afterwards and every other revision, of this or another repository, lists and
  looks up what it did before.
\<close>

theorem expire_revision_isolates:
  "list_symbols repo rvn (expire_revision repo rvn g) = [] \<and>
   list_relations repo rvn (expire_revision repo rvn g) = [] \<and>
   get_symbol repo rvn key (expire_revision repo rvn g) = None \<and>
   ((repo', rvn') \<noteq> (repo, rvn) \<longrightarrow>
      list_symbols repo' rvn' (expire_revision repo rvn g) = list_symbols repo' rvn' g \<and>
      list_relations repo' rvn' (expire_revision repo rvn g) = list_relations repo' rvn' g \<and>
      get_symbol repo' rvn' key (expire_revision repo rvn g) = get_symbol repo' rvn' key g)"
proof -
  have lookup: "map_of (filter (\<lambda>e. \<not> of_revision repo rvn e) d) (a', b', k') =
      (if a' = repo \<and> b' = rvn then None else map_of d (a', b', k'))"
    for d :: "((uuid \<times> string \<times> string) \<times> symbol) list" and a' b' k'
    by (induction d) (auto simp: of_revision_def)
  have part: "filter (\<lambda>e. \<not> of_revision repo rvn e \<and> of_revision repo' rvn' e) d =
      filter (of_revision repo' rvn') d" if "(repo', rvn') \<noteq> (repo, rvn)"
    for d :: "((uuid \<times> string \<times> string) \<times> 'z) list"
    using that by (induction d) (auto simp: of_revision_def)
  show ?thesis
    by (simp add: expire_revision_def list_symbols_def list_relations_def get_symbol_def lookup part)
qed

theorem expire_revision_isolates_witness:
  "list_symbols ''r'' ''w'' (expire_revision ''r'' ''v'' demo_graph) = list_symbols ''r'' ''w'' demo_graph"
  using expire_revision_isolates [of "''r''" "''v''" demo_graph "[]" "''r''" "''w''"] by simp

end
