(* ===== verification/Verification.thy ===== *)
theory Verification
  imports Code_Graph
begin

text \<open>
  The verification engine (\<open>application/verification_engine.py\<close>) with its plan, run and
  readiness records (\<open>domain/verification_plan.py\<close>) and the store of runs
  (\<open>adapters/in_memory/verification.py\<close>).

  The command runner is a parameter on a world \<open>'x\<close>; it may raise. \<open>re.search\<close> is a
  parameter too, since the patterns of the architecture rules are configuration.
\<close>

subsection \<open>Plans, runs and readiness\<close>

datatype check_kind = Unit_Tests | Integration_Tests | Lint | Format | Type_Check | Build
  | Structural | Architecture | Test_Relevance

fun check_kind_value :: "check_kind \<Rightarrow> string" where
  "check_kind_value Unit_Tests = ''unit_tests''"
| "check_kind_value Integration_Tests = ''integration_tests''"
| "check_kind_value Lint = ''lint''"
| "check_kind_value Format = ''format''"
| "check_kind_value Type_Check = ''type_check''"
| "check_kind_value Build = ''build''"
| "check_kind_value Structural = ''structural''"
| "check_kind_value Architecture = ''architecture''"
| "check_kind_value Test_Relevance = ''test_relevance''"

datatype check_status = Check_Pending | Check_Pass | Check_Partial | Check_Fail | Check_Skipped
  | Check_Blocked

datatype verdict = Pass | Partial | Fail | Verdict_Blocked

fun verdict_value :: "verdict \<Rightarrow> string" where
  "verdict_value Pass = ''pass''"
| "verdict_value Partial = ''partial''"
| "verdict_value Fail = ''fail''"
| "verdict_value Verdict_Blocked = ''blocked''"

record verification_step =
  vs_id :: uuid
  vs_kind :: check_kind
  vs_name :: string
  vs_command :: "string option"
  vs_status :: check_status
  vs_output :: string
  vs_detail :: "(string \<times> json) list"

record verification_plan =
  vp_id :: uuid
  vp_execution_id :: uuid
  vp_work_item_id :: uuid
  vp_steps :: "verification_step list"
  vp_created_at :: datetime
  vp_metadata :: "(string \<times> json) list"

record verification_run =
  vr_id :: uuid
  vr_execution_id :: uuid
  vr_plan :: verification_plan
  vr_verdict :: verdict
  vr_started_at :: datetime
  vr_completed_at :: "datetime option"
  vr_issues :: "string list"
  vr_feedback :: "string list"
  vr_pr_allowed :: bool

record pr_readiness_decision =
  pr_run_id :: uuid
  pr_verdict :: string
  pr_allowed :: bool
  pr_reasons :: "string list"

record architecture_rule =
  ar_id :: uuid
  ar_name :: string
  ar_source_pattern :: string
  ar_target_pattern :: string
  ar_relation :: string

record test_relevance_report =
  tr_relevant :: "string list"
  tr_run :: "string list"
  tr_modified :: "string list"
  tr_added :: "string list"
  tr_missing :: "string list"

subsection \<open>The store of runs\<close>

type_synonym run_store = "(uuid, verification_run) dict"

definition save_run :: "verification_run \<Rightarrow> run_store \<Rightarrow> run_store" where
  "save_run r s = dict_set (vr_id r) r s"

definition get_run :: "uuid \<Rightarrow> run_store \<Rightarrow> verification_run option" where
  "get_run i s = dict_get s i"

definition list_runs_for_execution :: "uuid \<Rightarrow> run_store \<Rightarrow> verification_run list" where
  "list_runs_for_execution x s = filter (\<lambda>r. vr_execution_id r = x) (dict_values s)"

definition delete_run :: "uuid \<Rightarrow> run_store \<Rightarrow> run_store" where
  "delete_run i s = dict_pop i s"

subsection \<open>The checks\<close>

text \<open>\<open>int(s)\<close> of a string: optional sign, digits with single underscores between them.\<close>

definition is_digit :: "char \<Rightarrow> bool" where
  "is_digit c = (48 \<le> code c \<and> code c \<le> 57)"

fun digits_value :: "nat \<Rightarrow> bool \<Rightarrow> string \<Rightarrow> nat option" where
  "digits_value acc after_digit [] = (if after_digit then Some acc else None)"
| "digits_value acc after_digit (c # cs) =
     (if is_digit c then digits_value (10 * acc + (code c - 48)) True cs
      else if code c = 95 \<and> after_digit then digits_value acc False cs
      else None)"

definition parse_int :: "string \<Rightarrow> int option" where
  "parse_int s =
     (case strip s of
        [] \<Rightarrow> None
      | c # cs \<Rightarrow>
          if code c = 45 then map_option (\<lambda>n. - int n) (digits_value 0 False cs)
          else if code c = 43 then map_option int (digits_value 0 False cs)
          else map_option int (digits_value 0 False (c # cs)))"

text \<open>\<open>_exit_code\<close>: a missing code is 0, a code that is no number is 1.\<close>

definition exit_code :: "(string \<times> json) list \<Rightarrow> int" where
  "exit_code result =
     (let v = (case map_of result ''exit_code'' of None \<Rightarrow> JInt 0 | Some x \<Rightarrow> x) in
      case parse_int (py_str v) of None \<Rightarrow> 1 | Some n \<Rightarrow> n)"

definition result_text :: "(string \<times> json) list \<Rightarrow> string \<Rightarrow> string" where
  "result_text result k = (case map_of result k of None \<Rightarrow> [] | Some v \<Rightarrow> py_str v)"

type_synonym 'x command_runner =
  "string \<Rightarrow> string option \<Rightarrow> 'x \<Rightarrow> ('x, (string \<times> json) list) outcome"

definition command_step :: "uuid \<Rightarrow> check_kind \<Rightarrow> string \<Rightarrow> (string \<times> json) list \<Rightarrow> verification_step" where
  "command_step i k cmd result =
     \<lparr>vs_id = i, vs_kind = k, vs_name = check_kind_value k, vs_command = Some cmd,
      vs_status = (if exit_code result = 0 then Check_Pass else Check_Fail),
      vs_output = result_text result ''stdout'' @ result_text result ''stderr'',
      vs_detail = [(''exit_code'', JInt (exit_code result)), (''command'', JStr cmd)]\<rparr>"

fun run_command_steps :: "(nat \<Rightarrow> uuid) \<Rightarrow> 'x command_runner \<Rightarrow> string option
    \<Rightarrow> (check_kind \<times> string) list \<Rightarrow> nat \<Rightarrow> 'x \<Rightarrow> ('x, verification_step list) outcome" where
  "run_command_steps ids runner ws [] n x = (Inr [], x)"
| "run_command_steps ids runner ws ((k, cmd) # rest) n x =
     (case runner cmd ws x of
        (Inl e, x') \<Rightarrow> (Inl e, x')
      | (Inr result, x') \<Rightarrow>
          (case run_command_steps ids runner ws rest (Suc n) x' of
             (Inl e, x'') \<Rightarrow> (Inl e, x'')
           | (Inr steps, x'') \<Rightarrow> (Inr (command_step (ids n) k cmd result # steps), x'')))"

definition jstrs :: "string list \<Rightarrow> json" where
  "jstrs xs = JList (map JStr xs)"

definition structural_step :: "uuid \<Rightarrow> string list \<Rightarrow> string list \<Rightarrow> verification_step" where
  "structural_step i changed expected =
     (let missing = sort (filter (\<lambda>e. e \<notin> set changed) (remdups expected)) in
      \<lparr>vs_id = i, vs_kind = Structural, vs_name = ''structural change analysis'', vs_command = None,
       vs_status = (if missing = [] then Check_Pass else Check_Fail),
       vs_output = (if missing = [] then [] else ''missing expected changes: '' @ join '', '' missing),
       vs_detail = [(''changed_files'', jstrs (sort changed)), (''expected'', jstrs (sorted_set expected)),
                    (''missing'', jstrs missing)]\<rparr>)"

definition violations :: "(string \<Rightarrow> string \<Rightarrow> bool) \<Rightarrow> architecture_rule list \<Rightarrow> string list \<Rightarrow> string list" where
  "violations matches rules changed =
     concat (map (\<lambda>r. map (\<lambda>p. p @ '': '' @ ar_name r @ '' ('' @ ar_relation r @ '')'')
                        (filter (\<lambda>p. matches (ar_source_pattern r) p) changed)) rules)"

definition architecture_step :: "(string \<Rightarrow> string \<Rightarrow> bool) \<Rightarrow> architecture_rule list \<Rightarrow> uuid
    \<Rightarrow> string list \<Rightarrow> verification_step" where
  "architecture_step matches rules i changed =
     (let vs = violations matches rules changed in
      \<lparr>vs_id = i, vs_kind = Architecture, vs_name = ''architecture rule check'', vs_command = None,
       vs_status = (if vs = [] then Check_Pass else Check_Fail),
       vs_output = (if vs = [] then [] else join ''; '' vs),
       vs_detail = [(''violations'', jstrs vs)]\<rparr>)"

definition relevance_report :: "string list \<Rightarrow> string list \<Rightarrow> test_relevance_report" where
  "relevance_report changed expected =
     (let relevant = sort (filter is_test_path (remdups expected));
          modified = sort (filter is_test_path changed)
      in \<lparr>tr_relevant = relevant, tr_run = [], tr_modified = modified, tr_added = [],
          tr_missing = sorted_set (filter (\<lambda>p. p \<notin> set modified) relevant)\<rparr>)"

definition report_detail :: "test_relevance_report \<Rightarrow> (string \<times> json) list" where
  "report_detail r =
     [(''relevant_tests'', jstrs (tr_relevant r)), (''run_tests'', jstrs (tr_run r)),
      (''modified_tests'', jstrs (tr_modified r)), (''added_tests'', jstrs (tr_added r)),
      (''missing_tests'', jstrs (tr_missing r))]"

definition test_relevance_step :: "uuid \<Rightarrow> string list \<Rightarrow> string list \<Rightarrow> verification_step" where
  "test_relevance_step i changed expected =
     (let r = relevance_report changed expected in
      \<lparr>vs_id = i, vs_kind = Test_Relevance, vs_name = ''test relevance check'', vs_command = None,
       vs_status = (if tr_missing r = [] then Check_Pass else Check_Partial),
       vs_output = (if tr_missing r = [] then []
                    else ''relevant tests not touched: '' @ join '', '' (tr_missing r)),
       vs_detail = report_detail r\<rparr>)"

subsection \<open>Verdict and gate\<close>

definition step_issue :: "verification_step \<Rightarrow> string" where
  "step_issue s = vs_name s @ '': '' @ vs_output s"

definition aggregate_verdict :: "string list \<Rightarrow> string list \<Rightarrow> verification_run \<Rightarrow> verification_run" where
  "aggregate_verdict criteria changed r =
     (let steps = vp_steps (vr_plan r);
          failed = filter (\<lambda>s. vs_status s = Check_Fail) steps;
          partial = filter (\<lambda>s. vs_status s = Check_Partial) steps
      in r\<lparr>vr_issues := map step_issue failed @ map step_issue partial @
             (if changed = [] then [''no files changed by execution''] else []) @
             (if criteria = [] then [''work item has no acceptance criteria to verify''] else []),
           vr_verdict := (if failed \<noteq> [] \<or> changed = [] then Fail
                          else if partial \<noteq> [] then Partial
                          else if criteria = [] then Verdict_Blocked
                          else Pass),
           vr_feedback := map step_issue (failed @ partial)\<rparr>)"

definition pr_readiness :: "verification_run \<Rightarrow> pr_readiness_decision" where
  "pr_readiness r =
     (if vr_verdict r = Pass
      then \<lparr>pr_run_id = vr_id r, pr_verdict = verdict_value Pass, pr_allowed = True,
            pr_reasons = [''all verification checks passed'']\<rparr>
      else \<lparr>pr_run_id = vr_id r, pr_verdict = verdict_value (vr_verdict r), pr_allowed = False,
            pr_reasons = (if vr_issues r \<noteq> [] then vr_issues r
                          else [''verdict is '' @ verdict_value (vr_verdict r)])\<rparr>)"

text \<open>
  \<open>verify\<close>. The engine's state is the store of runs and the runner's world. The configuration
  is the runner, the code graph, the rules and the project's commands; \<open>ids\<close> are the fresh
  identifiers: 0 of the plan, 1 of the run, 2 and up of the steps.
\<close>

record 'x verification_config =
  vc_runner :: "'x command_runner"
  vc_graph :: code_graph
  vc_matches :: "string \<Rightarrow> string \<Rightarrow> bool"
  vc_rules :: "architecture_rule list"
  vc_commands :: "(check_kind \<times> string) list"

record verify_request =
  vq_execution_id :: uuid
  vq_work_item_id :: uuid
  vq_criteria :: "string list"
  vq_changed :: "string list"
  vq_repository_id :: "uuid option"
  vq_revision :: "string option"
  vq_workspace :: "string option"
  vq_persist :: bool

definition build_plan :: "uuid \<Rightarrow> datetime \<Rightarrow> verify_request \<Rightarrow> verification_plan" where
  "build_plan i now q =
     \<lparr>vp_id = i, vp_execution_id = vq_execution_id q, vp_work_item_id = vq_work_item_id q,
      vp_steps = [], vp_created_at = now,
      vp_metadata = [(''acceptance_criteria'', jstrs (vq_criteria q)),
                     (''changed_files'', jstrs (vq_changed q))]\<rparr>"

definition expected_files :: "'x verification_config \<Rightarrow> verify_request \<Rightarrow> string list" where
  "expected_files cfg q =
     (case (vq_repository_id q, vq_revision q) of
        (Some repo, Some rvn) \<Rightarrow> ia_related_files (analyze_impact repo rvn [] (vc_graph cfg))
      | _ \<Rightarrow> [])"

definition verify :: "(nat \<Rightarrow> uuid) \<Rightarrow> datetime \<Rightarrow> 'x verification_config \<Rightarrow> verify_request
    \<Rightarrow> run_store \<times> 'x \<Rightarrow> (run_store \<times> 'x, verification_run \<times> pr_readiness_decision) outcome" where
  "verify ids now cfg q s =
     (let plan = build_plan (ids 0) now q in
      case run_command_steps ids (vc_runner cfg) (vq_workspace q) (vc_commands cfg) 2 (snd s) of
        (Inl e, x) \<Rightarrow> (Inl e, (fst s, x))
      | (Inr cmds, x) \<Rightarrow>
          (let n = 2 + length (vc_commands cfg);
               expected = expected_files cfg q;
               steps = cmds @ [structural_step (ids n) (vq_changed q) expected,
                               architecture_step (vc_matches cfg) (vc_rules cfg) (ids (n + 1)) (vq_changed q),
                               test_relevance_step (ids (n + 2)) (vq_changed q) expected];
               r = aggregate_verdict (vq_criteria q) (vq_changed q)
                     \<lparr>vr_id = ids 1, vr_execution_id = vq_execution_id q,
                      vr_plan = plan\<lparr>vp_steps := steps\<rparr>, vr_verdict = Pass, vr_started_at = now,
                      vr_completed_at = None, vr_issues = [], vr_feedback = [], vr_pr_allowed = False\<rparr>
           in (Inr (r, pr_readiness r), (if vq_persist q then save_run r (fst s) else fst s, x))))"

subsection \<open>Reading exit codes\<close>

lemma code_digit: "k < 10 \<Longrightarrow> code (char_of (48 + k)) = 48 + k"
  by (simp add: code_def)

lemma digits_value_append:
  "cs \<noteq> [] \<Longrightarrow> \<forall>c \<in> set cs. is_digit c \<Longrightarrow>
     digits_value acc b (cs @ ds) = digits_value (foldl (\<lambda>a c. 10 * a + (code c - 48)) acc cs) True ds"
proof (induction cs arbitrary: acc b)
  case (Cons c cs)
  then show ?case by (cases "cs = []") auto
qed simp

lemma str_nat_digits:
  "(\<forall>c \<in> set (str_nat n). is_digit c) \<and> foldl (\<lambda>a c. 10 * a + (code c - 48)) 0 (str_nat n) = n"
proof (induction n rule: str_nat.induct)
  case (1 n)
  show ?case
  proof (cases "n < 10")
    case True
    then show ?thesis by (subst (1 2) str_nat.simps) (simp add: is_digit_def code_digit)
  next
    case False
    with 1 have rec: "\<forall>c \<in> set (str_nat (n div 10)). is_digit c"
      "foldl (\<lambda>a c. 10 * a + (code c - 48)) 0 (str_nat (n div 10)) = n div 10" by auto
    have "code (char_of (48 + n mod 10)) = 48 + n mod 10" by (intro code_digit) simp
    with False rec show ?thesis by (subst (1 2) str_nat.simps) (simp add: is_digit_def)
  qed
qed

lemma digits_value_str_nat: "digits_value 0 False (str_nat n) = Some n"
  using digits_value_append [of "str_nat n" 0 False "[]"] str_nat_digits [of n] by simp

lemma strip_no_space:
  assumes "\<forall>c \<in> set s. \<not> is_space c"
  shows "strip s = s"
proof -
  have drop: "dropWhile is_space xs = xs" if "\<forall>c \<in> set xs. \<not> is_space c" for xs
    using that by (cases xs) auto
  show ?thesis using drop [of s] drop [of "rev s"] assms by (simp add: strip_def)
qed

lemma digit_not_space: "is_digit c \<Longrightarrow> \<not> is_space c"
  by (auto simp: is_digit_def is_space_def Let_def)

lemma parse_int_str_int: "parse_int (str_int n) = Some n"
proof (cases "n < 0")
  case True
  let ?s = "CHR ''-'' # str_nat (nat (- n))"
  have "\<forall>c \<in> set ?s. \<not> is_space c"
    using str_nat_digits [of "nat (- n)"] digit_not_space by (auto simp: is_space_def code_def)
  with True show ?thesis
    by (simp add: parse_int_def str_int_def strip_no_space code_def digits_value_str_nat)
next
  case False
  let ?s = "str_nat (nat n)"
  have digits: "\<forall>c \<in> set ?s. is_digit c" using str_nat_digits by blast
  with digit_not_space have "strip ?s = ?s" by (intro strip_no_space) blast
  moreover obtain c cs where "?s = c # cs" by (cases ?s) auto
  moreover from this digits have "code c \<noteq> 45" "code c \<noteq> 43" by (auto simp: is_digit_def)
  ultimately show ?thesis
    using False digits_value_str_nat [of "nat n"] by (simp add: parse_int_def str_int_def)
qed

subsection \<open>What the command steps say of the runner\<close>

text \<open>The specification of the deterministic checks: every command ran and exited with 0.\<close>

fun all_succeed :: "'x command_runner \<Rightarrow> string option \<Rightarrow> (check_kind \<times> string) list \<Rightarrow> 'x \<Rightarrow> bool" where
  "all_succeed runner ws [] x = True"
| "all_succeed runner ws ((k, cmd) # rest) x =
     (case runner cmd ws x of
        (Inl e, x') \<Rightarrow> False
      | (Inr result, x') \<Rightarrow> exit_code result = 0 \<and> all_succeed runner ws rest x')"

lemma run_command_steps_spec:
  "run_command_steps ids runner ws cmds n x = (Inr steps, x') \<Longrightarrow>
     (filter (\<lambda>s. vs_status s = Check_Fail) steps = []) = all_succeed runner ws cmds x \<and>
     filter (\<lambda>s. vs_status s = Check_Partial) steps = [] \<and>
     map vs_command steps = map (Some \<circ> snd) cmds"
proof (induction cmds arbitrary: n x steps)
  case (Cons kc rest)
  obtain k cmd where kc: "kc = (k, cmd)" by (cases kc)
  with Cons.prems obtain result y tail where "runner cmd ws x = (Inr result, y)"
    "run_command_steps ids runner ws rest (Suc n) y = (Inr tail, x')"
    "steps = command_step (ids n) k cmd result # tail"
    by (auto split: prod.splits sum.splits)
  with Cons.IH [of "Suc n" y tail] kc show ?case by (auto simp: command_step_def)
qed simp

lemma run_command_steps_kinds:
  "run_command_steps ids runner ws cmds n x = (Inr steps, x') \<Longrightarrow> map vs_kind steps = map fst cmds"
proof (induction cmds arbitrary: n x steps)
  case (Cons kc rest)
  obtain k cmd where "kc = (k, cmd)" by (cases kc)
  with Cons show ?case by (fastforce simp: command_step_def split: prod.splits sum.splits)
qed simp

lemma expected_files_none: "expected_files cfg q = []"
  by (auto simp: expected_files_def analyze_impact_none split: option.splits)

lemma structural_step_pass [simp]: "vs_status (structural_step i changed []) = Check_Pass"
  by (simp add: structural_step_def Let_def)

lemma test_relevance_step_pass [simp]: "vs_status (test_relevance_step i changed []) = Check_Pass"
  by (simp add: test_relevance_step_def relevance_report_def Let_def)

lemma architecture_step_status:
  "vs_status (architecture_step m rules i changed) =
     (if \<exists>r \<in> set rules. \<exists>p \<in> set changed. m (ar_source_pattern r) p then Check_Fail else Check_Pass)"
  by (auto simp: architecture_step_def violations_def Let_def filter_empty_conv)

text \<open>The verdict as a function of the inputs.\<close>

definition expected_verdict :: "'x verification_config \<Rightarrow> verify_request \<Rightarrow> 'x \<Rightarrow> verdict" where
  "expected_verdict cfg q x =
     (if \<not> all_succeed (vc_runner cfg) (vq_workspace q) (vc_commands cfg) x \<or>
         (\<exists>r \<in> set (vc_rules cfg). \<exists>p \<in> set (vq_changed q). vc_matches cfg (ar_source_pattern r) p) \<or>
         vq_changed q = []
      then Fail
      else if vq_criteria q = [] then Verdict_Blocked else Pass)"

lemma verify_cases:
  assumes "verify ids now cfg q s = (Inr (r, d), s')"
  obtains cmds x where
    "run_command_steps ids (vc_runner cfg) (vq_workspace q) (vc_commands cfg) 2 (snd s) = (Inr cmds, x)"
    "r = aggregate_verdict (vq_criteria q) (vq_changed q)
        \<lparr>vr_id = ids 1, vr_execution_id = vq_execution_id q,
         vr_plan = (build_plan (ids 0) now q)\<lparr>vp_steps := cmds @
           [structural_step (ids (2 + length (vc_commands cfg))) (vq_changed q) [],
            architecture_step (vc_matches cfg) (vc_rules cfg) (ids (2 + length (vc_commands cfg) + 1)) (vq_changed q),
            test_relevance_step (ids (2 + length (vc_commands cfg) + 2)) (vq_changed q) []]\<rparr>,
         vr_verdict = Pass, vr_started_at = now, vr_completed_at = None, vr_issues = [],
         vr_feedback = [], vr_pr_allowed = False\<rparr>"
    "d = pr_readiness r" "s' = (if vq_persist q then save_run r (fst s) else fst s, x)"
  using assms unfolding verify_def by (auto simp: Let_def expected_files_none split: prod.splits sum.splits)

lemma verify_verdict:
  assumes "verify ids now cfg q s = (Inr (r, d), s')"
  shows "vr_verdict r = expected_verdict cfg q (snd s)" and "vr_pr_allowed r = False"
    and "vr_id r = ids 1" and "vr_verdict r \<noteq> Pass \<Longrightarrow> vr_issues r \<noteq> []"
proof -
  let ?viol = "\<exists>r \<in> set (vc_rules cfg). \<exists>p \<in> set (vq_changed q). vc_matches cfg (ar_source_pattern r) p"
  let ?n = "2 + length (vc_commands cfg)"
  from assms obtain cmds x where
    run: "run_command_steps ids (vc_runner cfg) (vq_workspace q) (vc_commands cfg) 2 (snd s) = (Inr cmds, x)"
    and r: "r = aggregate_verdict (vq_criteria q) (vq_changed q)
        \<lparr>vr_id = ids 1, vr_execution_id = vq_execution_id q,
         vr_plan = (build_plan (ids 0) now q)\<lparr>vp_steps := cmds @
           [structural_step (ids ?n) (vq_changed q) [],
            architecture_step (vc_matches cfg) (vc_rules cfg) (ids (?n + 1)) (vq_changed q),
            test_relevance_step (ids (?n + 2)) (vq_changed q) []]\<rparr>,
         vr_verdict = Pass, vr_started_at = now, vr_completed_at = None, vr_issues = [],
         vr_feedback = [], vr_pr_allowed = False\<rparr>"
    by (rule verify_cases)
  note spec = run_command_steps_spec [OF run]
  show "vr_verdict r = expected_verdict cfg q (snd s)"
  proof (cases "?viol")
    case True
    then have "vs_status (architecture_step (vc_matches cfg) (vc_rules cfg) i (vq_changed q)) = Check_Fail" for i
      by (simp only: architecture_step_status if_True)
    with True show ?thesis by (simp add: r aggregate_verdict_def Let_def expected_verdict_def)
  next
    case False
    then have "vs_status (architecture_step (vc_matches cfg) (vc_rules cfg) i (vq_changed q)) = Check_Pass" for i
      by (simp only: architecture_step_status if_False)
    with False spec show ?thesis by (simp add: r aggregate_verdict_def Let_def expected_verdict_def)
  qed
  show "vr_pr_allowed r = False" "vr_id r = ids 1"
    by (simp_all add: r aggregate_verdict_def Let_def)
  show "vr_issues r \<noteq> []" if "vr_verdict r \<noteq> Pass"
    using that unfolding r aggregate_verdict_def Let_def by (auto split: if_splits)
qed

subsection \<open>A configuration for the witnesses\<close>

definition demo_runner :: "int \<Rightarrow> nat command_runner" where
  "demo_runner rc cmd ws n = (Inr [(''exit_code'', JInt rc), (''stdout'', JStr ''ok'')], Suc n)"

definition demo_config :: "int \<Rightarrow> nat verification_config" where
  "demo_config rc =
     \<lparr>vc_runner = demo_runner rc, vc_graph = empty_code_graph, vc_matches = (\<lambda>pat p. contains pat p),
      vc_rules = [\<lparr>ar_id = ''a'', ar_name = ''no core'', ar_source_pattern = ''core/'',
                   ar_target_pattern = ''api/'', ar_relation = ''MUST_NOT_DEPEND_ON''\<rparr>],
      vc_commands = [(Unit_Tests, ''pytest''), (Lint, ''ruff'')]\<rparr>"

definition demo_request :: "string list \<Rightarrow> string list \<Rightarrow> verify_request" where
  "demo_request criteria changed =
     \<lparr>vq_execution_id = ''x'', vq_work_item_id = ''w'', vq_criteria = criteria,
      vq_changed = changed, vq_repository_id = Some ''r'', vq_revision = Some ''v'',
      vq_workspace = None, vq_persist = True\<rparr>"

lemma demo_verify:
  "returns (Some (verify str_nat 0 (demo_config 0) (demo_request [''done''] [''app/a.py'']) ([], 0)))"
  by code_simp

lemma returns_someD: "returns (Some r) \<Longrightarrow> \<exists>a b s. r = (Inr (a, b), s)"
  by (auto simp: returns_def split: prod.splits sum.splits)

subsection \<open>Properties\<close>

text \<open>
  C5: the gate. The engine allows a pull request exactly when every configured command ran
  and exited with 0, no architecture rule matches a changed file, at least one file changed
  and the work item has acceptance criteria; and then the verdict is the pass verdict.
\<close>

theorem pull_request_gate:
  assumes "verify ids now cfg q s = (Inr (r, d), s')"
  shows "(pr_allowed d \<longleftrightarrow>
      all_succeed (vc_runner cfg) (vq_workspace q) (vc_commands cfg) (snd s) \<and>
      \<not> (\<exists>rule \<in> set (vc_rules cfg). \<exists>p \<in> set (vq_changed q).
           vc_matches cfg (ar_source_pattern rule) p) \<and>
      vq_changed q \<noteq> [] \<and> vq_criteria q \<noteq> []) \<and>
    (pr_allowed d \<longleftrightarrow> vr_verdict r = Pass) \<and> pr_verdict d = verdict_value (vr_verdict r)"
proof -
  from assms have d: "d = pr_readiness r" by (rule verify_cases)
  have "pr_allowed d \<longleftrightarrow> vr_verdict r = Pass" "pr_verdict d = verdict_value (vr_verdict r)"
    by (simp_all add: d pr_readiness_def)
  with verify_verdict(1) [OF assms] show ?thesis by (auto simp: expected_verdict_def)
qed

theorem pull_request_gate_witness:
  "\<exists>r d s'. verify str_nat 0 (demo_config 0) (demo_request [''done''] [''app/a.py'']) ([], 0) =
      (Inr (r, d), s') \<and> pr_allowed d"
proof -
  from returns_someD [OF demo_verify] obtain r d s' where
    run: "verify str_nat 0 (demo_config 0) (demo_request [''done''] [''app/a.py'']) ([], 0) = (Inr (r, d), s')"
    by blast
  have "pr_allowed d"
    using pull_request_gate [OF run]
    by (simp add: demo_config_def demo_request_def demo_runner_def exit_code_def parse_int_str_int
        py_str_def starts_with_iff)
  with run show ?thesis by blast
qed

text \<open>
  The verdict is a total function of the inputs with three values. It fails when a command
  fails, a rule matches or nothing changed; else it is blocked when there are no acceptance
  criteria; else it passes. The impact analysis is asked with no target symbols, so it expects
  no file: the structural and the test relevance check never fail and the partial verdict
  never occurs, with or without a repository and revision.
\<close>

theorem verification_verdict_table:
  assumes "verify ids now cfg q s = (Inr (r, d), s')"
  shows "vr_verdict r = expected_verdict cfg q (snd s) \<and> vr_verdict r \<noteq> Partial \<and>
    (\<forall>st \<in> set (vp_steps (vr_plan r)). vs_kind st \<in> {Structural, Test_Relevance} \<longrightarrow>
       vs_kind st \<notin> set (map fst (vc_commands cfg)) \<longrightarrow> vs_status st = Check_Pass) \<and>
    (vr_verdict r \<noteq> Pass \<longrightarrow> vr_issues r \<noteq> [])"
proof -
  from assms obtain cmds x where
    run: "run_command_steps ids (vc_runner cfg) (vq_workspace q) (vc_commands cfg) 2 (snd s) = (Inr cmds, x)"
    and steps: "vp_steps (vr_plan r) = cmds @
        [structural_step (ids (2 + length (vc_commands cfg))) (vq_changed q) [],
         architecture_step (vc_matches cfg) (vc_rules cfg) (ids (2 + length (vc_commands cfg) + 1)) (vq_changed q),
         test_relevance_step (ids (2 + length (vc_commands cfg) + 2)) (vq_changed q) []]"
    by (rule verify_cases) (simp add: aggregate_verdict_def Let_def)
  have kinds: "vs_kind st \<in> set (map fst (vc_commands cfg))" if "st \<in> set cmds" for st
    using run_command_steps_kinds [OF run] that by (metis image_eqI list.set_map)
  have "\<forall>st \<in> set (vp_steps (vr_plan r)). vs_kind st \<in> {Structural, Test_Relevance} \<longrightarrow>
       vs_kind st \<notin> set (map fst (vc_commands cfg)) \<longrightarrow> vs_status st = Check_Pass"
  proof (intro ballI impI)
    fix st assume st: "st \<in> set (vp_steps (vr_plan r))" "vs_kind st \<in> {Structural, Test_Relevance}"
      "vs_kind st \<notin> set (map fst (vc_commands cfg))"
    with kinds have "st \<notin> set cmds" by blast
    with st(1,2) show "vs_status st = Check_Pass"
      unfolding steps by (auto simp: architecture_step_def Let_def)
  qed
  moreover have "vr_verdict r \<noteq> Partial"
    using verify_verdict(1) [OF assms] by (simp add: expected_verdict_def)
  ultimately show ?thesis using verify_verdict(1,4) [OF assms] by blast
qed

theorem verification_verdict_table_witness:
  "\<exists>r d s'. verify str_nat 0 (demo_config 0) (demo_request [''done''] [''app/a.py'']) ([], 0) =
      (Inr (r, d), s') \<and> vr_verdict r = Pass"
proof -
  from returns_someD [OF demo_verify] obtain r d s' where
    run: "verify str_nat 0 (demo_config 0) (demo_request [''done''] [''app/a.py'']) ([], 0) = (Inr (r, d), s')"
    by blast
  have "vr_verdict r = Pass"
    using verification_verdict_table [OF run]
    by (simp add: expected_verdict_def demo_config_def demo_request_def demo_runner_def exit_code_def
        parse_int_str_int py_str_def starts_with_iff)
  with run show ?thesis by blast
qed

text \<open>
  What is stored. With persistence the run is stored under its id and every other run is
  kept; without it the store is unchanged. The stored run says that a pull request is not
  allowed whatever its verdict: only the returned readiness carries the gate's decision.
\<close>

theorem stored_run_never_allows:
  assumes "verify ids now cfg q s = (Inr (r, d), s')"
  shows "get_run i (fst s') = (if vq_persist q \<and> i = ids 1 then Some r else get_run i (fst s)) \<and>
    \<not> vr_pr_allowed r"
proof -
  from assms have "fst s' = (if vq_persist q then save_run r (fst s) else fst s)"
    by (rule verify_cases) simp
  with verify_verdict(2,3) [OF assms] show ?thesis
    by (simp add: get_run_def save_run_def store_simps)
qed

theorem stored_run_never_allows_witness:
  "\<exists>r d s'. verify str_nat 0 (demo_config 0) (demo_request [''done''] [''app/a.py'']) ([], 0) =
      (Inr (r, d), s') \<and> get_run ''1'' (fst s') = Some r \<and> \<not> vr_pr_allowed r"
proof -
  from returns_someD [OF demo_verify] obtain r d s' where
    run: "verify str_nat 0 (demo_config 0) (demo_request [''done''] [''app/a.py'']) ([], 0) = (Inr (r, d), s')"
    by blast
  have "str_nat 1 = ''1''" by code_simp
  with stored_run_never_allows [OF run, of "''1''"] run show ?thesis by (auto simp: demo_request_def)
qed

text \<open>
  An exit code given as an integer is read back exactly through its text, whatever its
  sign; a result without one counts as 0 and one that is no number as 1.
\<close>

theorem exit_code_roundtrip:
  "exit_code [(''exit_code'', JInt n)] = n \<and> exit_code [] = 0 \<and>
   exit_code [(''exit_code'', JNull)] = 1 \<and> exit_code [(''exit_code'', JStr (str_int n))] = n"
proof -
  have "parse_int ''None'' = None" "parse_int (str_int 0) = Some 0" by code_simp+
  then show ?thesis by (simp add: exit_code_def py_str_def parse_int_str_int)
qed

end
