(* ===== verification/Engineering_Workflow.thy ===== *)
theory Engineering_Workflow
  imports Workflow_Engine Verification
begin

text \<open>
  The engineering workflow as a state graph: \<open>orchestration/states.py\<close> and
  \<open>orchestration/engineering_workflow.py\<close>, and the bounded workflows of
  \<open>orchestration/bounded_workflows.py\<close>.

  A node is a function on the state and a world \<open>'x\<close>, and may raise; the edges are data. The
  graph library itself is not modelled: a run is any sequence of nodes along the declared
  edges, so a property of all runs holds of every branch the library takes, also where a node
  has two static successors. The services a node calls through the container are parameters.
  \<open>observation_ids\<close> is left out: the library merges it through its reducer, and no node or
  edge reads it.
\<close>

subsection \<open>The state\<close>

record engineering_state =
  es_workflow_id :: uuid
  es_project_id :: uuid
  es_work_item_id :: uuid
  es_repository_id :: "uuid option"
  es_base_revision :: "string option"
  es_context_capsule_id :: "uuid option"
  es_execution_id :: "uuid option"
  es_verification_id :: "uuid option"
  es_stage :: string
  es_status :: string
  es_retry_count :: int
  es_waiting_for_human :: bool
  es_correlation_id :: uuid
  es_error :: "string option"
  es_implementation_status :: "string option"
  es_modified_files :: "string list"

text \<open>\<open>initial_state\<close>: \<open>fresh_id\<close> is the identifier drawn when no correlation is given.\<close>

definition initial_state :: "uuid \<Rightarrow> uuid \<Rightarrow> uuid \<Rightarrow> uuid option \<Rightarrow> string option \<Rightarrow> uuid option
    \<Rightarrow> uuid \<Rightarrow> engineering_state" where
  "initial_state flow p w repo rvn corr fresh_id =
     \<lparr>es_workflow_id = flow, es_project_id = p, es_work_item_id = w, es_repository_id = repo,
      es_base_revision = rvn, es_context_capsule_id = None, es_execution_id = None,
      es_verification_id = None, es_stage = ''intake'', es_status = ''running'',
      es_retry_count = 0, es_waiting_for_human = False,
      es_correlation_id = opt_or corr fresh_id, es_error = None,
      es_implementation_status = None, es_modified_files = []\<rparr>"

subsection \<open>The services of the container\<close>

record 'x services =
  sv_work_item :: "uuid \<Rightarrow> 'x \<Rightarrow> work_item option"
  sv_project :: "uuid \<Rightarrow> 'x \<Rightarrow> project option"
  sv_repositories :: "uuid \<Rightarrow> 'x \<Rightarrow> repository list"
  sv_observe :: "uuid \<Rightarrow> uuid \<Rightarrow> string \<Rightarrow> 'x \<Rightarrow> ('x, uuid) outcome"
  sv_context :: "uuid \<Rightarrow> uuid \<Rightarrow> uuid option \<Rightarrow> string option \<Rightarrow> 'x \<Rightarrow> ('x, uuid) outcome"
  sv_fresh :: "'x \<Rightarrow> uuid \<times> 'x"
  sv_execute :: "'x executor"
  sv_verify :: "uuid option \<Rightarrow> uuid \<Rightarrow> string list \<Rightarrow> string list \<Rightarrow> 'x \<Rightarrow> ('x, verdict \<times> uuid) outcome"
  sv_pull_requests :: "(repository \<Rightarrow> string \<Rightarrow> string \<Rightarrow> string \<Rightarrow> string \<Rightarrow> 'x \<Rightarrow> ('x, unit) outcome) option"
  sv_auto_create_pr :: bool

subsection \<open>The nodes\<close>

datatype node = Load_Work_Item | Understand_Node | Analyze_Node | Create_Observation
  | Build_Context_Node | Execute_Node | Verify_Node | Retry_Node | Human_Node | Pr_Readiness_Node
  | Create_Pr_Node | Publish_Observation | Update_Brain_Node | Fail_Node

type_synonym 'x node_fun = "engineering_state \<Rightarrow> 'x \<Rightarrow> ('x, engineering_state) outcome"

definition load_work_item :: "'x services \<Rightarrow> 'x node_fun" where
  "load_work_item sv s x =
     (case sv_work_item sv (es_work_item_id s) x of
        None \<Rightarrow> (Inr (s\<lparr>es_stage := ''failed'', es_error := Some ''work item not found''\<rparr>), x)
      | Some w \<Rightarrow>
          (case sv_project sv (wi_project_id w) x of
             None \<Rightarrow> (Inr (s\<lparr>es_stage := ''failed'', es_error := Some ''project not found''\<rparr>), x)
           | Some p \<Rightarrow> (Inr (s\<lparr>es_project_id := pj_id p, es_stage := ''understand''\<rparr>), x)))"

definition understand :: "'x node_fun" where
  "understand s x = (Inr (s\<lparr>es_stage := ''analyze''\<rparr>), x)"

definition analyze_implementation :: "'x services \<Rightarrow> 'x node_fun" where
  "analyze_implementation sv s x =
     (let st = (case sv_work_item sv (es_work_item_id s) x of
                  None \<Rightarrow> ''analyzed''
                | Some w \<Rightarrow> implementation_status_value (wi_implementation w))
      in (Inr (s\<lparr>es_stage := ''build_context'', es_implementation_status := Some st\<rparr>), x))"

definition create_observation :: "'x services \<Rightarrow> 'x node_fun" where
  "create_observation sv s x =
     (if es_implementation_status s \<notin> {Some ''implemented'', Some ''implemented_unverified''}
      then (Inr (s\<lparr>es_stage := ''build_context''\<rparr>), x)
      else (case sv_observe sv (es_project_id s) (es_work_item_id s) (''impl-status:'' @ es_work_item_id s) x of
              (Inl e, x') \<Rightarrow> (Inl e, x')
            | (Inr oid, x') \<Rightarrow> (Inr (s\<lparr>es_stage := ''build_context''\<rparr>), x')))"

definition build_context :: "'x services \<Rightarrow> 'x node_fun" where
  "build_context sv s x =
     (case sv_context sv (es_work_item_id s) (es_project_id s) (es_repository_id s) (es_base_revision s) x of
        (Inl e, x') \<Rightarrow> (Inl e, x')
      | (Inr cid, x') \<Rightarrow> (Inr (s\<lparr>es_stage := ''execute'', es_context_capsule_id := Some cid\<rparr>), x'))"

text \<open>\<open>state.get("base_revision") or "HEAD"\<close>.\<close>

definition str_or :: "string option \<Rightarrow> string \<Rightarrow> string" where
  "str_or v d = (case v of None \<Rightarrow> d | Some t \<Rightarrow> if t = [] then d else t)"

definition execute_request :: "uuid \<Rightarrow> uuid \<Rightarrow> engineering_state \<Rightarrow> execution_request" where
  "execute_request xid cid s =
     \<lparr>rq_execution_id = xid, rq_workflow_id = es_workflow_id s, rq_work_item_id = es_work_item_id s,
      rq_repository_ref = str_or (es_repository_id s) [],
      rq_base_revision = str_or (es_base_revision s) ''HEAD'', rq_base_branch = None,
      rq_working_branch = None, rq_worktree_path = None, rq_workspace_path = None,
      rq_context_capsule_id = None, rq_permissions = default_permissions, rq_correlation_id = cid\<rparr>"

definition execute_node :: "'x services \<Rightarrow> 'x node_fun" where
  "execute_node sv s x =
     (let (xid, x1) = sv_fresh sv x; (cid, x2) = sv_fresh sv x1 in
      case sv_execute sv (execute_request xid cid s) x2 of
        (Inl e, x') \<Rightarrow> (Inl e, x')
      | (Inr r, x') \<Rightarrow>
          if execution_status_value (rs_status r) \<in> {''failed'', ''blocked'', ''cancelled''}
          then (Inr (s\<lparr>es_stage := ''retry'', es_execution_id := Some xid,
                      es_error := Some (''execution '' @ execution_status_value (rs_status r))\<rparr>), x')
          else (Inr (s\<lparr>es_stage := ''verify'', es_execution_id := Some xid,
                      es_modified_files := rs_modified_files r\<rparr>), x'))"

definition verify_node :: "'x services \<Rightarrow> 'x node_fun" where
  "verify_node sv s x =
     (let criteria = (case sv_work_item sv (es_work_item_id s) x of
                        None \<Rightarrow> [] | Some w \<Rightarrow> map cr_description (wi_acceptance_criteria w)) in
      case sv_verify sv (es_execution_id s) (es_work_item_id s) criteria (es_modified_files s) x of
        (Inl e, x') \<Rightarrow> (Inl e, x')
      | (Inr (v, vid), x') \<Rightarrow>
          if verdict_value v = ''pass''
          then (Inr (s\<lparr>es_stage := ''pr_readiness'', es_verification_id := Some vid, es_error := None\<rparr>), x')
          else if es_retry_count s \<ge> 3
          then (Inr (s\<lparr>es_stage := ''human'', es_verification_id := Some vid, es_waiting_for_human := True,
                      es_error := Some (''verification '' @ verdict_value v @ '' after retries'')\<rparr>), x')
          else (Inr (s\<lparr>es_stage := ''retry'', es_verification_id := Some vid,
                      es_error := Some (''verification '' @ verdict_value v)\<rparr>), x'))"

definition retry_node :: "'x node_fun" where
  "retry_node s x =
     (if es_retry_count s \<ge> 3
      then (Inr (s\<lparr>es_stage := ''human'', es_waiting_for_human := True\<rparr>), x)
      else (Inr (s\<lparr>es_stage := ''execute'', es_retry_count := es_retry_count s + 1\<rparr>), x))"

definition human_node :: "'x node_fun" where
  "human_node s x = (Inr (s\<lparr>es_stage := ''human'', es_waiting_for_human := True\<rparr>), x)"

definition pr_readiness_node :: "'x services \<Rightarrow> 'x node_fun" where
  "pr_readiness_node sv s x =
     (Inr (s\<lparr>es_stage := (if sv_auto_create_pr sv then ''create_pr'' else ''publish_observation'')\<rparr>), x)"

definition create_pr_node :: "'x services \<Rightarrow> 'x node_fun" where
  "create_pr_node sv s x =
     (let skip = (Inr (s\<lparr>es_stage := ''publish_observation''\<rparr>), x) in
      case sv_pull_requests sv of
        None \<Rightarrow> skip
      | Some create \<Rightarrow>
          (case sv_work_item sv (es_work_item_id s) x of
             None \<Rightarrow> skip
           | Some w \<Rightarrow>
               (case sv_repositories sv (wi_project_id w) x of
                  [] \<Rightarrow> skip
                | r # _ \<Rightarrow>
                    (case create r (''brain/'' @ es_workflow_id s) (rp_default_branch r) (wi_title w)
                            (wi_description w) x of
                       (Inl e, x') \<Rightarrow> (Inl e, x')
                     | (Inr _, x') \<Rightarrow> (Inr (s\<lparr>es_stage := ''publish_observation''\<rparr>), x')))))"

definition publish_observation :: "'x node_fun" where
  "publish_observation s x = (Inr (s\<lparr>es_stage := ''update_brain''\<rparr>), x)"

definition update_brain :: "'x node_fun" where
  "update_brain s x = (Inr (s\<lparr>es_stage := ''complete'', es_status := ''completed''\<rparr>), x)"

definition fail_node :: "'x node_fun" where
  "fail_node s x = (Inr (s\<lparr>es_stage := ''failed'', es_status := ''failed''\<rparr>), x)"

subsection \<open>The graph\<close>

definition run_node :: "'x services \<Rightarrow> node \<Rightarrow> 'x node_fun" where
  "run_node sv n =
     (case n of
        Load_Work_Item \<Rightarrow> load_work_item sv
      | Understand_Node \<Rightarrow> understand
      | Analyze_Node \<Rightarrow> analyze_implementation sv
      | Create_Observation \<Rightarrow> create_observation sv
      | Build_Context_Node \<Rightarrow> build_context sv
      | Execute_Node \<Rightarrow> execute_node sv
      | Verify_Node \<Rightarrow> verify_node sv
      | Retry_Node \<Rightarrow> retry_node
      | Human_Node \<Rightarrow> human_node
      | Pr_Readiness_Node \<Rightarrow> pr_readiness_node sv
      | Create_Pr_Node \<Rightarrow> create_pr_node sv
      | Publish_Observation \<Rightarrow> publish_observation
      | Update_Brain_Node \<Rightarrow> update_brain
      | Fail_Node \<Rightarrow> fail_node)"

definition static_edges :: "(node \<times> node) list" where
  "static_edges =
     [(Load_Work_Item, Understand_Node), (Understand_Node, Analyze_Node),
      (Analyze_Node, Create_Observation), (Create_Observation, Build_Context_Node),
      (Build_Context_Node, Execute_Node), (Execute_Node, Verify_Node),
      (Pr_Readiness_Node, Create_Pr_Node), (Pr_Readiness_Node, Publish_Observation),
      (Create_Pr_Node, Publish_Observation), (Publish_Observation, Update_Brain_Node)]"

text \<open>The two conditional edges, each with its map from keys to nodes.\<close>

definition conditional_edges :: "node \<Rightarrow> engineering_state \<Rightarrow> node list" where
  "conditional_edges n s =
     (case n of
        Verify_Node \<Rightarrow>
          option_list (map_of [(''pr_readiness'', Pr_Readiness_Node), (''retry'', Retry_Node),
                               (''human'', Human_Node)] (es_stage s))
      | Retry_Node \<Rightarrow>
          option_list (map_of [(''execute'', Execute_Node), (''human'', Human_Node)]
                              (if es_waiting_for_human s then ''human'' else ''execute''))
      | _ \<Rightarrow> [])"

definition successors :: "node \<Rightarrow> engineering_state \<Rightarrow> node list" where
  "successors n s = map snd (filter (\<lambda>e. fst e = n) static_edges) @ conditional_edges n s"

text \<open>
  \<open>runs sv s0 x0 tr n s x\<close>: starting in \<open>s0\<close>, the nodes of \<open>tr\<close> have run one after the other
  along the edges, each listed with the state it returned, and \<open>n\<close> is about to run in \<open>s\<close>.
\<close>

inductive runs :: "'x services \<Rightarrow> engineering_state \<Rightarrow> 'x \<Rightarrow> (node \<times> engineering_state) list
    \<Rightarrow> node \<Rightarrow> engineering_state \<Rightarrow> 'x \<Rightarrow> bool"
  for sv s0 x0 where
  runs_start: "runs sv s0 x0 [] Load_Work_Item s0 x0"
| runs_step: "runs sv s0 x0 tr n s x \<Longrightarrow> run_node sv n s x = (Inr s', x') \<Longrightarrow>
    n' \<in> set (successors n s') \<Longrightarrow> runs sv s0 x0 (tr @ [(n, s')]) n' s' x'"

subsection \<open>The invariant of all runs\<close>

definition executions_in :: "(node \<times> engineering_state) list \<Rightarrow> nat" where
  "executions_in tr = length (filter (\<lambda>e. fst e = Execute_Node) tr)"

lemma executions_in_simps [simp]:
  "executions_in [] = 0"
  "executions_in (tr @ [(n, s)]) = executions_in tr + (if n = Execute_Node then 1 else 0)"
  by (simp_all add: executions_in_def)

text \<open>The longest way from a node to the end, without the three nodes of each retry left.\<close>

fun node_rank :: "node \<Rightarrow> nat" where
  "node_rank Load_Work_Item = 12"
| "node_rank Understand_Node = 11"
| "node_rank Analyze_Node = 10"
| "node_rank Create_Observation = 9"
| "node_rank Build_Context_Node = 8"
| "node_rank Execute_Node = 7"
| "node_rank Verify_Node = 6"
| "node_rank Retry_Node = 5"
| "node_rank Pr_Readiness_Node = 4"
| "node_rank Create_Pr_Node = 3"
| "node_rank Publish_Observation = 2"
| "node_rank _ = 1"

text \<open>The verification of the state passed: the service said so under that id.\<close>

definition verified :: "'x services \<Rightarrow> engineering_state \<Rightarrow> bool" where
  "verified sv s \<longleftrightarrow>
     (\<exists>a w c m x x' vid. sv_verify sv a w c m x = (Inr (Pass, vid), x') \<and>
        es_verification_id s = Some vid \<and> es_error s = None)"

lemma verifiedI:
  "sv_verify sv a w c m x = (Inr (Pass, vid), x') \<Longrightarrow> es_verification_id s = Some vid \<Longrightarrow>
     es_error s = None \<Longrightarrow> verified sv s"
  unfolding verified_def by blast

lemma verified_stage [simp]: "verified sv (s\<lparr>es_stage := q\<rparr>) = verified sv s"
  by (simp add: verified_def)

definition before_execution :: "node set" where
  "before_execution =
     {Load_Work_Item, Understand_Node, Analyze_Node, Create_Observation, Build_Context_Node}"

definition after_pass :: "node set" where
  "after_pass = {Pr_Readiness_Node, Create_Pr_Node, Publish_Observation, Update_Brain_Node}"

definition run_inv :: "'x services \<Rightarrow> (node \<times> engineering_state) list \<Rightarrow> node \<Rightarrow> engineering_state \<Rightarrow> bool" where
  "run_inv sv tr n s \<longleftrightarrow>
     n \<noteq> Fail_Node \<and> es_status s = ''running'' \<and> 0 \<le> es_retry_count s \<and> es_retry_count s \<le> 3 \<and>
     length tr + node_rank n + 3 * nat (3 - es_retry_count s) \<le> 21 \<and>
     (n \<in> before_execution \<longrightarrow> es_retry_count s = 0 \<and> executions_in tr = 0) \<and>
     (n = Execute_Node \<longrightarrow> int (executions_in tr) = es_retry_count s) \<and>
     (n \<notin> insert Execute_Node before_execution \<longrightarrow> int (executions_in tr) = es_retry_count s + 1) \<and>
     (n \<noteq> Human_Node \<longrightarrow> \<not> es_waiting_for_human s) \<and>
     (n = Retry_Node \<longrightarrow> es_retry_count s < 3) \<and>
     (n \<in> after_pass \<longrightarrow> verified sv s)"

lemma verdict_pass: "verdict_value v = ''pass'' \<longleftrightarrow> v = Pass"
  by (cases v) simp_all

lemmas node_defs = load_work_item_def understand_def analyze_implementation_def
  create_observation_def build_context_def execute_node_def retry_node_def human_node_def
  pr_readiness_node_def create_pr_node_def publish_observation_def update_brain_def fail_node_def

lemmas edge_defs = successors_def static_edges_def conditional_edges_def option_list_def

lemmas inv_defs = run_inv_def before_execution_def after_pass_def

text \<open>One lemma per group of nodes: running it and following an edge keeps the invariant.\<close>

lemma inv_before:
  assumes "n \<in> before_execution" and "run_inv sv tr n s" and "run_node sv n s x = (Inr s', x')"
    and "n' \<in> set (successors n s')"
  shows "run_inv sv (tr @ [(n, s')]) n' s'"
  using assms unfolding before_execution_def
  by (elim insertE)
    (auto simp: inv_defs edge_defs run_node_def node_defs Let_def
      split: option.splits prod.splits sum.splits if_splits)

lemma inv_execute:
  assumes "run_inv sv tr Execute_Node s" and "execute_node sv s x = (Inr s', x')"
    and "n' \<in> set (successors Execute_Node s')"
  shows "run_inv sv (tr @ [(Execute_Node, s')]) n' s'"
  using assms
  by (auto simp: inv_defs edge_defs execute_node_def Let_def
      split: option.splits prod.splits sum.splits if_splits)

lemma inv_verify:
  assumes "run_inv sv tr Verify_Node s" and "verify_node sv s x = (Inr s', x')"
    and "n' \<in> set (successors Verify_Node s')"
  shows "run_inv sv (tr @ [(Verify_Node, s')]) n' s'"
proof -
  from assms(2) obtain a w c m v vid where
    call: "sv_verify sv a w c m x = (Inr (v, vid), x')"
    and s': "s' = (if v = Pass
      then s\<lparr>es_stage := ''pr_readiness'', es_verification_id := Some vid, es_error := None\<rparr>
      else if es_retry_count s \<ge> 3
      then s\<lparr>es_stage := ''human'', es_verification_id := Some vid, es_waiting_for_human := True,
             es_error := Some (''verification '' @ verdict_value v @ '' after retries'')\<rparr>
      else s\<lparr>es_stage := ''retry'', es_verification_id := Some vid,
             es_error := Some (''verification '' @ verdict_value v)\<rparr>)"
    by (auto simp: verify_node_def verdict_pass split: prod.splits sum.splits if_splits)
  show ?thesis
  proof (cases "v = Pass")
    case True
    with call s' have "verified sv s'" by (intro verifiedI [OF call [unfolded True]]) simp_all
    with assms(1,3) s' True show ?thesis by (auto simp: inv_defs edge_defs)
  next
    case False
    with assms(1,3) s' show ?thesis by (auto simp: inv_defs edge_defs split: if_splits)
  qed
qed

lemma inv_retry:
  assumes "run_inv sv tr Retry_Node s" and "retry_node s x = (Inr s', x')"
    and "n' \<in> set (successors Retry_Node s')"
  shows "run_inv sv (tr @ [(Retry_Node, s')]) n' s'"
  using assms
  by (auto simp: inv_defs edge_defs retry_node_def nat_diff_distrib' nat_add_distrib split: if_splits)

lemma inv_after:
  assumes "n \<in> {Pr_Readiness_Node, Create_Pr_Node, Publish_Observation}"
    and "run_inv sv tr n s" and "run_node sv n s x = (Inr s', x')"
    and "n' \<in> set (successors n s')"
  shows "run_inv sv (tr @ [(n, s')]) n' s'"
  using assms
  by (elim insertE)
    (auto simp: inv_defs edge_defs run_node_def node_defs Let_def
      split: option.splits prod.splits sum.splits list.splits)

lemma inv_step:
  assumes "run_inv sv tr n s" and "run_node sv n s x = (Inr s', x')" and "n' \<in> set (successors n s')"
  shows "run_inv sv (tr @ [(n, s')]) n' s'"
proof -
  consider "n \<in> before_execution" | "n = Execute_Node" | "n = Verify_Node" | "n = Retry_Node"
    | "n \<in> {Pr_Readiness_Node, Create_Pr_Node, Publish_Observation}" | "successors n s' = []"
    by (cases n) (auto simp: before_execution_def edge_defs)
  then show ?thesis
  proof cases
    case 1 from inv_before [OF this assms] show ?thesis .
  next
    case 2 with inv_execute assms show ?thesis by (auto simp: run_node_def)
  next
    case 3 with inv_verify assms show ?thesis by (auto simp: run_node_def)
  next
    case 4 with inv_retry assms show ?thesis by (auto simp: run_node_def)
  next
    case 5 from inv_after [OF this assms] show ?thesis .
  next
    case 6 with assms(3) show ?thesis by simp
  qed
qed

lemma runs_inv:
  assumes "runs sv (initial_state flow p w repo rvn corr f) x0 tr n s x"
  shows "run_inv sv tr n s"
  using assms
proof induction
  case runs_start
  show ?case by (simp add: inv_defs initial_state_def)
next
  case runs_step
  then show ?case by (blast intro: inv_step)
qed

subsection \<open>Following a given path\<close>

text \<open>The run that takes the successors \<open>ns\<close> one after the other, if they are successors.\<close>

fun follow :: "'x services \<Rightarrow> node list \<Rightarrow> (node \<times> engineering_state) list \<Rightarrow> node \<Rightarrow> engineering_state
    \<Rightarrow> 'x \<Rightarrow> ((node \<times> engineering_state) list \<times> node \<times> engineering_state \<times> 'x) option" where
  "follow sv [] tr n s x = Some (tr, n, s, x)"
| "follow sv (n' # ns) tr n s x =
     (case run_node sv n s x of
        (Inl e, x') \<Rightarrow> None
      | (Inr s', x') \<Rightarrow>
          if n' \<in> set (successors n s') then follow sv ns (tr @ [(n, s')]) n' s' x' else None)"

lemma follow_runs:
  "runs sv s0 x0 tr n s x \<Longrightarrow> follow sv ns tr n s x = Some (tr', n', s', x') \<Longrightarrow>
     runs sv s0 x0 tr' n' s' x'"
proof (induction ns arbitrary: tr n s x)
  case (Cons a ns)
  from Cons.prems(2) obtain t y where "run_node sv n s x = (Inr t, y)" "a \<in> set (successors n t)"
    "follow sv ns (tr @ [(n, t)]) a t y = Some (tr', n', s', x')"
    by (auto split: prod.splits sum.splits if_splits)
  with Cons.IH runs_step [OF Cons.prems(1)] show ?case by blast
qed simp

subsection \<open>The bounded workflows\<close>

text \<open>
  Ingestion, planning and verification: each is a chain of nodes that only set the status.
  \<open>run_pipeline\<close> follows the single outgoing edge of each node until the end.
\<close>

record simple_state =
  ss_entity_id :: string
  ss_status :: string
  ss_error :: "string option"

record pipeline =
  pl_nodes :: "(string \<times> string) list"
  pl_start :: string
  pl_edges :: "(string \<times> string) list"

definition ingestion_workflow :: pipeline where
  "ingestion_workflow =
     \<lparr>pl_nodes = [(''fetch'', ''fetch''), (''revision'', ''revision''), (''parse'', ''parse''),
        (''normalize'', ''normalize''), (''extract'', ''extract''), (''graph'', ''graph''),
        (''index'', ''index''), (''current'', ''current'')],
      pl_start = ''fetch'',
      pl_edges = [(''fetch'', ''revision''), (''revision'', ''parse''), (''parse'', ''normalize''),
        (''normalize'', ''extract''), (''extract'', ''graph''), (''graph'', ''index''),
        (''index'', ''current'')]\<rparr>"

definition planning_workflow :: pipeline where
  "planning_workflow =
     \<lparr>pl_nodes = [(''collect'', ''collect''), (''assess'', ''assess''), (''inspect'', ''inspect''),
        (''decompose'', ''decompose''), (''validate'', ''validate''), (''publish'', ''published'')],
      pl_start = ''collect'',
      pl_edges = [(''collect'', ''assess''), (''assess'', ''inspect''), (''inspect'', ''decompose''),
        (''decompose'', ''validate''), (''validate'', ''publish'')]\<rparr>"

definition verification_workflow :: pipeline where
  "verification_workflow =
     \<lparr>pl_nodes = [(''plan'', ''plan''), (''checks'', ''checks''), (''structural'', ''structural''),
        (''semantic'', ''semantic''), (''evidence'', ''evidence''), (''verdict'', ''verdict''),
        (''observe'', ''observed'')],
      pl_start = ''plan'',
      pl_edges = [(''plan'', ''checks''), (''checks'', ''structural''), (''structural'', ''semantic''),
        (''semantic'', ''evidence''), (''evidence'', ''verdict''), (''verdict'', ''observe'')]\<rparr>"

text \<open>\<open>None\<close> when an edge names no node or the fuel runs out; the states after each node.\<close>

fun run_pipeline :: "nat \<Rightarrow> pipeline \<Rightarrow> string \<Rightarrow> simple_state \<Rightarrow> simple_state list option" where
  "run_pipeline 0 p n s = None"
| "run_pipeline (Suc fuel) p n s =
     (case map_of (pl_nodes p) n of
        None \<Rightarrow> None
      | Some st \<Rightarrow>
          (let s' = s\<lparr>ss_status := st\<rparr> in
           case map_of (pl_edges p) n of
             None \<Rightarrow> Some [s']
           | Some n' \<Rightarrow> map_option ((#) s') (run_pipeline fuel p n' s')))"

subsection \<open>Services for the witnesses\<close>

definition demo_item :: work_item where
  "demo_item = (new_work_item ''w'' ''p'' ''T'')\<lparr>wi_implementation := Im_Implemented\<rparr>"

definition demo_services :: "bool \<Rightarrow> work_item option \<Rightarrow> verdict \<Rightarrow> nat services" where
  "demo_services auto item v =
     \<lparr>sv_work_item = (\<lambda>i x. item), sv_project = (\<lambda>i x. Some demo_project),
      sv_repositories = (\<lambda>p x. [demo_repository]), sv_observe = (\<lambda>p w k x. (Inr ''o'', x)),
      sv_context = (\<lambda>w p r v x. (Inr ''c'', x)), sv_fresh = demo_fresh,
      sv_execute = (\<lambda>rq x. (Inr (demo_result Ex_Completed rq), x)),
      sv_verify = (\<lambda>a w c m x. (Inr (v, ''v''), x)),
      sv_pull_requests = Some (\<lambda>r a b t d x. (Inr (), x + 100)), sv_auto_create_pr = auto\<rparr>"

definition demo_state :: engineering_state where
  "demo_state = initial_state ''f'' ''p'' ''w'' None None None ''c''"

definition demo_path :: "node list" where
  "demo_path = [Understand_Node, Analyze_Node, Create_Observation, Build_Context_Node, Execute_Node,
     Verify_Node]"

definition demo_retry_path :: "node list" where
  "demo_retry_path = demo_path @
     concat (replicate 3 [Retry_Node, Execute_Node, Verify_Node]) @ [Human_Node]"

definition follows_to :: "node \<Rightarrow> ('a \<times> node \<times> 'b \<times> 'c) option \<Rightarrow> bool" where
  "follows_to n r = (case r of Some (tr, n', s, x) \<Rightarrow> n' = n | None \<Rightarrow> False)"

lemma follows_to_runs:
  assumes "follows_to n (follow sv ns [] Load_Work_Item s0 x0)"
  shows "\<exists>tr s x. runs sv s0 x0 tr n s x"
proof -
  from assms obtain tr s x where "follow sv ns [] Load_Work_Item s0 x0 = Some (tr, n, s, x)"
    by (auto simp: follows_to_def split: option.splits)
  from follow_runs [OF runs_start this] show ?thesis by blast
qed

subsection \<open>Properties\<close>

text \<open>
  C8: no run goes on for ever and no run executes more than four times: from the initial
  state every sequence of nodes along the edges has at most twenty nodes before the pending
  one, the retry count stays between 0 and 3, and the executions made so far are at most one
  more than the retries.
\<close>

theorem engineering_runs_bounded:
  assumes "runs sv (initial_state flow p w repo rvn corr f) x0 tr n s x"
  shows "length tr \<le> 20 \<and> 0 \<le> es_retry_count s \<and> es_retry_count s \<le> 3 \<and>
    int (executions_in tr) \<le> es_retry_count s + 1 \<and> executions_in tr \<le> 4"
proof -
  note inv = runs_inv [OF assms]
  have "node_rank n \<ge> 1" by (cases n) simp_all
  moreover have "int (executions_in tr) \<le> es_retry_count s + 1"
    using inv unfolding run_inv_def by (cases "n \<in> before_execution"; cases "n = Execute_Node") auto
  ultimately show ?thesis using inv unfolding run_inv_def by linarith
qed

theorem engineering_runs_bounded_witness:
  "\<exists>tr s x. runs (demo_services True (Some demo_item) Fail) demo_state 0 tr Human_Node s x \<and>
     length tr \<le> 20 \<and> executions_in tr \<le> 4"
proof -
  have "follows_to Human_Node (follow (demo_services True (Some demo_item) Fail) demo_retry_path
      [] Load_Work_Item demo_state 0)"
    by code_simp
  from follows_to_runs [OF this] obtain tr s x
    where run: "runs (demo_services True (Some demo_item) Fail) demo_state 0 tr Human_Node s x" by blast
  from engineering_runs_bounded [OF run [unfolded demo_state_def]] run show ?thesis by blast
qed

text \<open>
  C7: a pull request is only ever created after a passed verification: whenever the node that
  creates it (or the readiness node before it, or anything after it) is about to run, the
  verification service answered with the pass verdict under the verification id the state
  carries, and the state has no error.
\<close>

theorem pull_request_needs_passed_verification:
  assumes "runs sv (initial_state flow p w repo rvn corr f) x0 tr n s x"
    and "n \<in> {Pr_Readiness_Node, Create_Pr_Node, Publish_Observation, Update_Brain_Node}"
  shows "\<exists>a wid c m y y' vid. sv_verify sv a wid c m y = (Inr (Pass, vid), y') \<and>
    es_verification_id s = Some vid \<and> es_error s = None"
  using runs_inv [OF assms(1)] assms(2) unfolding run_inv_def after_pass_def verified_def by blast

theorem pull_request_needs_passed_verification_witness:
  "\<exists>tr s x. runs (demo_services True (Some demo_item) Pass) demo_state 0 tr Create_Pr_Node s x \<and>
     es_error s = None"
proof -
  have "follows_to Create_Pr_Node (follow (demo_services True (Some demo_item) Pass)
      (demo_path @ [Pr_Readiness_Node, Create_Pr_Node]) [] Load_Work_Item demo_state 0)"
    by code_simp
  from follows_to_runs [OF this] obtain tr s x
    where run: "runs (demo_services True (Some demo_item) Pass) demo_state 0 tr Create_Pr_Node s x"
    by blast
  from pull_request_needs_passed_verification [OF run [unfolded demo_state_def]] run show ?thesis
    by blast
qed

text \<open>
  The setting that turns automatic pull requests off is not obeyed: whatever the setting,
  every run that reaches the readiness node can go on to the node that creates the pull
  request, because both of its edges are static; the node only changes the stage text.
\<close>

theorem auto_create_pr_not_obeyed:
  assumes "runs sv s0 x0 tr Pr_Readiness_Node s x"
  shows "\<exists>s'. runs sv s0 x0 (tr @ [(Pr_Readiness_Node, s')]) Create_Pr_Node s' x \<and>
    (\<not> sv_auto_create_pr sv \<longrightarrow> es_stage s' = ''publish_observation'')"
proof -
  let ?s = "s\<lparr>es_stage := (if sv_auto_create_pr sv then ''create_pr'' else ''publish_observation'')\<rparr>"
  have "run_node sv Pr_Readiness_Node s x = (Inr ?s, x)"
    by (simp add: run_node_def pr_readiness_node_def)
  moreover have "Create_Pr_Node \<in> set (successors Pr_Readiness_Node ?s)" by (simp add: edge_defs)
  ultimately have "runs sv s0 x0 (tr @ [(Pr_Readiness_Node, ?s)]) Create_Pr_Node ?s x"
    using runs_step [OF assms] by blast
  then show ?thesis by (intro exI [of _ ?s]) simp
qed

theorem auto_create_pr_not_obeyed_witness:
  "\<exists>tr s x. runs (demo_services False (Some demo_item) Pass) demo_state 0 tr Create_Pr_Node s x \<and>
     es_stage s = ''publish_observation''"
proof -
  have "follows_to Pr_Readiness_Node (follow (demo_services False (Some demo_item) Pass)
      (demo_path @ [Pr_Readiness_Node]) [] Load_Work_Item demo_state 0)"
    by code_simp
  from follows_to_runs [OF this] obtain tr s x
    where "runs (demo_services False (Some demo_item) Pass) demo_state 0 tr Pr_Readiness_Node s x"
    by blast
  from auto_create_pr_not_obeyed [OF this] show ?thesis by (auto simp: demo_services_def)
qed

text \<open>
  A run never fails. The fail node has no incoming edge, so no run reaches it and no state
  of a run has the failed status; in particular a work item that does not exist only sets the
  stage text, and the run goes on to understand it and, as long as the services return,
  to build a context and execute.
\<close>

theorem missing_work_item_goes_on:
  assumes "sv_work_item sv w x0 = None"
  shows "(\<exists>s. runs sv (initial_state flow p w repo rvn corr f) x0
       [(Load_Work_Item, s)] Understand_Node s x0 \<and> es_stage s = ''failed'' \<and>
       es_error s = Some ''work item not found'' \<and> es_status s = ''running'') \<and>
    (\<forall>tr n s x. runs sv (initial_state flow p w repo rvn corr f) x0 tr n s x \<longrightarrow>
       n \<noteq> Fail_Node \<and> es_status s \<noteq> ''failed'')"
proof -
  let ?i = "initial_state flow p w repo rvn corr f"
  let ?s = "?i\<lparr>es_stage := ''failed'', es_error := Some ''work item not found''\<rparr>"
  have "run_node sv Load_Work_Item ?i x0 = (Inr ?s, x0)"
    using assms by (simp add: run_node_def load_work_item_def initial_state_def)
  moreover have "Understand_Node \<in> set (successors Load_Work_Item ?s)" by (simp add: edge_defs)
  ultimately have "runs sv ?i x0 ([] @ [(Load_Work_Item, ?s)]) Understand_Node ?s x0"
    by (rule runs_step [OF runs_start])
  then have "\<exists>s. runs sv ?i x0 [(Load_Work_Item, s)] Understand_Node s x0 \<and> es_stage s = ''failed'' \<and>
       es_error s = Some ''work item not found'' \<and> es_status s = ''running''"
    by (intro exI [of _ ?s]) (simp add: initial_state_def)
  moreover have "n \<noteq> Fail_Node \<and> es_status s \<noteq> ''failed''" if "runs sv ?i x0 tr n s x" for tr n s x
    using runs_inv [OF that] unfolding run_inv_def by simp
  ultimately show ?thesis by blast
qed

theorem missing_work_item_goes_on_witness:
  "\<exists>s. runs (demo_services True None Pass) demo_state 0 [(Load_Work_Item, s)] Understand_Node s 0 \<and>
     es_stage s = ''failed''"
  unfolding demo_state_def
  using missing_work_item_goes_on [of "demo_services True None Pass" "''w''" 0]
  by (fastforce simp: demo_services_def)

text \<open>
  Each bounded workflow, from its start node and for any entity, runs through every one
  of its stages exactly once in the order its nodes are listed, ends after the last of them,
  and changes nothing but the status.
\<close>

theorem bounded_workflows_complete:
  "run_pipeline 8 ingestion_workflow (pl_start ingestion_workflow) s =
     Some (map (\<lambda>(n, st). s\<lparr>ss_status := st\<rparr>) (pl_nodes ingestion_workflow)) \<and>
   run_pipeline 6 planning_workflow (pl_start planning_workflow) s =
     Some (map (\<lambda>(n, st). s\<lparr>ss_status := st\<rparr>) (pl_nodes planning_workflow)) \<and>
   run_pipeline 7 verification_workflow (pl_start verification_workflow) s =
     Some (map (\<lambda>(n, st). s\<lparr>ss_status := st\<rparr>) (pl_nodes verification_workflow))"
  by (simp add: ingestion_workflow_def planning_workflow_def verification_workflow_def eval_nat_numeral)

end
