(* ===== verification/Access_Control.thy ===== *)
theory Access_Control
  imports Json
begin

text \<open>
  The edge of the system: identities and API keys (\<open>domain/identity_auth.py\<close>,
  \<open>adapters/in_memory/api_keys.py\<close>), authorization (\<open>application/authorization.py\<close>),
  rate limits (\<open>application/rate_limiter.py\<close>), workspace locks
  (\<open>application/workspace_locks.py\<close>) and the audit log (\<open>domain/audit.py\<close>,
  \<open>adapters/in_memory/audit.py\<close>, \<open>application/audit.py\<close>).

  The hash of a key is a parameter: the store only compares hashes. The monotonic clock is
  read in microseconds, as an integer.
\<close>

subsection \<open>Identities, roles and permissions\<close>

datatype role = Role_Human | Role_Service | Role_Webhook | Role_Executor | Role_Admin

definition all_roles :: "role list" where
  "all_roles = [Role_Human, Role_Service, Role_Webhook, Role_Executor, Role_Admin]"

fun role_value :: "role \<Rightarrow> string" where
  "role_value Role_Human = ''human''"
| "role_value Role_Service = ''service''"
| "role_value Role_Webhook = ''webhook''"
| "role_value Role_Executor = ''executor''"
| "role_value Role_Admin = ''admin''"

text \<open>\<open>IdentityRole(text)\<close>, which raises on any other text.\<close>

definition role_of :: "string \<Rightarrow> exn + role" where
  "role_of t =
     (case List.find (\<lambda>r. role_value r = t) all_roles of
        None \<Rightarrow> Inl (Exn ''ValueError'' (repr_str t @ '' is not a valid IdentityRole''))
      | Some r \<Rightarrow> Inr r)"

record identity =
  id_name :: string
  id_role :: role
  id_key_id :: "uuid option"

datatype permission = Project_Access | Execution_Trigger | Observation_Resolve | Pr_Create
  | Admin_Permission | Webhook_Delivery | Executor_Context

fun permission_value :: "permission \<Rightarrow> string" where
  "permission_value Project_Access = ''project_access''"
| "permission_value Execution_Trigger = ''execution_trigger''"
| "permission_value Observation_Resolve = ''observation_resolve''"
| "permission_value Pr_Create = ''pr_create''"
| "permission_value Admin_Permission = ''admin''"
| "permission_value Webhook_Delivery = ''webhook_delivery''"
| "permission_value Executor_Context = ''executor_context''"

fun role_permissions :: "role \<Rightarrow> permission list" where
  "role_permissions Role_Admin =
     [Project_Access, Execution_Trigger, Observation_Resolve, Pr_Create, Admin_Permission,
      Webhook_Delivery, Executor_Context]"
| "role_permissions Role_Human = [Project_Access, Execution_Trigger, Observation_Resolve, Pr_Create]"
| "role_permissions Role_Service = [Project_Access, Execution_Trigger, Observation_Resolve, Pr_Create]"
| "role_permissions Role_Webhook = [Webhook_Delivery]"
| "role_permissions Role_Executor = [Executor_Context]"

definition may :: "identity \<Rightarrow> permission \<Rightarrow> bool" where
  "may i p = (p \<in> set (role_permissions (id_role i)))"

definition allow :: "identity \<Rightarrow> permission \<Rightarrow> exn + unit" where
  "allow i p =
     (if p \<notin> set (role_permissions (id_role i))
      then Inl (Exn ''AuthorizationError''
                 (role_value (id_role i) @ '' identity '' @ [CHR 0x27] @ id_name i @ [CHR 0x27] @
                  '' is not permitted: '' @ permission_value p))
      else Inr ())"

subsection \<open>API keys\<close>

record api_key =
  ak_id :: uuid
  ak_name :: string
  ak_role :: role
  ak_key_hash :: string
  ak_enabled :: bool

type_synonym key_store = "(uuid, api_key) dict"

definition save_key :: "api_key \<Rightarrow> key_store \<Rightarrow> key_store" where
  "save_key k s = dict_set (ak_id k) k s"

definition get_key :: "uuid \<Rightarrow> key_store \<Rightarrow> api_key option" where
  "get_key i s = dict_get s i"

definition list_keys :: "key_store \<Rightarrow> api_key list" where
  "list_keys s = dict_values s"

definition authenticate :: "(string \<Rightarrow> string) \<Rightarrow> string \<Rightarrow> key_store \<Rightarrow> api_key option" where
  "authenticate hash plaintext s =
     List.find (\<lambda>k. ak_enabled k \<and> ak_key_hash k = hash plaintext) (dict_values s)"

text \<open>\<open>s.partition(c)\<close>: what is before the first separator and what is after it.\<close>

definition partition_at :: "char \<Rightarrow> string \<Rightarrow> string \<times> string" where
  "partition_at c s = (takeWhile (\<lambda>x. x \<noteq> c) s, drop 1 (dropWhile (\<lambda>x. x \<noteq> c) s))"

text \<open>\<open>seed_keys_from_env\<close>: an entry with an unknown role raises; the keys before it stay.\<close>

fun seed_entries :: "(string \<Rightarrow> string) \<Rightarrow> uuid list \<Rightarrow> string list \<Rightarrow> int \<Rightarrow> key_store \<Rightarrow> (key_store, int) outcome" where
  "seed_entries hash ids [] n s = (Inr n, s)"
| "seed_entries hash ids (entry # rest) n s =
     (let (name, credential) = partition_at (CHR ''='') entry;
          (role_name, plaintext) = partition_at (CHR '':'') credential in
      if strip plaintext = [] then seed_entries hash ids rest n s
      else (case role_of (strip role_name) of
              Inl e \<Rightarrow> (Inl e, s)
            | Inr r \<Rightarrow>
                seed_entries hash (tl ids) rest (n + 1)
                  (save_key \<lparr>ak_id = hd ids, ak_name = strip name, ak_role = r,
                             ak_key_hash = hash (strip plaintext), ak_enabled = True\<rparr> s)))"

definition seed_keys_from_env :: "(string \<Rightarrow> string) \<Rightarrow> uuid list \<Rightarrow> string \<Rightarrow> key_store \<Rightarrow> (key_store, int) outcome" where
  "seed_keys_from_env hash ids raw s =
     seed_entries hash ids (filter (\<lambda>p. strip p \<noteq> []) (split_on (CHR '';'') raw)) 0 s"

subsection \<open>Rate limits\<close>

record rate_limit_rule =
  rl_limit :: int
  rl_window_seconds :: int

definition default_rules :: "(string, rate_limit_rule) dict" where
  "default_rules =
     [(''project_analysis'', \<lparr>rl_limit = 10, rl_window_seconds = 60\<rparr>),
      (''context_build'', \<lparr>rl_limit = 20, rl_window_seconds = 60\<rparr>),
      (''execution'', \<lparr>rl_limit = 10, rl_window_seconds = 60\<rparr>),
      (''verification'', \<lparr>rl_limit = 10, rl_window_seconds = 60\<rparr>)]"

record rate_limiter =
  lim_rules :: "(string, rate_limit_rule) dict"
  lim_buckets :: "(string \<times> string, int list) dict"

definition new_limiter :: "(string, rate_limit_rule) dict \<Rightarrow> rate_limiter" where
  "new_limiter rules = \<lparr>lim_rules = (if rules = [] then default_rules else rules), lim_buckets = []\<rparr>"

definition bucket :: "identity \<Rightarrow> string \<Rightarrow> rate_limiter \<Rightarrow> int list" where
  "bucket i oper l = (case dict_get (lim_buckets l) (id_name i, oper) of None \<Rightarrow> [] | Some b \<Rightarrow> b)"

text \<open>\<open>check\<close> at the monotonic time \<open>now\<close>; a window of \<open>w\<close> seconds is \<open>1000000 w\<close> ticks.\<close>

definition window_ticks :: "rate_limit_rule \<Rightarrow> int" where
  "window_ticks r = 1000000 * rl_window_seconds r"

definition check_rate :: "int \<Rightarrow> identity \<Rightarrow> string \<Rightarrow> rate_limiter \<Rightarrow> (rate_limiter, unit) outcome" where
  "check_rate now i oper l =
     (case dict_get (lim_rules l) oper of
        None \<Rightarrow> (Inr (), l)
      | Some r \<Rightarrow>
          (let hits = filter (\<lambda>t. t > now - window_ticks r) (bucket i oper l) in
           if int (length hits) \<ge> rl_limit r
           then (Inl (Exn ''RateLimitExceeded''
                   (''rate limit exceeded for '' @ [CHR 0x27] @ oper @ [CHR 0x27] @ '' ('' @
                    str_int (rl_limit r) @ ''/'' @ str_int (rl_window_seconds r) @ ''s)'')), l)
           else (Inr (), l\<lparr>lim_buckets := dict_set (id_name i, oper) (hits @ [now]) (lim_buckets l)\<rparr>)))"

definition count_rate :: "identity \<Rightarrow> string \<Rightarrow> rate_limiter \<Rightarrow> nat" where
  "count_rate i oper l = length (bucket i oper l)"

subsection \<open>Workspace locks\<close>

record workspace_lock =
  wl_repository_id :: uuid
  wl_owner :: uuid
  wl_branch :: string
  wl_acquired_at :: datetime

type_synonym lock_store = "(uuid, workspace_lock) dict"

definition acquire_lock :: "workspace_lock \<Rightarrow> lock_store \<Rightarrow> bool \<times> lock_store" where
  "acquire_lock k s =
     (case dict_get s (wl_repository_id k) of
        Some held \<Rightarrow> (False, s)
      | None \<Rightarrow> (True, dict_set (wl_repository_id k) k s))"

definition release_lock :: "uuid \<Rightarrow> uuid \<Rightarrow> lock_store \<Rightarrow> bool \<times> lock_store" where
  "release_lock repo owner s =
     (case dict_get s repo of
        None \<Rightarrow> (False, s)
      | Some held \<Rightarrow> if wl_owner held \<noteq> owner then (False, s) else (True, dict_pop repo s))"

definition held_by :: "uuid \<Rightarrow> lock_store \<Rightarrow> workspace_lock option" where
  "held_by repo s = dict_get s repo"

definition try_acquire :: "datetime \<Rightarrow> uuid \<Rightarrow> uuid \<Rightarrow> string \<Rightarrow> lock_store \<Rightarrow> workspace_lock option \<times> lock_store" where
  "try_acquire now repo owner branch s =
     (let k = \<lparr>wl_repository_id = repo, wl_owner = owner, wl_branch = branch, wl_acquired_at = now\<rparr>;
          (got, s') = acquire_lock k s
      in (if got then Some k else None, s'))"

subsection \<open>The audit log\<close>

datatype audit_action = Command_Dispatched | Command_Failed | Execution_Started
  | Execution_Completed | Execution_Blocked | Verification_Completed | Observation_Created
  | Observation_Projected | Observation_Projection_Failed | Pull_Request_Created
  | External_Tool_Updated | Api_Key_Provisioned | Rate_Limit_Exceeded | Webhook_Received

fun audit_action_value :: "audit_action \<Rightarrow> string" where
  "audit_action_value Command_Dispatched = ''command_dispatched''"
| "audit_action_value Command_Failed = ''command_failed''"
| "audit_action_value Execution_Started = ''execution_started''"
| "audit_action_value Execution_Completed = ''execution_completed''"
| "audit_action_value Execution_Blocked = ''execution_blocked''"
| "audit_action_value Verification_Completed = ''verification_completed''"
| "audit_action_value Observation_Created = ''observation_created''"
| "audit_action_value Observation_Projected = ''observation_projected''"
| "audit_action_value Observation_Projection_Failed = ''observation_projection_failed''"
| "audit_action_value Pull_Request_Created = ''pull_request_created''"
| "audit_action_value External_Tool_Updated = ''external_tool_updated''"
| "audit_action_value Api_Key_Provisioned = ''api_key_provisioned''"
| "audit_action_value Rate_Limit_Exceeded = ''rate_limit_exceeded''"
| "audit_action_value Webhook_Received = ''webhook_received''"

record audit_event =
  au_id :: uuid
  au_occurred_at :: datetime
  au_action :: audit_action
  au_actor :: string
  au_actor_role :: string
  au_project_id :: "uuid option"
  au_work_item_id :: "uuid option"
  au_execution_id :: "uuid option"
  au_repository_id :: "uuid option"
  au_details :: "(string \<times> json) list"

definition record_audit :: "audit_event \<Rightarrow> audit_event list \<Rightarrow> audit_event list" where
  "record_audit e log = log @ [e]"

definition list_audit :: "int \<Rightarrow> string option \<Rightarrow> audit_event list \<Rightarrow> audit_event list" where
  "list_audit limit action log =
     slice_last limit (filter (\<lambda>e. action = None \<or> action = Some (audit_action_value (au_action e))) log)"

text \<open>
  \<open>AuditService.from_identity\<close>; \<open>parse_uuid\<close> is \<open>uuid.UUID\<close> on a text, \<open>None\<close> where it raises.
\<close>

definition audit_uuid :: "(string \<Rightarrow> uuid option) \<Rightarrow> json \<Rightarrow> uuid option" where
  "audit_uuid parse_uuid v = (case v of JStr t \<Rightarrow> parse_uuid t | _ \<Rightarrow> None)"

definition audit_from_identity :: "(string \<Rightarrow> uuid option) \<Rightarrow> uuid \<Rightarrow> datetime \<Rightarrow> identity option
    \<Rightarrow> audit_action \<Rightarrow> (string \<times> json) list \<Rightarrow> audit_event list \<Rightarrow> audit_event \<times> audit_event list" where
  "audit_from_identity parse_uuid i now who action ctx log =
     (let ids = [''project_id'', ''work_item_id'', ''execution_id'', ''repository_id''];
          e = \<lparr>au_id = i, au_occurred_at = now, au_action = action,
               au_actor = (case who of None \<Rightarrow> ''system'' | Some w \<Rightarrow> id_name w),
               au_actor_role = (case who of None \<Rightarrow> ''system'' | Some w \<Rightarrow> role_value (id_role w)),
               au_project_id = audit_uuid parse_uuid (jget ctx ''project_id''),
               au_work_item_id = audit_uuid parse_uuid (jget ctx ''work_item_id''),
               au_execution_id = audit_uuid parse_uuid (jget ctx ''execution_id''),
               au_repository_id = audit_uuid parse_uuid (jget ctx ''repository_id''),
               au_details = filter (\<lambda>(k, v). v \<noteq> JNull \<and> k \<notin> set ids) ctx\<rparr>
      in (e, record_audit e log))"

subsection \<open>The interface of a lock service\<close>

datatype ('l, 'k, 'o) lock_op = Acquire 'l | Release 'k 'o

text \<open>A sequence of lock operations, each logged with the answer it got.\<close>

fun lock_run :: "('l \<Rightarrow> 's \<Rightarrow> bool \<times> 's) \<Rightarrow> ('k \<Rightarrow> 'o \<Rightarrow> 's \<Rightarrow> bool \<times> 's) \<Rightarrow> ('l, 'k, 'o) lock_op list \<Rightarrow> 's
    \<Rightarrow> (('l, 'k, 'o) lock_op \<times> bool) list \<times> 's" where
  "lock_run acq rel [] s = ([], s)"
| "lock_run acq rel (q # qs) s =
     (let (b, t) = (case q of Acquire l \<Rightarrow> acq l s | Release k w \<Rightarrow> rel k w s);
          (log, u) = lock_run acq rel qs t
      in ((q, b) # log, u))"

locale lock_service =
  fixes acq :: "'l \<Rightarrow> 's \<Rightarrow> bool \<times> 's"
    and rel :: "'k \<Rightarrow> 'o \<Rightarrow> 's \<Rightarrow> bool \<times> 's"
    and holder :: "'k \<Rightarrow> 's \<Rightarrow> 'o option"
    and key :: "'l \<Rightarrow> 'k"
    and own :: "'l \<Rightarrow> 'o"
  assumes acq_granted: "fst (acq l s) = (holder (key l) s = None)"
    and acq_holder: "holder k (snd (acq l s)) =
      (if fst (acq l s) \<and> k = key l then Some (own l) else holder k s)"
    and rel_granted: "fst (rel k w s) = (holder k s = Some w)"
    and rel_holder: "holder k' (snd (rel k w s)) =
      (if fst (rel k w s) \<and> k' = k then None else holder k' s)"
begin

text \<open>A lock stays with its owner until that owner releases it.\<close>

lemma holder_kept:
  "lock_run acq rel qs s = (log, t) \<Longrightarrow> holder k s = Some w \<Longrightarrow> (Release k w, True) \<notin> set log \<Longrightarrow>
     holder k t = Some w"
proof (induction qs arbitrary: s log)
  case (Cons q qs)
  show ?case
  proof (cases q)
    case (Acquire l)
    with Cons.prems(1) obtain rest where rest: "lock_run acq rel qs (snd (acq l s)) = (rest, t)"
      "log = (q, fst (acq l s)) # rest" by (auto split: prod.splits)
    have "holder k (snd (acq l s)) = Some w"
      using Cons.prems(2) acq_granted [of l s] by (auto simp: acq_holder)
    from Cons.IH [OF rest(1) this] Cons.prems(3) rest(2) show ?thesis by simp
  next
    case (Release k' w')
    with Cons.prems(1) obtain rest where rest: "lock_run acq rel qs (snd (rel k' w' s)) = (rest, t)"
      "log = (q, fst (rel k' w' s)) # rest" by (auto split: prod.splits)
    have "holder k (snd (rel k' w' s)) = Some w"
      using Cons.prems(2,3) rest(2) Release rel_granted [of k' w' s] by (auto simp: rel_holder)
    from Cons.IH [OF rest(1) this] Cons.prems(3) rest(2) show ?thesis by simp
  qed
qed simp

lemma run_append:
  "lock_run acq rel qs s = (xs @ ys, t) \<Longrightarrow>
     \<exists>qs1 qs2 u. lock_run acq rel qs1 s = (xs, u) \<and> lock_run acq rel qs2 u = (ys, t)"
proof (induction xs arbitrary: qs s)
  case Nil
  then show ?case by (metis append_Nil lock_run.simps(1))
next
  case (Cons x xs)
  then obtain q qs' where qs: "qs = q # qs'" by (cases qs) auto
  obtain b v where step: "(case q of Acquire l \<Rightarrow> acq l s | Release k w \<Rightarrow> rel k w s) = (b, v)"
    by fastforce
  with Cons.prems qs have "lock_run acq rel qs' v = (xs @ ys, t)" "x = (q, b)"
    by (auto split: prod.splits)
  with Cons.IH [of qs' v] obtain qs1 qs2 u where
    "lock_run acq rel qs1 v = (xs, u)" "lock_run acq rel qs2 u = (ys, t)" by blast
  with step \<open>x = (q, b)\<close> show ?case by (intro exI [of _ "q # qs1"] exI [of _ qs2] exI [of _ u]) simp
qed

lemma run_first:
  "lock_run acq rel qs s = ((Acquire l, b) # log, t) \<Longrightarrow>
     b = fst (acq l s) \<and> (\<exists>qs'. lock_run acq rel qs' (snd (acq l s)) = (log, t))"
  by (cases qs) (auto split: prod.splits lock_op.splits)

text \<open>Between two grants of the same lock, the first holder released it.\<close>

lemma exclusive:
  assumes "lock_run acq rel qs s = (xs @ (Acquire l, True) # ys @ (Acquire l', True) # zs, t)"
    and "key l' = key l"
  shows "(Release (key l) (own l), True) \<in> set ys"
proof (rule ccontr)
  assume no: "(Release (key l) (own l), True) \<notin> set ys"
  from run_append [OF assms(1)] obtain qs2 u
    where "lock_run acq rel qs2 u = ((Acquire l, True) # ys @ (Acquire l', True) # zs, t)" by blast
  from run_first [OF this] obtain qs3 where granted: "fst (acq l u)"
    and "lock_run acq rel qs3 (snd (acq l u)) = (ys @ (Acquire l', True) # zs, t)" by auto
  from run_append [OF this(2)] obtain qs4 qs5 v where
    mid: "lock_run acq rel qs4 (snd (acq l u)) = (ys, v)"
    and last: "lock_run acq rel qs5 v = ((Acquire l', True) # zs, t)" by blast
  have "holder (key l) (snd (acq l u)) = Some (own l)" using granted by (simp add: acq_holder)
  from holder_kept [OF mid this no] have "holder (key l') v = Some (own l)" using assms(2) by simp
  moreover from run_first [OF last] have "holder (key l') v = None" using acq_granted by blast
  ultimately show False by simp
qed

end

interpretation wl: lock_service acquire_lock release_lock
  "\<lambda>k s. map_option wl_owner (held_by k s)" wl_repository_id wl_owner
  by unfold_locales
    (auto simp: acquire_lock_def release_lock_def held_by_def store_simps split: option.splits)

subsection \<open>Sequences of rate-limited calls\<close>

text \<open>The calls of one caller and operation at the given times; the times that were admitted.\<close>

fun check_times :: "identity \<Rightarrow> string \<Rightarrow> int list \<Rightarrow> rate_limiter \<Rightarrow> int list \<times> rate_limiter" where
  "check_times i oper [] l = ([], l)"
| "check_times i oper (t # ts) l =
     (case check_rate t i oper l of
        (Inl e, l') \<Rightarrow> check_times i oper ts l'
      | (Inr _, l') \<Rightarrow> (let (adm, l'') = check_times i oper ts l' in (t # adm, l'')))"

definition in_window :: "int \<Rightarrow> int \<Rightarrow> int \<Rightarrow> bool" where
  "in_window w T t = (T - w < t \<and> t \<le> T)"

text \<open>
  What the bucket knows of the admitted times \<open>adm\<close>: they are within the limit in every
  window, none is later than \<open>now\<close>, and the bucket holds at least those of the window that
  ends with \<open>now\<close> or later.
\<close>

definition bucket_inv :: "int \<Rightarrow> int \<Rightarrow> int list \<Rightarrow> int \<Rightarrow> int list \<Rightarrow> bool" where
  "bucket_inv w limit adm now b \<longleftrightarrow>
     (\<forall>t \<in> set adm. t \<le> now) \<and>
     (\<forall>T \<ge> now. filter (\<lambda>t. t > T - w) b = filter (\<lambda>t. t > T - w) adm) \<and>
     (\<forall>T. int (length (filter (in_window w T) adm)) \<le> limit)"

lemma bucket_inv_later: "bucket_inv w limit adm now b \<Longrightarrow> now \<le> now' \<Longrightarrow> bucket_inv w limit adm now' b"
  unfolding bucket_inv_def by (meson order_trans)

lemma bucket_inv_admit:
  assumes "bucket_inv w limit adm now b" and "now \<le> t"
    and "int (length (filter (\<lambda>x. x > t - w) b)) < limit"
  shows "bucket_inv w limit (adm @ [t]) t (filter (\<lambda>x. x > t - w) b @ [t])"
proof -
  note inv = assms(1) [unfolded bucket_inv_def]
  have le: "\<forall>x \<in> set adm. x \<le> t" using inv assms(2) by force
  have "int (length (filter (in_window w T) (adm @ [t]))) \<le> limit" for T
  proof (cases "t \<le> T")
    case True
    have "length (filter (in_window w T) adm) \<le> length (filter (\<lambda>x. x > t - w) adm)"
    proof -
      have "filter (in_window w T) adm = filter (in_window w T) (filter (\<lambda>x. x > t - w) adm)"
        using True by (auto simp: in_window_def intro!: filter_cong)
      then show ?thesis by (metis length_filter_le)
    qed
    also have "filter (\<lambda>x. x > t - w) adm = filter (\<lambda>x. x > t - w) b" using inv assms(2) by simp
    finally show ?thesis using assms(3) by simp
  next
    case False
    then show ?thesis using inv by (simp add: in_window_def)
  qed
  moreover have "filter (\<lambda>x. x > T - w) (filter (\<lambda>x. x > t - w) b @ [t]) =
      filter (\<lambda>x. x > T - w) (adm @ [t])" if "t \<le> T" for T
  proof -
    have "filter (\<lambda>x. x > T - w) (filter (\<lambda>x. x > t - w) b) = filter (\<lambda>x. x > T - w) b"
      using that by (auto intro!: filter_cong)
    also have "\<dots> = filter (\<lambda>x. x > T - w) adm" using inv assms(2) that by simp
    finally show ?thesis by simp
  qed
  ultimately show ?thesis unfolding bucket_inv_def using le by simp
qed

lemma check_times_inv:
  assumes "dict_get (lim_rules l) oper = Some r"
    and "sorted (now # ts)" and "check_times i oper ts l = (adm', l')"
    and "bucket_inv (window_ticks r) (rl_limit r) adm now (bucket i oper l)"
  shows "\<forall>T. int (length (filter (in_window (window_ticks r) T) (adm @ adm'))) \<le> rl_limit r"
  using assms
proof (induction ts arbitrary: now adm adm' l)
  case Nil
  then show ?case by (simp add: bucket_inv_def)
next
  case (Cons t ts)
  let ?hits = "filter (\<lambda>x. x > t - window_ticks r) (bucket i oper l)"
  from Cons.prems(2) have times: "now \<le> t" "sorted (t # ts)" by auto
  show ?case
  proof (cases "int (length ?hits) \<ge> rl_limit r")
    case True
    with Cons.prems(1,3) have "check_times i oper ts l = (adm', l')"
      by (auto simp: check_rate_def Let_def)
    from Cons.IH [OF Cons.prems(1) times(2) this bucket_inv_later [OF Cons.prems(4) times(1)]]
    show ?thesis .
  next
    case False
    let ?l = "l\<lparr>lim_buckets := dict_set (id_name i, oper) (?hits @ [t]) (lim_buckets l)\<rparr>"
    from False Cons.prems(1,3) obtain rest where rest: "check_times i oper ts ?l = (rest, l')"
      "adm' = t # rest" by (auto simp: check_rate_def Let_def split: prod.splits)
    have "bucket i oper ?l = ?hits @ [t]" by (simp add: bucket_def store_simps)
    with bucket_inv_admit [OF Cons.prems(4) times(1)] False
    have "bucket_inv (window_ticks r) (rl_limit r) (adm @ [t]) t (bucket i oper ?l)" by simp
    from Cons.IH [OF _ times(2) rest(1) this] Cons.prems(1) rest(2) show ?thesis by simp
  qed
qed

subsection \<open>Seeding and authenticating\<close>

lemma seed_entries_keeps:
  "seed_entries hash ids es n s = (r, s') \<Longrightarrow> distinct ids \<Longrightarrow> length es \<le> length ids \<Longrightarrow>
     k \<notin> set ids \<Longrightarrow> get_key k s = Some key \<Longrightarrow> get_key k s' = Some key"
proof (induction es arbitrary: ids n s)
  case (Cons e es)
  then obtain j ids' where ids: "ids = j # ids'" by (cases ids) auto
  with Cons show ?case
    by (fastforce simp: partition_at_def Let_def get_key_def save_key_def store_simps
        split: if_splits sum.splits)
qed simp

lemma seed_entries_ok: "seed_entries hash ids es n s = (r, s') \<Longrightarrow> dict_ok s \<Longrightarrow> dict_ok s'"
proof (induction es arbitrary: ids n s)
  case (Cons e es)
  then show ?case
    by (fastforce simp: partition_at_def Let_def save_key_def split: if_splits sum.splits)
qed simp

definition entry_parts :: "string \<Rightarrow> string \<times> string \<times> string" where
  "entry_parts e =
     (let (name, credential) = partition_at (CHR ''='') e;
          (role_name, plaintext) = partition_at (CHR '':'') credential
      in (strip name, strip role_name, strip plaintext))"

lemma seed_entries_seeds:
  "seed_entries hash ids es n s = (Inr m, s') \<Longrightarrow> distinct ids \<Longrightarrow> length es \<le> length ids \<Longrightarrow>
     e \<in> set es \<Longrightarrow> entry_parts e = (name, rname, plain) \<Longrightarrow> plain \<noteq> [] \<Longrightarrow>
     \<exists>i key. get_key i s' = Some key \<and> ak_enabled key \<and> ak_key_hash key = hash plain \<and>
       ak_name key = name \<and> role_of rname = Inr (ak_role key)"
proof (induction es arbitrary: ids n s)
  case (Cons f es)
  then obtain j ids' where ids: "ids = j # ids'" by (cases ids) auto
  obtain fname frole fplain where f: "entry_parts f = (fname, frole, fplain)" by (cases "entry_parts f")
  show ?case
  proof (cases "fplain = []")
    case True
    with f Cons.prems(1) have "seed_entries hash ids es n s = (Inr m, s')"
      by (auto simp: entry_parts_def partition_at_def Let_def)
    moreover have "e \<in> set es" using Cons.prems(4-6) f True by auto
    ultimately show ?thesis using Cons.IH [of ids n s] Cons.prems by simp
  next
    case False
    let ?key = "\<lambda>r. \<lparr>ak_id = j, ak_name = fname, ak_role = r, ak_key_hash = hash fplain, ak_enabled = True\<rparr>"
    from False f Cons.prems(1) ids obtain r where r: "role_of frole = Inr r"
      and rest: "seed_entries hash ids' es (n + 1) (save_key (?key r) s) = (Inr m, s')"
      by (auto simp: entry_parts_def partition_at_def Let_def split: sum.splits)
    show ?thesis
    proof (cases "e = f")
      case True
      have "get_key j (save_key (?key r) s) = Some (?key r)"
        by (simp add: get_key_def save_key_def store_simps)
      with seed_entries_keeps [OF rest] Cons.prems(2,3) ids have "get_key j s' = Some (?key r)" by simp
      with r True f Cons.prems(5) show ?thesis by (intro exI [of _ j] exI [of _ "?key r"]) simp
    next
      case False
      with Cons.IH [OF rest] Cons.prems ids show ?thesis by simp
    qed
  qed
qed simp

lemma authenticate_iff:
  assumes "dict_ok s"
  shows "authenticate hash p s = None \<longleftrightarrow>
    (\<forall>i k. get_key i s = Some k \<longrightarrow> ak_enabled k \<longrightarrow> ak_key_hash k \<noteq> hash p)"
  using dict_values_iff [OF assms] by (auto simp: authenticate_def find_None_iff' get_key_def)

subsection \<open>Properties\<close>

text \<open>
  C9: mutual exclusion of workspaces. In every sequence of lock operations, whatever the
  answers, between two grants of the lock of one repository there is a successful release by
  the execution that held it first; a second grant never happens while the first is held.
\<close>

theorem workspace_lock_exclusive:
  assumes "lock_run acquire_lock release_lock qs s =
      (xs @ (Acquire k, True) # ys @ (Acquire k', True) # zs, t)"
    and "wl_repository_id k' = wl_repository_id k"
  shows "(Release (wl_repository_id k) (wl_owner k), True) \<in> set ys"
  using assms by (rule wl.exclusive)

definition demo_lock :: "string \<Rightarrow> workspace_lock" where
  "demo_lock w = \<lparr>wl_repository_id = ''r'', wl_owner = w, wl_branch = ''b'', wl_acquired_at = 0\<rparr>"

theorem workspace_lock_exclusive_witness:
  "(Release ''r'' ''x'', True) \<in> set [(Acquire (demo_lock ''y''), False), (Release ''r'' ''x'', True)]"
proof -
  have "lock_run acquire_lock release_lock [Acquire (demo_lock ''x''), Acquire (demo_lock ''y''),
      Release ''r'' ''x'', Acquire (demo_lock ''y'')] [] =
    ([] @ (Acquire (demo_lock ''x''), True) # [(Acquire (demo_lock ''y''), False), (Release ''r'' ''x'', True)] @
       (Acquire (demo_lock ''y''), True) # [], [(''r'', demo_lock ''y'')])"
    by (simp add: acquire_lock_def release_lock_def demo_lock_def)
  from workspace_lock_exclusive [OF this] show ?thesis by (simp add: demo_lock_def)
qed

text \<open>
  C10: the sliding window. For calls of one caller and operation at nondecreasing times on a
  fresh limiter, no window of the rule's length, wherever it ends, contains more admitted
  calls than the rule's limit.
\<close>

theorem rate_limit_holds_in_every_window:
  assumes "dict_get (lim_rules (new_limiter rules)) oper = Some r" and "0 \<le> rl_limit r"
    and "sorted ts" and "check_times i oper ts (new_limiter rules) = (admitted, l)"
  shows "int (length (filter (\<lambda>t. T - window_ticks r < t \<and> t \<le> T) admitted)) \<le> rl_limit r"
proof (cases ts)
  case Nil
  with assms(2,4) show ?thesis by simp
next
  case (Cons t ts')
  have "bucket i oper (new_limiter rules) = []" by (simp add: bucket_def new_limiter_def)
  with assms(2) have "bucket_inv (window_ticks r) (rl_limit r) [] t (bucket i oper (new_limiter rules))"
    by (simp add: bucket_inv_def)
  moreover have "sorted (t # ts)" using assms(3) Cons by simp
  ultimately show ?thesis
    using check_times_inv [OF assms(1) _ assms(4)] by (fastforce simp: in_window_def [abs_def])
qed

theorem rate_limit_holds_in_every_window_witness:
  "fst (check_times \<lparr>id_name = ''n'', id_role = Role_Human, id_key_id = None\<rparr> ''op'' [0, 1, 2000000]
     (new_limiter [(''op'', \<lparr>rl_limit = 1, rl_window_seconds = 1\<rparr>)])) = [0, 2000000] \<and>
   int (length (filter (\<lambda>t. 2000000 - 1000000 < t \<and> t \<le> 2000000) [0, 2000000::int])) \<le> 1"
proof -
  let ?i = "\<lparr>id_name = ''n'', id_role = Role_Human, id_key_id = None\<rparr>"
  let ?r = "\<lparr>rl_limit = 1, rl_window_seconds = 1\<rparr>"
  let ?l = "new_limiter [(''op'', ?r)]"
  have run: "fst (check_times ?i ''op'' [0, 1, 2000000] ?l) = [0, 2000000]" by code_simp
  then have eq: "check_times ?i ''op'' [0, 1, 2000000] ?l =
      ([0, 2000000], snd (check_times ?i ''op'' [0, 1, 2000000] ?l))" by (metis prod.collapse)
  have rule: "dict_get (lim_rules ?l) ''op'' = Some ?r" by (simp add: new_limiter_def)
  from rate_limit_holds_in_every_window [OF rule _ _ eq, of 2000000] run show ?thesis
    by (simp only: window_ticks_def rate_limit_rule.simps) simp
qed

text \<open>
  The separation of roles. A call is allowed exactly when the role has the permission and
  raises otherwise; an administrator may do everything; a webhook may only deliver events and
  an executor only fetch context; and nobody but an administrator has the administrator's
  permission.
\<close>

theorem role_separation:
  "(allow i p = Inr () \<longleftrightarrow> may i p) \<and>
   (\<not> may i p \<longleftrightarrow> (\<exists>m. allow i p = Inl (Exn ''AuthorizationError'' m))) \<and>
   (may i p \<longleftrightarrow>
      (case id_role i of
         Role_Admin \<Rightarrow> True
       | Role_Webhook \<Rightarrow> p = Webhook_Delivery
       | Role_Executor \<Rightarrow> p = Executor_Context
       | _ \<Rightarrow> p \<notin> {Admin_Permission, Webhook_Delivery, Executor_Context}))"
  by (cases p; cases "id_role i") (simp_all add: may_def allow_def)

text \<open>
  Every key given in the environment works. When seeding returns, each entry
  \<open>name=role:key\<close> with a nonempty key is stored enabled under its name and role and with
  the hash of its key only, and authenticating with that key finds a record with that hash.
\<close>

theorem seeded_keys_authenticate:
  assumes "seed_keys_from_env hash ids raw [] = (Inr m, s)"
    and "distinct ids" and "length (split_on (CHR '';'') raw) \<le> length ids"
    and "e \<in> set (split_on (CHR '';'') raw)" and "entry_parts e = (name, rname, plain)" and "plain \<noteq> []"
  shows "(\<exists>i key. get_key i s = Some key \<and> ak_enabled key \<and> ak_key_hash key = hash plain \<and>
      ak_name key = name \<and> role_of rname = Inr (ak_role key)) \<and>
    (\<exists>key. authenticate hash plain s = Some key \<and> ak_enabled key \<and> ak_key_hash key = hash plain)"
proof -
  let ?es = "filter (\<lambda>p. strip p \<noteq> []) (split_on (CHR '';'') raw)"
  have run: "seed_entries hash ids ?es 0 [] = (Inr m, s)" using assms(1) by (simp add: seed_keys_from_env_def)
  have len: "length ?es \<le> length ids" using assms(3) length_filter_le [of _ "split_on (CHR '';'') raw"] le_trans by blast
  have "strip e \<noteq> []"
  proof
    assume "strip e = []"
    then have "\<forall>c \<in> set e. is_space c" by (rule strip_empty)
    then have "\<forall>c \<in> set (snd (partition_at (CHR '':'') (snd (partition_at (CHR ''='') e)))). is_space c"
      unfolding partition_at_def by (auto dest!: in_set_dropD set_dropWhileD)
    then have "plain = []" using assms(5) strip_spaces by (auto simp: entry_parts_def Let_def split_beta)
    with assms(6) show False by simp
  qed
  with assms(4) have mem: "e \<in> set ?es" by simp
  from seed_entries_seeds [OF run assms(2) len mem assms(5,6)]
  obtain i key where key: "get_key i s = Some key" "ak_enabled key" "ak_key_hash key = hash plain"
    "ak_name key = name" "role_of rname = Inr (ak_role key)" by blast
  have "dict_ok s" using seed_entries_ok [OF run] by simp
  with key authenticate_iff [of s hash plain] obtain k where "authenticate hash plain s = Some k"
    by (cases "authenticate hash plain s") auto
  moreover from this have "ak_enabled k" "ak_key_hash k = hash plain"
    by (auto simp: authenticate_def dest: find_SomeD)
  ultimately show ?thesis using key by blast
qed

theorem seeded_keys_authenticate_witness:
  "\<exists>s key. seed_keys_from_env rev [''1'', ''2'', ''3''] ''ci=service:abc; ;me=admin: xyz '' [] = (Inr 2, s) \<and>
     authenticate rev ''xyz'' s = Some key"
proof -
  let ?raw = "''ci=service:abc; ;me=admin: xyz ''"
  obtain r s where run: "seed_keys_from_env rev [''1'', ''2'', ''3''] ?raw [] = (r, s)" by fastforce
  have "fst (seed_keys_from_env rev [''1'', ''2'', ''3''] ?raw []) = Inr 2" by code_simp
  with run have r: "r = Inr 2" by simp
  have "split_on (CHR '';'') ?raw = [''ci=service:abc'', '' '', ''me=admin: xyz '']" by simp
  moreover have "entry_parts ''me=admin: xyz '' = (''me'', ''admin'', ''xyz'')" by code_simp
  ultimately show ?thesis
    using seeded_keys_authenticate [OF run [unfolded r], of "''me=admin: xyz ''" "''me''" "''admin''" "''xyz''"]
      run r by auto
qed

end
