(* ===== verification/Events.thy ===== *)
theory Events
  imports Commands Domain
begin

text \<open>
  Canonical events (\<open>domain/events.py\<close>, \<open>domain/event_types.py\<close>), the in-memory bus, log and
  idempotency store (\<open>adapters/in_memory/event_bus.py\<close>, \<open>event_log.py\<close>, \<open>idempotency.py\<close>),
  and the processor of incoming events (\<open>application/events.py\<close>).

  A handler is known by a name; what a name does is the parameter \<open>run\<close>, a function on the
  whole state that may raise and may itself publish. An entity inside a payload is carried as
  its JSON dump.
\<close>

subsection \<open>Event types and envelopes\<close>

datatype event_type = PROJECT_CREATED | REPOSITORY_REGISTERED | REPOSITORY_REVISION_CHANGED
  | DOCUMENT_CHANGED | WORK_ITEM_CREATED | WORK_ITEM_CHANGED | WORK_ITEM_ASSIGNED
  | REQUIREMENT_CHANGED | EXECUTION_REQUESTED | EXECUTION_STARTED | EXECUTION_COMPLETED
  | VERIFICATION_REQUESTED | VERIFICATION_COMPLETED | PULL_REQUEST_REQUESTED
  | PULL_REQUEST_CREATED | PULL_REQUEST_MERGED | HUMAN_FEEDBACK_RECEIVED
  | KNOWLEDGE_CONFLICT_DETECTED | OBSERVATION_CREATED | OBSERVATION_ACKNOWLEDGED
  | OBSERVATION_RESOLVED | ATTACHMENT_CREATED | PROJECT_CHANGED

fun event_type_value :: "event_type \<Rightarrow> string" where
  "event_type_value PROJECT_CREATED = ''project_created''"
| "event_type_value REPOSITORY_REGISTERED = ''repository_registered''"
| "event_type_value REPOSITORY_REVISION_CHANGED = ''repository_revision_changed''"
| "event_type_value DOCUMENT_CHANGED = ''document_changed''"
| "event_type_value WORK_ITEM_CREATED = ''work_item_created''"
| "event_type_value WORK_ITEM_CHANGED = ''work_item_changed''"
| "event_type_value WORK_ITEM_ASSIGNED = ''work_item_assigned''"
| "event_type_value REQUIREMENT_CHANGED = ''requirement_changed''"
| "event_type_value EXECUTION_REQUESTED = ''execution_requested''"
| "event_type_value EXECUTION_STARTED = ''execution_started''"
| "event_type_value EXECUTION_COMPLETED = ''execution_completed''"
| "event_type_value VERIFICATION_REQUESTED = ''verification_requested''"
| "event_type_value VERIFICATION_COMPLETED = ''verification_completed''"
| "event_type_value PULL_REQUEST_REQUESTED = ''pull_request_requested''"
| "event_type_value PULL_REQUEST_CREATED = ''pull_request_created''"
| "event_type_value PULL_REQUEST_MERGED = ''pull_request_merged''"
| "event_type_value HUMAN_FEEDBACK_RECEIVED = ''human_feedback_received''"
| "event_type_value KNOWLEDGE_CONFLICT_DETECTED = ''knowledge_conflict_detected''"
| "event_type_value OBSERVATION_CREATED = ''observation_created''"
| "event_type_value OBSERVATION_ACKNOWLEDGED = ''observation_acknowledged''"
| "event_type_value OBSERVATION_RESOLVED = ''observation_resolved''"
| "event_type_value ATTACHMENT_CREATED = ''attachment_created''"
| "event_type_value PROJECT_CHANGED = ''project_changed''"

record event_envelope =
  ev_id :: uuid
  ev_type :: event_type
  ev_occurred_at :: datetime
  ev_project_id :: "uuid option"
  ev_correlation_id :: uuid
  ev_causation_id :: "uuid option"
  ev_source :: string
  ev_idempotency_key :: "string option"
  ev_payload :: "(string \<times> json) list"

subsection \<open>Typed payloads\<close>

datatype feedback_verdict = Fb_Approved | Fb_Rejected | Fb_Needs_Changes | Fb_Note

fun feedback_verdict_value :: "feedback_verdict \<Rightarrow> string" where
  "feedback_verdict_value Fb_Approved = ''approved''"
| "feedback_verdict_value Fb_Rejected = ''rejected''"
| "feedback_verdict_value Fb_Needs_Changes = ''needs_changes''"
| "feedback_verdict_value Fb_Note = ''note''"

datatype canonical_event =
    ProjectCreated json
  | RepositoryRegistered json
  | RepositoryRevisionChanged uuid "string option" string
  | DocumentChanged json
  | WorkItemCreated json
  | WorkItemChanged json
  | WorkItemAssigned uuid "uuid option" "string option" "uuid option" string
  | RequirementChanged json
  | ExecutionRequested json
  | ExecutionStarted json
  | ExecutionCompleted json "json option"
  | VerificationRequested uuid uuid
  | VerificationCompleted json
  | PullRequestRequested uuid uuid uuid string string
  | PullRequestCreated uuid uuid external_reference
  | PullRequestMerged external_reference "uuid option"
  | HumanFeedbackReceived "uuid option" "uuid option" "string option" string string string feedback_verdict string
  | KnowledgeConflictDetected uuid string string string string string
  | ObservationCreated uuid uuid string string string
  | ObservationAcknowledged uuid uuid
  | ObservationResolved uuid uuid
  | AttachmentCreated string string string "int option" "string option" "string option" string
  | ProjectChanged string string string bool "string option" string

fun canonical_event_type :: "canonical_event \<Rightarrow> event_type" where
  "canonical_event_type (ProjectCreated _) = PROJECT_CREATED"
| "canonical_event_type (RepositoryRegistered _) = REPOSITORY_REGISTERED"
| "canonical_event_type (RepositoryRevisionChanged _ _ _) = REPOSITORY_REVISION_CHANGED"
| "canonical_event_type (DocumentChanged _) = DOCUMENT_CHANGED"
| "canonical_event_type (WorkItemCreated _) = WORK_ITEM_CREATED"
| "canonical_event_type (WorkItemChanged _) = WORK_ITEM_CHANGED"
| "canonical_event_type (WorkItemAssigned _ _ _ _ _) = WORK_ITEM_ASSIGNED"
| "canonical_event_type (RequirementChanged _) = REQUIREMENT_CHANGED"
| "canonical_event_type (ExecutionRequested _) = EXECUTION_REQUESTED"
| "canonical_event_type (ExecutionStarted _) = EXECUTION_STARTED"
| "canonical_event_type (ExecutionCompleted _ _) = EXECUTION_COMPLETED"
| "canonical_event_type (VerificationRequested _ _) = VERIFICATION_REQUESTED"
| "canonical_event_type (VerificationCompleted _) = VERIFICATION_COMPLETED"
| "canonical_event_type (PullRequestRequested _ _ _ _ _) = PULL_REQUEST_REQUESTED"
| "canonical_event_type (PullRequestCreated _ _ _) = PULL_REQUEST_CREATED"
| "canonical_event_type (PullRequestMerged _ _) = PULL_REQUEST_MERGED"
| "canonical_event_type (HumanFeedbackReceived _ _ _ _ _ _ _ _) = HUMAN_FEEDBACK_RECEIVED"
| "canonical_event_type (KnowledgeConflictDetected _ _ _ _ _ _) = KNOWLEDGE_CONFLICT_DETECTED"
| "canonical_event_type (ObservationCreated _ _ _ _ _) = OBSERVATION_CREATED"
| "canonical_event_type (ObservationAcknowledged _ _) = OBSERVATION_ACKNOWLEDGED"
| "canonical_event_type (ObservationResolved _ _) = OBSERVATION_RESOLVED"
| "canonical_event_type (AttachmentCreated _ _ _ _ _ _ _) = ATTACHMENT_CREATED"
| "canonical_event_type (ProjectChanged _ _ _ _ _ _) = PROJECT_CHANGED"

definition external_reference_dump :: "external_reference \<Rightarrow> json" where
  "external_reference_dump r =
     JDict [(''provider'', JStr (ref_provider r)), (''external_id'', JStr (ref_external_id r)),
            (''external_type'', jopt JStr (ref_external_type r)), (''url'', jopt JStr (ref_url r)),
            (''namespace'', jopt JStr (ref_namespace r))]"

fun to_payload :: "canonical_event \<Rightarrow> (string \<times> json) list" where
  "to_payload (ProjectCreated p) = [(''project'', p)]"
| "to_payload (RepositoryRegistered r) = [(''repository'', r)]"
| "to_payload (RepositoryRevisionChanged r a b) =
     [(''repository_id'', JStr r), (''old_revision'', jopt JStr a), (''new_revision'', JStr b)]"
| "to_payload (DocumentChanged d) = [(''document'', d)]"
| "to_payload (WorkItemCreated w) = [(''work_item'', w)]"
| "to_payload (WorkItemChanged w) = [(''work_item'', w)]"
| "to_payload (WorkItemAssigned w a x b t) =
     [(''work_item_id'', JStr w), (''actor_id'', jopt JStr a), (''external_actor_id'', jopt JStr x),
      (''assigned_by'', jopt JStr b), (''assigned_at'', JStr t)]"
| "to_payload (RequirementChanged r) = [(''requirement'', r)]"
| "to_payload (ExecutionRequested e) = [(''execution'', e)]"
| "to_payload (ExecutionStarted e) = [(''execution'', e)]"
| "to_payload (ExecutionCompleted e r) = [(''execution'', e), (''result'', jopt (\<lambda>v. v) r)]"
| "to_payload (VerificationRequested e w) = [(''execution_id'', JStr e), (''work_item_id'', JStr w)]"
| "to_payload (VerificationCompleted v) = [(''verification'', v)]"
| "to_payload (PullRequestRequested p w r a b) =
     [(''project_id'', JStr p), (''work_item_id'', JStr w), (''repository_id'', JStr r),
      (''base_revision'', JStr a), (''head_revision'', JStr b)]"
| "to_payload (PullRequestCreated p w r) =
     [(''project_id'', JStr p), (''work_item_id'', JStr w), (''external_ref'', external_reference_dump r)]"
| "to_payload (PullRequestMerged r i) =
     [(''external_ref'', external_reference_dump r), (''repository_id'', jopt JStr i)]"
| "to_payload (HumanFeedbackReceived w a x au pr c v f) =
     [(''work_item_id'', jopt JStr w), (''actor_id'', jopt JStr a), (''external_actor_id'', jopt JStr x),
      (''author'', JStr au), (''provider'', JStr pr), (''external_comment_id'', JStr c),
      (''verdict'', JStr (feedback_verdict_value v)), (''feedback'', JStr f)]"
| "to_payload (KnowledgeConflictDetected e t a b sa sb) =
     [(''entity_id'', JStr e), (''entity_type'', JStr t), (''claim_a'', JStr a), (''claim_b'', JStr b),
      (''source_a'', JStr sa), (''source_b'', JStr sb)]"
| "to_payload (ObservationCreated i p t ti b) =
     [(''observation_id'', JStr i), (''project_id'', JStr p), (''observation_type'', JStr t),
      (''title'', JStr ti), (''body'', JStr b)]"
| "to_payload (ObservationAcknowledged i p) = [(''observation_id'', JStr i), (''project_id'', JStr p)]"
| "to_payload (ObservationResolved i p) = [(''observation_id'', JStr i), (''project_id'', JStr p)]"
| "to_payload (AttachmentCreated x f c s u w pr) =
     [(''external_id'', JStr x), (''file_name'', JStr f), (''content_type'', JStr c),
      (''file_size'', jopt JInt s), (''download_url'', jopt JStr u), (''work_item_id'', jopt JStr w),
      (''provider'', JStr pr)]"
| "to_payload (ProjectChanged x n i a pa pr) =
     [(''external_id'', JStr x), (''name'', JStr n), (''identifier'', JStr i), (''active'', JBool a),
      (''parent_id'', jopt JStr pa), (''provider'', JStr pr)]"

text \<open>\<open>model_to_envelope\<close>, with the identifiers \<open>uuid4\<close> draws: the event's, the correlation's.\<close>

definition model_to_envelope :: "uuid \<Rightarrow> uuid \<Rightarrow> datetime \<Rightarrow> canonical_event \<Rightarrow> string \<Rightarrow> uuid option
    \<Rightarrow> uuid option \<Rightarrow> uuid option \<Rightarrow> string option \<Rightarrow> event_envelope" where
  "model_to_envelope i fresh now e src project corr cause key =
     \<lparr>ev_id = i, ev_type = canonical_event_type e, ev_occurred_at = now, ev_project_id = project,
      ev_correlation_id = (case corr of Some c \<Rightarrow> c | None \<Rightarrow> fresh), ev_causation_id = cause,
      ev_source = src, ev_idempotency_key = key, ev_payload = to_payload e\<rparr>"

text \<open>\<open>source or parent.source\<close>: an empty source falls back too.\<close>

definition derive_event :: "uuid \<Rightarrow> uuid \<Rightarrow> datetime \<Rightarrow> event_envelope \<Rightarrow> canonical_event
    \<Rightarrow> string option \<Rightarrow> string option \<Rightarrow> event_envelope" where
  "derive_event i fresh now parent e src key =
     model_to_envelope i fresh now e
       (case src of None \<Rightarrow> ev_source parent | Some s \<Rightarrow> if s = [] then ev_source parent else s)
       (ev_project_id parent) (Some (ev_correlation_id parent)) (Some (ev_id parent)) key"

text \<open>
  \<open>event_to_model\<close>. What pydantic accepts for a field is a parameter: of a scalar type in
  \<open>validators\<close>, of a boolean and a time here, and for a nested entity \<open>vx_entity\<close> of its class,
  which gives the dump of the validated entity back. \<open>None\<close> is the answer to a payload that does
  not validate; every event type has a model.
\<close>

record event_validators =
  vx_base :: validators
  vx_bool :: "json \<Rightarrow> bool option"
  vx_time :: "json \<Rightarrow> string option"
  vx_now :: string
  vx_entity :: "string \<Rightarrow> json \<Rightarrow> json option"

fun feedback_verdict_of :: "json \<Rightarrow> feedback_verdict option" where
  "feedback_verdict_of (JStr x) =
     List.find (\<lambda>f. feedback_verdict_value f = x) [Fb_Approved, Fb_Rejected, Fb_Needs_Changes, Fb_Note]"
| "feedback_verdict_of _ = None"

fun external_reference_of :: "validators \<Rightarrow> json \<Rightarrow> external_reference option" where
  "external_reference_of v (JDict d) =
     Option.bind (req (v_str v) d ''provider'') (\<lambda>p.
       Option.bind (req (v_str v) d ''external_id'') (\<lambda>x.
         Option.bind (opt (v_str v) d ''external_type'') (\<lambda>t.
           Option.bind (opt (v_str v) d ''url'') (\<lambda>u.
             map_option (\<lambda>n. \<lparr>ref_provider = p, ref_external_id = x, ref_external_type = t,
                              ref_url = u, ref_namespace = n\<rparr>)
               (opt (v_str v) d ''namespace'')))))"
| "external_reference_of v _ = None"

definition event_to_model :: "event_validators \<Rightarrow> event_envelope \<Rightarrow> canonical_event option" where
  "event_to_model x e =
     (let d = ev_payload e; v = vx_base x;
          u = req (v_uuid v) d; ou = opt (v_uuid v) d; str = req (v_str v) d; os = opt (v_str v) d;
          ds = (\<lambda>a. dflt (v_str v) a d); entity = (\<lambda>c. req (vx_entity x c) d);
          xref = req (external_reference_of v) d
      in case ev_type e of
        PROJECT_CREATED \<Rightarrow> map_option ProjectCreated (entity ''Project'' ''project'')
      | REPOSITORY_REGISTERED \<Rightarrow> map_option RepositoryRegistered (entity ''Repository'' ''repository'')
      | REPOSITORY_REVISION_CHANGED \<Rightarrow>
          Option.bind (u ''repository_id'') (\<lambda>r. Option.bind (os ''old_revision'') (\<lambda>a.
            map_option (RepositoryRevisionChanged r a) (str ''new_revision'')))
      | DOCUMENT_CHANGED \<Rightarrow> map_option DocumentChanged (entity ''Document'' ''document'')
      | WORK_ITEM_CREATED \<Rightarrow> map_option WorkItemCreated (entity ''WorkItem'' ''work_item'')
      | WORK_ITEM_CHANGED \<Rightarrow> map_option WorkItemChanged (entity ''WorkItem'' ''work_item'')
      | WORK_ITEM_ASSIGNED \<Rightarrow>
          Option.bind (u ''work_item_id'') (\<lambda>w. Option.bind (ou ''actor_id'') (\<lambda>a.
            Option.bind (os ''external_actor_id'') (\<lambda>y. Option.bind (ou ''assigned_by'') (\<lambda>b.
              map_option (WorkItemAssigned w a y b) (dflt (vx_time x) (vx_now x) d ''assigned_at'')))))
      | REQUIREMENT_CHANGED \<Rightarrow> map_option RequirementChanged (entity ''Requirement'' ''requirement'')
      | EXECUTION_REQUESTED \<Rightarrow> map_option ExecutionRequested (entity ''Execution'' ''execution'')
      | EXECUTION_STARTED \<Rightarrow> map_option ExecutionStarted (entity ''Execution'' ''execution'')
      | EXECUTION_COMPLETED \<Rightarrow>
          Option.bind (entity ''Execution'' ''execution'') (\<lambda>y.
            map_option (ExecutionCompleted y) (opt (vx_entity x ''ExecutionResult'') d ''result''))
      | VERIFICATION_REQUESTED \<Rightarrow>
          Option.bind (u ''execution_id'') (\<lambda>y. map_option (VerificationRequested y) (u ''work_item_id''))
      | VERIFICATION_COMPLETED \<Rightarrow>
          map_option VerificationCompleted (entity ''VerificationResult'' ''verification'')
      | PULL_REQUEST_REQUESTED \<Rightarrow>
          Option.bind (u ''project_id'') (\<lambda>p. Option.bind (u ''work_item_id'') (\<lambda>w.
            Option.bind (u ''repository_id'') (\<lambda>r. Option.bind (str ''base_revision'') (\<lambda>a.
              map_option (PullRequestRequested p w r a) (str ''head_revision'')))))
      | PULL_REQUEST_CREATED \<Rightarrow>
          Option.bind (u ''project_id'') (\<lambda>p. Option.bind (u ''work_item_id'') (\<lambda>w.
            map_option (PullRequestCreated p w) (xref ''external_ref'')))
      | PULL_REQUEST_MERGED \<Rightarrow>
          Option.bind (xref ''external_ref'') (\<lambda>r. map_option (PullRequestMerged r) (ou ''repository_id''))
      | HUMAN_FEEDBACK_RECEIVED \<Rightarrow>
          Option.bind (ou ''work_item_id'') (\<lambda>w. Option.bind (ou ''actor_id'') (\<lambda>a.
            Option.bind (os ''external_actor_id'') (\<lambda>y. Option.bind (ds [] ''author'') (\<lambda>au.
              Option.bind (ds ''openproject'' ''provider'') (\<lambda>p. Option.bind (ds [] ''external_comment_id'') (\<lambda>c.
                Option.bind (dflt feedback_verdict_of Fb_Note d ''verdict'') (\<lambda>f.
                  map_option (HumanFeedbackReceived w a y au p c f) (ds [] ''feedback''))))))))
      | KNOWLEDGE_CONFLICT_DETECTED \<Rightarrow>
          Option.bind (u ''entity_id'') (\<lambda>i. Option.bind (str ''entity_type'') (\<lambda>t.
            Option.bind (str ''claim_a'') (\<lambda>a. Option.bind (str ''claim_b'') (\<lambda>b.
              Option.bind (str ''source_a'') (\<lambda>sa.
                map_option (KnowledgeConflictDetected i t a b sa) (str ''source_b''))))))
      | OBSERVATION_CREATED \<Rightarrow>
          Option.bind (u ''observation_id'') (\<lambda>i. Option.bind (u ''project_id'') (\<lambda>p.
            Option.bind (str ''observation_type'') (\<lambda>t. Option.bind (str ''title'') (\<lambda>ti.
              map_option (ObservationCreated i p t ti) (ds [] ''body'')))))
      | OBSERVATION_ACKNOWLEDGED \<Rightarrow>
          Option.bind (u ''observation_id'') (\<lambda>i. map_option (ObservationAcknowledged i) (u ''project_id''))
      | OBSERVATION_RESOLVED \<Rightarrow>
          Option.bind (u ''observation_id'') (\<lambda>i. map_option (ObservationResolved i) (u ''project_id''))
      | ATTACHMENT_CREATED \<Rightarrow>
          Option.bind (str ''external_id'') (\<lambda>i. Option.bind (ds [] ''file_name'') (\<lambda>n.
            Option.bind (ds [] ''content_type'') (\<lambda>c. Option.bind (opt (v_int v) d ''file_size'') (\<lambda>z.
              Option.bind (os ''download_url'') (\<lambda>l. Option.bind (os ''work_item_id'') (\<lambda>w.
                map_option (AttachmentCreated i n c z l w) (ds ''openproject'' ''provider'')))))))
      | PROJECT_CHANGED \<Rightarrow>
          Option.bind (str ''external_id'') (\<lambda>i. Option.bind (ds [] ''name'') (\<lambda>n.
            Option.bind (ds [] ''identifier'') (\<lambda>k. Option.bind (dflt (vx_bool x) True d ''active'') (\<lambda>a.
              Option.bind (os ''parent_id'') (\<lambda>q.
                map_option (ProjectChanged i n k a q) (ds ''openproject'' ''provider'')))))))"

text \<open>What the code relies on: dumped values, and dumped entities of an event, validate back.\<close>

definition event_validators_ok :: "event_validators \<Rightarrow> bool" where
  "event_validators_ok x \<longleftrightarrow> validators_ok (vx_base x) \<and> (\<forall>b. vx_bool x (JBool b) = Some b) \<and>
     (\<forall>t. vx_time x (JStr t) = Some t)"

fun entities_valid :: "event_validators \<Rightarrow> canonical_event \<Rightarrow> bool" where
  "entities_valid x (ProjectCreated p) = (vx_entity x ''Project'' p = Some p)"
| "entities_valid x (RepositoryRegistered r) = (vx_entity x ''Repository'' r = Some r)"
| "entities_valid x (DocumentChanged d) = (vx_entity x ''Document'' d = Some d)"
| "entities_valid x (WorkItemCreated w) = (vx_entity x ''WorkItem'' w = Some w)"
| "entities_valid x (WorkItemChanged w) = (vx_entity x ''WorkItem'' w = Some w)"
| "entities_valid x (RequirementChanged r) = (vx_entity x ''Requirement'' r = Some r)"
| "entities_valid x (ExecutionRequested e) = (vx_entity x ''Execution'' e = Some e)"
| "entities_valid x (ExecutionStarted e) = (vx_entity x ''Execution'' e = Some e)"
| "entities_valid x (ExecutionCompleted e r) =
     (vx_entity x ''Execution'' e = Some e \<and>
      (\<forall>y. r = Some y \<longrightarrow> y \<noteq> JNull \<and> vx_entity x ''ExecutionResult'' y = Some y))"
| "entities_valid x (VerificationCompleted v) = (vx_entity x ''VerificationResult'' v = Some v)"
| "entities_valid x _ = True"

lemma feedback_verdict_of_value [simp]: "feedback_verdict_of (JStr (feedback_verdict_value f)) = Some f"
  by (cases f) simp_all

declare feedback_verdict_of.simps [simp del]

lemma external_reference_of_dump [simp]:
  "validators_ok v \<Longrightarrow> external_reference_of v (external_reference_dump r) = Some r"
  by (cases r) (simp add: external_reference_dump_def field_simps_dump)

lemma more_field_simps:
  "map_of d k = Some j \<Longrightarrow> req w d k = w j"
  "map_of d k = Some j \<Longrightarrow> dflt w a d k = w j"
  by (simp_all add: req_def dflt_def)

lemma opt_int_dump: "validators_ok v \<Longrightarrow> map_of d k = Some (jopt JInt i) \<Longrightarrow> opt (v_int v) d k = Some i"
  by (cases i) (auto simp: validators_ok_def opt_def jopt_def)

lemma opt_entity_dump:
  "\<lbrakk>map_of d k = Some (jopt (\<lambda>v. v) r); \<And>y. r = Some y \<Longrightarrow> y \<noteq> JNull \<and> w y = Some y\<rbrakk> \<Longrightarrow> opt w d k = Some r"
  by (cases r) (auto simp: opt_def jopt_def)

lemma event_to_model_dump:
  assumes "event_validators_ok x" and "entities_valid x m"
  shows "event_to_model x (model_to_envelope i fresh now m src project corr cause key) = Some m"
proof -
  from assms(1) have v: "validators_ok (vx_base x)" and b: "\<And>b. vx_bool x (JBool b) = Some b"
    and t: "\<And>t. vx_time x (JStr t) = Some t" by (auto simp: event_validators_ok_def)
  from v have scalars: "\<And>u. v_uuid (vx_base x) (JStr u) = Some u" "\<And>u. v_str (vx_base x) (JStr u) = Some u"
    by (simp_all add: validators_ok_def)
  from assms(2) show ?thesis
    by (cases m) (simp_all add: event_to_model_def model_to_envelope_def field_simps_dump [OF v]
        opt_int_dump [OF v] opt_entity_dump external_reference_of_dump [OF v] more_field_simps scalars b t Let_def)
qed

subsection \<open>Bus, log and idempotency store\<close>

record 'x event_state =
  bus_handlers :: "(string, string list) dict"
  bus_published :: "event_envelope list"
  processed_keys :: "string list"
  event_log :: "event_envelope list"
  event_ext :: 'x

type_synonym 'x handler_table = "string \<Rightarrow> event_envelope \<Rightarrow> 'x event_state \<Rightarrow> ('x event_state, unit) outcome"

definition handlers_of :: "string \<Rightarrow> 'x event_state \<Rightarrow> string list" where
  "handlers_of t s = (case dict_get (bus_handlers s) t of None \<Rightarrow> [] | Some hs \<Rightarrow> hs)"

definition subscribe :: "string \<Rightarrow> string \<Rightarrow> 'x event_state \<Rightarrow> 'x event_state" where
  "subscribe t h s = s\<lparr>bus_handlers := dict_set t (handlers_of t s @ [h]) (bus_handlers s)\<rparr>"

text \<open>\<open>handlers.remove(handler)\<close> drops the first occurrence, of a type that has a list.\<close>

definition unsubscribe :: "string \<Rightarrow> string \<Rightarrow> 'x event_state \<Rightarrow> 'x event_state" where
  "unsubscribe t h s =
     (if h \<in> set (handlers_of t s)
      then s\<lparr>bus_handlers := dict_set t (remove1 h (handlers_of t s)) (bus_handlers s)\<rparr> else s)"

fun run_handlers :: "'x handler_table \<Rightarrow> string list \<Rightarrow> event_envelope \<Rightarrow> 'x event_state
    \<Rightarrow> ('x event_state, unit) outcome" where
  "run_handlers run [] e s = (Inr (), s)"
| "run_handlers run (h # hs) e s =
     (case run h e s of
        (Inl x, s') \<Rightarrow> (Inl x, s')
      | (Inr _, s') \<Rightarrow> run_handlers run hs e s')"

definition publish :: "'x handler_table \<Rightarrow> event_envelope \<Rightarrow> 'x event_state \<Rightarrow> ('x event_state, unit) outcome" where
  "publish run e s =
     (let s' = s\<lparr>bus_published := bus_published s @ [e]\<rparr>
      in run_handlers run (handlers_of (event_type_value (ev_type e)) s') e s')"

definition append_event :: "event_envelope \<Rightarrow> 'x event_state \<Rightarrow> 'x event_state" where
  "append_event e s = s\<lparr>event_log := event_log s @ [e]\<rparr>"

definition list_by_correlation :: "uuid \<Rightarrow> 'x event_state \<Rightarrow> event_envelope list" where
  "list_by_correlation c s = filter (\<lambda>e. ev_correlation_id e = c) (event_log s)"

definition list_recent_events :: "int \<Rightarrow> 'x event_state \<Rightarrow> event_envelope list" where
  "list_recent_events limit s = slice_last limit (event_log s)"

definition is_processed :: "string \<Rightarrow> 'x event_state \<Rightarrow> bool" where
  "is_processed k s = (k \<in> set (processed_keys s))"

definition mark_processed :: "string \<Rightarrow> 'x event_state \<Rightarrow> 'x event_state" where
  "mark_processed k s = s\<lparr>processed_keys := List.insert k (processed_keys s)\<rparr>"

subsection \<open>The processor\<close>

datatype process_outcome = Processed | Skipped_Already_Processed

definition process_event :: "'x handler_table \<Rightarrow> event_envelope \<Rightarrow> 'x event_state
    \<Rightarrow> ('x event_state, process_outcome) outcome" where
  "process_event run e s =
     (if (case ev_idempotency_key e of None \<Rightarrow> False | Some k \<Rightarrow> is_processed k s)
      then (Inr Skipped_Already_Processed, s)
      else (case publish run e s of
              (Inl x, s') \<Rightarrow> (Inl x, s')
            | (Inr _, s') \<Rightarrow>
                (let s'' = append_event e s' in
                 (Inr Processed, (case ev_idempotency_key e of None \<Rightarrow> s''
                                  | Some k \<Rightarrow> mark_processed k s'')))))"

text \<open>Deliveries one after the other; the sender sees each answer.\<close>

fun process_all :: "'x handler_table \<Rightarrow> event_envelope list \<Rightarrow> 'x event_state
    \<Rightarrow> (exn + process_outcome) list \<times> 'x event_state" where
  "process_all run [] s = ([], s)"
| "process_all run (e # es) s =
     (let (r, s') = process_event run e s; (rs, s'') = process_all run es s' in (r # rs, s''))"

subsection \<open>What handlers may do\<close>

text \<open>A handler leaves the processor's own stores alone: the log and the processed keys.\<close>

definition handlers_frame :: "'x handler_table \<Rightarrow> bool" where
  "handlers_frame run \<longleftrightarrow>
     (\<forall>h e s. processed_keys (snd (run h e s)) = processed_keys s \<and>
        event_log (snd (run h e s)) = event_log s)"

lemma run_handlers_frame:
  assumes "handlers_frame run"
  shows "processed_keys (snd (run_handlers run hs e s)) = processed_keys s \<and>
    event_log (snd (run_handlers run hs e s)) = event_log s"
proof (induction hs arbitrary: s)
  case (Cons h hs)
  obtain r t where step: "run h e s = (r, t)" by (cases "run h e s")
  with assms have "processed_keys t = processed_keys s" "event_log t = event_log s"
    unfolding handlers_frame_def by (metis snd_conv)+
  with step Cons [of t] show ?case by (cases r) simp_all
qed simp

lemma publish_frame:
  assumes "handlers_frame run" and "publish run e s = (r, t)"
  shows "processed_keys t = processed_keys s" and "event_log t = event_log s"
  using run_handlers_frame [OF assms(1), of "handlers_of (event_type_value (ev_type e))
      (s\<lparr>bus_published := bus_published s @ [e]\<rparr>)" e "s\<lparr>bus_published := bus_published s @ [e]\<rparr>"] assms(2)
  by (simp_all add: publish_def Let_def)

definition log_keys :: "'x event_state \<Rightarrow> string list" where
  "log_keys s = List.map_filter ev_idempotency_key (event_log s)"

lemma log_keys_append: "log_keys (append_event e s) =
    log_keys s @ (case ev_idempotency_key e of None \<Rightarrow> [] | Some k \<Rightarrow> [k])"
  by (simp add: log_keys_def append_event_def map_filter_def split: option.splits)

text \<open>The invariant of the processor: the keys in the log are the processed keys, once each.\<close>

definition processor_inv :: "'x event_state \<Rightarrow> bool" where
  "processor_inv s \<longleftrightarrow> distinct (log_keys s) \<and> set (log_keys s) = set (processed_keys s)"

text \<open>The three ways a delivery ends.\<close>

lemma process_event_cases [consumes 1, case_names skipped raised ok]:
  assumes "process_event run e s = (r, t)"
  obtains (skipped) k where "ev_idempotency_key e = Some k" "is_processed k s"
      "r = Inr Skipped_Already_Processed" "t = s"
  | (raised) x where "publish run e s = (Inl x, t)" "r = Inl x"
      "\<And>k. ev_idempotency_key e = Some k \<Longrightarrow> \<not> is_processed k s"
  | (ok) u where "publish run e s = (Inr (), u)" "r = Inr Processed"
      "t = (case ev_idempotency_key e of None \<Rightarrow> append_event e u
            | Some k \<Rightarrow> mark_processed k (append_event e u))"
      "\<And>k. ev_idempotency_key e = Some k \<Longrightarrow> \<not> is_processed k s"
proof (cases "case ev_idempotency_key e of None \<Rightarrow> False | Some k \<Rightarrow> is_processed k s")
  case True
  then obtain k where k: "ev_idempotency_key e = Some k" "is_processed k s" by (auto split: option.splits)
  with assms have "r = Inr Skipped_Already_Processed" "t = s" by (simp_all add: process_event_def)
  with k show thesis by (rule skipped)
next
  case False
  then have new: "\<And>k. ev_idempotency_key e = Some k \<Longrightarrow> \<not> is_processed k s" by simp
  obtain q u where pub: "publish run e s = (q, u)" by (cases "publish run e s")
  show thesis
  proof (cases q)
    case (Inl x)
    with False pub assms have "r = Inl x" "t = u" by (simp_all add: process_event_def)
    with Inl pub new show thesis by (intro raised) simp_all
  next
    case (Inr v)
    with False pub assms have "r = Inr Processed"
      "t = (case ev_idempotency_key e of None \<Rightarrow> append_event e u
            | Some k \<Rightarrow> mark_processed k (append_event e u))" by (simp_all add: process_event_def Let_def)
    with Inr pub new show thesis by (intro ok) simp_all
  qed
qed

lemma process_event_inv:
  assumes "handlers_frame run" and "process_event run e s = (r, t)" and "processor_inv s"
  shows "processor_inv t"
  using assms(2)
proof (cases rule: process_event_cases)
  case (skipped k)
  with assms(3) show ?thesis by simp
next
  case (raised x)
  from publish_frame [OF assms(1) raised(1)] assms(3) show ?thesis
    by (simp add: processor_inv_def log_keys_def)
next
  case (ok u)
  from publish_frame [OF assms(1) this(1)] have frame: "processed_keys u = processed_keys s" "log_keys u = log_keys s"
    by (simp_all add: log_keys_def)
  show ?thesis
  proof (cases "ev_idempotency_key e")
    case None
    with ok(3) frame assms(3) log_keys_append [of e u] show ?thesis
      by (simp add: processor_inv_def append_event_def)
  next
    case (Some k)
    have "\<not> is_processed k s" using ok(4) Some by blast
    moreover have "log_keys t = log_keys s @ [k]" "processed_keys t = List.insert k (processed_keys s)"
      using ok(3) Some frame log_keys_append [of e u]
      by (simp_all add: mark_processed_def log_keys_def append_event_def)
    ultimately show ?thesis using assms(3) by (auto simp: processor_inv_def is_processed_def)
  qed
qed

subsection \<open>Handlers for the witnesses\<close>

text \<open>A handler that counts, and raises on the first event it sees.\<close>

definition flaky_handler :: "nat handler_table" where
  "flaky_handler h e s =
     (if event_ext s = 0 then (Inl (Exn ''RuntimeError'' ''down''), s\<lparr>event_ext := 1\<rparr>)
      else (Inr (), s\<lparr>event_ext := Suc (event_ext s)\<rparr>))"

lemma flaky_frame: "handlers_frame flaky_handler"
  by (simp add: handlers_frame_def flaky_handler_def)

definition demo_event :: "string option \<Rightarrow> event_envelope" where
  "demo_event k = \<lparr>ev_id = ''e'', ev_type = WORK_ITEM_ASSIGNED, ev_occurred_at = 0, ev_project_id = None,
     ev_correlation_id = ''c'', ev_causation_id = None, ev_source = ''openproject'',
     ev_idempotency_key = k, ev_payload = [(''work_item_id'', JStr ''w'')]\<rparr>"

definition demo_events_state :: "nat event_state" where
  "demo_events_state = subscribe ''work_item_assigned'' ''h''
     \<lparr>bus_handlers = [], bus_published = [], processed_keys = [], event_log = [], event_ext = 0\<rparr>"

subsection \<open>Properties\<close>

text \<open>
  C12: events with an idempotency key are processed at most once. However often they are
  delivered and whatever the handlers raise, the log of a state reached from one whose log
  keys are the processed keys has every key at most once, and again exactly the processed
  keys; an event whose key is already processed is answered as skipped and changes nothing.
\<close>

theorem keyed_events_processed_once:
  assumes "handlers_frame run" and "processor_inv s" and "process_all run es s = (rs, t)"
  shows "distinct (log_keys t) \<and> set (log_keys t) = set (processed_keys t) \<and>
    (\<forall>e k. ev_idempotency_key e = Some k \<longrightarrow> k \<in> set (log_keys t) \<longrightarrow>
       process_event run e t = (Inr Skipped_Already_Processed, t))"
proof -
  have "processor_inv t" using assms(2,3)
  proof (induction es arbitrary: s rs t)
    case (Cons e es)
    obtain r u where step: "process_event run e s = (r, u)" by (cases "process_event run e s")
    obtain rs' v where rest: "process_all run es u = (rs', v)" by (cases "process_all run es u")
    from process_event_inv [OF assms(1) step Cons.prems(1)] have "processor_inv u" .
    from Cons.IH [OF this rest] Cons.prems(2) step rest show ?case by simp
  qed simp
  then show ?thesis by (auto simp: processor_inv_def process_event_def is_processed_def)
qed

theorem keyed_events_processed_once_witness:
  "log_keys (snd (process_all flaky_handler (replicate 3 (demo_event (Some ''k''))) demo_events_state)) = [''k''] \<and>
   distinct (log_keys (snd (process_all flaky_handler (replicate 3 (demo_event (Some ''k''))) demo_events_state)))"
proof -
  have inv: "processor_inv demo_events_state"
    by (simp add: processor_inv_def log_keys_def demo_events_state_def subscribe_def map_filter_def)
  have "log_keys (snd (process_all flaky_handler (replicate 3 (demo_event (Some ''k''))) demo_events_state)) = [''k'']"
    by (simp add: numeral_3_eq_3 process_event_def publish_def handlers_of_def flaky_handler_def
        demo_events_state_def subscribe_def demo_event_def log_keys_def is_processed_def mark_processed_def
        append_event_def Let_def map_filter_def)
  with keyed_events_processed_once [OF flaky_frame inv, of "replicate 3 (demo_event (Some ''k''))"]
  show ?thesis by (metis prod.collapse)
qed

text \<open>
  A failing handler loses no event. When a delivery raises, the exception is a handler's,
  the event is neither logged nor marked, and delivering it again dispatches it again instead
  of skipping it: the second answer is processed or another exception.
\<close>

theorem failed_delivery_is_redelivered:
  assumes "handlers_frame run" and "process_event run e s = (Inl x, t)"
  shows "publish run e s = (Inl x, t) \<and> event_log t = event_log s \<and> processed_keys t = processed_keys s \<and>
    fst (process_event run e t) \<noteq> Inr Skipped_Already_Processed \<and>
    (\<forall>u. publish run e t = (Inr (), u) \<longrightarrow> fst (process_event run e t) = Inr Processed)"
  using assms(2)
proof (cases rule: process_event_cases)
  case (raised y)
  note frame = publish_frame [OF assms(1) raised(1)]
  have "\<not> (case ev_idempotency_key e of None \<Rightarrow> False | Some k \<Rightarrow> is_processed k t)"
    using raised(3) frame by (auto simp: is_processed_def split: option.splits)
  then have "process_event run e t =
      (case publish run e t of (Inl x, s') \<Rightarrow> (Inl x, s')
       | (Inr _, s') \<Rightarrow> (Inr Processed, (case ev_idempotency_key e of None \<Rightarrow> append_event e s'
                          | Some k \<Rightarrow> mark_processed k (append_event e s'))))"
    by (simp only: process_event_def if_False Let_def)
  with raised(1,2) frame show ?thesis by (auto split: prod.splits sum.splits)
qed simp_all

theorem failed_delivery_is_redelivered_witness:
  "\<exists>x t. process_event flaky_handler (demo_event (Some ''k'')) demo_events_state = (Inl x, t) \<and>
     fst (process_event flaky_handler (demo_event (Some ''k'')) t) \<noteq> Inr Skipped_Already_Processed"
proof -
  have "\<exists>x t. process_event flaky_handler (demo_event (Some ''k'')) demo_events_state = (Inl x, t)"
    by (simp add: process_event_def publish_def handlers_of_def flaky_handler_def demo_events_state_def
        subscribe_def demo_event_def is_processed_def Let_def)
  then obtain x t where run: "process_event flaky_handler (demo_event (Some ''k'')) demo_events_state = (Inl x, t)"
    by blast
  from failed_delivery_is_redelivered [OF flaky_frame run] run show ?thesis by blast
qed

text \<open>
  C13: a canonical event survives its envelope. For every typed event - with nested entities that
  their models accept, when it has any - the envelope built around it, with any source, project,
  correlation, causation and idempotency key, gives the same event back.
\<close>

theorem event_model_roundtrip:
  assumes "event_validators_ok x" and "entities_valid x m"
  shows "event_to_model x (model_to_envelope i fresh now m src project corr cause key) = Some m \<and>
    event_to_model x (derive_event i fresh now parent m src' key) = Some m"
  using event_to_model_dump [OF assms] by (simp add: derive_event_def)

text \<open>Validators that take exactly the dumped shapes.\<close>

definition demo_validators :: event_validators where
  "demo_validators =
     \<lparr>vx_base = \<lparr>v_uuid = (\<lambda>j. case j of JStr s \<Rightarrow> Some s | _ \<Rightarrow> None),
                v_str = (\<lambda>j. case j of JStr s \<Rightarrow> Some s | _ \<Rightarrow> None),
                v_int = (\<lambda>j. case j of JInt n \<Rightarrow> Some n | _ \<Rightarrow> None)\<rparr>,
      vx_bool = (\<lambda>j. case j of JBool b \<Rightarrow> Some b | _ \<Rightarrow> None),
      vx_time = (\<lambda>j. case j of JStr s \<Rightarrow> Some s | _ \<Rightarrow> None), vx_now = ''now'', vx_entity = (\<lambda>c j. Some j)\<rparr>"

lemma demo_validators_ok: "event_validators_ok demo_validators" "validators_ok (vx_base demo_validators)"
  by (simp_all add: event_validators_ok_def validators_ok_def demo_validators_def)

theorem event_model_roundtrip_witness:
  "event_to_model demo_validators (model_to_envelope ''i'' ''f'' 0 (RepositoryRevisionChanged ''r'' None ''b'')
     ''s'' None None None None) = Some (RepositoryRevisionChanged ''r'' None ''b'')"
proof -
  have "entities_valid demo_validators (RepositoryRevisionChanged ''r'' None ''b'')" by simp
  from event_model_roundtrip [OF demo_validators_ok(1) this] show ?thesis by blast
qed

end
