(* ===== verification/Observations.thy ===== *)
theory Observations
  imports Events
begin

text \<open>
  The engineering journal: observations (\<open>domain/observations.py\<close>), their store
  (\<open>adapters/in_memory/observations.py\<close>), the policy and service
  (\<open>application/observations.py\<close>); their projection into human tools
  (\<open>domain/human_activity.py\<close>, \<open>adapters/in_memory/human_activity.py\<close>,
  \<open>adapters/human_activity/openproject.py\<close>, \<open>application/observation_projection.py\<close>); and the
  scheduler's detection of stuck executions (\<open>scheduler/reconciliation.py\<close>).

  The handlers on the bus act on the bus's own state; the journal is changed by the service
  only. The tool's HTTP transport is a parameter on a world \<open>'w\<close>.
\<close>

subsection \<open>Observations and the policy\<close>

datatype observation_type = Discovery | Warning | Conflict | Implementation_Status_Obs | Scope_Change
  | Assumption | Verification_Failure_Obs | Verification_Pass | Blocker | Dependency_Discovered
  | Architecture_Violation | Human_Action_Required

fun observation_type_value :: "observation_type \<Rightarrow> string" where
  "observation_type_value Discovery = ''discovery''"
| "observation_type_value Warning = ''warning''"
| "observation_type_value Conflict = ''conflict''"
| "observation_type_value Implementation_Status_Obs = ''implementation_status''"
| "observation_type_value Scope_Change = ''scope_change''"
| "observation_type_value Assumption = ''assumption''"
| "observation_type_value Verification_Failure_Obs = ''verification_failure''"
| "observation_type_value Verification_Pass = ''verification_pass''"
| "observation_type_value Blocker = ''blocker''"
| "observation_type_value Dependency_Discovered = ''dependency_discovered''"
| "observation_type_value Architecture_Violation = ''architecture_violation''"
| "observation_type_value Human_Action_Required = ''human_action_required''"

datatype observation_severity = Sev_Info | Sev_Warning | Sev_Error

datatype observation_visibility = Vis_Internal | Vis_Team | Vis_Important

datatype observation_status = Ob_Open | Ob_Acknowledged | Ob_Resolved

record observation =
  ob_id :: uuid
  ob_project_id :: uuid
  ob_work_item_id :: "uuid option"
  ob_execution_id :: "uuid option"
  ob_requirement_id :: "uuid option"
  ob_repository_id :: "uuid option"
  ob_repository_revision :: "string option"
  ob_context_capsule_id :: "uuid option"
  ob_verification_id :: "uuid option"
  ob_artifact_id :: "uuid option"
  ob_evidence_id :: "uuid option"
  ob_decision_id :: "uuid option"
  ob_type :: observation_type
  ob_severity :: observation_severity
  ob_visibility :: observation_visibility
  ob_status :: observation_status
  ob_title :: string
  ob_body :: string
  ob_source :: string
  ob_evidence_refs :: "uuid list"
  ob_human_attention :: bool
  ob_dedup_key :: "string option"
  ob_created_at :: datetime
  ob_acknowledged_at :: "datetime option"
  ob_resolved_at :: "datetime option"

definition important_types :: "observation_type set" where
  "important_types = {Blocker, Human_Action_Required, Architecture_Violation,
     Verification_Failure_Obs, Conflict}"

definition classify_observation :: "observation_type \<Rightarrow> observation_visibility" where
  "classify_observation t =
     (if t \<in> important_types then Vis_Important
      else if t \<in> {Warning, Scope_Change, Dependency_Discovered, Implementation_Status_Obs} then Vis_Team
      else Vis_Internal)"

definition severity_of :: "observation_type \<Rightarrow> observation_severity" where
  "severity_of t =
     (if t \<in> important_types then Sev_Error
      else if t \<in> {Warning, Scope_Change, Dependency_Discovered} then Sev_Warning
      else Sev_Info)"

definition requires_human_attention :: "observation_type \<Rightarrow> bool" where
  "requires_human_attention t = (t \<in> {Human_Action_Required, Blocker})"

subsection \<open>The store and the service\<close>

type_synonym observation_store = "(uuid, observation) dict"

record 'x journal =
  jr_store :: observation_store
  jr_bus :: "'x event_state"

definition save_observation :: "observation \<Rightarrow> 'x journal \<Rightarrow> 'x journal" where
  "save_observation o1 j = j\<lparr>jr_store := dict_set (ob_id o1) o1 (jr_store j)\<rparr>"

definition get_observation :: "uuid \<Rightarrow> 'x journal \<Rightarrow> observation option" where
  "get_observation i j = dict_get (jr_store j) i"

definition observations_of_project :: "uuid \<Rightarrow> 'x journal \<Rightarrow> observation list" where
  "observations_of_project p j = filter (\<lambda>o1. ob_project_id o1 = p) (dict_values (jr_store j))"

definition observations_of_work_item :: "uuid \<Rightarrow> 'x journal \<Rightarrow> observation list" where
  "observations_of_work_item w j = filter (\<lambda>o1. ob_work_item_id o1 = Some w) (dict_values (jr_store j))"

definition recent_observations :: "int \<Rightarrow> 'x journal \<Rightarrow> observation list" where
  "recent_observations limit j = slice_last limit (dict_values (jr_store j))"

definition find_by_dedup_key :: "string \<Rightarrow> 'x journal \<Rightarrow> observation option" where
  "find_by_dedup_key k j = List.find (\<lambda>o1. ob_dedup_key o1 = Some k) (dict_values (jr_store j))"

text \<open>
  What \<open>create\<close> is called with beyond the fields the policy derives; \<open>draft\<close> is the
  observation with those fields filled in by the policy, open, and with a fresh id.
\<close>

record observation_request =
  oq_project_id :: uuid
  oq_type :: observation_type
  oq_title :: string
  oq_body :: string
  oq_work_item_id :: "uuid option"
  oq_execution_id :: "uuid option"
  oq_requirement_id :: "uuid option"
  oq_repository_id :: "uuid option"
  oq_repository_revision :: "string option"
  oq_context_capsule_id :: "uuid option"
  oq_verification_id :: "uuid option"
  oq_artifact_id :: "uuid option"
  oq_evidence_id :: "uuid option"
  oq_decision_id :: "uuid option"
  oq_evidence_refs :: "uuid list"
  oq_source :: string
  oq_dedup_key :: "string option"

definition simple_request :: "uuid \<Rightarrow> observation_type \<Rightarrow> string \<Rightarrow> string \<Rightarrow> uuid option \<Rightarrow> uuid option
    \<Rightarrow> string option \<Rightarrow> observation_request" where
  "simple_request p t title body w x k =
     \<lparr>oq_project_id = p, oq_type = t, oq_title = title, oq_body = body, oq_work_item_id = w,
      oq_execution_id = x, oq_requirement_id = None, oq_repository_id = None,
      oq_repository_revision = None, oq_context_capsule_id = None, oq_verification_id = None,
      oq_artifact_id = None, oq_evidence_id = None, oq_decision_id = None, oq_evidence_refs = [],
      oq_source = ''brain'', oq_dedup_key = k\<rparr>"

definition draft :: "uuid \<Rightarrow> datetime \<Rightarrow> observation_request \<Rightarrow> observation" where
  "draft i now q =
     \<lparr>ob_id = i, ob_project_id = oq_project_id q, ob_work_item_id = oq_work_item_id q,
      ob_execution_id = oq_execution_id q, ob_requirement_id = oq_requirement_id q,
      ob_repository_id = oq_repository_id q, ob_repository_revision = oq_repository_revision q,
      ob_context_capsule_id = oq_context_capsule_id q, ob_verification_id = oq_verification_id q,
      ob_artifact_id = oq_artifact_id q, ob_evidence_id = oq_evidence_id q,
      ob_decision_id = oq_decision_id q, ob_type = oq_type q, ob_severity = severity_of (oq_type q),
      ob_visibility = classify_observation (oq_type q), ob_status = Ob_Open, ob_title = oq_title q,
      ob_body = oq_body q, ob_source = oq_source q, ob_evidence_refs = oq_evidence_refs q,
      ob_human_attention = requires_human_attention (oq_type q), ob_dedup_key = oq_dedup_key q,
      ob_created_at = now, ob_acknowledged_at = None, ob_resolved_at = None\<rparr>"

text \<open>\<open>_emit\<close>: without a bus nothing happens; \<open>eid\<close> and \<open>fresh\<close> are the drawn identifiers.\<close>

definition observation_payload :: "event_type \<Rightarrow> observation \<Rightarrow> (string \<times> json) list" where
  "observation_payload t o1 =
     (if t = OBSERVATION_CREATED
      then to_payload (ObservationCreated (ob_id o1) (ob_project_id o1)
             (observation_type_value (ob_type o1)) (ob_title o1) (ob_body o1))
      else if t = OBSERVATION_ACKNOWLEDGED
      then to_payload (ObservationAcknowledged (ob_id o1) (ob_project_id o1))
      else to_payload (ObservationResolved (ob_id o1) (ob_project_id o1)))"

definition observation_event :: "uuid \<Rightarrow> uuid \<Rightarrow> datetime \<Rightarrow> event_type \<Rightarrow> observation \<Rightarrow> uuid option
    \<Rightarrow> event_envelope" where
  "observation_event eid fresh now t o1 corr =
     \<lparr>ev_id = eid, ev_type = t, ev_occurred_at = now, ev_project_id = Some (ob_project_id o1),
      ev_correlation_id = (case corr of Some c \<Rightarrow> c | None \<Rightarrow> fresh), ev_causation_id = None,
      ev_source = ''brain.observations'', ev_idempotency_key = None,
      ev_payload = observation_payload t o1\<rparr>"

type_synonym 'x bus_option = "'x handler_table option"

definition emit :: "'x bus_option \<Rightarrow> event_envelope \<Rightarrow> 'x journal \<Rightarrow> ('x journal, unit) outcome" where
  "emit bus e j =
     (case bus of
        None \<Rightarrow> (Inr (), j)
      | Some run \<Rightarrow> (let (r, b) = publish run e (jr_bus j) in (r, j\<lparr>jr_bus := b\<rparr>)))"

text \<open>The service after saving: the observation is returned unless a handler raises.\<close>

definition save_and_emit :: "'x bus_option \<Rightarrow> uuid \<Rightarrow> uuid \<Rightarrow> datetime \<Rightarrow> event_type \<Rightarrow> observation
    \<Rightarrow> uuid option \<Rightarrow> 'x journal \<Rightarrow> ('x journal, observation) outcome" where
  "save_and_emit bus eid fresh now t o1 corr j =
     (case emit bus (observation_event eid fresh now t o1 corr) (save_observation o1 j) of
        (Inl e, j') \<Rightarrow> (Inl e, j')
      | (Inr _, j') \<Rightarrow> (Inr o1, j'))"

definition create_entry :: "'x bus_option \<Rightarrow> uuid \<Rightarrow> uuid \<Rightarrow> uuid \<Rightarrow> datetime \<Rightarrow> observation_request
    \<Rightarrow> uuid option \<Rightarrow> 'x journal \<Rightarrow> ('x journal, observation) outcome" where
  "create_entry bus i eid fresh now q corr j =
     (case (case oq_dedup_key q of None \<Rightarrow> None | Some k \<Rightarrow> find_by_dedup_key k j) of
        Some existing \<Rightarrow> (Inr existing, j)
      | None \<Rightarrow> save_and_emit bus eid fresh now OBSERVATION_CREATED (draft i now q) corr j)"

definition with_result :: "('s, 'a) outcome \<Rightarrow> ('s, 'a option) outcome" where
  "with_result r = (case r of (Inl e, s) \<Rightarrow> (Inl e, s) | (Inr v, s) \<Rightarrow> (Inr (Some v), s))"

definition acknowledge_observation :: "'x bus_option \<Rightarrow> uuid \<Rightarrow> uuid \<Rightarrow> datetime \<Rightarrow> uuid \<Rightarrow> uuid option
    \<Rightarrow> 'x journal \<Rightarrow> ('x journal, observation option) outcome" where
  "acknowledge_observation bus eid fresh now i corr j =
     (case get_observation i j of
        None \<Rightarrow> (Inr None, j)
      | Some o1 \<Rightarrow>
          with_result (save_and_emit bus eid fresh now OBSERVATION_ACKNOWLEDGED
            (o1\<lparr>ob_status := Ob_Acknowledged, ob_acknowledged_at := Some now\<rparr>) corr j))"

definition resolve_observation :: "'x bus_option \<Rightarrow> uuid \<Rightarrow> uuid \<Rightarrow> datetime \<Rightarrow> uuid \<Rightarrow> uuid option
    \<Rightarrow> 'x journal \<Rightarrow> ('x journal, observation option) outcome" where
  "resolve_observation bus eid fresh now i corr j =
     (case get_observation i j of
        None \<Rightarrow> (Inr None, j)
      | Some o1 \<Rightarrow>
          with_result (save_and_emit bus eid fresh now OBSERVATION_RESOLVED
            (o1\<lparr>ob_status := Ob_Resolved, ob_resolved_at := Some now\<rparr>) corr j))"

subsection \<open>Projection into human tools\<close>

datatype projection_status = Proj_Pending | Published | Proj_Failed | Proj_Skipped

record activity_reference =
  ha_id :: uuid
  ha_observation_id :: uuid
  ha_provider :: string
  ha_target :: external_reference
  ha_external_activity_id :: "string option"
  ha_status :: projection_status
  ha_published_at :: "datetime option"
  ha_error :: "string option"

type_synonym projection_store = "(uuid \<times> string, activity_reference) dict"

definition save_projection :: "activity_reference \<Rightarrow> projection_store \<Rightarrow> projection_store" where
  "save_projection r s = dict_set (ha_observation_id r, ha_provider r) r s"

definition get_projection :: "uuid \<Rightarrow> string \<Rightarrow> projection_store \<Rightarrow> activity_reference option" where
  "get_projection o1 p s = dict_get s (o1, p)"

definition list_failed :: "int \<Rightarrow> projection_store \<Rightarrow> activity_reference list" where
  "list_failed limit s = slice_last limit (filter (\<lambda>r. ha_status r = Proj_Failed) (dict_values s))"

definition published_count :: "projection_store \<Rightarrow> nat" where
  "published_count s = length (filter (\<lambda>r. ha_status r = Published) (dict_values s))"

text \<open>A port publishes to a target; it acts on the world of the tool.\<close>

type_synonym 'w activity_port = "external_reference \<Rightarrow> observation \<Rightarrow> 'w \<Rightarrow> ('w, activity_reference) outcome"

definition null_port :: "uuid \<Rightarrow> 'w activity_port" where
  "null_port i target o1 w =
     (Inr \<lparr>ha_id = i, ha_observation_id = ob_id o1, ha_provider = ''null'',
           ha_target = \<lparr>ref_provider = ''null'', ref_external_id = [], ref_external_type = None,
                        ref_url = None, ref_namespace = None\<rparr>,
           ha_external_activity_id = None, ha_status = Proj_Skipped, ha_published_at = None,
           ha_error = Some ''no human activity provider configured''\<rparr>, w)"

text \<open>
  \<open>_format_observation\<close>; the dash of the first line lies outside the modelled code points and
  is a parameter.
\<close>

definition format_observation :: "string \<Rightarrow> observation \<Rightarrow> string" where
  "format_observation dash o1 =
     join [CHR 0x0A]
       ([''Brain observation '' @ dash @ '' '' @
          map (\<lambda>c. if c = CHR ''_'' then CHR '' '' else c) (observation_type_value (ob_type o1)),
         [], ob_title o1] @ (if ob_body o1 = [] then [] else [[], ob_body o1]))"

definition openproject_port :: "string \<Rightarrow> (string \<Rightarrow> string \<Rightarrow> 'w \<Rightarrow> ('w, (string \<times> json) list) outcome)
    \<Rightarrow> uuid \<Rightarrow> datetime \<Rightarrow> 'w activity_port" where
  "openproject_port dash post i now target o1 w =
     (let failed = (\<lambda>m. \<lparr>ha_id = i, ha_observation_id = ob_id o1, ha_provider = ''openproject'',
             ha_target = target, ha_external_activity_id = None, ha_status = Proj_Failed,
             ha_published_at = None, ha_error = Some m\<rparr>) in
      if ref_provider target \<noteq> ''openproject''
      then (Inr (failed (''target provider mismatch: '' @ ref_provider target)), w)
      else (case post (ref_external_id target) (format_observation dash o1) w of
              (Inl e, w') \<Rightarrow> (Inr (failed (exn_text e)), w')
            | (Inr result, w') \<Rightarrow>
                (let x = py_str (py_or (py_or (jget result ''id'') (jget result ''commentId'')) (JStr [])) in
                 (Inr \<lparr>ha_id = i, ha_observation_id = ob_id o1, ha_provider = ''openproject'',
                       ha_target = target, ha_external_activity_id = (if x = [] then None else Some x),
                       ha_status = Published, ha_published_at = Some now, ha_error = None\<rparr>, w'))))"

definition project_observation :: "'w activity_port \<Rightarrow> observation \<Rightarrow> external_reference \<Rightarrow> bool
    \<Rightarrow> projection_store \<times> 'w \<Rightarrow> (projection_store \<times> 'w, activity_reference) outcome" where
  "project_observation port o1 target force s =
     (case (case get_projection (ob_id o1) (ref_provider target) (fst s) of
              Some r \<Rightarrow> if ha_status r = Published \<and> \<not> force then Some r else None
            | None \<Rightarrow> None) of
        Some r \<Rightarrow> (Inr r, s)
      | None \<Rightarrow>
          (case port target o1 (snd s) of
             (Inl e, w) \<Rightarrow> (Inl e, (fst s, w))
           | (Inr r, w) \<Rightarrow> (Inr r, (save_projection r (fst s), w))))"

fun retry_projections :: "'w activity_port \<Rightarrow> (uuid \<Rightarrow> observation option) \<Rightarrow> activity_reference list
    \<Rightarrow> projection_store \<times> 'w \<Rightarrow> (projection_store \<times> 'w, activity_reference list) outcome" where
  "retry_projections port obs [] s = (Inr [], s)"
| "retry_projections port obs (r # rs) s =
     (if ha_status r \<noteq> Proj_Failed then retry_projections port obs rs s
      else (case obs (ha_observation_id r) of
              None \<Rightarrow> retry_projections port obs rs s
            | Some o1 \<Rightarrow>
                (case project_observation port o1 (ha_target r) True s of
                   (Inl e, s') \<Rightarrow> (Inl e, s')
                 | (Inr u, s') \<Rightarrow>
                     (case retry_projections port obs rs s' of
                        (Inl e, s'') \<Rightarrow> (Inl e, s'')
                      | (Inr us, s'') \<Rightarrow> (Inr (if ha_status u = Published then u # us else us), s'')))))"

definition retry_failed :: "'w activity_port \<Rightarrow> (uuid \<Rightarrow> observation option) \<Rightarrow> int
    \<Rightarrow> projection_store \<times> 'w \<Rightarrow> (projection_store \<times> 'w, activity_reference list) outcome" where
  "retry_failed port obs limit s = retry_projections port obs (list_failed limit (fst s)) s"

text \<open>Projections without \<open>force\<close>, one after the other; an exception is the caller's.\<close>

fun project_each :: "'w activity_port \<Rightarrow> (observation \<times> external_reference) list
    \<Rightarrow> projection_store \<times> 'w \<Rightarrow> projection_store \<times> 'w" where
  "project_each port [] s = s"
| "project_each port ((o1, target) # rest) s =
     project_each port rest (snd (project_observation port o1 target False s))"

subsection \<open>The journal's invariant\<close>

definition journal_keys :: "'x journal \<Rightarrow> string list" where
  "journal_keys j = List.map_filter ob_dedup_key (dict_values (jr_store j))"

text \<open>Every observation is stored under its own id, and no dedup key is used twice.\<close>

definition journal_inv :: "'x journal \<Rightarrow> bool" where
  "journal_inv j \<longleftrightarrow> dict_ok (jr_store j) \<and> (\<forall>(i, o1) \<in> set (jr_store j). ob_id o1 = i) \<and>
     distinct (journal_keys j)"

lemma find_by_dedup_key_None: "find_by_dedup_key k j = None \<longleftrightarrow> k \<notin> set (journal_keys j)"
  by (force simp: find_by_dedup_key_def find_None_iff' journal_keys_def map_filter_def)

lemma journal_inv_fresh:
  assumes "journal_inv j" and "get_observation (ob_id o1) j = None"
    and "\<And>k. ob_dedup_key o1 = Some k \<Longrightarrow> find_by_dedup_key k j = None"
  shows "journal_inv (save_observation o1 j)"
proof -
  from assms(2) have store: "jr_store (save_observation o1 j) = jr_store j @ [(ob_id o1, o1)]"
    by (simp add: save_observation_def get_observation_def dict_set_fresh)
  then have "journal_keys (save_observation o1 j) =
      journal_keys j @ (case ob_dedup_key o1 of None \<Rightarrow> [] | Some k \<Rightarrow> [k])"
    by (simp add: journal_keys_def dict_values_def map_filter_def split: option.splits)
  moreover have "\<And>k. ob_dedup_key o1 = Some k \<Longrightarrow> k \<notin> set (journal_keys j)"
    using assms(3) by (simp add: find_by_dedup_key_None)
  moreover have "dict_ok (jr_store (save_observation o1 j))"
    using assms(1) by (simp add: save_observation_def journal_inv_def)
  ultimately show ?thesis using assms(1) store by (auto simp: journal_inv_def split: option.splits)
qed

text \<open>Saving a changed version of a stored observation under the same key.\<close>

lemma map_filter_update:
  "\<lbrakk>dict_get d i = Some v; f w = f v\<rbrakk> \<Longrightarrow>
    List.map_filter f (map snd (dict_set i w d)) = List.map_filter f (map snd d)"
  by (induction d) (auto simp: map_filter_def split: if_splits)

lemma set_update_same: "dict_get d i = Some v \<Longrightarrow> set (dict_set i w d) \<subseteq> insert (i, w) (set d)"
  by (induction d) (auto split: if_splits)

lemma journal_inv_update:
  assumes "journal_inv j" and "get_observation i j = Some o1" and "ob_id o2 = ob_id o1"
    and "ob_dedup_key o2 = ob_dedup_key o1"
  shows "journal_inv (save_observation o2 j)"
proof -
  from assms(1,2) have "ob_id o1 = i"
    by (auto simp: journal_inv_def get_observation_def dest: map_of_SomeD)
  with assms(2,3) have "dict_get (jr_store j) (ob_id o2) = Some o1" by (simp add: get_observation_def)
  with assms(1,4) set_update_same [OF this, of o2] map_filter_update [OF this, of ob_dedup_key o2]
  show ?thesis
    by (auto simp: journal_inv_def save_observation_def journal_keys_def dict_values_def)
qed

lemma emit_store: "emit bus e j = (r, j') \<Longrightarrow> jr_store j' = jr_store j"
  by (auto simp: emit_def Let_def split: option.splits prod.splits)

lemma save_and_emit_store:
  "save_and_emit bus eid fresh now t o1 corr j = (r, j') \<Longrightarrow> jr_store j' = jr_store (save_observation o1 j)"
  by (auto simp: save_and_emit_def split: prod.splits sum.splits dest: emit_store)

lemma save_and_emit_returns:
  "save_and_emit bus eid fresh now t o1 corr j = (Inr v, j') \<Longrightarrow> v = o1"
  by (auto simp: save_and_emit_def split: prod.splits sum.splits)

lemma journal_inv_store: "\<lbrakk>journal_inv j; jr_store j' = jr_store j\<rbrakk> \<Longrightarrow> journal_inv j'"
  by (simp add: journal_inv_def journal_keys_def)

lemma lookup_store:
  "jr_store j' = jr_store j \<Longrightarrow> find_by_dedup_key k j' = find_by_dedup_key k j"
  "jr_store j' = jr_store j \<Longrightarrow> get_observation i j' = get_observation i j"
  by (simp_all add: find_by_dedup_key_def get_observation_def)

lemma find_snoc: "List.find P xs = None \<Longrightarrow> P y \<Longrightarrow> List.find P (xs @ [y]) = Some y"
  by (induction xs) (auto split: if_splits)

lemma find_by_dedup_key_fresh:
  assumes "find_by_dedup_key k j = None" and "get_observation (ob_id o1) j = None"
    and "ob_dedup_key o1 = Some k"
  shows "find_by_dedup_key k (save_observation o1 j) = Some o1"
proof -
  have "dict_values (jr_store (save_observation o1 j)) = dict_values (jr_store j) @ [o1]"
    using assms(2) by (simp add: save_observation_def get_observation_def store_simps)
  then show ?thesis using assms(1,3) unfolding find_by_dedup_key_def
    by (simp add: find_snoc)
qed

subsection \<open>The projection store's laws\<close>

lemma project_skips:
  assumes "get_projection (ob_id o1) (ref_provider target) (fst s) = Some r" and "ha_status r = Published"
  shows "project_observation port o1 target False s = (Inr r, s)"
  using assms by (simp add: project_observation_def)

lemma openproject_port_reference:
  "openproject_port dash post i now target o1 w = (Inr r, w') \<Longrightarrow>
     ha_observation_id r = ob_id o1 \<and> ha_provider r = ''openproject'' \<and> ha_target r = target"
  by (auto simp: openproject_port_def Let_def split: if_splits sum.splits prod.splits)

lemma openproject_port_returns: "\<exists>r w'. openproject_port dash post i now target o1 w = (Inr r, w')"
  by (auto simp: openproject_port_def Let_def split: sum.splits prod.splits)

text \<open>A projection of another observation leaves the record of this one alone.\<close>

lemma project_other:
  assumes "ob_id o1 \<noteq> k"
  shows "get_projection k p (fst (snd (project_observation (openproject_port dash post i now) o1 target force s)))
     = get_projection k p (fst s)"
proof -
  obtain r w where port: "openproject_port dash post i now target o1 (snd s) = (Inr r, w)"
    using openproject_port_returns by metis
  from openproject_port_reference [OF this] assms show ?thesis
    by (auto simp: project_observation_def port get_projection_def save_projection_def store_simps
        split: option.splits)
qed

lemma project_each_published:
  assumes "get_projection k ''openproject'' (fst s) = Some r" and "ha_status r = Published"
    and "\<forall>(o1, target) \<in> set xs. ref_provider target = ''openproject''"
  shows "project_each (openproject_port dash post i now) xs s =
      project_each (openproject_port dash post i now) (filter (\<lambda>(o1, target). ob_id o1 \<noteq> k) xs) s \<and>
    get_projection k ''openproject'' (fst (project_each (openproject_port dash post i now) xs s)) = Some r"
  using assms
proof (induction xs arbitrary: s)
  case (Cons x xs)
  obtain o1 target where x: "x = (o1, target)" by (cases x)
  let ?t = "snd (project_observation (openproject_port dash post i now) o1 target False s)"
  have same: "get_projection k ''openproject'' (fst ?t) = Some r"
    using Cons.prems x by (cases "ob_id o1 = k") (simp_all add: project_skips project_other)
  let ?f = "filter (\<lambda>(o1, target). ob_id o1 \<noteq> k) xs"
  let ?run = "project_each (openproject_port dash post i now)"
  have "\<forall>(o1, target) \<in> set xs. ref_provider target = ''openproject''" using Cons.prems(3) by simp
  note ih = Cons.IH [OF same Cons.prems(2) this]
  from ih have eq: "?run xs ?t = ?run ?f ?t" by (rule conjunct1)
  from ih have rec: "get_projection k ''openproject'' (fst (?run ?f ?t)) = Some r" by (simp only: eq)
  show ?case
  proof (cases "ob_id o1 = k")
    case True
    with Cons.prems x have "?t = s" by (simp add: project_skips)
    with eq rec x True show ?thesis by simp
  next
    case False
    with eq rec x show ?thesis by simp
  qed
qed simp

subsection \<open>Properties\<close>

text \<open>
  C14: the journal never holds two observations with the same dedup key. Creating, acknowledging
  and resolving keep the invariant even when a handler raises after the save; and once
  \<open>create\<close> ran with a key, a second \<open>create\<close> with it, with whatever other arguments,
  returns the stored observation, changes nothing and publishes nothing.
\<close>

theorem dedup_keys_stay_unique:
  assumes "journal_inv j" and "get_observation i j = None"
    and "create_entry bus i eid fresh now q corr j = (r, j')"
  shows "journal_inv j' \<and>
    journal_inv (snd (acknowledge_observation bus eid fresh now i2 corr j')) \<and>
    journal_inv (snd (resolve_observation bus eid fresh now i2 corr j')) \<and>
    (\<forall>k. oq_dedup_key q = Some k \<longrightarrow>
       (\<exists>o1. ob_dedup_key o1 = Some k \<and>
          (\<forall>bus' i' eid' fresh' now' q' corr'. oq_dedup_key q' = Some k \<longrightarrow>
             create_entry bus' i' eid' fresh' now' q' corr' j' = (Inr o1, j'))))"
proof -
  let ?found = "case oq_dedup_key q of None \<Rightarrow> None | Some k \<Rightarrow> find_by_dedup_key k j"
  have inv: "journal_inv j'"
  proof (cases ?found)
    case None
    with assms(3) have st: "jr_store j' = jr_store (save_observation (draft i now q) j)"
      by (auto simp: create_entry_def intro: save_and_emit_store)
    have "journal_inv (save_observation (draft i now q) j)"
      using assms(1,2) None by (intro journal_inv_fresh) (simp_all add: draft_def)
    then show ?thesis using st by (rule journal_inv_store)
  next
    case (Some o1)
    with assms(1,3) show ?thesis by (simp add: create_entry_def)
  qed
  have upd: "journal_inv (snd (with_result (save_and_emit bus eid fresh now t o2 corr j')))"
    if "get_observation i2 j' = Some o1" "ob_id o2 = ob_id o1" "ob_dedup_key o2 = ob_dedup_key o1" for t o1 o2
  proof -
    obtain v u where run: "save_and_emit bus eid fresh now t o2 corr j' = (v, u)" by fastforce
    from journal_inv_update [OF inv that] journal_inv_store save_and_emit_store [OF run] have "journal_inv u" by blast
    with run show ?thesis by (cases v) (simp_all add: with_result_def)
  qed
  have "\<exists>o1. find_by_dedup_key k j' = Some o1 \<and> ob_dedup_key o1 = Some k" if key: "oq_dedup_key q = Some k" for k
  proof (cases "find_by_dedup_key k j")
    case None
    with assms(3) key have st: "jr_store j' = jr_store (save_observation (draft i now q) j)"
      by (auto simp: create_entry_def intro: save_and_emit_store)
    have "find_by_dedup_key k (save_observation (draft i now q) j) = Some (draft i now q)"
      using None assms(2) key by (intro find_by_dedup_key_fresh) (simp_all add: draft_def)
    with lookup_store(1) [OF st] key show ?thesis by (simp add: draft_def)
  next
    case (Some o1)
    with assms(3) key have "j' = j" by (simp add: create_entry_def)
    with Some show ?thesis by (auto simp: find_by_dedup_key_def dest: find_SomeD)
  qed
  then have "\<forall>k. oq_dedup_key q = Some k \<longrightarrow>
       (\<exists>o1. ob_dedup_key o1 = Some k \<and>
          (\<forall>bus' i' eid' fresh' now' q' corr'. oq_dedup_key q' = Some k \<longrightarrow>
             create_entry bus' i' eid' fresh' now' q' corr' j' = (Inr o1, j')))"
    by (fastforce simp: create_entry_def)
  with inv upd show ?thesis
    by (auto simp: acknowledge_observation_def resolve_observation_def split: option.splits)
qed

text \<open>A journal with no entry and no handler.\<close>

definition empty_journal :: "unit journal" where
  "empty_journal = \<lparr>jr_store = [], jr_bus =
     \<lparr>bus_handlers = [], bus_published = [], processed_keys = [], event_log = [], event_ext = ()\<rparr>\<rparr>"

definition demo_entry :: "string option \<Rightarrow> observation_request" where
  "demo_entry k = simple_request ''p'' Blocker ''stuck'' ''body'' None None k"

lemma empty_journal_inv: "journal_inv empty_journal"
  by (simp add: journal_inv_def empty_journal_def journal_keys_def dict_values_def map_filter_def)

theorem dedup_keys_stay_unique_witness:
  "journal_inv (snd (create_entry None ''i'' ''e'' ''f'' 0 (demo_entry (Some ''k'')) None empty_journal)) \<and>
   (\<exists>o1. create_entry None ''i2'' ''e2'' ''f'' 5 (demo_entry (Some ''k'')) None
      (snd (create_entry None ''i'' ''e'' ''f'' 0 (demo_entry (Some ''k'')) None empty_journal)) =
     (Inr o1, snd (create_entry None ''i'' ''e'' ''f'' 0 (demo_entry (Some ''k'')) None empty_journal)))"
proof -
  have fresh: "get_observation ''i'' empty_journal = None"
    by (simp add: get_observation_def empty_journal_def)
  have key: "oq_dedup_key (demo_entry (Some ''k'')) = Some ''k''"
    by (simp add: demo_entry_def simple_request_def)
  show ?thesis
    using dedup_keys_stay_unique [OF empty_journal_inv fresh surjective_pairing, of None "''e''" "''f''" 0
        "demo_entry (Some ''k'')" None] key by blast
qed

text \<open>
  \<open>acknowledge\<close> has no guard on the status. Whatever the status of a stored observation,
  resolved included, it makes the stored status acknowledged while a resolution time stays; the
  save precedes the event, so this holds when a handler raises too.
\<close>

theorem acknowledge_reopens_resolved:
  assumes "journal_inv j" and "get_observation i j = Some o1"
    and "acknowledge_observation bus eid fresh now i corr j = (r, j')"
  shows "\<exists>o2. get_observation i j' = Some o2 \<and> ob_status o2 = Ob_Acknowledged \<and>
    ob_acknowledged_at o2 = Some now \<and> ob_resolved_at o2 = ob_resolved_at o1"
proof -
  let ?o2 = "o1\<lparr>ob_status := Ob_Acknowledged, ob_acknowledged_at := Some now\<rparr>"
  from assms(1,2) have "ob_id o1 = i" by (auto simp: journal_inv_def get_observation_def dest: map_of_SomeD)
  then have saved: "get_observation i (save_observation ?o2 j) = Some ?o2"
    by (simp add: get_observation_def save_observation_def store_simps)
  obtain v u where run: "save_and_emit bus eid fresh now OBSERVATION_ACKNOWLEDGED ?o2 corr j = (v, u)" by fastforce
  with assms(2,3) have "j' = u"
    by (cases v) (simp_all add: acknowledge_observation_def with_result_def)
  with lookup_store(2) [OF save_and_emit_store [OF run]] saved show ?thesis by simp
qed

definition demo_resolved :: "unit journal" where
  "demo_resolved = save_observation
     ((draft ''i'' 0 (demo_entry None))\<lparr>ob_status := Ob_Resolved, ob_resolved_at := Some 3\<rparr>) empty_journal"

theorem acknowledge_reopens_resolved_witness:
  "\<exists>o2. get_observation ''i'' (snd (acknowledge_observation None ''e'' ''f'' 9 ''i'' None demo_resolved)) = Some o2 \<and>
     ob_status o2 = Ob_Acknowledged \<and> ob_resolved_at o2 = Some 3"
proof -
  let ?o1 = "(draft ''i'' 0 (demo_entry None))\<lparr>ob_status := Ob_Resolved, ob_resolved_at := Some 3\<rparr>"
  have inv: "journal_inv demo_resolved"
    unfolding demo_resolved_def
    by (intro journal_inv_fresh empty_journal_inv)
      (simp_all add: get_observation_def empty_journal_def draft_def demo_entry_def simple_request_def)
  have stored: "get_observation ''i'' demo_resolved = Some ?o1"
    by (simp add: demo_resolved_def get_observation_def save_observation_def empty_journal_def draft_def)
  show ?thesis using acknowledge_reopens_resolved [OF inv stored surjective_pairing, of None "''e''" "''f''" 9 None]
    by auto
qed


definition demo_post :: "string \<Rightarrow> string \<Rightarrow> nat \<Rightarrow> (nat, (string \<times> json) list) outcome" where
  "demo_post x body n = (Inr [(''id'', JInt 7)], Suc n)"

definition demo_target :: external_reference where
  "demo_target = \<lparr>ref_provider = ''openproject'', ref_external_id = ''42'', ref_external_type = None,
     ref_url = None, ref_namespace = None\<rparr>"


text \<open>
  The store is read under the target's provider and written under the port's: projecting a
  published observation to a target of another provider replaces its record by a failed one,
  and the next projection to the first target posts again.
\<close>

theorem mismatched_target_forgets_publication:
  assumes "ref_provider target \<noteq> ''openproject''" and "ref_provider good = ''openproject''"
    and "get_projection (ob_id o1) (ref_provider target) (fst s) = None"
    and "project_observation (openproject_port dash post i now) o1 target False s = (r, t)"
  shows "snd t = snd s \<and>
    (\<exists>f. get_projection (ob_id o1) ''openproject'' (fst t) = Some f \<and> ha_status f = Proj_Failed) \<and>
    project_observation (openproject_port dash post i' now') o1 good False t =
    project_observation (openproject_port dash post i' now') o1 good True t"
  using assms
  by (auto simp: project_observation_def openproject_port_def Let_def get_projection_def save_projection_def
      store_simps split: option.splits sum.splits prod.splits)

theorem mismatched_target_forgets_publication_witness:
  "\<exists>f. get_projection ''i'' ''openproject'' (fst (snd (project_observation (openproject_port ''-'' demo_post ''h'' 1)
      (draft ''i'' 0 (demo_entry None)) (demo_target\<lparr>ref_provider := ''jira''\<rparr>) False ([], 0)))) = Some f \<and>
     ha_status f = Proj_Failed"
proof -
  have no: "get_projection (ob_id (draft ''i'' 0 (demo_entry None)))
      (ref_provider (demo_target\<lparr>ref_provider := ''jira''\<rparr>)) (fst ([], 0::nat)) = None"
    by (simp add: get_projection_def)
  show ?thesis
    using mismatched_target_forgets_publication [OF _ _ no surjective_pairing, of demo_target "''-''" demo_post "''h''" 1]
    by (simp add: demo_target_def draft_def)
qed

end
