(* ===== verification/Repositories.thy ===== *)
theory Repositories
  imports Events Verification
begin

text \<open>
  The state repositories (\<open>adapters/in_memory/base.py\<close>, \<open>adapters/in_memory/repositories.py\<close>)
  of the entities other components of the model keep, with the aggregate of all of them as the
  record \<open>repositories\<close>; the classification of repository files (\<open>domain/repository_scan.py\<close>)
  and the handler of new revisions (\<open>application/revisions.py\<close>).
\<close>

subsection \<open>The keyed collection\<close>

type_synonym 'a collection = "(uuid, 'a) dict"

definition upsert :: "'a \<Rightarrow> uuid \<Rightarrow> 'a collection \<Rightarrow> 'a collection" where
  "upsert x i c = dict_set i x c"

definition get_item :: "uuid \<Rightarrow> 'a collection \<Rightarrow> 'a option" where
  "get_item i c = dict_get c i"

definition list_all_items :: "'a collection \<Rightarrow> 'a list" where
  "list_all_items c = dict_values c"

definition delete_item :: "uuid \<Rightarrow> 'a collection \<Rightarrow> 'a collection" where
  "delete_item i c = dict_pop i c"

interpretation collection: keyed_store "\<lambda>i x. upsert x i" "\<lambda>c i. get_item i c" delete_item list_all_items dict_ok
  by unfold_locales
    (auto simp: upsert_def get_item_def delete_item_def list_all_items_def store_simps dict_values_iff)

text \<open>
  \<open>find_by_external_ref\<close>: the first item, in insertion order, one of whose references has the
  provider, the id and - when one is given - the type.
\<close>

definition ref_matches :: "string \<Rightarrow> string \<Rightarrow> string option \<Rightarrow> external_reference \<Rightarrow> bool" where
  "ref_matches provider x t r \<longleftrightarrow>
     ref_provider r = provider \<and> ref_external_id r = x \<and> (t = None \<or> ref_external_type r = t)"

definition find_by_ref :: "('a \<Rightarrow> external_reference list) \<Rightarrow> string \<Rightarrow> string \<Rightarrow> string option
    \<Rightarrow> 'a collection \<Rightarrow> 'a option" where
  "find_by_ref refs provider x t c =
     List.find (\<lambda>a. list_ex (ref_matches provider x t) (refs a)) (list_all_items c)"

subsection \<open>Objects stored under their own id\<close>

definition stored_by_id :: "('a \<Rightarrow> uuid) \<Rightarrow> 'a collection \<Rightarrow> bool" where
  "stored_by_id f c \<longleftrightarrow> dict_ok c \<and> (\<forall>i a. get_item i c = Some a \<longrightarrow> f a = i)"

lemma stored_by_id_upsert [simp]: "stored_by_id f c \<Longrightarrow> stored_by_id f (upsert v (f v) c)"
  by (simp add: stored_by_id_def collection.ok_put collection.fetch_put)

text \<open>Storing an object under its own id replaces it where it is, or appends it.\<close>

lemma update_present:
  assumes "distinct (map fst c)" and "\<And>k a. (k, a) \<in> set c \<Longrightarrow> f a = k" and "map_of c (f v) \<noteq> None"
  shows "map snd (AList.update (f v) v c) = map (\<lambda>a. if f a = f v then v else a) (map snd c)"
  using assms
proof (induction c)
  case (Cons ka c)
  obtain k a where ka: "ka = (k, a)" by fastforce
  have fa: "f a = k" using Cons.prems(2) ka by simp
  show ?case
  proof (cases "k = f v")
    case True
    have "b \<noteq> f v" if "b \<in> f ` set (map snd c)" for b
    proof -
      from that obtain k' a' where m: "(k', a') \<in> set c" "b = f a'" by auto
      then have "b = k'" using Cons.prems(2) by auto
      with m(1) Cons.prems(1) ka True show ?thesis by (auto simp: rev_image_eqI)
    qed
    then show ?thesis using ka True fa by (auto intro!: map_idI [symmetric] simp: image_iff)
  next
    case False
    have "map_of c (f v) \<noteq> None" using Cons.prems(3) ka False by simp
    then have "map snd (AList.update (f v) v c) = map (\<lambda>a. if f a = f v then v else a) (map snd c)"
      using Cons.prems(1,2) by (intro Cons.IH) auto
    then show ?thesis using ka False fa by simp
  qed
qed simp

lemma items_update:
  assumes "stored_by_id f c" and "get_item (f v) c = Some v0"
  shows "list_all_items (upsert v (f v) c) = map (\<lambda>a. if f a = f v then v else a) (list_all_items c)"
proof -
  have "distinct (map fst c)" "\<And>k a. (k, a) \<in> set c \<Longrightarrow> f a = k"
    using assms(1) by (auto simp: stored_by_id_def dict_ok_def get_item_def)
  then show ?thesis
    using assms(2) unfolding list_all_items_def dict_values_def upsert_def get_item_def
    by (intro update_present) simp_all
qed

lemma items_insert: "get_item i c = None \<Longrightarrow> list_all_items (upsert v i c) = list_all_items c @ [v]"
  by (simp add: list_all_items_def upsert_def get_item_def dict_values_set_fresh)

lemma upsert_same: "get_item i c = Some v \<Longrightarrow> upsert v i c = c"
  by (simp add: upsert_def get_item_def) (induction c, auto split: if_splits)

lemma items_get:
  assumes "stored_by_id f c"
  shows "a \<in> set (list_all_items c) \<longleftrightarrow> get_item (f a) c = Some a"
  using assms collection.items_iff [of c a] by (auto simp: stored_by_id_def)

lemma find_map: "List.find P (map g xs) = map_option g (List.find (P \<circ> g) xs)"
  by (induction xs) auto

lemma find_cong: "(\<And>a. a \<in> set xs \<Longrightarrow> P a = Q a) \<Longrightarrow> List.find P xs = List.find Q xs"
  by (induction xs) auto

text \<open>A lookup by reference after an object changed in place, its references kept.\<close>

lemma find_by_ref_update:
  assumes "stored_by_id f c" and "get_item (f v) c = Some v0" and "refs v = refs v0"
  shows "find_by_ref refs pr x t (upsert v (f v) c) =
    map_option (\<lambda>a. if f a = f v then v else a) (find_by_ref refs pr x t c)"
proof -
  have "refs (if f a = f v then v else a) = refs a" if "a \<in> set (list_all_items c)" for a
    using that assms by (auto simp: items_get)
  then show ?thesis
    by (auto simp: find_by_ref_def items_update [OF assms(1,2)] find_map intro!: arg_cong [of _ _ "map_option _"] find_cong)
qed

lemma find_by_ref_insert:
  assumes "get_item (f v) c = None"
  shows "find_by_ref refs pr x t (upsert v (f v) c) =
    (case find_by_ref refs pr x t c of
       Some a \<Rightarrow> Some a
     | None \<Rightarrow> if list_ex (ref_matches pr x t) (refs v) then Some v else None)"
proof -
  have "List.find P (xs @ ys) = (case List.find P xs of Some a \<Rightarrow> Some a | None \<Rightarrow> List.find P ys)"
    for P and xs ys :: "'a list"
    by (induction xs) auto
  then show ?thesis by (simp add: find_by_ref_def items_insert [OF assms] split: option.split)
qed

lemma find_by_ref_stored:
  assumes "stored_by_id f c" and "find_by_ref refs pr x t c = Some a"
  shows "get_item (f a) c = Some a"
  using assms find_SomeD unfolding find_by_ref_def by (fastforce simp: items_get)

subsection \<open>Repository files\<close>

datatype file_category = Source_File | Test_File | Documentation_File | Manifest_File
  | Configuration_File | Deployment_File | Schema_File | Unknown_File

fun file_category_value :: "file_category \<Rightarrow> string" where
  "file_category_value Source_File = ''source''"
| "file_category_value Test_File = ''test''"
| "file_category_value Documentation_File = ''documentation''"
| "file_category_value Manifest_File = ''manifest''"
| "file_category_value Configuration_File = ''configuration''"
| "file_category_value Deployment_File = ''deployment''"
| "file_category_value Schema_File = ''schema''"
| "file_category_value Unknown_File = ''unknown''"

definition manifest_names :: "string list" where
  "manifest_names =
     [''pyproject.toml'', ''requirements.txt'', ''requirements-dev.txt'', ''setup.py'', ''setup.cfg'',
      ''package.json'', ''package-lock.json'', ''yarn.lock'', ''pnpm-lock.yaml'', ''go.mod'', ''go.sum'',
      ''Cargo.toml'', ''Cargo.lock'', ''Gemfile'', ''Gemfile.lock'', ''pom.xml'', ''build.gradle'',
      ''gradle.properties'', ''composer.json'', ''Dockerfile'']"

definition deployment_names :: "string list" where
  "deployment_names =
     [''docker-compose.yml'', ''docker-compose.yaml'', ''compose.yml'', ''compose.yaml'',
      ''docker-compose.override.yml'']"

definition ci_names :: "string list" where
  "ci_names =
     [''.gitlab-ci.yml'', ''.gitlab-ci.yaml'', ''Jenkinsfile'', ''.travis.yml'', ''.circleci/config.yml'',
      ''azure-pipelines.yml'']"

definition doc_extensions :: "string list" where
  "doc_extensions = [''.md'', ''.markdown'', ''.rst'', ''.adoc'', ''.txt'']"

definition source_extensions :: "string list" where
  "source_extensions =
     [''.py'', ''.js'', ''.ts'', ''.tsx'', ''.jsx'', ''.go'', ''.rs'', ''.java'', ''.kt'', ''.kts'', ''.c'', ''.h'',
      ''.cpp'', ''.hpp'', ''.cs'', ''.rb'', ''.php'', ''.swift'', ''.scala'', ''.sh'', ''.bash'', ''.sql'']"

definition schema_extensions :: "string list" where
  "schema_extensions = [''.sql'', ''.proto'', ''.graphql'']"

definition config_extensions :: "string list" where
  "config_extensions = [''.json'', ''.yaml'', ''.yml'', ''.toml'', ''.ini'', ''.cfg'', ''.conf'']"

definition ends_with_any :: "string \<Rightarrow> string list \<Rightarrow> bool" where
  "ends_with_any s xs = list_ex (ends_with s) xs"

definition normalize_path :: "string \<Rightarrow> string" where
  "normalize_path p = map (\<lambda>c. if c = char_of (92::nat) then CHR ''/'' else c) p"

text \<open>\<open>path.rsplit("/", 1)[-1]\<close>.\<close>

definition base_name :: "string \<Rightarrow> string" where
  "base_name p = last (split_on (CHR ''/'') p)"

definition is_test_location :: "string \<Rightarrow> string list \<Rightarrow> bool" where
  "is_test_location p parts \<longleftrightarrow>
     list_ex (\<lambda>x. x \<in> {''test'', ''tests'', ''spec'', ''specs'', ''__tests__''}) parts \<or>
     starts_with (base_name p) ''test_'' \<or> ends_with (base_name p) ''_test.py'' \<or>
     ends_with (base_name p) ''_test.go''"

definition is_documentation_path :: "string \<Rightarrow> string \<Rightarrow> string list \<Rightarrow> bool" where
  "is_documentation_path p name parts \<longleftrightarrow>
     list_ex (\<lambda>x. x \<in> {''docs'', ''doc'', ''documentation''}) parts \<or> ends_with_any p doc_extensions \<or>
     name \<in> {''readme'', ''readme.md'', ''changelog'', ''changelog.md'', ''contributing''}"

definition classify_file :: "string \<Rightarrow> file_category" where
  "classify_file path =
     (let p = normalize_path path; name = lower (base_name p); parts = map lower (split_on (CHR ''/'') p) in
      if name \<in> set manifest_names \<or> ends_with name ''.toml'' then Manifest_File
      else if name \<in> set deployment_names \<or> name \<in> set ci_names \<or> name = ''dockerfile'' then Deployment_File
      else if ''.github'' \<in> set parts \<or> ''.gitlab'' \<in> set parts then Deployment_File
      else if is_test_location p parts then Test_File
      else if is_documentation_path p name parts then Documentation_File
      else if ends_with_any p schema_extensions then Schema_File
      else if ends_with_any p source_extensions then Source_File
      else if ends_with_any p config_extensions then Configuration_File
      else Unknown_File)"

record changed_file =
  cf_path :: string
  cf_category :: file_category
  cf_change_type :: string

definition classify_changed_files :: "string list \<Rightarrow> changed_file list" where
  "classify_changed_files paths =
     map (\<lambda>p. \<lparr>cf_path = p, cf_category = classify_file p, cf_change_type = ''modified''\<rparr>) paths"

record repository_snapshot =
  sn_id :: uuid
  sn_repository_id :: uuid
  sn_revision :: string
  sn_captured_at :: datetime
  sn_tree :: "string list"
  sn_languages :: "string list"
  sn_manifest_files :: "string list"
  sn_dockerfiles :: "string list"
  sn_compose_files :: "string list"
  sn_ci_configuration :: "string list"
  sn_documentation_roots :: "string list"
  sn_test_roots :: "string list"

record change_set =
  cs_id :: uuid
  cs_repository_id :: uuid
  cs_old_revision :: "string option"
  cs_new_revision :: string
  cs_detected_at :: datetime
  cs_files :: "changed_file list"

subsection \<open>The repositories\<close>

record verification_result =
  vr_id :: uuid
  vr_execution_id :: uuid
  vr_verdict :: verdict
  vr_requirement_results :: "json list"
  vr_test_results :: "json list"
  vr_architecture_results :: "json list"
  vr_static_analysis_results :: "json list"
  vr_issues :: "string list"
  vr_evidence_refs :: "uuid list"

record sync_watermark =
  wm_provider :: string
  wm_sync_key :: string
  wm_last_synced_at :: "datetime option"
  wm_last_external_id :: "string option"
  wm_bootstrap_completed_at :: "datetime option"
  wm_updated_at :: datetime

datatype bootstrap_status = Bs_Connected | Bs_Discovering | Bs_Ingesting | Bs_Building_Graph
  | Bs_Establishing_Baseline | Bs_Ready | Bs_Live_Sync | Bs_Failed

fun bootstrap_status_value :: "bootstrap_status \<Rightarrow> string" where
  "bootstrap_status_value Bs_Connected = ''connected''"
| "bootstrap_status_value Bs_Discovering = ''discovering''"
| "bootstrap_status_value Bs_Ingesting = ''ingesting''"
| "bootstrap_status_value Bs_Building_Graph = ''building_graph''"
| "bootstrap_status_value Bs_Establishing_Baseline = ''establishing_baseline''"
| "bootstrap_status_value Bs_Ready = ''ready''"
| "bootstrap_status_value Bs_Live_Sync = ''live_sync''"
| "bootstrap_status_value Bs_Failed = ''failed''"

datatype bootstrap_stage = Discover_Projects | Fetch_Work_Items | Resolve_Relations | Ingest_Comments
  | Ingest_Attachments | Build_Graph | Establish_Baseline | Bootstrap_Complete

record bootstrap_state =
  bs_project_id :: uuid
  bs_provider :: string
  bs_status :: bootstrap_status
  bs_stage :: bootstrap_stage
  bs_last_page :: int
  bs_items_processed :: int
  bs_last_error :: "string option"
  bs_started_at :: datetime
  bs_completed_at :: "datetime option"

record repository_set =
  st_projects :: "project collection"
  st_repositories :: "repository collection"
  st_work_items :: "work_item collection"
  st_executions :: "execution collection"
  st_verification_results :: "verification_result collection"
  st_snapshots :: "repository_snapshot list"
  st_change_sets :: "change_set list"
  st_comments :: "comment collection"
  st_attachments :: "attachment collection"
  st_relations :: "work_item_relation collection"
  st_watermarks :: "(string \<times> string, sync_watermark) dict"
  st_bootstrap :: "(uuid \<times> string, bootstrap_state) dict"

definition empty_repositories :: repository_set where
  "empty_repositories =
     \<lparr>st_projects = [], st_repositories = [], st_work_items = [], st_executions = [],
      st_verification_results = [], st_snapshots = [], st_change_sets = [], st_comments = [],
      st_attachments = [], st_relations = [], st_watermarks = [], st_bootstrap = []\<rparr>"

definition project_by_ref :: "string \<Rightarrow> string \<Rightarrow> string option \<Rightarrow> repository_set \<Rightarrow> project option" where
  "project_by_ref p x t s = find_by_ref pj_external_refs p x t (st_projects s)"

definition save_project :: "project \<Rightarrow> repository_set \<Rightarrow> repository_set" where
  "save_project p s = s\<lparr>st_projects := upsert p (pj_id p) (st_projects s)\<rparr>"

definition save_repository :: "repository \<Rightarrow> repository_set \<Rightarrow> repository_set" where
  "save_repository r s = s\<lparr>st_repositories := upsert r (rp_id r) (st_repositories s)\<rparr>"

definition repositories_of_project :: "uuid \<Rightarrow> repository_set \<Rightarrow> repository list" where
  "repositories_of_project p s = filter (\<lambda>r. rp_project_id r = p) (list_all_items (st_repositories s))"

definition save_work_item :: "work_item \<Rightarrow> repository_set \<Rightarrow> repository_set" where
  "save_work_item w s = s\<lparr>st_work_items := upsert w (wi_id w) (st_work_items s)\<rparr>"

definition work_items_of_project :: "uuid \<Rightarrow> repository_set \<Rightarrow> work_item list" where
  "work_items_of_project p s = filter (\<lambda>w. wi_project_id w = p) (list_all_items (st_work_items s))"

definition work_items_of_parent :: "uuid \<Rightarrow> repository_set \<Rightarrow> work_item list" where
  "work_items_of_parent p s = filter (\<lambda>w. wi_parent_id w = Some p) (list_all_items (st_work_items s))"

definition work_item_by_ref :: "string \<Rightarrow> string \<Rightarrow> string option \<Rightarrow> repository_set \<Rightarrow> work_item option" where
  "work_item_by_ref p x t s = find_by_ref wi_external_refs p x t (st_work_items s)"

definition save_execution :: "execution \<Rightarrow> repository_set \<Rightarrow> repository_set" where
  "save_execution e s = s\<lparr>st_executions := upsert e (ex_id e) (st_executions s)\<rparr>"

definition executions_of_work_item :: "uuid \<Rightarrow> repository_set \<Rightarrow> execution list" where
  "executions_of_work_item w s = filter (\<lambda>e. ex_work_item_id e = w) (list_all_items (st_executions s))"

definition save_verification_result :: "verification_result \<Rightarrow> repository_set \<Rightarrow> repository_set" where
  "save_verification_result r s =
     s\<lparr>st_verification_results := upsert r (vr_id r) (st_verification_results s)\<rparr>"

definition results_of_execution :: "uuid \<Rightarrow> repository_set \<Rightarrow> verification_result list" where
  "results_of_execution x s =
     filter (\<lambda>v. vr_execution_id v = x) (list_all_items (st_verification_results s))"

text \<open>A snapshot replaces the one of the same repository and revision, and goes to the end.\<close>

definition save_snapshot :: "repository_snapshot \<Rightarrow> repository_set \<Rightarrow> repository_set" where
  "save_snapshot n s = s\<lparr>st_snapshots :=
     filter (\<lambda>m. \<not> (sn_repository_id m = sn_repository_id n \<and> sn_revision m = sn_revision n)) (st_snapshots s)
     @ [n]\<rparr>"

definition get_snapshot :: "uuid \<Rightarrow> string \<Rightarrow> repository_set \<Rightarrow> repository_snapshot option" where
  "get_snapshot r v s = List.find (\<lambda>n. sn_repository_id n = r \<and> sn_revision n = v) (st_snapshots s)"

definition list_snapshots :: "uuid \<Rightarrow> repository_set \<Rightarrow> repository_snapshot list" where
  "list_snapshots r s = filter (\<lambda>n. sn_repository_id n = r) (st_snapshots s)"

definition save_change_set :: "change_set \<Rightarrow> repository_set \<Rightarrow> repository_set" where
  "save_change_set c s = s\<lparr>st_change_sets := st_change_sets s @ [c]\<rparr>"

definition list_change_sets :: "uuid \<Rightarrow> repository_set \<Rightarrow> change_set list" where
  "list_change_sets r s = filter (\<lambda>c. cs_repository_id c = r) (st_change_sets s)"

definition save_comment :: "comment \<Rightarrow> repository_set \<Rightarrow> repository_set" where
  "save_comment c s = s\<lparr>st_comments := upsert c (cm_id c) (st_comments s)\<rparr>"

definition comments_of_work_item :: "uuid \<Rightarrow> repository_set \<Rightarrow> comment list" where
  "comments_of_work_item w s = filter (\<lambda>c. cm_work_item_id c = w) (list_all_items (st_comments s))"

definition comment_by_ref :: "string \<Rightarrow> string \<Rightarrow> string option \<Rightarrow> repository_set \<Rightarrow> comment option" where
  "comment_by_ref p x t s = find_by_ref cm_external_refs p x t (st_comments s)"

definition save_attachment :: "attachment \<Rightarrow> repository_set \<Rightarrow> repository_set" where
  "save_attachment a s = s\<lparr>st_attachments := upsert a (at_id a) (st_attachments s)\<rparr>"

definition attachments_of_work_item :: "uuid \<Rightarrow> repository_set \<Rightarrow> attachment list" where
  "attachments_of_work_item w s = filter (\<lambda>a. at_work_item_id a = w) (list_all_items (st_attachments s))"

definition attachment_by_ref :: "string \<Rightarrow> string \<Rightarrow> string option \<Rightarrow> repository_set \<Rightarrow> attachment option" where
  "attachment_by_ref p x t s = find_by_ref at_external_refs p x t (st_attachments s)"

text \<open>A relation is stored once per source, target and type; the first one is returned.\<close>

definition same_triple :: "work_item_relation \<Rightarrow> work_item_relation \<Rightarrow> bool" where
  "same_triple a b \<longleftrightarrow> rl_source a = rl_source b \<and> rl_target a = rl_target b \<and> rl_type a = rl_type b"

definition create_relation :: "work_item_relation \<Rightarrow> repository_set \<Rightarrow> work_item_relation \<times> repository_set" where
  "create_relation r s =
     (case List.find (\<lambda>a. same_triple a r) (list_all_items (st_relations s)) of
        Some a \<Rightarrow> (a, s)
      | None \<Rightarrow> (r, s\<lparr>st_relations := upsert r (rl_id r) (st_relations s)\<rparr>))"

definition relations_of_work_item :: "uuid \<Rightarrow> repository_set \<Rightarrow> work_item_relation list" where
  "relations_of_work_item w s =
     filter (\<lambda>r. rl_source r = w \<or> rl_target r = w) (list_all_items (st_relations s))"

definition delete_relation :: "uuid \<Rightarrow> repository_set \<Rightarrow> repository_set" where
  "delete_relation i s = s\<lparr>st_relations := delete_item i (st_relations s)\<rparr>"

definition new_watermark :: "datetime \<Rightarrow> string \<Rightarrow> string \<Rightarrow> sync_watermark" where
  "new_watermark now p k = \<lparr>wm_provider = p, wm_sync_key = k, wm_last_synced_at = None,
     wm_last_external_id = None, wm_bootstrap_completed_at = None, wm_updated_at = now\<rparr>"

definition save_watermark :: "sync_watermark \<Rightarrow> repository_set \<Rightarrow> repository_set" where
  "save_watermark w s = s\<lparr>st_watermarks := dict_set (wm_provider w, wm_sync_key w) w (st_watermarks s)\<rparr>"

definition get_or_create_watermark :: "datetime \<Rightarrow> string \<Rightarrow> string \<Rightarrow> repository_set
    \<Rightarrow> sync_watermark \<times> repository_set" where
  "get_or_create_watermark now p k s =
     (case dict_get (st_watermarks s) (p, k) of
        Some w \<Rightarrow> (w, s)
      | None \<Rightarrow> (new_watermark now p k, save_watermark (new_watermark now p k) s))"

definition get_bootstrap :: "uuid \<Rightarrow> string \<Rightarrow> repository_set \<Rightarrow> bootstrap_state option" where
  "get_bootstrap p v s = dict_get (st_bootstrap s) (p, v)"

definition save_bootstrap :: "bootstrap_state \<Rightarrow> repository_set \<Rightarrow> repository_set" where
  "save_bootstrap b s = s\<lparr>st_bootstrap := dict_set (bs_project_id b, bs_provider b) b (st_bootstrap s)\<rparr>"

subsection \<open>A new revision of a repository\<close>

text \<open>
  \<open>IncrementalRevisionHandler.handle\<close>: \<open>list_changed\<close> is \<open>SourceControlPort.list_changed_files\<close>,
  on a world \<open>'w\<close>; \<open>i\<close> is the drawn id of the change set.
\<close>

type_synonym 'w changed_files = "repository \<Rightarrow> string \<Rightarrow> string \<Rightarrow> 'w \<Rightarrow> ('w, string list) outcome"

definition handle_revision :: "event_validators \<Rightarrow> 'w changed_files \<Rightarrow> uuid \<Rightarrow> datetime \<Rightarrow> event_envelope
    \<Rightarrow> repository_set \<times> 'w \<Rightarrow> (repository_set \<times> 'w, unit) outcome" where
  "handle_revision x list_changed i now e s =
     (case event_to_model x e of
        Some (RepositoryRevisionChanged r old new) \<Rightarrow>
          (case get_item r (st_repositories (fst s)) of
             None \<Rightarrow> (Inr (), s)
           | Some repo \<Rightarrow>
               (case list_changed repo (case old of None \<Rightarrow> [] | Some v \<Rightarrow> v) new (snd s) of
                  (Inl err, w) \<Rightarrow> (Inl err, (fst s, w))
                | (Inr changed, w) \<Rightarrow>
                    (Inr (), (save_repository (repo\<lparr>rp_current_revision := Some new\<rparr>)
                       (save_change_set \<lparr>cs_id = i, cs_repository_id = r, cs_old_revision = old,
                          cs_new_revision = new, cs_detected_at = now,
                          cs_files = classify_changed_files changed\<rparr> (fst s)), w))))
      | _ \<Rightarrow> (Inr (), s))"

subsection \<open>Lemmas on the stores\<close>

definition triples_unique :: "repository_set \<Rightarrow> bool" where
  "triples_unique s \<longleftrightarrow> dict_ok (st_relations s) \<and>
     distinct (map (\<lambda>r. (rl_source r, rl_target r, rl_type r)) (list_all_items (st_relations s)))"

lemma create_relation_unique:
  assumes "triples_unique s" and "get_item (rl_id r) (st_relations s) = None"
  shows "triples_unique (snd (create_relation r s))"
proof (cases "List.find (\<lambda>a. same_triple a r) (list_all_items (st_relations s))")
  case None
  then have "(rl_source r, rl_target r, rl_type r) \<notin>
      (\<lambda>r. (rl_source r, rl_target r, rl_type r)) ` set (list_all_items (st_relations s))"
    by (auto simp: find_None_iff' same_triple_def)
  with None assms show ?thesis
    by (simp add: create_relation_def triples_unique_def upsert_def get_item_def list_all_items_def store_simps)
next
  case (Some a)
  with assms(1) show ?thesis by (simp add: create_relation_def)
qed

lemma get_snapshot_save:
  "get_snapshot r v (save_snapshot n s) =
     (if sn_repository_id n = r \<and> sn_revision n = v then Some n else get_snapshot r v s)"
proof -
  let ?P = "\<lambda>m. sn_repository_id m = r \<and> sn_revision m = v"
  let ?Q = "\<lambda>m. sn_repository_id m = sn_repository_id n \<and> sn_revision m = sn_revision n"
  have "List.find ?P (filter (\<lambda>m. \<not> ?Q m) xs @ [n]) = (if ?P n then Some n else List.find ?P xs)" for xs
    by (induction xs) auto
  then show ?thesis by (simp add: get_snapshot_def save_snapshot_def)
qed

lemma find_by_ref_Some:
  "find_by_ref refs p x t c = Some a \<Longrightarrow> a \<in> set (list_all_items c) \<and> (\<exists>r \<in> set (refs a). ref_matches p x t r)"
  by (auto simp: find_by_ref_def list_ex_iff dest: find_SomeD)

lemma find_by_ref_None:
  "find_by_ref refs p x t c = None \<longleftrightarrow> (\<forall>a \<in> set (list_all_items c). \<forall>r \<in> set (refs a). \<not> ref_matches p x t r)"
  by (auto simp: find_by_ref_def find_None_iff' list_ex_iff)

subsection \<open>Properties\<close>

text \<open>The names a lower-cased base name can equal.\<close>

lemma lower_no_slash:
  assumes "CHR ''/'' \<notin> set s"
  shows "CHR ''/'' \<notin> set (lower s)"
proof -
  have "lower_char c \<noteq> CHR ''/''" if "c \<noteq> CHR ''/''" for c
  proof
    assume eq: "lower_char c = CHR ''/''"
    show False
    proof (cases "lower_char c = c")
      case True
      with eq that show ?thesis by simp
    next
      case False
      then have n: "65 \<le> code c" "code c \<le> 222" "lower_char c = char_of (code c + 32)"
        by (auto simp: lower_char_def Let_def split: if_splits)
      have "code (char_of (code c + 32)) = code (CHR ''/'')" by (simp only: n(3) [symmetric] eq)
      with n(1,2) show ?thesis by (simp add: code_def)
    qed
  qed
  then have *: "lower_char c = CHR ''/'' \<Longrightarrow> c = CHR ''/''" for c by blast
  show ?thesis
  proof
    assume "CHR ''/'' \<in> set (lower s)"
    then have "CHR ''/'' \<in> lower_char ` set s" by (simp only: lower_def set_map)
    then obtain c where c: "CHR ''/'' = lower_char c" "c \<in> set s" by (rule imageE)
    from * [OF c(1) [symmetric]] c(2) assms show False by (simp only: not_True_eq_False)
  qed
qed

lemma name_no_slash: "CHR ''/'' \<notin> set (lower (base_name p))"
  unfolding base_name_def by (intro lower_no_slash split_on_last)

lemma lowered_name_filter:
  "lower (base_name p) \<in> set xs \<longleftrightarrow> lower (base_name p) \<in> set (filter (\<lambda>x. lower x = x) xs)"
  "lower (base_name p) \<in> set xs \<longleftrightarrow>
     lower (base_name p) \<in> set (filter (\<lambda>x. lower x = x \<and> CHR ''/'' \<notin> set x) xs)"
  using name_no_slash [of p] by simp_all

lemma classify_manifest:
  "classify_file path = Manifest_File \<longleftrightarrow>
     (let name = lower (base_name (normalize_path path)) in
      name \<in> set manifest_names \<or> ends_with name ''.toml'')"
  by (simp add: classify_file_def Let_def)

lemma classify_deployment:
  "classify_file path = Deployment_File \<longleftrightarrow>
     (let p = normalize_path path; name = lower (base_name p); parts = map lower (split_on (CHR ''/'') p) in
      classify_file path \<noteq> Manifest_File \<and>
      (name \<in> set deployment_names \<or> name \<in> set ci_names \<or> name = ''dockerfile'' \<or>
       ''.github'' \<in> set parts \<or> ''.gitlab'' \<in> set parts))"
  by (auto simp add: classify_file_def Let_def split: if_splits)

lemma mixed_case_names:
  "filter (\<lambda>x. lower x \<noteq> x) manifest_names = [''Cargo.toml'', ''Cargo.lock'', ''Gemfile'', ''Gemfile.lock'', ''Dockerfile'']"
  by code_simp

lemma misclassified_files:
  "map classify_file [''Cargo.lock'', ''Gemfile'', ''Gemfile.lock'', ''Jenkinsfile''] = replicate 4 Unknown_File"
  "classify_file ''.circleci/config.yml'' = Configuration_File"
  by code_simp+

text \<open>
  Which files are manifests or deployment files. The base name is lower-cased before it is
  looked up, so of the listed names only those written in lower case and without a slash can
  match: the entries for Cargo.lock, Gemfile, Gemfile.lock, Jenkinsfile and the CircleCI path
  never do, and these files are classified as unknown or configuration.
\<close>

theorem capitalised_names_never_match:
  "(classify_file path = Manifest_File \<longleftrightarrow>
      (let name = lower (base_name (normalize_path path)) in
       name \<in> set (filter (\<lambda>x. lower x = x) manifest_names) \<or> ends_with name ''.toml'')) \<and>
   (classify_file path = Deployment_File \<longleftrightarrow>
      (let p = normalize_path path; name = lower (base_name p); parts = map lower (split_on (CHR ''/'') p) in
       classify_file path \<noteq> Manifest_File \<and>
       (name \<in> set deployment_names \<or>
        name \<in> set (filter (\<lambda>x. lower x = x \<and> CHR ''/'' \<notin> set x) ci_names) \<or> name = ''dockerfile'' \<or>
        ''.github'' \<in> set parts \<or> ''.gitlab'' \<in> set parts))) \<and>
   filter (\<lambda>x. lower x \<noteq> x) manifest_names = [''Cargo.toml'', ''Cargo.lock'', ''Gemfile'', ''Gemfile.lock'', ''Dockerfile''] \<and>
   map classify_file [''Cargo.lock'', ''Gemfile'', ''Gemfile.lock'', ''Jenkinsfile''] = replicate 4 Unknown_File \<and>
   classify_file ''.circleci/config.yml'' = Configuration_File"
  by (intro conjI mixed_case_names misclassified_files)
    (simp_all only: classify_manifest classify_deployment Let_def lowered_name_filter [symmetric])

text \<open>
  A revision event of a stored repository is recorded: one change set is appended, holding
  every changed file with its category, the repository's current revision becomes the new one, and
  no other repository changes. An event that does not validate, or of an unknown repository,
  changes nothing; when the source control raises, the repositories are as before.
\<close>

theorem revision_recorded:
  assumes "event_to_model x e = Some (RepositoryRevisionChanged r old new)"
    and "get_item r (st_repositories s) = Some repo" and "rp_id repo = r"
  shows "(case list_changed repo (case old of None \<Rightarrow> [] | Some v \<Rightarrow> v) new w of
      (Inl err, w') \<Rightarrow> handle_revision x list_changed i now e (s, w) = (Inl err, (s, w'))
    | (Inr changed, w') \<Rightarrow>
        (\<exists>s' cs. handle_revision x list_changed i now e (s, w) = (Inr (), (s', w')) \<and>
           list_change_sets r s' = list_change_sets r s @ [cs] \<and> cs_new_revision cs = new \<and>
           map cf_path (cs_files cs) = changed \<and>
           (\<forall>f \<in> set (cs_files cs). cf_category f = classify_file (cf_path f)) \<and>
           get_item r (st_repositories s') = Some (repo\<lparr>rp_current_revision := Some new\<rparr>) \<and>
           (\<forall>q. q \<noteq> r \<longrightarrow> get_item q (st_repositories s') = get_item q (st_repositories s))))"
  using assms(3)
  by (auto simp: handle_revision_def assms(1,2) save_repository_def save_change_set_def list_change_sets_def
      collection.fetch_put classify_changed_files_def comp_def split: prod.splits sum.splits)

definition demo_repositories :: repository_set where
  "demo_repositories = save_repository
     \<lparr>rp_id = ''r'', rp_project_id = ''p'', rp_name = ''n'', rp_clone_url = [], rp_default_branch = ''main'',
      rp_current_revision = None, rp_external_refs = []\<rparr> empty_repositories"

definition demo_changed :: "unit changed_files" where
  "demo_changed repo old new w = (Inr [''src/a.py''], w)"

theorem revision_recorded_witness:
  "\<exists>s'. handle_revision demo_validators demo_changed ''i'' 0
      (model_to_envelope ''e'' ''f'' 0 (RepositoryRevisionChanged ''r'' None ''b'') ''s'' None None None None)
      (demo_repositories, ()) = (Inr (), (s', ())) \<and>
    map cs_new_revision (list_change_sets ''r'' s') = [''b'']"
proof -
  let ?e = "model_to_envelope ''e'' ''f'' 0 (RepositoryRevisionChanged ''r'' None ''b'') ''s'' None None None None"
  have model: "event_to_model demo_validators ?e = Some (RepositoryRevisionChanged ''r'' None ''b'')"
    by (rule event_to_model_dump [OF demo_validators_ok(1)]) simp
  obtain repo where repo: "get_item ''r'' (st_repositories demo_repositories) = Some repo" "rp_id repo = ''r''"
    by (simp add: demo_repositories_def save_repository_def get_item_def upsert_def empty_repositories_def)
  have "list_change_sets ''r'' demo_repositories = []"
    by (simp add: list_change_sets_def demo_repositories_def save_repository_def empty_repositories_def)
  with revision_recorded [OF model repo, where list_changed = demo_changed and w = "()" and i = "''i''" and now = 0]
  show ?thesis
    by (auto simp: demo_changed_def)
qed

end
