(* ===== verification/Policy.thy ===== *)
theory Policy
  imports Workflow_Engine Json
begin

text \<open>
  Risk classification and policies (\<open>domain/policies.py\<close>, \<open>application/policy_service.py\<close>),
  the store of approvals and the default policy set (\<open>adapters/in_memory/policies.py\<close>), and
  the approval gate (\<open>application/approval_gate.py\<close>).
\<close>

subsection \<open>Policies\<close>

datatype risk_level = Risk_Low | Risk_Medium | Risk_High | Risk_Critical

fun risk_level_value :: "risk_level \<Rightarrow> string" where
  "risk_level_value Risk_Low = ''low''"
| "risk_level_value Risk_Medium = ''medium''"
| "risk_level_value Risk_High = ''high''"
| "risk_level_value Risk_Critical = ''critical''"

datatype approval_type = Plan_Approval | Architecture_Approval | Security_Approval | Pr_Approval
  | Execution_Approval

datatype approval_decision = Decision_Pending | Decision_Approved | Decision_Rejected
  | Decision_Needs_Changes

datatype policy_action = Allow | Deny | Require_Approval

record policy_rule =
  pr_rule_id :: uuid
  pr_name :: string
  pr_risk_levels :: "risk_level list"
  pr_action :: policy_action
  pr_approval_type :: "approval_type option"
  pr_permissions :: "execution_permissions option"

record policy_set =
  ps_name :: string
  ps_rules :: "policy_rule list"

definition rules_for_risk :: "policy_set \<Rightarrow> risk_level \<Rightarrow> policy_rule list" where
  "rules_for_risk ps r = filter (\<lambda>rule. r \<in> set (pr_risk_levels rule)) (ps_rules ps)"

subsection \<open>The signal patterns\<close>

text \<open>
  Every pattern of the source is \<open>\b(a|b|...)\b\<close>, ignoring case, over literal alternatives
  with at most an optional character; the model lists the alternatives with the optional
  character expanded, beside the pattern's text.
\<close>

record signal =
  sg_body :: string
  sg_words :: "string list"

definition sg_pattern :: "signal \<Rightarrow> string" where
  "sg_pattern g = CHR 0x5C # ''b('' @ sg_body g @ '')'' @ [CHR 0x5C, CHR ''b'']"

definition high_risk_signals :: "signal list" where
  "high_risk_signals =
     [\<lparr>sg_body = ''migrations?|alembic|schema change'',
       sg_words = [''migration'', ''migrations'', ''alembic'', ''schema change'']\<rparr>,
      \<lparr>sg_body = ''authentication|authn|login|oauth|sso'',
       sg_words = [''authentication'', ''authn'', ''login'', ''oauth'', ''sso'']\<rparr>,
      \<lparr>sg_body = ''authorization|authz|rbac|permissions?|role'',
       sg_words = [''authorization'', ''authz'', ''rbac'', ''permission'', ''permissions'', ''role'']\<rparr>,
      \<lparr>sg_body = ''crypto|encryption|signature|cipher'',
       sg_words = [''crypto'', ''encryption'', ''signature'', ''cipher'']\<rparr>,
      \<lparr>sg_body = ''billing|payment|invoice|charge|stripe'',
       sg_words = [''billing'', ''payment'', ''invoice'', ''charge'', ''stripe'']\<rparr>,
      \<lparr>sg_body = ''production|deploy|infrastructure|kubernetes|terraform'',
       sg_words = [''production'', ''deploy'', ''infrastructure'', ''kubernetes'', ''terraform'']\<rparr>,
      \<lparr>sg_body = ''secret|credential|token|api[_-]?key'',
       sg_words = [''secret'', ''credential'', ''token'', ''apikey'', ''api_key'', ''api-key'']\<rparr>,
      \<lparr>sg_body = ''drop |truncate |delete |destructive'',
       sg_words = [''drop '', ''truncate '', ''delete '', ''destructive'']\<rparr>]"

definition medium_risk_signals :: "signal list" where
  "medium_risk_signals =
     [\<lparr>sg_body = ''database|sql|query|model'', sg_words = [''database'', ''sql'', ''query'', ''model'']\<rparr>,
      \<lparr>sg_body = ''api|endpoint|http|rest'', sg_words = [''api'', ''endpoint'', ''http'', ''rest'']\<rparr>,
      \<lparr>sg_body = ''cache|redis|queue|kafka'', sg_words = [''cache'', ''redis'', ''queue'', ''kafka'']\<rparr>]"

text \<open>\<open>\w\<close> on the code points below 256.\<close>

definition word_char :: "char \<Rightarrow> bool" where
  "word_char c =
     (let n = code c in
      48 \<le> n \<and> n \<le> 57 \<or> 65 \<le> n \<and> n \<le> 90 \<or> 97 \<le> n \<and> n \<le> 122 \<or> n = 95 \<or>
      n \<in> {170, 178, 179, 181, 185, 186, 188, 189, 190} \<or> 192 \<le> n \<and> n \<noteq> 215 \<and> n \<noteq> 247)"

text \<open>\<open>\b\<close> between what is before and what is after a position.\<close>

definition boundary :: "char option \<Rightarrow> string \<Rightarrow> bool" where
  "boundary before rest =
     ((case before of None \<Rightarrow> False | Some c \<Rightarrow> word_char c) \<noteq>
      (case rest of [] \<Rightarrow> False | c # _ \<Rightarrow> word_char c))"

definition word_at :: "char option \<Rightarrow> string \<Rightarrow> string \<Rightarrow> bool" where
  "word_at before w tx =
     (let m = take (length w) tx; rest = drop (length w) tx in
      lower m = w \<and> boundary before tx \<and> boundary (if m = [] then before else Some (last m)) rest)"

text \<open>\<open>pattern.search(text)\<close>: some alternative matches at some position.\<close>

fun search_words :: "string list \<Rightarrow> char option \<Rightarrow> string \<Rightarrow> bool" where
  "search_words ws before [] = list_ex (\<lambda>w. word_at before w []) ws"
| "search_words ws before (c # cs) =
     (list_ex (\<lambda>w. word_at before w (c # cs)) ws \<or> search_words ws (Some c) cs)"

definition signal_found :: "string \<Rightarrow> signal \<Rightarrow> bool" where
  "signal_found tx g = search_words (sg_words g) None tx"

subsection \<open>The policy service\<close>

record risk_assessment =
  ra_risk :: risk_level
  ra_reasons :: "string list"

definition classified_text :: "work_item option \<Rightarrow> string \<Rightarrow> string \<Rightarrow> string" where
  "classified_text w title descr =
     join '' '' [case w of None \<Rightarrow> [] | Some i \<Rightarrow> wi_title i,
               case w of None \<Rightarrow> [] | Some i \<Rightarrow> wi_description i, title, descr]"

definition classify_risk :: "work_item option \<Rightarrow> string \<Rightarrow> string \<Rightarrow> risk_assessment" where
  "classify_risk w title descr =
     (let tx = classified_text w title descr;
          high = filter (signal_found tx) high_risk_signals;
          medium = filter (signal_found tx) medium_risk_signals
      in if high \<noteq> []
         then \<lparr>ra_risk = Risk_High, ra_reasons = map (\<lambda>g. ''high-risk signal: '' @ sg_pattern g) high\<rparr>
         else if medium \<noteq> []
         then \<lparr>ra_risk = Risk_Medium, ra_reasons = map (\<lambda>g. ''medium-risk signal: '' @ sg_pattern g) medium\<rparr>
         else \<lparr>ra_risk = Risk_Low, ra_reasons = []\<rparr>)"

definition merge_permissions :: "execution_permissions \<Rightarrow> execution_permissions \<Rightarrow> execution_permissions" where
  "merge_permissions a b =
     \<lparr>repository_read = repository_read a \<or> repository_read b,
      repository_write = repository_write a \<or> repository_write b, shell = shell a \<or> shell b,
      network = network a \<or> network b, git_commit = git_commit a \<or> git_commit b,
      git_push = git_push a \<or> git_push b,
      create_pull_request = create_pull_request a \<or> create_pull_request b,
      merge_pull_request = merge_pull_request a \<or> merge_pull_request b,
      run_containers = run_containers a \<or> run_containers b,
      access_secrets = access_secrets a \<or> access_secrets b, deploy = deploy a \<or> deploy b\<rparr>"

record policy_evaluation =
  pe_permissions :: execution_permissions
  pe_approvals :: "approval_type list"
  pe_allowed :: bool
  pe_reasons :: "string list"

text \<open>The body of the loop of \<open>evaluate\<close> over the matching rules.\<close>

definition apply_rule :: "policy_rule \<Rightarrow> policy_evaluation \<Rightarrow> policy_evaluation" where
  "apply_rule rule ev =
     (let ev1 = (case pr_permissions rule of None \<Rightarrow> ev
                 | Some p \<Rightarrow> ev\<lparr>pe_permissions := merge_permissions (pe_permissions ev) p\<rparr>);
          ev2 = (if pr_action rule = Require_Approval
                 then (case pr_approval_type rule of None \<Rightarrow> ev1
                       | Some t \<Rightarrow> ev1\<lparr>pe_approvals := pe_approvals ev1 @ [t]\<rparr>)
                 else ev1);
          ev3 = (if pr_action rule = Deny then ev2\<lparr>pe_allowed := False\<rparr> else ev2)
      in ev3\<lparr>pe_reasons := pe_reasons ev3 @ [pr_name rule]\<rparr>)"

definition evaluate :: "policy_set \<Rightarrow> work_item option \<Rightarrow> string \<Rightarrow> string \<Rightarrow> policy_evaluation" where
  "evaluate ps w title descr =
     (let r = ra_risk (classify_risk w title descr);
          ev = fold apply_rule (rules_for_risk ps r)
                 \<lparr>pe_permissions = default_permissions, pe_approvals = [], pe_allowed = True,
                  pe_reasons = []\<rparr>
      in if pe_reasons ev = []
         then ev\<lparr>pe_reasons := [''no policies matched risk '' @ risk_level_value r]\<rparr> else ev)"

definition default_policy_set :: "uuid \<Rightarrow> policy_set" where
  "default_policy_set i =
     \<lparr>ps_name = ''default'',
      ps_rules = [\<lparr>pr_rule_id = i, pr_name = ''high risk requires approval'', pr_risk_levels = [Risk_High],
                   pr_action = Require_Approval, pr_approval_type = Some Execution_Approval,
                   pr_permissions = None\<rparr>]\<rparr>"

subsection \<open>Approvals and the gate\<close>

record approval =
  ap_id :: uuid
  ap_type :: approval_type
  ap_workflow_id :: "uuid option"
  ap_work_item_id :: "uuid option"
  ap_execution_id :: "uuid option"
  ap_requested_by :: "uuid option"
  ap_decided_by :: "uuid option"
  ap_decision :: approval_decision
  ap_reason :: string
  ap_requested_at :: datetime
  ap_decided_at :: "datetime option"
  ap_metadata :: "(string \<times> json) list"

definition is_open :: "approval \<Rightarrow> bool" where
  "is_open a = (ap_decision a = Decision_Pending)"

type_synonym approval_store = "(uuid, approval) dict"

definition save_approval :: "approval \<Rightarrow> approval_store \<Rightarrow> approval_store" where
  "save_approval a s = dict_set (ap_id a) a s"

definition get_approval :: "uuid \<Rightarrow> approval_store \<Rightarrow> approval option" where
  "get_approval i s = dict_get s i"

definition list_open_for_work_item :: "uuid \<Rightarrow> approval_store \<Rightarrow> approval list" where
  "list_open_for_work_item w s = filter (\<lambda>a. ap_work_item_id a = Some w \<and> is_open a) (dict_values s)"

definition list_for_workflow :: "uuid \<Rightarrow> approval_store \<Rightarrow> approval list" where
  "list_for_workflow i s = filter (\<lambda>a. ap_workflow_id a = Some i) (dict_values s)"

text \<open>\<open>request_approval\<close> and \<open>decide_approval\<close> of the policy service: nothing is stored.\<close>

definition new_approval :: "uuid \<Rightarrow> datetime \<Rightarrow> approval_type \<Rightarrow> uuid option \<Rightarrow> uuid option \<Rightarrow> uuid option
    \<Rightarrow> uuid option \<Rightarrow> (string \<times> json) list \<Rightarrow> approval" where
  "new_approval i now t flow w x by_actor meta =
     \<lparr>ap_id = i, ap_type = t, ap_workflow_id = flow, ap_work_item_id = w, ap_execution_id = x,
      ap_requested_by = by_actor, ap_decided_by = None, ap_decision = Decision_Pending,
      ap_reason = [], ap_requested_at = now, ap_decided_at = None, ap_metadata = meta\<rparr>"

definition decide_approval :: "datetime \<Rightarrow> approval \<Rightarrow> uuid \<Rightarrow> approval_decision \<Rightarrow> string \<Rightarrow> approval" where
  "decide_approval now a who d why =
     a\<lparr>ap_decided_by := Some who, ap_decision := d, ap_reason := why, ap_decided_at := Some now\<rparr>"

text \<open>The gate.\<close>

definition requires_approval :: "approval_store \<Rightarrow> workflow_state \<Rightarrow> approval_type option" where
  "requires_approval s st = map_option ap_type (List.find is_open (list_for_workflow (wf_id st) s))"

definition gate_request :: "uuid \<Rightarrow> datetime \<Rightarrow> approval_type \<Rightarrow> uuid option
    \<Rightarrow> (string \<times> json) list \<Rightarrow> workflow_state \<times> approval_store \<Rightarrow> approval \<times> workflow_state \<times> approval_store" where
  "gate_request i now t by_actor meta s =
     (let st = fst s;
          a = new_approval i now t (Some (wf_id st)) (wf_work_item_id st) (wf_execution_id st) by_actor meta
      in (a, st\<lparr>wf_approval := Pending\<rparr>, save_approval a (snd s)))"

text \<open>\<open>decide\<close>: the assignment of \<open>decided_at\<close> to itself is kept.\<close>

definition gate_decide :: "approval \<Rightarrow> uuid \<Rightarrow> approval_decision \<Rightarrow> string \<Rightarrow> approval_store
    \<Rightarrow> approval \<times> approval_store" where
  "gate_decide a who d why s =
     (let b = a\<lparr>ap_decided_by := Some who, ap_decision := d, ap_reason := why,
               ap_decided_at := ap_decided_at a\<rparr>
      in (b, save_approval b s))"

definition apply_to_workflow :: "approval \<Rightarrow> workflow_state \<Rightarrow> workflow_state" where
  "apply_to_workflow a st =
     (if ap_workflow_id a \<noteq> Some (wf_id st) then st
      else (case ap_decision a of
              Decision_Approved \<Rightarrow> st\<lparr>wf_approval := Approved\<rparr>
            | Decision_Rejected \<Rightarrow> st\<lparr>wf_approval := Rejected\<rparr>
            | Decision_Needs_Changes \<Rightarrow> st\<lparr>wf_approval := Pending\<rparr>
            | Decision_Pending \<Rightarrow> st))"

subsection \<open>What a search finds\<close>

lemma length_lower [simp]: "length (lower s) = length s"
  by (simp add: lower_def)

definition last_or :: "char option \<Rightarrow> string \<Rightarrow> char option" where
  "last_or before us = (if us = [] then before else Some (last us))"

lemma last_or_simps [simp]:
  "last_or p [] = p" "last_or (last_or p us) vs = last_or p (us @ vs)"
  "last_or (Some c) us = last_or p (c # us)"
  by (auto simp: last_or_def)

text \<open>An occurrence of \<open>w\<close> as a whole word in \<open>tx\<close>, which starts after \<open>before\<close>.\<close>

definition occurs_after :: "char option \<Rightarrow> string \<Rightarrow> string \<Rightarrow> bool" where
  "occurs_after before w tx \<longleftrightarrow>
     (\<exists>us m vs. tx = us @ m @ vs \<and> lower m = w \<and> boundary (last_or before us) (m @ vs) \<and>
        boundary (last_or before (us @ m)) vs)"

abbreviation occurs_word :: "string \<Rightarrow> string \<Rightarrow> bool" where
  "occurs_word w tx \<equiv> occurs_after None w tx"

lemma word_at_iff:
  "word_at before w tx \<longleftrightarrow>
     (\<exists>m vs. tx = m @ vs \<and> lower m = w \<and> boundary before tx \<and> boundary (last_or before m) vs)"
proof
  assume "word_at before w tx"
  then show "\<exists>m vs. tx = m @ vs \<and> lower m = w \<and> boundary before tx \<and> boundary (last_or before m) vs"
    by (intro exI [of _ "take (length w) tx"] exI [of _ "drop (length w) tx"])
      (auto simp: word_at_def last_or_def Let_def)
next
  assume "\<exists>m vs. tx = m @ vs \<and> lower m = w \<and> boundary before tx \<and> boundary (last_or before m) vs"
  then obtain m vs where "tx = m @ vs" "lower m = w" "boundary before tx" "boundary (last_or before m) vs"
    by blast
  moreover from this have "take (length w) tx = m" "drop (length w) tx = vs" by auto
  ultimately show "word_at before w tx" by (simp add: word_at_def last_or_def Let_def)
qed

lemma occurs_after_Nil: "occurs_after before w [] \<longleftrightarrow> word_at before w []"
  by (auto simp: occurs_after_def word_at_iff)

lemma occurs_after_Cons:
  "occurs_after before w (c # cs) \<longleftrightarrow> word_at before w (c # cs) \<or> occurs_after (Some c) w cs"
proof
  assume "occurs_after before w (c # cs)"
  then obtain us m vs where split: "c # cs = us @ m @ vs" "lower m = w"
    "boundary (last_or before us) (m @ vs)" "boundary (last_or before (us @ m)) vs"
    unfolding occurs_after_def by blast
  show "word_at before w (c # cs) \<or> occurs_after (Some c) w cs"
  proof (cases us)
    case Nil
    with split show ?thesis unfolding word_at_iff by auto
  next
    case (Cons d ds)
    with split have "cs = ds @ m @ vs" "boundary (last_or (Some c) ds) (m @ vs)"
      "boundary (last_or (Some c) (ds @ m)) vs" by (auto simp: last_or_def split: if_splits)
    with split(2) show ?thesis unfolding occurs_after_def by blast
  qed
next
  assume "word_at before w (c # cs) \<or> occurs_after (Some c) w cs"
  then show "occurs_after before w (c # cs)"
  proof
    assume "word_at before w (c # cs)"
    then show ?thesis unfolding word_at_iff occurs_after_def
      by (metis append_Nil last_or_simps(1))
  next
    assume "occurs_after (Some c) w cs"
    then obtain us m vs where "cs = us @ m @ vs" "lower m = w"
      "boundary (last_or (Some c) us) (m @ vs)" "boundary (last_or (Some c) (us @ m)) vs"
      unfolding occurs_after_def by blast
    then show ?thesis unfolding occurs_after_def
      by (intro exI [of _ "c # us"] exI [of _ m] exI [of _ vs]) (auto simp: last_or_def split: if_splits)
  qed
qed

lemma search_words_iff: "search_words ws before tx \<longleftrightarrow> (\<exists>w \<in> set ws. occurs_after before w tx)"
  by (induction ws before tx rule: search_words.induct)
    (auto simp: occurs_after_Nil occurs_after_Cons list_ex_iff)

lemma signal_found_iff: "signal_found tx g \<longleftrightarrow> (\<exists>w \<in> set (sg_words g). occurs_word w tx)"
  by (simp add: signal_found_def search_words_iff)

text \<open>The context of a field in the joined text: nothing or a space on either side.\<close>

lemma boundary_space_left: "boundary (Some (CHR '' '')) rest = boundary None rest"
  by (simp add: boundary_def word_char_def code_def)

lemma boundary_space_right: "boundary before (CHR '' '' # q) = boundary before []"
  by (simp add: boundary_def word_char_def code_def)

lemma boundary_append: "xs \<noteq> [] \<Longrightarrow> boundary before (xs @ q) = boundary before xs"
  by (cases xs) (simp_all add: boundary_def)

lemma occurs_word_context:
  assumes "occurs_word w f" and "w \<noteq> []"
    and "p = [] \<or> last p = CHR '' ''" and "q = [] \<or> hd q = CHR '' ''"
  shows "occurs_word w (p @ f @ q)"
proof -
  from assms(1) obtain us m vs where split: "f = us @ m @ vs" "lower m = w"
    "boundary (last_or None us) (m @ vs)" "boundary (last_or None (us @ m)) vs"
    unfolding occurs_after_def by blast
  with assms(2) have m: "m \<noteq> []" by (auto simp: lower_def)
  have "boundary (last_or None (p @ us)) (m @ vs @ q)"
  proof -
    have "boundary (last_or None (p @ us)) (m @ vs @ q) = boundary (last_or None us) (m @ vs)"
      using m assms(3) boundary_append [of m _ "vs @ q"] boundary_append [of m _ vs]
      by (auto simp: last_or_def boundary_space_left)
    with split(3) show ?thesis by simp
  qed
  moreover have "boundary (last_or None ((p @ us) @ m)) (vs @ q)"
  proof -
    have "last_or None ((p @ us) @ m) = last_or None (us @ m)" using m by (simp add: last_or_def)
    moreover have "boundary c (vs @ q) = boundary c vs" for c
      using assms(4) boundary_append [of vs c q]
      by (cases "vs = []"; cases q) (simp_all add: boundary_space_right)
    ultimately show ?thesis using split(4) by simp
  qed
  moreover have "p @ f @ q = (p @ us) @ m @ vs @ q" using split(1) by simp
  ultimately show ?thesis unfolding occurs_after_def using split(2) by blast
qed

subsection \<open>What the matching rules add up to\<close>

definition permission_flags :: "(execution_permissions \<Rightarrow> bool) list" where
  "permission_flags = [repository_read, repository_write, shell, network, git_commit, git_push,
     create_pull_request, merge_pull_request, run_containers, access_secrets, deploy]"

lemma merge_permissions_flag:
  "f \<in> set permission_flags \<Longrightarrow> f (merge_permissions a b) = (f a \<or> f b)"
  by (auto simp: permission_flags_def merge_permissions_def)

definition required_approvals :: "policy_rule list \<Rightarrow> approval_type list" where
  "required_approvals rs =
     List.map_filter (\<lambda>r. if pr_action r = Require_Approval then pr_approval_type r else None) rs"

lemma required_approvals_simps [simp]:
  "required_approvals [] = []"
  "required_approvals (r # rs) =
     (case (if pr_action r = Require_Approval then pr_approval_type r else None) of
        None \<Rightarrow> required_approvals rs | Some t \<Rightarrow> t # required_approvals rs)"
  by (simp_all add: required_approvals_def map_filter_simps split: option.splits)

lemma fold_apply_rule:
  "pe_allowed (fold apply_rule rs ev) = (pe_allowed ev \<and> (\<forall>r \<in> set rs. pr_action r \<noteq> Deny))"
  "pe_approvals (fold apply_rule rs ev) = pe_approvals ev @ required_approvals rs"
  "pe_reasons (fold apply_rule rs ev) = pe_reasons ev @ map pr_name rs"
  by (induction rs arbitrary: ev) (auto simp: apply_rule_def Let_def split: option.splits)

lemma fold_apply_rule_flag:
  assumes "f \<in> set permission_flags"
  shows "f (pe_permissions (fold apply_rule rs ev)) \<longleftrightarrow>
    f (pe_permissions ev) \<or> (\<exists>r \<in> set rs. \<exists>p. pr_permissions r = Some p \<and> f p)"
  by (induction rs arbitrary: ev)
    (auto simp: apply_rule_def Let_def merge_permissions_flag [OF assms] split: option.splits)

lemma high_risk_words_nonempty: "g \<in> set high_risk_signals \<Longrightarrow> w \<in> set (sg_words g) \<Longrightarrow> w \<noteq> []"
  by (auto simp: high_risk_signals_def)

definition high_risk_text :: "string \<Rightarrow> bool" where
  "high_risk_text t = (\<exists>g \<in> set high_risk_signals. \<exists>w \<in> set (sg_words g). occurs_word w t)"

lemma classify_risk_high:
  "ra_risk (classify_risk i a b) = Risk_High \<longleftrightarrow> high_risk_text (classified_text i a b)"
  by (auto simp: classify_risk_def high_risk_text_def signal_found_iff Let_def filter_empty_conv)

lemma evaluate_fields:
  fixes ps i a b
  defines "rs \<equiv> rules_for_risk ps (ra_risk (classify_risk i a b))"
  shows "pe_allowed (evaluate ps i a b) = (\<forall>r \<in> set rs. pr_action r \<noteq> Deny)"
    and "pe_approvals (evaluate ps i a b) = required_approvals rs"
    and "pe_reasons (evaluate ps i a b) =
      (if rs = [] then [''no policies matched risk '' @ risk_level_value (ra_risk (classify_risk i a b))]
       else map pr_name rs)"
    and "f \<in> set permission_flags \<Longrightarrow> f (pe_permissions (evaluate ps i a b)) \<longleftrightarrow>
      f default_permissions \<or> (\<exists>r \<in> set rs. \<exists>p. pr_permissions r = Some p \<and> f p)"
  by (simp_all add: evaluate_def Let_def rs_def fold_apply_rule fold_apply_rule_flag)

subsection \<open>Properties of the policies\<close>

text \<open>
  Risk classification is whole-word search. The risk is high exactly when some
  alternative of some high-risk pattern occurs in the joined text as a whole word, in any
  case; medium exactly when none does and some alternative of a medium-risk pattern does; and
  low otherwise. No work is ever classified as critical.
\<close>

theorem risk_classification:
  "(ra_risk (classify_risk i a b) = Risk_High \<longleftrightarrow>
      (\<exists>g \<in> set high_risk_signals. \<exists>w \<in> set (sg_words g). occurs_word w (classified_text i a b))) \<and>
   (ra_risk (classify_risk i a b) = Risk_Medium \<longleftrightarrow>
      ra_risk (classify_risk i a b) \<noteq> Risk_High \<and>
      (\<exists>g \<in> set medium_risk_signals. \<exists>w \<in> set (sg_words g). occurs_word w (classified_text i a b))) \<and>
   ra_risk (classify_risk i a b) \<noteq> Risk_Critical"
  by (auto simp: classify_risk_def signal_found_iff Let_def filter_empty_conv)

theorem risk_classification_witness:
  "ra_risk (classify_risk None ''LOGIN'' []) = Risk_High"
proof -
  have "search_words [''login''] None ''  LOGIN ''" by code_simp
  then have "occurs_word ''login'' (classified_text None ''LOGIN'' [])"
    by (simp add: search_words_iff classified_text_def)
  moreover have "''login'' \<in> set (sg_words (high_risk_signals ! 1))"
    and "high_risk_signals ! 1 \<in> set high_risk_signals"
    by (simp_all add: high_risk_signals_def)
  ultimately show ?thesis using risk_classification [of None "''LOGIN''" "[]"] by blast
qed

text \<open>
  A high-risk word cannot be hidden by the other fields. If it occurs in the item's title
  or description, or in the title or description passed beside it, the work is high risk
  whatever the other three fields contain.
\<close>

theorem risk_field_suffices:
  assumes "g \<in> set high_risk_signals" and "w \<in> set (sg_words g)"
    and "occurs_word w (wi_title i) \<or> occurs_word w (wi_description i) \<or> occurs_word w a \<or> occurs_word w b"
  shows "ra_risk (classify_risk (Some i) a b) = Risk_High"
proof -
  have w: "w \<noteq> []" using high_risk_words_nonempty assms(1,2) by blast
  let ?t = "classified_text (Some i) a b" and ?sp = "[CHR '' '']"
  have layout: "?t = [] @ wi_title i @ (?sp @ wi_description i @ ?sp @ a @ ?sp @ b)"
    "?t = (wi_title i @ ?sp) @ wi_description i @ (?sp @ a @ ?sp @ b)"
    "?t = (wi_title i @ ?sp @ wi_description i @ ?sp) @ a @ (?sp @ b)"
    "?t = (wi_title i @ ?sp @ wi_description i @ ?sp @ a @ ?sp) @ b @ []"
    by (simp_all add: classified_text_def)
  from assms(3) have "occurs_word w ?t"
  proof (elim disjE)
    assume "occurs_word w (wi_title i)"
    then show ?thesis unfolding layout(1) by (rule occurs_word_context [OF _ w]) simp_all
  next
    assume "occurs_word w (wi_description i)"
    then show ?thesis unfolding layout(2) by (rule occurs_word_context [OF _ w]) simp_all
  next
    assume "occurs_word w a"
    then show ?thesis unfolding layout(3) by (rule occurs_word_context [OF _ w]) simp_all
  next
    assume "occurs_word w b"
    then show ?thesis unfolding layout(4) by (rule occurs_word_context [OF _ w]) simp_all
  qed
  with assms(1,2) show ?thesis unfolding classify_risk_high high_risk_text_def by blast
qed

theorem risk_field_suffices_witness:
  "ra_risk (classify_risk (Some (new_work_item ''w'' ''p'' ''Fix the OAuth flow'')) ''x'' ''y'') = Risk_High"
proof -
  have found: "search_words [''oauth''] None ''Fix the OAuth flow''" by code_simp
  show ?thesis
    by (rule risk_field_suffices [of "high_risk_signals ! 1" "''oauth''"])
      (use found in \<open>simp_all add: high_risk_signals_def search_words_iff new_work_item_def\<close>)
qed

text \<open>
  What a policy evaluation grants. Work is allowed exactly when no rule for its risk
  denies it; the approvals are those of the rules that require one, in the order of the
  rules; a permission is granted exactly when it is a default one or some rule for the risk
  grants it (rules only ever add permissions); and there is always a reason.
\<close>

theorem policy_evaluation_spec:
  "pe_allowed (evaluate ps i a b) =
     (\<forall>r \<in> set (rules_for_risk ps (ra_risk (classify_risk i a b))). pr_action r \<noteq> Deny) \<and>
   pe_approvals (evaluate ps i a b) =
     required_approvals (rules_for_risk ps (ra_risk (classify_risk i a b))) \<and>
   (\<forall>f \<in> set permission_flags. f (pe_permissions (evaluate ps i a b)) \<longleftrightarrow>
      f default_permissions \<or>
      (\<exists>r \<in> set (rules_for_risk ps (ra_risk (classify_risk i a b))). \<exists>p. pr_permissions r = Some p \<and> f p)) \<and>
   pe_reasons (evaluate ps i a b) \<noteq> []"
  by (simp add: evaluate_fields)

definition demo_policy_set :: policy_set where
  "demo_policy_set = \<lparr>ps_name = ''p'', ps_rules =
     [\<lparr>pr_rule_id = ''1'', pr_name = ''write'', pr_risk_levels = [Risk_Low, Risk_Medium, Risk_High], pr_action = Allow,
       pr_approval_type = None,
       pr_permissions = Some (default_permissions\<lparr>repository_write := True\<rparr>)\<rparr>,
      \<lparr>pr_rule_id = ''2'', pr_name = ''no'', pr_risk_levels = [Risk_Low, Risk_Medium, Risk_High], pr_action = Deny,
       pr_approval_type = None, pr_permissions = None\<rparr>]\<rparr>"

theorem policy_evaluation_spec_witness:
  "pe_allowed (evaluate demo_policy_set None ''rename a label'' []) = False"
proof -
  have "rules_for_risk demo_policy_set r = ps_rules demo_policy_set" if "r \<noteq> Risk_Critical" for r
    using that by (cases r) (simp_all add: rules_for_risk_def demo_policy_set_def)
  moreover have "ra_risk (classify_risk None ''rename a label'' []) \<noteq> Risk_Critical"
    by (auto simp: classify_risk_def Let_def)
  moreover have "\<exists>r \<in> set (ps_rules demo_policy_set). pr_action r = Deny"
    by (simp add: demo_policy_set_def)
  ultimately show ?thesis
    using policy_evaluation_spec [of demo_policy_set None "''rename a label''" "[]"] by auto
qed

text \<open>
  The default policy set asks for an execution approval exactly when a high-risk word
  occurs in the work's text; it denies nothing and grants only reading the repository.
\<close>

theorem default_policy:
  "pe_allowed (evaluate (default_policy_set k) i a b) \<and>
   pe_approvals (evaluate (default_policy_set k) i a b) =
     (if \<exists>g \<in> set high_risk_signals. \<exists>w \<in> set (sg_words g). occurs_word w (classified_text i a b)
      then [Execution_Approval] else []) \<and>
   pe_permissions (evaluate (default_policy_set k) i a b) = default_permissions"
proof (cases "ra_risk (classify_risk i a b) = Risk_High")
  case True
  then have "rules_for_risk (default_policy_set k) (ra_risk (classify_risk i a b)) =
      ps_rules (default_policy_set k)"
    by (simp add: rules_for_risk_def default_policy_set_def)
  moreover from this have "pe_permissions (evaluate (default_policy_set k) i a b) = default_permissions"
    by (simp add: evaluate_def Let_def default_policy_set_def apply_rule_def)
  ultimately show ?thesis
    using True classify_risk_high [of i a b]
    by (simp add: evaluate_fields default_policy_set_def high_risk_text_def)
next
  case False
  then have "rules_for_risk (default_policy_set k) (ra_risk (classify_risk i a b)) = []"
    by (simp add: rules_for_risk_def default_policy_set_def)
  moreover from this have "pe_permissions (evaluate (default_policy_set k) i a b) = default_permissions"
    by (simp add: evaluate_def Let_def)
  ultimately show ?thesis
    using False classify_risk_high [of i a b] by (simp add: evaluate_fields high_risk_text_def)
qed

theorem default_policy_witness:
  "pe_allowed (evaluate (default_policy_set ''k'') None ''drop the table'' [])"
  using default_policy [of "''k''" None "''drop the table''" "[]"] by blast

subsection \<open>The gate\<close>

lemma requires_approval_iff:
  assumes "dict_ok s"
  shows "requires_approval s st = None \<longleftrightarrow>
    (\<forall>i a. get_approval i s = Some a \<longrightarrow> ap_workflow_id a = Some (wf_id st) \<longrightarrow> \<not> is_open a)"
proof -
  have "requires_approval s st = None \<longleftrightarrow>
      (\<forall>a \<in> set (dict_values s). ap_workflow_id a = Some (wf_id st) \<longrightarrow> \<not> is_open a)"
    by (auto simp: requires_approval_def find_None_iff' list_for_workflow_def)
  with dict_values_iff [OF assms] show ?thesis by (auto simp: get_approval_def)
qed

text \<open>
  The gate's cycle. Requesting an approval sets the workflow to pending and makes it wait
  for one; deciding that approval, with anything but pending, leaves the workflow waiting
  exactly as long as another of its approvals is open; and applying an approval or rejection
  sets the state of its own workflow and of no other.
\<close>

theorem approval_gate_cycle:
  assumes "dict_ok s" and "gate_request i now t who meta (st, s) = (a, st1, s1)"
    and "gate_decide a who' d why s1 = (a', s2)" and "d \<noteq> Decision_Pending"
  shows "wf_approval st1 = Pending \<and> requires_approval s1 st1 \<noteq> None \<and>
    (requires_approval s2 st1 = None \<longleftrightarrow>
       (\<forall>j b. get_approval j s = Some b \<longrightarrow> j \<noteq> i \<longrightarrow> ap_workflow_id b = Some (wf_id st) \<longrightarrow> \<not> is_open b)) \<and>
    (d = Decision_Approved \<longrightarrow> wf_approval (apply_to_workflow a' st1) = Approved) \<and>
    (d = Decision_Rejected \<longrightarrow> wf_approval (apply_to_workflow a' st1) = Rejected) \<and>
    (wf_id other \<noteq> wf_id st \<longrightarrow> apply_to_workflow a' other = other)"
proof -
  have a: "a = new_approval i now t (Some (wf_id st)) (wf_work_item_id st) (wf_execution_id st) who meta"
    and st1: "st1 = st\<lparr>wf_approval := Pending\<rparr>" and s1: "s1 = save_approval a s"
    using assms(2) by (auto simp: gate_request_def Let_def)
  have a': "ap_id a' = i" "ap_workflow_id a' = Some (wf_id st)" "ap_decision a' = d"
    and s2: "s2 = save_approval a' s1"
    using assms(3) by (auto simp: gate_decide_def Let_def a new_approval_def)
  have ok: "dict_ok s1" "dict_ok s2" using assms(1) by (simp_all add: s1 s2 save_approval_def)
  have "requires_approval s1 st1 \<noteq> None"
    unfolding requires_approval_iff [OF ok(1)]
    by (auto simp: s1 st1 a save_approval_def get_approval_def new_approval_def is_open_def store_simps)
  moreover have "requires_approval s2 st1 = None \<longleftrightarrow>
      (\<forall>j b. get_approval j s = Some b \<longrightarrow> j \<noteq> i \<longrightarrow> ap_workflow_id b = Some (wf_id st) \<longrightarrow> \<not> is_open b)"
    unfolding requires_approval_iff [OF ok(2)]
    using a' assms(4)
    by (auto simp: s1 s2 st1 a save_approval_def get_approval_def new_approval_def is_open_def store_simps)
  ultimately show ?thesis using a' by (auto simp: apply_to_workflow_def st1)
qed

theorem approval_gate_cycle_witness:
  "\<exists>a st1 s1 a' s2. gate_request ''a'' 0 Execution_Approval None []
       (initial_workflow_state ''wf'' 0 ''p'' ''w'' ''r'' ''HEAD'', []) = (a, st1, s1) \<and>
     gate_decide a ''boss'' Decision_Approved [] s1 = (a', s2) \<and>
     wf_approval (apply_to_workflow a' st1) = Approved"
proof -
  obtain a st1 s1 where req: "gate_request ''a'' 0 Execution_Approval None []
      (initial_workflow_state ''wf'' 0 ''p'' ''w'' ''r'' ''HEAD'', []) = (a, st1, s1)"
    by (rule prod_cases3)
  obtain a' s2 where dec: "gate_decide a ''boss'' Decision_Approved [] s1 = (a', s2)"
    by (cases "gate_decide a ''boss'' Decision_Approved [] s1")
  from approval_gate_cycle [OF dict_ok_empty req dec] req dec show ?thesis by blast
qed

text \<open>
  The time of a decision made through the gate is never recorded: the approval it stores
  keeps the decision time it had, so a requested approval is stored as decided by someone at
  no time, while the policy service's own decision sets the time.
\<close>

theorem gate_decision_time_lost:
  assumes "gate_request i now t who meta (st, s) = (a, st1, s1)"
    and "gate_decide a who' d why s1 = (a', s2)"
  shows "get_approval i s2 = Some a' \<and> ap_decided_by a' = Some who' \<and> ap_decision a' = d \<and>
    ap_decided_at a' = None \<and> ap_decided_at (decide_approval later a who' d why) = Some later"
  using assms
  by (auto simp: gate_request_def gate_decide_def new_approval_def save_approval_def get_approval_def
      decide_approval_def Let_def store_simps)

theorem gate_decision_time_lost_witness:
  "\<exists>a st1 s1 a' s2. gate_request ''a'' 0 Execution_Approval None []
       (initial_workflow_state ''wf'' 0 ''p'' ''w'' ''r'' ''HEAD'', []) = (a, st1, s1) \<and>
     gate_decide a ''boss'' Decision_Approved [] s1 = (a', s2) \<and> ap_decided_at a' = None"
proof -
  obtain a st1 s1 where req: "gate_request ''a'' 0 Execution_Approval None []
      (initial_workflow_state ''wf'' 0 ''p'' ''w'' ''r'' ''HEAD'', []) = (a, st1, s1)"
    by (rule prod_cases3)
  obtain a' s2 where dec: "gate_decide a ''boss'' Decision_Approved [] s1 = (a', s2)"
    by (cases "gate_decide a ''boss'' Decision_Approved [] s1")
  from gate_decision_time_lost [OF req dec] req dec show ?thesis by blast
qed

end
