(* ===== verification/Pull_Request.thy ===== *)
theory Pull_Request
  imports Observations Repositories Policy
begin

text \<open>
  Pull requests and the consequences of events: \<open>application/pull_request_service.py\<close>,
  \<open>application/event_handlers.py\<close>, \<open>application/human_feedback.py\<close>,
  \<open>adapters/in_memory/context.py\<close>, and what is pure in \<open>adapters/pull_request/gitlab.py\<close>.

  The whole state is a journal whose bus carries the \<open>hub\<close>: the repositories, the queue, the
  capsules, the policies, the projections and the world of the providers. The provider calls are
  parameters on that world. Of a capsule only its id and its work item are kept.
\<close>

subsection \<open>The state\<close>

record 'w hub =
  hb_repos :: repository_set
  hb_queue :: command_queue
  hb_capsules :: "(uuid, uuid) dict"
  hb_policies :: policy_set
  hb_projections :: projection_store
  hb_world :: 'w

type_synonym 'w hub_state = "('w hub) event_state"
type_synonym 'w hub_journal = "('w hub) journal"

definition hub :: "'w hub_journal \<Rightarrow> 'w hub" where
  "hub j = event_ext (jr_bus j)"

definition set_ext :: "'x \<Rightarrow> 'x event_state \<Rightarrow> 'x event_state" where
  "set_ext x s = s\<lparr>event_ext := x\<rparr>"

definition set_hub :: "'w hub \<Rightarrow> 'w hub_journal \<Rightarrow> 'w hub_journal" where
  "set_hub h j = j\<lparr>jr_bus := set_ext h (jr_bus j)\<rparr>"

lemma hub_simps [simp]:
  "hub (set_hub h j) = h" "jr_store (set_hub h j) = jr_store j" "event_ext (set_ext h s) = h"
  "bus_handlers (set_ext h s) = bus_handlers s" "bus_published (set_ext h s) = bus_published s"
  by (simp_all add: hub_def set_hub_def set_ext_def)

subsection \<open>Capsules and human feedback\<close>

definition save_capsule :: "uuid \<Rightarrow> uuid \<Rightarrow> 'w hub \<Rightarrow> 'w hub" where
  "save_capsule i w h = h\<lparr>hb_capsules := dict_set i w (hb_capsules h)\<rparr>"

definition capsules_of_work_item :: "uuid \<Rightarrow> 'w hub \<Rightarrow> uuid list" where
  "capsules_of_work_item w h = map fst (filter (\<lambda>(i, v). v = w) (hb_capsules h))"

definition delete_capsule :: "uuid \<Rightarrow> 'w hub \<Rightarrow> 'w hub" where
  "delete_capsule i h = h\<lparr>hb_capsules := dict_pop i (hb_capsules h)\<rparr>"

record human_feedback =
  hf_id :: uuid
  hf_author :: string
  hf_provider :: string
  hf_comment_id :: string
  hf_work_item_id :: "uuid option"
  hf_message :: string
  hf_received_at :: datetime

text \<open>\<open>_emit\<close>: a verdict that is not one of the enumeration becomes a note.\<close>

definition emit_feedback :: "'x handler_table \<Rightarrow> uuid \<Rightarrow> uuid \<Rightarrow> datetime \<Rightarrow> human_feedback \<Rightarrow> string
    \<Rightarrow> 'x event_state \<Rightarrow> ('x event_state, unit) outcome" where
  "emit_feedback run i fresh now f verdict s =
     publish run (model_to_envelope i (hf_id f) now
       (HumanFeedbackReceived (hf_work_item_id f) None None (hf_author f) (hf_provider f) (hf_comment_id f)
          (case feedback_verdict_of (JStr verdict) of Some v \<Rightarrow> v | None \<Rightarrow> Fb_Note) (hf_message f))
       (''brain.human_feedback.'' @ hf_provider f) None (Some fresh) None None) s"

definition receive_feedback :: "'x handler_table \<Rightarrow> uuid \<Rightarrow> uuid \<Rightarrow> uuid \<Rightarrow> datetime \<Rightarrow> string \<Rightarrow> string
    \<Rightarrow> string \<Rightarrow> uuid option \<Rightarrow> string \<Rightarrow> string \<Rightarrow> 'x event_state
    \<Rightarrow> ('x event_state, human_feedback) outcome" where
  "receive_feedback run fid i fresh now author provider cid w message verdict s =
     (let f = \<lparr>hf_id = fid, hf_author = author, hf_provider = provider, hf_comment_id = cid,
               hf_work_item_id = w, hf_message = message, hf_received_at = now\<rparr>
      in case emit_feedback run i fresh now f verdict s of
           (Inl e, s') \<Rightarrow> (Inl e, s')
         | (Inr _, s') \<Rightarrow> (Inr f, s'))"

datatype resume_outcome = No_Work_Item | Work_Item_Not_Found uuid | Resumed uuid

text \<open>\<open>_resume\<close> with \<open>emit=False\<close>, the only way the code calls it.\<close>

definition resume_feedback :: "human_feedback \<Rightarrow> 'w hub \<Rightarrow> resume_outcome \<times> 'w hub" where
  "resume_feedback f h =
     (case hf_work_item_id f of
        None \<Rightarrow> (No_Work_Item, h)
      | Some w \<Rightarrow>
          (case get_item w (st_work_items (hb_repos h)) of
             None \<Rightarrow> (Work_Item_Not_Found w, h)
           | Some _ \<Rightarrow> (Resumed w, fold delete_capsule (capsules_of_work_item w h) h)))"

subsection \<open>Event handlers\<close>

definition handle_assigned :: "event_validators \<Rightarrow> uuid \<Rightarrow> uuid \<Rightarrow> datetime \<Rightarrow> event_envelope \<Rightarrow> 'w hub \<Rightarrow> 'w hub" where
  "handle_assigned x cid fresh now e h =
     (case event_to_model x e of
        Some (WorkItemAssigned w a y b t) \<Rightarrow>
          h\<lparr>hb_queue := enqueue (make_command cid fresh now RUN_WORK_ITEM (RunWorkItemCommand w) TRIGGER_EVENT
              None (Some (ev_correlation_id e))) (hb_queue h)\<rparr>
      | _ \<Rightarrow> h)"

definition handle_feedback :: "event_validators \<Rightarrow> uuid \<Rightarrow> datetime \<Rightarrow> event_envelope \<Rightarrow> 'w hub \<Rightarrow> 'w hub" where
  "handle_feedback x fid now e h =
     (case event_to_model x e of
        Some (HumanFeedbackReceived w a y au p c v f) \<Rightarrow>
          snd (resume_feedback \<lparr>hf_id = fid, hf_author = au, hf_provider = p, hf_comment_id = c,
                 hf_work_item_id = w, hf_message = f, hf_received_at = now\<rparr> h)
      | _ \<Rightarrow> h)"

definition handle_revision_hub :: "event_validators \<Rightarrow> 'w changed_files \<Rightarrow> uuid \<Rightarrow> datetime \<Rightarrow> event_envelope
    \<Rightarrow> 'w hub \<Rightarrow> ('w hub, unit) outcome" where
  "handle_revision_hub x changed i now e h =
     (let (r, (repos, w)) = handle_revision x changed i now e (hb_repos h, hb_world h)
      in (r, h\<lparr>hb_repos := repos, hb_world := w\<rparr>))"

subsection \<open>Merges\<close>

definition revision_changed_event :: "uuid \<Rightarrow> uuid \<Rightarrow> datetime \<Rightarrow> external_reference \<Rightarrow> uuid option \<Rightarrow> event_envelope" where
  "revision_changed_event i fresh now ref corr =
     \<lparr>ev_id = i, ev_type = REPOSITORY_REVISION_CHANGED, ev_occurred_at = now, ev_project_id = None,
      ev_correlation_id = (case corr of Some c \<Rightarrow> c | None \<Rightarrow> fresh), ev_causation_id = None,
      ev_source = ''pull_request_service'', ev_idempotency_key = None,
      ev_payload = [(''external_ref'', external_reference_dump ref)]\<rparr>"

text \<open>\<open>_enqueue_reingestion\<close>: the repository of the command is a newly drawn identifier \<open>rid\<close>.\<close>

definition reingestion_command :: "uuid \<Rightarrow> uuid \<Rightarrow> uuid \<Rightarrow> datetime \<Rightarrow> external_reference \<Rightarrow> command_envelope" where
  "reingestion_command cid fresh rid now ref =
     \<lparr>command_id = cid, command_type = SYNC_REPOSITORY, command_project_id = None, requested_at = now,
      requested_by = None, trigger_type = TRIGGER_INTERNAL, command_correlation_id = fresh,
      command_payload = [(''repository_id'', JStr rid), (''external_ref'', external_reference_dump ref)]\<rparr>"

definition apply_merge_consequences :: "('w hub) handler_table \<Rightarrow> uuid \<Rightarrow> uuid \<Rightarrow> uuid \<Rightarrow> uuid \<Rightarrow> datetime
    \<Rightarrow> external_reference \<Rightarrow> uuid option \<Rightarrow> 'w hub_state \<Rightarrow> ('w hub_state, event_envelope) outcome" where
  "apply_merge_consequences run i cid fresh rid now ref corr s =
     (let e = revision_changed_event i fresh now ref corr in
      case publish run e s of
        (Inl err, s') \<Rightarrow> (Inl err, s')
      | (Inr _, s') \<Rightarrow>
          (Inr e, set_ext ((event_ext s')\<lparr>hb_queue :=
             enqueue (reingestion_command cid fresh rid now ref) (hb_queue (event_ext s'))\<rparr>) s'))"

definition merged_event :: "uuid \<Rightarrow> uuid \<Rightarrow> datetime \<Rightarrow> external_reference \<Rightarrow> event_envelope" where
  "merged_event i fresh now ref =
     \<lparr>ev_id = i, ev_type = PULL_REQUEST_MERGED, ev_occurred_at = now, ev_project_id = None,
      ev_correlation_id = fresh, ev_causation_id = None, ev_source = ''pull_request_service'',
      ev_idempotency_key = None,
      ev_payload = [(''provider'', JStr (ref_provider ref)), (''external_id'', JStr (ref_external_id ref)),
        (''namespace'', JStr (case ref_namespace ref of None \<Rightarrow> [] | Some n \<Rightarrow> n))]\<rparr>"

definition handle_merge :: "('w hub) handler_table \<Rightarrow> uuid \<Rightarrow> uuid \<Rightarrow> datetime \<Rightarrow> external_reference
    \<Rightarrow> 'w hub_state \<Rightarrow> ('w hub_state, event_envelope) outcome" where
  "handle_merge run i fresh now ref s =
     (case publish run (merged_event i fresh now ref) s of
        (Inl err, s') \<Rightarrow> (Inl err, s')
      | (Inr _, s') \<Rightarrow> (Inr (merged_event i fresh now ref), s'))"

definition handle_merged :: "event_validators \<Rightarrow> ('w hub) handler_table \<Rightarrow> uuid \<Rightarrow> uuid \<Rightarrow> uuid \<Rightarrow> uuid
    \<Rightarrow> datetime \<Rightarrow> event_envelope \<Rightarrow> 'w hub_state \<Rightarrow> ('w hub_state, unit) outcome" where
  "handle_merged x run i cid fresh rid now e s =
     (case event_to_model x e of
        Some (PullRequestMerged ref r) \<Rightarrow>
          (case apply_merge_consequences run i cid fresh rid now ref (Some (ev_correlation_id e)) s of
             (Inl err, s') \<Rightarrow> (Inl err, s')
           | (Inr _, s') \<Rightarrow> (Inr (), s'))
      | _ \<Rightarrow> (Inr (), s))"

text \<open>
  The handlers the container subscribes, by name. The merge handler publishes in turn; the events
  it publishes have no handler that publishes, so the inner table is enough for it.
\<close>

record 'w handler_inputs =
  hi_validators :: event_validators
  hi_changed :: "'w changed_files"
  hi_event_id :: uuid
  hi_command_id :: uuid
  hi_fresh :: uuid
  hi_repository_id :: uuid
  hi_now :: datetime

definition inner_table :: "'w handler_inputs \<Rightarrow> ('w hub) handler_table" where
  "inner_table p n e s =
     (if n = ''revision_handler''
      then (case handle_revision_hub (hi_validators p) (hi_changed p) (hi_event_id p) (hi_now p) e (event_ext s) of
              (r, h) \<Rightarrow> (r, set_ext h s))
      else if n = ''work_item_assigned''
      then (Inr (), set_ext (handle_assigned (hi_validators p) (hi_command_id p) (hi_fresh p) (hi_now p) e
                               (event_ext s)) s)
      else if n = ''human_feedback''
      then (Inr (), set_ext (handle_feedback (hi_validators p) (hi_event_id p) (hi_now p) e (event_ext s)) s)
      else (Inr (), s))"

definition standard_table :: "'w handler_inputs \<Rightarrow> ('w hub) handler_table" where
  "standard_table p n e s =
     (if n = ''pull_request_merged''
      then handle_merged (hi_validators p) (inner_table p) (hi_event_id p) (hi_command_id p) (hi_fresh p)
             (hi_repository_id p) (hi_now p) e s
      else inner_table p n e s)"

definition standard_subscriptions :: "'x event_state \<Rightarrow> 'x event_state" where
  "standard_subscriptions s =
     subscribe ''pull_request_merged'' ''pull_request_merged''
       (subscribe ''human_feedback_received'' ''human_feedback''
         (subscribe ''work_item_assigned'' ''work_item_assigned''
           (subscribe ''repository_revision_changed'' ''revision_handler'' s)))"

subsection \<open>Creating a pull request\<close>

definition verification_passed :: "uuid \<Rightarrow> repository_set \<Rightarrow> bool" where
  "verification_passed x s = list_ex (\<lambda>v. vr_verdict v = Pass) (results_of_execution x s)"

definition policy_permits :: "policy_set \<Rightarrow> work_item \<Rightarrow> bool" where
  "policy_permits ps w =
     (let ev = evaluate ps (Some w) [] [] in
      if \<not> pe_allowed ev then False else Pr_Approval \<notin> set (pe_approvals ev))"

text \<open>\<open>_work_management_target\<close>.\<close>

definition work_management_target :: "work_item \<Rightarrow> external_reference option" where
  "work_management_target w =
     List.find (\<lambda>r. ref_external_type r \<in> {Some ''task'', Some ''work_item'', Some ''issue''}) (wi_external_refs w)"

record pr_result =
  pq_created :: bool
  pq_external_ref :: "external_reference option"
  pq_observation_id :: "uuid option"
  pq_reasons :: "string list"

definition refused :: "string list \<Rightarrow> pr_result" where
  "refused rs = \<lparr>pq_created = False, pq_external_ref = None, pq_observation_id = None, pq_reasons = rs\<rparr>"

text \<open>What a provider call gets: repository, source and target branch, title, description.\<close>

type_synonym 'w pr_port = "repository \<Rightarrow> string \<Rightarrow> string \<Rightarrow> string \<Rightarrow> string \<Rightarrow> 'w \<Rightarrow> ('w, external_reference) outcome"

definition source_branch :: "execution \<Rightarrow> string" where
  "source_branch e =
     (case ex_working_branch e of None \<Rightarrow> ''brain/'' @ ex_id e
      | Some b \<Rightarrow> if b = [] then ''brain/'' @ ex_id e else b)"

definition pr_created_event :: "uuid \<Rightarrow> datetime \<Rightarrow> execution \<Rightarrow> work_item \<Rightarrow> external_reference \<Rightarrow> event_envelope" where
  "pr_created_event i now e w ref =
     \<lparr>ev_id = i, ev_type = PULL_REQUEST_CREATED, ev_occurred_at = now, ev_project_id = Some (wi_project_id w),
      ev_correlation_id = ex_correlation_id e, ev_causation_id = None, ev_source = ''pull_request_service'',
      ev_idempotency_key = None,
      ev_payload = [(''external_id'', JStr (ref_external_id ref)), (''provider'', JStr (ref_provider ref)),
        (''execution_id'', JStr (ex_id e)), (''work_item_id'', JStr (wi_id w))]\<rparr>"

definition pr_entry :: "execution \<Rightarrow> work_item \<Rightarrow> external_reference \<Rightarrow> observation_request" where
  "pr_entry e w ref =
     simple_request (wi_project_id w) Verification_Pass ''Pull request created''
       (''Verification passed. Merge Request !'' @ ref_external_id ref @ '' was created.'')
       (Some (wi_id w)) (Some (ex_id e)) (Some (''pr-created:'' @ ex_id e))"

text \<open>\<open>_project_to_task\<close>: an exception of the projection is swallowed.\<close>

definition project_to_task :: "'w activity_port \<Rightarrow> observation \<Rightarrow> work_item \<Rightarrow> 'w hub \<Rightarrow> 'w hub" where
  "project_to_task port o1 w h =
     (case work_management_target w of
        None \<Rightarrow> h
      | Some target \<Rightarrow>
          (case snd (project_observation port o1 target False (hb_projections h, hb_world h)) of
             (ps, v) \<Rightarrow> h\<lparr>hb_projections := ps, hb_world := v\<rparr>))"

text \<open>What follows the provider call: the event, the observation and its projection.\<close>

definition record_pull_request :: "('w hub) handler_table \<Rightarrow> 'w activity_port \<Rightarrow> uuid \<Rightarrow> uuid \<Rightarrow> uuid \<Rightarrow> uuid
    \<Rightarrow> datetime \<Rightarrow> execution \<Rightarrow> work_item \<Rightarrow> external_reference \<Rightarrow> 'w hub_journal
    \<Rightarrow> ('w hub_journal, pr_result) outcome" where
  "record_pull_request run port i oid oeid fresh now e w ref j =
     (case emit (Some run) (pr_created_event i now e w ref) j of
        (Inl err, j1) \<Rightarrow> (Inl err, j1)
      | (Inr _, j1) \<Rightarrow>
          (case create_entry (Some run) oid oeid fresh now (pr_entry e w ref) (Some (ex_correlation_id e)) j1 of
             (Inl err, j2) \<Rightarrow> (Inl err, j2)
           | (Inr o1, j2) \<Rightarrow>
               (Inr \<lparr>pq_created = True, pq_external_ref = Some ref, pq_observation_id = Some (ob_id o1),
                     pq_reasons = [''verification passed; policy permitted'']\<rparr>,
                set_hub (project_to_task port o1 w (hub j2)) j2)))"

definition service_create_pull_request :: "'w pr_port option \<Rightarrow> ('w hub) handler_table \<Rightarrow> 'w activity_port
    \<Rightarrow> uuid \<Rightarrow> uuid \<Rightarrow> uuid \<Rightarrow> uuid \<Rightarrow> datetime \<Rightarrow> uuid \<Rightarrow> uuid \<Rightarrow> 'w hub_journal
    \<Rightarrow> ('w hub_journal, pr_result) outcome" where
  "service_create_pull_request pr run port i oid oeid fresh now x wid j =
     (case pr of
        None \<Rightarrow> (Inr (refused [''no pull request provider configured'']), j)
      | Some create \<Rightarrow>
     (case get_item x (st_executions (hb_repos (hub j))) of
        None \<Rightarrow> (Inr (refused [''execution not found'']), j)
      | Some e \<Rightarrow>
     (case get_item wid (st_work_items (hb_repos (hub j))) of
        None \<Rightarrow> (Inr (refused [''work item not found'']), j)
      | Some w \<Rightarrow>
          (let reasons =
             (if verification_passed x (hb_repos (hub j)) then [] else [''verification verdict is not PASS'']) @
             (if policy_permits (hb_policies (hub j)) w then []
              else [''policy does not permit pull request creation'']) in
           if reasons \<noteq> [] then (Inr (refused reasons), j)
           else (case repositories_of_project (wi_project_id w) (hb_repos (hub j)) of
                   [] \<Rightarrow> (Inr (refused [''no repository for the work item'']), j)
                 | repo # _ \<Rightarrow>
                     (case create repo (source_branch e) (rp_default_branch repo) (wi_title w) (wi_description w)
                             (hb_world (hub j)) of
                        (Inl err, v) \<Rightarrow> (Inl err, set_hub ((hub j)\<lparr>hb_world := v\<rparr>) j)
                      | (Inr ref, v) \<Rightarrow>
                          record_pull_request run port i oid oeid fresh now e w ref
                            (set_hub ((hub j)\<lparr>hb_world := v\<rparr>) j)))))))"

subsection \<open>Lemmas\<close>

lemma standard_handlers_of:
  assumes "bus_handlers s = []"
  shows "handlers_of (event_type_value PULL_REQUEST_MERGED) (standard_subscriptions s) = [''pull_request_merged'']"
    and "handlers_of (event_type_value REPOSITORY_REVISION_CHANGED) (standard_subscriptions s) = [''revision_handler'']"
    and "handlers_of (event_type_value WORK_ITEM_ASSIGNED) (standard_subscriptions s) = [''work_item_assigned'']"
    and "handlers_of (event_type_value HUMAN_FEEDBACK_RECEIVED) (standard_subscriptions s) = [''human_feedback'']"
  using assms by (simp_all add: standard_subscriptions_def subscribe_def handlers_of_def)

lemma publish_single:
  assumes "handlers_of (event_type_value (ev_type e)) s = [n]"
  shows "publish run e s = (case run n e (s\<lparr>bus_published := bus_published s @ [e]\<rparr>) of
     (Inl x, t) \<Rightarrow> (Inl x, t) | (Inr _, t) \<Rightarrow> (Inr (), t))"
  using assms by (simp add: publish_def handlers_of_def split: prod.splits sum.splits)

text \<open>The event a merge publishes has no repository id, so it never validates.\<close>

lemma revision_changed_event_invalid:
  "event_to_model x (revision_changed_event i fresh now ref corr) = None"
  by (simp add: event_to_model_def revision_changed_event_def req_def Let_def)

lemma merged_event_invalid: "event_to_model x (merged_event i fresh now ref) = None"
  by (simp add: event_to_model_def merged_event_def req_def Let_def)

lemma revision_handler_ignores_merge:
  "inner_table p ''revision_handler'' (revision_changed_event i fresh now ref corr) s = (Inr (), s)"
  by (simp add: inner_table_def handle_revision_hub_def handle_revision_def revision_changed_event_invalid
      set_ext_def)

lemma delete_capsules_get:
  "dict_get (hb_capsules (fold delete_capsule is h)) k =
     (if k \<in> set is then None else dict_get (hb_capsules h) k)"
  by (induction "is" arbitrary: h) (simp_all add: delete_capsule_def store_simps)

lemma delete_capsules_repos: "hb_repos (fold delete_capsule is h) = hb_repos h"
  by (induction "is" arbitrary: h) (simp_all add: delete_capsule_def)

lemma capsules_of_work_item_iff:
  "dict_ok (hb_capsules h) \<Longrightarrow> i \<in> set (capsules_of_work_item w h) \<longleftrightarrow> dict_get (hb_capsules h) i = Some w"
  by (force simp: capsules_of_work_item_def dict_ok_def intro: map_of_is_SomeI dest: map_of_SomeD)

subsection \<open>A state for the witnesses\<close>

definition demo_hub :: "unit hub" where
  "demo_hub = \<lparr>hb_repos = demo_repositories\<lparr>st_work_items := [(''w'', new_work_item ''w'' ''p'' ''t'')]\<rparr>,
     hb_queue = empty_queue, hb_capsules = [(''c1'', ''w''), (''c2'', ''v'')],
     hb_policies = default_policy_set ''d'', hb_projections = [], hb_world = ()\<rparr>"

definition demo_hub_state :: "unit hub_state" where
  "demo_hub_state = \<lparr>bus_handlers = [], bus_published = [], processed_keys = [], event_log = [],
     event_ext = demo_hub\<rparr>"

definition demo_hub_journal :: "unit hub_journal" where
  "demo_hub_journal = \<lparr>jr_store = [], jr_bus = demo_hub_state\<rparr>"

definition demo_inputs :: "unit handler_inputs" where
  "demo_inputs = \<lparr>hi_validators = demo_validators, hi_changed = demo_changed, hi_event_id = ''ev'',
     hi_command_id = ''cmd'', hi_fresh = ''corr'', hi_repository_id = ''new'', hi_now = 0\<rparr>"

lemma demo_inputs_ok: "event_validators_ok (hi_validators demo_inputs)" "bus_handlers demo_hub_state = []"
  by (simp_all add: demo_inputs_def demo_validators_ok demo_hub_state_def)

subsection \<open>Properties\<close>

text \<open>
  C16: the pull request service acts only behind its gates. Unless a provider is configured, the
  execution and the work item exist, some verification result of the execution has the verdict
  pass, the policy permits it and the project has a repository, the answer is a refusal and
  nothing changes: no provider call, no event, no observation. With no stored verification
  result - the code stores none - it always refuses.
\<close>

theorem service_acts_behind_gates:
  "(\<exists>create e w repo rest. pr = Some create \<and> get_item x (st_executions (hb_repos (hub j))) = Some e \<and>
      get_item wid (st_work_items (hb_repos (hub j))) = Some w \<and>
      (\<exists>v \<in> set (results_of_execution x (hb_repos (hub j))). vr_verdict v = Pass) \<and>
      policy_permits (hb_policies (hub j)) w \<and>
      repositories_of_project (wi_project_id w) (hb_repos (hub j)) = repo # rest) \<or>
   (\<exists>rs. rs \<noteq> [] \<and> service_create_pull_request pr run port i oid oeid fresh now x wid j = (Inr (refused rs), j))"
  by (auto simp: service_create_pull_request_def verification_passed_def list_ex_iff Let_def
      split: option.splits list.splits)

theorem service_acts_behind_gates_witness:
  "\<exists>rs. rs \<noteq> [] \<and> service_create_pull_request (Some (\<lambda>repo a b t d w. (Inr demo_target, w))) (inner_table demo_inputs)
     (null_port ''n'') ''i'' ''o'' ''oe'' ''f'' 0 ''x'' ''w'' demo_hub_journal = (Inr (refused rs), demo_hub_journal)"
proof -
  have "get_item ''x'' (st_executions (hb_repos (hub demo_hub_journal))) = None"
    by (simp add: get_item_def hub_def demo_hub_journal_def demo_hub_state_def demo_hub_def demo_repositories_def
        save_repository_def empty_repositories_def)
  with service_acts_behind_gates [of "Some (\<lambda>repo a b t d w. (Inr demo_target, w))" "''x''" demo_hub_journal "''w''"
      "inner_table demo_inputs" "null_port ''n''" "''i''" "''o''" "''oe''" "''f''" 0]
  show ?thesis by simp
qed

theorem service_refuses_without_results:
  assumes "st_verification_results (hb_repos (hub j)) = []"
  shows "\<exists>rs. service_create_pull_request pr run port i oid oeid fresh now x wid j = (Inr (refused rs), j)"
  using assms by (auto simp: service_create_pull_request_def verification_passed_def results_of_execution_def
      list_all_items_def dict_values_def Let_def split: option.splits)

text \<open>
  A merge does not bring the merged revision in. With the container's subscriptions, delivering
  a merged pull request appends the merge event and a revision event to the bus, but the revision
  event has no repository id and the handler of revisions ignores it: no change set, no current
  revision, no provider call. The one command that is queued names a newly drawn identifier as its
  repository, not the one of the merge.
\<close>

theorem merge_reingestion_lost:
  assumes "bus_handlers s = []" and "event_to_model (hi_validators p) e = Some (PullRequestMerged ref r)"
    and "ev_type e = PULL_REQUEST_MERGED"
  shows "\<exists>t e2. publish (standard_table p) e (standard_subscriptions s) = (Inr (), t) \<and>
    bus_published t = bus_published s @ [e, e2] \<and> ev_type e2 = REPOSITORY_REVISION_CHANGED \<and>
    hb_repos (event_ext t) = hb_repos (event_ext s) \<and> hb_world (event_ext t) = hb_world (event_ext s) \<and>
    (\<exists>c. pending (hb_queue (event_ext t)) = pending (hb_queue (event_ext s)) @ [c] \<and>
       command_type c = SYNC_REPOSITORY \<and>
       (\<forall>v. validators_ok v \<longrightarrow> command_to_model v c = Some (SyncRepositoryCommand (hi_repository_id p))))"
proof -
  let ?s0 = "standard_subscriptions s"
  let ?s1 = "?s0\<lparr>bus_published := bus_published ?s0 @ [e]\<rparr>"
  let ?e2 = "revision_changed_event (hi_event_id p) (hi_fresh p) (hi_now p) ref (Some (ev_correlation_id e))"
  let ?s2 = "?s1\<lparr>bus_published := bus_published ?s1 @ [?e2]\<rparr>"
  let ?c = "reingestion_command (hi_command_id p) (hi_fresh p) (hi_repository_id p) (hi_now p) ref"
  let ?t = "set_ext ((event_ext ?s2)\<lparr>hb_queue := enqueue ?c (hb_queue (event_ext ?s2))\<rparr>) ?s2"
  have "ev_type ?e2 = REPOSITORY_REVISION_CHANGED" by (simp add: revision_changed_event_def)
  then have "handlers_of (event_type_value (ev_type ?e2)) ?s1 = [''revision_handler'']"
    using standard_handlers_of(2) [OF assms(1)] by (simp add: handlers_of_def)
  from publish_single [OF this] have inner: "publish (inner_table p) ?e2 ?s1 = (Inr (), ?s2)"
    by (simp add: revision_handler_ignores_merge)
  have "handlers_of (event_type_value (ev_type e)) ?s0 = [''pull_request_merged'']"
    using standard_handlers_of(1) [OF assms(1)] assms(3) by simp
  from publish_single [OF this] inner have run: "publish (standard_table p) e ?s0 = (Inr (), ?t)"
    by (simp add: standard_table_def handle_merged_def assms(2) apply_merge_consequences_def Let_def)
  have "bus_published ?s0 = bus_published s" "event_ext ?s0 = event_ext s"
    by (simp_all add: standard_subscriptions_def subscribe_def)
  then have "bus_published ?t = bus_published s @ [e, ?e2]" "hb_repos (event_ext ?t) = hb_repos (event_ext s)"
    "hb_world (event_ext ?t) = hb_world (event_ext s)"
    "pending (hb_queue (event_ext ?t)) = pending (hb_queue (event_ext s)) @ [?c]"
    by (simp_all add: enqueue_def)
  moreover have "command_type ?c = SYNC_REPOSITORY"
    "\<And>v. validators_ok v \<Longrightarrow> command_to_model v ?c = Some (SyncRepositoryCommand (hi_repository_id p))"
    by (simp_all add: reingestion_command_def command_to_model_def field_simps_dump Let_def)
  ultimately show ?thesis using run \<open>ev_type ?e2 = REPOSITORY_REVISION_CHANGED\<close> by blast
qed

theorem merge_reingestion_lost_witness:
  "\<exists>t. publish (standard_table demo_inputs)
      (model_to_envelope ''e'' ''f'' 0 (PullRequestMerged demo_target (Some ''r'')) ''s'' None None None None)
      (standard_subscriptions demo_hub_state) = (Inr (), t) \<and>
    hb_repos (event_ext t) = hb_repos demo_hub \<and> length (pending (hb_queue (event_ext t))) = 1"
proof -
  let ?e = "model_to_envelope ''e'' ''f'' 0 (PullRequestMerged demo_target (Some ''r'')) ''s'' None None None None"
  have model: "event_to_model (hi_validators demo_inputs) ?e = Some (PullRequestMerged demo_target (Some ''r''))"
    by (rule event_to_model_dump [OF demo_inputs_ok(1)]) simp
  have type: "ev_type ?e = PULL_REQUEST_MERGED" by (simp add: model_to_envelope_def)
  from merge_reingestion_lost [OF demo_inputs_ok(2) model type] show ?thesis
    by (auto simp: demo_hub_state_def demo_hub_def empty_queue_def)
qed

text \<open>
  An assigned work item is run. With the container's subscriptions, delivering a typed
  assignment queues exactly one command; it validates as the command to run that work item, was
  triggered by an event, and carries the event's correlation id.
\<close>

theorem assignment_queues_run:
  assumes "bus_handlers s = []" and "event_validators_ok (hi_validators p)"
    and "e = model_to_envelope i fresh now (WorkItemAssigned w a y b t) src project corr cause key"
  shows "\<exists>u c. publish (standard_table p) e (standard_subscriptions s) = (Inr (), u) \<and>
    pending (hb_queue (event_ext u)) = pending (hb_queue (event_ext s)) @ [c] \<and>
    command_to_model (vx_base (hi_validators p)) c = Some (RunWorkItemCommand w) \<and>
    trigger_type c = TRIGGER_EVENT \<and> command_correlation_id c = ev_correlation_id e \<and>
    hb_repos (event_ext u) = hb_repos (event_ext s)"
proof -
  let ?s0 = "standard_subscriptions s"
  have model: "event_to_model (hi_validators p) e = Some (WorkItemAssigned w a y b t)"
    unfolding assms(3) by (rule event_to_model_dump [OF assms(2)]) simp
  have v: "validators_ok (vx_base (hi_validators p))" using assms(2) by (simp add: event_validators_ok_def)
  have "ev_type e = WORK_ITEM_ASSIGNED" by (simp add: assms(3) model_to_envelope_def)
  then have "handlers_of (event_type_value (ev_type e)) ?s0 = [''work_item_assigned'']"
    using standard_handlers_of(3) [OF assms(1)] by simp
  note run = publish_single [OF this, of "standard_table p"]
  let ?c = "make_command (hi_command_id p) (hi_fresh p) (hi_now p) RUN_WORK_ITEM (RunWorkItemCommand w)
     TRIGGER_EVENT None (Some (ev_correlation_id e))"
  have "event_ext ?s0 = event_ext s" by (simp add: standard_subscriptions_def subscribe_def)
  moreover have "command_to_model (vx_base (hi_validators p)) ?c = Some (RunWorkItemCommand w)"
    by (rule command_to_model_dump [OF v]) (simp_all add: make_command_def)
  ultimately show ?thesis
    by (simp add: run standard_table_def inner_table_def handle_assigned_def model enqueue_def)
      (simp add: make_command_def)
qed

theorem assignment_queues_run_witness:
  "\<exists>u. publish (standard_table demo_inputs)
      (model_to_envelope ''e'' ''f'' 0 (WorkItemAssigned ''w'' None None None ''0'') ''s'' None None None None)
      (standard_subscriptions demo_hub_state) = (Inr (), u) \<and>
    (\<exists>c. pending (hb_queue (event_ext u)) = [c] \<and>
       command_to_model (vx_base demo_validators) c = Some (RunWorkItemCommand ''w''))"
proof -
  from assignment_queues_run [OF demo_inputs_ok(2,1) refl, where w = "''w''"] show ?thesis
    by (fastforce simp: demo_hub_state_def demo_hub_def empty_queue_def demo_inputs_def)
qed

text \<open>
  Feedback on a work item makes its context stale: every capsule of the work item is gone, all
  others stay. Feedback that names no stored work item changes nothing.
\<close>

theorem feedback_invalidates_capsules:
  assumes "dict_ok (hb_capsules h)" and "resume_feedback f h = (r, h')"
  shows "(case hf_work_item_id f of
      Some w \<Rightarrow> (case get_item w (st_work_items (hb_repos h)) of
          Some _ \<Rightarrow> r = Resumed w \<and> hb_repos h' = hb_repos h \<and>
            (\<forall>i. dict_get (hb_capsules h') i =
               (if dict_get (hb_capsules h) i = Some w then None else dict_get (hb_capsules h) i))
        | None \<Rightarrow> r = Work_Item_Not_Found w \<and> h' = h)
    | None \<Rightarrow> r = No_Work_Item \<and> h' = h)"
  using assms(2) by (auto simp: resume_feedback_def delete_capsules_get delete_capsules_repos
      capsules_of_work_item_iff [OF assms(1)] split: option.splits)

definition demo_feedback :: human_feedback where
  "demo_feedback = \<lparr>hf_id = ''f'', hf_author = [], hf_provider = [], hf_comment_id = [],
     hf_work_item_id = Some ''w'', hf_message = [], hf_received_at = 0\<rparr>"

theorem feedback_invalidates_capsules_witness:
  "dict_get (hb_capsules (snd (resume_feedback demo_feedback demo_hub))) ''c1'' = None \<and>
   dict_get (hb_capsules (snd (resume_feedback demo_feedback demo_hub))) ''c2'' = Some ''v''"
proof -
  have ok: "dict_ok (hb_capsules demo_hub)" by (simp add: demo_hub_def dict_ok_def)
  have "get_item ''w'' (st_work_items (hb_repos demo_hub)) = Some (new_work_item ''w'' ''p'' ''t'')"
    by (simp add: demo_hub_def get_item_def)
  moreover have "hf_work_item_id demo_feedback = Some ''w''" by (simp add: demo_feedback_def)
  moreover have "dict_get (hb_capsules demo_hub) ''c1'' = Some ''w''" "dict_get (hb_capsules demo_hub) ''c2'' = Some ''v''"
    by (simp_all add: demo_hub_def)
  ultimately show ?thesis
    using feedback_invalidates_capsules [OF ok surjective_pairing, of demo_feedback] by simp
qed

end
