(* ===== verification/Scheduler.thy ===== *)
theory Scheduler
  imports Pull_Request
begin

text \<open>
  The scheduler's periodic jobs (\<open>scheduler/reconciliation.py\<close>): stale repositories, the pull of
  the work management tool, stuck executions, and the retry of failed projections. The jobs on
  documentation and on the freshness of the graph only call provider adapters and are left out.
\<close>

subsection \<open>The report and the loops\<close>

record report =
  rr_repositories_checked :: nat
  rr_repositories_stale :: nat
  rr_repositories_synced :: nat
  rr_work_management_checked :: nat
  rr_work_management_synced :: nat
  rr_documentation_checked :: nat
  rr_documentation_synced :: nat
  rr_projections_stale :: nat
  rr_stuck_executions :: nat
  rr_stuck_recovered :: nat
  rr_projections_retried :: nat
  rr_observations_created :: "string list"
  rr_details :: "string list"

definition empty_report :: report where
  "empty_report =
     \<lparr>rr_repositories_checked = 0, rr_repositories_stale = 0, rr_repositories_synced = 0,
      rr_work_management_checked = 0, rr_work_management_synced = 0, rr_documentation_checked = 0,
      rr_documentation_synced = 0, rr_projections_stale = 0, rr_stuck_executions = 0,
      rr_stuck_recovered = 0, rr_projections_retried = 0, rr_observations_created = [], rr_details = []\<rparr>"

type_synonym 'w pass_state = "'w hub_journal \<times> report"

text \<open>A \<open>for\<close> loop whose body may raise.\<close>

fun for_each :: "('a \<Rightarrow> 's \<Rightarrow> ('s, unit) outcome) \<Rightarrow> 'a list \<Rightarrow> 's \<Rightarrow> ('s, unit) outcome" where
  "for_each f [] s = (Inr (), s)"
| "for_each f (x # xs) s = (case f x s of (Inl e, s') \<Rightarrow> (Inl e, s') | (Inr _, s') \<Rightarrow> for_each f xs s')"

subsection \<open>Repositories and work management\<close>

text \<open>\<open>_enqueue_sync\<close> and the other enqueue: \<open>queue\<close> says whether the service was given one.\<close>

definition enqueue_scheduled :: "bool \<Rightarrow> uuid \<Rightarrow> uuid \<Rightarrow> datetime \<Rightarrow> command_type \<Rightarrow> command_model
    \<Rightarrow> 'w hub_journal \<Rightarrow> 'w hub_journal" where
  "enqueue_scheduled queue cid fresh now t m j =
     (if queue then set_hub ((hub j)\<lparr>hb_queue :=
         enqueue (make_command cid fresh now t m TRIGGER_SCHEDULED None None) (hb_queue (hub j))\<rparr>) j
      else j)"

definition reconcile_repository :: "bool \<Rightarrow> uuid \<Rightarrow> uuid \<Rightarrow> datetime \<Rightarrow> repository \<Rightarrow> 'w pass_state \<Rightarrow> 'w pass_state" where
  "reconcile_repository queue cid fresh now r s =
     (let (j, rep) = s; rep1 = rep\<lparr>rr_repositories_checked := Suc (rr_repositories_checked rep)\<rparr>;
          snaps = list_snapshots (rp_id r) (hb_repos (hub j)) in
      case rp_current_revision r of
        None \<Rightarrow> (j, rep1)
      | Some current \<Rightarrow>
          (if snaps = [] then (j, rep1)
           else if sn_revision (last snaps) = current then (j, rep1)
           else (enqueue_scheduled queue cid fresh now SYNC_REPOSITORY (SyncRepositoryCommand (rp_id r)) j,
                 rep1\<lparr>rr_repositories_stale := Suc (rr_repositories_stale rep1),
                      rr_repositories_synced := Suc (rr_repositories_synced rep1),
                      rr_details := rr_details rep1 @
                        [''repository '' @ rp_name r @ '' stale: '' @ current @ '' vs '' @ sn_revision (last snaps)]\<rparr>)))"

definition all_repositories :: "repository_set \<Rightarrow> repository list" where
  "all_repositories s = concat (map (\<lambda>p. repositories_of_project (pj_id p) s) (list_all_items (st_projects s)))"

definition reconcile_repositories :: "bool \<Rightarrow> (uuid \<Rightarrow> uuid) \<Rightarrow> uuid \<Rightarrow> datetime \<Rightarrow> 'w pass_state \<Rightarrow> 'w pass_state" where
  "reconcile_repositories queue cid fresh now s =
     fold (\<lambda>r. reconcile_repository queue (cid (rp_id r)) fresh now r) (all_repositories (hb_repos (hub (fst s)))) s"

definition is_openproject_project :: "project \<Rightarrow> bool" where
  "is_openproject_project p =
     list_ex (\<lambda>r. ref_provider r = ''openproject'' \<and> ref_external_type r = Some ''project'') (pj_external_refs p)"

text \<open>
  \<open>pull p\<close> is \<open>sync_project\<close> of the pull service, which the pass calls itself when there is no
  queue; it answers how many items it pulled and created.
\<close>

definition reconcile_project_work :: "bool \<Rightarrow> (project \<Rightarrow> 'w hub_journal \<Rightarrow> ('w hub_journal, int \<times> int) outcome)
    \<Rightarrow> uuid \<Rightarrow> uuid \<Rightarrow> datetime \<Rightarrow> project \<Rightarrow> 'w pass_state \<Rightarrow> ('w pass_state, unit) outcome" where
  "reconcile_project_work queue pull cid fresh now p s =
     (if \<not> is_openproject_project p then (Inr (), s)
      else (let (j, rep) = s; rep1 = rep\<lparr>rr_work_management_checked := Suc (rr_work_management_checked rep)\<rparr> in
        if queue
        then (Inr (), (enqueue_scheduled True cid fresh now SYNC_WORK_MANAGEMENT (SyncWorkManagementCommand (pj_id p)) j,
                rep1\<lparr>rr_work_management_synced := Suc (rr_work_management_synced rep1),
                     rr_details := rr_details rep1 @ [''work management sync enqueued for project '' @ pj_name p]\<rparr>))
        else (case pull p j of
                (Inl e, j') \<Rightarrow> (Inl e, (j', rep1))
              | (Inr (pulled, created), j') \<Rightarrow>
                  (Inr (), (j', rep1\<lparr>rr_work_management_synced := Suc (rr_work_management_synced rep1),
                     rr_details := rr_details rep1 @ [''work management synced for project '' @ pj_name p @ '': '' @
                       str_int pulled @ '' pulled, '' @ str_int created @ '' created'']\<rparr>)))))"

text \<open>\<open>enabled\<close>: a provider, its setting and the pull service are all there.\<close>

definition reconcile_work_management :: "bool \<Rightarrow> bool \<Rightarrow> (project \<Rightarrow> 'w hub_journal \<Rightarrow> ('w hub_journal, int \<times> int) outcome)
    \<Rightarrow> (uuid \<Rightarrow> uuid) \<Rightarrow> uuid \<Rightarrow> datetime \<Rightarrow> 'w pass_state \<Rightarrow> ('w pass_state, unit) outcome" where
  "reconcile_work_management enabled queue pull cid fresh now s =
     (if \<not> enabled then (Inr (), s)
      else for_each (\<lambda>p. reconcile_project_work queue pull (cid (pj_id p)) fresh now p)
             (list_all_items (st_projects (hb_repos (hub (fst s))))) s)"

subsection \<open>Stuck executions\<close>

definition stuck :: "int \<Rightarrow> datetime \<Rightarrow> execution \<Rightarrow> bool" where
  "stuck threshold now e \<longleftrightarrow>
     (ex_status e = Ex_Started \<or> ex_status e = Ex_Running) \<and> ex_started_at e + threshold \<le> now"

definition blocked_execution :: "execution \<Rightarrow> execution" where
  "blocked_execution e = e\<lparr>ex_status := Ex_Blocked\<rparr>"

definition stuck_key :: "execution \<Rightarrow> string" where
  "stuck_key e = ''stuck:'' @ ex_id e"

definition stuck_entry :: "uuid \<Rightarrow> uuid \<Rightarrow> execution \<Rightarrow> observation_request" where
  "stuck_entry p w e =
     simple_request p Human_Action_Required ''Execution stuck''
       (''Execution '' @ ex_id e @ '' exceeded the stuck threshold.'') (Some w) (Some (ex_id e)) (Some (stuck_key e))"

text \<open>
  The identifiers drawn for the observation of an execution: \<open>oid\<close> of the observation, \<open>eid\<close> of
  its event, \<open>fresh\<close> of the correlation.
\<close>

definition check_execution :: "('w hub) bus_option \<Rightarrow> (uuid \<Rightarrow> uuid) \<Rightarrow> uuid \<Rightarrow> uuid \<Rightarrow> int \<Rightarrow> datetime \<Rightarrow> uuid
    \<Rightarrow> execution \<Rightarrow> 'w pass_state \<Rightarrow> ('w pass_state, unit) outcome" where
  "check_execution bus oid eid fresh threshold now w e s =
     (if \<not> stuck threshold now e then (Inr (), s)
      else (let (j, rep) = s;
                j1 = set_hub ((hub j)\<lparr>hb_repos := save_execution (blocked_execution e) (hb_repos (hub j))\<rparr>) j;
                rep1 = rep\<lparr>rr_stuck_executions := Suc (rr_stuck_executions rep),
                           rr_stuck_recovered := Suc (rr_stuck_recovered rep),
                           rr_details := rr_details rep @ [''execution '' @ ex_id e @ '' stuck; marked blocked'']\<rparr> in
        case get_item w (st_work_items (hb_repos (hub j1))) of
          None \<Rightarrow> (Inr (), (j1, rep1))
        | Some item \<Rightarrow>
            (case create_entry bus (oid (ex_id e)) eid fresh now (stuck_entry (wi_project_id item) w e) None j1 of
               (Inl x, j2) \<Rightarrow> (Inl x, (j2, rep1))
             | (Inr _, j2) \<Rightarrow>
                 (Inr (), (j2, rep1\<lparr>rr_observations_created := rr_observations_created rep1 @ [ex_id e]\<rparr>)))))"

definition check_work_item :: "('w hub) bus_option \<Rightarrow> (uuid \<Rightarrow> uuid) \<Rightarrow> uuid \<Rightarrow> uuid \<Rightarrow> int \<Rightarrow> datetime \<Rightarrow> uuid
    \<Rightarrow> 'w pass_state \<Rightarrow> ('w pass_state, unit) outcome" where
  "check_work_item bus oid eid fresh threshold now w s =
     for_each (check_execution bus oid eid fresh threshold now w)
       (executions_of_work_item w (hb_repos (hub (fst s)))) s"

definition work_item_ids :: "repository_set \<Rightarrow> uuid list" where
  "work_item_ids s =
     concat (map (\<lambda>p. map wi_id (work_items_of_project (pj_id p) s)) (list_all_items (st_projects s)))"

definition detect_stuck_executions :: "('w hub) bus_option \<Rightarrow> (uuid \<Rightarrow> uuid) \<Rightarrow> uuid \<Rightarrow> uuid \<Rightarrow> int \<Rightarrow> datetime
    \<Rightarrow> 'w pass_state \<Rightarrow> ('w pass_state, unit) outcome" where
  "detect_stuck_executions bus oid eid fresh threshold now s =
     for_each (check_work_item bus oid eid fresh threshold now) (work_item_ids (hb_repos (hub (fst s)))) s"

subsection \<open>Failed projections\<close>

definition retry_failed_projections :: "'w activity_port \<Rightarrow> 'w pass_state \<Rightarrow> ('w pass_state, unit) outcome" where
  "retry_failed_projections port s =
     (let (j, rep) = s in
      case retry_failed port (\<lambda>i. get_observation i j) 50 (hb_projections (hub j), hb_world (hub j)) of
        (Inl e, (ps, w)) \<Rightarrow> (Inl e, (set_hub ((hub j)\<lparr>hb_projections := ps, hb_world := w\<rparr>) j, rep))
      | (Inr rs, (ps, w)) \<Rightarrow>
          (Inr (), (set_hub ((hub j)\<lparr>hb_projections := ps, hb_world := w\<rparr>) j,
             rep\<lparr>rr_projections_retried := rr_projections_retried rep + length rs,
                 rr_details := rr_details rep @
                   map (\<lambda>r. ''retried observation '' @ ha_observation_id r @ '' -> '' @ ha_provider r) rs\<rparr>)))"

subsection \<open>A pass over stuck executions\<close>

abbreviation executions_in :: "'w hub_journal \<Rightarrow> execution collection" where
  "executions_in j \<equiv> st_executions (hb_repos (hub j))"

definition no_observation_handlers :: "'w hub_journal \<Rightarrow> bool" where
  "no_observation_handlers j \<longleftrightarrow> handlers_of (event_type_value OBSERVATION_CREATED) (jr_bus j) = []"

text \<open>One execution along a pass: stuck before and blocked after, with its observation.\<close>

definition settled_execution :: "int \<Rightarrow> datetime \<Rightarrow> 'w hub_journal \<Rightarrow> 'w hub_journal \<Rightarrow> uuid \<Rightarrow> bool" where
  "settled_execution threshold now j j' i \<longleftrightarrow>
     (\<exists>e. get_item i (executions_in j) = Some e \<and> stuck threshold now e \<and>
        get_item i (executions_in j') = Some (blocked_execution e) \<and>
        find_by_dedup_key (stuck_key e) j' \<noteq> None)"

text \<open>What a pass does to the state: it blocks stuck executions and adds their observations.\<close>

definition progress :: "int \<Rightarrow> datetime \<Rightarrow> 'w hub_journal \<Rightarrow> 'w hub_journal \<Rightarrow> bool" where
  "progress threshold now j j' \<longleftrightarrow>
     (\<forall>i. get_item i (executions_in j') = get_item i (executions_in j) \<or> settled_execution threshold now j j' i) \<and>
     (\<forall>k. find_by_dedup_key k j \<noteq> None \<longrightarrow> find_by_dedup_key k j' \<noteq> None) \<and>
     st_work_items (hb_repos (hub j')) = st_work_items (hb_repos (hub j)) \<and>
     st_projects (hb_repos (hub j')) = st_projects (hb_repos (hub j))"

lemma blocked_not_stuck [simp]: "\<not> stuck threshold now (blocked_execution e)"
  by (simp add: stuck_def blocked_execution_def)

lemma progress_refl: "progress threshold now j j"
  by (simp add: progress_def)

lemma progress_trans:
  assumes jk: "progress threshold now j k" and kl: "progress threshold now k l"
  shows "progress threshold now j l"
proof -
  have keys: "find_by_dedup_key x k \<noteq> None \<Longrightarrow> find_by_dedup_key x l \<noteq> None" for x
    using kl by (simp add: progress_def)
  have "get_item i (executions_in l) = get_item i (executions_in j) \<or> settled_execution threshold now j l i" for i
  proof (cases "settled_execution threshold now j k i")
    case True
    then obtain e where e: "get_item i (executions_in j) = Some e" "stuck threshold now e"
      "get_item i (executions_in k) = Some (blocked_execution e)" "find_by_dedup_key (stuck_key e) k \<noteq> None"
      by (auto simp: settled_execution_def)
    from kl have "get_item i (executions_in l) = get_item i (executions_in k) \<or> settled_execution threshold now k l i"
      unfolding progress_def by blast
    with e(3) have "get_item i (executions_in l) = Some (blocked_execution e)"
      by (auto simp: settled_execution_def)
    with e keys show ?thesis by (auto simp: settled_execution_def)
  next
    case False
    with jk have same: "get_item i (executions_in k) = get_item i (executions_in j)" unfolding progress_def by blast
    from kl have "get_item i (executions_in l) = get_item i (executions_in k) \<or> settled_execution threshold now k l i"
      unfolding progress_def by blast
    with same show ?thesis by (simp add: settled_execution_def)
  qed
  with jk kl show ?thesis by (simp add: progress_def)
qed

text \<open>
  What a pass needs of the state: executions stored by id, every work item there, no handler of
  new observations, and identifiers drawn for the observations that are not in use.
\<close>

definition pass_ready :: "(uuid \<Rightarrow> uuid) \<Rightarrow> int \<Rightarrow> datetime \<Rightarrow> 'w hub_journal \<Rightarrow> bool" where
  "pass_ready oid threshold now j \<longleftrightarrow>
     stored_by_id ex_id (executions_in j) \<and> no_observation_handlers j \<and> inj oid \<and>
     (\<forall>x e. get_item x (executions_in j) = Some e \<longrightarrow> stuck threshold now e \<longrightarrow> get_observation (oid x) j = None)"

lemma emit_quiet:
  assumes "no_observation_handlers j" and "ev_type e = OBSERVATION_CREATED"
  shows "emit (Some run) e j = (Inr (), j\<lparr>jr_bus := (jr_bus j)\<lparr>bus_published := bus_published (jr_bus j) @ [e]\<rparr>\<rparr>)"
  using assms by (simp add: emit_def publish_def no_observation_handlers_def handlers_of_def Let_def)

text \<open>Creating the entry of a stuck execution, with no handler to run.\<close>

lemma stuck_entry_created:
  assumes "no_observation_handlers j" and "get_observation (oid (ex_id e)) j = None"
    and "create_entry (Some run) (oid (ex_id e)) eid fresh now (stuck_entry p w e) None j = (r, j')"
  shows "\<exists>v. r = Inr v" and "hub j' = hub j" and "no_observation_handlers j'"
    and "find_by_dedup_key (stuck_key e) j' \<noteq> None"
    and "find_by_dedup_key k j \<noteq> None \<Longrightarrow> find_by_dedup_key k j' \<noteq> None"
    and "i \<noteq> oid (ex_id e) \<Longrightarrow> get_observation i j' = get_observation i j"
proof -
  let ?o = "draft (oid (ex_id e)) now (stuck_entry p w e)"
  have key: "oq_dedup_key (stuck_entry p w e) = Some (stuck_key e)" by (simp add: stuck_entry_def simple_request_def)
  have id: "ob_id ?o = oid (ex_id e)" by (simp add: draft_def)
  have "(\<exists>v. r = Inr v) \<and> hub j' = hub j \<and> no_observation_handlers j' \<and>
      find_by_dedup_key (stuck_key e) j' \<noteq> None \<and> (find_by_dedup_key k j \<noteq> None \<longrightarrow> find_by_dedup_key k j' \<noteq> None) \<and>
      (i \<noteq> oid (ex_id e) \<longrightarrow> get_observation i j' = get_observation i j)"
  proof (cases "find_by_dedup_key (stuck_key e) j")
    case (Some o1)
    with assms key show ?thesis by (auto simp: create_entry_def)
  next
    case None
    let ?j1 = "save_observation ?o j"
    have quiet: "no_observation_handlers ?j1"
      using assms(1) by (simp add: no_observation_handlers_def save_observation_def)
    have "ev_type (observation_event eid fresh now OBSERVATION_CREATED ?o None) = OBSERVATION_CREATED"
      by (simp add: observation_event_def)
    from assms(3) None key emit_quiet [OF quiet this]
    have r: "r = Inr ?o" and j': "j' = ?j1\<lparr>jr_bus := (jr_bus ?j1)\<lparr>bus_published := bus_published (jr_bus ?j1) @
        [observation_event eid fresh now OBSERVATION_CREATED ?o None]\<rparr>\<rparr>"
      by (simp_all add: create_entry_def save_and_emit_def)
    have store: "jr_store j' = jr_store ?j1" by (simp add: j')
    have vals: "dict_values (jr_store ?j1) = dict_values (jr_store j) @ [?o]"
      using assms(2) id by (simp add: save_observation_def get_observation_def store_simps)
    have "find_by_dedup_key (stuck_key e) j' \<noteq> None"
      using lookup_store(1) [OF store] vals
      by (auto simp: find_by_dedup_key_None journal_keys_def map_filter_def draft_def key)
    moreover have "find_by_dedup_key k j \<noteq> None \<Longrightarrow> find_by_dedup_key k j' \<noteq> None"
      using lookup_store(1) [OF store] vals by (auto simp: find_by_dedup_key_None journal_keys_def map_filter_def)
    moreover have "i \<noteq> oid (ex_id e) \<Longrightarrow> get_observation i j' = get_observation i j"
      using lookup_store(2) [OF store] id by (simp add: get_observation_def save_observation_def store_simps)
    moreover have "hub j' = hub j" "no_observation_handlers j'"
      using quiet by (simp_all add: j' hub_def save_observation_def no_observation_handlers_def handlers_of_def)
    ultimately show ?thesis using r by blast
  qed
  then show "\<exists>v. r = Inr v" "hub j' = hub j" "no_observation_handlers j'" "find_by_dedup_key (stuck_key e) j' \<noteq> None"
    "find_by_dedup_key k j \<noteq> None \<Longrightarrow> find_by_dedup_key k j' \<noteq> None"
    "i \<noteq> oid (ex_id e) \<Longrightarrow> get_observation i j' = get_observation i j" by blast+
qed

text \<open>One execution of a work item that exists.\<close>

lemma check_execution_progress:
  assumes ready: "pass_ready oid threshold now j" and item: "get_item w (st_work_items (hb_repos (hub j))) \<noteq> None"
    and e: "get_item (ex_id e) (executions_in j) = Some e"
    and run: "check_execution (Some run) oid eid fresh threshold now w e (j, rep) = (r, (j', rep'))"
  shows "r = Inr ()" and "progress threshold now j j'" and "pass_ready oid threshold now j'"
    and "\<not> stuck threshold now (the (get_item (ex_id e) (executions_in j')))"
    and "\<not> stuck threshold now e \<Longrightarrow> j' = j \<and> rep' = rep"
    and "i \<noteq> ex_id e \<Longrightarrow> get_item i (executions_in j') = get_item i (executions_in j)"
proof -
  have "r = Inr () \<and> progress threshold now j j' \<and> pass_ready oid threshold now j' \<and>
      \<not> stuck threshold now (the (get_item (ex_id e) (executions_in j'))) \<and>
      (\<not> stuck threshold now e \<longrightarrow> j' = j \<and> rep' = rep) \<and>
      (i \<noteq> ex_id e \<longrightarrow> get_item i (executions_in j') = get_item i (executions_in j))"
  proof (cases "stuck threshold now e")
    case False
    with run ready e show ?thesis by (simp add: check_execution_def progress_refl)
  next
    case True
    let ?j1 = "set_hub ((hub j)\<lparr>hb_repos := save_execution (blocked_execution e) (hb_repos (hub j))\<rparr>) j"
    from item obtain it where it: "get_item w (st_work_items (hb_repos (hub j))) = Some it" by blast
    obtain v j2 where cr: "create_entry (Some run) (oid (ex_id e)) eid fresh now
        (stuck_entry (wi_project_id it) w e) None ?j1 = (v, j2)" by fastforce
    have quiet: "no_observation_handlers ?j1"
      using ready by (simp add: pass_ready_def no_observation_handlers_def handlers_of_def set_hub_def set_ext_def)
    have unused: "get_observation (oid (ex_id e)) ?j1 = None"
      using ready e True by (simp add: pass_ready_def get_observation_def)
    note done1 = stuck_entry_created [where oid = oid, OF quiet unused cr]
    have items: "st_work_items (hb_repos (hub ?j1)) = st_work_items (hb_repos (hub j))"
      by (simp add: save_execution_def)
    from run True it items cr done1(1) have res: "r = Inr ()" "j' = j2"
      by (auto simp: check_execution_def Let_def)
    have ex: "get_item i (executions_in j2) =
        (if i = ex_id e then Some (blocked_execution e) else get_item i (executions_in j))" for i
      using done1(2) by (simp add: save_execution_def collection.fetch_put blocked_execution_def)
    have keys: "find_by_dedup_key k j \<noteq> None \<Longrightarrow> find_by_dedup_key k j2 \<noteq> None" for k
      using done1(5) [of k] by (simp add: find_by_dedup_key_def)
    have "settled_execution threshold now j j2 (ex_id e)"
      using e True ex done1(4) by (simp add: settled_execution_def)
    with ex keys done1(2) have "progress threshold now j j2"
      by (simp add: progress_def save_execution_def)
    moreover have "pass_ready oid threshold now j2"
    proof -
      have "dict_ok (executions_in j2)"
        using ready done1(2) by (simp add: pass_ready_def stored_by_id_def save_execution_def collection.ok_put)
      moreover have "ex_id a = i" if "get_item i (executions_in j2) = Some a" for i a
        using that ready by (auto simp: ex pass_ready_def stored_by_id_def blocked_execution_def split: if_splits)
      moreover have "get_observation (oid x) j2 = None"
        if "get_item x (executions_in j2) = Some a" "stuck threshold now a" for x a
      proof -
        from that have x: "x \<noteq> ex_id e" and a: "get_item x (executions_in j) = Some a"
          by (auto simp: ex split: if_splits)
        from x ready have "oid x \<noteq> oid (ex_id e)" by (auto simp: pass_ready_def dest: injD)
        with done1(6) have "get_observation (oid x) j2 = get_observation (oid x) j" by (simp add: get_observation_def)
        with ready a that(2) show ?thesis by (simp add: pass_ready_def)
      qed
      ultimately show ?thesis using ready done1(3) by (auto simp: pass_ready_def stored_by_id_def)
    qed
    ultimately show ?thesis using res ex True by simp
  qed
  then show "r = Inr ()" "progress threshold now j j'" "pass_ready oid threshold now j'"
    "\<not> stuck threshold now (the (get_item (ex_id e) (executions_in j')))"
    "\<not> stuck threshold now e \<Longrightarrow> j' = j \<and> rep' = rep"
    "i \<noteq> ex_id e \<Longrightarrow> get_item i (executions_in j') = get_item i (executions_in j)" by blast+
qed

lemma progress_keeps_settled:
  assumes "progress threshold now j j'" and "get_item i (executions_in j) = Some e" and "\<not> stuck threshold now e"
  shows "get_item i (executions_in j') = Some e"
proof -
  from assms(1) have "get_item i (executions_in j') = get_item i (executions_in j) \<or> settled_execution threshold now j j' i"
    unfolding progress_def by blast
  with assms(2,3) show ?thesis by (auto simp: settled_execution_def)
qed

lemma progress_some:
  assumes "progress threshold now j j'" and "get_item i (executions_in j) = Some e"
  shows "get_item i (executions_in j') = Some e \<or> get_item i (executions_in j') = Some (blocked_execution e)"
proof -
  from assms(1) have "get_item i (executions_in j') = get_item i (executions_in j) \<or> settled_execution threshold now j j' i"
    unfolding progress_def by blast
  with assms(2) show ?thesis by (auto simp: settled_execution_def)
qed

text \<open>The executions of one work item.\<close>

lemma check_executions_progress:
  assumes "pass_ready oid threshold now j" and "get_item w (st_work_items (hb_repos (hub j))) \<noteq> None"
    and "\<forall>e \<in> set es. get_item (ex_id e) (executions_in j) = Some e" and "distinct (map ex_id es)"
  shows "\<exists>j' rep'. for_each (check_execution (Some run) oid eid fresh threshold now w) es (j, rep) = (Inr (), (j', rep')) \<and>
    progress threshold now j j' \<and> pass_ready oid threshold now j' \<and>
    (\<forall>e \<in> set es. \<not> stuck threshold now (the (get_item (ex_id e) (executions_in j')))) \<and>
    ((\<forall>e \<in> set es. \<not> stuck threshold now e) \<longrightarrow> j' = j \<and> rep' = rep)"
  using assms
proof (induction es arbitrary: j rep)
  case Nil
  then show ?case by (simp add: progress_refl)
next
  case (Cons e es)
  obtain r j1 rep1 where run: "check_execution (Some run) oid eid fresh threshold now w e (j, rep) = (r, (j1, rep1))"
    by (metis surj_pair)
  have e: "get_item (ex_id e) (executions_in j) = Some e" using Cons.prems(3) by simp
  note step = check_execution_progress [OF Cons.prems(1,2) e run]
  have items: "get_item w (st_work_items (hb_repos (hub j1))) \<noteq> None"
    using step(2) Cons.prems(2) by (simp add: progress_def)
  have rest: "\<forall>x \<in> set es. get_item (ex_id x) (executions_in j1) = Some x"
  proof
    fix x assume x: "x \<in> set es"
    with Cons.prems(4) have "ex_id x \<noteq> ex_id e" by (auto simp: image_iff)
    from step(6) [OF this] Cons.prems(3) x show "get_item (ex_id x) (executions_in j1) = Some x" by simp
  qed
  have dist: "distinct (map ex_id es)" using Cons.prems(4) by simp
  from Cons.IH [OF step(3) items rest dist, of rep1] obtain j' rep' where
    loop: "for_each (check_execution (Some run) oid eid fresh threshold now w) es (j1, rep1) = (Inr (), (j', rep'))"
    and prog: "progress threshold now j1 j'" and ok: "pass_ready oid threshold now j'"
    and settled: "\<forall>e \<in> set es. \<not> stuck threshold now (the (get_item (ex_id e) (executions_in j')))"
    and same: "(\<forall>e \<in> set es. \<not> stuck threshold now e) \<longrightarrow> j' = j1 \<and> rep' = rep1" by blast
  obtain e1 where e1: "get_item (ex_id e) (executions_in j1) = Some e1"
    using progress_some [OF step(2) e] by blast
  with step(4) progress_keeps_settled [OF prog e1]
  have "\<not> stuck threshold now (the (get_item (ex_id e) (executions_in j')))" by simp
  with run step(1) loop settled same step(5) progress_trans [OF step(2) prog] ok show ?case by auto
qed

lemma progress_back:
  assumes "progress threshold now j j'" and "get_item i (executions_in j') = Some e'"
  shows "\<exists>e. get_item i (executions_in j) = Some e \<and> (e' = e \<or> stuck threshold now e \<and> e' = blocked_execution e)"
proof -
  from assms(1) have "get_item i (executions_in j') = get_item i (executions_in j) \<or> settled_execution threshold now j j' i"
    unfolding progress_def by blast
  then show ?thesis
  proof
    assume "get_item i (executions_in j') = get_item i (executions_in j)"
    with assms(2) have "get_item i (executions_in j) = Some e'" by simp
    then show ?thesis by blast
  next
    assume "settled_execution threshold now j j' i"
    with assms(2) show ?thesis by (auto simp: settled_execution_def)
  qed
qed

lemma executions_of_work_item_stored:
  assumes "stored_by_id ex_id (st_executions s)"
  shows "distinct (map ex_id (executions_of_work_item w s))"
    and "e \<in> set (executions_of_work_item w s) \<longleftrightarrow> get_item (ex_id e) (st_executions s) = Some e \<and> ex_work_item_id e = w"
proof -
  let ?c = "st_executions s"
  have ids: "\<forall>(i, e) \<in> set ?c. ex_id e = i" and ok: "distinct (map fst ?c)"
    using assms by (auto simp: stored_by_id_def get_item_def dict_ok_def map_of_is_SomeI)
  from ids have "map ex_id (map snd ?c) = map fst ?c" by auto
  with ok have "distinct (map ex_id (map snd ?c))" by (simp only:)
  then show "distinct (map ex_id (executions_of_work_item w s))"
    by (simp add: executions_of_work_item_def list_all_items_def dict_values_def distinct_map_filter)
  have "dict_ok ?c" using assms by (simp add: stored_by_id_def)
  with assms show "e \<in> set (executions_of_work_item w s) \<longleftrightarrow> get_item (ex_id e) ?c = Some e \<and> ex_work_item_id e = w"
    by (auto simp: executions_of_work_item_def collection.items_iff stored_by_id_def)
qed

text \<open>All listed work items.\<close>

lemma check_work_items_progress:
  assumes "pass_ready oid threshold now j" and "\<forall>w \<in> set ws. get_item w (st_work_items (hb_repos (hub j))) \<noteq> None"
  shows "\<exists>j' rep'. for_each (check_work_item (Some run) oid eid fresh threshold now) ws (j, rep) = (Inr (), (j', rep')) \<and>
    progress threshold now j j' \<and> pass_ready oid threshold now j' \<and>
    (\<forall>i e. get_item i (executions_in j') = Some e \<longrightarrow> ex_work_item_id e \<in> set ws \<longrightarrow> \<not> stuck threshold now e) \<and>
    ((\<forall>i e. get_item i (executions_in j) = Some e \<longrightarrow> ex_work_item_id e \<in> set ws \<longrightarrow> \<not> stuck threshold now e) \<longrightarrow>
       j' = j \<and> rep' = rep)"
  using assms
proof (induction ws arbitrary: j rep)
  case Nil
  then show ?case by (simp add: progress_refl)
next
  case (Cons w ws)
  let ?es = "executions_of_work_item w (hb_repos (hub j))"
  have stored: "stored_by_id ex_id (executions_in j)" using Cons.prems(1) by (simp add: pass_ready_def)
  note es = executions_of_work_item_stored [OF stored]
  have item: "get_item w (st_work_items (hb_repos (hub j))) \<noteq> None" using Cons.prems(2) by simp
  have all: "\<forall>e \<in> set ?es. get_item (ex_id e) (executions_in j) = Some e" using es(2) by blast
  from check_executions_progress [OF Cons.prems(1) item all es(1), of run eid fresh rep] obtain j1 rep1 where
    run: "check_work_item (Some run) oid eid fresh threshold now w (j, rep) = (Inr (), (j1, rep1))"
    and prog: "progress threshold now j j1" and ready: "pass_ready oid threshold now j1"
    and settled: "\<forall>e \<in> set ?es. \<not> stuck threshold now (the (get_item (ex_id e) (executions_in j1)))"
    and same: "(\<forall>e \<in> set ?es. \<not> stuck threshold now e) \<longrightarrow> j1 = j \<and> rep1 = rep"
    unfolding check_work_item_def fst_conv by blast
  have items: "\<forall>w \<in> set ws. get_item w (st_work_items (hb_repos (hub j1))) \<noteq> None"
    using Cons.prems(2) prog by (simp add: progress_def)
  from Cons.IH [OF ready items, of rep1] obtain j' rep' where
    loop: "for_each (check_work_item (Some run) oid eid fresh threshold now) ws (j1, rep1) = (Inr (), (j', rep'))"
    and prog2: "progress threshold now j1 j'" and ready2: "pass_ready oid threshold now j'"
    and rest: "\<forall>i e. get_item i (executions_in j') = Some e \<longrightarrow> ex_work_item_id e \<in> set ws \<longrightarrow> \<not> stuck threshold now e"
    and same2: "(\<forall>i e. get_item i (executions_in j1) = Some e \<longrightarrow> ex_work_item_id e \<in> set ws \<longrightarrow> \<not> stuck threshold now e) \<longrightarrow>
       j' = j1 \<and> rep' = rep1" by blast
  have "\<not> stuck threshold now e'" if e': "get_item i (executions_in j') = Some e'" and w: "ex_work_item_id e' = w" for i e'
  proof
    assume st: "stuck threshold now e'"
    from progress_back [OF progress_trans [OF prog prog2] e'] st have e: "get_item i (executions_in j) = Some e'" by auto
    from progress_back [OF prog2 e'] st have e1: "get_item i (executions_in j1) = Some e'" by auto
    from e stored have "ex_id e' = i" by (simp add: stored_by_id_def)
    with e w have "e' \<in> set ?es" by (simp add: es(2))
    with settled e1 st \<open>ex_id e' = i\<close> show False by auto
  qed
  with rest have none': "\<forall>i e. get_item i (executions_in j') = Some e \<longrightarrow> ex_work_item_id e \<in> set (w # ws) \<longrightarrow> \<not> stuck threshold now e"
    by auto
  have unchanged: "j' = j \<and> rep' = rep"
    if none: "\<forall>i e. get_item i (executions_in j) = Some e \<longrightarrow> ex_work_item_id e \<in> set (w # ws) \<longrightarrow> \<not> stuck threshold now e"
  proof -
    from none es(2) same have "j1 = j \<and> rep1 = rep" by auto
    with none same2 show ?thesis by auto
  qed
  have "for_each (check_work_item (Some run) oid eid fresh threshold now) (w # ws) (j, rep) = (Inr (), (j', rep'))"
    using run loop by simp
  with none' unchanged progress_trans [OF prog prog2] ready2 show ?case by blast
qed

subsection \<open>Properties\<close>

text \<open>
  C17: the detection of stuck executions settles them. With no handler of new observations and
  unused identifiers, a pass returns; afterwards no execution of a listed work item is stuck; every
  execution either is as before or was stuck, is now blocked and has its observation; and running
  the pass again changes nothing and reports nothing.
\<close>

theorem stuck_executions_settle:
  assumes "pass_ready oid threshold now j" and "stored_by_id wi_id (st_work_items (hb_repos (hub j)))"
  shows "\<exists>j' rep'. detect_stuck_executions (Some run) oid eid fresh threshold now (j, rep) = (Inr (), (j', rep')) \<and>
    (\<forall>i e. get_item i (executions_in j') = Some e \<longrightarrow> ex_work_item_id e \<in> set (work_item_ids (hb_repos (hub j))) \<longrightarrow>
       \<not> stuck threshold now e) \<and>
    (\<forall>i. get_item i (executions_in j') = get_item i (executions_in j) \<or> settled_execution threshold now j j' i) \<and>
    detect_stuck_executions (Some run) oid eid fresh threshold now (j', empty_report) = (Inr (), (j', empty_report))"
proof -
  let ?ws = "work_item_ids (hb_repos (hub j))"
  have items: "\<forall>w \<in> set ?ws. get_item w (st_work_items (hb_repos (hub j))) \<noteq> None"
  proof
    fix w assume "w \<in> set ?ws"
    then obtain a where a: "w = wi_id a" "a \<in> set (list_all_items (st_work_items (hb_repos (hub j))))"
      by (auto simp: work_item_ids_def work_items_of_project_def)
    from assms(2) have "dict_ok (st_work_items (hb_repos (hub j)))" by (simp add: stored_by_id_def)
    from a(2) collection.items_iff [OF this] obtain i where "get_item i (st_work_items (hb_repos (hub j))) = Some a" by blast
    with assms(2) a(1) show "get_item w (st_work_items (hb_repos (hub j))) \<noteq> None" by (auto simp: stored_by_id_def)
  qed
  from check_work_items_progress [OF assms(1) items, of run eid fresh rep] obtain j' rep' where
    loop: "for_each (check_work_item (Some run) oid eid fresh threshold now) ?ws (j, rep) = (Inr (), (j', rep'))"
    and prog: "progress threshold now j j'" and ready: "pass_ready oid threshold now j'"
    and none: "\<forall>i e. get_item i (executions_in j') = Some e \<longrightarrow> ex_work_item_id e \<in> set ?ws \<longrightarrow> \<not> stuck threshold now e"
    by blast
  have ids: "work_item_ids (hb_repos (hub j')) = ?ws"
  proof -
    from prog have "st_work_items (hb_repos (hub j')) = st_work_items (hb_repos (hub j))"
      "st_projects (hb_repos (hub j')) = st_projects (hb_repos (hub j))" unfolding progress_def by blast+
    then show ?thesis by (simp only: work_item_ids_def work_items_of_project_def)
  qed
  have items': "\<forall>w \<in> set ?ws. get_item w (st_work_items (hb_repos (hub j'))) \<noteq> None"
  proof -
    from prog have "st_work_items (hb_repos (hub j')) = st_work_items (hb_repos (hub j))" unfolding progress_def by blast
    with items show ?thesis by simp
  qed
  from check_work_items_progress [OF ready items', of run eid fresh empty_report] none
  have "for_each (check_work_item (Some run) oid eid fresh threshold now) ?ws (j', empty_report) = (Inr (), (j', empty_report))"
    by blast
  with ids have again: "detect_stuck_executions (Some run) oid eid fresh threshold now (j', empty_report) =
      (Inr (), (j', empty_report))" by (simp add: detect_stuck_executions_def)
  have once: "detect_stuck_executions (Some run) oid eid fresh threshold now (j, rep) = (Inr (), (j', rep'))"
    using loop by (simp add: detect_stuck_executions_def)
  from prog have "\<forall>i. get_item i (executions_in j') = get_item i (executions_in j) \<or> settled_execution threshold now j j' i"
    unfolding progress_def by blast
  with once again none show ?thesis by blast
qed

definition demo_execution :: "uuid \<Rightarrow> execution_status \<Rightarrow> execution" where
  "demo_execution i st = \<lparr>ex_id = i, ex_workflow_id = ''wf'', ex_work_item_id = ''w'', ex_executor_id = ''x'',
     ex_context_capsule_id = None, ex_status = st, ex_started_at = 0, ex_completed_at = None, ex_parent = None,
     ex_correlation_id = ''c'', ex_base_branch = None, ex_working_branch = None, ex_worktree_path = None\<rparr>"

definition demo_pass :: "unit hub_journal" where
  "demo_pass = set_hub (demo_hub\<lparr>hb_repos := (hb_repos demo_hub)\<lparr>
     st_executions := [(''x1'', demo_execution ''x1'' Ex_Running), (''x2'', demo_execution ''x2'' Ex_Completed)]\<rparr>\<rparr>)
     demo_hub_journal"

theorem stuck_executions_settle_witness:
  "\<exists>j' rep'. detect_stuck_executions (Some (inner_table demo_inputs)) (\<lambda>x. ''o'' @ x) ''e'' ''f'' 10 20
      (demo_pass, empty_report) = (Inr (), (j', rep'))"
proof -
  have "inj (\<lambda>x::string. ''o'' @ x)" by (simp add: inj_def)
  then have ready: "pass_ready (\<lambda>x. ''o'' @ x) 10 20 demo_pass"
    by (simp add: pass_ready_def demo_pass_def stored_by_id_def dict_ok_def get_item_def demo_execution_def
        no_observation_handlers_def handlers_of_def demo_hub_journal_def demo_hub_state_def set_hub_def set_ext_def
        get_observation_def hub_def)
  have "stored_by_id wi_id (st_work_items (hb_repos (hub demo_pass)))"
    by (simp add: stored_by_id_def demo_pass_def demo_hub_def dict_ok_def get_item_def new_work_item_def)
  from stuck_executions_settle [OF ready this, of "inner_table demo_inputs" "''e''" "''f''" empty_report]
  show ?thesis by blast
qed

end
