(* ===== verification/Knowledge_Graph.thy ===== *)
theory Knowledge_Graph
  imports Json
begin

text \<open>
  The knowledge graph: labels and relation types (\<open>domain/graph_schema.py\<close>), entities and
  relations (\<open>ports/knowledge_graph.py\<close>), the in-memory graph with its breadth-first
  searches (\<open>adapters/in_memory/knowledge_graph.py\<close>), the reconciliation of claims
  (\<open>domain/graph_reconciliation.py\<close>) and the integrity checks
  (\<open>application/graph_integrity.py\<close>).

  A search collects ids in a Python set; the order in which it lists the entities is the
  set's own and is not modelled (the model lists them in the order they were reached).
\<close>

subsection \<open>Labels, relation types, entities and relations\<close>

datatype graph_label = L_Project | L_Requirement | L_Work_Item | L_Decision | L_System
  | L_Component | L_Interface | L_Resource | L_Repository | L_File | L_Symbol | L_Test
  | L_Document | L_Document_Node | L_Execution | L_Artifact | L_Evidence | L_Actor | L_Comment
  | L_Attachment

fun graph_label_value :: "graph_label \<Rightarrow> string" where
  "graph_label_value L_Project = ''Project''"
| "graph_label_value L_Requirement = ''Requirement''"
| "graph_label_value L_Work_Item = ''WorkItem''"
| "graph_label_value L_Decision = ''Decision''"
| "graph_label_value L_System = ''System''"
| "graph_label_value L_Component = ''Component''"
| "graph_label_value L_Interface = ''Interface''"
| "graph_label_value L_Resource = ''Resource''"
| "graph_label_value L_Repository = ''Repository''"
| "graph_label_value L_File = ''File''"
| "graph_label_value L_Symbol = ''Symbol''"
| "graph_label_value L_Test = ''Test''"
| "graph_label_value L_Document = ''Document''"
| "graph_label_value L_Document_Node = ''DocumentNode''"
| "graph_label_value L_Execution = ''Execution''"
| "graph_label_value L_Artifact = ''Artifact''"
| "graph_label_value L_Evidence = ''Evidence''"
| "graph_label_value L_Actor = ''Actor''"
| "graph_label_value L_Comment = ''Comment''"
| "graph_label_value L_Attachment = ''Attachment''"

datatype relation_type = R_Part_Of | R_Depends_On | R_Implements | R_Modifies | R_Constrains
  | R_Calls | R_Imports | R_Reads | R_Writes | R_Provides | R_Consumes | R_Tests | R_Validates
  | R_Verified_By | R_References | R_Derived_From | R_Supersedes | R_Assigned_To | R_Produced_By
  | R_Service_Calls | R_Query_Accesses | R_Publishes_To | R_Consumes_From | R_Parent_Of | R_Blocks
  | R_Relates_To | R_Precedes | R_Follows | R_Has_Comment | R_Comment_On | R_Authored
  | R_Has_Attachment

fun relation_type_value :: "relation_type \<Rightarrow> string" where
  "relation_type_value R_Part_Of = ''PART_OF''"
| "relation_type_value R_Depends_On = ''DEPENDS_ON''"
| "relation_type_value R_Implements = ''IMPLEMENTS''"
| "relation_type_value R_Modifies = ''MODIFIES''"
| "relation_type_value R_Constrains = ''CONSTRAINS''"
| "relation_type_value R_Calls = ''CALLS''"
| "relation_type_value R_Imports = ''IMPORTS''"
| "relation_type_value R_Reads = ''READS''"
| "relation_type_value R_Writes = ''WRITES''"
| "relation_type_value R_Provides = ''PROVIDES''"
| "relation_type_value R_Consumes = ''CONSUMES''"
| "relation_type_value R_Tests = ''TESTS''"
| "relation_type_value R_Validates = ''VALIDATES''"
| "relation_type_value R_Verified_By = ''VERIFIED_BY''"
| "relation_type_value R_References = ''REFERENCES''"
| "relation_type_value R_Derived_From = ''DERIVED_FROM''"
| "relation_type_value R_Supersedes = ''SUPERSEDES''"
| "relation_type_value R_Assigned_To = ''ASSIGNED_TO''"
| "relation_type_value R_Produced_By = ''PRODUCED_BY''"
| "relation_type_value R_Service_Calls = ''SERVICE_CALLS''"
| "relation_type_value R_Query_Accesses = ''QUERY_ACCESSES''"
| "relation_type_value R_Publishes_To = ''PUBLISHES_TO''"
| "relation_type_value R_Consumes_From = ''CONSUMES_FROM''"
| "relation_type_value R_Parent_Of = ''PARENT_OF''"
| "relation_type_value R_Blocks = ''BLOCKS''"
| "relation_type_value R_Relates_To = ''RELATES_TO''"
| "relation_type_value R_Precedes = ''PRECEDES''"
| "relation_type_value R_Follows = ''FOLLOWS''"
| "relation_type_value R_Has_Comment = ''HAS_COMMENT''"
| "relation_type_value R_Comment_On = ''COMMENT_ON''"
| "relation_type_value R_Authored = ''AUTHORED''"
| "relation_type_value R_Has_Attachment = ''HAS_ATTACHMENT''"

datatype knowledge_origin = Declared | Discovered | Observed | Inferred

fun knowledge_origin_value :: "knowledge_origin \<Rightarrow> string" where
  "knowledge_origin_value Declared = ''declared''"
| "knowledge_origin_value Discovered = ''discovered''"
| "knowledge_origin_value Observed = ''observed''"
| "knowledge_origin_value Inferred = ''inferred''"

datatype discovery_method = Human_Declared | Catalog_Import | Document_Parse | Ast_Static_Analysis
  | Manifest_Analysis | Llm_Inference | Runtime_Trace | Test_Observation | Git_History

datatype knowledge_confidence = Very_Low | Low_Confidence | Medium_Confidence | High_Confidence
  | Very_High

text \<open>\<open>KnowledgeConfidence.score\<close>, in hundredths.\<close>

fun confidence_score :: "knowledge_confidence \<Rightarrow> int" where
  "confidence_score Very_Low = 10"
| "confidence_score Low_Confidence = 30"
| "confidence_score Medium_Confidence = 50"
| "confidence_score High_Confidence = 80"
| "confidence_score Very_High = 95"

record revision_scope =
  rv_repository_id :: "uuid option"
  rv_branch :: "string option"
  rv_commit_sha :: "string option"
  rv_source_path :: "string option"
  rv_content_hash :: "string option"
  rv_valid_from :: "datetime option"
  rv_valid_to :: "datetime option"

record knowledge_evidence =
  ke_source_type :: string
  ke_source_id :: "string option"
  ke_method :: discovery_method
  ke_origin :: knowledge_origin
  ke_observed_at :: datetime
  ke_confidence :: knowledge_confidence
  ke_commit_sha :: "string option"
  ke_revision_scope :: "revision_scope option"

record graph_entity =
  ge_id :: uuid
  ge_label :: graph_label
  ge_project_id :: "uuid option"
  ge_properties :: "(string \<times> json) list"
  ge_repository_id :: "uuid option"
  ge_revision :: "string option"
  ge_provenance :: "knowledge_evidence list"

record graph_relation =
  gr_subject :: uuid
  gr_type :: relation_type
  gr_object :: uuid
  gr_properties :: "(string \<times> json) list"
  gr_repository_id :: "uuid option"
  gr_revision :: "string option"
  gr_provenance :: "knowledge_evidence list"

subsection \<open>The in-memory graph\<close>

record knowledge_graph =
  kg_entities :: "(uuid, graph_entity) dict"
  kg_out :: "(uuid, graph_relation list) dict"
  kg_in :: "(uuid, graph_relation list) dict"

definition empty_knowledge_graph :: knowledge_graph where
  "empty_knowledge_graph = \<lparr>kg_entities = [], kg_out = [], kg_in = []\<rparr>"

definition upsert_entities :: "graph_entity list \<Rightarrow> knowledge_graph \<Rightarrow> knowledge_graph" where
  "upsert_entities es g = g\<lparr>kg_entities := fold (\<lambda>e. dict_set (ge_id e) e) es (kg_entities g)\<rparr>"

text \<open>\<open>d.get(k, [])\<close> and \<open>d.setdefault(k, []).append(x)\<close>.\<close>

definition get_list :: "('k, 'v list) dict \<Rightarrow> 'k \<Rightarrow> 'v list" where
  "get_list d k = (case dict_get d k of None \<Rightarrow> [] | Some xs \<Rightarrow> xs)"

definition append_to :: "'k \<Rightarrow> 'v \<Rightarrow> ('k, 'v list) dict \<Rightarrow> ('k, 'v list) dict" where
  "append_to k v d = dict_set k (get_list d k @ [v]) d"

definition upsert_relations :: "graph_relation list \<Rightarrow> knowledge_graph \<Rightarrow> knowledge_graph" where
  "upsert_relations rs g =
     fold (\<lambda>r g. g\<lparr>kg_out := append_to (gr_subject r) r (kg_out g),
                   kg_in := append_to (gr_object r) r (kg_in g)\<rparr>) rs g"

datatype direction = Forward | Reverse | Both

text \<open>The neighbours the loop body appends for one node of the frontier.\<close>

definition edge_allowed :: "relation_type list option \<Rightarrow> string option \<Rightarrow> graph_relation \<Rightarrow> bool" where
  "edge_allowed ts rvn r =
     ((case ts of None \<Rightarrow> True | Some l \<Rightarrow> gr_type r \<in> set l) \<and>
      (case rvn of None \<Rightarrow> True | Some v \<Rightarrow> gr_revision r = Some v))"

definition neighbours :: "knowledge_graph \<Rightarrow> direction \<Rightarrow> relation_type list option \<Rightarrow> string option
    \<Rightarrow> uuid \<Rightarrow> uuid list" where
  "neighbours g dir ts rvn n =
     (let outs = map gr_object (filter (edge_allowed ts rvn) (get_list (kg_out g) n));
          ins = map gr_subject (filter (edge_allowed ts rvn) (get_list (kg_in g) n))
      in (case dir of Reverse \<Rightarrow> ins | Forward \<Rightarrow> outs | Both \<Rightarrow> outs @ ins))"

fun bfs_loop :: "(uuid \<Rightarrow> uuid list) \<Rightarrow> nat \<Rightarrow> uuid list \<Rightarrow> uuid list \<Rightarrow> uuid list" where
  "bfs_loop nb 0 frontier reached = reached @ frontier"
| "bfs_loop nb (Suc d) frontier reached =
     (if frontier = [] then reached
      else (let reached' = reached @ frontier in
            bfs_loop nb d (filter (\<lambda>n. n \<notin> set reached') (concat (map nb frontier))) reached'))"

definition bfs :: "knowledge_graph \<Rightarrow> uuid list \<Rightarrow> relation_type list option \<Rightarrow> int \<Rightarrow> direction
    \<Rightarrow> string option \<Rightarrow> graph_entity list" where
  "bfs g starts ts depth dir rvn =
     List.map_filter (dict_get (kg_entities g))
       (remdups (bfs_loop (neighbours g dir ts rvn) (nat depth) starts []))"

definition traverse :: "uuid list \<Rightarrow> relation_type list \<Rightarrow> int \<Rightarrow> string option \<Rightarrow> knowledge_graph
    \<Rightarrow> graph_entity list" where
  "traverse starts ts depth rvn g = bfs g starts (Some ts) depth Forward rvn"

definition traverse_reverse :: "uuid list \<Rightarrow> relation_type list \<Rightarrow> int \<Rightarrow> string option
    \<Rightarrow> knowledge_graph \<Rightarrow> graph_entity list" where
  "traverse_reverse starts ts depth rvn g = bfs g starts (Some ts) depth Reverse rvn"

definition neighborhood :: "uuid list \<Rightarrow> relation_type list option \<Rightarrow> direction \<Rightarrow> string option
    \<Rightarrow> knowledge_graph \<Rightarrow> graph_entity list" where
  "neighborhood starts ts dir rvn g = bfs g starts ts 1 dir rvn"

definition find_entities :: "graph_label option \<Rightarrow> uuid option \<Rightarrow> string option \<Rightarrow> knowledge_graph
    \<Rightarrow> graph_entity list" where
  "find_entities lab project rvn g =
     filter (\<lambda>e. (lab = None \<or> lab = Some (ge_label e)) \<and>
                 (project = None \<or> ge_project_id e = project) \<and>
                 (rvn = None \<or> ge_revision e = rvn)) (dict_values (kg_entities g))"

definition relation_key :: "graph_relation \<Rightarrow> uuid \<times> string \<times> uuid" where
  "relation_key r = (gr_subject r, relation_type_value (gr_type r), gr_object r)"

text \<open>The first of each group of elements with the same key, in order.\<close>

fun keep_first :: "('a \<Rightarrow> 'k) \<Rightarrow> 'k list \<Rightarrow> 'a list \<Rightarrow> 'a list" where
  "keep_first f seen [] = []"
| "keep_first f seen (x # xs) =
     (if f x \<in> set seen then keep_first f seen xs else x # keep_first f (f x # seen) xs)"

definition relation_matches :: "relation_type option \<Rightarrow> uuid option \<Rightarrow> uuid option \<Rightarrow> string option
    \<Rightarrow> graph_relation \<Rightarrow> bool" where
  "relation_matches t subj obj rvn r =
     ((t = None \<or> t = Some (gr_type r)) \<and> (subj = None \<or> subj = Some (gr_subject r)) \<and>
      (obj = None \<or> obj = Some (gr_object r)) \<and> (rvn = None \<or> gr_revision r = rvn))"

definition find_relations :: "relation_type option \<Rightarrow> uuid option \<Rightarrow> uuid option \<Rightarrow> string option
    \<Rightarrow> knowledge_graph \<Rightarrow> graph_relation list" where
  "find_relations t subj obj rvn g =
     keep_first relation_key []
       (filter (relation_matches t subj obj rvn) (concat (dict_values (kg_out g))))"

subsection \<open>Reconciling claims\<close>

record relation_claim =
  rc_id :: uuid
  rc_type :: relation_type
  rc_subject_key :: string
  rc_object_key :: string
  rc_value :: string
  rc_evidence :: "knowledge_evidence list"

definition claim_confidence :: "relation_claim \<Rightarrow> int" where
  "claim_confidence c =
     (if rc_evidence c = [] then 0 else Max (set (map (\<lambda>e. confidence_score (ke_confidence e)) (rc_evidence c))))"

fun origin_order :: "knowledge_origin \<Rightarrow> int" where
  "origin_order Declared = 0"
| "origin_order Observed = 1"
| "origin_order Discovered = 2"
| "origin_order Inferred = 3"

definition origin_rank :: "relation_claim \<Rightarrow> int" where
  "origin_rank c =
     (if rc_evidence c = [] then 4 else Min (set (map (\<lambda>e. origin_order (ke_origin e)) (rc_evidence c))))"

record reconciled_relation =
  rr_type :: relation_type
  rr_subject_key :: string
  rr_object_key :: string
  rr_value :: string
  rr_confidence :: int
  rr_origin :: string
  rr_claims :: "relation_claim list"

definition claim_key :: "relation_claim \<Rightarrow> string \<times> relation_type \<times> string" where
  "claim_key c = (rc_subject_key c, rc_type c, rc_object_key c)"

definition group_claims :: "relation_claim list \<Rightarrow> (string \<times> relation_type \<times> string, relation_claim list) dict" where
  "group_claims cs = fold (\<lambda>c. append_to (claim_key c) c) cs []"

text \<open>\<open>min(group, key=...)\<close>: the first element with the least key.\<close>

definition stronger :: "relation_claim \<Rightarrow> relation_claim \<Rightarrow> bool" where
  "stronger a b =
     (origin_rank a < origin_rank b \<or> origin_rank a = origin_rank b \<and> claim_confidence a > claim_confidence b)"

definition strongest :: "relation_claim \<Rightarrow> relation_claim list \<Rightarrow> relation_claim" where
  "strongest c cs = fold (\<lambda>d best. if stronger d best then d else best) cs c"

definition reconcile_group :: "relation_claim list \<Rightarrow> reconciled_relation option" where
  "reconcile_group grp =
     (case grp of
        [] \<Rightarrow> None
      | c # cs \<Rightarrow>
          (let w = strongest c cs in
           Some \<lparr>rr_type = rc_type w, rr_subject_key = rc_subject_key w, rr_object_key = rc_object_key w,
                 rr_value = rc_value w, rr_confidence = claim_confidence w,
                 rr_origin = (case rc_evidence w of [] \<Rightarrow> ''unknown''
                              | e # _ \<Rightarrow> knowledge_origin_value (ke_origin e)),
                 rr_claims = grp\<rparr>))"

definition reconcile :: "relation_claim list \<Rightarrow> reconciled_relation list" where
  "reconcile cs = List.map_filter reconcile_group (dict_values (group_claims cs))"

subsection \<open>Integrity checks\<close>

record integrity_issue =
  ii_category :: string
  ii_detail :: string

definition entity_identity :: "graph_entity \<Rightarrow> string" where
  "entity_identity e =
     (let named = (\<lambda>k. py_str (py_or (jget (ge_properties e) k) (JStr (ge_id e)))) in
      case ge_label e of
        L_Symbol \<Rightarrow> named ''qualified_name''
      | L_File \<Rightarrow> named ''path''
      | L_Component \<Rightarrow> named ''name''
      | L_Repository \<Rightarrow> named ''name''
      | _ \<Rightarrow> ge_id e)"

definition count_key :: "graph_entity \<Rightarrow> string \<times> string" where
  "count_key e = (graph_label_value (ge_label e), entity_identity e)"

definition count_identities :: "graph_entity list \<Rightarrow> (string \<times> string, int) dict" where
  "count_identities es =
     fold (\<lambda>e d. dict_set (count_key e) ((case dict_get d (count_key e) of None \<Rightarrow> 0 | Some n \<Rightarrow> n) + 1) d) es []"

definition check_integrity :: "uuid option \<Rightarrow> knowledge_graph \<Rightarrow> integrity_issue list" where
  "check_integrity project g =
     (let es = find_entities None project None g;
          rs = find_relations None None None None g;
          ids = set (map ge_id es);
          revisioned = set (map ge_id (filter (\<lambda>e. ge_revision e \<noteq> None) es));
          iss = (\<lambda>c d. \<lparr>ii_category = c, ii_detail = d\<rparr>)
      in List.map_filter (\<lambda>((lab, name), n).
            if n > 1 then Some (iss ''duplicate_node'' (lab @ '' '' @ [CHR 0x27] @ name @ [CHR 0x27] @
                                  '' appears '' @ str_int n @ '' times'')) else None) (count_identities es) @
         concat (map (\<lambda>r.
            (if gr_subject r \<notin> ids
             then [iss ''orphan_subject'' (''relation '' @ relation_type_value (gr_type r) @ '' subject missing'')]
             else []) @
            (if gr_object r \<notin> ids
             then [iss ''orphan_object'' (''relation '' @ relation_type_value (gr_type r) @ '' object missing'')]
             else [])) rs) @
         concat (map (\<lambda>r.
            if gr_subject r \<in> revisioned \<and> gr_revision r = None
            then [iss ''invalid_revision_scope''
                   (''relation '' @ relation_type_value (gr_type r) @ '' revision missing'')] else []) rs))"

subsection \<open>Breadth-first search is bounded reachability\<close>

definition edge_rel :: "(uuid \<Rightarrow> uuid list) \<Rightarrow> (uuid \<times> uuid) set" where
  "edge_rel nb = {(a, b). b \<in> set (nb a)}"

definition within :: "(uuid \<times> uuid) set \<Rightarrow> nat \<Rightarrow> uuid set \<Rightarrow> uuid set" where
  "within E d S = {b. \<exists>a \<in> S. \<exists>n \<le> d. (a, b) \<in> E ^^ n}"

lemma within_0 [simp]: "within E 0 S = S"
  by (auto simp: within_def)

lemma within_empty [simp]: "within E d {} = {}"
  by (simp add: within_def)

lemma within_start: "S \<subseteq> within E d S"
proof
  fix a assume "a \<in> S"
  moreover have "(a, a) \<in> E ^^ 0" by simp
  ultimately show "a \<in> within E d S" unfolding within_def by blast
qed

text \<open>A path out of a set closed up to its border leaves through the border.\<close>

lemma path_leaves:
  assumes closed: "\<And>x y. x \<in> R \<Longrightarrow> (x, y) \<in> E \<Longrightarrow> y \<in> R \<union> F" and "a \<in> R" and "(a, b) \<in> E ^^ n"
  shows "b \<in> R \<or> (\<exists>f \<in> F. \<exists>m < n. (f, b) \<in> E ^^ m)"
  using assms(2,3)
proof (induction n arbitrary: a)
  case (Suc n)
  then obtain c where c: "(a, c) \<in> E" "(c, b) \<in> E ^^ n" by (meson relpow_Suc_D2)
  from closed [OF Suc.prems(1) c(1)] show ?case
  proof
    assume "c \<in> R"
    from Suc.IH [OF this c(2)] show ?thesis by (meson less_Suc_eq)
  next
    assume "c \<in> F"
    with c(2) show ?thesis by blast
  qed
qed simp

lemma bfs_loop_set:
  assumes "\<And>x y. x \<in> set reached \<Longrightarrow> y \<in> set (nb x) \<Longrightarrow> y \<in> set reached \<union> set frontier"
  shows "set (bfs_loop nb d frontier reached) = set reached \<union> within (edge_rel nb) d (set frontier)"
  using assms
proof (induction nb d frontier reached rule: bfs_loop.induct)
  case (2 nb d frontier reached)
  let ?E = "edge_rel nb"
  show ?case
  proof (cases "frontier = []")
    case False
    let ?R = "reached @ frontier"
    let ?F = "filter (\<lambda>n. n \<notin> set ?R) (concat (map nb frontier))"
    have closed: "y \<in> set ?R \<union> set ?F" if "x \<in> set ?R" "y \<in> set (nb x)" for x y
      using "2.prems" [of x y] that by auto
    have loop: "set (bfs_loop nb (Suc d) frontier reached) = set ?R \<union> within ?E d (set ?F)"
      using "2.IH" [OF False refl] closed False by simp
    have "within ?E d (set ?F) \<subseteq> within ?E (Suc d) (set frontier)"
    proof
      fix b assume "b \<in> within ?E d (set ?F)"
      then obtain f n where f: "f \<in> set ?F" "n \<le> d" "(f, b) \<in> ?E ^^ n" by (auto simp: within_def)
      from f(1) obtain a where "a \<in> set frontier" "(a, f) \<in> ?E" by (auto simp: edge_rel_def)
      with f(2,3) show "b \<in> within ?E (Suc d) (set frontier)"
        unfolding within_def by (blast intro: relpow_Suc_I2)
    qed
    moreover have "set frontier \<subseteq> within ?E (Suc d) (set frontier)" by (rule within_start)
    moreover have "within ?E (Suc d) (set frontier) \<subseteq> set ?R \<union> within ?E d (set ?F)"
    proof
      fix b assume "b \<in> within ?E (Suc d) (set frontier)"
      then obtain a n where a: "a \<in> set frontier" "n \<le> Suc d" "(a, b) \<in> ?E ^^ n"
        by (auto simp: within_def)
      have "b \<in> set ?R \<or> (\<exists>f \<in> set ?F. \<exists>m < n. (f, b) \<in> ?E ^^ m)"
        by (rule path_leaves [OF _ _ a(3)]) (use a(1) closed in \<open>auto simp: edge_rel_def\<close>)
      moreover have "b \<in> within ?E d (set ?F)" if "f \<in> set ?F" "m < n" "(f, b) \<in> ?E ^^ m" for f m
      proof -
        from that(2) a(2) have "m \<le> d" by simp
        with that(1,3) show ?thesis unfolding within_def by blast
      qed
      ultimately show "b \<in> set ?R \<union> within ?E d (set ?F)" by blast
    qed
    ultimately show ?thesis unfolding loop by auto
  qed simp
qed simp

lemma set_map_filter': "set (List.map_filter f xs) = {y. \<exists>x \<in> set xs. f x = Some y}"
  by (force simp: map_filter_def)

lemma bfs_ids:
  "set (bfs g starts ts depth dir rvn) =
     {e. \<exists>i \<in> within (edge_rel (neighbours g dir ts rvn)) (nat depth) (set starts).
           dict_get (kg_entities g) i = Some e}"
  using bfs_loop_set [of "[]" "neighbours g dir ts rvn" starts "nat depth"]
  by (simp add: bfs_def set_map_filter')

subsection \<open>The two indexes agree\<close>

text \<open>
  The same relations are indexed by subject and by object: the invariant of every operation.
\<close>

definition indexes_agree :: "knowledge_graph \<Rightarrow> bool" where
  "indexes_agree g \<longleftrightarrow>
     (\<forall>n r. r \<in> set (get_list (kg_out g) n) \<longleftrightarrow> r \<in> set (get_list (kg_in g) (gr_object r)) \<and> gr_subject r = n) \<and>
     (\<forall>n r. r \<in> set (get_list (kg_in g) n) \<longrightarrow> gr_object r = n)"

lemma get_list_append_to [store_simps]:
  "get_list (append_to k v d) k' = (if k' = k then get_list d k @ [v] else get_list d k')"
  by (simp add: append_to_def get_list_def store_simps)

lemma indexes_agree_empty: "indexes_agree empty_knowledge_graph"
  by (simp add: indexes_agree_def empty_knowledge_graph_def get_list_def)

lemma indexes_agree_entities: "indexes_agree g \<Longrightarrow> indexes_agree (upsert_entities es g)"
  by (simp add: indexes_agree_def upsert_entities_def)

lemma indexes_agree_relation:
  assumes "indexes_agree g"
  shows "indexes_agree (g\<lparr>kg_out := append_to (gr_subject r) r (kg_out g),
                          kg_in := append_to (gr_object r) r (kg_in g)\<rparr>)"
  using assms by (auto simp: indexes_agree_def store_simps)

lemma indexes_agree_relations: "indexes_agree g \<Longrightarrow> indexes_agree (upsert_relations rs g)"
proof (induction rs arbitrary: g)
  case (Cons r rs)
  from Cons.IH [OF indexes_agree_relation [OF Cons.prems]] show ?case
    by (simp add: upsert_relations_def)
qed (simp add: upsert_relations_def)

lemma upsert_relations_entities: "kg_entities (upsert_relations rs g) = kg_entities g"
proof (induction rs arbitrary: g)
  case (Cons r rs)
  then show ?case by (simp add: upsert_relations_def)
qed (simp add: upsert_relations_def)

lemma entity_keys:
  "\<forall>i e. dict_get d i = Some e \<longrightarrow> ge_id e = i \<Longrightarrow>
     dict_get (fold (\<lambda>e. dict_set (ge_id e) e) es d) i = Some e \<Longrightarrow> ge_id e = i"
proof (induction es arbitrary: d)
  case (Cons x es)
  have "\<forall>i e. dict_get (dict_set (ge_id x) x d) i = Some e \<longrightarrow> ge_id e = i"
    using Cons.prems(1) by (simp add: store_simps)
  from Cons.IH [OF this] Cons.prems(2) show ?case by simp
qed simp

lemma reverse_edges:
  assumes "indexes_agree g"
  shows "edge_rel (neighbours g Reverse ts rvn) = (edge_rel (neighbours g Forward ts rvn))\<inverse>"
proof -
  have "r \<in> set (get_list (kg_in g) a) \<and> gr_subject r = b \<longleftrightarrow>
      r \<in> set (get_list (kg_out g) b) \<and> gr_object r = a" for r a b
    using assms unfolding indexes_agree_def by blast
  then have "b \<in> set (neighbours g Reverse ts rvn a) \<longleftrightarrow> a \<in> set (neighbours g Forward ts rvn b)" for a b
    by (simp add: neighbours_def Let_def image_iff) metis
  then show ?thesis by (auto simp: edge_rel_def)
qed

lemma relpow_converse:
  fixes E :: "('a \<times> 'a) set"
  shows "(a, b) \<in> (E\<inverse>) ^^ n \<longleftrightarrow> (b, a) \<in> E ^^ n"
proof (induction n arbitrary: a b)
  case (Suc n)
  show ?case
  proof
    assume "(a, b) \<in> E\<inverse> ^^ Suc n"
    then obtain c where "(a, c) \<in> E\<inverse> ^^ n" "(c, b) \<in> E\<inverse>" by auto
    with Suc [of a c] have "(b, c) \<in> E" "(c, a) \<in> E ^^ n" by auto
    then show "(b, a) \<in> E ^^ Suc n" by (rule relpow_Suc_I2)
  next
    assume "(b, a) \<in> E ^^ Suc n"
    then obtain c where "(b, c) \<in> E" "(c, a) \<in> E ^^ n" by (meson relpow_Suc_D2)
    with Suc [of a c] have "(a, c) \<in> E\<inverse> ^^ n" "(c, b) \<in> E\<inverse>" by auto
    then show "(a, b) \<in> E\<inverse> ^^ Suc n" by auto
  qed
qed auto

subsection \<open>Keeping the first of each key\<close>

lemma keep_first_distinct:
  "distinct (map f (keep_first f seen xs)) \<and> set (map f (keep_first f seen xs)) = set (map f xs) - set seen"
  by (induction xs arbitrary: seen) (auto split: if_splits)

lemma keep_first_subset: "set (keep_first f seen xs) \<subseteq> set xs"
  by (induction xs arbitrary: seen) (auto split: if_splits)

subsection \<open>Properties of the graph\<close>


definition demo_entity :: "uuid \<Rightarrow> graph_entity" where
  "demo_entity i = \<lparr>ge_id = i, ge_label = L_Work_Item, ge_project_id = Some ''p'', ge_properties = [],
     ge_repository_id = None, ge_revision = None, ge_provenance = []\<rparr>"

definition demo_edge :: "uuid \<Rightarrow> uuid \<Rightarrow> graph_relation" where
  "demo_edge a b = \<lparr>gr_subject = a, gr_type = R_Blocks, gr_object = b, gr_properties = [],
     gr_repository_id = None, gr_revision = None, gr_provenance = []\<rparr>"

definition demo_kg :: knowledge_graph where
  "demo_kg = upsert_relations [demo_edge ''a'' ''b'', demo_edge ''b'' ''c'', demo_edge ''c'' ''a'']
     (upsert_entities (map demo_entity [''a'', ''b'', ''c'']) empty_knowledge_graph)"


text \<open>
  The two directions are inverse to each other. On every graph built by upserts, one
  stored entity is found forward from another within a depth exactly when the other is found
  in reverse from the first, with the same types and revision: the index by object always
  holds the same relations as the index by subject.
\<close>

theorem traversal_directions_inverse:
  assumes "g = upsert_relations rs (upsert_entities es empty_knowledge_graph)"
    and "dict_get (kg_entities g) a = Some x" and "dict_get (kg_entities g) b = Some y"
    and "x \<noteq> y" and "ge_id x = a" and "ge_id y = b"
  shows "(y \<in> set (traverse [a] ts depth rvn g)) = (x \<in> set (traverse_reverse [b] ts depth rvn g))"
proof -
  have "indexes_agree g"
    unfolding assms(1) by (intro indexes_agree_relations indexes_agree_entities indexes_agree_empty)
  note rev = reverse_edges [OF this, of "Some ts" rvn]
  have ids: "ge_id e = i" if "dict_get (kg_entities g) i = Some e" for i e
    using entity_keys [of "[]" es i e] that
    unfolding assms(1) by (simp add: upsert_relations_entities upsert_entities_def empty_knowledge_graph_def)
  let ?E = "edge_rel (neighbours g Forward (Some ts) rvn)"
  have "(y \<in> set (traverse [a] ts depth rvn g)) = (b \<in> within ?E (nat depth) {a})"
    using assms(3,6) ids by (auto simp: traverse_def bfs_ids)
  moreover have "(x \<in> set (traverse_reverse [b] ts depth rvn g)) = (a \<in> within (?E\<inverse>) (nat depth) {b})"
    using assms(2,5) ids by (auto simp: traverse_reverse_def bfs_ids rev)
  moreover have "(b \<in> within ?E d {a}) = (a \<in> within (?E\<inverse>) d {b})" for d
    by (simp add: within_def relpow_converse)
  ultimately show ?thesis by simp
qed

theorem traversal_directions_inverse_witness:
  "(demo_entity ''b'' \<in> set (traverse [''a''] [R_Blocks] 2 None demo_kg)) =
   (demo_entity ''a'' \<in> set (traverse_reverse [''b''] [R_Blocks] 2 None demo_kg))"
  by (rule traversal_directions_inverse [OF demo_kg_def])
    (simp_all add: demo_kg_def upsert_relations_def upsert_entities_def empty_knowledge_graph_def demo_entity_def)

text \<open>
  Finding relations removes duplicates and nothing else. The result has one relation per
  triple of subject, type and object, each a stored relation that matches the filters, and
  every stored relation that matches has its triple in the result.
\<close>

theorem find_relations_dedup:
  "distinct (map relation_key (find_relations t subj obj rvn g)) \<and>
   (\<forall>r \<in> set (find_relations t subj obj rvn g).
      r \<in> set (concat (dict_values (kg_out g))) \<and> relation_matches t subj obj rvn r) \<and>
   (\<forall>r \<in> set (concat (dict_values (kg_out g))). relation_matches t subj obj rvn r \<longrightarrow>
      relation_key r \<in> set (map relation_key (find_relations t subj obj rvn g)))"
proof -
  let ?m = "filter (relation_matches t subj obj rvn) (concat (dict_values (kg_out g)))"
  have res: "find_relations t subj obj rvn g = keep_first relation_key [] ?m"
    by (simp add: find_relations_def)
  have sub: "set (find_relations t subj obj rvn g) \<subseteq> set ?m" unfolding res by (rule keep_first_subset)
  have "distinct (map relation_key (find_relations t subj obj rvn g))"
    "set (map relation_key (find_relations t subj obj rvn g)) = set (map relation_key ?m)"
    unfolding res using keep_first_distinct [of relation_key "[]" ?m] by simp_all
  moreover have "\<forall>r \<in> set (find_relations t subj obj rvn g).
      r \<in> set (concat (dict_values (kg_out g))) \<and> relation_matches t subj obj rvn r"
    using sub by auto
  moreover have "\<forall>r \<in> set (concat (dict_values (kg_out g))). relation_matches t subj obj rvn r \<longrightarrow>
      relation_key r \<in> set (map relation_key ?m)"
    by (simp del: set_concat)
  ultimately show ?thesis by simp
qed

theorem find_relations_dedup_witness:
  "distinct (map relation_key (find_relations None None None None
     (upsert_relations [demo_edge ''a'' ''b'', demo_edge ''a'' ''b''] demo_kg)))"
  using find_relations_dedup [of None None None None
      "upsert_relations [demo_edge ''a'' ''b'', demo_edge ''a'' ''b''] demo_kg"] by blast

subsection \<open>Lemmas on grouping and choosing\<close>

lemma mset_append_to:
  "mset (concat (dict_values (append_to k v d))) = add_mset v (mset (concat (dict_values d)))"
proof (induction d)
  case Nil
  then show ?case by (simp add: append_to_def get_list_def dict_values_def)
next
  case (Cons e d)
  obtain k' vs where e: "e = (k', vs)" by (cases e)
  show ?case
  proof (cases "k' = k")
    case True
    with e show ?thesis by (simp add: append_to_def get_list_def dict_values_def)
  next
    case False
    with e Cons show ?thesis by (simp add: append_to_def get_list_def dict_values_def)
  qed
qed

definition groups_ok :: "(string \<times> relation_type \<times> string, relation_claim list) dict \<Rightarrow> bool" where
  "groups_ok d \<longleftrightarrow> dict_ok d \<and> (\<forall>(k, grp) \<in> set d. grp \<noteq> [] \<and> (\<forall>c \<in> set grp. claim_key c = k))"

lemma groups_ok_append:
  assumes "groups_ok d"
  shows "groups_ok (append_to (claim_key c) c d)"
proof -
  let ?k = "claim_key c" and ?d = "append_to (claim_key c) c d"
  have ok: "dict_ok d" "dict_ok ?d" using assms by (simp_all add: groups_ok_def append_to_def)
  have entry: "grp \<noteq> [] \<and> (\<forall>x \<in> set grp. claim_key x = k)" if "(k, grp) \<in> set ?d" for k grp
  proof -
    from that ok(2) have get: "dict_get ?d k = Some grp" by (simp add: dict_ok_def)
    show ?thesis
    proof (cases "k = ?k")
      case True
      with get have grp: "grp = get_list d ?k @ [c]" by (simp add: append_to_def store_simps)
      have "\<forall>x \<in> set (get_list d ?k). claim_key x = ?k"
      proof (cases "dict_get d ?k")
        case (Some vs)
        from map_of_SomeD [OF this] assms Some show ?thesis by (auto simp: groups_ok_def get_list_def)
      qed (simp add: get_list_def)
      with grp True show ?thesis by simp
    next
      case False
      with get have "dict_get d k = Some grp" by (simp add: append_to_def store_simps)
      with assms show ?thesis by (auto simp: groups_ok_def dest!: map_of_SomeD)
    qed
  qed
  with ok show ?thesis by (auto simp: groups_ok_def)
qed

lemma group_claims_spec:
  "groups_ok (group_claims cs) \<and> mset (concat (dict_values (group_claims cs))) = mset cs"
proof -
  have "groups_ok (fold (\<lambda>c. append_to (claim_key c) c) cs d) \<and>
      mset (concat (dict_values (fold (\<lambda>c. append_to (claim_key c) c) cs d))) =
        mset cs + mset (concat (dict_values d))" if "groups_ok d" for d
    using that
  proof (induction cs arbitrary: d)
    case (Cons c cs)
    from Cons.IH [OF groups_ok_append [OF Cons.prems]] show ?case by (simp add: mset_append_to)
  qed simp
  from this [of "[]"] show ?thesis by (simp add: group_claims_def groups_ok_def dict_values_def)
qed

lemma strongest_spec:
  "strongest c cs \<in> set (c # cs) \<and> (\<forall>d \<in> set (c # cs). \<not> stronger d (strongest c cs))"
proof (induction cs arbitrary: c)
  case Nil
  then show ?case by (simp add: strongest_def stronger_def)
next
  case (Cons d cs)
  let ?b = "if stronger d c then d else c"
  have eq: "strongest c (d # cs) = strongest ?b cs" by (simp add: strongest_def)
  have "\<not> stronger c ?b" "\<not> stronger d ?b" by (auto simp: stronger_def)
  moreover have "\<not> stronger x y \<Longrightarrow> \<not> stronger y z \<Longrightarrow> \<not> stronger x z" for x y z
    by (auto simp: stronger_def)
  moreover have "\<not> stronger ?b (strongest ?b cs)" "\<forall>x \<in> set cs. \<not> stronger x (strongest ?b cs)"
    using Cons [of ?b] by (simp_all del: if_split)
  ultimately have "\<not> stronger c (strongest ?b cs)" "\<not> stronger d (strongest ?b cs)"
    "\<forall>x \<in> set cs. \<not> stronger x (strongest ?b cs)" by blast+
  moreover have "strongest ?b cs \<in> set (c # d # cs)" using Cons [of ?b] by (auto split: if_splits)
  ultimately show ?case unfolding eq by simp
qed

lemma reconcile_group_some:
  assumes "grp \<noteq> []"
  obtains r w where "reconcile_group grp = Some r" "rr_claims r = grp" "w \<in> set grp"
    "\<forall>c \<in> set grp. \<not> stronger c w" "rr_value r = rc_value w" "rr_confidence r = claim_confidence w"
    "(rr_subject_key r, rr_type r, rr_object_key r) = claim_key w"
proof -
  obtain c cs where grp: "grp = c # cs" using assms by (cases grp) auto
  obtain r where r: "reconcile_group grp = Some r" by (simp add: grp reconcile_group_def Let_def)
  then have "rr_claims r = grp" "rr_value r = rc_value (strongest c cs)"
    "rr_confidence r = claim_confidence (strongest c cs)"
    "(rr_subject_key r, rr_type r, rr_object_key r) = claim_key (strongest c cs)"
    by (auto simp: grp reconcile_group_def Let_def claim_key_def)
  with strongest_spec [of c cs, folded grp] r show thesis by (intro that) simp_all
qed

text \<open>The results stand in the order of the groups, one for each.\<close>

lemma reconcile_groups:
  assumes "\<forall>(k, grp) \<in> set d. grp \<noteq> [] \<and> (\<forall>c \<in> set grp. claim_key c = k)"
  shows "map rr_claims (List.map_filter reconcile_group (dict_values d)) = dict_values d \<and>
    map (\<lambda>r. (rr_subject_key r, rr_type r, rr_object_key r))
      (List.map_filter reconcile_group (dict_values d)) = dict_keys d"
  using assms
proof (induction d)
  case (Cons e d)
  obtain k grp where e: "e = (k, grp)" by (cases e)
  with Cons.prems have grp: "grp \<noteq> []" "\<forall>c \<in> set grp. claim_key c = k" by auto
  from grp(1) obtain r w where "reconcile_group grp = Some r" "rr_claims r = grp" "w \<in> set grp"
    "(rr_subject_key r, rr_type r, rr_object_key r) = claim_key w"
    by (rule reconcile_group_some) blast
  with e grp(2) Cons show ?case by (simp add: dict_values_def dict_keys_def map_filter_simps)
qed (simp add: dict_values_def dict_keys_def map_filter_simps)

text \<open>
  Reconciling loses no claim and picks the strongest. There is one result per conceptual
  relation; together the results keep exactly the given claims, with repetitions; and the
  value and confidence of a result are those of one of its claims that no other one beats,
  by the rank of its best origin first and by confidence second.
\<close>

theorem reconcile_keeps_claims:
  "mset (concat (map rr_claims (reconcile cs))) = mset cs \<and>
   distinct (map (\<lambda>r. (rr_subject_key r, rr_type r, rr_object_key r)) (reconcile cs)) \<and>
   (\<forall>r \<in> set (reconcile cs). \<exists>w \<in> set (rr_claims r).
      rr_value r = rc_value w \<and> rr_confidence r = claim_confidence w \<and>
      (\<forall>c \<in> set (rr_claims r). \<not> stronger c w \<and>
         claim_key c = (rr_subject_key r, rr_type r, rr_object_key r)))"
proof -
  let ?d = "group_claims cs"
  have ok: "dict_ok ?d" "\<forall>(k, grp) \<in> set ?d. grp \<noteq> [] \<and> (\<forall>c \<in> set grp. claim_key c = k)"
    and all: "mset (concat (dict_values ?d)) = mset cs"
    using group_claims_spec [of cs] by (auto simp: groups_ok_def)
  note groups = reconcile_groups [OF ok(2)]
  have "\<exists>w \<in> set (rr_claims r). rr_value r = rc_value w \<and> rr_confidence r = claim_confidence w \<and>
      (\<forall>c \<in> set (rr_claims r). \<not> stronger c w \<and>
         claim_key c = (rr_subject_key r, rr_type r, rr_object_key r))" if r: "r \<in> set (reconcile cs)" for r
  proof -
    from r obtain k grp where kg: "(k, grp) \<in> set ?d" "reconcile_group grp = Some r"
      by (auto simp: reconcile_def set_map_filter' dict_values_def)
    with ok(2) have grp: "grp \<noteq> []" "\<forall>c \<in> set grp. claim_key c = k" by auto
    from grp(1) obtain r' w where w: "reconcile_group grp = Some r'" "rr_claims r' = grp"
      "w \<in> set grp" "\<forall>c \<in> set grp. \<not> stronger c w" "rr_value r' = rc_value w"
      "rr_confidence r' = claim_confidence w"
      "(rr_subject_key r', rr_type r', rr_object_key r') = claim_key w"
      by (rule reconcile_group_some)
    with kg(2) grp(2) show ?thesis by auto
  qed
  moreover have "mset (concat (map rr_claims (reconcile cs))) = mset cs"
    using groups all by (simp add: reconcile_def)
  moreover have "distinct (map (\<lambda>r. (rr_subject_key r, rr_type r, rr_object_key r)) (reconcile cs))"
    using groups ok(1) by (simp add: reconcile_def dict_keys_def dict_ok_def)
  ultimately show ?thesis by blast
qed

definition demo_evidence :: "knowledge_origin \<Rightarrow> knowledge_confidence \<Rightarrow> knowledge_evidence" where
  "demo_evidence org c = \<lparr>ke_source_type = ''doc'', ke_source_id = None, ke_method = Document_Parse,
     ke_origin = org, ke_observed_at = 0, ke_confidence = c, ke_commit_sha = None, ke_revision_scope = None\<rparr>"

definition demo_claim :: "string \<Rightarrow> string \<Rightarrow> knowledge_evidence list \<Rightarrow> relation_claim" where
  "demo_claim i v es = \<lparr>rc_id = i, rc_type = R_Depends_On, rc_subject_key = ''pay'',
     rc_object_key = ''redis'', rc_value = v, rc_evidence = es\<rparr>"

theorem reconcile_keeps_claims_witness:
  "\<exists>r. reconcile [demo_claim ''1'' ''absent'' [demo_evidence Inferred Very_High],
       demo_claim ''2'' ''present'' [demo_evidence Declared Medium_Confidence]] = [r] \<and>
     rr_value r = ''present'' \<and> length (rr_claims r) = 2"
proof -
  let ?cs = "[demo_claim ''1'' ''absent'' [demo_evidence Inferred Very_High],
       demo_claim ''2'' ''present'' [demo_evidence Declared Medium_Confidence]]"
  obtain r where r: "reconcile ?cs = [r]"
    by (simp add: reconcile_def group_claims_def append_to_def get_list_def claim_key_def demo_claim_def
        dict_values_def map_filter_simps reconcile_group_def Let_def)
  with reconcile_keeps_claims [of ?cs] have all: "mset (rr_claims r) = mset ?cs"
    and "\<exists>w \<in> set (rr_claims r). rr_value r = rc_value w \<and> (\<forall>c \<in> set (rr_claims r). \<not> stronger c w)"
    by auto
  moreover from all have set_claims: "set (rr_claims r) = set ?cs" by (metis set_mset_mset)
  moreover have "stronger (?cs ! 1) (?cs ! 0)"
    by (simp add: stronger_def origin_rank_def demo_claim_def demo_evidence_def)
  ultimately have "rr_value r = rc_value (?cs ! 1)" by auto
  then have "rr_value r = ''present''" by (simp add: demo_claim_def)
  moreover have "length (rr_claims r) = length ?cs" using all by (rule mset_eq_length)
  ultimately show ?thesis using r by simp
qed

subsection \<open>The scope of the integrity checks\<close>

text \<open>
  A check of one project compares its entities with the relations of the whole graph: a
  relation between two stored entities of another project is reported as having no subject
  and no object.
\<close>

theorem project_check_reports_other_projects:
  assumes "r \<in> set (find_relations None None None None g)"
    and "\<And>e. e \<in> set (dict_values (kg_entities g)) \<Longrightarrow> ge_id e \<in> {gr_subject r, gr_object r} \<Longrightarrow>
      ge_project_id e \<noteq> Some p"
  shows "\<exists>d d'. \<lparr>ii_category = ''orphan_subject'', ii_detail = d\<rparr> \<in> set (check_integrity (Some p) g) \<and>
    \<lparr>ii_category = ''orphan_object'', ii_detail = d'\<rparr> \<in> set (check_integrity (Some p) g)"
proof -
  have "gr_subject r \<notin> set (map ge_id (find_entities None (Some p) None g))"
    "gr_object r \<notin> set (map ge_id (find_entities None (Some p) None g))"
    using assms(2) by (auto simp: find_entities_def)
  with assms(1) show ?thesis
    by (intro exI [of _ "''relation '' @ relation_type_value (gr_type r) @ '' subject missing''"]
        exI [of _ "''relation '' @ relation_type_value (gr_type r) @ '' object missing''"])
      (auto simp: check_integrity_def Let_def)
qed

end
