(* ===== verification/Context_Engine.thy ===== *)
theory Context_Engine
  imports Knowledge_Graph Code_Graph Repositories "HOL-Library.Product_Lexorder" "HOL-Library.Sublist"
begin

text \<open>
  The context engine: \<open>domain/context.py\<close>, \<open>domain/requirements.py\<close>,
  \<open>application/hybrid_retrieval.py\<close>, \<open>application/token_estimation.py\<close> and
  \<open>application/context_engine.py\<close>.

  A score is of any linearly ordered type \<open>'r\<close>; the floating-point operations the code applies
  to scores and budgets (its literals, the decay of a rank, the boost, a share of a budget, the
  ceiling of the token formula) are the parameter \<open>float_ops\<close>. The answers of the semantic index
  are parameters of the retrieval.
\<close>

subsection \<open>Requirements\<close>

datatype requirement_status = Rq_Draft | Rq_Proposed | Rq_Approved | Rq_Implemented | Rq_Verified
  | Rq_Superseded | Rq_Rejected

datatype requirement_source_type = From_Document | From_Ticket | From_Adr | From_Manual | From_Derived
  | From_Inferred

record source_reference =
  sr_provider :: string
  sr_reference :: "string option"
  sr_url :: "string option"
  sr_document_id :: "uuid option"
  sr_work_item_id :: "uuid option"
  sr_heading_path :: "string list"

datatype constraint_kind = Must | Must_Not | Should | Should_Not

record requirement_constraint =
  ct_id :: uuid
  ct_kind :: constraint_kind
  ct_description :: string
  ct_scope :: "string option"

record requirement =
  rm_id :: uuid
  rm_project_id :: uuid
  rm_key :: "string option"
  rm_title :: string
  rm_description :: string
  rm_status :: requirement_status
  rm_priority :: "priority option"
  rm_parent_id :: "uuid option"
  rm_derived_from :: "uuid list"
  rm_acceptance_criteria :: "acceptance_criterion list"
  rm_constraints :: "requirement_constraint list"
  rm_source_refs :: "(requirement_source_type \<times> source_reference option) list"

subsection \<open>Requests, candidates and capsules\<close>

datatype context_type = Planning_Context | Coding_Context | Verification_Context

datatype context_category = Cat_Task | Cat_Requirements | Cat_Architecture | Cat_Source_Code | Cat_Tests
  | Cat_History | Cat_Instructions

datatype retrieval_source = Src_Work_Item | Src_Requirement | Src_Knowledge_Graph | Src_Code_Graph
  | Src_Semantic_Search | Src_Lexical_Search | Src_Git_History | Src_Verification_Feedback

record context_request =
  cq_work_item_id :: uuid
  cq_project_id :: "uuid option"
  cq_repository_id :: "uuid option"
  cq_revision :: "string option"
  cq_type :: context_type
  cq_preferred_budget :: int
  cq_max_tokens :: int
  cq_executor_capability :: string
  cq_risk :: string
  cq_history :: bool
  cq_feedback :: bool

record 'r candidate =
  cd_entity_id :: uuid
  cd_entity_type :: string
  cd_content :: string
  cd_reason :: string
  cd_source :: retrieval_source
  cd_relevance :: 'r
  cd_trust :: 'r
  cd_freshness :: 'r
  cd_tokens :: int
  cd_category :: context_category
  cd_metadata :: "(string \<times> json) list"

record budget_allocation =
  al_category :: context_category
  al_allocated :: int
  al_used :: int

definition remaining :: "budget_allocation \<Rightarrow> int" where
  "remaining a = max 0 (al_allocated a - al_used a)"

record 'r capsule =
  cp_id :: uuid
  cp_version :: string
  cp_work_item_id :: uuid
  cp_type :: context_type
  cp_request :: context_request
  cp_repository_id :: "uuid option"
  cp_revision :: "string option"
  cp_candidates :: "'r candidate list"
  cp_allocations :: "budget_allocation list"
  cp_total_tokens :: int
  cp_model_budget :: int
  cp_created_at :: datetime
  cp_linked_executions :: "uuid list"

definition is_within_budget :: "'r capsule \<Rightarrow> bool" where
  "is_within_budget c = (cp_total_tokens c \<le> cp_model_budget c)"

record 'r float_ops =
  fo_literal :: "int \<Rightarrow> 'r"
  fo_rank :: "nat \<Rightarrow> 'r"
  fo_boost :: "'r \<Rightarrow> 'r"
  fo_share :: "int \<Rightarrow> int \<Rightarrow> int"
  fo_tokens :: "nat \<Rightarrow> nat \<Rightarrow> int"

subsection \<open>Words and token estimates\<close>

text \<open>\<open>s.split()\<close>: the maximal runs of characters that are not white space.\<close>

fun split_words :: "string \<Rightarrow> string \<Rightarrow> string list" where
  "split_words w [] = (if w = [] then [] else [rev w])"
| "split_words w (c # cs) =
     (if is_space c then (if w = [] then split_words [] cs else rev w # split_words [] cs)
      else split_words (c # w) cs)"

definition py_words :: "string \<Rightarrow> string list" where
  "py_words s = split_words [] s"

text \<open>\<open>TokenEstimator.estimate\<close> for the default model: \<open>fo_tokens\<close> is the ceiling of the formula.\<close>

definition estimate_tokens :: "'r float_ops \<Rightarrow> string \<Rightarrow> int" where
  "estimate_tokens f s = max 1 (fo_tokens f (length s) (length (py_words (strip s))))"

definition fits_tokens :: "'r float_ops \<Rightarrow> string \<Rightarrow> int \<Rightarrow> bool" where
  "fits_tokens f s budget = (estimate_tokens f s \<le> budget)"

subsection \<open>Hybrid retrieval\<close>

record semantic_record =
  se_record_id :: uuid
  se_entity_id :: uuid
  se_entity_type :: string
  se_text :: string
  se_project_id :: "uuid option"
  se_repository_id :: "uuid option"
  se_revision :: "string option"
  se_source :: "string option"
  se_metadata :: "(string \<times> json) list"

record 'r hit =
  ht_record :: semantic_record
  ht_reason :: string
  ht_source :: string
  ht_relevance :: 'r
  ht_trust :: 'r

text \<open>
  The index: lexical search, and vector search, which is \<open>None\<close> when the embedding or the search
  raises one of the two errors the code expects.
\<close>

record search_index =
  ix_search :: "string \<Rightarrow> (string \<times> string) list \<Rightarrow> int \<Rightarrow> semantic_record list"
  ix_vector :: "string \<Rightarrow> (string \<times> string) list \<Rightarrow> int \<Rightarrow> semantic_record list option"

definition search_filters :: "uuid option \<Rightarrow> uuid option \<Rightarrow> string option \<Rightarrow> (string \<times> string) list" where
  "search_filters p r v =
     map (Pair ''project_id'') (option_list p) @ map (Pair ''repository_id'') (option_list r) @
     map (Pair ''revision'') (option_list v)"

definition merge_hit :: "'r::linorder hit \<Rightarrow> (uuid, 'r hit) dict \<Rightarrow> (uuid, 'r hit) dict" where
  "merge_hit h d =
     (let k = se_entity_id (ht_record h) in
      case dict_get d k of
        None \<Rightarrow> dict_set k h d
      | Some x \<Rightarrow>
          (if ht_relevance h > ht_relevance x then dict_set k h d
           else dict_set k (x\<lparr>ht_relevance := max (ht_relevance x) (ht_relevance h)\<rparr>) d))"

definition ranked_hits :: "'r float_ops \<Rightarrow> string \<Rightarrow> string \<Rightarrow> semantic_record list \<Rightarrow> 'r hit list" where
  "ranked_hits f reason src rs =
     map (\<lambda>(n, r). \<lparr>ht_record = r, ht_reason = reason, ht_source = src, ht_relevance = fo_rank f n,
                    ht_trust = fo_literal f 50\<rparr>) (enumerate 0 rs)"

text \<open>\<open>sorted(xs, key=k, reverse=True)\<close>: decreasing, elements with equal keys in their order.\<close>

definition sort_decreasing :: "('a \<Rightarrow> 'k::linorder) \<Rightarrow> 'a list \<Rightarrow> 'a list" where
  "sort_decreasing k xs = rev (sort_key k (rev xs))"

text \<open>\<open>xs[:n]\<close>.\<close>

definition slice_first :: "int \<Rightarrow> 'a list \<Rightarrow> 'a list" where
  "slice_first n xs = (if n \<ge> 0 then take (nat n) xs else take (length xs - nat (- n)) xs)"

definition boost_hit :: "'r float_ops \<Rightarrow> uuid list \<Rightarrow> 'r hit \<Rightarrow> 'r hit" where
  "boost_hit f ids h =
     (if se_entity_id (ht_record h) \<in> set ids then h\<lparr>ht_relevance := fo_boost f (ht_relevance h)\<rparr> else h)"

definition retrieve :: "'r::linorder float_ops \<Rightarrow> search_index \<Rightarrow> knowledge_graph \<Rightarrow> string \<Rightarrow> uuid option
    \<Rightarrow> uuid option \<Rightarrow> string option \<Rightarrow> int \<Rightarrow> bool \<Rightarrow> 'r hit list" where
  "retrieve f ix kg query p r v limit use_vector =
     (let flt = search_filters p r v;
          lexical = ix_search ix query flt (limit * 2);
          semantic = (if use_vector
                      then (case ix_vector ix query flt (limit * 2) of None \<Rightarrow> [] | Some rs \<Rightarrow> rs) else []);
          scored = fold merge_hit (ranked_hits f ''semantic match'' ''semantic'' semantic)
                     (fold merge_hit (ranked_hits f ''lexical match'' ''lexical'' lexical) []);
          hits = (case p of None \<Rightarrow> dict_values scored
                  | Some _ \<Rightarrow> map (boost_hit f (map ge_id (find_entities None p None kg))) (dict_values scored))
      in slice_first limit (sort_decreasing ht_relevance hits))"

subsection \<open>Texts and scores\<close>

definition work_item_text :: "work_item option \<Rightarrow> uuid \<Rightarrow> string" where
  "work_item_text w i =
     (case w of None \<Rightarrow> ''work item '' @ i
      | Some x \<Rightarrow> strip (wi_title x @ [CHR 0x0A] @ wi_description x))"

definition requirement_text :: "requirement \<Rightarrow> string" where
  "requirement_text r =
     strip ((case rm_key r of None \<Rightarrow> [] | Some k \<Rightarrow> k) @ '': '' @ rm_title r @ [CHR 0x0A] @ rm_description r)"

definition nonempty :: "string option \<Rightarrow> string list" where
  "nonempty x = (case x of None \<Rightarrow> [] | Some v \<Rightarrow> if v = [] then [] else [v])"

definition symbol_text :: "symbol \<Rightarrow> string" where
  "symbol_text y =
     join '' '' ([sy_qualified_name y] @
       (if sy_parameters y = [] then [] else [''('' @ join '', '' (sy_parameters y) @ '')'']) @
       map (\<lambda>a. '' -> '' @ a) (nonempty (sy_return_annotation y)) @ nonempty (sy_docstring y))"

definition concepts :: "string \<Rightarrow> string list" where
  "concepts s = filter (\<lambda>w. length w > 2) (py_words (lower s))"

definition symbol_reason :: "symbol \<Rightarrow> string list \<Rightarrow> string" where
  "symbol_reason y files =
     (if sy_path y \<in> set files then ''contains primary impacted symbol'' else ''symbol in repository at revision'')"

definition symbol_score :: "'r float_ops \<Rightarrow> symbol \<Rightarrow> string \<Rightarrow> 'r" where
  "symbol_score f y query =
     (if contains (lower (sy_name y)) (lower query) \<or> contains (lower (sy_qualified_name y)) (lower query)
      then fo_literal f 90
      else if list_ex (\<lambda>d. list_ex (\<lambda>w. contains w (lower d)) (concepts query)) (nonempty (sy_docstring y))
      then fo_literal f 60 else fo_literal f 30)"

definition entity_text :: "graph_entity \<Rightarrow> string" where
  "entity_text e =
     join '' '' (graph_label_value (ge_label e) #
       map (\<lambda>k. py_str (jget (ge_properties e) k))
         (filter (\<lambda>k. truthy (jget (ge_properties e) k)) [''name'', ''path'', ''title'']))"

definition category_for_entity_type :: "string \<Rightarrow> context_category" where
  "category_for_entity_type t =
     (let l = lower t in
      if l = ''documentnode'' then Cat_Architecture
      else if l = ''requirement'' then Cat_Requirements
      else if l = ''decision'' then Cat_Architecture
      else if l = ''symbol'' then Cat_Source_Code
      else Cat_Source_Code)"

subsection \<open>Gathering candidates\<close>

definition plain_candidate :: "'r float_ops \<Rightarrow> uuid \<Rightarrow> string \<Rightarrow> string \<Rightarrow> string \<Rightarrow> retrieval_source \<Rightarrow> int \<Rightarrow> int
    \<Rightarrow> context_category \<Rightarrow> 'r candidate" where
  "plain_candidate f i t content reason src rel trust cat =
     \<lparr>cd_entity_id = i, cd_entity_type = t, cd_content = content, cd_reason = reason, cd_source = src,
      cd_relevance = fo_literal f rel, cd_trust = fo_literal f trust, cd_freshness = fo_literal f 50,
      cd_tokens = 0, cd_category = cat, cd_metadata = []\<rparr>"

definition task_candidate :: "'r float_ops \<Rightarrow> context_request \<Rightarrow> string \<Rightarrow> 'r candidate" where
  "task_candidate f q query =
     plain_candidate f (cq_work_item_id q) ''WorkItem'' query ''primary task'' Src_Work_Item 100 100 Cat_Task"

definition requirement_candidates :: "'r float_ops \<Rightarrow> (uuid \<Rightarrow> requirement option) \<Rightarrow> work_item option
    \<Rightarrow> 'r candidate list" where
  "requirement_candidates f reqs w =
     (case w of None \<Rightarrow> []
      | Some x \<Rightarrow> map (\<lambda>r. plain_candidate f (rm_id r) ''Requirement'' (requirement_text r)
          ''requirement referenced by task'' Src_Requirement 95 90 Cat_Requirements)
          (List.map_filter reqs (wi_requirement_refs x)))"

definition search_candidate :: "'r float_ops \<Rightarrow> 'r hit \<Rightarrow> 'r candidate" where
  "search_candidate f h =
     \<lparr>cd_entity_id = se_entity_id (ht_record h), cd_entity_type = se_entity_type (ht_record h),
      cd_content = se_text (ht_record h), cd_reason = ht_reason h,
      cd_source = (if ht_source h = ''semantic'' then Src_Semantic_Search else Src_Lexical_Search),
      cd_relevance = ht_relevance h, cd_trust = ht_trust h, cd_freshness = fo_literal f 50, cd_tokens = 0,
      cd_category = category_for_entity_type (se_entity_type (ht_record h)), cd_metadata = []\<rparr>"

definition symbol_candidates :: "'r float_ops \<Rightarrow> context_request \<Rightarrow> string \<Rightarrow> code_graph \<Rightarrow> 'r candidate list" where
  "symbol_candidates f q query cg =
     (case (cq_repository_id q, cq_revision q) of
        (Some repo, Some v) \<Rightarrow>
          map (\<lambda>y. \<lparr>cd_entity_id = sy_id y, cd_entity_type = ''Symbol'', cd_content = symbol_text y,
               cd_reason = symbol_reason y (ia_related_files (analyze_impact repo v [] cg)),
               cd_source = Src_Code_Graph, cd_relevance = symbol_score f y query, cd_trust = fo_literal f 80,
               cd_freshness = fo_literal f 50, cd_tokens = 0,
               cd_category = (if is_test_path (sy_path y) then Cat_Tests else Cat_Source_Code),
               cd_metadata = [(''qualified_name'', JStr (sy_qualified_name y)), (''path'', JStr (sy_path y))]\<rparr>)
            (list_symbols repo v cg)
      | _ \<Rightarrow> [])"

text \<open>\<open>show_time\<close> is \<open>datetime.isoformat\<close>.\<close>

definition history_candidates :: "'r float_ops \<Rightarrow> (datetime \<Rightarrow> string) \<Rightarrow> context_request \<Rightarrow> repository_set
    \<Rightarrow> 'r candidate list" where
  "history_candidates f show_time q s =
     (if \<not> cq_history q then []
      else concat (map (\<lambda>e.
        plain_candidate f (ex_id e) ''Execution''
          (''Execution '' @ ex_id e @ '': status='' @ execution_status_value (ex_status e) @
             (case ex_completed_at e of None \<Rightarrow> [] | Some t \<Rightarrow> '' completed_at='' @ show_time t))
          ''previous execution history'' Src_Git_History 50 70 Cat_History #
        (if \<not> cq_feedback q then []
         else map (\<lambda>r. plain_candidate f (vr_id r) ''VerificationResult''
                (''Verification '' @ vr_id r @ '': verdict='' @ verdict_value (vr_verdict r))
                ''verification feedback'' Src_Verification_Feedback 60 90 Cat_Tests)
              (results_of_execution (ex_id e) s)))
        (executions_of_work_item (cq_work_item_id q) s)))"

definition graph_candidates :: "'r float_ops \<Rightarrow> context_request \<Rightarrow> knowledge_graph \<Rightarrow> 'r candidate list" where
  "graph_candidates f q kg =
     (case cq_project_id q of None \<Rightarrow> []
      | Some p \<Rightarrow> map (\<lambda>e. plain_candidate f (ge_id e) (graph_label_value (ge_label e)) (entity_text e)
          ''knowledge graph entity'' Src_Knowledge_Graph 50 60 Cat_Architecture)
          (filter (\<lambda>e. ge_label e \<in> {L_Decision, L_Requirement, L_Component}) (find_entities None (Some p) None kg)))"

record context_sources =
  so_repos :: repository_set
  so_requirements :: "uuid \<Rightarrow> requirement option"
  so_code :: code_graph
  so_graph :: knowledge_graph
  so_index :: search_index
  so_iso :: "datetime \<Rightarrow> string"

definition gather_candidates :: "'r::linorder float_ops \<Rightarrow> context_sources \<Rightarrow> context_request \<Rightarrow> 'r candidate list" where
  "gather_candidates f so q =
     (let w = get_item (cq_work_item_id q) (st_work_items (so_repos so));
          query = work_item_text w (cq_work_item_id q) in
      [task_candidate f q query] @
      requirement_candidates f (so_requirements so) w @
      (case cq_project_id q of None \<Rightarrow> []
       | Some p \<Rightarrow> map (search_candidate f)
           (retrieve f (so_index so) (so_graph so) query (Some p) (cq_repository_id q) (cq_revision q) 20 True)) @
      symbol_candidates f q query (so_code so) @
      history_candidates f (so_iso so) q (so_repos so) @
      graph_candidates f q (so_graph so))"

subsection \<open>Ranking, budgets and the capsule\<close>

definition rank_key :: "'r candidate \<Rightarrow> 'r \<times> 'r \<times> 'r \<times> int" where
  "rank_key c = (cd_relevance c, cd_trust c, cd_freshness c, - cd_tokens c)"

definition rank_candidates :: "'r::linorder candidate list \<Rightarrow> 'r candidate list" where
  "rank_candidates cs = sort_decreasing rank_key cs"

text \<open>The weights in hundredths, in the order of the dictionary.\<close>

definition default_weights :: "(context_category \<times> int) list" where
  "default_weights = [(Cat_Task, 15), (Cat_Requirements, 15), (Cat_Architecture, 15), (Cat_Source_Code, 30),
     (Cat_Tests, 10), (Cat_History, 5), (Cat_Instructions, 10)]"

definition allocate :: "'r float_ops \<Rightarrow> int \<Rightarrow> 'r candidate list \<Rightarrow> budget_allocation list" where
  "allocate f spent cs =
     map (\<lambda>(cat, w). \<lparr>al_category = cat, al_allocated = fo_share f spent w, al_used = 0\<rparr>)
       (filter (\<lambda>(cat, w). cat \<in> cd_category ` set cs) default_weights)"

text \<open>\<open>allocation.used_tokens += n\<close> on the first allocation of the category.\<close>

fun use_tokens :: "context_category \<Rightarrow> int \<Rightarrow> budget_allocation list \<Rightarrow> budget_allocation list" where
  "use_tokens cat n [] = []"
| "use_tokens cat n (a # as) =
     (if al_category a = cat then a\<lparr>al_used := al_used a + n\<rparr> # as else a # use_tokens cat n as)"

text \<open>The loop of \<open>_build_capsule\<close>: candidates, allocations, included so far, spent.\<close>

fun include_candidates :: "(string \<Rightarrow> int) \<Rightarrow> int \<Rightarrow> 'r candidate list \<Rightarrow> budget_allocation list
    \<Rightarrow> 'r candidate list \<Rightarrow> int \<Rightarrow> 'r candidate list \<times> budget_allocation list \<times> int" where
  "include_candidates est budget [] as inc spent = (inc, as, spent)"
| "include_candidates est budget (c # cs) as inc spent =
     (case List.find (\<lambda>a. al_category a = cd_category c) as of
        Some a \<Rightarrow>
          (if remaining a \<le> 0 then include_candidates est budget cs as inc spent
           else (let n = est (cd_content c) in
             if spent + n > budget then (inc, as, spent)
             else include_candidates est budget cs (use_tokens (cd_category c) n as)
                    (inc @ [c\<lparr>cd_tokens := n\<rparr>]) (spent + n)))
      | None \<Rightarrow>
          (let n = est (cd_content c) in
           if spent + n > budget then (inc, as, spent)
           else include_candidates est budget cs as (inc @ [c\<lparr>cd_tokens := n\<rparr>]) (spent + n)))"

definition build_capsule :: "'r float_ops \<Rightarrow> uuid \<Rightarrow> datetime \<Rightarrow> context_request \<Rightarrow> 'r candidate list
    \<Rightarrow> budget_allocation list \<Rightarrow> 'r capsule" where
  "build_capsule f i now q ranked as =
     (let (inc, used, spent) = include_candidates (estimate_tokens f) (cq_max_tokens q) ranked as [] 0 in
      \<lparr>cp_id = i, cp_version = ''1.0'', cp_work_item_id = cq_work_item_id q, cp_type = cq_type q, cp_request = q,
       cp_repository_id = cq_repository_id q, cp_revision = cq_revision q, cp_candidates = inc,
       cp_allocations = used, cp_total_tokens = spent, cp_model_budget = cq_max_tokens q,
       cp_created_at = now, cp_linked_executions = []\<rparr>)"

type_synonym 'r capsule_store = "(uuid, 'r capsule) dict"

record 'r build_result =
  br_capsule :: "'r capsule"
  br_gathered :: nat
  br_included :: nat

definition assemble_context :: "'r::linorder float_ops \<Rightarrow> context_sources \<Rightarrow> uuid \<Rightarrow> datetime \<Rightarrow> context_request \<Rightarrow> bool
    \<Rightarrow> 'r capsule_store \<Rightarrow> 'r build_result \<times> 'r capsule_store" where
  "assemble_context f so i now q persist store =
     (let cs = gather_candidates f so q; ranked = rank_candidates cs;
          c = build_capsule f i now q ranked (allocate f (cq_preferred_budget q) ranked) in
      (\<lparr>br_capsule = c, br_gathered = length cs, br_included = length (cp_candidates c)\<rparr>,
       if persist then dict_set i c store else store))"

subsection \<open>Lemmas on ranking and inclusion\<close>

lemma sort_decreasing_perm: "mset (sort_decreasing k xs) = mset xs"
  by (simp add: sort_decreasing_def)

lemma set_sort_decreasing [simp]: "set (sort_decreasing k xs) = set xs"
  by (simp add: sort_decreasing_def)

lemma sorted_sort_decreasing: "sorted_wrt (\<lambda>a b. k b \<le> k a) (sort_decreasing k xs)"
proof -
  have "sorted (map k (sort_key k (rev xs)))" by simp
  then show ?thesis by (simp add: sort_decreasing_def sorted_wrt_rev sorted_map)
qed

text \<open>The tokens of the candidates of one category, and of all.\<close>

definition category_tokens :: "context_category \<Rightarrow> 'r candidate list \<Rightarrow> int" where
  "category_tokens cat cs = sum_list (map cd_tokens (filter (\<lambda>c. cd_category c = cat) cs))"

lemma category_tokens_snoc:
  "category_tokens cat (cs @ [c]) = category_tokens cat cs + (if cd_category c = cat then cd_tokens c else 0)"
  by (simp add: category_tokens_def)

definition shape :: "budget_allocation list \<Rightarrow> (context_category \<times> int) list" where
  "shape as = map (\<lambda>a. (al_category a, al_allocated a)) as"

lemma shape_use_tokens [simp]: "shape (use_tokens cat n as) = shape as"
  by (induction as) (simp_all add: shape_def)

text \<open>
  The invariant of the loop: an allocation's usage is what its category has taken, and each
  included candidate was taken while the budget of its category was not used up.
\<close>

definition spent_ok :: "budget_allocation list \<Rightarrow> 'r candidate list \<Rightarrow> bool" where
  "spent_ok as inc \<longleftrightarrow> distinct (map al_category as) \<and>
     (\<forall>a \<in> set as. al_used a = category_tokens (al_category a) inc) \<and>
     (\<forall>xs c ys. inc = xs @ c # ys \<longrightarrow>
        (\<forall>b. (cd_category c, b) \<in> set (shape as) \<longrightarrow> category_tokens (cd_category c) xs < b))"

lemma use_tokens_set:
  assumes "distinct (map al_category as)" and "b \<in> set (use_tokens cat n as)"
  shows "\<exists>a \<in> set as. b = (if al_category a = cat then a\<lparr>al_used := al_used a + n\<rparr> else a)"
  using assms
proof (induction as)
  case (Cons a as)
  show ?case
  proof (cases "al_category a = cat \<and> b \<in> set as")
    case True
    then have "al_category b \<in> al_category ` set as" by blast
    with True Cons.prems(1) have "al_category b \<noteq> cat" by (metis distinct.simps(2) list.simps(9) set_map)
    with True show ?thesis by auto
  next
    case False
    with Cons show ?thesis by (auto split: if_splits)
  qed
qed simp

lemma categories_use_tokens [simp]: "map al_category (use_tokens cat n as) = map al_category as"
  by (induction as) simp_all

lemma spent_ok_include:
  assumes "spent_ok as inc" and "\<forall>a \<in> set as. al_category a = cd_category c \<longrightarrow> al_used a < al_allocated a"
  shows "spent_ok (use_tokens (cd_category c) (cd_tokens c) as) (inc @ [c])"
proof -
  let ?as = "use_tokens (cd_category c) (cd_tokens c) as"
  have dist: "distinct (map al_category as)" using assms(1) by (simp add: spent_ok_def)
  have "al_used b = category_tokens (al_category b) (inc @ [c])" if mem: "b \<in> set ?as" for b
  proof -
    obtain a where a: "a \<in> set as"
      and b: "b = (if al_category a = cd_category c then a\<lparr>al_used := al_used a + cd_tokens c\<rparr> else a)"
      using use_tokens_set [OF dist mem] by blast
    from a assms(1) have "al_used a = category_tokens (al_category a) inc" by (simp add: spent_ok_def)
    with b show ?thesis by (simp add: category_tokens_snoc)
  qed
  moreover have "category_tokens (cd_category d) xs < b"
    if split: "inc @ [c] = xs @ d # ys" and b: "(cd_category d, b) \<in> set (shape ?as)" for xs d ys b
  proof (cases ys rule: rev_cases)
    case Nil
    with split have "xs = inc" "d = c" by auto
    moreover obtain a where "a \<in> set as" "al_category a = cd_category d" "al_allocated a = b"
      using b unfolding shape_use_tokens by (auto simp: shape_def)
    ultimately show ?thesis using assms by (auto simp: spent_ok_def)
  next
    case (snoc zs z)
    with split have "inc = xs @ d # zs" by auto
    with assms(1) b show ?thesis by (auto simp: spent_ok_def)
  qed
  ultimately show ?thesis using dist by (simp add: spent_ok_def)
qed

lemma spent_ok_include_unbudgeted:
  assumes "spent_ok as inc" and "\<forall>a \<in> set as. al_category a \<noteq> cd_category c"
  shows "spent_ok as (inc @ [c])"
proof -
  have "use_tokens (cd_category c) (cd_tokens c) as = as"
    using assms(2) by (induction as) simp_all
  with spent_ok_include [OF assms(1), of c] assms(2) show ?thesis by simp
qed

definition with_estimate :: "(string \<Rightarrow> int) \<Rightarrow> 'r candidate \<Rightarrow> 'r candidate" where
  "with_estimate est c = c\<lparr>cd_tokens := est (cd_content c)\<rparr>"

lemma include_candidates_spec:
  assumes "include_candidates est budget cs as inc spent = (inc', as', spent')"
    and "spent_ok as inc" and "spent = sum_list (map cd_tokens inc)" and "spent \<le> budget"
  shows "spent_ok as' inc' \<and> shape as' = shape as \<and> spent' = sum_list (map cd_tokens inc') \<and> spent' \<le> budget \<and>
    (\<exists>ys. subseq ys cs \<and> inc' = inc @ map (with_estimate est) ys)"
  using assms
proof (induction cs arbitrary: as inc spent)
  case Nil
  then show ?case by auto
next
  case (Cons c cs)
  let ?n = "est (cd_content c)"
  let ?c = "c\<lparr>cd_tokens := ?n\<rparr>"
  have est: "?c = with_estimate est c" by (simp add: with_estimate_def)
  have ext: "\<exists>zs. subseq zs (c # cs) \<and> inc' = inc @ map (with_estimate est) zs"
    if "\<exists>ys. subseq ys cs \<and> inc' = (inc @ [?c]) @ map (with_estimate est) ys"
  proof -
    from that obtain ys where ys: "subseq ys cs" "inc' = (inc @ [?c]) @ map (with_estimate est) ys" by blast
    then have "inc' = inc @ map (with_estimate est) (c # ys)" by (simp add: est)
    with ys(1) show ?thesis by (intro exI [of _ "c # ys"]) simp
  qed
  have stop: "\<exists>zs. subseq zs (c # cs) \<and> inc = inc @ map (with_estimate est) zs"
    by (rule exI [of _ "[]"]) simp
  show ?case
  proof (cases "List.find (\<lambda>a. al_category a = cd_category c) as")
    case None
    then have no: "\<forall>a \<in> set as. al_category a \<noteq> cd_category ?c" by (simp add: find_None_iff')
    show ?thesis
    proof (cases "spent + ?n > budget")
      case True
      with None Cons.prems stop show ?thesis by (auto simp: Let_def)
    next
      case False
      have sum: "spent + ?n = sum_list (map cd_tokens (inc @ [?c]))" using Cons.prems(3) by simp
      have le: "spent + ?n \<le> budget" using False by simp
      have run: "include_candidates est budget cs as (inc @ [?c]) (spent + ?n) = (inc', as', spent')"
        using Cons.prems(1) None False by (simp add: Let_def)
      from Cons.IH [OF run spent_ok_include_unbudgeted [OF Cons.prems(2) no] sum le] ext show ?thesis by blast
    qed
  next
    case (Some a)
    then have a: "a \<in> set as" "al_category a = cd_category c" by (auto dest: find_SomeD)
    show ?thesis
    proof (cases "remaining a \<le> 0")
      case True
      have "include_candidates est budget cs as inc spent = (inc', as', spent')" using Cons.prems(1) Some True by simp
      from Cons.IH [OF this Cons.prems(2-4)] show ?thesis by (blast intro: list_emb_Cons)
    next
      case False
      show ?thesis
      proof (cases "spent + ?n > budget")
        case True
        with Some False Cons.prems stop show ?thesis by (auto simp: Let_def)
      next
        case le: False
        have "al_used b < al_allocated b" if "b \<in> set as" "al_category b = cd_category ?c" for b
        proof -
          from Cons.prems(2) have "distinct (map al_category as)" by (simp add: spent_ok_def)
          then have "inj_on al_category (set as)" by (simp add: distinct_map)
          with a that have "b = a" by (simp add: inj_on_def)
          with False show ?thesis by (simp add: remaining_def)
        qed
        then have less: "\<forall>b \<in> set as. al_category b = cd_category ?c \<longrightarrow> al_used b < al_allocated b" by blast
        have ok: "spent_ok (use_tokens (cd_category c) ?n as) (inc @ [?c])"
          using spent_ok_include [OF Cons.prems(2) less] by simp
        have sum: "spent + ?n = sum_list (map cd_tokens (inc @ [?c]))" using Cons.prems(3) by simp
        have bound: "spent + ?n \<le> budget" using le by simp
        have run: "include_candidates est budget cs (use_tokens (cd_category c) ?n as) (inc @ [?c]) (spent + ?n) =
            (inc', as', spent')" using Cons.prems(1) Some False le by (simp add: Let_def)
        from Cons.IH [OF run ok sum bound] ext show ?thesis by simp
      qed
    qed
  qed
qed

lemma spent_ok_start:
  "distinct (map al_category as) \<Longrightarrow> (\<And>a. a \<in> set as \<Longrightarrow> al_used a = 0) \<Longrightarrow> spent_ok as []"
  by (simp add: spent_ok_def category_tokens_def)

lemma allocate_start:
  "distinct (map al_category (allocate f b cs))" "a \<in> set (allocate f b cs) \<Longrightarrow> al_used a = 0"
proof -
  have "distinct (map fst (filter (\<lambda>(cat, w). cat \<in> cd_category ` set cs) default_weights))"
    by (intro distinct_map_filter) (simp add: default_weights_def)
  moreover have "map al_category (allocate f b cs) = map fst (filter (\<lambda>(cat, w). cat \<in> cd_category ` set cs) default_weights)"
    by (simp add: allocate_def comp_def split_beta)
  ultimately show "distinct (map al_category (allocate f b cs))" by simp
  show "a \<in> set (allocate f b cs) \<Longrightarrow> al_used a = 0" by (auto simp: allocate_def)
qed

lemma merge_hit_keys: "distinct (map fst d) \<Longrightarrow> distinct (map fst (merge_hit h d))"
  by (simp add: merge_hit_def Let_def distinct_update split: option.splits)

text \<open>The merged hits are kept under the entity of their record.\<close>

definition keyed_hits :: "(uuid, 'r hit) dict \<Rightarrow> bool" where
  "keyed_hits d \<longleftrightarrow> distinct (map fst d) \<and> (\<forall>(k, h) \<in> set d. se_entity_id (ht_record h) = k)"

lemma set_dict_set: "set (dict_set k v d) \<subseteq> insert (k, v) (set d)"
  by (induction d) auto

lemma merge_hit_keyed:
  assumes "keyed_hits d"
  shows "keyed_hits (merge_hit h d)"
proof -
  have one: "keyed_hits (dict_set k v d)" if "se_entity_id (ht_record v) = k" for k v
    using assms that set_dict_set [of k v d] by (auto simp: keyed_hits_def distinct_update)
  show ?thesis
  proof (cases "dict_get d (se_entity_id (ht_record h))")
    case None
    then show ?thesis by (simp add: merge_hit_def one)
  next
    case (Some x)
    then have "se_entity_id (ht_record x) = se_entity_id (ht_record h)"
      using assms by (auto simp: keyed_hits_def dest: map_of_SomeD)
    with Some show ?thesis by (simp add: merge_hit_def one Let_def)
  qed
qed

lemma fold_merge_keyed: "keyed_hits d \<Longrightarrow> keyed_hits (fold merge_hit hs d)"
  by (induction hs arbitrary: d) (simp_all add: merge_hit_keyed)

lemma keyed_hits_distinct:
  assumes "keyed_hits d"
  shows "distinct (map (\<lambda>h. se_entity_id (ht_record h)) (dict_values d))"
proof -
  have "map (\<lambda>h. se_entity_id (ht_record h)) (dict_values d) = map fst d"
    using assms by (auto simp: keyed_hits_def dict_values_def)
  with assms show ?thesis by (simp add: keyed_hits_def)
qed

lemma boost_hit_record [simp]: "ht_record (boost_hit f ids h) = ht_record h"
  by (simp add: boost_hit_def)

lemma distinct_map_mset: "mset xs = mset ys \<Longrightarrow> distinct (map g xs) = distinct (map g ys)"
  by (metis mset_eq_imp_distinct_iff mset_map)

lemma sorted_wrt_slice_first: "sorted_wrt P xs \<Longrightarrow> sorted_wrt P (slice_first n xs)"
  by (simp add: slice_first_def sorted_wrt_take)

subsection \<open>Properties\<close>

text \<open>
  C18: a capsule respects its budgets. Its total is the sum of the estimates of its candidates and
  never exceeds the requested maximum; the candidates are a subsequence of the ranked ones, each
  with its token estimate; every allocation's usage is what its category took; and each candidate
  of a budgeted category was taken while the tokens taken before it in the category were below the
  allocation - so a category can pass its allocation by its last candidate only.
\<close>

theorem capsule_respects_budgets:
  assumes "0 \<le> cq_max_tokens q" and "c = br_capsule (fst (assemble_context f so i now q persist store))"
  shows "is_within_budget c \<and> cp_total_tokens c = sum_list (map cd_tokens (cp_candidates c)) \<and>
    (\<exists>ys. subseq ys (rank_candidates (gather_candidates f so q)) \<and>
       cp_candidates c = map (with_estimate (estimate_tokens f)) ys) \<and>
    (\<forall>a \<in> set (cp_allocations c). al_used a = category_tokens (al_category a) (cp_candidates c)) \<and>
    (\<forall>xs d ys a. cp_candidates c = xs @ d # ys \<longrightarrow> a \<in> set (cp_allocations c) \<longrightarrow>
       al_category a = cd_category d \<longrightarrow> category_tokens (cd_category d) xs < al_allocated a)"
proof -
  let ?ranked = "rank_candidates (gather_candidates f so q)"
  let ?as = "allocate f (cq_preferred_budget q) ?ranked"
  obtain inc used spent where run: "include_candidates (estimate_tokens f) (cq_max_tokens q) ?ranked ?as [] 0 =
      (inc, used, spent)" by (metis surj_pair)
  have c: "cp_candidates c = inc" "cp_allocations c = used" "cp_total_tokens c = spent"
    "cp_model_budget c = cq_max_tokens q"
    by (simp_all add: assms(2) assemble_context_def build_capsule_def run Let_def)
  have start: "spent_ok ?as []" by (rule spent_ok_start [OF allocate_start])
  from include_candidates_spec [OF run start] assms(1)
  have spec: "spent_ok used inc" "spent = sum_list (map cd_tokens inc)" "spent \<le> cq_max_tokens q"
    "\<exists>ys. subseq ys ?ranked \<and> inc = map (with_estimate (estimate_tokens f)) ys" by auto
  have "category_tokens (cd_category d) xs < al_allocated a"
    if "inc = xs @ d # ys" "a \<in> set used" "al_category a = cd_category d" for xs d ys a
  proof -
    have "(cd_category d, al_allocated a) \<in> set (shape used)" using that(2,3) by (force simp: shape_def)
    with spec(1) that(1) show ?thesis unfolding spent_ok_def by blast
  qed
  moreover have "\<forall>a \<in> set used. al_used a = category_tokens (al_category a) inc"
    using spec(1) by (simp add: spent_ok_def)
  ultimately show ?thesis using spec(2-4) unfolding c is_within_budget_def by blast
qed

text \<open>
  The retrieval gives each entity at most once, in decreasing relevance, and at most as many hits
  as the limit allows.
\<close>

theorem retrieval_ranked_once:
  assumes "0 \<le> limit"
  shows "int (length (retrieve f ix kg query p r v limit use_vector)) \<le> limit \<and>
    distinct (map (\<lambda>h. se_entity_id (ht_record h)) (retrieve f ix kg query p r v limit use_vector)) \<and>
    sorted_wrt (\<lambda>a b. ht_relevance b \<le> ht_relevance a) (retrieve f ix kg query p r v limit use_vector)"
proof -
  define scored where "scored = fold merge_hit (ranked_hits f ''semantic match'' ''semantic''
      (if use_vector then (case ix_vector ix query (search_filters p r v) (limit * 2) of None \<Rightarrow> [] | Some rs \<Rightarrow> rs) else []))
    (fold merge_hit (ranked_hits f ''lexical match'' ''lexical'' (ix_search ix query (search_filters p r v) (limit * 2))) [])"
  define hits where "hits = (case p of None \<Rightarrow> dict_values scored
      | Some _ \<Rightarrow> map (boost_hit f (map ge_id (find_entities None p None kg))) (dict_values scored))"
  have result: "retrieve f ix kg query p r v limit use_vector = slice_first limit (sort_decreasing ht_relevance hits)"
    by (simp only: retrieve_def hits_def scored_def Let_def)
  have "keyed_hits scored" unfolding scored_def by (intro fold_merge_keyed) (simp add: keyed_hits_def)
  from keyed_hits_distinct [OF this] have "distinct (map (\<lambda>h. se_entity_id (ht_record h)) hits)"
    by (simp add: hits_def comp_def split: option.splits)
  then have "distinct (map (\<lambda>h. se_entity_id (ht_record h)) (sort_decreasing ht_relevance hits))"
    by (simp add: distinct_map_mset [OF sort_decreasing_perm])
  then have "distinct (map (\<lambda>h. se_entity_id (ht_record h)) (slice_first limit (sort_decreasing ht_relevance hits)))"
    by (simp add: slice_first_def take_map [symmetric])
  moreover have "int (length (slice_first limit (sort_decreasing ht_relevance hits))) \<le> limit"
    using assms by (simp add: slice_first_def)
  ultimately show ?thesis unfolding result by (intro conjI sorted_wrt_slice_first sorted_sort_decreasing)
qed

text \<open>Scores in thousandths, for the witnesses: one search hit that is also a graph entity.\<close>

definition demo_ops :: "int float_ops" where
  "demo_ops = \<lparr>fo_literal = (\<lambda>n. n * 10), fo_rank = (\<lambda>n. 1000 div (int n + 1)), fo_boost = (\<lambda>x. x + 100),
     fo_share = (\<lambda>t w. t * w div 100), fo_tokens = (\<lambda>c w. int c div 4)\<rparr>"

definition demo_record :: semantic_record where
  "demo_record = \<lparr>se_record_id = ''r'', se_entity_id = ''d'', se_entity_type = ''Decision'',
     se_text = replicate 200 (CHR ''x''), se_project_id = Some ''p'', se_repository_id = None,
     se_revision = None, se_source = None, se_metadata = []\<rparr>"

definition demo_sources :: context_sources where
  "demo_sources = \<lparr>so_repos = empty_repositories\<lparr>st_work_items := [(''w'', new_work_item ''w'' ''p'' ''task'')]\<rparr>,
     so_requirements = (\<lambda>i. None), so_code = empty_code_graph,
     so_graph = upsert_entities [\<lparr>ge_id = ''d'', ge_label = L_Project, ge_project_id = Some ''p'',
       ge_properties = [], ge_repository_id = None, ge_revision = None, ge_provenance = []\<rparr>] empty_knowledge_graph,
     so_index = \<lparr>ix_search = (\<lambda>q f n. [demo_record]), ix_vector = (\<lambda>q f n. None)\<rparr>, so_iso = (\<lambda>t. [])\<rparr>"

definition demo_context_request :: context_request where
  "demo_context_request = \<lparr>cq_work_item_id = ''w'', cq_project_id = Some ''p'', cq_repository_id = None,
     cq_revision = None, cq_type = Coding_Context, cq_preferred_budget = 100, cq_max_tokens = 40,
     cq_executor_capability = ''coding'', cq_risk = ''low'', cq_history = True, cq_feedback = True\<rparr>"

theorem capsule_respects_budgets_witness:
  "is_within_budget (br_capsule (fst (assemble_context demo_ops demo_sources ''i'' 0 demo_context_request True [])))"
proof -
  have "0 \<le> cq_max_tokens demo_context_request" by (simp add: demo_context_request_def)
  from capsule_respects_budgets [OF this refl] show ?thesis by blast
qed

text \<open>
  A search hit that is also a project entity is boosted above the primary task, whose relevance is
  the highest literal; and the first candidate that passes the maximum ends the selection. So one
  long hit can leave the capsule empty, the task missing, though the task alone fits.
\<close>

theorem boosted_hit_ends_selection:
  assumes "rank_candidates (gather_candidates f so q) = c # rest"
    and "cq_max_tokens q < estimate_tokens f (cd_content c)"
    and "\<And>cs. \<forall>a \<in> set (allocate f (cq_preferred_budget q) cs). 0 < al_allocated a"
  shows "cp_candidates (br_capsule (fst (assemble_context f so i now q persist store))) = []"
proof -
  let ?as = "allocate f (cq_preferred_budget q) (c # rest)"
  have "\<not> remaining a \<le> 0" if "List.find (\<lambda>a. al_category a = cd_category c) ?as = Some a" for a
  proof -
    have a: "a \<in> set ?as" using find_SomeD [OF that] by simp
    have "0 < al_allocated a" using assms(3) a by blast
    with allocate_start(2) [OF a] show ?thesis by (simp add: remaining_def)
  qed
  then have "include_candidates (estimate_tokens f) (cq_max_tokens q) (c # rest) ?as [] 0 = ([], ?as, 0)"
    using assms(2) by (simp add: Let_def split: option.splits)
  then show ?thesis by (simp add: assemble_context_def build_capsule_def assms(1) Let_def)
qed

lemma demo_gathered:
  "rank_candidates (gather_candidates demo_ops demo_sources demo_context_request) =
     [search_candidate demo_ops \<lparr>ht_record = demo_record, ht_reason = ''lexical match'', ht_source = ''lexical'',
        ht_relevance = 1100, ht_trust = 500\<rparr>, task_candidate demo_ops demo_context_request ''task'']"
proof -
  have hits: "retrieve demo_ops (so_index demo_sources) (so_graph demo_sources) query (Some ''p'') None None 20 True =
      [\<lparr>ht_record = demo_record, ht_reason = ''lexical match'', ht_source = ''lexical'', ht_relevance = 1100, ht_trust = 500\<rparr>]"
    for query
    by (simp add: retrieve_def demo_sources_def ranked_hits_def merge_hit_def demo_ops_def boost_hit_def
        find_entities_def upsert_entities_def empty_knowledge_graph_def dict_values_def demo_record_def
        sort_decreasing_def slice_first_def Let_def)
  have "gather_candidates demo_ops demo_sources demo_context_request =
      [task_candidate demo_ops demo_context_request ''task'',
       search_candidate demo_ops \<lparr>ht_record = demo_record, ht_reason = ''lexical match'', ht_source = ''lexical'',
         ht_relevance = 1100, ht_trust = 500\<rparr>]"
    using hits
    by (simp add: gather_candidates_def demo_context_request_def requirement_candidates_def symbol_candidates_def
        history_candidates_def graph_candidates_def Let_def)
      (simp add: demo_sources_def get_item_def work_item_text_def new_work_item_def executions_of_work_item_def
        list_all_items_def dict_values_def empty_repositories_def find_entities_def upsert_entities_def
        empty_knowledge_graph_def map_filter_def strip_def is_space_def code_def)
  then show ?thesis
    by (simp add: rank_candidates_def sort_decreasing_def rank_key_def task_candidate_def plain_candidate_def
        search_candidate_def demo_ops_def demo_record_def)
qed

theorem boosted_hit_ends_selection_witness:
  "cp_candidates (br_capsule (fst (assemble_context demo_ops demo_sources ''i'' 0 demo_context_request True []))) = [] \<and>
   estimate_tokens demo_ops ''task'' = 1"
proof -
  have long: "cq_max_tokens demo_context_request < estimate_tokens demo_ops (cd_content (search_candidate demo_ops
      \<lparr>ht_record = demo_record, ht_reason = ''lexical match'', ht_source = ''lexical'', ht_relevance = 1100, ht_trust = 500\<rparr>))"
    by (simp add: demo_context_request_def estimate_tokens_def search_candidate_def demo_record_def demo_ops_def)
  have "\<forall>a \<in> set (allocate demo_ops (cq_preferred_budget demo_context_request) cs). 0 < al_allocated a" for cs :: "int candidate list"
    by (auto simp: allocate_def demo_ops_def demo_context_request_def default_weights_def)
  from boosted_hit_ends_selection [OF demo_gathered long this] show ?thesis
    by (simp add: estimate_tokens_def demo_ops_def)
qed

text \<open>
  The impact analysis is asked about no symbol, so it relates no file: no symbol of a capsule is
  ever marked as primarily impacted.
\<close>

theorem symbols_never_marked_impacted:
  "\<forall>c \<in> set (symbol_candidates f q query cg). cd_reason c = ''symbol in repository at revision''"
  by (auto simp: symbol_candidates_def symbol_reason_def analyze_impact_def Let_def split: option.splits)

end
