(* ===== verification/Openproject.thy ===== *)
theory Openproject
  imports Domain Repositories
begin

text \<open>
  The OpenProject side of work management: the parser of webhook bodies
  (\<open>application/openproject_parser.py\<close>), the mapping of type, status and priority names
  (\<open>application/openproject_mapping.py\<close>), and the adapter that turns the REST answers into
  snapshots (\<open>adapters/work_management/openproject.py\<close>). The transport of the adapter is a
  parameter: calls on a world that may raise and answer with JSON.
\<close>

subsection \<open>Integers in text\<close>

text \<open>
  \<open>int(s)\<close> of a string: surrounding blanks, a sign, and decimal digits with single
  underscores between them; at most 4300 digits.
\<close>

definition int_space :: "char \<Rightarrow> bool" where
  "int_space c = (let n = code c in 9 \<le> n \<and> n \<le> 13 \<or> n = 32 \<or> n = 133 \<or> n = 160)"

definition digit_value :: "char \<Rightarrow> nat option" where
  "digit_value c = (let n = code c in if 48 \<le> n \<and> n \<le> 57 then Some (n - 48) else None)"

text \<open>The digits after one digit, with the value read so far and their number.\<close>

fun more_digits :: "nat \<Rightarrow> nat \<Rightarrow> string \<Rightarrow> (nat \<times> nat) option" where
  "more_digits v k [] = Some (v, k)"
| "more_digits v k (c # cs) =
     (case digit_value c of
        Some d \<Rightarrow> more_digits (10 * v + d) (Suc k) cs
      | None \<Rightarrow>
          (if c = CHR ''_''
           then (case cs of
                   [] \<Rightarrow> None
                 | c' # cs' \<Rightarrow>
                     (case digit_value c' of
                        None \<Rightarrow> None | Some d \<Rightarrow> more_digits (10 * v + d) (Suc k) cs'))
           else None))"

definition py_digits :: "string \<Rightarrow> nat option" where
  "py_digits s =
     (case s of
        [] \<Rightarrow> None
      | c # cs \<Rightarrow>
          (case digit_value c of
             None \<Rightarrow> None
           | Some d \<Rightarrow>
               (case more_digits d 1 cs of
                  None \<Rightarrow> None | Some (v, k) \<Rightarrow> if k \<le> 4300 then Some v else None)))"

definition py_int :: "string \<Rightarrow> int option" where
  "py_int s =
     (let t = rev (dropWhile int_space (rev (dropWhile int_space s))) in
      case t of
        [] \<Rightarrow> None
      | c # cs \<Rightarrow>
          (if c = CHR ''-'' then map_option (\<lambda>n. - int n) (py_digits cs)
           else if c = CHR ''+'' then map_option int (py_digits cs)
           else map_option int (py_digits t)))"

subsection \<open>Snapshots and the parser\<close>

datatype semantic_change = Summary_Changed | Description_Changed | Assignee_Changed | State_Changed
  | Priority_Changed | Parent_Changed

fun semantic_change_value :: "semantic_change \<Rightarrow> string" where
  "semantic_change_value Summary_Changed = ''summary_changed''"
| "semantic_change_value Description_Changed = ''description_changed''"
| "semantic_change_value Assignee_Changed = ''assignee_changed''"
| "semantic_change_value State_Changed = ''state_changed''"
| "semantic_change_value Priority_Changed = ''priority_changed''"
| "semantic_change_value Parent_Changed = ''parent_changed''"

type_synonym raw_dict = "(string \<times> json) list"

record work_item_snapshot =
  ws_external_id :: string
  ws_summary :: string
  ws_description :: string
  ws_type :: string
  ws_priority :: string
  ws_state :: string
  ws_closed :: bool
  ws_project_id :: "string option"
  ws_project_name :: "string option"
  ws_assignee_id :: "string option"
  ws_assignee_name :: "string option"
  ws_parent_id :: "int option"
  ws_attachments :: "raw_dict list"
  ws_relations :: "raw_dict list"
  ws_activities_url :: "string option"
  ws_created_at :: "string option"
  ws_updated_at :: "string option"

text \<open>\<open>str(x or "")\<close>.\<close>

definition str_or_empty :: "json \<Rightarrow> string" where
  "str_or_empty v = py_str (py_or v (JStr []))"

definition parse_action :: "raw_dict \<Rightarrow> string" where
  "parse_action body =
     (case jget body ''action'' of
        JStr (c # cs) \<Rightarrow> c # cs
      | _ \<Rightarrow> (let t = py_or (jget body ''eventType'') (jget body ''event_type'')
              in if truthy t then py_str t else []))"

definition id_from_href :: "string option \<Rightarrow> int option" where
  "id_from_href href =
     (case href of
        None \<Rightarrow> None
      | Some h \<Rightarrow>
          if h = [] then None
          else py_int (last (split_on (CHR ''/'') (rev (dropWhile (\<lambda>c. c = CHR ''/'') (rev h))))))"

text \<open>The elements of a list that are dictionaries, each reduced to the fields that are kept.\<close>

definition normalize_elements :: "(raw_dict \<Rightarrow> raw_dict) \<Rightarrow> json \<Rightarrow> raw_dict list" where
  "normalize_elements f v =
     (case v of
        JList xs \<Rightarrow> List.map_filter (\<lambda>x. case x of JDict d \<Rightarrow> Some (f d) | _ \<Rightarrow> None) xs
      | _ \<Rightarrow> [])"

definition normalize_attachments :: "json \<Rightarrow> raw_dict list" where
  "normalize_attachments =
     normalize_elements (\<lambda>d.
       [(''id'', jget d ''id''), (''file_name'', jget d ''fileName''),
        (''content_type'', jget d ''contentType''), (''file_size'', jget d ''fileSize''),
        (''download_url'', jget (as_dict (jget (as_dict (jget d ''_links'')) ''downloadLocation'')) ''href'')])"

definition normalize_relations :: "json \<Rightarrow> raw_dict list" where
  "normalize_relations =
     normalize_elements (\<lambda>d.
       [(''id'', jget d ''id''), (''source_id'', jget d ''from''), (''target_id'', jget d ''to''),
        (''relation_type'', jget d ''type'')])"

definition parse_work_item :: "raw_dict \<Rightarrow> work_item_snapshot option" where
  "parse_work_item body =
     (case jget body ''work_package'' of
        JDict wp \<Rightarrow>
          (let embedded = as_dict (jget wp ''_embedded'');
               links = as_dict (jget wp ''_links'');
               external_id = str_or_empty (py_or (jget wp ''id'') (jget wp ''_id''));
               part = (\<lambda>k. as_dict (jget embedded k));
               href = (\<lambda>k. optional_str (jget (as_dict (jget links k)) ''href''));
               elements = (\<lambda>k. py_or (jget (as_dict (jget (part k) ''_embedded'')) ''elements'') (JList []))
           in if external_id = [] then None
              else Some
                \<lparr>ws_external_id = external_id,
                 ws_summary = str_or_empty (jget wp ''subject''),
                 ws_description = (case jget wp ''description'' of
                                     JDict d \<Rightarrow> str_or_empty (jget d ''raw'') | _ \<Rightarrow> []),
                 ws_type = str_or_empty (jget (part ''type'') ''name''),
                 ws_priority = str_or_empty (jget (part ''priority'') ''name''),
                 ws_state = str_or_empty (jget (part ''status'') ''name''),
                 ws_closed = truthy (jget (part ''status'') ''isClosed''),
                 ws_project_id = optional_str (jget (part ''project'') ''id''),
                 ws_project_name = optional_str (jget (part ''project'') ''name''),
                 ws_assignee_id = optional_str (jget (part ''assignee'') ''id''),
                 ws_assignee_name = optional_str (jget (part ''assignee'') ''name''),
                 ws_parent_id = id_from_href (href ''parent''),
                 ws_attachments = normalize_attachments (elements ''attachments''),
                 ws_relations = normalize_relations (elements ''relations''),
                 ws_activities_url = href ''activities'',
                 ws_created_at = optional_str (jget wp ''createdAt''),
                 ws_updated_at = optional_str (jget wp ''updatedAt'')\<rparr>)
      | _ \<Rightarrow> None)"

text \<open>The dictionaries of a project and of an attachment payload; empty when there is none.\<close>

definition parse_project :: "raw_dict \<Rightarrow> raw_dict" where
  "parse_project body =
     (case jget body ''project'' of
        JDict p \<Rightarrow>
          [(''external_id'', JStr (str_or_empty (jget p ''id''))),
           (''name'', JStr (str_or_empty (jget p ''name''))),
           (''identifier'', JStr (str_or_empty (jget p ''identifier''))),
           (''active'', JBool (truthy (jget p ''active''))),
           (''parent_id'', jopt JStr (optional_str
              (jget (as_dict (jget (as_dict (jget p ''_embedded'')) ''parent'')) ''id''))),
           (''created_at'', jopt JStr (optional_str (jget p ''createdAt''))),
           (''updated_at'', jopt JStr (optional_str (jget p ''updatedAt'')))]
      | _ \<Rightarrow> [])"

definition parse_attachment :: "raw_dict \<Rightarrow> raw_dict" where
  "parse_attachment body =
     (case jget body ''attachment'' of
        JDict a \<Rightarrow>
          (let container = as_dict (jget (as_dict (jget a ''_embedded'')) ''container'') in
           [(''external_id'', JStr (str_or_empty (jget a ''id''))),
            (''file_name'', JStr (str_or_empty (jget a ''fileName''))),
            (''content_type'', JStr (str_or_empty (jget a ''contentType''))),
            (''file_size'', jget a ''fileSize''),
            (''download_url'', jget (as_dict (jget (as_dict (jget a ''_links'')) ''downloadLocation'')) ''href''),
            (''work_item_id'', if jget container ''_type'' = JStr ''WorkPackage''
                               then jopt JStr (optional_str (jget container ''id'')) else JNull),
            (''created_at'', jopt JStr (optional_str (jget a ''createdAt'')))])
      | _ \<Rightarrow> [])"

definition diff_snapshots :: "work_item_snapshot option \<Rightarrow> work_item_snapshot \<Rightarrow> semantic_change list" where
  "diff_snapshots previous current =
     (case previous of
        None \<Rightarrow> []
      | Some p \<Rightarrow>
          (if ws_summary p \<noteq> ws_summary current then [Summary_Changed] else []) @
          (if ws_description p \<noteq> ws_description current then [Description_Changed] else []) @
          (if ws_assignee_id p \<noteq> ws_assignee_id current then [Assignee_Changed] else []) @
          (if ws_state p \<noteq> ws_state current then [State_Changed] else []) @
          (if ws_priority p \<noteq> ws_priority current then [Priority_Changed] else []) @
          (if ws_parent_id p \<noteq> ws_parent_id current then [Parent_Changed] else []))"

definition event_type_for_action :: "string \<Rightarrow> event_type option" where
  "event_type_for_action action =
     map_of [(''work_package:created'', WORK_ITEM_CREATED), (''work_package:updated'', WORK_ITEM_CHANGED)] action"

subsection \<open>Names to canonical values\<close>

definition type_aliases :: "(string, work_item_type) dict" where
  "type_aliases =
     [(''epic'', Epic), (''feature'', Feature), (''story'', Story), (''user story'', Story),
      (''user_story'', Story), (''task'', Task), (''bug'', Bug), (''defect'', Bug),
      (''investigation'', Investigation), (''refactoring'', Refactoring),
      (''verification'', Verification_Item), (''documentation'', Documentation),
      (''operations'', Operations), (''milestone'', Task), (''phase'', Task)]"

definition status_aliases :: "(string, human_work_status) dict" where
  "status_aliases =
     [(''new'', Hw_New), (''in specification'', Hw_In_Progress), (''in progress'', Hw_In_Progress),
      (''in development'', Hw_In_Progress), (''in review'', Hw_In_Progress), (''in test'', Hw_In_Progress),
      (''blocked'', Hw_Blocked), (''done'', Hw_Done), (''closed'', Hw_Done), (''rejected'', Hw_Cancelled),
      (''cancelled'', Hw_Cancelled), (''canceled'', Hw_Cancelled)]"

definition priority_aliases :: "(string, priority) dict" where
  "priority_aliases =
     [(''low'', Low), (''normal'', Medium), (''medium'', Medium), (''high'', High), (''urgent'', Urgent),
      (''immediate'', Critical)]"

definition alias_of :: "(string, 'a) dict \<Rightarrow> string \<Rightarrow> 'a option" where
  "alias_of d raw = (if raw = [] then None else dict_get d (lower (strip raw)))"

definition map_work_item_type_or_none :: "string \<Rightarrow> work_item_type option" where
  "map_work_item_type_or_none raw = alias_of type_aliases raw"

definition map_human_work_status_or_none :: "string \<Rightarrow> human_work_status option" where
  "map_human_work_status_or_none raw = alias_of status_aliases raw"

definition map_work_item_type :: "string \<Rightarrow> work_item_type" where
  "map_work_item_type raw = (case alias_of type_aliases raw of None \<Rightarrow> Task | Some t \<Rightarrow> t)"

definition map_human_work_status :: "string \<Rightarrow> human_work_status" where
  "map_human_work_status raw = (case alias_of status_aliases raw of None \<Rightarrow> Hw_New | Some t \<Rightarrow> t)"

definition map_priority :: "string \<Rightarrow> priority option" where
  "map_priority raw = alias_of priority_aliases raw"

subsection \<open>The adapter\<close>

record provider_project =
  pp_external_id :: string
  pp_name :: string
  pp_identifier :: string
  pp_description :: string
  pp_active :: bool
  pp_parent :: "string option"

record provider_activity =
  pa_external_id :: string
  pa_author :: string
  pa_text :: string
  pa_created_at :: "string option"

text \<open>
  The REST calls the adapter makes: an offset and a page size, a start time and a project where
  the call has them.
\<close>

record 'w op_transport =
  tr_work_package :: "string \<Rightarrow> 'w \<Rightarrow> ('w, raw_dict) outcome"
  tr_updated_page :: "datetime \<Rightarrow> int \<Rightarrow> int \<Rightarrow> string option \<Rightarrow> 'w \<Rightarrow> ('w, json list) outcome"
  tr_projects :: "'w \<Rightarrow> ('w, raw_dict list) outcome"
  tr_project_page :: "string \<Rightarrow> int \<Rightarrow> int \<Rightarrow> 'w \<Rightarrow> ('w, json list) outcome"
  tr_activities :: "string \<Rightarrow> 'w \<Rightarrow> ('w, raw_dict list) outcome"
  tr_create :: "raw_dict \<Rightarrow> 'w \<Rightarrow> ('w, raw_dict) outcome"
  tr_create_project :: "string \<Rightarrow> string option \<Rightarrow> 'w \<Rightarrow> ('w, raw_dict) outcome"

text \<open>The port the bootstrap and the pull use.\<close>

record 'w bootstrap_port =
  bp_projects :: "'w \<Rightarrow> ('w, provider_project list) outcome"
  bp_work_packages :: "string \<Rightarrow> int \<Rightarrow> int \<Rightarrow> 'w \<Rightarrow> ('w, work_item_snapshot list) outcome"
  bp_changed :: "datetime \<Rightarrow> int \<Rightarrow> int \<Rightarrow> string option \<Rightarrow> 'w \<Rightarrow> ('w, work_item_snapshot list) outcome"
  bp_snapshot :: "string \<Rightarrow> 'w \<Rightarrow> ('w, work_item_snapshot option) outcome"
  bp_activities :: "string \<Rightarrow> 'w \<Rightarrow> ('w, provider_activity list) outcome"

text \<open>\<open>x or {}\<close>, read with \<open>get\<close>: what is neither falsy nor a dictionary has no such attribute.\<close>

fun class_name :: "json \<Rightarrow> string" where
  "class_name JNull = ''NoneType''"
| "class_name (JBool _) = ''bool''"
| "class_name (JInt _) = ''int''"
| "class_name (JStr _) = ''str''"
| "class_name (JList _) = ''list''"
| "class_name (JDict _) = ''dict''"

definition dict_or_empty :: "json \<Rightarrow> exn + raw_dict" where
  "dict_or_empty v =
     (if \<not> truthy v then Inr []
      else (case v of
              JDict d \<Rightarrow> Inr d
            | _ \<Rightarrow> Inl (Exn ''AttributeError''
                      ([CHR 0x27] @ class_name v @ [CHR 0x27] @ '' object has no attribute '' @
                       [CHR 0x27] @ ''get'' @ [CHR 0x27]))))"

definition bind_sum :: "exn + 'a \<Rightarrow> ('a \<Rightarrow> exn + 'b) \<Rightarrow> exn + 'b" where
  "bind_sum m f = (case m of Inl e \<Rightarrow> Inl e | Inr a \<Rightarrow> f a)"

fun map_sum_list :: "('a \<Rightarrow> exn + 'b) \<Rightarrow> 'a list \<Rightarrow> exn + 'b list" where
  "map_sum_list f [] = Inr []"
| "map_sum_list f (x # xs) = bind_sum (f x) (\<lambda>y. bind_sum (map_sum_list f xs) (\<lambda>ys. Inr (y # ys)))"

definition provider_project_of :: "raw_dict \<Rightarrow> exn + provider_project" where
  "provider_project_of raw =
     bind_sum (dict_or_empty (jget raw ''_embedded'')) (\<lambda>embedded.
       bind_sum (dict_or_empty (jget embedded ''parent'')) (\<lambda>parent.
         Inr \<lparr>pp_external_id = str_or_empty (jget raw ''id''), pp_name = str_or_empty (jget raw ''name''),
              pp_identifier = str_or_empty (jget raw ''identifier''),
              pp_description = str_or_empty (jget raw ''description''),
              pp_active = (case map_of raw ''active'' of None \<Rightarrow> True | Some v \<Rightarrow> truthy v),
              pp_parent = optional_str (jget parent ''id'')\<rparr>))"

definition provider_activity_of :: "raw_dict \<Rightarrow> exn + provider_activity" where
  "provider_activity_of raw =
     bind_sum (dict_or_empty (jget raw ''_embedded'')) (\<lambda>embedded.
       bind_sum (dict_or_empty (jget embedded ''comment'')) (\<lambda>comment.
         bind_sum (dict_or_empty (jget embedded ''author'')) (\<lambda>author.
           (let made = str_or_empty (jget raw ''createdAt'') in
            Inr \<lparr>pa_external_id = str_or_empty (jget raw ''id''), pa_author = str_or_empty (jget author ''name''),
                 pa_text = py_str (py_or (py_or (jget comment ''raw'') (jget comment ''html'')) (JStr [])),
                 pa_created_at = (if made = [] then None else Some made)\<rparr>))))"

definition snapshot_of :: "json \<Rightarrow> work_item_snapshot option" where
  "snapshot_of raw = parse_work_item [(''work_package'', raw)]"

text \<open>Packages without an id are dropped from the page.\<close>

definition page_snapshots :: "json list \<Rightarrow> work_item_snapshot list" where
  "page_snapshots raws = List.map_filter snapshot_of raws"

definition answer :: "('a \<Rightarrow> exn + 'b) \<Rightarrow> ('w, 'a) outcome \<Rightarrow> ('w, 'b) outcome" where
  "answer f m = (case m of (Inl e, w) \<Rightarrow> (Inl e, w) | (Inr a, w) \<Rightarrow> (f a, w))"

definition openproject_provider :: "'w op_transport \<Rightarrow> 'w bootstrap_port" where
  "openproject_provider tr =
     \<lparr>bp_projects = (\<lambda>w. answer (map_sum_list provider_project_of) (tr_projects tr w)),
      bp_work_packages = (\<lambda>p offset size w. answer (Inr \<circ> page_snapshots) (tr_project_page tr p offset size w)),
      bp_changed = (\<lambda>since offset size p w.
        answer (Inr \<circ> page_snapshots) (tr_updated_page tr since offset size p w)),
      bp_snapshot = (\<lambda>x w. answer (Inr \<circ> snapshot_of \<circ> JDict) (tr_work_package tr x w)),
      bp_activities = (\<lambda>x w. answer (map_sum_list provider_activity_of) (tr_activities tr x w))\<rparr>"

fun work_item_type_value :: "work_item_type \<Rightarrow> string" where
  "work_item_type_value Epic = ''epic''"
| "work_item_type_value Feature = ''feature''"
| "work_item_type_value Story = ''story''"
| "work_item_type_value Task = ''task''"
| "work_item_type_value Bug = ''bug''"
| "work_item_type_value Investigation = ''investigation''"
| "work_item_type_value Refactoring = ''refactoring''"
| "work_item_type_value Verification_Item = ''verification''"
| "work_item_type_value Documentation = ''documentation''"
| "work_item_type_value Operations = ''operations''"

text \<open>
  \<open>_to_work_item\<close>: the status must be the value of a canonical status, otherwise pydantic
  rejects the model (\<open>None\<close>); a package without one is new. The id is drawn.
\<close>

fun human_work_status_of :: "json \<Rightarrow> human_work_status option" where
  "human_work_status_of (JStr x) =
     List.find (\<lambda>h. human_work_status_value h = x) [Hw_New, Hw_In_Progress, Hw_Blocked, Hw_Done, Hw_Cancelled]"
| "human_work_status_of _ = None"

definition to_work_item :: "uuid \<Rightarrow> uuid \<Rightarrow> external_reference \<Rightarrow> raw_dict \<Rightarrow> work_item option" where
  "to_work_item i project ref raw =
     map_option (\<lambda>h. (new_work_item i project
         (py_str (py_or (py_or (jget raw ''subject'') (jget raw ''title'')) (JStr (ref_external_id ref)))))
       \<lparr>wi_description := str_or_empty (jget raw ''description''), wi_human := h, wi_external_refs := [ref]\<rparr>)
       (case map_of raw ''status'' of None \<Rightarrow> Some Hw_New | Some v \<Rightarrow> human_work_status_of v)"

definition openproject_ref :: "string \<Rightarrow> string \<Rightarrow> external_reference" where
  "openproject_ref t x =
     \<lparr>ref_provider = ''openproject'', ref_external_id = x, ref_external_type = Some t, ref_url = None,
      ref_namespace = None\<rparr>"

text \<open>\<open>publish_work_item\<close> and \<open>create_project\<close>: the reference of what the provider created.\<close>

definition created_ref :: "string \<Rightarrow> raw_dict \<Rightarrow> external_reference" where
  "created_ref t created = openproject_ref t (str_or_empty (py_or (jget created ''id'') (jget created ''_id'')))"

definition work_package_payload :: "work_item \<Rightarrow> raw_dict" where
  "work_package_payload w =
     [(''subject'', JStr (wi_title w)), (''description'', JStr (wi_description w)),
      (''type'', JStr (work_item_type_value (wi_type w))),
      (''status'', JStr (human_work_status_value (wi_human w)))]"

definition publish_work_package :: "'w op_transport \<Rightarrow> work_item \<Rightarrow> 'w \<Rightarrow> ('w, external_reference) outcome" where
  "publish_work_package tr w v =
     answer (Inr \<circ> created_ref ''work_package'') (tr_create tr (work_package_payload w) v)"

definition create_provider_project :: "'w op_transport \<Rightarrow> string \<Rightarrow> string option \<Rightarrow> 'w
    \<Rightarrow> ('w, external_reference) outcome" where
  "create_provider_project tr name desc v =
     answer (Inr \<circ> created_ref ''project'') (tr_create_project tr name desc v)"

text \<open>\<open>_project_identifier\<close>; letters, digits and the numeric characters count as alphanumeric.\<close>

definition is_alnum :: "char \<Rightarrow> bool" where
  "is_alnum c =
     (let n = code c in
      48 \<le> n \<and> n \<le> 57 \<or> 65 \<le> n \<and> n \<le> 90 \<or> 97 \<le> n \<and> n \<le> 122 \<or>
      n \<in> {170, 178, 179, 181, 185, 186, 188, 189, 190} \<or> 192 \<le> n \<and> n \<noteq> 215 \<and> n \<noteq> 247)"

fun slug_chars :: "string \<Rightarrow> string \<Rightarrow> string" where
  "slug_chars acc [] = rev acc"
| "slug_chars acc (c # cs) =
     (if is_alnum c then slug_chars (c # acc) cs
      else (case acc of
              a # _ \<Rightarrow> if a \<noteq> CHR ''_'' then slug_chars (CHR ''_'' # acc) cs else slug_chars acc cs
            | [] \<Rightarrow> slug_chars acc cs))"

definition strip_underscores :: "string \<Rightarrow> string" where
  "strip_underscores s =
     rev (dropWhile (\<lambda>c. c = CHR ''_'') (rev (dropWhile (\<lambda>c. c = CHR ''_'') s)))"

definition project_identifier :: "string \<Rightarrow> string" where
  "project_identifier name =
     (let i = strip_underscores (slug_chars [] (lower (strip name))) in if i = [] then ''project'' else i)"

subsection \<open>Facts about the parser\<close>

lemma code_char_of [simp]: "n < 256 \<Longrightarrow> code (char_of n) = n"
  by (simp add: code_def)

lemma digit_value_of [simp]: "d < 10 \<Longrightarrow> digit_value (char_of (48 + d)) = Some d"
  by (simp add: digit_value_def)

definition all_digits :: "string \<Rightarrow> bool" where
  "all_digits s = (\<forall>c \<in> set s. digit_value c \<noteq> None)"

definition places_value :: "nat \<Rightarrow> string \<Rightarrow> nat" where
  "places_value v s = foldl (\<lambda>v c. 10 * v + the (digit_value c)) v s"

lemma more_digits_all: "all_digits s \<Longrightarrow> more_digits v k s = Some (places_value v s, k + length s)"
  by (induction s arbitrary: v k) (auto simp: all_digits_def places_value_def)

lemma digits_snoc:
  "all_digits s \<Longrightarrow> d < 10 \<Longrightarrow> all_digits (s @ [char_of (48 + d)]) \<and>
     places_value v (s @ [char_of (48 + d)]) = 10 * places_value v s + d"
  by (simp add: all_digits_def places_value_def)

lemma numeral_digits: "all_digits (str_nat n) \<and> places_value 0 (str_nat n) = n"
proof (induction n rule: less_induct)
  case (less n)
  show ?case
  proof (cases "n < 10")
    case True
    then have "str_nat n = [char_of (48 + n)]" by (subst str_nat.simps) simp
    with True show ?thesis by (simp add: all_digits_def places_value_def)
  next
    case False
    then have "str_nat n = str_nat (n div 10) @ [char_of (48 + n mod 10)]" by (subst str_nat.simps) simp
    moreover have "n div 10 < n" using False by simp
    ultimately show ?thesis using less [of "n div 10"] digits_snoc [of "str_nat (n div 10)" "n mod 10" 0] by simp
  qed
qed

lemma dropWhile_replicate: "P x \<Longrightarrow> dropWhile P (replicate k x @ ys) = dropWhile P ys"
  by (induction k) simp_all

lemma py_digits_str_nat:
  assumes "length (str_nat n) \<le> 4300"
  shows "py_digits (str_nat n) = Some n"
proof (cases "str_nat n")
  case (Cons c cs)
  from numeral_digits [of n] Cons obtain d where "digit_value c = Some d" "all_digits cs" "places_value d cs = n"
    by (auto simp: all_digits_def places_value_def)
  with assms Cons show ?thesis by (simp add: py_digits_def more_digits_all)
qed simp

text \<open>A digit is neither blank, nor a sign, nor a slash.\<close>

lemma digit_char:
  assumes "digit_value c = Some d"
  shows "\<not> int_space c" "c \<noteq> CHR ''-''" "c \<noteq> CHR ''+''" "c \<noteq> CHR ''/''"
  using assms by (auto simp: digit_value_def int_space_def code_def Let_def split: if_splits)

lemma all_digits_char:
  assumes "all_digits s" and "c \<in> set s"
  shows "\<not> int_space c" "c \<noteq> CHR ''-''" "c \<noteq> CHR ''+''" "c \<noteq> CHR ''/''"
proof -
  from assms obtain d where "digit_value c = Some d" unfolding all_digits_def by blast
  then show "\<not> int_space c" "c \<noteq> CHR ''-''" "c \<noteq> CHR ''+''" "c \<noteq> CHR ''/''" by (rule digit_char)+
qed

lemma dropWhile_first: "\<lbrakk>xs \<noteq> []; \<not> P (hd xs)\<rbrakk> \<Longrightarrow> dropWhile P xs = xs"
  by (cases xs) auto

lemma py_int_digits:
  assumes "all_digits s" and "s \<noteq> []"
  shows "py_int s = map_option int (py_digits s)"
proof -
  have "hd s \<in> set s" "last s \<in> set s" using assms(2) by simp_all
  then have "\<not> int_space (hd s)" "\<not> int_space (last s)" using all_digits_char(1) [OF assms(1)] by blast+
  then have "dropWhile int_space s = s" "dropWhile int_space (rev s) = rev s"
    using assms(2) by (simp_all add: dropWhile_first hd_rev)
  moreover obtain c cs where "s = c # cs" using assms(2) by (cases s) auto
  moreover from this have "c \<noteq> CHR ''-''" "c \<noteq> CHR ''+''"
    using all_digits_char(2,3) [OF assms(1), of c] by simp_all
  ultimately show ?thesis by (simp add: py_int_def Let_def)
qed

lemma split_on_no: "c \<notin> set s \<Longrightarrow> split_on c s = [s]"
  by (induction s) auto

lemma split_on_append: "split_on c (a @ c # b) = split_on c a @ split_on c b"
  by (induction a) (auto split: list.splits)

text \<open>
  The link to a parent - a path, a slash, the decimal id of a package, any number of
  slashes - is read back as that id.
\<close>

theorem href_roundtrip:
  assumes "length (str_nat n) \<le> 4300"
  shows "id_from_href (Some (path @ ''/'' @ str_nat n @ replicate k (CHR ''/''))) = Some (int n)"
proof -
  let ?sl = "CHR ''/''"
  have d: "all_digits (str_nat n)" using numeral_digits by simp
  have no: "?sl \<notin> set (str_nat n)" using all_digits_char(4) [OF d] by blast
  have "dropWhile (\<lambda>c. c = ?sl) (rev (path @ [?sl] @ str_nat n @ replicate k ?sl)) =
      dropWhile (\<lambda>c. c = ?sl) (rev (str_nat n) @ ?sl # rev path)"
    by (simp add: dropWhile_replicate)
  also have "\<dots> = rev (str_nat n) @ ?sl # rev path"
  proof (rule dropWhile_first)
    show "rev (str_nat n) @ ?sl # rev path \<noteq> []" by simp
    have "hd (rev (str_nat n)) \<in> set (str_nat n)" by (simp add: hd_rev)
    with no show "hd (rev (str_nat n) @ ?sl # rev path) \<noteq> ?sl" by (auto simp: hd_append)
  qed
  finally have "rev (dropWhile (\<lambda>c. c = ?sl) (rev (path @ [?sl] @ str_nat n @ replicate k ?sl))) =
      path @ ?sl # str_nat n" by simp
  then show ?thesis
    by (simp add: id_from_href_def split_on_append split_on_no [OF no] py_int_digits [OF d]
        py_digits_str_nat [OF assms])
qed

theorem href_roundtrip_witness:
  "id_from_href (Some ''/api/v3/work_packages/1042/'') = Some 1042"
proof -
  have s: "str_nat 1042 = ''1042''" by code_simp
  show ?thesis using href_roundtrip [of 1042 "''/api/v3/work_packages''" 1] by (simp add: s)
qed

end
