(* ===== verification/Documents.thy ===== *)
theory Documents
  imports Repositories Code_Graph
begin

text \<open>
  Documents and their ingestion: \<open>domain/documents.py\<close>, \<open>domain/parsing.py\<close>,
  \<open>domain/decisions.py\<close>, the document and decision repositories of
  \<open>adapters/in_memory/repositories.py\<close>, \<open>adapters/parsers/registry.py\<close>,
  \<open>adapters/parsers/adr.py\<close> and \<open>application/document_ingestion.py\<close>.

  Parsers, the reference extractor and the entity extractor are the injected ports of the service;
  \<open>sha\<close> is the hexadecimal SHA-256 digest. Bytes are strings, and the identifiers the service
  draws are inputs.
\<close>

subsection \<open>The domain\<close>

datatype document_type = Readme_Doc | Requirements_Doc | Architecture_Doc | Adr_Doc | Api_Spec_Doc
  | General_Doc

record document_source =
  do_provider :: string
  do_uri :: string
  do_mime_type :: "string option"
  do_external_ref :: "external_reference option"

record source_artifact =
  sa_source_uri :: string
  sa_provider :: string
  sa_mime_type :: "string option"
  sa_file_name :: "string option"
  sa_revision :: "string option"
  sa_content_hash :: "string option"
  sa_raw_bytes_ref :: "string option"
  sa_content :: "string option"
  sa_metadata :: "(string \<times> json) list"

definition new_artifact :: "string \<Rightarrow> string \<Rightarrow> source_artifact" where
  "new_artifact uri provider =
     \<lparr>sa_source_uri = uri, sa_provider = provider, sa_mime_type = None, sa_file_name = None, sa_revision = None,
      sa_content_hash = None, sa_raw_bytes_ref = None, sa_content = None, sa_metadata = []\<rparr>"

record document_version =
  dv_id :: uuid
  dv_document_id :: uuid
  dv_source_version :: "string option"
  dv_repository_id :: "uuid option"
  dv_commit_sha :: "string option"
  dv_checksum :: string
  dv_ingested_at :: datetime
  dv_content_uri :: "string option"

record document =
  dc_id :: uuid
  dc_project_id :: uuid
  dc_type :: document_type
  dc_title :: string
  dc_source :: document_source
  dc_current_version :: "uuid option"
  dc_external_refs :: "external_reference list"

datatype document_node_type = Section_Node | Paragraph_Node | Code_Block_Node | Table_Node | List_Node
  | Front_Matter_Node | Adr_Context_Node | Adr_Decision_Node | Adr_Alternatives_Node
  | Adr_Consequences_Node

record document_node =
  dn_id :: uuid
  dn_version_id :: uuid
  dn_type :: document_node_type
  dn_title :: "string option"
  dn_heading_path :: "string list"
  dn_content :: string
  dn_parent_id :: "uuid option"
  dn_child_ids :: "uuid list"
  dn_code_refs :: "string list"
  dn_requirement_refs :: "uuid list"
  dn_work_item_refs :: "uuid list"
  dn_links :: "string list"
  dn_unresolved_refs :: "string list"

datatype reference_kind = Requirement_Ref | Work_Item_Ref | Adr_Ref | File_Path_Ref | Symbol_Ref | Url_Ref

record extracted_reference =
  er_kind :: reference_kind
  er_value :: string
  er_raw :: string
  er_resolved :: bool

record parsed_node =
  pn_id :: uuid
  pn_type :: document_node_type
  pn_title :: "string option"
  pn_heading_path :: "string list"
  pn_content :: string
  pn_parent_id :: "uuid option"
  pn_child_ids :: "uuid list"
  pn_links :: "string list"
  pn_references :: "extracted_reference list"
  pn_order :: int

record adr_sections =
  ad_context :: string
  ad_decision :: string
  ad_alternatives :: "string list"
  ad_consequences :: "string list"
  ad_status :: "string option"

record parsed_document =
  pd_source :: source_artifact
  pd_title :: "string option"
  pd_type :: document_type
  pd_front_matter :: "(string \<times> json) list"
  pd_nodes :: "parsed_node list"
  pd_unresolved :: "extracted_reference list"
  pd_adr :: "adr_sections option"

record candidate_requirement =
  kr_title :: string
  kr_description :: string
  kr_source_uri :: string

record semantic_chunk =
  sk_id :: uuid
  sk_document_id :: uuid
  sk_version_id :: uuid
  sk_node_id :: "uuid option"
  sk_heading_path :: "string list"
  sk_content :: string
  sk_project_id :: "uuid option"
  sk_repository_id :: "uuid option"
  sk_commit_sha :: "string option"
  sk_type :: document_type
  sk_index :: nat

datatype decision_status = Ds_Proposed | Ds_Accepted | Ds_Superseded | Ds_Rejected | Ds_Deprecated

fun decision_status_value :: "decision_status \<Rightarrow> string" where
  "decision_status_value Ds_Proposed = ''proposed''"
| "decision_status_value Ds_Accepted = ''accepted''"
| "decision_status_value Ds_Superseded = ''superseded''"
| "decision_status_value Ds_Rejected = ''rejected''"
| "decision_status_value Ds_Deprecated = ''deprecated''"

record adr_record =
  de_id :: uuid
  de_project_id :: uuid
  de_title :: string
  de_context :: string
  de_decision :: string
  de_alternatives :: "string list"
  de_consequences :: "string list"
  de_status :: decision_status

subsection \<open>The repositories\<close>

record document_store =
  ds_documents :: "document collection"
  ds_versions :: "document_version collection"
  ds_nodes :: "document_node collection"
  ds_decisions :: "adr_record collection"

definition save_document :: "document \<Rightarrow> document_store \<Rightarrow> document_store" where
  "save_document d s = s\<lparr>ds_documents := upsert d (dc_id d) (ds_documents s)\<rparr>"

definition documents_of_project :: "uuid \<Rightarrow> document_store \<Rightarrow> document list" where
  "documents_of_project p s = filter (\<lambda>d. dc_project_id d = p) (list_all_items (ds_documents s))"

definition find_by_source :: "uuid \<Rightarrow> string \<Rightarrow> document_store \<Rightarrow> document option" where
  "find_by_source p uri s =
     List.find (\<lambda>d. dc_project_id d = p \<and> do_uri (dc_source d) = uri) (list_all_items (ds_documents s))"

definition delete_document :: "uuid \<Rightarrow> document_store \<Rightarrow> document_store" where
  "delete_document i s = s\<lparr>ds_documents := delete_item i (ds_documents s)\<rparr>"

definition add_version :: "document_version \<Rightarrow> document_store \<Rightarrow> document_store" where
  "add_version v s = s\<lparr>ds_versions := upsert v (dv_id v) (ds_versions s)\<rparr>"

definition versions_of_document :: "uuid \<Rightarrow> document_store \<Rightarrow> document_version list" where
  "versions_of_document d s = filter (\<lambda>v. dv_document_id v = d) (list_all_items (ds_versions s))"

definition add_node :: "document_node \<Rightarrow> document_store \<Rightarrow> document_store" where
  "add_node n s = s\<lparr>ds_nodes := upsert n (dn_id n) (ds_nodes s)\<rparr>"

definition nodes_of_version :: "uuid \<Rightarrow> document_store \<Rightarrow> document_node list" where
  "nodes_of_version v s = filter (\<lambda>n. dn_version_id n = v) (list_all_items (ds_nodes s))"

definition save_decision :: "adr_record \<Rightarrow> document_store \<Rightarrow> document_store" where
  "save_decision d s = s\<lparr>ds_decisions := upsert d (de_id d) (ds_decisions s)\<rparr>"

definition decisions_of_project :: "uuid \<Rightarrow> document_store \<Rightarrow> adr_record list" where
  "decisions_of_project p s = filter (\<lambda>d. de_project_id d = p) (list_all_items (ds_decisions s))"

subsection \<open>Parsers and their registry\<close>

record parser =
  ps_name :: string
  ps_can :: "source_artifact \<Rightarrow> bool"
  ps_parse :: "source_artifact \<Rightarrow> exn + parsed_document"

text \<open>A registered parser carries its object identity: registering the same object twice has no effect.\<close>

type_synonym parser_registry = "(nat \<times> parser) list"

definition register_parser :: "nat \<times> parser \<Rightarrow> parser_registry \<Rightarrow> parser_registry" where
  "register_parser p ps = (if fst p \<in> set (map fst ps) then ps else ps @ [p])"

definition select_parser :: "source_artifact \<Rightarrow> parser_registry \<Rightarrow> parser option" where
  "select_parser a ps = map_option snd (List.find (\<lambda>p. ps_can (snd p) a) ps)"

subsection \<open>The parser of decision records\<close>

text \<open>
  \<open>s.title()\<close>: a cased character after an uncased one is capitalised, any other is lowered.
  Of the model's characters, the micro sign and y with diaeresis have their capital outside the
  range and stay as they are.
\<close>

definition is_cased :: "char \<Rightarrow> bool" where
  "is_cased c =
     (let n = code c in
      65 \<le> n \<and> n \<le> 90 \<or> 97 \<le> n \<and> n \<le> 122 \<or> n \<in> {170, 181, 186} \<or> 192 \<le> n \<and> n \<noteq> 215 \<and> n \<noteq> 247)"

definition title_char :: "char \<Rightarrow> string" where
  "title_char c =
     (let n = code c in
      if n = 223 then ''Ss''
      else if 97 \<le> n \<and> n \<le> 122 \<or> 224 \<le> n \<and> n \<le> 254 \<and> n \<noteq> 247 then [char_of (n - 32)] else [c])"

fun title_case :: "bool \<Rightarrow> string \<Rightarrow> string" where
  "title_case after [] = []"
| "title_case after (c # cs) =
     (if after then [lower_char c] else title_char c) @ title_case (is_cased c) cs"

definition rstrip_char :: "char \<Rightarrow> string \<Rightarrow> string" where
  "rstrip_char c s = rev (dropWhile (\<lambda>x. x = c) (rev s))"

text \<open>\<open>s.rsplit(c, 1)[0]\<close> and \<open>s.rsplit(c, 1)[-1]\<close>.\<close>

definition before_final :: "char \<Rightarrow> string \<Rightarrow> string" where
  "before_final c s = (if c \<in> set s then rev (tl (dropWhile (\<lambda>x. x \<noteq> c) (rev s))) else s)"

definition after_final :: "char \<Rightarrow> string \<Rightarrow> string" where
  "after_final c s = rev (takeWhile (\<lambda>x. x \<noteq> c) (rev s))"

definition or_text :: "string option \<Rightarrow> string \<Rightarrow> string" where
  "or_text x d = (case x of None \<Rightarrow> d | Some s \<Rightarrow> if s = [] then d else s)"

definition title_from_uri :: "source_artifact \<Rightarrow> string" where
  "title_from_uri a =
     (let name = or_text (sa_file_name a) (after_final (CHR ''/'') (sa_source_uri a))
      in title_case False (map (\<lambda>c. if c = CHR ''-'' \<or> c = CHR ''_'' then CHR '' '' else c)
           (before_final (CHR ''.'') name)))"

datatype adr_part = Adr_Status | Adr_Context | Adr_Decision | Adr_Alternatives | Adr_Consequences

definition section_headings :: "(string \<times> adr_part) list" where
  "section_headings =
     [(''status'', Adr_Status), (''context'', Adr_Context), (''decision'', Adr_Decision),
      (''alternatives'', Adr_Alternatives), (''considered options'', Adr_Alternatives),
      (''consequences'', Adr_Consequences)]"

fun section_node_type :: "adr_part \<Rightarrow> document_node_type option" where
  "section_node_type Adr_Status = None"
| "section_node_type Adr_Context = Some Adr_Context_Node"
| "section_node_type Adr_Decision = Some Adr_Decision_Node"
| "section_node_type Adr_Alternatives = Some Adr_Alternatives_Node"
| "section_node_type Adr_Consequences = Some Adr_Consequences_Node"

definition classify_section :: "parsed_node \<Rightarrow> adr_part option" where
  "classify_section n =
     (if pn_type n \<noteq> Section_Node then None
      else map_of section_headings (rstrip_char (CHR '':'') (lower (strip (or_text (pn_title n) [])))))"

text \<open>The first text of the paragraphs right after a heading.\<close>

fun following_text :: "parsed_node list \<Rightarrow> string" where
  "following_text [] = []"
| "following_text (n # ns) =
     (if pn_type n \<noteq> Paragraph_Node then []
      else if strip (pn_content n) \<noteq> [] then strip (pn_content n) else following_text ns)"

definition section_content :: "parsed_node \<Rightarrow> parsed_node list \<Rightarrow> string" where
  "section_content n later =
     (if strip (pn_content n) \<noteq> [] then strip (pn_content n) else following_text later)"

record adr_text =
  tx_context :: "string list"
  tx_decision :: "string list"
  tx_alternatives :: "string list"
  tx_consequences :: "string list"
  tx_status :: "string option"

definition add_text :: "adr_part option \<Rightarrow> string \<Rightarrow> adr_text \<Rightarrow> adr_text" where
  "add_text part s x =
     (case part of
        Some Adr_Context \<Rightarrow> x\<lparr>tx_context := tx_context x @ [s]\<rparr>
      | Some Adr_Decision \<Rightarrow> x\<lparr>tx_decision := tx_decision x @ [s]\<rparr>
      | Some Adr_Alternatives \<Rightarrow> x\<lparr>tx_alternatives := tx_alternatives x @ [s]\<rparr>
      | Some Adr_Consequences \<Rightarrow> x\<lparr>tx_consequences := tx_consequences x @ [s]\<rparr>
      | _ \<Rightarrow> x)"

text \<open>\<open>_extract_sections\<close>: the heading of a section is retagged, the text below it collected.\<close>

fun walk_sections :: "adr_part option \<Rightarrow> parsed_node list \<Rightarrow> adr_text \<Rightarrow> parsed_node list \<times> adr_text" where
  "walk_sections cur [] x = ([], x)"
| "walk_sections cur (n # ns) x =
     (case classify_section n of
        Some part \<Rightarrow>
          (let n' = (case section_node_type part of None \<Rightarrow> n | Some t \<Rightarrow> n\<lparr>pn_type := t\<rparr>);
               x' = (if part = Adr_Status then x\<lparr>tx_status := Some (section_content n ns)\<rparr> else x);
               (ms, y) = walk_sections (Some part) ns x'
           in (n' # ms, y))
      | None \<Rightarrow>
          (let s = strip (if pn_content n \<noteq> [] then pn_content n else or_text (pn_title n) []) in
           if s = [] then (let (ms, y) = walk_sections cur ns x in (n # ms, y))
           else (let cur' = (if cur = None \<and> pn_heading_path n \<noteq> []
                             then map_of section_headings
                                    (rstrip_char (CHR '':'') (lower (last (pn_heading_path n)))) else cur);
                     (ms, y) = walk_sections cur' ns (add_text cur' s x)
                 in (n # ms, y))))"

definition extract_sections :: "parsed_node list \<Rightarrow> parsed_node list \<times> adr_sections" where
  "extract_sections ns =
     (let (ms, x) = walk_sections None ns
            \<lparr>tx_context = [], tx_decision = [], tx_alternatives = [], tx_consequences = [], tx_status = None\<rparr>
      in (ms, \<lparr>ad_context = strip (join [CHR 0x0A] (tx_context x)),
               ad_decision = strip (join [CHR 0x0A] (tx_decision x)),
               ad_alternatives = tx_alternatives x, ad_consequences = tx_consequences x,
               ad_status = tx_status x\<rparr>))"

definition set_default :: "string \<Rightarrow> json \<Rightarrow> (string \<times> json) list \<Rightarrow> (string \<times> json) list" where
  "set_default k v d = (if map_of d k = None then d @ [(k, v)] else d)"

definition adr_name :: "string \<Rightarrow> bool" where
  "adr_name name \<longleftrightarrow> contains ''adr'' name \<or> starts_with name ''decisions/'' \<or> starts_with name ''docs/adr''"

definition adr_parse :: "parser \<Rightarrow> source_artifact \<Rightarrow> exn + parsed_document" where
  "adr_parse md a =
     (case ps_parse md a of
        Inl e \<Rightarrow> Inl e
      | Inr d \<Rightarrow>
          (let title = or_text (pd_title d) (title_from_uri a); (ns, sections) = extract_sections (pd_nodes d) in
           Inr (d\<lparr>pd_title := Some title, pd_nodes := ns, pd_adr := Some sections,
                  pd_front_matter :=
                    set_default ''adr_status'' (JStr (or_text (ad_status sections) ''proposed''))
                      (set_default ''adr_title'' (JStr title)
                        (set_default ''adr'' (JBool True) (pd_front_matter d)))\<rparr>)))"

definition adr_parser :: "parser \<Rightarrow> parser" where
  "adr_parser md =
     \<lparr>ps_name = ''adr'',
      ps_can = (\<lambda>a. ps_can md a \<and> adr_name (lower (or_text (sa_file_name a) (sa_source_uri a)))),
      ps_parse = adr_parse md\<rparr>"

subsection \<open>The ingestion service\<close>

text \<open>\<open>str.encode("utf-8")\<close>.\<close>

definition utf8 :: "string \<Rightarrow> string" where
  "utf8 s = concat (map (\<lambda>c. let n = code c in
     if n < 128 then [c] else [char_of (192 + n div 64), char_of (128 + n mod 64)]) s)"

definition content_hash :: "(string \<Rightarrow> string) \<Rightarrow> source_artifact \<Rightarrow> string" where
  "content_hash sha a =
     sha (case sa_content a of
            Some (c # cs) \<Rightarrow> c # cs
          | _ \<Rightarrow> utf8 (or_text (sa_raw_bytes_ref a) (sa_source_uri a)))"

definition hashed :: "(string \<Rightarrow> string) \<Rightarrow> source_artifact \<Rightarrow> source_artifact" where
  "hashed sha a = (if sa_content_hash a = None then a\<lparr>sa_content_hash := Some (content_hash sha a)\<rparr> else a)"

definition default_title :: "source_artifact \<Rightarrow> string" where
  "default_title a =
     or_text (sa_file_name a)
       (let name = after_final (CHR ''/'') (sa_source_uri a) in if name = [] then sa_source_uri a else name)"

text \<open>The references of every node; the unresolved ones once per kind and value.\<close>

definition enrich_references :: "(parsed_node \<Rightarrow> extracted_reference list) \<Rightarrow> parsed_document \<Rightarrow> parsed_document" where
  "enrich_references ext d =
     (let ns = map (\<lambda>n. n\<lparr>pn_references := ext n\<rparr>) (pd_nodes d) in
      d\<lparr>pd_nodes := ns,
        pd_unresolved := first_per_key (\<lambda>r. (er_kind r, er_value r)) []
          (filter (\<lambda>r. \<not> er_resolved r) (concat (map pn_references ns)))\<rparr>)"

definition collect_candidates :: "(parsed_document \<Rightarrow> candidate_requirement list) \<Rightarrow> parsed_document \<Rightarrow> parsed_document" where
  "collect_candidates ent d =
     d\<lparr>pd_unresolved := pd_unresolved d @ map (\<lambda>c. \<lparr>er_kind = Requirement_Ref, er_value = kr_title c,
         er_raw = kr_source_uri c, er_resolved = False\<rparr>) (ent d)\<rparr>"

definition node_of :: "uuid \<Rightarrow> parsed_node \<Rightarrow> document_node" where
  "node_of v n =
     \<lparr>dn_id = pn_id n, dn_version_id = v, dn_type = pn_type n, dn_title = pn_title n,
      dn_heading_path = pn_heading_path n, dn_content = pn_content n, dn_parent_id = pn_parent_id n,
      dn_child_ids = pn_child_ids n, dn_code_refs = [], dn_requirement_refs = [], dn_work_item_refs = [],
      dn_links = pn_links n,
      dn_unresolved_refs = map er_value (filter (\<lambda>r. \<not> er_resolved r) (pn_references n))\<rparr>"

definition persist_nodes :: "parsed_document \<Rightarrow> uuid \<Rightarrow> document_store \<Rightarrow> document_node list \<times> document_store" where
  "persist_nodes d v s = (let ns = map (node_of v) (pd_nodes d) in (ns, fold add_node ns s))"

definition adr_status :: "json \<Rightarrow> decision_status" where
  "adr_status v =
     (case v of
        JStr t \<Rightarrow>
          (case List.find (\<lambda>x. decision_status_value x = lower (strip t))
                  [Ds_Proposed, Ds_Accepted, Ds_Superseded, Ds_Rejected, Ds_Deprecated] of
             Some x \<Rightarrow> x | None \<Rightarrow> Ds_Proposed)
      | _ \<Rightarrow> Ds_Proposed)"

definition create_decisions :: "bool \<Rightarrow> uuid \<Rightarrow> parsed_document \<Rightarrow> uuid \<Rightarrow> document_store
    \<Rightarrow> adr_record list \<times> document_store" where
  "create_decisions stored i d project s =
     (case pd_adr d of
        Some x \<Rightarrow>
          if stored
          then (let k = \<lparr>de_id = i, de_project_id = project,
                         de_title = or_text (pd_title d) (sa_source_uri (pd_source d)),
                         de_context = ad_context x, de_decision = ad_decision x,
                         de_alternatives = ad_alternatives x, de_consequences = ad_consequences x,
                         de_status = adr_status (jget (pd_front_matter d) ''adr_status'')\<rparr>
                in ([k], save_decision k s))
          else ([], s)
      | None \<Rightarrow> ([], s))"

text \<open>A chunk per node that has content; its index is the node's position.\<close>

definition make_chunk :: "(nat \<Rightarrow> uuid) \<Rightarrow> document \<Rightarrow> document_version \<Rightarrow> nat \<times> document_node \<Rightarrow> semantic_chunk" where
  "make_chunk ids d v p =
     (let (i, n) = p in
      \<lparr>sk_id = ids i, sk_document_id = dc_id d, sk_version_id = dv_id v, sk_node_id = Some (dn_id n),
       sk_heading_path = dn_heading_path n, sk_content = dn_content n, sk_project_id = Some (dc_project_id d),
       sk_repository_id = dv_repository_id v, sk_commit_sha = dv_commit_sha v, sk_type = dc_type d, sk_index = i\<rparr>)"

definition chunks_of :: "(nat \<Rightarrow> uuid) \<Rightarrow> document \<Rightarrow> document_version \<Rightarrow> document_node list \<Rightarrow> semantic_chunk list" where
  "chunks_of ids d v ns =
     map (make_chunk ids d v) (filter (\<lambda>(i, n). dn_content n \<noteq> []) (List.enumerate 0 ns))"

record 'x document_service =
  sv_parsers :: parser_registry
  sv_extract :: "parsed_node \<Rightarrow> extracted_reference list"
  sv_entities :: "parsed_document \<Rightarrow> candidate_requirement list"
  sv_decisions :: bool
  sv_bus :: "('x handler_table) option"
  sv_sha :: "string \<Rightarrow> string"
  sv_dump :: "document \<Rightarrow> json"

text \<open>The identifiers and the time one ingestion draws.\<close>

record document_draws =
  dd_document :: uuid
  dd_version :: uuid
  dd_decision :: uuid
  dd_event :: uuid
  dd_fresh :: uuid
  dd_now :: datetime
  dd_chunk :: "nat \<Rightarrow> uuid"

record document_result =
  dr_document :: document
  dr_version :: document_version
  dr_created :: bool
  dr_nodes :: "document_node list"
  dr_chunks :: "semantic_chunk list"
  dr_unresolved :: "extracted_reference list"
  dr_decisions :: "adr_record list"

type_synonym 'x document_state = "document_store \<times> 'x event_state"

definition new_document :: "uuid \<Rightarrow> uuid \<Rightarrow> document_type \<Rightarrow> source_artifact \<Rightarrow> parsed_document \<Rightarrow> document" where
  "new_document i project t a d =
     \<lparr>dc_id = i, dc_project_id = project, dc_type = t, dc_title = or_text (pd_title d) (default_title a),
      dc_source = \<lparr>do_provider = sa_provider a, do_uri = sa_source_uri a, do_mime_type = sa_mime_type a,
                   do_external_ref = None\<rparr>,
      dc_current_version = None, dc_external_refs = []\<rparr>"

definition new_version :: "uuid \<Rightarrow> datetime \<Rightarrow> uuid \<Rightarrow> source_artifact \<Rightarrow> uuid option \<Rightarrow> string option
    \<Rightarrow> document_version" where
  "new_version i now doc a repo sha =
     \<lparr>dv_id = i, dv_document_id = doc, dv_source_version = sa_revision a, dv_repository_id = repo,
      dv_commit_sha = sha, dv_checksum = or_text (sa_content_hash a) [], dv_ingested_at = now,
      dv_content_uri = sa_raw_bytes_ref a\<rparr>"

text \<open>The document of an artifact and its current version.\<close>

definition document_of_artifact :: "uuid \<Rightarrow> uuid \<Rightarrow> document_type \<Rightarrow> source_artifact \<Rightarrow> parsed_document
    \<Rightarrow> document_store \<Rightarrow> document \<times> document_version option \<times> document_store" where
  "document_of_artifact i project t a d s =
     (case find_by_source project (sa_source_uri a) s of
        Some doc \<Rightarrow>
          (doc, (case dc_current_version doc of
                   None \<Rightarrow> None
                 | Some v \<Rightarrow> get_item v (ds_versions s)), s)
      | None \<Rightarrow> (let doc = new_document i project t a d in (doc, None, save_document doc s)))"

definition document_changed_event :: "'x document_service \<Rightarrow> document_draws \<Rightarrow> source_artifact \<Rightarrow> document
    \<Rightarrow> event_envelope" where
  "document_changed_event sv w a doc =
     model_to_envelope (dd_event w) (dd_fresh w) (dd_now w) (DocumentChanged (sv_dump sv doc)) (sa_provider a)
       (Some (dc_project_id doc)) None None None"

text \<open>A new version: stored with its nodes, made the current one, announced.\<close>

definition store_version :: "'x document_service \<Rightarrow> document_draws \<Rightarrow> source_artifact \<Rightarrow> uuid \<Rightarrow> document_type
    \<Rightarrow> uuid option \<Rightarrow> string option \<Rightarrow> parsed_document \<Rightarrow> document \<Rightarrow> 'x document_state
    \<Rightarrow> ('x document_state, document_result) outcome" where
  "store_version sv w a project t repo sha d doc s =
     (let v = new_version (dd_version w) (dd_now w) (dc_id doc) a repo sha;
          (ns, st1) = persist_nodes d (dv_id v) (add_version v (fst s));
          doc' = doc\<lparr>dc_current_version := Some (dv_id v), dc_type := t\<rparr>;
          (ks, st2) = create_decisions (sv_decisions sv) (dd_decision w) d project (save_document doc' st1);
          r = \<lparr>dr_document = doc', dr_version = v, dr_created = True, dr_nodes = ns,
               dr_chunks = chunks_of (dd_chunk w) doc' v ns, dr_unresolved = pd_unresolved d, dr_decisions = ks\<rparr>
      in (case sv_bus sv of
            None \<Rightarrow> (Inr r, (st2, snd s))
          | Some run \<Rightarrow>
              (case publish run (document_changed_event sv w a doc') (snd s) of
                 (Inl e, b) \<Rightarrow> (Inl e, (st2, b))
               | (Inr _, b) \<Rightarrow> (Inr r, (st2, b)))))"

definition ingest_parsed :: "'x document_service \<Rightarrow> document_draws \<Rightarrow> source_artifact \<Rightarrow> uuid \<Rightarrow> document_type
    \<Rightarrow> uuid option \<Rightarrow> string option \<Rightarrow> parsed_document \<Rightarrow> 'x document_state
    \<Rightarrow> ('x document_state, document_result) outcome" where
  "ingest_parsed sv w a project t repo sha d s =
     (let (doc, cur, st) = document_of_artifact (dd_document w) project t a d (fst s) in
      case cur of
        Some v \<Rightarrow>
          if Some (dv_checksum v) = sa_content_hash a
          then (let ns = nodes_of_version (dv_id v) st in
                (Inr \<lparr>dr_document = doc, dr_version = v, dr_created = False, dr_nodes = ns,
                      dr_chunks = chunks_of (dd_chunk w) doc v ns, dr_unresolved = pd_unresolved d,
                      dr_decisions = []\<rparr>, (st, snd s)))
          else store_version sv w a project t repo sha d doc (st, snd s)
      | None \<Rightarrow> store_version sv w a project t repo sha d doc (st, snd s))"

definition ingest_document :: "'x document_service \<Rightarrow> document_draws \<Rightarrow> source_artifact \<Rightarrow> uuid
    \<Rightarrow> document_type option \<Rightarrow> uuid option \<Rightarrow> string option \<Rightarrow> 'x document_state
    \<Rightarrow> ('x document_state, document_result) outcome" where
  "ingest_document sv w a0 project t repo sha s =
     (let a = hashed (sv_sha sv) a0 in
      case select_parser a (sv_parsers sv) of
        None \<Rightarrow> (Inl (Exn ''ValueError'' (''no parser registered for artifact '' @ repr_str (sa_source_uri a))), s)
      | Some p \<Rightarrow>
          (case ps_parse p a of
             Inl e \<Rightarrow> (Inl e, s)
           | Inr d0 \<Rightarrow>
               (let d = collect_candidates (sv_entities sv) (enrich_references (sv_extract sv) d0)
                in ingest_parsed sv w a project (case t of Some x \<Rightarrow> x | None \<Rightarrow> pd_type d) repo sha d s)))"

subsection \<open>Lemmas\<close>

text \<open>
  What an ingestion keeps: documents and versions stored under their own ids, and the current
  version of a document a stored version of that document.
\<close>

definition documents_sound :: "document_store \<Rightarrow> bool" where
  "documents_sound s \<longleftrightarrow> stored_by_id dc_id (ds_documents s) \<and> stored_by_id dv_id (ds_versions s) \<and>
     (\<forall>i d v. get_item i (ds_documents s) = Some d \<longrightarrow> dc_current_version d = Some v \<longrightarrow>
        (\<exists>x. get_item v (ds_versions s) = Some x \<and> dv_document_id x = i))"

text \<open>The ids an ingestion draws are not in use.\<close>

definition draws_fresh :: "document_draws \<Rightarrow> document_store \<Rightarrow> bool" where
  "draws_fresh w s \<longleftrightarrow> get_item (dd_document w) (ds_documents s) = None \<and>
     get_item (dd_version w) (ds_versions s) = None"

lemma fold_add_node:
  "ds_documents (fold add_node ns s) = ds_documents s" "ds_versions (fold add_node ns s) = ds_versions s"
  "ds_decisions (fold add_node ns s) = ds_decisions s"
  by (induction ns arbitrary: s) (simp_all add: add_node_def)

lemma nodes_fold_add_node:
  "ds_nodes (fold add_node ns s) = fold (\<lambda>n. upsert n (dn_id n)) ns (ds_nodes s)"
  by (induction ns arbitrary: s) (simp_all add: add_node_def)

lemma add_version_simps [simp]:
  "ds_documents (add_version v s) = ds_documents s"
  "ds_versions (add_version v s) = upsert v (dv_id v) (ds_versions s)"
  "ds_nodes (add_version v s) = ds_nodes s"
  by (simp_all add: add_version_def)

lemma save_document_simps [simp]:
  "ds_documents (save_document d s) = upsert d (dc_id d) (ds_documents s)"
  "ds_versions (save_document d s) = ds_versions s" "ds_nodes (save_document d s) = ds_nodes s"
  by (simp_all add: save_document_def)

lemma create_decisions_store [simp]:
  "ds_documents (snd (create_decisions b i d project s)) = ds_documents s"
  "ds_versions (snd (create_decisions b i d project s)) = ds_versions s"
  "ds_nodes (snd (create_decisions b i d project s)) = ds_nodes s"
  by (auto simp: create_decisions_def save_decision_def Let_def split: option.split)

text \<open>The store after a new version, whether or not the announcement raises.\<close>

lemma store_version_store:
  assumes "store_version sv w a project t repo sha d doc s = (r, s')"
  shows "ds_documents (fst s') =
      upsert (doc\<lparr>dc_current_version := Some (dd_version w), dc_type := t\<rparr>) (dc_id doc) (ds_documents (fst s))"
    and "ds_versions (fst s') =
      upsert (new_version (dd_version w) (dd_now w) (dc_id doc) a repo sha) (dd_version w) (ds_versions (fst s))"
    and "ds_nodes (fst s') =
      fold (\<lambda>n. upsert n (dn_id n)) (map (node_of (dd_version w)) (pd_nodes d)) (ds_nodes (fst s))"
proof -
  let ?v = "new_version (dd_version w) (dd_now w) (dc_id doc) a repo sha"
  let ?st = "snd (create_decisions (sv_decisions sv) (dd_decision w) d project
      (save_document (doc\<lparr>dc_current_version := Some (dd_version w), dc_type := t\<rparr>)
        (fold add_node (map (node_of (dd_version w)) (pd_nodes d)) (add_version ?v (fst s)))))"
  have "fst s' = ?st"
    using assms unfolding store_version_def persist_nodes_def
    by (auto simp: Let_def split_beta new_version_def split: option.splits sum.splits prod.splits)
  then show "ds_documents (fst s') =
      upsert (doc\<lparr>dc_current_version := Some (dd_version w), dc_type := t\<rparr>) (dc_id doc) (ds_documents (fst s))"
    and "ds_versions (fst s') = upsert ?v (dd_version w) (ds_versions (fst s))"
    and "ds_nodes (fst s') =
      fold (\<lambda>n. upsert n (dn_id n)) (map (node_of (dd_version w)) (pd_nodes d)) (ds_nodes (fst s))"
    by (simp_all add: fold_add_node nodes_fold_add_node new_version_def)
qed

text \<open>The two ways an ingestion that parsed goes: the content is known, or a version is added.\<close>

lemma ingest_parsed_cases:
  obtains (known) v where "find_by_source project (sa_source_uri a) (fst s) \<noteq> None"
      "ingest_parsed sv w a project t repo sha d s = (Inr v, s)"
      "\<not> dr_created v"
  | (stored) doc st where "ingest_parsed sv w a project t repo sha d s = store_version sv w a project t repo sha d doc (st, snd s)"
      "find_by_source project (sa_source_uri a) (fst s) = Some doc \<and> st = fst s \<or>
       find_by_source project (sa_source_uri a) (fst s) = None \<and> doc = new_document (dd_document w) project t a d \<and>
         st = save_document doc (fst s)"
proof (cases "find_by_source project (sa_source_uri a) (fst s)")
  case None
  then show thesis
    by (intro stored) (auto simp: ingest_parsed_def document_of_artifact_def Let_def)
next
  case (Some doc)
  let ?cur = "Option.bind (dc_current_version doc) (\<lambda>v. get_item v (ds_versions (fst s)))"
  have *: "document_of_artifact (dd_document w) project t a d (fst s) = (doc, ?cur, fst s)"
    using Some by (simp add: document_of_artifact_def Option.bind_def split: option.split)
  show thesis
  proof (cases "\<exists>v. ?cur = Some v \<and> Some (dv_checksum v) = sa_content_hash a")
    case True
    then obtain v where v: "?cur = Some v" "Some (dv_checksum v) = sa_content_hash a" by blast
    then have "\<exists>x. ingest_parsed sv w a project t repo sha d s = (Inr x, s) \<and> \<not> dr_created x"
      by (simp add: ingest_parsed_def * Let_def)
    with Some show thesis using known by auto
  next
    case False
    then show thesis using Some
      by (intro stored [of doc "fst s"]) (auto simp: ingest_parsed_def * split: option.split)
  qed
qed

text \<open>Storing a version of a document that is stored, or is about to be under a fresh id.\<close>

lemma sound_after_version:
  assumes "documents_sound st" and "get_item (dd_version w) (ds_versions st) = None"
    and "store_version sv w a project t repo sha d doc (st, b) = (r, s')"
  shows "documents_sound (fst s')"
proof -
  note parts = store_version_store [OF assms(3), simplified]
  let ?doc = "doc\<lparr>dc_current_version := Some (dd_version w), dc_type := t\<rparr>"
  let ?v = "new_version (dd_version w) (dd_now w) (dc_id doc) a repo sha"
  note sound = assms(1) [unfolded documents_sound_def]
  have ids: "dc_id ?doc = dc_id doc" "dv_id ?v = dd_version w" "dv_document_id ?v = dc_id doc"
    by (simp_all add: new_version_def)
  have "stored_by_id dc_id (ds_documents (fst s'))"
    unfolding parts(1) using sound stored_by_id_upsert [of dc_id "ds_documents st" ?doc] by simp
  moreover have "stored_by_id dv_id (ds_versions (fst s'))"
    unfolding parts(2) using sound stored_by_id_upsert [of dv_id "ds_versions st" ?v] by (simp add: ids)
  moreover have "\<exists>x. get_item v (ds_versions (fst s')) = Some x \<and> dv_document_id x = i"
    if "get_item i (ds_documents (fst s')) = Some e" "dc_current_version e = Some v" for i e v
  proof (cases "i = dc_id doc")
    case True
    with that have "v = dd_version w" by (auto simp: parts(1) collection.fetch_put)
    then show ?thesis using True by (simp add: parts(2) collection.fetch_put ids)
  next
    case False
    with that have "get_item i (ds_documents st) = Some e" by (simp add: parts(1) collection.fetch_put)
    with that(2) sound obtain x where x: "get_item v (ds_versions st) = Some x" "dv_document_id x = i" by blast
    with assms(2) have "v \<noteq> dd_version w" by auto
    with x show ?thesis by (simp add: parts(2) collection.fetch_put)
  qed
  ultimately show ?thesis unfolding documents_sound_def by blast
qed

lemma sound_new_document:
  assumes "documents_sound st" and "get_item i (ds_documents st) = None"
  shows "documents_sound (save_document (new_document i project t a d) st)"
proof -
  have ids: "dc_id (new_document i project t a d) = i" "dc_current_version (new_document i project t a d) = None"
    by (simp_all add: new_document_def)
  have "stored_by_id dc_id (upsert (new_document i project t a d) i (ds_documents st))"
    using stored_by_id_upsert [of dc_id "ds_documents st" "new_document i project t a d"] assms(1)
    by (simp add: documents_sound_def ids)
  then show ?thesis
    using assms(1) ids unfolding documents_sound_def by (auto simp: collection.fetch_put split: if_splits)
qed

text \<open>What stays of the documents and versions that were stored.\<close>

definition history_kept :: "document_store \<Rightarrow> document_store \<Rightarrow> bool" where
  "history_kept s t \<longleftrightarrow>
     (\<forall>i v. get_item i (ds_versions s) = Some v \<longrightarrow> get_item i (ds_versions t) = Some v) \<and>
     (\<forall>i d. get_item i (ds_documents s) = Some d \<longrightarrow> (\<exists>e. get_item i (ds_documents t) = Some e \<and>
        dc_project_id e = dc_project_id d \<and> dc_source e = dc_source d \<and> dc_title e = dc_title d))"

lemma history_kept_refl [simp]: "history_kept s s"
  by (auto simp: history_kept_def)

lemma history_kept_trans: "\<lbrakk>history_kept s t; history_kept t u\<rbrakk> \<Longrightarrow> history_kept s u"
  unfolding history_kept_def by (intro conjI allI impI; elim conjE) (blast | metis)+

lemma history_after_version:
  assumes "get_item (dd_version w) (ds_versions st) = None"
    and "get_item (dc_id doc) (ds_documents st) = Some doc"
    and "store_version sv w a project t repo sha d doc (st, b) = (r, s')"
  shows "history_kept st (fst s')"
  using store_version_store [OF assms(3)] assms(1,2)
  by (auto simp: history_kept_def collection.fetch_put)

lemma find_by_source_stored:
  assumes "documents_sound s" and "find_by_source p uri s = Some d"
  shows "get_item (dc_id d) (ds_documents s) = Some d" "dc_project_id d = p" "do_uri (dc_source d) = uri"
  using find_SomeD [OF assms(2) [unfolded find_by_source_def]] assms(1)
  by (auto simp: documents_sound_def items_get)

lemma ingestion_keeps:
  assumes "documents_sound (fst s)" and "draws_fresh w (fst s)"
    and "ingest_parsed sv w a project t repo sha d s = (r, s')"
  shows "documents_sound (fst s') \<and> history_kept (fst s) (fst s')"
proof (cases rule: ingest_parsed_cases [where sv = sv and w = w and a = a and project = project and t = t
      and repo = repo and sha = sha and d = d and s = s])
  case (known v)
  with assms show ?thesis by simp
next
  case (stored doc st)
  have run: "store_version sv w a project t repo sha d doc (st, snd s) = (r, s')" using stored assms(3) by simp
  have fresh: "get_item (dd_version w) (ds_versions (fst s)) = None"
    "get_item (dd_document w) (ds_documents (fst s)) = None" using assms(2) by (simp_all add: draws_fresh_def)
  show ?thesis
  proof (cases "find_by_source project (sa_source_uri a) (fst s)")
    case (Some x)
    with stored have st: "st = fst s" "doc = x" by auto
    from run have run': "store_version sv w a project t repo sha d x (fst s, snd s) = (r, s')" by (simp add: st)
    show ?thesis
      using sound_after_version [OF assms(1) fresh(1) run']
        history_after_version [OF fresh(1) find_by_source_stored(1) [OF assms(1) Some] run'] by blast
  next
    case None
    with stored have st: "st = save_document doc (fst s)" "doc = new_document (dd_document w) project t a d" by auto
    have i: "dc_id doc = dd_document w" by (simp add: st(2) new_document_def)
    have v: "get_item (dd_version w) (ds_versions st) = None" using fresh(1) by (simp add: st(1))
    have "documents_sound st" unfolding st by (rule sound_new_document [OF assms(1) fresh(2)])
    then have "documents_sound (fst s')" by (rule sound_after_version [OF _ v run])
    moreover have "history_kept st (fst s')"
      by (rule history_after_version [OF v _ run]) (simp add: st(1) collection.fetch_put)
    moreover have "history_kept (fst s) st"
      using fresh(2) by (auto simp: history_kept_def st(1) collection.fetch_put i)
    ultimately show ?thesis by (blast intro: history_kept_trans)
  qed
qed

text \<open>An artifact whose content is the current version of its document is recognised.\<close>

definition artifact_known :: "source_artifact \<Rightarrow> uuid \<Rightarrow> document_version \<Rightarrow> document_store \<Rightarrow> bool" where
  "artifact_known a project x s \<longleftrightarrow> (\<exists>doc. find_by_source project (sa_source_uri a) s = Some doc \<and>
     Option.bind (dc_current_version doc) (\<lambda>v. get_item v (ds_versions s)) = Some x \<and>
     Some (dv_checksum x) = sa_content_hash a)"

lemma current_version_bind:
  "(case dc_current_version doc of None \<Rightarrow> None | Some v \<Rightarrow> get_item v c) =
    Option.bind (dc_current_version doc) (\<lambda>v. get_item v c)"
  by (simp split: option.split)

lemma known_is_quiet:
  assumes "artifact_known a project x (fst s)"
  shows "\<exists>r. ingest_parsed sv w a project t repo sha d s = (Inr r, s) \<and> \<not> dr_created r \<and> dr_version r = x"
  using assms by (auto simp: artifact_known_def ingest_parsed_def document_of_artifact_def current_version_bind Let_def)

lemma find_by_source_update:
  assumes "stored_by_id dc_id (ds_documents s)" and "get_item (dc_id e) (ds_documents s) = Some e0"
    and "dc_project_id e = dc_project_id e0" and "dc_source e = dc_source e0"
    and "ds_documents s' = upsert e (dc_id e) (ds_documents s)"
  shows "find_by_source p u s' = map_option (\<lambda>d. if dc_id d = dc_id e then e else d) (find_by_source p u s)"
proof -
  have "dc_project_id (if dc_id d = dc_id e then e else d) = dc_project_id d \<and>
      dc_source (if dc_id d = dc_id e then e else d) = dc_source d"
    if "d \<in> set (list_all_items (ds_documents s))" for d
    using that assms(1-4) by (auto simp: items_get)
  then show ?thesis
    unfolding find_by_source_def assms(5) items_update [OF assms(1,2)] find_map
    by (intro arg_cong [of _ _ "map_option _"] find_cong) simp
qed

lemma find_append: "List.find P (xs @ ys) = (case List.find P xs of None \<Rightarrow> List.find P ys | Some x \<Rightarrow> Some x)"
  by (induction xs) simp_all

lemma find_by_source_insert:
  assumes "get_item (dc_id e) (ds_documents s) = None"
    and "find_by_source (dc_project_id e) (do_uri (dc_source e)) s = None"
  shows "find_by_source (dc_project_id e) (do_uri (dc_source e)) (save_document e s) = Some e"
  using assms by (simp add: find_by_source_def items_insert find_append)

lemma known_after_version:
  assumes "documents_sound st" and "find_by_source project (sa_source_uri a) st = Some doc"
    and "store_version sv w a project t repo sha d doc (st, b) = (Inr r, s')"
    and "sa_content_hash a = Some h"
  shows "artifact_known a project (dr_version r) (fst s')"
proof -
  note parts = store_version_store [OF assms(3), simplified]
  let ?e = "doc\<lparr>dc_current_version := Some (dd_version w), dc_type := t\<rparr>"
  have ids: "stored_by_id dc_id (ds_documents st)" using assms(1) by (simp add: documents_sound_def)
  have doc: "get_item (dc_id ?e) (ds_documents st) = Some doc"
    using find_by_source_stored(1) [OF assms(1,2)] by simp
  have "find_by_source project (sa_source_uri a) (fst s') = Some ?e"
    using find_by_source_update [OF ids doc, of "fst s'" project "sa_source_uri a"] assms(2) parts(1) by simp
  moreover have "dr_version r = new_version (dd_version w) (dd_now w) (dc_id doc) a repo sha"
    using assms(3) unfolding store_version_def
    by (auto simp: Let_def split_beta split: option.splits sum.splits prod.splits)
  ultimately show ?thesis
    unfolding artifact_known_def parts(2) by (simp add: collection.fetch_put new_version_def or_text_def assms(4))
qed

lemma ingested_is_known:
  assumes "documents_sound (fst s)" and "draws_fresh w (fst s)" and "sa_content_hash a = Some h"
    and "ingest_parsed sv w a project t repo sha d s = (Inr r, s')"
  shows "artifact_known a project (dr_version r) (fst s')"
proof (cases "find_by_source project (sa_source_uri a) (fst s)")
  case (Some doc)
  let ?cur = "Option.bind (dc_current_version doc) (\<lambda>v. get_item v (ds_versions (fst s)))"
  have doc: "document_of_artifact (dd_document w) project t a d (fst s) = (doc, ?cur, fst s)"
    using Some by (simp add: document_of_artifact_def current_version_bind)
  show ?thesis
  proof (cases "\<exists>v. ?cur = Some v \<and> Some (dv_checksum v) = sa_content_hash a")
    case True
    with Some assms(4) show ?thesis by (auto simp: artifact_known_def ingest_parsed_def doc Let_def)
  next
    case False
    with assms(4) have "store_version sv w a project t repo sha d doc (fst s, snd s) = (Inr r, s')"
      by (auto simp: ingest_parsed_def doc split: option.splits if_splits)
    from known_after_version [OF assms(1) Some this assms(3)] show ?thesis .
  qed
next
  case None
  let ?doc = "new_document (dd_document w) project t a d"
  have i: "dc_id ?doc = dd_document w" "dc_project_id ?doc = project" "do_uri (dc_source ?doc) = sa_source_uri a"
    by (simp_all add: new_document_def)
  have fresh: "get_item (dd_document w) (ds_documents (fst s)) = None" using assms(2) by (simp add: draws_fresh_def)
  have "find_by_source project (sa_source_uri a) (save_document ?doc (fst s)) = Some ?doc"
    using find_by_source_insert [of ?doc "fst s"] fresh None by (simp add: i)
  moreover have "store_version sv w a project t repo sha d ?doc (save_document ?doc (fst s), snd s) = (Inr r, s')"
    using assms(4) None by (simp add: ingest_parsed_def document_of_artifact_def Let_def)
  ultimately show ?thesis
    using known_after_version [OF sound_new_document [OF assms(1) fresh] _ _ assms(3)] by blast
qed

subsection \<open>Properties\<close>

text \<open>
  C24: Nothing an ingestion does rewrites history. Whatever the parser, the handlers of the event and
  the content do - also when the parser or a handler raises - every stored version stays as it was,
  every document keeps its project, source and title, and the current version of each document is a
  stored version of that very document.
\<close>

theorem document_history_kept:
  assumes "documents_sound (fst s)" and "draws_fresh w (fst s)"
    and "ingest_document sv w a project t repo sha s = (r, s')"
  shows "documents_sound (fst s') \<and> history_kept (fst s) (fst s')"
proof (cases "s' = s")
  case False
  with assms(3) obtain d u where "ingest_parsed sv w (hashed (sv_sha sv) a) project u repo sha d s = (r, s')"
    unfolding ingest_document_def Let_def by (auto split: option.splits sum.splits)
  from ingestion_keeps [OF assms(1,2) this] show ?thesis .
qed (use assms(1) in simp)

text \<open>
  Ingesting the same artifact again is silent. After an ingestion that returned, a second one of
  the artifact - whatever identifiers it draws, whatever type, repository or commit it is given -
  finds the version the first one ended with: it returns that version, creates none, stores nothing
  and publishes nothing.
\<close>

theorem reingested_document_is_quiet:
  assumes "documents_sound (fst s)" and "draws_fresh w (fst s)"
    and "ingest_document sv w a project t repo sha s = (Inr r, s')"
  shows "\<exists>r'. ingest_document sv w' a project t' repo' sha' s' = (Inr r', s') \<and> \<not> dr_created r' \<and>
    dr_version r' = dr_version r"
proof -
  let ?a = "hashed (sv_sha sv) a"
  obtain p d0 where p: "select_parser ?a (sv_parsers sv) = Some p" "ps_parse p ?a = Inr d0"
    and run: "ingest_parsed sv w ?a project (case t of Some x \<Rightarrow> x
       | None \<Rightarrow> pd_type (collect_candidates (sv_entities sv) (enrich_references (sv_extract sv) d0))) repo sha
       (collect_candidates (sv_entities sv) (enrich_references (sv_extract sv) d0)) s = (Inr r, s')"
    using assms(3) unfolding ingest_document_def Let_def by (auto split: option.splits sum.splits)
  obtain h where "sa_content_hash ?a = Some h" by (cases "sa_content_hash a") (auto simp: hashed_def)
  from known_is_quiet [OF ingested_is_known [OF assms(1,2) this run]] show ?thesis
    by (auto simp: ingest_document_def p Let_def)
qed

text \<open>
  Every Markdown file with the letters adr in its name or path is parsed as a decision record:
  also the one of a squadron.
\<close>

theorem adr_name_too_broad:
  assumes "ps_can md a" and "sa_file_name a = Some ''squadron-handbook.md''"
  shows "ps_can (adr_parser md) a"
  using assms by (simp add: adr_parser_def or_text_def adr_name_def lower_def lower_char_def code_def)

subsection \<open>Witnesses\<close>

definition demo_parser :: parser where
  "demo_parser =
     \<lparr>ps_name = ''text'', ps_can = (\<lambda>a. True),
      ps_parse = (\<lambda>a. Inr \<lparr>pd_source = a, pd_title = None, pd_type = General_Doc, pd_front_matter = [],
        pd_nodes = [\<lparr>pn_id = ''n1'', pn_type = Paragraph_Node, pn_title = None, pn_heading_path = [],
          pn_content = or_text (sa_content a) [], pn_parent_id = None, pn_child_ids = [], pn_links = [],
          pn_references = [], pn_order = 0\<rparr>],
        pd_unresolved = [], pd_adr = None\<rparr>)\<rparr>"

definition demo_documents :: "unit document_service" where
  "demo_documents =
     \<lparr>sv_parsers = [(0, demo_parser)], sv_extract = (\<lambda>n. []), sv_entities = (\<lambda>d. []), sv_decisions = False,
      sv_bus = None, sv_sha = (\<lambda>s. ''sha:'' @ s), sv_dump = (\<lambda>d. JStr (dc_id d))\<rparr>"

definition demo_draws :: document_draws where
  "demo_draws =
     \<lparr>dd_document = ''d1'', dd_version = ''v1'', dd_decision = ''k1'', dd_event = ''e1'', dd_fresh = ''f1'',
      dd_now = 5, dd_chunk = str_nat\<rparr>"

definition empty_document_store :: document_store where
  "empty_document_store = \<lparr>ds_documents = [], ds_versions = [], ds_nodes = [], ds_decisions = []\<rparr>"

definition quiet_bus :: "unit event_state" where
  "quiet_bus = \<lparr>bus_handlers = [], bus_published = [], processed_keys = [], event_log = [], event_ext = ()\<rparr>"

definition demo_artifact :: source_artifact where
  "demo_artifact = (new_artifact ''docs/a.md'' ''git'')\<lparr>sa_content := Some ''REQ-12: log in''\<rparr>"

lemma demo_sound: "documents_sound empty_document_store" "draws_fresh demo_draws empty_document_store"
  by (simp_all add: documents_sound_def empty_document_store_def stored_by_id_def draws_fresh_def get_item_def)

lemma demo_ingested:
  "\<exists>r s'. ingest_document demo_documents demo_draws demo_artifact ''p'' None None None (empty_document_store, quiet_bus) =
     (Inr r, s') \<and> dr_created r \<and> dv_checksum (dr_version r) = ''sha:REQ-12: log in'' \<and>
     length (list_all_items (ds_versions (fst s'))) = 1"
  by (simp add: ingest_document_def demo_documents_def select_parser_def demo_parser_def demo_artifact_def
      new_artifact_def hashed_def content_hash_def ingest_parsed_def document_of_artifact_def find_by_source_def
      empty_document_store_def list_all_items_def dict_values_def store_version_def Let_def split_beta
      new_version_def or_text_def create_decisions_def collect_candidates_def enrich_references_def
      persist_nodes_def fold_add_node upsert_def add_node_def add_version_def save_document_def)

theorem document_history_kept_witness:
  "\<exists>r s'. ingest_document demo_documents demo_draws demo_artifact ''p'' None None None (empty_document_store, quiet_bus) =
     (Inr r, s') \<and> documents_sound (fst s') \<and> length (list_all_items (ds_versions (fst s'))) = 1"
proof -
  obtain r s' where run: "ingest_document demo_documents demo_draws demo_artifact ''p'' None None None
      (empty_document_store, quiet_bus) = (Inr r, s')" "length (list_all_items (ds_versions (fst s'))) = 1"
    using demo_ingested by blast
  from document_history_kept [OF _ _ run(1)] demo_sound run show ?thesis by auto
qed

theorem reingested_document_is_quiet_witness:
  "\<exists>r s' r'. ingest_document demo_documents demo_draws demo_artifact ''p'' None None None (empty_document_store, quiet_bus) =
     (Inr r, s') \<and> dr_created r \<and>
   ingest_document demo_documents demo_draws demo_artifact ''p'' None None None s' = (Inr r', s') \<and> \<not> dr_created r'"
proof -
  obtain r s' where run: "ingest_document demo_documents demo_draws demo_artifact ''p'' None None None
      (empty_document_store, quiet_bus) = (Inr r, s')" "dr_created r"
    using demo_ingested by blast
  from reingested_document_is_quiet [OF _ _ run(1)] demo_sound run show ?thesis by fastforce
qed

end
