(* ===== verification/Ingestion.thy ===== *)
theory Ingestion
  imports Openproject Documents Pull_Request Knowledge_Graph
begin

text \<open>
  The unified ingestion of OpenProject (\<open>application/openproject_ingestion.py\<close>) with the
  stores only it writes: actors, integration mappings and conflicts
  (\<open>domain/work_management.py\<close>, \<open>adapters/in_memory/work_management.py\<close>) and the snapshots
  (\<open>adapters/in_memory/openproject_snapshot.py\<close>).

  The state is the hub of \<open>Pull_Request\<close> with the world \<open>op_world\<close>. The graph, the fetcher of
  attachments and the ingestion of documents are ports on the rest of the world. Identifiers
  come from a stream that a counter in the world indexes; one clock reading serves a call.
\<close>

subsection \<open>Mappings, conflicts and the world\<close>

datatype sync_state = Sync_Pending | Synced | Sync_Conflict | Sync_Error

record integration_mapping =
  im_id :: uuid
  im_work_item_id :: uuid
  im_provider :: string
  im_external_id :: string
  im_sync_state :: sync_state
  im_last_synced_at :: "datetime option"
  im_last_sync_error :: "string option"

record sync_conflict =
  sc_id :: uuid
  sc_work_item_id :: uuid
  sc_provider :: string
  sc_external_id :: string
  sc_provider_field :: string
  sc_provider_value :: string
  sc_brain_value :: string
  sc_detected_at :: datetime
  sc_resolved :: bool

record 'w op_world =
  op_actors :: "actor collection"
  op_mappings :: "(string, integration_mapping) dict"
  op_conflicts :: "sync_conflict list"
  op_snapshots :: "(string, work_item_snapshot) dict"
  op_drawn :: nat
  op_rest :: 'w

type_synonym 'w op_hub = "('w op_world) hub"
type_synonym 'w op_state = "('w op_world) hub_state"

definition mapping_key :: "uuid \<Rightarrow> string \<Rightarrow> string" where
  "mapping_key w provider = w @ '':'' @ provider"

definition save_mapping :: "integration_mapping \<Rightarrow> 'w op_world \<Rightarrow> 'w op_world" where
  "save_mapping m o1 = o1\<lparr>op_mappings :=
     dict_set (mapping_key (im_work_item_id m) (im_provider m)) m (op_mappings o1)\<rparr>"

definition get_mapping :: "uuid \<Rightarrow> string \<Rightarrow> 'w op_world \<Rightarrow> integration_mapping option" where
  "get_mapping w provider o1 = dict_get (op_mappings o1) (mapping_key w provider)"

definition list_mappings :: "uuid \<Rightarrow> 'w op_world \<Rightarrow> integration_mapping list" where
  "list_mappings w o1 = filter (\<lambda>m. im_work_item_id m = w) (dict_values (op_mappings o1))"

definition save_conflict :: "sync_conflict \<Rightarrow> 'w op_world \<Rightarrow> 'w op_world" where
  "save_conflict c o1 = o1\<lparr>op_conflicts := op_conflicts o1 @ [c]\<rparr>"

definition list_conflicts :: "uuid \<Rightarrow> 'w op_world \<Rightarrow> sync_conflict list" where
  "list_conflicts w o1 = filter (\<lambda>c. sc_work_item_id c = w) (op_conflicts o1)"

definition get_snapshot_of :: "string \<Rightarrow> 'w op_world \<Rightarrow> work_item_snapshot option" where
  "get_snapshot_of x o1 = dict_get (op_snapshots o1) x"

definition save_snapshot_of :: "work_item_snapshot \<Rightarrow> 'w op_world \<Rightarrow> 'w op_world" where
  "save_snapshot_of n o1 = o1\<lparr>op_snapshots := dict_set (ws_external_id n) n (op_snapshots o1)\<rparr>"

subsection \<open>The parts of the state\<close>

definition repos :: "'w op_state \<Rightarrow> repository_set" where
  "repos s = hb_repos (event_ext s)"

definition on_repos :: "(repository_set \<Rightarrow> repository_set) \<Rightarrow> 'w op_state \<Rightarrow> 'w op_state" where
  "on_repos f s = set_ext ((event_ext s)\<lparr>hb_repos := f (hb_repos (event_ext s))\<rparr>) s"

definition opw :: "'w op_state \<Rightarrow> 'w op_world" where
  "opw s = hb_world (event_ext s)"

definition on_op :: "('w op_world \<Rightarrow> 'w op_world) \<Rightarrow> 'w op_state \<Rightarrow> 'w op_state" where
  "on_op f s = set_ext ((event_ext s)\<lparr>hb_world := f (hb_world (event_ext s))\<rparr>) s"

text \<open>A call of a port, on the rest of the world.\<close>

definition on_rest :: "('w \<Rightarrow> ('w, 'a) outcome) \<Rightarrow> 'w op_state \<Rightarrow> ('w op_state, 'a) outcome" where
  "on_rest f s = (let (r, w) = f (op_rest (opw s)) in (r, on_op (\<lambda>o1. o1\<lparr>op_rest := w\<rparr>) s))"

text \<open>\<open>except Exception\<close> with nothing but a log line.\<close>

definition swallow :: "('s, unit) outcome \<Rightarrow> ('s, unit) outcome" where
  "swallow m = (Inr (), snd m)"

record 'w op_ports =
  px_ids :: "nat \<Rightarrow> uuid"
  px_uuid5 :: "string \<Rightarrow> uuid"
  px_now :: datetime
  px_now_text :: string
  px_dump :: "work_item \<Rightarrow> json"
  px_brain_actor :: "string option"
  px_entities :: "graph_entity list \<Rightarrow> 'w \<Rightarrow> ('w, unit) outcome"
  px_relations :: "graph_relation list \<Rightarrow> 'w \<Rightarrow> ('w, unit) outcome"
  px_fetch :: "(string \<Rightarrow> 'w \<Rightarrow> ('w, string) outcome) option"
  px_documents :: "(source_artifact \<Rightarrow> uuid \<Rightarrow> 'w \<Rightarrow> ('w, unit) outcome) option"
  px_run :: "('w op_hub) handler_table"

definition draw :: "'w op_ports \<Rightarrow> 'w op_state \<Rightarrow> uuid \<times> 'w op_state" where
  "draw p s = (px_ids p (op_drawn (opw s)), on_op (\<lambda>o1. o1\<lparr>op_drawn := Suc (op_drawn o1)\<rparr>) s)"

definition emit_event :: "'w op_ports \<Rightarrow> canonical_event \<Rightarrow> string \<Rightarrow> uuid option \<Rightarrow> uuid option
    \<Rightarrow> raw_dict \<Rightarrow> 'w op_state \<Rightarrow> ('w op_state, event_envelope) outcome" where
  "emit_event p e src project corr extra s =
     (let (i, s1) = draw p s; (fresh, s2) = draw p s1;
          env = model_to_envelope i fresh (px_now p) e src project corr None None;
          env' = env\<lparr>ev_payload := ev_payload env @ extra\<rparr>
      in then_do (publish (px_run p) env' s2) (\<lambda>u s3. (Inr env', s3)))"

subsection \<open>Nodes and edges\<close>

definition plain_entity :: "uuid \<Rightarrow> graph_label \<Rightarrow> uuid option \<Rightarrow> raw_dict \<Rightarrow> graph_entity" where
  "plain_entity i l project props =
     \<lparr>ge_id = i, ge_label = l, ge_project_id = project, ge_properties = props, ge_repository_id = None,
      ge_revision = None, ge_provenance = []\<rparr>"

definition plain_edge :: "uuid \<Rightarrow> relation_type \<Rightarrow> uuid \<Rightarrow> graph_relation" where
  "plain_edge a t b =
     \<lparr>gr_subject = a, gr_type = t, gr_object = b, gr_properties = [], gr_repository_id = None,
      gr_revision = None, gr_provenance = []\<rparr>"

definition project_entity :: "project \<Rightarrow> graph_entity" where
  "project_entity pj = plain_entity (pj_id pj) L_Project (Some (pj_id pj)) [(''name'', JStr (pj_name pj))]"

definition upsert_project_node :: "'w op_ports \<Rightarrow> project \<Rightarrow> 'w op_state \<Rightarrow> ('w op_state, unit) outcome" where
  "upsert_project_node p pj s =
     then_do (on_rest (px_entities p [project_entity pj]) s) (\<lambda>u s1.
       case pj_parent_id pj of
         None \<Rightarrow> (Inr (), s1)
       | Some q \<Rightarrow> on_rest (px_relations p [plain_edge q R_Parent_Of (pj_id pj)]) s1)"

subsection \<open>Projects\<close>

text \<open>\<open>a or b\<close> of strings.\<close>

definition or_else :: "string \<Rightarrow> string \<Rightarrow> string" where
  "or_else a b = (if a = [] then b else a)"

definition nonempty :: "string \<Rightarrow> string option" where
  "nonempty a = (if a = [] then None else Some a)"

definition upsert_project :: "'w op_ports \<Rightarrow> string \<Rightarrow> string \<Rightarrow> string \<Rightarrow> string option \<Rightarrow> uuid option
    \<Rightarrow> 'w op_state \<Rightarrow> ('w op_state, project) outcome" where
  "upsert_project p x name desc parent pid s =
     (let by_ref = (\<lambda>y. project_by_ref ''openproject'' y (Some ''project'') (repos s));
          known = (case Option.bind pid (\<lambda>i. get_item i (st_projects (repos s))) of
                     Some pj \<Rightarrow> Some pj | None \<Rightarrow> by_ref x);
          ref = openproject_ref ''project'' x;
          parent_id = (case parent of None \<Rightarrow> None
                       | Some y \<Rightarrow> if y = [] then None else map_option pj_id (by_ref y))
      in case known of
        None \<Rightarrow>
          (let (i, s1) = draw p s;
               pj = \<lparr>pj_id = i, pj_name = or_else name (''OpenProject '' @ x), pj_description = nonempty desc,
                     pj_status = Planned, pj_parent_id = parent_id, pj_repositories = [],
                     pj_external_refs = [ref]\<rparr>;
               s2 = on_repos (save_project pj) s1
           in then_do (upsert_project_node p pj s2) (\<lambda>u s3. (Inr pj, s3)))
      | Some pj \<Rightarrow>
          (let up = pj\<lparr>pj_name := or_else name (pj_name pj),
                       pj_description := (if desc = [] then pj_description pj else Some desc),
                       pj_parent_id := (case parent_id of None \<Rightarrow> pj_parent_id pj | Some q \<Rightarrow> Some q)\<rparr>;
               up' = (if ref \<in> set (pj_external_refs up) then up
                      else up\<lparr>pj_external_refs := pj_external_refs up @ [ref]\<rparr>);
               s1 = (if up' \<noteq> pj then on_repos (save_project up') s else s)
           in then_do (upsert_project_node p up' s1) (\<lambda>u s2. (Inr up', s2))))"

subsection \<open>The work item of a snapshot\<close>

definition resolve_project :: "work_item_snapshot \<Rightarrow> uuid option \<Rightarrow> repository_set \<Rightarrow> uuid option" where
  "resolve_project n pid r =
     (case pid of
        Some i \<Rightarrow> (case get_item i (st_projects r) of None \<Rightarrow> None | Some _ \<Rightarrow> Some i)
      | None \<Rightarrow>
          (case Option.bind (ws_project_id n)
                  (\<lambda>x. if x = [] then None else project_by_ref ''openproject'' x (Some ''project'') r) of
             Some pj \<Rightarrow> Some (pj_id pj)
           | None \<Rightarrow> (case list_all_items (st_projects r) of [] \<Rightarrow> None | pj # _ \<Rightarrow> Some (pj_id pj))))"

definition package_item :: "string \<Rightarrow> repository_set \<Rightarrow> work_item option" where
  "package_item x r = work_item_by_ref ''openproject'' x (Some ''work_package'') r"

definition find_or_create_work_item :: "'w op_ports \<Rightarrow> work_item_snapshot \<Rightarrow> uuid \<Rightarrow> 'w op_state
    \<Rightarrow> (work_item \<times> bool) \<times> 'w op_state" where
  "find_or_create_work_item p n project s =
     (case package_item (ws_external_id n) (repos s) of
        Some w \<Rightarrow> ((w, False), s)
      | None \<Rightarrow>
          (let (i, s1) = draw p s;
               w = (new_work_item i project (or_else (ws_summary n) (''OpenProject '' @ ws_external_id n)))
                     \<lparr>wi_description := ws_description n,
                      wi_external_refs := [openproject_ref ''work_package'' (ws_external_id n)]\<rparr>;
               s2 = on_repos (save_work_item w) s1; (m, s3) = draw p s2;
               s4 = on_op (save_mapping \<lparr>im_id = m, im_work_item_id = i, im_provider = ''openproject'',
                      im_external_id = ws_external_id n, im_sync_state = Synced,
                      im_last_synced_at = Some (px_now p), im_last_sync_error = None\<rparr>) s3
           in ((w, True), s4)))"

text \<open>The actor of a user has an id computed from the user's; it is stored once.\<close>

definition resolve_assignee :: "'w op_ports \<Rightarrow> work_item_snapshot \<Rightarrow> 'w op_state \<Rightarrow> uuid option \<times> 'w op_state" where
  "resolve_assignee p n s =
     (case ws_assignee_id n of
        None \<Rightarrow> (None, s)
      | Some a \<Rightarrow>
          if a = [] then (None, s)
          else (let i = px_uuid5 p (''openproject:user:'' @ a) in
                (Some i,
                 case get_item i (op_actors (opw s)) of
                   Some _ \<Rightarrow> s
                 | None \<Rightarrow> on_op (\<lambda>o1. o1\<lparr>op_actors :=
                     upsert \<lparr>ac_id = i, ac_type = Human_Actor,
                       ac_display_name = (case ws_assignee_name n of None \<Rightarrow> a | Some m \<Rightarrow> or_else m a),
                       ac_capabilities = []\<rparr> i (op_actors o1)\<rparr>) s)))"

definition with_snapshot :: "work_item_snapshot \<Rightarrow> uuid option \<Rightarrow> work_item \<Rightarrow> work_item" where
  "with_snapshot n assignee w =
     w\<lparr>wi_title := or_else (ws_summary n) (wi_title w),
       wi_description := or_else (ws_description n) (wi_description w),
       wi_type := map_work_item_type (ws_type n),
       wi_human := map_human_work_status (ws_state n),
       wi_priority := map_priority (ws_priority n),
       wi_assignee := (case assignee of None \<Rightarrow> wi_assignee w | Some a \<Rightarrow> Some a)\<rparr>"

definition apply_snapshot :: "'w op_ports \<Rightarrow> work_item_snapshot \<Rightarrow> work_item \<Rightarrow> 'w op_state
    \<Rightarrow> work_item \<times> 'w op_state" where
  "apply_snapshot p n w s =
     (let (a, s1) = resolve_assignee p n s; w' = with_snapshot n a w
      in (w', on_repos (save_work_item w') s1))"

text \<open>A parent id of 0 is no parent; the item itself is none either.\<close>

definition resolve_parent :: "work_item_snapshot \<Rightarrow> work_item \<Rightarrow> 'w op_state \<Rightarrow> work_item \<times> 'w op_state" where
  "resolve_parent n w s =
     (case ws_parent_id n of
        None \<Rightarrow> (w, s)
      | Some i \<Rightarrow>
          if i = 0 then (w, s)
          else (case package_item (str_int i) (repos s) of
                  None \<Rightarrow> (w, s)
                | Some q \<Rightarrow>
                    if wi_id q = wi_id w then (w, s)
                    else (let w' = w\<lparr>wi_parent_id := Some (wi_id q)\<rparr>
                          in (w', on_repos (save_work_item w') s))))"

subsection \<open>Relations\<close>

definition map_relation_type :: "string \<Rightarrow> relation_kind option" where
  "map_relation_type raw =
     map_of [(''blocks'', Blocks), (''relates'', Relates_To), (''relates_to'', Relates_To),
             (''precedes'', Precedes), (''follows'', Follows)] (lower (strip raw))"

fun map_graph_relation :: "relation_kind \<Rightarrow> relation_type" where
  "map_graph_relation Parent_Of = R_Parent_Of"
| "map_graph_relation Blocks = R_Blocks"
| "map_graph_relation Relates_To = R_Relates_To"
| "map_graph_relation Precedes = R_Precedes"
| "map_graph_relation Follows = R_Follows"

text \<open>Source, target, kind and target id of a raw relation, when all of them resolve.\<close>

definition relation_ends :: "work_item_snapshot \<Rightarrow> work_item \<Rightarrow> repository_set \<Rightarrow> raw_dict
    \<Rightarrow> (uuid \<times> uuid \<times> relation_kind) option" where
  "relation_ends n w r raw =
     (let target_id = py_or (jget raw ''target_id'') (jget raw ''to'');
          kind = py_or (jget raw ''relation_type'') (jget raw ''type'');
          source_id = py_or (jget raw ''source_id'') (jget raw ''from'')
      in if \<not> truthy target_id \<or> \<not> truthy kind then None
         else (case map_relation_type (py_str kind) of
                 None \<Rightarrow> None
               | Some k \<Rightarrow>
                   (case (if source_id \<noteq> JNull \<and> py_str source_id \<noteq> ws_external_id n
                          then map_option wi_id (package_item (py_str source_id) r) else Some (wi_id w)) of
                      None \<Rightarrow> None
                    | Some a \<Rightarrow>
                        (case package_item (py_str target_id) r of
                           None \<Rightarrow> None
                         | Some b \<Rightarrow> if wi_id b = a then None else Some (a, wi_id b, k)))))"

definition relation_ref :: "raw_dict \<Rightarrow> uuid \<Rightarrow> external_reference" where
  "relation_ref raw a =
     openproject_ref ''relation''
       (py_str (py_or (jget raw ''id'')
          (JStr (a @ '':'' @ py_str (py_or (jget raw ''target_id'') (jget raw ''to''))))))"

fun resolve_relations :: "'w op_ports \<Rightarrow> work_item_snapshot \<Rightarrow> work_item \<Rightarrow> raw_dict list \<Rightarrow> 'w op_state
    \<Rightarrow> nat \<times> 'w op_state" where
  "resolve_relations p n w [] s = (0, s)"
| "resolve_relations p n w (raw # raws) s =
     (case relation_ends n w (repos s) raw of
        None \<Rightarrow> resolve_relations p n w raws s
      | Some (a, b, k) \<Rightarrow>
          (let (i, s1) = draw p s;
               s2 = on_repos (\<lambda>r. snd (create_relation \<lparr>rl_id = i, rl_source = a, rl_target = b, rl_type = k,
                      rl_detected_at = px_now p, rl_external_refs = [relation_ref raw a]\<rparr> r)) s1;
               (c, s3) = resolve_relations p n w raws s2
           in (Suc c, s3)))"

subsection \<open>Graph projection\<close>

definition assignee_part :: "work_item \<Rightarrow> graph_entity list \<times> graph_relation list" where
  "assignee_part w =
     (case wi_assignee w of
        None \<Rightarrow> ([], [])
      | Some a \<Rightarrow> ([plain_entity a L_Actor (Some (wi_project_id w)) [(''actor_type'', JStr ''human'')]],
                  [plain_edge (wi_id w) R_Assigned_To a]))"

definition subgraph_entities :: "work_item \<Rightarrow> repository_set \<Rightarrow> graph_entity list" where
  "subgraph_entities w r =
     [plain_entity (wi_id w) L_Work_Item (Some (wi_project_id w))
        [(''title'', JStr (wi_title w)), (''type'', JStr (work_item_type_value (wi_type w))),
         (''human_work_status'', JStr (human_work_status_value (wi_human w)))]] @
     (case get_item (wi_project_id w) (st_projects r) of None \<Rightarrow> [] | Some pj \<Rightarrow> [project_entity pj]) @
     fst (assignee_part w)"

definition subgraph_relations :: "work_item \<Rightarrow> repository_set \<Rightarrow> graph_relation list" where
  "subgraph_relations w r =
     [plain_edge (wi_id w) R_Part_Of (wi_project_id w)] @
     (case wi_parent_id w of None \<Rightarrow> [] | Some q \<Rightarrow> [plain_edge (wi_id w) R_Parent_Of q]) @
     map (\<lambda>l. plain_edge (rl_source l) (map_graph_relation (rl_type l)) (rl_target l))
       (relations_of_work_item (wi_id w) r) @
     snd (assignee_part w)"

definition project_subgraph :: "'w op_ports \<Rightarrow> work_item \<Rightarrow> 'w op_state \<Rightarrow> ('w op_state, unit) outcome" where
  "project_subgraph p w s =
     swallow (then_do (on_rest (px_entities p (subgraph_entities w (repos s))) s)
       (\<lambda>u s1. on_rest (px_relations p (subgraph_relations w (repos s))) s1))"

subsection \<open>Attachments\<close>

definition is_text_attachment :: "string \<Rightarrow> bool" where
  "is_text_attachment t =
     (let l = lower (strip t) in
      starts_with l ''text/'' \<or> l \<in> {''application/json'', ''application/yaml'', ''application/x-yaml''})"

text \<open>\<open>_as_int\<close>.\<close>

definition as_int :: "json \<Rightarrow> json" where
  "as_int v = (if v = JNull then JNull else jopt JInt (py_int (py_str v)))"

text \<open>
  The fields of a raw attachment over those stored: the size is taken as it is whenever the
  key is there, the others when they are truthy.
\<close>

definition updated_attachment :: "raw_dict \<Rightarrow> attachment \<Rightarrow> attachment" where
  "updated_attachment raw a =
     a\<lparr>at_file_name := py_str (py_or (jget raw ''file_name'') (JStr (at_file_name a))),
       at_content_type := py_str (py_or (jget raw ''content_type'') (JStr (at_content_type a))),
       at_file_size := (case map_of raw ''file_size'' of None \<Rightarrow> at_file_size a | Some v \<Rightarrow> v),
       at_download_url := (case nonempty (str_or_empty (jget raw ''download_url'')) of
                             None \<Rightarrow> at_download_url a | Some u \<Rightarrow> Some u)\<rparr>"

definition new_attachment :: "uuid \<Rightarrow> uuid \<Rightarrow> datetime \<Rightarrow> string \<Rightarrow> raw_dict \<Rightarrow> attachment" where
  "new_attachment i w now x raw =
     \<lparr>at_id = i, at_work_item_id = w,
      at_file_name = py_str (py_or (jget raw ''file_name'') (JStr (''attachment-'' @ x))),
      at_content_type = str_or_empty (jget raw ''content_type''),
      at_file_size = as_int (jget raw ''file_size''),
      at_download_url = nonempty (str_or_empty (jget raw ''download_url'')),
      at_content_ingested = False, at_created_at = now,
      at_external_refs = [openproject_ref ''attachment'' x]\<rparr>"

definition attachment_artifact :: "attachment \<Rightarrow> string \<Rightarrow> string \<Rightarrow> source_artifact" where
  "attachment_artifact a url content =
     (new_artifact url ''openproject'')
       \<lparr>sa_mime_type := Some (or_else (at_content_type a) ''text/plain''), sa_file_name := Some (at_file_name a),
        sa_content := Some content\<rparr>"

text \<open>A failing download is only logged; a failing ingestion of the document is not caught.\<close>

definition ingest_attachment_content :: "'w op_ports \<Rightarrow> attachment \<Rightarrow> uuid \<Rightarrow> 'w op_state
    \<Rightarrow> ('w op_state, unit) outcome" where
  "ingest_attachment_content p a project s =
     (case (px_fetch p, px_documents p, at_download_url a) of
        (Some fetch, Some ingest, Some url) \<Rightarrow>
          (case on_rest (fetch url) s of
             (Inl e, s1) \<Rightarrow> (Inr (), s1)
           | (Inr content, s1) \<Rightarrow>
               then_do (on_rest (ingest (attachment_artifact a url content) project) s1) (\<lambda>u s2.
                 (Inr (), on_repos (save_attachment (a\<lparr>at_content_ingested := True\<rparr>)) s2)))
      | _ \<Rightarrow> (Inr (), s))"

definition upsert_attachment_edges :: "'w op_ports \<Rightarrow> attachment \<Rightarrow> 'w op_state \<Rightarrow> ('w op_state, unit) outcome" where
  "upsert_attachment_edges p a s =
     swallow (then_do (on_rest (px_entities p [plain_entity (at_id a) L_Attachment None
         [(''file_name'', JStr (at_file_name a)), (''content_type'', JStr (at_content_type a))]]) s)
       (\<lambda>u s1. on_rest (px_relations p [plain_edge (at_work_item_id a) R_Has_Attachment (at_id a)]) s1))"

definition reconcile_attachment :: "'w op_ports \<Rightarrow> work_item \<Rightarrow> string \<Rightarrow> raw_dict \<Rightarrow> 'w op_state
    \<Rightarrow> ('w op_state, unit) outcome" where
  "reconcile_attachment p w x raw s =
     (case attachment_by_ref ''openproject'' x (Some ''attachment'') (repos s) of
        Some a \<Rightarrow>
          (let up = updated_attachment raw a
           in (Inr (), if up \<noteq> a then on_repos (save_attachment up) s else s))
      | None \<Rightarrow>
          (let (i, s1) = draw p s; a = new_attachment i (wi_id w) (px_now p) x raw;
               s2 = on_repos (save_attachment a) s1
           in then_do (if px_fetch p \<noteq> None \<and> px_documents p \<noteq> None \<and> at_download_url a \<noteq> None \<and>
                          is_text_attachment (at_content_type a)
                       then ingest_attachment_content p a (wi_project_id w) s2 else (Inr (), s2))
                (\<lambda>u s3. upsert_attachment_edges p a s3)))"

fun reconcile_attachments :: "'w op_ports \<Rightarrow> work_item \<Rightarrow> raw_dict list \<Rightarrow> 'w op_state
    \<Rightarrow> ('w op_state, nat) outcome" where
  "reconcile_attachments p w [] s = (Inr 0, s)"
| "reconcile_attachments p w (raw # raws) s =
     (let x = str_or_empty (jget raw ''id'') in
      if x = [] then reconcile_attachments p w raws s
      else then_do (reconcile_attachment p w x raw s) (\<lambda>u s1.
             then_do (reconcile_attachments p w raws s1) (\<lambda>n s2. (Inr (Suc n), s2))))"

subsection \<open>Events\<close>

definition snapshot_payload :: "work_item_snapshot \<Rightarrow> json" where
  "snapshot_payload n =
     JDict [(''type'', JStr (ws_type n)), (''priority'', JStr (ws_priority n)),
       (''closed'', JBool (ws_closed n)), (''project_id'', jopt JStr (ws_project_id n)),
       (''project_name'', jopt JStr (ws_project_name n)),
       (''assignee_name'', jopt JStr (ws_assignee_name n)), (''parent_id'', jopt JInt (ws_parent_id n)),
       (''attachments'', JList (map JDict (ws_attachments n))),
       (''relations'', JList (map JDict (ws_relations n))),
       (''activities_url'', jopt JStr (ws_activities_url n)),
       (''created_at'', jopt JStr (ws_created_at n)), (''updated_at'', jopt JStr (ws_updated_at n))]"

definition changes_json :: "semantic_change list \<Rightarrow> json" where
  "changes_json cs = JList (map (\<lambda>c. JStr (semantic_change_value c)) cs)"

definition event_is_created :: "bool \<Rightarrow> string option \<Rightarrow> bool" where
  "event_is_created created action =
     (case action of None \<Rightarrow> created | Some a \<Rightarrow> a = ''work_package:created'')"

definition triggers_assignment :: "'w op_ports \<Rightarrow> work_item_snapshot \<Rightarrow> semantic_change list \<Rightarrow> bool
    \<Rightarrow> string option \<Rightarrow> bool" where
  "triggers_assignment p n changes created action =
     (case px_brain_actor p of
        None \<Rightarrow> False
      | Some b \<Rightarrow>
          b \<noteq> [] \<and> ws_assignee_id n = Some b \<and>
          (event_is_created created action \<or> Assignee_Changed \<in> set changes))"

definition publish_work_item_event :: "'w op_ports \<Rightarrow> work_item \<Rightarrow> work_item_snapshot \<Rightarrow> semantic_change list
    \<Rightarrow> bool \<Rightarrow> string \<Rightarrow> uuid \<Rightarrow> uuid option \<Rightarrow> 'w op_state \<Rightarrow> ('w op_state, event_envelope) outcome" where
  "publish_work_item_event p w n changes created src project corr s =
     emit_event p (if created then WorkItemCreated (px_dump p w) else WorkItemChanged (px_dump p w)) src
       (Some project) corr
       [(''changes'', changes_json changes), (''snapshot'', snapshot_payload n),
        (''external_id'', JStr (ws_external_id n))] s"

definition publish_assignment :: "'w op_ports \<Rightarrow> work_item \<Rightarrow> work_item_snapshot \<Rightarrow> string \<Rightarrow> uuid option
    \<Rightarrow> 'w op_state \<Rightarrow> ('w op_state, event_envelope) outcome" where
  "publish_assignment p w n src corr s =
     emit_event p (WorkItemAssigned (wi_id w) None (ws_assignee_id n) None (px_now_text p)) src None corr [] s"

definition unresolved_event :: "'w op_ports \<Rightarrow> uuid \<Rightarrow> uuid \<Rightarrow> work_item_snapshot \<Rightarrow> semantic_change list
    \<Rightarrow> bool \<Rightarrow> string \<Rightarrow> uuid option \<Rightarrow> event_envelope" where
  "unresolved_event p i fresh n changes created src corr =
     \<lparr>ev_id = i, ev_type = (if created then WORK_ITEM_CREATED else WORK_ITEM_CHANGED),
      ev_occurred_at = px_now p, ev_project_id = None,
      ev_correlation_id = (case corr of None \<Rightarrow> fresh | Some c \<Rightarrow> c), ev_causation_id = None,
      ev_source = src, ev_idempotency_key = None,
      ev_payload = [(''provider'', JStr ''openproject''), (''external_id'', JStr (ws_external_id n)),
        (''subject'', JStr (ws_summary n)), (''status'', JStr (ws_state n)),
        (''assignee'', jopt JStr (ws_assignee_id n)), (''changes'', changes_json changes),
        (''snapshot'', snapshot_payload n)]\<rparr>"

subsection \<open>Ingesting a snapshot\<close>

datatype ingestion_mode = Bootstrap_Mode | Live_Mode

record ingestion_result =
  ir_work_item :: "work_item option"
  ir_created :: bool
  ir_changes :: "semantic_change list"
  ir_event_type :: "string option"
  ir_assignment_triggered :: bool
  ir_snapshot_saved :: bool
  ir_attachments :: nat
  ir_relations :: nat

definition unresolved_result :: ingestion_result where
  "unresolved_result =
     \<lparr>ir_work_item = None, ir_created = False, ir_changes = [], ir_event_type = None,
      ir_assignment_triggered = False, ir_snapshot_saved = False, ir_attachments = 0, ir_relations = 0\<rparr>"

text \<open>The part that persists: the item with its parent, relations, attachments and subgraph.\<close>

definition persist_snapshot :: "'w op_ports \<Rightarrow> work_item_snapshot \<Rightarrow> semantic_change list \<Rightarrow> uuid \<Rightarrow> 'w op_state
    \<Rightarrow> ('w op_state, work_item \<times> ingestion_result) outcome" where
  "persist_snapshot p n changes project s =
     (let ((w, created), s1) = find_or_create_work_item p n project s;
          (w1, s2) = apply_snapshot p n w s1;
          (w2, s3) = resolve_parent n w1 s2;
          (rels, s4) = resolve_relations p n w2 (ws_relations n) s3
      in then_do (reconcile_attachments p w2 (ws_attachments n) s4) (\<lambda>atts s5.
           then_do (project_subgraph p w2 s5) (\<lambda>u s6.
             (Inr (w2, \<lparr>ir_work_item = Some w2, ir_created = created, ir_changes = changes,
                ir_event_type = None, ir_assignment_triggered = False, ir_snapshot_saved = False,
                ir_attachments = atts, ir_relations = rels\<rparr>), s6))))"

definition announce_snapshot :: "'w op_ports \<Rightarrow> work_item_snapshot \<Rightarrow> semantic_change list \<Rightarrow> string \<Rightarrow> uuid option
    \<Rightarrow> string option \<Rightarrow> bool \<Rightarrow> (uuid \<times> work_item) option \<Rightarrow> ingestion_result \<Rightarrow> 'w op_state
    \<Rightarrow> ('w op_state, ingestion_result) outcome" where
  "announce_snapshot p n changes src corr action unchanged found r s =
     (let created = event_is_created (ir_created r) action in
      case found of
        Some (project, w) \<Rightarrow>
          if \<not> unchanged \<and> \<not> ir_created r \<and> changes = [] then (Inr r, s)
          else then_do (publish_work_item_event p w n changes created src project corr s) (\<lambda>e s1.
            (let r1 = r\<lparr>ir_event_type := Some (event_type_value (ev_type e))\<rparr> in
             if triggers_assignment p n changes (ir_created r) action
             then then_do (publish_assignment p w n src corr s1)
                    (\<lambda>e' s2. (Inr (r1\<lparr>ir_assignment_triggered := True\<rparr>), s2))
             else (Inr r1, s1)))
      | None \<Rightarrow>
          (let (i, s1) = draw p s; (fresh, s2) = draw p s1;
               e = unresolved_event p i fresh n changes created src corr
           in then_do (publish (px_run p) e s2) (\<lambda>u s3.
                (Inr (r\<lparr>ir_event_type := Some (event_type_value (ev_type e))\<rparr>), s3))))"

definition ingest_work_item_snapshot :: "'w op_ports \<Rightarrow> work_item_snapshot \<Rightarrow> ingestion_mode \<Rightarrow> string
    \<Rightarrow> uuid option \<Rightarrow> uuid option \<Rightarrow> string option \<Rightarrow> bool \<Rightarrow> 'w op_state
    \<Rightarrow> ('w op_state, ingestion_result) outcome" where
  "ingest_work_item_snapshot p n mode src corr pid action unchanged s =
     (let changes = diff_snapshots (get_snapshot_of (ws_external_id n) (opw s)) n in
      then_do
        (case resolve_project n pid (repos s) of
           None \<Rightarrow> (Inr (None, unresolved_result), s)
         | Some project \<Rightarrow>
             then_do (persist_snapshot p n changes project s)
               (\<lambda>(w, r) s1. (Inr (Some (project, w), r), s1)))
        (\<lambda>(found, r) s1.
           let s2 = on_op (save_snapshot_of n) s1; r1 = r\<lparr>ir_snapshot_saved := True\<rparr> in
           case mode of
             Bootstrap_Mode \<Rightarrow> (Inr r1, s2)
           | Live_Mode \<Rightarrow> announce_snapshot p n changes src corr action unchanged found r1 s2))"

text \<open>The second pass of a batch.\<close>

definition relate_snapshot :: "'w op_ports \<Rightarrow> work_item_snapshot \<Rightarrow> 'w op_state \<Rightarrow> ('w op_state, unit) outcome" where
  "relate_snapshot p n s =
     (case package_item (ws_external_id n) (repos s) of
        None \<Rightarrow> (Inr (), s)
      | Some w \<Rightarrow>
          (let (w1, s1) = resolve_parent n w s; (c, s2) = resolve_relations p n w1 (ws_relations n) s1
           in project_subgraph p w1 s2))"

definition resolve_relationships :: "'w op_ports \<Rightarrow> work_item_snapshot list \<Rightarrow> 'w op_state
    \<Rightarrow> ('w op_state, unit) outcome" where
  "resolve_relationships p ns s = each_do (relate_snapshot p) ns s"

subsection \<open>Comments\<close>

definition project_comment :: "'w op_ports \<Rightarrow> comment \<Rightarrow> 'w op_state \<Rightarrow> ('w op_state, unit) outcome" where
  "project_comment p c s =
     swallow (then_do (on_rest (px_entities p [plain_entity (cm_id c) L_Comment None
         [(''text'', JStr (take 500 (cm_text c)))]]) s)
       (\<lambda>u s1. on_rest (px_relations p [plain_edge (cm_id c) R_Comment_On (cm_work_item_id c)]) s1))"

definition make_comment :: "uuid \<Rightarrow> uuid \<Rightarrow> datetime \<Rightarrow> string \<Rightarrow> string \<Rightarrow> comment_kind
    \<Rightarrow> external_reference list \<Rightarrow> comment" where
  "make_comment i w now author body k refs =
     \<lparr>cm_id = i, cm_work_item_id = w, cm_author_id = None, cm_author_name = Some author, cm_text = body,
      cm_kind = k, cm_created_at = now, cm_external_refs = refs\<rparr>"

definition ingest_comment :: "'w op_ports \<Rightarrow> uuid option \<Rightarrow> string \<Rightarrow> string \<Rightarrow> string \<Rightarrow> datetime option
    \<Rightarrow> ingestion_mode \<Rightarrow> string \<Rightarrow> uuid option \<Rightarrow> 'w op_state \<Rightarrow> ('w op_state, comment) outcome" where
  "ingest_comment p wid x author body made mode src corr s =
     (case comment_by_ref ''openproject'' x (Some ''activity'') (repos s) of
        Some c \<Rightarrow> (Inr c, s)
      | None \<Rightarrow>
          (let now = (case made of None \<Rightarrow> px_now p | Some t \<Rightarrow> t) in
           then_do
             (case wid of
                None \<Rightarrow> (Inr None, s)
              | Some w \<Rightarrow>
                  (let (i, s1) = draw p s;
                       c = make_comment i w now author body
                             (if mode = Bootstrap_Mode then Context_Comment else Feedback_Comment)
                             [openproject_ref ''activity'' x];
                       s2 = on_repos (save_comment c) s1
                   in then_do (project_comment p c s2) (\<lambda>u s3. (Inr (Some c), s3))))
             (\<lambda>kept s1.
                then_do
                  (if mode = Live_Mode
                   then then_do (emit_event p (HumanFeedbackReceived wid None None author ''openproject'' x
                          Fb_Note body) src None corr [] s1) (\<lambda>e s2. (Inr (), s2))
                   else (Inr (), s1))
                  (\<lambda>u s2.
                     case kept of
                       Some c \<Rightarrow> (Inr c, s2)
                     | None \<Rightarrow>
                         (let (w, s3) = draw p s2; (i, s4) = draw p s3
                          in (Inr (make_comment i w now author body Context_Comment []), s4))))))"

subsection \<open>What an ingestion leaves alone\<close>

text \<open>
  \<open>quiet s t\<close>: from \<open>s\<close> to \<open>t\<close> only the repositories and the world changed; no event was
  published and no command queued.
\<close>

definition quiet :: "'w op_state \<Rightarrow> 'w op_state \<Rightarrow> bool" where
  "quiet s t \<longleftrightarrow>
     (\<exists>r o1. t = set_ext ((event_ext s)\<lparr>hb_repos := r, hb_world := o1\<rparr>) s)"

lemma set_ext_set_ext [simp]: "set_ext x (set_ext y s) = set_ext x s"
  by (simp add: set_ext_def)

lemma set_ext_same [simp]: "set_ext (event_ext s) s = s"
  by (simp add: set_ext_def)

lemma quiet_refl [simp, intro]: "quiet s s"
  unfolding quiet_def by (rule exI [of _ "hb_repos (event_ext s)"], rule exI [of _ "hb_world (event_ext s)"]) simp

lemma quiet_set: "quiet s t \<Longrightarrow> quiet s (set_ext ((event_ext t)\<lparr>hb_repos := r, hb_world := o1\<rparr>) t)"
  unfolding quiet_def by (elim exE, simp) (rule exI, rule exI, rule refl)

lemma quiet_trans: "\<lbrakk>quiet s t; quiet t u\<rbrakk> \<Longrightarrow> quiet s u"
  using quiet_set by (metis quiet_def)

lemma quiet_on_repos: "quiet s t \<Longrightarrow> quiet s (on_repos f t)"
  using quiet_set [of s t, where r = "f (hb_repos (event_ext t))" and ?o1.0 = "hb_world (event_ext t)"] by (simp add: on_repos_def)

lemma quiet_on_op: "quiet s t \<Longrightarrow> quiet s (on_op f t)"
  using quiet_set [of s t, where r = "hb_repos (event_ext t)" and ?o1.0 = "f (hb_world (event_ext t))"] by (simp add: on_op_def)

lemma quietD:
  assumes "quiet s t"
  shows "bus_published t = bus_published s" "bus_handlers t = bus_handlers s"
    "processed_keys t = processed_keys s" "event_log t = event_log s"
    "hb_queue (event_ext t) = hb_queue (event_ext s)" "hb_capsules (event_ext t) = hb_capsules (event_ext s)"
    "hb_policies (event_ext t) = hb_policies (event_ext s)"
    "hb_projections (event_ext t) = hb_projections (event_ext s)"
  using assms by (auto simp: quiet_def set_ext_def)

lemma parts_simps [simp]:
  "repos (on_repos f s) = f (repos s)" "opw (on_repos f s) = opw s"
  "repos (on_op g s) = repos s" "opw (on_op g s) = g (opw s)"
  by (simp_all add: repos_def on_repos_def opw_def on_op_def)

lemma draw_simps [simp]:
  "fst (draw p s) = px_ids p (op_drawn (opw s))" "repos (snd (draw p s)) = repos s"
  by (simp_all add: draw_def)

lemma on_rest_simps [simp]: "repos (snd (on_rest f s)) = repos s"
  by (simp add: on_rest_def split: prod.split)

text \<open>
  What every step of the ingestion keeps. A relation between states that the elementary updates
  keep - of the repositories, of the counter, the actors, the mappings and the rest of the world -
  is kept by each operation, whatever the ports do.
\<close>

locale ingestion_frame =
  fixes R :: "'w op_state \<Rightarrow> 'w op_state \<Rightarrow> bool"
  assumes same: "R s s"
    and after_repos: "R s t \<Longrightarrow> R s (on_repos f t)"
    and after_rest: "R s t \<Longrightarrow> R s (on_op (\<lambda>o1. o1\<lparr>op_rest := w\<rparr>) t)"
    and after_count: "R s t \<Longrightarrow> R s (on_op (\<lambda>o1. o1\<lparr>op_drawn := Suc (op_drawn o1)\<rparr>) t)"
    and after_actor: "R s t \<Longrightarrow> R s (on_op (\<lambda>o1. o1\<lparr>op_actors := upsert a i (op_actors o1)\<rparr>) t)"
    and after_mapping: "R s t \<Longrightarrow> R s (on_op (save_mapping m) t)"
begin

lemma draw: "R s t \<Longrightarrow> R s (snd (draw p t))"
  by (simp add: draw_def after_count)

lemma port: "R s t \<Longrightarrow> R s (snd (on_rest f t))"
  by (simp add: on_rest_def after_rest split: prod.split)

lemma then_do:
  assumes "R s (snd m)" and "\<And>a t. R s t \<Longrightarrow> R s (snd (k a t))"
  shows "R s (snd (then_do m k))"
  using assms(1) by (rule then_do_state [of "R s"]) (rule assms(2))

lemma caught: "R s (snd m) \<Longrightarrow> R s (snd (swallow m))"
  by (simp add: swallow_def)

lemma pair: "R s t \<Longrightarrow> R s (snd (a, t))"
  by simp

lemmas intros = pair after_repos after_actor after_mapping draw port caught then_do

lemma find: "R s t \<Longrightarrow> R s (snd (find_or_create_work_item p n project t))"
  unfolding find_or_create_work_item_def Let_def split_beta
  by (auto split: option.split intro!: intros)

lemma assignee: "R s t \<Longrightarrow> R s (snd (resolve_assignee p n t))"
  unfolding resolve_assignee_def Let_def by (auto split: option.split intro!: intros)

lemma applied: "R s t \<Longrightarrow> R s (snd (apply_snapshot p n w t))"
  unfolding apply_snapshot_def Let_def split_beta by (auto intro!: intros assignee)

lemma parent: "R s t \<Longrightarrow> R s (snd (resolve_parent n w t))"
  unfolding resolve_parent_def Let_def by (auto split: option.split intro!: intros)

lemma relations: "R s t \<Longrightarrow> R s (snd (resolve_relations p n w raws t))"
proof (induction raws arbitrary: t)
  case (Cons raw raws)
  then show ?case
    unfolding resolve_relations.simps Let_def split_beta
    by (auto split: option.split intro!: intros Cons.IH)
qed simp

lemma subgraph: "R s t \<Longrightarrow> R s (snd (project_subgraph p w t))"
  unfolding project_subgraph_def by (intro intros)

lemma edges: "R s t \<Longrightarrow> R s (snd (upsert_attachment_edges p a t))"
  unfolding upsert_attachment_edges_def by (intro intros)

lemma downloaded:
  assumes "R s t" and "\<And>c u. R s u \<Longrightarrow> R s (snd (k c u))"
  shows "R s (snd (case on_rest f t of (Inl e, u) \<Rightarrow> (Inr (), u) | (Inr c, u) \<Rightarrow> k c u))"
  using port [OF assms(1), of f] assms(2)
  by (cases "on_rest f t"; cases "fst (on_rest f t)") simp_all

lemma content: "R s t \<Longrightarrow> R s (snd (ingest_attachment_content p a project t))"
  unfolding ingest_attachment_content_def
  by (auto split: option.split intro!: downloaded intros)

lemma attachment: "R s t \<Longrightarrow> R s (snd (reconcile_attachment p w x raw t))"
  unfolding reconcile_attachment_def Let_def split_beta
  by (auto split: option.split if_splits intro!: intros content edges)

lemma attachments: "R s t \<Longrightarrow> R s (snd (reconcile_attachments p w raws t))"
proof (induction raws arbitrary: t)
  case (Cons raw raws)
  then show ?case
    unfolding reconcile_attachments.simps Let_def
    by (auto intro!: intros attachment Cons.IH)
qed simp

lemma persist: "R s t \<Longrightarrow> R s (snd (persist_snapshot p n changes project t))"
  unfolding persist_snapshot_def Let_def split_beta
  by (intro intros attachments subgraph relations parent applied find)

lemma relate: "R s t \<Longrightarrow> R s (snd (relate_snapshot p n t))"
  unfolding relate_snapshot_def Let_def split_beta
  by (auto split: option.split intro!: subgraph relations parent)

lemma relationships: "R s t \<Longrightarrow> R s (snd (resolve_relationships p ns t))"
  unfolding resolve_relationships_def by (rule each_do_state [of "R s"]) (auto intro: relate)

lemma comment_node: "R s t \<Longrightarrow> R s (snd (project_comment p c t))"
  unfolding project_comment_def by (intro intros)

lemma comment: "R s t \<Longrightarrow> R s (snd (ingest_comment p wid x author body made Bootstrap_Mode src corr t))"
  unfolding ingest_comment_def Let_def split_beta
  by (auto split: option.split intro!: intros comment_node)

lemma project_node: "R s t \<Longrightarrow> R s (snd (upsert_project_node p pj t))"
  unfolding upsert_project_node_def by (auto split: option.split intro!: intros)

lemma project: "R s t \<Longrightarrow> R s (snd (upsert_project p x name desc parent pid t))"
  unfolding upsert_project_def Let_def split_beta
  by (auto split: option.split intro!: intros project_node)

end

text \<open>A relation that the baseline of snapshots does not matter to.\<close>

locale silent_frame = ingestion_frame +
  assumes after_snapshot: "R s t \<Longrightarrow> R s (on_op (save_snapshot_of n) t)"
begin

lemma ingestion:
  "R s t \<Longrightarrow> R s (snd (ingest_work_item_snapshot p n Bootstrap_Mode src corr pid action unchanged t))"
  unfolding ingest_work_item_snapshot_def Let_def split_beta
  by (auto split: option.split intro!: intros persist after_snapshot)

end

text \<open>A relation that a publication keeps too: it covers the live mode as well.\<close>

locale live_frame = silent_frame R for R :: "'w op_state \<Rightarrow> 'w op_state \<Rightarrow> bool" +
  fixes p :: "'w op_ports"
  assumes after_publish: "R s t \<Longrightarrow> R s (snd (publish (px_run p) e t))"
    and after_conflict: "R s t \<Longrightarrow> R s (on_op (save_conflict c) t)"
begin

lemma emitted: "R s t \<Longrightarrow> R s (snd (emit_event p e src pid corr extra t))"
  unfolding emit_event_def Let_def split_beta by (auto intro!: intros after_publish)

lemma announced:
  "R s t \<Longrightarrow> R s (snd (announce_snapshot p n changes src corr action unchanged found r t))"
  unfolding announce_snapshot_def publish_work_item_event_def publish_assignment_def Let_def split_beta
  by (auto split: option.split intro!: intros emitted after_publish)

lemma any_ingestion:
  "R s t \<Longrightarrow> R s (snd (ingest_work_item_snapshot p n mode src corr pid action unchanged t))"
  unfolding ingest_work_item_snapshot_def Let_def split_beta
  by (auto split: option.split ingestion_mode.split intro!: intros persist after_snapshot announced)

lemma any_comment:
  "R s t \<Longrightarrow> R s (snd (ingest_comment p wid x author body made mode src corr t))"
  unfolding ingest_comment_def Let_def split_beta
  by (auto split: option.split intro!: intros comment_node emitted)

end

text \<open>
  A bootstrap never triggers work: ingesting in bootstrap mode publishes no event, queues no
  command and changes neither capsules, policies nor projections - also when a port raises.
\<close>

interpretation quiet: silent_frame quiet
  by unfold_locales (auto intro: quiet_on_repos quiet_on_op)

text \<open>Nothing but the last step of an ingestion writes the baseline of snapshots.\<close>

definition same_baseline :: "'w op_state \<Rightarrow> 'w op_state \<Rightarrow> bool" where
  "same_baseline s t \<longleftrightarrow> op_snapshots (opw t) = op_snapshots (opw s)"

interpretation baseline: ingestion_frame same_baseline
  by unfold_locales (simp_all add: same_baseline_def save_mapping_def)

subsection \<open>The graph is only a projection\<close>

text \<open>The same ports with a graph that accepts everything and keeps nothing.\<close>

definition silent_graph :: "'w op_ports \<Rightarrow> 'w op_ports" where
  "silent_graph p = p\<lparr>px_entities := \<lambda>es w. (Inr (), w), px_relations := \<lambda>rs w. (Inr (), w)\<rparr>"

definition set_rest :: "'w \<Rightarrow> 'w op_state \<Rightarrow> 'w op_state" where
  "set_rest w s = on_op (\<lambda>o1. o1\<lparr>op_rest := w\<rparr>) s"

lemma on_op_on_op: "on_op f (on_op g s) = on_op (\<lambda>o1. f (g o1)) s"
  by (simp add: on_op_def)

lemma on_op_on_repos: "on_repos f (on_op g s) = on_op g (on_repos f s)"
  by (cases "event_ext s") (simp add: on_op_def on_repos_def)

lemma on_op_same [simp]: "on_op (\<lambda>o1. o1) s = s"
  by (simp add: on_op_def)

lemma set_rest_simps [simp]:
  "repos (set_rest w s) = repos s" "op_drawn (opw (set_rest w s)) = op_drawn (opw s)"
  "op_actors (opw (set_rest w s)) = op_actors (opw s)"
  "op_snapshots (opw (set_rest w s)) = op_snapshots (opw s)"
  "on_repos f (set_rest w s) = set_rest w (on_repos f s)"
  "set_rest w (set_rest v s) = set_rest w s"
  by (simp_all add: set_rest_def on_op_on_op on_op_on_repos)

lemma on_op_set_rest:
  "(\<And>o1. g (o1\<lparr>op_rest := w\<rparr>) = (g o1)\<lparr>op_rest := w\<rparr>) \<Longrightarrow> on_op g (set_rest w s) = set_rest w (on_op g s)"
  by (simp add: set_rest_def on_op_on_op)

lemma set_rest_own: "\<exists>w. s = set_rest w s"
  by (rule exI [of _ "op_rest (opw s)"]) (simp add: set_rest_def on_op_def opw_def)

lemma draw_set_rest [simp]: "draw p (set_rest w s) = (fst (draw p s), set_rest w (snd (draw p s)))"
  by (simp add: draw_def on_op_set_rest)

lemma on_rest_cases: obtains r w where "on_rest f s = (r, set_rest w s)"
  by (cases "f (op_rest (opw s))") (simp add: on_rest_def set_rest_def)

lemma silent_simps [simp]:
  "px_ids (silent_graph p) = px_ids p" "px_uuid5 (silent_graph p) = px_uuid5 p"
  "px_now (silent_graph p) = px_now p" "px_fetch (silent_graph p) = px_fetch p"
  "px_documents (silent_graph p) = px_documents p" "draw (silent_graph p) = draw p"
  by (auto simp: silent_graph_def draw_def)

lemma silent_same:
  "find_or_create_work_item (silent_graph p) = find_or_create_work_item p"
  "apply_snapshot (silent_graph p) = apply_snapshot p"
  "resolve_relations (silent_graph p) n w raws s = resolve_relations p n w raws s"
proof -
  show "find_or_create_work_item (silent_graph p) = find_or_create_work_item p"
    by (intro ext) (simp add: find_or_create_work_item_def split: option.split)
  have "resolve_assignee (silent_graph p) = resolve_assignee p"
    by (intro ext) (simp add: resolve_assignee_def split: option.split)
  then show "apply_snapshot (silent_graph p) = apply_snapshot p"
    by (intro ext) (simp add: apply_snapshot_def)
  show "resolve_relations (silent_graph p) n w raws s = resolve_relations p n w raws s"
    by (induction raws arbitrary: s) (simp_all split: option.split)
qed

lemma on_rest_silent:
  "on_rest (px_entities (silent_graph p) es) s = (Inr (), s)"
  "on_rest (px_relations (silent_graph p) rs) s = (Inr (), s)"
  by (simp_all add: silent_graph_def on_rest_def on_op_def opw_def)

lemma graph_calls:
  "\<exists>w. swallow (then_do (on_rest f s) (\<lambda>u. on_rest g)) = (Inr (), set_rest w s)"
proof -
  obtain r v where f: "on_rest f s = (r, set_rest v s)" by (rule on_rest_cases)
  obtain r' v' where "on_rest g (set_rest v s) = (r', set_rest v' (set_rest v s))" by (rule on_rest_cases)
  with f show ?thesis by (cases r) (auto simp: swallow_def)
qed

lemma subgraph_any: "\<exists>v'. project_subgraph p w (set_rest v s) = (Inr (), set_rest v' s)"
  using graph_calls [of _ "set_rest v s"] by (simp add: project_subgraph_def)

lemma subgraph_silent: "project_subgraph (silent_graph p) w s = (Inr (), s)"
  by (simp add: project_subgraph_def on_rest_silent swallow_def)

lemma edges_any: "\<exists>v'. upsert_attachment_edges p a (set_rest v s) = (Inr (), set_rest v' s)"
  using graph_calls [of _ "set_rest v s"] by (simp add: upsert_attachment_edges_def)

lemma edges_silent: "upsert_attachment_edges (silent_graph p) a s = (Inr (), s)"
  by (simp add: upsert_attachment_edges_def on_rest_silent swallow_def)

lemma attachment_any:
  assumes "px_fetch p = None"
  shows "\<exists>t. reconcile_attachment (silent_graph p) w x raw s = (Inr (), t) \<and>
    (\<forall>v. \<exists>v'. reconcile_attachment p w x raw (set_rest v s) = (Inr (), set_rest v' t))"
proof (cases "attachment_by_ref ''openproject'' x (Some ''attachment'') (repos s)")
  case None
  with assms show ?thesis
    by (simp add: reconcile_attachment_def Let_def split_beta edges_silent) (blast intro: edges_any)
next
  case (Some a)
  then show ?thesis by (simp add: reconcile_attachment_def Let_def) (metis set_rest_simps(5))
qed

lemma attachments_any:
  assumes "px_fetch p = None"
  shows "\<exists>k t. reconcile_attachments (silent_graph p) w raws s = (Inr k, t) \<and>
    (\<forall>v. \<exists>v'. reconcile_attachments p w raws (set_rest v s) = (Inr k, set_rest v' t))"
proof (induction raws arbitrary: s)
  case Nil
  show ?case by auto
next
  case (Cons raw raws)
  show ?case
  proof (cases "str_or_empty (jget raw ''id'') = []")
    case True
    with Cons show ?thesis by simp
  next
    case False
    obtain t where 1: "reconcile_attachment (silent_graph p) w (str_or_empty (jget raw ''id'')) raw s = (Inr (), t)"
      "\<And>v. \<exists>v'. reconcile_attachment p w (str_or_empty (jget raw ''id'')) raw (set_rest v s) = (Inr (), set_rest v' t)"
      using attachment_any [OF assms] by blast
    obtain k u where 2: "reconcile_attachments (silent_graph p) w raws t = (Inr k, u)"
      "\<And>v. \<exists>v'. reconcile_attachments p w raws (set_rest v t) = (Inr k, set_rest v' u)"
      using Cons [of t] by blast
    have "\<exists>v'. reconcile_attachments p w (raw # raws) (set_rest v s) = (Inr (Suc k), set_rest v' u)" for v
    proof -
      obtain v1 where "reconcile_attachment p w (str_or_empty (jget raw ''id'')) raw (set_rest v s) =
          (Inr (), set_rest v1 t)" using 1(2) by blast
      moreover obtain v2 where "reconcile_attachments p w raws (set_rest v1 t) = (Inr k, set_rest v2 u)"
        using 2(2) by blast
      ultimately show ?thesis using False by (simp add: Let_def) blast
    qed
    moreover have "reconcile_attachments (silent_graph p) w (raw # raws) s = (Inr (Suc k), u)"
      using False 1(1) 2(1) by (simp add: Let_def)
    ultimately show ?thesis by blast
  qed
qed

lemma graph_any:
  assumes "px_fetch p = None"
  shows "\<exists>r t. ingest_work_item_snapshot (silent_graph p) n Bootstrap_Mode src corr pid action unchanged s = (Inr r, t) \<and>
    (\<exists>v. ingest_work_item_snapshot p n Bootstrap_Mode src corr pid action unchanged s = (Inr r, set_rest v t))"
proof (cases "resolve_project n pid (repos s)")
  case None
  then show ?thesis
    using set_rest_own by (simp add: ingest_work_item_snapshot_def Let_def)
next
  case (Some project)
  define c where "c = diff_snapshots (get_snapshot_of (ws_external_id n) (opw s)) n"
  obtain w created s1 where 1: "find_or_create_work_item p n project s = ((w, created), s1)"
    by (metis surj_pair)
  obtain w1 s2 where 2: "apply_snapshot p n w s1 = (w1, s2)" by fastforce
  obtain w2 s3 where 3: "resolve_parent n w1 s2 = (w2, s3)" by fastforce
  obtain rels s4 where 4: "resolve_relations p n w2 (ws_relations n) s3 = (rels, s4)" by fastforce
  obtain k t where 5: "reconcile_attachments (silent_graph p) w2 (ws_attachments n) s4 = (Inr k, t)"
    "\<And>v. \<exists>v'. reconcile_attachments p w2 (ws_attachments n) (set_rest v s4) = (Inr k, set_rest v' t)"
    using attachments_any [OF assms] by blast
  obtain v where "reconcile_attachments p w2 (ws_attachments n) s4 = (Inr k, set_rest v t)"
    using 5(2) set_rest_own by metis
  moreover obtain v' where "project_subgraph p w2 (set_rest v t) = (Inr (), set_rest v' t)"
    using subgraph_any [of p w2 v t] by blast
  ultimately have real: "\<exists>v. persist_snapshot p n c project s = (Inr (w2,
      \<lparr>ir_work_item = Some w2, ir_created = created, ir_changes = c, ir_event_type = None,
       ir_assignment_triggered = False, ir_snapshot_saved = False, ir_attachments = k, ir_relations = rels\<rparr>),
      set_rest v t)"
    by (simp add: persist_snapshot_def 1 2 3 4) blast
  have silent: "persist_snapshot (silent_graph p) n c project s = (Inr (w2,
      \<lparr>ir_work_item = Some w2, ir_created = created, ir_changes = c, ir_event_type = None,
       ir_assignment_triggered = False, ir_snapshot_saved = False, ir_attachments = k, ir_relations = rels\<rparr>), t)"
    by (simp add: persist_snapshot_def 1 2 3 4 5(1) silent_same subgraph_silent)
  have "on_op (save_snapshot_of n) (set_rest v t) = set_rest v (on_op (save_snapshot_of n) t)" for v
    by (rule on_op_set_rest) (simp add: save_snapshot_of_def)
  with real silent show ?thesis
    by (auto simp add: ingest_work_item_snapshot_def Let_def Some c_def [symmetric])
qed

lemma ingestion_returns:
  assumes "px_fetch p = None"
  shows "\<exists>r t. ingest_work_item_snapshot p n Bootstrap_Mode src corr pid action unchanged s = (Inr r, t)"
  using graph_any [OF assms] by blast

text \<open>
  Whatever the graph does - raise at any call, keep anything of its own - the ingestion of a
  snapshot without attachment contents returns, with the result and the canonical state it has
  over a graph that accepts everything; they differ at most in the graph's own world.
\<close>

theorem graph_is_only_a_projection:
  assumes "px_fetch p = None"
  shows "\<exists>r t. ingest_work_item_snapshot (silent_graph p) n Bootstrap_Mode src corr pid action unchanged s = (Inr r, t) \<and>
    (\<exists>v. ingest_work_item_snapshot p n Bootstrap_Mode src corr pid action unchanged s = (Inr r, set_rest v t))"
  using assms by (rule graph_any)

text \<open>A project, a package assigned to a user with one attachment, and a graph that is down.\<close>

definition demo_ports :: "unit op_ports" where
  "demo_ports =
     \<lparr>px_ids = str_nat, px_uuid5 = (\<lambda>x. x), px_now = 7, px_now_text = ''7'',
      px_dump = (\<lambda>w. JStr (wi_id w)), px_brain_actor = Some ''9'',
      px_entities = (\<lambda>es w. (Inl (Exn ''ServiceUnavailable'' ''graph''), w)),
      px_relations = (\<lambda>rs w. (Inl (Exn ''ServiceUnavailable'' ''graph''), w)),
      px_fetch = None, px_documents = None, px_run = (\<lambda>h e s. (Inr (), s))\<rparr>"

definition demo_state :: "unit op_state" where
  "demo_state =
     \<lparr>bus_handlers = [], bus_published = [], processed_keys = [], event_log = [],
      event_ext = \<lparr>hb_repos = save_project \<lparr>pj_id = ''p'', pj_name = ''Brain'', pj_description = None,
          pj_status = Planned, pj_parent_id = None, pj_repositories = [], pj_external_refs = []\<rparr> empty_repositories,
        hb_queue = empty_queue, hb_capsules = [], hb_policies = default_policy_set ''d'', hb_projections = [],
        hb_world = \<lparr>op_actors = [], op_mappings = [], op_conflicts = [], op_snapshots = [], op_drawn = 0,
          op_rest = ()\<rparr>\<rparr>\<rparr>"

definition demo_snapshot :: work_item_snapshot where
  "demo_snapshot =
     \<lparr>ws_external_id = ''42'', ws_summary = ''Login fails'', ws_description = [], ws_type = ''Bug'',
      ws_priority = ''High'', ws_state = ''In progress'', ws_closed = False, ws_project_id = None,
      ws_project_name = None, ws_assignee_id = Some ''9'', ws_assignee_name = None, ws_parent_id = Some 41,
      ws_attachments = [[(''id'', JInt 5), (''file_name'', JStr ''log.txt''), (''file_size'', JNull)]],
      ws_relations = [], ws_activities_url = None, ws_created_at = None, ws_updated_at = None\<rparr>"

theorem graph_is_only_a_projection_witness:
  "\<exists>r t v. ingest_work_item_snapshot (silent_graph demo_ports) demo_snapshot Bootstrap_Mode ''b'' None None None True
       demo_state = (Inr r, t) \<and>
     ingest_work_item_snapshot demo_ports demo_snapshot Bootstrap_Mode ''b'' None None None True demo_state =
       (Inr r, set_rest v t)"
proof -
  have "px_fetch demo_ports = None" by (simp add: demo_ports_def)
  from graph_is_only_a_projection [OF this] show ?thesis by blast
qed

subsection \<open>Where the code departs from its documents\<close>

text \<open>
  A field that the provider cleared is reported as changed and stays on the item: its
  description, its assignee and its parent.
\<close>

theorem cleared_fields_stay:
  assumes "ws_description n = []" and "ws_assignee_id n = None" and "ws_parent_id n = None"
  shows "resolve_assignee p n s = (None, s)" "resolve_parent n w s = (w, s)"
    "wi_description (with_snapshot n None w) = wi_description w"
    "wi_assignee (with_snapshot n None w) = wi_assignee w"
    "ws_description old \<noteq> [] \<Longrightarrow> Description_Changed \<in> set (diff_snapshots (Some old) n)"
    "ws_assignee_id old \<noteq> None \<Longrightarrow> Assignee_Changed \<in> set (diff_snapshots (Some old) n)"
    "ws_parent_id old \<noteq> None \<Longrightarrow> Parent_Changed \<in> set (diff_snapshots (Some old) n)"
  using assms
  by (simp_all add: resolve_assignee_def resolve_parent_def with_snapshot_def or_else_def diff_snapshots_def)

text \<open>The edge to a parent item runs from the child to the parent; that of a project, to the child.\<close>

theorem parent_edge_points_up:
  "wi_parent_id w = Some q \<Longrightarrow> plain_edge (wi_id w) R_Parent_Of q \<in> set (subgraph_relations w r)"
  by (simp add: subgraph_relations_def)

text \<open>A graph that raises leaves a project stored, and the caller with the exception.\<close>

theorem project_stored_when_graph_fails:
  assumes "px_entities p = (\<lambda>es w. (Inl e, w))" and "project_by_ref ''openproject'' x (Some ''project'') (repos s) = None"
  shows "\<exists>t pj. upsert_project p x name desc parent None s = (Inl e, t) \<and>
    get_item (px_ids p (op_drawn (opw s))) (st_projects (repos t)) = Some pj \<and>
    pj_external_refs pj = [openproject_ref ''project'' x]"
  using assms
  by (simp add: upsert_project_def upsert_project_node_def Let_def split_beta on_rest_def save_project_def
      collection.fetch_put)

end
