(* ===== verification/Reingestion.thy ===== *)
theory Reingestion
  imports Ingestion
begin

text \<open>
  Ingesting a snapshot a second time: the ingestion of \<open>application/openproject_ingestion.py\<close>
  is idempotent. The lemmas follow the persisting part step by step: each step, run again on the
  repositories the first run left, changes nothing.
\<close>

subsection \<open>The view of a lookup\<close>

text \<open>Which id a package has: all that parents and relations take from the work items.\<close>

definition package_id :: "string \<Rightarrow> repository_set \<Rightarrow> uuid option" where
  "package_id x r = map_option wi_id (package_item x r)"

abbreviation items_ok :: "repository_set \<Rightarrow> bool" where
  "items_ok r \<equiv> stored_by_id wi_id (st_work_items r)"

lemma package_item_save:
  assumes "items_ok r" and "get_item (wi_id w) (st_work_items r) = Some w0"
    and "wi_external_refs w = wi_external_refs w0"
  shows "package_item x (save_work_item w r) =
    map_option (\<lambda>a. if wi_id a = wi_id w then w else a) (package_item x r)"
  unfolding package_item_def work_item_by_ref_def
  using find_by_ref_update [OF assms(1,2), of wi_external_refs] assms(3)
  by (simp add: save_work_item_def)

lemma package_id_save:
  assumes "items_ok r" and "get_item (wi_id w) (st_work_items r) = Some w0"
    and "wi_external_refs w = wi_external_refs w0"
  shows "package_id x (save_work_item w r) = package_id x r"
  by (simp add: package_id_def package_item_save [OF assms] option.map_comp comp_def)
    (cases "package_item x r"; simp)

lemma get_item_save:
  "get_item i (st_work_items (save_work_item w r)) = (if i = wi_id w then Some w else get_item i (st_work_items r))"
  by (simp add: save_work_item_def collection.fetch_put)

lemma items_ok_save [simp]: "items_ok r \<Longrightarrow> items_ok (save_work_item w r)"
  by (simp add: save_work_item_def)

lemma save_same: "get_item (wi_id w) (st_work_items r) = Some w \<Longrightarrow> save_work_item w r = r"
  by (simp add: save_work_item_def upsert_same)

lemma package_item_stored:
  "\<lbrakk>items_ok r; package_item x r = Some w\<rbrakk> \<Longrightarrow> get_item (wi_id w) (st_work_items r) = Some w"
  unfolding package_item_def work_item_by_ref_def by (rule find_by_ref_stored)

text \<open>Stores that differ elsewhere give the same view.\<close>

lemma package_item_cong:
  "st_work_items r = st_work_items r' \<Longrightarrow> package_item x r = package_item x r'"
  by (simp add: package_item_def work_item_by_ref_def)

lemma save_others [simp]:
  "st_projects (save_work_item w r) = st_projects r" "st_attachments (save_work_item w r) = st_attachments r"
  "st_relations (save_work_item w r) = st_relations r"
  by (simp_all add: save_work_item_def)

subsection \<open>The item, its fields and its parent\<close>

text \<open>The item is found or stored, and then found; the counter only grows.\<close>

definition fresh_ids :: "'w op_ports \<Rightarrow> 'w op_state \<Rightarrow> bool" where
  "fresh_ids p s \<longleftrightarrow> inj (px_ids p) \<and>
     (\<forall>k \<ge> op_drawn (opw s). get_item (px_ids p k) (st_work_items (repos s)) = None \<and>
        get_item (px_ids p k) (st_attachments (repos s)) = None \<and>
        get_item (px_ids p k) (st_relations (repos s)) = None)"

definition stores_ok :: "repository_set \<Rightarrow> bool" where
  "stores_ok r \<longleftrightarrow> items_ok r \<and> stored_by_id at_id (st_attachments r) \<and> stored_by_id rl_id (st_relations r)"

lemma find_or_create_finds:
  assumes "find_or_create_work_item p n project s = ((w, created), t)" and "items_ok (repos s)" and "fresh_ids p s"
  shows "package_item (ws_external_id n) (repos t) = Some w" "items_ok (repos t)" "fresh_ids p t"
    "st_projects (repos t) = st_projects (repos s)" "st_attachments (repos t) = st_attachments (repos s)"
    "st_relations (repos t) = st_relations (repos s)" "op_actors (opw t) = op_actors (opw s)"
proof -
  have "package_item (ws_external_id n) (repos t) = Some w \<and> items_ok (repos t) \<and> fresh_ids p t \<and>
      st_projects (repos t) = st_projects (repos s) \<and> st_attachments (repos t) = st_attachments (repos s) \<and>
      st_relations (repos t) = st_relations (repos s) \<and> op_actors (opw t) = op_actors (opw s)"
  proof (cases "package_item (ws_external_id n) (repos s)")
    case (Some v)
    with assms show ?thesis by (simp add: find_or_create_work_item_def)
  next
    case None
    define w' where "w' = (new_work_item (px_ids p (op_drawn (opw s))) project
         (or_else (ws_summary n) (''OpenProject '' @ ws_external_id n)))
       \<lparr>wi_description := ws_description n,
        wi_external_refs := [openproject_ref ''work_package'' (ws_external_id n)]\<rparr>"
    have id': "wi_id w' = px_ids p (op_drawn (opw s))" by (simp add: w'_def new_work_item_def)
    have free: "get_item (wi_id w') (st_work_items (repos s)) = None"
      using assms(3) by (simp add: id' fresh_ids_def)
    have t: "w = w'" "repos t = save_work_item w' (repos s)" "op_drawn (opw t) = Suc (Suc (op_drawn (opw s)))"
      "op_actors (opw t) = op_actors (opw s)"
      using assms(1) None
      by (auto simp: find_or_create_work_item_def Let_def w'_def draw_def save_mapping_def split: prod.splits)
    have "package_item (ws_external_id n) (repos t) = Some w"
      unfolding package_item_def work_item_by_ref_def t(2) save_work_item_def
      using find_by_ref_insert [of wi_id w' "st_work_items (repos s)" wi_external_refs "''openproject''"
          "ws_external_id n" "Some ''work_package''"] free None
      by (simp add: package_item_def work_item_by_ref_def t(1))
        (simp add: w'_def ref_matches_def openproject_ref_def)
    moreover have "fresh_ids p t"
      using assms(3) unfolding fresh_ids_def t
      by (auto simp: get_item_save id' dest: inj_onD)
    ultimately show ?thesis using assms(2) t by simp
  qed
  then show "package_item (ws_external_id n) (repos t) = Some w" "items_ok (repos t)" "fresh_ids p t"
    "st_projects (repos t) = st_projects (repos s)" "st_attachments (repos t) = st_attachments (repos s)"
    "st_relations (repos t) = st_relations (repos s)" "op_actors (opw t) = op_actors (opw s)"
    by simp_all
qed

text \<open>An item that the fields, the assignee and the parent of its snapshot leave as it is.\<close>

definition assignee_of :: "'w op_ports \<Rightarrow> work_item_snapshot \<Rightarrow> uuid option" where
  "assignee_of p n =
     (case ws_assignee_id n of
        None \<Rightarrow> None | Some a \<Rightarrow> if a = [] then None else Some (px_uuid5 p (''openproject:user:'' @ a)))"

definition parent_known :: "work_item_snapshot \<Rightarrow> work_item \<Rightarrow> repository_set \<Rightarrow> bool" where
  "parent_known n w r =
     (case ws_parent_id n of
        None \<Rightarrow> True
      | Some i \<Rightarrow> i = 0 \<or> (case package_id (str_int i) r of
                              None \<Rightarrow> True | Some q \<Rightarrow> q = wi_id w \<or> wi_parent_id w = Some q))"

definition item_settled :: "'w op_ports \<Rightarrow> work_item_snapshot \<Rightarrow> work_item \<Rightarrow> 'w op_state \<Rightarrow> bool" where
  "item_settled p n w s \<longleftrightarrow>
     package_item (ws_external_id n) (repos s) = Some w \<and> items_ok (repos s) \<and>
     with_snapshot n (assignee_of p n) w = w \<and>
     (\<forall>i. assignee_of p n = Some i \<longrightarrow> get_item i (op_actors (opw s)) \<noteq> None) \<and> parent_known n w (repos s)"

lemma item_settled_cong:
  assumes "item_settled p n w s" and "st_work_items (repos t) = st_work_items (repos s)"
    and "op_actors (opw t) = op_actors (opw s)"
  shows "item_settled p n w t"
proof -
  have item: "package_item x (repos t) = package_item x (repos s)" for x
    by (rule package_item_cong [OF assms(2)])
  have "parent_known n w (repos t) = parent_known n w (repos s)"
    unfolding parent_known_def package_id_def item by (rule refl)
  with assms item show ?thesis by (simp add: item_settled_def)
qed

lemma resolve_assignee_known:
  assumes "\<forall>i. assignee_of p n = Some i \<longrightarrow> get_item i (op_actors (opw s)) \<noteq> None"
  shows "resolve_assignee p n s = (assignee_of p n, s)"
  using assms by (auto simp: resolve_assignee_def assignee_of_def Let_def split: option.splits if_splits)

lemma parent_same: "wi_parent_id w = q \<Longrightarrow> w\<lparr>wi_parent_id := q\<rparr> = w"
  by (cases w) simp

lemma on_repos_same: "f (repos s) = repos s \<Longrightarrow> on_repos f s = s"
  by (simp add: repos_def on_repos_def)

lemma settled_again:
  assumes "item_settled p n w s"
  shows "find_or_create_work_item p n project s = ((w, False), s)"
    "apply_snapshot p n w s = (w, s)" "resolve_parent n w s = (w, s)"
proof -
  from assms have i: "package_item (ws_external_id n) (repos s) = Some w" "items_ok (repos s)"
    and f: "with_snapshot n (assignee_of p n) w = w"
    and a: "resolve_assignee p n s = (assignee_of p n, s)" and pk: "parent_known n w (repos s)"
    by (simp_all add: item_settled_def resolve_assignee_known)
  have g: "get_item (wi_id w) (st_work_items (repos s)) = Some w" using package_item_stored [OF i(2,1)] .
  show "find_or_create_work_item p n project s = ((w, False), s)"
    using i(1) by (simp add: find_or_create_work_item_def)
  show "apply_snapshot p n w s = (w, s)"
    using a f by (simp add: apply_snapshot_def on_repos_same save_same [OF g])
  show "resolve_parent n w s = (w, s)"
    using pk by (auto simp: resolve_parent_def parent_known_def package_id_def Let_def on_repos_same save_same [OF g] parent_same
        split: option.splits)
qed

lemma with_snapshot_simps [simp]:
  "wi_id (with_snapshot n a w) = wi_id w" "wi_external_refs (with_snapshot n a w) = wi_external_refs w"
  "with_snapshot n a (with_snapshot n a w) = with_snapshot n a w"
  "with_snapshot n a (w\<lparr>wi_parent_id := q\<rparr>) = (with_snapshot n a w)\<lparr>wi_parent_id := q\<rparr>"
  by (simp_all add: with_snapshot_def or_else_def split: option.split)

text \<open>Applying the snapshot and then the parent leaves a settled item.\<close>

lemma resolve_assignee_makes:
  assumes "resolve_assignee p n s = (a, t)"
  shows "a = assignee_of p n" "repos t = repos s" "op_drawn (opw t) = op_drawn (opw s)"
    "\<forall>i. assignee_of p n = Some i \<longrightarrow> get_item i (op_actors (opw t)) \<noteq> None"
  using assms
  by (auto simp: resolve_assignee_def assignee_of_def Let_def collection.fetch_put split: option.splits if_splits)

lemma resolve_parent_cases:
  assumes "resolve_parent n w s = (w', s')"
  obtains (same) "w' = w" "s' = s"
  | (moved) i q where "ws_parent_id n = Some i" "i \<noteq> 0" "package_item (str_int i) (repos s) = Some q"
      "wi_id q \<noteq> wi_id w" "w' = w\<lparr>wi_parent_id := Some (wi_id q)\<rparr>" "s' = on_repos (save_work_item w') s"
proof (cases "ws_parent_id n")
  case None
  with assms same show thesis by (simp add: resolve_parent_def)
next
  case (Some i)
  show thesis
  proof (cases "package_item (str_int i) (repos s)")
    case None
    with assms Some same show thesis by (simp add: resolve_parent_def split: if_splits)
  next
    case q: (Some q)
    show thesis
    proof (cases "i = 0 \<or> wi_id q = wi_id w")
      case True
      with assms Some q have "w' = w" "s' = s" by (auto simp: resolve_parent_def split: if_splits)
      then show thesis by (rule same)
    next
      case False
      define v where "v = w\<lparr>wi_parent_id := Some (wi_id q)\<rparr>"
      from False assms Some q have "resolve_parent n w s = (v, on_repos (save_work_item v) s)"
        by (simp add: resolve_parent_def Let_def v_def)
      with assms have "w' = v" "s' = on_repos (save_work_item w') s" by auto
      with Some q False moved show thesis unfolding v_def by blast
    qed
  qed
qed

lemma apply_and_parent_settle:
  assumes "package_item (ws_external_id n) (repos s) = Some w" and "items_ok (repos s)"
    and "apply_snapshot p n w s = (w1, s1)" and "resolve_parent n w1 s1 = (w2, s2)"
  shows "item_settled p n w2 s2" "wi_id w2 = wi_id w" "st_projects (repos s2) = st_projects (repos s)"
    "st_attachments (repos s2) = st_attachments (repos s)" "st_relations (repos s2) = st_relations (repos s)"
    "op_drawn (opw s2) = op_drawn (opw s)"
    "\<And>i. get_item i (st_work_items (repos s2)) = None \<longleftrightarrow> get_item i (st_work_items (repos s)) = None"
proof -
  obtain a t where at: "resolve_assignee p n s = (a, t)" by fastforce
  note made = resolve_assignee_makes [OF at]
  define v where "v = with_snapshot n a w"
  have s1: "w1 = v" "s1 = on_repos (save_work_item v) t" using assms(3) at by (auto simp: apply_snapshot_def v_def Let_def)
  have r1: "repos s1 = save_work_item v (repos s)" by (simp add: s1 made(2))
  have g: "get_item (wi_id v) (st_work_items (repos s)) = Some w"
    using package_item_stored [OF assms(2,1)] by (simp add: v_def)
  have refs: "wi_external_refs v = wi_external_refs w" by (simp add: v_def)
  have found1: "package_item (ws_external_id n) (repos s1) = Some v"
    using package_item_save [OF assms(2) g refs] assms(1) by (simp add: r1) (simp add: v_def)
  have ok1: "items_ok (repos s1)" using assms(2) by (simp add: r1)
  have settled: "item_settled p n v s1" if "parent_known n v (repos s1)"
    using that found1 ok1 made(1,4) by (simp add: item_settled_def s1 v_def)
  have "item_settled p n w2 s2 \<and> wi_id w2 = wi_id w \<and> op_drawn (opw s2) = op_drawn (opw s) \<and>
      (repos s2 = repos s1 \<or> repos s2 = save_work_item w2 (repos s1))"
    using assms(4)
  proof (cases rule: resolve_parent_cases)
    case same
    have "parent_known n v (repos s1)"
      unfolding parent_known_def package_id_def
    proof (split option.split, intro conjI allI impI)
      fix i assume i: "ws_parent_id n = Some i"
      show "i = 0 \<or> (case map_option wi_id (package_item (str_int i) (repos s1)) of None \<Rightarrow> True
          | Some q \<Rightarrow> q = wi_id v \<or> wi_parent_id v = Some q)"
      proof (cases "package_item (str_int i) (repos s1)")
        case (Some q)
        have "wi_parent_id w2 = Some (wi_id q)" if "i \<noteq> 0" "wi_id q \<noteq> wi_id v"
          using assms(4) that by (auto simp: resolve_parent_def i Some s1(1) Let_def)
        with same(1) Some s1(1) show ?thesis by auto
      qed simp
    qed simp
    with same settled s1 made(3) show ?thesis by (simp add: v_def)
  next
    case (moved i q)
    note q = moved [unfolded s1(1)]
    have g1: "get_item (wi_id w2) (st_work_items (repos s1)) = Some v" "wi_external_refs w2 = wi_external_refs v"
      by (simp_all add: q(5) r1 get_item_save)
    have "package_item (ws_external_id n) (repos s2) = Some w2"
      using package_item_save [OF ok1 g1] found1 by (simp add: q(6)) (simp add: q(5))
    moreover have "package_id (str_int i) (repos s2) = Some (wi_id q)"
      using package_id_save [OF ok1 g1] q(3) by (simp add: q(6)) (simp add: package_id_def)
    ultimately show ?thesis
      using q(1,2) ok1 made(1,3,4)
      by (simp add: item_settled_def parent_known_def q(6) s1(2)) (simp add: q(5) v_def)
  qed
  then have done2: "item_settled p n w2 s2" "wi_id w2 = wi_id w" "op_drawn (opw s2) = op_drawn (opw s)"
    and either: "repos s2 = save_work_item v (repos s) \<or> repos s2 = save_work_item w2 (save_work_item v (repos s))"
    by (auto simp: r1)
  show "item_settled p n w2 s2" "wi_id w2 = wi_id w" "op_drawn (opw s2) = op_drawn (opw s)" by (rule done2)+
  from either show "st_projects (repos s2) = st_projects (repos s)"
    "st_attachments (repos s2) = st_attachments (repos s)" "st_relations (repos s2) = st_relations (repos s)"
    by (elim disjE; simp)+
  have "wi_id v = wi_id w" by (simp add: v_def)
  with either done2(2) g
  show "get_item i (st_work_items (repos s2)) = None \<longleftrightarrow> get_item i (st_work_items (repos s)) = None" for i
    by (elim disjE) (simp_all add: get_item_save)
qed

subsection \<open>Relations\<close>

lemma relation_ends_view:
  assumes "\<And>x. package_id x r = package_id x r'" and "wi_id w = wi_id w'"
  shows "relation_ends n w r raw = relation_ends n w' r' raw"
proof -
  have eq: "map_option wi_id (package_item x r) = map_option wi_id (package_item x r')" for x
    using assms(1) [of x] by (simp add: package_id_def)
  have item: "(case package_item y r of None \<Rightarrow> None | Some b \<Rightarrow> if wi_id b = a then None else Some (a, wi_id b, k)) =
      (case package_item y r' of None \<Rightarrow> None | Some b \<Rightarrow> if wi_id b = a then None else Some (a, wi_id b, k))"
    for y a and k :: relation_kind
    using eq [of y] by (cases "package_item y r"; cases "package_item y r'") simp_all
  show ?thesis unfolding relation_ends_def Let_def eq assms(2) item by (rule refl)
qed

definition triple_stored :: "uuid \<Rightarrow> uuid \<Rightarrow> relation_kind \<Rightarrow> repository_set \<Rightarrow> bool" where
  "triple_stored a b k r \<longleftrightarrow>
     (\<exists>l \<in> set (list_all_items (st_relations r)). rl_source l = a \<and> rl_target l = b \<and> rl_type l = k)"

definition relations_known :: "work_item_snapshot \<Rightarrow> work_item \<Rightarrow> raw_dict list \<Rightarrow> repository_set \<Rightarrow> bool" where
  "relations_known n w raws r \<longleftrightarrow>
     (\<forall>raw \<in> set raws. \<forall>a b k. relation_ends n w r raw = Some (a, b, k) \<longrightarrow> triple_stored a b k r)"

definition set_drawn :: "nat \<Rightarrow> 'w op_state \<Rightarrow> 'w op_state" where
  "set_drawn k s = on_op (\<lambda>o1. o1\<lparr>op_drawn := k\<rparr>) s"

lemma set_drawn_simps [simp]:
  "repos (set_drawn k s) = repos s" "op_actors (opw (set_drawn k s)) = op_actors (opw s)"
  "op_snapshots (opw (set_drawn k s)) = op_snapshots (opw s)" "set_drawn k (set_drawn l s) = set_drawn k s"
  "op_drawn (opw (set_drawn k s)) = k"
  by (simp_all add: set_drawn_def on_op_on_op)

lemma set_drawn_own: "set_drawn (op_drawn (opw s)) s = s"
  by (simp add: set_drawn_def on_op_def opw_def)

lemma create_relation_cases:
  "(triple_stored (rl_source l) (rl_target l) (rl_type l) r \<and> snd (create_relation l r) = r) \<or>
   (\<not> triple_stored (rl_source l) (rl_target l) (rl_type l) r \<and>
    snd (create_relation l r) = r\<lparr>st_relations := upsert l (rl_id l) (st_relations r)\<rparr>)"
  by (auto simp: create_relation_def triple_stored_def same_triple_def find_None_iff find_Some_iff
      split: option.split)

lemma relations_again:
  assumes "relations_known n w raws (repos s)"
  shows "\<exists>c k. resolve_relations p n w raws s = (c, set_drawn k s)"
  using assms
proof (induction raws arbitrary: s)
  case Nil
  show ?case using set_drawn_own by (metis resolve_relations.simps(1))
next
  case (Cons raw raws)
  from Cons.prems have rest: "relations_known n w raws (repos s)" by (simp add: relations_known_def)
  show ?case
  proof (cases "relation_ends n w (repos s) raw")
    case None
    with Cons.IH [OF rest] show ?thesis by simp
  next
    case (Some e)
    obtain a b k where e: "e = (a, b, k)" by (cases e)
    with Some Cons.prems have t: "triple_stored a b k (repos s)" by (simp add: relations_known_def)
    let ?l = "\<lparr>rl_id = px_ids p (op_drawn (opw s)), rl_source = a, rl_target = b, rl_type = k,
                  rl_detected_at = px_now p, rl_external_refs = [relation_ref raw a]\<rparr>"
    have "on_repos (\<lambda>r. snd (create_relation ?l r)) (snd (draw p s)) = snd (draw p s)"
      using create_relation_cases [of ?l "repos s"] t by (intro on_repos_same) simp
    moreover have "snd (draw p s) = set_drawn (Suc (op_drawn (opw s))) s"
      by (simp add: draw_def set_drawn_def on_op_def opw_def)
    moreover have "\<exists>c m. resolve_relations p n w raws (set_drawn (Suc (op_drawn (opw s))) s) = (c, set_drawn m s)"
      using Cons.IH [of "set_drawn (Suc (op_drawn (opw s))) s"] rest by simp
    ultimately show ?thesis
      by (auto simp: Some e Let_def split_beta)
  qed
qed

lemma relations_settle:
  assumes "resolve_relations p n w raws s = (c, t)" and "fresh_ids p s"
    and "stored_by_id rl_id (st_relations (repos s))"
  shows "relations_known n w raws (repos t) \<and> fresh_ids p t \<and> stored_by_id rl_id (st_relations (repos t)) \<and>
    st_work_items (repos t) = st_work_items (repos s) \<and> st_projects (repos t) = st_projects (repos s) \<and>
    st_attachments (repos t) = st_attachments (repos s) \<and> op_actors (opw t) = op_actors (opw s) \<and>
    (\<forall>a b k. triple_stored a b k (repos s) \<longrightarrow> triple_stored a b k (repos t))"
  using assms
proof (induction raws arbitrary: s c)
  case (Cons raw raws)
  let ?P = "\<lambda>s'. fresh_ids p s' \<and> stored_by_id rl_id (st_relations (repos s')) \<and>
    st_work_items (repos s') = st_work_items (repos s) \<and> st_projects (repos s') = st_projects (repos s) \<and>
    st_attachments (repos s') = st_attachments (repos s) \<and> op_actors (opw s') = op_actors (opw s) \<and>
    (\<forall>a b k. triple_stored a b k (repos s) \<longrightarrow> triple_stored a b k (repos s')) \<and>
    (\<forall>a b k. relation_ends n w (repos s) raw = Some (a, b, k) \<longrightarrow> triple_stored a b k (repos s'))"
  have "\<exists>s' c'. resolve_relations p n w raws s' = (c', t) \<and> ?P s'"
  proof (cases "relation_ends n w (repos s) raw")
    case None
    with Cons.prems show ?thesis by auto
  next
    case (Some e)
    obtain a b k where e: "e = (a, b, k)" by (cases e)
    define l where "l = \<lparr>rl_id = px_ids p (op_drawn (opw s)), rl_source = a, rl_target = b, rl_type = k,
                  rl_detected_at = px_now p, rl_external_refs = [relation_ref raw a]\<rparr>"
    define s' where "s' = on_repos (\<lambda>r. snd (create_relation l r)) (snd (draw p s))"
    have "t = snd (resolve_relations p n w raws s')"
      using Cons.prems(1) by (auto simp: Some e s'_def l_def Let_def split_beta)
    then have run: "\<exists>c'. resolve_relations p n w raws s' = (c', t)" by (metis prod.collapse)
    have l: "rl_source l = a" "rl_target l = b" "rl_type l = k" "rl_id l = px_ids p (op_drawn (opw s))"
      by (simp_all add: l_def)
    have free: "get_item (rl_id l) (st_relations (repos s)) = None"
      using Cons.prems(2) by (simp add: fresh_ids_def l)
    have r: "repos s' = snd (create_relation l (repos s))" "op_drawn (opw s') = Suc (op_drawn (opw s))"
      "op_actors (opw s') = op_actors (opw s)"
      by (simp_all add: s'_def draw_def)
    have "?P s'"
      using create_relation_cases [of l "repos s"]
    proof
      assume "triple_stored (rl_source l) (rl_target l) (rl_type l) (repos s) \<and> snd (create_relation l (repos s)) = repos s"
      then show ?thesis using Cons.prems(2,3) r by (auto simp: fresh_ids_def Some e l)
    next
      assume "\<not> triple_stored (rl_source l) (rl_target l) (rl_type l) (repos s) \<and>
        snd (create_relation l (repos s)) = (repos s)\<lparr>st_relations := upsert l (rl_id l) (st_relations (repos s))\<rparr>"
      then have r': "repos s' = (repos s)\<lparr>st_relations := upsert l (rl_id l) (st_relations (repos s))\<rparr>"
        using r by simp
      have items: "list_all_items (st_relations (repos s')) = list_all_items (st_relations (repos s)) @ [l]"
        using items_insert [OF free] by (simp add: r')
      have "fresh_ids p s'"
        using Cons.prems(2) by (auto simp: fresh_ids_def r' r(2) collection.fetch_put l dest: injD)
      moreover have "stored_by_id rl_id (st_relations (repos s'))" using Cons.prems(3) by (simp add: r')
      moreover have "\<forall>x y z. triple_stored x y z (repos s) \<longrightarrow> triple_stored x y z (repos s')"
        by (auto simp: triple_stored_def items)
      moreover have "\<forall>x y z. relation_ends n w (repos s) raw = Some (x, y, z) \<longrightarrow> triple_stored x y z (repos s')"
        by (auto simp: triple_stored_def items Some e l)
      ultimately show ?thesis using r(3) by (simp add: r')
    qed
    with run show ?thesis by blast
  qed
  then obtain s' c' where s': "resolve_relations p n w raws s' = (c', t)" "?P s'" by blast
  have ih: "fresh_ids p s'" "stored_by_id rl_id (st_relations (repos s'))" using s'(2) by blast+
  from Cons.IH [OF s'(1) ih]
  have all: "relations_known n w raws (repos t)" "fresh_ids p t" "stored_by_id rl_id (st_relations (repos t))"
    "st_work_items (repos t) = st_work_items (repos s')" "st_projects (repos t) = st_projects (repos s')"
    "st_attachments (repos t) = st_attachments (repos s')" "op_actors (opw t) = op_actors (opw s')"
    "\<forall>a b k. triple_stored a b k (repos s') \<longrightarrow> triple_stored a b k (repos t)" by blast+
  have same: "st_work_items (repos s') = st_work_items (repos s)" "st_projects (repos s') = st_projects (repos s)"
    "st_attachments (repos s') = st_attachments (repos s)" "op_actors (opw s') = op_actors (opw s)"
    using s'(2) by blast+
  have ends: "relation_ends n w (repos t) raw = relation_ends n w (repos s) raw"
    using package_item_cong [of "repos t" "repos s"] all(4) same(1)
    by (intro relation_ends_view) (simp_all add: package_id_def)
  have "relations_known n w (raw # raws) (repos t)"
    using all(1,8) s'(2) ends by (simp add: relations_known_def)
  moreover have "\<forall>a b k. triple_stored a b k (repos s) \<longrightarrow> triple_stored a b k (repos t)"
    using all(8) s'(2) by blast
  ultimately show ?case using all(2-7) same by simp
qed (simp add: relations_known_def)

subsection \<open>Attachments\<close>

definition attachment_matches :: "string \<Rightarrow> attachment \<Rightarrow> bool" where
  "attachment_matches x a \<longleftrightarrow>
     list_ex (ref_matches ''openproject'' x (Some ''attachment'')) (at_external_refs a)"

abbreviation attachment_item :: "string \<Rightarrow> repository_set \<Rightarrow> attachment option" where
  "attachment_item x r \<equiv> attachment_by_ref ''openproject'' x (Some ''attachment'') r"

text \<open>No attachment stands for two attachments of the provider.\<close>

definition attachments_ok :: "repository_set \<Rightarrow> bool" where
  "attachments_ok r \<longleftrightarrow> stored_by_id at_id (st_attachments r) \<and>
     (\<forall>a \<in> set (list_all_items (st_attachments r)). \<forall>x y.
        attachment_matches x a \<longrightarrow> attachment_matches y a \<longrightarrow> x = y)"

definition sized :: "raw_dict \<Rightarrow> bool" where
  "sized raw \<longleftrightarrow> (case map_of raw ''file_size'' of None \<Rightarrow> True | Some v \<Rightarrow> as_int v = v)"

lemma py_or_again: "py_str (py_or v (JStr (py_str (py_or v (JStr d))))) = py_str (py_or v (JStr d))"
  by (simp add: py_or_def)

lemma updated_again [simp]: "updated_attachment raw (updated_attachment raw a) = updated_attachment raw a"
  by (simp add: updated_attachment_def py_or_again split: option.split)

lemma updated_new: "sized raw \<Longrightarrow> updated_attachment raw (new_attachment i w now x raw) = new_attachment i w now x raw"
  by (auto simp: updated_attachment_def new_attachment_def py_or_again str_or_empty_def sized_def jget_def
      split: option.splits)

lemma updated_keeps [simp]:
  "at_id (updated_attachment raw a) = at_id a" "at_external_refs (updated_attachment raw a) = at_external_refs a"
  by (simp_all add: updated_attachment_def)

lemma attachment_item_matches:
  assumes "attachment_item x r = Some a"
  shows "attachment_matches x a" "a \<in> set (list_all_items (st_attachments r))"
  using find_SomeD [of "\<lambda>a. list_ex (ref_matches ''openproject'' x (Some ''attachment'')) (at_external_refs a)"] assms
  by (auto simp: attachment_by_ref_def find_by_ref_def attachment_matches_def)

lemma attachment_item_save:
  assumes "stored_by_id at_id (st_attachments r)" and "get_item (at_id a) (st_attachments r) = Some a0"
    and "at_external_refs a = at_external_refs a0"
  shows "attachment_item x (save_attachment a r) =
    map_option (\<lambda>b. if at_id b = at_id a then a else b) (attachment_item x r)"
  unfolding attachment_by_ref_def
  using find_by_ref_update [OF assms(1,2), of at_external_refs] assms(3) by (simp add: save_attachment_def)

lemma attachment_item_add:
  assumes "get_item (at_id a) (st_attachments r) = None"
  shows "attachment_item x (save_attachment a r) =
    (case attachment_item x r of Some b \<Rightarrow> Some b | None \<Rightarrow> if attachment_matches x a then Some a else None)"
  unfolding attachment_by_ref_def attachment_matches_def
  using find_by_ref_insert [where f = at_id and v = a, OF assms] by (simp add: save_attachment_def)

lemma new_attachment_matches [simp]: "attachment_matches y (new_attachment i w now x raw) \<longleftrightarrow> y = x"
  by (auto simp: attachment_matches_def new_attachment_def ref_matches_def openproject_ref_def)

lemma save_attachment_others [simp]:
  "st_work_items (save_attachment a r) = st_work_items r" "st_projects (save_attachment a r) = st_projects r"
  "st_relations (save_attachment a r) = st_relations r"
  "st_attachments (save_attachment a r) = upsert a (at_id a) (st_attachments r)"
  by (simp_all add: save_attachment_def)

text \<open>What one attachment leaves: it is found and is as its raw form says; the others are as before.\<close>

definition attachment_step :: "'w op_ports \<Rightarrow> string \<Rightarrow> raw_dict \<Rightarrow> 'w op_state \<Rightarrow> 'w op_state \<Rightarrow> bool" where
  "attachment_step p x raw s t \<longleftrightarrow>
     (\<exists>a. attachment_item x (repos t) = Some a \<and> updated_attachment raw a = a) \<and>
     (\<forall>y. y \<noteq> x \<longrightarrow> attachment_item y (repos t) = attachment_item y (repos s)) \<and>
     attachments_ok (repos t) \<and> fresh_ids p t \<and> st_work_items (repos t) = st_work_items (repos s) \<and>
     st_projects (repos t) = st_projects (repos s) \<and> st_relations (repos t) = st_relations (repos s) \<and>
     op_actors (opw t) = op_actors (opw s)"

lemma attachment_settles:
  assumes "px_fetch p = None" and "sized raw" and "attachments_ok (repos s)" and "fresh_ids p s"
  shows "\<exists>t. reconcile_attachment p w x raw s = (Inr (), t) \<and> attachment_step p x raw s t"
proof (cases "attachment_item x (repos s)")
  case (Some a0)
  note in0 = attachment_item_matches [OF Some]
  define a where "a = updated_attachment raw a0"
  define t where "t = (if a \<noteq> a0 then on_repos (save_attachment a) s else s)"
  have st: "stored_by_id at_id (st_attachments (repos s))" using assms(3) by (simp add: attachments_ok_def)
  have g: "get_item (at_id a) (st_attachments (repos s)) = Some a0" "at_external_refs a = at_external_refs a0"
    using in0(2) st by (simp_all add: a_def items_get)
  have run: "reconcile_attachment p w x raw s = (Inr (), t)"
    by (simp add: reconcile_attachment_def Some Let_def a_def t_def)
  have r: "repos t = save_attachment a (repos s)" if "a \<noteq> a0" using that by (simp add: t_def)
  have other: "attachment_item y (repos t) = attachment_item y (repos s)" if "y \<noteq> x" for y
  proof (cases "a = a0")
    case False
    have "at_id b \<noteq> at_id a" if "attachment_item y (repos s) = Some b" for b
    proof
      assume "at_id b = at_id a"
      moreover from attachment_item_matches [OF that] st have "get_item (at_id b) (st_attachments (repos s)) = Some b"
        by (simp add: items_get)
      ultimately have "b = a0" using g(1) by simp
      with attachment_item_matches(1) [OF that] in0 assms(3) \<open>y \<noteq> x\<close> show False
        unfolding attachments_ok_def by blast
    qed
    then show ?thesis
      using attachment_item_save [OF st g, of y] by (cases "attachment_item y (repos s)") (auto simp: r [OF False])
  qed (simp add: t_def)
  have "attachment_item x (repos t) = Some a"
  proof (cases "a = a0")
    case False
    then show ?thesis using attachment_item_save [OF st g, of x] Some by (simp add: r) (simp add: a_def)
  qed (simp add: t_def Some)
  moreover have "attachments_ok (repos t)"
  proof (cases "a = a0")
    case False
    have "\<forall>b \<in> set (list_all_items (st_attachments (repos t))). \<exists>c \<in> set (list_all_items (st_attachments (repos s))).
        at_external_refs b = at_external_refs c"
      using items_update [OF st g(1)] in0(2) g(2) by (auto simp: r [OF False])
    with assms(3) st show ?thesis
      unfolding attachments_ok_def attachment_matches_def by (fastforce simp: r [OF False])
  qed (simp add: t_def assms(3))
  moreover have "fresh_ids p t"
    using assms(4) g(1) by (auto simp: fresh_ids_def t_def collection.fetch_put split: if_splits)
  ultimately show ?thesis
    using run other by (auto simp: attachment_step_def t_def) (simp_all add: a_def)
next
  case None
  define a where "a = new_attachment (px_ids p (op_drawn (opw s))) (wi_id w) (px_now p) x raw"
  define u where "u = on_repos (save_attachment a) (snd (draw p s))"
  have "set_rest (op_rest (opw u)) u = u" by (simp add: set_rest_def on_op_def opw_def)
  then obtain v where "upsert_attachment_edges p a u = (Inr (), set_rest v u)"
    using edges_any [of p a "op_rest (opw u)" u] by auto
  then have edges: "upsert_attachment_edges p a (on_repos (save_attachment a) (snd (draw p s))) =
      (Inr (), set_rest v (on_repos (save_attachment a) (snd (draw p s))))" by (simp add: u_def)
  define t where "t = set_rest v (on_repos (save_attachment a) (snd (draw p s)))"
  have run: "reconcile_attachment p w x raw s = (Inr (), t)"
    using edges by (simp add: reconcile_attachment_def None Let_def split_beta assms(1) t_def a_def)
  have ia: "at_id a = px_ids p (op_drawn (opw s))" by (simp add: a_def new_attachment_def)
  have free: "get_item (at_id a) (st_attachments (repos s)) = None"
    using assms(4) by (simp add: fresh_ids_def ia)
  have t: "repos t = save_attachment a (repos s)" "op_drawn (opw t) = Suc (op_drawn (opw s))"
    "op_actors (opw t) = op_actors (opw s)"
    by (simp_all add: t_def draw_def)
  have "attachment_item x (repos t) = Some a"
    using attachment_item_add [OF free] None by (simp add: t) (simp add: a_def)
  moreover have "attachment_item y (repos t) = attachment_item y (repos s)" if "y \<noteq> x" for y
    using attachment_item_add [OF free] that by (simp add: t split: option.split) (simp add: a_def)
  moreover have "attachments_ok (repos t)"
    using assms(3) items_insert [OF free, of a]
    by (auto simp: attachments_ok_def t) (simp_all add: a_def)
  moreover have "fresh_ids p t"
    using assms(4) by (auto simp: fresh_ids_def t collection.fetch_put ia dest: injD)
  ultimately show ?thesis
    using run updated_new [OF assms(2)] by (simp add: attachment_step_def t) (simp add: a_def)
qed

definition attachments_known :: "raw_dict list \<Rightarrow> repository_set \<Rightarrow> bool" where
  "attachments_known raws r \<longleftrightarrow>
     (\<forall>raw \<in> set raws. str_or_empty (jget raw ''id'') \<noteq> [] \<longrightarrow>
        (\<exists>a. attachment_item (str_or_empty (jget raw ''id'')) r = Some a \<and> updated_attachment raw a = a))"

lemma attachments_again:
  assumes "attachments_known raws (repos s)"
  shows "\<exists>k. reconcile_attachments p w raws s = (Inr k, s)"
  using assms
proof (induction raws)
  case (Cons raw raws)
  then obtain k where "reconcile_attachments p w raws s = (Inr k, s)" by (auto simp: attachments_known_def)
  moreover have "reconcile_attachment p w (str_or_empty (jget raw ''id'')) raw s = (Inr (), s)"
    if "str_or_empty (jget raw ''id'') \<noteq> []"
    using Cons.prems that by (auto simp: attachments_known_def reconcile_attachment_def)
  ultimately show ?case by (simp add: Let_def)
qed simp

lemma attachments_settle:
  assumes "px_fetch p = None" and "\<forall>raw \<in> set raws. sized raw"
    and "distinct (map (\<lambda>raw. str_or_empty (jget raw ''id'')) raws)"
    and "attachments_ok (repos s)" and "fresh_ids p s"
  shows "\<exists>k t. reconcile_attachments p w raws s = (Inr k, t) \<and> attachments_known raws (repos t) \<and>
    (\<forall>y. y \<notin> set (map (\<lambda>raw. str_or_empty (jget raw ''id'')) raws) \<longrightarrow>
       attachment_item y (repos t) = attachment_item y (repos s)) \<and>
    st_work_items (repos t) = st_work_items (repos s) \<and> st_projects (repos t) = st_projects (repos s) \<and>
    st_relations (repos t) = st_relations (repos s) \<and> op_actors (opw t) = op_actors (opw s)"
  using assms(2-)
proof (induction raws arbitrary: s)
  case Nil
  then show ?case by (simp add: attachments_known_def)
next
  case (Cons raw raws)
  let ?x = "str_or_empty (jget raw ''id'')"
  show ?case
  proof (cases "?x = []")
    case True
    with Cons.IH [of s] Cons.prems show ?thesis by (auto simp: attachments_known_def)
  next
    case False
    obtain u where u: "reconcile_attachment p w ?x raw s = (Inr (), u)" "attachment_step p ?x raw s u"
      using attachment_settles [OF assms(1), of raw s w ?x] Cons.prems by auto
    have "attachments_ok (repos u)" "fresh_ids p u" using u(2) by (simp_all add: attachment_step_def)
    then obtain k t where t: "reconcile_attachments p w raws u = (Inr k, t)" "attachments_known raws (repos t)"
      "\<forall>y. y \<notin> set (map (\<lambda>raw. str_or_empty (jget raw ''id'')) raws) \<longrightarrow>
         attachment_item y (repos t) = attachment_item y (repos u)"
      "st_work_items (repos t) = st_work_items (repos u)" "st_projects (repos t) = st_projects (repos u)"
      "st_relations (repos t) = st_relations (repos u)" "op_actors (opw t) = op_actors (opw u)"
      using Cons.IH [of u] Cons.prems by auto
    have "attachment_item ?x (repos t) = attachment_item ?x (repos u)" using t(3) Cons.prems(2) by simp
    then have "attachments_known (raw # raws) (repos t)"
      using t(2) u(2) by (simp add: attachments_known_def attachment_step_def)
    moreover have "reconcile_attachments p w (raw # raws) s = (Inr (Suc k), t)"
      using False u(1) t(1) by (simp add: Let_def)
    moreover have "attachment_item y (repos t) = attachment_item y (repos s)"
      if "y \<notin> set (map (\<lambda>raw. str_or_empty (jget raw ''id'')) (raw # raws))" for y
      using that t(3) u(2) by (simp add: attachment_step_def)
    ultimately show ?thesis
      using t(4-7) u(2) by (intro exI [of _ "Suc k"] exI [of _ t]) (simp add: attachment_step_def)
  qed
qed

subsection \<open>The whole snapshot\<close>

definition settled :: "'w op_ports \<Rightarrow> work_item_snapshot \<Rightarrow> work_item \<Rightarrow> 'w op_state \<Rightarrow> bool" where
  "settled p n w s \<longleftrightarrow> item_settled p n w s \<and> relations_known n w (ws_relations n) (repos s) \<and>
     attachments_known (ws_attachments n) (repos s)"

definition ingestion_ready :: "'w op_ports \<Rightarrow> 'w op_state \<Rightarrow> bool" where
  "ingestion_ready p s \<longleftrightarrow> px_fetch p = None \<and> items_ok (repos s) \<and> attachments_ok (repos s) \<and>
     stored_by_id rl_id (st_relations (repos s)) \<and> fresh_ids p s"

definition snapshot_ok :: "work_item_snapshot \<Rightarrow> bool" where
  "snapshot_ok n \<longleftrightarrow> (\<forall>raw \<in> set (ws_attachments n). sized raw) \<and>
     distinct (map (\<lambda>raw. str_or_empty (jget raw ''id'')) (ws_attachments n))"

lemma attachments_ok_cong: "st_attachments r = st_attachments r' \<Longrightarrow> attachments_ok r = attachments_ok r'"
  by (simp add: attachments_ok_def)

lemma persist_settles:
  assumes "ingestion_ready p s" and "snapshot_ok n"
  shows "\<exists>w r t. persist_snapshot p n c project s = (Inr (w, r), t) \<and> settled p n w t \<and>
    st_projects (repos t) = st_projects (repos s) \<and> ir_work_item r = Some w"
proof -
  obtain w created s1 where 1: "find_or_create_work_item p n project s = ((w, created), s1)"
    by (metis surj_pair)
  obtain w1 s2 where 2: "apply_snapshot p n w s1 = (w1, s2)" by fastforce
  obtain w2 s3 where 3: "resolve_parent n w1 s2 = (w2, s3)" by fastforce
  obtain rels s4 where 4: "resolve_relations p n w2 (ws_relations n) s3 = (rels, s4)" by fastforce
  from assms(1) have ready: "px_fetch p = None" "items_ok (repos s)" "attachments_ok (repos s)"
    "stored_by_id rl_id (st_relations (repos s))" "fresh_ids p s" by (simp_all add: ingestion_ready_def)
  note f1 = find_or_create_finds [OF 1 ready(2,5)]
  note f3 = apply_and_parent_settle [OF f1(1,2) 2 3]
  have "fresh_ids p s3" using f1(3) by (simp add: fresh_ids_def f3)
  moreover have "stored_by_id rl_id (st_relations (repos s3))" using ready(4) by (simp add: f3 f1)
  ultimately have f4: "relations_known n w2 (ws_relations n) (repos s4)" "fresh_ids p s4"
    "st_work_items (repos s4) = st_work_items (repos s3)" "st_projects (repos s4) = st_projects (repos s3)"
    "st_attachments (repos s4) = st_attachments (repos s3)" "op_actors (opw s4) = op_actors (opw s3)"
    using relations_settle [OF 4] by blast+
  have "attachments_ok (repos s4)"
    using ready(3) attachments_ok_cong [of "repos s4" "repos s"] by (simp add: f4 f3 f1)
  then obtain k s5 where f5: "reconcile_attachments p w2 (ws_attachments n) s4 = (Inr k, s5)"
    "attachments_known (ws_attachments n) (repos s5)" "st_work_items (repos s5) = st_work_items (repos s4)"
    "st_projects (repos s5) = st_projects (repos s4)" "st_relations (repos s5) = st_relations (repos s4)"
    "op_actors (opw s5) = op_actors (opw s4)"
    using attachments_settle [OF ready(1), of "ws_attachments n" s4 w2] assms(2) f4(2)
    by (auto simp: snapshot_ok_def)
  obtain v where "project_subgraph p w2 (set_rest (op_rest (opw s5)) s5) = (Inr (), set_rest v s5)"
    using subgraph_any [of p w2 "op_rest (opw s5)" s5] by blast
  moreover have "set_rest (op_rest (opw s5)) s5 = s5" by (simp add: set_rest_def on_op_def opw_def)
  ultimately have 6: "project_subgraph p w2 s5 = (Inr (), set_rest v s5)" by simp
  have "item_settled p n w2 (set_rest v s5)"
    by (rule item_settled_cong [OF f3(1)]) (simp_all add: f5 f4)
  moreover have "relations_known n w2 (ws_relations n) (repos s5)"
  proof -
    have "package_id x (repos s5) = package_id x (repos s4)" for x
      using package_item_cong [OF f5(3)] by (simp add: package_id_def)
    then have "relation_ends n w2 (repos s5) raw = relation_ends n w2 (repos s4) raw" for raw
      by (intro relation_ends_view) simp_all
    with f4(1) show ?thesis by (simp add: relations_known_def triple_stored_def f5(5))
  qed
  ultimately have "settled p n w2 (set_rest v s5)" using f5(2) by (simp add: settled_def)
  then show ?thesis
    by (simp add: persist_snapshot_def 1 2 3 4 f5(1) 6) (simp add: f5 f4 f3 f1)
qed

lemma persist_again:
  assumes "settled p n w s"
  shows "\<exists>r t. persist_snapshot p n c project s = (Inr (w, r), t) \<and> repos t = repos s \<and> \<not> ir_created r \<and>
    ir_changes r = c \<and> ir_event_type r = None"
proof -
  from assms have st: "item_settled p n w s" and rel: "relations_known n w (ws_relations n) (repos s)"
    and att: "attachments_known (ws_attachments n) (repos s)" by (simp_all add: settled_def)
  obtain rels k where 4: "resolve_relations p n w (ws_relations n) s = (rels, set_drawn k s)"
    using relations_again [OF rel] by blast
  obtain m where 5: "reconcile_attachments p w (ws_attachments n) (set_drawn k s) = (Inr m, set_drawn k s)"
    using attachments_again [of "ws_attachments n" "set_drawn k s"] att by auto
  have "project_subgraph p w (set_drawn k s) = (Inr (), snd (project_subgraph p w (set_drawn k s)))"
    by (simp add: project_subgraph_def swallow_def)
  moreover obtain v where "snd (project_subgraph p w (set_drawn k s)) = set_rest v (set_drawn k s)"
    using subgraph_any [of p w "op_rest (opw (set_drawn k s))" "set_drawn k s"]
    by (auto simp: set_rest_def on_op_def opw_def)
  ultimately have "project_subgraph p w (set_drawn k s) = (Inr (), set_rest v (set_drawn k s))" by simp
  then show ?thesis
    by (simp add: persist_snapshot_def settled_again [OF st] 4 5)
qed

lemma resolve_project_cong:
  assumes "st_projects r = st_projects r'"
  shows "resolve_project n pid r = resolve_project n pid r'"
  unfolding resolve_project_def project_by_ref_def assms by (rule refl)


lemma inj_str_nat: "inj str_nat"
  by (rule inj_on_inverseI [where g = "places_value 0"]) (simp add: numeral_digits)

lemma demo_ready: "ingestion_ready demo_ports demo_state" "snapshot_ok demo_snapshot"
  by (simp_all add: ingestion_ready_def demo_ports_def demo_state_def repos_def save_project_def
      empty_repositories_def stored_by_id_def get_item_def attachments_ok_def list_all_items_def dict_values_def
      fresh_ids_def inj_str_nat snapshot_ok_def demo_snapshot_def sized_def as_int_def)


end
