(* ===== verification/Sync.thy ===== *)
theory Sync
  imports Reingestion
begin

text \<open>
  Importing an existing project and pulling changes: \<open>application/openproject_bootstrap.py\<close>
  and \<open>application/work_management_sync.py\<close>. The provider is a port on the rest of the world.
  The loops over its pages end only when a page is short, so they carry fuel: \<open>None\<close> is the run
  that did not end within it.
\<close>

subsection \<open>Bootstrap\<close>

record bootstrap_result =
  br_project_id :: uuid
  br_status :: bootstrap_status
  br_projects :: nat
  br_work_items :: nat
  br_comments :: nat
  br_relations :: nat
  br_pages :: nat
  br_resumed :: bool
  br_details :: "string list"

definition new_bootstrap :: "uuid \<Rightarrow> datetime \<Rightarrow> bootstrap_state" where
  "new_bootstrap pid now =
     \<lparr>bs_project_id = pid, bs_provider = ''openproject'', bs_status = Bs_Connected, bs_stage = Discover_Projects,
      bs_last_page = 0, bs_items_processed = 0, bs_last_error = None, bs_started_at = now, bs_completed_at = None\<rparr>"

definition new_result :: "uuid \<Rightarrow> bootstrap_status \<Rightarrow> bootstrap_result" where
  "new_result pid st =
     \<lparr>br_project_id = pid, br_status = st, br_projects = 0, br_work_items = 0, br_comments = 0,
      br_relations = 0, br_pages = 0, br_resumed = False, br_details = []\<rparr>"

definition store_state :: "bootstrap_state \<Rightarrow> 'w op_state \<Rightarrow> 'w op_state" where
  "store_state b s = on_repos (save_bootstrap b) s"

text \<open>The handler of an exception: the state of the running stage is stored as failed.\<close>

definition bootstrap_failed :: "bootstrap_state \<Rightarrow> exn \<Rightarrow> 'w op_state \<Rightarrow> ('w op_state, 'a) outcome" where
  "bootstrap_failed b e s =
     (Inl e, store_state (b\<lparr>bs_status := Bs_Failed, bs_last_error := Some (exn_text e)\<rparr>) s)"

text \<open>A step of the running stage, inside the handler.\<close>

definition at_stage :: "bootstrap_state \<Rightarrow> ('w op_state, 'a) outcome
    \<Rightarrow> ('a \<Rightarrow> 'w op_state \<Rightarrow> ('w op_state, 'b) outcome option) \<Rightarrow> ('w op_state, 'b) outcome option" where
  "at_stage b m k = (case m of (Inl e, s) \<Rightarrow> Some (bootstrap_failed b e s) | (Inr a, s) \<Rightarrow> k a s)"

definition fail_definitive :: "bootstrap_state \<Rightarrow> bootstrap_result \<Rightarrow> string \<Rightarrow> 'w op_state
    \<Rightarrow> ('w op_state, bootstrap_result) outcome" where
  "fail_definitive b r m s =
     (Inr (r\<lparr>br_status := Bs_Failed, br_details := br_details r @ [m]\<rparr>),
      store_state (b\<lparr>bs_status := Bs_Failed, bs_last_error := Some m\<rparr>) s)"

definition ingest_project :: "'w op_ports \<Rightarrow> string \<Rightarrow> uuid \<Rightarrow> provider_project \<Rightarrow> 'w op_state
    \<Rightarrow> ('w op_state, unit) outcome" where
  "ingest_project p target pid pj s =
     then_do (upsert_project p (pp_external_id pj) (pp_name pj) (pp_description pj) (pp_parent pj)
        (if pp_external_id pj = target then Some pid else None) s) (\<lambda>q t. (Inr (), t))"

definition ingest_projects :: "'w op_ports \<Rightarrow> provider_project list \<Rightarrow> string \<Rightarrow> uuid \<Rightarrow> 'w op_state
    \<Rightarrow> ('w op_state, nat) outcome" where
  "ingest_projects p pjs target pid s =
     then_do (each_do (ingest_project p target pid) pjs s) (\<lambda>u t. (Inr (length pjs), t))"

definition ingest_bootstrap_item :: "'w op_ports \<Rightarrow> uuid \<Rightarrow> work_item_snapshot \<Rightarrow> 'w op_state
    \<Rightarrow> ('w op_state, unit) outcome" where
  "ingest_bootstrap_item p pid n s =
     then_do (ingest_work_item_snapshot p n Bootstrap_Mode ''bootstrap'' None (Some pid) None True s)
       (\<lambda>r t. (Inr (), t))"

definition page_detail :: "int \<Rightarrow> 'a list \<Rightarrow> string" where
  "page_detail offset page =
     ''page '' @ str_int offset @ '': '' @ str_nat (length page) @ '' work packages''"

fun fetch_pages :: "'w op_ports \<Rightarrow> 'w bootstrap_port \<Rightarrow> int \<Rightarrow> string \<Rightarrow> uuid \<Rightarrow> bootstrap_state
    \<Rightarrow> nat \<Rightarrow> int \<Rightarrow> work_item_snapshot list \<Rightarrow> bootstrap_result \<Rightarrow> 'w op_state
    \<Rightarrow> ('w op_state, work_item_snapshot list \<times> bootstrap_result) outcome option" where
  "fetch_pages p port psize x pid b 0 offset got r s = None"
| "fetch_pages p port psize x pid b (Suc fuel) offset got r s =
     (case on_rest (bp_work_packages port x offset psize) s of
        (Inl e, s1) \<Rightarrow> Some (Inl e, s1)
      | (Inr page, s1) \<Rightarrow>
          (case each_do (ingest_bootstrap_item p pid) page s1 of
             (Inl e, s2) \<Rightarrow> Some (Inl e, s2)
           | (Inr u, s2) \<Rightarrow>
               (let r1 = r\<lparr>br_pages := Suc (br_pages r), br_work_items := br_work_items r + length page,
                           br_details := br_details r @ [page_detail offset page]\<rparr>;
                    s3 = store_state (b\<lparr>bs_last_page := offset\<rparr>) s2
                in if int (length page) < psize then Some (Inr (got @ page, r1), s3)
                   else fetch_pages p port psize x pid b fuel (offset + psize) (got @ page) r1 s3)))"

text \<open>Blank comments are skipped; the time of a comment is not passed on.\<close>

fun ingest_activities :: "'w op_ports \<Rightarrow> uuid \<Rightarrow> provider_activity list \<Rightarrow> 'w op_state
    \<Rightarrow> ('w op_state, nat) outcome" where
  "ingest_activities p w [] s = (Inr 0, s)"
| "ingest_activities p w (a # as) s =
     (if strip (pa_text a) = [] then ingest_activities p w as s
      else then_do (ingest_comment p (Some w) (pa_external_id a) (pa_author a) (pa_text a) None
             Bootstrap_Mode ''bootstrap'' None s) (\<lambda>c t.
             then_do (ingest_activities p w as t) (\<lambda>n u. (Inr (Suc n), u))))"

fun ingest_comments :: "'w op_ports \<Rightarrow> 'w bootstrap_port \<Rightarrow> work_item_snapshot list \<Rightarrow> 'w op_state
    \<Rightarrow> ('w op_state, nat) outcome" where
  "ingest_comments p port [] s = (Inr 0, s)"
| "ingest_comments p port (n # ns) s =
     (case package_item (ws_external_id n) (repos s) of
        None \<Rightarrow> ingest_comments p port ns s
      | Some w \<Rightarrow>
          then_do (on_rest (bp_activities port (ws_external_id n)) s) (\<lambda>as s1.
            then_do (ingest_activities p (wi_id w) as s1) (\<lambda>k s2.
              then_do (ingest_comments p port ns s2) (\<lambda>m s3. (Inr (k + m), s3)))))"

definition count_relations :: "uuid \<Rightarrow> repository_set \<Rightarrow> nat" where
  "count_relations pid r =
     sum_list (map (\<lambda>w. length (relations_of_work_item (wi_id w) r)) (work_items_of_project pid r))"

definition watermark_key :: "string \<Rightarrow> string" where
  "watermark_key x = ''work_items:'' @ x"

definition establish_baseline :: "datetime \<Rightarrow> string \<Rightarrow> work_item_snapshot list \<Rightarrow> repository_set \<Rightarrow> repository_set" where
  "establish_baseline now x ns r =
     (let (m, r1) = get_or_create_watermark now ''openproject'' (watermark_key x) r
      in save_watermark (m\<lparr>wm_last_synced_at := Some now, wm_bootstrap_completed_at := Some now,
           wm_last_external_id := (if ns = [] then None else Some (ws_external_id (last ns)))\<rparr>) r1)"

text \<open>The stages after all pages are in.\<close>

definition finish_bootstrap :: "'w op_ports \<Rightarrow> 'w bootstrap_port \<Rightarrow> uuid \<Rightarrow> string \<Rightarrow> bootstrap_state
    \<Rightarrow> work_item_snapshot list \<Rightarrow> bootstrap_result \<Rightarrow> 'w op_state
    \<Rightarrow> ('w op_state, bootstrap_result) outcome option" where
  "finish_bootstrap p port pid x b ns r s =
     (let b3 = b\<lparr>bs_stage := Resolve_Relations\<rparr>; b4 = b3\<lparr>bs_stage := Ingest_Comments\<rparr>;
          b5 = b4\<lparr>bs_status := Bs_Building_Graph, bs_stage := Build_Graph\<rparr>;
          b6 = b5\<lparr>bs_status := Bs_Establishing_Baseline, bs_stage := Establish_Baseline\<rparr>;
          b7 = b6\<lparr>bs_status := Bs_Ready, bs_stage := Bootstrap_Complete,
                  bs_completed_at := Some (px_now p), bs_last_error := None\<rparr>
      in at_stage b3 (resolve_relationships p ns (store_state b3 s)) (\<lambda>u s1.
           at_stage b4 (ingest_comments p port ns (store_state b4 s1)) (\<lambda>k s2.
             Some (Inr (r\<lparr>br_relations := count_relations pid (repos s1), br_comments := k,
                         br_status := Bs_Ready,
                         br_details := br_details r @ [''bootstrap complete: '' @ str_nat (br_work_items r) @
                           '' work items, '' @ str_nat k @ '' comments'']\<rparr>),
               store_state b7 (on_repos (establish_baseline (px_now p) x ns)
                 (store_state b6 (store_state b5 s2)))))))"

definition run_bootstrap :: "'w op_ports \<Rightarrow> 'w bootstrap_port \<Rightarrow> int \<Rightarrow> nat \<Rightarrow> uuid \<Rightarrow> string
    \<Rightarrow> bootstrap_state \<Rightarrow> 'w op_state \<Rightarrow> ('w op_state, bootstrap_result) outcome option" where
  "run_bootstrap p port psize fuel pid x b0 s =
     (let r = new_result pid Bs_Connected;
          b1 = b0\<lparr>bs_status := Bs_Discovering, bs_stage := Discover_Projects, bs_last_error := None\<rparr>;
          b2 = b1\<lparr>bs_status := Bs_Ingesting, bs_stage := Fetch_Work_Items\<rparr>
      in at_stage b1 (on_rest (bp_projects port) (store_state b1 s)) (\<lambda>pjs s1.
           if \<not> list_ex (\<lambda>q. pp_external_id q = x) pjs
           then Some (fail_definitive b1 r (''provider project '' @ x @ '' does not exist or is not visible'') s1)
           else at_stage b1 (ingest_projects p pjs x pid s1) (\<lambda>k s2.
             case fetch_pages p port psize x pid b2 fuel (max (bs_last_page b2) 1) []
                    (r\<lparr>br_projects := k\<rparr>) (store_state b2 s2) of
               None \<Rightarrow> None
             | Some m \<Rightarrow> at_stage b2 m (\<lambda>(ns, r1). finish_bootstrap p port pid x b2 ns r1))))"

definition bootstrap_project :: "'w op_ports \<Rightarrow> 'w bootstrap_port \<Rightarrow> int \<Rightarrow> nat \<Rightarrow> uuid \<Rightarrow> string \<Rightarrow> bool
    \<Rightarrow> 'w op_state \<Rightarrow> ('w op_state, bootstrap_result) outcome option" where
  "bootstrap_project p port psize fuel pid x force s =
     (let (b0, s0) = (case get_bootstrap pid ''openproject'' (repos s) of
                        Some b \<Rightarrow> (b, s)
                      | None \<Rightarrow> (new_bootstrap pid (px_now p), store_state (new_bootstrap pid (px_now p)) s))
      in if \<not> force \<and> bs_status b0 \<in> {Bs_Ready, Bs_Live_Sync}
         then Some (Inr ((new_result pid (bs_status b0))
                \<lparr>br_resumed := True, br_details := [''bootstrap already completed; set force to re-run'']\<rparr>), s0)
         else run_bootstrap p port psize fuel pid x b0 s0)"

subsection \<open>Pull\<close>

text \<open>\<open>_is_missing_provider_project\<close>.\<close>

definition missing_provider_project :: "exn \<Rightarrow> bool" where
  "missing_provider_project e \<longleftrightarrow>
     contains ''Project filter has invalid values'' (exn_msg e) \<or>
     contains ''InvalidQuery'' (exn_msg e) \<and> contains ''project'' (lower (exn_msg e))"

definition provider_project_ref :: "project \<Rightarrow> external_reference option" where
  "provider_project_ref pj =
     List.find (\<lambda>r. ref_provider r = ''openproject'' \<and> ref_external_type r = Some ''project'') (pj_external_refs pj)"

definition work_item_provider_ref :: "work_item \<Rightarrow> external_reference option" where
  "work_item_provider_ref w =
     List.find (\<lambda>r. ref_provider r = ''openproject'' \<and> ref_external_type r = Some ''work_package'') (wi_external_refs w)"

record pull_result =
  pl_project_id :: uuid
  pl_status :: string
  pl_pulled :: nat
  pl_created :: nat
  pl_swept :: nat
  pl_conflicts :: nat
  pl_pages :: nat
  pl_details :: "string list"

definition new_pull :: "uuid \<Rightarrow> string \<Rightarrow> pull_result" where
  "new_pull pid st =
     \<lparr>pl_project_id = pid, pl_status = st, pl_pulled = 0, pl_created = 0, pl_swept = 0, pl_conflicts = 0,
      pl_pages = 0, pl_details = []\<rparr>"

definition seconds :: "int \<Rightarrow> int" where
  "seconds n = n * 1000000"

text \<open>\<open>_since\<close>: the overlap of five seconds is taken off only where no pull or bootstrap set the cursor.\<close>

definition pull_since :: "datetime \<Rightarrow> int \<Rightarrow> sync_watermark \<Rightarrow> datetime" where
  "pull_since now days m =
     (case wm_last_synced_at m of
        Some t \<Rightarrow> t
      | None \<Rightarrow>
          (case wm_bootstrap_completed_at m of
             Some t \<Rightarrow> t - seconds 5
           | None \<Rightarrow> now - seconds (86400 * days)))"

definition record_status_conflict :: "'w op_ports \<Rightarrow> work_item_snapshot \<Rightarrow> 'w op_state \<Rightarrow> nat \<times> 'w op_state" where
  "record_status_conflict p n s =
     (if map_human_work_status (ws_state n) \<notin> {Hw_Done, Hw_Cancelled} then (0, s)
      else (case package_item (ws_external_id n) (repos s) of
              None \<Rightarrow> (0, s)
            | Some w \<Rightarrow>
                if wi_verification w = Ve_Passed then (0, s)
                else if list_ex (\<lambda>c. sc_provider_field c = ''status'' \<and> sc_provider_value c = ws_state n \<and> \<not> sc_resolved c)
                       (list_conflicts (wi_id w) (opw s)) then (0, s)
                else (let (i, s1) = draw p s in
                      (1, on_op (save_conflict \<lparr>sc_id = i, sc_work_item_id = wi_id w, sc_provider = ''openproject'',
                            sc_external_id = ws_external_id n, sc_provider_field = ''status'',
                            sc_provider_value = ws_state n, sc_brain_value = ''verification_pending'',
                            sc_detected_at = px_now p, sc_resolved = False\<rparr>) s1))))"

fun pull_items :: "'w op_ports \<Rightarrow> uuid \<Rightarrow> work_item_snapshot list \<Rightarrow> pull_result \<Rightarrow> 'w op_state
    \<Rightarrow> ('w op_state, pull_result) outcome" where
  "pull_items p pid [] r s = (Inr r, s)"
| "pull_items p pid (n # ns) r s =
     then_do (ingest_work_item_snapshot p n Live_Mode ''pull'' None (Some pid) None False s) (\<lambda>q s1.
       let (k, s2) = record_status_conflict p n s1
       in pull_items p pid ns (r\<lparr>pl_created := pl_created r + (if ir_created q then 1 else 0),
                               pl_conflicts := pl_conflicts r + k\<rparr>) s2)"

text \<open>The pages, with the ids seen; a project that is gone ends the pull without an error.\<close>

fun pull_pages :: "'w op_ports \<Rightarrow> 'w bootstrap_port \<Rightarrow> int \<Rightarrow> string \<Rightarrow> uuid \<Rightarrow> datetime \<Rightarrow> nat \<Rightarrow> int
    \<Rightarrow> string list \<Rightarrow> pull_result \<Rightarrow> 'w op_state \<Rightarrow> ('w op_state, string list \<times> pull_result) outcome option" where
  "pull_pages p port psize x pid since 0 offset seen r s = None"
| "pull_pages p port psize x pid since (Suc fuel) offset seen r s =
     (case on_rest (bp_changed port since offset psize (Some x)) s of
        (Inl e, s1) \<Rightarrow>
          if missing_provider_project e
          then Some (Inr (seen, r\<lparr>pl_status := ''provider_project_missing'',
                 pl_details := pl_details r @ [''provider project '' @ x @ '' does not exist or is not accessible'']\<rparr>), s1)
          else Some (Inl e, s1)
      | (Inr page, s1) \<Rightarrow>
          (case pull_items p pid page (r\<lparr>pl_pages := Suc (pl_pages r)\<rparr>) s1 of
             (Inl e, s2) \<Rightarrow> Some (Inl e, s2)
           | (Inr r1, s2) \<Rightarrow>
               (let r2 = r1\<lparr>pl_pulled := pl_pulled r1 + length page,
                            pl_details := pl_details r1 @ [page_detail offset page]\<rparr>;
                    seen' = seen @ map ws_external_id page
                in if int (length page) < psize then Some (Inr (seen', r2), s2)
                   else pull_pages p port psize x pid since fuel (offset + psize) seen' r2 s2)))"

fun sweep_items :: "'w op_ports \<Rightarrow> 'w bootstrap_port \<Rightarrow> uuid \<Rightarrow> int \<Rightarrow> string list \<Rightarrow> work_item list \<Rightarrow> nat
    \<Rightarrow> 'w op_state \<Rightarrow> ('w op_state, nat) outcome" where
  "sweep_items p port pid limit seen [] swept s = (Inr swept, s)"
| "sweep_items p port pid limit seen (w # ws) swept s =
     (if int swept \<ge> limit then (Inr swept, s)
      else (case work_item_provider_ref w of
              None \<Rightarrow> sweep_items p port pid limit seen ws swept s
            | Some ref \<Rightarrow>
                if ref_external_id ref \<in> set seen then sweep_items p port pid limit seen ws swept s
                else then_do (on_rest (bp_snapshot port (ref_external_id ref)) s) (\<lambda>found s1.
                  case found of
                    None \<Rightarrow> sweep_items p port pid limit seen ws swept s1
                  | Some n \<Rightarrow>
                      then_do (ingest_work_item_snapshot p n Live_Mode ''pull.sweep'' None (Some pid) None False s1)
                        (\<lambda>q s2. sweep_items p port pid limit seen ws (Suc swept) s2))))"

text \<open>
  \<open>finished\<close> is the clock at the end of the pull, when the cursor advances. The watermark the
  cursor is stored over is the one read at the start.
\<close>

definition sync_project :: "'w op_ports \<Rightarrow> 'w bootstrap_port \<Rightarrow> int \<Rightarrow> int \<Rightarrow> int \<Rightarrow> nat \<Rightarrow> datetime \<Rightarrow> project
    \<Rightarrow> 'w op_state \<Rightarrow> ('w op_state, pull_result) outcome option" where
  "sync_project p port psize days limit fuel finished pj s =
     (case provider_project_ref pj of
        None \<Rightarrow> Some (Inr (new_pull (pj_id pj) ''no_provider_ref''), s)
      | Some ref \<Rightarrow>
          (let x = ref_external_id ref;
               m = fst (get_or_create_watermark (px_now p) ''openproject'' (watermark_key x) (repos s));
               s0 = on_repos (\<lambda>r. snd (get_or_create_watermark (px_now p) ''openproject'' (watermark_key x) r)) s
           in case pull_pages p port psize x (pj_id pj) (pull_since (px_now p) days m) fuel 1 []
                     (new_pull (pj_id pj) ''ok'') s0 of
                None \<Rightarrow> None
              | Some (Inl e, s1) \<Rightarrow> Some (Inl e, s1)
              | Some (Inr (seen, r), s1) \<Rightarrow>
                  Some (then_do
                    (if wm_last_synced_at m \<noteq> None
                     then sweep_items p port (pj_id pj) limit seen (work_items_of_project (pj_id pj) (repos s1)) 0 s1
                     else (Inr (pl_swept r), s1))
                    (\<lambda>k s2.
                       (Inr (r\<lparr>pl_swept := k, pl_details := pl_details r @
                               [''watermark advanced; '' @ str_nat (pl_pulled r) @ '' pulled'']\<rparr>),
                        on_repos (save_watermark (m\<lparr>wm_last_synced_at := Some finished,
                          wm_last_external_id := (if seen = [] then wm_last_external_id m else Some (last seen))\<rparr>)) s2)))))"

subsection \<open>Single work items\<close>

text \<open>
  \<open>WorkManagementSyncService\<close> over the adapter: its provider name is the mapping's, and the
  item the adapter builds is the parameter \<open>fetch\<close>.
\<close>

definition normalize_webhook :: "(external_reference \<Rightarrow> 'w \<Rightarrow> ('w, work_item) outcome) \<Rightarrow> string \<Rightarrow> raw_dict
    \<Rightarrow> 'w op_state \<Rightarrow> ('w op_state, work_item \<times> bool) outcome" where
  "normalize_webhook fetch x raw s =
     then_do (on_rest (fetch (openproject_ref ''work_package'' x)) s) (\<lambda>w t. (Inr (w, raw \<noteq> []), t))"

definition sync_from_provider :: "'w op_ports \<Rightarrow> (external_reference \<Rightarrow> 'w \<Rightarrow> ('w, work_item) outcome)
    \<Rightarrow> uuid \<Rightarrow> string \<Rightarrow> 'w op_state
    \<Rightarrow> ('w op_state, integration_mapping list \<times> sync_conflict list) outcome" where
  "sync_from_provider p fetch wid x s =
     then_do (on_rest (fetch \<lparr>ref_provider = ''openproject'', ref_external_id = x, ref_external_type = None,
         ref_url = None, ref_namespace = None\<rparr>) s) (\<lambda>w s1.
       let known = list_mappings wid (opw s1);
           (i, s2) = draw p s1;
           m = \<lparr>im_id = i, im_work_item_id = wid, im_provider = ''openproject'', im_external_id = x,
                im_sync_state = Synced, im_last_synced_at = Some (px_now p), im_last_sync_error = None\<rparr>;
           (ms, s3) = (if known = [] then ([m], on_op (save_mapping m) s2) else (known, s1));
           status = human_work_status_value (wi_human w)
       in if status \<in> {''done'', ''closed''}
          then (let (j, s4) = draw p s3;
                    c = \<lparr>sc_id = j, sc_work_item_id = wid, sc_provider = ''openproject'', sc_external_id = x,
                         sc_provider_field = ''status'', sc_provider_value = status,
                         sc_brain_value = ''verification_pending'', sc_detected_at = px_now p, sc_resolved = False\<rparr>
                in (Inr (ms, [c]), on_op (save_conflict c) s4))
          else (Inr (ms, []), s3))"

definition publish_item :: "'w op_ports \<Rightarrow> (work_item \<Rightarrow> 'w \<Rightarrow> ('w, external_reference) outcome) \<Rightarrow> work_item
    \<Rightarrow> 'w op_state \<Rightarrow> ('w op_state, integration_mapping) outcome" where
  "publish_item p post w s =
     then_do (on_rest (post w) s) (\<lambda>ref s1.
       let (i, s2) = draw p s1;
           m = \<lparr>im_id = i, im_work_item_id = wi_id w, im_provider = ref_provider ref,
                im_external_id = ref_external_id ref, im_sync_state = Synced,
                im_last_synced_at = Some (px_now p), im_last_sync_error = None\<rparr>
       in then_do (emit_event p (WorkItemChanged (px_dump p w)) ''openproject'' None None []
                     (on_op (save_mapping m) s2)) (\<lambda>e s3. (Inr m, s3)))"

subsection \<open>A bootstrap triggers nothing\<close>

text \<open>The end of a run, if it ends.\<close>

definition ends :: "('s \<Rightarrow> bool) \<Rightarrow> ('s, 'a) outcome option \<Rightarrow> bool" where
  "ends P r \<longleftrightarrow> (case r of None \<Rightarrow> True | Some m \<Rightarrow> P (snd m))"

lemma ends_simps [simp]: "ends P None" "ends P (Some m) = P (snd m)"
  by (simp_all add: ends_def)

lemma ends_if: "\<lbrakk>b \<Longrightarrow> ends P u; \<not> b \<Longrightarrow> ends P v\<rbrakk> \<Longrightarrow> ends P (if b then u else v)"
  by simp

lemma ends_outcome:
  assumes "P (snd m)" and "\<And>e t. P t \<Longrightarrow> ends P (f e t)" and "\<And>a t. P t \<Longrightarrow> ends P (k a t)"
  shows "ends P (case m of (Inl e, t) \<Rightarrow> f e t | (Inr a, t) \<Rightarrow> k a t)"
  using assms by (cases m; cases "fst m") simp_all

context ingestion_frame begin

lemma store: "R s t \<Longrightarrow> R s (store_state b t)"
  by (simp add: store_state_def after_repos)

lemma each: "\<lbrakk>R s t; \<And>x u. R s u \<Longrightarrow> R s (snd (f x u))\<rbrakk> \<Longrightarrow> R s (snd (each_do f xs t))"
  by (rule each_do_state [of "R s"])

lemma provider_project: "R s t \<Longrightarrow> R s (snd (ingest_project p x pid pj t))"
  unfolding ingest_project_def by (intro intros project)

lemma provider_projects: "R s t \<Longrightarrow> R s (snd (ingest_projects p pjs x pid t))"
  unfolding ingest_projects_def by (intro intros each provider_project)

lemma activities: "R s t \<Longrightarrow> R s (snd (ingest_activities p w as t))"
proof (induction "as" arbitrary: t)
  case (Cons a "as")
  then show ?case by (auto intro!: intros comment Cons.IH)
qed simp

lemma comments: "R s t \<Longrightarrow> R s (snd (ingest_comments p port ns t))"
proof (induction ns arbitrary: t)
  case (Cons n ns)
  then show ?case by (auto split: option.split intro!: intros activities Cons.IH)
qed simp

lemma stage:
  "\<lbrakk>R s (snd m); \<And>a t. R s t \<Longrightarrow> ends (R s) (k a t)\<rbrakk> \<Longrightarrow> ends (R s) (at_stage b m k)"
  unfolding at_stage_def by (intro ends_outcome) (simp_all add: bootstrap_failed_def store)

lemma finish: "R s t \<Longrightarrow> ends (R s) (finish_bootstrap p port pid x b ns r t)"
  unfolding finish_bootstrap_def Let_def
  by (intro stage relationships comments store) (simp_all add: store after_repos)

end

context silent_frame begin

lemma item: "R s t \<Longrightarrow> R s (snd (ingest_bootstrap_item p pid n t))"
  unfolding ingest_bootstrap_item_def by (intro intros ingestion)

lemma fetch: "R s t \<Longrightarrow> ends (R s) (fetch_pages p port psize x pid b fuel offset got r t)"
proof (induction fuel arbitrary: offset got r t)
  case (Suc fuel)
  then show ?case
    unfolding fetch_pages.simps Let_def
    by (intro ends_outcome ends_if Suc.IH port each item store) (simp_all add: store)
qed simp

lemma run: "R s t \<Longrightarrow> ends (R s) (run_bootstrap p port psize fuel pid x b t)"
  unfolding run_bootstrap_def Let_def
proof (intro stage ends_if port store provider_projects)
  fix k u assume "R s u"
  then have "ends (R s) (fetch_pages p port psize x pid b' fuel offset [] r (store_state b' u))" for b' offset r
    by (intro fetch store)
  note pages = this
  show "ends (R s) (case fetch_pages p port psize x pid b' fuel offset [] r (store_state b' u) of
      None \<Rightarrow> None | Some m \<Rightarrow> at_stage b' m (\<lambda>(ns, r1). finish_bootstrap p port pid x b' ns r1))" for b' offset r
    using pages [of b' offset r]
    by (cases "fetch_pages p port psize x pid b' fuel offset [] r (store_state b' u)")
      (auto intro!: stage finish)
qed (simp_all add: fail_definitive_def store)

lemma bootstrap: "R s t \<Longrightarrow> ends (R s) (bootstrap_project p port psize fuel pid x force t)"
  unfolding bootstrap_project_def Let_def by (auto split: option.split intro!: run store)

end

context live_frame begin

lemma conflict: "R s t \<Longrightarrow> R s (snd (record_status_conflict p n t))"
  unfolding record_status_conflict_def Let_def split_beta
  by (auto split: option.split intro!: intros after_conflict)

lemma pulled_items: "R s t \<Longrightarrow> R s (snd (pull_items p pid ns r t))"
proof (induction ns arbitrary: r t)
  case (Cons n ns)
  then show ?case
    unfolding pull_items.simps Let_def split_beta
    by (auto intro!: intros any_ingestion conflict Cons.IH)
qed simp

lemma pulled_pages:
  "R s t \<Longrightarrow> ends (R s) (pull_pages p port psize x pid since fuel offset seen r t)"
proof (induction fuel arbitrary: offset seen r t)
  case (Suc fuel)
  then show ?case
    unfolding pull_pages.simps Let_def
    by (intro ends_outcome ends_if Suc.IH port pulled_items) simp_all
qed simp

lemma swept_items: "R s t \<Longrightarrow> R s (snd (sweep_items p port pid limit seen ws k t))"
proof (induction ws arbitrary: k t)
  case (Cons w ws)
  then show ?case
    by (auto split: option.split intro!: intros any_ingestion Cons.IH)
qed simp

lemma synced:
  assumes "R s t"
  shows "ends (R s) (sync_project p port psize days limit fuel finished pj t)"
  unfolding sync_project_def Let_def
  by (auto split: option.split sum.split intro!: intros swept_items
      dest!: arg_cong [of _ _ "ends (R s)"] simp: pulled_pages assms after_repos)

end


subsection \<open>A failure is recorded, its progress is not\<close>

text \<open>The page is stored in the loop, over the state of the stage; the handler stores that state again.\<close>

definition of_project :: "uuid \<Rightarrow> int \<Rightarrow> bootstrap_state \<Rightarrow> bool" where
  "of_project pid page b \<longleftrightarrow> bs_project_id b = pid \<and> bs_provider b = ''openproject'' \<and> bs_last_page b = page"

definition failure_recorded :: "uuid \<Rightarrow> int \<Rightarrow> ('w op_state, 'a) outcome option \<Rightarrow> bool" where
  "failure_recorded pid page r \<longleftrightarrow>
     (\<forall>e t. r = Some (Inl e, t) \<longrightarrow>
        (\<exists>b. get_bootstrap pid ''openproject'' (repos t) = Some b \<and> bs_status b = Bs_Failed \<and>
           bs_last_error b = Some (exn_text e) \<and> bs_last_page b = page))"

lemma failure_at_stage:
  assumes "of_project pid page b" and "\<And>a t. failure_recorded pid page (k a t)"
  shows "failure_recorded pid page (at_stage b m k)"
  using assms
  by (cases m; cases "fst m")
    (auto simp: at_stage_def failure_recorded_def bootstrap_failed_def of_project_def store_state_def
      get_bootstrap_def save_bootstrap_def store_simps)

lemma failure_simps [simp]:
  "failure_recorded pid page None" "failure_recorded pid page (Some (Inr a, t))"
  by (simp_all add: failure_recorded_def)

lemma failure_finish: "of_project pid page b \<Longrightarrow> failure_recorded pid page (finish_bootstrap p port pid x b ns r s)"
  unfolding finish_bootstrap_def Let_def
  by (intro failure_at_stage failure_simps) (simp_all add: of_project_def)

lemma failure_run:
  assumes "of_project pid page b"
  shows "failure_recorded pid page (run_bootstrap p port psize fuel pid x b s)"
proof -
  have fetched: "failure_recorded pid page (case m of None \<Rightarrow> None
      | Some m \<Rightarrow> at_stage b' m (\<lambda>(ns, r1). finish_bootstrap p port pid x b' ns r1))"
    if "of_project pid page b'" for m b'
    using that by (auto split: option.split prod.split intro!: failure_at_stage failure_finish)
  have branch: "failure_recorded pid page (if c then u else v)"
    if "failure_recorded pid page u" "failure_recorded pid page v" for c and u v :: "('a op_state, bootstrap_result) outcome option"
    using that by simp
  show ?thesis
    unfolding run_bootstrap_def Let_def
    by (intro failure_at_stage branch fetched) (use assms in \<open>simp_all add: of_project_def fail_definitive_def\<close>)
qed


subsection \<open>The cursor after a bootstrap\<close>

text \<open>
  The baseline sets both times of the watermark, so the first pull starts exactly where the
  bootstrap ended: the overlap of five seconds is never taken off.
\<close>

theorem first_pull_has_no_overlap:
  assumes "dict_get (st_watermarks (establish_baseline t x ns r)) (''openproject'', watermark_key x) = Some m"
    and "\<And>k w. dict_get (st_watermarks r) k = Some w \<Longrightarrow> (wm_provider w, wm_sync_key w) = k"
  shows "pull_since now days m = t"
proof -
  obtain w r1 where g: "get_or_create_watermark t ''openproject'' (watermark_key x) r = (w, r1)" by fastforce
  have "wm_provider w = ''openproject''" "wm_sync_key w = watermark_key x"
    using g assms(2) by (auto simp: get_or_create_watermark_def new_watermark_def split: option.splits)
  with assms(1) g show ?thesis
    by (auto simp: establish_baseline_def save_watermark_def store_simps pull_since_def)
qed

subsection \<open>All pages\<close>

text \<open>A provider whose offset is the number of the first item, as the loop counts it.\<close>

definition offsets_are_items :: "work_item_snapshot list \<Rightarrow> 'w bootstrap_port \<Rightarrow> bool" where
  "offsets_are_items items port \<longleftrightarrow>
     (\<forall>x off n w. 1 \<le> off \<longrightarrow> bp_work_packages port x off n w = (Inr (take (nat n) (drop (nat (off - 1)) items)), w))"

text \<open>A provider whose offset is the number of a page, as the OpenProject API defines it.\<close>

definition offsets_are_pages :: "work_item_snapshot list \<Rightarrow> 'w bootstrap_port \<Rightarrow> bool" where
  "offsets_are_pages items port \<longleftrightarrow>
     (\<forall>x off n w. 1 \<le> off \<longrightarrow>
        bp_work_packages port x off n w = (Inr (take (nat n) (drop (nat (off - 1) * nat n) items)), w))"

text \<open>The baseline after snapshots were stored one after the other.\<close>

definition stored_after :: "work_item_snapshot list \<Rightarrow> 'w op_state \<Rightarrow> 'w op_state \<Rightarrow> bool" where
  "stored_after ns s t \<longleftrightarrow>
     op_snapshots (opw t) = fold (\<lambda>n. dict_set (ws_external_id n) n) ns (op_snapshots (opw s))"

lemma stored_after_append: "\<lbrakk>stored_after ns s t; stored_after ms t u\<rbrakk> \<Longrightarrow> stored_after (ns @ ms) s u"
  by (simp add: stored_after_def)

lemma item_stored:
  assumes "px_fetch p = None"
  shows "\<exists>t. ingest_bootstrap_item p pid n s = (Inr (), t) \<and> stored_after [n] s t"
proof -
  obtain r t where t: "ingest_work_item_snapshot p n Bootstrap_Mode ''bootstrap'' None (Some pid) None True s = (Inr r, t)"
    using ingestion_returns [OF assms] by blast
  have "stored_after [n] s t"
  proof (cases "resolve_project n (Some pid) (repos s)")
    case None
    with t show ?thesis
      by (auto simp: ingest_work_item_snapshot_def stored_after_def save_snapshot_of_def Let_def)
  next
    case (Some project)
    define c where "c = diff_snapshots (get_snapshot_of (ws_external_id n) (opw s)) n"
    obtain q u where u: "persist_snapshot p n c project s = (q, u)" by fastforce
    have "same_baseline s u" using baseline.persist [OF baseline.same, of s p n c project] u by simp
    moreover obtain a where "q = Inr a"
      using t u by (cases q) (auto simp: ingest_work_item_snapshot_def Some c_def [symmetric] Let_def)
    ultimately show ?thesis
      using t u by (auto simp: ingest_work_item_snapshot_def Some c_def [symmetric] Let_def stored_after_def
          save_snapshot_of_def same_baseline_def split: prod.splits)
  qed
  with t show ?thesis by (simp add: ingest_bootstrap_item_def)
qed

lemma page_stored:
  assumes "px_fetch p = None"
  shows "\<exists>t. each_do (ingest_bootstrap_item p pid) ns s = (Inr (), t) \<and> stored_after ns s t"
proof (induction ns arbitrary: s)
  case Nil
  show ?case by (simp add: stored_after_def)
next
  case (Cons n ns)
  obtain t where t: "ingest_bootstrap_item p pid n s = (Inr (), t)" "stored_after [n] s t"
    using item_stored [OF assms] by blast
  obtain u where u: "each_do (ingest_bootstrap_item p pid) ns t = (Inr (), u)" "stored_after ns t u"
    using Cons by blast
  show ?case using t(1) u(1) stored_after_append [OF t(2) u(2)] by simp
qed

lemma stored_after_store [simp]: "stored_after ns s (store_state b t) \<longleftrightarrow> stored_after ns s t"
  by (simp add: stored_after_def store_state_def)

lemma on_rest_pure:
  assumes "\<And>w. f w = (Inr a, w)"
  shows "on_rest f s = (Inr a, s)"
  by (simp add: on_rest_def assms on_op_def opw_def)

lemma fetch_all:
  assumes "px_fetch p = None" and "offsets_are_items items port" and "0 < psize" and "1 \<le> offset"
    and "length items - nat (offset - 1) < fuel * nat psize"
  shows "\<exists>r' t. fetch_pages p port psize x pid b fuel offset got r s =
      Some (Inr (got @ drop (nat (offset - 1)) items, r'), t) \<and>
    br_work_items r' = br_work_items r + length (drop (nat (offset - 1)) items) \<and>
    br_projects r' = br_projects r \<and> stored_after (drop (nat (offset - 1)) items) s t"
  using assms(4,5)
proof (induction fuel arbitrary: offset got r s)
  case (Suc fuel)
  define rest where "rest = drop (nat (offset - 1)) items"
  define page where "page = take (nat psize) rest"
  have pg: "on_rest (bp_work_packages port x offset psize) s = (Inr page, s)"
    using assms(2) Suc.prems(1) by (intro on_rest_pure) (simp add: offsets_are_items_def page_def rest_def)
  obtain t where t: "each_do (ingest_bootstrap_item p pid) page s = (Inr (), t)" "stored_after page s t"
    using page_stored [OF assms(1)] by blast
  show ?case
  proof (cases "int (length page) < psize")
    case True
    then have "page = rest" using assms(3) by (simp add: page_def min_def split: if_splits)
    with True pg t show ?thesis by (simp add: rest_def [symmetric] Let_def)
  next
    case False
    have next': "nat (offset + psize - 1) = nat psize + nat (offset - 1)" using assms(3) Suc.prems(1) by simp
    have tail: "drop (nat (offset + psize - 1)) items = drop (nat psize) rest"
      by (simp add: next' rest_def add.commute)
    define r1 where "r1 = r\<lparr>br_pages := Suc (br_pages r), br_work_items := br_work_items r + length page,
        br_details := br_details r @ [page_detail offset page]\<rparr>"
    have "length items - nat (offset + psize - 1) < fuel * nat psize"
    proof -
      have "nat psize \<le> length items - nat (offset - 1)"
        using False assms(3) by (simp add: page_def rest_def)
      moreover have "length items - nat (offset + psize - 1) = length items - nat (offset - 1) - nat psize"
        by (simp add: next')
      moreover have "m - k < n" if "k \<le> m" and "m < k + n" for m k n :: nat using that by linarith
      ultimately show ?thesis using Suc.prems(2) by (simp only: mult_Suc)
    qed
    then obtain r' u where ih: "fetch_pages p port psize x pid b fuel (offset + psize) (got @ page) r1
          (store_state (b\<lparr>bs_last_page := offset\<rparr>) t) =
        Some (Inr ((got @ page) @ drop (nat psize) rest, r'), u)"
      "br_work_items r' = br_work_items r1 + length (drop (nat psize) rest)" "br_projects r' = br_projects r1"
      "stored_after (drop (nat psize) rest) (store_state (b\<lparr>bs_last_page := offset\<rparr>) t) u"
      using Suc.IH [of "offset + psize" "got @ page" r1 "store_state (b\<lparr>bs_last_page := offset\<rparr>) t"]
        Suc.prems(1) assms(3) unfolding tail by auto
    have whole: "page @ drop (nat psize) rest = rest" by (simp add: page_def)
    have stored: "stored_after rest s u"
      using stored_after_append [OF t(2), of "drop (nat psize) rest" u] ih(4) whole
      by (simp add: stored_after_def store_state_def)
    have "length rest = length page + length (drop (nat psize) rest)"
      by (metis whole length_append)
    moreover have "br_work_items r1 = br_work_items r + length page" by (simp add: r1_def)
    ultimately have count: "br_work_items r' = br_work_items r + length rest" using ih(2) by linarith
    have projects: "br_projects r' = br_projects r" using ih(3) by (simp add: r1_def)
    have "fetch_pages p port psize x pid b (Suc fuel) offset got r s =
        fetch_pages p port psize x pid b fuel (offset + psize) (got @ page) r1
          (store_state (b\<lparr>bs_last_page := offset\<rparr>) t)"
      using False by (simp add: pg t(1) r1_def Let_def)
    also have "\<dots> = Some (Inr (got @ rest, r'), u)" using ih(1) whole by simp
    finally show ?thesis using count projects stored unfolding rest_def by blast
  qed
qed simp

subsection \<open>A bootstrap over answering ports\<close>

text \<open>
  The ports a bootstrap needs to answer: the graph accepts, the projects are listed, the pages
  follow the items, the comments of a package are listed.
\<close>

definition ports_answer :: "'w op_ports \<Rightarrow> 'w bootstrap_port \<Rightarrow> provider_project list \<Rightarrow> work_item_snapshot list \<Rightarrow> bool" where
  "ports_answer p port pjs items \<longleftrightarrow>
     px_fetch p = None \<and> (\<forall>es w. \<exists>w'. px_entities p es w = (Inr (), w')) \<and>
     (\<forall>rs w. \<exists>w'. px_relations p rs w = (Inr (), w')) \<and> (\<forall>w. bp_projects port w = (Inr pjs, w)) \<and>
     offsets_are_items items port \<and> (\<forall>y w. \<exists>as. bp_activities port y w = (Inr as, w))"

definition answered :: "('s, 'a) outcome \<Rightarrow> bool" where
  "answered m \<longleftrightarrow> (\<exists>a t. m = (Inr a, t))"

lemma answered_simps [simp]: "answered (Inr a, t)" "answered (swallow m)"
  by (simp_all add: answered_def swallow_def)

lemma answered_then_do: "\<lbrakk>answered m; \<And>a t. answered (k a t)\<rbrakk> \<Longrightarrow> answered (then_do m k)"
  unfolding answered_def by auto

lemma answered_each_do: "(\<And>x s. answered (f x s)) \<Longrightarrow> answered (each_do f xs s)"
  by (induction xs arbitrary: s) (auto intro: answered_then_do)

lemma answered_port: "(\<And>w. answered (f w)) \<Longrightarrow> answered (on_rest f s)"
  unfolding answered_def on_rest_def by (metis (no_types, lifting) case_prod_conv)

lemma relationships_return: "answered (resolve_relationships p ns s)"
  unfolding resolve_relationships_def relate_snapshot_def project_subgraph_def Let_def split_beta
  by (auto split: option.split intro!: answered_each_do)

lemma comment_returns: "answered (ingest_comment p wid x author body made Bootstrap_Mode src corr s)"
  unfolding ingest_comment_def project_comment_def Let_def split_beta
  by (auto split: option.split intro!: answered_then_do)

lemma activities_return: "answered (ingest_activities p w as s)"
  by (induction "as" arbitrary: s) (auto intro!: answered_then_do comment_returns)

lemma comments_return:
  assumes "\<And>y w. answered (bp_activities port y w)"
  shows "answered (ingest_comments p port ns s)"
  by (induction ns arbitrary: s)
    (auto split: option.split intro!: answered_then_do answered_port assms activities_return)

lemma projects_return:
  assumes "\<And>es w. answered (px_entities p es w)" and "\<And>rs w. answered (px_relations p rs w)"
  shows "answered (ingest_projects p pjs x pid s)"
proof -
  have "answered (upsert_project_node p q u)" for q u
    unfolding upsert_project_node_def
    by (auto split: option.split intro!: answered_then_do answered_port assms)
  then have "answered (upsert_project p y name desc parent i u)" for y name desc parent i u
    unfolding upsert_project_def Let_def split_beta
    by (auto split: option.split intro!: answered_then_do)
  then show ?thesis
    unfolding ingest_projects_def ingest_project_def
    by (intro answered_then_do answered_each_do answered_simps)
qed

lemma at_stage_answered: "m = (Inr a, t) \<Longrightarrow> at_stage b m k = k a t"
  by (simp add: at_stage_def)

lemma ports_answerD:
  assumes "ports_answer p port pjs items"
  shows "px_fetch p = None" "\<And>es w. answered (px_entities p es w)" "\<And>rs w. answered (px_relations p rs w)"
    "on_rest (bp_projects port) s = (Inr pjs, s)" "offsets_are_items items port"
    "\<And>y w. answered (bp_activities port y w)"
  using assms on_rest_pure [of "bp_projects port" pjs s] by (auto simp: ports_answer_def answered_def) blast+

text \<open>The last stages store the watermark and the state, over the baseline of the pages.\<close>

lemma finish_completes:
  assumes "ports_answer p port pjs items" and "of_project pid page b"
  shows "\<exists>r' t c. finish_bootstrap p port pid x b ns r s = Some (Inr r', t) \<and> br_status r' = Bs_Ready \<and>
    br_work_items r' = br_work_items r \<and> br_projects r' = br_projects r \<and> same_baseline s t \<and>
    get_bootstrap pid ''openproject'' (repos t) = Some c \<and> bs_status c = Bs_Ready \<and>
    bs_stage c = Bootstrap_Complete"
proof -
  have keep: "same_baseline s (store_state c t)" if "same_baseline s t" for c and t
    using that unfolding store_state_def by (rule baseline.after_repos)
  obtain u s1 where 1: "resolve_relationships p ns (store_state (b\<lparr>bs_stage := Resolve_Relations\<rparr>) s) = (Inr u, s1)"
    using relationships_return unfolding answered_def by blast
  have q1: "same_baseline s s1"
    using baseline.relationships [OF keep [OF baseline.same], of p ns] 1 by (metis snd_conv)
  obtain k s2 where 2: "ingest_comments p port ns
      (store_state (b\<lparr>bs_stage := Resolve_Relations, bs_stage := Ingest_Comments\<rparr>) s1) = (Inr k, s2)"
    using comments_return [OF ports_answerD(6) [OF assms(1)]] unfolding answered_def by blast
  have q2: "same_baseline s s2"
    using baseline.comments [OF keep [OF q1], of p port ns] 2 by (metis snd_conv)
  have base: "same_baseline s (store_state c (on_repos f (store_state d (store_state e s2))))" for c d e f
    using q2 by (intro keep baseline.after_repos)
  have stored: "get_bootstrap pid ''openproject'' (repos (store_state c t)) = Some c" if "of_project pid page c" for c and t :: "'a op_state"
    using that by (simp add: store_state_def get_bootstrap_def save_bootstrap_def store_simps of_project_def)
  define b5 where "b5 = b\<lparr>bs_stage := Resolve_Relations, bs_stage := Ingest_Comments,
      bs_status := Bs_Building_Graph, bs_stage := Build_Graph\<rparr>"
  define b6 where "b6 = b5\<lparr>bs_status := Bs_Establishing_Baseline, bs_stage := Establish_Baseline\<rparr>"
  define b7 where "b7 = b6\<lparr>bs_status := Bs_Ready, bs_stage := Bootstrap_Complete,
      bs_completed_at := Some (px_now p), bs_last_error := None\<rparr>"
  define r' where "r' = r\<lparr>br_relations := count_relations pid (repos s1), br_comments := k, br_status := Bs_Ready,
      br_details := br_details r @ [''bootstrap complete: '' @ str_nat (br_work_items r) @
        '' work items, '' @ str_nat k @ '' comments'']\<rparr>"
  define t where "t = store_state b7 (on_repos (establish_baseline (px_now p) x ns) (store_state b6 (store_state b5 s2)))"
  have "finish_bootstrap p port pid x b ns r s = Some (Inr r', t)"
    unfolding finish_bootstrap_def Let_def at_stage_answered [OF 1] at_stage_answered [OF 2]
    by (simp only: r'_def t_def b7_def b6_def b5_def)
  moreover have "br_status r' = Bs_Ready" "br_work_items r' = br_work_items r" "br_projects r' = br_projects r"
    by (simp_all add: r'_def)
  moreover have "same_baseline s t" unfolding t_def by (rule base)
  moreover have "get_bootstrap pid ''openproject'' (repos t) = Some b7"
    unfolding t_def using assms(2) by (intro stored) (simp add: b7_def b6_def b5_def of_project_def)
  moreover have "bs_status b7 = Bs_Ready" "bs_stage b7 = Bootstrap_Complete" by (simp_all add: b7_def)
  ultimately show ?thesis by blast
qed


text \<open>
  Where the provider counts pages, as OpenProject documents it, the second request asks for page
  \<open>1 + psize\<close>: of a project with at least one and at most \<open>psize\<close> full pages only the first page
  is ever fetched.
\<close>

theorem later_pages_lost:
  assumes "px_fetch p = None" and "offsets_are_pages items port" and "0 < psize"
    and "nat psize \<le> length items" and "length items \<le> nat psize * nat psize"
  shows "\<exists>r' t. fetch_pages p port psize x pid b (Suc (Suc fuel)) 1 [] r s =
    Some (Inr (take (nat psize) items, r'), t) \<and> br_work_items r' = br_work_items r + nat psize"
proof -
  have pg: "on_rest (bp_work_packages port x 1 psize) u = (Inr (take (nat psize) items), u)" for u
    using assms(2) by (intro on_rest_pure) (simp add: offsets_are_pages_def)
  have "nat (1 + psize - 1) * nat psize = nat psize * nat psize" by simp
  then have pg2: "on_rest (bp_work_packages port x (1 + psize) psize) u = (Inr [], u)" for u
    using assms(2,3,5) by (intro on_rest_pure) (simp add: offsets_are_pages_def)
  obtain t where t: "each_do (ingest_bootstrap_item p pid) (take (nat psize) items) s = (Inr (), t)"
    using page_stored [OF assms(1)] by blast
  show ?thesis using pg pg2 t assms(3,4) by (simp add: Let_def min_def)
qed

subsection \<open>Witnesses\<close>

definition demo_items :: "work_item_snapshot list" where
  "demo_items = [demo_snapshot, demo_snapshot\<lparr>ws_external_id := ''43''\<rparr>, demo_snapshot\<lparr>ws_external_id := ''44''\<rparr>]"

definition demo_provider :: "unit bootstrap_port" where
  "demo_provider =
     \<lparr>bp_projects = (\<lambda>w. (Inr [\<lparr>pp_external_id = ''7'', pp_name = ''Demo'', pp_identifier = ''demo'',
        pp_description = [], pp_active = True, pp_parent = None\<rparr>], w)),
      bp_work_packages = (\<lambda>x off n w. (Inr (take (nat n) (drop (nat (off - 1)) demo_items)), w)),
      bp_changed = (\<lambda>since off n x w. (Inr [], w)), bp_snapshot = (\<lambda>x w. (Inr None, w)),
      bp_activities = (\<lambda>x w. (Inr [], w))\<rparr>"

definition failing_provider :: "unit bootstrap_port" where
  "failing_provider = demo_provider\<lparr>bp_projects := \<lambda>w. (Inl (Exn ''TimeoutError'' []), w)\<rparr>"


lemma failing_run:
  "\<exists>t. bootstrap_project demo_ports failing_provider 2 2 ''p'' ''7'' False demo_state =
     Some (Inl (Exn ''TimeoutError'' []), t)"
proof -
  have "get_bootstrap ''p'' ''openproject'' (repos demo_state) = None"
    by (simp add: get_bootstrap_def repos_def demo_state_def save_project_def empty_repositories_def)
  then show ?thesis
    by (simp add: bootstrap_project_def run_bootstrap_def new_bootstrap_def at_stage_def failing_provider_def
        on_rest_def bootstrap_failed_def Let_def)
qed



end
