(* ===== verification/Webhooks.thy ===== *)
theory Webhooks
  imports Reingestion
begin

text \<open>
  The webhook routes (\<open>api/routes/webhooks.py\<close>): the dispatch of OpenProject bodies by action,
  the comment a body may carry, and the merge events of GitLab. The body is the parsed JSON
  dictionary of a request that was authenticated; \<open>corr\<close> is the correlation id of the request.
\<close>

subsection \<open>OpenProject\<close>

definition jresponse :: "bool \<Rightarrow> (string \<times> json) list \<Rightarrow> raw_dict" where
  "jresponse ok d = (''accepted'', JBool ok) # d"

definition extract_comment :: "raw_dict \<Rightarrow> (string \<times> string \<times> string) option" where
  "extract_comment body =
     (case (case jget body ''comment'' of JDict d \<Rightarrow> Some d
            | _ \<Rightarrow> (case jget body ''activity'' of JDict d \<Rightarrow> Some d | _ \<Rightarrow> None)) of
        None \<Rightarrow> None
      | Some raw \<Rightarrow>
          (let message = strip (py_str (py_or (py_or (py_or (jget raw ''raw'') (jget raw ''comment''))
                                                (jget raw ''text'')) (JStr [])));
               author = as_dict (py_or (jget raw ''author'') (jget raw ''user''));
               name = py_str (py_or (py_or (jget author ''name'') (jget author ''id'')) (JStr []))
           in if message = [] then None
              else Some (or_else name ''human'', message, str_or_empty (jget raw ''id''))))"

definition ingest_human_comment :: "'w op_ports \<Rightarrow> ingestion_result \<Rightarrow> string \<times> string \<times> string
    \<Rightarrow> 'w op_state \<Rightarrow> ('w op_state, json) outcome" where
  "ingest_human_comment p r c s =
     (let (author, message, x) = c; wid = map_option wi_id (ir_work_item r) in
      then_do (ingest_comment p wid x author message None Live_Mode ''openproject.webhook'' None s) (\<lambda>k t.
        (Inr (JDict [(''feedback_id'', JStr (cm_id k)), (''normalized_to'', JStr ''HumanFeedbackReceived''),
                     (''work_item_id'', jopt JStr wid)]), t)))"

definition handle_work_package :: "'w op_ports \<Rightarrow> uuid \<Rightarrow> string \<Rightarrow> raw_dict \<Rightarrow> 'w op_state
    \<Rightarrow> ('w op_state, raw_dict) outcome" where
  "handle_work_package p corr action body s =
     (case parse_work_item body of
        None \<Rightarrow> (Inr (jresponse False [(''error'', JStr ''no work_package'')]), s)
      | Some n \<Rightarrow>
          then_do (ingest_work_item_snapshot p n Live_Mode ''openproject.webhook'' (Some corr) None (Some action) True s)
            (\<lambda>r t.
              let response = jresponse True
                    ([(''event_type'', JStr (case ir_event_type r of None \<Rightarrow> ''work_item_changed''
                         | Some e \<Rightarrow> or_else e ''work_item_changed'')),
                      (''external_id'', JStr (ws_external_id n)), (''changes'', changes_json (ir_changes r))] @
                     (if ir_assignment_triggered r then [(''triggered'', JStr ''assignment'')] else []))
              in case extract_comment body of
                   None \<Rightarrow> (Inr response, t)
                 | Some c \<Rightarrow> then_do (ingest_human_comment p r c t) (\<lambda>f u. (Inr (response @ [(''feedback'', f)]), u))))"

definition handle_project :: "'w op_ports \<Rightarrow> uuid \<Rightarrow> raw_dict \<Rightarrow> 'w op_state \<Rightarrow> ('w op_state, raw_dict) outcome" where
  "handle_project p corr body s =
     (let project = parse_project body in
      if project = [] then (Inr (jresponse False [(''error'', JStr ''no project'')]), s)
      else (let (i, s1) = draw p s;
                e = \<lparr>ev_id = i, ev_type = PROJECT_CHANGED, ev_occurred_at = px_now p, ev_project_id = None,
                     ev_correlation_id = corr, ev_causation_id = None, ev_source = ''openproject.webhook'',
                     ev_idempotency_key = None,
                     ev_payload = (''provider'', JStr ''openproject'') #
                       map (\<lambda>k. (k, jget project k)) [''external_id'', ''name'', ''identifier'', ''active'', ''parent_id'']\<rparr>
            in then_do (publish (px_run p) e s1) (\<lambda>u t.
                 (Inr (jresponse True [(''event_type'', JStr (event_type_value PROJECT_CHANGED)),
                         (''external_id'', jget project ''external_id'')]), t))))"

definition handle_attachment :: "'w op_ports \<Rightarrow> uuid \<Rightarrow> raw_dict \<Rightarrow> 'w op_state \<Rightarrow> ('w op_state, raw_dict) outcome" where
  "handle_attachment p corr body s =
     (let a = parse_attachment body in
      if a = [] then (Inr (jresponse False [(''error'', JStr ''no attachment'')]), s)
      else (let (i, s1) = draw p s;
                e = \<lparr>ev_id = i, ev_type = ATTACHMENT_CREATED, ev_occurred_at = px_now p, ev_project_id = None,
                     ev_correlation_id = corr, ev_causation_id = None, ev_source = ''openproject.webhook'',
                     ev_idempotency_key = None,
                     ev_payload = (''provider'', JStr ''openproject'') #
                       map (\<lambda>k. (k, jget a k)) [''external_id'', ''file_name'', ''content_type'', ''file_size'',
                         ''download_url'', ''work_item_id'']\<rparr>
            in then_do (publish (px_run p) e s1) (\<lambda>u t.
                 (Inr (jresponse True [(''event_type'', JStr (event_type_value ATTACHMENT_CREATED)),
                         (''external_id'', jget a ''external_id''), (''work_item_id'', jget a ''work_item_id'')]), t))))"

definition openproject_webhook :: "'w op_ports \<Rightarrow> uuid \<Rightarrow> raw_dict \<Rightarrow> 'w op_state \<Rightarrow> ('w op_state, raw_dict) outcome" where
  "openproject_webhook p corr body s =
     (let action = parse_action body in
      if action = [] then (Inr (jresponse False [(''error'', JStr ''missing action'')]), s)
      else if starts_with action ''work_package:'' then handle_work_package p corr action body s
      else if starts_with action ''project:'' then handle_project p corr body s
      else if starts_with action ''attachment:'' then handle_attachment p corr body s
      else (Inr (jresponse True [(''event_type'', JStr ''ignored''), (''action'', JStr action)]), s))"

subsection \<open>GitLab\<close>

text \<open>What does not read as a dictionary raises; nothing but a merge is published.\<close>

definition merge_request_ref :: "raw_dict \<Rightarrow> external_reference" where
  "merge_request_ref attributes =
     \<lparr>ref_provider = ''gitlab'', ref_external_id = str_or_empty (jget attributes ''iid''),
      ref_external_type = Some ''merge_request'', ref_url = None,
      ref_namespace = Some (str_or_empty (jget attributes ''target_project_id''))\<rparr>"

definition gitlab_webhook :: "'w op_ports \<Rightarrow> uuid \<Rightarrow> raw_dict \<Rightarrow> 'w op_state \<Rightarrow> ('w op_state, raw_dict) outcome" where
  "gitlab_webhook p corr body s =
     (let kind = str_or_empty (jget body ''object_kind'') in
      if kind \<noteq> ''merge_request''
      then (Inr (jresponse True [(''event_type'', JStr ''ignored''), (''kind'', JStr kind)]), s)
      else (case dict_or_empty (jget body ''object_attributes'') of
              Inl e \<Rightarrow> (Inl e, s)
            | Inr attributes \<Rightarrow>
                (let state = str_or_empty (jget attributes ''state''); ref = merge_request_ref attributes in
                 if state \<noteq> ''merged''
                 then (Inr (jresponse True [(''event_type'', JStr ''ignored''), (''state'', JStr state)]), s)
                 else then_do (emit_event p (PullRequestMerged ref None) ''openproject.webhook'' None (Some corr) [] s)
                        (\<lambda>e t. (Inr (jresponse True [(''event_type'', JStr (event_type_value (ev_type e))),
                                  (''external_id'', JStr (ref_external_id ref))]), t)))))"

subsection \<open>A package assigned to the Brain\<close>

text \<open>
  The state of a running container: the handlers are the standard ones, and ingestion is ready.
\<close>

definition standard_handlers :: "(string, string list) dict" where
  "standard_handlers =
     [(''repository_revision_changed'', [''revision_handler'']), (''work_item_assigned'', [''work_item_assigned'']),
      (''human_feedback_received'', [''human_feedback'']), (''pull_request_merged'', [''pull_request_merged''])]"

definition subscribed :: "'w op_state \<Rightarrow> bool" where
  "subscribed s \<longleftrightarrow> bus_handlers s = standard_handlers"

lemma standard_subscriptions_handlers:
  "bus_handlers s = [] \<Longrightarrow> standard_subscriptions s = s\<lparr>bus_handlers := standard_handlers\<rparr>"
  by (simp add: standard_subscriptions_def subscribe_def handlers_of_def standard_handlers_def)

lemma subscribed_unheard:
  assumes "subscribed s" and "ev_type e \<in> {WORK_ITEM_CREATED, WORK_ITEM_CHANGED}"
  shows "publish run e s = (Inr (), s\<lparr>bus_published := bus_published s @ [e]\<rparr>)"
  using assms by (auto simp: publish_def handlers_of_def subscribed_def standard_handlers_def)

lemma subscribed_quiet: "\<lbrakk>subscribed s; quiet s t\<rbrakk> \<Longrightarrow> subscribed t"
  by (drule quietD(2)) (simp add: subscribed_def)

lemma parts_of_published [simp]:
  "event_ext (s\<lparr>bus_published := x\<rparr>) = event_ext s" "subscribed (s\<lparr>bus_published := x\<rparr>) = subscribed s"
  "repos (s\<lparr>bus_published := x\<rparr>) = repos s"
  by (simp_all add: subscribed_def repos_def)

text \<open>Emitting: the counter moves, then the event is published.\<close>

lemma emit_cases:
  obtains i fresh t where "quiet s t" "repos t = repos s"
    "emit_event p e src project corr extra s =
       then_do (publish (px_run p) ((model_to_envelope i fresh (px_now p) e src project corr None None)
         \<lparr>ev_payload := to_payload e @ extra\<rparr>) t)
         (\<lambda>u v. (Inr ((model_to_envelope i fresh (px_now p) e src project corr None None)
            \<lparr>ev_payload := to_payload e @ extra\<rparr>), v))"
proof
  let ?t = "snd (draw p (snd (draw p s)))"
  show "quiet s ?t" by (intro quiet.draw quiet_refl)
  show "repos ?t = repos s" by simp
  show "emit_event p e src project corr extra s =
     then_do (publish (px_run p) ((model_to_envelope (fst (draw p s)) (fst (draw p (snd (draw p s)))) (px_now p) e
         src project corr None None)\<lparr>ev_payload := to_payload e @ extra\<rparr>) ?t)
       (\<lambda>u v. (Inr ((model_to_envelope (fst (draw p s)) (fst (draw p (snd (draw p s)))) (px_now p) e
         src project corr None None)\<lparr>ev_payload := to_payload e @ extra\<rparr>), v))"
    by (simp add: emit_event_def Let_def split_beta model_to_envelope_def split: option.split)
qed

lemma resolve_project_some: "st_projects r \<noteq> [] \<Longrightarrow> \<exists>project. resolve_project n None r = Some project"
  by (cases "st_projects r") (auto simp: resolve_project_def list_all_items_def dict_values_def split: option.split)

lemma work_item_event:
  assumes "subscribed s"
  shows "\<exists>e t. publish_work_item_event p w n changes created src project corr s = (Inr e, t) \<and>
    subscribed t \<and> repos t = repos s \<and> hb_queue (event_ext t) = hb_queue (event_ext s)"
proof -
  let ?e = "if created then WorkItemCreated (px_dump p w) else WorkItemChanged (px_dump p w)"
  let ?x = "[(''changes'', changes_json changes), (''snapshot'', snapshot_payload n),
        (''external_id'', JStr (ws_external_id n))]"
  obtain i fresh t where t: "quiet s t" "repos t = repos s"
    "emit_event p ?e src (Some project) corr ?x s =
       then_do (publish (px_run p) ((model_to_envelope i fresh (px_now p) ?e src (Some project) corr None None)
         \<lparr>ev_payload := to_payload ?e @ ?x\<rparr>) t)
         (\<lambda>u v. (Inr ((model_to_envelope i fresh (px_now p) ?e src (Some project) corr None None)
            \<lparr>ev_payload := to_payload ?e @ ?x\<rparr>), v))"
    by (rule emit_cases)
  have "subscribed t" by (rule subscribed_quiet [OF assms t(1)])
  note pub = subscribed_unheard [OF this]
  have "ev_type ((model_to_envelope i fresh (px_now p) ?e src (Some project) corr None None)
         \<lparr>ev_payload := to_payload ?e @ ?x\<rparr>) \<in> {WORK_ITEM_CREATED, WORK_ITEM_CHANGED}"
    by (simp add: model_to_envelope_def)
  note pub = pub [OF this, of "px_run p"]
  show ?thesis
    unfolding publish_work_item_event_def t(3) pub then_do_simps
    using \<open>subscribed t\<close> t(2) quietD(5) [OF t(1)] by simp
qed

lemma assignment_event:
  assumes "subscribed s" and "px_run p = standard_table inp" and "event_validators_ok (hi_validators inp)"
  shows "\<exists>e t c. publish_assignment p w n src (Some corr) s = (Inr e, t) \<and> repos t = repos s \<and>
    pending (hb_queue (event_ext t)) = pending (hb_queue (event_ext s)) @ [c] \<and>
    command_to_model (vx_base (hi_validators inp)) c = Some (RunWorkItemCommand (wi_id w)) \<and>
    command_correlation_id c = corr"
proof -
  let ?e = "WorkItemAssigned (wi_id w) None (ws_assignee_id n) None (px_now_text p)"
  obtain i fresh t where t: "quiet s t" "repos t = repos s"
    "emit_event p ?e src None (Some corr) [] s =
       then_do (publish (px_run p) ((model_to_envelope i fresh (px_now p) ?e src None (Some corr) None None)
         \<lparr>ev_payload := to_payload ?e @ []\<rparr>) t)
         (\<lambda>u v. (Inr ((model_to_envelope i fresh (px_now p) ?e src None (Some corr) None None)
            \<lparr>ev_payload := to_payload ?e @ []\<rparr>), v))"
    by (rule emit_cases)
  define env where "env = model_to_envelope i fresh (px_now p) ?e src None (Some corr) None None"
  have env': "env\<lparr>ev_payload := to_payload ?e @ []\<rparr> = env" by (simp add: env_def model_to_envelope_def)
  have corr: "ev_correlation_id env = corr" by (simp add: env_def model_to_envelope_def)
  have "subscribed t" by (rule subscribed_quiet [OF assms(1) t(1)])
  then have "t = standard_subscriptions (t\<lparr>bus_handlers := []\<rparr>)"
    by (simp add: standard_subscriptions_handlers subscribed_def [symmetric])
  moreover obtain u c where "publish (standard_table inp) env (standard_subscriptions (t\<lparr>bus_handlers := []\<rparr>)) = (Inr (), u)"
    "pending (hb_queue (event_ext u)) = pending (hb_queue (event_ext t)) @ [c]"
    "command_to_model (vx_base (hi_validators inp)) c = Some (RunWorkItemCommand (wi_id w))"
    "command_correlation_id c = corr" "hb_repos (event_ext u) = hb_repos (event_ext t)"
    using assignment_queues_run [of "t\<lparr>bus_handlers := []\<rparr>" inp env, OF _ assms(3) env_def] corr by auto
  ultimately show ?thesis
    using t(2) quietD(5) [OF t(1)]
    unfolding publish_assignment_def t(3) env_def [symmetric] env' assms(2)
    by (intro exI [of _ env] exI [of _ u] exI [of _ c]) (simp add: repos_def)
qed

text \<open>What ingesting a package does before the assignment: it stores the item and publishes one event.\<close>

lemma package_ingested:
  assumes "ingestion_ready p s" and "snapshot_ok n" and "subscribed s" and "st_projects (repos s) \<noteq> []"
  defines "changes \<equiv> diff_snapshots (get_snapshot_of (ws_external_id n) (opw s)) n"
  obtains w r t created where "package_item (ws_external_id n) (repos t) = Some w" "subscribed t"
    "hb_queue (event_ext t) = hb_queue (event_ext s)"
    "ingest_work_item_snapshot p n Live_Mode src corr None action True s =
       (if triggers_assignment p n changes created action
        then then_do (publish_assignment p w n src corr t) (\<lambda>e u. (Inr (r\<lparr>ir_assignment_triggered := True\<rparr>), u))
        else (Inr r, t))"
proof -
  obtain project where project: "resolve_project n None (repos s) = Some project"
    using resolve_project_some [OF assms(4)] by blast
  obtain w r u where u: "persist_snapshot p n changes project s = (Inr (w, r), u)" "settled p n w u"
    using persist_settles [OF assms(1,2)] by blast
  define v where "v = on_op (save_snapshot_of n) u"
  have qv: "quiet s v"
    using quiet.persist [OF quiet_refl, of s p n changes project] u(1) unfolding v_def
    by (intro quiet_on_op) simp
  have w: "package_item (ws_external_id n) (repos v) = Some w"
    using u(2) by (simp add: settled_def item_settled_def v_def)
  define created where "created = event_is_created (ir_created r) action"
  obtain e t where e: "publish_work_item_event p w n changes created src project corr v = (Inr e, t)"
    "subscribed t" "repos t = repos v" "hb_queue (event_ext t) = hb_queue (event_ext v)"
    using work_item_event [OF subscribed_quiet [OF assms(3) qv]] by blast
  have "ingest_work_item_snapshot p n Live_Mode src corr None action True s =
      (if triggers_assignment p n changes (ir_created r) action
       then then_do (publish_assignment p w n src corr t) (\<lambda>e' s2.
         (Inr (r\<lparr>ir_snapshot_saved := True, ir_event_type := Some (event_type_value (ev_type e)),
                 ir_assignment_triggered := True\<rparr>), s2))
       else (Inr (r\<lparr>ir_snapshot_saved := True, ir_event_type := Some (event_type_value (ev_type e))\<rparr>), t))"
    using e(1) by (simp add: ingest_work_item_snapshot_def project changes_def [symmetric] u(1) v_def [symmetric]
        announce_snapshot_def created_def Let_def)
  with w e(2,3,4) quietD(5) [OF qv] show ?thesis by (intro that) simp_all
qed


text \<open>A request about package 42, created and assigned to the Brain (the user 9).\<close>

definition hook_inputs :: "unit op_world handler_inputs" where
  "hook_inputs = \<lparr>hi_validators = demo_validators, hi_changed = (\<lambda>repo old new w. (Inr [], w)), hi_event_id = ''ev'',
     hi_command_id = ''cmd'', hi_fresh = ''corr'', hi_repository_id = ''new'', hi_now = 0\<rparr>"

definition hook_ports :: "unit op_ports" where
  "hook_ports = demo_ports\<lparr>px_run := standard_table hook_inputs\<rparr>"

definition hook_state :: "unit op_state" where
  "hook_state = demo_state\<lparr>bus_handlers := standard_handlers\<rparr>"

definition hook_body :: raw_dict where
  "hook_body =
     [(''action'', JStr ''work_package:created''),
      (''work_package'', JDict
        [(''id'', JInt 42), (''subject'', JStr ''Login fails''),
         (''_embedded'', JDict [(''assignee'', JDict [(''id'', JInt 9)])])])]"

definition hook_snapshot :: work_item_snapshot where
  "hook_snapshot = the (parse_work_item hook_body)"

lemma hook_parsed:
  "parse_work_item hook_body = Some hook_snapshot" "ws_external_id hook_snapshot = ''42''"
  "ws_assignee_id hook_snapshot = Some ''9''" "parse_action hook_body = ''work_package:created''"
  "extract_comment hook_body = None" "snapshot_ok hook_snapshot"
  by code_simp+

lemma hook_ready: "ingestion_ready hook_ports hook_state"
  using demo_ready(1) by (simp add: ingestion_ready_def hook_ports_def hook_state_def repos_def fresh_ids_def opw_def)


end
