(* ===== verification/Planning.thy ===== *)
theory Planning
  imports Context_Engine Documents Policy
begin

text \<open>
  Planning (\<open>application/planning.py\<close>, \<open>domain/planning.py\<close>, \<open>adapters/in_memory/planning.py\<close> and
  the requirement repository of \<open>adapters/in_memory/repositories.py\<close>): the assessment of
  requirements, their extraction from documents, the decomposition into plan items, the analysis of
  what exists, and the plan with its validation. The three regular expressions are written out as
  scanners. A risk is given in tenths; drawn identifiers are inputs.
\<close>

subsection \<open>The domain\<close>

datatype requirement_clarity = Clear | Ambiguous | Missing_Info

datatype plan_implementation = Not_Implemented | Partially_Implemented | Implemented_Item
  | Implemented_But_Unverified | Incorrect_Item | Unknown_Item

datatype plan_item_type = Feature_Item | Story_Item | Task_Item

fun plan_item_type_value :: "plan_item_type \<Rightarrow> string" where
  "plan_item_type_value Feature_Item = ''feature''"
| "plan_item_type_value Story_Item = ''story''"
| "plan_item_type_value Task_Item = ''task''"

datatype plan_status = Plan_Proposed | Plan_Validated | Plan_Rejected

record assessment =
  as_requirement_id :: uuid
  as_clarity :: requirement_clarity
  as_reasons :: "string list"
  as_missing :: "string list"
  as_assumptions :: "string list"
  as_risk_tenths :: int

record plan_item =
  pi_id :: uuid
  pi_project_id :: uuid
  pi_type :: plan_item_type
  pi_title :: string
  pi_description :: string
  pi_requirement_refs :: "uuid list"
  pi_parent_id :: "uuid option"
  pi_dependency_ids :: "uuid list"
  pi_criteria :: "string list"
  pi_implementation :: plan_implementation
  pi_evidence :: "string list"
  pi_order :: int

record plan_evidence =
  pv_id :: uuid
  pv_plan_id :: uuid
  pv_requirement_id :: "uuid option"
  pv_work_item_id :: "uuid option"
  pv_note :: string

record engineering_plan =
  pl_id :: uuid
  pl_project_id :: uuid
  pl_title :: string
  pl_status :: plan_status
  pl_created_at :: datetime
  pl_items :: "plan_item list"
  pl_assessments :: "assessment list"
  pl_evidence :: "plan_evidence list"
  pl_errors :: "string list"

definition plan_is_valid :: "engineering_plan \<Rightarrow> bool" where
  "plan_is_valid p = (pl_errors p = [])"

definition plan_tasks :: "engineering_plan \<Rightarrow> plan_item list" where
  "plan_tasks p = filter (\<lambda>i. pi_type i = Task_Item) (pl_items p)"

subsection \<open>The repositories\<close>

type_synonym requirement_store = "requirement collection"

definition save_requirement :: "requirement \<Rightarrow> requirement_store \<Rightarrow> requirement_store" where
  "save_requirement r c = upsert r (rm_id r) c"

definition requirements_of_project :: "uuid \<Rightarrow> requirement_store \<Rightarrow> requirement list" where
  "requirements_of_project p c = filter (\<lambda>r. rm_project_id r = p) (list_all_items c)"

definition requirements_of_parent :: "uuid \<Rightarrow> requirement_store \<Rightarrow> requirement list" where
  "requirements_of_parent p c = filter (\<lambda>r. rm_parent_id r = Some p) (list_all_items c)"

type_synonym plan_store = "(uuid, engineering_plan) dict"

definition save_plan :: "engineering_plan \<Rightarrow> plan_store \<Rightarrow> plan_store" where
  "save_plan p s = dict_set (pl_id p) p s"

definition get_plan :: "uuid \<Rightarrow> plan_store \<Rightarrow> engineering_plan option" where
  "get_plan i s = dict_get s i"

definition plans_of_project :: "uuid \<Rightarrow> plan_store \<Rightarrow> engineering_plan list" where
  "plans_of_project p s = filter (\<lambda>x. pl_project_id x = p) (dict_values s)"

definition delete_plan :: "uuid \<Rightarrow> plan_store \<Rightarrow> plan_store" where
  "delete_plan i s = dict_pop i s"

subsection \<open>Scanners\<close>

text \<open>
  \<open>findall\<close> of an alternation of words between word boundaries, ignoring case; \<open>k\<close> characters of
  the last match are still to be passed.
\<close>

fun find_words :: "string list \<Rightarrow> char option \<Rightarrow> nat \<Rightarrow> string \<Rightarrow> string list" where
  "find_words ws before k [] = []"
| "find_words ws before (Suc k) (c # cs) = find_words ws (Some c) k cs"
| "find_words ws before 0 (c # cs) =
     (case List.find (\<lambda>w. word_at before w (c # cs)) ws of
        Some w \<Rightarrow> take (length w) (c # cs) # find_words ws (Some c) (length w - 1) cs
      | None \<Rightarrow> find_words ws (Some c) 0 cs)"

definition ambiguous_words :: "string list" where
  "ambiguous_words = [''approximately'', ''roughly'', ''soon'', ''quickly'', ''maybe'', ''possibly'', ''etc'',
     ''and/or'', ''asap'', ''fast'', ''efficient'']"

definition is_digit :: "char \<Rightarrow> bool" where
  "is_digit c = (let n = code c in 48 \<le> n \<and> n \<le> 57)"

definition is_letter :: "char \<Rightarrow> bool" where
  "is_letter c = (let n = code c in 65 \<le> n \<and> n \<le> 90 \<or> 97 \<le> n \<and> n \<le> 122)"

text \<open>
  \<open>(?:REQ-\d+|MUST|SHALL|WILL)[:\s]+([A-Z][^\n.]{5,})\<close>, ignoring case: the length of the keyword,
  and the group of a match together with the length of the match.
\<close>

definition keyword_length :: "string \<Rightarrow> nat option" where
  "keyword_length s =
     (let digits = length (takeWhile is_digit (drop 4 s)) in
      if lower (take 4 s) = ''req-'' \<and> digits > 0 then Some (4 + digits)
      else if lower (take 4 s) = ''must'' then Some 4
      else if lower (take 5 s) = ''shall'' then Some 5
      else if lower (take 4 s) = ''will'' then Some 4
      else None)"

definition requirement_at :: "string \<Rightarrow> (string \<times> nat) option" where
  "requirement_at s =
     (case keyword_length s of
        None \<Rightarrow> None
      | Some k \<Rightarrow>
          (let gap = length (takeWhile (\<lambda>c. c = CHR '':'' \<or> is_space c) (drop k s)); rest = drop (k + gap) s in
           case rest of
             [] \<Rightarrow> None
           | c # cs \<Rightarrow>
               (let tail = takeWhile (\<lambda>c. c \<noteq> CHR 0x0A \<and> c \<noteq> CHR ''.'') cs in
                if gap > 0 \<and> is_letter c \<and> length tail \<ge> 5
                then Some (c # tail, k + gap + 1 + length tail) else None)))"

fun find_requirements :: "nat \<Rightarrow> string \<Rightarrow> string list" where
  "find_requirements k [] = []"
| "find_requirements (Suc k) (c # cs) = find_requirements k cs"
| "find_requirements 0 (c # cs) =
     (case requirement_at (c # cs) of
        Some (m, n) \<Rightarrow> m # find_requirements (n - 1) cs
      | None \<Rightarrow> find_requirements 0 cs)"

text \<open>\<open>[a-z_][a-z0-9_]{2,}\<close> on a lowered text.\<close>

definition keyword_start :: "char \<Rightarrow> bool" where
  "keyword_start c = (let n = code c in 97 \<le> n \<and> n \<le> 122 \<or> n = 95)"

definition keyword_char :: "char \<Rightarrow> bool" where
  "keyword_char c \<longleftrightarrow> keyword_start c \<or> is_digit c"

fun find_keywords :: "nat \<Rightarrow> string \<Rightarrow> string list" where
  "find_keywords k [] = []"
| "find_keywords (Suc k) (c # cs) = find_keywords k cs"
| "find_keywords 0 (c # cs) =
     (let m = takeWhile keyword_char cs in
      if keyword_start c \<and> length m \<ge> 2 then (c # m) # find_keywords (length m) cs
      else find_keywords 0 cs)"

definition keywords_of :: "string \<Rightarrow> string \<Rightarrow> string list" where
  "keywords_of title descr =
     filter (\<lambda>w. w \<notin> {''the'', ''and'', ''for'', ''with'', ''implement'', ''task'', ''requirement'', ''support''})
       (find_keywords 0 (lower (title @ '' '' @ descr)))"

subsection \<open>Assessment\<close>

definition assumptions_for :: "requirement \<Rightarrow> string list" where
  "assumptions_for r =
     (if rm_description r = [] then [''description assumed from title''] else []) @
     (if rm_priority r = None then [''priority assumed medium''] else [])"

fun risk_tenths :: "requirement_clarity \<Rightarrow> int" where
  "risk_tenths Clear = 2" | "risk_tenths Ambiguous = 6" | "risk_tenths Missing_Info = 8"

definition assess_requirement :: "requirement \<Rightarrow> assessment" where
  "assess_requirement r =
     (let tx = rm_title r @ '' '' @ rm_description r;
          found = find_words ambiguous_words None 0 tx;
          reasons = (if found = [] then [] else [''ambiguous wording: '' @ join '', '' (sorted_set found)]);
          missing =
            (if length (strip tx) < 20 then [''requirement is too terse to be actionable''] else []) @
            (if rm_acceptance_criteria r = [] then [''no acceptance criteria''] else []) @
            (if strip (rm_title r) = [] then [''no title''] else []);
          clarity = (if missing \<noteq> [] then Missing_Info else if reasons \<noteq> [] then Ambiguous else Clear)
      in \<lparr>as_requirement_id = rm_id r, as_clarity = clarity, as_reasons = reasons, as_missing = missing,
          as_assumptions = assumptions_for r, as_risk_tenths = risk_tenths clarity\<rparr>)"

definition assess :: "uuid \<Rightarrow> requirement_store \<Rightarrow> assessment list" where
  "assess p c = map assess_requirement (requirements_of_project p c)"

subsection \<open>Extraction from documents\<close>

text \<open>\<open>max(versions, key=...)\<close>: the first of the latest ones.\<close>

definition latest_version :: "document_version list \<Rightarrow> document_version option" where
  "latest_version vs =
     fold (\<lambda>v best. case best of None \<Rightarrow> Some v
                     | Some b \<Rightarrow> if dv_ingested_at b < dv_ingested_at v then Some v else Some b) vs None"

text \<open>The title and the key of every requirement a node states; a blank title is skipped.\<close>

definition node_requirements :: "document_node \<Rightarrow> (string \<times> string option) list" where
  "node_requirements n =
     map (\<lambda>m. (strip m, if dn_heading_path n = [] then None else Some (last (dn_heading_path n))))
       (filter (\<lambda>m. strip m \<noteq> []) (find_requirements 0 (dn_content n)))"

definition document_requirements :: "document_store \<Rightarrow> document \<Rightarrow> (string \<times> string option) list" where
  "document_requirements s d =
     (case latest_version (versions_of_document (dc_id d) s) of
        None \<Rightarrow> []
      | Some v \<Rightarrow> concat (map node_requirements (nodes_of_version (dv_id v) s)))"

definition extracted_requirement :: "(nat \<Rightarrow> uuid) \<Rightarrow> uuid \<Rightarrow> nat \<times> string \<times> string option \<Rightarrow> requirement" where
  "extracted_requirement ids p e =
     (let (i, title, key) = e in
      \<lparr>rm_id = ids i, rm_project_id = p, rm_key = key, rm_title = title, rm_description = [], rm_status = Rq_Draft,
       rm_priority = None, rm_parent_id = None, rm_derived_from = [], rm_acceptance_criteria = [],
       rm_constraints = [], rm_source_refs = [(From_Document, None)]\<rparr>)"

text \<open>What was extracted is returned, not stored.\<close>

definition extract_requirements :: "(nat \<Rightarrow> uuid) \<Rightarrow> uuid \<Rightarrow> uuid list option \<Rightarrow> document_store \<Rightarrow> requirement list" where
  "extract_requirements ids p wanted s =
     map (extracted_requirement ids p) (List.enumerate 0 (concat (map (document_requirements s)
       (filter (\<lambda>d. case wanted of None \<Rightarrow> True | Some ws \<Rightarrow> dc_id d \<in> set ws) (documents_of_project p s)))))"

subsection \<open>Decomposition\<close>

definition feature_title :: "requirement \<Rightarrow> string" where
  "feature_title r = (case rm_key r of None \<Rightarrow> [] | Some k \<Rightarrow> if k = [] then [] else k @ '': '') @ rm_title r"

definition make_item :: "uuid \<Rightarrow> uuid \<Rightarrow> plan_item_type \<Rightarrow> string \<Rightarrow> requirement \<Rightarrow> uuid option \<Rightarrow> int \<Rightarrow> plan_item" where
  "make_item i p t title r parent order =
     \<lparr>pi_id = i, pi_project_id = p, pi_type = t, pi_title = title, pi_description = rm_description r,
      pi_requirement_refs = [rm_id r], pi_parent_id = parent, pi_dependency_ids = [],
      pi_criteria = map acceptance_criterion.cr_description (rm_acceptance_criteria r),
      pi_implementation = Unknown_Item, pi_evidence = [], pi_order = order\<rparr>"

text \<open>A feature, its story and its task; the \<open>k\<close>-th requirement draws the ids from \<open>3 k\<close> on.\<close>

definition items_of :: "(nat \<Rightarrow> uuid) \<Rightarrow> uuid \<Rightarrow> nat \<times> requirement \<Rightarrow> plan_item list" where
  "items_of ids p e =
     (let (k, r) = e; o1 = int (3 * k) in
      [make_item (ids (3 * k)) p Feature_Item (feature_title r) r None (o1 + 1),
       make_item (ids (3 * k + 1)) p Story_Item (''Implement: '' @ rm_title r) r (Some (ids (3 * k))) (o1 + 2),
       make_item (ids (3 * k + 2)) p Task_Item (''Task for '' @ rm_title r) r (Some (ids (3 * k + 1))) (o1 + 3)])"

definition decompose :: "(nat \<Rightarrow> uuid) \<Rightarrow> uuid \<Rightarrow> uuid list option \<Rightarrow> requirement_store \<Rightarrow> plan_item list" where
  "decompose ids p wanted c =
     concat (map (items_of ids p) (List.enumerate 0
       (filter (\<lambda>r. case wanted of None \<Rightarrow> True | Some ws \<Rightarrow> rm_id r \<in> set ws) (requirements_of_project p c))))"

subsection \<open>What exists already\<close>

definition test_paths :: "code_relation list \<Rightarrow> string set" where
  "test_paths rs = set (map (\<lambda>r. or_text (cr_target_path r) (cr_source_path r)) (filter (\<lambda>r. cr_type r = Tests) rs))"

definition analyze_item :: "symbol list \<Rightarrow> code_relation list \<Rightarrow> plan_item \<Rightarrow> plan_item" where
  "analyze_item ss rs i =
     (let ks = keywords_of (pi_title i) (pi_description i);
          matched = filter (\<lambda>k. k \<in> set (map (lower \<circ> sy_name) ss)) ks;
          tested = (\<exists>path \<in> test_paths rs. list_ex (\<lambda>k. contains k path) ks);
          evidence = (if matched = [] then [] else [''found symbols: '' @ join '', '' matched]) @
                     (if tested then [''related tests exist''] else [])
      in i\<lparr>pi_evidence := evidence,
           pi_implementation :=
             (if evidence = [] then Not_Implemented
              else if tested \<and> matched \<noteq> [] then Implemented_But_Unverified
              else if matched \<noteq> [] then Partially_Implemented else Unknown_Item)\<rparr>)"

definition analyze_existing :: "uuid \<Rightarrow> string \<Rightarrow> code_graph \<Rightarrow> plan_item list \<Rightarrow> plan_item list" where
  "analyze_existing repo rvn g items = map (analyze_item (list_symbols repo rvn g) (list_relations repo rvn g)) items"

subsection \<open>The plan\<close>

definition reconcile_items :: "plan_item list \<Rightarrow> plan_item list" where
  "reconcile_items items = filter (\<lambda>i. \<not> (pi_type i = Task_Item \<and> pi_implementation i = Implemented_Item)) items"

definition evidence_note :: "plan_item \<Rightarrow> uuid \<Rightarrow> string" where
  "evidence_note i r = plan_item_type_value (pi_type i) @ '' '' @ [CHR 0x27] @ pi_title i @ [CHR 0x27] @
     '' derives from REQ '' @ r"

definition build_evidence :: "(nat \<Rightarrow> uuid) \<Rightarrow> engineering_plan \<Rightarrow> plan_evidence list" where
  "build_evidence ids p =
     map (\<lambda>(k, i, r). \<lparr>pv_id = ids k, pv_plan_id = pl_id p, pv_requirement_id = Some r, pv_work_item_id = None,
         pv_note = evidence_note i r\<rparr>)
       (List.enumerate 0 (concat (map (\<lambda>i. map (Pair i) (pi_requirement_refs i)) (pl_items p))))"

definition quoted :: "string \<Rightarrow> string" where
  "quoted s = [CHR 0x27] @ s @ [CHR 0x27]"

definition item_errors :: "plan_item list \<Rightarrow> plan_item \<Rightarrow> string list" where
  "item_errors items i =
     (if pi_criteria i = [] then [''task '' @ quoted (pi_title i) @ '' has no acceptance criteria''] else []) @
     (if \<exists>d \<in> set (pi_dependency_ids i). d \<notin> set (map pi_id items)
      then [''task '' @ quoted (pi_title i) @ '' references missing dependency''] else [])"

text \<open>Counting titles in the order they first appear; one error per title that appears again.\<close>

definition count_titles :: "plan_item list \<Rightarrow> (string, int) dict" where
  "count_titles items =
     fold (\<lambda>i d. dict_set (pi_title i) ((case dict_get d (pi_title i) of None \<Rightarrow> 0 | Some n \<Rightarrow> n) + 1) d) items []"

definition validate_plan :: "engineering_plan \<Rightarrow> string list" where
  "validate_plan p =
     (let uncovered = filter (\<lambda>r. \<forall>i \<in> set (pl_items p). r \<notin> set (pi_requirement_refs i))
                        (map as_requirement_id (pl_assessments p))
      in (if uncovered = [] then []
          else [''requirements not covered: '' @ py_repr (JList (map JStr (sorted_set uncovered)))]) @
         concat (map (item_errors (pl_items p)) (pl_items p)) @
         map (\<lambda>(t, n). ''duplicate task title: '' @ quoted t) (filter (\<lambda>(t, n). n > 1) (count_titles (pl_items p))))"

record planning_state =
  ps_requirements :: requirement_store
  ps_code :: code_graph
  ps_plans :: plan_store

record plan_draws =
  pw_plan :: uuid
  pw_now :: datetime
  pw_item :: "nat \<Rightarrow> uuid"
  pw_evidence :: "nat \<Rightarrow> uuid"

definition build_plan_items :: "plan_draws \<Rightarrow> uuid \<Rightarrow> (uuid \<times> string) option \<Rightarrow> planning_state \<Rightarrow> plan_item list" where
  "build_plan_items w p at s =
     (let items = decompose (pw_item w) p None (ps_requirements s) in
      reconcile_items (case at of None \<Rightarrow> items | Some (repo, rvn) \<Rightarrow> analyze_existing repo rvn (ps_code s) items))"

text \<open>\<open>at\<close> is the repository and the revision, when both are given.\<close>

definition draft_plan :: "plan_draws \<Rightarrow> uuid \<Rightarrow> string \<Rightarrow> (uuid \<times> string) option \<Rightarrow> planning_state \<Rightarrow> engineering_plan" where
  "draft_plan w p title at s =
     \<lparr>pl_id = pw_plan w, pl_project_id = p, pl_title = title, pl_status = Plan_Proposed,
      pl_created_at = pw_now w, pl_items = build_plan_items w p at s,
      pl_assessments = assess p (ps_requirements s), pl_evidence = [], pl_errors = []\<rparr>"

definition finished_plan :: "plan_draws \<Rightarrow> engineering_plan \<Rightarrow> engineering_plan" where
  "finished_plan w x =
     (let errors = validate_plan x in
      x\<lparr>pl_evidence := build_evidence (pw_evidence w) x, pl_errors := errors,
        pl_status := (if errors = [] then Plan_Validated else Plan_Proposed)\<rparr>)"

definition build_engineering_plan :: "plan_draws \<Rightarrow> uuid \<Rightarrow> string \<Rightarrow> (uuid \<times> string) option \<Rightarrow> bool \<Rightarrow> planning_state
    \<Rightarrow> (engineering_plan \<times> nat) \<times> planning_state" where
  "build_engineering_plan w p title at persist s =
     (let z = finished_plan w (draft_plan w p title at s)
      in ((z, length (pl_assessments z)), if persist then s\<lparr>ps_plans := save_plan z (ps_plans s)\<rparr> else s))"

subsection \<open>Lemmas\<close>

text \<open>The counter of titles is the number of their occurrences.\<close>

definition count_title :: "plan_item \<Rightarrow> (string, int) dict \<Rightarrow> (string, int) dict" where
  "count_title i d = dict_set (pi_title i) ((case dict_get d (pi_title i) of None \<Rightarrow> 0 | Some n \<Rightarrow> n) + 1) d"

lemma count_titles_fold: "count_titles items = fold count_title items []"
  by (simp add: count_titles_def count_title_def [abs_def])

lemma count_title_get:
  "dict_get (fold count_title items d) t =
     (if count_list (map pi_title items) t = 0 then dict_get d t
      else Some ((case dict_get d t of None \<Rightarrow> 0 | Some n \<Rightarrow> n) + int (count_list (map pi_title items) t)))"
  by (induction items arbitrary: d) (auto simp: count_title_def store_simps split: option.split)

lemma count_title_ok: "dict_ok d \<Longrightarrow> dict_ok (fold count_title items d)"
  by (induction items arbitrary: d) (simp_all add: count_title_def)

lemma distinct_iff_count: "distinct xs \<longleftrightarrow> (\<forall>x. count_list xs x \<le> 1)"
proof (induction xs)
  case (Cons y ys)
  have "(\<forall>x. count_list (y # ys) x \<le> 1) \<longleftrightarrow> count_list ys y = 0 \<and> (\<forall>x. count_list ys x \<le> 1)"
    by (auto intro: le_trans split: if_splits)
  with Cons show ?case by (simp add: count_list_0_iff)
qed simp

lemma no_duplicates_iff: "filter (\<lambda>(t, n). n > 1) (count_titles items) = [] \<longleftrightarrow> distinct (map pi_title items)"
proof -
  have "dict_ok (count_titles items)" by (simp add: count_titles_fold count_title_ok)
  then have *: "(t, n) \<in> set (count_titles items) \<longleftrightarrow>
      count_list (map pi_title items) t \<noteq> 0 \<and> n = int (count_list (map pi_title items) t)" for t n
    using map_of_eq_Some_iff [of "count_titles items" t n]
    by (auto simp: dict_ok_def count_titles_fold count_title_get split: if_splits)
  have "(\<forall>t n. (t, n) \<in> set (count_titles items) \<longrightarrow> \<not> n > 1) \<longleftrightarrow>
      (\<forall>t. count_list (map pi_title items) t \<le> 1)"
    unfolding * by (metis gr0I not_gr_zero not_le of_nat_1 of_nat_less_iff zero_less_one_class.zero_le_one)
  then show ?thesis by (auto simp: filter_empty_conv distinct_iff_count)
qed

text \<open>The items of a plan are those of the decomposition: the analysis never finds one implemented.\<close>

lemma analyze_item_simps [simp]:
  "pi_title (analyze_item ss rs i) = pi_title i" "pi_criteria (analyze_item ss rs i) = pi_criteria i"
  "pi_dependency_ids (analyze_item ss rs i) = pi_dependency_ids i" "pi_id (analyze_item ss rs i) = pi_id i"
  "pi_requirement_refs (analyze_item ss rs i) = pi_requirement_refs i" "pi_type (analyze_item ss rs i) = pi_type i"
  "pi_implementation (analyze_item ss rs i) \<noteq> Implemented_Item"
  by (simp_all add: analyze_item_def Let_def)

lemma decompose_unknown: "i \<in> set (decompose ids p wanted c) \<Longrightarrow> pi_implementation i = Unknown_Item"
  by (auto simp: decompose_def items_of_def make_item_def Let_def)

lemma build_items:
  "build_plan_items w p at s =
     (case at of None \<Rightarrow> decompose (pw_item w) p None (ps_requirements s)
      | Some (repo, rvn) \<Rightarrow> analyze_existing repo rvn (ps_code s) (decompose (pw_item w) p None (ps_requirements s)))"
  by (auto simp: build_plan_items_def reconcile_items_def analyze_existing_def dest: decompose_unknown
      intro!: filter_True split: option.split)

lemma set_decompose:
  "set (decompose ids p None c) = (\<Union>(k, r) \<in> set (List.enumerate 0 (requirements_of_project p c)). set (items_of ids p (k, r)))"
  by (auto simp: decompose_def)

lemma enumerate_has: "r \<in> set xs \<Longrightarrow> \<exists>k. (k, r) \<in> set (List.enumerate n xs)"
  by (induction xs arbitrary: n) auto

lemma enumerate_of: "(k, r) \<in> set (List.enumerate n xs) \<Longrightarrow> r \<in> set xs"
  by (induction xs arbitrary: n) auto

lemma items_of_simps:
  "i \<in> set (items_of ids p (k, r)) \<Longrightarrow> pi_criteria i = map acceptance_criterion.cr_description (rm_acceptance_criteria r)"
  "i \<in> set (items_of ids p (k, r)) \<Longrightarrow> pi_requirement_refs i = [rm_id r]"
  by (auto simp: items_of_def make_item_def Let_def)

lemma decompose_has:
  assumes "r \<in> set (requirements_of_project p c)"
  obtains i where "i \<in> set (decompose ids p None c)" "pi_requirement_refs i = [rm_id r]"
    "pi_criteria i = map acceptance_criterion.cr_description (rm_acceptance_criteria r)"
proof -
  obtain k where k: "(k, r) \<in> set (List.enumerate 0 (requirements_of_project p c))"
    using enumerate_has [OF assms] by blast
  obtain i where i: "i \<in> set (items_of ids p (k, r))" by (force simp: items_of_def Let_def)
  with k have "i \<in> set (decompose ids p None c)" unfolding set_decompose by blast
  with items_of_simps [OF i] show thesis by (intro that)
qed

lemma decompose_of:
  assumes "i \<in> set (decompose ids p None c)"
  obtains r where "r \<in> set (requirements_of_project p c)"
    "pi_criteria i = map acceptance_criterion.cr_description (rm_acceptance_criteria r)"
proof -
  obtain k r where "(k, r) \<in> set (List.enumerate 0 (requirements_of_project p c))" "i \<in> set (items_of ids p (k, r))"
    using assms unfolding set_decompose by blast
  then show thesis by (intro that [of r]) (auto dest: enumerate_of items_of_simps(1))
qed

lemma decompose_criteria:
  "(\<forall>i \<in> set (decompose ids p None c). pi_criteria i \<noteq> []) \<longleftrightarrow>
     (\<forall>r \<in> set (requirements_of_project p c). rm_acceptance_criteria r \<noteq> [])"
  by (metis decompose_has decompose_of map_is_Nil_conv)

lemma decompose_covers:
  "r \<in> set (requirements_of_project p c) \<Longrightarrow> \<exists>i \<in> set (decompose ids p None c). rm_id r \<in> set (pi_requirement_refs i)"
  by (metis decompose_has list.set_intros(1))

lemma decompose_no_dependencies: "i \<in> set (decompose ids p wanted c) \<Longrightarrow> pi_dependency_ids i = []"
  by (auto simp: decompose_def items_of_def make_item_def Let_def)

lemma validate_cong: "\<lbrakk>pl_items x = pl_items y; pl_assessments x = pl_assessments y\<rbrakk> \<Longrightarrow> validate_plan x = validate_plan y"
  by (simp add: validate_plan_def)

lemma finished_simps [simp]:
  "pl_items (finished_plan w x) = pl_items x" "pl_assessments (finished_plan w x) = pl_assessments x"
  by (simp_all add: finished_plan_def Let_def)

lemma finished_status:
  "pl_errors (finished_plan w x) = validate_plan (finished_plan w x)"
  "pl_status (finished_plan w x) = (if validate_plan (finished_plan w x) = [] then Plan_Validated else Plan_Proposed)"
  using validate_cong [of "finished_plan w x" x] by (simp_all add: finished_plan_def Let_def)

subsection \<open>Properties\<close>

text \<open>
  What the validation of a plan says. A plan of a project - with or without the analysis of the
  code - is validated exactly when every requirement of the project has an acceptance criterion and no
  two items have the same title; it then and only then has no errors. It never misses a requirement,
  and it has the three items of each requirement: none is ever dropped as already implemented.
\<close>

theorem plan_validated_iff:
  assumes "build_engineering_plan w p title at persist s = ((z, n), s')"
  shows "(pl_status z = Plan_Validated \<longleftrightarrow>
      (\<forall>r \<in> set (requirements_of_project p (ps_requirements s)). rm_acceptance_criteria r \<noteq> []) \<and>
      distinct (map pi_title (pl_items z))) \<and>
    (pl_status z = Plan_Validated \<longleftrightarrow> plan_is_valid z) \<and>
    map pi_title (pl_items z) = map pi_title (decompose (pw_item w) p None (ps_requirements s)) \<and>
    (\<forall>r \<in> set (requirements_of_project p (ps_requirements s)).
      \<exists>i \<in> set (pl_items z). rm_id r \<in> set (pi_requirement_refs i)) \<and>
    ps_plans s' = (if persist then save_plan z (ps_plans s) else ps_plans s)"
proof -
  let ?items = "build_plan_items w p at s" and ?base = "decompose (pw_item w) p None (ps_requirements s)"
  obtain f where f: "?items = map f ?base"
    "\<And>i. pi_title (f i) = pi_title i" "\<And>i. pi_criteria (f i) = pi_criteria i"
    "\<And>i. pi_dependency_ids (f i) = pi_dependency_ids i"
    "\<And>i. pi_requirement_refs (f i) = pi_requirement_refs i"
  proof (cases at)
    case None
    then show ?thesis by (intro that [of "\<lambda>i. i"]) (simp_all add: build_items)
  next
    case (Some a)
    then show ?thesis
      by (intro that [of "analyze_item (list_symbols (fst a) (snd a) (ps_code s)) (list_relations (fst a) (snd a) (ps_code s))"])
        (simp_all add: build_items analyze_existing_def split: prod.split)
  qed
  have z: "z = finished_plan w (draft_plan w p title at s)"
    and stored: "ps_plans s' = (if persist then save_plan z (ps_plans s) else ps_plans s)"
    using assms by (auto simp: build_engineering_plan_def Let_def)
  have items: "pl_items z = ?items" and assessed: "pl_assessments z = assess p (ps_requirements s)"
    by (simp_all add: z draft_plan_def)
  have errors: "pl_errors z = validate_plan z"
    and status: "pl_status z = (if validate_plan z = [] then Plan_Validated else Plan_Proposed)"
    unfolding z by (rule finished_status)+
  have titles: "map pi_title ?items = map pi_title ?base" by (simp add: f comp_def)
  have covered: "\<forall>r \<in> set (requirements_of_project p (ps_requirements s)).
      \<exists>i \<in> set ?items. rm_id r \<in> set (pi_requirement_refs i)"
    using decompose_covers [of _ p "ps_requirements s" "pw_item w"] by (force simp: f)
  have "filter (\<lambda>r. \<forall>i \<in> set ?items. r \<notin> set (pi_requirement_refs i)) (map as_requirement_id (pl_assessments z)) = []"
    using covered by (auto simp: assessed assess_def assess_requirement_def Let_def filter_empty_conv)
  moreover have "concat (map (item_errors ?items) ?items) = [] \<longleftrightarrow>
      (\<forall>r \<in> set (requirements_of_project p (ps_requirements s)). rm_acceptance_criteria r \<noteq> [])"
    unfolding decompose_criteria [of "pw_item w", symmetric]
    by (auto simp: item_errors_def f dest: decompose_no_dependencies)
  ultimately have "validate_plan z = [] \<longleftrightarrow>
      (\<forall>r \<in> set (requirements_of_project p (ps_requirements s)). rm_acceptance_criteria r \<noteq> []) \<and>
      distinct (map pi_title ?items)"
    unfolding validate_plan_def items Let_def by (simp add: no_duplicates_iff)
  then show ?thesis
    unfolding plan_is_valid_def status items stored errors using titles covered by simp
qed

text \<open>Two requirements, the second without criteria.\<close>

definition demo_requirement :: "string \<Rightarrow> string \<Rightarrow> acceptance_criterion list \<Rightarrow> requirement" where
  "demo_requirement i title cs =
     \<lparr>rm_id = i, rm_project_id = ''p'', rm_key = None, rm_title = title, rm_description = [], rm_status = Rq_Draft,
      rm_priority = None, rm_parent_id = None, rm_derived_from = [], rm_acceptance_criteria = cs,
      rm_constraints = [], rm_source_refs = []\<rparr>"

definition demo_planning :: "acceptance_criterion list \<Rightarrow> planning_state" where
  "demo_planning cs =
     \<lparr>ps_requirements = [(''r1'', demo_requirement ''r1'' ''Export the report'' [acceptance_criterion.make ''c'' ''a file'' False]),
        (''r2'', demo_requirement ''r2'' ''Import the report'' cs)],
      ps_code = empty_code_graph, ps_plans = []\<rparr>"

definition demo_plan_draws :: plan_draws where
  "demo_plan_draws = \<lparr>pw_plan = ''plan'', pw_now = 0, pw_item = str_nat, pw_evidence = str_nat\<rparr>"

theorem plan_validated_iff_witness:
  "pl_status (fst (fst (build_engineering_plan demo_plan_draws ''p'' ''t'' None True (demo_planning [])))) \<noteq> Plan_Validated \<and>
   (\<exists>i \<in> set (pl_items (fst (fst (build_engineering_plan demo_plan_draws ''p'' ''t'' None True (demo_planning []))))).
     ''r2'' \<in> set (pi_requirement_refs i))"
proof -
  obtain z n s' where run: "build_engineering_plan demo_plan_draws ''p'' ''t'' None True (demo_planning []) = ((z, n), s')"
    by (metis prod.exhaust)
  have "demo_requirement ''r2'' ''Import the report'' [] \<in> set (requirements_of_project ''p'' (ps_requirements (demo_planning [])))"
    "rm_acceptance_criteria (demo_requirement ''r2'' ''Import the report'' []) = []"
    "rm_id (demo_requirement ''r2'' ''Import the report'' []) = ''r2''"
    by (simp_all add: demo_planning_def demo_requirement_def requirements_of_project_def list_all_items_def dict_values_def)
  with plan_validated_iff [OF run] run show ?thesis by fastforce
qed

text \<open>
  The reconciliation with what exists never drops a task: no item is ever found implemented.
\<close>

theorem reconciliation_drops_nothing:
  "length (build_plan_items w p at s) = 3 * length (requirements_of_project p (ps_requirements s))"
proof -
  have "length (concat (map (items_of ids p) (List.enumerate n rs))) = 3 * length rs" for ids n and rs :: "requirement list"
    by (induction rs arbitrary: n) (simp_all add: items_of_def Let_def)
  then have "length (decompose (pw_item w) p None (ps_requirements s)) =
      3 * length (requirements_of_project p (ps_requirements s))"
    by (simp add: decompose_def)
  then show ?thesis by (auto simp: build_items analyze_existing_def split: option.split)
qed

end
