(* ===== verification/Command_Handlers.thy ===== *)
theory Command_Handlers
  imports Worker Access_Control Planning Sync
begin

text \<open>
  The command handlers (\<open>application/command_handlers.py\<close>) with the workspace manager
  (\<open>application/workspace_manager.py\<close>): what each command does with the services of the
  container (\<open>bootstrap/container.py\<close>), and their installation in the dispatcher of the worker.

  The state \<open>container\<close> holds the stores behind the services: the journal with the bus and its
  hub, documents, requirements with code and plans, context capsules, verification runs, workflow
  checkpoints, workspace locks and the audit log. The ports, and the identifiers and times one
  handler draws, are parameters. A page loop of a provider that does not end within its fuel is
  cut off with an exception of the model's own; a provider whose pages end never meets it.
\<close>

subsection \<open>Workspaces\<close>

record 'w source_control =
  sp_clone_or_fetch :: "repository \<Rightarrow> 'w \<Rightarrow> ('w, unit) outcome"
  sp_current_revision :: "repository \<Rightarrow> 'w \<Rightarrow> ('w, string) outcome"
  sp_create_branch :: "repository \<Rightarrow> string \<Rightarrow> string \<Rightarrow> 'w \<Rightarrow> ('w, unit) outcome"
  sp_create_worktree :: "repository \<Rightarrow> string \<Rightarrow> string \<Rightarrow> string \<Rightarrow> 'w \<Rightarrow> ('w, unit) outcome"

record workspace =
  wk_id :: uuid
  wk_repository :: repository
  wk_branch :: string
  wk_path :: string
  wk_base_revision :: string

record workspace_manager =
  mg_root :: string
  mg_hex :: "uuid \<Rightarrow> string"

definition branch_name :: "workspace_manager \<Rightarrow> string \<Rightarrow> uuid \<Rightarrow> string" where
  "branch_name m label i = ''brain/'' @ label @ ''/'' @ take 8 (mg_hex m i)"

definition or_head :: "string option \<Rightarrow> string" where
  "or_head r = (case r of None \<Rightarrow> ''HEAD'' | Some v \<Rightarrow> if v = [] then ''HEAD'' else v)"

definition create_workspace :: "workspace_manager \<Rightarrow> 'w source_control option \<Rightarrow> uuid \<Rightarrow> repository
    \<Rightarrow> string option \<Rightarrow> string \<Rightarrow> 'w \<Rightarrow> ('w, workspace) outcome" where
  "create_workspace m scm i repo base label w =
     (let branch = branch_name m label i; path = mg_root m @ ''/'' @ mg_hex m i in
      case scm of
        None \<Rightarrow>
          (Inr \<lparr>wk_id = i, wk_repository = repo, wk_branch = branch, wk_path = [],
                wk_base_revision = or_head base\<rparr>, w)
      | Some p \<Rightarrow>
          then_do (sp_clone_or_fetch p repo w) (\<lambda>u w1.
          then_do (case base of
                     Some b \<Rightarrow> if b = [] then sp_current_revision p repo w1 else (Inr b, w1)
                   | None \<Rightarrow> sp_current_revision p repo w1) (\<lambda>rvn w2.
          then_do (sp_create_branch p repo branch rvn w2) (\<lambda>u w3.
          then_do (sp_create_worktree p repo branch rvn path w3) (\<lambda>u w4.
            (Inr \<lparr>wk_id = i, wk_repository = repo, wk_branch = branch, wk_path = path,
                  wk_base_revision = rvn\<rparr>, w4))))))"

subsection \<open>The container\<close>

record ('w, 'r) container =
  ct_journal :: "('w op_hub) journal"
  ct_documents :: document_store
  ct_planning :: planning_state
  ct_capsules :: "'r capsule_store"
  ct_runs :: run_store
  ct_flows :: "unit engine"
  ct_locks :: lock_store
  ct_audit :: "audit_event list"
  ct_calls :: nat

text \<open>What one call of a handler draws.\<close>

record command_draws =
  kd_now :: datetime
  kd_end :: datetime
  kd_id :: "nat \<Rightarrow> uuid"
  kd_document :: document_draws
  kd_plan :: plan_draws

record 'w pull_service =
  pu_port :: "'w bootstrap_port"
  pu_page_size :: int
  pu_days :: int
  pu_limit :: int
  pu_fuel :: nat

record 'w bootstrap_service =
  bo_port :: "'w bootstrap_port"
  bo_page_size :: int
  bo_fuel :: nat

record 'w pr_service =
  pv_provider :: "('w op_world) pr_port option"
  pv_activity :: "('w op_world) activity_port"

record ('w, 'r) container_services =
  ks_validators :: validators
  ks_invalid :: "command_envelope \<Rightarrow> exn"
  ks_draws :: "nat \<Rightarrow> command_draws"
  ks_ports :: "'w op_ports"
  ks_documents :: "('w op_hub) document_service"
  ks_float :: "'r float_ops"
  ks_graph :: "'w \<Rightarrow> knowledge_graph"
  ks_index :: search_index
  ks_iso :: "datetime \<Rightarrow> string"
  ks_verification :: "'w verification_config"
  ks_workspaces :: workspace_manager
  ks_source_control :: "'w source_control option"
  ks_executor :: "'w executor"
  ks_pull_requests :: "'w pr_service option"
  ks_bootstrap :: "'w bootstrap_service option"
  ks_pull :: "'w pull_service option"

type_synonym ('w, 'r) command_handler =
  "('w, 'r) container_services \<Rightarrow> command_draws \<Rightarrow> command_envelope \<Rightarrow> ('w, 'r) container
    \<Rightarrow> (('w, 'r) container, (string \<times> json) list) outcome"

definition bus_of :: "('w, 'r) container \<Rightarrow> 'w op_state" where
  "bus_of s = jr_bus (ct_journal s)"

definition set_bus :: "'w op_state \<Rightarrow> ('w, 'r) container \<Rightarrow> ('w, 'r) container" where
  "set_bus b s = s\<lparr>ct_journal := (ct_journal s)\<lparr>jr_bus := b\<rparr>\<rparr>"

definition stored :: "('w, 'r) container \<Rightarrow> repository_set" where
  "stored s = repos (bus_of s)"

definition on_stored :: "(repository_set \<Rightarrow> repository_set) \<Rightarrow> ('w, 'r) container \<Rightarrow> ('w, 'r) container" where
  "on_stored f s = set_bus (on_repos f (bus_of s)) s"

text \<open>A call of a service on the bus, and of a port on the world.\<close>

definition on_bus :: "('w op_state \<Rightarrow> ('w op_state, 'a) outcome) \<Rightarrow> ('w, 'r) container
    \<Rightarrow> (('w, 'r) container, 'a) outcome" where
  "on_bus f s = (let (r, b) = f (bus_of s) in (r, set_bus b s))"

definition on_world :: "('w \<Rightarrow> ('w, 'a) outcome) \<Rightarrow> ('w, 'r) container \<Rightarrow> (('w, 'r) container, 'a) outcome" where
  "on_world f s = on_bus (on_rest f) s"

definition on_journal :: "(('w op_hub) journal \<Rightarrow> (('w op_hub) journal, 'a) outcome) \<Rightarrow> ('w, 'r) container
    \<Rightarrow> (('w, 'r) container, 'a) outcome" where
  "on_journal f s = (let (r, j) = f (ct_journal s) in (r, s\<lparr>ct_journal := j\<rparr>))"

text \<open>
  \<open>command_to_model\<close> and the assertion on its class: \<open>pick\<close> is \<open>None\<close> on any other model.
\<close>

definition with_model :: "('w, 'r) container_services \<Rightarrow> command_envelope \<Rightarrow> (command_model \<Rightarrow> 'm option)
    \<Rightarrow> ('m \<Rightarrow> (('w, 'r) container, 'a) outcome) \<Rightarrow> ('w, 'r) container \<Rightarrow> (('w, 'r) container, 'a) outcome" where
  "with_model v c pick k s =
     (case command_to_model (ks_validators v) c of
        None \<Rightarrow> (Inl (ks_invalid v c), s)
      | Some m \<Rightarrow> (case pick m of None \<Rightarrow> (Inl (Exn ''AssertionError'' []), s) | Some x \<Rightarrow> k x))"

definition id_status :: "string \<Rightarrow> uuid \<Rightarrow> string \<Rightarrow> (string \<times> json) list" where
  "id_status k i st = [(k, JStr i), (''status'', JStr st)]"

subsection \<open>Handlers that only look\<close>

definition handle_analyze_project :: "('w, 'r) command_handler" where
  "handle_analyze_project v w c s =
     with_model v c (\<lambda>m. case m of AnalyzeProjectCommand p \<Rightarrow> Some p | _ \<Rightarrow> None)
       (\<lambda>p. (Inr (id_status ''project_id'' p ''analyzed''), s)) s"

definition repository_reply :: "string \<Rightarrow> uuid \<Rightarrow> ('w, 'r) container \<Rightarrow> (string \<times> json) list" where
  "repository_reply st r s =
     id_status ''repository_id'' r
       (if get_item r (st_repositories (stored s)) = None then ''not_found'' else st)"

definition handle_sync_repository :: "('w, 'r) command_handler" where
  "handle_sync_repository v w c s =
     with_model v c (\<lambda>m. case m of SyncRepositoryCommand r \<Rightarrow> Some r | _ \<Rightarrow> None)
       (\<lambda>r. (Inr (repository_reply ''synced'' r s), s)) s"

definition handle_ingest_repository :: "('w, 'r) command_handler" where
  "handle_ingest_repository v w c s =
     with_model v c (\<lambda>m. case m of IngestRepositoryCommand r rvn \<Rightarrow> Some r | _ \<Rightarrow> None)
       (\<lambda>r. (Inr (repository_reply ''ingested'' r s), s)) s"

definition handle_extract_requirements :: "('w, 'r) command_handler" where
  "handle_extract_requirements v w c s =
     with_model v c (\<lambda>m. case m of ExtractRequirementsCommand p d \<Rightarrow> Some p | _ \<Rightarrow> None)
       (\<lambda>p. (Inr [(''project_id'', JStr p),
          (''extracted'', JInt (int (length (extract_requirements (kd_id w) p None (ct_documents s))))),
          (''status'', JStr ''extracted'')], s)) s"

definition no_work_item :: "uuid \<Rightarrow> (string \<times> json) list" where
  "no_work_item i = id_status ''work_item_id'' i ''not_found''"

definition handle_analyze_work_item :: "('w, 'r) command_handler" where
  "handle_analyze_work_item v w c s =
     with_model v c (\<lambda>m. case m of AnalyzeWorkItemCommand i \<Rightarrow> Some i | _ \<Rightarrow> None)
       (\<lambda>i. case get_item i (st_work_items (stored s)) of
          None \<Rightarrow> (Inr (no_work_item i), s)
        | Some x \<Rightarrow>
            (Inr [(''work_item_id'', JStr i),
              (''implementation_status'', JStr (implementation_status_value (wi_implementation x))),
              (''status'', JStr ''analyzed'')], s)) s"

definition handle_reconcile_project :: "('w, 'r) command_handler" where
  "handle_reconcile_project v w c s =
     with_model v c (\<lambda>m. case m of ReconcileProjectCommand p \<Rightarrow> Some p | _ \<Rightarrow> None)
       (\<lambda>p. (Inr (id_status ''project_id'' p ''reconciled''), s)) s"

subsection \<open>Documents, plans, contexts and workflows\<close>

text \<open>The artifact of a stored document: its place, without its content.\<close>

definition document_artifact :: "document \<Rightarrow> source_artifact" where
  "document_artifact d =
     (new_artifact (do_uri (dc_source d)) (do_provider (dc_source d)))\<lparr>sa_mime_type := do_mime_type (dc_source d)\<rparr>"

definition handle_ingest_document :: "('w, 'r) command_handler" where
  "handle_ingest_document v w c s =
     with_model v c (\<lambda>m. case m of IngestDocumentCommand d p \<Rightarrow> Some d | _ \<Rightarrow> None)
       (\<lambda>i. case get_item i (ds_documents (ct_documents s)) of
          None \<Rightarrow> (Inr (id_status ''document_id'' i ''not_found''), s)
        | Some d \<Rightarrow>
            (case ingest_document (ks_documents v) (kd_document w) (document_artifact d) (dc_project_id d)
                    (Some (dc_type d)) None None (ct_documents s, bus_of s) of
               (Inl e, (ds, b)) \<Rightarrow> (Inl e, set_bus b (s\<lparr>ct_documents := ds\<rparr>))
             | (Inr r, (ds, b)) \<Rightarrow>
                 (Inr [(''document_id'', JStr i), (''version_id'', JStr (dv_id (dr_version r))),
                       (''status'', JStr ''ingested'')],
                  set_bus b (s\<lparr>ct_documents := ds\<rparr>)))) s"

definition handle_plan_work_item :: "('w, 'r) command_handler" where
  "handle_plan_work_item v w c s =
     with_model v c (\<lambda>m. case m of PlanWorkItemCommand i \<Rightarrow> Some i | _ \<Rightarrow> None)
       (\<lambda>i. case get_item i (st_work_items (stored s)) of
          None \<Rightarrow> (Inr (no_work_item i), s)
        | Some x \<Rightarrow>
            (let ((z, n), ps) = build_engineering_plan (kd_plan w) (wi_project_id x) (wi_title x) None True (ct_planning s)
             in (Inr [(''work_item_id'', JStr i), (''plan_id'', JStr (pl_id z)), (''status'', JStr ''planned'')],
                 s\<lparr>ct_planning := ps\<rparr>))) s"

definition sources_of :: "('w, 'r) container_services \<Rightarrow> ('w, 'r) container \<Rightarrow> context_sources" where
  "sources_of v s =
     \<lparr>so_repos = stored s, so_requirements = \<lambda>i. get_item i (ps_requirements (ct_planning s)),
      so_code = ps_code (ct_planning s), so_graph = ks_graph v (op_rest (opw (bus_of s))),
      so_index = ks_index v, so_iso = ks_iso v\<rparr>"

text \<open>The capsule is saved in the store of the engine, and its key where feedback looks for it.\<close>

definition handle_build_context :: "('w, 'r::linorder) command_handler" where
  "handle_build_context v w c s =
     with_model v c (\<lambda>m. case m of BuildContextCommand i r rvn b \<Rightarrow> Some (i, r, rvn, b) | _ \<Rightarrow> None)
       (\<lambda>(i, r, rvn, b). case get_item i (st_work_items (stored s)) of
          None \<Rightarrow> (Inr (no_work_item i), s)
        | Some x \<Rightarrow>
            (let q = \<lparr>cq_work_item_id = wi_id x, cq_project_id = Some (wi_project_id x), cq_repository_id = r,
                      cq_revision = rvn, cq_type = Coding_Context, cq_preferred_budget = b, cq_max_tokens = 32000,
                      cq_executor_capability = ''coding'', cq_risk = ''low'', cq_history = True, cq_feedback = True\<rparr>;
                 (res, store) = assemble_context (ks_float v) (sources_of v s) (kd_id w 0) (kd_now w) q True (ct_capsules s);
                 k = cp_id (br_capsule res); b' = bus_of s
             in (Inr [(''work_item_id'', JStr i), (''capsule_id'', JStr k), (''status'', JStr ''built'')],
                 set_bus (set_ext (save_capsule k (wi_id x) (event_ext b')) b') (s\<lparr>ct_capsules := store\<rparr>)))) s"

definition dummy_repository :: "uuid \<Rightarrow> uuid \<Rightarrow> repository" where
  "dummy_repository i p =
     \<lparr>rp_id = i, rp_project_id = p, rp_name = ''pending'', rp_clone_url = [], rp_default_branch = ''main'',
      rp_current_revision = Some ''HEAD'', rp_external_refs = []\<rparr>"

definition handle_run_work_item :: "('w, 'r) command_handler" where
  "handle_run_work_item v w c s =
     with_model v c (\<lambda>m. case m of RunWorkItemCommand i \<Rightarrow> Some i | _ \<Rightarrow> None)
       (\<lambda>i. case get_item i (st_work_items (stored s)) of
          None \<Rightarrow> (Inr (no_work_item i), s)
        | Some x \<Rightarrow>
            (case get_item (wi_project_id x) (st_projects (stored s)) of
               None \<Rightarrow> (Inr (id_status ''work_item_id'' i ''no_project''), s)
             | Some pj \<Rightarrow>
                 (let (st, e) = start_workflow (kd_id w 0) (kd_now w) pj x (dummy_repository (kd_id w 1) (pj_id pj))
                        ''HEAD'' (ct_flows s)
                  in (Inr [(''work_item_id'', JStr i), (''workflow_id'', JStr (wf_id st)), (''status'', JStr ''started'')],
                      s\<lparr>ct_flows := e\<rparr>)))) s"

subsection \<open>Audit\<close>

text \<open>
  \<open>_audit\<close>: identifiers of the work item and the execution go into the details, the columns of
  the event stay empty.
\<close>

fun trigger_type_value :: "trigger_type \<Rightarrow> string" where
  "trigger_type_value TRIGGER_USER = ''user''"
| "trigger_type_value TRIGGER_EVENT = ''event''"
| "trigger_type_value TRIGGER_SCHEDULED = ''scheduled''"
| "trigger_type_value TRIGGER_INTERNAL = ''internal''"

definition requester :: "command_envelope \<Rightarrow> string" where
  "requester c =
     (case requested_by c of Some u \<Rightarrow> u | None \<Rightarrow> ''trigger:'' @ trigger_type_value (trigger_type c))"

definition audit_command :: "command_draws \<Rightarrow> audit_action \<Rightarrow> command_envelope \<Rightarrow> (string \<times> json) list
    \<Rightarrow> ('w, 'r) container \<Rightarrow> ('w, 'r) container" where
  "audit_command w a c details s =
     s\<lparr>ct_audit := record_audit
         \<lparr>au_id = kd_id w 6, au_occurred_at = kd_now w, au_action = a, au_actor = requester c,
          au_actor_role = trigger_type_value (trigger_type c), au_project_id = command_project_id c,
          au_work_item_id = None, au_execution_id = None, au_repository_id = None, au_details = details\<rparr>
         (ct_audit s)\<rparr>"

definition text_or_null :: "string \<Rightarrow> json" where
  "text_or_null t = (if t = [] then JNull else JStr t)"

definition audit_execution :: "command_draws \<Rightarrow> command_envelope \<Rightarrow> execution_request \<Rightarrow> execution_result
    \<Rightarrow> ('w, 'r) container \<Rightarrow> ('w, 'r) container" where
  "audit_execution w c q r s =
     audit_command w Execution_Completed c
       [(''execution_id'', JStr (rq_execution_id q)), (''work_item_id'', JStr (rq_work_item_id q)),
        (''repository_id'', text_or_null (rq_repository_ref q)),
        (''status'', JStr (execution_status_value (rs_status r))),
        (''base_revision'', JStr (rq_base_revision q)), (''working_branch'', jopt JStr (rq_working_branch q)),
        (''changed_files'', jstrs (rs_modified_files r))] s"

subsection \<open>Executing a work item\<close>

text \<open>The identifiers a handler draws: 0 the execution, 1 the workflow, 2 the actor, 3 and 4 correlations,
  5 the workspace, 6 the audit event, 7 and on those of an observation.\<close>

definition bare_request :: "command_draws \<Rightarrow> uuid \<Rightarrow> uuid \<Rightarrow> execution_request" where
  "bare_request w i x =
     \<lparr>rq_execution_id = x, rq_workflow_id = kd_id w 1, rq_work_item_id = i, rq_repository_ref = [],
      rq_base_revision = ''HEAD'', rq_base_branch = None, rq_working_branch = None, rq_worktree_path = None,
      rq_workspace_path = None, rq_context_capsule_id = None, rq_permissions = default_permissions,
      rq_correlation_id = kd_id w 3\<rparr>"

definition request_in :: "workspace \<Rightarrow> execution_request \<Rightarrow> execution_request" where
  "request_in k q =
     q\<lparr>rq_repository_ref := rp_clone_url (wk_repository k), rq_base_revision := wk_base_revision k,
       rq_base_branch := Some (wk_branch k), rq_working_branch := Some (wk_branch k),
       rq_worktree_path := nonempty (wk_path k), rq_workspace_path := nonempty (wk_path k)\<rparr>"

definition started_execution :: "command_draws \<Rightarrow> uuid \<Rightarrow> execution_request \<Rightarrow> execution" where
  "started_execution w i q =
     \<lparr>ex_id = rq_execution_id q, ex_workflow_id = rq_workflow_id q, ex_work_item_id = i,
      ex_executor_id = kd_id w 2, ex_context_capsule_id = None, ex_status = Ex_Started,
      ex_started_at = kd_now w, ex_completed_at = None, ex_parent = None, ex_correlation_id = kd_id w 4,
      ex_base_branch = rq_base_branch q, ex_working_branch = rq_working_branch q,
      ex_worktree_path = rq_worktree_path q\<rparr>"

definition blocked_entry :: "work_item \<Rightarrow> uuid \<Rightarrow> observation_request" where
  "blocked_entry x e =
     simple_request (wi_project_id x) Human_Action_Required ''Execution blocked: conflicting automated change''
       ''Another execution holds the repository lock; retry after it completes.'' (Some (wi_id x)) (Some e)
       (Some (''blocked-lock:'' @ e))"

definition set_execution_status :: "uuid \<Rightarrow> execution_status \<Rightarrow> datetime option option \<Rightarrow> ('w, 'r) container
    \<Rightarrow> ('w, 'r) container" where
  "set_execution_status x st completed s =
     (case get_item x (st_executions (stored s)) of
        None \<Rightarrow> s
      | Some e \<Rightarrow>
          on_stored (save_execution (e\<lparr>ex_status := st,
            ex_completed_at := (case completed of None \<Rightarrow> ex_completed_at e | Some d \<Rightarrow> d)\<rparr>)) s)"

definition mark_blocked :: "('w, 'r) container_services \<Rightarrow> command_draws \<Rightarrow> uuid \<Rightarrow> uuid \<Rightarrow> command_envelope
    \<Rightarrow> ('w, 'r) container \<Rightarrow> (('w, 'r) container, unit) outcome" where
  "mark_blocked v w x i c s =
     (let s1 = set_execution_status x Ex_Blocked None s in
      then_do
        (case get_item i (st_work_items (stored s1)) of
           None \<Rightarrow> (Inr (), s1)
         | Some wi \<Rightarrow>
             then_do (on_journal (create_entry (Some (px_run (ks_ports v))) (kd_id w 7) (kd_id w 8) (kd_id w 9)
                         (kd_now w) (blocked_entry wi x) None) s1) (\<lambda>ob s2. (Inr (), s2)))
        (\<lambda>u s2. (Inr (), audit_command w Execution_Blocked c
                    [(''execution_id'', JStr x), (''work_item_id'', JStr i)] s2)))"

definition blocked_reply :: "uuid \<Rightarrow> uuid \<Rightarrow> (string \<times> json) list" where
  "blocked_reply i x =
     [(''work_item_id'', JStr i), (''execution_id'', JStr x), (''status'', JStr ''blocked''),
      (''reasons'', jstrs [''repository is already being changed by another execution''])]"

text \<open>The executor with the lock held; the lock is released however the executor ends.\<close>

definition locked_run :: "('w, 'r) container_services \<Rightarrow> repository option \<Rightarrow> execution_request \<Rightarrow> ('w, 'r) container
    \<Rightarrow> (('w, 'r) container, execution_result) outcome" where
  "locked_run v repo q s =
     (let (r, s1) = on_world (ks_executor v q) s in
      (r, case repo of None \<Rightarrow> s1
          | Some p \<Rightarrow> s1\<lparr>ct_locks := snd (release_lock (rp_id p) (rq_execution_id q) (ct_locks s1))\<rparr>))"

definition completion_time :: "command_draws \<Rightarrow> execution_status \<Rightarrow> datetime option" where
  "completion_time w st = (if st \<in> {Ex_Completed, Ex_Failed, Ex_Cancelled} then Some (kd_end w) else None)"

definition run_request :: "('w, 'r) container_services \<Rightarrow> command_draws \<Rightarrow> command_envelope \<Rightarrow> uuid
    \<Rightarrow> repository option \<Rightarrow> execution_request \<Rightarrow> ('w, 'r) container
    \<Rightarrow> (('w, 'r) container, (string \<times> json) list) outcome" where
  "run_request v w c i repo q s =
     then_do (locked_run v repo q s) (\<lambda>r s1.
       (Inr [(''work_item_id'', JStr i), (''execution_id'', JStr (rq_execution_id q)),
             (''status'', JStr (execution_status_value (rs_status r))), (''blockers'', jstrs (rs_blockers r))],
        set_execution_status (rq_execution_id q) (rs_status r) (Some (completion_time w (rs_status r)))
          (audit_execution w c q r s1)))"

definition execute_locked :: "('w, 'r) container_services \<Rightarrow> command_draws \<Rightarrow> command_envelope \<Rightarrow> work_item option
    \<Rightarrow> uuid \<Rightarrow> repository option \<Rightarrow> execution_request \<Rightarrow> ('w, 'r) container
    \<Rightarrow> (('w, 'r) container, (string \<times> json) list) outcome" where
  "execute_locked v w c item i repo q s =
     (let s1 = (case item of None \<Rightarrow> s | Some x \<Rightarrow> on_stored (save_execution (started_execution w i q)) s) in
      case repo of
        None \<Rightarrow> run_request v w c i None q s1
      | Some p \<Rightarrow>
          (let (lock, ks) = try_acquire (kd_now w) (rp_id p) (rq_execution_id q)
                 (case rq_working_branch q of None \<Rightarrow> ''brain'' | Some b \<Rightarrow> or_else b ''brain'') (ct_locks s1);
               s2 = s1\<lparr>ct_locks := ks\<rparr>
           in case lock of
                None \<Rightarrow> then_do (mark_blocked v w (rq_execution_id q) i c s2)
                          (\<lambda>u s3. (Inr (blocked_reply i (rq_execution_id q)), s3))
              | Some k \<Rightarrow> run_request v w c i (Some p) q s2))"

definition handle_execute_work_item :: "('w, 'r) command_handler" where
  "handle_execute_work_item v w c s =
     with_model v c (\<lambda>m. case m of ExecuteWorkItemCommand i x \<Rightarrow> Some (i, x) | _ \<Rightarrow> None)
       (\<lambda>(i, given).
          let x = (case given of Some e \<Rightarrow> e | None \<Rightarrow> kd_id w 0);
              item = get_item i (st_work_items (stored s));
              project = Option.bind item (\<lambda>wi. get_item (wi_project_id wi) (st_projects (stored s)));
              found = (case item of None \<Rightarrow> [] | Some wi \<Rightarrow> repositories_of_project (wi_project_id wi) (stored s));
              repo = (case found of [] \<Rightarrow> None | p # ps \<Rightarrow> Some p);
              q = bare_request w i x
          in case (item, repo, project) of
               (Some wi, Some p, Some pj) \<Rightarrow>
                 then_do (on_world (create_workspace (ks_workspaces v) (ks_source_control v) (kd_id w 5) p None
                            ''work-item'') s)
                   (\<lambda>k s1. execute_locked v w c item i repo (request_in k q) s1)
             | _ \<Rightarrow> execute_locked v w c item i repo q s) s"

subsection \<open>Verification, pull requests and the provider\<close>

text \<open>The command passes neither acceptance criteria nor changed files.\<close>

definition command_verification :: "uuid \<Rightarrow> uuid \<Rightarrow> verify_request" where
  "command_verification x i =
     \<lparr>vq_execution_id = x, vq_work_item_id = i, vq_criteria = [], vq_changed = [], vq_repository_id = None,
      vq_revision = None, vq_workspace = None, vq_persist = True\<rparr>"

definition handle_verify_execution :: "('w, 'r) command_handler" where
  "handle_verify_execution v w c s =
     with_model v c (\<lambda>m. case m of VerifyExecutionCommand x i \<Rightarrow> Some (x, i) | _ \<Rightarrow> None)
       (\<lambda>(x, i).
          (case verify (kd_id w) (kd_now w) (ks_verification v) (command_verification x i)
                  (ct_runs s, op_rest (opw (bus_of s))) of
             (Inl e, (rs, o1)) \<Rightarrow> (Inl e, set_bus (set_rest o1 (bus_of s)) (s\<lparr>ct_runs := rs\<rparr>))
           | (Inr (r, d), (rs, o1)) \<Rightarrow>
               (Inr [(''execution_id'', JStr x), (''verdict'', JStr (verdict_value (verification_run.vr_verdict r))),
                     (''status'', JStr ''verified'')],
                set_bus (set_rest o1 (bus_of s)) (s\<lparr>ct_runs := rs\<rparr>)))) s"

definition pr_reply :: "uuid \<Rightarrow> pr_result \<Rightarrow> (string \<times> json) list" where
  "pr_reply x r =
     [(''execution_id'', JStr x), (''pr_external_id'', jopt (\<lambda>e. JStr (ref_external_id e)) (pq_external_ref r)),
      (''observation_id'', jopt JStr (pq_observation_id r)), (''reasons'', jstrs (pq_reasons r)),
      (''status'', JStr (if pq_created r then ''created'' else ''blocked''))]"

definition handle_create_pull_request :: "('w, 'r) command_handler" where
  "handle_create_pull_request v w c s =
     with_model v c (\<lambda>m. case m of CreatePullRequestCommand x i \<Rightarrow> Some (x, i) | _ \<Rightarrow> None)
       (\<lambda>(x, i). case ks_pull_requests v of
          None \<Rightarrow> (Inr (id_status ''execution_id'' x ''no_pr_service''), s)
        | Some pr \<Rightarrow>
            then_do (on_journal (service_create_pull_request (pv_provider pr) (px_run (ks_ports v)) (pv_activity pr)
                (kd_id w 0) (kd_id w 1) (kd_id w 2) (kd_id w 3) (kd_now w) x i) s)
              (\<lambda>r s1. (Inr (pr_reply x r), s1))) s"

definition cut_off :: exn where
  "cut_off = Exn ''PageLoopCutOff'' ''the provider has more pages than the fuel allows''"

definition within_fuel :: "'s \<Rightarrow> ('s, 'a) outcome option \<Rightarrow> ('s, 'a) outcome" where
  "within_fuel s r = (case r of None \<Rightarrow> (Inl cut_off, s) | Some m \<Rightarrow> m)"

definition bootstrap_reply :: "bootstrap_result \<Rightarrow> (string \<times> json) list" where
  "bootstrap_reply r =
     [(''project_id'', JStr (br_project_id r)), (''status'', JStr (bootstrap_status_value (br_status r))),
      (''projects_ingested'', JInt (int (br_projects r))), (''work_items_ingested'', JInt (int (br_work_items r))),
      (''comments_ingested'', JInt (int (br_comments r))), (''relations_ingested'', JInt (int (br_relations r))),
      (''resumed'', JBool (br_resumed r))]"

definition handle_bootstrap_project :: "('w, 'r) command_handler" where
  "handle_bootstrap_project v w c s =
     with_model v c (\<lambda>m. case m of BootstrapProjectCommand p pr x \<Rightarrow> Some (p, x) | _ \<Rightarrow> None)
       (\<lambda>(p, x). case ks_bootstrap v of
          None \<Rightarrow> (Inr (id_status ''project_id'' p ''no_bootstrap_service''), s)
        | Some b \<Rightarrow>
            then_do (on_bus (\<lambda>u. within_fuel u (bootstrap_project (ks_ports v) (bo_port b) (bo_page_size b) (bo_fuel b)
                p x False u)) s) (\<lambda>r s1. (Inr (bootstrap_reply r), s1))) s"

definition pull_reply :: "pull_result \<Rightarrow> (string \<times> json) list" where
  "pull_reply r =
     [(''project_id'', JStr (pl_project_id r)), (''status'', JStr (pl_status r)),
      (''items_pulled'', JInt (int (pl_pulled r))), (''items_created'', JInt (int (pl_created r))),
      (''items_swept'', JInt (int (pl_swept r))), (''pages_fetched'', JInt (int (pl_pages r)))]"

definition handle_sync_work_management :: "('w, 'r) command_handler" where
  "handle_sync_work_management v w c s =
     with_model v c (\<lambda>m. case m of SyncWorkManagementCommand p \<Rightarrow> Some p | _ \<Rightarrow> None)
       (\<lambda>p. case ks_pull v of
          None \<Rightarrow> (Inr (id_status ''project_id'' p ''no_pull_sync_service''), s)
        | Some u \<Rightarrow>
            (case get_item p (st_projects (stored s)) of
               None \<Rightarrow> (Inr (id_status ''project_id'' p ''not_found''), s)
             | Some pj \<Rightarrow>
                 then_do (on_bus (\<lambda>b. within_fuel b (sync_project (ks_ports v) (pu_port u) (pu_page_size u) (pu_days u)
                     (pu_limit u) (pu_fuel u) (kd_end w) pj b)) s) (\<lambda>r s1. (Inr (pull_reply r), s1)))) s"

subsection \<open>Installation\<close>

definition command_handlers :: "(command_type \<times> ('w, 'r::linorder) command_handler) list" where
  "command_handlers =
     [(ANALYZE_PROJECT, handle_analyze_project), (SYNC_REPOSITORY, handle_sync_repository),
      (INGEST_REPOSITORY, handle_ingest_repository), (INGEST_DOCUMENT, handle_ingest_document),
      (EXTRACT_REQUIREMENTS, handle_extract_requirements), (ANALYZE_WORK_ITEM, handle_analyze_work_item),
      (PLAN_WORK_ITEM, handle_plan_work_item), (BUILD_CONTEXT, handle_build_context),
      (RUN_WORK_ITEM, handle_run_work_item), (EXECUTE_WORK_ITEM, handle_execute_work_item),
      (VERIFY_EXECUTION, handle_verify_execution), (CREATE_PULL_REQUEST, handle_create_pull_request),
      (RECONCILE_PROJECT, handle_reconcile_project), (BOOTSTRAP_PROJECT, handle_bootstrap_project),
      (SYNC_WORK_MANAGEMENT, handle_sync_work_management)]"

text \<open>
  The queue of the worker and that of the container are one object: a handler gets the worker's
  queue in the hub and leaves the hub's in the worker.
\<close>

definition with_queue :: "command_queue \<Rightarrow> ('w, 'r) container \<Rightarrow> ('w, 'r) container" where
  "with_queue q s =
     (let b = bus_of s in set_bus (set_ext ((event_ext b)\<lparr>hb_queue := q\<rparr>) b) s)"

definition queue_of :: "('w, 'r) container \<Rightarrow> command_queue" where
  "queue_of s = hb_queue (event_ext (bus_of s))"

definition worker_handler :: "('w, 'r) container_services \<Rightarrow> ('w, 'r) command_handler \<Rightarrow> ('w, 'r) container handler" where
  "worker_handler v h c t =
     (let s = with_queue (queue t) (ext t);
          (r, s1) = h v (ks_draws v (ct_calls s)) c (s\<lparr>ct_calls := Suc (ct_calls s)\<rparr>)
      in (map_sum id (\<lambda>d. ()) r, t\<lparr>queue := queue_of s1, ext := s1\<rparr>))"

definition install_command_handlers :: "('w, 'r::linorder) container_services \<Rightarrow> ('w, 'r) container dispatcher
    \<Rightarrow> ('w, 'r) container dispatcher" where
  "install_command_handlers v d = fold (\<lambda>(t, h) d. register t (worker_handler v h) d) command_handlers d"

subsection \<open>Handlers only add to the queue\<close>

definition grown :: "command_queue \<Rightarrow> command_queue \<Rightarrow> bool" where
  "grown p q \<longleftrightarrow> (\<exists>new. q = p\<lparr>pending := pending p @ new\<rparr>)"

lemma grown_refl [simp, intro]: "grown p p"
  unfolding grown_def by (rule exI [of _ "[]"]) simp

lemma grown_trans: "\<lbrakk>grown p q; grown q r\<rbrakk> \<Longrightarrow> grown p r"
  unfolding grown_def by auto

lemma grown_enqueue: "grown p q \<Longrightarrow> grown p (enqueue c q)"
  unfolding grown_def enqueue_def by auto

lemma grownD:
  assumes "grown p q"
  shows "inflight q = inflight p" "dead q = dead p" "\<exists>new. pending q = pending p @ new"
  using assms by (auto simp: grown_def)

text \<open>The queue of a hub.\<close>

abbreviation hub_queue :: "'w hub_state \<Rightarrow> command_queue" where
  "hub_queue s \<equiv> hb_queue (event_ext s)"

definition queue_grows :: "'w hub_state \<Rightarrow> 'w hub_state \<Rightarrow> bool" where
  "queue_grows s t \<longleftrightarrow> grown (hub_queue s) (hub_queue t)"

definition table_grows :: "('w hub) handler_table \<Rightarrow> bool" where
  "table_grows run \<longleftrightarrow> (\<forall>n e s. queue_grows s (snd (run n e s)))"

lemma queue_grows_simps [simp]:
  "queue_grows s s" "queue_grows s (set_ext h t) = grown (hub_queue s) (hb_queue h)"
  "queue_grows s (t\<lparr>bus_published := ps\<rparr>) = queue_grows s t"
  by (simp_all add: queue_grows_def)

lemma queue_grows_trans: "\<lbrakk>queue_grows s t; queue_grows t u\<rbrakk> \<Longrightarrow> queue_grows s u"
  unfolding queue_grows_def by (rule grown_trans)

lemma run_handlers_grow:
  assumes "table_grows run"
  shows "queue_grows s (snd (run_handlers run hs e s))"
proof (induction hs arbitrary: s)
  case (Cons h hs)
  obtain r t where step: "run h e s = (r, t)" by (cases "run h e s")
  with assms have "queue_grows s t" unfolding table_grows_def by (metis snd_conv)
  with step Cons [of t] show ?case by (cases r) (auto intro: queue_grows_trans)
qed simp

lemma publish_grows: "table_grows run \<Longrightarrow> queue_grows s (snd (publish run e s))"
  using run_handlers_grow [of run "s\<lparr>bus_published := bus_published s @ [e]\<rparr>"]
  by (simp add: publish_def Let_def queue_grows_def)

lemma delete_capsules_queue [simp]: "hb_queue (fold delete_capsule is h) = hb_queue h"
  by (induction "is" arbitrary: h) (simp_all add: delete_capsule_def)

lemma handle_feedback_queue [simp]: "hb_queue (handle_feedback x i now e h) = hb_queue h"
  by (simp add: handle_feedback_def resume_feedback_def split: option.split canonical_event.split)

lemma handle_assigned_grows: "grown (hb_queue h) (hb_queue (handle_assigned x i f now e h))"
  by (simp add: handle_assigned_def grown_enqueue split: option.split canonical_event.split)

lemma inner_table_grows: "table_grows (inner_table p)"
  unfolding table_grows_def
  by (auto simp: inner_table_def handle_revision_hub_def handle_assigned_grows split: prod.splits)

lemma merge_consequences_grow:
  "queue_grows s (snd (apply_merge_consequences (inner_table p) i cid fresh rid now ref corr s))"
proof -
  let ?e = "revision_changed_event i fresh now ref corr"
  obtain r t where out: "publish (inner_table p) ?e s = (r, t)" by (cases "publish (inner_table p) ?e s")
  with publish_grows [OF inner_table_grows, of s p ?e] have "queue_grows s t" by simp
  with out show ?thesis
    by (cases r) (simp_all add: apply_merge_consequences_def Let_def queue_grows_def grown_enqueue)
qed

lemma handle_merged_grows: "queue_grows s (snd (handle_merged x (inner_table p) i cid fresh rid now e s))"
proof -
  have "queue_grows s (snd (case apply_merge_consequences (inner_table p) i cid fresh rid now ref corr s of
      (Inl err, s') \<Rightarrow> (Inl err, s') | (Inr v, s') \<Rightarrow> (Inr (), s')))" for ref corr
    using merge_consequences_grow [of s p i cid fresh rid now ref corr]
    by (cases "apply_merge_consequences (inner_table p) i cid fresh rid now ref corr s";
        cases "fst (apply_merge_consequences (inner_table p) i cid fresh rid now ref corr s)") simp_all
  then show ?thesis
    unfolding handle_merged_def by (auto split: option.split canonical_event.split)
qed

lemma standard_table_grows: "table_grows (standard_table p)"
  unfolding table_grows_def
proof (intro allI)
  fix n e s
  show "queue_grows s (snd (standard_table p n e s))"
    using inner_table_grows [of p] by (simp add: standard_table_def handle_merged_grows table_grows_def)
qed

interpretation grows: live_frame queue_grows "p\<lparr>px_run := standard_table hi\<rparr>" for p :: "'w op_ports" and hi
proof
  fix s t :: "'w op_state" and e
  show "queue_grows s t \<Longrightarrow> queue_grows s (snd (publish (px_run (p\<lparr>px_run := standard_table hi\<rparr>)) e t))"
    using publish_grows [OF standard_table_grows, of t hi e] by (auto intro: queue_grows_trans)
qed (simp_all add: on_repos_def on_op_def queue_grows_def)

lemma outcome_state:
  assumes "P (snd m)" and "\<And>e t. P t \<Longrightarrow> Q (f e t)" and "\<And>a t. P t \<Longrightarrow> Q (k a t)"
  shows "Q (case m of (Inl e, t) \<Rightarrow> f e t | (Inr a, t) \<Rightarrow> k a t)"
  using assms by (cases m; cases "fst m") simp_all

lemma emit_grows:
  "table_grows run \<Longrightarrow> queue_grows (jr_bus j) (jr_bus (snd (emit (Some run) e j)))"
  using publish_grows [of run "jr_bus j" e] by (simp add: emit_def split_beta Let_def)

lemma save_and_emit_grows:
  assumes "table_grows run"
  shows "queue_grows (jr_bus j) (jr_bus (snd (save_and_emit (Some run) eid fresh now t o1 corr j)))"
  unfolding save_and_emit_def
  by (rule outcome_state [where P = "\<lambda>i. queue_grows (jr_bus j) (jr_bus i)"])
    (use emit_grows [OF assms, of "save_observation o1 j"] in \<open>simp_all add: save_observation_def\<close>)

lemma create_entry_grows:
  "table_grows run \<Longrightarrow> queue_grows (jr_bus j) (jr_bus (snd (create_entry (Some run) i eid fresh now q corr j)))"
  unfolding create_entry_def by (simp add: save_and_emit_grows split: option.split)

lemma set_hub_bus [simp]: "jr_bus (set_hub h j) = set_ext h (jr_bus j)"
  by (simp add: set_hub_def)

lemma project_to_task_queue [simp]: "hb_queue (project_to_task port o1 w h) = hb_queue h"
  by (simp add: project_to_task_def split: option.split prod.split)

lemma record_pull_request_grows:
  fixes run :: "('a hub) handler_table"
  assumes "table_grows run"
  shows "queue_grows (jr_bus j) (jr_bus (snd (record_pull_request run port i oid oeid fresh now e w ref j)))"
  unfolding record_pull_request_def
proof (rule outcome_state [where P = "\<lambda>i. queue_grows (jr_bus j) (jr_bus i)"])
  fix j1 :: "'a hub_journal" assume one: "queue_grows (jr_bus j) (jr_bus j1)"
  show "queue_grows (jr_bus j) (jr_bus (snd (case create_entry (Some run) oid oeid fresh now (pr_entry e w ref)
      (Some (ex_correlation_id e)) j1 of
        (Inl err, j2) \<Rightarrow> (Inl err, j2)
      | (Inr o1, j2) \<Rightarrow>
          (Inr \<lparr>pq_created = True, pq_external_ref = Some ref, pq_observation_id = Some (ob_id o1),
             pq_reasons = [''verification passed; policy permitted'']\<rparr>,
           set_hub (project_to_task port o1 w (hub j2)) j2))))"
    by (rule outcome_state [where P = "\<lambda>i. queue_grows (jr_bus j1) (jr_bus i)"])
      (use one create_entry_grows [OF assms] in \<open>auto simp: hub_def intro: queue_grows_trans
        simp: queue_grows_def intro: grown_trans\<close>)
qed (use emit_grows [OF assms] in simp_all)

lemma create_pull_request_grows:
  assumes "table_grows run"
  shows "queue_grows (jr_bus j) (jr_bus (snd (service_create_pull_request pr run port i oid oeid fresh now x wid j)))"
proof -
  have "queue_grows (jr_bus j) (jr_bus (snd (record_pull_request run port i oid oeid fresh now e w ref
      (set_hub ((hub j)\<lparr>hb_world := o1\<rparr>) j))))" for e w ref o1
    using record_pull_request_grows [OF assms, of "set_hub ((hub j)\<lparr>hb_world := o1\<rparr>) j" port i oid oeid fresh now e w ref]
    by (simp add: queue_grows_def hub_def)
  then show ?thesis
    unfolding service_create_pull_request_def Let_def
    by (auto simp: hub_def split: option.split list.split prod.split sum.split)
qed

text \<open>Services that publish, where they have a bus.\<close>

definition bus_grows :: "('w hub) document_service \<Rightarrow> bool" where
  "bus_grows sv \<longleftrightarrow> (\<forall>run. sv_bus sv = Some run \<longrightarrow> table_grows run)"

lemma store_version_grows:
  assumes "bus_grows sv"
  shows "queue_grows (snd s) (snd (snd (store_version sv w a project t repo sha d doc s)))"
proof (cases "sv_bus sv")
  case (Some run)
  with assms have run: "queue_grows (snd s) (snd (publish run e (snd s)))" for e
    by (simp add: bus_grows_def publish_grows)
  show ?thesis
    unfolding store_version_def Let_def split_beta Some option.case
    using run by (auto split: sum.split)
qed (simp add: store_version_def Let_def split_beta)

lemma ingest_document_grows:
  assumes "bus_grows sv"
  shows "queue_grows (snd s) (snd (snd (ingest_document sv w a project t repo sha s)))"
proof -
  have "queue_grows b (snd (snd (store_version sv w a project t repo sha d doc (st, b))))" for a t d doc st b
    using store_version_grows [OF assms, where s = "(st, b)"] by simp
  then show ?thesis
    unfolding ingest_document_def ingest_parsed_def Let_def split_beta
    by (auto split: option.split sum.split)
qed

subsection \<open>What every handler keeps\<close>

text \<open>The queue only grows, and the workspace locks are as they were.\<close>

definition steady :: "('w, 'r) container \<Rightarrow> ('w, 'r) container \<Rightarrow> bool" where
  "steady s t \<longleftrightarrow> grown (queue_of s) (queue_of t) \<and> ct_locks t = ct_locks s"

lemma bus_simps [simp]:
  "bus_of (set_bus b s) = b" "ct_locks (set_bus b s) = ct_locks s"
  "ct_journal (set_bus b s) = (ct_journal s)\<lparr>jr_bus := b\<rparr>"
  "bus_of (s\<lparr>ct_documents := ds\<rparr>) = bus_of s" "bus_of (s\<lparr>ct_planning := ps\<rparr>) = bus_of s"
  "bus_of (s\<lparr>ct_capsules := cs\<rparr>) = bus_of s" "bus_of (s\<lparr>ct_runs := rs\<rparr>) = bus_of s"
  "bus_of (s\<lparr>ct_flows := fs\<rparr>) = bus_of s" "bus_of (s\<lparr>ct_locks := ks\<rparr>) = bus_of s"
  "bus_of (s\<lparr>ct_audit := as\<rparr>) = bus_of s" "bus_of (s\<lparr>ct_calls := n\<rparr>) = bus_of s"
  "bus_of (s\<lparr>ct_journal := j\<rparr>) = jr_bus j"
  by (simp_all add: bus_of_def set_bus_def)

lemma steady_iff: "steady s t \<longleftrightarrow> queue_grows (bus_of s) (bus_of t) \<and> ct_locks t = ct_locks s"
  by (simp add: steady_def queue_grows_def queue_of_def)

lemma steady_refl [simp, intro]: "steady s s"
  by (simp add: steady_def)

lemma steady_trans: "\<lbrakk>steady s t; steady t u\<rbrakk> \<Longrightarrow> steady s u"
  by (auto simp: steady_def intro: grown_trans)

lemma steady_then_do:
  assumes "steady s (snd m)" and "\<And>a t. steady s t \<Longrightarrow> steady s (snd (k a t))"
  shows "steady s (snd (then_do m k))"
  using assms(1) by (rule then_do_state [of "steady s"]) (rule assms(2))

lemma steady_model: "(\<And>x. steady s (snd (k x))) \<Longrightarrow> steady s (snd (with_model v c pick k s))"
  by (simp add: with_model_def split: option.split)

lemma steady_on_bus: "(\<And>b. queue_grows b (snd (f b))) \<Longrightarrow> steady s (snd (on_bus f s))"
  by (simp add: on_bus_def steady_iff split_beta Let_def)

lemma steady_on_journal:
  "(\<And>j. queue_grows (jr_bus j) (jr_bus (snd (f j)))) \<Longrightarrow> steady s (snd (on_journal f s))"
  by (simp add: on_journal_def steady_iff split_beta Let_def bus_of_def)

lemma on_rest_queue [simp]: "hub_queue (snd (on_rest f b)) = hub_queue b"
  by (simp add: on_rest_def on_op_def split: prod.split)

lemma on_repos_queue [simp]: "hub_queue (on_repos f b) = hub_queue b"
  by (simp add: on_repos_def)

lemma steady_on_world: "steady s (snd (on_world f s))"
  unfolding on_world_def by (rule steady_on_bus) (simp add: queue_grows_def)

lemma steady_on_stored: "steady s (on_stored f s)"
  by (simp add: on_stored_def steady_iff queue_grows_def)

lemma steady_audit: "steady s (audit_command w a c d s)"
  by (simp add: audit_command_def steady_iff)

lemma steady_status: "steady s (set_execution_status x st d s)"
  by (simp add: set_execution_status_def steady_on_stored split: option.split)

text \<open>How the container is wired: its bus runs the standard handlers.\<close>

definition wired :: "('w op_world) handler_inputs \<Rightarrow> ('w, 'r) container_services \<Rightarrow> bool" where
  "wired hi v \<longleftrightarrow> px_run (ks_ports v) = standard_table hi \<and> bus_grows (ks_documents v)"

lemma wired_ports: "wired hi v \<Longrightarrow> (ks_ports v)\<lparr>px_run := standard_table hi\<rparr> = ks_ports v"
  by (simp add: wired_def)

lemma wired_table: "wired hi v \<Longrightarrow> table_grows (px_run (ks_ports v))"
  by (simp add: wired_def standard_table_grows)

lemma within_fuel_grows: "ends (queue_grows b) r \<Longrightarrow> queue_grows b (snd (within_fuel b r))"
  by (cases r) (simp_all add: within_fuel_def)

lemma steady_simple:
  "steady s (snd (handle_analyze_project v w c s))" "steady s (snd (handle_sync_repository v w c s))"
  "steady s (snd (handle_ingest_repository v w c s))" "steady s (snd (handle_extract_requirements v w c s))"
  "steady s (snd (handle_analyze_work_item v w c s))" "steady s (snd (handle_reconcile_project v w c s))"
  unfolding handle_analyze_project_def handle_sync_repository_def handle_ingest_repository_def
    handle_extract_requirements_def handle_analyze_work_item_def handle_reconcile_project_def
  by (rule steady_model, simp split: option.split)+

lemma steady_ingest_document:
  assumes "wired hi v"
  shows "steady s (snd (handle_ingest_document v w c s))"
proof -
  have "steady s (snd (case ingest_document (ks_documents v) d a p t r h (ct_documents s, bus_of s) of
      (Inl e, (ds, b)) \<Rightarrow> (Inl e, set_bus b (s\<lparr>ct_documents := ds\<rparr>))
    | (Inr r, (ds, b)) \<Rightarrow> (Inr (f r), set_bus b (s\<lparr>ct_documents := ds\<rparr>))))" for d a p t r h and f :: "_ \<Rightarrow> 'c"
    using ingest_document_grows [of "ks_documents v" "(ct_documents s, bus_of s)" d a p t r h] assms
    by (auto simp: wired_def steady_iff split: prod.split sum.split)
  then show ?thesis
    unfolding handle_ingest_document_def by (intro steady_model) (auto split: option.split)
qed

lemma steady_plan: "steady s (snd (handle_plan_work_item v w c s))"
  unfolding handle_plan_work_item_def
  by (rule steady_model) (auto simp: steady_iff Let_def split: option.split prod.split)

lemma steady_context: "steady s (snd (handle_build_context v w c s))"
  unfolding handle_build_context_def
  by (rule steady_model) (auto simp: steady_iff Let_def save_capsule_def split: option.split prod.split)

lemma steady_run: "steady s (snd (handle_run_work_item v w c s))"
  unfolding handle_run_work_item_def
  by (rule steady_model) (auto simp: steady_iff Let_def split: option.split prod.split)

lemma set_rest_queue [simp]: "hub_queue (set_rest o1 b) = hub_queue b"
  by (simp add: set_rest_def on_op_def)

lemma steady_verify: "steady s (snd (handle_verify_execution v w c s))"
  unfolding handle_verify_execution_def
  by (rule steady_model) (auto simp: steady_iff queue_grows_def split: prod.split sum.split)

lemma steady_pull_request: "wired hi v \<Longrightarrow> steady s (snd (handle_create_pull_request v w c s))"
  unfolding handle_create_pull_request_def
  by (rule steady_model)
    (auto split: option.split intro!: steady_then_do steady_on_journal create_pull_request_grows
      intro: wired_table)

lemma steady_bootstrap:
  assumes "wired hi v"
  shows "steady s (snd (handle_bootstrap_project v w c s))"
proof -
  have "queue_grows b (snd (within_fuel b (bootstrap_project (ks_ports v) port psize fuel p x False b)))" for port psize fuel p x b
    by (rule within_fuel_grows) (rule grows.bootstrap, simp)
  then show ?thesis
    unfolding handle_bootstrap_project_def
    by (intro steady_model) (auto split: option.split intro!: steady_then_do steady_on_bus)
qed

lemma steady_sync:
  assumes "wired hi v"
  shows "steady s (snd (handle_sync_work_management v w c s))"
proof -
  have "queue_grows b (snd (within_fuel b (sync_project (ks_ports v) port psize days limit fuel d pj b)))"
    for port psize days limit fuel d pj b
    using grows.synced [of b b hi "ks_ports v" port psize days limit fuel d pj]
    by (intro within_fuel_grows) (simp add: wired_ports [OF assms])
  then show ?thesis
    unfolding handle_sync_work_management_def
    by (intro steady_model) (auto split: option.split intro!: steady_then_do steady_on_bus)
qed

text \<open>An execution: the lock it takes is the one it gives back.\<close>

lemma steady_mark_blocked:
  assumes "wired hi v"
  shows "steady s (snd (mark_blocked v w x i c s))"
proof -
  let ?s = "set_execution_status x Ex_Blocked None s"
  have entry: "steady t (snd (on_journal (create_entry (Some (px_run (ks_ports v))) a b d e q None) t))" for t a b d e q
    by (intro steady_on_journal create_entry_grows wired_table [OF assms])
  have "steady s (snd (then_do
      (case get_item i (st_work_items (stored ?s)) of
         None \<Rightarrow> (Inr (), ?s)
       | Some wi \<Rightarrow> then_do (on_journal (create_entry (Some (px_run (ks_ports v))) (kd_id w 7) (kd_id w 8) (kd_id w 9)
             (kd_now w) (blocked_entry wi x) None) ?s) (\<lambda>ob s2. (Inr (), s2)))
      (\<lambda>u s2. (Inr (), audit_command w Execution_Blocked c d s2))))" for d
    by (rule steady_then_do)
      (auto split: option.split intro!: steady_then_do intro: steady_trans [OF steady_status] entry
        steady_trans [OF _ steady_audit] steady_status)
  then show ?thesis by (simp add: mark_blocked_def Let_def)
qed

lemma dict_pop_absent: "dict_get d k = None \<Longrightarrow> dict_pop k d = d"
  by (force simp: AList.delete_eq filter_id_conv map_of_eq_None_iff)

lemma release_acquired:
  assumes "try_acquire now r x b ks = (Some k, ks')"
  shows "snd (release_lock r x ks') = ks"
proof -
  from assms have "dict_get ks r = None" "ks' = dict_set r \<lparr>wl_repository_id = r, wl_owner = x, wl_branch = b, wl_acquired_at = now\<rparr> ks"
    by (auto simp: try_acquire_def acquire_lock_def Let_def split: option.splits if_splits)
  then show ?thesis
    by (simp add: release_lock_def store_simps dict_pop_set dict_pop_absent)
qed

lemma steady_run_request:
  assumes "queue_grows (bus_of s) (bus_of t)"
    and "ct_locks s = (case repo of None \<Rightarrow> ct_locks t
           | Some p \<Rightarrow> snd (release_lock (rp_id p) (rq_execution_id q) (ct_locks t)))"
  shows "steady s (snd (run_request v w c i repo q t))"
proof -
  have "steady t (snd (on_world (ks_executor v q) t))" by (rule steady_on_world)
  then have "steady s (snd (locked_run v repo q t))"
    using assms by (auto simp: locked_run_def steady_iff Let_def split: prod.split option.split intro: queue_grows_trans)
  then show ?thesis
    unfolding run_request_def
    by (rule steady_then_do)
      (auto simp: audit_execution_def intro: steady_trans [OF _ steady_status] steady_trans [OF _ steady_audit])
qed

lemma steady_execute_locked:
  assumes "wired hi v"
  shows "steady s (snd (execute_locked v w c item i repo q s))"
proof -
  define s1 where "s1 = (case item of None \<Rightarrow> s | Some x \<Rightarrow> on_stored (save_execution (started_execution w i q)) s)"
  have s1: "steady s s1" by (simp add: s1_def steady_on_stored split: option.split)
  show ?thesis
  proof (cases repo)
    case None
    have "steady s1 (snd (run_request v w c i None q s1))" by (rule steady_run_request) simp_all
    with s1 show ?thesis by (simp add: execute_locked_def None flip: s1_def) (rule steady_trans)
  next
    case (Some p)
    define b where "b = (case rq_working_branch q of None \<Rightarrow> ''brain'' | Some b \<Rightarrow> or_else b ''brain'')"
    obtain lock ks where got: "try_acquire (kd_now w) (rp_id p) (rq_execution_id q) b (ct_locks s1) = (lock, ks)"
      by (cases "try_acquire (kd_now w) (rp_id p) (rq_execution_id q) b (ct_locks s1)")
    let ?s2 = "s1\<lparr>ct_locks := ks\<rparr>"
    have "steady s1 (snd (case lock of
        None \<Rightarrow> then_do (mark_blocked v w (rq_execution_id q) i c ?s2) (\<lambda>u s3. (Inr (blocked_reply i (rq_execution_id q)), s3))
      | Some k \<Rightarrow> run_request v w c i (Some p) q ?s2))"
    proof (cases lock)
      case None
      with got have "ks = ct_locks s1"
        by (auto simp: try_acquire_def acquire_lock_def Let_def split: option.splits if_splits)
      then have "steady s1 ?s2" by (simp add: steady_iff)
      then show ?thesis
        unfolding None option.case
        by (intro steady_then_do steady_trans [OF _ steady_mark_blocked [OF assms]]) simp_all
    next
      case (Some k)
      then show ?thesis
        using release_acquired [of "kd_now w" "rp_id p" "rq_execution_id q" b "ct_locks s1" k ks] got
        by (simp add: steady_run_request)
    qed
    with s1 show ?thesis
      by (simp add: execute_locked_def Some got Let_def flip: s1_def b_def) (rule steady_trans)
  qed
qed

lemma steady_execute:
  assumes "wired hi v"
  shows "steady s (snd (handle_execute_work_item v w c s))"
proof -
  have "steady s (snd (execute_locked v w c item i repo q s))" for item i repo q
    by (rule steady_execute_locked [OF assms])
  moreover have "steady s (snd (then_do (on_world f s) (\<lambda>k s1. execute_locked v w c item i repo (g k) s1)))" for f g item i repo
    by (intro steady_then_do steady_on_world) (rule steady_trans [OF _ steady_execute_locked [OF assms]])
  ultimately show ?thesis
    unfolding handle_execute_work_item_def
    by (intro steady_model) (auto simp: Let_def split: option.split)
qed

lemma handler_steady:
  assumes "wired hi v" and "(t, h) \<in> set command_handlers"
  shows "steady s (snd (h v w c s))"
  using assms(2) steady_simple steady_ingest_document [OF assms(1)] steady_plan steady_context steady_run
    steady_execute [OF assms(1)] steady_verify steady_pull_request [OF assms(1)]
    steady_bootstrap [OF assms(1)] steady_sync [OF assms(1)]
  by (auto simp: command_handlers_def)

text \<open>
  C25: However a command ends - answered, refused, or with an exception of any service or port -
  its handler has neither taken nor acknowledged nor buried a command, what it queued waits behind
  the commands that waited before, and the workspace locks are exactly those held before: an
  execution gives back the lock it took and leaves the lock of another alone.
\<close>

theorem handlers_are_steady:
  assumes "wired hi v" and "(t, h) \<in> set command_handlers"
  shows "ct_locks (snd (h v w c s)) = ct_locks s \<and>
    inflight (queue_of (snd (h v w c s))) = inflight (queue_of s) \<and>
    dead (queue_of (snd (h v w c s))) = dead (queue_of s) \<and>
    (\<exists>new. pending (queue_of (snd (h v w c s))) = pending (queue_of s) @ new)"
  using handler_steady [OF assms, of s w c] grownD unfolding steady_def by blast

subsection \<open>The installed dispatcher\<close>

lemma queue_of_simps [simp]:
  "queue_of (with_queue q s) = q" "ct_locks (with_queue q s) = ct_locks s"
  "queue_of (s\<lparr>ct_calls := n\<rparr>) = queue_of s" "ct_calls (with_queue q s) = ct_calls s"
  by (simp_all add: queue_of_def with_queue_def Let_def) (simp add: set_bus_def)

lemma fold_register_get:
  assumes "dict_get (fold (\<lambda>(t, h) d. register t (f h) d) hs d) t = Some g"
  shows "(\<exists>h. (t, h) \<in> set hs \<and> g = f h) \<or> dict_get d t = Some g"
  using assms
proof (induction hs arbitrary: d)
  case (Cons p hs)
  obtain u h where p: "p = (u, h)" by (cases p)
  from Cons.IH [of "register u (f h) d"] Cons.prems show ?case
    by (auto simp: p register_def store_simps split: if_splits)
qed simp

lemma installed_handler:
  assumes "dict_get (install_command_handlers v []) t = Some g"
  obtains h where "(t, h) \<in> set command_handlers" "g = worker_handler v h"
  using fold_register_get [of "worker_handler v" command_handlers "[]" t g] assms
  by (auto simp: install_command_handlers_def)

lemma worker_handler_state:
  "queue (snd (worker_handler v h c s)) = queue_of (snd (h v (ks_draws v (ct_calls (ext s))) c
     ((with_queue (queue s) (ext s))\<lparr>ct_calls := Suc (ct_calls (ext s))\<rparr>)))"
  "failures (snd (worker_handler v h c s)) = failures s"
  by (simp_all add: worker_handler_def Let_def split_beta)

lemma install_well_behaved:
  fixes v :: "('w, 'r::linorder) container_services"
  assumes "wired hi v"
  shows "well_behaved (install_command_handlers v [])"
  unfolding well_behaved_def
proof (intro allI impI)
  fix t g c and s :: "('w, 'r) container worker_state"
  assume "dict_get (install_command_handlers v []) t = Some g"
  then obtain h where h: "(t, h) \<in> set command_handlers" "g = worker_handler v h" by (rule installed_handler)
  let ?s = "(with_queue (queue s) (ext s))\<lparr>ct_calls := Suc (ct_calls (ext s))\<rparr>"
  have "grown (queue_of ?s) (queue_of (snd (h v (ks_draws v (ct_calls (ext s))) c ?s)))"
    using handler_steady [OF assms h(1)] unfolding steady_def by blast
  then have "grown (queue s) (queue (snd (g c s)))" by (simp add: h(2) worker_handler_state)
  then show "inflight (queue (snd (g c s))) = inflight (queue s) \<and> dead (queue (snd (g c s))) = dead (queue s) \<and>
    failures (snd (g c s)) = failures s \<and> (\<exists>new. pending (queue (snd (g c s))) = pending (queue s) @ new)"
    by (simp add: grownD h(2) worker_handler_state)
qed

lemma install_keeps_locks:
  fixes v :: "('w, 'r::linorder) container_services"
  shows "wired hi v \<Longrightarrow> handlers_keep (\<lambda>b x. b = b0 \<and> ct_locks x = ks) (install_command_handlers v [])"
  unfolding handlers_keep_def
proof (intro allI impI)
  fix t g c and s :: "('w, 'r) container worker_state"
  assume w: "wired hi v" and start: "stopping s = b0 \<and> ct_locks (ext s) = ks"
    and get: "dict_get (install_command_handlers v []) t = Some g"
  from get obtain h where "(t, h) \<in> set command_handlers" "g = worker_handler v h" by (rule installed_handler)
  with handler_steady [OF w] show "stopping (snd (g c s)) = b0 \<and> ct_locks (ext (snd (g c s))) = ks"
    using start by (simp add: worker_handler_def Let_def split_beta steady_def)
qed

subsection \<open>What single commands achieve\<close>

lemma with_model_InrE:
  assumes "with_model v c pick k s = (Inr a, t)"
  obtains m x where "command_to_model (ks_validators v) c = Some m" "pick m = Some x" "k x = (Inr a, t)"
  using assms by (auto simp: with_model_def split: option.splits)

lemma with_model_eq:
  "command_to_model (ks_validators v) c = Some m \<Longrightarrow> pick m = Some x \<Longrightarrow> with_model v c pick k s = k x"
  by (simp add: with_model_def)

lemma command_verdict:
  assumes "verify ids now cfg (command_verification x i) s = (Inr (r, d), s')"
  shows "verification_run.vr_verdict r = Fail \<and> \<not> vr_pr_allowed r \<and> verification_run.vr_execution_id r = x \<and>
    fst s' = save_run r (fst s)"
  using assms
  by (auto simp: verify_def Let_def command_verification_def aggregate_verdict_def split: prod.splits sum.splits)

text \<open>
  A verification by command never passes. The handler hands over neither acceptance criteria nor
  changed files, so whatever the configured commands answer, the run it stores fails, forbids the pull
  request, and the verdict of the reply is a failure; the verification results that the pull request
  service asks for are not written at all.
\<close>

theorem verification_command_never_passes:
  assumes "handle_verify_execution v w c s = (Inr reply, t)"
  shows "\<exists>r. ct_runs t = save_run r (ct_runs s) \<and> verification_run.vr_verdict r = Fail \<and> \<not> vr_pr_allowed r \<and>
    reply = [(''execution_id'', JStr (verification_run.vr_execution_id r)), (''verdict'', JStr ''fail''), (''status'', JStr ''verified'')] \<and>
    stored t = stored s"
proof -
  from assms obtain m p where k: "(case p of (x, i) \<Rightarrow>
      (case verify (kd_id w) (kd_now w) (ks_verification v) (command_verification x i) (ct_runs s, op_rest (opw (bus_of s))) of
         (Inl e, (rs, o1)) \<Rightarrow> (Inl e, set_bus (set_rest o1 (bus_of s)) (s\<lparr>ct_runs := rs\<rparr>))
       | (Inr (r, d), (rs, o1)) \<Rightarrow>
           (Inr [(''execution_id'', JStr x), (''verdict'', JStr (verdict_value (verification_run.vr_verdict r))),
                 (''status'', JStr ''verified'')],
            set_bus (set_rest o1 (bus_of s)) (s\<lparr>ct_runs := rs\<rparr>)))) = (Inr reply, t)"
    unfolding handle_verify_execution_def by (rule with_model_InrE) blast
  obtain x i where p: "p = (x, i)" by (cases p)
  from k obtain r d s' where run: "verify (kd_id w) (kd_now w) (ks_verification v) (command_verification x i)
      (ct_runs s, op_rest (opw (bus_of s))) = (Inr (r, d), s')"
    by (auto simp: p split: prod.splits sum.splits)
  from command_verdict [OF run] k show ?thesis
    by (intro exI [of _ r]) (cases s', auto simp: p run stored_def set_bus_def)
qed

text \<open>
  The command that ingests a stored document gives the service its place and not its content, so the
  version it ends with has the hash of the place as its checksum, whatever the document contains.
\<close>

theorem document_command_hashes_the_place:
  assumes "documents_sound (ct_documents s)" and "draws_fresh (kd_document w) (ct_documents s)"
    and "command_to_model (ks_validators v) c = Some (IngestDocumentCommand i p)"
    and "get_item i (ds_documents (ct_documents s)) = Some d"
    and "handle_ingest_document v w c s = (Inr reply, t)"
  shows "\<exists>x. jget reply ''version_id'' = JStr (dv_id x) \<and>
    dv_checksum x = sv_sha (ks_documents v) (utf8 (do_uri (dc_source d))) \<and>
    artifact_known (hashed (sv_sha (ks_documents v)) (document_artifact d)) (dc_project_id d) x (ct_documents t)"
proof -
  let ?a = "hashed (sv_sha (ks_documents v)) (document_artifact d)"
  let ?h = "sv_sha (ks_documents v) (utf8 (do_uri (dc_source d)))"
  have h: "sa_content_hash ?a = Some ?h"
    by (simp add: hashed_def document_artifact_def new_artifact_def content_hash_def or_text_def)
  have k: "handle_ingest_document v w c s = (case ingest_document (ks_documents v) (kd_document w) (document_artifact d)
      (dc_project_id d) (Some (dc_type d)) None None (ct_documents s, bus_of s) of
        (Inl e, (ds, b)) \<Rightarrow> (Inl e, set_bus b (s\<lparr>ct_documents := ds\<rparr>))
      | (Inr r, (ds, b)) \<Rightarrow>
          (Inr [(''document_id'', JStr i), (''version_id'', JStr (dv_id (dr_version r))), (''status'', JStr ''ingested'')],
           set_bus b (s\<lparr>ct_documents := ds\<rparr>)))"
    unfolding handle_ingest_document_def by (simp add: with_model_eq [OF assms(3)] assms(4))
  then obtain r s' where run: "ingest_document (ks_documents v) (kd_document w) (document_artifact d) (dc_project_id d)
      (Some (dc_type d)) None None (ct_documents s, bus_of s) = (Inr r, s')"
    and t: "ct_documents t = fst s'" and reply: "jget reply ''version_id'' = JStr (dv_id (dr_version r))"
    using assms(5) by (auto simp: jget_def set_bus_def split: prod.splits sum.splits)
  from run obtain q where "ingest_parsed (ks_documents v) (kd_document w) ?a (dc_project_id d) (dc_type d) None None q
      (ct_documents s, bus_of s) = (Inr r, s')"
    by (auto simp: ingest_document_def Let_def split: option.splits sum.splits)
  from ingested_is_known [OF _ _ h this] assms(1,2) have "artifact_known ?a (dc_project_id d) (dr_version r) (fst s')"
    by simp
  moreover from this h have "dv_checksum (dr_version r) = ?h" by (auto simp: artifact_known_def)
  ultimately show ?thesis using reply t by auto
qed

text \<open>
  A work item that was run has a checkpoint at the intake stage, of a repository that is drawn for it and
  stored nowhere.
\<close>

theorem run_command_starts_at_intake:
  assumes "command_to_model (ks_validators v) c = Some (RunWorkItemCommand i)"
    and "get_item i (st_work_items (stored s)) = Some x"
    and "get_item (wi_project_id x) (st_projects (stored s)) = Some pj"
  shows "\<exists>st. handle_run_work_item v w c s =
      (Inr [(''work_item_id'', JStr i), (''workflow_id'', JStr (wf_id st)), (''status'', JStr ''started'')],
       s\<lparr>ct_flows := save_checkpoint st (ct_flows s)\<rparr>) \<and>
    wf_stage st = Intake \<and> wf_status st = Running \<and> wf_repository_id st = Some (kd_id w 1)"
  by (rule exI [of _ "initial_workflow_state (kd_id w 0) (kd_now w) (pj_id pj) (wi_id x) (kd_id w 1) ''HEAD''"])
    (simp add: handle_run_work_item_def with_model_eq [OF assms(1)] assms(2,3) start_workflow_def Let_def
      initial_workflow_state_def dummy_repository_def)

lemma on_world_keeps:
  assumes "on_world f s = (r, t)"
  shows "stored t = stored s" "ct_locks t = ct_locks s" "ct_audit t = ct_audit s"
  using assms by (auto simp: on_world_def on_bus_def on_rest_def stored_def set_bus_def bus_of_def split: prod.splits)

lemma on_stored_simps [simp]:
  "stored (on_stored f s) = f (stored s)" "ct_locks (on_stored f s) = ct_locks s" "ct_audit (on_stored f s) = ct_audit s"
  "stored (s\<lparr>ct_locks := ks\<rparr>) = stored s"
  by (simp_all add: on_stored_def stored_def) (simp add: set_bus_def)

lemma on_world_raises:
  assumes "\<And>o1. \<exists>o2. f o1 = (Inl e, o2)"
  shows "\<exists>t. on_world f s = (Inl e, t)"
proof -
  obtain o2 where "f (op_rest (opw (bus_of s))) = (Inl e, o2)" using assms by blast
  then show ?thesis by (simp add: on_world_def on_bus_def on_rest_def)
qed

lemma try_acquire_free:
  assumes "dict_get ks r = None"
  shows "\<exists>k ks'. try_acquire now r x b ks = (Some k, ks')"
  using assms by (simp add: try_acquire_def acquire_lock_def Let_def)

text \<open>
  C26: An executor that raises leaves the execution behind. With the work item, its project, a free
  repository and a workspace at hand, the exception reaches the worker, the repository is free again and
  the attempt is not audited - and the execution stays stored as started, without a time of completion,
  although a failed execution is meant to be persisted as one.
\<close>

theorem raising_executor_leaves_started:
  assumes "command_to_model (ks_validators v) c = Some (ExecuteWorkItemCommand i given)"
    and "get_item i (st_work_items (stored s)) = Some wi"
    and "get_item (wi_project_id wi) (st_projects (stored s)) = Some pj"
    and "repositories_of_project (wi_project_id wi) (stored s) = p # ps"
    and "on_world (create_workspace (ks_workspaces v) (ks_source_control v) (kd_id w 5) p None ''work-item'') s = (Inr k, s1)"
    and "dict_get (ct_locks s) (rp_id p) = None"
    and "\<And>o1. \<exists>o2. ks_executor v (request_in k (bare_request w i x)) o1 = (Inl e, o2)"
    and "x = (case given of Some y \<Rightarrow> y | None \<Rightarrow> kd_id w 0)"
  shows "\<exists>t. handle_execute_work_item v w c s = (Inl e, t) \<and> ct_locks t = ct_locks s \<and> ct_audit t = ct_audit s \<and>
    get_item x (st_executions (stored t)) = Some (started_execution w i (request_in k (bare_request w i x))) \<and>
    ex_status (started_execution w i (request_in k (bare_request w i x))) = Ex_Started \<and>
    ex_completed_at (started_execution w i (request_in k (bare_request w i x))) = None"
proof -
  let ?q = "request_in k (bare_request w i x)"
  let ?s2 = "on_stored (save_execution (started_execution w i ?q)) s1"
  note s1 = on_world_keeps [OF assms(5)]
  have id: "rq_execution_id ?q = x" by (simp add: request_in_def bare_request_def)
  have start: "handle_execute_work_item v w c s = execute_locked v w c (Some wi) i (Some p) ?q s1"
    unfolding handle_execute_work_item_def
    by (simp add: with_model_eq [OF assms(1)] assms(2-5) Let_def flip: assms(8))
  define b where "b = (case rq_working_branch ?q of None \<Rightarrow> ''brain'' | Some b \<Rightarrow> or_else b ''brain'')"
  obtain l ks where got: "try_acquire (kd_now w) (rp_id p) x b (ct_locks s1) = (Some l, ks)"
    using try_acquire_free [of "ct_locks s1" "rp_id p" "kd_now w" x b] assms(6) s1 by auto
  obtain t where t: "on_world (ks_executor v ?q) (?s2\<lparr>ct_locks := ks\<rparr>) = (Inl e, t)"
    using on_world_raises [of "ks_executor v ?q" e "?s2\<lparr>ct_locks := ks\<rparr>"] assms(7) by blast
  note after = on_world_keeps [OF t]
  let ?t = "t\<lparr>ct_locks := snd (release_lock (rp_id p) x (ct_locks t))\<rparr>"
  have "handle_execute_work_item v w c s = (Inl e, ?t)"
    by (simp add: start execute_locked_def id got t run_request_def locked_run_def Let_def flip: b_def)
  moreover have "ct_locks ?t = ct_locks s"
    using release_acquired [OF got] after s1 by simp
  moreover have "get_item x (st_executions (stored ?t)) = Some (started_execution w i ?q)"
    using after id by (simp add: save_execution_def started_execution_def collection.fetch_put)
  ultimately show ?thesis using after s1 by (auto simp: started_execution_def)
qed

subsection \<open>A container for the witnesses\<close>

definition demo_hub_inputs :: "(unit op_world) handler_inputs" where
  "demo_hub_inputs = \<lparr>hi_validators = demo_validators, hi_changed = (\<lambda>r a b w. (Inr [], w)), hi_event_id = ''ev'',
     hi_command_id = ''cmd'', hi_fresh = ''corr'', hi_repository_id = ''new'', hi_now = 0\<rparr>"

definition demo_command_draws :: command_draws where
  "demo_command_draws = \<lparr>kd_now = 1, kd_end = 2, kd_id = str_nat, kd_document = demo_draws, kd_plan = demo_plan_draws\<rparr>"

definition demo_container_services :: "(unit, int) container_services" where
  "demo_container_services =
     \<lparr>ks_validators = vx_base demo_validators, ks_invalid = (\<lambda>c. Exn ''ValidationError'' ''1 validation error''),
      ks_draws = (\<lambda>n. demo_command_draws), ks_ports = demo_ports\<lparr>px_run := standard_table demo_hub_inputs\<rparr>,
      ks_documents = \<lparr>sv_parsers = [(0, demo_parser)], sv_extract = (\<lambda>n. []), sv_entities = (\<lambda>d. []),
        sv_decisions = False, sv_bus = None, sv_sha = (\<lambda>s. ''sha:'' @ s), sv_dump = (\<lambda>d. JStr (dc_id d))\<rparr>,
      ks_float = demo_ops, ks_graph = (\<lambda>w. empty_knowledge_graph),
      ks_index = \<lparr>ix_search = (\<lambda>q f n. []), ix_vector = (\<lambda>q f n. None)\<rparr>, ks_iso = (\<lambda>t. []),
      ks_verification = \<lparr>vc_runner = (\<lambda>cmd ws w. (Inr [(''exit_code'', JInt 0)], w)), vc_graph = empty_code_graph,
        vc_matches = (\<lambda>a b. False), vc_rules = [], vc_commands = [(Unit_Tests, ''pytest'')]\<rparr>,
      ks_workspaces = \<lparr>mg_root = ''/tmp'', mg_hex = (\<lambda>i. i)\<rparr>, ks_source_control = None,
      ks_executor = (\<lambda>q w. (Inl (Exn ''RuntimeError'' ''no agent''), w)), ks_pull_requests = None,
      ks_bootstrap = None, ks_pull = None\<rparr>"

definition demo_container :: "(unit, int) container" where
  "demo_container =
     \<lparr>ct_journal = \<lparr>jr_store = [], jr_bus = on_repos (\<lambda>r. save_work_item (new_work_item ''w'' ''p'' ''Log in'')
          (save_repository demo_repository r)) demo_state\<rparr>,
      ct_documents = empty_document_store, ct_planning = demo_planning [], ct_capsules = [], ct_runs = [],
      ct_flows = \<lparr>checkpoints = [], registry = [], world = ()\<rparr>, ct_locks = [], ct_audit = [], ct_calls = 0\<rparr>"

definition demo_envelope :: "command_model \<Rightarrow> command_envelope" where
  "demo_envelope m = make_command ''c'' ''k'' 0 (model_command_type m) m TRIGGER_USER None None"

lemma demo_model: "command_to_model (ks_validators demo_container_services) (demo_envelope m) = Some m"
  by (rule command_to_model_dump)
    (simp_all add: demo_container_services_def demo_envelope_def make_command_def demo_validators_ok)

lemma demo_wired: "wired demo_hub_inputs demo_container_services"
  by (simp add: wired_def demo_container_services_def bus_grows_def)

lemma demo_stored:
  "get_item ''w'' (st_work_items (stored demo_container)) = Some (new_work_item ''w'' ''p'' ''Log in'')"
  "\<exists>pj. get_item ''p'' (st_projects (stored demo_container)) = Some pj"
  "repositories_of_project ''p'' (stored demo_container) = [demo_repository]"
  by (simp_all add: stored_def bus_of_def demo_container_def demo_state_def repos_def on_repos_def save_work_item_def
      save_repository_def save_project_def empty_repositories_def collection.fetch_put repositories_of_project_def
      list_all_items_def upsert_def dict_values_def get_item_def demo_repository_def new_work_item_def)

theorem handlers_are_steady_witness:
  "ct_locks (snd (handle_execute_work_item demo_container_services demo_command_draws
     (demo_envelope (ExecuteWorkItemCommand ''w'' (Some ''x''))) demo_container)) = []"
proof -
  have "(EXECUTE_WORK_ITEM, handle_execute_work_item) \<in> set command_handlers" by (simp add: command_handlers_def)
  from handlers_are_steady [OF demo_wired this] show ?thesis by (simp add: demo_container_def)
qed

theorem verification_command_never_passes_witness:
  "\<exists>reply t. handle_verify_execution demo_container_services demo_command_draws
      (demo_envelope (VerifyExecutionCommand ''x'' ''w'')) demo_container = (Inr reply, t) \<and>
    (''verdict'', JStr ''fail'') \<in> set reply"
proof -
  have "\<exists>r d rs o1. verify (kd_id demo_command_draws) (kd_now demo_command_draws)
      (ks_verification demo_container_services) (command_verification ''x'' ''w'') (ct_runs demo_container, o0) =
      (Inr (r, d), (rs, o1))" for o0
    by (simp add: verify_def Let_def demo_container_services_def)
  then obtain r d rs o1 where "verify (kd_id demo_command_draws) (kd_now demo_command_draws)
      (ks_verification demo_container_services) (command_verification ''x'' ''w'')
      (ct_runs demo_container, op_rest (opw (bus_of demo_container))) = (Inr (r, d), (rs, o1))" by blast
  then obtain reply t where run: "handle_verify_execution demo_container_services demo_command_draws
      (demo_envelope (VerifyExecutionCommand ''x'' ''w'')) demo_container = (Inr reply, t)"
    by (simp add: handle_verify_execution_def with_model_eq [OF demo_model])
  from verification_command_never_passes [OF this] run show ?thesis by auto
qed

theorem raising_executor_leaves_started_witness:
  "\<exists>t e. handle_execute_work_item demo_container_services demo_command_draws
      (demo_envelope (ExecuteWorkItemCommand ''w'' (Some ''x''))) demo_container =
      (Inl (Exn ''RuntimeError'' ''no agent''), t) \<and>
    get_item ''x'' (st_executions (stored t)) = Some e \<and> ex_status e = Ex_Started"
proof -
  obtain pj where pj: "get_item ''p'' (st_projects (stored demo_container)) = Some pj" using demo_stored(2) by blast
  have item: "wi_project_id (new_work_item ''w'' ''p'' ''Log in'') = ''p''" by (simp add: new_work_item_def)
  obtain k s1 where ws: "on_world (create_workspace (ks_workspaces demo_container_services)
      (ks_source_control demo_container_services) (kd_id demo_command_draws 5) demo_repository None ''work-item'')
      demo_container = (Inr k, s1)"
    by (simp add: on_world_def on_bus_def on_rest_def create_workspace_def demo_container_services_def)
  have locks: "dict_get (ct_locks demo_container) (rp_id demo_repository) = None" by (simp add: demo_container_def)
  have exec: "\<exists>o2. ks_executor demo_container_services q o1 = (Inl (Exn ''RuntimeError'' ''no agent''), o2)" for q o1
    by (simp add: demo_container_services_def)
  have given: "''x'' = (case Some ''x'' of Some y \<Rightarrow> y | None \<Rightarrow> kd_id demo_command_draws 0)" by simp
  from raising_executor_leaves_started [OF demo_model demo_stored(1), unfolded item,
      OF pj demo_stored(3) ws locks exec given]
  show ?thesis by blast
qed

end
