(* ===== verification/Sql.thy ===== *)
theory Sql
  imports Json "HOL-Library.Product_Lexorder"
begin

text \<open>
  What the PostgreSQL adapter (\<open>adapters/postgresql\<close>) relies on. The declarations of
  \<open>tables.py\<close> are values of type \<open>table_schema\<close>, a row is the dictionary from column names to
  values that \<open>values(...)\<close>, \<open>set_={...}\<close> and the attributes of a row object are, and a session
  of SQLAlchemy on the database is a parameter: the record \<open>sql\<close> of the statements the code
  runs, over a state of any type. \<open>sql_laws\<close> is the documented behaviour of these statements
  inside a transaction, relative to a view of the tables' contents: a write that breaks a
  column type, a primary key or a unique constraint raises, and every other statement does what
  it says. \<open>JSONB\<close> keeps the value of a document, not the order of its keys, so what is read
  back is the same document (\<open>json_same\<close>), not the same list of pairs. The last part gives a
  database of lists with these laws.
\<close>

subsection \<open>Documents up to the order of their keys\<close>

inductive json_same :: "json \<Rightarrow> json \<Rightarrow> bool" where
  same_null: "json_same JNull JNull"
| same_bool: "json_same (JBool b) (JBool b)"
| same_int: "json_same (JInt i) (JInt i)"
| same_str: "json_same (JStr s) (JStr s)"
| same_list: "list_all2 json_same xs ys \<Longrightarrow> json_same (JList xs) (JList ys)"
| same_dict: "(\<And>k. rel_option json_same (map_of d k) (map_of e k)) \<Longrightarrow> json_same (JDict d) (JDict e)"
  monos list.rel_mono option.rel_mono

inductive_simps same_simps [simp]:
  "json_same j JNull" "json_same j (JBool b)" "json_same j (JInt i)" "json_same j (JStr s)"

inductive_simps same_list_simps: "json_same j (JList xs)"

inductive_cases same_dictE: "json_same j (JDict d)"

lemma json_same_refl [simp]: "json_same j j"
proof (induction j)
  case (JDict d)
  have "rel_option json_same (map_of d k) (map_of d k)" for k
  proof (cases "map_of d k")
    case (Some v)
    then have "(k, v) \<in> set d" by (rule map_of_SomeD)
    with JDict Some show ?thesis by force
  qed simp
  then show ?case by (rule same_dict)
qed (auto simp: same_list_simps list.rel_refl_strong)

text \<open>A dictionary read back answers every lookup with the same document.\<close>

lemma same_dict_lookup:
  assumes "json_same j (JDict e)"
  obtains d where "j = JDict d" "\<And>k. rel_option json_same (map_of d k) (map_of e k)"
  using assms by (rule same_dictE) blast

lemma same_lookup:
  assumes "\<And>k. rel_option json_same (map_of d k) (map_of e k)"
  shows "map_of e k = Some (JStr s) \<Longrightarrow> map_of d k = Some (JStr s)"
    and "map_of e k = Some (JInt i) \<Longrightarrow> map_of d k = Some (JInt i)"
    and "map_of e k = Some (JBool b) \<Longrightarrow> map_of d k = Some (JBool b)"
    and "map_of e k = Some JNull \<Longrightarrow> map_of d k = Some JNull"
    and "map_of e k = Some v \<Longrightarrow> \<exists>w. map_of d k = Some w \<and> json_same w v"
  using assms [of k] by (auto simp: option_rel_Some2)

lemma same_strings: "json_same j (JList (map JStr xs)) \<longleftrightarrow> j = JList (map JStr xs)"
proof -
  have "list_all2 json_same js (map JStr xs) \<longleftrightarrow> js = map JStr xs" for js
    by (induction xs arbitrary: js) (auto simp: list_all2_Cons2)
  then show ?thesis by (auto simp: same_list_simps)
qed

subsection \<open>Columns, rows and tables\<close>

datatype column_value =
    Col_Null
  | Col_Uuid uuid
  | Col_Str string
  | Col_Int int
  | Col_Bool bool
  | Col_Float int
  | Col_Time datetime
  | Col_Json json
  | Col_Uuids "uuid list"

type_synonym row = "(string, column_value) dict"

datatype column_type = Uuid_Type | String_Type nat | Text_Type | Time_Type | Boolean_Type | Big_Integer
  | Float_Type | Jsonb

record column =
  cl_name :: string
  cl_type :: column_type
  cl_nullable :: bool

text \<open>A mapped class: its \<open>__tablename__\<close>, columns, primary key and unique constraints.\<close>

record table_schema =
  tb_name :: string
  tb_columns :: "column list"
  tb_key :: "string list"
  tb_unique :: "string list list"

definition not_null :: "string \<Rightarrow> column_type \<Rightarrow> column" where
  "not_null n t = \<lparr>cl_name = n, cl_type = t, cl_nullable = False\<rparr>"

definition null_ok :: "string \<Rightarrow> column_type \<Rightarrow> column" where
  "null_ok n t = \<lparr>cl_name = n, cl_type = t, cl_nullable = True\<rparr>"

definition col :: "row \<Rightarrow> string \<Rightarrow> column_value" where
  "col r c = (case map_of r c of None \<Rightarrow> Col_Null | Some v \<Rightarrow> v)"

definition cols :: "string list \<Rightarrow> row \<Rightarrow> column_value list" where
  "cols cs r = map (col r) cs"

fun has_type :: "column_type \<Rightarrow> column_value \<Rightarrow> bool" where
  "has_type Uuid_Type (Col_Uuid u) = True"
| "has_type (String_Type n) (Col_Str s) = True"
| "has_type Text_Type (Col_Str s) = True"
| "has_type Time_Type (Col_Time t) = True"
| "has_type Boolean_Type (Col_Bool b) = True"
| "has_type Big_Integer (Col_Int i) = True"
| "has_type Float_Type (Col_Float x) = True"
| "has_type Jsonb (Col_Json j) = True"
| "has_type _ _ = False"

text \<open>
  A row of a table: it has the columns of the class, each with a value of its type, and only a
  nullable one without.
\<close>

definition typed :: "table_schema \<Rightarrow> row \<Rightarrow> bool" where
  "typed T r \<longleftrightarrow>
     list_all2 (\<lambda>(k, v) c. k = cl_name c \<and> (has_type (cl_type c) v \<or> cl_nullable c \<and> v = Col_Null))
       r (tb_columns T)"

text \<open>
  A float is kept in hundredths, as the confidence of a code relation is. A list of \<open>UUID\<close> objects
  is no value of any column: the serializer of \<open>JSONB\<close> knows text, not \<open>UUID\<close>.
\<close>

text \<open>
  What the types do not say but the server checks: \<open>VARCHAR(n)\<close> holds \<open>n\<close> characters, no text
  and no document has the character \<open>NUL\<close>, and \<open>BIGINT\<close> has 64 bits.
\<close>

definition no_nul :: "string \<Rightarrow> bool" where
  "no_nul s \<longleftrightarrow> (\<forall>c \<in> set s. code c \<noteq> 0)"

fun json_storable :: "json \<Rightarrow> bool" where
  "json_storable (JStr s) = no_nul s"
| "json_storable (JList xs) = list_all json_storable xs"
| "json_storable (JDict d) = list_all (\<lambda>(k, v). no_nul k \<and> json_storable v) d"
| "json_storable _ = True"

fun storable_value :: "column_type \<Rightarrow> column_value \<Rightarrow> bool" where
  "storable_value (String_Type n) (Col_Str s) = (length s \<le> n \<and> no_nul s)"
| "storable_value Text_Type (Col_Str s) = no_nul s"
| "storable_value Big_Integer (Col_Int i) = (- (2 ^ 63) \<le> i \<and> i < 2 ^ 63)"
| "storable_value Jsonb (Col_Json j) = json_storable j"
| "storable_value _ _ = True"

definition storable :: "table_schema \<Rightarrow> row \<Rightarrow> bool" where
  "storable T r \<longleftrightarrow> list_all2 (\<lambda>(k, v) c. storable_value (cl_type c) v) r (tb_columns T)"

text \<open>Two rows that cannot both be in a table: a null is not equal to a null in a unique constraint.\<close>

definition clash :: "table_schema \<Rightarrow> row \<Rightarrow> row \<Rightarrow> bool" where
  "clash T r r' \<longleftrightarrow> cols (tb_key T) r = cols (tb_key T) r' \<or>
     (\<exists>u \<in> set (tb_unique T). cols u r = cols u r' \<and> Col_Null \<notin> set (cols u r))"

definition admits :: "table_schema \<Rightarrow> row set \<Rightarrow> row \<Rightarrow> bool" where
  "admits T R r \<longleftrightarrow> typed T r \<and> storable T r \<and> (\<forall>r' \<in> R. \<not> clash T r r')"

text \<open>The row with the given cells assigned.\<close>

definition row_set :: "row \<Rightarrow> row \<Rightarrow> row" where
  "row_set cells r = map (\<lambda>(k, v). (k, case map_of cells k of None \<Rightarrow> v | Some w \<Rightarrow> w)) r"

definition same_value :: "column_value \<Rightarrow> column_value \<Rightarrow> bool" where
  "same_value v w \<longleftrightarrow> (case w of Col_Json j \<Rightarrow> (\<exists>i. v = Col_Json i \<and> json_same i j) | _ \<Rightarrow> v = w)"

definition same_row :: "row \<Rightarrow> row \<Rightarrow> bool" where
  "same_row r s \<longleftrightarrow> list_all2 (\<lambda>(k, v) (l, w). k = l \<and> same_value v w) r s"

lemma same_value_simps [simp]:
  "same_value v Col_Null \<longleftrightarrow> v = Col_Null" "same_value v (Col_Uuid u) \<longleftrightarrow> v = Col_Uuid u"
  "same_value v (Col_Str s) \<longleftrightarrow> v = Col_Str s" "same_value v (Col_Int i) \<longleftrightarrow> v = Col_Int i"
  "same_value v (Col_Bool b) \<longleftrightarrow> v = Col_Bool b" "same_value v (Col_Float x) \<longleftrightarrow> v = Col_Float x" "same_value v (Col_Time t) \<longleftrightarrow> v = Col_Time t"
  "same_value v (Col_Uuids us) \<longleftrightarrow> v = Col_Uuids us"
  "same_value v (Col_Json j) \<longleftrightarrow> (\<exists>i. v = Col_Json i \<and> json_same i j)"
  by (auto simp: same_value_def)

lemma same_value_refl [simp]: "same_value v v"
  by (cases v) (auto intro: json_same_refl)

lemma same_row_refl [simp]: "same_row r r"
  by (auto simp: same_row_def intro: list_all2_refl)

lemma same_row_simps [simp]:
  "same_row r [] \<longleftrightarrow> r = []"
  "same_row r ((k, w) # s) \<longleftrightarrow> (\<exists>v r'. r = (k, v) # r' \<and> same_value v w \<and> same_row r' s)"
  by (auto simp: same_row_def list_all2_Cons2)

subsection \<open>A session\<close>

record 'd sql =
  sq_jsonb :: "json \<Rightarrow> json"
  sq_collate :: "string \<Rightarrow> string \<Rightarrow> bool"
  sq_get :: "table_schema \<Rightarrow> column_value list \<Rightarrow> 'd \<Rightarrow> row option"
  sq_select :: "table_schema \<Rightarrow> (row \<Rightarrow> bool) \<Rightarrow> (string \<times> bool) option \<Rightarrow> 'd \<Rightarrow> row list"
  sq_insert :: "table_schema \<Rightarrow> row \<Rightarrow> 'd \<Rightarrow> ('d, unit) outcome"
  sq_assign :: "table_schema \<Rightarrow> column_value list \<Rightarrow> row \<Rightarrow> 'd \<Rightarrow> ('d, unit) outcome"
  sq_upsert :: "table_schema \<Rightarrow> string list \<Rightarrow> row \<Rightarrow> row \<Rightarrow> 'd \<Rightarrow> ('d, unit) outcome"
  sq_delete :: "table_schema \<Rightarrow> (row \<Rightarrow> bool) \<Rightarrow> 'd \<Rightarrow> ('d, unit) outcome"

text \<open>
  In the order of the record: how \<open>JSONB\<close> rewrites a document, the collation of text, a row by
  primary key (\<open>session.get\<close>), \<open>SELECT ... WHERE ... ORDER BY\<close> (a column and whether it is
  descending), the flush of an added row, of the assigned attributes of the row with a key, the
  insert with \<open>ON CONFLICT (...) DO UPDATE SET\<close>, and \<open>DELETE ... WHERE\<close>.
\<close>

definition stored_row :: "'d sql \<Rightarrow> row \<Rightarrow> row" where
  "stored_row sq r = map (\<lambda>(k, v). (k, case v of Col_Json j \<Rightarrow> Col_Json (sq_jsonb sq j) | _ \<Rightarrow> v)) r"

fun value_le :: "'d sql \<Rightarrow> column_value \<Rightarrow> column_value \<Rightarrow> bool" where
  "value_le sq (Col_Time a) (Col_Time b) = (a \<le> b)"
| "value_le sq (Col_Str a) (Col_Str b) = sq_collate sq a b"
| "value_le sq _ _ = True"

definition sorted_rows :: "'d sql \<Rightarrow> (string \<times> bool) option \<Rightarrow> row list \<Rightarrow> bool" where
  "sorted_rows sq ord rs =
     (case ord of
        None \<Rightarrow> True
      | Some (c, desc) \<Rightarrow>
          sorted_wrt (\<lambda>r s. if desc then value_le sq (col s c) (col r c) else value_le sq (col r c) (col s c)) rs)"

definition write_law :: "('d \<Rightarrow> string \<Rightarrow> row set) \<Rightarrow> ('d \<Rightarrow> bool) \<Rightarrow> 'd \<Rightarrow> table_schema \<Rightarrow> row set \<Rightarrow> row
    \<Rightarrow> row \<Rightarrow> ('d, unit) outcome \<Rightarrow> bool" where
  "write_law view live d T rest r s out =
     (if admits T rest r
      then (\<exists>d'. out = (Inr (), d') \<and> live d' \<and> view d' = (view d)(tb_name T := insert s rest))
      else (\<exists>e d'. out = (Inl e, d')))"

definition read_law :: "('d \<Rightarrow> string \<Rightarrow> row set) \<Rightarrow> 'd sql \<Rightarrow> table_schema \<Rightarrow> 'd \<Rightarrow> bool" where
  "read_law view sq T d \<longleftrightarrow>
     (\<forall>k. case sq_get sq T k d of
            None \<Rightarrow> \<forall>r \<in> view d (tb_name T). cols (tb_key T) r \<noteq> k
          | Some r \<Rightarrow> r \<in> view d (tb_name T) \<and> cols (tb_key T) r = k) \<and>
     (\<forall>P ord. set (sq_select sq T P ord d) = {r \<in> view d (tb_name T). P r} \<and>
        distinct (sq_select sq T P ord d) \<and> sorted_rows sq ord (sq_select sq T P ord d))"

definition key_law :: "('d \<Rightarrow> string \<Rightarrow> row set) \<Rightarrow> table_schema \<Rightarrow> 'd \<Rightarrow> bool" where
  "key_law view T d \<longleftrightarrow>
     (\<forall>r \<in> view d (tb_name T). typed T r \<and> storable T r) \<and>
     (\<forall>r \<in> view d (tb_name T). \<forall>s \<in> view d (tb_name T). clash T r s \<longrightarrow> r = s)"

definition insert_law :: "('d \<Rightarrow> string \<Rightarrow> row set) \<Rightarrow> ('d \<Rightarrow> bool) \<Rightarrow> 'd sql \<Rightarrow> table_schema \<Rightarrow> 'd \<Rightarrow> bool" where
  "insert_law view live sq T d \<longleftrightarrow>
     (\<forall>r. write_law view live d T (view d (tb_name T)) r (stored_row sq r) (sq_insert sq T r d))"

definition assign_law :: "('d \<Rightarrow> string \<Rightarrow> row set) \<Rightarrow> ('d \<Rightarrow> bool) \<Rightarrow> 'd sql \<Rightarrow> table_schema \<Rightarrow> 'd \<Rightarrow> bool" where
  "assign_law view live sq T d \<longleftrightarrow>
     (\<forall>cells. \<forall>r \<in> view d (tb_name T).
        write_law view live d T (view d (tb_name T) - {r}) (row_set cells r) (row_set (stored_row sq cells) r)
          (sq_assign sq T (cols (tb_key T) r) cells d))"

text \<open>The insert of \<open>r\<close> where the columns \<open>K\<close> of a unique index decide, \<open>r0\<close> a row that may agree on them.\<close>

definition conflict_law :: "('d \<Rightarrow> string \<Rightarrow> row set) \<Rightarrow> ('d \<Rightarrow> bool) \<Rightarrow> 'd sql \<Rightarrow> table_schema \<Rightarrow> 'd
    \<Rightarrow> string list \<Rightarrow> row \<Rightarrow> row \<Rightarrow> bool" where
  "conflict_law view live sq T d K r cells \<longleftrightarrow>
     (\<forall>r0 \<in> view d (tb_name T). cols K r0 = cols K r \<longrightarrow>
        write_law view live d T (view d (tb_name T) - {r0}) (row_set cells r0)
          (row_set (stored_row sq cells) r0) (sq_upsert sq T K r cells d)) \<and>
     ((\<forall>r0 \<in> view d (tb_name T). cols K r0 \<noteq> cols K r) \<longrightarrow>
        write_law view live d T (view d (tb_name T)) r (stored_row sq r) (sq_upsert sq T K r cells d))"

definition upsert_law :: "('d \<Rightarrow> string \<Rightarrow> row set) \<Rightarrow> ('d \<Rightarrow> bool) \<Rightarrow> 'd sql \<Rightarrow> table_schema \<Rightarrow> 'd \<Rightarrow> bool" where
  "upsert_law view live sq T d \<longleftrightarrow>
     (\<forall>K r cells. (K = tb_key T \<or> K \<in> set (tb_unique T)) \<and> Col_Null \<notin> set (cols K r) \<longrightarrow>
        conflict_law view live sq T d K r cells)"

definition delete_law :: "('d \<Rightarrow> string \<Rightarrow> row set) \<Rightarrow> ('d \<Rightarrow> bool) \<Rightarrow> 'd sql \<Rightarrow> table_schema \<Rightarrow> 'd \<Rightarrow> bool" where
  "delete_law view live sq T d \<longleftrightarrow>
     (\<forall>P. \<exists>d'. sq_delete sq T P d = (Inr (), d') \<and> live d' \<and>
        view d' = (view d)(tb_name T := {r \<in> view d (tb_name T). \<not> P r}))"

definition sql_laws :: "table_schema set \<Rightarrow> ('d \<Rightarrow> string \<Rightarrow> row set) \<Rightarrow> ('d \<Rightarrow> bool) \<Rightarrow> 'd sql \<Rightarrow> bool" where
  "sql_laws S view live sq \<longleftrightarrow>
     (\<forall>j. json_same (sq_jsonb sq j) j) \<and>
     (\<forall>T \<in> S. \<forall>d. live d \<longrightarrow> key_law view T d \<and> read_law view sq T d \<and> insert_law view live sq T d \<and>
        assign_law view live sq T d \<and> upsert_law view live sq T d \<and> delete_law view live sq T d)"

lemma sql_jsonb: "sql_laws S view live sq \<Longrightarrow> json_same (sq_jsonb sq j) j"
  by (simp add: sql_laws_def)

lemma sql_table:
  assumes "sql_laws S view live sq" "T \<in> S" "live d"
  shows "key_law view T d" "read_law view sq T d" "insert_law view live sq T d" "assign_law view live sq T d"
    "upsert_law view live sq T d" "delete_law view live sq T d"
  using assms by (simp_all add: sql_laws_def)

lemma sql_key:
  assumes "sql_laws S view live sq" "T \<in> S" "live d" "r \<in> view d (tb_name T)" "s \<in> view d (tb_name T)"
    "clash T r s"
  shows "r = s"
  using sql_table(1) [OF assms(1-3)] assms(4-6) by (simp add: key_law_def)

lemma sql_typed:
  assumes "sql_laws S view live sq" "T \<in> S" "live d" "r \<in> view d (tb_name T)"
  shows "typed T r" "storable T r"
  using sql_table(1) [OF assms(1-3)] assms(4) by (simp_all add: key_law_def)

lemma sql_get_None:
  assumes "sql_laws S view live sq" "T \<in> S" "live d"
  shows "sq_get sq T k d = None \<longleftrightarrow> (\<forall>r \<in> view d (tb_name T). cols (tb_key T) r \<noteq> k)"
proof -
  have "case sq_get sq T k d of
      None \<Rightarrow> \<forall>r \<in> view d (tb_name T). cols (tb_key T) r \<noteq> k
    | Some r \<Rightarrow> r \<in> view d (tb_name T) \<and> cols (tb_key T) r = k"
    using sql_table(2) [OF assms] by (simp add: read_law_def)
  then show ?thesis by (auto split: option.splits)
qed

lemma sql_get:
  assumes "sql_laws S view live sq" "T \<in> S" "live d"
  shows "sq_get sq T k d = Some r \<longleftrightarrow> r \<in> view d (tb_name T) \<and> cols (tb_key T) r = k"
proof -
  have l: "case sq_get sq T k d of
      None \<Rightarrow> \<forall>r \<in> view d (tb_name T). cols (tb_key T) r \<noteq> k
    | Some r \<Rightarrow> r \<in> view d (tb_name T) \<and> cols (tb_key T) r = k"
    using sql_table(2) [OF assms] by (simp add: read_law_def)
  show ?thesis
  proof (cases "sq_get sq T k d")
    case (Some s)
    with l have s: "s \<in> view d (tb_name T)" "cols (tb_key T) s = k" by simp_all
    have "s = r" if "r \<in> view d (tb_name T)" "cols (tb_key T) r = k"
      by (rule sql_key [OF assms s(1) that(1)]) (simp add: clash_def s(2) that(2))
    then show ?thesis using Some s by auto
  next
    case None
    with l show ?thesis by simp
  qed
qed

lemma sql_select:
  assumes "sql_laws S view live sq" "T \<in> S" "live d"
  shows "set (sq_select sq T P ord d) = {r \<in> view d (tb_name T). P r}" "distinct (sq_select sq T P ord d)"
    "sorted_rows sq ord (sq_select sq T P ord d)"
  using sql_table(2) [OF assms] by (simp_all add: read_law_def)

lemma sql_insert:
  assumes "sql_laws S view live sq" "T \<in> S" "live d"
  shows "write_law view live d T (view d (tb_name T)) r (stored_row sq r) (sq_insert sq T r d)"
  using sql_table(3) [OF assms] by (simp add: insert_law_def)

lemma sql_assign:
  assumes "sql_laws S view live sq" "T \<in> S" "live d" "r \<in> view d (tb_name T)" "cols (tb_key T) r = k"
  shows "write_law view live d T (view d (tb_name T) - {r}) (row_set cells r) (row_set (stored_row sq cells) r)
    (sq_assign sq T k cells d)"
  using sql_table(4) [OF assms(1-3)] assms(4,5) by (auto simp: assign_law_def)

lemma sql_delete:
  assumes "sql_laws S view live sq" "T \<in> S" "live d"
  obtains d' where "sq_delete sq T P d = (Inr (), d')" "live d'"
    "view d' = (view d)(tb_name T := {r \<in> view d (tb_name T). \<not> P r})"
  using sql_table(6) [OF assms] unfolding delete_law_def by blast

lemma sql_upsert:
  assumes "sql_laws S view live sq" "T \<in> S" "live d" "K = tb_key T \<or> K \<in> set (tb_unique T)"
    "Col_Null \<notin> set (cols K r)"
  shows "\<lbrakk>r0 \<in> view d (tb_name T); cols K r0 = cols K r\<rbrakk> \<Longrightarrow>
      write_law view live d T (view d (tb_name T) - {r0}) (row_set cells r0) (row_set (stored_row sq cells) r0)
        (sq_upsert sq T K r cells d)"
    and "\<lbrakk>\<And>r0. r0 \<in> view d (tb_name T) \<Longrightarrow> cols K r0 \<noteq> cols K r\<rbrakk> \<Longrightarrow>
      write_law view live d T (view d (tb_name T)) r (stored_row sq r) (sq_upsert sq T K r cells d)"
proof -
  have l: "conflict_law view live sq T d K r cells"
    using sql_table(5) [OF assms(1-3), unfolded upsert_law_def, THEN spec, of K, THEN spec, of r, THEN spec, of cells]
      assms(4,5) by simp
  show "\<lbrakk>r0 \<in> view d (tb_name T); cols K r0 = cols K r\<rbrakk> \<Longrightarrow>
      write_law view live d T (view d (tb_name T) - {r0}) (row_set cells r0) (row_set (stored_row sq cells) r0)
        (sq_upsert sq T K r cells d)"
    using l unfolding conflict_law_def by blast
  show "\<lbrakk>\<And>r0. r0 \<in> view d (tb_name T) \<Longrightarrow> cols K r0 \<noteq> cols K r\<rbrakk> \<Longrightarrow>
      write_law view live d T (view d (tb_name T)) r (stored_row sq r) (sq_upsert sq T K r cells d)"
    using l unfolding conflict_law_def by blast
qed

lemma write_lawE:
  assumes "write_law view live d T rest r s out" "admits T rest r"
  obtains d' where "out = (Inr (), d')" "live d'" "view d' = (view d)(tb_name T := insert s rest)"
  using assms unfolding write_law_def by auto

lemma write_law_raises:
  assumes "write_law view live d T rest r s out" "\<not> admits T rest r"
  obtains e d' where "out = (Inl e, d')"
  using assms unfolding write_law_def by auto

lemma stored_simps [simp]:
  "stored_row sq [] = []" "stored_row sq ((k, Col_Null) # r) = (k, Col_Null) # stored_row sq r"
  "stored_row sq ((k, Col_Uuid u) # r) = (k, Col_Uuid u) # stored_row sq r"
  "stored_row sq ((k, Col_Str s) # r) = (k, Col_Str s) # stored_row sq r"
  "stored_row sq ((k, Col_Int i) # r) = (k, Col_Int i) # stored_row sq r"
  "stored_row sq ((k, Col_Bool b) # r) = (k, Col_Bool b) # stored_row sq r"
  "stored_row sq ((k, Col_Float x) # r) = (k, Col_Float x) # stored_row sq r"
  "stored_row sq ((k, Col_Uuids us) # r) = (k, Col_Uuids us) # stored_row sq r"
  "stored_row sq ((k, Col_Time t) # r) = (k, Col_Time t) # stored_row sq r"
  "stored_row sq ((k, Col_Json j) # r) = (k, Col_Json (sq_jsonb sq j)) # stored_row sq r"
  by (simp_all add: stored_row_def)

lemma same_stored: "sql_laws S view live sq \<Longrightarrow> same_row (stored_row sq r) r"
proof (induction r)
  case (Cons kv r)
  then show ?case
    using sql_jsonb [OF Cons.prems] by (cases kv; cases "snd kv") (auto simp: stored_row_def)
qed simp

subsection \<open>A database of lists\<close>

text \<open>
  The statements computed on one list of rows per table: a database the laws are true of, for the
  tables whose names are distinct.
\<close>

type_synonym list_database = "(string, row list) dict"

definition table_rows :: "list_database \<Rightarrow> string \<Rightarrow> row list" where
  "table_rows d t = (case map_of d t of None \<Rightarrow> [] | Some rs \<Rightarrow> rs)"

fun value_rank :: "column_value \<Rightarrow> int \<times> string" where
  "value_rank (Col_Time t) = (t, [])"
| "value_rank (Col_Str s) = (0, s)"
| "value_rank _ = (0, [])"

definition list_write :: "table_schema \<Rightarrow> row list \<Rightarrow> row \<Rightarrow> row list \<Rightarrow> list_database
    \<Rightarrow> (list_database, unit) outcome" where
  "list_write T rest r result d =
     (if admits T (set rest) r then (Inr (), dict_set (tb_name T) result d)
      else (Inl (Exn ''IntegrityError'' (tb_name T)), d))"

definition list_replace :: "row \<Rightarrow> row \<Rightarrow> row list \<Rightarrow> row list" where
  "list_replace r s rs = map (\<lambda>x. if x = r then s else x) rs"

definition list_assign :: "table_schema \<Rightarrow> row option \<Rightarrow> row \<Rightarrow> list_database \<Rightarrow> (list_database, unit) outcome" where
  "list_assign T found cells d =
     (let rs = table_rows d (tb_name T) in
      case found of
        None \<Rightarrow> (Inr (), d)
      | Some r \<Rightarrow> list_write T (removeAll r rs) (row_set cells r) (list_replace r (row_set cells r) rs) d)"

definition list_sql :: "list_database sql" where
  "list_sql =
     \<lparr>sq_jsonb = (\<lambda>j. j), sq_collate = (\<lambda>a b. a \<le> b),
      sq_get = (\<lambda>T k d. List.find (\<lambda>r. cols (tb_key T) r = k) (table_rows d (tb_name T))),
      sq_select = (\<lambda>T P ord d.
        (let rs = filter P (table_rows d (tb_name T)) in
         case ord of
           None \<Rightarrow> rs
         | Some (c, desc) \<Rightarrow>
             (let ss = sort_key (\<lambda>r. value_rank (col r c)) rs in if desc then rev ss else ss))),
      sq_insert = (\<lambda>T r d.
        (let rs = table_rows d (tb_name T) in list_write T rs r (rs @ [r]) d)),
      sq_assign = (\<lambda>T k cells d.
        list_assign T (List.find (\<lambda>r. cols (tb_key T) r = k) (table_rows d (tb_name T))) cells d),
      sq_upsert = (\<lambda>T K r cells d.
        (let rs = table_rows d (tb_name T) in
         case List.find (\<lambda>r0. cols K r0 = cols K r) rs of
           None \<Rightarrow> list_write T rs r (rs @ [r]) d
         | Some r0 \<Rightarrow> list_assign T (Some r0) cells d)),
      sq_delete = (\<lambda>T P d.
        (Inr (), dict_set (tb_name T) (filter (\<lambda>r. \<not> P r) (table_rows d (tb_name T))) d))\<rparr>"

lemma list_sql_simps:
  "sq_get list_sql T k d = List.find (\<lambda>r. cols (tb_key T) r = k) (table_rows d (tb_name T))"
  "sq_select list_sql T P None d = filter P (table_rows d (tb_name T))"
  "sq_select list_sql T P (Some (c, desc)) d =
     (if desc then rev (sort_key (\<lambda>r. value_rank (col r c)) (filter P (table_rows d (tb_name T))))
      else sort_key (\<lambda>r. value_rank (col r c)) (filter P (table_rows d (tb_name T))))"
  "sq_insert list_sql T r d = list_write T (table_rows d (tb_name T)) r (table_rows d (tb_name T) @ [r]) d"
  "sq_assign list_sql T k cells d =
     list_assign T (List.find (\<lambda>r. cols (tb_key T) r = k) (table_rows d (tb_name T))) cells d"
  "sq_upsert list_sql T K r cells d =
     (case List.find (\<lambda>r0. cols K r0 = cols K r) (table_rows d (tb_name T)) of
        None \<Rightarrow> list_write T (table_rows d (tb_name T)) r (table_rows d (tb_name T) @ [r]) d
      | Some r0 \<Rightarrow> list_assign T (Some r0) cells d)"
  "sq_delete list_sql T P d = (Inr (), dict_set (tb_name T) (filter (\<lambda>r. \<not> P r) (table_rows d (tb_name T))) d)"
  "sq_jsonb list_sql j = j"
  by (simp_all add: list_sql_def Let_def)

text \<open>Every row is one its table takes, and no two rows of a table clash.\<close>

definition list_view :: "list_database \<Rightarrow> string \<Rightarrow> row set" where
  "list_view d t = set (table_rows d t)"

definition rows_ok :: "table_schema \<Rightarrow> row list \<Rightarrow> bool" where
  "rows_ok T rs \<longleftrightarrow> sorted_wrt (\<lambda>r s. \<not> clash T r s) rs \<and> list_all (\<lambda>r. typed T r \<and> storable T r) rs"

definition list_live :: "table_schema list \<Rightarrow> list_database \<Rightarrow> bool" where
  "list_live S d \<longleftrightarrow> list_all (\<lambda>T. rows_ok T (table_rows d (tb_name T))) S"

lemma clash_sym: "clash T r s \<longleftrightarrow> clash T s r"
  unfolding clash_def by metis

lemma clash_refl [simp]: "clash T r r"
  by (simp add: clash_def)

lemma table_rows_put [simp]: "table_rows (dict_set t rs d) t' = (if t' = t then rs else table_rows d t')"
  by (simp add: table_rows_def update_conv')

lemma list_view_put: "list_view (dict_set t rs d) = (list_view d)(t := set rs)"
  by (rule ext) (simp add: list_view_def)

lemma live_put:
  assumes "distinct (map tb_name S)" "list_live S d" "T \<in> set S" "rows_ok T rs"
  shows "list_live S (dict_set (tb_name T) rs d)"
proof -
  have "U = T" if "U \<in> set S" "tb_name U = tb_name T" for U
    using assms(1,3) that by (auto simp: distinct_map inj_on_def)
  then show ?thesis using assms(2,4) by (auto simp: list_live_def list_all_iff)
qed

lemma live_rows_ok: "\<lbrakk>list_live S d; T \<in> set S\<rbrakk> \<Longrightarrow> rows_ok T (table_rows d (tb_name T))"
  by (simp add: list_live_def list_all_iff)

lemma live_rows: "\<lbrakk>list_live S d; T \<in> set S\<rbrakk> \<Longrightarrow> sorted_wrt (\<lambda>r s. \<not> clash T r s) (table_rows d (tb_name T))"
  using live_rows_ok by (simp add: rows_ok_def)

lemma live_typed: "\<lbrakk>list_live S d; T \<in> set S; r \<in> set (table_rows d (tb_name T))\<rbrakk> \<Longrightarrow> typed T r \<and> storable T r"
  using live_rows_ok by (simp add: rows_ok_def list_all_iff)

lemma apart_rows: "\<lbrakk>sorted_wrt (\<lambda>r s. \<not> clash T r s) rs; r \<in> set rs; s \<in> set rs; clash T r s\<rbrakk> \<Longrightarrow> r = s"
  by (induction rs) (auto simp: clash_sym)

lemma apart_distinct: "sorted_wrt (\<lambda>r s. \<not> clash T r s) rs \<Longrightarrow> distinct rs"
  by (induction rs) auto

lemma apart_replace:
  assumes "sorted_wrt (\<lambda>r s. \<not> clash T r s) rs" "\<And>x. \<lbrakk>x \<in> set rs; x \<noteq> r\<rbrakk> \<Longrightarrow> \<not> clash T s x"
  shows "sorted_wrt (\<lambda>r s. \<not> clash T r s) (list_replace r s rs)"
  using assms
proof (induction rs)
  case (Cons x rs)
  have "r \<notin> set rs" if "x = r" using Cons.prems(1) that by auto
  with Cons show ?case by (auto simp: list_replace_def clash_sym [of T _ s])
qed (simp add: list_replace_def)

lemma set_replace: "\<lbrakk>r \<in> set rs\<rbrakk> \<Longrightarrow> set (list_replace r s rs) = insert s (set rs - {r})"
  by (auto simp: list_replace_def)

lemma list_write_law:
  assumes "distinct (map tb_name S)" "list_live S d" "T \<in> set S"
    and "rest0 = set rest" "set result = insert s rest0"
    and "admits T rest0 r \<Longrightarrow> rows_ok T result"
  shows "write_law list_view (list_live S) d T rest0 r s (list_write T rest r result d)"
  using assms live_put [OF assms(1-3)] by (auto simp: write_law_def list_write_def list_view_put)

lemma stored_list [simp]: "stored_row list_sql r = r"
  by (induction r) (auto simp: stored_row_def list_sql_def split: column_value.splits)

lemma value_rank_le: "value_rank v \<le> value_rank w \<Longrightarrow> value_le list_sql v w"
  by (cases v; cases w) (auto simp: list_sql_def)

lemma list_assign_law:
  assumes "distinct (map tb_name S)" "list_live S d" "T \<in> set S" "r \<in> list_view d (tb_name T)"
  shows "write_law list_view (list_live S) d T (list_view d (tb_name T) - {r}) (row_set cells r)
    (row_set (stored_row list_sql cells) r) (list_assign T (Some r) cells d)"
proof -
  let ?rs = "table_rows d (tb_name T)"
  have r: "r \<in> set ?rs" using assms(4) by (simp add: list_view_def)
  show ?thesis
    unfolding list_assign_def Let_def option.case stored_list
  proof (rule list_write_law [OF assms(1-3)])
    assume "admits T (list_view d (tb_name T) - {r}) (row_set cells r)"
    then show "rows_ok T (list_replace r (row_set cells r) ?rs)"
      unfolding rows_ok_def
      by (intro conjI apart_replace live_rows [OF assms(2,3)])
        (use live_typed [OF assms(2,3)] in \<open>auto simp: admits_def list_view_def list_all_iff list_replace_def\<close>)
  qed (use r in \<open>auto simp: list_view_def set_replace\<close>)
qed

lemma rows_ok_snoc: "\<lbrakk>rows_ok T rs; admits T (set rs) r\<rbrakk> \<Longrightarrow> rows_ok T (rs @ [r])"
  by (auto simp: rows_ok_def sorted_wrt_append admits_def clash_sym [of T _ r])

lemma list_insert_law:
  assumes "distinct (map tb_name S)" "list_live S d" "T \<in> set S"
  shows "write_law list_view (list_live S) d T (list_view d (tb_name T)) r (stored_row list_sql r)
    (list_write T (table_rows d (tb_name T)) r (table_rows d (tb_name T) @ [r]) d)"
  by (rule list_write_law [OF assms])
    (auto simp: list_view_def intro: rows_ok_snoc live_rows_ok [OF assms(2,3)])

lemma list_found:
  assumes "list_live S d" "T \<in> set S" "r \<in> list_view d (tb_name T)" "K = tb_key T \<or> K \<in> set (tb_unique T) \<and> Col_Null \<notin> set (cols K r)"
    and "cols K r = k"
  shows "List.find (\<lambda>s. cols K s = k) (table_rows d (tb_name T)) = Some r"
proof (cases "List.find (\<lambda>s. cols K s = k) (table_rows d (tb_name T))")
  case (Some s)
  then have "s \<in> set (table_rows d (tb_name T))" "cols K s = k" using find_SomeD by fastforce+
  with assms have "s = r"
    by (intro apart_rows [OF live_rows [OF assms(1,2)]]) (auto simp: clash_def list_view_def)
  with Some show ?thesis by simp
qed (use assms in \<open>auto simp: find_None_iff list_view_def\<close>)

lemma list_read_law:
  assumes "list_live S d" "T \<in> set S"
  shows "read_law list_view list_sql T d"
proof -
  note apart = live_rows [OF assms]
  have "case sq_get list_sql T k d of
      None \<Rightarrow> \<forall>r \<in> list_view d (tb_name T). cols (tb_key T) r \<noteq> k
    | Some r \<Rightarrow> r \<in> list_view d (tb_name T) \<and> cols (tb_key T) r = k" for k
  proof (cases "List.find (\<lambda>r. cols (tb_key T) r = k) (table_rows d (tb_name T))")
    case None
    then have "\<forall>r \<in> set (table_rows d (tb_name T)). cols (tb_key T) r \<noteq> k" by (auto simp: find_None_iff)
    with None show ?thesis by (simp add: list_sql_simps(1) list_view_def)
  next
    case (Some r)
    from find_SomeD [OF this] Some show ?thesis by (simp add: list_sql_simps(1) list_view_def)
  qed
  moreover have "set (sq_select list_sql T P ord d) = {r \<in> list_view d (tb_name T). P r} \<and>
    distinct (sq_select list_sql T P ord d)" for P ord
    using apart_distinct [OF apart] by (cases ord) (auto simp: list_sql_simps(2,3) list_view_def split: if_splits)
  moreover have "sorted_rows list_sql ord (sq_select list_sql T P ord d)" for P ord
  proof (cases ord)
    case (Some cd)
    let ?ss = "sort_key (\<lambda>r. value_rank (col r (fst cd))) (filter P (table_rows d (tb_name T)))"
    have "sorted_wrt (\<lambda>r s. value_le list_sql (col r (fst cd)) (col s (fst cd))) ?ss"
      by (rule sorted_wrt_mono_rel [OF _ sorted_sort_key [unfolded sorted_map]]) (rule value_rank_le)
    then show ?thesis
      using Some by (cases cd) (auto simp: sorted_rows_def list_sql_simps sorted_wrt_rev)
  qed (simp add: sorted_rows_def)
  ultimately show ?thesis by (simp add: read_law_def)
qed

lemma list_conflict_law:
  assumes "distinct (map tb_name S)" "list_live S d" "T \<in> set S"
    and "K = tb_key T \<or> K \<in> set (tb_unique T)" "Col_Null \<notin> set (cols K r)"
  shows "conflict_law list_view (list_live S) list_sql T d K r cells"
proof -
  have "sq_upsert list_sql T K r cells d = list_assign T (Some r0) cells d"
    if "r0 \<in> list_view d (tb_name T)" "cols K r0 = cols K r" for r0
    using list_found [OF assms(2,3) that(1), of K "cols K r"] assms(4,5) that(2) by (auto simp: list_sql_simps)
  moreover have "sq_upsert list_sql T K r cells d =
      list_write T (table_rows d (tb_name T)) r (table_rows d (tb_name T) @ [r]) d"
    if "\<forall>r0 \<in> list_view d (tb_name T). cols K r0 \<noteq> cols K r"
  proof -
    have "List.find (\<lambda>r0. cols K r0 = cols K r) (table_rows d (tb_name T)) = None"
      using that by (auto simp: find_None_iff list_view_def)
    then show ?thesis by (simp add: list_sql_simps)
  qed
  ultimately show ?thesis
    using list_assign_law [OF assms(1-3)] list_insert_law [OF assms(1-3), of r] by (simp add: conflict_law_def)
qed

lemma list_delete_law:
  assumes "distinct (map tb_name S)" "list_live S d" "T \<in> set S"
  shows "delete_law list_view (list_live S) list_sql T d"
  unfolding delete_law_def list_sql_simps
proof -
  have "rows_ok T (filter P (table_rows d (tb_name T)))" for P
    using live_rows_ok [OF assms(2,3)] by (auto simp: rows_ok_def list_all_iff sorted_wrt_filter)
  from live_put [OF assms this]
  show "\<forall>P. \<exists>d'. (Inr (), dict_set (tb_name T) (filter (\<lambda>r. \<not> P r) (table_rows d (tb_name T))) d) = (Inr (), d') \<and>
      list_live S d' \<and> list_view d' = (list_view d)(tb_name T := {r \<in> list_view d (tb_name T). \<not> P r})"
    by (simp add: list_view_put) (simp add: list_view_def)
qed

lemma list_database_laws:
  assumes "distinct (map tb_name S)"
  shows "sql_laws (set S) list_view (list_live S) list_sql"
proof -
  have "key_law list_view T d" if "T \<in> set S" "list_live S d" for T d
    using apart_rows [OF live_rows [OF that(2,1)]] live_typed [OF that(2,1)]
    by (auto simp: key_law_def list_view_def)
  moreover have "insert_law list_view (list_live S) list_sql T d" if "T \<in> set S" "list_live S d" for T d
    using list_insert_law [OF assms that(2,1)] by (simp add: insert_law_def list_sql_simps)
  moreover have "assign_law list_view (list_live S) list_sql T d" if "T \<in> set S" "list_live S d" for T d
    using list_assign_law [OF assms that(2,1)] list_found [OF that(2,1), of _ "tb_key T"]
    by (simp add: assign_law_def list_sql_simps)
  moreover have "upsert_law list_view (list_live S) list_sql T d" if "T \<in> set S" "list_live S d" for T d
    using list_conflict_law [OF assms that(2,1)] by (simp add: upsert_law_def)
  ultimately show ?thesis
    using list_read_law list_delete_law [OF assms] by (simp add: sql_laws_def list_sql_simps)
qed

end
