(* ===== verification/Tables.thy ===== *)
theory Tables
  imports Sql
begin

text \<open>
  The declarations of \<open>adapters/postgresql/tables.py\<close>: for every mapped class the name of its
  table, its columns with their types, the primary key and the unique constraints (a column
  declared \<open>unique=True\<close> is a constraint of its own). Indexes say nothing about the contents, and
  there are no foreign keys: references between the tables are soft.
\<close>

definition projects_table :: table_schema where
  "projects_table =
     \<lparr>tb_name = ''projects'', tb_columns =
      [not_null ''id'' Uuid_Type, not_null ''name'' (String_Type 255), null_ok ''description'' Text_Type,
       not_null ''status'' (String_Type 50), null_ok ''parent_id'' Uuid_Type, not_null ''repositories'' Jsonb,
       not_null ''external_refs'' Jsonb],
      tb_key = [''id''], tb_unique = []\<rparr>"

definition repositories_table :: table_schema where
  "repositories_table =
     \<lparr>tb_name = ''repositories'', tb_columns =
      [not_null ''id'' Uuid_Type, not_null ''project_id'' Uuid_Type, not_null ''name'' (String_Type 255),
       not_null ''clone_url'' Text_Type, not_null ''default_branch'' (String_Type 255),
       null_ok ''current_revision'' (String_Type 255), not_null ''external_refs'' Jsonb],
      tb_key = [''id''], tb_unique = []\<rparr>"

definition actors_table :: table_schema where
  "actors_table =
     \<lparr>tb_name = ''actors'', tb_columns =
      [not_null ''id'' Uuid_Type, not_null ''actor_type'' (String_Type 50),
       not_null ''display_name'' (String_Type 255), not_null ''capabilities'' Jsonb],
      tb_key = [''id''], tb_unique = []\<rparr>"

definition work_items_table :: table_schema where
  "work_items_table =
     \<lparr>tb_name = ''work_items'', tb_columns =
      [not_null ''id'' Uuid_Type, not_null ''project_id'' Uuid_Type, not_null ''type'' (String_Type 50),
       not_null ''title'' (String_Type 500), not_null ''description'' Text_Type,
       null_ok ''priority'' (String_Type 50), null_ok ''parent_id'' Uuid_Type, null_ok ''assignee'' Uuid_Type,
       null_ok ''assignment'' Jsonb, not_null ''acceptance_criteria'' Jsonb, not_null ''requirement_refs'' Jsonb,
       not_null ''external_refs'' Jsonb, not_null ''human_work_status'' (String_Type 50),
       not_null ''implementation_status'' (String_Type 50), not_null ''verification_status'' (String_Type 50),
       not_null ''pull_request_status'' (String_Type 50)],
      tb_key = [''id''], tb_unique = []\<rparr>"

definition requirements_table :: table_schema where
  "requirements_table =
     \<lparr>tb_name = ''requirements'', tb_columns =
      [not_null ''id'' Uuid_Type, not_null ''project_id'' Uuid_Type, null_ok ''key'' (String_Type 255),
       not_null ''title'' (String_Type 500), not_null ''description'' Text_Type,
       not_null ''status'' (String_Type 50), null_ok ''priority'' (String_Type 50),
       null_ok ''parent_id'' Uuid_Type, not_null ''derived_from'' Jsonb, not_null ''acceptance_criteria'' Jsonb,
       not_null ''constraints'' Jsonb, not_null ''source_refs'' Jsonb],
      tb_key = [''id''], tb_unique = []\<rparr>"

definition documents_table :: table_schema where
  "documents_table =
     \<lparr>tb_name = ''documents'', tb_columns =
      [not_null ''id'' Uuid_Type, not_null ''project_id'' Uuid_Type, not_null ''type'' (String_Type 50),
       not_null ''title'' (String_Type 500), not_null ''source'' Jsonb, null_ok ''current_version_id'' Uuid_Type,
       not_null ''external_refs'' Jsonb],
      tb_key = [''id''], tb_unique = []\<rparr>"

definition document_versions_table :: table_schema where
  "document_versions_table =
     \<lparr>tb_name = ''document_versions'', tb_columns =
      [not_null ''id'' Uuid_Type, not_null ''document_id'' Uuid_Type, null_ok ''source_version'' (String_Type 255),
       null_ok ''repository_id'' Uuid_Type, null_ok ''commit_sha'' (String_Type 255),
       not_null ''checksum'' (String_Type 255), not_null ''ingested_at'' Time_Type,
       null_ok ''content_uri'' Text_Type],
      tb_key = [''id''], tb_unique = []\<rparr>"

definition document_nodes_table :: table_schema where
  "document_nodes_table =
     \<lparr>tb_name = ''document_nodes'', tb_columns =
      [not_null ''id'' Uuid_Type, not_null ''version_id'' Uuid_Type, not_null ''node_type'' (String_Type 50),
       null_ok ''title'' (String_Type 500), not_null ''heading_path'' Jsonb, not_null ''content'' Text_Type,
       null_ok ''parent_id'' Uuid_Type, not_null ''child_ids'' Jsonb, not_null ''code_refs'' Jsonb,
       not_null ''requirement_refs'' Jsonb, not_null ''work_item_refs'' Jsonb, not_null ''links'' Jsonb,
       not_null ''unresolved_refs'' Jsonb],
      tb_key = [''id''], tb_unique = []\<rparr>"

definition decisions_table :: table_schema where
  "decisions_table =
     \<lparr>tb_name = ''decisions'', tb_columns =
      [not_null ''id'' Uuid_Type, not_null ''project_id'' Uuid_Type, not_null ''title'' (String_Type 500),
       not_null ''context'' Text_Type, not_null ''decision'' Text_Type, not_null ''alternatives'' Jsonb,
       not_null ''consequences'' Jsonb, not_null ''status'' (String_Type 50), not_null ''source_refs'' Jsonb,
       not_null ''external_refs'' Jsonb],
      tb_key = [''id''], tb_unique = []\<rparr>"

definition executions_table :: table_schema where
  "executions_table =
     \<lparr>tb_name = ''executions'', tb_columns =
      [not_null ''id'' Uuid_Type, not_null ''workflow_id'' Uuid_Type, not_null ''work_item_id'' Uuid_Type,
       not_null ''executor_id'' Uuid_Type, null_ok ''context_capsule_id'' Uuid_Type,
       not_null ''status'' (String_Type 50), not_null ''started_at'' Time_Type, null_ok ''completed_at'' Time_Type,
       null_ok ''parent_execution_id'' Uuid_Type, not_null ''correlation_id'' Uuid_Type,
       null_ok ''base_branch'' (String_Type 200), null_ok ''working_branch'' (String_Type 200),
       null_ok ''worktree_path'' (String_Type 500)],
      tb_key = [''id''], tb_unique = []\<rparr>"

definition artifacts_table :: table_schema where
  "artifacts_table =
     \<lparr>tb_name = ''artifacts'', tb_columns =
      [not_null ''id'' Uuid_Type, not_null ''project_id'' Uuid_Type, not_null ''artifact_type'' (String_Type 50),
       null_ok ''uri'' Text_Type, null_ok ''checksum'' (String_Type 255), null_ok ''repository_id'' Uuid_Type,
       null_ok ''commit_sha'' (String_Type 255), null_ok ''execution_id'' Uuid_Type],
      tb_key = [''id''], tb_unique = []\<rparr>"

definition evidence_table :: table_schema where
  "evidence_table =
     \<lparr>tb_name = ''evidence'', tb_columns =
      [not_null ''id'' Uuid_Type, not_null ''execution_id'' Uuid_Type, not_null ''evidence_type'' (String_Type 50),
       not_null ''source'' Text_Type, null_ok ''artifact_id'' Uuid_Type, not_null ''payload'' Jsonb],
      tb_key = [''id''], tb_unique = []\<rparr>"

definition verification_results_table :: table_schema where
  "verification_results_table =
     \<lparr>tb_name = ''verification_results'', tb_columns =
      [not_null ''id'' Uuid_Type, not_null ''execution_id'' Uuid_Type, not_null ''verdict'' (String_Type 50),
       not_null ''requirement_results'' Jsonb, not_null ''test_results'' Jsonb,
       not_null ''architecture_results'' Jsonb, not_null ''static_analysis_results'' Jsonb,
       not_null ''issues'' Jsonb, not_null ''evidence_refs'' Jsonb],
      tb_key = [''id''], tb_unique = []\<rparr>"

definition external_references_table :: table_schema where
  "external_references_table =
     \<lparr>tb_name = ''external_references'', tb_columns =
      [not_null ''id'' Uuid_Type, not_null ''owner_type'' (String_Type 50), not_null ''owner_id'' Uuid_Type,
       not_null ''provider'' (String_Type 100), not_null ''external_id'' (String_Type 500),
       null_ok ''external_type'' (String_Type 100), null_ok ''url'' Text_Type,
       null_ok ''namespace'' (String_Type 255)],
      tb_key = [''id''], tb_unique = [[''owner_type'', ''owner_id'', ''provider'', ''external_id'']]\<rparr>"

definition idempotency_keys_table :: table_schema where
  "idempotency_keys_table =
     \<lparr>tb_name = ''idempotency_keys'', tb_columns =
      [not_null ''idempotency_key'' (String_Type 500), null_ok ''event_id'' Uuid_Type,
       not_null ''processed_at'' Time_Type],
      tb_key = [''idempotency_key''], tb_unique = []\<rparr>"

definition event_log_table :: table_schema where
  "event_log_table =
     \<lparr>tb_name = ''event_log'', tb_columns =
      [not_null ''id'' Big_Integer, not_null ''event_id'' Uuid_Type, not_null ''event_type'' (String_Type 100),
       null_ok ''project_id'' Uuid_Type, not_null ''occurred_at'' Time_Type, not_null ''correlation_id'' Uuid_Type,
       null_ok ''causation_id'' Uuid_Type, not_null ''source'' (String_Type 255),
       null_ok ''idempotency_key'' (String_Type 500), not_null ''payload'' Jsonb],
      tb_key = [''id''], tb_unique = [[''event_id'']]\<rparr>"

definition repository_snapshots_table :: table_schema where
  "repository_snapshots_table =
     \<lparr>tb_name = ''repository_snapshots'', tb_columns =
      [not_null ''id'' Uuid_Type, not_null ''repository_id'' Uuid_Type, not_null ''revision'' (String_Type 255),
       not_null ''captured_at'' Time_Type, not_null ''tree'' Jsonb, not_null ''languages'' Jsonb,
       not_null ''manifest_files'' Jsonb, not_null ''dockerfiles'' Jsonb, not_null ''compose_files'' Jsonb,
       not_null ''ci_configuration'' Jsonb, not_null ''documentation_roots'' Jsonb, not_null ''test_roots'' Jsonb],
      tb_key = [''id''], tb_unique = [[''repository_id'', ''revision'']]\<rparr>"

definition repository_change_sets_table :: table_schema where
  "repository_change_sets_table =
     \<lparr>tb_name = ''repository_change_sets'', tb_columns =
      [not_null ''id'' Uuid_Type, not_null ''repository_id'' Uuid_Type, null_ok ''old_revision'' (String_Type 255),
       not_null ''new_revision'' (String_Type 255), not_null ''detected_at'' Time_Type, not_null ''files'' Jsonb],
      tb_key = [''id''], tb_unique = []\<rparr>"

definition software_domains_table :: table_schema where
  "software_domains_table =
     \<lparr>tb_name = ''software_domains'', tb_columns =
      [not_null ''id'' Uuid_Type, not_null ''project_id'' Uuid_Type, not_null ''name'' (String_Type 255),
       null_ok ''description'' Text_Type, not_null ''system_ids'' Jsonb, not_null ''external_refs'' Jsonb],
      tb_key = [''id''], tb_unique = []\<rparr>"

definition systems_table :: table_schema where
  "systems_table =
     \<lparr>tb_name = ''systems'', tb_columns =
      [not_null ''id'' Uuid_Type, not_null ''project_id'' Uuid_Type, null_ok ''domain_id'' Uuid_Type,
       not_null ''name'' (String_Type 255), null_ok ''description'' Text_Type, not_null ''component_ids'' Jsonb,
       not_null ''external_refs'' Jsonb],
      tb_key = [''id''], tb_unique = []\<rparr>"

definition software_components_table :: table_schema where
  "software_components_table =
     \<lparr>tb_name = ''software_components'', tb_columns =
      [not_null ''id'' Uuid_Type, not_null ''project_id'' Uuid_Type, not_null ''name'' (String_Type 500),
       not_null ''component_type'' (String_Type 50), not_null ''repository_ids'' Jsonb,
       null_ok ''owner'' Uuid_Type, null_ok ''lifecycle'' (String_Type 100), not_null ''provenance'' Jsonb,
       not_null ''external_refs'' Jsonb],
      tb_key = [''id''], tb_unique = []\<rparr>"

definition interfaces_table :: table_schema where
  "interfaces_table =
     \<lparr>tb_name = ''interfaces'', tb_columns =
      [not_null ''id'' Uuid_Type, not_null ''component_id'' Uuid_Type, not_null ''type'' (String_Type 50),
       not_null ''name'' (String_Type 500), null_ok ''schema_ref'' Text_Type, not_null ''external_refs'' Jsonb],
      tb_key = [''id''], tb_unique = []\<rparr>"

definition resources_table :: table_schema where
  "resources_table =
     \<lparr>tb_name = ''resources'', tb_columns =
      [not_null ''id'' Uuid_Type, not_null ''project_id'' Uuid_Type, not_null ''name'' (String_Type 500),
       not_null ''resource_type'' (String_Type 50), not_null ''external_refs'' Jsonb,
       not_null ''provenance'' Jsonb],
      tb_key = [''id''], tb_unique = []\<rparr>"

definition topology_claims_table :: table_schema where
  "topology_claims_table =
     \<lparr>tb_name = ''topology_claims'', tb_columns =
      [not_null ''id'' Uuid_Type, not_null ''entity_kind'' (String_Type 30),
       not_null ''entity_name'' (String_Type 500), not_null ''attribute'' (String_Type 100),
       not_null ''value'' (String_Type 100), not_null ''repository_id'' Uuid_Type,
       not_null ''revision'' (String_Type 255), not_null ''origin'' (String_Type 30),
       not_null ''confidence'' (String_Type 30), not_null ''provenance'' Jsonb, not_null ''recorded_at'' Time_Type],
      tb_key = [''id''], tb_unique = []\<rparr>"

definition topology_dependencies_table :: table_schema where
  "topology_dependencies_table =
     \<lparr>tb_name = ''topology_dependencies'', tb_columns =
      [not_null ''id'' Uuid_Type, not_null ''project_id'' Uuid_Type, not_null ''source'' (String_Type 500),
       not_null ''target'' (String_Type 500), not_null ''relation'' (String_Type 50),
       not_null ''repository_id'' Uuid_Type, not_null ''revision'' (String_Type 255),
       not_null ''provenance'' Jsonb],
      tb_key = [''id''], tb_unique = []\<rparr>"

definition code_symbols_table :: table_schema where
  "code_symbols_table =
     \<lparr>tb_name = ''code_symbols'', tb_columns =
      [not_null ''id'' Uuid_Type, not_null ''repository_id'' Uuid_Type, not_null ''revision'' (String_Type 255),
       not_null ''module'' (String_Type 500), not_null ''qualified_name'' (String_Type 500),
       not_null ''kind'' (String_Type 50), not_null ''name'' (String_Type 500),
       not_null ''path'' (String_Type 1000), not_null ''identity_key'' (String_Type 1500),
       not_null ''location'' Jsonb, not_null ''parameters'' Jsonb, null_ok ''return_annotation'' Text_Type,
       not_null ''decorators'' Jsonb, null_ok ''docstring'' Text_Type, null_ok ''content_hash'' (String_Type 64),
       not_null ''symbol_metadata'' Jsonb],
      tb_key = [''id''], tb_unique = []\<rparr>"

definition code_relations_table :: table_schema where
  "code_relations_table =
     \<lparr>tb_name = ''code_relations'', tb_columns =
      [not_null ''id'' Uuid_Type, not_null ''repository_id'' Uuid_Type, not_null ''revision'' (String_Type 255),
       not_null ''relation_type'' (String_Type 50), not_null ''source_identity_key'' (String_Type 1500),
       not_null ''target_identity_key'' (String_Type 1500), not_null ''source_path'' (String_Type 1000),
       null_ok ''target_path'' (String_Type 1000), not_null ''confidence'' Float_Type,
       not_null ''relation_metadata'' Jsonb],
      tb_key = [''id''], tb_unique = []\<rparr>"

definition code_files_table :: table_schema where
  "code_files_table =
     \<lparr>tb_name = ''code_files'', tb_columns =
      [not_null ''id'' Uuid_Type, not_null ''repository_id'' Uuid_Type, not_null ''revision'' (String_Type 255),
       not_null ''path'' (String_Type 1000), not_null ''module'' (String_Type 500),
       not_null ''language'' (String_Type 50), not_null ''content_hash'' (String_Type 64),
       not_null ''file_metadata'' Jsonb],
      tb_key = [''id''], tb_unique = [[''repository_id'', ''revision'', ''path'']]\<rparr>"

definition context_capsules_table :: table_schema where
  "context_capsules_table =
     \<lparr>tb_name = ''context_capsules'', tb_columns =
      [not_null ''id'' Uuid_Type, not_null ''version'' (String_Type 20), not_null ''work_item_id'' Uuid_Type,
       not_null ''context_type'' (String_Type 30), null_ok ''project_id'' Uuid_Type,
       null_ok ''repository_id'' Uuid_Type, null_ok ''revision'' (String_Type 255), not_null ''request'' Jsonb,
       not_null ''candidates'' Jsonb, not_null ''allocations'' Jsonb, not_null ''total_tokens'' Big_Integer,
       not_null ''model_budget_tokens'' Big_Integer, not_null ''created_at'' Time_Type,
       not_null ''capsule_metadata'' Jsonb],
      tb_key = [''id''], tb_unique = []\<rparr>"

definition plans_table :: table_schema where
  "plans_table =
     \<lparr>tb_name = ''plans'', tb_columns =
      [not_null ''id'' Uuid_Type, not_null ''project_id'' Uuid_Type, not_null ''title'' (String_Type 500),
       not_null ''status'' (String_Type 30), not_null ''created_at'' Time_Type, not_null ''items'' Jsonb,
       not_null ''assessments'' Jsonb, not_null ''evidence'' Jsonb, not_null ''validation_errors'' Jsonb],
      tb_key = [''id''], tb_unique = []\<rparr>"

definition verification_runs_table :: table_schema where
  "verification_runs_table =
     \<lparr>tb_name = ''verification_runs'', tb_columns =
      [not_null ''id'' Uuid_Type, not_null ''execution_id'' Uuid_Type, not_null ''plan'' Jsonb,
       not_null ''verdict'' (String_Type 20), not_null ''started_at'' Time_Type,
       null_ok ''completed_at'' Time_Type, not_null ''issues'' Jsonb, not_null ''feedback'' Jsonb,
       not_null ''pr_allowed'' Boolean_Type],
      tb_key = [''id''], tb_unique = []\<rparr>"

definition work_management_mappings_table :: table_schema where
  "work_management_mappings_table =
     \<lparr>tb_name = ''work_management_mappings'', tb_columns =
      [not_null ''id'' Uuid_Type, not_null ''work_item_id'' Uuid_Type, not_null ''provider'' (String_Type 50),
       not_null ''external_id'' (String_Type 500), not_null ''sync_state'' (String_Type 30),
       null_ok ''last_synced_at'' Time_Type, null_ok ''last_sync_error'' Text_Type],
      tb_key = [''id''], tb_unique = [[''work_item_id'', ''provider'']]\<rparr>"

definition sync_conflicts_table :: table_schema where
  "sync_conflicts_table =
     \<lparr>tb_name = ''sync_conflicts'', tb_columns =
      [not_null ''id'' Uuid_Type, not_null ''work_item_id'' Uuid_Type, not_null ''provider'' (String_Type 50),
       not_null ''external_id'' (String_Type 500), not_null ''provider_field'' (String_Type 100),
       not_null ''provider_value'' (String_Type 500), not_null ''brain_value'' (String_Type 500),
       not_null ''detected_at'' Time_Type, not_null ''resolved'' Boolean_Type],
      tb_key = [''id''], tb_unique = []\<rparr>"

definition workflow_checkpoints_table :: table_schema where
  "workflow_checkpoints_table =
     \<lparr>tb_name = ''workflow_checkpoints'', tb_columns =
      [not_null ''id'' Uuid_Type, not_null ''workflow_id'' Uuid_Type, not_null ''state'' Jsonb,
       not_null ''updated_at'' Time_Type],
      tb_key = [''id''], tb_unique = [[''workflow_id'']]\<rparr>"

definition approvals_table :: table_schema where
  "approvals_table =
     \<lparr>tb_name = ''approvals'', tb_columns =
      [not_null ''id'' Uuid_Type, not_null ''approval_type'' (String_Type 30), null_ok ''workflow_id'' Uuid_Type,
       null_ok ''work_item_id'' Uuid_Type, null_ok ''execution_id'' Uuid_Type, null_ok ''requested_by'' Uuid_Type,
       null_ok ''decided_by'' Uuid_Type, not_null ''decision'' (String_Type 30), not_null ''reason'' Text_Type,
       not_null ''requested_at'' Time_Type, null_ok ''decided_at'' Time_Type, not_null ''approval_metadata'' Jsonb],
      tb_key = [''id''], tb_unique = []\<rparr>"

definition execution_metrics_table :: table_schema where
  "execution_metrics_table =
     \<lparr>tb_name = ''execution_metrics'', tb_columns =
      [not_null ''id'' Uuid_Type, not_null ''execution_id'' Uuid_Type, null_ok ''workflow_id'' Uuid_Type,
       null_ok ''work_item_id'' Uuid_Type, null_ok ''project_id'' Uuid_Type, not_null ''started_at'' Time_Type,
       null_ok ''completed_at'' Time_Type, null_ok ''duration_seconds'' Float_Type,
       null_ok ''model'' (String_Type 255), not_null ''tokens_in'' Big_Integer,
       not_null ''tokens_out'' Big_Integer, not_null ''tool_calls'' Big_Integer,
       not_null ''commands_executed'' Jsonb, not_null ''retries'' Big_Integer,
       null_ok ''verification_outcome'' (String_Type 50)],
      tb_key = [''id''], tb_unique = [[''execution_id'']]\<rparr>"

definition context_metrics_table :: table_schema where
  "context_metrics_table =
     \<lparr>tb_name = ''context_metrics'', tb_columns =
      [not_null ''id'' Uuid_Type, not_null ''context_capsule_id'' Uuid_Type, not_null ''work_item_id'' Uuid_Type,
       null_ok ''execution_id'' Uuid_Type, not_null ''context_token_count'' Big_Integer,
       not_null ''candidate_count'' Big_Integer, not_null ''selected_entity_count'' Big_Integer,
       not_null ''retrieval_source_distribution'' Jsonb, not_null ''jit_retrieval_requests'' Big_Integer,
       not_null ''selected_context'' Jsonb],
      tb_key = [''id''], tb_unique = [[''context_capsule_id'']]\<rparr>"

definition context_outcomes_table :: table_schema where
  "context_outcomes_table =
     \<lparr>tb_name = ''context_outcomes'', tb_columns =
      [not_null ''id'' Uuid_Type, not_null ''execution_id'' Uuid_Type,
       not_null ''missing_files_discovered_later'' Jsonb, not_null ''verifier_omitted_dependencies'' Jsonb,
       not_null ''additional_context_requests'' Big_Integer, not_null ''irrelevant_context_rate'' Float_Type,
       not_null ''retry_caused_by_context_failure'' Boolean_Type],
      tb_key = [''id''], tb_unique = [[''execution_id'']]\<rparr>"

definition impact_metrics_table :: table_schema where
  "impact_metrics_table =
     \<lparr>tb_name = ''impact_metrics'', tb_columns =
      [not_null ''id'' Uuid_Type, not_null ''execution_id'' Uuid_Type, not_null ''predicted_files'' Jsonb,
       not_null ''actual_changed_files'' Jsonb],
      tb_key = [''id''], tb_unique = [[''execution_id'']]\<rparr>"

definition runtime_observations_table :: table_schema where
  "runtime_observations_table =
     \<lparr>tb_name = ''runtime_observations'', tb_columns =
      [not_null ''id'' Uuid_Type, not_null ''kind'' (String_Type 30), null_ok ''project_id'' Uuid_Type,
       null_ok ''repository_id'' Uuid_Type, null_ok ''revision'' (String_Type 255),
       null_ok ''execution_id'' Uuid_Type, null_ok ''work_item_id'' Uuid_Type, not_null ''source'' Text_Type,
       not_null ''target'' Text_Type, not_null ''symbols'' Jsonb, not_null ''detail'' Jsonb,
       not_null ''occurred_at'' Time_Type],
      tb_key = [''id''], tb_unique = []\<rparr>"

definition executor_quality_table :: table_schema where
  "executor_quality_table =
     \<lparr>tb_name = ''executor_quality'', tb_columns =
      [not_null ''id'' Uuid_Type, not_null ''executor_id'' Uuid_Type, not_null ''task_type'' (String_Type 100),
       not_null ''successes'' Big_Integer, not_null ''failures'' Big_Integer,
       not_null ''total_tokens'' Big_Integer, not_null ''total_retries'' Big_Integer,
       not_null ''total_duration_seconds'' Float_Type, not_null ''updated_at'' Time_Type],
      tb_key = [''id''], tb_unique = [[''executor_id'', ''task_type'']]\<rparr>"

definition context_feedback_table :: table_schema where
  "context_feedback_table =
     \<lparr>tb_name = ''context_feedback'', tb_columns =
      [not_null ''id'' Uuid_Type, not_null ''work_item_id'' Uuid_Type, null_ok ''execution_id'' Uuid_Type,
       not_null ''outcome'' (String_Type 50), not_null ''signal'' Text_Type, not_null ''previous_weights'' Jsonb,
       not_null ''adjusted_weights'' Jsonb, not_null ''recorded_at'' Time_Type],
      tb_key = [''id''], tb_unique = []\<rparr>"

definition audit_events_table :: table_schema where
  "audit_events_table =
     \<lparr>tb_name = ''audit_events'', tb_columns =
      [not_null ''id'' Uuid_Type, not_null ''occurred_at'' Time_Type, not_null ''action'' (String_Type 50),
       not_null ''actor'' (String_Type 255), not_null ''actor_role'' (String_Type 50),
       null_ok ''project_id'' Uuid_Type, null_ok ''work_item_id'' Uuid_Type, null_ok ''execution_id'' Uuid_Type,
       null_ok ''repository_id'' Uuid_Type, not_null ''details'' Jsonb],
      tb_key = [''id''], tb_unique = []\<rparr>"

definition command_failures_table :: table_schema where
  "command_failures_table =
     \<lparr>tb_name = ''command_failures'', tb_columns =
      [not_null ''id'' Uuid_Type, not_null ''command_id'' Uuid_Type, not_null ''command_type'' (String_Type 100),
       not_null ''attempt'' Big_Integer, not_null ''category'' (String_Type 50), not_null ''message'' Text_Type,
       null_ok ''correlation_id'' Uuid_Type, not_null ''retry_eligible'' Boolean_Type,
       not_null ''occurred_at'' Time_Type],
      tb_key = [''id''], tb_unique = []\<rparr>"

definition observations_table :: table_schema where
  "observations_table =
     \<lparr>tb_name = ''observations'', tb_columns =
      [not_null ''id'' Uuid_Type, not_null ''project_id'' Uuid_Type, null_ok ''work_item_id'' Uuid_Type,
       null_ok ''execution_id'' Uuid_Type, null_ok ''requirement_id'' Uuid_Type,
       null_ok ''repository_id'' Uuid_Type, null_ok ''repository_revision'' (String_Type 255),
       null_ok ''context_capsule_id'' Uuid_Type, null_ok ''verification_id'' Uuid_Type,
       null_ok ''artifact_id'' Uuid_Type, null_ok ''evidence_id'' Uuid_Type, null_ok ''decision_id'' Uuid_Type,
       not_null ''observation_type'' (String_Type 50), not_null ''severity'' (String_Type 20),
       not_null ''visibility'' (String_Type 20), not_null ''status'' (String_Type 20),
       not_null ''title'' (String_Type 255), not_null ''body'' Text_Type, not_null ''source'' (String_Type 100),
       not_null ''evidence_refs'' Jsonb, not_null ''requires_human_attention'' Boolean_Type,
       null_ok ''dedup_key'' (String_Type 500), not_null ''created_at'' Time_Type,
       null_ok ''acknowledged_at'' Time_Type, null_ok ''resolved_at'' Time_Type],
      tb_key = [''id''], tb_unique = []\<rparr>"

definition comments_table :: table_schema where
  "comments_table =
     \<lparr>tb_name = ''comments'', tb_columns =
      [not_null ''id'' Uuid_Type, not_null ''work_item_id'' Uuid_Type, null_ok ''author_id'' Uuid_Type,
       null_ok ''author_name'' (String_Type 255), not_null ''text'' Text_Type, not_null ''kind'' (String_Type 20),
       not_null ''created_at'' Time_Type, not_null ''external_refs'' Jsonb],
      tb_key = [''id''], tb_unique = []\<rparr>"

definition attachments_table :: table_schema where
  "attachments_table =
     \<lparr>tb_name = ''attachments'', tb_columns =
      [not_null ''id'' Uuid_Type, not_null ''work_item_id'' Uuid_Type, not_null ''file_name'' (String_Type 500),
       not_null ''content_type'' (String_Type 255), null_ok ''file_size'' Big_Integer,
       null_ok ''download_url'' Text_Type, not_null ''content_ingested'' Boolean_Type,
       not_null ''created_at'' Time_Type, not_null ''external_refs'' Jsonb],
      tb_key = [''id''], tb_unique = []\<rparr>"

definition work_item_relations_table :: table_schema where
  "work_item_relations_table =
     \<lparr>tb_name = ''work_item_relations'', tb_columns =
      [not_null ''id'' Uuid_Type, not_null ''source_work_item_id'' Uuid_Type,
       not_null ''target_work_item_id'' Uuid_Type, not_null ''relation_type'' (String_Type 50),
       not_null ''detected_at'' Time_Type, not_null ''external_refs'' Jsonb],
      tb_key = [''id''], tb_unique = [[''source_work_item_id'', ''target_work_item_id'', ''relation_type'']]\<rparr>"

definition openproject_work_item_snapshots_table :: table_schema where
  "openproject_work_item_snapshots_table =
     \<lparr>tb_name = ''openproject_work_item_snapshots'', tb_columns =
      [not_null ''external_id'' (String_Type 500), not_null ''snapshot'' Jsonb, null_ok ''updated_at'' Text_Type,
       not_null ''ingested_at'' Time_Type],
      tb_key = [''external_id''], tb_unique = []\<rparr>"

definition provider_sync_watermarks_table :: table_schema where
  "provider_sync_watermarks_table =
     \<lparr>tb_name = ''provider_sync_watermarks'', tb_columns =
      [not_null ''provider'' (String_Type 50), not_null ''sync_key'' (String_Type 500),
       null_ok ''last_synced_at'' Time_Type, null_ok ''last_external_id'' (String_Type 500),
       null_ok ''bootstrap_completed_at'' Time_Type, not_null ''updated_at'' Time_Type],
      tb_key = [''provider'', ''sync_key''], tb_unique = []\<rparr>"

definition provider_bootstrap_states_table :: table_schema where
  "provider_bootstrap_states_table =
     \<lparr>tb_name = ''provider_bootstrap_states'', tb_columns =
      [not_null ''id'' Uuid_Type, not_null ''project_id'' Uuid_Type, not_null ''provider'' (String_Type 50),
       not_null ''status'' (String_Type 50), not_null ''stage'' (String_Type 50),
       not_null ''last_page'' Big_Integer, not_null ''items_processed'' Big_Integer,
       null_ok ''last_error'' Text_Type, not_null ''started_at'' Time_Type, null_ok ''completed_at'' Time_Type],
      tb_key = [''id''], tb_unique = [[''project_id'', ''provider'']]\<rparr>"

definition brain_tables :: "table_schema list" where
  "brain_tables =
     [projects_table, repositories_table, actors_table, work_items_table, requirements_table,
      documents_table, document_versions_table, document_nodes_table, decisions_table,
      executions_table, artifacts_table, evidence_table, verification_results_table,
      external_references_table, idempotency_keys_table, event_log_table, repository_snapshots_table,
      repository_change_sets_table, software_domains_table, systems_table, software_components_table,
      interfaces_table, resources_table, topology_claims_table, topology_dependencies_table,
      code_symbols_table, code_relations_table, code_files_table, context_capsules_table, plans_table,
      verification_runs_table, work_management_mappings_table, sync_conflicts_table,
      workflow_checkpoints_table, approvals_table, execution_metrics_table, context_metrics_table,
      context_outcomes_table, impact_metrics_table, runtime_observations_table, executor_quality_table,
      context_feedback_table, audit_events_table, command_failures_table, observations_table,
      comments_table, attachments_table, work_item_relations_table,
      openproject_work_item_snapshots_table, provider_sync_watermarks_table,
      provider_bootstrap_states_table]"

text \<open>The tables have distinct names: a statement on one leaves the others alone.\<close>

lemma distinct_names: "distinct (map tb_name brain_tables)"
  by code_simp

lemma list_tables: "sql_laws (set brain_tables) list_view (list_live brain_tables) list_sql"
  by (rule list_database_laws) (rule distinct_names)

end
