(* ===== verification/Codec.thy ===== *)
theory Codec
  imports Sql Documents Planning Ingestion Access_Control Policy
begin

text \<open>
  How the PostgreSQL adapter turns the canonical entities into column values and back
  (\<open>adapters/postgresql/serialization.py\<close> and the \<open>model_dump(mode="json")\<close>,
  \<open>model_validate\<close> it relies on): the text of every enumeration member and the member of a text, the
  dictionary of every value object that is kept as \<open>JSONB\<close> and its validation, and the
  readers of a column.

  What pydantic makes of a JSON value is the parameter \<open>codec\<close>, as for commands and events: what a
  field of a scalar type accepts, the ISO text of a time and its parsing, and the values
  drawn for a missing field whose default is a fresh identifier or the current time.
\<close>

subsection \<open>Enumerations\<close>

text \<open>\<open>Enum(text)\<close>: the member with this value, \<open>None\<close> where the call raises.\<close>

definition enum_of :: "('a \<Rightarrow> string) \<Rightarrow> 'a list \<Rightarrow> string \<Rightarrow> 'a option" where
  "enum_of f xs s = List.find (\<lambda>x. f x = s) xs"

text \<open>The two enumerations of \<open>domain/evidence.py\<close> and \<open>domain/artifacts.py\<close>, whose entities only the store knows.\<close>

fun priority_value :: "priority \<Rightarrow> string" where
  "priority_value Low = ''low''"
| "priority_value Medium = ''medium''"
| "priority_value High = ''high''"
| "priority_value Urgent = ''urgent''"
| "priority_value Critical = ''critical''"

fun project_status_value :: "project_status \<Rightarrow> string" where
  "project_status_value Planned = ''planned''"
| "project_status_value Active = ''active''"
| "project_status_value Paused = ''paused''"
| "project_status_value Archived = ''archived''"

fun actor_type_value :: "actor_type \<Rightarrow> string" where
  "actor_type_value Human_Actor = ''human''"
| "actor_type_value Agent_Actor = ''agent''"
| "actor_type_value Automation_Actor = ''automation''"
| "actor_type_value System_Actor = ''system''"
| "actor_type_value Ci_Actor = ''ci''"

fun verification_status_value :: "verification_status \<Rightarrow> string" where
  "verification_status_value Ve_Not_Verified = ''not_verified''"
| "verification_status_value Ve_Passed = ''passed''"
| "verification_status_value Ve_Partial = ''partial''"
| "verification_status_value Ve_Failed = ''failed''"
| "verification_status_value Ve_Blocked = ''blocked''"

fun pull_request_status_value :: "pull_request_status \<Rightarrow> string" where
  "pull_request_status_value Pr_Not_Created = ''not_created''"
| "pull_request_status_value Pr_Created = ''created''"
| "pull_request_status_value Pr_Approved = ''approved''"
| "pull_request_status_value Pr_Merged = ''merged''"
| "pull_request_status_value Pr_Rejected = ''rejected''"

fun relation_kind_value :: "relation_kind \<Rightarrow> string" where
  "relation_kind_value Parent_Of = ''parent_of''"
| "relation_kind_value Blocks = ''blocks''"
| "relation_kind_value Relates_To = ''relates_to''"
| "relation_kind_value Precedes = ''precedes''"
| "relation_kind_value Follows = ''follows''"

fun comment_kind_value :: "comment_kind \<Rightarrow> string" where
  "comment_kind_value Context_Comment = ''context''"
| "comment_kind_value Feedback_Comment = ''feedback''"

fun requirement_status_value :: "requirement_status \<Rightarrow> string" where
  "requirement_status_value Rq_Draft = ''draft''"
| "requirement_status_value Rq_Proposed = ''proposed''"
| "requirement_status_value Rq_Approved = ''approved''"
| "requirement_status_value Rq_Implemented = ''implemented''"
| "requirement_status_value Rq_Verified = ''verified''"
| "requirement_status_value Rq_Superseded = ''superseded''"
| "requirement_status_value Rq_Rejected = ''rejected''"

fun requirement_source_type_value :: "requirement_source_type \<Rightarrow> string" where
  "requirement_source_type_value From_Document = ''document''"
| "requirement_source_type_value From_Ticket = ''ticket''"
| "requirement_source_type_value From_Adr = ''adr''"
| "requirement_source_type_value From_Manual = ''manual''"
| "requirement_source_type_value From_Derived = ''derived''"
| "requirement_source_type_value From_Inferred = ''inferred''"

fun constraint_kind_value :: "constraint_kind \<Rightarrow> string" where
  "constraint_kind_value Must = ''must''"
| "constraint_kind_value Must_Not = ''must_not''"
| "constraint_kind_value Should = ''should''"
| "constraint_kind_value Should_Not = ''should_not''"

fun document_type_value :: "document_type \<Rightarrow> string" where
  "document_type_value Readme_Doc = ''readme''"
| "document_type_value Requirements_Doc = ''requirements''"
| "document_type_value Architecture_Doc = ''architecture''"
| "document_type_value Adr_Doc = ''adr''"
| "document_type_value Api_Spec_Doc = ''api_spec''"
| "document_type_value General_Doc = ''general''"

fun document_node_type_value :: "document_node_type \<Rightarrow> string" where
  "document_node_type_value Section_Node = ''section''"
| "document_node_type_value Paragraph_Node = ''paragraph''"
| "document_node_type_value Code_Block_Node = ''code_block''"
| "document_node_type_value Table_Node = ''table''"
| "document_node_type_value List_Node = ''list''"
| "document_node_type_value Front_Matter_Node = ''front_matter''"
| "document_node_type_value Adr_Context_Node = ''adr_context''"
| "document_node_type_value Adr_Decision_Node = ''adr_decision''"
| "document_node_type_value Adr_Alternatives_Node = ''adr_alternatives''"
| "document_node_type_value Adr_Consequences_Node = ''adr_consequences''"

fun check_status_value :: "check_status \<Rightarrow> string" where
  "check_status_value Check_Pending = ''pending''"
| "check_status_value Check_Pass = ''pass''"
| "check_status_value Check_Partial = ''partial''"
| "check_status_value Check_Fail = ''fail''"
| "check_status_value Check_Skipped = ''skipped''"
| "check_status_value Check_Blocked = ''blocked''"

fun workflow_stage_value :: "workflow_stage \<Rightarrow> string" where
  "workflow_stage_value Intake = ''intake''"
| "workflow_stage_value Understand = ''understand''"
| "workflow_stage_value Build_Context = ''build_context''"
| "workflow_stage_value Route_Executor = ''route_executor''"
| "workflow_stage_value Execute = ''execute''"
| "workflow_stage_value Verify = ''verify''"
| "workflow_stage_value Retry = ''retry''"
| "workflow_stage_value Human = ''human''"
| "workflow_stage_value Create_Pr = ''create_pr''"
| "workflow_stage_value Update_Brain = ''update_brain''"
| "workflow_stage_value Complete = ''complete''"
| "workflow_stage_value Failed = ''failed''"

fun workflow_status_value :: "workflow_status \<Rightarrow> string" where
  "workflow_status_value Running = ''running''"
| "workflow_status_value Completed = ''completed''"
| "workflow_status_value Failed_Status = ''failed''"
| "workflow_status_value Blocked = ''blocked''"

fun approval_state_value :: "approval_state \<Rightarrow> string" where
  "approval_state_value Not_Required = ''not_required''"
| "approval_state_value Pending = ''pending''"
| "approval_state_value Approved = ''approved''"
| "approval_state_value Rejected = ''rejected''"

fun sync_state_value :: "sync_state \<Rightarrow> string" where
  "sync_state_value Sync_Pending = ''pending''"
| "sync_state_value Synced = ''synced''"
| "sync_state_value Sync_Conflict = ''conflict''"
| "sync_state_value Sync_Error = ''error''"

fun bootstrap_stage_value :: "bootstrap_stage \<Rightarrow> string" where
  "bootstrap_stage_value Discover_Projects = ''discover_projects''"
| "bootstrap_stage_value Fetch_Work_Items = ''fetch_work_items''"
| "bootstrap_stage_value Resolve_Relations = ''resolve_relations''"
| "bootstrap_stage_value Ingest_Comments = ''ingest_comments''"
| "bootstrap_stage_value Ingest_Attachments = ''ingest_attachments''"
| "bootstrap_stage_value Build_Graph = ''build_graph''"
| "bootstrap_stage_value Establish_Baseline = ''establish_baseline''"
| "bootstrap_stage_value Bootstrap_Complete = ''complete''"

fun observation_severity_value :: "observation_severity \<Rightarrow> string" where
  "observation_severity_value Sev_Info = ''info''"
| "observation_severity_value Sev_Warning = ''warning''"
| "observation_severity_value Sev_Error = ''error''"

fun observation_visibility_value :: "observation_visibility \<Rightarrow> string" where
  "observation_visibility_value Vis_Internal = ''internal''"
| "observation_visibility_value Vis_Team = ''team''"
| "observation_visibility_value Vis_Important = ''important''"

fun observation_status_value :: "observation_status \<Rightarrow> string" where
  "observation_status_value Ob_Open = ''open''"
| "observation_status_value Ob_Acknowledged = ''acknowledged''"
| "observation_status_value Ob_Resolved = ''resolved''"

fun approval_type_value :: "approval_type \<Rightarrow> string" where
  "approval_type_value Plan_Approval = ''plan''"
| "approval_type_value Architecture_Approval = ''architecture''"
| "approval_type_value Security_Approval = ''security''"
| "approval_type_value Pr_Approval = ''pr''"
| "approval_type_value Execution_Approval = ''execution''"

fun approval_decision_value :: "approval_decision \<Rightarrow> string" where
  "approval_decision_value Decision_Pending = ''pending''"
| "approval_decision_value Decision_Approved = ''approved''"
| "approval_decision_value Decision_Rejected = ''rejected''"
| "approval_decision_value Decision_Needs_Changes = ''needs_changes''"

fun failure_category_value :: "failure_category \<Rightarrow> string" where
  "failure_category_value TRANSIENT_PROVIDER = ''transient_provider''"
| "failure_category_value MODEL_FAILURE = ''model_failure''"
| "failure_category_value EXECUTION_FAILURE = ''execution_failure''"
| "failure_category_value VERIFICATION_FAILURE = ''verification_failure''"
| "failure_category_value INVALID_INPUT = ''invalid_input''"
| "failure_category_value INTERNAL_FAILURE = ''internal''"

fun code_relation_type_value :: "code_relation_type \<Rightarrow> string" where
  "code_relation_type_value Imports = ''IMPORTS''"
| "code_relation_type_value Calls = ''CALLS''"
| "code_relation_type_value Instantiates = ''INSTANTIATES''"
| "code_relation_type_value Inherits = ''INHERITS''"
| "code_relation_type_value Implements = ''IMPLEMENTS''"
| "code_relation_type_value Overrides = ''OVERRIDES''"
| "code_relation_type_value Reads = ''READS''"
| "code_relation_type_value Writes = ''WRITES''"
| "code_relation_type_value Tests = ''TESTS''"

datatype evidence_type = Ev_Test_Result | Ev_Git_Diff | Ev_Build_Output | Ev_Lint_Result | Ev_Static_Analysis |
  Ev_Verification_Report | Ev_Runtime_Observation | Ev_Command_Output | Ev_Observation |
  Ev_Blocker | Ev_Trace
fun evidence_type_value :: "evidence_type \<Rightarrow> string" where
  "evidence_type_value Ev_Test_Result = ''test_result''"
| "evidence_type_value Ev_Git_Diff = ''git_diff''"
| "evidence_type_value Ev_Build_Output = ''build_output''"
| "evidence_type_value Ev_Lint_Result = ''lint_result''"
| "evidence_type_value Ev_Static_Analysis = ''static_analysis''"
| "evidence_type_value Ev_Verification_Report = ''verification_report''"
| "evidence_type_value Ev_Runtime_Observation = ''runtime_observation''"
| "evidence_type_value Ev_Command_Output = ''command_output''"
| "evidence_type_value Ev_Observation = ''observation''"
| "evidence_type_value Ev_Blocker = ''blocker''"
| "evidence_type_value Ev_Trace = ''trace''"

datatype artifact_type = Ar_Source_File | Ar_Patch | Ar_Commit | Ar_Build | Ar_Test_Report | Ar_Container_Image |
  Ar_Configuration | Ar_Document | Ar_Trace | Ar_Coverage_Report | Ar_Diff
fun artifact_type_value :: "artifact_type \<Rightarrow> string" where
  "artifact_type_value Ar_Source_File = ''source_file''"
| "artifact_type_value Ar_Patch = ''patch''"
| "artifact_type_value Ar_Commit = ''commit''"
| "artifact_type_value Ar_Build = ''build''"
| "artifact_type_value Ar_Test_Report = ''test_report''"
| "artifact_type_value Ar_Container_Image = ''container_image''"
| "artifact_type_value Ar_Configuration = ''configuration''"
| "artifact_type_value Ar_Document = ''document''"
| "artifact_type_value Ar_Trace = ''trace''"
| "artifact_type_value Ar_Coverage_Report = ''coverage_report''"
| "artifact_type_value Ar_Diff = ''diff''"

definition priority_of :: "string \<Rightarrow> priority option" where
  "priority_of = enum_of priority_value
     [Low, Medium, High, Urgent, Critical]"

definition project_status_of :: "string \<Rightarrow> project_status option" where
  "project_status_of = enum_of project_status_value
     [Planned, Active, Paused, Archived]"

definition actor_type_of :: "string \<Rightarrow> actor_type option" where
  "actor_type_of = enum_of actor_type_value
     [Human_Actor, Agent_Actor, Automation_Actor, System_Actor, Ci_Actor]"

definition verification_status_of :: "string \<Rightarrow> verification_status option" where
  "verification_status_of = enum_of verification_status_value
     [Ve_Not_Verified, Ve_Passed, Ve_Partial, Ve_Failed, Ve_Blocked]"

definition pull_request_status_of :: "string \<Rightarrow> pull_request_status option" where
  "pull_request_status_of = enum_of pull_request_status_value
     [Pr_Not_Created, Pr_Created, Pr_Approved, Pr_Merged, Pr_Rejected]"

definition relation_kind_of :: "string \<Rightarrow> relation_kind option" where
  "relation_kind_of = enum_of relation_kind_value
     [Parent_Of, Blocks, Relates_To, Precedes, Follows]"

definition comment_kind_of :: "string \<Rightarrow> comment_kind option" where
  "comment_kind_of = enum_of comment_kind_value
     [Context_Comment, Feedback_Comment]"

definition requirement_status_of :: "string \<Rightarrow> requirement_status option" where
  "requirement_status_of = enum_of requirement_status_value
     [Rq_Draft, Rq_Proposed, Rq_Approved, Rq_Implemented, Rq_Verified, Rq_Superseded, Rq_Rejected]"

definition requirement_source_type_of :: "string \<Rightarrow> requirement_source_type option" where
  "requirement_source_type_of = enum_of requirement_source_type_value
     [From_Document, From_Ticket, From_Adr, From_Manual, From_Derived, From_Inferred]"

definition constraint_kind_of :: "string \<Rightarrow> constraint_kind option" where
  "constraint_kind_of = enum_of constraint_kind_value
     [Must, Must_Not, Should, Should_Not]"

definition document_type_of :: "string \<Rightarrow> document_type option" where
  "document_type_of = enum_of document_type_value
     [Readme_Doc, Requirements_Doc, Architecture_Doc, Adr_Doc, Api_Spec_Doc, General_Doc]"

definition document_node_type_of :: "string \<Rightarrow> document_node_type option" where
  "document_node_type_of = enum_of document_node_type_value
     [Section_Node, Paragraph_Node, Code_Block_Node, Table_Node, List_Node, Front_Matter_Node,
      Adr_Context_Node, Adr_Decision_Node, Adr_Alternatives_Node, Adr_Consequences_Node]"

definition check_status_of :: "string \<Rightarrow> check_status option" where
  "check_status_of = enum_of check_status_value
     [Check_Pending, Check_Pass, Check_Partial, Check_Fail, Check_Skipped, Check_Blocked]"

definition workflow_stage_of :: "string \<Rightarrow> workflow_stage option" where
  "workflow_stage_of = enum_of workflow_stage_value
     [Intake, Understand, Build_Context, Route_Executor, Execute, Verify, Retry, Human, Create_Pr,
      Update_Brain, Complete, Failed]"

definition workflow_status_of :: "string \<Rightarrow> workflow_status option" where
  "workflow_status_of = enum_of workflow_status_value
     [Running, Completed, Failed_Status, Blocked]"

definition approval_state_of :: "string \<Rightarrow> approval_state option" where
  "approval_state_of = enum_of approval_state_value
     [Not_Required, Pending, Approved, Rejected]"

definition sync_state_of :: "string \<Rightarrow> sync_state option" where
  "sync_state_of = enum_of sync_state_value
     [Sync_Pending, Synced, Sync_Conflict, Sync_Error]"

definition bootstrap_stage_of :: "string \<Rightarrow> bootstrap_stage option" where
  "bootstrap_stage_of = enum_of bootstrap_stage_value
     [Discover_Projects, Fetch_Work_Items, Resolve_Relations, Ingest_Comments, Ingest_Attachments,
      Build_Graph, Establish_Baseline, Bootstrap_Complete]"

definition observation_severity_of :: "string \<Rightarrow> observation_severity option" where
  "observation_severity_of = enum_of observation_severity_value
     [Sev_Info, Sev_Warning, Sev_Error]"

definition observation_visibility_of :: "string \<Rightarrow> observation_visibility option" where
  "observation_visibility_of = enum_of observation_visibility_value
     [Vis_Internal, Vis_Team, Vis_Important]"

definition observation_status_of :: "string \<Rightarrow> observation_status option" where
  "observation_status_of = enum_of observation_status_value
     [Ob_Open, Ob_Acknowledged, Ob_Resolved]"

definition approval_type_of :: "string \<Rightarrow> approval_type option" where
  "approval_type_of = enum_of approval_type_value
     [Plan_Approval, Architecture_Approval, Security_Approval, Pr_Approval, Execution_Approval]"

definition approval_decision_of :: "string \<Rightarrow> approval_decision option" where
  "approval_decision_of = enum_of approval_decision_value
     [Decision_Pending, Decision_Approved, Decision_Rejected, Decision_Needs_Changes]"

definition failure_category_of :: "string \<Rightarrow> failure_category option" where
  "failure_category_of = enum_of failure_category_value
     [TRANSIENT_PROVIDER, MODEL_FAILURE, EXECUTION_FAILURE, VERIFICATION_FAILURE, INVALID_INPUT,
      INTERNAL_FAILURE]"

definition code_relation_type_of :: "string \<Rightarrow> code_relation_type option" where
  "code_relation_type_of = enum_of code_relation_type_value
     [Imports, Calls, Instantiates, Inherits, Implements, Overrides, Reads, Writes, Tests]"

definition evidence_type_of :: "string \<Rightarrow> evidence_type option" where
  "evidence_type_of = enum_of evidence_type_value
     [Ev_Test_Result, Ev_Git_Diff, Ev_Build_Output, Ev_Lint_Result, Ev_Static_Analysis,
      Ev_Verification_Report, Ev_Runtime_Observation, Ev_Command_Output, Ev_Observation,
      Ev_Blocker, Ev_Trace]"

definition artifact_type_of :: "string \<Rightarrow> artifact_type option" where
  "artifact_type_of = enum_of artifact_type_value
     [Ar_Source_File, Ar_Patch, Ar_Commit, Ar_Build, Ar_Test_Report, Ar_Container_Image,
      Ar_Configuration, Ar_Document, Ar_Trace, Ar_Coverage_Report, Ar_Diff]"

definition human_status_of :: "string \<Rightarrow> human_work_status option" where
  "human_status_of = enum_of human_work_status_value
     [Hw_New, Hw_In_Progress, Hw_Blocked, Hw_Done, Hw_Cancelled]"

definition implementation_status_of :: "string \<Rightarrow> implementation_status option" where
  "implementation_status_of = enum_of implementation_status_value
     [Im_Not_Started, Im_In_Progress, Im_Code_Modified, Im_Implemented, Im_Implemented_Unverified]"

definition execution_status_of :: "string \<Rightarrow> execution_status option" where
  "execution_status_of = enum_of execution_status_value
     [Ex_Requested, Ex_Started, Ex_Running, Ex_Completed, Ex_Failed, Ex_Cancelled, Ex_Blocked]"

definition decision_status_of :: "string \<Rightarrow> decision_status option" where
  "decision_status_of = enum_of decision_status_value
     [Ds_Proposed, Ds_Accepted, Ds_Superseded, Ds_Rejected, Ds_Deprecated]"

definition bootstrap_status_of :: "string \<Rightarrow> bootstrap_status option" where
  "bootstrap_status_of = enum_of bootstrap_status_value
     [Bs_Connected, Bs_Discovering, Bs_Ingesting, Bs_Building_Graph, Bs_Establishing_Baseline,
      Bs_Ready, Bs_Live_Sync, Bs_Failed]"

definition verdict_of :: "string \<Rightarrow> verdict option" where
  "verdict_of = enum_of verdict_value
     [Pass, Partial, Fail, Verdict_Blocked]"

definition check_kind_of :: "string \<Rightarrow> check_kind option" where
  "check_kind_of = enum_of check_kind_value
     [Unit_Tests, Integration_Tests, Lint, Format, Type_Check, Build, Structural, Architecture,
      Test_Relevance]"

definition file_category_of :: "string \<Rightarrow> file_category option" where
  "file_category_of = enum_of file_category_value
     [Source_File, Test_File, Documentation_File, Manifest_File, Configuration_File,
      Deployment_File, Schema_File, Unknown_File]"

definition observation_type_of :: "string \<Rightarrow> observation_type option" where
  "observation_type_of = enum_of observation_type_value
     [Discovery, Warning, Conflict, Implementation_Status_Obs, Scope_Change, Assumption,
      Verification_Failure_Obs, Verification_Pass, Blocker, Dependency_Discovered,
      Architecture_Violation, Human_Action_Required]"

definition work_item_type_of :: "string \<Rightarrow> work_item_type option" where
  "work_item_type_of = enum_of work_item_type_value
     [Epic, Feature, Story, Task, Bug, Investigation, Refactoring, Verification_Item,
      Documentation, Operations]"

definition symbol_kind_of :: "string \<Rightarrow> symbol_kind option" where
  "symbol_kind_of = enum_of symbol_kind_value
     [Module_Symbol, Class_Symbol, Function_Symbol, Method_Symbol, Import_Symbol, Variable_Symbol,
      Parameter_Symbol]"

definition audit_action_of :: "string \<Rightarrow> audit_action option" where
  "audit_action_of = enum_of audit_action_value
     [Command_Dispatched, Command_Failed, Execution_Started, Execution_Completed,
      Execution_Blocked, Verification_Completed, Observation_Created, Observation_Projected,
      Observation_Projection_Failed, Pull_Request_Created, External_Tool_Updated,
      Api_Key_Provisioned, Rate_Limit_Exceeded, Webhook_Received]"

definition event_type_of :: "string \<Rightarrow> event_type option" where
  "event_type_of = enum_of event_type_value
     [PROJECT_CREATED, REPOSITORY_REGISTERED, REPOSITORY_REVISION_CHANGED, DOCUMENT_CHANGED,
      WORK_ITEM_CREATED, WORK_ITEM_CHANGED, WORK_ITEM_ASSIGNED, REQUIREMENT_CHANGED,
      EXECUTION_REQUESTED, EXECUTION_STARTED, EXECUTION_COMPLETED, VERIFICATION_REQUESTED,
      VERIFICATION_COMPLETED, PULL_REQUEST_REQUESTED, PULL_REQUEST_CREATED, PULL_REQUEST_MERGED,
      HUMAN_FEEDBACK_RECEIVED, KNOWLEDGE_CONFLICT_DETECTED, OBSERVATION_CREATED,
      OBSERVATION_ACKNOWLEDGED, OBSERVATION_RESOLVED, ATTACHMENT_CREATED, PROJECT_CHANGED]"

lemma priority_back [simp]: "priority_of (priority_value x) = Some x"
  by (cases x) (simp_all add: priority_of_def enum_of_def)

lemma project_status_back [simp]: "project_status_of (project_status_value x) = Some x"
  by (cases x) (simp_all add: project_status_of_def enum_of_def)

lemma actor_type_back [simp]: "actor_type_of (actor_type_value x) = Some x"
  by (cases x) (simp_all add: actor_type_of_def enum_of_def)

lemma verification_status_back [simp]: "verification_status_of (verification_status_value x) = Some x"
  by (cases x) (simp_all add: verification_status_of_def enum_of_def)

lemma pull_request_status_back [simp]: "pull_request_status_of (pull_request_status_value x) = Some x"
  by (cases x) (simp_all add: pull_request_status_of_def enum_of_def)

lemma relation_kind_back [simp]: "relation_kind_of (relation_kind_value x) = Some x"
  by (cases x) (simp_all add: relation_kind_of_def enum_of_def)

lemma comment_kind_back [simp]: "comment_kind_of (comment_kind_value x) = Some x"
  by (cases x) (simp_all add: comment_kind_of_def enum_of_def)

lemma requirement_status_back [simp]: "requirement_status_of (requirement_status_value x) = Some x"
  by (cases x) (simp_all add: requirement_status_of_def enum_of_def)

lemma requirement_source_type_back [simp]: "requirement_source_type_of (requirement_source_type_value x) = Some x"
  by (cases x) (simp_all add: requirement_source_type_of_def enum_of_def)

lemma constraint_kind_back [simp]: "constraint_kind_of (constraint_kind_value x) = Some x"
  by (cases x) (simp_all add: constraint_kind_of_def enum_of_def)

lemma document_type_back [simp]: "document_type_of (document_type_value x) = Some x"
  by (cases x) (simp_all add: document_type_of_def enum_of_def)

lemma document_node_type_back [simp]: "document_node_type_of (document_node_type_value x) = Some x"
  by (cases x) (simp_all add: document_node_type_of_def enum_of_def)

lemma check_status_back [simp]: "check_status_of (check_status_value x) = Some x"
  by (cases x) (simp_all add: check_status_of_def enum_of_def)

lemma workflow_stage_back [simp]: "workflow_stage_of (workflow_stage_value x) = Some x"
  by (cases x) (simp_all add: workflow_stage_of_def enum_of_def)

lemma workflow_status_back [simp]: "workflow_status_of (workflow_status_value x) = Some x"
  by (cases x) (simp_all add: workflow_status_of_def enum_of_def)

lemma approval_state_back [simp]: "approval_state_of (approval_state_value x) = Some x"
  by (cases x) (simp_all add: approval_state_of_def enum_of_def)

lemma sync_state_back [simp]: "sync_state_of (sync_state_value x) = Some x"
  by (cases x) (simp_all add: sync_state_of_def enum_of_def)

lemma bootstrap_stage_back [simp]: "bootstrap_stage_of (bootstrap_stage_value x) = Some x"
  by (cases x) (simp_all add: bootstrap_stage_of_def enum_of_def)

lemma observation_severity_back [simp]: "observation_severity_of (observation_severity_value x) = Some x"
  by (cases x) (simp_all add: observation_severity_of_def enum_of_def)

lemma observation_visibility_back [simp]: "observation_visibility_of (observation_visibility_value x) = Some x"
  by (cases x) (simp_all add: observation_visibility_of_def enum_of_def)

lemma observation_status_back [simp]: "observation_status_of (observation_status_value x) = Some x"
  by (cases x) (simp_all add: observation_status_of_def enum_of_def)

lemma approval_type_back [simp]: "approval_type_of (approval_type_value x) = Some x"
  by (cases x) (simp_all add: approval_type_of_def enum_of_def)

lemma approval_decision_back [simp]: "approval_decision_of (approval_decision_value x) = Some x"
  by (cases x) (simp_all add: approval_decision_of_def enum_of_def)

lemma failure_category_back [simp]: "failure_category_of (failure_category_value x) = Some x"
  by (cases x) (simp_all add: failure_category_of_def enum_of_def)

lemma code_relation_type_back [simp]: "code_relation_type_of (code_relation_type_value x) = Some x"
  by (cases x) (simp_all add: code_relation_type_of_def enum_of_def)

lemma evidence_type_back [simp]: "evidence_type_of (evidence_type_value x) = Some x"
  by (cases x) (simp_all add: evidence_type_of_def enum_of_def)

lemma artifact_type_back [simp]: "artifact_type_of (artifact_type_value x) = Some x"
  by (cases x) (simp_all add: artifact_type_of_def enum_of_def)

lemma human_status_back [simp]: "human_status_of (human_work_status_value x) = Some x"
  by (cases x) (simp_all add: human_status_of_def enum_of_def)

lemma implementation_status_back [simp]: "implementation_status_of (implementation_status_value x) = Some x"
  by (cases x) (simp_all add: implementation_status_of_def enum_of_def)

lemma execution_status_back [simp]: "execution_status_of (execution_status_value x) = Some x"
  by (cases x) (simp_all add: execution_status_of_def enum_of_def)

lemma decision_status_back [simp]: "decision_status_of (decision_status_value x) = Some x"
  by (cases x) (simp_all add: decision_status_of_def enum_of_def)

lemma bootstrap_status_back [simp]: "bootstrap_status_of (bootstrap_status_value x) = Some x"
  by (cases x) (simp_all add: bootstrap_status_of_def enum_of_def)

lemma verdict_back [simp]: "verdict_of (verdict_value x) = Some x"
  by (cases x) (simp_all add: verdict_of_def enum_of_def)

lemma check_kind_back [simp]: "check_kind_of (check_kind_value x) = Some x"
  by (cases x) (simp_all add: check_kind_of_def enum_of_def)

lemma file_category_back [simp]: "file_category_of (file_category_value x) = Some x"
  by (cases x) (simp_all add: file_category_of_def enum_of_def)

lemma observation_type_back [simp]: "observation_type_of (observation_type_value x) = Some x"
  by (cases x) (simp_all add: observation_type_of_def enum_of_def)

lemma work_item_type_back [simp]: "work_item_type_of (work_item_type_value x) = Some x"
  by (cases x) (simp_all add: work_item_type_of_def enum_of_def)

lemma symbol_kind_back [simp]: "symbol_kind_of (symbol_kind_value x) = Some x"
  by (cases x) (simp_all add: symbol_kind_of_def enum_of_def)

lemma audit_action_back [simp]: "audit_action_of (audit_action_value x) = Some x"
  by (cases x) (simp_all add: audit_action_of_def enum_of_def)

lemma event_type_back [simp]: "event_type_of (event_type_value x) = Some x"
  by (cases x) (simp_all add: event_type_of_def enum_of_def)

subsection \<open>Validation of documents\<close>

record codec =
  cx_base :: validators
  cx_bool :: "json \<Rightarrow> bool option"
  cx_iso :: "datetime \<Rightarrow> string"
  cx_time :: "json \<Rightarrow> datetime option"
  cx_fresh :: uuid
  cx_now :: datetime

text \<open>What the code relies on: a dumped scalar validates back to itself.\<close>

definition codec_ok :: "codec \<Rightarrow> bool" where
  "codec_ok cx \<longleftrightarrow> validators_ok (cx_base cx) \<and> (\<forall>b. cx_bool cx (JBool b) = Some b) \<and>
     (\<forall>t. cx_time cx (JStr (cx_iso cx t)) = Some t)"

lemma codec_simps:
  "codec_ok cx \<Longrightarrow> v_uuid (cx_base cx) (JStr u) = Some u"
  "codec_ok cx \<Longrightarrow> v_str (cx_base cx) (JStr u) = Some u"
  "codec_ok cx \<Longrightarrow> v_int (cx_base cx) (JInt i) = Some i"
  "codec_ok cx \<Longrightarrow> cx_bool cx (JBool b) = Some b"
  "codec_ok cx \<Longrightarrow> cx_time cx (JStr (cx_iso cx t)) = Some t"
  "codec_ok cx \<Longrightarrow> validators_ok (cx_base cx)"
  by (simp_all add: codec_ok_def validators_ok_def)

definition js_list :: "(json \<Rightarrow> 'a option) \<Rightarrow> json \<Rightarrow> 'a list option" where
  "js_list p j = (case j of JList xs \<Rightarrow> those (map p xs) | _ \<Rightarrow> None)"

definition js_enum :: "(string \<Rightarrow> 'a option) \<Rightarrow> json \<Rightarrow> 'a option" where
  "js_enum f j = (case j of JStr s \<Rightarrow> f s | _ \<Rightarrow> None)"

definition js_opt :: "(json \<Rightarrow> 'a option) \<Rightarrow> json \<Rightarrow> 'a option option" where
  "js_opt p j = (case j of JNull \<Rightarrow> Some None | _ \<Rightarrow> map_option Some (p j))"

definition js_dict :: "json \<Rightarrow> (string \<times> json) list option" where
  "js_dict j = (case j of JDict d \<Rightarrow> Some d | _ \<Rightarrow> None)"

text \<open>A time as the JSON mode of a dump writes it.\<close>

definition jtime :: "codec \<Rightarrow> datetime \<Rightarrow> json" where
  "jtime cx t = JStr (cx_iso cx t)"

lemma js_simps [simp]:
  "js_list p (JList xs) = those (map p xs)" "js_enum f (JStr s) = f s" "js_dict (JDict d) = Some d"
  "js_opt p JNull = Some None"
  by (simp_all add: js_list_def js_enum_def js_dict_def js_opt_def)

lemma those_map: "(\<And>x. x \<in> set xs \<Longrightarrow> p x = Some (g x)) \<Longrightarrow> those (map p xs) = Some (map g xs)"
  by (induction xs) auto

lemma js_list_back:
  assumes "\<And>x j. json_same j (f x) \<Longrightarrow> p j = Some x" and "json_same j (JList (map f xs))"
  shows "js_list p j = Some xs"
proof -
  obtain js where js: "j = JList js" "list_all2 json_same js (map f xs)" using assms(2) by (auto simp: same_list_simps)
  from js(2) have "those (map p js) = Some xs"
    by (induction xs arbitrary: js) (auto simp: list_all2_Cons2 assms(1))
  then show ?thesis by (simp add: js(1))
qed

lemma js_strings:
  assumes "\<And>x. p (JStr x) = Some x"
  shows "those (map (p \<circ> JStr) xs) = Some xs"
  using assms by (induction xs) simp_all

lemma js_opt_back:
  assumes "\<And>x j. json_same j (f x) \<Longrightarrow> p j = Some x" and "\<And>x. f x \<noteq> JNull" and "json_same j (jopt f x)"
  shows "js_opt p j = Some x"
proof (cases x)
  case None
  with assms(3) show ?thesis by (simp add: jopt_def)
next
  case (Some a)
  with assms(3) have "json_same j (f a)" by (simp add: jopt_def)
  moreover from this have "j \<noteq> JNull" using assms(2) [of a] by (auto elim: json_same.cases)
  ultimately show ?thesis using Some assms(1) by (auto simp: js_opt_def split: json.split)
qed

text \<open>The fields of a dictionary that was written and read back.\<close>

definition same_dict :: "(string \<times> json) list \<Rightarrow> (string \<times> json) list \<Rightarrow> bool" where
  "same_dict d e \<longleftrightarrow> (\<forall>k. rel_option json_same (map_of d k) (map_of e k))"

lemma same_JDict [simp]: "json_same j (JDict e) \<longleftrightarrow> (\<exists>d. j = JDict d \<and> same_dict d e)"
  by (auto simp: same_dict_def intro: same_dict elim: same_dictE)

lemma same_dict_same [simp]: "same_dict d d"
  using json_same_refl [of "JDict d"] unfolding same_JDict by simp

lemma same_scalars [simp]:
  "json_same j (jtime cx t) \<longleftrightarrow> j = jtime cx t"
  "json_same j (jopt JStr x) \<longleftrightarrow> j = jopt JStr x"
  "json_same j (jopt (jtime cx) y) \<longleftrightarrow> j = jopt (jtime cx) y"
  by (cases x; cases y; simp add: jtime_def jopt_def)+

lemma fields:
  assumes "same_dict d e"
  shows "map_of e k = Some (JStr s) \<Longrightarrow> map_of d k = Some (JStr s)"
    and "map_of e k = Some (JInt i) \<Longrightarrow> map_of d k = Some (JInt i)"
    and "map_of e k = Some (JBool b) \<Longrightarrow> map_of d k = Some (JBool b)"
    and "map_of e k = Some (jopt JStr x) \<Longrightarrow> map_of d k = Some (jopt JStr x)"
    and "map_of e k = Some (jtime cx t) \<Longrightarrow> map_of d k = Some (jtime cx t)"
    and "map_of e k = Some (jopt (jtime cx) y) \<Longrightarrow> map_of d k = Some (jopt (jtime cx) y)"
    and "map_of e k = Some (JList (map JStr xs)) \<Longrightarrow> map_of d k = Some (JList (map JStr xs))"
  using assms [unfolded same_dict_def, THEN spec, of k]
  by (auto simp: option_rel_Some2 same_strings)

lemma field_same:
  assumes "same_dict d e" "map_of e k = Some w"
  obtains v where "map_of d k = Some v" "json_same v w"
  using assms(1) [unfolded same_dict_def, THEN spec, of k] assms(2) by (auto simp: option_rel_Some2)

lemma field_read:
  "map_of d k = Some j \<Longrightarrow> req p d k = p j" "map_of d k = Some j \<Longrightarrow> dflt p a d k = p j"
  by (simp_all add: req_def dflt_def)

lemma field_opt:
  assumes "codec_ok cx"
  shows "map_of d k = Some (jopt JStr x) \<Longrightarrow> opt (v_uuid (cx_base cx)) d k = Some x"
    and "map_of d k = Some (jopt JStr x) \<Longrightarrow> opt (v_str (cx_base cx)) d k = Some x"
    and "map_of d k = Some (jopt (jtime cx) y) \<Longrightarrow> opt (cx_time cx) d k = Some y"
  using assms by (cases x; cases y; simp add: opt_def jopt_def jtime_def codec_simps)+

lemma opt_back:
  assumes "\<And>x j. json_same j (f x) \<Longrightarrow> p j = Some x" and "\<And>x. f x \<noteq> JNull"
    and "same_dict d e" "map_of e k = Some (jopt f x)"
  shows "opt p d k = Some x"
proof -
  obtain v where v: "map_of d k = Some v" "json_same v (jopt f x)" using field_same [OF assms(3,4)] .
  have "js_opt p v = Some x" by (rule js_opt_back [OF assms(1,2) v(2)])
  with v(1) show ?thesis by (auto simp: opt_def js_opt_def split: json.splits)
qed

lemma dflt_list_back:
  assumes "\<And>x j. json_same j (f x) \<Longrightarrow> p j = Some x" and "same_dict d e" "map_of e k = Some (JList (map f xs))"
  shows "dflt (js_list p) a d k = Some xs"
proof -
  obtain v where v: "map_of d k = Some v" "json_same v (JList (map f xs))" using field_same [OF assms(2,3)] .
  with js_list_back [OF assms(1) v(2)] show ?thesis by (simp add: dflt_def)
qed

lemmas doc_simps = field_read codec_simps js_strings jtime_def

subsection \<open>Value objects\<close>

lemma external_reference_back [simp]:
  assumes "codec_ok cx" "json_same j (external_reference_dump r)"
  shows "external_reference_of (cx_base cx) j = Some r"
proof -
  from assms(2) obtain d where d: "j = JDict d"
    and "same_dict d [(''provider'', JStr (ref_provider r)), (''external_id'', JStr (ref_external_id r)),
      (''external_type'', jopt JStr (ref_external_type r)), (''url'', jopt JStr (ref_url r)),
      (''namespace'', jopt JStr (ref_namespace r))]"
    by (auto simp: external_reference_dump_def)
  note f = fields [OF this(2)]
  show ?thesis by (cases r) (simp add: d f doc_simps assms(1) field_opt [OF assms(1)])
qed

definition acceptance_criterion_dump :: "codec \<Rightarrow> acceptance_criterion \<Rightarrow> json" where
  "acceptance_criterion_dump cx x =
     JDict [(''id'', JStr (cr_id x)), (''description'', JStr (cr_description x)),
       (''satisfied'', JBool (cr_satisfied x))]"

fun acceptance_criterion_parse :: "codec \<Rightarrow> json \<Rightarrow> acceptance_criterion option" where
  "acceptance_criterion_parse cx (JDict d) =
     Option.bind (dflt (v_uuid (cx_base cx)) (cx_fresh cx) d ''id'') (\<lambda>a0.
     Option.bind (req (v_str (cx_base cx)) d ''description'') (\<lambda>a1.
     map_option (\<lambda>a2. \<lparr>cr_id = a0, cr_description = a1, cr_satisfied = a2\<rparr>)
       (dflt (cx_bool cx) (False) d ''satisfied'')))"
| "acceptance_criterion_parse cx _ = None"

lemma acceptance_criterion_back [simp]:
  assumes "codec_ok cx" "json_same j (acceptance_criterion_dump cx x)"
  shows "acceptance_criterion_parse cx j = Some x"
proof -
  obtain d where d: "j = JDict d" and same: "same_dict d
     [(''id'', JStr (cr_id x)), (''description'', JStr (cr_description x)),
      (''satisfied'', JBool (cr_satisfied x))]"
    using assms(2) by (auto simp: acceptance_criterion_dump_def)
  note f = fields [OF same]
  show ?thesis by (cases x) (simp add: d f doc_simps assms(1) field_opt [OF assms(1)])
qed

definition assignment_dump :: "codec \<Rightarrow> assignment \<Rightarrow> json" where
  "assignment_dump cx x =
     JDict [(''actor_id'', JStr (as_actor_id x)), (''assigned_at'', jtime cx (as_assigned_at x)),
       (''assigned_by'', jopt JStr (as_assigned_by x)), (''role'', jopt JStr (as_role x))]"

fun assignment_parse :: "codec \<Rightarrow> json \<Rightarrow> assignment option" where
  "assignment_parse cx (JDict d) =
     Option.bind (req (v_uuid (cx_base cx)) d ''actor_id'') (\<lambda>a0.
     Option.bind (dflt (cx_time cx) (cx_now cx) d ''assigned_at'') (\<lambda>a1.
     Option.bind (opt (v_uuid (cx_base cx)) d ''assigned_by'') (\<lambda>a2.
     map_option (\<lambda>a3. \<lparr>as_actor_id = a0, as_assigned_at = a1, as_assigned_by = a2,
       as_role = a3\<rparr>)
       (opt (v_str (cx_base cx)) d ''role''))))"
| "assignment_parse cx _ = None"

lemma assignment_back [simp]:
  assumes "codec_ok cx" "json_same j (assignment_dump cx x)"
  shows "assignment_parse cx j = Some x"
proof -
  obtain d where d: "j = JDict d" and same: "same_dict d
     [(''actor_id'', JStr (as_actor_id x)), (''assigned_at'', jtime cx (as_assigned_at x)),
      (''assigned_by'', jopt JStr (as_assigned_by x)), (''role'', jopt JStr (as_role x))]"
    using assms(2) by (auto simp: assignment_dump_def)
  note f = fields [OF same]
  show ?thesis by (cases x) (simp add: d f doc_simps assms(1) field_opt [OF assms(1)])
qed

definition source_reference_dump :: "codec \<Rightarrow> source_reference \<Rightarrow> json" where
  "source_reference_dump cx x =
     JDict [(''provider'', JStr (sr_provider x)), (''reference'', jopt JStr (sr_reference x)),
       (''url'', jopt JStr (sr_url x)), (''document_id'', jopt JStr (sr_document_id x)),
       (''work_item_id'', jopt JStr (sr_work_item_id x)),
       (''heading_path'', JList (map JStr (sr_heading_path x)))]"

fun source_reference_parse :: "codec \<Rightarrow> json \<Rightarrow> source_reference option" where
  "source_reference_parse cx (JDict d) =
     Option.bind (req (v_str (cx_base cx)) d ''provider'') (\<lambda>a0.
     Option.bind (opt (v_str (cx_base cx)) d ''reference'') (\<lambda>a1.
     Option.bind (opt (v_str (cx_base cx)) d ''url'') (\<lambda>a2.
     Option.bind (opt (v_uuid (cx_base cx)) d ''document_id'') (\<lambda>a3.
     Option.bind (opt (v_uuid (cx_base cx)) d ''work_item_id'') (\<lambda>a4.
     map_option (\<lambda>a5. \<lparr>sr_provider = a0, sr_reference = a1, sr_url = a2,
       sr_document_id = a3, sr_work_item_id = a4, sr_heading_path = a5\<rparr>)
       (dflt (js_list (v_str (cx_base cx))) ([]) d ''heading_path''))))))"
| "source_reference_parse cx _ = None"

lemma source_reference_back [simp]:
  assumes "codec_ok cx" "json_same j (source_reference_dump cx x)"
  shows "source_reference_parse cx j = Some x"
proof -
  obtain d where d: "j = JDict d" and same: "same_dict d
     [(''provider'', JStr (sr_provider x)), (''reference'', jopt JStr (sr_reference x)),
      (''url'', jopt JStr (sr_url x)), (''document_id'', jopt JStr (sr_document_id x)),
      (''work_item_id'', jopt JStr (sr_work_item_id x)),
      (''heading_path'', JList (map JStr (sr_heading_path x)))]"
    using assms(2) by (auto simp: source_reference_dump_def)
  note f = fields [OF same]
  show ?thesis by (cases x) (simp add: d f doc_simps assms(1) field_opt [OF assms(1)])
qed

definition constraint_dump :: "codec \<Rightarrow> requirement_constraint \<Rightarrow> json" where
  "constraint_dump cx x =
     JDict [(''id'', JStr (ct_id x)), (''kind'', JStr (constraint_kind_value (ct_kind x))),
       (''description'', JStr (ct_description x)), (''scope'', jopt JStr (ct_scope x))]"

fun constraint_parse :: "codec \<Rightarrow> json \<Rightarrow> requirement_constraint option" where
  "constraint_parse cx (JDict d) =
     Option.bind (dflt (v_uuid (cx_base cx)) (cx_fresh cx) d ''id'') (\<lambda>a0.
     Option.bind (dflt (js_enum constraint_kind_of) (Must) d ''kind'') (\<lambda>a1.
     Option.bind (req (v_str (cx_base cx)) d ''description'') (\<lambda>a2.
     map_option (\<lambda>a3. \<lparr>ct_id = a0, ct_kind = a1, ct_description = a2, ct_scope = a3\<rparr>)
       (opt (v_str (cx_base cx)) d ''scope''))))"
| "constraint_parse cx _ = None"

lemma constraint_back [simp]:
  assumes "codec_ok cx" "json_same j (constraint_dump cx x)"
  shows "constraint_parse cx j = Some x"
proof -
  obtain d where d: "j = JDict d" and same: "same_dict d
     [(''id'', JStr (ct_id x)), (''kind'', JStr (constraint_kind_value (ct_kind x))),
      (''description'', JStr (ct_description x)), (''scope'', jopt JStr (ct_scope x))]"
    using assms(2) by (auto simp: constraint_dump_def)
  note f = fields [OF same]
  show ?thesis by (cases x) (simp add: d f doc_simps assms(1) field_opt [OF assms(1)])
qed

definition document_source_dump :: "codec \<Rightarrow> document_source \<Rightarrow> json" where
  "document_source_dump cx x =
     JDict [(''provider'', JStr (do_provider x)), (''uri'', JStr (do_uri x)),
       (''mime_type'', jopt JStr (do_mime_type x)),
       (''external_ref'', jopt external_reference_dump (do_external_ref x))]"

fun document_source_parse :: "codec \<Rightarrow> json \<Rightarrow> document_source option" where
  "document_source_parse cx (JDict d) =
     Option.bind (req (v_str (cx_base cx)) d ''provider'') (\<lambda>a0.
     Option.bind (req (v_str (cx_base cx)) d ''uri'') (\<lambda>a1.
     Option.bind (opt (v_str (cx_base cx)) d ''mime_type'') (\<lambda>a2.
     map_option (\<lambda>a3. \<lparr>do_provider = a0, do_uri = a1, do_mime_type = a2,
       do_external_ref = a3\<rparr>)
       (opt (external_reference_of (cx_base cx)) d ''external_ref''))))"
| "document_source_parse cx _ = None"

lemma document_source_back [simp]:
  assumes "codec_ok cx" "json_same j (document_source_dump cx x)"
  shows "document_source_parse cx j = Some x"
proof -
  obtain d where d: "j = JDict d" and same: "same_dict d
     [(''provider'', JStr (do_provider x)), (''uri'', JStr (do_uri x)),
      (''mime_type'', jopt JStr (do_mime_type x)),
      (''external_ref'', jopt external_reference_dump (do_external_ref x))]"
    using assms(2) by (auto simp: document_source_dump_def)
  note f = fields [OF same]
  have o: "opt (external_reference_of (cx_base cx)) d ''external_ref'' = Some (do_external_ref x)"
    by (rule opt_back [OF external_reference_back [OF assms(1)] _ same]) (simp_all add: external_reference_dump_def)
  show ?thesis by (cases x) (simp add: d f o [simplified] doc_simps assms(1) field_opt [OF assms(1)])
qed

definition symbol_location_dump :: "codec \<Rightarrow> symbol_location \<Rightarrow> json" where
  "symbol_location_dump cx x =
     JDict [(''path'', JStr (loc_path x)), (''start_line'', JInt (loc_start_line x)),
       (''start_column'', JInt (loc_start_column x)), (''end_line'', JInt (loc_end_line x)),
       (''end_column'', JInt (loc_end_column x))]"

fun symbol_location_parse :: "codec \<Rightarrow> json \<Rightarrow> symbol_location option" where
  "symbol_location_parse cx (JDict d) =
     Option.bind (req (v_str (cx_base cx)) d ''path'') (\<lambda>a0.
     Option.bind (dflt (v_int (cx_base cx)) (0) d ''start_line'') (\<lambda>a1.
     Option.bind (dflt (v_int (cx_base cx)) (0) d ''start_column'') (\<lambda>a2.
     Option.bind (dflt (v_int (cx_base cx)) (0) d ''end_line'') (\<lambda>a3.
     map_option (\<lambda>a4. \<lparr>loc_path = a0, loc_start_line = a1, loc_start_column = a2,
       loc_end_line = a3, loc_end_column = a4\<rparr>)
       (dflt (v_int (cx_base cx)) (0) d ''end_column'')))))"
| "symbol_location_parse cx _ = None"

lemma symbol_location_back [simp]:
  assumes "codec_ok cx" "json_same j (symbol_location_dump cx x)"
  shows "symbol_location_parse cx j = Some x"
proof -
  obtain d where d: "j = JDict d" and same: "same_dict d
     [(''path'', JStr (loc_path x)), (''start_line'', JInt (loc_start_line x)),
      (''start_column'', JInt (loc_start_column x)), (''end_line'', JInt (loc_end_line x)),
      (''end_column'', JInt (loc_end_column x))]"
    using assms(2) by (auto simp: symbol_location_dump_def)
  note f = fields [OF same]
  show ?thesis by (cases x) (simp add: d f doc_simps assms(1) field_opt [OF assms(1)])
qed

definition workflow_state_dump :: "codec \<Rightarrow> workflow_state \<Rightarrow> json" where
  "workflow_state_dump cx x =
     JDict [(''workflow_id'', JStr (wf_id x)), (''project_id'', jopt JStr (wf_project_id x)),
       (''work_item_id'', jopt JStr (wf_work_item_id x)),
       (''repository_id'', jopt JStr (wf_repository_id x)),
       (''revision'', jopt JStr (wf_revision x)),
       (''current_execution_id'', jopt JStr (wf_execution_id x)),
       (''current_context_capsule_id'', jopt JStr (wf_context_capsule_id x)),
       (''stage'', JStr (workflow_stage_value (wf_stage x))),
       (''status'', JStr (workflow_status_value (wf_status x))),
       (''retry_count'', JInt (wf_retry_count x)), (''max_retries'', JInt (wf_max_retries x)),
       (''approval_state'', JStr (approval_state_value (wf_approval x))),
       (''last_error'', jopt JStr (wf_last_error x)),
       (''verification_id'', jopt JStr (wf_verification_id x)),
       (''waiting_for_human'', JBool (wf_waiting_for_human x)),
       (''correlation_id'', jopt JStr (wf_correlation_id x)),
       (''started_at'', jtime cx (wf_started_at x)), (''updated_at'', jtime cx (wf_updated_at x))]"

fun workflow_state_parse :: "codec \<Rightarrow> json \<Rightarrow> workflow_state option" where
  "workflow_state_parse cx (JDict d) =
     Option.bind (dflt (v_uuid (cx_base cx)) (cx_fresh cx) d ''workflow_id'') (\<lambda>a0.
     Option.bind (opt (v_uuid (cx_base cx)) d ''project_id'') (\<lambda>a1.
     Option.bind (opt (v_uuid (cx_base cx)) d ''work_item_id'') (\<lambda>a2.
     Option.bind (opt (v_uuid (cx_base cx)) d ''repository_id'') (\<lambda>a3.
     Option.bind (opt (v_str (cx_base cx)) d ''revision'') (\<lambda>a4.
     Option.bind (opt (v_uuid (cx_base cx)) d ''current_execution_id'') (\<lambda>a5.
     Option.bind (opt (v_uuid (cx_base cx)) d ''current_context_capsule_id'') (\<lambda>a6.
     Option.bind (dflt (js_enum workflow_stage_of) (Intake) d ''stage'') (\<lambda>a7.
     Option.bind (dflt (js_enum workflow_status_of) (Running) d ''status'') (\<lambda>a8.
     Option.bind (dflt (v_int (cx_base cx)) (0) d ''retry_count'') (\<lambda>a9.
     Option.bind (dflt (v_int (cx_base cx)) (3) d ''max_retries'') (\<lambda>a10.
     Option.bind (dflt (js_enum approval_state_of) (Not_Required) d ''approval_state'') (\<lambda>a11.
     Option.bind (opt (v_str (cx_base cx)) d ''last_error'') (\<lambda>a12.
     Option.bind (opt (v_uuid (cx_base cx)) d ''verification_id'') (\<lambda>a13.
     Option.bind (dflt (cx_bool cx) (False) d ''waiting_for_human'') (\<lambda>a14.
     Option.bind (opt (v_uuid (cx_base cx)) d ''correlation_id'') (\<lambda>a15.
     Option.bind (dflt (cx_time cx) (cx_now cx) d ''started_at'') (\<lambda>a16.
     map_option (\<lambda>a17. \<lparr>wf_id = a0, wf_project_id = a1, wf_work_item_id = a2,
       wf_repository_id = a3, wf_revision = a4, wf_execution_id = a5, wf_context_capsule_id = a6,
       wf_stage = a7, wf_status = a8, wf_retry_count = a9, wf_max_retries = a10, wf_approval = a11,
       wf_last_error = a12, wf_verification_id = a13, wf_waiting_for_human = a14,
       wf_correlation_id = a15, wf_started_at = a16, wf_updated_at = a17\<rparr>)
       (dflt (cx_time cx) (cx_now cx) d ''updated_at''))))))))))))))))))"
| "workflow_state_parse cx _ = None"

lemma workflow_state_back [simp]:
  assumes "codec_ok cx" "json_same j (workflow_state_dump cx x)"
  shows "workflow_state_parse cx j = Some x"
proof -
  obtain d where d: "j = JDict d" and same: "same_dict d
     [(''workflow_id'', JStr (wf_id x)), (''project_id'', jopt JStr (wf_project_id x)),
      (''work_item_id'', jopt JStr (wf_work_item_id x)),
      (''repository_id'', jopt JStr (wf_repository_id x)),
      (''revision'', jopt JStr (wf_revision x)),
      (''current_execution_id'', jopt JStr (wf_execution_id x)),
      (''current_context_capsule_id'', jopt JStr (wf_context_capsule_id x)),
      (''stage'', JStr (workflow_stage_value (wf_stage x))),
      (''status'', JStr (workflow_status_value (wf_status x))),
      (''retry_count'', JInt (wf_retry_count x)), (''max_retries'', JInt (wf_max_retries x)),
      (''approval_state'', JStr (approval_state_value (wf_approval x))),
      (''last_error'', jopt JStr (wf_last_error x)),
      (''verification_id'', jopt JStr (wf_verification_id x)),
      (''waiting_for_human'', JBool (wf_waiting_for_human x)),
      (''correlation_id'', jopt JStr (wf_correlation_id x)),
      (''started_at'', jtime cx (wf_started_at x)), (''updated_at'', jtime cx (wf_updated_at x))]"
    using assms(2) by (auto simp: workflow_state_dump_def)
  note f = fields [OF same]
  show ?thesis by (cases x) (simp add: d f doc_simps assms(1) field_opt [OF assms(1)])
qed

definition verification_step_dump :: "codec \<Rightarrow> verification_step \<Rightarrow> json" where
  "verification_step_dump cx x =
     JDict [(''id'', JStr (vs_id x)), (''kind'', JStr (check_kind_value (vs_kind x))),
       (''name'', JStr (vs_name x)), (''command'', jopt JStr (vs_command x)),
       (''status'', JStr (check_status_value (vs_status x))), (''output'', JStr (vs_output x)),
       (''detail'', JDict (vs_detail x))]"

fun verification_step_parse :: "codec \<Rightarrow> json \<Rightarrow> verification_step option" where
  "verification_step_parse cx (JDict d) =
     Option.bind (dflt (v_uuid (cx_base cx)) (cx_fresh cx) d ''id'') (\<lambda>a0.
     Option.bind (req (js_enum check_kind_of) d ''kind'') (\<lambda>a1.
     Option.bind (req (v_str (cx_base cx)) d ''name'') (\<lambda>a2.
     Option.bind (opt (v_str (cx_base cx)) d ''command'') (\<lambda>a3.
     Option.bind (dflt (js_enum check_status_of) (Check_Pending) d ''status'') (\<lambda>a4.
     Option.bind (dflt (v_str (cx_base cx)) ([]) d ''output'') (\<lambda>a5.
     map_option (\<lambda>a6. \<lparr>vs_id = a0, vs_kind = a1, vs_name = a2, vs_command = a3,
       vs_status = a4, vs_output = a5, vs_detail = a6\<rparr>)
       (dflt js_dict ([]) d ''detail'')))))))"
| "verification_step_parse cx _ = None"

definition verification_plan_dump :: "codec \<Rightarrow> verification_plan \<Rightarrow> json" where
  "verification_plan_dump cx x =
     JDict [(''id'', JStr (vp_id x)), (''execution_id'', JStr (vp_execution_id x)),
       (''work_item_id'', JStr (vp_work_item_id x)),
       (''steps'', JList (map (verification_step_dump cx) (vp_steps x))),
       (''created_at'', jtime cx (vp_created_at x)), (''metadata'', JDict (vp_metadata x))]"

fun verification_plan_parse :: "codec \<Rightarrow> json \<Rightarrow> verification_plan option" where
  "verification_plan_parse cx (JDict d) =
     Option.bind (dflt (v_uuid (cx_base cx)) (cx_fresh cx) d ''id'') (\<lambda>a0.
     Option.bind (req (v_uuid (cx_base cx)) d ''execution_id'') (\<lambda>a1.
     Option.bind (req (v_uuid (cx_base cx)) d ''work_item_id'') (\<lambda>a2.
     Option.bind (dflt (js_list (verification_step_parse cx)) ([]) d ''steps'') (\<lambda>a3.
     Option.bind (dflt (cx_time cx) (cx_now cx) d ''created_at'') (\<lambda>a4.
     map_option (\<lambda>a5. \<lparr>vp_id = a0, vp_execution_id = a1, vp_work_item_id = a2,
       vp_steps = a3, vp_created_at = a4, vp_metadata = a5\<rparr>)
       (dflt js_dict ([]) d ''metadata''))))))"
| "verification_plan_parse cx _ = None"

text \<open>\<open>RequirementSource\<close>, a pair in the model.\<close>

definition requirement_source_dump :: "codec \<Rightarrow> requirement_source_type \<times> source_reference option \<Rightarrow> json" where
  "requirement_source_dump cx x =
     JDict [(''source_type'', JStr (requirement_source_type_value (fst x))),
       (''source'', jopt (source_reference_dump cx) (snd x))]"

fun requirement_source_parse :: "codec \<Rightarrow> json \<Rightarrow> (requirement_source_type \<times> source_reference option) option" where
  "requirement_source_parse cx (JDict d) =
     Option.bind (dflt (js_enum requirement_source_type_of) From_Manual d ''source_type'') (\<lambda>t.
       map_option (Pair t) (opt (source_reference_parse cx) d ''source''))"
| "requirement_source_parse cx _ = None"

lemma requirement_source_back [simp]:
  assumes "codec_ok cx" "json_same j (requirement_source_dump cx x)"
  shows "requirement_source_parse cx j = Some x"
proof -
  obtain d where d: "j = JDict d" and same: "same_dict d
     [(''source_type'', JStr (requirement_source_type_value (fst x))),
      (''source'', jopt (source_reference_dump cx) (snd x))]"
    using assms(2) by (auto simp: requirement_source_dump_def)
  have "opt (source_reference_parse cx) d ''source'' = Some (snd x)"
    by (rule opt_back [OF source_reference_back [OF assms(1)] _ same]) (simp_all add: source_reference_dump_def)
  then show ?thesis by (simp add: d fields [OF same] doc_simps)
qed

text \<open>
  \<open>ChangedFile\<close>, dumped as a model and read by \<open>_changed_file_from_dict\<close>: \<open>data["path"]\<close> and
  \<open>data["category"]\<close> must be there, and every value is put through \<open>str\<close>.
\<close>

definition changed_file_dump :: "changed_file \<Rightarrow> json" where
  "changed_file_dump f =
     JDict [(''path'', JStr (cf_path f)), (''category'', JStr (file_category_value (cf_category f))),
       (''change_type'', JStr (cf_change_type f))]"

fun changed_file_from_dict :: "json \<Rightarrow> changed_file option" where
  "changed_file_from_dict (JDict d) =
     (case (map_of d ''path'', map_of d ''category'') of
        (Some p, Some c) \<Rightarrow>
          map_option (\<lambda>k. \<lparr>cf_path = py_str p, cf_category = k,
              cf_change_type = (case map_of d ''change_type'' of None \<Rightarrow> ''modified'' | Some t \<Rightarrow> py_str t)\<rparr>)
            (file_category_of (py_str c))
      | _ \<Rightarrow> None)"
| "changed_file_from_dict _ = None"

lemma changed_file_back [simp]:
  assumes "json_same j (changed_file_dump f)"
  shows "changed_file_from_dict j = Some f"
proof -
  obtain d where d: "j = JDict d" and same: "same_dict d
     [(''path'', JStr (cf_path f)), (''category'', JStr (file_category_value (cf_category f))),
      (''change_type'', JStr (cf_change_type f))]"
    using assms by (auto simp: changed_file_dump_def)
  show ?thesis by (simp add: d fields [OF same])
qed

subsection \<open>Columns\<close>

text \<open>A nullable column, and the readers of a value a row has.\<close>

definition nul :: "('a \<Rightarrow> column_value) \<Rightarrow> 'a option \<Rightarrow> column_value" where
  "nul f x = (case x of None \<Rightarrow> Col_Null | Some v \<Rightarrow> f v)"

definition nullable :: "(column_value \<Rightarrow> 'a option) \<Rightarrow> column_value \<Rightarrow> 'a option option" where
  "nullable p v = (if v = Col_Null then Some None else map_option Some (p v))"

definition as_uuid :: "column_value \<Rightarrow> uuid option" where
  "as_uuid v = (case v of Col_Uuid u \<Rightarrow> Some u | _ \<Rightarrow> None)"

definition as_str :: "column_value \<Rightarrow> string option" where
  "as_str v = (case v of Col_Str s \<Rightarrow> Some s | _ \<Rightarrow> None)"

definition as_integer :: "column_value \<Rightarrow> int option" where
  "as_integer v = (case v of Col_Int i \<Rightarrow> Some i | _ \<Rightarrow> None)"

definition as_bool :: "column_value \<Rightarrow> bool option" where
  "as_bool v = (case v of Col_Bool b \<Rightarrow> Some b | _ \<Rightarrow> None)"

definition as_time :: "column_value \<Rightarrow> datetime option" where
  "as_time v = (case v of Col_Time t \<Rightarrow> Some t | _ \<Rightarrow> None)"

definition as_float :: "column_value \<Rightarrow> int option" where
  "as_float v = (case v of Col_Float x \<Rightarrow> Some x | _ \<Rightarrow> None)"

definition as_enum :: "(string \<Rightarrow> 'a option) \<Rightarrow> column_value \<Rightarrow> 'a option" where
  "as_enum f v = (case v of Col_Str s \<Rightarrow> f s | _ \<Rightarrow> None)"

definition as_json :: "(json \<Rightarrow> 'a option) \<Rightarrow> column_value \<Rightarrow> 'a option" where
  "as_json p v = (case v of Col_Json j \<Rightarrow> p j | _ \<Rightarrow> None)"

text \<open>\<open>row.column or []\<close>, \<open>or {}\<close>, \<open>or 0\<close> and \<open>or False\<close>.\<close>

definition or_json :: "json \<Rightarrow> column_value \<Rightarrow> column_value" where
  "or_json e v = (case v of Col_Null \<Rightarrow> Col_Json e | Col_Json j \<Rightarrow> Col_Json (py_or j e) | _ \<Rightarrow> v)"

definition or_int :: "int \<Rightarrow> column_value \<Rightarrow> column_value" where
  "or_int e v = (case v of Col_Null \<Rightarrow> Col_Int e | Col_Int i \<Rightarrow> Col_Int (if i = 0 then e else i) | _ \<Rightarrow> v)"

definition or_false :: "column_value \<Rightarrow> column_value" where
  "or_false v = (case v of Col_Null \<Rightarrow> Col_Bool False | _ \<Rightarrow> v)"

text \<open>\<open>dump_models\<close> and \<open>dump_uuids\<close>; a list of strings is stored as it is.\<close>

definition dump_models :: "('a \<Rightarrow> json) \<Rightarrow> 'a list \<Rightarrow> column_value" where
  "dump_models f xs = Col_Json (JList (map f xs))"

definition dump_uuids :: "uuid list \<Rightarrow> column_value" where
  "dump_uuids us = Col_Json (JList (map JStr us))"

definition strings :: "string list \<Rightarrow> column_value" where
  "strings xs = Col_Json (JList (map JStr xs))"

lemma column_simps [simp]:
  "as_uuid (Col_Uuid u) = Some u" "as_str (Col_Str s) = Some s" "as_integer (Col_Int i) = Some i"
  "as_bool (Col_Bool b) = Some b" "as_time (Col_Time t) = Some t" "as_float (Col_Float x) = Some x"
  "as_enum f (Col_Str s) = f s" "as_json p (Col_Json j) = p j"
  "or_false (Col_Bool b) = Col_Bool b" "or_int 0 (Col_Int i) = Col_Int i"
  by (simp_all add: as_uuid_def as_str_def as_integer_def as_bool_def as_time_def as_float_def as_enum_def
      as_json_def or_false_def or_int_def)

lemma nullable_simps [simp]:
  "nullable as_uuid (nul Col_Uuid a) = Some a" "nullable as_str (nul Col_Str b) = Some b"
  "nullable as_integer (nul Col_Int c) = Some c" "nullable as_time (nul Col_Time d) = Some d"
  by (cases a; cases b; cases c; cases d; simp add: nullable_def nul_def)+

lemma nullable_enum [simp]:
  "(\<And>x. g (f x) = Some x) \<Longrightarrow> nullable (as_enum g) (nul Col_Str (map_option f y)) = Some y"
  by (cases y) (simp_all add: nullable_def nul_def)

lemma same_nul [simp]:
  "same_value v (nul Col_Uuid a) \<longleftrightarrow> v = nul Col_Uuid a" "same_value v (nul Col_Str b) \<longleftrightarrow> v = nul Col_Str b"
  "same_value v (nul Col_Int c) \<longleftrightarrow> v = nul Col_Int c" "same_value v (nul Col_Time d) \<longleftrightarrow> v = nul Col_Time d"
  by (cases a; cases b; cases c; cases d; simp add: nul_def)+

lemma typed_nul [simp]:
  "has_type Uuid_Type (nul Col_Uuid a) \<or> nul Col_Uuid a = Col_Null"
  "has_type (String_Type n) (nul Col_Str b) \<or> nul Col_Str b = Col_Null"
  "has_type Text_Type (nul Col_Str b) \<or> nul Col_Str b = Col_Null"
  "has_type Big_Integer (nul Col_Int c) \<or> nul Col_Int c = Col_Null"
  "has_type Time_Type (nul Col_Time d) \<or> nul Col_Time d = Col_Null"
  by (cases a; cases b; cases c; cases d; simp add: nul_def)+

lemma same_json_column [simp]:
  "same_value v (strings xs) \<longleftrightarrow> v = strings xs" "same_value v (dump_uuids us) \<longleftrightarrow> v = dump_uuids us"
  "same_value v (dump_models f ys) \<longleftrightarrow> (\<exists>j. v = Col_Json j \<and> json_same j (JList (map f ys)))"
  by (auto simp: strings_def dump_uuids_def dump_models_def same_strings)

lemma typed_json [simp]:
  "has_type Jsonb (strings xs)" "has_type Jsonb (dump_uuids us)" "has_type Jsonb (dump_models f ys)"
  by (simp_all add: strings_def dump_uuids_def dump_models_def)

lemma or_json_same:
  assumes "json_same j (JList xs)"
  shows "py_or j (JList []) = j"
  using assms by (auto simp: py_or_def same_list_simps)

lemma or_json_simps [simp]:
  "or_json (JList []) (strings xs) = strings xs" "or_json (JList []) (dump_uuids us) = dump_uuids us"
  "or_json (JList []) (Col_Json j) = Col_Json (py_or j (JList []))"
  "or_json (JDict []) (Col_Json (JDict d)) = Col_Json (JDict d)"
  by (simp_all add: or_json_def strings_def dump_uuids_def py_or_def)

lemma read_strings:
  "codec_ok cx \<Longrightarrow> as_json (js_list (v_str (cx_base cx))) (strings xs) = Some xs"
  "codec_ok cx \<Longrightarrow> as_json (js_list (v_uuid (cx_base cx))) (dump_uuids us) = Some us"
  by (simp_all add: strings_def dump_uuids_def js_strings codec_simps)

lemma col_simps [simp]:
  "col [] c = Col_Null" "col ((k, v) # r) c = (if k = c then v else col r c)"
  by (simp_all add: col_def)

end
