(* ===== verification/Rows.thy ===== *)
theory Rows
  imports Tables Codec
begin

text \<open>
  The rows of the PostgreSQL adapter (\<open>adapters/postgresql/repositories.py\<close>): for every entity the
  row its repository inserts (\<open>_row\<close>), the attributes an update or the \<open>set_\<close> of an upsert assigns
  (\<open>_cells\<close>), and the validation of a row that is read (\<open>_from_row\<close>, \<open>None\<close> where it raises).
  \<open>_as_str(x)\<close> and \<open>x.value\<close> are the same on the members of an enumeration, which is what the
  fields of the model hold. The lemmas show that every row has the columns and types its table
  declares, and that reading a stored row gives the entity back.
\<close>

subsection \<open>Entities only the store knows\<close>

record evidence =
  ed_id :: uuid
  ed_execution_id :: uuid
  ed_type :: evidence_type
  ed_source :: string
  ed_artifact_id :: "uuid option"
  ed_payload :: "(string \<times> json) list"

record artifact =
  ar_id :: uuid
  ar_project_id :: uuid
  ar_type :: artifact_type
  ar_uri :: "string option"
  ar_checksum :: "string option"
  ar_repository_id :: "uuid option"
  ar_commit_sha :: "string option"
  ar_execution_id :: "uuid option"

text \<open>A decision is what the parser of an ADR finds, with its references.\<close>

record decision = adr_record +
  de_source_refs :: "source_reference list"
  de_external_refs :: "external_reference list"

record stored_failure = command_failure +
  failure_id :: uuid
  failure_occurred_at :: datetime

subsection \<open>Rows\<close>

text \<open>A list of \<open>UUID\<close> objects bound to a \<open>JSONB\<close> column, and a value that was not validated.\<close>

definition uuid_objects :: "uuid list \<Rightarrow> column_value" where
  "uuid_objects us = (if us = [] then strings [] else Col_Uuids us)"

definition dynamic :: "json \<Rightarrow> column_value" where
  "dynamic v =
     (case v of JNull \<Rightarrow> Col_Null | JInt i \<Rightarrow> Col_Int i | JStr s \<Rightarrow> Col_Str s | JBool b \<Rightarrow> Col_Bool b
      | _ \<Rightarrow> Col_Json v)"

text \<open>A row of \<open>_replace_external_refs\<close>, with the identifier \<open>uuid4\<close> draws, and its reference.\<close>

definition reference_row :: "uuid \<Rightarrow> string \<Rightarrow> uuid \<Rightarrow> external_reference \<Rightarrow> row" where
  "reference_row i owner_type owner r =
     [(''id'', Col_Uuid i), (''owner_type'', Col_Str owner_type), (''owner_id'', Col_Uuid owner),
      (''provider'', Col_Str (ref_provider r)), (''external_id'', Col_Str (ref_external_id r)),
      (''external_type'', nul Col_Str (ref_external_type r)), (''url'', nul Col_Str (ref_url r)),
      (''namespace'', nul Col_Str (ref_namespace r))]"

text \<open>The row of a processed key; the server fills in the time.\<close>

definition idempotency_row :: "datetime \<Rightarrow> string \<Rightarrow> uuid option \<Rightarrow> row" where
  "idempotency_row now key e =
     [(''idempotency_key'', Col_Str key), (''event_id'', nul Col_Uuid e), (''processed_at'', Col_Time now)]"


definition project_row :: "project \<Rightarrow> row" where
  "project_row x =
     [(''id'', Col_Uuid (pj_id x)), (''name'', Col_Str (pj_name x)),
      (''description'', nul Col_Str (pj_description x)),
      (''status'', Col_Str (project_status_value (pj_status x))),
      (''parent_id'', nul Col_Uuid (pj_parent_id x)),
      (''repositories'', dump_uuids (pj_repositories x)),
      (''external_refs'', dump_models external_reference_dump (pj_external_refs x))]"

definition project_cells :: "project \<Rightarrow> row" where
  "project_cells x =
     [(''name'', Col_Str (pj_name x)), (''description'', nul Col_Str (pj_description x)),
      (''status'', Col_Str (project_status_value (pj_status x))),
      (''parent_id'', nul Col_Uuid (pj_parent_id x)),
      (''repositories'', dump_uuids (pj_repositories x)),
      (''external_refs'', dump_models external_reference_dump (pj_external_refs x))]"

definition project_from_row :: "codec \<Rightarrow> row \<Rightarrow> project option" where
  "project_from_row cx r =
     Option.bind (as_uuid (col r ''id'')) (\<lambda>a0.
     Option.bind (as_str (col r ''name'')) (\<lambda>a1.
     Option.bind (nullable as_str (col r ''description'')) (\<lambda>a2.
     Option.bind (as_enum project_status_of (col r ''status'')) (\<lambda>a3.
     Option.bind (nullable as_uuid (col r ''parent_id'')) (\<lambda>a4.
     Option.bind (as_json (js_list (v_uuid (cx_base cx))) (col r ''repositories'')) (\<lambda>a5.
     map_option (\<lambda>a6. \<lparr>pj_id = a0, pj_name = a1, pj_description = a2,
       pj_status = a3, pj_parent_id = a4, pj_repositories = a5, pj_external_refs = a6\<rparr>)
       (as_json (js_list (external_reference_of (cx_base cx))) (col r ''external_refs''))))))))"

definition repository_row :: "repository \<Rightarrow> row" where
  "repository_row x =
     [(''id'', Col_Uuid (rp_id x)), (''project_id'', Col_Uuid (rp_project_id x)),
      (''name'', Col_Str (rp_name x)), (''clone_url'', Col_Str (rp_clone_url x)),
      (''default_branch'', Col_Str (rp_default_branch x)),
      (''current_revision'', nul Col_Str (rp_current_revision x)),
      (''external_refs'', dump_models external_reference_dump (rp_external_refs x))]"

definition repository_cells :: "repository \<Rightarrow> row" where
  "repository_cells x =
     [(''project_id'', Col_Uuid (rp_project_id x)), (''name'', Col_Str (rp_name x)),
      (''clone_url'', Col_Str (rp_clone_url x)),
      (''default_branch'', Col_Str (rp_default_branch x)),
      (''current_revision'', nul Col_Str (rp_current_revision x)),
      (''external_refs'', dump_models external_reference_dump (rp_external_refs x))]"

definition repository_from_row :: "codec \<Rightarrow> row \<Rightarrow> repository option" where
  "repository_from_row cx r =
     Option.bind (as_uuid (col r ''id'')) (\<lambda>a0.
     Option.bind (as_uuid (col r ''project_id'')) (\<lambda>a1.
     Option.bind (as_str (col r ''name'')) (\<lambda>a2.
     Option.bind (as_str (col r ''clone_url'')) (\<lambda>a3.
     Option.bind (as_str (col r ''default_branch'')) (\<lambda>a4.
     Option.bind (nullable as_str (col r ''current_revision'')) (\<lambda>a5.
     map_option (\<lambda>a6. \<lparr>rp_id = a0, rp_project_id = a1, rp_name = a2,
       rp_clone_url = a3, rp_default_branch = a4, rp_current_revision = a5, rp_external_refs = a6\<rparr>)
       (as_json (js_list (external_reference_of (cx_base cx))) (col r ''external_refs''))))))))"

definition actor_row :: "actor \<Rightarrow> row" where
  "actor_row x =
     [(''id'', Col_Uuid (ac_id x)), (''actor_type'', Col_Str (actor_type_value (ac_type x))),
      (''display_name'', Col_Str (ac_display_name x)),
      (''capabilities'', strings (ac_capabilities x))]"

definition actor_cells :: "actor \<Rightarrow> row" where
  "actor_cells x =
     [(''actor_type'', Col_Str (actor_type_value (ac_type x))),
      (''display_name'', Col_Str (ac_display_name x)),
      (''capabilities'', strings (ac_capabilities x))]"

definition actor_from_row :: "codec \<Rightarrow> row \<Rightarrow> actor option" where
  "actor_from_row cx r =
     Option.bind (as_uuid (col r ''id'')) (\<lambda>a0.
     Option.bind (as_enum actor_type_of (col r ''actor_type'')) (\<lambda>a1.
     Option.bind (as_str (col r ''display_name'')) (\<lambda>a2.
     map_option (\<lambda>a3. \<lparr>ac_id = a0, ac_type = a1, ac_display_name = a2,
       ac_capabilities = a3\<rparr>)
       (as_json (js_list (v_str (cx_base cx))) (col r ''capabilities'')))))"

definition work_item_row :: "codec \<Rightarrow> work_item \<Rightarrow> row" where
  "work_item_row cx x =
     [(''id'', Col_Uuid (wi_id x)), (''project_id'', Col_Uuid (wi_project_id x)),
      (''type'', Col_Str (work_item_type_value (wi_type x))), (''title'', Col_Str (wi_title x)),
      (''description'', Col_Str (wi_description x)),
      (''priority'', nul Col_Str (map_option priority_value (wi_priority x))),
      (''parent_id'', nul Col_Uuid (wi_parent_id x)), (''assignee'', nul Col_Uuid (wi_assignee x)),
      (''assignment'', Col_Json (jopt (assignment_dump cx) (wi_assignment x))),
      (''acceptance_criteria'', dump_models (acceptance_criterion_dump cx) (wi_acceptance_criteria x)),
      (''requirement_refs'', dump_uuids (wi_requirement_refs x)),
      (''external_refs'', dump_models external_reference_dump (wi_external_refs x)),
      (''human_work_status'', Col_Str (human_work_status_value (wi_human x))),
      (''implementation_status'', Col_Str (implementation_status_value (wi_implementation x))),
      (''verification_status'', Col_Str (verification_status_value (wi_verification x))),
      (''pull_request_status'', Col_Str (pull_request_status_value (wi_pull_request x)))]"

definition work_item_cells :: "codec \<Rightarrow> work_item \<Rightarrow> row" where
  "work_item_cells cx x =
     [(''project_id'', Col_Uuid (wi_project_id x)),
      (''type'', Col_Str (work_item_type_value (wi_type x))), (''title'', Col_Str (wi_title x)),
      (''description'', Col_Str (wi_description x)),
      (''priority'', nul Col_Str (map_option priority_value (wi_priority x))),
      (''parent_id'', nul Col_Uuid (wi_parent_id x)), (''assignee'', nul Col_Uuid (wi_assignee x)),
      (''assignment'', Col_Json (jopt (assignment_dump cx) (wi_assignment x))),
      (''acceptance_criteria'', dump_models (acceptance_criterion_dump cx) (wi_acceptance_criteria x)),
      (''requirement_refs'', dump_uuids (wi_requirement_refs x)),
      (''external_refs'', dump_models external_reference_dump (wi_external_refs x)),
      (''human_work_status'', Col_Str (human_work_status_value (wi_human x))),
      (''implementation_status'', Col_Str (implementation_status_value (wi_implementation x))),
      (''verification_status'', Col_Str (verification_status_value (wi_verification x))),
      (''pull_request_status'', Col_Str (pull_request_status_value (wi_pull_request x)))]"

definition work_item_from_row :: "codec \<Rightarrow> row \<Rightarrow> work_item option" where
  "work_item_from_row cx r =
     Option.bind (as_uuid (col r ''id'')) (\<lambda>a0.
     Option.bind (as_uuid (col r ''project_id'')) (\<lambda>a1.
     Option.bind (as_enum work_item_type_of (col r ''type'')) (\<lambda>a2.
     Option.bind (as_str (col r ''title'')) (\<lambda>a3.
     Option.bind (as_str (col r ''description'')) (\<lambda>a4.
     Option.bind (nullable (as_enum priority_of) (col r ''priority'')) (\<lambda>a5.
     Option.bind (nullable as_uuid (col r ''parent_id'')) (\<lambda>a6.
     Option.bind (nullable as_uuid (col r ''assignee'')) (\<lambda>a7.
     Option.bind (as_json (js_opt (assignment_parse cx)) (col r ''assignment'')) (\<lambda>a8.
     Option.bind (as_json (js_list (acceptance_criterion_parse cx)) (col r ''acceptance_criteria'')) (\<lambda>a9.
     Option.bind (as_json (js_list (v_uuid (cx_base cx))) (col r ''requirement_refs'')) (\<lambda>a10.
     Option.bind (as_json (js_list (external_reference_of (cx_base cx))) (col r ''external_refs'')) (\<lambda>a11.
     Option.bind (as_enum human_status_of (col r ''human_work_status'')) (\<lambda>a12.
     Option.bind (as_enum implementation_status_of (col r ''implementation_status'')) (\<lambda>a13.
     Option.bind (as_enum verification_status_of (col r ''verification_status'')) (\<lambda>a14.
     map_option (\<lambda>a15. \<lparr>wi_id = a0, wi_project_id = a1, wi_type = a2, wi_title = a3,
       wi_description = a4, wi_priority = a5, wi_parent_id = a6, wi_assignee = a7,
       wi_assignment = a8, wi_acceptance_criteria = a9, wi_requirement_refs = a10,
       wi_external_refs = a11, wi_human = a12, wi_implementation = a13, wi_verification = a14,
       wi_pull_request = a15\<rparr>)
       (as_enum pull_request_status_of (col r ''pull_request_status'')))))))))))))))))"

definition requirement_row :: "codec \<Rightarrow> requirement \<Rightarrow> row" where
  "requirement_row cx x =
     [(''id'', Col_Uuid (rm_id x)), (''project_id'', Col_Uuid (rm_project_id x)),
      (''key'', nul Col_Str (rm_key x)), (''title'', Col_Str (rm_title x)),
      (''description'', Col_Str (rm_description x)),
      (''status'', Col_Str (requirement_status_value (rm_status x))),
      (''priority'', nul Col_Str (map_option priority_value (rm_priority x))),
      (''parent_id'', nul Col_Uuid (rm_parent_id x)),
      (''derived_from'', dump_uuids (rm_derived_from x)),
      (''acceptance_criteria'', dump_models (acceptance_criterion_dump cx) (rm_acceptance_criteria x)),
      (''constraints'', dump_models (constraint_dump cx) (rm_constraints x)),
      (''source_refs'', dump_models (requirement_source_dump cx) (rm_source_refs x))]"

definition requirement_cells :: "codec \<Rightarrow> requirement \<Rightarrow> row" where
  "requirement_cells cx x =
     [(''project_id'', Col_Uuid (rm_project_id x)), (''key'', nul Col_Str (rm_key x)),
      (''title'', Col_Str (rm_title x)), (''description'', Col_Str (rm_description x)),
      (''status'', Col_Str (requirement_status_value (rm_status x))),
      (''priority'', nul Col_Str (map_option priority_value (rm_priority x))),
      (''parent_id'', nul Col_Uuid (rm_parent_id x)),
      (''derived_from'', dump_uuids (rm_derived_from x)),
      (''acceptance_criteria'', dump_models (acceptance_criterion_dump cx) (rm_acceptance_criteria x)),
      (''constraints'', dump_models (constraint_dump cx) (rm_constraints x)),
      (''source_refs'', dump_models (requirement_source_dump cx) (rm_source_refs x))]"

definition requirement_from_row :: "codec \<Rightarrow> row \<Rightarrow> requirement option" where
  "requirement_from_row cx r =
     Option.bind (as_uuid (col r ''id'')) (\<lambda>a0.
     Option.bind (as_uuid (col r ''project_id'')) (\<lambda>a1.
     Option.bind (nullable as_str (col r ''key'')) (\<lambda>a2.
     Option.bind (as_str (col r ''title'')) (\<lambda>a3.
     Option.bind (as_str (col r ''description'')) (\<lambda>a4.
     Option.bind (as_enum requirement_status_of (col r ''status'')) (\<lambda>a5.
     Option.bind (nullable (as_enum priority_of) (col r ''priority'')) (\<lambda>a6.
     Option.bind (nullable as_uuid (col r ''parent_id'')) (\<lambda>a7.
     Option.bind (as_json (js_list (v_uuid (cx_base cx))) (col r ''derived_from'')) (\<lambda>a8.
     Option.bind (as_json (js_list (acceptance_criterion_parse cx)) (col r ''acceptance_criteria'')) (\<lambda>a9.
     Option.bind (as_json (js_list (constraint_parse cx)) (col r ''constraints'')) (\<lambda>a10.
     map_option (\<lambda>a11. \<lparr>rm_id = a0, rm_project_id = a1, rm_key = a2, rm_title = a3,
       rm_description = a4, rm_status = a5, rm_priority = a6, rm_parent_id = a7,
       rm_derived_from = a8, rm_acceptance_criteria = a9, rm_constraints = a10, rm_source_refs = a11\<rparr>)
       (as_json (js_list (requirement_source_parse cx)) (col r ''source_refs'')))))))))))))"

definition document_row :: "codec \<Rightarrow> document \<Rightarrow> row" where
  "document_row cx x =
     [(''id'', Col_Uuid (dc_id x)), (''project_id'', Col_Uuid (dc_project_id x)),
      (''type'', Col_Str (document_type_value (dc_type x))), (''title'', Col_Str (dc_title x)),
      (''source'', Col_Json (document_source_dump cx (dc_source x))),
      (''current_version_id'', nul Col_Uuid (dc_current_version x)),
      (''external_refs'', dump_models external_reference_dump (dc_external_refs x))]"

definition document_cells :: "codec \<Rightarrow> document \<Rightarrow> row" where
  "document_cells cx x =
     [(''project_id'', Col_Uuid (dc_project_id x)),
      (''type'', Col_Str (document_type_value (dc_type x))), (''title'', Col_Str (dc_title x)),
      (''source'', Col_Json (document_source_dump cx (dc_source x))),
      (''current_version_id'', nul Col_Uuid (dc_current_version x)),
      (''external_refs'', dump_models external_reference_dump (dc_external_refs x))]"

definition document_from_row :: "codec \<Rightarrow> row \<Rightarrow> document option" where
  "document_from_row cx r =
     Option.bind (as_uuid (col r ''id'')) (\<lambda>a0.
     Option.bind (as_uuid (col r ''project_id'')) (\<lambda>a1.
     Option.bind (as_enum document_type_of (col r ''type'')) (\<lambda>a2.
     Option.bind (as_str (col r ''title'')) (\<lambda>a3.
     Option.bind (as_json (document_source_parse cx) (col r ''source'')) (\<lambda>a4.
     Option.bind (nullable as_uuid (col r ''current_version_id'')) (\<lambda>a5.
     map_option (\<lambda>a6. \<lparr>dc_id = a0, dc_project_id = a1, dc_type = a2, dc_title = a3,
       dc_source = a4, dc_current_version = a5, dc_external_refs = a6\<rparr>)
       (as_json (js_list (external_reference_of (cx_base cx))) (col r ''external_refs''))))))))"

definition document_version_row :: "document_version \<Rightarrow> row" where
  "document_version_row x =
     [(''id'', Col_Uuid (dv_id x)), (''document_id'', Col_Uuid (dv_document_id x)),
      (''source_version'', nul Col_Str (dv_source_version x)),
      (''repository_id'', nul Col_Uuid (dv_repository_id x)),
      (''commit_sha'', nul Col_Str (dv_commit_sha x)), (''checksum'', Col_Str (dv_checksum x)),
      (''ingested_at'', Col_Time (dv_ingested_at x)),
      (''content_uri'', nul Col_Str (dv_content_uri x))]"

definition document_version_from_row :: "row \<Rightarrow> document_version option" where
  "document_version_from_row r =
     Option.bind (as_uuid (col r ''id'')) (\<lambda>a0.
     Option.bind (as_uuid (col r ''document_id'')) (\<lambda>a1.
     Option.bind (nullable as_str (col r ''source_version'')) (\<lambda>a2.
     Option.bind (nullable as_uuid (col r ''repository_id'')) (\<lambda>a3.
     Option.bind (nullable as_str (col r ''commit_sha'')) (\<lambda>a4.
     Option.bind (as_str (col r ''checksum'')) (\<lambda>a5.
     Option.bind (as_time (col r ''ingested_at'')) (\<lambda>a6.
     map_option (\<lambda>a7. \<lparr>dv_id = a0, dv_document_id = a1, dv_source_version = a2,
       dv_repository_id = a3, dv_commit_sha = a4, dv_checksum = a5, dv_ingested_at = a6,
       dv_content_uri = a7\<rparr>)
       (nullable as_str (col r ''content_uri'')))))))))"

definition document_node_row :: "document_node \<Rightarrow> row" where
  "document_node_row x =
     [(''id'', Col_Uuid (dn_id x)), (''version_id'', Col_Uuid (dn_version_id x)),
      (''node_type'', Col_Str (document_node_type_value (dn_type x))),
      (''title'', nul Col_Str (dn_title x)), (''heading_path'', strings (dn_heading_path x)),
      (''content'', Col_Str (dn_content x)), (''parent_id'', nul Col_Uuid (dn_parent_id x)),
      (''child_ids'', dump_uuids (dn_child_ids x)), (''code_refs'', strings (dn_code_refs x)),
      (''requirement_refs'', dump_uuids (dn_requirement_refs x)),
      (''work_item_refs'', dump_uuids (dn_work_item_refs x)), (''links'', strings (dn_links x)),
      (''unresolved_refs'', strings (dn_unresolved_refs x))]"

definition document_node_from_row :: "codec \<Rightarrow> row \<Rightarrow> document_node option" where
  "document_node_from_row cx r =
     Option.bind (as_uuid (col r ''id'')) (\<lambda>a0.
     Option.bind (as_uuid (col r ''version_id'')) (\<lambda>a1.
     Option.bind (as_enum document_node_type_of (col r ''node_type'')) (\<lambda>a2.
     Option.bind (nullable as_str (col r ''title'')) (\<lambda>a3.
     Option.bind (as_json (js_list (v_str (cx_base cx))) (col r ''heading_path'')) (\<lambda>a4.
     Option.bind (as_str (col r ''content'')) (\<lambda>a5.
     Option.bind (nullable as_uuid (col r ''parent_id'')) (\<lambda>a6.
     Option.bind (as_json (js_list (v_uuid (cx_base cx))) (col r ''child_ids'')) (\<lambda>a7.
     Option.bind (as_json (js_list (v_str (cx_base cx))) (col r ''code_refs'')) (\<lambda>a8.
     Option.bind (as_json (js_list (v_uuid (cx_base cx))) (col r ''requirement_refs'')) (\<lambda>a9.
     Option.bind (as_json (js_list (v_uuid (cx_base cx))) (col r ''work_item_refs'')) (\<lambda>a10.
     Option.bind (as_json (js_list (v_str (cx_base cx))) (col r ''links'')) (\<lambda>a11.
     map_option (\<lambda>a12. \<lparr>dn_id = a0, dn_version_id = a1, dn_type = a2, dn_title = a3,
       dn_heading_path = a4, dn_content = a5, dn_parent_id = a6, dn_child_ids = a7,
       dn_code_refs = a8, dn_requirement_refs = a9, dn_work_item_refs = a10, dn_links = a11,
       dn_unresolved_refs = a12\<rparr>)
       (as_json (js_list (v_str (cx_base cx))) (col r ''unresolved_refs''))))))))))))))"

definition decision_row :: "codec \<Rightarrow> decision \<Rightarrow> row" where
  "decision_row cx x =
     [(''id'', Col_Uuid (de_id x)), (''project_id'', Col_Uuid (de_project_id x)),
      (''title'', Col_Str (de_title x)), (''context'', Col_Str (de_context x)),
      (''decision'', Col_Str (de_decision x)), (''alternatives'', strings (de_alternatives x)),
      (''consequences'', strings (de_consequences x)),
      (''status'', Col_Str (decision_status_value (de_status x))),
      (''source_refs'', dump_models (source_reference_dump cx) (de_source_refs x)),
      (''external_refs'', dump_models external_reference_dump (de_external_refs x))]"

definition decision_cells :: "codec \<Rightarrow> decision \<Rightarrow> row" where
  "decision_cells cx x =
     [(''project_id'', Col_Uuid (de_project_id x)), (''title'', Col_Str (de_title x)),
      (''context'', Col_Str (de_context x)), (''decision'', Col_Str (de_decision x)),
      (''alternatives'', strings (de_alternatives x)),
      (''consequences'', strings (de_consequences x)),
      (''status'', Col_Str (decision_status_value (de_status x))),
      (''source_refs'', dump_models (source_reference_dump cx) (de_source_refs x)),
      (''external_refs'', dump_models external_reference_dump (de_external_refs x))]"

definition decision_from_row :: "codec \<Rightarrow> row \<Rightarrow> decision option" where
  "decision_from_row cx r =
     Option.bind (as_uuid (col r ''id'')) (\<lambda>a0.
     Option.bind (as_uuid (col r ''project_id'')) (\<lambda>a1.
     Option.bind (as_str (col r ''title'')) (\<lambda>a2.
     Option.bind (as_str (col r ''context'')) (\<lambda>a3.
     Option.bind (as_str (col r ''decision'')) (\<lambda>a4.
     Option.bind (as_json (js_list (v_str (cx_base cx))) (col r ''alternatives'')) (\<lambda>a5.
     Option.bind (as_json (js_list (v_str (cx_base cx))) (col r ''consequences'')) (\<lambda>a6.
     Option.bind (as_enum decision_status_of (col r ''status'')) (\<lambda>a7.
     Option.bind (as_json (js_list (source_reference_parse cx)) (col r ''source_refs'')) (\<lambda>a8.
     map_option (\<lambda>a9. \<lparr>de_id = a0, de_project_id = a1, de_title = a2,
       de_context = a3, de_decision = a4, de_alternatives = a5, de_consequences = a6,
       de_status = a7, de_source_refs = a8, de_external_refs = a9\<rparr>)
       (as_json (js_list (external_reference_of (cx_base cx))) (col r ''external_refs'')))))))))))"

definition execution_row :: "execution \<Rightarrow> row" where
  "execution_row x =
     [(''id'', Col_Uuid (ex_id x)), (''workflow_id'', Col_Uuid (ex_workflow_id x)),
      (''work_item_id'', Col_Uuid (ex_work_item_id x)),
      (''executor_id'', Col_Uuid (ex_executor_id x)),
      (''context_capsule_id'', nul Col_Uuid (ex_context_capsule_id x)),
      (''status'', Col_Str (execution_status_value (ex_status x))),
      (''started_at'', Col_Time (ex_started_at x)),
      (''completed_at'', nul Col_Time (ex_completed_at x)),
      (''parent_execution_id'', nul Col_Uuid (ex_parent x)),
      (''correlation_id'', Col_Uuid (ex_correlation_id x)),
      (''base_branch'', nul Col_Str (ex_base_branch x)),
      (''working_branch'', nul Col_Str (ex_working_branch x)),
      (''worktree_path'', nul Col_Str (ex_worktree_path x))]"

definition execution_cells :: "execution \<Rightarrow> row" where
  "execution_cells x =
     [(''workflow_id'', Col_Uuid (ex_workflow_id x)),
      (''work_item_id'', Col_Uuid (ex_work_item_id x)),
      (''executor_id'', Col_Uuid (ex_executor_id x)),
      (''context_capsule_id'', nul Col_Uuid (ex_context_capsule_id x)),
      (''status'', Col_Str (execution_status_value (ex_status x))),
      (''started_at'', Col_Time (ex_started_at x)),
      (''completed_at'', nul Col_Time (ex_completed_at x)),
      (''parent_execution_id'', nul Col_Uuid (ex_parent x)),
      (''correlation_id'', Col_Uuid (ex_correlation_id x)),
      (''base_branch'', nul Col_Str (ex_base_branch x)),
      (''working_branch'', nul Col_Str (ex_working_branch x)),
      (''worktree_path'', nul Col_Str (ex_worktree_path x))]"

definition execution_from_row :: "row \<Rightarrow> execution option" where
  "execution_from_row r =
     Option.bind (as_uuid (col r ''id'')) (\<lambda>a0.
     Option.bind (as_uuid (col r ''workflow_id'')) (\<lambda>a1.
     Option.bind (as_uuid (col r ''work_item_id'')) (\<lambda>a2.
     Option.bind (as_uuid (col r ''executor_id'')) (\<lambda>a3.
     Option.bind (nullable as_uuid (col r ''context_capsule_id'')) (\<lambda>a4.
     Option.bind (as_enum execution_status_of (col r ''status'')) (\<lambda>a5.
     Option.bind (as_time (col r ''started_at'')) (\<lambda>a6.
     Option.bind (nullable as_time (col r ''completed_at'')) (\<lambda>a7.
     Option.bind (nullable as_uuid (col r ''parent_execution_id'')) (\<lambda>a8.
     Option.bind (as_uuid (col r ''correlation_id'')) (\<lambda>a9.
     Option.bind (nullable as_str (col r ''base_branch'')) (\<lambda>a10.
     Option.bind (nullable as_str (col r ''working_branch'')) (\<lambda>a11.
     map_option (\<lambda>a12. \<lparr>ex_id = a0, ex_workflow_id = a1, ex_work_item_id = a2,
       ex_executor_id = a3, ex_context_capsule_id = a4, ex_status = a5, ex_started_at = a6,
       ex_completed_at = a7, ex_parent = a8, ex_correlation_id = a9, ex_base_branch = a10,
       ex_working_branch = a11, ex_worktree_path = a12\<rparr>)
       (nullable as_str (col r ''worktree_path''))))))))))))))"

definition evidence_row :: "evidence \<Rightarrow> row" where
  "evidence_row x =
     [(''id'', Col_Uuid (ed_id x)), (''execution_id'', Col_Uuid (ed_execution_id x)),
      (''evidence_type'', Col_Str (evidence_type_value (ed_type x))),
      (''source'', Col_Str (ed_source x)), (''artifact_id'', nul Col_Uuid (ed_artifact_id x)),
      (''payload'', Col_Json (JDict (ed_payload x)))]"

definition evidence_from_row :: "row \<Rightarrow> evidence option" where
  "evidence_from_row r =
     Option.bind (as_uuid (col r ''id'')) (\<lambda>a0.
     Option.bind (as_uuid (col r ''execution_id'')) (\<lambda>a1.
     Option.bind (as_enum evidence_type_of (col r ''evidence_type'')) (\<lambda>a2.
     Option.bind (as_str (col r ''source'')) (\<lambda>a3.
     Option.bind (nullable as_uuid (col r ''artifact_id'')) (\<lambda>a4.
     map_option (\<lambda>a5. \<lparr>ed_id = a0, ed_execution_id = a1, ed_type = a2,
       ed_source = a3, ed_artifact_id = a4, ed_payload = a5\<rparr>)
       (as_json js_dict (col r ''payload'')))))))"

definition artifact_row :: "artifact \<Rightarrow> row" where
  "artifact_row x =
     [(''id'', Col_Uuid (ar_id x)), (''project_id'', Col_Uuid (ar_project_id x)),
      (''artifact_type'', Col_Str (artifact_type_value (ar_type x))),
      (''uri'', nul Col_Str (ar_uri x)), (''checksum'', nul Col_Str (ar_checksum x)),
      (''repository_id'', nul Col_Uuid (ar_repository_id x)),
      (''commit_sha'', nul Col_Str (ar_commit_sha x)),
      (''execution_id'', nul Col_Uuid (ar_execution_id x))]"

definition artifact_from_row :: "row \<Rightarrow> artifact option" where
  "artifact_from_row r =
     Option.bind (as_uuid (col r ''id'')) (\<lambda>a0.
     Option.bind (as_uuid (col r ''project_id'')) (\<lambda>a1.
     Option.bind (as_enum artifact_type_of (col r ''artifact_type'')) (\<lambda>a2.
     Option.bind (nullable as_str (col r ''uri'')) (\<lambda>a3.
     Option.bind (nullable as_str (col r ''checksum'')) (\<lambda>a4.
     Option.bind (nullable as_uuid (col r ''repository_id'')) (\<lambda>a5.
     Option.bind (nullable as_str (col r ''commit_sha'')) (\<lambda>a6.
     map_option (\<lambda>a7. \<lparr>ar_id = a0, ar_project_id = a1, ar_type = a2, ar_uri = a3,
       ar_checksum = a4, ar_repository_id = a5, ar_commit_sha = a6, ar_execution_id = a7\<rparr>)
       (nullable as_uuid (col r ''execution_id'')))))))))"

definition verification_result_row :: "verification_result \<Rightarrow> row" where
  "verification_result_row x =
     [(''id'', Col_Uuid (verification_result.vr_id x)),
      (''execution_id'', Col_Uuid (verification_result.vr_execution_id x)),
      (''verdict'', Col_Str (verdict_value (verification_result.vr_verdict x))),
      (''requirement_results'', Col_Json (JList (vr_requirement_results x))),
      (''test_results'', Col_Json (JList (vr_test_results x))),
      (''architecture_results'', Col_Json (JList (vr_architecture_results x))),
      (''static_analysis_results'', Col_Json (JList (vr_static_analysis_results x))),
      (''issues'', strings (verification_result.vr_issues x)),
      (''evidence_refs'', dump_uuids (vr_evidence_refs x))]"

definition verification_result_from_row :: "codec \<Rightarrow> row \<Rightarrow> verification_result option" where
  "verification_result_from_row cx r =
     Option.bind (as_uuid (col r ''id'')) (\<lambda>a0.
     Option.bind (as_uuid (col r ''execution_id'')) (\<lambda>a1.
     Option.bind (as_enum verdict_of (col r ''verdict'')) (\<lambda>a2.
     Option.bind (as_json (js_list Some) (col r ''requirement_results'')) (\<lambda>a3.
     Option.bind (as_json (js_list Some) (col r ''test_results'')) (\<lambda>a4.
     Option.bind (as_json (js_list Some) (col r ''architecture_results'')) (\<lambda>a5.
     Option.bind (as_json (js_list Some) (col r ''static_analysis_results'')) (\<lambda>a6.
     Option.bind (as_json (js_list (v_str (cx_base cx))) (col r ''issues'')) (\<lambda>a7.
     map_option (\<lambda>a8. \<lparr>verification_result.vr_id = a0,
       verification_result.vr_execution_id = a1, verification_result.vr_verdict = a2,
       vr_requirement_results = a3, vr_test_results = a4, vr_architecture_results = a5,
       vr_static_analysis_results = a6, verification_result.vr_issues = a7, vr_evidence_refs = a8\<rparr>)
       (as_json (js_list (v_uuid (cx_base cx))) (col r ''evidence_refs''))))))))))"

definition snapshot_row :: "repository_snapshot \<Rightarrow> row" where
  "snapshot_row x =
     [(''id'', Col_Uuid (sn_id x)), (''repository_id'', Col_Uuid (sn_repository_id x)),
      (''revision'', Col_Str (sn_revision x)), (''captured_at'', Col_Time (sn_captured_at x)),
      (''tree'', strings (sn_tree x)), (''languages'', strings (sn_languages x)),
      (''manifest_files'', strings (sn_manifest_files x)),
      (''dockerfiles'', strings (sn_dockerfiles x)),
      (''compose_files'', strings (sn_compose_files x)),
      (''ci_configuration'', strings (sn_ci_configuration x)),
      (''documentation_roots'', strings (sn_documentation_roots x)),
      (''test_roots'', strings (sn_test_roots x))]"

definition snapshot_cells :: "repository_snapshot \<Rightarrow> row" where
  "snapshot_cells x =
     [(''id'', Col_Uuid (sn_id x)), (''captured_at'', Col_Time (sn_captured_at x)),
      (''tree'', strings (sn_tree x)), (''languages'', strings (sn_languages x)),
      (''manifest_files'', strings (sn_manifest_files x)),
      (''dockerfiles'', strings (sn_dockerfiles x)),
      (''compose_files'', strings (sn_compose_files x)),
      (''ci_configuration'', strings (sn_ci_configuration x)),
      (''documentation_roots'', strings (sn_documentation_roots x)),
      (''test_roots'', strings (sn_test_roots x))]"

definition snapshot_from_row :: "codec \<Rightarrow> row \<Rightarrow> repository_snapshot option" where
  "snapshot_from_row cx r =
     Option.bind (as_uuid (col r ''id'')) (\<lambda>a0.
     Option.bind (as_uuid (col r ''repository_id'')) (\<lambda>a1.
     Option.bind (as_str (col r ''revision'')) (\<lambda>a2.
     Option.bind (as_time (col r ''captured_at'')) (\<lambda>a3.
     Option.bind (as_json (js_list (v_str (cx_base cx))) (col r ''tree'')) (\<lambda>a4.
     Option.bind (as_json (js_list (v_str (cx_base cx))) (col r ''languages'')) (\<lambda>a5.
     Option.bind (as_json (js_list (v_str (cx_base cx))) (col r ''manifest_files'')) (\<lambda>a6.
     Option.bind (as_json (js_list (v_str (cx_base cx))) (col r ''dockerfiles'')) (\<lambda>a7.
     Option.bind (as_json (js_list (v_str (cx_base cx))) (col r ''compose_files'')) (\<lambda>a8.
     Option.bind (as_json (js_list (v_str (cx_base cx))) (col r ''ci_configuration'')) (\<lambda>a9.
     Option.bind (as_json (js_list (v_str (cx_base cx))) (col r ''documentation_roots'')) (\<lambda>a10.
     map_option (\<lambda>a11. \<lparr>sn_id = a0, sn_repository_id = a1, sn_revision = a2,
       sn_captured_at = a3, sn_tree = a4, sn_languages = a5, sn_manifest_files = a6,
       sn_dockerfiles = a7, sn_compose_files = a8, sn_ci_configuration = a9,
       sn_documentation_roots = a10, sn_test_roots = a11\<rparr>)
       (as_json (js_list (v_str (cx_base cx))) (col r ''test_roots'')))))))))))))"

definition change_set_row :: "change_set \<Rightarrow> row" where
  "change_set_row x =
     [(''id'', Col_Uuid (cs_id x)), (''repository_id'', Col_Uuid (cs_repository_id x)),
      (''old_revision'', nul Col_Str (cs_old_revision x)),
      (''new_revision'', Col_Str (cs_new_revision x)),
      (''detected_at'', Col_Time (cs_detected_at x)),
      (''files'', dump_models changed_file_dump (cs_files x))]"

definition change_set_from_row :: "row \<Rightarrow> change_set option" where
  "change_set_from_row r =
     Option.bind (as_uuid (col r ''id'')) (\<lambda>a0.
     Option.bind (as_uuid (col r ''repository_id'')) (\<lambda>a1.
     Option.bind (nullable as_str (col r ''old_revision'')) (\<lambda>a2.
     Option.bind (as_str (col r ''new_revision'')) (\<lambda>a3.
     Option.bind (as_time (col r ''detected_at'')) (\<lambda>a4.
     map_option (\<lambda>a5. \<lparr>cs_id = a0, cs_repository_id = a1, cs_old_revision = a2,
       cs_new_revision = a3, cs_detected_at = a4, cs_files = a5\<rparr>)
       (as_json (js_list changed_file_from_dict) (col r ''files'')))))))"

definition mapping_row :: "integration_mapping \<Rightarrow> row" where
  "mapping_row x =
     [(''id'', Col_Uuid (im_id x)), (''work_item_id'', Col_Uuid (im_work_item_id x)),
      (''provider'', Col_Str (im_provider x)), (''external_id'', Col_Str (im_external_id x)),
      (''sync_state'', Col_Str (sync_state_value (im_sync_state x))),
      (''last_synced_at'', nul Col_Time (im_last_synced_at x)),
      (''last_sync_error'', nul Col_Str (im_last_sync_error x))]"

definition mapping_cells :: "integration_mapping \<Rightarrow> row" where
  "mapping_cells x =
     [(''external_id'', Col_Str (im_external_id x)),
      (''sync_state'', Col_Str (sync_state_value (im_sync_state x))),
      (''last_synced_at'', nul Col_Time (im_last_synced_at x)),
      (''last_sync_error'', nul Col_Str (im_last_sync_error x))]"

definition mapping_from_row :: "row \<Rightarrow> integration_mapping option" where
  "mapping_from_row r =
     Option.bind (as_uuid (col r ''id'')) (\<lambda>a0.
     Option.bind (as_uuid (col r ''work_item_id'')) (\<lambda>a1.
     Option.bind (as_str (col r ''provider'')) (\<lambda>a2.
     Option.bind (as_str (col r ''external_id'')) (\<lambda>a3.
     Option.bind (as_enum sync_state_of (col r ''sync_state'')) (\<lambda>a4.
     Option.bind (nullable as_time (col r ''last_synced_at'')) (\<lambda>a5.
     map_option (\<lambda>a6. \<lparr>im_id = a0, im_work_item_id = a1, im_provider = a2,
       im_external_id = a3, im_sync_state = a4, im_last_synced_at = a5, im_last_sync_error = a6\<rparr>)
       (nullable as_str (col r ''last_sync_error''))))))))"

definition conflict_row :: "sync_conflict \<Rightarrow> row" where
  "conflict_row x =
     [(''id'', Col_Uuid (sc_id x)), (''work_item_id'', Col_Uuid (sc_work_item_id x)),
      (''provider'', Col_Str (sc_provider x)), (''external_id'', Col_Str (sc_external_id x)),
      (''provider_field'', Col_Str (sc_provider_field x)),
      (''provider_value'', Col_Str (sc_provider_value x)),
      (''brain_value'', Col_Str (sc_brain_value x)),
      (''detected_at'', Col_Time (sc_detected_at x)), (''resolved'', Col_Bool (sc_resolved x))]"

definition conflict_from_row :: "row \<Rightarrow> sync_conflict option" where
  "conflict_from_row r =
     Option.bind (as_uuid (col r ''id'')) (\<lambda>a0.
     Option.bind (as_uuid (col r ''work_item_id'')) (\<lambda>a1.
     Option.bind (as_str (col r ''provider'')) (\<lambda>a2.
     Option.bind (as_str (col r ''external_id'')) (\<lambda>a3.
     Option.bind (as_str (col r ''provider_field'')) (\<lambda>a4.
     Option.bind (as_str (col r ''provider_value'')) (\<lambda>a5.
     Option.bind (as_str (col r ''brain_value'')) (\<lambda>a6.
     Option.bind (as_time (col r ''detected_at'')) (\<lambda>a7.
     map_option (\<lambda>a8. \<lparr>sc_id = a0, sc_work_item_id = a1, sc_provider = a2,
       sc_external_id = a3, sc_provider_field = a4, sc_provider_value = a5, sc_brain_value = a6,
       sc_detected_at = a7, sc_resolved = a8\<rparr>)
       (as_bool (col r ''resolved''))))))))))"

definition approval_row :: "approval \<Rightarrow> row" where
  "approval_row x =
     [(''id'', Col_Uuid (ap_id x)), (''approval_type'', Col_Str (approval_type_value (ap_type x))),
      (''workflow_id'', nul Col_Uuid (ap_workflow_id x)),
      (''work_item_id'', nul Col_Uuid (ap_work_item_id x)),
      (''execution_id'', nul Col_Uuid (ap_execution_id x)),
      (''requested_by'', nul Col_Uuid (ap_requested_by x)),
      (''decided_by'', nul Col_Uuid (ap_decided_by x)),
      (''decision'', Col_Str (approval_decision_value (ap_decision x))),
      (''reason'', Col_Str (ap_reason x)), (''requested_at'', Col_Time (ap_requested_at x)),
      (''decided_at'', nul Col_Time (ap_decided_at x)),
      (''approval_metadata'', Col_Json (JDict (ap_metadata x)))]"

definition approval_cells :: "approval \<Rightarrow> row" where
  "approval_cells x =
     [(''approval_type'', Col_Str (approval_type_value (ap_type x))),
      (''workflow_id'', nul Col_Uuid (ap_workflow_id x)),
      (''work_item_id'', nul Col_Uuid (ap_work_item_id x)),
      (''execution_id'', nul Col_Uuid (ap_execution_id x)),
      (''requested_by'', nul Col_Uuid (ap_requested_by x)),
      (''decided_by'', nul Col_Uuid (ap_decided_by x)),
      (''decision'', Col_Str (approval_decision_value (ap_decision x))),
      (''reason'', Col_Str (ap_reason x)), (''requested_at'', Col_Time (ap_requested_at x)),
      (''decided_at'', nul Col_Time (ap_decided_at x)),
      (''approval_metadata'', Col_Json (JDict (ap_metadata x)))]"

definition approval_from_row :: "row \<Rightarrow> approval option" where
  "approval_from_row r =
     Option.bind (as_uuid (col r ''id'')) (\<lambda>a0.
     Option.bind (as_enum approval_type_of (col r ''approval_type'')) (\<lambda>a1.
     Option.bind (nullable as_uuid (col r ''workflow_id'')) (\<lambda>a2.
     Option.bind (nullable as_uuid (col r ''work_item_id'')) (\<lambda>a3.
     Option.bind (nullable as_uuid (col r ''execution_id'')) (\<lambda>a4.
     Option.bind (nullable as_uuid (col r ''requested_by'')) (\<lambda>a5.
     Option.bind (nullable as_uuid (col r ''decided_by'')) (\<lambda>a6.
     Option.bind (as_enum approval_decision_of (col r ''decision'')) (\<lambda>a7.
     Option.bind (as_str (col r ''reason'')) (\<lambda>a8.
     Option.bind (as_time (col r ''requested_at'')) (\<lambda>a9.
     Option.bind (nullable as_time (col r ''decided_at'')) (\<lambda>a10.
     map_option (\<lambda>a11. \<lparr>ap_id = a0, ap_type = a1, ap_workflow_id = a2,
       ap_work_item_id = a3, ap_execution_id = a4, ap_requested_by = a5, ap_decided_by = a6,
       ap_decision = a7, ap_reason = a8, ap_requested_at = a9, ap_decided_at = a10,
       ap_metadata = a11\<rparr>)
       (as_json js_dict (or_json (JDict []) (col r ''approval_metadata''))))))))))))))"

definition audit_row :: "audit_event \<Rightarrow> row" where
  "audit_row x =
     [(''id'', Col_Uuid (au_id x)), (''occurred_at'', Col_Time (au_occurred_at x)),
      (''action'', Col_Str (audit_action_value (au_action x))), (''actor'', Col_Str (au_actor x)),
      (''actor_role'', Col_Str (au_actor_role x)),
      (''project_id'', nul Col_Uuid (au_project_id x)),
      (''work_item_id'', nul Col_Uuid (au_work_item_id x)),
      (''execution_id'', nul Col_Uuid (au_execution_id x)),
      (''repository_id'', nul Col_Uuid (au_repository_id x)),
      (''details'', Col_Json (JDict (au_details x)))]"

definition audit_from_row :: "row \<Rightarrow> audit_event option" where
  "audit_from_row r =
     Option.bind (as_uuid (col r ''id'')) (\<lambda>a0.
     Option.bind (as_time (col r ''occurred_at'')) (\<lambda>a1.
     Option.bind (as_enum audit_action_of (col r ''action'')) (\<lambda>a2.
     Option.bind (as_str (col r ''actor'')) (\<lambda>a3.
     Option.bind (as_str (col r ''actor_role'')) (\<lambda>a4.
     Option.bind (nullable as_uuid (col r ''project_id'')) (\<lambda>a5.
     Option.bind (nullable as_uuid (col r ''work_item_id'')) (\<lambda>a6.
     Option.bind (nullable as_uuid (col r ''execution_id'')) (\<lambda>a7.
     Option.bind (nullable as_uuid (col r ''repository_id'')) (\<lambda>a8.
     map_option (\<lambda>a9. \<lparr>au_id = a0, au_occurred_at = a1, au_action = a2,
       au_actor = a3, au_actor_role = a4, au_project_id = a5, au_work_item_id = a6,
       au_execution_id = a7, au_repository_id = a8, au_details = a9\<rparr>)
       (as_json js_dict (col r ''details'')))))))))))"

definition failure_row :: "stored_failure \<Rightarrow> row" where
  "failure_row x =
     [(''id'', Col_Uuid (failure_id x)), (''command_id'', Col_Uuid (failure_command_id x)),
      (''command_type'', Col_Str (failure_command_type x)), (''attempt'', Col_Int (attempt x)),
      (''category'', Col_Str (failure_category_value (category x))),
      (''message'', Col_Str (failure_message x)),
      (''correlation_id'', nul Col_Uuid (failure_correlation_id x)),
      (''retry_eligible'', Col_Bool (retry_eligible x)),
      (''occurred_at'', Col_Time (failure_occurred_at x))]"

definition failure_from_row :: "row \<Rightarrow> stored_failure option" where
  "failure_from_row r =
     Option.bind (as_uuid (col r ''id'')) (\<lambda>a0.
     Option.bind (as_uuid (col r ''command_id'')) (\<lambda>a1.
     Option.bind (as_str (col r ''command_type'')) (\<lambda>a2.
     Option.bind (as_integer (or_int 1 (col r ''attempt''))) (\<lambda>a3.
     Option.bind (as_enum failure_category_of (col r ''category'')) (\<lambda>a4.
     Option.bind (as_str (col r ''message'')) (\<lambda>a5.
     Option.bind (nullable as_uuid (col r ''correlation_id'')) (\<lambda>a6.
     Option.bind (as_bool (col r ''retry_eligible'')) (\<lambda>a7.
     map_option (\<lambda>a8. \<lparr>failure_command_id = a1, failure_command_type = a2,
       attempt = a3, category = a4, failure_message = a5, failure_correlation_id = a6,
       retry_eligible = a7, failure_id = a0, failure_occurred_at = a8\<rparr>)
       (as_time (col r ''occurred_at''))))))))))"

definition comment_row :: "comment \<Rightarrow> row" where
  "comment_row x =
     [(''id'', Col_Uuid (cm_id x)), (''work_item_id'', Col_Uuid (cm_work_item_id x)),
      (''author_id'', nul Col_Uuid (cm_author_id x)),
      (''author_name'', nul Col_Str (cm_author_name x)), (''text'', Col_Str (cm_text x)),
      (''kind'', Col_Str (comment_kind_value (cm_kind x))),
      (''created_at'', Col_Time (cm_created_at x)),
      (''external_refs'', dump_models external_reference_dump (cm_external_refs x))]"

definition comment_from_row :: "codec \<Rightarrow> row \<Rightarrow> comment option" where
  "comment_from_row cx r =
     Option.bind (as_uuid (col r ''id'')) (\<lambda>a0.
     Option.bind (as_uuid (col r ''work_item_id'')) (\<lambda>a1.
     Option.bind (nullable as_uuid (col r ''author_id'')) (\<lambda>a2.
     Option.bind (nullable as_str (col r ''author_name'')) (\<lambda>a3.
     Option.bind (as_str (col r ''text'')) (\<lambda>a4.
     Option.bind (as_enum comment_kind_of (col r ''kind'')) (\<lambda>a5.
     Option.bind (as_time (col r ''created_at'')) (\<lambda>a6.
     map_option (\<lambda>a7. \<lparr>cm_id = a0, cm_work_item_id = a1, cm_author_id = a2,
       cm_author_name = a3, cm_text = a4, cm_kind = a5, cm_created_at = a6, cm_external_refs = a7\<rparr>)
       (as_json (js_list (external_reference_of (cx_base cx))) (or_json (JList []) (col r ''external_refs''))))))))))"

definition relation_row :: "work_item_relation \<Rightarrow> row" where
  "relation_row x =
     [(''id'', Col_Uuid (rl_id x)), (''source_work_item_id'', Col_Uuid (rl_source x)),
      (''target_work_item_id'', Col_Uuid (rl_target x)),
      (''relation_type'', Col_Str (relation_kind_value (rl_type x))),
      (''detected_at'', Col_Time (rl_detected_at x)),
      (''external_refs'', dump_models external_reference_dump (rl_external_refs x))]"

definition relation_cells :: "work_item_relation \<Rightarrow> row" where
  "relation_cells x =
     [(''detected_at'', Col_Time (rl_detected_at x))]"

definition relation_from_row :: "codec \<Rightarrow> row \<Rightarrow> work_item_relation option" where
  "relation_from_row cx r =
     Option.bind (as_uuid (col r ''id'')) (\<lambda>a0.
     Option.bind (as_uuid (col r ''source_work_item_id'')) (\<lambda>a1.
     Option.bind (as_uuid (col r ''target_work_item_id'')) (\<lambda>a2.
     Option.bind (as_enum relation_kind_of (col r ''relation_type'')) (\<lambda>a3.
     Option.bind (as_time (col r ''detected_at'')) (\<lambda>a4.
     map_option (\<lambda>a5. \<lparr>rl_id = a0, rl_source = a1, rl_target = a2, rl_type = a3,
       rl_detected_at = a4, rl_external_refs = a5\<rparr>)
       (as_json (js_list (external_reference_of (cx_base cx))) (or_json (JList []) (col r ''external_refs''))))))))"

definition watermark_row :: "sync_watermark \<Rightarrow> row" where
  "watermark_row x =
     [(''provider'', Col_Str (wm_provider x)), (''sync_key'', Col_Str (wm_sync_key x)),
      (''last_synced_at'', nul Col_Time (wm_last_synced_at x)),
      (''last_external_id'', nul Col_Str (wm_last_external_id x)),
      (''bootstrap_completed_at'', nul Col_Time (wm_bootstrap_completed_at x)),
      (''updated_at'', Col_Time (wm_updated_at x))]"

definition watermark_cells :: "sync_watermark \<Rightarrow> row" where
  "watermark_cells x =
     [(''last_synced_at'', nul Col_Time (wm_last_synced_at x)),
      (''last_external_id'', nul Col_Str (wm_last_external_id x)),
      (''bootstrap_completed_at'', nul Col_Time (wm_bootstrap_completed_at x)),
      (''updated_at'', Col_Time (wm_updated_at x))]"

definition watermark_from_row :: "row \<Rightarrow> sync_watermark option" where
  "watermark_from_row r =
     Option.bind (as_str (col r ''provider'')) (\<lambda>a0.
     Option.bind (as_str (col r ''sync_key'')) (\<lambda>a1.
     Option.bind (nullable as_time (col r ''last_synced_at'')) (\<lambda>a2.
     Option.bind (nullable as_str (col r ''last_external_id'')) (\<lambda>a3.
     Option.bind (nullable as_time (col r ''bootstrap_completed_at'')) (\<lambda>a4.
     map_option (\<lambda>a5. \<lparr>wm_provider = a0, wm_sync_key = a1, wm_last_synced_at = a2,
       wm_last_external_id = a3, wm_bootstrap_completed_at = a4, wm_updated_at = a5\<rparr>)
       (as_time (col r ''updated_at'')))))))"

definition run_row :: "codec \<Rightarrow> verification_run \<Rightarrow> row" where
  "run_row cx x =
     [(''id'', Col_Uuid (verification_run.vr_id x)),
      (''execution_id'', Col_Uuid (verification_run.vr_execution_id x)),
      (''plan'', Col_Json (verification_plan_dump cx (vr_plan x))),
      (''verdict'', Col_Str (verdict_value (verification_run.vr_verdict x))),
      (''started_at'', Col_Time (vr_started_at x)),
      (''completed_at'', nul Col_Time (vr_completed_at x)),
      (''issues'', strings (verification_run.vr_issues x)),
      (''feedback'', strings (vr_feedback x)), (''pr_allowed'', Col_Bool (vr_pr_allowed x))]"

definition run_cells :: "codec \<Rightarrow> verification_run \<Rightarrow> row" where
  "run_cells cx x =
     [(''execution_id'', Col_Uuid (verification_run.vr_execution_id x)),
      (''plan'', Col_Json (verification_plan_dump cx (vr_plan x))),
      (''verdict'', Col_Str (verdict_value (verification_run.vr_verdict x))),
      (''started_at'', Col_Time (vr_started_at x)),
      (''completed_at'', nul Col_Time (vr_completed_at x)),
      (''issues'', strings (verification_run.vr_issues x)),
      (''feedback'', strings (vr_feedback x)), (''pr_allowed'', Col_Bool (vr_pr_allowed x))]"

definition run_from_row :: "codec \<Rightarrow> row \<Rightarrow> verification_run option" where
  "run_from_row cx r =
     Option.bind (as_uuid (col r ''id'')) (\<lambda>a0.
     Option.bind (as_uuid (col r ''execution_id'')) (\<lambda>a1.
     Option.bind (as_json (verification_plan_parse cx) (col r ''plan'')) (\<lambda>a2.
     Option.bind (as_enum verdict_of (col r ''verdict'')) (\<lambda>a3.
     Option.bind (as_time (col r ''started_at'')) (\<lambda>a4.
     Option.bind (nullable as_time (col r ''completed_at'')) (\<lambda>a5.
     Option.bind (as_json (js_list (v_str (cx_base cx))) (or_json (JList []) (col r ''issues''))) (\<lambda>a6.
     Option.bind (as_json (js_list (v_str (cx_base cx))) (or_json (JList []) (col r ''feedback''))) (\<lambda>a7.
     map_option (\<lambda>a8. \<lparr>verification_run.vr_id = a0,
       verification_run.vr_execution_id = a1, vr_plan = a2, verification_run.vr_verdict = a3,
       vr_started_at = a4, vr_completed_at = a5, verification_run.vr_issues = a6, vr_feedback = a7,
       vr_pr_allowed = a8\<rparr>)
       (as_bool (col r ''pr_allowed''))))))))))"

text \<open>
  \<open>evidence_refs=observation.evidence_refs\<close> binds a list of \<open>UUID\<close> objects to a \<open>JSONB\<close> column: the
  empty list is a document, any other is not one.
\<close>

definition observation_row :: "observation \<Rightarrow> row" where
  "observation_row x =
     [(''id'', Col_Uuid (ob_id x)), (''project_id'', Col_Uuid (ob_project_id x)),
      (''work_item_id'', nul Col_Uuid (ob_work_item_id x)),
      (''execution_id'', nul Col_Uuid (ob_execution_id x)),
      (''requirement_id'', nul Col_Uuid (ob_requirement_id x)),
      (''repository_id'', nul Col_Uuid (ob_repository_id x)),
      (''repository_revision'', nul Col_Str (ob_repository_revision x)),
      (''context_capsule_id'', nul Col_Uuid (ob_context_capsule_id x)),
      (''verification_id'', nul Col_Uuid (ob_verification_id x)),
      (''artifact_id'', nul Col_Uuid (ob_artifact_id x)),
      (''evidence_id'', nul Col_Uuid (ob_evidence_id x)),
      (''decision_id'', nul Col_Uuid (ob_decision_id x)),
      (''observation_type'', Col_Str (observation_type_value (ob_type x))),
      (''severity'', Col_Str (observation_severity_value (ob_severity x))),
      (''visibility'', Col_Str (observation_visibility_value (ob_visibility x))),
      (''status'', Col_Str (observation_status_value (ob_status x))),
      (''title'', Col_Str (ob_title x)), (''body'', Col_Str (ob_body x)),
      (''source'', Col_Str (ob_source x)), (''evidence_refs'', uuid_objects (ob_evidence_refs x)),
      (''requires_human_attention'', Col_Bool (ob_human_attention x)),
      (''dedup_key'', nul Col_Str (ob_dedup_key x)), (''created_at'', Col_Time (ob_created_at x)),
      (''acknowledged_at'', nul Col_Time (ob_acknowledged_at x)),
      (''resolved_at'', nul Col_Time (ob_resolved_at x))]"

definition observation_cells :: "observation \<Rightarrow> row" where
  "observation_cells x =
     [(''work_item_id'', nul Col_Uuid (ob_work_item_id x)),
      (''execution_id'', nul Col_Uuid (ob_execution_id x)),
      (''requirement_id'', nul Col_Uuid (ob_requirement_id x)),
      (''repository_id'', nul Col_Uuid (ob_repository_id x)),
      (''repository_revision'', nul Col_Str (ob_repository_revision x)),
      (''context_capsule_id'', nul Col_Uuid (ob_context_capsule_id x)),
      (''verification_id'', nul Col_Uuid (ob_verification_id x)),
      (''artifact_id'', nul Col_Uuid (ob_artifact_id x)),
      (''evidence_id'', nul Col_Uuid (ob_evidence_id x)),
      (''decision_id'', nul Col_Uuid (ob_decision_id x)),
      (''observation_type'', Col_Str (observation_type_value (ob_type x))),
      (''severity'', Col_Str (observation_severity_value (ob_severity x))),
      (''visibility'', Col_Str (observation_visibility_value (ob_visibility x))),
      (''status'', Col_Str (observation_status_value (ob_status x))),
      (''title'', Col_Str (ob_title x)), (''body'', Col_Str (ob_body x)),
      (''source'', Col_Str (ob_source x)), (''evidence_refs'', uuid_objects (ob_evidence_refs x)),
      (''requires_human_attention'', Col_Bool (ob_human_attention x)),
      (''dedup_key'', nul Col_Str (ob_dedup_key x)), (''created_at'', Col_Time (ob_created_at x)),
      (''acknowledged_at'', nul Col_Time (ob_acknowledged_at x)),
      (''resolved_at'', nul Col_Time (ob_resolved_at x))]"

definition observation_from_row :: "codec \<Rightarrow> row \<Rightarrow> observation option" where
  "observation_from_row cx r =
     Option.bind (as_uuid (col r ''id'')) (\<lambda>a0.
     Option.bind (as_uuid (col r ''project_id'')) (\<lambda>a1.
     Option.bind (nullable as_uuid (col r ''work_item_id'')) (\<lambda>a2.
     Option.bind (nullable as_uuid (col r ''execution_id'')) (\<lambda>a3.
     Option.bind (nullable as_uuid (col r ''requirement_id'')) (\<lambda>a4.
     Option.bind (nullable as_uuid (col r ''repository_id'')) (\<lambda>a5.
     Option.bind (nullable as_str (col r ''repository_revision'')) (\<lambda>a6.
     Option.bind (nullable as_uuid (col r ''context_capsule_id'')) (\<lambda>a7.
     Option.bind (nullable as_uuid (col r ''verification_id'')) (\<lambda>a8.
     Option.bind (nullable as_uuid (col r ''artifact_id'')) (\<lambda>a9.
     Option.bind (nullable as_uuid (col r ''evidence_id'')) (\<lambda>a10.
     Option.bind (nullable as_uuid (col r ''decision_id'')) (\<lambda>a11.
     Option.bind (as_enum observation_type_of (col r ''observation_type'')) (\<lambda>a12.
     Option.bind (as_enum observation_severity_of (col r ''severity'')) (\<lambda>a13.
     Option.bind (as_enum observation_visibility_of (col r ''visibility'')) (\<lambda>a14.
     Option.bind (as_enum observation_status_of (col r ''status'')) (\<lambda>a15.
     Option.bind (as_str (col r ''title'')) (\<lambda>a16.
     Option.bind (as_str (col r ''body'')) (\<lambda>a17.
     Option.bind (as_str (col r ''source'')) (\<lambda>a18.
     Option.bind (as_json (js_list (v_uuid (cx_base cx))) (or_json (JList []) (col r ''evidence_refs''))) (\<lambda>a19.
     Option.bind (as_bool (or_false (col r ''requires_human_attention''))) (\<lambda>a20.
     Option.bind (nullable as_str (col r ''dedup_key'')) (\<lambda>a21.
     Option.bind (as_time (col r ''created_at'')) (\<lambda>a22.
     Option.bind (nullable as_time (col r ''acknowledged_at'')) (\<lambda>a23.
     map_option (\<lambda>a24. \<lparr>ob_id = a0, ob_project_id = a1, ob_work_item_id = a2,
       ob_execution_id = a3, ob_requirement_id = a4, ob_repository_id = a5,
       ob_repository_revision = a6, ob_context_capsule_id = a7, ob_verification_id = a8,
       ob_artifact_id = a9, ob_evidence_id = a10, ob_decision_id = a11, ob_type = a12,
       ob_severity = a13, ob_visibility = a14, ob_status = a15, ob_title = a16, ob_body = a17,
       ob_source = a18, ob_evidence_refs = a19, ob_human_attention = a20, ob_dedup_key = a21,
       ob_created_at = a22, ob_acknowledged_at = a23, ob_resolved_at = a24\<rparr>)
       (nullable as_time (col r ''resolved_at''))))))))))))))))))))))))))"

definition attachment_row :: "attachment \<Rightarrow> row" where
  "attachment_row x =
     [(''id'', Col_Uuid (at_id x)), (''work_item_id'', Col_Uuid (at_work_item_id x)),
      (''file_name'', Col_Str (at_file_name x)), (''content_type'', Col_Str (at_content_type x)),
      (''file_size'', dynamic (at_file_size x)),
      (''download_url'', nul Col_Str (at_download_url x)),
      (''content_ingested'', Col_Bool (at_content_ingested x)),
      (''created_at'', Col_Time (at_created_at x)),
      (''external_refs'', dump_models external_reference_dump (at_external_refs x))]"

definition attachment_from_row :: "codec \<Rightarrow> row \<Rightarrow> attachment option" where
  "attachment_from_row cx r =
     Option.bind (as_uuid (col r ''id'')) (\<lambda>a0.
     Option.bind (as_uuid (col r ''work_item_id'')) (\<lambda>a1.
     Option.bind (as_str (col r ''file_name'')) (\<lambda>a2.
     Option.bind (as_str (col r ''content_type'')) (\<lambda>a3.
     Option.bind (map_option (jopt JInt) (nullable as_integer (col r ''file_size''))) (\<lambda>a4.
     Option.bind (nullable as_str (col r ''download_url'')) (\<lambda>a5.
     Option.bind (as_bool (or_false (col r ''content_ingested''))) (\<lambda>a6.
     Option.bind (as_time (col r ''created_at'')) (\<lambda>a7.
     map_option (\<lambda>a8. \<lparr>at_id = a0, at_work_item_id = a1, at_file_name = a2,
       at_content_type = a3, at_file_size = a4, at_download_url = a5, at_content_ingested = a6,
       at_created_at = a7, at_external_refs = a8\<rparr>)
       (as_json (js_list (external_reference_of (cx_base cx))) (or_json (JList []) (col r ''external_refs'')))))))))))"

definition bootstrap_state_row :: "uuid \<Rightarrow> bootstrap_state \<Rightarrow> row" where
  "bootstrap_state_row i x =
     [(''id'', Col_Uuid i), (''project_id'', Col_Uuid (bs_project_id x)),
      (''provider'', Col_Str (bs_provider x)),
      (''status'', Col_Str (bootstrap_status_value (bs_status x))),
      (''stage'', Col_Str (bootstrap_stage_value (bs_stage x))),
      (''last_page'', Col_Int (bs_last_page x)),
      (''items_processed'', Col_Int (bs_items_processed x)),
      (''last_error'', nul Col_Str (bs_last_error x)),
      (''started_at'', Col_Time (bs_started_at x)),
      (''completed_at'', nul Col_Time (bs_completed_at x))]"

definition bootstrap_state_cells :: "bootstrap_state \<Rightarrow> row" where
  "bootstrap_state_cells x =
     [(''status'', Col_Str (bootstrap_status_value (bs_status x))),
      (''stage'', Col_Str (bootstrap_stage_value (bs_stage x))),
      (''last_page'', Col_Int (bs_last_page x)),
      (''items_processed'', Col_Int (bs_items_processed x)),
      (''last_error'', nul Col_Str (bs_last_error x)),
      (''started_at'', Col_Time (bs_started_at x)),
      (''completed_at'', nul Col_Time (bs_completed_at x))]"

definition bootstrap_state_from_row :: "row \<Rightarrow> bootstrap_state option" where
  "bootstrap_state_from_row r =
     Option.bind (as_uuid (col r ''project_id'')) (\<lambda>a0.
     Option.bind (as_str (col r ''provider'')) (\<lambda>a1.
     Option.bind (as_enum bootstrap_status_of (col r ''status'')) (\<lambda>a2.
     Option.bind (as_enum bootstrap_stage_of (col r ''stage'')) (\<lambda>a3.
     Option.bind (as_integer (or_int 0 (col r ''last_page''))) (\<lambda>a4.
     Option.bind (as_integer (or_int 0 (col r ''items_processed''))) (\<lambda>a5.
     Option.bind (nullable as_str (col r ''last_error'')) (\<lambda>a6.
     Option.bind (as_time (col r ''started_at'')) (\<lambda>a7.
     map_option (\<lambda>a8. \<lparr>bs_project_id = a0, bs_provider = a1, bs_status = a2,
       bs_stage = a3, bs_last_page = a4, bs_items_processed = a5, bs_last_error = a6,
       bs_started_at = a7, bs_completed_at = a8\<rparr>)
       (nullable as_time (col r ''completed_at''))))))))))"

definition checkpoint_row :: "codec \<Rightarrow> uuid \<Rightarrow> workflow_state \<Rightarrow> row" where
  "checkpoint_row cx i x =
     [(''id'', Col_Uuid i), (''workflow_id'', Col_Uuid (wf_id x)),
      (''state'', Col_Json (workflow_state_dump cx x)), (''updated_at'', Col_Time (wf_updated_at x))]"

definition checkpoint_cells :: "codec \<Rightarrow> workflow_state \<Rightarrow> row" where
  "checkpoint_cells cx x =
     [(''state'', Col_Json (workflow_state_dump cx x)), (''updated_at'', Col_Time (wf_updated_at x))]"

definition event_row :: "int \<Rightarrow> event_envelope \<Rightarrow> row" where
  "event_row n x =
     [(''id'', Col_Int n), (''event_id'', Col_Uuid (ev_id x)),
      (''event_type'', Col_Str (event_type_value (ev_type x))),
      (''project_id'', nul Col_Uuid (ev_project_id x)),
      (''occurred_at'', Col_Time (ev_occurred_at x)),
      (''correlation_id'', Col_Uuid (ev_correlation_id x)),
      (''causation_id'', nul Col_Uuid (ev_causation_id x)), (''source'', Col_Str (ev_source x)),
      (''idempotency_key'', nul Col_Str (ev_idempotency_key x)),
      (''payload'', Col_Json (JDict (ev_payload x)))]"

definition event_from_row :: "row \<Rightarrow> event_envelope option" where
  "event_from_row r =
     Option.bind (as_uuid (col r ''event_id'')) (\<lambda>a0.
     Option.bind (as_enum event_type_of (col r ''event_type'')) (\<lambda>a1.
     Option.bind (as_time (col r ''occurred_at'')) (\<lambda>a2.
     Option.bind (nullable as_uuid (col r ''project_id'')) (\<lambda>a3.
     Option.bind (as_uuid (col r ''correlation_id'')) (\<lambda>a4.
     Option.bind (nullable as_uuid (col r ''causation_id'')) (\<lambda>a5.
     Option.bind (as_str (col r ''source'')) (\<lambda>a6.
     Option.bind (nullable as_str (col r ''idempotency_key'')) (\<lambda>a7.
     map_option (\<lambda>a8. \<lparr>ev_id = a0, ev_type = a1, ev_occurred_at = a2,
       ev_project_id = a3, ev_correlation_id = a4, ev_causation_id = a5, ev_source = a6,
       ev_idempotency_key = a7, ev_payload = a8\<rparr>)
       (as_json js_dict (col r ''payload''))))))))))"
subsection \<open>Rows of the code graph and of provider snapshots\<close>

definition symbol_row :: "codec \<Rightarrow> symbol \<Rightarrow> row" where
  "symbol_row cx x =
     [(''id'', Col_Uuid (sy_id x)), (''repository_id'', Col_Uuid (si_repository_id (sy_identity x))),
      (''revision'', Col_Str (si_revision (sy_identity x))), (''module'', Col_Str (si_module (sy_identity x))),
      (''qualified_name'', Col_Str (si_qualified_name (sy_identity x))),
      (''kind'', Col_Str (symbol_kind_value (si_kind (sy_identity x)))), (''name'', Col_Str (sy_name x)),
      (''path'', Col_Str (sy_path x)), (''identity_key'', Col_Str (symbol_key x)),
      (''location'', Col_Json (symbol_location_dump cx (sy_location x))),
      (''parameters'', strings (sy_parameters x)),
      (''return_annotation'', nul Col_Str (sy_return_annotation x)),
      (''decorators'', strings (sy_decorators x)), (''docstring'', nul Col_Str (sy_docstring x)),
      (''content_hash'', nul Col_Str (sy_content_hash x)), (''symbol_metadata'', Col_Json (JDict (sy_metadata x)))]"

text \<open>\<open>set_\<close> leaves out the repository and the revision.\<close>

definition symbol_cells :: "codec \<Rightarrow> symbol \<Rightarrow> row" where
  "symbol_cells cx x =
     [(''module'', Col_Str (si_module (sy_identity x))),
      (''qualified_name'', Col_Str (si_qualified_name (sy_identity x))),
      (''kind'', Col_Str (symbol_kind_value (si_kind (sy_identity x)))), (''name'', Col_Str (sy_name x)),
      (''path'', Col_Str (sy_path x)), (''identity_key'', Col_Str (symbol_key x)),
      (''location'', Col_Json (symbol_location_dump cx (sy_location x))),
      (''parameters'', strings (sy_parameters x)),
      (''return_annotation'', nul Col_Str (sy_return_annotation x)),
      (''decorators'', strings (sy_decorators x)), (''docstring'', nul Col_Str (sy_docstring x)),
      (''content_hash'', nul Col_Str (sy_content_hash x)), (''symbol_metadata'', Col_Json (JDict (sy_metadata x)))]"

text \<open>The kind of the symbol and of its identity both come from the column.\<close>

definition symbol_from_row :: "codec \<Rightarrow> row \<Rightarrow> symbol option" where
  "symbol_from_row cx r =
     Option.bind (as_uuid (col r ''repository_id'')) (\<lambda>rp.
     Option.bind (as_str (col r ''revision'')) (\<lambda>rev.
     Option.bind (as_str (col r ''module'')) (\<lambda>m.
     Option.bind (as_str (col r ''qualified_name'')) (\<lambda>q.
     Option.bind (as_enum symbol_kind_of (col r ''kind'')) (\<lambda>k.
     Option.bind (as_uuid (col r ''id'')) (\<lambda>i.
     Option.bind (as_str (col r ''name'')) (\<lambda>n.
     Option.bind (as_str (col r ''path'')) (\<lambda>p.
     Option.bind (as_json (symbol_location_parse cx) (col r ''location'')) (\<lambda>l.
     Option.bind (as_json (js_list (v_str (cx_base cx))) (or_json (JList []) (col r ''parameters''))) (\<lambda>ps.
     Option.bind (nullable as_str (col r ''return_annotation'')) (\<lambda>ra.
     Option.bind (as_json (js_list (v_str (cx_base cx))) (or_json (JList []) (col r ''decorators''))) (\<lambda>ds.
     Option.bind (nullable as_str (col r ''docstring'')) (\<lambda>dc.
     Option.bind (nullable as_str (col r ''content_hash'')) (\<lambda>h.
     map_option (\<lambda>md. \<lparr>sy_id = i, sy_identity = \<lparr>si_repository_id = rp, si_revision = rev, si_module = m,
         si_qualified_name = q, si_kind = k\<rparr>, sy_name = n, sy_path = p, sy_kind = k, sy_location = l,
       sy_qualified_name = q, sy_parameters = ps, sy_return_annotation = ra, sy_decorators = ds, sy_docstring = dc,
       sy_content_hash = h, sy_metadata = md\<rparr>)
       (as_json js_dict (or_json (JDict []) (col r ''symbol_metadata'')))))))))))))))))"

definition code_relation_row :: "code_relation \<Rightarrow> row" where
  "code_relation_row x =
     [(''id'', Col_Uuid (cr_rel_id x)), (''repository_id'', Col_Uuid (cr_repository_id x)),
      (''revision'', Col_Str (cr_revision x)), (''relation_type'', Col_Str (code_relation_type_value (cr_type x))),
      (''source_identity_key'', Col_Str (identity_key (cr_source x))),
      (''target_identity_key'', Col_Str (identity_key (cr_target x))),
      (''source_path'', Col_Str (cr_source_path x)), (''target_path'', nul Col_Str (cr_target_path x)),
      (''confidence'', Col_Float (cr_confidence x)), (''relation_metadata'', Col_Json (JDict (cr_metadata x)))]"

definition code_relation_cells :: "code_relation \<Rightarrow> row" where
  "code_relation_cells x =
     [(''relation_type'', Col_Str (code_relation_type_value (cr_type x))),
      (''source_identity_key'', Col_Str (identity_key (cr_source x))),
      (''target_identity_key'', Col_Str (identity_key (cr_target x))),
      (''source_path'', Col_Str (cr_source_path x)), (''target_path'', nul Col_Str (cr_target_path x)),
      (''confidence'', Col_Float (cr_confidence x)), (''relation_metadata'', Col_Json (JDict (cr_metadata x)))]"

text \<open>
  An identity is rebuilt from its key, \<open>parts[-3]\<close>, \<open>parts[-2]\<close> and \<open>parts[-1]\<close> of the key split at
  the colons, with the repository and the revision of the row.
\<close>

definition split_identity_key :: "string \<Rightarrow> string \<times> string \<times> string" where
  "split_identity_key key =
     (case rev (split_on (CHR '':'') key) of
        k # q # m # _ \<Rightarrow> (m, q, k)
      | [k, q] \<Rightarrow> ([], q, k)
      | [k] \<Rightarrow> ([], [], k)
      | [] \<Rightarrow> ([], [], []))"

definition identity_from_row :: "uuid \<Rightarrow> string \<Rightarrow> string \<Rightarrow> symbol_identity option" where
  "identity_from_row rp rn key =
     (case split_identity_key key of
        (m, q, k) \<Rightarrow>
          map_option (\<lambda>kd. \<lparr>si_repository_id = rp, si_revision = rn, si_module = m, si_qualified_name = q,
            si_kind = kd\<rparr>) (symbol_kind_of k))"

definition code_relation_from_row :: "row \<Rightarrow> code_relation option" where
  "code_relation_from_row r =
     Option.bind (as_uuid (col r ''repository_id'')) (\<lambda>rp.
     Option.bind (as_str (col r ''revision'')) (\<lambda>rev.
     Option.bind (Option.bind (as_str (col r ''source_identity_key'')) (identity_from_row rp rev)) (\<lambda>s.
     Option.bind (Option.bind (as_str (col r ''target_identity_key'')) (identity_from_row rp rev)) (\<lambda>t.
     Option.bind (as_uuid (col r ''id'')) (\<lambda>i.
     Option.bind (as_enum code_relation_type_of (col r ''relation_type'')) (\<lambda>k.
     Option.bind (as_str (col r ''source_path'')) (\<lambda>sp.
     Option.bind (nullable as_str (col r ''target_path'')) (\<lambda>tp.
     Option.bind (as_float (col r ''confidence'')) (\<lambda>c.
     map_option (\<lambda>md. \<lparr>cr_rel_id = i, cr_type = k, cr_source = s, cr_target = t, cr_repository_id = rp,
       cr_revision = rev, cr_source_path = sp, cr_target_path = tp, cr_confidence = c, cr_metadata = md\<rparr>)
       (as_json js_dict (or_json (JDict []) (col r ''relation_metadata''))))))))))))"

definition code_file_row :: "uuid \<Rightarrow> parsed_file \<Rightarrow> row" where
  "code_file_row i x =
     [(''id'', Col_Uuid i), (''repository_id'', Col_Uuid (pf_repository_id x)), (''revision'', Col_Str (pf_revision x)),
      (''path'', Col_Str (pf_path x)), (''module'', Col_Str (pf_module x)), (''language'', Col_Str (pf_language x)),
      (''content_hash'', Col_Str (pf_content_hash x)), (''file_metadata'', Col_Json (JDict (pf_metadata x)))]"

definition code_file_cells :: "parsed_file \<Rightarrow> row" where
  "code_file_cells x =
     [(''module'', Col_Str (pf_module x)), (''language'', Col_Str (pf_language x)),
      (''content_hash'', Col_Str (pf_content_hash x)), (''file_metadata'', Col_Json (JDict (pf_metadata x)))]"

text \<open>
  The snapshot store keeps \<open>dataclasses.asdict(snapshot)\<close> and builds the dataclass from the fields
  that are there: no value is validated, a missing one has its default.
\<close>

definition provider_payload :: "work_item_snapshot \<Rightarrow> (string \<times> json) list" where
  "provider_payload x =
     [(''external_id'', JStr (ws_external_id x)), (''summary'', JStr (ws_summary x)),
      (''description'', JStr (ws_description x)), (''type'', JStr (ws_type x)), (''priority'', JStr (ws_priority x)),
      (''state'', JStr (ws_state x)), (''closed'', JBool (ws_closed x)), (''project_id'', jopt JStr (ws_project_id x)),
      (''project_name'', jopt JStr (ws_project_name x)), (''assignee_id'', jopt JStr (ws_assignee_id x)),
      (''assignee_name'', jopt JStr (ws_assignee_name x)), (''parent_id'', jopt JInt (ws_parent_id x)),
      (''attachments'', JList (map JDict (ws_attachments x))), (''relations'', JList (map JDict (ws_relations x))),
      (''activities_url'', jopt JStr (ws_activities_url x)), (''created_at'', jopt JStr (ws_created_at x)),
      (''updated_at'', jopt JStr (ws_updated_at x))]"

definition provider_snapshot_row :: "datetime \<Rightarrow> work_item_snapshot \<Rightarrow> row" where
  "provider_snapshot_row now x =
     [(''external_id'', Col_Str (ws_external_id x)), (''snapshot'', Col_Json (JDict (provider_payload x))),
      (''updated_at'', nul Col_Str (ws_updated_at x)), (''ingested_at'', Col_Time now)]"

definition provider_snapshot_cells :: "work_item_snapshot \<Rightarrow> row" where
  "provider_snapshot_cells x =
     [(''snapshot'', Col_Json (JDict (provider_payload x))), (''updated_at'', nul Col_Str (ws_updated_at x))]"

text \<open>The fields of the dataclass hold what the store read; here they are read at their types.\<close>

definition plain :: "json \<Rightarrow> string option" where
  "plain j = (case j of JStr s \<Rightarrow> Some s | _ \<Rightarrow> None)"

definition plain_int :: "json \<Rightarrow> int option" where
  "plain_int j = (case j of JInt i \<Rightarrow> Some i | _ \<Rightarrow> None)"

definition plain_bool :: "json \<Rightarrow> bool option" where
  "plain_bool j = (case j of JBool b \<Rightarrow> Some b | _ \<Rightarrow> None)"

definition snapshot_from_payload :: "(string \<times> json) list \<Rightarrow> work_item_snapshot option" where
  "snapshot_from_payload d =
     (if d = [] then None else
      Option.bind (req plain d ''external_id'') (\<lambda>i. Option.bind (dflt plain [] d ''summary'') (\<lambda>su.
      Option.bind (dflt plain [] d ''description'') (\<lambda>de. Option.bind (dflt plain [] d ''type'') (\<lambda>ty.
      Option.bind (dflt plain [] d ''priority'') (\<lambda>pr. Option.bind (dflt plain [] d ''state'') (\<lambda>st.
      Option.bind (dflt plain_bool False d ''closed'') (\<lambda>cl. Option.bind (opt plain d ''project_id'') (\<lambda>pi.
      Option.bind (opt plain d ''project_name'') (\<lambda>pn. Option.bind (opt plain d ''assignee_id'') (\<lambda>ai.
      Option.bind (opt plain d ''assignee_name'') (\<lambda>an. Option.bind (opt plain_int d ''parent_id'') (\<lambda>pa.
      Option.bind (dflt (js_list js_dict) [] d ''attachments'') (\<lambda>ats.
      Option.bind (dflt (js_list js_dict) [] d ''relations'') (\<lambda>rls.
      Option.bind (opt plain d ''activities_url'') (\<lambda>au. Option.bind (opt plain d ''created_at'') (\<lambda>ca.
      map_option (\<lambda>ua. \<lparr>ws_external_id = i, ws_summary = su, ws_description = de, ws_type = ty, ws_priority = pr,
        ws_state = st, ws_closed = cl, ws_project_id = pi, ws_project_name = pn, ws_assignee_id = ai,
        ws_assignee_name = an, ws_parent_id = pa, ws_attachments = ats, ws_relations = rls,
        ws_activities_url = au, ws_created_at = ca, ws_updated_at = ua\<rparr>)
        (opt plain d ''updated_at''))))))))))))))))))"


subsection \<open>Every row has the type of its table, and reads back\<close>

lemma models_back [simp]:
  "codec_ok cx \<Longrightarrow> json_same j (JList (map external_reference_dump refs)) \<Longrightarrow>
     js_list (external_reference_of (cx_base cx)) j = Some refs"
  "codec_ok cx \<Longrightarrow> json_same j (JList (map (acceptance_criterion_dump cx) acs)) \<Longrightarrow>
     js_list (acceptance_criterion_parse cx) j = Some acs"
  "codec_ok cx \<Longrightarrow> json_same j (JList (map (source_reference_dump cx) srs)) \<Longrightarrow>
     js_list (source_reference_parse cx) j = Some srs"
  "codec_ok cx \<Longrightarrow> json_same j (JList (map (constraint_dump cx) cts)) \<Longrightarrow>
     js_list (constraint_parse cx) j = Some cts"
  "codec_ok cx \<Longrightarrow> json_same j (JList (map (requirement_source_dump cx) rss)) \<Longrightarrow>
     js_list (requirement_source_parse cx) j = Some rss"
  "json_same j (JList (map changed_file_dump fs)) \<Longrightarrow> js_list changed_file_from_dict j = Some fs"
  by (rule js_list_back; simp)+

lemma assignment_opt_back [simp]:
  "codec_ok cx \<Longrightarrow> json_same j (jopt (assignment_dump cx) a) \<Longrightarrow> js_opt (assignment_parse cx) j = Some a"
  by (rule js_opt_back [of "assignment_dump cx"]) (simp_all add: assignment_dump_def)

lemma project_typed [simp]: "typed projects_table (project_row x)"
  by (simp add: typed_def projects_table_def project_row_def not_null_def null_ok_def)

lemma project_back:
  assumes "codec_ok cx" "same_row r (project_row x)"
  shows "project_from_row cx r = Some x"
  using assms by (cases x) (auto simp: project_row_def project_from_row_def read_strings or_json_same)

lemma repository_typed [simp]: "typed repositories_table (repository_row x)"
  by (simp add: typed_def repositories_table_def repository_row_def not_null_def null_ok_def)

lemma repository_back:
  assumes "codec_ok cx" "same_row r (repository_row x)"
  shows "repository_from_row cx r = Some x"
  using assms by (cases x) (auto simp: repository_row_def repository_from_row_def read_strings or_json_same)

lemma actor_typed [simp]: "typed actors_table (actor_row x)"
  by (simp add: typed_def actors_table_def actor_row_def not_null_def null_ok_def)

lemma actor_back:
  assumes "codec_ok cx" "same_row r (actor_row x)"
  shows "actor_from_row cx r = Some x"
  using assms by (cases x) (auto simp: actor_row_def actor_from_row_def read_strings or_json_same)

lemma work_item_typed [simp]: "typed work_items_table (work_item_row cx x)"
  by (simp add: typed_def work_items_table_def work_item_row_def not_null_def null_ok_def)

lemma work_item_back:
  assumes "codec_ok cx" "same_row r (work_item_row cx x)"
  shows "work_item_from_row cx r = Some x"
  using assms by (cases x) (auto simp: work_item_row_def work_item_from_row_def read_strings or_json_same)

lemma requirement_typed [simp]: "typed requirements_table (requirement_row cx x)"
  by (simp add: typed_def requirements_table_def requirement_row_def not_null_def null_ok_def)

lemma requirement_back:
  assumes "codec_ok cx" "same_row r (requirement_row cx x)"
  shows "requirement_from_row cx r = Some x"
  using assms by (cases x) (auto simp: requirement_row_def requirement_from_row_def read_strings or_json_same)

lemma document_typed [simp]: "typed documents_table (document_row cx x)"
  by (simp add: typed_def documents_table_def document_row_def not_null_def null_ok_def)

lemma document_back:
  assumes "codec_ok cx" "same_row r (document_row cx x)"
  shows "document_from_row cx r = Some x"
  using assms by (cases x) (auto simp: document_row_def document_from_row_def read_strings or_json_same)

lemma document_version_typed [simp]: "typed document_versions_table (document_version_row x)"
  by (simp add: typed_def document_versions_table_def document_version_row_def not_null_def null_ok_def)

lemma document_version_back:
  assumes "same_row r (document_version_row x)"
  shows "document_version_from_row r = Some x"
  using assms by (cases x) (auto simp: document_version_row_def document_version_from_row_def read_strings or_json_same)

lemma document_node_typed [simp]: "typed document_nodes_table (document_node_row x)"
  by (simp add: typed_def document_nodes_table_def document_node_row_def not_null_def null_ok_def)

lemma document_node_back:
  assumes "codec_ok cx" "same_row r (document_node_row x)"
  shows "document_node_from_row cx r = Some x"
  using assms by (cases x) (auto simp: document_node_row_def document_node_from_row_def read_strings or_json_same)

lemma decision_typed [simp]: "typed decisions_table (decision_row cx x)"
  by (simp add: typed_def decisions_table_def decision_row_def not_null_def null_ok_def)

lemma decision_back:
  assumes "codec_ok cx" "same_row r (decision_row cx x)"
  shows "decision_from_row cx r = Some x"
  using assms by (cases x) (auto simp: decision_row_def decision_from_row_def read_strings or_json_same)

lemma execution_typed [simp]: "typed executions_table (execution_row x)"
  by (simp add: typed_def executions_table_def execution_row_def not_null_def null_ok_def)

lemma execution_back:
  assumes "same_row r (execution_row x)"
  shows "execution_from_row r = Some x"
  using assms by (cases x) (auto simp: execution_row_def execution_from_row_def read_strings or_json_same)

lemma evidence_typed [simp]: "typed evidence_table (evidence_row x)"
  by (simp add: typed_def evidence_table_def evidence_row_def not_null_def null_ok_def)

lemma artifact_typed [simp]: "typed artifacts_table (artifact_row x)"
  by (simp add: typed_def artifacts_table_def artifact_row_def not_null_def null_ok_def)

lemma artifact_back:
  assumes "same_row r (artifact_row x)"
  shows "artifact_from_row r = Some x"
  using assms by (cases x) (auto simp: artifact_row_def artifact_from_row_def read_strings or_json_same)

lemma verification_result_typed [simp]: "typed verification_results_table (verification_result_row x)"
  by (simp add: typed_def verification_results_table_def verification_result_row_def not_null_def null_ok_def)

lemma snapshot_typed [simp]: "typed repository_snapshots_table (snapshot_row x)"
  by (simp add: typed_def repository_snapshots_table_def snapshot_row_def not_null_def null_ok_def)

lemma snapshot_back:
  assumes "codec_ok cx" "same_row r (snapshot_row x)"
  shows "snapshot_from_row cx r = Some x"
  using assms by (cases x) (auto simp: snapshot_row_def snapshot_from_row_def read_strings or_json_same)

lemma change_set_typed [simp]: "typed repository_change_sets_table (change_set_row x)"
  by (simp add: typed_def repository_change_sets_table_def change_set_row_def not_null_def null_ok_def)

lemma change_set_back:
  assumes "same_row r (change_set_row x)"
  shows "change_set_from_row r = Some x"
  using assms by (cases x) (auto simp: change_set_row_def change_set_from_row_def read_strings or_json_same)

lemma mapping_typed [simp]: "typed work_management_mappings_table (mapping_row x)"
  by (simp add: typed_def work_management_mappings_table_def mapping_row_def not_null_def null_ok_def)

lemma mapping_back:
  assumes "same_row r (mapping_row x)"
  shows "mapping_from_row r = Some x"
  using assms by (cases x) (auto simp: mapping_row_def mapping_from_row_def read_strings or_json_same)

lemma conflict_typed [simp]: "typed sync_conflicts_table (conflict_row x)"
  by (simp add: typed_def sync_conflicts_table_def conflict_row_def not_null_def null_ok_def)

lemma conflict_back:
  assumes "same_row r (conflict_row x)"
  shows "conflict_from_row r = Some x"
  using assms by (cases x) (auto simp: conflict_row_def conflict_from_row_def read_strings or_json_same)

lemma approval_typed [simp]: "typed approvals_table (approval_row x)"
  by (simp add: typed_def approvals_table_def approval_row_def not_null_def null_ok_def)

lemma audit_typed [simp]: "typed audit_events_table (audit_row x)"
  by (simp add: typed_def audit_events_table_def audit_row_def not_null_def null_ok_def)

lemma failure_typed [simp]: "typed command_failures_table (failure_row x)"
  by (simp add: typed_def command_failures_table_def failure_row_def not_null_def null_ok_def)

lemma comment_typed [simp]: "typed comments_table (comment_row x)"
  by (simp add: typed_def comments_table_def comment_row_def not_null_def null_ok_def)

lemma comment_back:
  assumes "codec_ok cx" "same_row r (comment_row x)"
  shows "comment_from_row cx r = Some x"
  using assms by (cases x) (auto simp: comment_row_def comment_from_row_def read_strings or_json_same)

lemma relation_typed [simp]: "typed work_item_relations_table (relation_row x)"
  by (simp add: typed_def work_item_relations_table_def relation_row_def not_null_def null_ok_def)

lemma relation_back:
  assumes "codec_ok cx" "same_row r (relation_row x)"
  shows "relation_from_row cx r = Some x"
  using assms by (cases x) (auto simp: relation_row_def relation_from_row_def read_strings or_json_same)

lemma watermark_typed [simp]: "typed provider_sync_watermarks_table (watermark_row x)"
  by (simp add: typed_def provider_sync_watermarks_table_def watermark_row_def not_null_def null_ok_def)

lemma watermark_back:
  assumes "same_row r (watermark_row x)"
  shows "watermark_from_row r = Some x"
  using assms by (cases x) (auto simp: watermark_row_def watermark_from_row_def read_strings or_json_same)

lemma run_typed [simp]: "typed verification_runs_table (run_row cx x)"
  by (simp add: typed_def verification_runs_table_def run_row_def not_null_def null_ok_def)



lemma bootstrap_state_typed [simp]: "typed provider_bootstrap_states_table (bootstrap_state_row i x)"
  by (simp add: typed_def provider_bootstrap_states_table_def bootstrap_state_row_def not_null_def null_ok_def)

lemma bootstrap_state_back:
  assumes "same_row r (bootstrap_state_row i x)"
  shows "bootstrap_state_from_row r = Some x"
  using assms by (cases x) (auto simp: bootstrap_state_row_def bootstrap_state_from_row_def read_strings or_json_same)

lemma checkpoint_typed [simp]: "typed workflow_checkpoints_table (checkpoint_row cx i x)"
  by (simp add: typed_def workflow_checkpoints_table_def checkpoint_row_def not_null_def null_ok_def)

lemma event_typed [simp]: "typed event_log_table (event_row n x)"
  by (simp add: typed_def event_log_table_def event_row_def not_null_def null_ok_def)

lemma observation_typed [simp]: "typed observations_table (observation_row x) \<longleftrightarrow> ob_evidence_refs x = []"
  by (simp add: typed_def observations_table_def observation_row_def not_null_def null_ok_def uuid_objects_def)

lemma no_strings [simp]: "as_json (js_list p) (strings []) = Some []"
  by (simp add: strings_def)

lemma observation_back:
  assumes "codec_ok cx" "ob_evidence_refs x = []" "same_row r (observation_row x)"
  shows "observation_from_row cx r = Some x"
  using assms
  by (cases x) (auto simp: observation_row_def observation_from_row_def uuid_objects_def)

lemma attachment_typed [simp]:
  "typed attachments_table (attachment_row x) \<longleftrightarrow> at_file_size x = JNull \<or> (\<exists>i. at_file_size x = JInt i)"
  by (cases "at_file_size x")
    (simp_all add: typed_def attachments_table_def attachment_row_def not_null_def null_ok_def dynamic_def)

lemma attachment_back:
  assumes "codec_ok cx" "typed attachments_table (attachment_row x)" "same_row r (attachment_row x)"
  shows "attachment_from_row cx r = Some x"
proof -
  have size: "at_file_size x = JNull \<or> (\<exists>i. at_file_size x = JInt i)" using assms(2) by simp
  then have same: "same_value v (dynamic (at_file_size x)) \<longleftrightarrow> v = dynamic (at_file_size x)" for v
    by (auto simp: dynamic_def)
  from size have "map_option (jopt JInt) (nullable as_integer (dynamic (at_file_size x))) = Some (at_file_size x)"
    by (auto simp: dynamic_def nullable_def jopt_def)
  with same assms(1,3) show ?thesis
    by (cases x) (auto simp: attachment_row_def attachment_from_row_def or_json_same)
qed

lemma failure_back:
  assumes "attempt x \<noteq> 0" "same_row r (failure_row x)"
  shows "failure_from_row r = Some x"
  using assms by (cases x) (auto simp: failure_row_def failure_from_row_def or_int_def)

lemma reference_typed [simp]: "length t \<le> n \<Longrightarrow> typed external_references_table (reference_row i t owner x)"
  by (simp add: typed_def external_references_table_def reference_row_def not_null_def null_ok_def)

lemma idempotency_typed [simp]: "typed idempotency_keys_table (idempotency_row now key e)"
  by (simp add: typed_def idempotency_keys_table_def idempotency_row_def not_null_def null_ok_def)

lemma symbol_typed [simp]: "typed code_symbols_table (symbol_row cx x)"
  by (simp add: typed_def code_symbols_table_def symbol_row_def not_null_def null_ok_def)

lemma code_relation_typed [simp]: "typed code_relations_table (code_relation_row x)"
  by (simp add: typed_def code_relations_table_def code_relation_row_def not_null_def null_ok_def)

lemma code_file_typed [simp]: "typed code_files_table (code_file_row i x)"
  by (simp add: typed_def code_files_table_def code_file_row_def not_null_def null_ok_def)

lemma provider_snapshot_typed [simp]: "typed openproject_work_item_snapshots_table (provider_snapshot_row now x)"
  by (simp add: typed_def openproject_work_item_snapshots_table_def provider_snapshot_row_def not_null_def null_ok_def)

text \<open>Where an entity has a free document, it is the same document that is read.\<close>

lemma or_dict [simp]: "or_json (JDict []) (Col_Json (JDict d)) = Col_Json (JDict d)"
  by (simp add: or_json_def py_or_def)

lemma evidence_back:
  assumes "same_row r (evidence_row x)"
  obtains d where "same_dict d (ed_payload x)" "evidence_from_row r = Some (x\<lparr>ed_payload := d\<rparr>)"
  using assms by (cases x) (auto simp: evidence_row_def evidence_from_row_def)

lemma approval_back:
  assumes "same_row r (approval_row x)"
  obtains d where "same_dict d (ap_metadata x)" "approval_from_row r = Some (x\<lparr>ap_metadata := d\<rparr>)"
  using assms by (cases x) (auto simp: approval_row_def approval_from_row_def)

lemma audit_back:
  assumes "same_row r (audit_row x)"
  obtains d where "same_dict d (au_details x)" "audit_from_row r = Some (x\<lparr>au_details := d\<rparr>)"
  using assms by (cases x) (auto simp: audit_row_def audit_from_row_def)

lemma event_back:
  assumes "same_row r (event_row n x)"
  obtains d where "same_dict d (ev_payload x)" "event_from_row r = Some (x\<lparr>ev_payload := d\<rparr>)"
  using assms by (cases x) (auto simp: event_row_def event_from_row_def)

lemma checkpoint_back:
  assumes "codec_ok cx" "same_row r (checkpoint_row cx i x)"
  shows "as_json (workflow_state_parse cx) (col r ''state'') = Some x"
  using assms by (auto simp: checkpoint_row_def)

text \<open>The key of an identity gives it back when its module and its name have no colon.\<close>

lemma split_on_join:
  assumes "\<forall>p \<in> set ps. c \<notin> set p" "ps \<noteq> []"
  shows "split_on c (join [c] ps) = ps"
  using assms
proof (induction ps)
  case (Cons p ps)
  show ?case
  proof (cases ps)
    case Nil
    with Cons.prems show ?thesis by (simp add: split_on_no)
  next
    case (Cons q qs)
    with Cons.IH Cons.prems show ?thesis by (simp add: split_on_append split_on_no)
  qed
qed simp

lemma identity_back:
  assumes "CHR '':'' \<notin> set (si_module x)" "CHR '':'' \<notin> set (si_qualified_name x)"
  shows "identity_from_row (si_repository_id x) (si_revision x) (identity_key x) = Some x"
proof -
  have "CHR '':'' \<notin> set (symbol_kind_value (si_kind x))" by (cases "si_kind x") simp_all
  with assms have "split_on (CHR '':'') (join '':'' [si_module x, si_qualified_name x, symbol_kind_value (si_kind x)]) =
      [si_module x, si_qualified_name x, symbol_kind_value (si_kind x)]"
    by (intro split_on_join) auto
  then show ?thesis
    by (cases x) (simp add: identity_from_row_def split_identity_key_def identity_key_def split_on_append
        del: join.simps(2) split_on.simps)
qed

text \<open>
  A symbol has one column for its kind and one for its qualified name, a relation one for its
  repository and revision: what is read has those in both places.
\<close>

lemma symbol_back:
  assumes "codec_ok cx" "sy_qualified_name x = si_qualified_name (sy_identity x)" "sy_kind x = si_kind (sy_identity x)"
    and "same_row r (symbol_row cx x)"
  obtains d where "same_dict d (sy_metadata x)" "symbol_from_row cx r = Some (x\<lparr>sy_metadata := d\<rparr>)"
  using assms by (cases x; cases "sy_identity x") (auto simp: symbol_row_def symbol_from_row_def read_strings)

definition own_identity :: "code_relation \<Rightarrow> symbol_identity \<Rightarrow> bool" where
  "own_identity x i \<longleftrightarrow> si_repository_id i = cr_repository_id x \<and> si_revision i = cr_revision x \<and>
     CHR '':'' \<notin> set (si_module i) \<and> CHR '':'' \<notin> set (si_qualified_name i)"

lemma code_relation_back:
  assumes "own_identity x (cr_source x)" "own_identity x (cr_target x)" "same_row r (code_relation_row x)"
  obtains d where "same_dict d (cr_metadata x)" "code_relation_from_row r = Some (x\<lparr>cr_metadata := d\<rparr>)"
proof -
  have i: "identity_from_row (cr_repository_id x) (cr_revision x) (identity_key (cr_source x)) = Some (cr_source x)"
    "identity_from_row (cr_repository_id x) (cr_revision x) (identity_key (cr_target x)) = Some (cr_target x)"
    using identity_back [of "cr_source x"] identity_back [of "cr_target x"] assms(1,2)
    by (simp_all add: own_identity_def)
  show ?thesis
    using that assms(3) i by (cases x) (auto simp: code_relation_row_def code_relation_from_row_def)
qed

lemma dicts_back:
  "list_all2 json_same js (map JDict ds) \<Longrightarrow> \<exists>es. js = map JDict es \<and> list_all2 same_dict es ds"
proof (induction ds arbitrary: js)
  case (Cons d ds)
  then obtain da es where "js = JDict da # map JDict es" "same_dict da d" "list_all2 same_dict es ds"
    by (auto simp: list_all2_Cons2 dest!: Cons.IH)
  then show ?case by (intro exI [of _ "da # es"]) simp
qed simp

lemma js_dicts [simp]: "those (map (js_dict \<circ> JDict) ds) = Some ds"
  by (induction ds) auto

lemma opt_plain [simp]:
  "map_of d k = Some (jopt JStr x) \<Longrightarrow> opt plain d k = Some x" "map_of d k = Some (jopt JInt y) \<Longrightarrow> opt plain_int d k = Some y"
  by (cases x; cases y; simp add: opt_def jopt_def plain_def plain_int_def)+

lemma plain_simps [simp]: "plain (JStr s) = Some s" "plain_bool (JBool b) = Some b"
  by (simp_all add: plain_def plain_bool_def)

lemma same_jopt_int [simp]: "json_same j (jopt JInt x) \<longleftrightarrow> j = jopt JInt x"
  by (cases x) (simp_all add: jopt_def)

lemma field_int_opt: "same_dict d e \<Longrightarrow> map_of e k = Some (jopt JInt x) \<Longrightarrow> map_of d k = Some (jopt JInt x)"
  by (auto elim!: field_same)

lemma provider_payload_back:
  assumes "same_dict d (provider_payload x)"
  obtains as rs where "list_all2 same_dict as (ws_attachments x)" "list_all2 same_dict rs (ws_relations x)"
    "snapshot_from_payload d = Some (x\<lparr>ws_attachments := as, ws_relations := rs\<rparr>)"
proof -
  have field: "\<exists>es. map_of d k = Some (JList (map JDict es)) \<and> list_all2 same_dict es ds"
    if "map_of (provider_payload x) k = Some (JList (map JDict ds))" for k ds
    using field_same [OF assms that] by (auto simp: same_list_simps dest: dicts_back)
  obtain as where as: "map_of d ''attachments'' = Some (JList (map JDict as))" "list_all2 same_dict as (ws_attachments x)"
    using field [of "''attachments''" "ws_attachments x"] by (auto simp: provider_payload_def)
  obtain rs where rs: "map_of d ''relations'' = Some (JList (map JDict rs))" "list_all2 same_dict rs (ws_relations x)"
    using field [of "''relations''" "ws_relations x"] by (auto simp: provider_payload_def)
  note f = fields [OF assms [unfolded provider_payload_def]] field_int_opt [OF assms [unfolded provider_payload_def]]
  have "d \<noteq> []" using as(1) by auto
  then have "snapshot_from_payload d = Some (x\<lparr>ws_attachments := as, ws_relations := rs\<rparr>)"
    by (cases x) (simp add: snapshot_from_payload_def f as(1) rs(1) field_read)
  with as(2) rs(2) show ?thesis using that by blast
qed

end
