(* ===== verification/Postgres.thy ===== *)
theory Postgres
  imports Rows
begin

text \<open>
  The repositories of the PostgreSQL adapter (\<open>adapters/postgresql/repositories.py\<close>,
  \<open>openproject_snapshot.py\<close>) over a session \<open>sq\<close> (\<open>Sql.thy\<close>): one definition per method, the
  statements in the order the method awaits them. A flush that fails, a row that does not
  validate and a second row where at most one may be all raise. \<open>ids\<close> are the identifiers \<open>uuid4\<close>
  draws for the rows of the external references.
\<close>

subsection \<open>Reading rows\<close>

definition invalid_row :: exn where
  "invalid_row = Exn ''ValidationError'' ''the row does not validate''"

definition read_one :: "(row \<Rightarrow> 'e option) \<Rightarrow> row option \<Rightarrow> 'd \<Rightarrow> ('d, 'e option) outcome" where
  "read_one from found d =
     (case found of
        None \<Rightarrow> (Inr None, d)
      | Some r \<Rightarrow> (case from r of None \<Rightarrow> (Inl invalid_row, d) | Some e \<Rightarrow> (Inr (Some e), d)))"

definition read_all :: "(row \<Rightarrow> 'e option) \<Rightarrow> row list \<Rightarrow> 'd \<Rightarrow> ('d, 'e list) outcome" where
  "read_all from rs d = (case those (map from rs) of None \<Rightarrow> (Inl invalid_row, d) | Some es \<Rightarrow> (Inr es, d))"

text \<open>\<open>scalar_one_or_none()\<close>.\<close>

definition scalar_one :: "row list \<Rightarrow> 'd \<Rightarrow> ('d, row option) outcome" where
  "scalar_one rs d =
     (case rs of
        [] \<Rightarrow> (Inr None, d)
      | [r] \<Rightarrow> (Inr (Some r), d)
      | _ \<Rightarrow> (Inl (Exn ''MultipleResultsFound'' ''Multiple rows were found when one or none was required''), d))"

definition read_scalar :: "(row \<Rightarrow> 'e option) \<Rightarrow> row list \<Rightarrow> 'd \<Rightarrow> ('d, 'e option) outcome" where
  "read_scalar from rs d = then_do (scalar_one rs d) (read_one from)"

definition is_uuid :: "string \<Rightarrow> uuid \<Rightarrow> row \<Rightarrow> bool" where
  "is_uuid c u r \<longleftrightarrow> col r c = Col_Uuid u"

definition is_str :: "string \<Rightarrow> string \<Rightarrow> row \<Rightarrow> bool" where
  "is_str c s r \<longleftrightarrow> col r c = Col_Str s"

abbreviation up :: "string \<Rightarrow> (string \<times> bool) option" where
  "up c \<equiv> Some (c, False)"

abbreviation down :: "string \<Rightarrow> (string \<times> bool) option" where
  "down c \<equiv> Some (c, True)"

text \<open>\<open>session.add(row)\<close> and the flush; the insert with \<open>ON CONFLICT DO UPDATE\<close>: the entity is returned.\<close>

definition added :: "'d sql \<Rightarrow> table_schema \<Rightarrow> row \<Rightarrow> 'e \<Rightarrow> 'd \<Rightarrow> ('d, 'e) outcome" where
  "added sq T r e d = then_do (sq_insert sq T r d) (\<lambda>u. return_out e)"

definition upserted :: "'d sql \<Rightarrow> table_schema \<Rightarrow> string list \<Rightarrow> row \<Rightarrow> row \<Rightarrow> 'e \<Rightarrow> 'd \<Rightarrow> ('d, 'e) outcome" where
  "upserted sq T K r cells e d = then_do (sq_upsert sq T K r cells d) (\<lambda>u. return_out e)"

definition row_deleted :: "'d sql \<Rightarrow> table_schema \<Rightarrow> uuid \<Rightarrow> 'd \<Rightarrow> ('d, unit) outcome" where
  "row_deleted sq T k d = sq_delete sq T (\<lambda>r. cols (tb_key T) r = [Col_Uuid k]) d"

subsection \<open>Entities with an identifier\<close>

text \<open>What a repository of one table is made of; an owner of external references has two more.\<close>

record 'e entity_table =
  en_table :: table_schema
  en_row :: "'e \<Rightarrow> row"
  en_cells :: "'e \<Rightarrow> row"
  en_from :: "row \<Rightarrow> 'e option"
  en_id :: "'e \<Rightarrow> uuid"

record 'e owner_table = "'e entity_table" +
  ow_type :: string
  ow_refs :: "'e \<Rightarrow> external_reference list"

definition entity_create :: "'d sql \<Rightarrow> ('e, 'm) entity_table_scheme \<Rightarrow> 'e \<Rightarrow> 'd \<Rightarrow> ('d, 'e) outcome" where
  "entity_create sq en e d = added sq (en_table en) (en_row en e) e d"

definition entity_get :: "'d sql \<Rightarrow> ('e, 'm) entity_table_scheme \<Rightarrow> uuid \<Rightarrow> 'd \<Rightarrow> ('d, 'e option) outcome" where
  "entity_get sq en k d = read_one (en_from en) (sq_get sq (en_table en) [Col_Uuid k] d) d"

definition entity_list :: "'d sql \<Rightarrow> ('e, 'm) entity_table_scheme \<Rightarrow> (row \<Rightarrow> bool) \<Rightarrow> (string \<times> bool) option \<Rightarrow> 'd
    \<Rightarrow> ('d, 'e list) outcome" where
  "entity_list sq en P ord d = read_all (en_from en) (sq_select sq (en_table en) P ord d) d"

text \<open>\<open>update\<close> of an entity that is not stored creates it.\<close>

definition entity_update :: "'d sql \<Rightarrow> ('e, 'm) entity_table_scheme \<Rightarrow> 'e \<Rightarrow> 'd \<Rightarrow> ('d, 'e) outcome" where
  "entity_update sq en e d =
     (case sq_get sq (en_table en) [Col_Uuid (en_id en e)] d of
        None \<Rightarrow> entity_create sq en e d
      | Some r \<Rightarrow>
          then_do (sq_assign sq (en_table en) [Col_Uuid (en_id en e)] (en_cells en e) d) (\<lambda>u. return_out e))"

definition entity_delete :: "'d sql \<Rightarrow> ('e, 'm) entity_table_scheme \<Rightarrow> uuid \<Rightarrow> 'd \<Rightarrow> ('d, unit) outcome" where
  "entity_delete sq en k d =
     (case sq_get sq (en_table en) [Col_Uuid k] d of
        None \<Rightarrow> (Inr (), d)
      | Some r \<Rightarrow> row_deleted sq (en_table en) k d)"

subsection \<open>Owners of external references\<close>

definition owned :: "string \<Rightarrow> uuid \<Rightarrow> row \<Rightarrow> bool" where
  "owned t owner r \<longleftrightarrow> is_str ''owner_type'' t r \<and> is_uuid ''owner_id'' owner r"

definition delete_external_refs :: "'d sql \<Rightarrow> string \<Rightarrow> uuid \<Rightarrow> 'd \<Rightarrow> ('d, unit) outcome" where
  "delete_external_refs sq t owner d = sq_delete sq external_references_table (owned t owner) d"

definition insert_refs :: "'d sql \<Rightarrow> string \<Rightarrow> uuid \<Rightarrow> (uuid \<times> external_reference) list \<Rightarrow> 'd \<Rightarrow> ('d, unit) outcome" where
  "insert_refs sq t owner refs =
     each_do (\<lambda>(i, r). sq_insert sq external_references_table (reference_row i t owner r)) refs"

definition numbered :: "(nat \<Rightarrow> uuid) \<Rightarrow> 'a list \<Rightarrow> (uuid \<times> 'a) list" where
  "numbered ids xs = zip (map ids [0..<length xs]) xs"

definition replace_external_refs :: "'d sql \<Rightarrow> string \<Rightarrow> uuid \<Rightarrow> external_reference list \<Rightarrow> (nat \<Rightarrow> uuid) \<Rightarrow> 'd
    \<Rightarrow> ('d, unit) outcome" where
  "replace_external_refs sq t owner refs ids d =
     then_do (delete_external_refs sq t owner d) (\<lambda>u. insert_refs sq t owner (numbered ids refs))"

definition owner_create :: "'d sql \<Rightarrow> ('e, 'm) owner_table_scheme \<Rightarrow> (nat \<Rightarrow> uuid) \<Rightarrow> 'e \<Rightarrow> 'd \<Rightarrow> ('d, 'e) outcome" where
  "owner_create sq ow ids e d =
     then_do (sq_insert sq (en_table ow) (en_row ow e) d) (\<lambda>u d1.
     then_do (replace_external_refs sq (ow_type ow) (en_id ow e) (ow_refs ow e) ids d1) (\<lambda>u. return_out e))"

definition owner_update :: "'d sql \<Rightarrow> ('e, 'm) owner_table_scheme \<Rightarrow> (nat \<Rightarrow> uuid) \<Rightarrow> 'e \<Rightarrow> 'd \<Rightarrow> ('d, 'e) outcome" where
  "owner_update sq ow ids e d =
     (case sq_get sq (en_table ow) [Col_Uuid (en_id ow e)] d of
        None \<Rightarrow> owner_create sq ow ids e d
      | Some r \<Rightarrow>
          then_do (sq_assign sq (en_table ow) [Col_Uuid (en_id ow e)] (en_cells ow e) d) (\<lambda>u d1.
          then_do (replace_external_refs sq (ow_type ow) (en_id ow e) (ow_refs ow e) ids d1) (\<lambda>u. return_out e)))"

definition owner_delete :: "'d sql \<Rightarrow> ('e, 'm) owner_table_scheme \<Rightarrow> uuid \<Rightarrow> 'd \<Rightarrow> ('d, unit) outcome" where
  "owner_delete sq ow k d =
     (case sq_get sq (en_table ow) [Col_Uuid k] d of
        None \<Rightarrow> (Inr (), d)
      | Some r \<Rightarrow>
          then_do (row_deleted sq (en_table ow) k d) (\<lambda>u. delete_external_refs sq (ow_type ow) k))"

text \<open>
  \<open>find_by_external_ref\<close>: the owner of one of the rows with the provider, the id and - when one is
  given - the type; \<open>limit(1)\<close> without an order promises no particular one.
\<close>

definition ref_row_matches :: "string \<Rightarrow> string \<Rightarrow> string \<Rightarrow> string option \<Rightarrow> row \<Rightarrow> bool" where
  "ref_row_matches t provider x ty r \<longleftrightarrow>
     is_str ''owner_type'' t r \<and> is_str ''provider'' provider r \<and> is_str ''external_id'' x r \<and>
     (case ty of None \<Rightarrow> True | Some y \<Rightarrow> is_str ''external_type'' y r)"

definition owner_find :: "'d sql \<Rightarrow> ('e, 'm) owner_table_scheme \<Rightarrow> string \<Rightarrow> string \<Rightarrow> string option \<Rightarrow> 'd
    \<Rightarrow> ('d, 'e option) outcome" where
  "owner_find sq ow provider x ty d =
     (case take 1 (sq_select sq external_references_table (ref_row_matches (ow_type ow) provider x ty) None d) of
        [] \<Rightarrow> (Inr None, d)
      | r # _ \<Rightarrow> (case col r ''owner_id'' of Col_Uuid k \<Rightarrow> entity_get sq ow k d | _ \<Rightarrow> (Inl invalid_row, d)))"

subsection \<open>Projects, repositories and actors\<close>

definition projects_repo :: "codec \<Rightarrow> project owner_table" where
  "projects_repo cx =
     \<lparr>en_table = projects_table, en_row = project_row, en_cells = project_cells,
      en_from = project_from_row cx, en_id = pj_id, ow_type = ''project'',
      ow_refs = pj_external_refs\<rparr>"

definition pg_create_project :: "codec \<Rightarrow> 'd sql \<Rightarrow> (nat \<Rightarrow> uuid) \<Rightarrow> project \<Rightarrow> 'd \<Rightarrow> ('d, project) outcome" where
  "pg_create_project cx sq = owner_create sq (projects_repo cx)"

definition pg_get_project :: "codec \<Rightarrow> 'd sql \<Rightarrow> uuid \<Rightarrow> 'd \<Rightarrow> ('d, project option) outcome" where
  "pg_get_project cx sq = entity_get sq (projects_repo cx)"

definition pg_update_project :: "codec \<Rightarrow> 'd sql \<Rightarrow> (nat \<Rightarrow> uuid) \<Rightarrow> project \<Rightarrow> 'd \<Rightarrow> ('d, project) outcome" where
  "pg_update_project cx sq = owner_update sq (projects_repo cx)"

definition pg_delete_project :: "codec \<Rightarrow> 'd sql \<Rightarrow> uuid \<Rightarrow> 'd \<Rightarrow> ('d, unit) outcome" where
  "pg_delete_project cx sq = owner_delete sq (projects_repo cx)"

definition pg_find_project :: "codec \<Rightarrow> 'd sql \<Rightarrow> string \<Rightarrow> string \<Rightarrow> string option \<Rightarrow> 'd \<Rightarrow> ('d, project option) outcome" where
  "pg_find_project cx sq = owner_find sq (projects_repo cx)"

definition pg_list_projects :: "codec \<Rightarrow> 'd sql \<Rightarrow> 'd \<Rightarrow> ('d, project list) outcome" where
  "pg_list_projects cx sq = entity_list sq (projects_repo cx) (\<lambda>r. True) (up ''name'')"

definition repositories_repo :: "codec \<Rightarrow> repository owner_table" where
  "repositories_repo cx =
     \<lparr>en_table = repositories_table, en_row = repository_row, en_cells = repository_cells,
      en_from = repository_from_row cx, en_id = rp_id, ow_type = ''repository'',
      ow_refs = rp_external_refs\<rparr>"

definition pg_create_repository :: "codec \<Rightarrow> 'd sql \<Rightarrow> (nat \<Rightarrow> uuid) \<Rightarrow> repository \<Rightarrow> 'd \<Rightarrow> ('d, repository) outcome" where
  "pg_create_repository cx sq = owner_create sq (repositories_repo cx)"

definition pg_get_repository :: "codec \<Rightarrow> 'd sql \<Rightarrow> uuid \<Rightarrow> 'd \<Rightarrow> ('d, repository option) outcome" where
  "pg_get_repository cx sq = entity_get sq (repositories_repo cx)"

definition pg_update_repository :: "codec \<Rightarrow> 'd sql \<Rightarrow> (nat \<Rightarrow> uuid) \<Rightarrow> repository \<Rightarrow> 'd \<Rightarrow> ('d, repository) outcome" where
  "pg_update_repository cx sq = owner_update sq (repositories_repo cx)"

definition pg_delete_repository :: "codec \<Rightarrow> 'd sql \<Rightarrow> uuid \<Rightarrow> 'd \<Rightarrow> ('d, unit) outcome" where
  "pg_delete_repository cx sq = owner_delete sq (repositories_repo cx)"

definition pg_list_repositories :: "codec \<Rightarrow> 'd sql \<Rightarrow> uuid \<Rightarrow> 'd \<Rightarrow> ('d, repository list) outcome" where
  "pg_list_repositories cx sq p =
     entity_list sq (repositories_repo cx) (is_uuid ''project_id'' p) (up ''name'')"

definition actors_repo :: "codec \<Rightarrow> actor entity_table" where
  "actors_repo cx =
     \<lparr>en_table = actors_table, en_row = actor_row, en_cells = actor_cells,
      en_from = actor_from_row cx, en_id = ac_id\<rparr>"

definition pg_create_actor :: "codec \<Rightarrow> 'd sql \<Rightarrow> actor \<Rightarrow> 'd \<Rightarrow> ('d, actor) outcome" where
  "pg_create_actor cx sq = entity_create sq (actors_repo cx)"

definition pg_get_actor :: "codec \<Rightarrow> 'd sql \<Rightarrow> uuid \<Rightarrow> 'd \<Rightarrow> ('d, actor option) outcome" where
  "pg_get_actor cx sq = entity_get sq (actors_repo cx)"

definition pg_update_actor :: "codec \<Rightarrow> 'd sql \<Rightarrow> actor \<Rightarrow> 'd \<Rightarrow> ('d, actor) outcome" where
  "pg_update_actor cx sq = entity_update sq (actors_repo cx)"

definition pg_delete_actor :: "codec \<Rightarrow> 'd sql \<Rightarrow> uuid \<Rightarrow> 'd \<Rightarrow> ('d, unit) outcome" where
  "pg_delete_actor cx sq = entity_delete sq (actors_repo cx)"

definition pg_list_actors :: "codec \<Rightarrow> 'd sql \<Rightarrow> 'd \<Rightarrow> ('d, actor list) outcome" where
  "pg_list_actors cx sq = entity_list sq (actors_repo cx) (\<lambda>r. True) (up ''display_name'')"

subsection \<open>Work items and requirements\<close>

definition work_items_repo :: "codec \<Rightarrow> work_item owner_table" where
  "work_items_repo cx =
     \<lparr>en_table = work_items_table, en_row = work_item_row cx, en_cells = work_item_cells cx,
      en_from = work_item_from_row cx, en_id = wi_id, ow_type = ''work_item'',
      ow_refs = wi_external_refs\<rparr>"

definition pg_create_work_item :: "codec \<Rightarrow> 'd sql \<Rightarrow> (nat \<Rightarrow> uuid) \<Rightarrow> work_item \<Rightarrow> 'd \<Rightarrow> ('d, work_item) outcome" where
  "pg_create_work_item cx sq = owner_create sq (work_items_repo cx)"

definition pg_get_work_item :: "codec \<Rightarrow> 'd sql \<Rightarrow> uuid \<Rightarrow> 'd \<Rightarrow> ('d, work_item option) outcome" where
  "pg_get_work_item cx sq = entity_get sq (work_items_repo cx)"

definition pg_update_work_item :: "codec \<Rightarrow> 'd sql \<Rightarrow> (nat \<Rightarrow> uuid) \<Rightarrow> work_item \<Rightarrow> 'd \<Rightarrow> ('d, work_item) outcome" where
  "pg_update_work_item cx sq = owner_update sq (work_items_repo cx)"

definition pg_delete_work_item :: "codec \<Rightarrow> 'd sql \<Rightarrow> uuid \<Rightarrow> 'd \<Rightarrow> ('d, unit) outcome" where
  "pg_delete_work_item cx sq = owner_delete sq (work_items_repo cx)"

definition pg_find_work_item :: "codec \<Rightarrow> 'd sql \<Rightarrow> string \<Rightarrow> string \<Rightarrow> string option \<Rightarrow> 'd \<Rightarrow> ('d, work_item option) outcome" where
  "pg_find_work_item cx sq = owner_find sq (work_items_repo cx)"

definition pg_list_work_items :: "codec \<Rightarrow> 'd sql \<Rightarrow> uuid \<Rightarrow> 'd \<Rightarrow> ('d, work_item list) outcome" where
  "pg_list_work_items cx sq p =
     entity_list sq (work_items_repo cx) (is_uuid ''project_id'' p) (up ''title'')"

definition pg_list_children :: "codec \<Rightarrow> 'd sql \<Rightarrow> uuid \<Rightarrow> 'd \<Rightarrow> ('d, work_item list) outcome" where
  "pg_list_children cx sq k = entity_list sq (work_items_repo cx) (is_uuid ''parent_id'' k) None"

definition requirements_repo :: "codec \<Rightarrow> requirement entity_table" where
  "requirements_repo cx =
     \<lparr>en_table = requirements_table, en_row = requirement_row cx,
      en_cells = requirement_cells cx, en_from = requirement_from_row cx, en_id = rm_id\<rparr>"

definition pg_create_requirement :: "codec \<Rightarrow> 'd sql \<Rightarrow> requirement \<Rightarrow> 'd \<Rightarrow> ('d, requirement) outcome" where
  "pg_create_requirement cx sq = entity_create sq (requirements_repo cx)"

definition pg_get_requirement :: "codec \<Rightarrow> 'd sql \<Rightarrow> uuid \<Rightarrow> 'd \<Rightarrow> ('d, requirement option) outcome" where
  "pg_get_requirement cx sq = entity_get sq (requirements_repo cx)"

definition pg_update_requirement :: "codec \<Rightarrow> 'd sql \<Rightarrow> requirement \<Rightarrow> 'd \<Rightarrow> ('d, requirement) outcome" where
  "pg_update_requirement cx sq = entity_update sq (requirements_repo cx)"

definition pg_delete_requirement :: "codec \<Rightarrow> 'd sql \<Rightarrow> uuid \<Rightarrow> 'd \<Rightarrow> ('d, unit) outcome" where
  "pg_delete_requirement cx sq = entity_delete sq (requirements_repo cx)"

definition pg_list_requirements :: "codec \<Rightarrow> 'd sql \<Rightarrow> uuid \<Rightarrow> 'd \<Rightarrow> ('d, requirement list) outcome" where
  "pg_list_requirements cx sq p =
     entity_list sq (requirements_repo cx) (is_uuid ''project_id'' p) (up ''title'')"

definition pg_list_derived :: "codec \<Rightarrow> 'd sql \<Rightarrow> uuid \<Rightarrow> 'd \<Rightarrow> ('d, requirement list) outcome" where
  "pg_list_derived cx sq k = entity_list sq (requirements_repo cx) (is_uuid ''parent_id'' k) None"

subsection \<open>Documents and decisions\<close>

definition documents_repo :: "codec \<Rightarrow> document owner_table" where
  "documents_repo cx =
     \<lparr>en_table = documents_table, en_row = document_row cx, en_cells = document_cells cx,
      en_from = document_from_row cx, en_id = dc_id, ow_type = ''document'',
      ow_refs = dc_external_refs\<rparr>"

definition pg_create_document :: "codec \<Rightarrow> 'd sql \<Rightarrow> (nat \<Rightarrow> uuid) \<Rightarrow> document \<Rightarrow> 'd \<Rightarrow> ('d, document) outcome" where
  "pg_create_document cx sq = owner_create sq (documents_repo cx)"

definition pg_get_document :: "codec \<Rightarrow> 'd sql \<Rightarrow> uuid \<Rightarrow> 'd \<Rightarrow> ('d, document option) outcome" where
  "pg_get_document cx sq = entity_get sq (documents_repo cx)"

definition pg_update_document :: "codec \<Rightarrow> 'd sql \<Rightarrow> (nat \<Rightarrow> uuid) \<Rightarrow> document \<Rightarrow> 'd \<Rightarrow> ('d, document) outcome" where
  "pg_update_document cx sq = owner_update sq (documents_repo cx)"

definition pg_delete_document :: "codec \<Rightarrow> 'd sql \<Rightarrow> uuid \<Rightarrow> 'd \<Rightarrow> ('d, unit) outcome" where
  "pg_delete_document cx sq = owner_delete sq (documents_repo cx)"

definition pg_list_documents :: "codec \<Rightarrow> 'd sql \<Rightarrow> uuid \<Rightarrow> 'd \<Rightarrow> ('d, document list) outcome" where
  "pg_list_documents cx sq p = entity_list sq (documents_repo cx) (is_uuid ''project_id'' p) (up ''title'')"

text \<open>\<open>DocumentRow.source["uri"].astext\<close>.\<close>

definition json_text :: "json \<Rightarrow> string option" where
  "json_text j =
     (case j of
        JStr s \<Rightarrow> Some s
      | JInt i \<Rightarrow> Some (str_int i)
      | JBool b \<Rightarrow> Some (if b then ''true'' else ''false'')
      | _ \<Rightarrow> None)"

definition pg_find_by_source :: "codec \<Rightarrow> 'd sql \<Rightarrow> uuid \<Rightarrow> string \<Rightarrow> 'd \<Rightarrow> ('d, document option) outcome" where
  "pg_find_by_source cx sq p uri d =
     read_scalar (document_from_row cx)
       (sq_select sq documents_table
         (\<lambda>r. is_uuid ''project_id'' p r \<and>
            (case col r ''source'' of
               Col_Json (JDict s) \<Rightarrow> Option.bind (map_of s ''uri'') json_text = Some uri
             | _ \<Rightarrow> False)) None d) d"

definition versions_repo :: "document_version entity_table" where
  "versions_repo =
     \<lparr>en_table = document_versions_table, en_row = document_version_row,
      en_cells = (\<lambda>x. []), en_from = document_version_from_row, en_id = dv_id\<rparr>"

definition pg_list_versions :: "'d sql \<Rightarrow> uuid \<Rightarrow> 'd \<Rightarrow> ('d, document_version list) outcome" where
  "pg_list_versions sq k = entity_list sq versions_repo (is_uuid ''document_id'' k) (up ''ingested_at'')"

definition pg_add_version :: "'d sql \<Rightarrow> document_version \<Rightarrow> 'd \<Rightarrow> ('d, document_version) outcome" where
  "pg_add_version sq = entity_create sq versions_repo"

definition pg_get_version :: "'d sql \<Rightarrow> uuid \<Rightarrow> 'd \<Rightarrow> ('d, document_version option) outcome" where
  "pg_get_version sq = entity_get sq versions_repo"

definition nodes_repo :: "codec \<Rightarrow> document_node entity_table" where
  "nodes_repo cx =
     \<lparr>en_table = document_nodes_table, en_row = document_node_row,
      en_cells = (\<lambda>x. []), en_from = document_node_from_row cx, en_id = dn_id\<rparr>"

definition pg_list_nodes :: "codec \<Rightarrow> 'd sql \<Rightarrow> uuid \<Rightarrow> 'd \<Rightarrow> ('d, document_node list) outcome" where
  "pg_list_nodes cx sq k = entity_list sq (nodes_repo cx) (is_uuid ''version_id'' k) None"

definition pg_add_node :: "codec \<Rightarrow> 'd sql \<Rightarrow> document_node \<Rightarrow> 'd \<Rightarrow> ('d, document_node) outcome" where
  "pg_add_node cx sq = entity_create sq (nodes_repo cx)"

definition decisions_repo :: "codec \<Rightarrow> decision owner_table" where
  "decisions_repo cx =
     \<lparr>en_table = decisions_table, en_row = decision_row cx, en_cells = decision_cells cx,
      en_from = decision_from_row cx, en_id = de_id, ow_type = ''decision'',
      ow_refs = de_external_refs\<rparr>"

definition pg_create_decision :: "codec \<Rightarrow> 'd sql \<Rightarrow> (nat \<Rightarrow> uuid) \<Rightarrow> decision \<Rightarrow> 'd \<Rightarrow> ('d, decision) outcome" where
  "pg_create_decision cx sq = owner_create sq (decisions_repo cx)"

definition pg_get_decision :: "codec \<Rightarrow> 'd sql \<Rightarrow> uuid \<Rightarrow> 'd \<Rightarrow> ('d, decision option) outcome" where
  "pg_get_decision cx sq = entity_get sq (decisions_repo cx)"

definition pg_update_decision :: "codec \<Rightarrow> 'd sql \<Rightarrow> (nat \<Rightarrow> uuid) \<Rightarrow> decision \<Rightarrow> 'd \<Rightarrow> ('d, decision) outcome" where
  "pg_update_decision cx sq = owner_update sq (decisions_repo cx)"

definition pg_delete_decision :: "codec \<Rightarrow> 'd sql \<Rightarrow> uuid \<Rightarrow> 'd \<Rightarrow> ('d, unit) outcome" where
  "pg_delete_decision cx sq = owner_delete sq (decisions_repo cx)"

definition pg_list_decisions :: "codec \<Rightarrow> 'd sql \<Rightarrow> uuid \<Rightarrow> 'd \<Rightarrow> ('d, decision list) outcome" where
  "pg_list_decisions cx sq p = entity_list sq (decisions_repo cx) (is_uuid ''project_id'' p) (up ''title'')"

subsection \<open>Executions, evidence, artifacts and verification\<close>

definition executions_repo :: "execution entity_table" where
  "executions_repo =
     \<lparr>en_table = executions_table, en_row = execution_row, en_cells = execution_cells,
      en_from = execution_from_row, en_id = ex_id\<rparr>"

definition pg_create_execution :: "'d sql \<Rightarrow> execution \<Rightarrow> 'd \<Rightarrow> ('d, execution) outcome" where
  "pg_create_execution sq = entity_create sq executions_repo"

definition pg_get_execution :: "'d sql \<Rightarrow> uuid \<Rightarrow> 'd \<Rightarrow> ('d, execution option) outcome" where
  "pg_get_execution sq = entity_get sq executions_repo"

definition pg_update_execution :: "'d sql \<Rightarrow> execution \<Rightarrow> 'd \<Rightarrow> ('d, execution) outcome" where
  "pg_update_execution sq = entity_update sq executions_repo"

definition pg_list_executions :: "'d sql \<Rightarrow> uuid \<Rightarrow> 'd \<Rightarrow> ('d, execution list) outcome" where
  "pg_list_executions sq w =
     entity_list sq executions_repo (is_uuid ''work_item_id'' w) (up ''started_at'')"

definition evidence_repo :: "evidence entity_table" where
  "evidence_repo =
     \<lparr>en_table = evidence_table, en_row = evidence_row, en_cells = (\<lambda>x. []),
      en_from = evidence_from_row, en_id = ed_id\<rparr>"

definition pg_create_evidence :: "'d sql \<Rightarrow> evidence \<Rightarrow> 'd \<Rightarrow> ('d, evidence) outcome" where
  "pg_create_evidence sq = entity_create sq evidence_repo"

definition pg_get_evidence :: "'d sql \<Rightarrow> uuid \<Rightarrow> 'd \<Rightarrow> ('d, evidence option) outcome" where
  "pg_get_evidence sq = entity_get sq evidence_repo"

definition pg_list_evidence :: "'d sql \<Rightarrow> uuid \<Rightarrow> 'd \<Rightarrow> ('d, evidence list) outcome" where
  "pg_list_evidence sq e = entity_list sq evidence_repo (is_uuid ''execution_id'' e) None"

definition artifacts_repo :: "artifact entity_table" where
  "artifacts_repo =
     \<lparr>en_table = artifacts_table, en_row = artifact_row, en_cells = (\<lambda>x. []),
      en_from = artifact_from_row, en_id = ar_id\<rparr>"

definition pg_create_artifact :: "'d sql \<Rightarrow> artifact \<Rightarrow> 'd \<Rightarrow> ('d, artifact) outcome" where
  "pg_create_artifact sq = entity_create sq artifacts_repo"

definition pg_get_artifact :: "'d sql \<Rightarrow> uuid \<Rightarrow> 'd \<Rightarrow> ('d, artifact option) outcome" where
  "pg_get_artifact sq = entity_get sq artifacts_repo"

definition pg_list_artifacts :: "'d sql \<Rightarrow> uuid \<Rightarrow> 'd \<Rightarrow> ('d, artifact list) outcome" where
  "pg_list_artifacts sq p = entity_list sq artifacts_repo (is_uuid ''project_id'' p) None"

definition verification_results_repo :: "codec \<Rightarrow> verification_result entity_table" where
  "verification_results_repo cx =
     \<lparr>en_table = verification_results_table, en_row = verification_result_row,
      en_cells = (\<lambda>x. []), en_from = verification_result_from_row cx,
      en_id = verification_result.vr_id\<rparr>"

definition pg_create_verification_result :: "codec \<Rightarrow> 'd sql \<Rightarrow> verification_result \<Rightarrow> 'd \<Rightarrow> ('d, verification_result) outcome" where
  "pg_create_verification_result cx sq = entity_create sq (verification_results_repo cx)"

definition pg_get_verification_result :: "codec \<Rightarrow> 'd sql \<Rightarrow> uuid \<Rightarrow> 'd \<Rightarrow> ('d, verification_result option) outcome" where
  "pg_get_verification_result cx sq = entity_get sq (verification_results_repo cx)"

definition pg_list_verification_results :: "codec \<Rightarrow> 'd sql \<Rightarrow> uuid \<Rightarrow> 'd \<Rightarrow> ('d, verification_result list) outcome" where
  "pg_list_verification_results cx sq e =
     entity_list sq (verification_results_repo cx) (is_uuid ''execution_id'' e) None"

definition runs_repo :: "codec \<Rightarrow> verification_run entity_table" where
  "runs_repo cx =
     \<lparr>en_table = verification_runs_table, en_row = run_row cx, en_cells = run_cells cx,
      en_from = run_from_row cx, en_id = verification_run.vr_id\<rparr>"

definition pg_list_runs :: "codec \<Rightarrow> 'd sql \<Rightarrow> uuid \<Rightarrow> 'd \<Rightarrow> ('d, verification_run list) outcome" where
  "pg_list_runs cx sq e = entity_list sq (runs_repo cx) (is_uuid ''execution_id'' e) (up ''started_at'')"

definition pg_save_run :: "codec \<Rightarrow> 'd sql \<Rightarrow> verification_run \<Rightarrow> 'd \<Rightarrow> ('d, verification_run) outcome" where
  "pg_save_run cx sq x = upserted sq verification_runs_table [''id''] (run_row cx x) (run_cells cx x) x"

definition pg_get_run :: "codec \<Rightarrow> 'd sql \<Rightarrow> uuid \<Rightarrow> 'd \<Rightarrow> ('d, verification_run option) outcome" where
  "pg_get_run cx sq = entity_get sq (runs_repo cx)"

definition pg_delete_run :: "codec \<Rightarrow> 'd sql \<Rightarrow> uuid \<Rightarrow> 'd \<Rightarrow> ('d, unit) outcome" where
  "pg_delete_run cx sq = entity_delete sq (runs_repo cx)"

subsection \<open>Processed events\<close>

definition pg_is_processed :: "'d sql \<Rightarrow> string \<Rightarrow> 'd \<Rightarrow> ('d, bool) outcome" where
  "pg_is_processed sq key d =
     (Inr (sq_select sq idempotency_keys_table (is_str ''idempotency_key'' key) None d \<noteq> []), d)"

text \<open>\<open>on_conflict_do_nothing\<close>: a conflict assigns nothing.\<close>

definition pg_mark_processed :: "'d sql \<Rightarrow> datetime \<Rightarrow> string \<Rightarrow> uuid option \<Rightarrow> 'd \<Rightarrow> ('d, unit) outcome" where
  "pg_mark_processed sq now key e =
     sq_upsert sq idempotency_keys_table [''idempotency_key''] (idempotency_row now key e) []"

text \<open>The log; \<open>n\<close> is the next value of the sequence of its primary key.\<close>

definition pg_append_event :: "'d sql \<Rightarrow> int \<Rightarrow> event_envelope \<Rightarrow> 'd \<Rightarrow> ('d, unit) outcome" where
  "pg_append_event sq n e = sq_insert sq event_log_table (event_row n e)"

definition pg_events_by_correlation :: "'d sql \<Rightarrow> uuid \<Rightarrow> 'd \<Rightarrow> ('d, event_envelope list) outcome" where
  "pg_events_by_correlation sq c d =
     read_all event_from_row (sq_select sq event_log_table (is_uuid ''correlation_id'' c) (up ''id'') d) d"

definition pg_recent_events :: "'d sql \<Rightarrow> nat \<Rightarrow> 'd \<Rightarrow> ('d, event_envelope list) outcome" where
  "pg_recent_events sq limit d =
     read_all event_from_row (rev (take limit (sq_select sq event_log_table (\<lambda>r. True) (down ''id'') d))) d"

subsection \<open>Repository revisions and the code graph\<close>

definition pg_save_snapshot :: "'d sql \<Rightarrow> repository_snapshot \<Rightarrow> 'd \<Rightarrow> ('d, repository_snapshot) outcome" where
  "pg_save_snapshot sq x =
     upserted sq repository_snapshots_table [''repository_id'', ''revision''] (snapshot_row x) (snapshot_cells x) x"

definition pg_get_snapshot :: "codec \<Rightarrow> 'd sql \<Rightarrow> uuid \<Rightarrow> string \<Rightarrow> 'd \<Rightarrow> ('d, repository_snapshot option) outcome" where
  "pg_get_snapshot cx sq rp v d =
     read_scalar (snapshot_from_row cx)
       (sq_select sq repository_snapshots_table
         (\<lambda>r. is_uuid ''repository_id'' rp r \<and> is_str ''revision'' v r) None d) d"

definition pg_list_snapshots :: "codec \<Rightarrow> 'd sql \<Rightarrow> uuid \<Rightarrow> 'd \<Rightarrow> ('d, repository_snapshot list) outcome" where
  "pg_list_snapshots cx sq rp d =
     read_all (snapshot_from_row cx)
       (sq_select sq repository_snapshots_table (is_uuid ''repository_id'' rp) (up ''captured_at'') d) d"

definition pg_save_change_set :: "'d sql \<Rightarrow> change_set \<Rightarrow> 'd \<Rightarrow> ('d, change_set) outcome" where
  "pg_save_change_set sq x = added sq repository_change_sets_table (change_set_row x) x"

definition pg_list_change_sets :: "'d sql \<Rightarrow> uuid \<Rightarrow> 'd \<Rightarrow> ('d, change_set list) outcome" where
  "pg_list_change_sets sq rp d =
     read_all change_set_from_row
       (sq_select sq repository_change_sets_table (is_uuid ''repository_id'' rp) (up ''detected_at'') d) d"

definition pg_save_symbols :: "codec \<Rightarrow> 'd sql \<Rightarrow> symbol list \<Rightarrow> 'd \<Rightarrow> ('d, symbol list) outcome" where
  "pg_save_symbols cx sq xs d =
     then_do (each_do (\<lambda>s. sq_upsert sq code_symbols_table [''id''] (symbol_row cx s) (symbol_cells cx s)) xs d)
       (\<lambda>u. return_out xs)"

definition pg_save_relations :: "'d sql \<Rightarrow> code_relation list \<Rightarrow> 'd \<Rightarrow> ('d, code_relation list) outcome" where
  "pg_save_relations sq xs d =
     then_do (each_do (\<lambda>x. sq_upsert sq code_relations_table [''id''] (code_relation_row x) (code_relation_cells x)) xs d)
       (\<lambda>u. return_out xs)"

definition pg_save_parsed_file :: "codec \<Rightarrow> 'd sql \<Rightarrow> uuid \<Rightarrow> parsed_file \<Rightarrow> 'd \<Rightarrow> ('d, parsed_file) outcome" where
  "pg_save_parsed_file cx sq i x d =
     then_do (pg_save_symbols cx sq (pf_symbols x) d) (\<lambda>u d1.
     then_do (pg_save_relations sq (pf_relations x) d1) (\<lambda>u.
       upserted sq code_files_table [''repository_id'', ''revision'', ''path''] (code_file_row i x) (code_file_cells x) x))"

definition in_revision :: "uuid \<Rightarrow> string \<Rightarrow> row \<Rightarrow> bool" where
  "in_revision rp v r = (is_uuid ''repository_id'' rp r \<and> is_str ''revision'' v r)"

definition pg_get_symbol :: "codec \<Rightarrow> 'd sql \<Rightarrow> uuid \<Rightarrow> string \<Rightarrow> string \<Rightarrow> 'd \<Rightarrow> ('d, symbol option) outcome" where
  "pg_get_symbol cx sq rp v key d =
     read_scalar (symbol_from_row cx)
       (sq_select sq code_symbols_table (\<lambda>r. in_revision rp v r \<and> is_str ''identity_key'' key r) None d) d"

definition pg_list_symbols :: "codec \<Rightarrow> 'd sql \<Rightarrow> uuid \<Rightarrow> string \<Rightarrow> 'd \<Rightarrow> ('d, symbol list) outcome" where
  "pg_list_symbols cx sq rp v d =
     read_all (symbol_from_row cx)
       (sq_select sq code_symbols_table (in_revision rp v) (up ''qualified_name'') d) d"

definition pg_list_relations :: "'d sql \<Rightarrow> uuid \<Rightarrow> string \<Rightarrow> 'd \<Rightarrow> ('d, code_relation list) outcome" where
  "pg_list_relations sq rp v d =
     read_all code_relation_from_row (sq_select sq code_relations_table (in_revision rp v) None d) d"

definition pg_find_symbol :: "codec \<Rightarrow> 'd sql \<Rightarrow> uuid \<Rightarrow> string \<Rightarrow> string \<Rightarrow> 'd \<Rightarrow> ('d, symbol list) outcome" where
  "pg_find_symbol cx sq rp v q d =
     read_all (symbol_from_row cx)
       (sq_select sq code_symbols_table (\<lambda>r. in_revision rp v r \<and> is_str ''qualified_name'' q r)
         (up ''qualified_name'') d) d"

definition pg_expire_revision :: "'d sql \<Rightarrow> uuid \<Rightarrow> string \<Rightarrow> 'd \<Rightarrow> ('d, unit) outcome" where
  "pg_expire_revision sq rp v d =
     then_do (sq_delete sq code_relations_table (in_revision rp v) d) (\<lambda>u d1.
     then_do (sq_delete sq code_symbols_table (in_revision rp v) d1) (\<lambda>u.
       sq_delete sq code_files_table (in_revision rp v)))"

subsection \<open>Provider mappings, conflicts, cursors and snapshots\<close>

definition pg_save_mapping :: "'d sql \<Rightarrow> integration_mapping \<Rightarrow> 'd \<Rightarrow> ('d, integration_mapping) outcome" where
  "pg_save_mapping sq x =
     upserted sq work_management_mappings_table [''work_item_id'', ''provider''] (mapping_row x) (mapping_cells x) x"

definition pg_get_mapping :: "'d sql \<Rightarrow> uuid \<Rightarrow> string \<Rightarrow> 'd \<Rightarrow> ('d, integration_mapping option) outcome" where
  "pg_get_mapping sq w p d =
     read_scalar mapping_from_row
       (sq_select sq work_management_mappings_table
         (\<lambda>r. is_uuid ''work_item_id'' w r \<and> is_str ''provider'' p r) None d) d"

definition pg_list_mappings :: "'d sql \<Rightarrow> uuid \<Rightarrow> 'd \<Rightarrow> ('d, integration_mapping list) outcome" where
  "pg_list_mappings sq w d =
     read_all mapping_from_row (sq_select sq work_management_mappings_table (is_uuid ''work_item_id'' w) None d) d"

definition pg_save_conflict :: "'d sql \<Rightarrow> sync_conflict \<Rightarrow> 'd \<Rightarrow> ('d, sync_conflict) outcome" where
  "pg_save_conflict sq x = added sq sync_conflicts_table (conflict_row x) x"

definition pg_list_conflicts :: "'d sql \<Rightarrow> uuid \<Rightarrow> 'd \<Rightarrow> ('d, sync_conflict list) outcome" where
  "pg_list_conflicts sq w d =
     read_all conflict_from_row (sq_select sq sync_conflicts_table (is_uuid ''work_item_id'' w) None d) d"

definition pg_watermark :: "'d sql \<Rightarrow> datetime \<Rightarrow> string \<Rightarrow> string \<Rightarrow> 'd \<Rightarrow> ('d, sync_watermark) outcome" where
  "pg_watermark sq now p k d =
     then_do (read_scalar watermark_from_row
         (sq_select sq provider_sync_watermarks_table
           (\<lambda>r. is_str ''provider'' p r \<and> is_str ''sync_key'' k r) None d) d)
       (\<lambda>found. return_out
         (case found of
            Some x \<Rightarrow> x
          | None \<Rightarrow> \<lparr>wm_provider = p, wm_sync_key = k, wm_last_synced_at = None, wm_last_external_id = None,
                     wm_bootstrap_completed_at = None, wm_updated_at = now\<rparr>))"

definition pg_save_watermark :: "'d sql \<Rightarrow> sync_watermark \<Rightarrow> 'd \<Rightarrow> ('d, sync_watermark) outcome" where
  "pg_save_watermark sq x =
     upserted sq provider_sync_watermarks_table [''provider'', ''sync_key''] (watermark_row x) (watermark_cells x) x"

definition pg_get_bootstrap :: "'d sql \<Rightarrow> uuid \<Rightarrow> string \<Rightarrow> 'd \<Rightarrow> ('d, bootstrap_state option) outcome" where
  "pg_get_bootstrap sq p v d =
     read_scalar bootstrap_state_from_row
       (sq_select sq provider_bootstrap_states_table
         (\<lambda>r. is_uuid ''project_id'' p r \<and> is_str ''provider'' v r) None d) d"

definition pg_save_bootstrap :: "'d sql \<Rightarrow> uuid \<Rightarrow> bootstrap_state \<Rightarrow> 'd \<Rightarrow> ('d, bootstrap_state) outcome" where
  "pg_save_bootstrap sq i x =
     upserted sq provider_bootstrap_states_table [''project_id'', ''provider''] (bootstrap_state_row i x) (bootstrap_state_cells x) x"

text \<open>\<open>_snapshot_from_payload(row.snapshot)\<close>: an empty document is no snapshot.\<close>

definition pg_get_provider_snapshot :: "'d sql \<Rightarrow> string \<Rightarrow> 'd \<Rightarrow> ('d, work_item_snapshot option) outcome" where
  "pg_get_provider_snapshot sq x d =
     then_do (scalar_one (sq_select sq openproject_work_item_snapshots_table (is_str ''external_id'' x) None d) d)
       (\<lambda>found. return_out
         (Option.bind found (\<lambda>r. case col r ''snapshot'' of Col_Json (JDict p) \<Rightarrow> snapshot_from_payload p | _ \<Rightarrow> None)))"

definition pg_save_provider_snapshot :: "'d sql \<Rightarrow> datetime \<Rightarrow> work_item_snapshot \<Rightarrow> 'd \<Rightarrow> ('d, unit) outcome" where
  "pg_save_provider_snapshot sq now x d =
     (case sq_get sq openproject_work_item_snapshots_table [Col_Str (ws_external_id x)] d of
        None \<Rightarrow> sq_insert sq openproject_work_item_snapshots_table (provider_snapshot_row now x) d
      | Some r \<Rightarrow>
          sq_assign sq openproject_work_item_snapshots_table [Col_Str (ws_external_id x)] (provider_snapshot_cells x) d)"

subsection \<open>Checkpoints and approvals\<close>

definition pg_save_checkpoint :: "codec \<Rightarrow> 'd sql \<Rightarrow> uuid \<Rightarrow> workflow_state \<Rightarrow> 'd \<Rightarrow> ('d, workflow_state) outcome" where
  "pg_save_checkpoint cx sq i x =
     upserted sq workflow_checkpoints_table [''workflow_id''] (checkpoint_row cx i x) (checkpoint_cells cx x) x"

definition checkpoint_from_row :: "codec \<Rightarrow> row \<Rightarrow> workflow_state option" where
  "checkpoint_from_row cx r = as_json (workflow_state_parse cx) (col r ''state'')"

definition pg_load_checkpoint :: "codec \<Rightarrow> 'd sql \<Rightarrow> uuid \<Rightarrow> 'd \<Rightarrow> ('d, workflow_state option) outcome" where
  "pg_load_checkpoint cx sq w d =
     read_scalar (checkpoint_from_row cx) (sq_select sq workflow_checkpoints_table (is_uuid ''workflow_id'' w) None d) d"

definition pg_delete_checkpoint :: "'d sql \<Rightarrow> uuid \<Rightarrow> 'd \<Rightarrow> ('d, unit) outcome" where
  "pg_delete_checkpoint sq w = sq_delete sq workflow_checkpoints_table (is_uuid ''workflow_id'' w)"

definition pg_list_checkpoints :: "codec \<Rightarrow> 'd sql \<Rightarrow> 'd \<Rightarrow> ('d, workflow_state list) outcome" where
  "pg_list_checkpoints cx sq d =
     read_all (checkpoint_from_row cx) (sq_select sq workflow_checkpoints_table (\<lambda>r. True) (up ''updated_at'') d) d"

definition pg_save_approval :: "'d sql \<Rightarrow> approval \<Rightarrow> 'd \<Rightarrow> ('d, approval) outcome" where
  "pg_save_approval sq x = upserted sq approvals_table [''id''] (approval_row x) (approval_cells x) x"

definition approvals_repo :: "approval entity_table" where
  "approvals_repo =
     \<lparr>en_table = approvals_table, en_row = approval_row, en_cells = approval_cells,
      en_from = approval_from_row, en_id = ap_id\<rparr>"

definition pg_open_approvals :: "'d sql \<Rightarrow> uuid \<Rightarrow> 'd \<Rightarrow> ('d, approval list) outcome" where
  "pg_open_approvals sq w =
     entity_list sq approvals_repo (\<lambda>r. is_uuid ''work_item_id'' w r \<and> is_str ''decision'' ''pending'' r) None"

definition pg_workflow_approvals :: "'d sql \<Rightarrow> uuid \<Rightarrow> 'd \<Rightarrow> ('d, approval list) outcome" where
  "pg_workflow_approvals sq w =
     entity_list sq approvals_repo (is_uuid ''workflow_id'' w) (up ''requested_at'')"

definition pg_get_approval :: "'d sql \<Rightarrow> uuid \<Rightarrow> 'd \<Rightarrow> ('d, approval option) outcome" where
  "pg_get_approval sq = entity_get sq approvals_repo"

subsection \<open>Failures, the audit trail and observations\<close>

definition pg_save_failure :: "'d sql \<Rightarrow> stored_failure \<Rightarrow> 'd \<Rightarrow> ('d, stored_failure) outcome" where
  "pg_save_failure sq x = added sq command_failures_table (failure_row x) x"

definition pg_failures_of_command :: "'d sql \<Rightarrow> uuid \<Rightarrow> 'd \<Rightarrow> ('d, stored_failure list) outcome" where
  "pg_failures_of_command sq c d =
     read_all failure_from_row
       (sq_select sq command_failures_table (is_uuid ''command_id'' c) (up ''occurred_at'') d) d"

definition pg_recent_failures :: "'d sql \<Rightarrow> nat \<Rightarrow> 'd \<Rightarrow> ('d, stored_failure list) outcome" where
  "pg_recent_failures sq limit d =
     read_all failure_from_row
       (rev (take limit (sq_select sq command_failures_table (\<lambda>r. True) (down ''occurred_at'') d))) d"

definition pg_record_audit :: "'d sql \<Rightarrow> audit_event \<Rightarrow> 'd \<Rightarrow> ('d, audit_event) outcome" where
  "pg_record_audit sq x = added sq audit_events_table (audit_row x) x"

definition pg_list_audit :: "'d sql \<Rightarrow> nat \<Rightarrow> string option \<Rightarrow> 'd \<Rightarrow> ('d, audit_event list) outcome" where
  "pg_list_audit sq limit action d =
     read_all audit_from_row
       (take limit (sq_select sq audit_events_table
         (\<lambda>r. case action of None \<Rightarrow> True | Some a \<Rightarrow> is_str ''action'' a r) (down ''occurred_at'') d)) d"

definition pg_save_observation :: "'d sql \<Rightarrow> observation \<Rightarrow> 'd \<Rightarrow> ('d, observation) outcome" where
  "pg_save_observation sq x =
     upserted sq observations_table [''id''] (observation_row x) (observation_cells x) x"

definition pg_get_observation :: "codec \<Rightarrow> 'd sql \<Rightarrow> uuid \<Rightarrow> 'd \<Rightarrow> ('d, observation option) outcome" where
  "pg_get_observation cx sq k d =
     read_scalar (observation_from_row cx) (sq_select sq observations_table (is_uuid ''id'' k) None d) d"

definition pg_observations_of_project :: "codec \<Rightarrow> 'd sql \<Rightarrow> uuid \<Rightarrow> 'd \<Rightarrow> ('d, observation list) outcome" where
  "pg_observations_of_project cx sq k d =
     read_all (observation_from_row cx)
       (sq_select sq observations_table (is_uuid ''project_id'' k) (down ''created_at'') d) d"

definition pg_observations_of_work_item :: "codec \<Rightarrow> 'd sql \<Rightarrow> uuid \<Rightarrow> 'd \<Rightarrow> ('d, observation list) outcome" where
  "pg_observations_of_work_item cx sq k d =
     read_all (observation_from_row cx)
       (sq_select sq observations_table (is_uuid ''work_item_id'' k) (down ''created_at'') d) d"

definition pg_recent_observations :: "codec \<Rightarrow> 'd sql \<Rightarrow> nat \<Rightarrow> 'd \<Rightarrow> ('d, observation list) outcome" where
  "pg_recent_observations cx sq limit d =
     read_all (observation_from_row cx)
       (rev (take limit (sq_select sq observations_table (\<lambda>r. True) (down ''created_at'') d))) d"

definition pg_find_by_dedup_key :: "codec \<Rightarrow> 'd sql \<Rightarrow> string \<Rightarrow> 'd \<Rightarrow> ('d, observation option) outcome" where
  "pg_find_by_dedup_key cx sq k d =
     read_scalar (observation_from_row cx) (sq_select sq observations_table (is_str ''dedup_key'' k) None d) d"

subsection \<open>Comments, attachments and relations\<close>

definition comments_repo :: "codec \<Rightarrow> comment owner_table" where
  "comments_repo cx =
     \<lparr>en_table = comments_table, en_row = comment_row, en_cells = (\<lambda>x. []),
      en_from = comment_from_row cx, en_id = cm_id, ow_type = ''comment'',
      ow_refs = cm_external_refs\<rparr>"

definition pg_create_comment :: "codec \<Rightarrow> 'd sql \<Rightarrow> (nat \<Rightarrow> uuid) \<Rightarrow> comment \<Rightarrow> 'd \<Rightarrow> ('d, comment) outcome" where
  "pg_create_comment cx sq = owner_create sq (comments_repo cx)"

definition pg_get_comment :: "codec \<Rightarrow> 'd sql \<Rightarrow> uuid \<Rightarrow> 'd \<Rightarrow> ('d, comment option) outcome" where
  "pg_get_comment cx sq = entity_get sq (comments_repo cx)"

definition pg_find_comment :: "codec \<Rightarrow> 'd sql \<Rightarrow> string \<Rightarrow> string \<Rightarrow> string option \<Rightarrow> 'd \<Rightarrow> ('d, comment option) outcome" where
  "pg_find_comment cx sq = owner_find sq (comments_repo cx)"

definition pg_list_comments :: "codec \<Rightarrow> 'd sql \<Rightarrow> uuid \<Rightarrow> 'd \<Rightarrow> ('d, comment list) outcome" where
  "pg_list_comments cx sq w =
     entity_list sq (comments_repo cx) (is_uuid ''work_item_id'' w) (up ''created_at'')"

definition attachments_repo :: "codec \<Rightarrow> attachment owner_table" where
  "attachments_repo cx =
     \<lparr>en_table = attachments_table, en_row = attachment_row, en_cells = (\<lambda>x. []),
      en_from = attachment_from_row cx, en_id = at_id, ow_type = ''attachment'',
      ow_refs = at_external_refs\<rparr>"

definition pg_create_attachment :: "codec \<Rightarrow> 'd sql \<Rightarrow> (nat \<Rightarrow> uuid) \<Rightarrow> attachment \<Rightarrow> 'd \<Rightarrow> ('d, attachment) outcome" where
  "pg_create_attachment cx sq = owner_create sq (attachments_repo cx)"

definition pg_get_attachment :: "codec \<Rightarrow> 'd sql \<Rightarrow> uuid \<Rightarrow> 'd \<Rightarrow> ('d, attachment option) outcome" where
  "pg_get_attachment cx sq = entity_get sq (attachments_repo cx)"

definition pg_find_attachment :: "codec \<Rightarrow> 'd sql \<Rightarrow> string \<Rightarrow> string \<Rightarrow> string option \<Rightarrow> 'd \<Rightarrow> ('d, attachment option) outcome" where
  "pg_find_attachment cx sq = owner_find sq (attachments_repo cx)"

definition pg_list_attachments :: "codec \<Rightarrow> 'd sql \<Rightarrow> uuid \<Rightarrow> 'd \<Rightarrow> ('d, attachment list) outcome" where
  "pg_list_attachments cx sq w =
     entity_list sq (attachments_repo cx) (is_uuid ''work_item_id'' w) (up ''created_at'')"

definition pg_create_relation :: "'d sql \<Rightarrow> work_item_relation \<Rightarrow> 'd \<Rightarrow> ('d, work_item_relation) outcome" where
  "pg_create_relation sq x =
     upserted sq work_item_relations_table [''source_work_item_id'', ''target_work_item_id'', ''relation_type''] (relation_row x) (relation_cells x) x"

definition pg_list_work_item_relations :: "codec \<Rightarrow> 'd sql \<Rightarrow> uuid \<Rightarrow> 'd \<Rightarrow> ('d, work_item_relation list) outcome" where
  "pg_list_work_item_relations cx sq w d =
     read_all (relation_from_row cx)
       (sq_select sq work_item_relations_table
         (\<lambda>r. is_uuid ''source_work_item_id'' w r \<or> is_uuid ''target_work_item_id'' w r) None d) d"

definition pg_delete_relation :: "'d sql \<Rightarrow> uuid \<Rightarrow> 'd \<Rightarrow> ('d, unit) outcome" where
  "pg_delete_relation sq k = sq_delete sq work_item_relations_table (is_uuid ''id'' k)"

end
