(* ===== verification/Persistence.thy ===== *)
theory Persistence
  imports Postgres
begin

text \<open>
  What the repositories of \<open>Postgres\<close> promise, proved from the documented behaviour of the session
  (\<open>sql_laws\<close>) once for every table of entities (the locales \<open>stored_entity\<close>, \<open>updatable_entity\<close> and
  \<open>owner_entity\<close>) and instantiated on the repositories of the adapter. \<open>represents\<close> says that a table
  holds the rows of exactly the entities of a map; the contract of a repository
  (\<open>promised\<close>) is stated on such maps, and both the PostgreSQL repositories and the
  in-memory collections are shown to keep it.
\<close>

subsection \<open>Rows\<close>

lemma columns_distinct: "T \<in> set brain_tables \<Longrightarrow> distinct (map cl_name (tb_columns T))"
proof -
  have "list_all (\<lambda>T. distinct (map cl_name (tb_columns T))) brain_tables" by code_simp
  then show "T \<in> set brain_tables \<Longrightarrow> distinct (map cl_name (tb_columns T))" by (simp add: list_all_iff)
qed

lemma typed_names: "typed T r \<Longrightarrow> map fst r = map cl_name (tb_columns T)"
  unfolding typed_def by (induction rule: list_all2_induct) auto

lemma same_row_names: "same_row r s \<Longrightarrow> map fst r = map fst s"
  unfolding same_row_def by (induction rule: list_all2_induct) auto

lemma same_row_col: "same_row r s \<Longrightarrow> same_value (col r c) (col s c)"
  unfolding same_row_def by (induction rule: list_all2_induct) auto

lemma stored_names [simp]: "map fst (stored_row sq r) = map fst r"
  by (induction r) (auto simp: stored_row_def)

lemma row_set_names [simp]: "map fst (row_set cells r) = map fst r"
  by (induction r) (auto simp: row_set_def)

lemma map_of_row_set:
  "map_of (row_set cells r) k = map_option (\<lambda>v. case map_of cells k of None \<Rightarrow> v | Some w \<Rightarrow> w) (map_of r k)"
  by (induction r) (auto simp: row_set_def split: option.splits)

lemma map_of_stored:
  "map_of (stored_row sq r) k = map_option (\<lambda>v. case v of Col_Json j \<Rightarrow> Col_Json (sq_jsonb sq j) | _ \<Rightarrow> v) (map_of r k)"
  by (induction r) (auto simp: stored_row_def split: column_value.splits)

lemma rows_equal:
  assumes "map fst r = map fst s" "distinct (map fst s)" "\<And>k. map_of r k = map_of s k"
  shows "r = s"
  using assms
proof (induction r arbitrary: s)
  case (Cons kv r)
  then obtain k v w t where kv: "kv = (k, v)" and s: "s = (k, w) # t" by (cases kv; cases s) auto
  have "v = w" using Cons.prems(3) [of k] by (simp add: kv s)
  moreover have "map_of r l = map_of t l" for l
  proof (cases "l = k")
    case True
    have e: "map fst r = map fst t" and "k \<notin> set (map fst t)" using Cons.prems(1,2) by (simp_all add: kv s)
    then have "k \<notin> set (map fst r)" "k \<notin> set (map fst t)" by (simp_all only: e not_False_eq_True)
    then have "map_of r k = None" "map_of t k = None" by (simp_all add: map_of_eq_None_iff)
    then show ?thesis using True by simp
  next
    case False
    then show ?thesis using Cons.prems(3) [of l] by (simp add: kv s)
  qed
  ultimately show ?case using Cons.IH [of t] Cons.prems(1,2) by (simp add: kv s)
qed simp

text \<open>Assigning every column but the identifier turns the row of an entity into the other entity's row.\<close>

lemma map_of_without: "k \<noteq> i \<Longrightarrow> map_of (filter (\<lambda>kv. fst kv \<noteq> i) s) k = map_of s k"
  by (induction s) auto

lemma map_of_dropped: "map_of (filter (\<lambda>kv. fst kv \<noteq> i) s) i = None"
  by (induction s) auto

lemma stored_filter: "stored_row sq (filter (\<lambda>kv. fst kv \<noteq> i) s) = filter (\<lambda>kv. fst kv \<noteq> i) (stored_row sq s)"
  by (induction s) (auto simp: stored_row_def)

lemma row_replaced:
  assumes "map fst r = map fst s" "distinct (map fst s)" "map_of r i = map_of s i"
  shows "row_set (filter (\<lambda>kv. fst kv \<noteq> i) s) r = s"
proof (rule rows_equal)
  fix k
  have "map_of r k = None \<longleftrightarrow> map_of s k = None" using assms(1) by (metis map_of_eq_None_iff list.set_map)
  then show "map_of (row_set (filter (\<lambda>kv. fst kv \<noteq> i) s) r) k = map_of s k"
    using assms(3)
    by (cases "k = i"; cases "map_of r k"; cases "map_of s k")
      (simp_all add: map_of_row_set map_of_without map_of_dropped)
qed (use assms in simp_all)

lemma clash_id:
  assumes "tb_key T = [''id'']" "tb_unique T = []"
  shows "clash T r s \<longleftrightarrow> col r ''id'' = col s ''id''"
  by (simp add: clash_def cols_def assms)

subsection \<open>A table of entities\<close>

definition represents :: "('d \<Rightarrow> string \<Rightarrow> row set) \<Rightarrow> ('e, 'm) entity_table_scheme \<Rightarrow> (uuid \<Rightarrow> 'e option) \<Rightarrow> 'd \<Rightarrow> bool" where
  "represents view en m d \<longleftrightarrow>
     (\<forall>k e. m k = Some e \<longrightarrow> en_id en e = k \<and> (\<exists>r \<in> view d (tb_name (en_table en)). same_row r (en_row en e))) \<and>
     (\<forall>r \<in> view d (tb_name (en_table en)). \<exists>e. m (en_id en e) = Some e \<and> same_row r (en_row en e))"

text \<open>A write of the entity \<open>e\<close> that returned: the table changed at its identifier, no other table did.\<close>

definition written :: "('d \<Rightarrow> string \<Rightarrow> row set) \<Rightarrow> ('d \<Rightarrow> bool) \<Rightarrow> ('e, 'm) entity_table_scheme
    \<Rightarrow> (uuid \<Rightarrow> 'e option) \<Rightarrow> 'd \<Rightarrow> 'd \<Rightarrow> bool" where
  "written view live en m d d' \<longleftrightarrow> live d' \<and> represents view en m d' \<and>
     (\<forall>t. t \<noteq> tb_name (en_table en) \<longrightarrow> view d' t = view d t)"

lemma representsI:
  assumes "\<And>k e. m k = Some e \<Longrightarrow> en_id en e = k"
    and "\<And>k e. m k = Some e \<Longrightarrow> \<exists>r \<in> view d (tb_name (en_table en)). same_row r (en_row en e)"
    and "\<And>r. r \<in> view d (tb_name (en_table en)) \<Longrightarrow> \<exists>e. m (en_id en e) = Some e \<and> same_row r (en_row en e)"
  shows "represents view en m d"
  using assms unfolding represents_def by blast

lemma representsD:
  assumes "represents view en m d"
  shows "m k = Some e \<Longrightarrow> en_id en e = k"
    and "m k = Some e \<Longrightarrow> \<exists>r \<in> view d (tb_name (en_table en)). same_row r (en_row en e)"
    and "r \<in> view d (tb_name (en_table en)) \<Longrightarrow> \<exists>e. m (en_id en e) = Some e \<and> same_row r (en_row en e)"
  using assms unfolding represents_def by blast+

locale keyed_entity =
  fixes en :: "('e, 'm) entity_table_scheme"
  assumes declared: "en_table en \<in> set brain_tables"
    and by_id: "tb_key (en_table en) = [''id'']" "tb_unique (en_table en) = []"
    and row_id: "col (en_row en e) ''id'' = Col_Uuid (en_id en e)"
begin

lemma stored_id: "same_row r (en_row en e) \<Longrightarrow> col r ''id'' = Col_Uuid (en_id en e)"
  using same_row_col [of r "en_row en e" "''id''"] by (simp add: row_id)

lemma row_at:
  assumes "represents view en m d" "r \<in> view d (tb_name (en_table en))" "col r ''id'' = Col_Uuid k"
  obtains e where "m k = Some e" "same_row r (en_row en e)"
  using assms stored_id unfolding represents_def by (metis column_value.inject(1))

lemma no_row_at:
  "\<lbrakk>represents view en m d; m k = None; r \<in> view d (tb_name (en_table en))\<rbrakk> \<Longrightarrow> col r ''id'' \<noteq> Col_Uuid k"
  by (metis row_at option.distinct(1))

lemma session_get:
  assumes "sql_laws (set brain_tables) view live sq" "live d" "represents view en m d"
  shows "m k = None \<Longrightarrow> sq_get sq (en_table en) [Col_Uuid k] d = None"
    and "m k = Some e \<Longrightarrow>
      \<exists>r \<in> view d (tb_name (en_table en)). sq_get sq (en_table en) [Col_Uuid k] d = Some r \<and> same_row r (en_row en e)"
proof -
  note g = sql_get [OF assms(1) declared assms(2)] sql_get_None [OF assms(1) declared assms(2)]
  show "m k = None \<Longrightarrow> sq_get sq (en_table en) [Col_Uuid k] d = None"
    using no_row_at [OF assms(3)] by (simp add: g(2) by_id cols_def)
  assume m: "m k = Some e"
  then obtain r where r: "r \<in> view d (tb_name (en_table en))" "same_row r (en_row en e)" "en_id en e = k"
    using assms(3) unfolding represents_def by blast
  then have "sq_get sq (en_table en) [Col_Uuid k] d = Some r"
    using stored_id [OF r(2)] by (simp add: g(1) by_id cols_def)
  with r show "\<exists>r \<in> view d (tb_name (en_table en)).
      sq_get sq (en_table en) [Col_Uuid k] d = Some r \<and> same_row r (en_row en e)" by blast
qed

lemma represents_insert:
  assumes "represents view en m d" "m (en_id en e) = None" "same_row s (en_row en e)"
    and "view d' = (view d)(tb_name (en_table en) := insert s (view d (tb_name (en_table en))))"
  shows "represents view en (m(en_id en e \<mapsto> e)) d'"
proof -
  note v = assms(4) and old = representsD [OF assms(1)]
  show ?thesis
  proof (rule representsI)
    show "en_id en x = k" if "(m(en_id en e \<mapsto> e)) k = Some x" for k x
      using that old(1) by (auto split: if_splits)
    show "\<exists>r \<in> view d' (tb_name (en_table en)). same_row r (en_row en x)"
      if "(m(en_id en e \<mapsto> e)) k = Some x" for k x
    proof (cases "k = en_id en e")
      case True
      then show ?thesis using that assms(3) by (simp add: v)
    next
      case False
      then show ?thesis using that old(2) [of k x] by (simp add: v)
    qed
    show "\<exists>x. (m(en_id en e \<mapsto> e)) (en_id en x) = Some x \<and> same_row r (en_row en x)"
      if "r \<in> view d' (tb_name (en_table en))" for r
    proof (cases "r = s")
      case True
      then show ?thesis using assms(3) by (intro exI [of _ e]) simp
    next
      case False
      then have "r \<in> view d (tb_name (en_table en))" using that by (simp add: v)
      from old(3) [OF this] obtain x where "m (en_id en x) = Some x" "same_row r (en_row en x)" by blast
      moreover from this assms(2) have "en_id en x \<noteq> en_id en e" by auto
      ultimately show ?thesis by (intro exI [of _ x]) simp
    qed
  qed
qed

text \<open>A second row with the identifier is a duplicate key, whatever else it holds.\<close>

lemma duplicate_raises:
  assumes "sql_laws (set brain_tables) view live sq" "live d" "represents view en m d" "m (en_id en e) = Some e0"
  obtains x d' where "sq_insert sq (en_table en) (en_row en e) d = (Inl x, d')"
proof -
  obtain r where r: "r \<in> view d (tb_name (en_table en))" "same_row r (en_row en e0)" "en_id en e0 = en_id en e"
    using assms(3,4) unfolding represents_def by blast
  then have "\<not> admits (en_table en) (view d (tb_name (en_table en))) (en_row en e)"
    using r(1) stored_id [OF r(2)] by (auto simp: admits_def clash_id [OF by_id] row_id r(3) intro!: bexI [of _ r])
  then show ?thesis using write_law_raises [OF sql_insert [OF assms(1) declared assms(2)]] that by blast
qed

lemma create_existing_raises:
  assumes "sql_laws (set brain_tables) view live sq" "live d" "represents view en m d" "m (en_id en e) = Some e0"
  shows "\<exists>x d'. entity_create sq en e d = (Inl x, d')"
  using duplicate_raises [OF assms] by (metis entity_create_def added_def then_do_simps(1))

lemma represents_delete:
  assumes "represents view en m d"
    and "view d' = (view d)(tb_name (en_table en) :=
           {r \<in> view d (tb_name (en_table en)). col r ''id'' \<noteq> Col_Uuid k})"
  shows "represents view en (m(k := None)) d'"
proof -
  note v = assms(2) and old = representsD [OF assms(1)]
  show ?thesis
  proof (rule representsI)
    show "en_id en x = l" if "(m(k := None)) l = Some x" for l x
      using that old(1) by (auto split: if_splits)
    show "\<exists>r \<in> view d' (tb_name (en_table en)). same_row r (en_row en x)" if "(m(k := None)) l = Some x" for l x
    proof -
      from that have l: "l \<noteq> k" "m l = Some x" by (auto split: if_splits)
      obtain r where r: "r \<in> view d (tb_name (en_table en))" "same_row r (en_row en x)" using old(2) [OF l(2)] ..
      then show ?thesis using stored_id [OF r(2)] old(1) [OF l(2)] l(1) by (auto simp: v)
    qed
    show "\<exists>x. (m(k := None)) (en_id en x) = Some x \<and> same_row r (en_row en x)"
      if "r \<in> view d' (tb_name (en_table en))" for r
    proof -
      from that have r: "r \<in> view d (tb_name (en_table en))" "col r ''id'' \<noteq> Col_Uuid k" by (simp_all add: v)
      obtain x where "m (en_id en x) = Some x" "same_row r (en_row en x)" using old(3) [OF r(1)] by blast
      with r(2) stored_id show ?thesis by (intro exI [of _ x]) auto
    qed
  qed
qed

lemma row_deleted_returns:
  assumes "sql_laws (set brain_tables) view live sq" "live d" "represents view en m d"
  obtains d' where "row_deleted sq (en_table en) k d = (Inr (), d')" "written view live en (m(k := None)) d d'"
proof -
  obtain d' where d': "row_deleted sq (en_table en) k d = (Inr (), d')" "live d'"
    "view d' = (view d)(tb_name (en_table en) := {r \<in> view d (tb_name (en_table en)). col r ''id'' \<noteq> Col_Uuid k})"
    using sql_delete [OF assms(1) declared assms(2)] by (auto simp: row_deleted_def by_id cols_def)
  then show ?thesis using that represents_delete [OF assms(3) d'(3)] by (simp add: written_def)
qed

lemma delete_returns:
  assumes "sql_laws (set brain_tables) view live sq" "live d" "represents view en m d"
  shows "\<exists>d'. entity_delete sq en k d = (Inr (), d') \<and> written view live en (m(k := None)) d d'"
proof (cases "m k")
  case None
  then have "m(k := None) = m" by auto
  then show ?thesis
    using session_get(1) [OF assms None] assms(2,3) by (simp add: entity_delete_def written_def)
next
  case (Some e)
  obtain d' where "row_deleted sq (en_table en) k d = (Inr (), d')" "written view live en (m(k := None)) d d'"
    using row_deleted_returns [OF assms] .
  with session_get(2) [OF assms Some] show ?thesis by (auto simp: entity_delete_def)
qed

end

text \<open>An entity whose every row is one its table takes, and is read back.\<close>

locale stored_entity = keyed_entity en for en :: "('e, 'm) entity_table_scheme" +
  fixes ok :: bool
  assumes typed_row: "typed (en_table en) (en_row en e)"
    and reads_back: "\<lbrakk>ok; same_row r (en_row en e)\<rbrakk> \<Longrightarrow> en_from en r = Some e"
begin

lemma get_returns:
  assumes "sql_laws (set brain_tables) view live sq" "live d" "represents view en m d" "ok"
  shows "entity_get sq en k d = (Inr (m k), d)"
proof (cases "m k")
  case None
  then show ?thesis using session_get(1) [OF assms(1-3)] by (simp add: entity_get_def read_one_def)
next
  case (Some e)
  then show ?thesis
    using session_get(2) [OF assms(1-3) Some] reads_back [OF assms(4)] by (auto simp: entity_get_def read_one_def)
qed

lemma insert_returns:
  assumes "sql_laws (set brain_tables) view live sq" "live d" "represents view en m d"
    and "m (en_id en e) = None" "storable (en_table en) (en_row en e)"
  obtains d' where "sq_insert sq (en_table en) (en_row en e) d = (Inr (), d')"
    "written view live en (m(en_id en e \<mapsto> e)) d d'"
proof -
  have "col (en_row en e) ''id'' \<noteq> col r ''id''" if "r \<in> view d (tb_name (en_table en))" for r
    using no_row_at [OF assms(3,4) that] by (simp add: row_id eq_commute)
  then have "admits (en_table en) (view d (tb_name (en_table en))) (en_row en e)"
    by (simp add: admits_def typed_row assms(5) clash_id [OF by_id])
  then obtain d' where d': "sq_insert sq (en_table en) (en_row en e) d = (Inr (), d')" "live d'"
    "view d' = (view d)(tb_name (en_table en) := insert (stored_row sq (en_row en e)) (view d (tb_name (en_table en))))"
    using write_lawE [OF sql_insert [OF assms(1) declared assms(2)]] by blast
  then have "written view live en (m(en_id en e \<mapsto> e)) d d'"
    using represents_insert [OF assms(3,4) same_stored [OF assms(1)] d'(3)] by (simp add: written_def)
  with d'(1) show ?thesis using that by blast
qed

lemma create_returns:
  assumes "sql_laws (set brain_tables) view live sq" "live d" "represents view en m d"
    and "m (en_id en e) = None" "storable (en_table en) (en_row en e)"
  obtains d' where "entity_create sq en e d = (Inr e, d')" "written view live en (m(en_id en e \<mapsto> e)) d d'"
  using insert_returns [OF assms] by (metis entity_create_def added_def then_do_simps(2) return_out_def)

lemma list_returns:
  assumes "sql_laws (set brain_tables) view live sq" "live d" "represents view en m d" "ok"
    and same: "\<And>e r. same_row r (en_row en e) \<Longrightarrow> P r = Q e"
  shows "\<exists>es. entity_list sq en P ord d = (Inr es, d) \<and> distinct es \<and> set es = {e. m (en_id en e) = Some e \<and> Q e}"
proof -
  note s = sql_select [OF assms(1) declared assms(2), where P = P and ord = ord]
  let ?rs = "sq_select sq (en_table en) P ord d"
  have in_view: "r \<in> view d (tb_name (en_table en)) \<and> P r" if "r \<in> set ?rs" for r using that s(1) by blast
  have "\<exists>e. m (en_id en e) = Some e \<and> same_row r (en_row en e)" if "r \<in> set ?rs" for r
    using in_view [OF that] assms(3) unfolding represents_def by blast
  then obtain f where f: "\<And>r. r \<in> set ?rs \<Longrightarrow> m (en_id en (f r)) = Some (f r) \<and> same_row r (en_row en (f r))" by metis
  have "those (map (en_from en) ?rs) = Some (map f ?rs)"
    by (rule those_map) (use f reads_back [OF assms(4)] in blast)
  then have "entity_list sq en P ord d = (Inr (map f ?rs), d)" by (simp add: entity_list_def read_all_def)
  moreover have "inj_on f (set ?rs)"
  proof (rule inj_onI)
    fix r r' assume r: "r \<in> set ?rs" "r' \<in> set ?rs" "f r = f r'"
    then have "col r ''id'' = col r' ''id''" using f stored_id by metis
    then show "r = r'"
      using sql_key [OF assms(1) declared assms(2), of r r'] in_view r by (simp add: clash_id [OF by_id])
  qed
  moreover have "set (map f ?rs) = {e. m (en_id en e) = Some e \<and> Q e}"
  proof safe
    fix e assume "e \<in> set (map f ?rs)"
    then show "m (en_id en e) = Some e" "Q e" using f in_view same by auto
  next
    fix e assume e: "m (en_id en e) = Some e" "Q e"
    then obtain r where r: "r \<in> view d (tb_name (en_table en))" "same_row r (en_row en e)"
      using assms(3) unfolding represents_def by blast
    with e(2) same s(1) have "r \<in> set ?rs" by blast
    moreover have "f r = e"
      using f [OF \<open>r \<in> set ?rs\<close>] reads_back [OF assms(4) r(2)] reads_back [OF assms(4)] by (metis option.inject)
    ultimately show "e \<in> set (map f ?rs)" by force
  qed
  ultimately show ?thesis using s(2) by (metis distinct_map)
qed

end

text \<open>An entity whose \<open>update\<close> assigns every column but the identifier.\<close>

locale updatable_entity = stored_entity +
  assumes assigned: "en_cells en e = filter (\<lambda>kv. fst kv \<noteq> ''id'') (en_row en e)"
begin

lemma id_cell: "same_row r (en_row en e) \<Longrightarrow> map_of r ''id'' = Some (Col_Uuid (en_id en e))"
  using stored_id [of r e] by (auto simp: col_def split: option.splits)

lemma row_assigned:
  assumes "same_row r (en_row en e0)" "en_id en e0 = en_id en e" "same_row s (en_row en e)"
  shows "row_set (filter (\<lambda>kv. fst kv \<noteq> ''id'') s) r = s"
proof (rule row_replaced)
  have names: "map fst (en_row en x) = map cl_name (tb_columns (en_table en))" for x
    by (rule typed_names [OF typed_row])
  show "map fst r = map fst s"
    using same_row_names [OF assms(1)] same_row_names [OF assms(3)] by (simp add: names)
  show "distinct (map fst s)" using same_row_names [OF assms(3)] columns_distinct [OF declared] by (simp add: names)
  show "map_of r ''id'' = map_of s ''id''" using id_cell [OF assms(1)] id_cell [OF assms(3)] by (simp add: assms(2))
qed

lemma represents_replace:
  assumes "represents view en m d" "m (en_id en e) = Some e0" "same_row s (en_row en e)"
    and r: "r \<in> view d (tb_name (en_table en))" "same_row r (en_row en e0)" "en_id en e0 = en_id en e"
    and "view d' = (view d)(tb_name (en_table en) := insert s (view d (tb_name (en_table en)) - {r}))"
    and only: "\<And>q. \<lbrakk>q \<in> view d (tb_name (en_table en)); col q ''id'' = col r ''id''\<rbrakk> \<Longrightarrow> q = r"
  shows "represents view en (m(en_id en e \<mapsto> e)) d'"
proof -
  note v = assms(7) and old = representsD [OF assms(1)]
  show ?thesis
  proof (rule representsI)
    show "en_id en x = k" if "(m(en_id en e \<mapsto> e)) k = Some x" for k x
      using that old(1) by (auto split: if_splits)
    show "\<exists>r \<in> view d' (tb_name (en_table en)). same_row r (en_row en x)"
      if "(m(en_id en e \<mapsto> e)) k = Some x" for k x
    proof (cases "k = en_id en e")
      case True
      then show ?thesis using that assms(3) by (simp add: v)
    next
      case False
      with that have x: "m k = Some x" by simp
      obtain q where q: "q \<in> view d (tb_name (en_table en))" "same_row q (en_row en x)" using old(2) [OF x] ..
      have "q \<noteq> r" using stored_id [OF q(2)] stored_id [OF r(2)] old(1) [OF x] False r(3) by auto
      then show ?thesis using q by (auto simp: v)
    qed
    show "\<exists>x. (m(en_id en e \<mapsto> e)) (en_id en x) = Some x \<and> same_row q (en_row en x)"
      if "q \<in> view d' (tb_name (en_table en))" for q
    proof (cases "q = s")
      case True
      then show ?thesis using assms(3) by (intro exI [of _ e]) simp
    next
      case False
      then have q: "q \<in> view d (tb_name (en_table en))" "q \<noteq> r" using that by (simp_all add: v)
      from old(3) [OF q(1)] obtain x where x: "m (en_id en x) = Some x" "same_row q (en_row en x)" by blast
      have "en_id en x \<noteq> en_id en e"
        using only [OF q(1)] q(2) stored_id [OF x(2)] stored_id [OF r(2)] r(3) by auto
      then show ?thesis using x by (intro exI [of _ x]) simp
    qed
  qed
qed

lemma update_returns:
  assumes laws: "sql_laws (set brain_tables) view live sq" "live d" "represents view en m d"
    and storable: "storable (en_table en) (en_row en e)"
  obtains d' where "entity_update sq en e d = (Inr e, d')" "written view live en (m(en_id en e \<mapsto> e)) d d'"
proof (cases "m (en_id en e)")
  case None
  obtain d' where "entity_create sq en e d = (Inr e, d')" "written view live en (m(en_id en e \<mapsto> e)) d d'"
    using create_returns [OF laws None storable] .
  then show ?thesis using session_get(1) [OF laws None] that by (simp add: entity_update_def)
next
  case (Some e0)
  from representsD [OF laws(3)] Some have e0: "en_id en e0 = en_id en e" by blast
  obtain r where r: "r \<in> view d (tb_name (en_table en))" "same_row r (en_row en e0)"
      "sq_get sq (en_table en) [Col_Uuid (en_id en e)] d = Some r"
    using session_get(2) [OF laws Some] by blast
  have key: "cols (tb_key (en_table en)) r = [Col_Uuid (en_id en e)]"
    using stored_id [OF r(2)] e0 by (simp add: by_id cols_def)
  have only: "q = r" if "q \<in> view d (tb_name (en_table en))" "col q ''id'' = col r ''id''" for q
    using sql_key [OF laws(1) declared laws(2) that(1) r(1)] that(2) by (simp add: clash_id [OF by_id])
  have row: "row_set (en_cells en e) r = en_row en e"
    using row_assigned [OF r(2) e0 same_row_refl] by (simp add: assigned)
  have kept: "row_set (stored_row sq (en_cells en e)) r = stored_row sq (en_row en e)"
    using row_assigned [OF r(2) e0 same_stored [OF laws(1)]] by (simp add: assigned stored_filter)
  have "\<not> clash (en_table en) (en_row en e) q" if "q \<in> view d (tb_name (en_table en)) - {r}" for q
    using only [of q] that stored_id [OF r(2)] e0 by (auto simp: clash_id [OF by_id] row_id)
  then have "admits (en_table en) (view d (tb_name (en_table en)) - {r}) (en_row en e)"
    by (simp add: admits_def typed_row storable)
  from write_lawE [OF sql_assign [OF laws(1) declared laws(2) r(1) key, where cells = "en_cells en e", unfolded row kept] this]
  obtain d' where d': "sq_assign sq (en_table en) [Col_Uuid (en_id en e)] (en_cells en e) d = (Inr (), d')" "live d'"
    "view d' = (view d)(tb_name (en_table en) := insert (stored_row sq (en_row en e)) (view d (tb_name (en_table en)) - {r}))" .
  have "represents view en (m(en_id en e \<mapsto> e)) d'"
    by (rule represents_replace [OF laws(3) Some same_stored [OF laws(1)] r(1,2) e0 d'(3) only])
  then have "written view live en (m(en_id en e \<mapsto> e)) d d'" using d'(2,3) by (simp add: written_def)
  then show ?thesis using that r(3) d'(1) by (simp add: entity_update_def return_out_def)
qed

end

subsection \<open>The repositories of the adapter\<close>

lemma declared_tables:
  "projects_table \<in> set brain_tables" "repositories_table \<in> set brain_tables" "actors_table \<in> set brain_tables"
  "work_items_table \<in> set brain_tables" "requirements_table \<in> set brain_tables"
  "documents_table \<in> set brain_tables" "document_versions_table \<in> set brain_tables"
  "document_nodes_table \<in> set brain_tables" "decisions_table \<in> set brain_tables"
  "executions_table \<in> set brain_tables" "artifacts_table \<in> set brain_tables" "evidence_table \<in> set brain_tables"
  "comments_table \<in> set brain_tables" "external_references_table \<in> set brain_tables"
  "verification_results_table \<in> set brain_tables"
  by (simp_all add: brain_tables_def)

lemma keyed_by_id:
  "tb_key projects_table = [''id'']" "tb_unique projects_table = []"
  "tb_key repositories_table = [''id'']" "tb_unique repositories_table = []"
  "tb_key actors_table = [''id'']" "tb_unique actors_table = []"
  "tb_key work_items_table = [''id'']" "tb_unique work_items_table = []"
  "tb_key requirements_table = [''id'']" "tb_unique requirements_table = []"
  "tb_key documents_table = [''id'']" "tb_unique documents_table = []"
  "tb_key decisions_table = [''id'']" "tb_unique decisions_table = []"
  "tb_key executions_table = [''id'']" "tb_unique executions_table = []"
  "tb_key document_versions_table = [''id'']" "tb_unique document_versions_table = []"
  "tb_key document_nodes_table = [''id'']" "tb_unique document_nodes_table = []"
  "tb_key artifacts_table = [''id'']" "tb_unique artifacts_table = []"
  "tb_key comments_table = [''id'']" "tb_unique comments_table = []"
  by (simp_all add: projects_table_def repositories_table_def actors_table_def work_items_table_def requirements_table_def documents_table_def decisions_table_def executions_table_def document_versions_table_def document_nodes_table_def artifacts_table_def comments_table_def)

lemma row_ids:
  "col (project_row x) ''id'' = Col_Uuid (pj_id x)"
  "col (repository_row y) ''id'' = Col_Uuid (rp_id y)"
  "col (actor_row z) ''id'' = Col_Uuid (ac_id z)"
  "col (work_item_row cx u) ''id'' = Col_Uuid (wi_id u)"
  "col (requirement_row cx v) ''id'' = Col_Uuid (rm_id v)"
  "col (document_row cx w) ''id'' = Col_Uuid (dc_id w)"
  "col (decision_row cx a) ''id'' = Col_Uuid (de_id a)"
  "col (execution_row b) ''id'' = Col_Uuid (ex_id b)"
  "col (document_version_row p) ''id'' = Col_Uuid (dv_id p)"
  "col (document_node_row q) ''id'' = Col_Uuid (dn_id q)"
  "col (artifact_row s) ''id'' = Col_Uuid (ar_id s)"
  "col (comment_row t) ''id'' = Col_Uuid (cm_id t)"
  by (simp_all add: col_def project_row_def repository_row_def actor_row_def work_item_row_def requirement_row_def document_row_def decision_row_def execution_row_def document_version_row_def document_node_row_def artifact_row_def comment_row_def)

lemma assigned_cells:
  "project_cells x = filter (\<lambda>kv. fst kv \<noteq> ''id'') (project_row x)"
  "repository_cells y = filter (\<lambda>kv. fst kv \<noteq> ''id'') (repository_row y)"
  "actor_cells z = filter (\<lambda>kv. fst kv \<noteq> ''id'') (actor_row z)"
  "work_item_cells cx u = filter (\<lambda>kv. fst kv \<noteq> ''id'') (work_item_row cx u)"
  "requirement_cells cx v = filter (\<lambda>kv. fst kv \<noteq> ''id'') (requirement_row cx v)"
  "document_cells cx w = filter (\<lambda>kv. fst kv \<noteq> ''id'') (document_row cx w)"
  "decision_cells cx a = filter (\<lambda>kv. fst kv \<noteq> ''id'') (decision_row cx a)"
  "execution_cells b = filter (\<lambda>kv. fst kv \<noteq> ''id'') (execution_row b)"
  by (simp_all add: project_row_def project_cells_def repository_row_def repository_cells_def actor_row_def actor_cells_def work_item_row_def work_item_cells_def requirement_row_def requirement_cells_def document_row_def document_cells_def decision_row_def decision_cells_def execution_row_def execution_cells_def)

lemmas repository_facts = declared_tables keyed_by_id row_ids assigned_cells

interpretation projects: updatable_entity "projects_repo cx" "codec_ok cx" for cx
  by unfold_locales (simp_all add: projects_repo_def repository_facts project_back)

interpretation repositories: updatable_entity "repositories_repo cx" "codec_ok cx" for cx
  by unfold_locales (simp_all add: repositories_repo_def repository_facts repository_back)

interpretation actors: updatable_entity "actors_repo cx" "codec_ok cx" for cx
  by unfold_locales (simp_all add: actors_repo_def repository_facts actor_back)

interpretation work_items: updatable_entity "work_items_repo cx" "codec_ok cx" for cx
  by unfold_locales (simp_all add: work_items_repo_def repository_facts work_item_back)

interpretation requirements: updatable_entity "requirements_repo cx" "codec_ok cx" for cx
  by unfold_locales (simp_all add: requirements_repo_def repository_facts requirement_back)

interpretation documents: updatable_entity "documents_repo cx" "codec_ok cx" for cx
  by unfold_locales (simp_all add: documents_repo_def repository_facts document_back)

interpretation decisions: updatable_entity "decisions_repo cx" "codec_ok cx" for cx
  by unfold_locales (simp_all add: decisions_repo_def repository_facts decision_back)

interpretation executions: updatable_entity executions_repo True
  by unfold_locales (simp_all add: executions_repo_def repository_facts execution_back)

interpretation versions: stored_entity versions_repo True
  by unfold_locales (simp_all add: versions_repo_def repository_facts document_version_back)

interpretation nodes: stored_entity "nodes_repo cx" "codec_ok cx" for cx
  by unfold_locales (simp_all add: nodes_repo_def repository_facts document_node_back)

interpretation artifacts: stored_entity artifacts_repo True
  by unfold_locales (simp_all add: artifacts_repo_def repository_facts artifact_back)

interpretation comments: stored_entity "comments_repo cx" "codec_ok cx" for cx
  by unfold_locales (simp_all add: comments_repo_def repository_facts comment_back)

interpretation evidence: keyed_entity evidence_repo
  by unfold_locales
    (simp_all add: evidence_repo_def brain_tables_def evidence_table_def evidence_row_def col_def)

interpretation attachments: keyed_entity "attachments_repo cx" for cx
  by unfold_locales
    (simp_all add: attachments_repo_def brain_tables_def attachments_table_def attachment_row_def col_def)

interpretation runs: keyed_entity "runs_repo cx" for cx
  by unfold_locales
    (simp_all add: runs_repo_def brain_tables_def verification_runs_table_def run_row_def col_def)

interpretation approvals: keyed_entity approvals_repo
  by unfold_locales
    (simp_all add: approvals_repo_def brain_tables_def approvals_table_def approval_row_def col_def)

end
