(* ===== verification/Stored_Checkpoints.thy ===== *)
theory Stored_Checkpoints
  imports Persistence
begin

text \<open>
  The workflow checkpoints of the PostgreSQL adapter: a saved state is what the next load of its
  workflow returns, whatever identifier is drawn for its row and whether or not there was a row,
  and no other workflow's checkpoint changes. This is what \<open>Workflow_Engine\<close> assumes of its store.
\<close>

subsection \<open>The rows of the checkpoints\<close>

text \<open>The rows of a unique column: at most one is selected.\<close>

lemma at_most_one:
  assumes "distinct xs" "\<And>x y. \<lbrakk>x \<in> set xs; y \<in> set xs\<rbrakk> \<Longrightarrow> x = y"
  shows "xs = [] \<or> (\<exists>x. xs = [x])"
proof (cases xs)
  case (Cons x ys)
  then show ?thesis using assms(1) assms(2) [of x] by (cases ys) auto
qed simp

abbreviation checkpoint_rows :: "('d \<Rightarrow> string \<Rightarrow> row set) \<Rightarrow> 'd \<Rightarrow> row set" where
  "checkpoint_rows view d \<equiv> view d (tb_name workflow_checkpoints_table)"

lemma checkpoints_declared: "workflow_checkpoints_table \<in> set brain_tables"
  by (simp add: brain_tables_def)

lemma clash_checkpoint:
  "clash workflow_checkpoints_table r s \<longleftrightarrow> col r ''id'' = col s ''id'' \<or>
     col r ''workflow_id'' = col s ''workflow_id'' \<and> col r ''workflow_id'' \<noteq> Col_Null"
  by (auto simp: clash_def cols_def workflow_checkpoints_table_def)

text \<open>What \<open>load_checkpoint\<close> answers is decided by the row with the workflow's id.\<close>

lemma load_returns:
  assumes "sql_laws (set brain_tables) view live sq" "live d"
  shows "\<lbrakk>r \<in> checkpoint_rows view d; col r ''workflow_id'' = Col_Uuid w\<rbrakk> \<Longrightarrow>
      pg_load_checkpoint cx sq w d = read_one (checkpoint_from_row cx) (Some r) d"
    and "(\<And>r. r \<in> checkpoint_rows view d \<Longrightarrow> col r ''workflow_id'' \<noteq> Col_Uuid w) \<Longrightarrow>
      pg_load_checkpoint cx sq w d = (Inr None, d)"
proof -
  note s = sql_select [OF assms(1) checkpoints_declared assms(2), where P = "is_uuid ''workflow_id'' w" and ord = None]
  have "p = q" if "p \<in> set (sq_select sq workflow_checkpoints_table (is_uuid ''workflow_id'' w) None d)"
    "q \<in> set (sq_select sq workflow_checkpoints_table (is_uuid ''workflow_id'' w) None d)" for p q
    using that sql_key [OF assms(1) checkpoints_declared assms(2), of p q]
    by (simp add: s(1) is_uuid_def clash_checkpoint)
  then have one: "sq_select sq workflow_checkpoints_table (is_uuid ''workflow_id'' w) None d = [] \<or>
      (\<exists>q. sq_select sq workflow_checkpoints_table (is_uuid ''workflow_id'' w) None d = [q])"
    by (rule at_most_one [OF s(2)])
  {
    assume r: "r \<in> checkpoint_rows view d" "col r ''workflow_id'' = Col_Uuid w"
    then have "r \<in> set (sq_select sq workflow_checkpoints_table (is_uuid ''workflow_id'' w) None d)"
      by (simp add: s(1) is_uuid_def)
    then have "sq_select sq workflow_checkpoints_table (is_uuid ''workflow_id'' w) None d = [r]"
      using one by auto
    then show "pg_load_checkpoint cx sq w d = read_one (checkpoint_from_row cx) (Some r) d"
      by (simp add: pg_load_checkpoint_def read_scalar_def scalar_one_def)
  next
    assume none: "\<And>r. r \<in> checkpoint_rows view d \<Longrightarrow> col r ''workflow_id'' \<noteq> Col_Uuid w"
    have "set (sq_select sq workflow_checkpoints_table (is_uuid ''workflow_id'' w) None d) = {}"
      unfolding s(1) using none by (simp add: is_uuid_def)
    then have "sq_select sq workflow_checkpoints_table (is_uuid ''workflow_id'' w) None d = []" by simp
    then show "pg_load_checkpoint cx sq w d = (Inr None, d)"
      by (simp add: pg_load_checkpoint_def read_scalar_def scalar_one_def read_one_def)
  }
qed

lemma checkpoint_cols [simp]:
  "col (checkpoint_row cx i x) ''id'' = Col_Uuid i" "col (checkpoint_row cx i x) ''workflow_id'' = Col_Uuid (wf_id x)"
  by (simp_all add: checkpoint_row_def col_def)

lemma storable_checkpoint_id:
  "storable workflow_checkpoints_table (checkpoint_row cx i x) \<longleftrightarrow>
   storable workflow_checkpoints_table (checkpoint_row cx j x)"
  by (simp add: storable_def checkpoint_row_def workflow_checkpoints_table_def not_null_def)

text \<open>Saving writes one row: that of the workflow, new or in the place of the one before.\<close>

lemma save_checkpoint_returns:
  assumes "sql_laws (set brain_tables) view live sq" "live d"
    and "storable workflow_checkpoints_table (checkpoint_row cx i x)"
    and "\<And>r. r \<in> checkpoint_rows view d \<Longrightarrow> col r ''id'' \<noteq> Col_Uuid i"
  obtains s d' where "pg_save_checkpoint cx sq i x d = (Inr x, d')" "live d'"
    "view d' = (view d)(tb_name workflow_checkpoints_table :=
       insert s {r \<in> checkpoint_rows view d. col r ''workflow_id'' \<noteq> Col_Uuid (wf_id x)})"
    "\<exists>j. same_row s (checkpoint_row cx j x)"
proof -
  let ?T = workflow_checkpoints_table
  let ?cells = "checkpoint_cells cx x"
  have key: "[''workflow_id''] = tb_key ?T \<or> [''workflow_id''] \<in> set (tb_unique ?T)"
    by (simp add: workflow_checkpoints_table_def)
  have null: "Col_Null \<notin> set (cols [''workflow_id''] (checkpoint_row cx i x))" by (simp add: cols_def)
  note up = sql_upsert [OF assms(1) checkpoints_declared assms(2) key null, where cells = ?cells]
  note unique = sql_key [OF assms(1) checkpoints_declared assms(2)]
  show ?thesis
  proof (cases "\<exists>r0 \<in> checkpoint_rows view d. col r0 ''workflow_id'' = Col_Uuid (wf_id x)")
    case True
    then obtain r0 where r0: "r0 \<in> checkpoint_rows view d" "col r0 ''workflow_id'' = Col_Uuid (wf_id x)" ..
    have "typed ?T r0" "storable ?T r0" using sql_typed [OF assms(1) checkpoints_declared assms(2) r0(1)] .
    then obtain j st t where shape: "r0 = [(''id'', Col_Uuid j), (''workflow_id'', Col_Uuid (wf_id x)),
        (''state'', Col_Json st), (''updated_at'', Col_Time t)]"
      using r0(2) by (auto simp: typed_def workflow_checkpoints_table_def not_null_def list_all2_Cons2 col_def
        elim!: has_type.elims)
    have new: "row_set ?cells r0 = checkpoint_row cx j x"
      by (simp add: shape row_set_def checkpoint_cells_def checkpoint_row_def)
    have kept: "row_set (stored_row sq ?cells) r0 = stored_row sq (checkpoint_row cx j x)"
      by (simp add: shape row_set_def checkpoint_cells_def checkpoint_row_def)
    have only: "r = r0" if "r \<in> checkpoint_rows view d" "col r ''workflow_id'' = Col_Uuid (wf_id x) \<or> col r ''id'' = Col_Uuid j" for r
      using unique [OF that(1) r0(1)] that(2) by (auto simp: clash_checkpoint r0(2)) (auto simp: shape col_def)
    have "admits ?T (checkpoint_rows view d - {r0}) (checkpoint_row cx j x)"
      using assms(3) only by (auto simp: admits_def clash_checkpoint storable_checkpoint_id [of cx j x i])
    from write_lawE [OF up(1) [OF r0(1), unfolded new kept] this]
    obtain d' where d': "sq_upsert sq ?T [''workflow_id''] (checkpoint_row cx i x) ?cells d = (Inr (), d')" "live d'"
      "view d' = (view d)(tb_name ?T := insert (stored_row sq (checkpoint_row cx j x)) (checkpoint_rows view d - {r0}))"
      using r0(2) by (auto simp: cols_def)
    have "checkpoint_rows view d - {r0} = {r \<in> checkpoint_rows view d. col r ''workflow_id'' \<noteq> Col_Uuid (wf_id x)}"
      using only r0(2) by auto
    with d' show ?thesis
      by (intro that [of d' "stored_row sq (checkpoint_row cx j x)"] exI [of _ j] same_stored [OF assms(1)])
        (simp_all add: pg_save_checkpoint_def upserted_def return_out_def)
  next
    case False
    have "\<not> clash ?T (checkpoint_row cx i x) r" if "r \<in> checkpoint_rows view d" for r
      using assms(4) [OF that] False that by (simp add: clash_checkpoint) metis
    then have "admits ?T (checkpoint_rows view d) (checkpoint_row cx i x)"
      using assms(3) by (simp add: admits_def)
    moreover have "cols [''workflow_id''] r0 \<noteq> cols [''workflow_id''] (checkpoint_row cx i x)"
      if "r0 \<in> checkpoint_rows view d" for r0
      using False that by (auto simp: cols_def)
    ultimately obtain d' where d': "sq_upsert sq ?T [''workflow_id''] (checkpoint_row cx i x) ?cells d = (Inr (), d')" "live d'"
      "view d' = (view d)(tb_name ?T := insert (stored_row sq (checkpoint_row cx i x)) (checkpoint_rows view d))"
      using write_lawE [OF up(2)] by blast
    have "checkpoint_rows view d = {r \<in> checkpoint_rows view d. col r ''workflow_id'' \<noteq> Col_Uuid (wf_id x)}"
      using False by auto
    with d' show ?thesis
      by (intro that [of d' "stored_row sq (checkpoint_row cx i x)"] exI [of _ i] same_stored [OF assms(1)])
        (simp_all add: pg_save_checkpoint_def upserted_def return_out_def)
  qed
qed

lemma checkpoint_id: "same_row r (checkpoint_row cx i x) \<Longrightarrow> col r ''workflow_id'' = Col_Uuid (wf_id x)"
  using same_row_col [of r "checkpoint_row cx i x" "''workflow_id''"] by simp

lemma load_unchanged:
  assumes "sql_laws (set brain_tables) view live sq" "live d" "live d'"
    and same: "\<And>r. col r ''workflow_id'' = Col_Uuid w \<Longrightarrow> r \<in> checkpoint_rows view d' \<longleftrightarrow> r \<in> checkpoint_rows view d"
  shows "fst (pg_load_checkpoint cx sq w d') = fst (pg_load_checkpoint cx sq w d)"
proof (cases "\<exists>r \<in> checkpoint_rows view d. col r ''workflow_id'' = Col_Uuid w")
  case True
  then obtain r where r: "r \<in> checkpoint_rows view d" "col r ''workflow_id'' = Col_Uuid w" ..
  with same have "r \<in> checkpoint_rows view d'" by simp
  then show ?thesis
    using load_returns(1) [OF assms(1,2) r] load_returns(1) [OF assms(1,3) _ r(2)]
    by (simp add: read_one_def split: option.split)
next
  case False
  then have "col r ''workflow_id'' \<noteq> Col_Uuid w" if "r \<in> checkpoint_rows view d \<or> r \<in> checkpoint_rows view d'" for r
    using that same by blast
  then show ?thesis using load_returns(2) [OF assms(1,2)] load_returns(2) [OF assms(1,3)] by simp
qed

lemma delete_checkpoint_returns:
  assumes "sql_laws (set brain_tables) view live sq" "live d"
  obtains d' where "pg_delete_checkpoint sq w d = (Inr (), d')" "pg_load_checkpoint cx sq w d' = (Inr None, d')"
proof -
  obtain d' where d': "sq_delete sq workflow_checkpoints_table (is_uuid ''workflow_id'' w) d = (Inr (), d')" "live d'"
    "view d' = (view d)(tb_name workflow_checkpoints_table := {r \<in> checkpoint_rows view d. \<not> is_uuid ''workflow_id'' w r})"
    by (rule sql_delete [OF assms(1) checkpoints_declared assms(2)])
  have "pg_load_checkpoint cx sq w d' = (Inr None, d')"
    by (rule load_returns(2) [OF assms(1) d'(2)]) (simp add: d'(3) is_uuid_def)
  with d'(1) show ?thesis using that by (simp add: pg_delete_checkpoint_def)
qed

text \<open>
  C27: A saved workflow state survives in the database: saving it succeeds, loading the workflow
  then returns exactly that state (whether it replaced an earlier checkpoint or is the first),
  every other workflow loads what it loaded before, and deleting the checkpoint leaves none.
\<close>

theorem stored_checkpoint_roundtrip:
  assumes "sql_laws (set brain_tables) view live sq" "live d" "codec_ok cx"
    and "storable workflow_checkpoints_table (checkpoint_row cx i x)"
    and "\<And>r. r \<in> checkpoint_rows view d \<Longrightarrow> col r ''id'' \<noteq> Col_Uuid i"
  shows "\<exists>d'. pg_save_checkpoint cx sq i x d = (Inr x, d') \<and> live d' \<and>
    pg_load_checkpoint cx sq (wf_id x) d' = (Inr (Some x), d') \<and>
    (\<forall>w. w \<noteq> wf_id x \<longrightarrow> fst (pg_load_checkpoint cx sq w d') = fst (pg_load_checkpoint cx sq w d)) \<and>
    (\<exists>d''. pg_delete_checkpoint sq (wf_id x) d' = (Inr (), d'') \<and>
       pg_load_checkpoint cx sq (wf_id x) d'' = (Inr None, d''))"
proof -
  obtain s d' where d': "pg_save_checkpoint cx sq i x d = (Inr x, d')" "live d'"
    "view d' = (view d)(tb_name workflow_checkpoints_table :=
       insert s {r \<in> checkpoint_rows view d. col r ''workflow_id'' \<noteq> Col_Uuid (wf_id x)})"
    "\<exists>j. same_row s (checkpoint_row cx j x)"
    using save_checkpoint_returns [OF assms(1,2,4,5)] .
  then obtain j where s: "same_row s (checkpoint_row cx j x)" by blast
  have wid: "col s ''workflow_id'' = Col_Uuid (wf_id x)" using checkpoint_id [OF s] .
  have "pg_load_checkpoint cx sq (wf_id x) d' = (Inr (Some x), d')"
    using load_returns(1) [OF assms(1) d'(2), of s "wf_id x"] wid checkpoint_back [OF assms(3) s]
    by (simp add: d'(3) read_one_def checkpoint_from_row_def)
  moreover have "fst (pg_load_checkpoint cx sq w d') = fst (pg_load_checkpoint cx sq w d)" if "w \<noteq> wf_id x" for w
    by (rule load_unchanged [OF assms(1,2) d'(2)]) (use that wid in \<open>auto simp: d'(3)\<close>)
  moreover obtain d'' where "pg_delete_checkpoint sq (wf_id x) d' = (Inr (), d'')"
    "pg_load_checkpoint cx sq (wf_id x) d'' = (Inr None, d'')"
    using delete_checkpoint_returns [OF assms(1) d'(2)] .
  ultimately show ?thesis using d'(1,2) by blast
qed

text \<open>A codec and a state for which it is applied, on the database of lists.\<close>

definition demo_codec :: codec where
  "demo_codec =
     \<lparr>cx_base = vx_base demo_validators, cx_bool = (\<lambda>j. case j of JBool b \<Rightarrow> Some b | _ \<Rightarrow> None),
      cx_iso = (\<lambda>t. replicate (nat \<bar>t\<bar>) (if t < 0 then CHR ''-'' else CHR ''+'')),
      cx_time = (\<lambda>j. case j of
          JStr s \<Rightarrow> Some (if s \<noteq> [] \<and> hd s = CHR ''-'' then - int (length s) else int (length s))
        | _ \<Rightarrow> None),
      cx_fresh = ''u'', cx_now = 0\<rparr>"

lemma demo_codec_ok: "codec_ok demo_codec"
  by (auto simp: codec_ok_def demo_codec_def demo_validators_ok hd_replicate)

definition demo_workflow :: workflow_state where
  "demo_workflow =
     \<lparr>wf_id = ''w'', wf_project_id = Some ''p'', wf_work_item_id = None, wf_repository_id = None,
      wf_revision = Some ''abc'', wf_execution_id = None, wf_context_capsule_id = None, wf_stage = Execute,
      wf_status = Running, wf_retry_count = 1, wf_max_retries = 3, wf_approval = Not_Required,
      wf_last_error = None, wf_verification_id = None, wf_waiting_for_human = False, wf_correlation_id = None,
      wf_started_at = 2, wf_updated_at = 3\<rparr>"

lemma empty_database: "list_live brain_tables []"
  by (simp add: list_live_def list_all_iff table_rows_def rows_ok_def)

lemma stored_checkpoint_roundtrip_witness:
  "\<exists>d'. pg_save_checkpoint demo_codec list_sql ''i'' demo_workflow [] = (Inr demo_workflow, d') \<and>
    pg_load_checkpoint demo_codec list_sql ''w'' d' = (Inr (Some demo_workflow), d')"
proof -
  have "storable workflow_checkpoints_table (checkpoint_row demo_codec ''i'' demo_workflow)"
    by (simp add: storable_def checkpoint_row_def workflow_checkpoints_table_def not_null_def demo_codec_def
      demo_workflow_def workflow_state_dump_def no_nul_def jopt_def jtime_def code_def)
  moreover have "wf_id demo_workflow = ''w''" by (simp add: demo_workflow_def)
  ultimately show ?thesis
    using stored_checkpoint_roundtrip [OF list_tables empty_database demo_codec_ok, of "''i''" demo_workflow]
    by (auto simp: list_view_def table_rows_def)
qed

end
