(* ===== verification/Repository_Contract.thy ===== *)
theory Repository_Contract
  imports Stored_Checkpoints
begin

text \<open>
  What an application service may rely on when it calls a repository whose entities carry
  external references, as one specification on maps from identifiers to entities (\<open>promised\<close>), and
  the proof that the PostgreSQL repositories and the in-memory collections both keep it on every
  admitted sequence of calls. \<open>holds\<close> relates a map to the database: the entity table holds its
  entities, and \<open>external_references\<close> has one row for every reference of every entity.
\<close>

subsection \<open>Rows of references\<close>

lemma stored_reference [simp]: "stored_row sq (reference_row i t k r) = reference_row i t k r"
  by (simp add: reference_row_def nul_def split: option.split)

lemma reference_cols [simp]:
  "col (reference_row i t k r) ''id'' = Col_Uuid i" "col (reference_row i t k r) ''owner_type'' = Col_Str t"
  "col (reference_row i t k r) ''owner_id'' = Col_Uuid k" "col (reference_row i t k r) ''provider'' = Col_Str (ref_provider r)"
  "col (reference_row i t k r) ''external_id'' = Col_Str (ref_external_id r)"
  "col (reference_row i t k r) ''external_type'' = nul Col_Str (ref_external_type r)"
  by (simp_all add: reference_row_def col_def)

lemma clash_reference:
  "clash external_references_table (reference_row i t k r) s \<longleftrightarrow>
     col s ''id'' = Col_Uuid i \<or>
     col s ''owner_type'' = Col_Str t \<and> col s ''owner_id'' = Col_Uuid k \<and>
     col s ''provider'' = Col_Str (ref_provider r) \<and> col s ''external_id'' = Col_Str (ref_external_id r)"
  by (auto simp: clash_def cols_def external_references_table_def)

lemma reference_storable_id:
  "storable external_references_table (reference_row i t k r) \<longleftrightarrow>
   storable external_references_table (reference_row j t l r)"
  by (simp add: storable_def reference_row_def external_references_table_def not_null_def null_ok_def)

lemma reference_typed' [simp]: "typed external_references_table (reference_row i t k r)"
  by (rule reference_typed [of t "length t"]) simp

lemma owned_reference [simp]: "owned t k (reference_row i t' k' r) \<longleftrightarrow> t' = t \<and> k' = k"
  by (auto simp: owned_def is_str_def is_uuid_def)

lemma set_numbered: "set (numbered ids xs) = {(ids j, xs ! j) | j. j < length xs}"
  unfolding numbered_def set_zip by (force simp: nth_map)

lemma fst_numbered: "map fst (numbered ids xs) = map ids [0..<length xs]"
  by (simp add: numbered_def)

lemma snd_numbered: "map snd (numbered ids xs) = xs"
  by (simp add: numbered_def)

abbreviation refs_in :: "('d \<Rightarrow> string \<Rightarrow> row set) \<Rightarrow> 'd \<Rightarrow> row set" where
  "refs_in view d \<equiv> view d (tb_name external_references_table)"

text \<open>The references of one owner can be stored: none is there twice, and each fits its columns.\<close>

definition ref_key :: "external_reference \<Rightarrow> string \<times> string" where
  "ref_key r = (ref_provider r, ref_external_id r)"

definition refs_fit :: "string \<Rightarrow> uuid \<Rightarrow> external_reference list \<Rightarrow> bool" where
  "refs_fit t k refs \<longleftrightarrow> distinct (map ref_key refs) \<and>
     list_all (\<lambda>r. storable external_references_table (reference_row k t k r)) refs"

text \<open>The identifiers drawn for the rows: each once, and none of a row that is there.\<close>

definition unused_ids :: "uuid set \<Rightarrow> nat \<Rightarrow> (nat \<Rightarrow> uuid) \<Rightarrow> bool" where
  "unused_ids used n ids \<longleftrightarrow> distinct (map ids [0..<n]) \<and> list_all (\<lambda>j. ids j \<notin> used) [0..<n]"

lemma references_declared: "external_references_table \<in> set brain_tables"
  by (simp add: brain_tables_def)

lemma insert_refs_returns:
  assumes "sql_laws (set brain_tables) view live sq" "live d"
    and "distinct (map fst xs)" "distinct (map (ref_key \<circ> snd) xs)"
    and "\<And>i r. (i, r) \<in> set xs \<Longrightarrow> storable external_references_table (reference_row i t k r)"
    and "\<And>i r s. \<lbrakk>(i, r) \<in> set xs; s \<in> refs_in view d\<rbrakk> \<Longrightarrow>
      \<not> clash external_references_table (reference_row i t k r) s"
  shows "\<exists>d'. insert_refs sq t k xs d = (Inr (), d') \<and> live d' \<and>
    view d' = (view d)(tb_name external_references_table := refs_in view d \<union> (\<lambda>(i, r). reference_row i t k r) ` set xs)"
  using assms(2-)
proof (induction xs arbitrary: d)
  case Nil
  then show ?case by (simp add: insert_refs_def)
next
  case (Cons x xs)
  obtain i r where x: "x = (i, r)" by (cases x)
  let ?row = "reference_row i t k r"
  have "admits external_references_table (refs_in view d) ?row"
    using Cons.prems(4,5) by (auto simp: admits_def x)
  from write_lawE [OF sql_insert [OF assms(1) references_declared Cons.prems(1)] this]
  obtain d1 where d1: "sq_insert sq external_references_table ?row d = (Inr (), d1)" "live d1"
    "view d1 = (view d)(tb_name external_references_table := insert ?row (refs_in view d))" by auto
  have "\<not> clash external_references_table (reference_row j t k q) s"
    if "(j, q) \<in> set xs" "s \<in> refs_in view d1" for j q s
  proof (cases "s = ?row")
    case True
    have "j \<noteq> i" using Cons.prems(2) that(1) by (auto simp: x rev_image_eqI)
    moreover have "ref_key q \<noteq> ref_key r" using Cons.prems(3) that(1) by (auto simp: x rev_image_eqI)
    ultimately show ?thesis by (auto simp: True clash_reference ref_key_def)
  next
    case False
    then show ?thesis using Cons.prems(5) [of j q s] that by (simp add: d1(3))
  qed
  then obtain d' where "insert_refs sq t k xs d1 = (Inr (), d')" "live d'"
    "view d' = (view d1)(tb_name external_references_table := refs_in view d1 \<union> (\<lambda>(i, r). reference_row i t k r) ` set xs)"
    using Cons.IH [OF d1(2)] Cons.prems(2,3,4) unfolding x list.map distinct.simps list.set by blast
  with d1 show ?case by (auto simp: insert_refs_def x fun_eq_iff)
qed

lemma replace_refs_returns:
  assumes "sql_laws (set brain_tables) view live sq" "live d" "refs_fit t k refs"
    and "unused_ids used (length refs) ids" "\<And>s u. \<lbrakk>s \<in> refs_in view d; col s ''id'' = Col_Uuid u\<rbrakk> \<Longrightarrow> u \<in> used"
  obtains d' where "replace_external_refs sq t k refs ids d = (Inr (), d')" "live d'"
    "view d' = (view d)(tb_name external_references_table :=
       {s \<in> refs_in view d. \<not> owned t k s} \<union> (\<lambda>(i, r). reference_row i t k r) ` set (numbered ids refs))"
proof -
  obtain d1 where d1: "delete_external_refs sq t k d = (Inr (), d1)" "live d1"
    "view d1 = (view d)(tb_name external_references_table := {s \<in> refs_in view d. \<not> owned t k s})"
    using sql_delete [OF assms(1) references_declared assms(2)] by (auto simp: delete_external_refs_def)
  have "\<not> clash external_references_table (reference_row i t k r) s"
    if "(i, r) \<in> set (numbered ids refs)" "s \<in> refs_in view d1" for i r s
  proof -
    from that(1) obtain j where "j < length refs" "i = ids j" by (auto simp: set_numbered)
    then have "i \<notin> used" using assms(4) by (auto simp: unused_ids_def list_all_iff)
    moreover have "s \<in> refs_in view d" "\<not> owned t k s" using that(2) by (simp_all add: d1(3))
    ultimately show ?thesis using assms(5) by (auto simp: clash_reference owned_def is_str_def is_uuid_def)
  qed
  moreover have "distinct (map (ref_key \<circ> snd) (numbered ids refs))"
    using assms(3) by (simp add: refs_fit_def snd_numbered flip: map_map)
  moreover have "storable external_references_table (reference_row i t k r)"
    if "(i, r) \<in> set (numbered ids refs)" for i r
    using that assms(3) by (auto simp: set_numbered refs_fit_def list_all_iff reference_storable_id [of i t k r k k])
  moreover have "distinct (map fst (numbered ids refs))" using assms(4) by (simp add: fst_numbered unused_ids_def)
  ultimately obtain d' where "insert_refs sq t k (numbered ids refs) d1 = (Inr (), d')" "live d'"
    "view d' = (view d1)(tb_name external_references_table :=
       refs_in view d1 \<union> (\<lambda>(i, r). reference_row i t k r) ` set (numbered ids refs))"
    using insert_refs_returns [OF assms(1) d1(2), of "numbered ids refs" t k] by blast
  with d1 show ?thesis by (intro that [of d']) (simp_all add: replace_external_refs_def)
qed

subsection \<open>Owners of references\<close>

definition refs_kept :: "('d \<Rightarrow> string \<Rightarrow> row set) \<Rightarrow> ('e, 'm) owner_table_scheme \<Rightarrow> (uuid \<Rightarrow> 'e option) \<Rightarrow> 'd \<Rightarrow> bool" where
  "refs_kept view ow m d \<longleftrightarrow>
     (\<forall>k e q. m k = Some e \<longrightarrow> q \<in> set (ow_refs ow e) \<longrightarrow> (\<exists>i. reference_row i (ow_type ow) k q \<in> refs_in view d)) \<and>
     (\<forall>s \<in> refs_in view d. is_str ''owner_type'' (ow_type ow) s \<longrightarrow>
        (\<exists>k e i q. m k = Some e \<and> q \<in> set (ow_refs ow e) \<and> s = reference_row i (ow_type ow) k q))"

definition holds :: "('d \<Rightarrow> string \<Rightarrow> row set) \<Rightarrow> ('e, 'm) owner_table_scheme \<Rightarrow> (uuid \<Rightarrow> 'e option) \<Rightarrow> 'd \<Rightarrow> bool" where
  "holds view ow m d \<longleftrightarrow> represents view ow m d \<and> refs_kept view ow m d"

definition drawn_ids :: "('d \<Rightarrow> string \<Rightarrow> row set) \<Rightarrow> 'd \<Rightarrow> uuid set" where
  "drawn_ids view d = {u. \<exists>s \<in> refs_in view d. col s ''id'' = Col_Uuid u}"

text \<open>An entity the tables take: its row, and its references among the rows of other owners.\<close>

definition fits :: "('e, 'm) owner_table_scheme \<Rightarrow> 'e \<Rightarrow> bool" where
  "fits ow e \<longleftrightarrow> storable (en_table ow) (en_row ow e) \<and> refs_fit (ow_type ow) (en_id ow e) (ow_refs ow e)"

lemma refs_keptI:
  assumes "\<And>k e q. \<lbrakk>m k = Some e; q \<in> set (ow_refs ow e)\<rbrakk> \<Longrightarrow> \<exists>i. reference_row i (ow_type ow) k q \<in> refs_in view d"
    and "\<And>s. \<lbrakk>s \<in> refs_in view d; is_str ''owner_type'' (ow_type ow) s\<rbrakk> \<Longrightarrow>
      \<exists>k e i q. m k = Some e \<and> q \<in> set (ow_refs ow e) \<and> s = reference_row i (ow_type ow) k q"
  shows "refs_kept view ow m d"
  using assms unfolding refs_kept_def by blast

lemma refs_keptD:
  assumes "refs_kept view ow m d"
  shows "\<lbrakk>m k = Some e; q \<in> set (ow_refs ow e)\<rbrakk> \<Longrightarrow> \<exists>i. reference_row i (ow_type ow) k q \<in> refs_in view d"
    and "\<lbrakk>s \<in> refs_in view d; is_str ''owner_type'' (ow_type ow) s\<rbrakk> \<Longrightarrow>
      \<exists>k e i q. m k = Some e \<and> q \<in> set (ow_refs ow e) \<and> s = reference_row i (ow_type ow) k q"
  using assms unfolding refs_kept_def by blast+

text \<open>The references of one owner replaced by those of another value of the entity, or removed with it.\<close>

lemma refs_replaced:
  assumes "refs_kept view ow m d"
    and "refs_in view d' = {s \<in> refs_in view d. \<not> owned (ow_type ow) k s} \<union>
      (\<lambda>(i, r). reference_row i (ow_type ow) k r) ` set (numbered ids (ow_refs ow e))"
  shows "refs_kept view ow (m(k \<mapsto> e)) d'"
proof (rule refs_keptI)
  fix l x q assume x: "(m(k \<mapsto> e)) l = Some x" "q \<in> set (ow_refs ow x)"
  show "\<exists>i. reference_row i (ow_type ow) l q \<in> refs_in view d'"
  proof (cases "l = k")
    case True
    with x obtain j where "j < length (ow_refs ow e)" "q = ow_refs ow e ! j" by (auto simp: in_set_conv_nth)
    then have "(ids j, q) \<in> set (numbered ids (ow_refs ow e))" by (auto simp: set_numbered)
    then show ?thesis unfolding assms(2) True by (intro exI [of _ "ids j"]) force
  next
    case False
    with x have "m l = Some x" by simp
    then obtain i where "reference_row i (ow_type ow) l q \<in> refs_in view d"
      using refs_keptD(1) [OF assms(1) _ x(2)] by blast
    then show ?thesis using False by (auto simp: assms(2))
  qed
next
  fix s assume s: "s \<in> refs_in view d'" "is_str ''owner_type'' (ow_type ow) s"
  show "\<exists>l x i q. (m(k \<mapsto> e)) l = Some x \<and> q \<in> set (ow_refs ow x) \<and> s = reference_row i (ow_type ow) l q"
  proof (cases "s \<in> refs_in view d \<and> \<not> owned (ow_type ow) k s")
    case True
    with refs_keptD(2) [OF assms(1) _ s(2)] obtain l x i q
      where "m l = Some x" "q \<in> set (ow_refs ow x)" "s = reference_row i (ow_type ow) l q" by blast
    with True show ?thesis by auto
  next
    case False
    with s(1) obtain i q where "(i, q) \<in> set (numbered ids (ow_refs ow e))" "s = reference_row i (ow_type ow) k q"
      unfolding assms(2) by auto
    moreover from this have "q \<in> set (ow_refs ow e)" by (auto simp: set_numbered)
    ultimately have "(m(k \<mapsto> e)) k = Some e \<and> q \<in> set (ow_refs ow e) \<and> s = reference_row i (ow_type ow) k q" by simp
    then show ?thesis by blast
  qed
qed

lemma refs_removed:
  assumes "refs_kept view ow m d" "refs_in view d' = {s \<in> refs_in view d. \<not> owned (ow_type ow) k s}"
  shows "refs_kept view ow (m(k := None)) d'"
proof (rule refs_keptI)
  fix l x q assume x: "(m(k := None)) l = Some x" "q \<in> set (ow_refs ow x)"
  then have l: "l \<noteq> k" "m l = Some x" by (auto split: if_splits)
  then obtain i where "reference_row i (ow_type ow) l q \<in> refs_in view d" using refs_keptD(1) [OF assms(1)] x(2) by blast
  then show "\<exists>i. reference_row i (ow_type ow) l q \<in> refs_in view d'" using l(1) by (auto simp: assms(2))
next
  fix s assume "s \<in> refs_in view d'" "is_str ''owner_type'' (ow_type ow) s"
  then have s: "s \<in> refs_in view d" "\<not> owned (ow_type ow) k s" "is_str ''owner_type'' (ow_type ow) s"
    by (simp_all add: assms(2))
  obtain l x i q where "m l = Some x" "q \<in> set (ow_refs ow x)" "s = reference_row i (ow_type ow) l q"
    using refs_keptD(2) [OF assms(1) s(1,3)] by blast
  with s(2) show "\<exists>l x i q. (m(k := None)) l = Some x \<and> q \<in> set (ow_refs ow x) \<and> s = reference_row i (ow_type ow) l q"
    by auto
qed

lemma represents_cong:
  "view d' (tb_name (en_table en)) = view d (tb_name (en_table en)) \<Longrightarrow> represents view en m d' = represents view en m d"
  by (simp add: represents_def)

lemma refs_kept_cong: "refs_in view d' = refs_in view d \<Longrightarrow> refs_kept view ow m d' = refs_kept view ow m d"
  by (simp add: refs_kept_def)

locale owner_entity = updatable_entity ow ok for ow :: "('e, 'm) owner_table_scheme" and ok +
  assumes apart: "tb_name (en_table ow) \<noteq> tb_name external_references_table"
begin

lemma saved_with_refs:
  assumes "sql_laws (set brain_tables) view live sq" "live d" "refs_kept view ow m d"
    and "written view live ow (m(en_id ow e \<mapsto> e)) d d1" "refs_fit (ow_type ow) (en_id ow e) (ow_refs ow e)"
    and "drawn_ids view d \<subseteq> used" "unused_ids used (length (ow_refs ow e)) ids"
  obtains d' where
    "replace_external_refs sq (ow_type ow) (en_id ow e) (ow_refs ow e) ids d1 = (Inr (), d')" "live d'"
    "holds view ow (m(en_id ow e \<mapsto> e)) d'" "drawn_ids view d' \<subseteq> used \<union> ids ` {..<length (ow_refs ow e)}"
proof -
  have d1: "live d1" "represents view ow (m(en_id ow e \<mapsto> e)) d1" "refs_in view d1 = refs_in view d"
    using assms(4) apart by (simp_all add: written_def)
  have known: "u \<in> used" if "s \<in> refs_in view d1" "col s ''id'' = Col_Uuid u" for s u
    using that assms(6) d1(3) by (auto simp: drawn_ids_def)
  obtain d' where d': "replace_external_refs sq (ow_type ow) (en_id ow e) (ow_refs ow e) ids d1 = (Inr (), d')" "live d'"
    "view d' = (view d1)(tb_name external_references_table :=
       {s \<in> refs_in view d1. \<not> owned (ow_type ow) (en_id ow e) s} \<union>
       (\<lambda>(i, r). reference_row i (ow_type ow) (en_id ow e) r) ` set (numbered ids (ow_refs ow e)))"
    using replace_refs_returns [OF assms(1) d1(1) assms(5,7) known] .
  then have R: "refs_in view d' = {s \<in> refs_in view d. \<not> owned (ow_type ow) (en_id ow e) s} \<union>
       (\<lambda>(i, r). reference_row i (ow_type ow) (en_id ow e) r) ` set (numbered ids (ow_refs ow e))"
    by (simp add: d1(3))
  have "represents view ow (m(en_id ow e \<mapsto> e)) d'"
    using d1(2) d'(3) apart represents_cong [of view d' ow d1] by simp
  then have "holds view ow (m(en_id ow e \<mapsto> e)) d'"
    using refs_replaced [OF assms(3) R] by (simp add: holds_def)
  moreover have "drawn_ids view d' \<subseteq> used \<union> ids ` {..<length (ow_refs ow e)}"
    using assms(6) by (auto simp: drawn_ids_def R set_numbered)
  ultimately show ?thesis using that d'(1,2) by blast
qed

lemma create_keeps:
  assumes "sql_laws (set brain_tables) view live sq" "live d" "holds view ow m d" "m (en_id ow e) = None" "fits ow e"
    and "drawn_ids view d \<subseteq> used" "unused_ids used (length (ow_refs ow e)) ids"
  obtains d' where "owner_create sq ow ids e d = (Inr e, d')" "live d'" "holds view ow (m(en_id ow e \<mapsto> e)) d'"
    "drawn_ids view d' \<subseteq> used \<union> ids ` {..<length (ow_refs ow e)}"
proof -
  note h = assms(3) [unfolded holds_def] and f = assms(5) [unfolded fits_def]
  obtain d1 where d1: "sq_insert sq (en_table ow) (en_row ow e) d = (Inr (), d1)"
    "written view live ow (m(en_id ow e \<mapsto> e)) d d1"
    using insert_returns [OF assms(1,2) conjunct1 [OF h] assms(4) conjunct1 [OF f]] .
  obtain d' where "replace_external_refs sq (ow_type ow) (en_id ow e) (ow_refs ow e) ids d1 = (Inr (), d')" "live d'"
    "holds view ow (m(en_id ow e \<mapsto> e)) d'" "drawn_ids view d' \<subseteq> used \<union> ids ` {..<length (ow_refs ow e)}"
    using saved_with_refs [OF assms(1,2) conjunct2 [OF h] d1(2) conjunct2 [OF f] assms(6,7)] .
  with d1(1) show ?thesis using that by (simp add: owner_create_def return_out_def)
qed

lemma update_keeps:
  assumes "sql_laws (set brain_tables) view live sq" "live d" "holds view ow m d" "fits ow e"
    and "drawn_ids view d \<subseteq> used" "unused_ids used (length (ow_refs ow e)) ids"
  obtains d' where "owner_update sq ow ids e d = (Inr e, d')" "live d'" "holds view ow (m(en_id ow e \<mapsto> e)) d'"
    "drawn_ids view d' \<subseteq> used \<union> ids ` {..<length (ow_refs ow e)}"
proof (cases "m (en_id ow e)")
  case None
  have "sq_get sq (en_table ow) [Col_Uuid (en_id ow e)] d = None"
    using session_get(1) [OF assms(1,2) conjunct1 [OF assms(3) [unfolded holds_def]] None] .
  moreover obtain d' where "owner_create sq ow ids e d = (Inr e, d')" "live d'"
    "holds view ow (m(en_id ow e \<mapsto> e)) d'" "drawn_ids view d' \<subseteq> used \<union> ids ` {..<length (ow_refs ow e)}"
    using create_keeps [OF assms(1-3) None assms(4-6)] .
  ultimately show ?thesis using that by (simp add: owner_update_def)
next
  case (Some e0)
  note h = assms(3) [unfolded holds_def] and f = assms(4) [unfolded fits_def]
  obtain r where r: "sq_get sq (en_table ow) [Col_Uuid (en_id ow e)] d = Some r"
    using session_get(2) [OF assms(1,2) conjunct1 [OF h] Some] by blast
  obtain d1 where d1: "entity_update sq ow e d = (Inr e, d1)" "written view live ow (m(en_id ow e \<mapsto> e)) d d1"
    using update_returns [OF assms(1,2) conjunct1 [OF h] conjunct1 [OF f]] .
  then have a: "sq_assign sq (en_table ow) [Col_Uuid (en_id ow e)] (en_cells ow e) d = (Inr (), d1)"
    by (auto simp: entity_update_def r then_do_def return_out_def split: prod.splits sum.splits)
  obtain d' where "replace_external_refs sq (ow_type ow) (en_id ow e) (ow_refs ow e) ids d1 = (Inr (), d')" "live d'"
    "holds view ow (m(en_id ow e \<mapsto> e)) d'" "drawn_ids view d' \<subseteq> used \<union> ids ` {..<length (ow_refs ow e)}"
    using saved_with_refs [OF assms(1,2) conjunct2 [OF h] d1(2) conjunct2 [OF f] assms(5,6)] .
  with r a show ?thesis using that by (simp add: owner_update_def return_out_def)
qed

lemma delete_keeps:
  assumes "sql_laws (set brain_tables) view live sq" "live d" "holds view ow m d"
  obtains d' where "owner_delete sq ow k d = (Inr (), d')" "live d'" "holds view ow (m(k := None)) d'"
    "drawn_ids view d' \<subseteq> drawn_ids view d"
proof (cases "m k")
  case None
  then have "m(k := None) = m" by auto
  moreover have "sq_get sq (en_table ow) [Col_Uuid k] d = None"
    using session_get(1) [OF assms(1,2) conjunct1 [OF assms(3) [unfolded holds_def]] None] .
  ultimately show ?thesis using that assms(2,3) by (simp add: owner_delete_def)
next
  case (Some e)
  note h = assms(3) [unfolded holds_def]
  obtain r where r: "sq_get sq (en_table ow) [Col_Uuid k] d = Some r"
    using session_get(2) [OF assms(1,2) conjunct1 [OF h] Some] by blast
  obtain d1 where d1: "row_deleted sq (en_table ow) k d = (Inr (), d1)" "written view live ow (m(k := None)) d d1"
    using row_deleted_returns [OF assms(1,2) conjunct1 [OF h]] .
  then have l: "live d1" "represents view ow (m(k := None)) d1" "refs_in view d1 = refs_in view d"
    using apart by (simp_all add: written_def)
  obtain d' where d': "delete_external_refs sq (ow_type ow) k d1 = (Inr (), d')" "live d'"
    "view d' = (view d1)(tb_name external_references_table := {s \<in> refs_in view d1. \<not> owned (ow_type ow) k s})"
    using sql_delete [OF assms(1) references_declared l(1)] by (auto simp: delete_external_refs_def)
  then have R: "refs_in view d' = {s \<in> refs_in view d. \<not> owned (ow_type ow) k s}" by (simp add: l(3))
  have "represents view ow (m(k := None)) d'" using l(2) d'(3) apart represents_cong [of view d' ow d1] by simp
  then have "holds view ow (m(k := None)) d'" using refs_removed [OF conjunct2 [OF h] R] by (simp add: holds_def)
  moreover have "drawn_ids view d' \<subseteq> drawn_ids view d" by (auto simp: drawn_ids_def R)
  ultimately show ?thesis using that r d1(1) d'(1,2) by (simp add: owner_delete_def)
qed

lemma find_answers:
  assumes "sql_laws (set brain_tables) view live sq" "live d" "holds view ow m d" ok
  shows "\<exists>found. owner_find sq ow p x t d = (Inr found, d) \<and>
    (case found of
       None \<Rightarrow> \<forall>k e. m k = Some e \<longrightarrow> \<not> list_ex (ref_matches p x t) (ow_refs ow e)
     | Some e \<Rightarrow> m (en_id ow e) = Some e \<and> list_ex (ref_matches p x t) (ow_refs ow e))"
proof -
  note h = assms(3) [unfolded holds_def]
  let ?P = "ref_row_matches (ow_type ow) p x t"
  note sel = sql_select(1) [OF assms(1) references_declared assms(2), where P = ?P and ord = None]
  have row: "?P (reference_row i (ow_type ow) k q) \<longleftrightarrow> ref_matches p x t q" for i k q
    by (cases "ref_external_type q") (auto simp: ref_row_matches_def ref_matches_def is_str_def nul_def split: option.splits)
  show ?thesis
  proof (cases "sq_select sq external_references_table ?P None d")
    case Nil
    have "\<not> list_ex (ref_matches p x t) (ow_refs ow e)" if m: "m k = Some e" for k e
    proof
      assume "list_ex (ref_matches p x t) (ow_refs ow e)"
      then obtain q where q: "q \<in> set (ow_refs ow e)" "ref_matches p x t q" by (auto simp: list_ex_iff)
      obtain i where "reference_row i (ow_type ow) k q \<in> refs_in view d" using refs_keptD(1) [OF conjunct2 [OF h] m q(1)] ..
      with sel Nil row q(2) show False by auto
    qed
    then show ?thesis by (simp add: owner_find_def Nil)
  next
    case (Cons s ss)
    then have "s \<in> set (sq_select sq external_references_table ?P None d)" by simp
    then have s: "s \<in> refs_in view d" "?P s" unfolding sel by auto
    obtain k e i q where q: "m k = Some e" "q \<in> set (ow_refs ow e)" "s = reference_row i (ow_type ow) k q"
      using refs_keptD(2) [OF conjunct2 [OF h] s(1)] s(2) by (auto simp: ref_row_matches_def)
    have "en_id ow e = k" using representsD(1) [OF conjunct1 [OF h] q(1)] .
    moreover have "entity_get sq ow k d = (Inr (Some e), d)"
      using get_returns [OF assms(1,2) conjunct1 [OF h] assms(4)] q(1) by simp
    moreover have "list_ex (ref_matches p x t) (ow_refs ow e)" using q(2) s(2) row by (auto simp: list_ex_iff q(3))
    ultimately show ?thesis using q(1) by (simp add: owner_find_def Cons q(3))
  qed
qed

end

interpretation project_owner: owner_entity "projects_repo cx" "codec_ok cx" for cx
  by unfold_locales (simp add: projects_repo_def projects_table_def external_references_table_def)

interpretation repository_owner: owner_entity "repositories_repo cx" "codec_ok cx" for cx
  by unfold_locales (simp add: repositories_repo_def repositories_table_def external_references_table_def)

interpretation work_item_owner: owner_entity "work_items_repo cx" "codec_ok cx" for cx
  by unfold_locales (simp add: work_items_repo_def work_items_table_def external_references_table_def)

interpretation document_owner: owner_entity "documents_repo cx" "codec_ok cx" for cx
  by unfold_locales (simp add: documents_repo_def documents_table_def external_references_table_def)

interpretation decision_owner: owner_entity "decisions_repo cx" "codec_ok cx" for cx
  by unfold_locales (simp add: decisions_repo_def decisions_table_def external_references_table_def)

subsection \<open>The contract\<close>

text \<open>The calls a service makes of a repository, and what it is answered.\<close>

datatype 'e call = Create 'e | Get uuid | Update 'e | Delete uuid | Find string string "string option"

datatype 'e answer = Saved 'e | Found "'e option" | Removed

fun promised :: "('e \<Rightarrow> uuid) \<Rightarrow> ('e \<Rightarrow> external_reference list) \<Rightarrow> 'e call \<Rightarrow> (uuid \<Rightarrow> 'e option)
    \<Rightarrow> 'e answer \<Rightarrow> (uuid \<Rightarrow> 'e option) \<Rightarrow> bool" where
  "promised ident refs (Create e) m a m' \<longleftrightarrow> a = Saved e \<and> m' = m(ident e \<mapsto> e)"
| "promised ident refs (Get k) m a m' \<longleftrightarrow> a = Found (m k) \<and> m' = m"
| "promised ident refs (Update e) m a m' \<longleftrightarrow> a = Saved e \<and> m' = m(ident e \<mapsto> e)"
| "promised ident refs (Delete k) m a m' \<longleftrightarrow> a = Removed \<and> m' = m(k := None)"
| "promised ident refs (Find p x t) m a m' \<longleftrightarrow> m' = m \<and>
     (case a of
        Found None \<Rightarrow> \<forall>k e. m k = Some e \<longrightarrow> \<not> list_ex (ref_matches p x t) (refs e)
      | Found (Some e) \<Rightarrow> m (ident e) = Some e \<and> list_ex (ref_matches p x t) (refs e)
      | _ \<Rightarrow> False)"

fun promised_run :: "('e \<Rightarrow> uuid) \<Rightarrow> ('e \<Rightarrow> external_reference list) \<Rightarrow> 'e call list \<Rightarrow> (uuid \<Rightarrow> 'e option)
    \<Rightarrow> 'e answer list \<Rightarrow> (uuid \<Rightarrow> 'e option) \<Rightarrow> bool" where
  "promised_run ident refs [] m as m' \<longleftrightarrow> as = [] \<and> m' = m"
| "promised_run ident refs (c # cs) m as m' \<longleftrightarrow>
     (\<exists>a bs m1. as = a # bs \<and> promised ident refs c m a m1 \<and> promised_run ident refs cs m1 bs m')"

text \<open>The two implementations of a call; each call of the database has the identifiers it draws.\<close>

fun pg_call :: "'d sql \<Rightarrow> ('e, 'm) owner_table_scheme \<Rightarrow> (nat \<Rightarrow> uuid) \<Rightarrow> 'e call \<Rightarrow> 'd \<Rightarrow> ('d, 'e answer) outcome" where
  "pg_call sq ow ids (Create e) d = then_do (owner_create sq ow ids e d) (\<lambda>x. return_out (Saved x))"
| "pg_call sq ow ids (Get k) d = then_do (entity_get sq ow k d) (\<lambda>x. return_out (Found x))"
| "pg_call sq ow ids (Update e) d = then_do (owner_update sq ow ids e d) (\<lambda>x. return_out (Saved x))"
| "pg_call sq ow ids (Delete k) d = then_do (owner_delete sq ow k d) (\<lambda>u. return_out Removed)"
| "pg_call sq ow ids (Find p x t) d = then_do (owner_find sq ow p x t d) (\<lambda>f. return_out (Found f))"

fun pg_calls :: "'d sql \<Rightarrow> ('e, 'm) owner_table_scheme \<Rightarrow> ('e call \<times> (nat \<Rightarrow> uuid)) list \<Rightarrow> 'd
    \<Rightarrow> ('d, 'e answer list) outcome" where
  "pg_calls sq ow [] d = (Inr [], d)"
| "pg_calls sq ow ((c, ids) # cs) d =
     then_do (pg_call sq ow ids c d) (\<lambda>a d1. then_do (pg_calls sq ow cs d1) (\<lambda>bs. return_out (a # bs)))"

fun memory_call :: "('e \<Rightarrow> uuid) \<Rightarrow> ('e \<Rightarrow> external_reference list) \<Rightarrow> 'e call \<Rightarrow> 'e collection
    \<Rightarrow> 'e answer \<times> 'e collection" where
  "memory_call ident refs (Create e) c = (Saved e, upsert e (ident e) c)"
| "memory_call ident refs (Get k) c = (Found (get_item k c), c)"
| "memory_call ident refs (Update e) c = (Saved e, upsert e (ident e) c)"
| "memory_call ident refs (Delete k) c = (Removed, delete_item k c)"
| "memory_call ident refs (Find p x t) c = (Found (find_by_ref refs p x t c), c)"

fun memory_calls :: "('e \<Rightarrow> uuid) \<Rightarrow> ('e \<Rightarrow> external_reference list) \<Rightarrow> 'e call list \<Rightarrow> 'e collection
    \<Rightarrow> 'e answer list \<times> 'e collection" where
  "memory_calls ident refs [] c = ([], c)"
| "memory_calls ident refs (x # xs) c =
     (let (a, c1) = memory_call ident refs x c; (bs, c2) = memory_calls ident refs xs c1 in (a # bs, c2))"

text \<open>
  The calls both implementations take: an entity that is saved fits its tables and draws fresh
  identifiers, and one that is created is not there yet (in memory it would be overwritten; a second row with
  the key raises).
\<close>

fun after_call :: "('e \<Rightarrow> uuid) \<Rightarrow> 'e call \<Rightarrow> (uuid \<Rightarrow> 'e option) \<Rightarrow> uuid \<Rightarrow> 'e option" where
  "after_call ident (Create e) m = m(ident e \<mapsto> e)"
| "after_call ident (Update e) m = m(ident e \<mapsto> e)"
| "after_call ident (Delete k) m = m(k := None)"
| "after_call ident _ m = m"

fun drawn_by :: "('e \<Rightarrow> external_reference list) \<Rightarrow> 'e call \<Rightarrow> nat" where
  "drawn_by refs (Create e) = length (refs e)"
| "drawn_by refs (Update e) = length (refs e)"
| "drawn_by refs _ = 0"

fun call_fits :: "('e, 'm) owner_table_scheme \<Rightarrow> (uuid \<Rightarrow> 'e option) \<Rightarrow> 'e call \<Rightarrow> bool" where
  "call_fits ow m (Create e) = (m (en_id ow e) = None \<and> fits ow e)"
| "call_fits ow m (Update e) = fits ow e"
| "call_fits ow m _ = True"

fun admitted :: "('e, 'm) owner_table_scheme \<Rightarrow> uuid set \<Rightarrow> (uuid \<Rightarrow> 'e option) \<Rightarrow> ('e call \<times> (nat \<Rightarrow> uuid)) list \<Rightarrow> bool" where
  "admitted ow used m [] = True"
| "admitted ow used m ((c, ids) # cs) =
     (call_fits ow m c \<and> unused_ids used (drawn_by (ow_refs ow) c) ids \<and>
      admitted ow (used \<union> ids ` {..<drawn_by (ow_refs ow) c}) (after_call (en_id ow) c m) cs)"

context owner_entity
begin

lemma call_keeps:
  assumes "sql_laws (set brain_tables) view live sq" ok "live d" "holds view ow m d" "drawn_ids view d \<subseteq> used"
    and "call_fits ow m c" "unused_ids used (drawn_by (ow_refs ow) c) ids"
  obtains a d' where "pg_call sq ow ids c d = (Inr a, d')" "live d'"
    "holds view ow (after_call (en_id ow) c m) d'" "drawn_ids view d' \<subseteq> used \<union> ids ` {..<drawn_by (ow_refs ow) c}"
    "promised (en_id ow) (ow_refs ow) c m a (after_call (en_id ow) c m)"
proof (cases c)
  case (Create e)
  obtain d' where "owner_create sq ow ids e d = (Inr e, d')" "live d'" "holds view ow (m(en_id ow e \<mapsto> e)) d'"
    "drawn_ids view d' \<subseteq> used \<union> ids ` {..<length (ow_refs ow e)}"
    using create_keeps [OF assms(1,3,4) _ _ assms(5), of e ids] assms(6,7) by (auto simp: Create)
  then show ?thesis using that by (simp add: Create return_out_def)
next
  case (Get k)
  have "entity_get sq ow k d = (Inr (m k), d)"
    using get_returns [OF assms(1,3) _ assms(2)] assms(4) by (simp add: holds_def)
  then show ?thesis using that [of "Found (m k)" d] assms(3-5) by (simp add: Get return_out_def le_supI1)
next
  case (Update e)
  obtain d' where "owner_update sq ow ids e d = (Inr e, d')" "live d'" "holds view ow (m(en_id ow e \<mapsto> e)) d'"
    "drawn_ids view d' \<subseteq> used \<union> ids ` {..<length (ow_refs ow e)}"
    using update_keeps [OF assms(1,3,4) _ assms(5), of e ids] assms(6,7) by (auto simp: Update)
  then show ?thesis using that by (simp add: Update return_out_def)
next
  case (Delete k)
  obtain d' where "owner_delete sq ow k d = (Inr (), d')" "live d'" "holds view ow (m(k := None)) d'"
    "drawn_ids view d' \<subseteq> drawn_ids view d"
    using delete_keeps [OF assms(1,3,4)] .
  then show ?thesis using that [of Removed d'] assms(5) by (simp add: Delete return_out_def)
next
  case (Find p x t)
  obtain found where f: "owner_find sq ow p x t d = (Inr found, d)"
    "case found of
       None \<Rightarrow> \<forall>k e. m k = Some e \<longrightarrow> \<not> list_ex (ref_matches p x t) (ow_refs ow e)
     | Some e \<Rightarrow> m (en_id ow e) = Some e \<and> list_ex (ref_matches p x t) (ow_refs ow e)"
    using find_answers [OF assms(1,3,4,2)] by blast
  then show ?thesis
    using that [of "Found found" d] assms(3-5) by (cases found) (auto simp: Find return_out_def)
qed

lemma calls_keep:
  assumes "sql_laws (set brain_tables) view live sq" ok "live d" "holds view ow m d" "drawn_ids view d \<subseteq> used"
    and "admitted ow used m calls"
  shows "\<exists>as d' m'. pg_calls sq ow calls d = (Inr as, d') \<and> live d' \<and> holds view ow m' d' \<and>
    m' = fold (after_call (en_id ow)) (map fst calls) m \<and>
    promised_run (en_id ow) (ow_refs ow) (map fst calls) m as m'"
  using assms(3-)
proof (induction calls arbitrary: used m d)
  case (Cons cids calls)
  obtain c ids where c: "cids = (c, ids)" by (cases cids)
  obtain a d1 where d1: "pg_call sq ow ids c d = (Inr a, d1)" "live d1" "holds view ow (after_call (en_id ow) c m) d1"
    "drawn_ids view d1 \<subseteq> used \<union> ids ` {..<drawn_by (ow_refs ow) c}"
    "promised (en_id ow) (ow_refs ow) c m a (after_call (en_id ow) c m)"
    using call_keeps [OF assms(1,2) Cons.prems(1-3), of c ids] Cons.prems(4) by (auto simp: c)
  obtain as d' where "pg_calls sq ow calls d1 = (Inr as, d')" "live d'"
    "holds view ow (fold (after_call (en_id ow)) (map fst calls) (after_call (en_id ow) c m)) d'"
    "promised_run (en_id ow) (ow_refs ow) (map fst calls) (after_call (en_id ow) c m) as
      (fold (after_call (en_id ow)) (map fst calls) (after_call (en_id ow) c m))"
    using Cons.IH [OF d1(2,3,4)] Cons.prems(4) by (auto simp: c)
  with d1(1,5) show ?case by (auto simp: c return_out_def)
qed simp

end

text \<open>The in-memory collection keeps the contract on every call.\<close>

lemma memory_keeps:
  assumes "stored_by_id ident c" "\<And>k. get_item k c = m k"
  shows "\<exists>a c'. memory_call ident refs x c = (a, c') \<and> stored_by_id ident c' \<and>
    (\<forall>k. get_item k c' = after_call ident x m k) \<and> promised ident refs x m a (after_call ident x m)"
proof (cases x)
  case (Delete k)
  then show ?thesis
    using assms by (auto simp: stored_by_id_def collection.ok_remove collection.fetch_remove)
next
  case (Find p y t)
  have items: "a \<in> set (list_all_items c) \<longleftrightarrow> (\<exists>k. m k = Some a)" for a
    using assms by (auto simp: stored_by_id_def collection.items_iff)
  have "ident a = k" if "m k = Some a" for k a using assms that by (auto simp: stored_by_id_def)
  moreover have "case find_by_ref refs p y t c of
      None \<Rightarrow> \<forall>k a. m k = Some a \<longrightarrow> \<not> list_ex (ref_matches p y t) (refs a)
    | Some a \<Rightarrow> (\<exists>k. m k = Some a) \<and> list_ex (ref_matches p y t) (refs a)"
    using find_by_ref_None [of refs p y t c] find_by_ref_Some [of refs p y t c]
    by (auto simp: items list_ex_iff split: option.split)
  ultimately have "promised ident refs x m (Found (find_by_ref refs p y t c)) m"
    by (auto simp: Find split: option.splits)
  then show ?thesis using assms by (simp add: Find)
qed (use assms in \<open>auto simp: collection.fetch_put fun_eq_iff\<close>)

lemma memory_calls_keep:
  assumes "stored_by_id ident c" "\<And>k. get_item k c = m k"
  shows "\<exists>as c'. memory_calls ident refs xs c = (as, c') \<and> stored_by_id ident c' \<and>
    (\<forall>k. get_item k c' = fold (after_call ident) xs m k) \<and>
    promised_run ident refs xs m as (fold (after_call ident) xs m)"
  using assms
proof (induction xs arbitrary: c m)
  case (Cons x xs)
  obtain a c1 where c1: "memory_call ident refs x c = (a, c1)" "stored_by_id ident c1"
    "\<And>k. get_item k c1 = after_call ident x m k" "promised ident refs x m a (after_call ident x m)"
    using memory_keeps [OF Cons.prems] by blast
  obtain as c' where "memory_calls ident refs xs c1 = (as, c')" "stored_by_id ident c'"
    "\<And>k. get_item k c' = fold (after_call ident) xs (after_call ident x m) k"
    "promised_run ident refs xs (after_call ident x m) as (fold (after_call ident) xs (after_call ident x m))"
    using Cons.IH [OF c1(2,3)] by blast
  with c1 show ?case by auto
qed simp

subsection \<open>Properties\<close>


definition demo_reference :: external_reference where
  "demo_reference =
     \<lparr>ref_provider = ''op'', ref_external_id = ''7'', ref_external_type = None, ref_url = None, ref_namespace = None\<rparr>"

definition demo_item :: work_item where
  "demo_item = (new_work_item ''w'' ''p'' ''T'')\<lparr>wi_external_refs := [demo_reference]\<rparr>"

definition demo_calls :: "(work_item call \<times> (nat \<Rightarrow> uuid)) list" where
  "demo_calls =
     [(Create demo_item, \<lambda>j. ''a''), (Find ''op'' ''7'' None, \<lambda>j. []),
      (Update (demo_item\<lparr>wi_title := ''U''\<rparr>), \<lambda>j. ''b''), (Get ''w'', \<lambda>j. []), (Delete ''w'', \<lambda>j. [])]"

lemma demo_fits:
  "fits (work_items_repo demo_codec) demo_item" "fits (work_items_repo demo_codec) (demo_item\<lparr>wi_title := ''U''\<rparr>)"
  by (simp_all add: fits_def refs_fit_def work_items_repo_def demo_item_def new_work_item_def demo_reference_def
      storable_def work_item_row_def work_items_table_def reference_row_def external_references_table_def
      not_null_def null_ok_def nul_def jopt_def dump_models_def dump_uuids_def external_reference_dump_def
      no_nul_def code_def)

lemma demo_admitted: "admitted (work_items_repo demo_codec) {} (\<lambda>k. None) demo_calls"
proof -
  have "en_id (work_items_repo demo_codec) = wi_id" "ow_refs (work_items_repo demo_codec) = wi_external_refs"
    by (simp_all add: work_items_repo_def)
  then show ?thesis
    using demo_fits by (simp add: demo_calls_def unused_ids_def demo_item_def new_work_item_def lessThan_Suc)
qed

lemma empty_holds: "holds list_view ow (\<lambda>k. None) []"
  by (simp add: holds_def represents_def refs_kept_def list_view_def table_rows_def)


text \<open>
  C28: An attachment that is created again while it is stored - as the ingestion does when the
  provider changed its metadata - makes the database raise a duplicate key; the in-memory
  repository overwrites it.
\<close>

theorem recreated_attachment_raises:
  assumes "sql_laws (set brain_tables) view live sq" "live d" "represents view (attachments_repo cx) m d"
    and "m (at_id a) = Some a0"
  shows "(\<exists>x d'. pg_create_attachment cx sq ids a d = (Inl x, d')) \<and>
    get_item (at_id a) (st_attachments (save_attachment a r)) = Some a"
proof -
  have repo: "en_id (attachments_repo cx) = at_id" by (simp add: attachments_repo_def)
  obtain x d' where "sq_insert sq (en_table (attachments_repo cx)) (en_row (attachments_repo cx) a) d = (Inl x, d')"
    using attachments.duplicate_raises [OF assms(1-3), unfolded repo, OF assms(4)] .
  then show ?thesis
    by (simp add: pg_create_attachment_def owner_create_def save_attachment_def collection.fetch_put)
qed

definition demo_attachment :: attachment where
  "demo_attachment =
     \<lparr>at_id = ''a'', at_work_item_id = ''w'', at_file_name = ''f'', at_content_type = [], at_file_size = JInt 1,
      at_download_url = None, at_content_ingested = False, at_created_at = 0, at_external_refs = []\<rparr>"

lemma one_row_live:
  assumes "T \<in> set brain_tables" "typed T r" "storable T r"
  shows "list_live brain_tables [(tb_name T, [r])]"
  using live_put [OF distinct_names empty_database assms(1), of "[r]"] assms(2,3)
  by (simp add: rows_ok_def)

lemma recreated_attachment_raises_witness:
  "\<exists>x d'. pg_create_attachment demo_codec list_sql (\<lambda>j. ''i'') (demo_attachment\<lparr>at_file_size := JInt 2\<rparr>)
     [(''attachments'', [attachment_row demo_attachment])] = (Inl x, d')"
proof -
  let ?d = "[(''attachments'', [attachment_row demo_attachment])]"
  have "typed attachments_table (attachment_row demo_attachment)" by (simp add: demo_attachment_def)
  moreover have "storable attachments_table (attachment_row demo_attachment)"
    by (simp add: storable_def attachment_row_def attachments_table_def not_null_def null_ok_def demo_attachment_def
      nul_def dynamic_def dump_models_def no_nul_def code_def)
  moreover have "attachments_table \<in> set brain_tables" "tb_name attachments_table = ''attachments''"
    by (simp_all add: brain_tables_def attachments_table_def)
  ultimately have "list_live brain_tables ?d" using one_row_live [of attachments_table] by simp
  moreover have "represents list_view (attachments_repo demo_codec) [''a'' \<mapsto> demo_attachment] ?d"
    by (rule representsI)
      (auto simp: attachments_repo_def attachments_table_def list_view_def table_rows_def demo_attachment_def
        split: if_splits)
  ultimately show ?thesis
    using recreated_attachment_raises [OF list_tables, of ?d demo_codec "[''a'' \<mapsto> demo_attachment]"
        "demo_attachment\<lparr>at_file_size := JInt 2\<rparr>" demo_attachment]
    by (simp add: demo_attachment_def)
qed


end
