(* ===== verification/Python_Ast.thy ===== *)
theory Python_Ast
  imports Code_Graph
begin

text \<open>
  The parser of Python files (\<open>adapters/code_intelligence/python_ast.py\<close>): the symbols, imports and
  relations it finds in a syntax tree. The tree is a datatype with the node classes the code
  tests for; \<open>ast.parse\<close>, \<open>ast.unparse\<close> and the hash of the content are the record \<open>python\<close>, as are
  the identifiers \<open>uuid4\<close> draws for the symbols and the relations of a file. \<open>ast.walk\<close> is the loop of the
  standard library: breadth first, children in the order of the fields.
\<close>

subsection \<open>Syntax trees\<close>

text \<open>Line, column, last line and last column; zero where the node has none.\<close>

type_synonym py_position = "int \<times> int \<times> int \<times> int"

text \<open>
  \<open>Py_Function\<close> is both kinds of function definition; a class and a function have the docstring
  \<open>ast.get_docstring\<close> finds. \<open>Py_Node\<close> is every other node: its class with the fields that
  are no nodes, and its children.
\<close>

datatype py_node =
    Py_Name string
  | Py_Attribute py_node string
  | Py_Call py_node "py_node list"
  | Py_Assign "py_node list" py_node
  | Py_Import "(string \<times> string option) list" py_position
  | Py_Import_From "string option" "(string \<times> string option) list" int py_position
  | Py_Arguments "py_node list" "py_node list" "py_node list"
  | Py_Class string "py_node list" "py_node list" "py_node list" "py_node list" "string option" py_position
  | Py_Function string py_node "py_node list" "py_node list" "py_node option" "py_node list" "string option" py_position
  | Py_Node string "py_node list"

text \<open>
  \<open>ast.iter_child_nodes\<close>. A class has its bases, keywords, body and then decorators and type
  parameters; the arguments of a function those only positional, the plain ones (\<open>args.args\<close>) and the rest.
\<close>

fun children :: "py_node \<Rightarrow> py_node list" where
  "children (Py_Attribute v a) = [v]"
| "children (Py_Call f xs) = f # xs"
| "children (Py_Assign ts v) = ts @ [v]"
| "children (Py_Arguments ps qs rs) = ps @ qs @ rs"
| "children (Py_Class n bases ks body ds doc pos) = bases @ ks @ body @ ds"
| "children (Py_Function n args body ds ret ts doc pos) =
     args # body @ ds @ (case ret of None \<Rightarrow> [] | Some r \<Rightarrow> [r]) @ ts"
| "children (Py_Node k xs) = xs"
| "children n = []"

lemma size_list_append: "size_list f (xs @ ys) = size_list f xs + size_list f ys"
  by (induction xs) auto

lemma size_children: "size_list size (children n) \<le> size n"
  by (cases n) (auto simp: size_list_append split: option.split)

text \<open>The queue of \<open>ast.walk\<close>.\<close>

function walk_queue :: "py_node list \<Rightarrow> py_node list" where
  "walk_queue [] = []"
| "walk_queue (n # todo) = n # walk_queue (todo @ children n)"
  by pat_completeness auto
termination
  by (relation "measure (size_list size)") (use size_children in \<open>auto simp: size_list_append less_Suc_eq_le\<close>)

definition walk :: "py_node \<Rightarrow> py_node list" where
  "walk n = walk_queue [n]"

definition walk_all :: "py_node list \<Rightarrow> py_node list" where
  "walk_all ns = concat (map walk ns)"

subsection \<open>What a body refers to\<close>

fun called_name :: "py_node \<Rightarrow> string option" where
  "called_name (Py_Call (Py_Name f) xs) = Some f"
| "called_name _ = None"

definition referenced_names :: "py_node list \<Rightarrow> string list" where
  "referenced_names body = List.map_filter called_name (walk_all body)"

fun call_site :: "py_node \<Rightarrow> json option" where
  "call_site (Py_Call (Py_Name f) xs) = Some (JDict [(''kind'', JStr ''name''), (''name'', JStr f)])"
| "call_site (Py_Call (Py_Attribute (Py_Attribute (Py_Name v) a) m) xs) =
     (if v = ''self''
      then Some (JDict [(''kind'', JStr ''self_method''), (''attr'', JStr a), (''method'', JStr m)]) else None)"
| "call_site (Py_Call (Py_Attribute (Py_Call (Py_Name c) ys) m) xs) =
     Some (JDict [(''kind'', JStr ''ctor_method''), (''name'', JStr c), (''method'', JStr m)])"
| "call_site (Py_Call (Py_Attribute (Py_Name v) m) xs) =
     Some (JDict [(''kind'', JStr ''attr_method''), (''name'', JStr v), (''method'', JStr m)])"
| "call_site _ = None"

definition call_sites :: "py_node list \<Rightarrow> json list" where
  "call_sites body = List.map_filter call_site (walk_all body)"

text \<open>The name assigned to an attribute of \<open>self\<close>, or called for it.\<close>

fun assigned_name :: "py_node \<Rightarrow> string option" where
  "assigned_name (Py_Name c) = Some c"
| "assigned_name v = called_name v"

fun self_attribute :: "py_node \<Rightarrow> string option" where
  "self_attribute (Py_Attribute (Py_Name v) a) = (if v = ''self'' then Some a else None)"
| "self_attribute _ = None"

fun assigned_attrs :: "py_node \<Rightarrow> (string \<times> string) list" where
  "assigned_attrs (Py_Assign ts v) =
     (case assigned_name v of
        None \<Rightarrow> []
      | Some c \<Rightarrow> map (\<lambda>a. (a, c)) (List.map_filter self_attribute ts))"
| "assigned_attrs _ = []"

fun is_function :: "py_node \<Rightarrow> bool" where
  "is_function (Py_Function n args body ds ret ts doc pos) = True"
| "is_function _ = False"

definition instance_attrs :: "py_node list \<Rightarrow> (string, string) dict" where
  "instance_attrs body =
     fold (\<lambda>(a, c). dict_set a c) (concat (map assigned_attrs (walk_all (filter is_function body)))) []"

text \<open>\<open>_attr_name\<close>: the dotted chain, without a head that is no name.\<close>

fun attr_parts :: "py_node \<Rightarrow> string list" where
  "attr_parts (Py_Attribute v a) = attr_parts v @ [a]"
| "attr_parts (Py_Name v) = [v]"
| "attr_parts _ = []"

subsection \<open>The builder of a file\<close>

record python =
  py_parse :: "string \<Rightarrow> (py_node list \<times> string option) option"
  py_unparse :: "py_node \<Rightarrow> string"
  py_hash :: "string \<Rightarrow> string"
  py_symbol_id :: "string \<Rightarrow> nat \<Rightarrow> uuid"
  py_relation_id :: "string \<Rightarrow> nat \<Rightarrow> uuid"

text \<open>
  The parse of a content (\<open>None\<close> where it raises \<open>SyntaxError\<close>): the body of the module and its
  docstring; the text of a node (empty where \<open>ast.unparse\<close> raises); the hash; and the identifiers of
  the n-th symbol and relation of the file with a path.
\<close>

record file_builder =
  fb_repository_id :: uuid
  fb_revision :: string
  fb_path :: string
  fb_module :: string
  fb_symbols :: "symbol list"
  fb_imports :: "import_statement list"
  fb_relations :: "code_relation list"
  fb_by_qualified :: "(string, symbol) dict"
  fb_pending :: "(symbol \<times> py_node list) list"

definition new_builder :: "uuid \<Rightarrow> string \<Rightarrow> string \<Rightarrow> string \<Rightarrow> file_builder" where
  "new_builder repo rvn path m =
     \<lparr>fb_repository_id = repo, fb_revision = rvn, fb_path = path, fb_module = m, fb_symbols = [],
      fb_imports = [], fb_relations = [], fb_by_qualified = [], fb_pending = []\<rparr>"

definition location :: "string \<Rightarrow> py_position \<Rightarrow> symbol_location" where
  "location path pos =
     (case pos of (l, c, l', c') \<Rightarrow>
        \<lparr>loc_path = path, loc_start_line = l, loc_start_column = c, loc_end_line = l', loc_end_column = c'\<rparr>)"

definition builder_identity :: "file_builder \<Rightarrow> string \<Rightarrow> symbol_kind \<Rightarrow> symbol_identity" where
  "builder_identity b q k =
     \<lparr>si_repository_id = fb_repository_id b, si_revision = fb_revision b, si_module = fb_module b,
      si_qualified_name = q, si_kind = k\<rparr>"

text \<open>The arguments of \<open>_add_symbol\<close> with a default.\<close>

record symbol_details =
  sd_parameters :: "string list"
  sd_return_annotation :: "string option"
  sd_decorators :: "string list"
  sd_docstring :: "string option"
  sd_metadata :: "(string \<times> json) list"

definition no_details :: symbol_details where
  "no_details =
     \<lparr>sd_parameters = [], sd_return_annotation = None, sd_decorators = [], sd_docstring = None, sd_metadata = []\<rparr>"

definition new_symbol :: "python \<Rightarrow> string \<Rightarrow> string \<Rightarrow> symbol_kind \<Rightarrow> py_position \<Rightarrow> symbol_details \<Rightarrow> file_builder
    \<Rightarrow> symbol" where
  "new_symbol py n q k pos sd b =
     \<lparr>sy_id = py_symbol_id py (fb_path b) (length (fb_symbols b)), sy_identity = builder_identity b q k,
      sy_name = n, sy_path = fb_path b, sy_kind = k, sy_location = location (fb_path b) pos,
      sy_qualified_name = q, sy_parameters = sd_parameters sd, sy_return_annotation = sd_return_annotation sd,
      sy_decorators = sd_decorators sd, sy_docstring = sd_docstring sd, sy_content_hash = None,
      sy_metadata = sd_metadata sd\<rparr>"

definition put_symbol :: "symbol \<Rightarrow> file_builder \<Rightarrow> file_builder" where
  "put_symbol s b =
     b\<lparr>fb_symbols := fb_symbols b @ [s], fb_by_qualified := dict_set (sy_qualified_name s) s (fb_by_qualified b)\<rparr>"

definition add_symbol :: "python \<Rightarrow> string \<Rightarrow> string \<Rightarrow> symbol_kind \<Rightarrow> py_position \<Rightarrow> symbol_details \<Rightarrow> file_builder
    \<Rightarrow> symbol \<times> file_builder" where
  "add_symbol py n q k pos sd b = (let s = new_symbol py n q k pos sd b in (s, put_symbol s b))"

definition add_local_relation :: "python \<Rightarrow> code_relation_type \<Rightarrow> symbol \<Rightarrow> symbol \<Rightarrow> (string \<times> json) list \<Rightarrow> file_builder
    \<Rightarrow> file_builder" where
  "add_local_relation py t src tgt meta b =
     b\<lparr>fb_relations := fb_relations b @
       [\<lparr>cr_rel_id = py_relation_id py (fb_path b) (length (fb_relations b)), cr_type = t,
         cr_source = sy_identity src, cr_target = sy_identity tgt, cr_repository_id = fb_repository_id b,
         cr_revision = fb_revision b, cr_source_path = fb_path b, cr_target_path = Some (fb_path b),
         cr_confidence = 100, cr_metadata = meta\<rparr>]\<rparr>"

text \<open>\<open>alias or name or module.split('.')[-1]\<close>.\<close>

definition import_target :: "string \<Rightarrow> string option \<Rightarrow> string option \<Rightarrow> string" where
  "import_target m n as =
     (case as of Some (c # cs) \<Rightarrow> c # cs
      | _ \<Rightarrow> (case n of Some (c # cs) \<Rightarrow> c # cs | _ \<Rightarrow> after_last (CHR ''.'') m))"

definition record_import :: "python \<Rightarrow> string \<Rightarrow> string option \<Rightarrow> string option \<Rightarrow> bool \<Rightarrow> int \<Rightarrow> py_position
    \<Rightarrow> file_builder \<Rightarrow> file_builder" where
  "record_import py m n as rel level pos b =
     (let b1 = b\<lparr>fb_imports := fb_imports b @
            [\<lparr>im_module = m, im_name = n, im_alias = as, im_is_relative = rel, im_level = level,
              im_is_local = None, im_location = location (fb_path b) pos\<rparr>]\<rparr>;
          target = import_target m n as;
          (s, b2) = add_symbol py target (fb_module b1 @ ''.'' @ target) Import_Symbol pos
            (no_details\<lparr>sd_metadata := [(''import_module'', JStr m),
               (''import_name'', JStr (case n of None \<Rightarrow> [] | Some x \<Rightarrow> x))]\<rparr>) b1
      in case dict_get (fb_by_qualified b2) (fb_module b2) of
           None \<Rightarrow> b2
         | Some ms \<Rightarrow> add_local_relation py Imports ms s [(''import_module'', JStr m)] b2)"

definition handle_function :: "python \<Rightarrow> symbol \<Rightarrow> symbol_kind \<Rightarrow> py_node \<Rightarrow> file_builder \<Rightarrow> file_builder" where
  "handle_function py parent k node b =
     (case node of
        Py_Function n args body ds ret ts doc pos \<Rightarrow>
          (let q = (if sy_kind parent \<in> {Class_Symbol, Method_Symbol} then sy_qualified_name parent else fb_module b)
                   @ ''.'' @ n;
               plain = (case args of Py_Arguments ps qs rs \<Rightarrow> qs | _ \<Rightarrow> []);
               (s, b1) = add_symbol py n q k pos
                 \<lparr>sd_parameters = map (py_unparse py) plain, sd_return_annotation = map_option (py_unparse py) ret,
                  sd_decorators = map (py_unparse py) ds, sd_docstring = doc,
                  sd_metadata = [(''referenced'', JList (map JStr (referenced_names body))),
                                 (''call_sites'', JList (call_sites body))]\<rparr> b
           in b1\<lparr>fb_pending := fb_pending b1 @ [(s, body)]\<rparr>)
      | _ \<Rightarrow> b)"

definition inherit_local :: "python \<Rightarrow> symbol \<Rightarrow> string \<Rightarrow> file_builder \<Rightarrow> file_builder" where
  "inherit_local py s base b =
     (case dict_get (fb_by_qualified b) (fb_module b @ ''.'' @ base) of
        None \<Rightarrow> b
      | Some bs \<Rightarrow> if sy_id bs = sy_id s then b else add_local_relation py Inherits s bs [(''base'', JStr base)] b)"

definition handle_class :: "python \<Rightarrow> py_node \<Rightarrow> file_builder \<Rightarrow> file_builder" where
  "handle_class py node b =
     (case node of
        Py_Class n bases ks body ds doc pos \<Rightarrow>
          (let names = map (py_unparse py) bases;
               (s, b1) = add_symbol py n (fb_module b @ ''.'' @ n) Class_Symbol pos
                 (no_details\<lparr>sd_docstring := doc,
                    sd_metadata := [(''bases'', JList (map JStr names)),
                      (''instance_attrs'', JDict (map (\<lambda>(a, c). (a, JStr c)) (instance_attrs body)))]\<rparr>) b
           in fold (handle_function py s Method_Symbol) (filter is_function body) (fold (inherit_local py s) names b1))
      | _ \<Rightarrow> b)"

definition handle_node :: "python \<Rightarrow> symbol \<Rightarrow> py_node \<Rightarrow> file_builder \<Rightarrow> file_builder" where
  "handle_node py ms node b =
     (case node of
        Py_Import names pos \<Rightarrow> fold (\<lambda>(n, as). record_import py n None as False 0 pos) names b
      | Py_Import_From m names level pos \<Rightarrow>
          fold (\<lambda>(n, as). record_import py (case m of None \<Rightarrow> [] | Some x \<Rightarrow> x) (Some n) as (level > 0) level pos)
            (filter (\<lambda>(n, as). n \<noteq> ''*'') names) b
      | Py_Class n bases ks body ds doc pos \<Rightarrow> handle_class py node b
      | Py_Function n args body ds ret ts doc pos \<Rightarrow> handle_function py ms Function_Symbol node b
      | _ \<Rightarrow> b)"

text \<open>The pending call sites, resolved when every symbol of the file is known.\<close>

fun called_key :: "py_node \<Rightarrow> string option" where
  "called_key (Py_Call (Py_Name f) xs) = Some f"
| "called_key (Py_Call (Py_Attribute v a) xs) = Some (join ''.'' (attr_parts (Py_Attribute v a)))"
| "called_key _ = None"

definition extract_call :: "python \<Rightarrow> symbol \<Rightarrow> py_node \<Rightarrow> file_builder \<Rightarrow> file_builder" where
  "extract_call py caller node b =
     (case called_key node of
        None \<Rightarrow> b
      | Some key \<Rightarrow>
          (case dict_get (fb_by_qualified b) (fb_module b @ ''.'' @ key) of
             None \<Rightarrow> b
           | Some t \<Rightarrow> add_local_relation py Calls caller t [] b))"

definition extract_instantiation :: "python \<Rightarrow> symbol \<Rightarrow> py_node \<Rightarrow> file_builder \<Rightarrow> file_builder" where
  "extract_instantiation py caller node b =
     (case called_name node of
        None \<Rightarrow> b
      | Some key \<Rightarrow>
          (case dict_get (fb_by_qualified b) (fb_module b @ ''.'' @ key) of
             None \<Rightarrow> b
           | Some t \<Rightarrow> if sy_kind t = Class_Symbol then add_local_relation py Instantiates caller t [] b else b))"

definition extract_pending :: "python \<Rightarrow> symbol \<times> py_node list \<Rightarrow> file_builder \<Rightarrow> file_builder" where
  "extract_pending py p b =
     (case p of (caller, body) \<Rightarrow>
        fold (extract_instantiation py caller) (walk_all body) (fold (extract_call py caller) (walk_all body) b))"

definition build_file :: "python \<Rightarrow> py_node list \<Rightarrow> string option \<Rightarrow> file_builder \<Rightarrow> file_builder" where
  "build_file py body doc b =
     (let short = after_last (CHR ''.'') (fb_module b);
          (ms, b1) = add_symbol py (if short = [] then fb_path b else short) (fb_module b) Module_Symbol (0, 0, 0, 0)
            (no_details\<lparr>sd_docstring := doc\<rparr>) b;
          b2 = fold (handle_node py ms) body b1
      in (fold (extract_pending py) (fb_pending b2) b2)\<lparr>fb_pending := []\<rparr>)"

definition parse_python :: "python \<Rightarrow> uuid \<Rightarrow> string \<Rightarrow> string \<Rightarrow> string \<Rightarrow> parsed_file option" where
  "parse_python py repo rvn path content =
     (case py_parse py content of
        None \<Rightarrow> None
      | Some (body, doc) \<Rightarrow>
          (let b = build_file py body doc (new_builder repo rvn path (module_from_path path)) in
           Some \<lparr>pf_path = path, pf_module = module_from_path path, pf_language = ''python'',
                 pf_repository_id = repo, pf_revision = rvn, pf_content_hash = py_hash py content,
                 pf_symbols = fb_symbols b, pf_imports = fb_imports b, pf_relations = fb_relations b,
                 pf_metadata = []\<rparr>))"

subsection \<open>What the builder keeps\<close>

definition symbol_ok :: "uuid \<Rightarrow> string \<Rightarrow> string \<Rightarrow> string \<Rightarrow> symbol \<Rightarrow> bool" where
  "symbol_ok repo rvn path m s \<longleftrightarrow>
     sy_path s = path \<and> si_repository_id (sy_identity s) = repo \<and> si_revision (sy_identity s) = rvn \<and>
     si_module (sy_identity s) = m \<and> si_qualified_name (sy_identity s) = sy_qualified_name s \<and>
     si_kind (sy_identity s) = sy_kind s"

text \<open>A relation of a revision between two of the symbols.\<close>

definition relation_ok :: "uuid \<Rightarrow> string \<Rightarrow> symbol set \<Rightarrow> code_relation \<Rightarrow> bool" where
  "relation_ok repo rvn S r \<longleftrightarrow> cr_repository_id r = repo \<and> cr_revision r = rvn \<and>
     (\<exists>s \<in> S. \<exists>t \<in> S. cr_source r = sy_identity s \<and> cr_target r = sy_identity t \<and>
        cr_source_path r = sy_path s \<and> cr_target_path r = Some (sy_path t))"

definition builder_ok :: "file_builder \<Rightarrow> bool" where
  "builder_ok b \<longleftrightarrow>
     (\<forall>s \<in> set (fb_symbols b). symbol_ok (fb_repository_id b) (fb_revision b) (fb_path b) (fb_module b) s) \<and>
     (\<forall>k s. dict_get (fb_by_qualified b) k = Some s \<longrightarrow> s \<in> set (fb_symbols b) \<and> sy_qualified_name s = k) \<and>
     (\<forall>r \<in> set (fb_relations b). relation_ok (fb_repository_id b) (fb_revision b) (set (fb_symbols b)) r) \<and>
     (\<forall>p \<in> set (fb_pending b). fst p \<in> set (fb_symbols b))"

definition builder_frame :: "file_builder \<Rightarrow> file_builder \<Rightarrow> bool" where
  "builder_frame b b' \<longleftrightarrow> fb_repository_id b' = fb_repository_id b \<and> fb_revision b' = fb_revision b \<and>
     fb_path b' = fb_path b \<and> fb_module b' = fb_module b \<and> set (fb_symbols b) \<subseteq> set (fb_symbols b')"

lemma frame_refl [simp]: "builder_frame b b"
  by (simp add: builder_frame_def)

lemma frame_trans: "\<lbrakk>builder_frame b c; builder_frame c d\<rbrakk> \<Longrightarrow> builder_frame b d"
  by (auto simp: builder_frame_def)

lemma frame_symbol: "\<lbrakk>builder_frame b c; s \<in> set (fb_symbols b)\<rbrakk> \<Longrightarrow> s \<in> set (fb_symbols c)"
  by (auto simp: builder_frame_def)

lemma relation_ok_mono: "\<lbrakk>relation_ok repo rvn S r; S \<subseteq> T\<rbrakk> \<Longrightarrow> relation_ok repo rvn T r"
  unfolding relation_ok_def by blast

lemma fold_keeps:
  assumes "builder_ok b"
    and step: "\<And>x c. \<lbrakk>x \<in> set xs; builder_ok c; builder_frame b c\<rbrakk> \<Longrightarrow> builder_ok (f x c) \<and> builder_frame c (f x c)"
  shows "builder_ok (fold f xs b) \<and> builder_frame b (fold f xs b)"
  using assms
proof (induction xs arbitrary: b)
  case (Cons x xs)
  have x: "builder_ok (f x b)" "builder_frame b (f x b)" using Cons.prems(2) [of x b] Cons.prems(1) by simp_all
  have "builder_ok (fold f xs (f x b)) \<and> builder_frame (f x b) (fold f xs (f x b))"
    by (rule Cons.IH [OF x(1)]) (use Cons.prems(2) frame_trans [OF x(2)] in simp)
  then show ?case using frame_trans [OF x(2)] by simp
qed simp

lemma add_symbol_ok:
  assumes "builder_ok b" "add_symbol py n q k pos sd b = (s, b')"
  shows "builder_ok b'" "builder_frame b b'" "s \<in> set (fb_symbols b')" "sy_kind s = k"
proof -
  have s: "s = new_symbol py n q k pos sd b" "b' = put_symbol s b" using assms(2) by (auto simp: add_symbol_def Let_def)
  show "sy_kind s = k" by (simp add: s new_symbol_def)
  show "s \<in> set (fb_symbols b')" "builder_frame b b'" by (auto simp: s(2) put_symbol_def builder_frame_def)
  have ok: "symbol_ok (fb_repository_id b) (fb_revision b) (fb_path b) (fb_module b) s"
    by (simp add: s(1) symbol_ok_def new_symbol_def builder_identity_def)
  note b = assms(1) [unfolded builder_ok_def]
  have "relation_ok (fb_repository_id b) (fb_revision b) (insert s (set (fb_symbols b))) r"
    if "r \<in> set (fb_relations b)" for r
    using b that relation_ok_mono [of _ _ _ r] by blast
  then show "builder_ok b'"
    using b ok unfolding s(2) put_symbol_def builder_ok_def by (auto simp: update_conv' split: if_splits)
qed

lemma add_relation_ok:
  assumes "builder_ok b" "s \<in> set (fb_symbols b)" "t \<in> set (fb_symbols b)"
  shows "builder_ok (add_local_relation py ty s t meta b)" "builder_frame b (add_local_relation py ty s t meta b)"
proof -
  note b = assms(1) [unfolded builder_ok_def]
  have "sy_path s = fb_path b" "sy_path t = fb_path b" using b assms(2,3) by (auto simp: symbol_ok_def)
  then show "builder_ok (add_local_relation py ty s t meta b)"
    using b assms(2,3) unfolding add_local_relation_def builder_ok_def by (fastforce simp: relation_ok_def)
  show "builder_frame b (add_local_relation py ty s t meta b)" by (simp add: add_local_relation_def builder_frame_def)
qed

lemma found_symbol: "\<lbrakk>builder_ok b; dict_get (fb_by_qualified b) k = Some s\<rbrakk> \<Longrightarrow> s \<in> set (fb_symbols b)"
  unfolding builder_ok_def by blast

lemma record_import_ok:
  assumes "builder_ok b"
  shows "builder_ok (record_import py m n as rel level pos b) \<and> builder_frame b (record_import py m n as rel level pos b)"
proof -
  define b1 where "b1 = b\<lparr>fb_imports := fb_imports b @
            [\<lparr>im_module = m, im_name = n, im_alias = as, im_is_relative = rel, im_level = level,
              im_is_local = None, im_location = location (fb_path b) pos\<rparr>]\<rparr>"
  have b1: "builder_ok b1" "builder_frame b b1" using assms by (simp_all add: b1_def builder_ok_def builder_frame_def)
  obtain s b2 where b2: "add_symbol py (import_target m n as) (fb_module b1 @ ''.'' @ import_target m n as) Import_Symbol pos
            (no_details\<lparr>sd_metadata := [(''import_module'', JStr m),
               (''import_name'', JStr (case n of None \<Rightarrow> [] | Some x \<Rightarrow> x))]\<rparr>) b1 = (s, b2)" by fastforce
  note k = add_symbol_ok [OF b1(1) b2]
  have "record_import py m n as rel level pos b =
     (case dict_get (fb_by_qualified b2) (fb_module b2) of
        None \<Rightarrow> b2 | Some ms \<Rightarrow> add_local_relation py Imports ms s [(''import_module'', JStr m)] b2)"
    unfolding record_import_def Let_def b1_def [symmetric] b2 by simp
  then show ?thesis
    using k add_relation_ok [OF k(1) found_symbol [OF k(1)] k(3)] frame_trans [OF b1(2) k(2)]
    by (auto split: option.split intro: frame_trans)
qed

lemma handle_function_ok:
  assumes "builder_ok b"
  shows "builder_ok (handle_function py parent k node b) \<and> builder_frame b (handle_function py parent k node b)"
proof (cases node)
  case (Py_Function n args body ds ret ts doc pos)
  obtain s b1 where b1: "add_symbol py n
      ((if sy_kind parent \<in> {Class_Symbol, Method_Symbol} then sy_qualified_name parent else fb_module b) @ ''.'' @ n) k pos
      \<lparr>sd_parameters = map (py_unparse py) (case args of Py_Arguments ps qs rs \<Rightarrow> qs | _ \<Rightarrow> []),
       sd_return_annotation = map_option (py_unparse py) ret, sd_decorators = map (py_unparse py) ds, sd_docstring = doc,
       sd_metadata = [(''referenced'', JList (map JStr (referenced_names body))),
                      (''call_sites'', JList (call_sites body))]\<rparr> b = (s, b1)" by fastforce
  note k = add_symbol_ok [OF assms b1]
  have "handle_function py parent k node b = b1\<lparr>fb_pending := fb_pending b1 @ [(s, body)]\<rparr>"
    unfolding handle_function_def Py_Function py_node.case Let_def b1 by simp
  moreover have "builder_ok (b1\<lparr>fb_pending := fb_pending b1 @ [(s, body)]\<rparr>)"
    using k(1,3) by (auto simp: builder_ok_def)
  moreover have "builder_frame b1 (b1\<lparr>fb_pending := fb_pending b1 @ [(s, body)]\<rparr>)" by (simp add: builder_frame_def)
  ultimately show ?thesis using frame_trans [OF k(2)] by simp
qed (use assms in \<open>simp_all add: handle_function_def\<close>)

lemma handle_class_ok:
  assumes "builder_ok b"
  shows "builder_ok (handle_class py node b) \<and> builder_frame b (handle_class py node b)"
proof (cases node)
  case (Py_Class n bases ks body ds doc pos)
  obtain s b1 where b1: "add_symbol py n (fb_module b @ ''.'' @ n) Class_Symbol pos
      (no_details\<lparr>sd_docstring := doc,
         sd_metadata := [(''bases'', JList (map JStr (map (py_unparse py) bases))),
           (''instance_attrs'', JDict (map (\<lambda>(a, c). (a, JStr c)) (instance_attrs body)))]\<rparr>) b = (s, b1)" by fastforce
  note k = add_symbol_ok [OF assms b1]
  define b2 where "b2 = fold (inherit_local py s) (map (py_unparse py) bases) b1"
  have inherit: "builder_ok (inherit_local py s base c) \<and> builder_frame c (inherit_local py s base c)"
    if "builder_ok c" "builder_frame b1 c" for base c
    using that add_relation_ok [OF that(1) frame_symbol [OF that(2) k(3)] found_symbol [OF that(1)]]
    by (auto simp: inherit_local_def split: option.split)
  have b2: "builder_ok b2 \<and> builder_frame b1 b2"
    unfolding b2_def by (rule fold_keeps [OF k(1)]) (use inherit in blast)
  have "builder_ok (fold (handle_function py s Method_Symbol) (filter is_function body) b2) \<and>
      builder_frame b2 (fold (handle_function py s Method_Symbol) (filter is_function body) b2)"
    by (rule fold_keeps) (use b2 handle_function_ok in blast)+
  moreover have "handle_class py node b = fold (handle_function py s Method_Symbol) (filter is_function body) b2"
    unfolding handle_class_def Py_Class py_node.case Let_def b1 b2_def by simp
  ultimately show ?thesis using frame_trans [OF k(2)] frame_trans [of b1 b2] b2 by metis
qed (use assms in \<open>simp_all add: handle_class_def\<close>)

lemma handle_node_ok:
  assumes "builder_ok b"
  shows "builder_ok (handle_node py ms node b) \<and> builder_frame b (handle_node py ms node b)"
proof -
  have imported: "builder_ok (fold (\<lambda>(n, as). record_import py (m n) (n' n) as rel level pos) names b) \<and>
      builder_frame b (fold (\<lambda>(n, as). record_import py (m n) (n' n) as rel level pos) names b)"
    for names m n' rel level pos
    by (rule fold_keeps [OF assms]) (use record_import_ok in \<open>auto split: prod.split\<close>)
  show ?thesis
    using imported [of "\<lambda>n. n" "\<lambda>n. None"] imported [of "\<lambda>n. case m of None \<Rightarrow> [] | Some x \<Rightarrow> x" Some for m]
      assms handle_class_ok [OF assms] handle_function_ok [OF assms]
    by (cases node) (simp_all add: handle_node_def)
qed

lemma extract_pending_ok:
  assumes "builder_ok b" "fst p \<in> set (fb_symbols b)"
  shows "builder_ok (extract_pending py p b) \<and> builder_frame b (extract_pending py p b)"
proof -
  obtain caller body where p: "p = (caller, body)" by (cases p)
  have call: "builder_ok (extract_call py caller n c) \<and> builder_frame c (extract_call py caller n c)"
    and inst: "builder_ok (extract_instantiation py caller n c) \<and> builder_frame c (extract_instantiation py caller n c)"
    if "builder_ok c" "builder_frame b c" for n c
    using that add_relation_ok [OF that(1) frame_symbol [OF that(2)] found_symbol [OF that(1)]] assms(2)
    by (auto simp: extract_call_def extract_instantiation_def p split: option.split)
  define b1 where "b1 = fold (extract_call py caller) (walk_all body) b"
  have b1: "builder_ok b1 \<and> builder_frame b b1"
    unfolding b1_def by (rule fold_keeps [OF assms(1)]) (use call in blast)
  have "builder_ok (fold (extract_instantiation py caller) (walk_all body) b1) \<and>
      builder_frame b1 (fold (extract_instantiation py caller) (walk_all body) b1)"
    by (rule fold_keeps) (use b1 inst frame_trans in blast)+
  then show ?thesis using b1 frame_trans unfolding extract_pending_def p b1_def by auto
qed

lemma new_builder_fields [simp]:
  "fb_repository_id (new_builder repo rvn path m) = repo" "fb_revision (new_builder repo rvn path m) = rvn"
  "fb_path (new_builder repo rvn path m) = path" "fb_module (new_builder repo rvn path m) = m"
  by (simp_all add: new_builder_def)

lemma new_builder_ok: "builder_ok (new_builder repo rvn path m)"
  by (simp add: builder_ok_def new_builder_def)

lemma build_file_ok:
  assumes "builder_ok b"
  shows "builder_ok (build_file py body doc b) \<and> builder_frame b (build_file py body doc b) \<and>
    (\<exists>s \<in> set (fb_symbols (build_file py body doc b)). sy_kind s = Module_Symbol)"
proof -
  obtain ms b1 where b1: "add_symbol py
      (if after_last (CHR ''.'') (fb_module b) = [] then fb_path b else after_last (CHR ''.'') (fb_module b))
      (fb_module b) Module_Symbol (0, 0, 0, 0) (no_details\<lparr>sd_docstring := doc\<rparr>) b = (ms, b1)" by fastforce
  note k = add_symbol_ok [OF assms b1]
  define b2 where "b2 = fold (handle_node py ms) body b1"
  have b2: "builder_ok b2" "builder_frame b1 b2"
    unfolding b2_def using fold_keeps [OF k(1), of body "handle_node py ms"] handle_node_ok by blast+
  define b3 where "b3 = fold (extract_pending py) (fb_pending b2) b2"
  have "fst p \<in> set (fb_symbols b2)" if "p \<in> set (fb_pending b2)" for p
    using b2(1) that by (simp add: builder_ok_def)
  then have b3: "builder_ok b3 \<and> builder_frame b2 b3"
    unfolding b3_def by (intro fold_keeps [OF b2(1)] extract_pending_ok) (auto intro: frame_symbol)
  have "build_file py body doc b = b3\<lparr>fb_pending := []\<rparr>"
    unfolding build_file_def Let_def b1 b2_def b3_def by simp
  moreover have "ms \<in> set (fb_symbols b3)" using k(3) b2(2) b3 frame_symbol by blast
  ultimately show ?thesis
    using b3 k(4) frame_trans [OF frame_trans [OF k(2) b2(2)], of b3] by (auto simp: builder_ok_def builder_frame_def)
qed

text \<open>A file the indexer may rely on: its symbols are its own, and its relations link them.\<close>

definition file_ok :: "uuid \<Rightarrow> string \<Rightarrow> parsed_file \<Rightarrow> bool" where
  "file_ok repo rvn p \<longleftrightarrow>
     pf_repository_id p = repo \<and> pf_revision p = rvn \<and>
     (\<forall>s \<in> set (pf_symbols p). symbol_ok repo rvn (pf_path p) (pf_module p) s) \<and>
     (\<forall>r \<in> set (pf_relations p). relation_ok repo rvn (set (pf_symbols p)) r)"

lemma parsed_file_ok:
  assumes "parse_python py repo rvn path content = Some p"
  shows "file_ok repo rvn p \<and> pf_path p = path \<and> pf_module p = module_from_path path \<and>
    (\<exists>s \<in> set (pf_symbols p). sy_kind s = Module_Symbol)"
proof -
  let ?b = "new_builder repo rvn path (module_from_path path)"
  obtain body doc where "p = (let b = build_file py body doc ?b in
      \<lparr>pf_path = path, pf_module = module_from_path path, pf_language = ''python'', pf_repository_id = repo,
       pf_revision = rvn, pf_content_hash = py_hash py content, pf_symbols = fb_symbols b, pf_imports = fb_imports b,
       pf_relations = fb_relations b, pf_metadata = []\<rparr>)"
    using assms by (auto simp: parse_python_def Let_def split: option.splits)
  then show ?thesis
    using build_file_ok [OF new_builder_ok, of py body doc repo rvn path "module_from_path path"]
    by (auto simp: Let_def file_ok_def builder_ok_def builder_frame_def)
qed

text \<open>
  C32: Whatever the syntax tree, the parsed file is well formed: it has a symbol for its module,
  every symbol carries the identity of this repository, revision and module and the path of the
  file, and both ends of every relation - import, inheritance, call, instantiation - are symbols of the file.
\<close>

theorem parsed_file_is_well_formed:
  assumes "parse_python py repo rvn path content = Some p"
  shows "file_ok repo rvn p \<and> pf_path p = path \<and> pf_module p = module_from_path path \<and>
    (\<exists>s \<in> set (pf_symbols p). sy_kind s = Module_Symbol)"
  using assms by (rule parsed_file_ok)

text \<open>A file with an import, a class with a method, and a function that calls both.\<close>

definition demo_python :: python where
  "demo_python =
     \<lparr>py_parse = (\<lambda>c. Some ([Py_Import [(''os'', None)] (1, 0, 1, 9),
          Py_Class ''A'' [Py_Name ''B''] [] [Py_Function ''run'' (Py_Arguments [] [] []) [] [] None [] None (3, 4, 3, 20)]
            [] None (2, 0, 3, 20),
          Py_Function ''f'' (Py_Arguments [] [] []) [Py_Node ''Expr'' [Py_Call (Py_Name ''A'') []]] [] None [] None
            (4, 0, 4, 15)], None)),
      py_unparse = (\<lambda>n. case n of Py_Name x \<Rightarrow> x | _ \<Rightarrow> []), py_hash = (\<lambda>c. []),
      py_symbol_id = (\<lambda>p n. p @ replicate n CHR ''s''), py_relation_id = (\<lambda>p n. p @ replicate n CHR ''r'')\<rparr>"

lemma parsed_file_is_well_formed_witness:
  "\<exists>p. parse_python demo_python ''r'' ''v'' ''a.py'' [] = Some p \<and> file_ok ''r'' ''v'' p"
proof -
  obtain p where "parse_python demo_python ''r'' ''v'' ''a.py'' [] = Some p"
    by (simp add: parse_python_def demo_python_def Let_def)
  then show ?thesis using parsed_file_is_well_formed by blast
qed

end
