(* ===== verification/Code_Indexing.thy ===== *)
theory Code_Indexing
  imports Python_Ast
begin

text \<open>
  The indexing of a revision (\<open>CodeIntelligenceService.build_revision\<close> and \<open>_GraphResolver\<close> of
  \<open>application/code_intelligence.py\<close>): every Python file is parsed, imports, calls, base classes and
  tests are resolved across the files, and the facts are stored in the code graph. The parser is
  a parameter; its contract is \<open>file_ok\<close>, which \<open>Python_Ast\<close> proves of the parser of the repository.
\<close>

subsection \<open>The resolver\<close>

text \<open>
  The maps the constructor builds from the module names (the last file of a name wins), and the
  name an import binds in a file: its module and the imported name.
\<close>

definition module_files :: "parsed_file list \<Rightarrow> (string, parsed_file) dict" where
  "module_files fs = fold (\<lambda>p. dict_set (pf_module p) p) fs []"

type_synonym local_names = "(string, string \<times> string) dict"

definition module_symbol :: "parsed_file \<Rightarrow> symbol option" where
  "module_symbol p = List.find (\<lambda>s. sy_kind s = Module_Symbol) (pf_symbols p)"

definition symbol_of_module :: "parsed_file list \<Rightarrow> string \<Rightarrow> symbol option" where
  "symbol_of_module fs m = Option.bind (dict_get (module_files fs) m) module_symbol"

definition by_module_symbol :: "parsed_file list \<Rightarrow> string \<Rightarrow> string \<Rightarrow> symbol option" where
  "by_module_symbol fs m n =
     (case dict_get (module_files fs) m of
        None \<Rightarrow> None
      | Some f \<Rightarrow> List.find (\<lambda>s. sy_name s = n \<and> sy_kind s \<in> {Class_Symbol, Function_Symbol}) (pf_symbols f))"

text \<open>\<open>_resolve_module\<close>: a relative import climbs from the package of the importing module.\<close>

definition resolve_module :: "parsed_file list \<Rightarrow> string \<Rightarrow> import_statement \<Rightarrow> string option" where
  "resolve_module fs current i =
     (let known = (\<lambda>m. if dict_get (module_files fs) m = None then None else Some m) in
      if \<not> im_is_relative i then known (im_module i)
      else
        (let parts = split_on (CHR ''.'') current;
             package = (case dict_get (module_files fs) current of
                 None \<Rightarrow> False
               | Some f \<Rightarrow> after_last (CHR ''/'') (pf_path f) = ''__init__.py'');
             container = (if package then parts else butlast parts);
             climbed = take (length container - nat (im_level i - 1)) container
         in known (join ''.'' (climbed @ (if im_module i = [] then [] else split_on (CHR ''.'') (im_module i))))))"

text \<open>\<open>_add_relation\<close>, with the source and the target it arrives at.\<close>

definition relate :: "(string \<Rightarrow> nat \<Rightarrow> uuid) \<Rightarrow> uuid \<Rightarrow> string \<Rightarrow> code_relation_type \<Rightarrow> symbol option \<Rightarrow> symbol option
    \<Rightarrow> int \<Rightarrow> (string \<times> json) list \<Rightarrow> parsed_file \<Rightarrow> parsed_file" where
  "relate ids repo rvn t src tgt conf meta p =
     (case (src, tgt) of
        (Some s, Some u) \<Rightarrow>
          if sy_id s = sy_id u then p
          else p\<lparr>pf_relations := pf_relations p @
            [\<lparr>cr_rel_id = ids (pf_path p) (length (pf_relations p)), cr_type = t, cr_source = sy_identity s,
              cr_target = sy_identity u, cr_repository_id = repo, cr_revision = rvn, cr_source_path = sy_path s,
              cr_target_path = Some (sy_path u), cr_confidence = conf, cr_metadata = meta\<rparr>]\<rparr>
      | _ \<Rightarrow> p)"

text \<open>\<open>source_symbol or self._module_symbol(parsed) or parsed_symbol\<close>.\<close>

definition or_symbol :: "symbol option \<Rightarrow> symbol option \<Rightarrow> symbol option" where
  "or_symbol a b = (case a of None \<Rightarrow> b | Some s \<Rightarrow> a)"

record resolver =
  rs_ids :: "string \<Rightarrow> nat \<Rightarrow> uuid"
  rs_repository_id :: uuid
  rs_revision :: string
  rs_files :: "parsed_file list"

definition resolve_import :: "resolver \<Rightarrow> import_statement \<Rightarrow> local_names \<times> parsed_file \<Rightarrow> local_names \<times> parsed_file" where
  "resolve_import rv i st =
     (case st of (names, p) \<Rightarrow>
        (case resolve_module (rs_files rv) (pf_module p) i of
           None \<Rightarrow> st
         | Some m \<Rightarrow>
             (case symbol_of_module (rs_files rv) m of
                None \<Rightarrow> st
              | Some ms \<Rightarrow>
                  ((case im_name i of
                      Some (c # cs) \<Rightarrow>
                        dict_set (case im_alias i of Some (d # ds) \<Rightarrow> d # ds | _ \<Rightarrow> c # cs) (m, c # cs) names
                    | _ \<Rightarrow> names),
                   relate (rs_ids rv) (rs_repository_id rv) (rs_revision rv) Imports
                     (or_symbol (module_symbol p) (Some ms)) (Some ms) 100 [(''module'', JStr m)] p))))"

definition names_json :: "local_names \<Rightarrow> json" where
  "names_json names = JDict (map (\<lambda>(n, m, t). (n, JList [JStr m, JStr t])) names)"

definition resolve_file_imports :: "resolver \<Rightarrow> parsed_file \<Rightarrow> local_names \<times> parsed_file" where
  "resolve_file_imports rv p =
     (let (names, p1) = fold (resolve_import rv) (pf_imports p) ([], p)
      in (names, p1\<lparr>pf_metadata := dict_set ''_local_names'' (names_json names) (pf_metadata p1)\<rparr>))"

definition resolve_imported_name :: "parsed_file list \<Rightarrow> local_names \<Rightarrow> string \<Rightarrow> symbol option" where
  "resolve_imported_name fs names n =
     (case dict_get names n of
        None \<Rightarrow> None
      | Some (m, t) \<Rightarrow> or_symbol (if t = [] then None else by_module_symbol fs m t) (symbol_of_module fs m))"

definition find_method :: "parsed_file list \<Rightarrow> symbol \<Rightarrow> string \<Rightarrow> symbol option" where
  "find_method fs c m =
     (if sy_kind c \<noteq> Class_Symbol then None
      else List.find (\<lambda>s. sy_qualified_name s = sy_qualified_name c @ ''.'' @ m \<and> sy_kind s = Method_Symbol)
             (concat (map pf_symbols fs)))"

definition enclosing_class :: "parsed_file list \<Rightarrow> symbol \<Rightarrow> symbol option" where
  "enclosing_class fs s =
     (let parts = split_on (CHR ''.'') (sy_qualified_name s) in
      if length parts < 3 then None
      else case dict_get (module_files fs) (si_module (sy_identity s)) of
             None \<Rightarrow> None
           | Some f \<Rightarrow> List.find (\<lambda>c. sy_kind c = Class_Symbol \<and> sy_name c = last (butlast parts)) (pf_symbols f))"

text \<open>A text of a call site; the sites the parser writes hold texts only.\<close>

definition site_text :: "(string \<times> json) list \<Rightarrow> string \<Rightarrow> string" where
  "site_text d k = (case jget d k of JStr s \<Rightarrow> s | _ \<Rightarrow> [])"

definition class_attrs :: "parsed_file \<Rightarrow> (string, (string, string) dict) dict" where
  "class_attrs p =
     fold (\<lambda>s d. case jget (sy_metadata s) ''instance_attrs'' of
         JDict a \<Rightarrow> dict_set (sy_qualified_name s) (map (\<lambda>(k, v). (k, py_str v)) a) d
       | _ \<Rightarrow> d) (filter (\<lambda>s. sy_kind s = Class_Symbol) (pf_symbols p)) []"

definition resolve_call_site :: "parsed_file list \<Rightarrow> parsed_file \<Rightarrow> local_names \<Rightarrow> (string, (string, string) dict) dict
    \<Rightarrow> symbol \<Rightarrow> (string \<times> json) list \<Rightarrow> symbol option" where
  "resolve_call_site fs p names attrs caller site =
     (let kind = site_text site ''kind''; n = site_text site ''name''; m = site_text site ''method'' in
      if kind = ''name'' \<or> kind = ''attr_method'' then resolve_imported_name fs names n
      else if kind = ''ctor_method''
      then Option.bind (resolve_imported_name fs names n) (\<lambda>c. find_method fs c m)
      else if kind = ''self_method''
      then Option.bind (enclosing_class fs caller) (\<lambda>e.
           Option.bind (Option.bind (dict_get attrs (sy_qualified_name e)) (\<lambda>a. dict_get a (site_text site ''attr''))) (\<lambda>cn.
           Option.bind (or_symbol (resolve_imported_name fs names cn) (by_module_symbol fs (pf_module p) cn))
             (\<lambda>c. find_method fs c m)))
      else None)"

definition site_label :: "(string \<times> json) list \<Rightarrow> json" where
  "site_label d = py_or (jget d ''method'') (py_or (jget d ''name'') (JStr []))"

definition resolve_site :: "resolver \<Rightarrow> local_names \<Rightarrow> symbol \<Rightarrow> json \<Rightarrow> parsed_file \<Rightarrow> parsed_file" where
  "resolve_site rv names caller site p =
     (case site of
        JDict d \<Rightarrow>
          (case resolve_call_site (rs_files rv) p names (class_attrs p) caller d of
             None \<Rightarrow> p
           | Some t \<Rightarrow>
               relate (rs_ids rv) (rs_repository_id rv) (rs_revision rv)
                 (if site_text d ''kind'' = ''name'' \<and> sy_kind t = Class_Symbol then Instantiates else Calls)
                 (Some caller) (Some t) 80 [(''call_site'', site_label d)] p)
      | _ \<Rightarrow> p)"

definition resolve_calls_of :: "resolver \<Rightarrow> local_names \<Rightarrow> symbol \<Rightarrow> parsed_file \<Rightarrow> parsed_file" where
  "resolve_calls_of rv names s p =
     (case jget (sy_metadata s) ''call_sites'' of
        JList sites \<Rightarrow> fold (resolve_site rv names s) sites p
      | _ \<Rightarrow> p)"

definition resolve_cross_module_calls :: "resolver \<Rightarrow> local_names \<Rightarrow> parsed_file \<Rightarrow> parsed_file" where
  "resolve_cross_module_calls rv names p =
     fold (resolve_calls_of rv names) (filter (\<lambda>s. sy_kind s \<in> {Function_Symbol, Method_Symbol}) (pf_symbols p)) p"

text \<open>
  The base classes: the code passes the name of the module to \<open>_module_symbol\<close>, which expects
  the parsed file, so the first base that is imported from an indexed module raises.
\<close>

definition base_names :: "symbol \<Rightarrow> string list" where
  "base_names s =
     (case jget (sy_metadata s) ''bases'' of
        JList bs \<Rightarrow> List.map_filter (\<lambda>b. case b of JStr t \<Rightarrow> Some t | _ \<Rightarrow> None) bs
      | _ \<Rightarrow> [])"

definition imports_base :: "local_names \<Rightarrow> parsed_file \<Rightarrow> bool" where
  "imports_base names p =
     list_ex (\<lambda>s. sy_kind s = Class_Symbol \<and>
         list_ex (\<lambda>b. dict_get names (hd (split_on (CHR ''.'') b)) \<noteq> None) (base_names s)) (pf_symbols p)"

definition no_symbols_of_text :: exn where
  "no_symbols_of_text = Exn ''AttributeError'' ''str object has no attribute symbols''"

definition resolve_test_relations :: "resolver \<Rightarrow> local_names \<Rightarrow> parsed_file \<Rightarrow> parsed_file" where
  "resolve_test_relations rv names p =
     (if \<not> is_test_path (pf_path p) then p
      else case module_symbol p of
             None \<Rightarrow> p
           | Some ms \<Rightarrow>
               fold (\<lambda>m. case symbol_of_module (rs_files rv) m of
                     None \<Rightarrow> id
                   | Some t \<Rightarrow> relate (rs_ids rv) (rs_repository_id rv) (rs_revision rv) Tests (Some ms) (Some t) 90 [])
                 (first_per_key (\<lambda>m. m) [] (map fst (dict_values names))) p)"

text \<open>The four passes over one file; the other files are looked up as they were parsed.\<close>

definition resolve_file :: "resolver \<Rightarrow> parsed_file \<Rightarrow> exn + parsed_file" where
  "resolve_file rv p =
     (let (names, p1) = resolve_file_imports rv p;
          p2 = resolve_cross_module_calls rv names p1
      in if imports_base names p2 then Inl no_symbols_of_text
         else Inr (resolve_test_relations rv names p2))"

fun resolve_files :: "resolver \<Rightarrow> parsed_file list \<Rightarrow> exn + parsed_file list" where
  "resolve_files rv [] = Inr []"
| "resolve_files rv (p # ps) =
     (case resolve_file rv p of
        Inl e \<Rightarrow> Inl e
      | Inr q \<Rightarrow> (case resolve_files rv ps of Inl e \<Rightarrow> Inl e | Inr qs \<Rightarrow> Inr (q # qs)))"

subsection \<open>Indexing a revision\<close>

record code_index_result =
  ci_repository_id :: uuid
  ci_revision :: string
  ci_files_parsed :: int
  ci_symbols :: "symbol list"
  ci_relations :: "code_relation list"
  ci_test_files :: "string list"

type_synonym language_parser = "uuid \<Rightarrow> string \<Rightarrow> string \<Rightarrow> string \<Rightarrow> parsed_file option"

definition parse_files :: "language_parser \<Rightarrow> uuid \<Rightarrow> string \<Rightarrow> (string, string) dict \<Rightarrow> parsed_file list" where
  "parse_files parse repo rvn files =
     List.map_filter (\<lambda>(path, content). parse repo rvn path content) (filter (\<lambda>(path, content). ends_with path ''.py'') files)"

definition index_result :: "uuid \<Rightarrow> string \<Rightarrow> parsed_file list \<Rightarrow> code_index_result" where
  "index_result repo rvn ps =
     \<lparr>ci_repository_id = repo, ci_revision = rvn, ci_files_parsed = int (length ps),
      ci_symbols = concat (map pf_symbols ps), ci_relations = concat (map pf_relations ps),
      ci_test_files = filter is_test_path (map pf_path ps)\<rparr>"

definition build_revision :: "language_parser \<Rightarrow> (string \<Rightarrow> nat \<Rightarrow> uuid) \<Rightarrow> uuid \<Rightarrow> string \<Rightarrow> (string, string) dict \<Rightarrow> bool
    \<Rightarrow> code_graph \<Rightarrow> (code_graph, code_index_result) outcome" where
  "build_revision parse ids repo rvn files replace g =
     (let g1 = (if replace then expire_revision repo rvn g else g);
          ps = parse_files parse repo rvn files
      in case resolve_files \<lparr>rs_ids = ids, rs_repository_id = repo, rs_revision = rvn, rs_files = ps\<rparr> ps of
           Inl e \<Rightarrow> (Inl e, g1)
         | Inr qs \<Rightarrow>
             (let res = index_result repo rvn qs in
              (Inr res, fold save_parsed_file qs (save_relations (ci_relations res) (save_symbols (ci_symbols res) g1)))))"

subsection \<open>What the resolver adds\<close>

definition symbols_of :: "parsed_file list \<Rightarrow> symbol set" where
  "symbols_of fs = (\<Union>p \<in> set fs. set (pf_symbols p))"

text \<open>The file with more relations, all of them between symbols of the indexed files.\<close>

definition linked :: "resolver \<Rightarrow> parsed_file \<Rightarrow> parsed_file \<Rightarrow> bool" where
  "linked rv p q \<longleftrightarrow> pf_symbols q = pf_symbols p \<and> pf_path q = pf_path p \<and> pf_module q = pf_module p \<and>
     pf_imports q = pf_imports p \<and> pf_repository_id q = pf_repository_id p \<and> pf_revision q = pf_revision p \<and>
     (\<forall>r \<in> set (pf_relations q). relation_ok (rs_repository_id rv) (rs_revision rv) (symbols_of (rs_files rv)) r)"

lemma found: "List.find P xs = Some x \<Longrightarrow> x \<in> set xs"
  by (auto simp: find_Some_iff)

lemma module_file_in: "dict_get (module_files fs) m = Some f \<Longrightarrow> f \<in> set fs"
proof -
  have "dict_get (fold (\<lambda>p. dict_set (pf_module p) p) fs d) m = Some f \<Longrightarrow> f \<in> set fs \<or> dict_get d m = Some f"
    for fs and d :: "(string, parsed_file) dict"
    by (induction fs arbitrary: d) (fastforce simp: update_conv' split: if_splits)+
  then show "dict_get (module_files fs) m = Some f \<Longrightarrow> f \<in> set fs" unfolding module_files_def by fastforce
qed

lemma in_symbols_of: "\<lbrakk>f \<in> set fs; s \<in> set (pf_symbols f)\<rbrakk> \<Longrightarrow> s \<in> symbols_of fs"
  by (auto simp: symbols_of_def)

lemma symbol_of_module_in: "symbol_of_module fs m = Some s \<Longrightarrow> s \<in> symbols_of fs"
  by (auto simp: symbol_of_module_def module_symbol_def bind_eq_Some_conv
      dest!: found module_file_in intro: in_symbols_of)

lemma by_module_symbol_in: "by_module_symbol fs m n = Some s \<Longrightarrow> s \<in> symbols_of fs"
  by (auto simp: by_module_symbol_def dest!: found module_file_in intro: in_symbols_of split: option.splits)

lemma imported_name_in: "resolve_imported_name fs names n = Some s \<Longrightarrow> s \<in> symbols_of fs"
  by (auto simp: resolve_imported_name_def or_symbol_def dest: by_module_symbol_in symbol_of_module_in
      split: option.splits if_splits)

lemma find_method_in: "find_method fs c m = Some s \<Longrightarrow> s \<in> symbols_of fs"
  by (auto simp: find_method_def symbols_of_def dest!: found split: if_splits)

lemma call_site_in: "resolve_call_site fs p names attrs caller d = Some s \<Longrightarrow> s \<in> symbols_of fs"
  by (auto simp: resolve_call_site_def Let_def bind_eq_Some_conv dest: imported_name_in find_method_in split: if_splits)

lemma relate_linked:
  assumes "linked rv p q" "\<And>s. src = Some s \<Longrightarrow> s \<in> symbols_of (rs_files rv)"
    "\<And>t. tgt = Some t \<Longrightarrow> t \<in> symbols_of (rs_files rv)"
  shows "linked rv p (relate ids (rs_repository_id rv) (rs_revision rv) ty src tgt conf meta q)"
  using assms by (auto simp: linked_def relate_def relation_ok_def split: option.splits)

lemma fold_linked:
  assumes "linked rv p q" "\<And>x c. \<lbrakk>x \<in> set xs; linked rv p c\<rbrakk> \<Longrightarrow> linked rv p (f x c)"
  shows "linked rv p (fold f xs q)"
  using assms by (induction xs arbitrary: q) auto

lemma linked_symbols: "linked rv p q \<Longrightarrow> pf_symbols q = pf_symbols p"
  by (simp add: linked_def)

lemma module_symbol_in:
  "\<lbrakk>p \<in> set (rs_files rv); linked rv p q; module_symbol q = Some s\<rbrakk> \<Longrightarrow> s \<in> symbols_of (rs_files rv)"
  by (auto simp: module_symbol_def linked_symbols dest!: found intro: in_symbols_of)

lemma imports_linked:
  assumes own: "p \<in> set (rs_files rv)" and "linked rv p q"
  shows "linked rv p (snd (resolve_file_imports rv q))"
proof -
  have "linked rv p (snd (resolve_import rv i st))" if "linked rv p (snd st)" for i st
    using that module_symbol_in [OF own, of "snd st"]
    by (cases st) (auto simp: resolve_import_def or_symbol_def intro!: relate_linked
        dest: symbol_of_module_in split: option.splits)
  then have "linked rv p (snd (fold (resolve_import rv) is st))" if "linked rv p (snd st)" for "is" st
    using that by (induction "is" arbitrary: st) auto
  then have "linked rv p (snd (fold (resolve_import rv) (pf_imports q) ([], q)))" using assms(2) by simp
  then show ?thesis by (auto simp: resolve_file_imports_def linked_def Let_def split: prod.split)
qed

lemma calls_linked:
  assumes own: "p \<in> set (rs_files rv)" and "linked rv p q"
  shows "linked rv p (resolve_cross_module_calls rv names q)"
proof -
  have site: "linked rv p (resolve_site rv names s d c)" if "s \<in> set (pf_symbols p)" "linked rv p c" for s d c
    using that own by (cases d) (auto simp: resolve_site_def intro!: relate_linked intro: in_symbols_of
        dest: call_site_in split: option.split)
  have "linked rv p (resolve_calls_of rv names s c)" if "s \<in> set (pf_symbols p)" "linked rv p c" for s c
    using that site by (auto simp: resolve_calls_of_def intro!: fold_linked split: json.split)
  then show ?thesis
    using assms(2) by (auto simp: resolve_cross_module_calls_def linked_symbols intro!: fold_linked)
qed

lemma tests_linked:
  assumes own: "p \<in> set (rs_files rv)" and "linked rv p q"
  shows "linked rv p (resolve_test_relations rv names q)"
  using assms(2) module_symbol_in [OF assms]
  by (auto simp: resolve_test_relations_def intro!: fold_linked relate_linked dest: symbol_of_module_in split: option.split)

lemma file_linked:
  assumes own: "p \<in> set (rs_files rv)" and "linked rv p p" "resolve_file rv p = Inr q"
  shows "linked rv p q"
proof -
  obtain names p1 where p1: "resolve_file_imports rv p = (names, p1)" by fastforce
  have "linked rv p p1" using imports_linked [OF own assms(2)] by (simp add: p1)
  from calls_linked [OF own this] tests_linked [OF own] show ?thesis
    using assms(3) by (auto simp: resolve_file_def p1 Let_def split: if_splits)
qed

lemma files_linked:
  assumes "\<And>p. p \<in> set ps \<Longrightarrow> p \<in> set (rs_files rv) \<and> linked rv p p" "resolve_files rv ps = Inr qs"
  shows "list_all2 (linked rv) ps qs"
  using assms
proof (induction ps arbitrary: qs)
  case (Cons p ps)
  then show ?case by (auto simp: file_linked split: sum.splits)
qed simp

subsection \<open>What the code graph keeps\<close>

definition known :: "code_graph \<Rightarrow> uuid \<Rightarrow> string \<Rightarrow> symbol_identity \<Rightarrow> bool" where
  "known g repo rvn i \<longleftrightarrow> get_symbol repo rvn (identity_key i) g \<noteq> None"

text \<open>Both ends of every stored relation of a revision are stored symbols of that revision.\<close>

definition no_dangling :: "code_graph \<Rightarrow> bool" where
  "no_dangling g \<longleftrightarrow>
     (\<forall>((repo, rvn, i), r) \<in> set (cg_relations g). known g repo rvn (cr_source r) \<and> known g repo rvn (cr_target r))"

lemma fold_set_get:
  "dict_get (fold (\<lambda>x. dict_set (k x) x) xs d) l \<noteq> None \<longleftrightarrow> l \<in> k ` set xs \<or> dict_get d l \<noteq> None"
  by (induction xs arbitrary: d) (auto simp: update_conv')

lemma fold_set_entries: "set (fold (\<lambda>x. dict_set (k x) x) xs d) \<subseteq> set d \<union> (\<lambda>x. (k x, x)) ` set xs"
proof (induction xs arbitrary: d)
  case (Cons x xs)
  have "set (dict_set (k x) x d) \<subseteq> insert (k x, x) (set d)"
    by (induction d) auto
  then show ?case using Cons.IH [of "dict_set (k x) x d"] by auto
qed simp

lemma known_save_symbols:
  "known (save_symbols ss g) repo rvn i \<longleftrightarrow>
     known g repo rvn i \<or> (\<exists>s \<in> set ss. si_repository_id (sy_identity s) = repo \<and> si_revision (sy_identity s) = rvn \<and>
       symbol_key s = identity_key i)"
proof -
  have "cg_symbols (save_symbols ss g) =
      fold (\<lambda>s. dict_set (si_repository_id (sy_identity s), si_revision (sy_identity s), symbol_key s) s) ss (cg_symbols g)"
    by (simp add: save_symbols_def)
  then show ?thesis unfolding known_def get_symbol_def by (simp only: fold_set_get) auto
qed

lemma known_save_relations [simp]: "known (save_relations rs g) repo rvn i = known g repo rvn i"
  by (simp add: known_def get_symbol_def save_relations_def)

lemma no_dangling_symbols: "no_dangling g \<Longrightarrow> no_dangling (save_symbols ss g)"
  unfolding no_dangling_def by (auto simp: known_save_symbols) (auto simp: save_symbols_def)

lemma no_dangling_relations:
  assumes "no_dangling g"
    and "\<And>r. r \<in> set rs \<Longrightarrow> known g (cr_repository_id r) (cr_revision r) (cr_source r) \<and>
      known g (cr_repository_id r) (cr_revision r) (cr_target r)"
  shows "no_dangling (save_relations rs g)"
proof -
  have "known g repo rvn (cr_source r) \<and> known g repo rvn (cr_target r)"
    if "((repo, rvn, i), r) \<in> set (cg_relations (save_relations rs g))" for repo rvn i r
  proof (cases "((repo, rvn, i), r) \<in> set (cg_relations g)")
    case True
    then show ?thesis using assms(1) by (auto simp: no_dangling_def)
  next
    case False
    then have "r \<in> set rs" "cr_repository_id r = repo" "cr_revision r = rvn"
      using that fold_set_entries [of "\<lambda>r. (cr_repository_id r, cr_revision r, cr_rel_id r)" rs "cg_relations g"]
      by (auto simp: save_relations_def)
    then show ?thesis using assms(2) by blast
  qed
  then show ?thesis by (auto simp: no_dangling_def)
qed

lemma get_filter: "dict_get (filter (\<lambda>e. P (fst e)) d) k = (if P k then dict_get d k else None)"
  by (induction d) auto

lemma of_revision_key: "of_revision repo rvn e \<longleftrightarrow> fst (fst e) = repo \<and> fst (snd (fst e)) = rvn"
  by (simp add: of_revision_def)

lemma known_expire:
  "known (expire_revision repo rvn g) repo' rvn' i \<longleftrightarrow> (repo', rvn') \<noteq> (repo, rvn) \<and> known g repo' rvn' i"
proof -
  have "filter (\<lambda>e. \<not> of_revision repo rvn e) (cg_symbols g) =
      filter (\<lambda>e. \<not> (fst (fst e) = repo \<and> fst (snd (fst e)) = rvn)) (cg_symbols g)"
    by (simp add: of_revision_key)
  then show ?thesis
    using get_filter [of "\<lambda>k. \<not> (fst k = repo \<and> fst (snd k) = rvn)" "cg_symbols g"]
    by (auto simp: known_def get_symbol_def expire_revision_def split: if_splits)
qed

lemma no_dangling_expire: "no_dangling g \<Longrightarrow> no_dangling (expire_revision repo rvn g)"
  unfolding no_dangling_def by (auto simp: known_expire) (auto simp: expire_revision_def of_revision_key)

text \<open>Saving the files of an index whose symbols are saved.\<close>

definition covered :: "uuid \<Rightarrow> string \<Rightarrow> symbol set \<Rightarrow> code_graph \<Rightarrow> bool" where
  "covered repo rvn S g \<longleftrightarrow> (\<forall>s \<in> S. known g repo rvn (sy_identity s))"

lemma relation_covered:
  "\<lbrakk>relation_ok repo rvn S r; covered repo rvn S g\<rbrakk> \<Longrightarrow>
     known g (cr_repository_id r) (cr_revision r) (cr_source r) \<and> known g (cr_repository_id r) (cr_revision r) (cr_target r)"
  by (auto simp: relation_ok_def covered_def)

lemma save_file_keeps:
  assumes "no_dangling g" "covered repo rvn S g" "\<And>r. r \<in> set (pf_relations p) \<Longrightarrow> relation_ok repo rvn S r"
  shows "no_dangling (save_parsed_file p g) \<and> covered repo rvn S (save_parsed_file p g)"
proof -
  let ?g1 = "save_symbols (pf_symbols p) g"
  let ?g2 = "save_relations (pf_relations p) ?g1"
  have c1: "covered repo rvn S ?g1" using assms(2) by (simp add: covered_def known_save_symbols)
  have "no_dangling ?g2"
    by (rule no_dangling_relations [OF no_dangling_symbols [OF assms(1)]]) (rule relation_covered [OF assms(3) c1])
  moreover have "known (save_parsed_file p g) repo' rvn' i = known ?g2 repo' rvn' i" for repo' rvn' i
    by (simp add: save_parsed_file_def Let_def known_def get_symbol_def)
  moreover have "cg_relations (save_parsed_file p g) = cg_relations ?g2" by (simp add: save_parsed_file_def Let_def)
  ultimately show ?thesis using c1 by (simp add: no_dangling_def covered_def)
qed

lemma save_files_keep:
  assumes "no_dangling g" "covered repo rvn S g" "\<And>p r. \<lbrakk>p \<in> set ps; r \<in> set (pf_relations p)\<rbrakk> \<Longrightarrow> relation_ok repo rvn S r"
  shows "no_dangling (fold save_parsed_file ps g)"
  using assms
proof (induction ps arbitrary: g)
  case (Cons p ps)
  have "no_dangling (save_parsed_file p g) \<and> covered repo rvn S (save_parsed_file p g)"
    by (rule save_file_keeps) (use Cons.prems in auto)
  then show ?case using Cons.IH [of "save_parsed_file p g"] Cons.prems(3) by auto
qed simp

lemma linked_refl:
  assumes "file_ok repo rvn p" "p \<in> set fs"
  shows "linked \<lparr>rs_ids = ids, rs_repository_id = repo, rs_revision = rvn, rs_files = fs\<rparr> p p"
proof -
  have "set (pf_symbols p) \<subseteq> symbols_of fs" using assms(2) by (auto simp: symbols_of_def)
  then show ?thesis using assms(1) relation_ok_mono by (auto simp: linked_def file_ok_def)
qed

lemma indexed_files:
  assumes "\<And>p. p \<in> set ps \<Longrightarrow> file_ok repo rvn p"
    and "resolve_files \<lparr>rs_ids = ids, rs_repository_id = repo, rs_revision = rvn, rs_files = ps\<rparr> ps = Inr qs"
  shows "map pf_symbols qs = map pf_symbols ps"
    and "\<And>q r. \<lbrakk>q \<in> set qs; r \<in> set (pf_relations q)\<rbrakk> \<Longrightarrow> relation_ok repo rvn (symbols_of ps) r"
proof -
  have l: "list_all2 (linked \<lparr>rs_ids = ids, rs_repository_id = repo, rs_revision = rvn, rs_files = ps\<rparr>) ps qs"
    by (rule files_linked [OF _ assms(2)]) (use assms(1) linked_refl in auto)
  show "map pf_symbols qs = map pf_symbols ps"
    using l by (induction rule: list_all2_induct) (auto simp: linked_def)
  show "relation_ok repo rvn (symbols_of ps) r" if "q \<in> set qs" "r \<in> set (pf_relations q)" for q r
    using l that by (fastforce simp: list_all2_conv_all_nth linked_def in_set_conv_nth [of q])
qed

lemma symbols_of_concat: "symbols_of ps = set (concat (map pf_symbols ps))"
  by (auto simp: symbols_of_def)

lemma build_keeps:
  assumes parser: "\<And>path content p. parse repo rvn path content = Some p \<Longrightarrow> file_ok repo rvn p" and "no_dangling g"
  shows "no_dangling (snd (build_revision parse ids repo rvn files replace g))"
proof -
  define g1 where "g1 = (if replace then expire_revision repo rvn g else g)"
  have g1: "no_dangling g1" using assms(2) no_dangling_expire by (simp add: g1_def)
  define ps where "ps = parse_files parse repo rvn files"
  have ps: "file_ok repo rvn p" if "p \<in> set ps" for p
    using that parser by (auto simp: ps_def parse_files_def map_filter_def)
  show ?thesis
  proof (cases "resolve_files \<lparr>rs_ids = ids, rs_repository_id = repo, rs_revision = rvn, rs_files = ps\<rparr> ps")
    case (Inl e)
    then show ?thesis using g1 by (simp add: build_revision_def Let_def flip: ps_def g1_def)
  next
    case (Inr qs)
    have syms: "map pf_symbols qs = map pf_symbols ps" by (rule indexed_files(1) [OF ps Inr])
    have rels: "relation_ok repo rvn (symbols_of ps) r" if "q \<in> set qs" "r \<in> set (pf_relations q)" for q r
      by (rule indexed_files(2) [OF ps Inr that])
    let ?g2 = "save_symbols (concat (map pf_symbols qs)) g1"
    let ?g3 = "save_relations (concat (map pf_relations qs)) ?g2"
    have "symbol_ok repo rvn (pf_path p) (pf_module p) s" if "p \<in> set ps" "s \<in> set (pf_symbols p)" for p s
      using ps [OF that(1)] that(2) by (simp add: file_ok_def)
    then have own: "si_repository_id (sy_identity s) = repo \<and> si_revision (sy_identity s) = rvn" if "s \<in> symbols_of ps" for s
      using that by (fastforce simp: symbols_of_def symbol_ok_def)
    have "set (concat (map pf_symbols qs)) = symbols_of ps" by (simp only: syms symbols_of_concat)
    then have c: "covered repo rvn (symbols_of ps) ?g2"
      unfolding covered_def known_save_symbols using own by (auto simp: symbol_key_def)
    have r: "relation_ok repo rvn (symbols_of ps) r" if "r \<in> set (concat (map pf_relations qs))" for r
      using that rels by auto
    have "no_dangling ?g3"
      by (rule no_dangling_relations [OF no_dangling_symbols [OF g1]]) (rule relation_covered [OF r c])
    moreover have "covered repo rvn (symbols_of ps) ?g3" using c by (simp add: covered_def)
    ultimately have "no_dangling (fold save_parsed_file qs ?g3)" by (rule save_files_keep) (rule rels)
    then show ?thesis by (simp add: build_revision_def Let_def Inr index_result_def flip: ps_def g1_def)
  qed
qed

text \<open>
  C30: The code graph never holds a dangling relation: whatever Python files are indexed, with or
  without replacing the revision, and whether the indexing returns or raises, both ends of every stored
  relation - those the parser finds in a file and those resolved across files - are symbols stored for the same
  revision.
\<close>

theorem index_has_no_dangling_relations:
  assumes "no_dangling g"
  shows "no_dangling (snd (build_revision (parse_python py) ids repo rvn files replace g))"
proof (rule build_keeps [OF _ assms])
  fix path content p assume "parse_python py repo rvn path content = Some p"
  then show "file_ok repo rvn p" using parsed_file_ok [of py] by blast
qed

lemma empty_no_dangling: "no_dangling empty_code_graph"
  by (simp add: no_dangling_def empty_code_graph_def)

lemma index_has_no_dangling_relations_witness:
  "no_dangling (snd (build_revision (parse_python demo_python) (\<lambda>p n. p) ''r'' ''v'' [(''a.py'', []), (''b.py'', [])] True
     empty_code_graph))"
  by (rule index_has_no_dangling_relations [OF empty_no_dangling])

subsection \<open>Imported base classes\<close>

lemma resolve_import_grows:
  "dict_get names n \<noteq> None \<Longrightarrow> dict_get (fst (resolve_import rv i (names, p))) n \<noteq> None"
  by (auto simp: resolve_import_def update_conv' split: option.split list.split)

lemma resolve_import_frame:
  "pf_symbols (snd (resolve_import rv i (names, p))) = pf_symbols p \<and> pf_module (snd (resolve_import rv i (names, p))) = pf_module p"
  by (auto simp: resolve_import_def relate_def split: option.split list.split)

lemma resolve_imports_bind:
  assumes "i \<in> set is \<or> dict_get names n \<noteq> None" "\<not> im_is_relative i" "im_name i = Some n" "im_alias i = None"
    "n \<noteq> []" "symbol_of_module (rs_files rv) (im_module i) \<noteq> None"
  shows "dict_get (fst (fold (resolve_import rv) is (names, p))) n \<noteq> None"
  using assms(1)
proof (induction "is" arbitrary: names p)
  case (Cons j "is")
  obtain names' p' where r: "resolve_import rv j (names, p) = (names', p')" by fastforce
  have "dict_get names' n \<noteq> None" if "j = i"
  proof -
    obtain f where "dict_get (module_files (rs_files rv)) (im_module i) = Some f"
      using assms(6) by (auto simp: symbol_of_module_def bind_eq_Some_conv)
    then have "resolve_module (rs_files rv) (pf_module p) i = Some (im_module i)"
      using assms(2) by (simp add: resolve_module_def Let_def)
    moreover obtain c cs where "n = c # cs" using assms(5) by (cases n) auto
    ultimately show ?thesis
      using assms(3,4,6) r by (auto simp: resolve_import_def that update_conv' split: option.splits)
  qed
  moreover have "dict_get names' n \<noteq> None" if "dict_get names n \<noteq> None"
    using resolve_import_grows [OF that, of rv j p] by (simp add: r)
  ultimately show ?case using Cons.IH [of names' p'] Cons.prems by (auto simp: r)
qed simp

lemma cross_calls_symbols: "pf_symbols (resolve_cross_module_calls rv names p) = pf_symbols p"
proof -
  have site: "pf_symbols (resolve_site rv names s d q) = pf_symbols q" for s d q
    by (auto simp: resolve_site_def relate_def split: json.split option.split)
  have "pf_symbols (fold (resolve_site rv names s) ds q) = pf_symbols q" for s ds q
    using site by (induction ds arbitrary: q) auto
  then have "pf_symbols (resolve_calls_of rv names s q) = pf_symbols q" for s q
    by (auto simp: resolve_calls_of_def split: json.split)
  then have "pf_symbols (fold (resolve_calls_of rv names) ss q) = pf_symbols q" for ss q
    by (induction ss arbitrary: q) auto
  then show ?thesis by (simp add: resolve_cross_module_calls_def)
qed

lemma file_imports_symbols: "pf_symbols (snd (resolve_file_imports rv p)) = pf_symbols p"
proof -
  have "pf_symbols (snd (fold (resolve_import rv) is st)) = pf_symbols (snd st)" for "is" st
  proof (induction "is" arbitrary: st)
    case (Cons i "is")
    then show ?case using resolve_import_frame [of rv i "fst st" "snd st"] by simp
  qed simp
  then show ?thesis by (auto simp: resolve_file_imports_def Let_def split: prod.split) (metis snd_conv)
qed

lemma resolve_files_raise:
  assumes "p \<in> set ps" "resolve_file rv p = Inl no_symbols_of_text"
  shows "resolve_files rv ps = Inl no_symbols_of_text"
  using assms
proof (induction ps)
  case (Cons q ps)
  have "resolve_file rv q = Inl e \<Longrightarrow> e = no_symbols_of_text" for e
    by (auto simp: resolve_file_def Let_def split: prod.splits if_splits)
  then show ?case using Cons by (auto split: sum.split)
qed simp

lemma split_on_absent: "c \<notin> set s \<Longrightarrow> split_on c s = [s]"
  by (induction s) auto

text \<open>
  C31: One class whose base is imported by name from another indexed module stops the indexing of the
  whole revision: the resolver hands the module's name to a function that expects the parsed file
  and raises. Nothing is stored, and when the revision was to be replaced its earlier facts are gone.
\<close>

theorem imported_base_stops_indexing:
  assumes "p \<in> set (parse_files parse repo rvn files)" "i \<in> set (pf_imports p)" "\<not> im_is_relative i"
    and "im_name i = Some n" "im_alias i = None" "n \<noteq> []" "CHR ''.'' \<notin> set n"
    and "symbol_of_module (parse_files parse repo rvn files) (im_module i) \<noteq> None"
    and "s \<in> set (pf_symbols p)" "sy_kind s = Class_Symbol" "n \<in> set (base_names s)"
  shows "build_revision parse ids repo rvn files replace g =
    (Inl no_symbols_of_text, if replace then expire_revision repo rvn g else g)"
proof -
  define rv where "rv = \<lparr>rs_ids = ids, rs_repository_id = repo, rs_revision = rvn, rs_files = parse_files parse repo rvn files\<rparr>"
  obtain names p1 where r: "resolve_file_imports rv p = (names, p1)" by fastforce
  have "dict_get names n \<noteq> None"
    using resolve_imports_bind [of i "pf_imports p" "[]" n rv p] assms(2-8) r
    by (auto simp: resolve_file_imports_def rv_def Let_def split: prod.splits)
  then have "\<exists>b \<in> set (base_names s). dict_get names (hd (split_on (CHR ''.'') b)) \<noteq> None"
    using assms(7,11) by (intro bexI [of _ n]) (simp_all add: split_on_absent)
  then have hit: "sy_kind s = Class_Symbol \<and>
      (\<exists>b \<in> set (base_names s). dict_get names (hd (split_on (CHR ''.'') b)) \<noteq> None)"
    using assms(10) by (rule conjI [rotated])
  have "pf_symbols (resolve_cross_module_calls rv names p1) = pf_symbols p"
    using file_imports_symbols [of rv p] by (simp add: cross_calls_symbols r)
  then have "imports_base names (resolve_cross_module_calls rv names p1)"
    unfolding imports_base_def list_ex_iff using hit assms(9) by (simp only:) (rule bexI)
  then have "resolve_file rv p = Inl no_symbols_of_text" by (simp add: resolve_file_def r Let_def)
  then have "resolve_files rv (parse_files parse repo rvn files) = Inl no_symbols_of_text"
    by (rule resolve_files_raise [OF assms(1)])
  then show ?thesis by (simp add: build_revision_def Let_def flip: rv_def)
qed

text \<open>Two files: \<open>a\<close>, and \<open>b\<close> with \<open>from a import X\<close> and \<open>class Y(X)\<close>.\<close>

definition demo_symbol :: "string \<Rightarrow> string \<Rightarrow> symbol_kind \<Rightarrow> (string \<times> json) list \<Rightarrow> symbol" where
  "demo_symbol m n k meta =
     \<lparr>sy_id = m @ n, sy_identity = \<lparr>si_repository_id = ''r'', si_revision = ''v'', si_module = m, si_qualified_name = n, si_kind = k\<rparr>,
      sy_name = n, sy_path = m @ ''.py'', sy_kind = k, sy_location = location (m @ ''.py'') (0, 0, 0, 0),
      sy_qualified_name = n, sy_parameters = [], sy_return_annotation = None, sy_decorators = [], sy_docstring = None,
      sy_content_hash = None, sy_metadata = meta\<rparr>"

definition demo_import :: import_statement where
  "demo_import =
     \<lparr>im_module = ''a'', im_name = Some ''X'', im_alias = None, im_is_relative = False, im_level = 0, im_is_local = None,
      im_location = location ''b.py'' (0, 0, 0, 0)\<rparr>"

definition demo_file :: "string \<Rightarrow> import_statement list \<Rightarrow> symbol list \<Rightarrow> parsed_file" where
  "demo_file m is ss =
     \<lparr>pf_path = m @ ''.py'', pf_module = m, pf_language = ''python'', pf_repository_id = ''r'', pf_revision = ''v'',
      pf_content_hash = [], pf_symbols = ss, pf_imports = is, pf_relations = [], pf_metadata = []\<rparr>"

definition demo_base_file :: parsed_file where
  "demo_base_file = demo_file ''a'' [] [demo_symbol ''a'' ''a'' Module_Symbol []]"

definition demo_class :: symbol where
  "demo_class = demo_symbol ''b'' ''Y'' Class_Symbol [(''bases'', JList [JStr ''X''])]"

definition demo_class_file :: parsed_file where
  "demo_class_file = demo_file ''b'' [demo_import] [demo_class]"

definition demo_parse :: language_parser where
  "demo_parse repo rvn path content = Some (if path = ''a.py'' then demo_base_file else demo_class_file)"

lemma imported_base_stops_indexing_witness:
  "build_revision demo_parse (\<lambda>p n. p) ''r'' ''v'' [(''a.py'', []), (''b.py'', [])] True empty_code_graph =
    (Inl no_symbols_of_text, empty_code_graph)"
proof -
  have fs: "parse_files demo_parse ''r'' ''v'' [(''a.py'', []), (''b.py'', [])] = [demo_base_file, demo_class_file]"
    by (simp add: parse_files_def demo_parse_def map_filter_def ends_with_def)
  have "symbol_of_module [demo_base_file, demo_class_file] ''a'' \<noteq> None"
    by (simp add: symbol_of_module_def module_files_def demo_base_file_def demo_class_file_def demo_file_def
      module_symbol_def demo_symbol_def)
  moreover have "demo_import \<in> set (pf_imports demo_class_file)" "demo_class \<in> set (pf_symbols demo_class_file)"
    by (simp_all add: demo_class_file_def demo_file_def)
  moreover have "\<not> im_is_relative demo_import" "im_name demo_import = Some ''X''" "im_alias demo_import = None"
    "im_module demo_import = ''a''" by (simp_all add: demo_import_def)
  moreover have "sy_kind demo_class = Class_Symbol" "''X'' \<in> set (base_names demo_class)"
    by (simp_all add: demo_class_def demo_symbol_def base_names_def map_filter_def)
  ultimately show ?thesis
    using imported_base_stops_indexing [of demo_class_file demo_parse "''r''" "''v''" "[(''a.py'', []), (''b.py'', [])]"
        demo_import "''X''" demo_class "\<lambda>p n. p" True empty_code_graph, unfolded fs]
    by (simp add: expire_revision_def empty_code_graph_def)
qed

end
