(* ===== verification/Text_Search.thy ===== *)
theory Text_Search
  imports Prelude
begin

text \<open>
  Searches in text, as the parsers and detectors make them with \<open>re\<close> and the methods of \<open>str\<close>:
  lines, spaces, literal prefixes, and the first position at which a pattern matches.
\<close>

definition skip_spaces :: "string \<Rightarrow> string" where
  "skip_spaces s = dropWhile is_space s"

definition strip_right :: "string \<Rightarrow> string" where
  "strip_right s = rev (dropWhile is_space (rev s))"

text \<open>A literal prefix, and what follows it.\<close>

definition after_literal :: "string \<Rightarrow> string \<Rightarrow> string option" where
  "after_literal lit s = (if starts_with s lit then Some (drop (length lit) s) else None)"

text \<open>
  \<open>re.search\<close>: the first position at which a match is found; \<open>m\<close> is told the character before
  the position, or \<open>None\<close> at the start.
\<close>

fun search_from :: "(char option \<Rightarrow> string \<Rightarrow> 'a option) \<Rightarrow> char option \<Rightarrow> string \<Rightarrow> 'a option" where
  "search_from m prev [] = m prev []"
| "search_from m prev (c # cs) =
     (case m prev (c # cs) of Some x \<Rightarrow> Some x | None \<Rightarrow> search_from m (Some c) cs)"

definition search :: "(char option \<Rightarrow> string \<Rightarrow> 'a option) \<Rightarrow> string \<Rightarrow> 'a option" where
  "search m s = search_from m None s"

text \<open>\<open>^\<close> with the flag \<open>m\<close>.\<close>

definition at_line_start :: "char option \<Rightarrow> bool" where
  "at_line_start prev \<longleftrightarrow> prev = None \<or> prev = Some (char_of (10::nat))"

text \<open>\<open>str.splitlines()\<close>, with the characters of the current line in reverse.\<close>

definition line_break :: "char \<Rightarrow> bool" where
  "line_break c = (let n = code c in 10 \<le> n \<and> n \<le> 13 \<or> 28 \<le> n \<and> n \<le> 30 \<or> n = 133)"

fun split_lines :: "string \<Rightarrow> string \<Rightarrow> string list" where
  "split_lines acc [] = (if acc = [] then [] else [rev acc])"
| "split_lines acc (c # cs) =
     (if code c = 13 \<and> cs \<noteq> [] \<and> code (hd cs) = 10 then split_lines acc cs
      else if line_break c then rev acc # split_lines [] cs
      else split_lines (c # acc) cs)"

definition newline :: string where
  "newline = [char_of (10::nat)]"

text \<open>
  \<open>re.sub\<close>: from left to right \<open>m\<close> answers at the first position it matches with the text that
  replaces the match, what the replacement records, and what follows the match; a match that
  is not shorter than the text ends the run.
\<close>

function substitute :: "(string \<Rightarrow> (string \<times> 'd list \<times> string) option) \<Rightarrow> string \<Rightarrow> string \<times> 'd list" where
  "substitute m s =
     (case s of
        [] \<Rightarrow> ([], [])
      | c # cs \<Rightarrow>
          (case m s of
             Some (new, found, rest) \<Rightarrow>
               if length rest < length s
               then (let (out, more) = substitute m rest in (new @ out, found @ more))
               else (new, found)
           | None \<Rightarrow> (let (out, more) = substitute m cs in (c # out, more))))"
  by pat_completeness auto
termination
  by (relation "measure (length \<circ> snd)") auto

declare substitute.simps [simp del]

text \<open>\<open>(.+?)\<close> up to a mark: at least one character, as few as possible, none a line feed.\<close>

fun until_mark :: "string \<Rightarrow> string \<Rightarrow> string \<Rightarrow> (string \<times> string) option" where
  "until_mark mark acc [] = None"
| "until_mark mark acc (c # cs) =
     (if acc \<noteq> [] \<and> starts_with (c # cs) mark then Some (rev acc, drop (length mark) (c # cs))
      else if code c = 10 then None
      else until_mark mark (c # acc) cs)"

definition between_marks :: "string \<Rightarrow> string \<Rightarrow> (string \<times> unit list \<times> string) option" where
  "between_marks mark s =
     Option.bind (after_literal mark s)
       (\<lambda>r. map_option (\<lambda>(body, rest). (body, [], rest)) (until_mark mark [] r))"

end
