(* ===== verification/Topology.thy ===== *)
theory Topology
  imports Repositories Knowledge_Graph
begin

text \<open>
  The software model of a project and its discovery: the entities of
  \<open>domain/software_model.py\<close>, the candidates a detector reports, their merge and the
  reconciliation of claims (\<open>domain/topology.py\<close>), the catalog of
  \<open>adapters/in_memory/repositories.py\<close> with the read side of \<open>adapters/topology/catalog.py\<close>
  and \<open>adapters/in_memory/catalog.py\<close>, and the service that runs one discovery and stores
  what it found (\<open>application/topology.py\<close>). The detectors are in Topology_Detectors; here a
  discoverer is a function that may raise.
\<close>

subsection \<open>The software model\<close>

datatype component_type = Backend_Service | Frontend_Application | Library | Worker_Component
  | Cli_Component | Data_Pipeline | Embedded_Firmware | Infrastructure_Module

fun component_type_value :: "component_type \<Rightarrow> string" where
  "component_type_value Backend_Service = ''backend_service''"
| "component_type_value Frontend_Application = ''frontend_application''"
| "component_type_value Library = ''library''"
| "component_type_value Worker_Component = ''worker''"
| "component_type_value Cli_Component = ''cli''"
| "component_type_value Data_Pipeline = ''data_pipeline''"
| "component_type_value Embedded_Firmware = ''embedded_firmware''"
| "component_type_value Infrastructure_Module = ''infrastructure_module''"

datatype interface_type = Rest_Interface | Graphql_Interface | Grpc_Interface | Message_Topic
  | Python_Public | Database_Contract | Cli_Interface

fun interface_type_value :: "interface_type \<Rightarrow> string" where
  "interface_type_value Rest_Interface = ''rest''"
| "interface_type_value Graphql_Interface = ''graphql''"
| "interface_type_value Grpc_Interface = ''grpc''"
| "interface_type_value Message_Topic = ''message_topic''"
| "interface_type_value Python_Public = ''python_public''"
| "interface_type_value Database_Contract = ''database_contract''"
| "interface_type_value Cli_Interface = ''cli''"

datatype resource_type = Postgresql_Resource | Redis_Resource | Kafka_Resource | S3_Resource
  | Minio_Resource | Kubernetes_Resource | Filesystem_Resource | Broker_Resource | External_Service

fun resource_type_value :: "resource_type \<Rightarrow> string" where
  "resource_type_value Postgresql_Resource = ''postgresql''"
| "resource_type_value Redis_Resource = ''redis''"
| "resource_type_value Kafka_Resource = ''kafka''"
| "resource_type_value S3_Resource = ''s3''"
| "resource_type_value Minio_Resource = ''minio''"
| "resource_type_value Kubernetes_Resource = ''kubernetes''"
| "resource_type_value Filesystem_Resource = ''filesystem''"
| "resource_type_value Broker_Resource = ''message_broker''"
| "resource_type_value External_Service = ''external_service''"

record software_domain =
  sd_id :: uuid
  sd_project_id :: uuid
  sd_name :: string
  sd_description :: "string option"
  sd_system_ids :: "uuid list"
  sd_external_refs :: "external_reference list"

record software_system =
  ss_id :: uuid
  ss_project_id :: uuid
  ss_domain_id :: "uuid option"
  ss_name :: string
  ss_description :: "string option"
  ss_component_ids :: "uuid list"
  ss_external_refs :: "external_reference list"

record software_component =
  sm_id :: uuid
  sm_project_id :: uuid
  sm_name :: string
  sm_type :: component_type
  sm_repository_ids :: "uuid list"
  sm_owner :: "uuid option"
  sm_lifecycle :: "string option"
  sm_provenance :: "knowledge_evidence list"
  sm_external_refs :: "external_reference list"

record software_interface =
  sf_id :: uuid
  sf_component_id :: uuid
  sf_type :: interface_type
  sf_name :: string
  sf_schema_ref :: "string option"
  sf_external_refs :: "external_reference list"

record software_resource =
  so_id :: uuid
  so_project_id :: uuid
  so_name :: string
  so_type :: resource_type
  so_external_refs :: "external_reference list"
  so_provenance :: "knowledge_evidence list"

subsection \<open>Candidates and their merge\<close>

record component_candidate =
  cc_name :: string
  cc_type :: component_type
  cc_repository_id :: uuid
  cc_revision :: string
  cc_source_paths :: "string list"
  cc_provenance :: knowledge_evidence
  cc_metadata :: "(string \<times> json) list"

record interface_candidate =
  ic_name :: string
  ic_type :: interface_type
  ic_component_name :: string
  ic_schema_ref :: "string option"
  ic_repository_id :: uuid
  ic_revision :: string
  ic_source_paths :: "string list"
  ic_provenance :: knowledge_evidence

record resource_candidate =
  rd_name :: string
  rd_type :: resource_type
  rd_repository_id :: uuid
  rd_revision :: string
  rd_source_paths :: "string list"
  rd_provenance :: knowledge_evidence

record dependency_candidate =
  dd_source :: string
  dd_target :: string
  dd_relation :: string
  dd_project_id :: "uuid option"
  dd_repository_id :: uuid
  dd_revision :: string
  dd_source_paths :: "string list"
  dd_provenance :: knowledge_evidence

record topology =
  tp_repository_id :: uuid
  tp_revision :: string
  tp_discovered_at :: datetime
  tp_components :: "component_candidate list"
  tp_interfaces :: "interface_candidate list"
  tp_resources :: "resource_candidate list"
  tp_dependencies :: "dependency_candidate list"

definition new_topology :: "uuid \<Rightarrow> string \<Rightarrow> datetime \<Rightarrow> topology" where
  "new_topology r v now =
     \<lparr>tp_repository_id = r, tp_revision = v, tp_discovered_at = now, tp_components = [],
      tp_interfaces = [], tp_resources = [], tp_dependencies = []\<rparr>"

text \<open>
  The body the four merges share: every incoming item whose key is not among the keys seen so
  far is appended, and its key is seen from then on.
\<close>

definition merge_by :: "('a \<Rightarrow> 'k) \<Rightarrow> 'a list \<Rightarrow> 'a list \<Rightarrow> 'a list" where
  "merge_by key existing incoming = existing @ keep_first key (map key existing) incoming"

definition interface_identity :: "interface_candidate \<Rightarrow> string \<times> string" where
  "interface_identity i = (ic_component_name i, ic_name i)"

definition dependency_identity :: "dependency_candidate \<Rightarrow> string \<times> string \<times> string" where
  "dependency_identity d = (dd_source d, dd_relation d, dd_target d)"

definition merge_components :: "component_candidate list \<Rightarrow> component_candidate list
    \<Rightarrow> component_candidate list" where
  "merge_components = merge_by cc_name"

definition merge_interfaces :: "interface_candidate list \<Rightarrow> interface_candidate list
    \<Rightarrow> interface_candidate list" where
  "merge_interfaces = merge_by interface_identity"

definition merge_resources :: "resource_candidate list \<Rightarrow> resource_candidate list
    \<Rightarrow> resource_candidate list" where
  "merge_resources = merge_by rd_name"

definition merge_dependencies :: "dependency_candidate list \<Rightarrow> dependency_candidate list
    \<Rightarrow> dependency_candidate list" where
  "merge_dependencies = merge_by dependency_identity"

definition merge_topology :: "topology \<Rightarrow> topology \<Rightarrow> topology" where
  "merge_topology t u =
     t\<lparr>tp_components := merge_components (tp_components t) (tp_components u),
       tp_interfaces := merge_interfaces (tp_interfaces t) (tp_interfaces u),
       tp_resources := merge_resources (tp_resources t) (tp_resources u),
       tp_dependencies := merge_dependencies (tp_dependencies t) (tp_dependencies u)\<rparr>"

subsection \<open>Claims and their reconciliation\<close>

datatype candidate_kind = Component_Kind | Interface_Kind | Resource_Kind | Dependency_Kind

record topology_claim =
  tc_id :: uuid
  tc_kind :: candidate_kind
  tc_name :: string
  tc_attribute :: string
  tc_value :: string
  tc_repository_id :: uuid
  tc_revision :: string
  tc_origin :: string
  tc_confidence :: knowledge_confidence
  tc_provenance :: knowledge_evidence
  tc_recorded_at :: datetime

text \<open>The identifier and the time each construction of an entity draws.\<close>

type_synonym claim_draw = "uuid \<times> datetime"

definition component_claim :: "claim_draw \<Rightarrow> component_candidate \<Rightarrow> topology_claim" where
  "component_claim d c =
     \<lparr>tc_id = fst d, tc_kind = Component_Kind, tc_name = cc_name c, tc_attribute = ''component_type'',
      tc_value = component_type_value (cc_type c), tc_repository_id = cc_repository_id c,
      tc_revision = cc_revision c, tc_origin = knowledge_origin_value (ke_origin (cc_provenance c)),
      tc_confidence = ke_confidence (cc_provenance c), tc_provenance = cc_provenance c,
      tc_recorded_at = snd d\<rparr>"

definition interface_claim :: "claim_draw \<Rightarrow> interface_candidate \<Rightarrow> topology_claim" where
  "interface_claim d i =
     \<lparr>tc_id = fst d, tc_kind = Interface_Kind, tc_name = ic_component_name i @ '':'' @ ic_name i,
      tc_attribute = ''interface_type'', tc_value = interface_type_value (ic_type i),
      tc_repository_id = ic_repository_id i, tc_revision = ic_revision i,
      tc_origin = knowledge_origin_value (ke_origin (ic_provenance i)),
      tc_confidence = ke_confidence (ic_provenance i), tc_provenance = ic_provenance i,
      tc_recorded_at = snd d\<rparr>"

definition resource_claim :: "claim_draw \<Rightarrow> resource_candidate \<Rightarrow> topology_claim" where
  "resource_claim d r =
     \<lparr>tc_id = fst d, tc_kind = Resource_Kind, tc_name = rd_name r, tc_attribute = ''resource_type'',
      tc_value = resource_type_value (rd_type r), tc_repository_id = rd_repository_id r,
      tc_revision = rd_revision r, tc_origin = knowledge_origin_value (ke_origin (rd_provenance r)),
      tc_confidence = ke_confidence (rd_provenance r), tc_provenance = rd_provenance r,
      tc_recorded_at = snd d\<rparr>"

text \<open>The \<open>n\<close>-th claim of a list draws \<open>ds n\<close>.\<close>

definition topology_claims :: "(nat \<Rightarrow> claim_draw) \<Rightarrow> topology \<Rightarrow> topology_claim list" where
  "topology_claims ds t =
     (let makers = map (\<lambda>c d. component_claim d c) (tp_components t) @
                   map (\<lambda>i d. interface_claim d i) (tp_interfaces t) @
                   map (\<lambda>r d. resource_claim d r) (tp_resources t)
      in map (\<lambda>(n, mk). mk (ds n)) (enumerate 0 makers))"

text \<open>\<open>sort_rank\<close>: an origin outside the table ranks last.\<close>

definition sort_rank :: "topology_claim \<Rightarrow> int" where
  "sort_rank c =
     (case map_of [(''declared'', 0), (''observed'', 1), (''discovered'', 2), (''inferred'', 3)]
             (tc_origin c) of
        Some n \<Rightarrow> n | None \<Rightarrow> 4)"

definition beats :: "topology_claim \<Rightarrow> topology_claim \<Rightarrow> bool" where
  "beats new cur =
     (if sort_rank new \<noteq> sort_rank cur then sort_rank new < sort_rank cur
      else confidence_score (tc_confidence new) > confidence_score (tc_confidence cur))"

definition topology_claim_key :: "topology_claim \<Rightarrow> candidate_kind \<times> string" where
  "topology_claim_key c = (tc_kind c, tc_name c)"

definition reconcile_step :: "topology_claim
    \<Rightarrow> (candidate_kind \<times> string, topology_claim) dict \<times> (candidate_kind \<times> string, string) dict
    \<Rightarrow> (candidate_kind \<times> string, topology_claim) dict \<times> (candidate_kind \<times> string, string) dict" where
  "reconcile_step c bw =
     (let (best, winners) = bw; k = topology_claim_key c in
      (case dict_get best k of
         None \<Rightarrow> (dict_set k c best, dict_set k (tc_value c) winners)
       | Some cur \<Rightarrow>
           if beats c cur then (dict_set k c best, dict_set k (tc_value c) winners)
           else (best, winners)))"

definition reconcile_claims :: "topology_claim list \<Rightarrow> (candidate_kind \<times> string, string) dict" where
  "reconcile_claims cs = snd (fold reconcile_step cs ([], []))"

subsection \<open>The catalog\<close>

record software_catalog =
  ct_domains :: "software_domain collection"
  ct_systems :: "software_system collection"
  ct_components :: "software_component collection"
  ct_interfaces :: "software_interface collection"
  ct_resources :: "software_resource collection"
  ct_claims :: "topology_claim list"
  ct_dependencies :: "dependency_candidate list"

definition empty_catalog :: software_catalog where
  "empty_catalog = \<lparr>ct_domains = [], ct_systems = [], ct_components = [], ct_interfaces = [],
     ct_resources = [], ct_claims = [], ct_dependencies = []\<rparr>"

definition upsert_domain :: "software_domain \<Rightarrow> software_catalog \<Rightarrow> software_catalog" where
  "upsert_domain d c = c\<lparr>ct_domains := upsert d (sd_id d) (ct_domains c)\<rparr>"

definition upsert_system :: "software_system \<Rightarrow> software_catalog \<Rightarrow> software_catalog" where
  "upsert_system s c = c\<lparr>ct_systems := upsert s (ss_id s) (ct_systems c)\<rparr>"

definition upsert_component :: "software_component \<Rightarrow> software_catalog \<Rightarrow> software_catalog" where
  "upsert_component x c = c\<lparr>ct_components := upsert x (sm_id x) (ct_components c)\<rparr>"

definition upsert_interface :: "software_interface \<Rightarrow> software_catalog \<Rightarrow> software_catalog" where
  "upsert_interface i c = c\<lparr>ct_interfaces := upsert i (sf_id i) (ct_interfaces c)\<rparr>"

definition upsert_resource :: "software_resource \<Rightarrow> software_catalog \<Rightarrow> software_catalog" where
  "upsert_resource r c = c\<lparr>ct_resources := upsert r (so_id r) (ct_resources c)\<rparr>"

definition save_claims :: "topology_claim list \<Rightarrow> software_catalog \<Rightarrow> software_catalog" where
  "save_claims cs c = c\<lparr>ct_claims := ct_claims c @ cs\<rparr>"

definition save_dependencies :: "dependency_candidate list \<Rightarrow> software_catalog \<Rightarrow> software_catalog" where
  "save_dependencies ds c = c\<lparr>ct_dependencies := ct_dependencies c @ ds\<rparr>"

definition list_claims :: "uuid \<Rightarrow> software_catalog \<Rightarrow> topology_claim list" where
  "list_claims r c = filter (\<lambda>x. tc_repository_id x = r) (ct_claims c)"

definition list_systems :: "uuid \<Rightarrow> software_catalog \<Rightarrow> software_system list" where
  "list_systems p c = filter (\<lambda>s. ss_project_id s = p) (list_all_items (ct_systems c))"

definition list_components :: "uuid \<Rightarrow> software_catalog \<Rightarrow> software_component list" where
  "list_components p c = filter (\<lambda>x. sm_project_id x = p) (list_all_items (ct_components c))"

definition list_interfaces :: "uuid \<Rightarrow> software_catalog \<Rightarrow> software_interface list" where
  "list_interfaces p c =
     filter (\<lambda>i. sf_component_id i \<in> set (map sm_id (list_components p c)))
       (list_all_items (ct_interfaces c))"

definition list_resources :: "uuid \<Rightarrow> software_catalog \<Rightarrow> software_resource list" where
  "list_resources p c = filter (\<lambda>r. so_project_id r = p) (list_all_items (ct_resources c))"

text \<open>The project is deleted from the arguments: every project's dependencies answer.\<close>

definition list_dependencies :: "uuid \<Rightarrow> string \<Rightarrow> software_catalog \<Rightarrow> string list" where
  "list_dependencies p name c =
     map dd_target (filter (\<lambda>d. dd_source d = name) (ct_dependencies c))"

text \<open>
  \<open>DerivedSoftwareCatalog\<close> asks the store with the identifier of the project, and
  \<open>NullSoftwareCatalog\<close> answers with nothing.
\<close>

definition derived_components :: "project \<Rightarrow> software_catalog \<Rightarrow> software_component list" where
  "derived_components p = list_components (pj_id p)"

definition derived_interfaces :: "project \<Rightarrow> software_catalog \<Rightarrow> software_interface list" where
  "derived_interfaces p = list_interfaces (pj_id p)"

definition derived_resources :: "project \<Rightarrow> software_catalog \<Rightarrow> software_resource list" where
  "derived_resources p = list_resources (pj_id p)"

definition derived_systems :: "project \<Rightarrow> software_catalog \<Rightarrow> software_system list" where
  "derived_systems p = list_systems (pj_id p)"

definition derived_dependencies :: "project \<Rightarrow> string \<Rightarrow> software_catalog \<Rightarrow> string list" where
  "derived_dependencies p = list_dependencies (pj_id p)"

definition null_components :: "project \<Rightarrow> software_component list" where
  "null_components p = []"

definition null_interfaces :: "project \<Rightarrow> software_interface list" where
  "null_interfaces p = []"

definition null_resources :: "project \<Rightarrow> software_resource list" where
  "null_resources p = []"

subsection \<open>One discovery\<close>

text \<open>
  What a discovery draws: for each claim its identifier and time, an identifier for the system,
  and one for each component, interface and resource, by position.
\<close>

record topology_draws =
  td_claims :: "nat \<Rightarrow> claim_draw"
  td_system :: uuid
  td_component :: "nat \<Rightarrow> uuid"
  td_interface :: "nat \<Rightarrow> uuid"
  td_resource :: "nat \<Rightarrow> uuid"

record topology_result =
  tr_topology :: topology
  tr_claims :: "topology_claim list"
  tr_systems :: "software_system list"
  tr_components :: "software_component list"
  tr_interfaces :: "software_interface list"
  tr_resources :: "software_resource list"

definition discovered_component :: "uuid \<Rightarrow> nat \<times> component_candidate \<Rightarrow> (nat \<Rightarrow> uuid)
    \<Rightarrow> software_component" where
  "discovered_component p nc ids =
     \<lparr>sm_id = ids (fst nc), sm_project_id = p, sm_name = cc_name (snd nc), sm_type = cc_type (snd nc),
      sm_repository_ids = [cc_repository_id (snd nc)], sm_owner = None, sm_lifecycle = None,
      sm_provenance = [cc_provenance (snd nc)], sm_external_refs = []\<rparr>"

definition discovered_components :: "uuid \<Rightarrow> (nat \<Rightarrow> uuid) \<Rightarrow> topology \<Rightarrow> software_component list" where
  "discovered_components p ids t =
     map (\<lambda>nc. discovered_component p nc ids) (enumerate 0 (tp_components t))"

definition discovered_resources :: "uuid \<Rightarrow> (nat \<Rightarrow> uuid) \<Rightarrow> topology \<Rightarrow> software_resource list" where
  "discovered_resources p ids t =
     map (\<lambda>(n, r). \<lparr>so_id = ids n, so_project_id = p, so_name = rd_name r, so_type = rd_type r,
                    so_external_refs = [], so_provenance = [rd_provenance r]\<rparr>)
       (enumerate 0 (tp_resources t))"

definition discovered_systems :: "uuid \<Rightarrow> uuid \<Rightarrow> software_component list \<Rightarrow> software_system list" where
  "discovered_systems i p cs =
     (if cs = [] then []
      else [\<lparr>ss_id = i, ss_project_id = p, ss_domain_id = None, ss_name = ''default'',
             ss_description = None, ss_component_ids = map sm_id cs, ss_external_refs = []\<rparr>])"

text \<open>\<open>{c.name: c for c in components}\<close>: the last component of a name answers.\<close>

definition components_by_name :: "software_component list \<Rightarrow> (string, software_component) dict" where
  "components_by_name cs = fold (\<lambda>c. dict_set (sm_name c) c) cs []"

definition linked_candidates :: "software_component list \<Rightarrow> topology
    \<Rightarrow> (software_component \<times> interface_candidate) list" where
  "linked_candidates cs t =
     List.map_filter (\<lambda>i. map_option (\<lambda>c. (c, i)) (dict_get (components_by_name cs) (ic_component_name i)))
       (tp_interfaces t)"

definition discovered_interfaces :: "(nat \<Rightarrow> uuid) \<Rightarrow> software_component list \<Rightarrow> topology
    \<Rightarrow> software_interface list" where
  "discovered_interfaces ids cs t =
     map (\<lambda>(n, (c, i)). \<lparr>sf_id = ids n, sf_component_id = sm_id c, sf_type = ic_type i,
                         sf_name = ic_name i, sf_schema_ref = ic_schema_ref i, sf_external_refs = []\<rparr>)
       (enumerate 0 (linked_candidates cs t))"

text \<open>
  \<open>discover_and_persist\<close>. The loop that sets \<open>project_id\<close> writes into the objects of the
  topology, so the returned topology carries the project too.
\<close>

definition discover_and_persist :: "(uuid \<Rightarrow> string \<Rightarrow> (string, string) dict \<Rightarrow> exn + topology)
    \<Rightarrow> topology_draws \<Rightarrow> uuid \<Rightarrow> uuid \<Rightarrow> string \<Rightarrow> (string, string) dict \<Rightarrow> software_catalog
    \<Rightarrow> (software_catalog, topology_result) outcome" where
  "discover_and_persist discover ds p r v files cat =
     (case discover r v files of
        Inl e \<Rightarrow> (Inl e, cat)
      | Inr t0 \<Rightarrow>
          (let claims = topology_claims (td_claims ds) t0;
               deps = map (\<lambda>d. d\<lparr>dd_project_id := Some p\<rparr>) (tp_dependencies t0);
               t = t0\<lparr>tp_dependencies := deps\<rparr>;
               components = discovered_components p (td_component ds) t;
               systems = discovered_systems (td_system ds) p components;
               interfaces = discovered_interfaces (td_interface ds) components t;
               resources = discovered_resources p (td_resource ds) t
           in (Inr \<lparr>tr_topology = t, tr_claims = claims, tr_systems = systems,
                    tr_components = components, tr_interfaces = interfaces,
                    tr_resources = resources\<rparr>,
               (fold upsert_resource resources \<circ> fold upsert_interface interfaces \<circ>
                fold upsert_component components \<circ> fold upsert_system systems \<circ>
                save_dependencies deps \<circ> save_claims claims) cat)))"

subsection \<open>What a merge keeps\<close>

lemma keep_first_keys: "key ` set (keep_first key seen xs) = key ` set xs - set seen"
  by (induction key seen xs rule: keep_first.induct) auto

lemma keep_first_seen: "key ` set xs \<subseteq> set seen \<Longrightarrow> keep_first key seen xs = []"
  by (induction key seen xs rule: keep_first.induct) auto

lemma keep_first_cong: "set seen = set seen' \<Longrightarrow> keep_first key seen xs = keep_first key seen' xs"
proof (induction xs arbitrary: seen seen')
  case (Cons x xs)
  show ?case using Cons.prems Cons.IH [of "key x # seen" "key x # seen'"] Cons.IH [of seen seen']
    by auto
qed simp

lemma keep_first_append:
  "keep_first key seen (xs @ ys) =
     keep_first key seen xs @ keep_first key (map key (keep_first key seen xs) @ seen) ys"
proof (induction xs arbitrary: seen)
  case (Cons x xs)
  have "keep_first key (map key (keep_first key (key x # seen) xs) @ key x # seen) ys =
      keep_first key (key x # map key (keep_first key (key x # seen) xs) @ seen) ys"
    by (rule keep_first_cong) auto
  with Cons show ?case by simp
qed simp

lemma keep_first_twice:
  "set seen \<subseteq> set seen' \<Longrightarrow> keep_first key seen' (keep_first key seen xs) = keep_first key seen' xs"
proof (induction xs arbitrary: seen seen')
  case (Cons x xs)
  have more: "set seen \<subseteq> set (key x # seen')" using Cons.prems by auto
  show ?case
  proof (cases "key x \<in> set seen")
    case True
    with Cons show ?thesis by auto
  next
    case False
    show ?thesis
    proof (cases "key x \<in> set seen'")
      case True
      have sub: "set (key x # seen) \<subseteq> set seen'" using True Cons.prems by auto
      have "keep_first key seen' (keep_first key (key x # seen) xs) = keep_first key seen' xs"
        using sub by (rule Cons.IH)
      with True False show ?thesis by simp
    next
      case none: False
      have sub: "set (key x # seen) \<subseteq> set (key x # seen')" using Cons.prems by auto
      have "keep_first key (key x # seen') (keep_first key (key x # seen) xs) =
          keep_first key (key x # seen') xs"
        using sub by (rule Cons.IH)
      with none False show ?thesis by simp
    qed
  qed
qed simp

lemma keep_first_keys_distinct:
  "distinct (map key (keep_first key seen xs)) \<and> set (map key (keep_first key seen xs)) \<inter> set seen = {}"
  by (induction key seen xs rule: keep_first.induct) auto

lemma merge_by_keys: "set (map key (merge_by key xs ys)) = key ` set xs \<union> key ` set ys"
  by (auto simp: merge_by_def keep_first_keys image_Un)

lemma merge_by_distinct: "distinct (map key xs) \<Longrightarrow> distinct (map key (merge_by key xs ys))"
  using keep_first_keys_distinct [of key "map key xs" ys] by (auto simp: merge_by_def)

lemma merge_by_absorbs: "key ` set ys \<subseteq> key ` set xs \<Longrightarrow> merge_by key xs ys = xs"
  by (simp add: merge_by_def keep_first_seen)

lemma merge_by_idempotent: "merge_by key (merge_by key xs ys) ys = merge_by key xs ys"
  using merge_by_keys [of key xs ys] by (intro merge_by_absorbs) auto

lemma merge_by_assoc: "merge_by key (merge_by key xs ys) zs = merge_by key xs (merge_by key ys zs)"
proof -
  let ?seen = "map key xs"
  have later: "keep_first key (map key (keep_first key ?seen ys) @ ?seen)
        (keep_first key (map key ys) zs) =
      keep_first key (?seen @ map key (keep_first key ?seen ys)) zs"
  proof -
    let ?all = "map key (keep_first key ?seen ys) @ ?seen"
    have "set (map key ys) \<subseteq> set ?all"
      using keep_first_keys [of key ?seen ys] by auto
    then have "keep_first key ?all (keep_first key (map key ys) zs) = keep_first key ?all zs"
      by (rule keep_first_twice)
    also have "\<dots> = keep_first key (?seen @ map key (keep_first key ?seen ys)) zs"
      by (rule keep_first_cong) auto
    finally show ?thesis .
  qed
  show ?thesis
    by (simp add: merge_by_def keep_first_append later)
qed

lemmas merge_defs = merge_topology_def merge_components_def merge_interfaces_def
  merge_resources_def merge_dependencies_def

text \<open>
  The merge of discovery passes is idempotent by identity and associative: merging a pass
  again changes nothing, how the passes are grouped does not matter, and what was there first
  stays first and unchanged.
\<close>

theorem topology_merge_laws:
  "merge_topology (merge_topology t u) u = merge_topology t u \<and>
   merge_topology (merge_topology t u) w = merge_topology t (merge_topology u w) \<and>
   take (length (tp_components t)) (tp_components (merge_topology t u)) = tp_components t"
proof (intro conjI)
  show "merge_topology (merge_topology t u) u = merge_topology t u"
    by (simp add: merge_defs merge_by_idempotent)
  show "merge_topology (merge_topology t u) w = merge_topology t (merge_topology u w)"
    by (simp add: merge_defs merge_by_assoc)
  show "take (length (tp_components t)) (tp_components (merge_topology t u)) = tp_components t"
    by (simp add: merge_defs merge_by_def)
qed

text \<open>One candidate per identity.\<close>

definition topology_ok :: "topology \<Rightarrow> bool" where
  "topology_ok t \<longleftrightarrow>
     distinct (map cc_name (tp_components t)) \<and> distinct (map interface_identity (tp_interfaces t)) \<and>
     distinct (map rd_name (tp_resources t)) \<and> distinct (map dependency_identity (tp_dependencies t))"

lemma topology_ok_new [simp]: "topology_ok (new_topology r v now)"
  by (simp add: topology_ok_def new_topology_def)

lemma topology_ok_merge [intro]: "topology_ok t \<Longrightarrow> topology_ok (merge_topology t u)"
  by (simp add: topology_ok_def merge_defs merge_by_distinct)

subsection \<open>The claim that wins\<close>

lemma beats_irrefl: "\<not> beats c c"
  by (simp add: beats_def)

lemma beats_trans: "\<lbrakk>\<not> beats a b; \<not> beats b c\<rbrakk> \<Longrightarrow> \<not> beats a c"
  by (auto simp: beats_def split: if_splits)

definition reconciled :: "topology_claim list
    \<Rightarrow> (candidate_kind \<times> string, topology_claim) dict \<times> (candidate_kind \<times> string, string) dict
    \<Rightarrow> bool" where
  "reconciled cs bw \<longleftrightarrow>
     (\<forall>k. dict_get (snd bw) k = map_option tc_value (dict_get (fst bw) k)) \<and>
     (\<forall>k w. dict_get (fst bw) k = Some w \<longrightarrow>
        w \<in> set cs \<and> topology_claim_key w = k \<and>
        (\<forall>d \<in> set cs. topology_claim_key d = k \<longrightarrow> \<not> beats d w)) \<and>
     (\<forall>c \<in> set cs. dict_get (fst bw) (topology_claim_key c) \<noteq> None)"

lemma reconciledD:
  assumes "reconciled cs bw" and "dict_get (fst bw) k = Some w"
  shows "w \<in> set cs \<and> topology_claim_key w = k \<and>
    (\<forall>d \<in> set cs. topology_claim_key d = k \<longrightarrow> \<not> beats d w)"
  using assms unfolding reconciled_def by blast

lemma reconciled_winner:
  "reconciled cs bw \<Longrightarrow> dict_get (snd bw) k = map_option tc_value (dict_get (fst bw) k)"
  unfolding reconciled_def by blast

lemma reconciled_put:
  assumes R: "reconciled cs (best, winners)"
    and wins: "\<forall>d \<in> set cs. topology_claim_key d = topology_claim_key c \<longrightarrow> \<not> beats d c"
  shows "reconciled (cs @ [c]) (dict_set (topology_claim_key c) c best,
           dict_set (topology_claim_key c) (tc_value c) winners)"
  using assms by (auto simp: reconciled_def store_simps beats_irrefl)

lemma reconciled_step:
  assumes R: "reconciled cs bw"
  shows "reconciled (cs @ [c]) (reconcile_step c bw)"
proof -
  obtain best winners where bw: "bw = (best, winners)" by (cases bw)
  let ?k = "topology_claim_key c"
  show ?thesis
  proof (cases "dict_get best ?k")
    case None
    then have "\<forall>d \<in> set cs. topology_claim_key d \<noteq> ?k"
      using R by (auto simp: reconciled_def bw)
    then have "reconciled (cs @ [c]) (dict_set ?k c best, dict_set ?k (tc_value c) winners)"
      using R reconciled_put by (simp add: bw)
    with None show ?thesis by (simp add: reconcile_step_def bw Let_def)
  next
    case (Some cur)
    have cur: "topology_claim_key cur = ?k"
        "\<forall>d \<in> set cs. topology_claim_key d = ?k \<longrightarrow> \<not> beats d cur"
      using reconciledD [OF R] Some by (auto simp: bw)
    show ?thesis
    proof (cases "beats c cur")
      case True
      have "\<not> beats d c" if "\<not> beats d cur" for d
        using that True beats_trans [of cur d c] beats_trans [of d cur c]
        by (auto simp: beats_def split: if_splits)
      with cur have "reconciled (cs @ [c]) (dict_set ?k c best, dict_set ?k (tc_value c) winners)"
        using R by (intro reconciled_put) (auto simp: bw)
      with True Some show ?thesis by (simp add: reconcile_step_def bw Let_def)
    next
      case False
      then have "reconciled (cs @ [c]) (best, winners)"
        using R Some cur by (auto simp: reconciled_def bw)
      with False Some show ?thesis by (simp add: reconcile_step_def bw Let_def)
    qed
  qed
qed

lemma reconciled_fold: "reconciled cs bw \<Longrightarrow> reconciled (cs @ ds) (fold reconcile_step ds bw)"
proof (induction ds arbitrary: cs bw)
  case (Cons d ds)
  then show ?case using Cons.IH [OF reconciled_step [OF Cons.prems]] by simp
qed simp

lemma reconcile_claims_reconciled:
  "reconciled cs (fold reconcile_step cs ([], []))"
  using reconciled_fold [of "[]" "([], [])" cs] by (simp add: reconciled_def)


text \<open>An evidence and two claims about one component, for the witness.\<close>

definition claim_evidence :: "knowledge_origin \<Rightarrow> knowledge_confidence \<Rightarrow> knowledge_evidence" where
  "claim_evidence origin confidence =
     \<lparr>ke_source_type = ''catalog'', ke_source_id = None, ke_method = Manifest_Analysis,
      ke_origin = origin, ke_observed_at = 0, ke_confidence = confidence, ke_commit_sha = None,
      ke_revision_scope = None\<rparr>"

definition demo_candidate :: "string \<Rightarrow> component_type \<Rightarrow> knowledge_evidence \<Rightarrow> component_candidate" where
  "demo_candidate name t e =
     \<lparr>cc_name = name, cc_type = t, cc_repository_id = ''r'', cc_revision = ''v'',
      cc_source_paths = [], cc_provenance = e, cc_metadata = []\<rparr>"

definition demo_claims :: "topology_claim list" where
  "demo_claims =
     [component_claim (''1'', 0) (demo_candidate ''api'' Worker_Component (claim_evidence Discovered Very_High)),
      component_claim (''2'', 0) (demo_candidate ''api'' Library (claim_evidence Declared Low_Confidence))]"


subsection \<open>What a discovery leaves in the catalog\<close>

text \<open>
  A catalog is linked when every object stands under its own identifier, every interface belongs
  to a stored component and every component a system names is stored.
\<close>

definition catalog_linked :: "software_catalog \<Rightarrow> bool" where
  "catalog_linked c \<longleftrightarrow>
     stored_by_id ss_id (ct_systems c) \<and> stored_by_id sm_id (ct_components c) \<and>
     stored_by_id sf_id (ct_interfaces c) \<and> stored_by_id so_id (ct_resources c) \<and>
     (\<forall>i \<in> set (list_all_items (ct_interfaces c)).
        sf_component_id i \<in> sm_id ` set (list_all_items (ct_components c))) \<and>
     (\<forall>s \<in> set (list_all_items (ct_systems c)).
        set (ss_component_ids s) \<subseteq> sm_id ` set (list_all_items (ct_components c)))"

lemma stored_ids: "stored_by_id f c \<Longrightarrow> f ` set (list_all_items c) = {i. get_item i c \<noteq> None}"
proof -
  assume ok: "stored_by_id f c"
  show ?thesis
  proof (intro equalityI subsetI)
    fix i assume "i \<in> f ` set (list_all_items c)"
    then show "i \<in> {i. get_item i c \<noteq> None}" using items_get [OF ok] by auto
  next
    fix i assume "i \<in> {i. get_item i c \<noteq> None}"
    then obtain a where a: "get_item i c = Some a" by auto
    then have "f a = i" using ok by (simp add: stored_by_id_def)
    then show "i \<in> f ` set (list_all_items c)" using items_get [OF ok, of a] a by auto
  qed
qed

lemma stored_ids_upsert:
  assumes "stored_by_id f c"
  shows "f ` set (list_all_items (upsert x (f x) c)) = insert (f x) (f ` set (list_all_items c))"
proof -
  have ok: "stored_by_id f (upsert x (f x) c)" using assms by simp
  show ?thesis unfolding stored_ids [OF ok] stored_ids [OF assms] by (auto simp: collection.fetch_put)
qed

lemma upsert_all:
  assumes "stored_by_id f c"
  shows "stored_by_id f (fold (\<lambda>x. upsert x (f x)) xs c) \<and>
    f ` set (list_all_items (fold (\<lambda>x. upsert x (f x)) xs c)) =
      f ` set xs \<union> f ` set (list_all_items c) \<and>
    set (list_all_items (fold (\<lambda>x. upsert x (f x)) xs c)) \<subseteq> set xs \<union> set (list_all_items c)"
  using assms
proof (induction xs arbitrary: c)
  case (Cons x xs)
  have ok: "stored_by_id f (upsert x (f x) c)" using Cons.prems by simp
  have items: "set (list_all_items (upsert x (f x) c)) \<subseteq> insert x (set (list_all_items c))"
    using Cons.prems by (intro collection.items_put_subset) (simp add: stored_by_id_def)
  note ids = stored_ids_upsert [OF Cons.prems, of x]
  show ?case
  proof (intro conjI)
    show "stored_by_id f (fold (\<lambda>x. upsert x (f x)) (x # xs) c)"
      using Cons.IH [OF ok] by simp
    show "f ` set (list_all_items (fold (\<lambda>x. upsert x (f x)) (x # xs) c)) =
        f ` set (x # xs) \<union> f ` set (list_all_items c)"
      using Cons.IH [OF ok] ids by simp
    show "set (list_all_items (fold (\<lambda>x. upsert x (f x)) (x # xs) c)) \<subseteq>
        set (x # xs) \<union> set (list_all_items c)"
      using Cons.IH [OF ok] items by (simp add: subset_iff) blast
  qed
qed simp

lemma upsert_all_fresh:
  assumes "distinct (map f xs)" and "\<And>x. x \<in> set xs \<Longrightarrow> get_item (f x) c = None"
  shows "list_all_items (fold (\<lambda>x. upsert x (f x)) xs c) = list_all_items c @ xs"
  using assms
proof (induction xs arbitrary: c)
  case (Cons x xs)
  have "get_item (f y) (upsert x (f x) c) = None" if "y \<in> set xs" for y
  proof -
    have "f y \<noteq> f x" using that Cons.prems(1) by (metis distinct.simps(2) imageI list.set_map list.simps(9))
    then show ?thesis using that Cons.prems(2) by (simp add: collection.fetch_put)
  qed
  then have "list_all_items (fold (\<lambda>x. upsert x (f x)) xs (upsert x (f x) c)) =
      list_all_items (upsert x (f x) c) @ xs"
    using Cons.prems by (intro Cons.IH) auto
  then show ?case using Cons.prems by (simp add: items_insert)
qed simp

lemma upsert_components_fields:
  "ct_components (fold upsert_component xs c) = fold (\<lambda>x. upsert x (sm_id x)) xs (ct_components c)"
  "ct_systems (fold upsert_component xs c) = ct_systems c"
  "ct_interfaces (fold upsert_component xs c) = ct_interfaces c"
  "ct_resources (fold upsert_component xs c) = ct_resources c"
  by (induction xs arbitrary: c) (simp_all add: upsert_component_def)

lemma upsert_systems_fields:
  "ct_systems (fold upsert_system xs c) = fold (\<lambda>x. upsert x (ss_id x)) xs (ct_systems c)"
  "ct_components (fold upsert_system xs c) = ct_components c"
  "ct_interfaces (fold upsert_system xs c) = ct_interfaces c"
  "ct_resources (fold upsert_system xs c) = ct_resources c"
  by (induction xs arbitrary: c) (simp_all add: upsert_system_def)

lemma upsert_interfaces_fields:
  "ct_interfaces (fold upsert_interface xs c) = fold (\<lambda>x. upsert x (sf_id x)) xs (ct_interfaces c)"
  "ct_components (fold upsert_interface xs c) = ct_components c"
  "ct_systems (fold upsert_interface xs c) = ct_systems c"
  "ct_resources (fold upsert_interface xs c) = ct_resources c"
  by (induction xs arbitrary: c) (simp_all add: upsert_interface_def)

lemma upsert_resources_fields:
  "ct_resources (fold upsert_resource xs c) = fold (\<lambda>x. upsert x (so_id x)) xs (ct_resources c)"
  "ct_components (fold upsert_resource xs c) = ct_components c"
  "ct_systems (fold upsert_resource xs c) = ct_systems c"
  "ct_interfaces (fold upsert_resource xs c) = ct_interfaces c"
  by (induction xs arbitrary: c) (simp_all add: upsert_resource_def)

lemma save_fields [simp]:
  "ct_components (save_claims cs c) = ct_components c" "ct_systems (save_claims cs c) = ct_systems c"
  "ct_interfaces (save_claims cs c) = ct_interfaces c" "ct_resources (save_claims cs c) = ct_resources c"
  "ct_components (save_dependencies ds c) = ct_components c"
  "ct_systems (save_dependencies ds c) = ct_systems c"
  "ct_interfaces (save_dependencies ds c) = ct_interfaces c"
  "ct_resources (save_dependencies ds c) = ct_resources c"
  by (simp_all add: save_claims_def save_dependencies_def)

lemmas catalog_fields = upsert_components_fields upsert_systems_fields upsert_interfaces_fields
  upsert_resources_fields

text \<open>The dictionary by name holds only components of the list.\<close>

lemma components_by_name_in:
  "dict_get (fold (\<lambda>c. dict_set (sm_name c) c) cs d) n = Some c \<Longrightarrow> c \<in> set cs \<or> dict_get d n = Some c"
proof (induction cs arbitrary: d)
  case (Cons a cs)
  then have "c \<in> set cs \<or> dict_get (dict_set (sm_name a) a d) n = Some c" by simp
  then show ?case by (auto simp: store_simps split: if_splits)
qed simp

lemma linked_components: "(c, i) \<in> set (linked_candidates cs t) \<Longrightarrow> c \<in> set cs"
  using components_by_name_in [of cs "[]"]
  by (auto simp: linked_candidates_def components_by_name_def List.map_filter_def)

lemma enumerate_member: "(n, x) \<in> set (enumerate m xs) \<Longrightarrow> x \<in> set xs"
  by (auto simp: in_set_enumerate_eq)

lemma interface_components:
  "x \<in> set (discovered_interfaces ids cs t) \<Longrightarrow> sf_component_id x \<in> sm_id ` set cs"
  by (auto simp: discovered_interfaces_def dest!: linked_components enumerate_member)

lemma system_components:
  "s \<in> set (discovered_systems i p cs) \<Longrightarrow> set (ss_component_ids s) \<subseteq> sm_id ` set cs"
  by (auto simp: discovered_systems_def split: if_splits)

text \<open>
  A discovery keeps the catalog linked, whatever identifiers it draws and whether or not
  the detectors raise: the interfaces and the system it stores belong to components it stores,
  and what the catalog held keeps its components.
\<close>

theorem discovery_keeps_catalog_linked:
  assumes linked: "catalog_linked cat"
  shows "catalog_linked (snd (discover_and_persist discover ds p r v files cat))"
proof (cases "discover r v files")
  case (Inl e)
  with linked show ?thesis by (simp add: discover_and_persist_def)
next
  case (Inr t0)
  define t where "t = t0\<lparr>tp_dependencies := map (\<lambda>d. d\<lparr>dd_project_id := Some p\<rparr>) (tp_dependencies t0)\<rparr>"
  define cs where "cs = discovered_components p (td_component ds) t"
  define ss where "ss = discovered_systems (td_system ds) p cs"
  define fs where "fs = discovered_interfaces (td_interface ds) cs t"
  define os where "os = discovered_resources p (td_resource ds) t"
  define cat' where "cat' = snd (discover_and_persist discover ds p r v files cat)"
  have components: "ct_components cat' = fold (\<lambda>x. upsert x (sm_id x)) cs (ct_components cat)"
    and systems: "ct_systems cat' = fold (\<lambda>x. upsert x (ss_id x)) ss (ct_systems cat)"
    and interfaces: "ct_interfaces cat' = fold (\<lambda>x. upsert x (sf_id x)) fs (ct_interfaces cat)"
    and resources: "ct_resources cat' = fold (\<lambda>x. upsert x (so_id x)) os (ct_resources cat)"
    by (simp_all add: cat'_def discover_and_persist_def Inr Let_def catalog_fields
        cs_def ss_def fs_def os_def t_def)
  note C = upsert_all [of sm_id "ct_components cat" cs, folded components]
  note S = upsert_all [of ss_id "ct_systems cat" ss, folded systems]
  note F = upsert_all [of sf_id "ct_interfaces cat" fs, folded interfaces]
  note O = upsert_all [of so_id "ct_resources cat" os, folded resources]
  have L: "stored_by_id ss_id (ct_systems cat)" "stored_by_id sm_id (ct_components cat)"
    "stored_by_id sf_id (ct_interfaces cat)" "stored_by_id so_id (ct_resources cat)"
    using linked by (simp_all add: catalog_linked_def)
  have ids: "sm_id ` set (list_all_items (ct_components cat')) =
      sm_id ` set cs \<union> sm_id ` set (list_all_items (ct_components cat))"
    using C [OF L(2)] by blast
  have i: "sf_component_id i \<in> sm_id ` set (list_all_items (ct_components cat'))"
    if "i \<in> set (list_all_items (ct_interfaces cat'))" for i
  proof -
    have "i \<in> set fs \<or> i \<in> set (list_all_items (ct_interfaces cat))"
      using that F [OF L(3)] by blast
    then show ?thesis
      using linked interface_components [of i "td_interface ds" cs t]
      unfolding ids catalog_linked_def fs_def by blast
  qed
  have s: "set (ss_component_ids s) \<subseteq> sm_id ` set (list_all_items (ct_components cat'))"
    if "s \<in> set (list_all_items (ct_systems cat'))" for s
  proof -
    have "s \<in> set ss \<or> s \<in> set (list_all_items (ct_systems cat))"
      using that S [OF L(1)] by blast
    then show ?thesis
      using linked system_components [of s "td_system ds" p cs]
      unfolding ids catalog_linked_def ss_def by blast
  qed
  show ?thesis
    using C [OF L(2)] S [OF L(1)] F [OF L(3)] O [OF L(4)] i s
    by (simp add: catalog_linked_def cat'_def [symmetric])
qed

text \<open>A discovery of one component with one interface, for the witnesses.\<close>

definition demo_topology :: topology where
  "demo_topology = (new_topology ''r'' ''v'' 0)
     \<lparr>tp_components := [demo_candidate ''api'' Backend_Service (claim_evidence Discovered High_Confidence)],
      tp_interfaces := [\<lparr>ic_name = ''openapi.yaml'', ic_type = Rest_Interface, ic_component_name = ''api'',
        ic_schema_ref = None, ic_repository_id = ''r'', ic_revision = ''v'', ic_source_paths = [],
        ic_provenance = claim_evidence Discovered High_Confidence\<rparr>]\<rparr>"

definition demo_discover :: "uuid \<Rightarrow> string \<Rightarrow> (string, string) dict \<Rightarrow> exn + topology" where
  "demo_discover r v files = Inr demo_topology"

definition demo_topology_draws :: "char \<Rightarrow> topology_draws" where
  "demo_topology_draws x =
     \<lparr>td_claims = (\<lambda>n. (x # str_nat n, 0)), td_system = [x, CHR ''s''],
      td_component = (\<lambda>n. x # str_nat n), td_interface = (\<lambda>n. x # str_nat n),
      td_resource = (\<lambda>n. x # str_nat n)\<rparr>"

theorem discovery_keeps_catalog_linked_witness:
  "catalog_linked (snd (discover_and_persist demo_discover (demo_topology_draws CHR ''a'') ''p'' ''r'' ''v'' []
     empty_catalog))"
  by (rule discovery_keeps_catalog_linked)
    (simp add: catalog_linked_def empty_catalog_def stored_by_id_def list_all_items_def
      dict_values_def get_item_def)

text \<open>The identifiers a discovery draws for its components are new to the catalog.\<close>

definition draws_new_components :: "topology_draws \<Rightarrow> topology \<Rightarrow> software_catalog \<Rightarrow> bool" where
  "draws_new_components ds t cat \<longleftrightarrow>
     distinct (map (td_component ds) [0..<length (tp_components t)]) \<and>
     (\<forall>n < length (tp_components t). get_item (td_component ds n) (ct_components cat) = None)"

lemma discovered_component_fields:
  "map sm_id (discovered_components p ids t) = map ids [0..<length (tp_components t)]"
  "map sm_name (discovered_components p ids t) = map cc_name (tp_components t)"
  "filter (\<lambda>x. sm_project_id x = p) (discovered_components p ids t) = discovered_components p ids t"
proof -
  show "map sm_id (discovered_components p ids t) = map ids [0..<length (tp_components t)]"
    by (rule nth_equalityI)
      (simp_all add: discovered_components_def discovered_component_def nth_enumerate_eq)
  show "map sm_name (discovered_components p ids t) = map cc_name (tp_components t)"
    by (rule nth_equalityI)
      (simp_all add: discovered_components_def discovered_component_def nth_enumerate_eq)
  show "filter (\<lambda>x. sm_project_id x = p) (discovered_components p ids t) = discovered_components p ids t"
    by (rule filter_True) (auto simp: discovered_components_def discovered_component_def)
qed

lemma discovery_components:
  assumes "discover r v files = Inr t"
  shows "ct_components (snd (discover_and_persist discover ds p r v files cat)) =
    fold (\<lambda>x. upsert x (sm_id x)) (discovered_components p (td_component ds) t) (ct_components cat)"
  by (simp add: discover_and_persist_def assms Let_def catalog_fields discovered_components_def)

lemma discovery_appends_components:
  assumes found: "discover r v files = Inr t" and new: "draws_new_components ds t cat"
  shows "map sm_name (list_components p (snd (discover_and_persist discover ds p r v files cat))) =
    map sm_name (list_components p cat) @ map cc_name (tp_components t)"
proof -
  define cs where "cs = discovered_components p (td_component ds) t"
  note components = discovery_components [where discover = discover, OF found, of ds p cat, folded cs_def]
  have "list_all_items (fold (\<lambda>x. upsert x (sm_id x)) cs (ct_components cat)) =
      list_all_items (ct_components cat) @ cs"
  proof (rule upsert_all_fresh)
    show "distinct (map sm_id cs)"
      using new by (simp add: cs_def discovered_component_fields draws_new_components_def)
    fix x assume "x \<in> set cs"
    then have "sm_id x \<in> set (map sm_id cs)" by simp
    then have "sm_id x \<in> set (map (td_component ds) [0..<length (tp_components t)])"
      by (simp only: cs_def discovered_component_fields)
    then obtain n where "n < length (tp_components t)" "sm_id x = td_component ds n"
      by auto
    then show "get_item (sm_id x) (ct_components cat) = None"
      using new by (simp add: draws_new_components_def)
  qed
  then show ?thesis
    by (simp add: list_components_def components) (simp add: cs_def discovered_component_fields)
qed

text \<open>
  A second discovery of the same files does not replace what the first one stored: every
  component draws a new identifier, so each one found is listed once more. The catalog has no
  identity by name.
\<close>

theorem rediscovery_lists_components_twice:
  assumes "discover r v files = Inr t"
    and "cat1 = snd (discover_and_persist discover ds1 p r v files cat)"
    and "draws_new_components ds1 t cat" and "draws_new_components ds2 t cat1"
  shows "map sm_name (list_components p (snd (discover_and_persist discover ds2 p r v files cat1))) =
    map sm_name (list_components p cat) @ map cc_name (tp_components t) @ map cc_name (tp_components t)"
proof -
  have "map sm_name (list_components p cat1) =
      map sm_name (list_components p cat) @ map cc_name (tp_components t)"
    unfolding assms(2) by (rule discovery_appends_components) (rule assms)+
  moreover have "map sm_name (list_components p (snd (discover_and_persist discover ds2 p r v files cat1))) =
      map sm_name (list_components p cat1) @ map cc_name (tp_components t)"
    by (rule discovery_appends_components) (rule assms)+
  ultimately show ?thesis by simp
qed

theorem rediscovery_lists_components_twice_witness:
  "map sm_name (list_components ''p'' (snd (discover_and_persist demo_discover
     (demo_topology_draws CHR ''b'') ''p'' ''r'' ''v'' []
     (snd (discover_and_persist demo_discover (demo_topology_draws CHR ''a'') ''p'' ''r'' ''v'' []
        empty_catalog))))) = [''api'', ''api'']"
proof -
  have first: "draws_new_components (demo_topology_draws CHR ''a'') demo_topology empty_catalog"
    by (simp add: draws_new_components_def demo_topology_def new_topology_def empty_catalog_def get_item_def)
  have second: "draws_new_components (demo_topology_draws CHR ''b'') demo_topology
     (snd (discover_and_persist demo_discover (demo_topology_draws CHR ''a'') ''p'' ''r'' ''v'' []
        empty_catalog))"
    by (simp add: draws_new_components_def discovery_components demo_discover_def)
      (simp add: demo_topology_def new_topology_def empty_catalog_def get_item_def upsert_def
        discovered_components_def discovered_component_def demo_topology_draws_def)
  have names: "map cc_name (tp_components demo_topology) = [''api'']"
    by (simp add: demo_topology_def new_topology_def demo_candidate_def)
  show ?thesis
    using rediscovery_lists_components_twice [where discover = demo_discover and r = "''r''"
        and v = "''v''" and files = "[]" and t = demo_topology, OF _ refl first second]
    by (simp add: demo_discover_def names) (simp add: list_components_def empty_catalog_def
        list_all_items_def dict_values_def)
qed

text \<open>
  The dependencies the catalog answers with do not depend on the project that asks: a
  component of the same name in another project answers with its dependencies as well.
\<close>

theorem dependencies_ignore_project:
  "derived_dependencies p name cat = derived_dependencies q name cat \<and>
   set (derived_dependencies p name (save_dependencies ds cat)) =
     set (derived_dependencies p name cat) \<union> dd_target ` {d \<in> set ds. dd_source d = name}"
  by (auto simp: derived_dependencies_def list_dependencies_def save_dependencies_def)

end
