(* ===== verification/Topology_Detectors.thy ===== *)
theory Topology_Detectors
  imports Text_Search Topology Policy Code_Graph
begin

text \<open>
  The detectors that read the files of a revision and report candidates: manifests, deployment
  files, API schemas and resource names (\<open>adapters/topology/*.py\<close>), and the composite that
  merges them. The regular expressions are written out as the searches they are. The parsers of
  YAML and JSON are parameters: \<open>yaml.safe_load\<close> answers with a value, with a \<open>YAMLError\<close> or
  with another exception, \<open>json.loads\<close> with a value or a \<open>ValueError\<close>.

  The files are a dictionary from a path to its text. A detector reads the clock as \<open>tick 0\<close> for
  the topology and as \<open>tick (Suc n)\<close> for the evidence of the candidate after the \<open>n\<close> found so
  far.
\<close>

subsection \<open>Searches\<close>

definition is_quote :: "char \<Rightarrow> bool" where
  "is_quote c \<longleftrightarrow> code c = 34 \<or> code c = 39"

text \<open>\<open>[a-zA-Z0-9_.-]\<close>.\<close>

definition name_char :: "char \<Rightarrow> bool" where
  "name_char c =
     (let n = code c in
      48 \<le> n \<and> n \<le> 57 \<or> 65 \<le> n \<and> n \<le> 90 \<or> 97 \<le> n \<and> n \<le> 122 \<or> c \<in> {CHR ''_'', CHR ''.'', CHR ''-''})"

text \<open>A quoted text \<open>["']([^"']+)["']\<close> at the start.\<close>

definition quoted_text :: "string \<Rightarrow> string option" where
  "quoted_text s =
     (case s of
        [] \<Rightarrow> None
      | c # cs \<Rightarrow>
          (let body = takeWhile (\<lambda>x. \<not> is_quote x) cs in
           if is_quote c \<and> body \<noteq> [] \<and> length body < length cs then Some body else None))"

text \<open>\<open>key\s*=\s*["']([^"']+)["']\<close> at the start, after the key.\<close>

definition assigned_text :: "string \<Rightarrow> string option" where
  "assigned_text s =
     (case skip_spaces s of
        c # cs \<Rightarrow> if c = CHR ''='' then quoted_text (skip_spaces cs) else None
      | [] \<Rightarrow> None)"

definition some_text :: "string option \<Rightarrow> string option" where
  "some_text x = (if x = Some [] then None else x)"

subsection \<open>What a detector adds\<close>

definition candidates :: "topology \<Rightarrow> nat" where
  "candidates t = length (tp_components t) + length (tp_interfaces t) + length (tp_resources t) +
     length (tp_dependencies t)"

definition detector_evidence :: "string \<Rightarrow> knowledge_confidence \<Rightarrow> (nat \<Rightarrow> datetime) \<Rightarrow> topology
    \<Rightarrow> string \<Rightarrow> knowledge_evidence" where
  "detector_evidence source confidence tick t path =
     \<lparr>ke_source_type = source, ke_source_id = Some path, ke_method = Manifest_Analysis,
      ke_origin = Discovered, ke_observed_at = tick (Suc (candidates t)), ke_confidence = confidence,
      ke_commit_sha = Some (tp_revision t),
      ke_revision_scope = Some \<lparr>rv_repository_id = None, rv_branch = None,
        rv_commit_sha = Some (tp_revision t), rv_source_path = Some path, rv_content_hash = None,
        rv_valid_from = None, rv_valid_to = None\<rparr>\<rparr>"

definition add_component :: "knowledge_evidence \<Rightarrow> string \<Rightarrow> component_type \<Rightarrow> string
    \<Rightarrow> (string \<times> json) list \<Rightarrow> topology \<Rightarrow> topology" where
  "add_component e name ty path meta t =
     t\<lparr>tp_components := tp_components t @
        [\<lparr>cc_name = name, cc_type = ty, cc_repository_id = tp_repository_id t,
          cc_revision = tp_revision t, cc_source_paths = [path], cc_provenance = e,
          cc_metadata = meta\<rparr>]\<rparr>"

text \<open>\<open>if not any(r.name == name for r in topology.resources)\<close>.\<close>

definition add_resource :: "knowledge_evidence \<Rightarrow> resource_type \<times> string \<Rightarrow> string \<Rightarrow> topology \<Rightarrow> topology" where
  "add_resource e r path t =
     (if snd r \<in> set (map rd_name (tp_resources t)) then t
      else t\<lparr>tp_resources := tp_resources t @
              [\<lparr>rd_name = snd r, rd_type = fst r, rd_repository_id = tp_repository_id t,
                rd_revision = tp_revision t, rd_source_paths = [path], rd_provenance = e\<rparr>]\<rparr>)"

definition add_dependency :: "knowledge_evidence \<Rightarrow> string \<Rightarrow> string \<Rightarrow> string \<Rightarrow> topology \<Rightarrow> topology" where
  "add_dependency e source target path t =
     t\<lparr>tp_dependencies := tp_dependencies t @
        [\<lparr>dd_source = source, dd_target = target, dd_relation = ''DEPENDS_ON'', dd_project_id = None,
          dd_repository_id = tp_repository_id t, dd_revision = tp_revision t,
          dd_source_paths = [path], dd_provenance = e\<rparr>]\<rparr>"

subsection \<open>Manifests\<close>

definition pyproject_types :: "(string \<times> component_type) list" where
  "pyproject_types =
     [(''fastapi'', Backend_Service), (''flask'', Backend_Service), (''django'', Backend_Service),
      (''uvicorn'', Backend_Service), (''celery'', Worker_Component), (''rq'', Worker_Component),
      (''click'', Cli_Component), (''typer'', Cli_Component)]"

definition known_resources :: "(string \<times> resource_type \<times> string) list" where
  "known_resources =
     [(''psycopg'', Postgresql_Resource, ''PostgreSQL''), (''psycopg2'', Postgresql_Resource, ''PostgreSQL''),
      (''asyncpg'', Postgresql_Resource, ''PostgreSQL''), (''redis'', Redis_Resource, ''Redis''),
      (''kafka-python'', Kafka_Resource, ''Kafka''), (''aiokafka'', Kafka_Resource, ''Kafka''),
      (''boto3'', S3_Resource, ''S3/MinIO'')]"

definition manifest_evidence :: "(nat \<Rightarrow> datetime) \<Rightarrow> topology \<Rightarrow> string \<Rightarrow> knowledge_evidence" where
  "manifest_evidence = detector_evidence ''manifest'' High_Confidence"

text \<open>\<open>(?m)^name\s*=\s*["']([^"']+)["']\<close>.\<close>

definition project_name :: "string \<Rightarrow> string option" where
  "project_name content =
     search (\<lambda>prev s. if at_line_start prev
                        then Option.bind (after_literal ''name'' s) assigned_text else None) content"

text \<open>\<open>_entry_name\<close>: an optional quote, then the characters of a name.\<close>

definition entry_name :: "string \<Rightarrow> string option" where
  "entry_name entry =
     (let candidate = strip entry;
          s = (case candidate of c # cs \<Rightarrow> if is_quote c then cs else candidate | [] \<Rightarrow> []);
          name = takeWhile name_char s
      in if name = [] then None else Some (lower name))"

text \<open>\<open>^dependencies\s*=\s*\[(.*)\]$\<close> on a stripped line.\<close>

definition inline_dependencies :: "string \<Rightarrow> string option" where
  "inline_dependencies line =
     (case after_literal ''dependencies'' line of
        None \<Rightarrow> None
      | Some s \<Rightarrow>
          (case skip_spaces s of
             c # cs \<Rightarrow>
               (case skip_spaces cs of
                  b # bs \<Rightarrow>
                    if c = CHR ''='' \<and> b = CHR ''['' \<and> ends_with bs '']'' then Some (butlast bs) else None
                | [] \<Rightarrow> None)
           | [] \<Rightarrow> None))"

definition poetry_key :: "string \<Rightarrow> string option" where
  "poetry_key line =
     (let name = takeWhile name_char line; rest = drop (length name) line in
      if name \<noteq> [] \<and> assigned_text rest \<noteq> None then Some (lower name) else None)"

definition line_dependencies :: "string \<Rightarrow> string list" where
  "line_dependencies raw =
     (let line = strip raw in
      if line = [] then []
      else (case inline_dependencies line of
              Some body \<Rightarrow> List.map_filter entry_name (split_on CHR '','' body)
            | None \<Rightarrow>
                (case poetry_key line of
                   None \<Rightarrow> []
                 | Some k \<Rightarrow>
                     if list_ex (starts_with k)
                          [''python'', ''requires-python'', ''name'', ''version'', ''description'']
                     then [] else [k])))"

definition pyproject_dependencies :: "string \<Rightarrow> string list" where
  "pyproject_dependencies content = concat (map line_dependencies (split_lines [] content))"

definition pyproject_dependency :: "(nat \<Rightarrow> datetime) \<Rightarrow> string option \<Rightarrow> string \<Rightarrow> topology \<Rightarrow> topology" where
  "pyproject_dependency tick name dep t =
     (let path = ''pyproject.toml'' in
      case map_of pyproject_types dep of
        Some ty \<Rightarrow>
          (let n = (case some_text name of Some x \<Rightarrow> x | None \<Rightarrow> dep) in
           if n \<in> set (map cc_name (tp_components t)) then t
           else add_component (manifest_evidence tick t path) n ty path [] t)
      | None \<Rightarrow>
          (case map_of known_resources dep of
             None \<Rightarrow> t
           | Some r \<Rightarrow>
               (let t' = add_resource (manifest_evidence tick t path) r path t in
                case some_text name of
                  None \<Rightarrow> t'
                | Some n \<Rightarrow> add_dependency (manifest_evidence tick t' path) n (snd r) path t')))"

definition detect_pyproject :: "(nat \<Rightarrow> datetime) \<Rightarrow> string \<Rightarrow> topology \<Rightarrow> topology" where
  "detect_pyproject tick content t =
     (let path = ''pyproject.toml''; name = project_name content;
          t1 = (case some_text name of
                  None \<Rightarrow> t
                | Some n \<Rightarrow> add_component (manifest_evidence tick t path) n Backend_Service path [] t)
      in fold (pyproject_dependency tick name) (pyproject_dependencies content) t1)"

text \<open>The first line that starts with a name: an empty match is no match.\<close>

fun first_requirement :: "string list \<Rightarrow> string option" where
  "first_requirement [] = None"
| "first_requirement (l # ls) =
     (let line = strip l; name = takeWhile name_char line in
      if line = [] \<or> hd line = CHR ''#'' \<or> name = [] then first_requirement ls else Some name)"

definition requirements_project_name :: "string \<Rightarrow> string option" where
  "requirements_project_name content = first_requirement (split_lines [] content)"

text \<open>\<open>"name"\s*:\s*"([^"]+)"\<close>.\<close>

definition double_quoted :: "string \<Rightarrow> string option" where
  "double_quoted s =
     (case s of
        [] \<Rightarrow> None
      | c # cs \<Rightarrow>
          (let body = takeWhile (\<lambda>x. code x \<noteq> 34) cs in
           if code c = 34 \<and> body \<noteq> [] \<and> length body < length cs then Some body else None))"

definition json_key :: "string \<Rightarrow> string" where
  "json_key k = char_of (34::nat) # k @ [char_of (34::nat)]"

definition after_colon :: "string \<Rightarrow> string option" where
  "after_colon s = map_option skip_spaces (after_literal '':'' (skip_spaces s))"

definition package_name :: "string \<Rightarrow> string option" where
  "package_name content =
     search (\<lambda>prev s. Option.bind (Option.bind (after_literal (json_key ''name'') s) after_colon)
                          double_quoted) content"

definition package_type :: "string \<Rightarrow> component_type" where
  "package_type content =
     (let l = lower content in
      if contains (json_key ''react'') l \<or> contains (json_key ''vue'') l \<or>
         contains (char_of (34::nat) # ''@angular'') l \<or> contains (json_key ''next'') l
      then Frontend_Application else Backend_Service)"

definition detect_manifests :: "(nat \<Rightarrow> datetime) \<Rightarrow> uuid \<Rightarrow> string \<Rightarrow> (string, string) dict \<Rightarrow> topology" where
  "detect_manifests tick r v files =
     (let t0 = new_topology r v (tick 0);
          pyproject = dict_get files ''pyproject.toml'';
          t1 = (case pyproject of None \<Rightarrow> t0 | Some content \<Rightarrow> detect_pyproject tick content t0);
          named = (\<lambda>name ty path t. case some_text name of None \<Rightarrow> t
                     | Some n \<Rightarrow> add_component (manifest_evidence tick t path) n ty path [] t);
          t2 = (case dict_get files ''requirements.txt'' of
                  None \<Rightarrow> t1
                | Some content \<Rightarrow>
                    if some_text pyproject \<noteq> None then t1
                    else named (requirements_project_name content) Backend_Service ''requirements.txt'' t1)
      in (case dict_get files ''package.json'' of
            None \<Rightarrow> t2
          | Some content \<Rightarrow> named (package_name content) (package_type content) ''package.json'' t2))"

subsection \<open>Deployment files\<close>

datatype yaml_error = Yaml_Error | Yaml_Other exn

record parsers =
  yaml_load :: "string \<Rightarrow> yaml_error + json"
  json_loads :: "string \<Rightarrow> json option"

definition compose_service_types :: "(string \<times> component_type) list" where
  "compose_service_types =
     [(''worker'', Worker_Component), (''migrate'', Worker_Component), (''cron'', Worker_Component),
      (''api'', Backend_Service), (''app'', Backend_Service), (''backend'', Backend_Service),
      (''server'', Backend_Service), (''web'', Frontend_Application), (''frontend'', Frontend_Application)]"

definition resource_images :: "(string \<times> resource_type \<times> string) list" where
  "resource_images =
     [(''postgres'', Postgresql_Resource, ''PostgreSQL''), (''postgresql'', Postgresql_Resource, ''PostgreSQL''),
      (''mysql'', Postgresql_Resource, ''PostgreSQL''), (''redis'', Redis_Resource, ''Redis''),
      (''kafka'', Kafka_Resource, ''Kafka''), (''redpanda'', Kafka_Resource, ''Kafka''),
      (''minio'', Minio_Resource, ''MinIO''), (''minio/minio'', Minio_Resource, ''MinIO'')]"

definition compose_resources :: "(string \<times> resource_type \<times> string) list" where
  "compose_resources =
     [(''database'', Postgresql_Resource, ''PostgreSQL''), (''postgres'', Postgresql_Resource, ''PostgreSQL''),
      (''redis'', Redis_Resource, ''Redis''), (''cache'', Redis_Resource, ''Redis''),
      (''kafka'', Kafka_Resource, ''Kafka''), (''broker'', Broker_Resource, ''MessageBroker''),
      (''minio'', Minio_Resource, ''MinIO''), (''storage'', S3_Resource, ''S3/MinIO''),
      (''object-storage'', S3_Resource, ''S3/MinIO'')]"

definition deployment_evidence :: "knowledge_confidence \<Rightarrow> (nat \<Rightarrow> datetime) \<Rightarrow> topology \<Rightarrow> string
    \<Rightarrow> knowledge_evidence" where
  "deployment_evidence = detector_evidence ''deployment''"

text \<open>\<open>str(spec.get("image", ""))\<close>, and the name of an image without registry and tag.\<close>

definition get_text :: "(string \<times> json) list \<Rightarrow> string \<Rightarrow> string" where
  "get_text d k = (case map_of d k of None \<Rightarrow> [] | Some v \<Rightarrow> py_str v)"

definition image_key :: "string \<Rightarrow> string" where
  "image_key img = hd (split_on CHR '':'' (after_last CHR ''/'' img))"

definition compose_type :: "string \<Rightarrow> (string \<times> json) list \<Rightarrow> component_type" where
  "compose_type name spec =
     (case map_of compose_service_types (lower name) of
        Some ty \<Rightarrow> ty
      | None \<Rightarrow>
          (case List.find (\<lambda>(k, ty). contains k (lower (get_text spec ''image''))) compose_service_types of
             Some (k, ty) \<Rightarrow> ty
           | None \<Rightarrow> Backend_Service))"

definition compose_dependencies :: "(string \<times> json) list \<Rightarrow> string list" where
  "compose_dependencies spec =
     (case jget spec ''depends_on'' of
        JList ds \<Rightarrow> map py_str ds
      | JDict ds \<Rightarrow> map fst ds
      | _ \<Rightarrow> [])"

definition canonical_target :: "string \<Rightarrow> (string \<times> json) list \<Rightarrow> string" where
  "canonical_target service spec =
     (case map_of compose_resources (lower service) of
        Some r \<Rightarrow> snd r
      | None \<Rightarrow>
          (case map_of resource_images (image_key (lower (get_text spec ''image''))) of
             Some r \<Rightarrow> snd r
           | None \<Rightarrow> service))"

definition compose_service :: "(nat \<Rightarrow> datetime) \<Rightarrow> string \<Rightarrow> string \<times> json \<Rightarrow> topology \<Rightarrow> topology" where
  "compose_service tick path service t =
     (case service of
        (name, JDict spec) \<Rightarrow>
          fold (\<lambda>d t. add_dependency (deployment_evidence Medium_Confidence tick t path) name
                        (canonical_target d spec) path t)
            (compose_dependencies spec)
            (add_component (deployment_evidence High_Confidence tick t path) name
               (compose_type name spec) path
               [(''image'', JStr (get_text spec ''image'')), (''service'', JStr name)] t)
      | _ \<Rightarrow> t)"

definition image_resource :: "knowledge_confidence \<Rightarrow> (nat \<Rightarrow> datetime) \<Rightarrow> string \<Rightarrow> string \<Rightarrow> topology
    \<Rightarrow> topology" where
  "image_resource confidence tick path img t =
     (case map_of resource_images (lower (image_key img)) of
        None \<Rightarrow> t
      | Some r \<Rightarrow> add_resource (deployment_evidence confidence tick t path) r path t)"

definition compose_resource :: "(nat \<Rightarrow> datetime) \<Rightarrow> string \<Rightarrow> string \<times> json \<Rightarrow> topology \<Rightarrow> topology" where
  "compose_resource tick path service t =
     (case service of
        (name, JDict spec) \<Rightarrow> image_resource High_Confidence tick path (get_text spec ''image'') t
      | _ \<Rightarrow> t)"

definition detect_compose :: "parsers \<Rightarrow> (nat \<Rightarrow> datetime) \<Rightarrow> string \<Rightarrow> string \<Rightarrow> topology
    \<Rightarrow> exn + topology" where
  "detect_compose ps tick path content t =
     (case yaml_load ps content of
        Inl Yaml_Error \<Rightarrow> Inr t
      | Inl (Yaml_Other e) \<Rightarrow> Inl e
      | Inr (JDict d) \<Rightarrow>
          (case jget d ''services'' of
             JDict services \<Rightarrow>
               Inr (fold (compose_resource tick path) services (fold (compose_service tick path) services t))
           | _ \<Rightarrow> Inr t)
      | Inr _ \<Rightarrow> Inr t)"

subsection \<open>Terraform\<close>

definition terraform_resource :: "string \<Rightarrow> string \<Rightarrow> (resource_type \<times> string) option" where
  "terraform_resource kind engine =
     (let k = lower kind; e = lower engine in
      if list_ex (\<lambda>p. contains p k) [''postgres'', ''mysql'', ''rds''] \<or> contains ''postgres'' e \<or> contains ''mysql'' e
      then Some (Postgresql_Resource, ''PostgreSQL'')
      else if contains ''redis'' k \<or> contains ''elasticache'' k \<or> contains ''redis'' e
      then Some (Redis_Resource, ''Redis'')
      else if contains ''kafka'' k \<or> contains ''msk'' k \<or> contains ''kafka'' e
      then Some (Kafka_Resource, ''Kafka'')
      else if contains ''s3'' k \<or> contains ''bucket'' k then Some (S3_Resource, ''S3/MinIO'') else None)"

definition module_resource :: "string \<Rightarrow> (resource_type \<times> string) option" where
  "module_resource source =
     (let l = lower source in
      if contains ''postgres'' l \<or> contains ''mysql'' l then Some (Postgresql_Resource, ''PostgreSQL'')
      else if contains ''redis'' l then Some (Redis_Resource, ''Redis'')
      else if contains ''kafka'' l then Some (Kafka_Resource, ''Kafka'')
      else if contains ''s3'' l \<or> contains ''bucket'' l then Some (S3_Resource, ''S3/MinIO'') else None)"

definition deployment_resource :: "(nat \<Rightarrow> datetime) \<Rightarrow> string \<Rightarrow> (resource_type \<times> string) option
    \<Rightarrow> topology \<Rightarrow> topology" where
  "deployment_resource tick path r t =
     (case r of None \<Rightarrow> t
      | Some x \<Rightarrow> add_resource (deployment_evidence Medium_Confidence tick t path) x path t)"

record terraform_block =
  tb_type :: string
  tb_label :: string
  tb_body :: "(string \<times> json) list"

text \<open>
  \<open>\s*(resource|module)\s+["']?(name)["']?\s+["']?(name)["']?\s*\{\<close> at the start: the type, the two
  labels and what follows the brace. A quote that is not there is skipped as nothing.
\<close>

definition skip_quote :: "string \<Rightarrow> string" where
  "skip_quote s = (case s of c # cs \<Rightarrow> if is_quote c then cs else s | [] \<Rightarrow> [])"

definition label_at :: "string \<Rightarrow> (string \<times> string) option" where
  "label_at s =
     (let s1 = skip_quote s; name = takeWhile name_char s1 in
      if name = [] then None else Some (name, skip_quote (drop (length name) s1)))"

definition spaces_then :: "string \<Rightarrow> string option" where
  "spaces_then s = (if s \<noteq> [] \<and> is_space (hd s) then Some (skip_spaces s) else None)"

definition block_at :: "string \<Rightarrow> (string \<times> string \<times> string \<times> string) option" where
  "block_at s =
     (let s0 = skip_spaces s;
          start = (if starts_with s0 ''resource'' then Some (''resource'', drop 8 s0)
                   else if starts_with s0 ''module'' then Some (''module'', drop 6 s0) else None)
      in Option.bind start (\<lambda>(ty, s1).
         Option.bind (Option.bind (spaces_then s1) label_at) (\<lambda>(label, s2).
         Option.bind (Option.bind (spaces_then s2) label_at) (\<lambda>(name, s3).
         map_option (\<lambda>rest. (ty, label, name, rest)) (after_literal ''{'' (skip_spaces s3))))))"

text \<open>\<open>(?m)\bengine\s*=\s*["']([^"']+)["']\<close> in the 2000 characters after the brace.\<close>

definition engine_in :: "string \<Rightarrow> string option" where
  "engine_in rest =
     search (\<lambda>prev s. if boundary prev s then Option.bind (after_literal ''engine'' s) assigned_text
                        else None) (take 2000 rest)"

definition block_body :: "string \<Rightarrow> string \<Rightarrow> (string \<times> json) list" where
  "block_body name rest =
     (''name'', JStr name) # (case engine_in rest of None \<Rightarrow> [] | Some e \<Rightarrow> [(''engine'', JStr e)])"

lemma skip_quote_length: "length (skip_quote s) \<le> length s"
  by (simp add: skip_quote_def split: list.split)

lemma label_at_shorter: "label_at s = Some (n, r) \<Longrightarrow> length r < length s"
proof -
  assume a: "label_at s = Some (n, r)"
  define u where "u = skip_quote s"
  have n: "n \<noteq> []" "n = takeWhile name_char u" "r = skip_quote (drop (length n) u)"
    using a by (auto simp: label_at_def Let_def u_def split: if_splits)
  have "length r \<le> length u - length n"
    using skip_quote_length [of "drop (length n) u"] n(3) by simp
  moreover have "length n \<le> length u" unfolding n(2) by (rule length_takeWhile_le)
  moreover have "0 < length n" using n(1) by simp
  moreover have "length u \<le> length s" unfolding u_def by (rule skip_quote_length)
  ultimately show ?thesis by linarith
qed

lemma spaces_then_shorter: "spaces_then s = Some r \<Longrightarrow> length r \<le> length s"
  by (auto simp: spaces_then_def skip_spaces_def length_dropWhile_le split: if_splits)

lemma block_at_shorter: "block_at s = Some (ty, l, n, rest) \<Longrightarrow> length rest < length s"
proof -
  assume a: "block_at s = Some (ty, l, n, rest)"
  then obtain s1 x1 s2 x2 s3 where steps: "spaces_then s1 = Some x1" "label_at x1 = Some (l, s2)"
    "spaces_then s2 = Some x2" "label_at x2 = Some (n, s3)"
    "after_literal ''{'' (skip_spaces s3) = Some rest" "length s1 \<le> length (skip_spaces s)"
    by (auto simp: block_at_def Let_def bind_eq_Some_conv split: if_splits)
  have "length (skip_spaces x) \<le> length x" for x
    by (simp add: skip_spaces_def length_dropWhile_le)
  from this [of s] this [of s3] show ?thesis
    using spaces_then_shorter [OF steps(1)] spaces_then_shorter [OF steps(3)]
      label_at_shorter [OF steps(2)] label_at_shorter [OF steps(4)] steps(5,6)
    by (auto simp: after_literal_def split: if_splits)
qed

text \<open>\<open>re.finditer\<close>: after a match the search goes on behind its end.\<close>

function terraform_blocks :: "bool \<Rightarrow> string \<Rightarrow> terraform_block list" where
  "terraform_blocks start s =
     (case (if start then block_at s else None) of
        Some (ty, label, name, rest) \<Rightarrow>
          \<lparr>tb_type = ty, tb_label = label, tb_body = block_body name rest\<rparr> # terraform_blocks False rest
      | None \<Rightarrow> (case s of [] \<Rightarrow> [] | c # cs \<Rightarrow> terraform_blocks (code c = 10) cs))"
  by pat_completeness auto
termination
  by (relation "measure (length \<circ> snd)") (auto dest: block_at_shorter split: if_splits)

declare terraform_blocks.simps [simp del]

definition terraform_block_found :: "(nat \<Rightarrow> datetime) \<Rightarrow> string \<Rightarrow> terraform_block \<Rightarrow> topology \<Rightarrow> topology" where
  "terraform_block_found tick path b t =
     (if tb_type b = ''resource''
      then deployment_resource tick path
             (terraform_resource (tb_label b) (get_text (tb_body b) ''engine'')) t
      else if tb_type b = ''module''
      then deployment_resource tick path (module_resource (get_text (tb_body b) ''source'')) t
      else t)"

text \<open>
  The JSON form: the blocks of \<open>resource\<close> by type. What is no dictionary has no \<open>items\<close>, and an
  entry that cannot be iterated raises; of an entry only the number of its elements counts.
\<close>

definition no_items :: "json \<Rightarrow> exn" where
  "no_items v = Exn ''AttributeError'' ''items''"

definition iterated :: "json \<Rightarrow> nat option" where
  "iterated v =
     (case v of JList xs \<Rightarrow> Some (length xs) | JDict d \<Rightarrow> Some (length d) | JStr s \<Rightarrow> Some (length s)
      | _ \<Rightarrow> None)"

fun terraform_json_types :: "(nat \<Rightarrow> datetime) \<Rightarrow> string \<Rightarrow> (string \<times> json) list \<Rightarrow> topology
    \<Rightarrow> exn + topology" where
  "terraform_json_types tick path [] t = Inr t"
| "terraform_json_types tick path ((kind, entries) # rest) t =
     (case iterated entries of
        None \<Rightarrow> Inl (Exn ''TypeError'' ''not iterable'')
      | Some n \<Rightarrow>
          terraform_json_types tick path rest
            (((deployment_resource tick path (terraform_resource kind [])) ^^ n) t))"

definition terraform_json :: "parsers \<Rightarrow> (nat \<Rightarrow> datetime) \<Rightarrow> string \<Rightarrow> string \<Rightarrow> topology
    \<Rightarrow> exn + topology" where
  "terraform_json ps tick path content t =
     (case json_loads ps content of
        None \<Rightarrow> Inr t
      | Some (JDict d) \<Rightarrow>
          (let v = jget d ''resource'' in
           if \<not> truthy v then Inr t
           else (case v of JDict types \<Rightarrow> terraform_json_types tick path types t | _ \<Rightarrow> Inl (no_items v)))
      | Some _ \<Rightarrow> Inr t)"

definition detect_terraform :: "parsers \<Rightarrow> (nat \<Rightarrow> datetime) \<Rightarrow> string \<Rightarrow> string \<Rightarrow> topology
    \<Rightarrow> exn + topology" where
  "detect_terraform ps tick path content t =
     (if ends_with path ''.tf.json'' then terraform_json ps tick path content t
      else Inr (fold (terraform_block_found tick path) (terraform_blocks True content) t))"

subsection \<open>Kubernetes\<close>

definition is_kubernetes_manifest :: "string \<Rightarrow> bool" where
  "is_kubernetes_manifest content =
     (let l = lower (take 4096 content) in contains ''apiversion:'' l \<and> contains ''kind:'' l)"

text \<open>\<open>_k8s_images\<close>: the text values of the keys \<open>image\<close>, in the order of the walk.\<close>

fun k8s_images :: "json \<Rightarrow> string list" where
  "k8s_images (JDict d) =
     concat (map (\<lambda>(k, v). if k = ''image'' \<and> (case v of JStr s \<Rightarrow> True | _ \<Rightarrow> False)
                            then [py_str v] else k8s_images v) d)"
| "k8s_images (JList xs) = concat (map k8s_images xs)"
| "k8s_images _ = []"

definition workload_kinds :: "string list" where
  "workload_kinds = [''Deployment'', ''StatefulSet'', ''DaemonSet'', ''Job'', ''CronJob'']"

text \<open>
  What is no dictionary has no kind and no metadata; metadata that is no dictionary has no
  \<open>get\<close>, and this is not caught.
\<close>

definition detect_kubernetes :: "parsers \<Rightarrow> (nat \<Rightarrow> datetime) \<Rightarrow> string \<Rightarrow> string \<Rightarrow> topology
    \<Rightarrow> exn + topology" where
  "detect_kubernetes ps tick path content t =
     (case yaml_load ps content of
        Inl Yaml_Error \<Rightarrow> Inr t
      | Inl (Yaml_Other e) \<Rightarrow> Inl e
      | Inr data \<Rightarrow>
          (let d = as_dict data;
               kind = get_text d ''kind'';
               metadata = (case map_of d ''metadata'' of None \<Rightarrow> JDict [] | Some m \<Rightarrow> m)
           in (case metadata of
                 JDict m \<Rightarrow>
                   (let name = (case map_of m ''name'' of None \<Rightarrow> after_last CHR ''/'' path | Some x \<Rightarrow> py_str x) in
                    if kind \<in> set workload_kinds
                    then Inr (fold (image_resource Medium_Confidence tick path) (k8s_images data)
                           (add_component (deployment_evidence Medium_Confidence tick t path) name
                              Backend_Service path [] t))
                    else Inr t)
               | _ \<Rightarrow> Inl (Exn ''AttributeError'' ''get''))))"

definition compose_files :: "string list" where
  "compose_files = [''docker-compose.yml'', ''docker-compose.yaml'', ''compose.yml'', ''compose.yaml'']"

definition detect_deployment_file :: "parsers \<Rightarrow> (nat \<Rightarrow> datetime) \<Rightarrow> string \<Rightarrow> string \<Rightarrow> topology
    \<Rightarrow> exn + topology" where
  "detect_deployment_file ps tick path content t =
     (if path \<in> set compose_files then detect_compose ps tick path content t
      else if ends_with path ''.tf'' \<or> ends_with path ''.tf.json''
      then detect_terraform ps tick path content t
      else if (ends_with path ''.yaml'' \<or> ends_with path ''.yml'') \<and> is_kubernetes_manifest content
      then detect_kubernetes ps tick path content t
      else Inr t)"

fun detect_files :: "(string \<Rightarrow> string \<Rightarrow> topology \<Rightarrow> exn + topology) \<Rightarrow> (string, string) dict \<Rightarrow> topology
    \<Rightarrow> exn + topology" where
  "detect_files f [] t = Inr t"
| "detect_files f ((path, content) # files) t =
     (case f path content t of Inl e \<Rightarrow> Inl e | Inr t' \<Rightarrow> detect_files f files t')"

definition detect_deployment :: "parsers \<Rightarrow> (nat \<Rightarrow> datetime) \<Rightarrow> uuid \<Rightarrow> string \<Rightarrow> (string, string) dict
    \<Rightarrow> exn + topology" where
  "detect_deployment ps tick r v files =
     detect_files (detect_deployment_file ps tick) files (new_topology r v (tick 0))"

subsection \<open>API schemas\<close>

text \<open>
  \<open>(?:openapi|swagger)(?:\.ya?ml|\.json|\.json\.json)?$\<close>, without case; \<open>$\<close> matches at the end
  and before a final line feed.
\<close>

definition schema_endings :: "string list" where
  "schema_endings =
     concat (map (\<lambda>n. map (append n) [[], ''.yml'', ''.yaml'', ''.json'', ''.json.json''])
       [''openapi'', ''swagger''])"

definition schema_file_name :: "string \<Rightarrow> bool" where
  "schema_file_name name =
     (let l = lower name in
      list_ex (ends_with l) schema_endings \<or>
      l \<noteq> [] \<and> code (last l) = 10 \<and> list_ex (ends_with (butlast l)) schema_endings)"

text \<open>\<open>"openapi"\s*:\s*"[23]\.\<close>.\<close>

definition openapi_version :: "string \<Rightarrow> bool" where
  "openapi_version content =
     (search (\<lambda>prev s.
        case Option.bind (after_literal (json_key ''openapi'') s) after_colon of
          Some (q # d # c # rest) \<Rightarrow>
            if code q = 34 \<and> d \<in> {CHR ''2'', CHR ''3''} \<and> c = CHR ''.'' then Some () else None
        | _ \<Rightarrow> None) content \<noteq> None)"

text \<open>\<open>info.title\<close> of a document, when both are there and the title is true.\<close>

definition info_title :: "json \<Rightarrow> string option" where
  "info_title data =
     (case data of
        JDict d \<Rightarrow>
          (case jget d ''info'' of
             JDict info \<Rightarrow> if truthy (jget info ''title'') then Some (py_str (jget info ''title'')) else None
           | _ \<Rightarrow> None)
      | _ \<Rightarrow> None)"

definition openapi_title :: "parsers \<Rightarrow> string \<Rightarrow> exn + string option" where
  "openapi_title ps content =
     (if starts_with (skip_spaces content) ''{''
      then (case json_loads ps content of None \<Rightarrow> Inr None | Some data \<Rightarrow> Inr (info_title data))
      else (case yaml_load ps content of
              Inl Yaml_Error \<Rightarrow> Inr None
            | Inl (Yaml_Other e) \<Rightarrow> if exn_type e = ''ValueError'' then Inr None else Inl e
            | Inr data \<Rightarrow> Inr (info_title data)))"

definition asyncapi_title :: "parsers \<Rightarrow> string \<Rightarrow> exn + string option" where
  "asyncapi_title ps content =
     (case yaml_load ps content of
        Inl Yaml_Error \<Rightarrow> Inr None
      | Inl (Yaml_Other e) \<Rightarrow> Inl e
      | Inr data \<Rightarrow> Inr (info_title data))"

text \<open>\<open>(?m)^\s*service\s+(\w+)\<close>.\<close>

definition proto_service :: "string \<Rightarrow> string option" where
  "proto_service content =
     search (\<lambda>prev s.
       if at_line_start prev
       then Option.bind (Option.bind (after_literal ''service'' (skip_spaces s)) spaces_then)
              (\<lambda>r. some_text (Some (takeWhile word_char r)))
       else None) content"

definition schema_base_name :: "string \<Rightarrow> string" where
  "schema_base_name path = after_last CHR ''/'' path"

text \<open>The parts of a path from the last to the first, and in each the first component named.\<close>

definition nearest_component :: "string \<Rightarrow> string list \<Rightarrow> string \<Rightarrow> string" where
  "nearest_component path names fallback =
     (case List.map_filter (\<lambda>part. List.find (\<lambda>n. contains n part) names)
             (rev (split_on CHR ''/'' path)) of
        [] \<Rightarrow> fallback | n # _ \<Rightarrow> n)"

definition titled :: "interface_type \<Rightarrow> string \<Rightarrow> exn + string option
    \<Rightarrow> exn + (interface_type \<times> string) option" where
  "titled ty path r =
     (case r of Inl e \<Rightarrow> Inl e
      | Inr x \<Rightarrow> Inr (Some (ty, case some_text x of Some n \<Rightarrow> n | None \<Rightarrow> path)))"

definition schema_of :: "parsers \<Rightarrow> string \<Rightarrow> string \<Rightarrow> exn + (interface_type \<times> string) option" where
  "schema_of ps path content =
     (let l = lower path in
      if starts_with l ''openapi'' \<or> starts_with l ''swagger'' \<or> schema_file_name (schema_base_name path)
      then titled Rest_Interface path (openapi_title ps content)
      else if contains ''asyncapi'' l then titled Message_Topic path (asyncapi_title ps content)
      else if ends_with l ''.graphql'' \<or> ends_with l ''.graphqls''
      then Inr (Some (Graphql_Interface, schema_base_name path))
      else if ends_with l ''.proto''
      then Inr (Some (Grpc_Interface,
             case proto_service content of Some n \<Rightarrow> n | None \<Rightarrow> schema_base_name path))
      else if ends_with l ''.json'' \<and> openapi_version (take 8192 content)
      then titled Rest_Interface path (openapi_title ps content)
      else Inr None)"

definition add_interface :: "knowledge_evidence \<Rightarrow> string \<Rightarrow> interface_type \<Rightarrow> string \<Rightarrow> string
    \<Rightarrow> topology \<Rightarrow> topology" where
  "add_interface e name ty component path t =
     t\<lparr>tp_interfaces := tp_interfaces t @
        [\<lparr>ic_name = name, ic_type = ty, ic_component_name = component, ic_schema_ref = Some path,
          ic_repository_id = tp_repository_id t, ic_revision = tp_revision t,
          ic_source_paths = [path], ic_provenance = e\<rparr>]\<rparr>"

definition detect_schema :: "parsers \<Rightarrow> (nat \<Rightarrow> datetime) \<Rightarrow> string list \<Rightarrow> string \<Rightarrow> string
    \<Rightarrow> topology \<Rightarrow> exn + topology" where
  "detect_schema ps tick names path content t =
     (case schema_of ps path content of
        Inl e \<Rightarrow> Inl e
      | Inr None \<Rightarrow> Inr t
      | Inr (Some (ty, name)) \<Rightarrow>
          Inr (add_interface (detector_evidence ''api_schema'' High_Confidence tick t path) name ty
            (nearest_component path names (case names of [] \<Rightarrow> ''unknown'' | n # _ \<Rightarrow> n)) path t))"

definition detect_api :: "parsers \<Rightarrow> (nat \<Rightarrow> datetime) \<Rightarrow> uuid \<Rightarrow> string \<Rightarrow> (string, string) dict
    \<Rightarrow> string list \<Rightarrow> exn + topology" where
  "detect_api ps tick r v files names =
     detect_files (detect_schema ps tick names) files (new_topology r v (tick 0))"

subsection \<open>Names of resources\<close>

text \<open>\<open>_URL_RESOURCES\<close>: the schemes each pattern matches.\<close>

definition url_resources :: "(string list \<times> resource_type \<times> string) list" where
  "url_resources =
     [([''postgres://'', ''postgresql://''], Postgresql_Resource, ''PostgreSQL''),
      ([''redis://''], Redis_Resource, ''Redis''), ([''rediss://''], Redis_Resource, ''Redis''),
      ([''kafka://''], Kafka_Resource, ''Kafka''), ([''s3://''], S3_Resource, ''S3/MinIO'')]"

definition env_resources :: "(string \<times> resource_type \<times> string) list" where
  "env_resources =
     [(''DATABASE_URL'', Postgresql_Resource, ''PostgreSQL''), (''POSTGRES_URL'', Postgresql_Resource, ''PostgreSQL''),
      (''POSTGRES_HOST'', Postgresql_Resource, ''PostgreSQL''), (''REDIS_URL'', Redis_Resource, ''Redis''),
      (''REDIS_HOST'', Redis_Resource, ''Redis''), (''KAFKA_BROKERS'', Kafka_Resource, ''Kafka''),
      (''S3_BUCKET'', S3_Resource, ''S3/MinIO''), (''MINIO_URL'', Minio_Resource, ''MinIO'')]"

definition resource_words :: "(string list \<times> resource_type \<times> string) list" where
  "resource_words =
     [([''postgres'', ''postgresql''], Postgresql_Resource, ''PostgreSQL''), ([''redis''], Redis_Resource, ''Redis''),
      ([''kafka''], Kafka_Resource, ''Kafka''), ([''minio''], Minio_Resource, ''MinIO''),
      ([''s3''], S3_Resource, ''S3/MinIO'')]"

definition annotation_config :: "string list" where
  "annotation_config =
     [''application.properties'', ''application.yml'', ''application.yaml'', ''config.yaml'', ''config.yml'']"

definition ignored_file :: "string \<Rightarrow> bool" where
  "ignored_file l \<longleftrightarrow>
     l \<in> {''requirements.txt'', ''pyproject.toml'', ''package.json'', ''go.mod''} \<or>
     list_ex (starts_with l) [''.github'', ''.gitlab'', ''docs'', ''tests'']"

definition env_assigned :: "string \<Rightarrow> string \<Rightarrow> bool" where
  "env_assigned key content =
     (search (\<lambda>prev s.
        case map_option skip_spaces (after_literal key s) of
          Some (c # cs) \<Rightarrow> if c = CHR '':'' \<or> c = CHR ''='' then Some () else None
        | _ \<Rightarrow> None) content \<noteq> None)"

definition config_resource :: "(nat \<Rightarrow> datetime) \<Rightarrow> string \<Rightarrow> knowledge_confidence \<Rightarrow> resource_type \<times> string
    \<Rightarrow> topology \<Rightarrow> topology" where
  "config_resource tick path confidence r t =
     add_resource (detector_evidence ''config'' confidence tick t path) r path t"

definition named_resources :: "string \<Rightarrow> string \<Rightarrow> (knowledge_confidence \<times> resource_type \<times> string) list" where
  "named_resources l content =
     map (\<lambda>p. (High_Confidence, snd p))
       (filter (\<lambda>p. list_ex (\<lambda>u. contains u (lower content)) (fst p)) url_resources) @
     (if l \<in> set annotation_config
      then map (\<lambda>p. (High_Confidence, snd p)) (filter (\<lambda>p. env_assigned (fst p) content) env_resources)
      else []) @
     map (\<lambda>p. (Medium_Confidence, snd p))
       (filter (\<lambda>p. search_words (fst p) None content) resource_words)"

definition detect_resource_file :: "(nat \<Rightarrow> datetime) \<Rightarrow> string \<times> string \<Rightarrow> topology \<Rightarrow> topology" where
  "detect_resource_file tick file t =
     (let (path, content) = file; l = lower path in
      if ignored_file l then t
      else fold (\<lambda>(confidence, r). config_resource tick path confidence r) (named_resources l content) t)"

definition detect_resources :: "(nat \<Rightarrow> datetime) \<Rightarrow> uuid \<Rightarrow> string \<Rightarrow> (string, string) dict \<Rightarrow> topology" where
  "detect_resources tick r v files =
     fold (detect_resource_file tick) files (new_topology r v (tick 0))"

subsection \<open>The composite\<close>

text \<open>\<open>TopologyDiscoverer.discover\<close>; each pass has its own clock readings.\<close>

definition discover_topology :: "parsers \<Rightarrow> (nat \<Rightarrow> nat \<Rightarrow> datetime) \<Rightarrow> uuid \<Rightarrow> string \<Rightarrow> (string, string) dict
    \<Rightarrow> exn + topology" where
  "discover_topology ps tick r v files =
     (let t1 = merge_topology (new_topology r v (tick 0 0)) (detect_manifests (tick 1) r v files) in
      case detect_deployment ps (tick 2) r v files of
        Inl e \<Rightarrow> Inl e
      | Inr deployment \<Rightarrow>
          (let t2 = merge_topology t1 deployment in
           case detect_api ps (tick 3) r v files (map cc_name (tp_components t2)) of
             Inl e \<Rightarrow> Inl e
           | Inr api \<Rightarrow>
               Inr (merge_topology (merge_topology t2 api) (detect_resources (tick 4) r v files))))"

subsection \<open>What a discovery promises\<close>

text \<open>
  The composite reports one candidate per identity, whatever the files hold and however often
  the detectors see the same name.
\<close>

theorem discovery_one_candidate_per_identity:
  assumes "discover_topology ps tick r v files = Inr t"
  shows "topology_ok t"
  using assms
  by (auto simp: discover_topology_def Let_def intro!: topology_ok_merge split: sum.splits)

text \<open>
  Every candidate is of the repository and the revision that was scanned, was found in a file of
  it, and its evidence says so.
\<close>

definition evidence_traced :: "string \<Rightarrow> string list \<Rightarrow> knowledge_evidence \<Rightarrow> bool" where
  "evidence_traced v paths e \<longleftrightarrow>
     ke_origin e = Discovered \<and> ke_commit_sha e = Some v \<and> (\<exists>p. paths = [p] \<and> ke_source_id e = Some p)"

definition topology_traced :: "uuid \<Rightarrow> string \<Rightarrow> string set \<Rightarrow> topology \<Rightarrow> bool" where
  "topology_traced r v paths t \<longleftrightarrow>
     tp_repository_id t = r \<and> tp_revision t = v \<and>
     (\<forall>c \<in> set (tp_components t). cc_repository_id c = r \<and> cc_revision c = v \<and>
        set (cc_source_paths c) \<subseteq> paths \<and> evidence_traced v (cc_source_paths c) (cc_provenance c)) \<and>
     (\<forall>i \<in> set (tp_interfaces t). ic_repository_id i = r \<and> ic_revision i = v \<and>
        set (ic_source_paths i) \<subseteq> paths \<and> evidence_traced v (ic_source_paths i) (ic_provenance i)) \<and>
     (\<forall>x \<in> set (tp_resources t). rd_repository_id x = r \<and> rd_revision x = v \<and>
        set (rd_source_paths x) \<subseteq> paths \<and> evidence_traced v (rd_source_paths x) (rd_provenance x)) \<and>
     (\<forall>d \<in> set (tp_dependencies t). dd_repository_id d = r \<and> dd_revision d = v \<and>
        set (dd_source_paths d) \<subseteq> paths \<and> evidence_traced v (dd_source_paths d) (dd_provenance d))"

lemma traced_new [simp]: "topology_traced r v paths (new_topology r v now)"
  by (simp add: topology_traced_def new_topology_def)

lemma keep_first_in: "x \<in> set (keep_first key seen xs) \<Longrightarrow> x \<in> set xs"
  by (induction key seen xs rule: keep_first.induct) (auto split: if_splits)

lemma merge_by_in: "x \<in> set (merge_by key xs ys) \<Longrightarrow> x \<in> set xs \<or> x \<in> set ys"
  by (auto simp: merge_by_def dest: keep_first_in)

lemma traced_merge [intro]:
  "\<lbrakk>topology_traced r v paths t; topology_traced r v paths u\<rbrakk> \<Longrightarrow> topology_traced r v paths (merge_topology t u)"
  unfolding topology_traced_def merge_defs by (auto dest!: merge_by_in)

lemma evidence_of_detector [simp]:
  "evidence_traced v paths (detector_evidence src conf tick t path) \<longleftrightarrow> paths = [path] \<and> v = tp_revision t"
  by (auto simp: evidence_traced_def detector_evidence_def)

lemma tp_revision_traced: "topology_traced r v paths t \<Longrightarrow> tp_revision t = v"
  by (simp add: topology_traced_def)

text \<open>Each addition keeps a topology traced when its evidence is.\<close>

lemma traced_adds:
  assumes "topology_traced r v paths t" and "path \<in> paths" and "evidence_traced v [path] e"
  shows "topology_traced r v paths (add_component e name ty path meta t)"
    and "topology_traced r v paths (add_resource e x path t)"
    and "topology_traced r v paths (add_dependency e src tgt path t)"
    and "topology_traced r v paths (add_interface e name ity owner path t)"
  using assms
  by (auto simp: topology_traced_def add_component_def add_resource_def add_dependency_def add_interface_def)

lemma traced_fold:
  assumes "\<And>x t. \<lbrakk>x \<in> set xs; topology_traced r v paths t\<rbrakk> \<Longrightarrow> topology_traced r v paths (f x t)"
    and "topology_traced r v paths t"
  shows "topology_traced r v paths (fold f xs t)"
  using assms by (induction xs arbitrary: t) auto

lemma traced_files:
  assumes step: "\<And>path content t t'. \<lbrakk>path \<in> fst ` set files; topology_traced r v paths t;
      f path content t = Inr t'\<rbrakk> \<Longrightarrow> topology_traced r v paths t'"
    and t: "topology_traced r v paths t" and run: "detect_files f files t = Inr t'"
  shows "topology_traced r v paths t'"
  using assms
proof (induction files arbitrary: t)
  case (Cons x files)
  obtain path content where x: "x = (path, content)" by (cases x)
  obtain u where u: "f path content t = Inr u" "detect_files f files u = Inr t'"
    using Cons.prems(3) by (auto simp: x split: sum.splits)
  have "topology_traced r v paths u"
    by (rule Cons.prems(1) [OF _ Cons.prems(2) u(1)]) (simp add: x)
  then show ?case
  proof (rule Cons.IH [rotated])
    show "detect_files f files u = Inr t'" by (rule u(2))
    fix path' content' w w'
    assume "path' \<in> fst ` set files" "topology_traced r v paths w" "f path' content' w = Inr w'"
    then show "topology_traced r v paths w'" using Cons.prems(1) [of path' w content' w'] by simp
  qed
qed simp

lemma traced_pyproject_dependency:
  assumes "topology_traced r v paths t" and "''pyproject.toml'' \<in> paths"
  shows "topology_traced r v paths (pyproject_dependency tick name dep t)"
proof -
  have ev: "evidence_traced v [''pyproject.toml''] (manifest_evidence tick u ''pyproject.toml'')"
    if "topology_traced r v paths u" for u
    using tp_revision_traced [OF that] by (simp add: manifest_evidence_def)
  show ?thesis
    using assms traced_adds ev by (auto simp: pyproject_dependency_def Let_def split: option.split)
qed

lemma traced_manifests:
  assumes "set (dict_keys files) \<subseteq> paths"
  shows "topology_traced r v paths (detect_manifests tick r v files)"
proof -
  have known: "p \<in> paths" if "dict_get files p = Some x" for p x
    using map_of_SomeD [OF that] assms by (force simp: dict_keys_def)
  have named: "topology_traced r v paths (add_component (manifest_evidence tick t path) n ty path [] t)"
    if "topology_traced r v paths t" "path \<in> paths" for t path n ty
    using that tp_revision_traced [OF that(1)] traced_adds(1) by (simp add: manifest_evidence_def)
  have pyproject: "topology_traced r v paths (detect_pyproject tick content t)"
    if "topology_traced r v paths t" "''pyproject.toml'' \<in> paths" for t content
    unfolding detect_pyproject_def Let_def
    by (rule traced_fold) (auto simp: traced_pyproject_dependency that named split: option.split)
  define t1 where "t1 = (case dict_get files ''pyproject.toml'' of None \<Rightarrow> new_topology r v (tick 0)
      | Some content \<Rightarrow> detect_pyproject tick content (new_topology r v (tick 0)))"
  have t1: "topology_traced r v paths t1"
    unfolding t1_def using pyproject known by (auto split: option.split)
  show ?thesis
    unfolding detect_manifests_def Let_def t1_def [symmetric]
    using t1 named known by (auto split: option.split)
qed

lemma traced_deployment_evidence:
  "topology_traced r v paths t \<Longrightarrow> evidence_traced v [path] (deployment_evidence conf tick t path)"
  by (simp add: deployment_evidence_def tp_revision_traced)

lemma traced_compose_service:
  assumes t: "topology_traced r v paths t" and p: "path \<in> paths"
  shows "topology_traced r v paths (compose_service tick path service t)"
proof -
  have dep: "topology_traced r v paths
      (add_dependency (deployment_evidence Medium_Confidence tick u path) n x path u)"
    if "topology_traced r v paths u" for u n x
    by (rule traced_adds(3) [OF that p traced_deployment_evidence [OF that]])
  have comp: "topology_traced r v paths
      (add_component (deployment_evidence High_Confidence tick t path) n ty path meta t)" for n ty meta
    by (rule traced_adds(1) [OF t p traced_deployment_evidence [OF t]])
  show ?thesis
    unfolding compose_service_def
    by (auto intro!: traced_fold dep comp t split: prod.split json.split)
qed

lemma traced_deployment_resource:
  assumes t: "topology_traced r v paths t" and p: "path \<in> paths"
  shows "topology_traced r v paths (deployment_resource tick path x t)"
    and "topology_traced r v paths (image_resource conf tick path img t)"
    and "topology_traced r v paths (compose_resource tick path service t)"
proof -
  have add: "topology_traced r v paths (add_resource (deployment_evidence conf tick t path) y path t)" for conf y
    by (rule traced_adds(2) [OF t p traced_deployment_evidence [OF t]])
  then show "topology_traced r v paths (deployment_resource tick path x t)"
    "topology_traced r v paths (image_resource conf tick path img t)"
    using t by (auto simp: deployment_resource_def image_resource_def split: option.split)
  show "topology_traced r v paths (compose_resource tick path service t)"
    using add t by (auto simp: compose_resource_def image_resource_def split: prod.split json.split option.split)
qed

lemma traced_compose:
  assumes t: "topology_traced r v paths t" and p: "path \<in> paths"
    and run: "detect_compose ps tick path content t = Inr t'"
  shows "topology_traced r v paths t'"
proof -
  have "topology_traced r v paths
      (fold (compose_resource tick path) ss (fold (compose_service tick path) ss t))" for ss
    by (intro traced_fold t traced_compose_service traced_deployment_resource p)
  then show ?thesis
    using run t by (auto simp: detect_compose_def split: sum.splits yaml_error.splits json.splits)
qed

lemma traced_terraform_types:
  "\<lbrakk>topology_traced r v paths t; path \<in> paths; terraform_json_types tick path types t = Inr t'\<rbrakk>
     \<Longrightarrow> topology_traced r v paths t'"
proof (induction tick path types t rule: terraform_json_types.induct)
  case (2 tick path kind entries rest t)
  have pow: "topology_traced r v paths ((deployment_resource tick path x ^^ n) t)" for x n
    using 2(2,3) by (induction n) (auto intro: traced_deployment_resource(1))
  obtain n where n: "iterated entries = Some n"
    and run: "terraform_json_types tick path rest
      ((deployment_resource tick path (terraform_resource kind []) ^^ n) t) = Inr t'"
    using 2(4) by (auto split: option.splits)
  show ?case by (rule 2(1) [OF n pow 2(3) run])
qed simp

lemma traced_terraform:
  assumes t: "topology_traced r v paths t" and p: "path \<in> paths"
    and run: "detect_terraform ps tick path content t = Inr t'"
  shows "topology_traced r v paths t'"
proof -
  have blocks: "topology_traced r v paths (fold (terraform_block_found tick path) bs t)" for bs
    by (rule traced_fold [OF _ t]) (auto simp: terraform_block_found_def p intro: traced_deployment_resource(1))
  have "topology_traced r v paths t'" if "terraform_json ps tick path content t = Inr t'"
    using that t traced_terraform_types [OF t p]
    by (auto simp: terraform_json_def Let_def split: option.splits json.splits if_splits)
  with blocks run show ?thesis by (auto simp: detect_terraform_def split: if_splits)
qed

lemma traced_kubernetes:
  assumes t: "topology_traced r v paths t" and p: "path \<in> paths"
    and run: "detect_kubernetes ps tick path content t = Inr t'"
  shows "topology_traced r v paths t'"
proof -
  have "topology_traced r v paths (fold (image_resource Medium_Confidence tick path) imgs
      (add_component (deployment_evidence Medium_Confidence tick t path) name Backend_Service path [] t))"
    for imgs name
    by (intro traced_fold traced_deployment_resource(2) p traced_adds(1) t traced_deployment_evidence [OF t])
  then show ?thesis
    using run t
    by (auto simp: detect_kubernetes_def Let_def split: sum.splits yaml_error.splits json.splits if_splits)
qed

lemma traced_deployment:
  assumes "set (dict_keys files) \<subseteq> paths" and "detect_deployment ps tick r v files = Inr t"
  shows "topology_traced r v paths t"
proof (rule traced_files [of files])
  show "detect_files (detect_deployment_file ps tick) files (new_topology r v (tick 0)) = Inr t"
    using assms(2) by (simp add: detect_deployment_def)
  show "topology_traced r v paths t'"
    if "path \<in> fst ` set files" "topology_traced r v paths u"
      "detect_deployment_file ps tick path content u = Inr t'" for path content u t'
  proof -
    have p: "path \<in> paths" using that(1) assms(1) by (auto simp: dict_keys_def)
    show ?thesis
      using that(2,3) traced_compose [OF that(2) p] traced_terraform [OF that(2) p]
        traced_kubernetes [OF that(2) p]
      by (auto simp: detect_deployment_file_def split: if_splits)
  qed
qed simp

lemma traced_api:
  assumes "set (dict_keys files) \<subseteq> paths" and "detect_api ps tick r v files names = Inr t"
  shows "topology_traced r v paths t"
proof (rule traced_files [of files])
  show "detect_files (detect_schema ps tick names) files (new_topology r v (tick 0)) = Inr t"
    using assms(2) by (simp add: detect_api_def)
  show "topology_traced r v paths t'"
    if "path \<in> fst ` set files" "topology_traced r v paths u"
      "detect_schema ps tick names path content u = Inr t'" for path content u t'
  proof -
    have p: "path \<in> paths" using that(1) assms(1) by (auto simp: dict_keys_def)
    have "topology_traced r v paths (add_interface (detector_evidence ''api_schema'' High_Confidence tick u path)
        n ty owner path u)" for n ty owner
      by (rule traced_adds(4) [OF that(2) p]) (simp add: tp_revision_traced [OF that(2)])
    then show ?thesis
      using that(2,3) by (auto simp: detect_schema_def split: sum.splits option.splits)
  qed
qed simp

lemma traced_resources:
  assumes "set (dict_keys files) \<subseteq> paths"
  shows "topology_traced r v paths (detect_resources tick r v files)"
  unfolding detect_resources_def
proof (rule traced_fold)
  fix entry t assume f: "entry \<in> set files" and t: "topology_traced r v paths t"
  obtain path content where entry: "entry = (path, content)" by (cases entry)
  have p: "path \<in> paths" using f entry assms by (force simp: dict_keys_def)
  have "topology_traced r v paths (config_resource tick path conf x u)"
    if "topology_traced r v paths u" for conf x u
    unfolding config_resource_def
    by (rule traced_adds(2) [OF that p]) (simp add: tp_revision_traced [OF that])
  then have "topology_traced r v paths (fold (\<lambda>(c, x). config_resource tick path c x) xs t)" for xs
    by (intro traced_fold t) auto
  with t show "topology_traced r v paths (detect_resource_file tick entry t)"
    by (simp add: detect_resource_file_def entry Let_def)
qed simp

text \<open>
  C34: Every candidate of a discovery is of the repository and revision that was scanned and
  carries one source path, a file of the scan, which its evidence names, with the origin
  discovered: no detector reports a fact without saying where it comes from.
\<close>

theorem discovered_candidates_are_traced:
  assumes "discover_topology ps tick r v files = Inr t"
  shows "topology_traced r v (set (dict_keys files)) t"
proof -
  define t1 where "t1 = merge_topology (new_topology r v (tick 0 0)) (detect_manifests (tick 1) r v files)"
  obtain dep where dep: "detect_deployment ps (tick 2) r v files = Inr dep"
    using assms by (auto simp: discover_topology_def Let_def split: sum.splits)
  obtain api where api: "detect_api ps (tick 3) r v files (map cc_name (tp_components (merge_topology t1 dep))) = Inr api"
    and t: "t = merge_topology (merge_topology (merge_topology t1 dep) api) (detect_resources (tick 4) r v files)"
    using assms dep by (auto simp: discover_topology_def t1_def Let_def split: sum.splits)
  show ?thesis
    unfolding t t1_def
    by (intro traced_merge traced_new traced_manifests traced_resources order.refl
        traced_deployment [OF _ dep] traced_api [OF _ api])
qed

text \<open>
  A Terraform \<open>module\<close> never yields a resource: the parser of blocks keeps only the name and
  the engine, so the \<open>source\<close> the detector looks for is never there.
\<close>

theorem terraform_modules_yield_nothing:
  assumes "b \<in> set (terraform_blocks start content)" and "tb_type b = ''module''"
  shows "terraform_block_found tick path b t = t"
proof -
  have "get_text (tb_body b) ''source'' = []"
    using assms(1)
  proof (induction start content rule: terraform_blocks.induct)
    case (1 start s)
    then show ?case
      by (subst (asm) (3) terraform_blocks.simps)
        (auto simp: get_text_def block_body_def split: option.splits prod.splits list.splits)
  qed
  then show ?thesis
    using assms(2)
    by (simp add: terraform_block_found_def module_resource_def deployment_resource_def lower_def)
qed

text \<open>
  With a project name in \<open>pyproject.toml\<close> the manifest yields exactly one component, a
  backend service: the frameworks among its dependencies, which stand for workers and command
  line tools as well, are looked up and then not used.
\<close>

theorem named_project_is_a_backend:
  assumes "project_name content = Some n" and "n \<noteq> []" and "tp_components t = []"
  shows "map (\<lambda>c. (cc_name c, cc_type c)) (tp_components (detect_pyproject tick content t)) =
    [(n, Backend_Service)]"
proof -
  define t1 where "t1 = add_component (manifest_evidence tick t ''pyproject.toml'') n Backend_Service
      ''pyproject.toml'' [] t"
  have name: "some_text (Some n) = Some n" using assms(2) by (simp add: some_text_def)
  have step: "tp_components (pyproject_dependency tick (Some n) dep u) = tp_components u"
    if "n \<in> set (map cc_name (tp_components u))" for dep u
    using that by (auto simp: pyproject_dependency_def Let_def name add_resource_def add_dependency_def
        simp del: set_map split: option.split)
  have fold: "tp_components (fold (pyproject_dependency tick (Some n)) deps u) = tp_components u"
    if "n \<in> set (map cc_name (tp_components u))" for deps u
    using that by (induction deps arbitrary: u) (simp_all add: step del: set_map)
  have "n \<in> set (map cc_name (tp_components t1))" by (simp add: t1_def add_component_def)
  from fold [OF this] show ?thesis
    by (simp add: detect_pyproject_def Let_def assms(1) name t1_def [symmetric])
      (simp add: t1_def add_component_def assms(3))
qed

subsection \<open>Concrete discoveries\<close>

definition demo_parsers :: parsers where
  "demo_parsers = \<lparr>yaml_load = (\<lambda>content. Inr (JDict [(''services'', JDict
       [(''db'', JDict [(''image'', JStr ''postgres:16'')]),
        (''api'', JDict [(''depends_on'', JList [JStr ''db''])])])])),
     json_loads = (\<lambda>content. None)\<rparr>"

definition demo_files :: "(string, string) dict" where
  "demo_files = [(''requirements.txt'', ''flask==3.0''), (''compose.yaml'', ''services: ...''),
     (''schema.graphql'', ''type Query'')]"

definition demo_scan :: topology where
  "demo_scan = (case discover_topology demo_parsers (\<lambda>i n. 0) ''r'' ''v'' demo_files of
      Inr t \<Rightarrow> t | Inl e \<Rightarrow> new_topology ''r'' ''v'' 0)"

lemma demo_scan_run: "discover_topology demo_parsers (\<lambda>i n. 0) ''r'' ''v'' demo_files = Inr demo_scan"
proof -
  have "(case discover_topology demo_parsers (\<lambda>i n. 0) ''r'' ''v'' demo_files of
      Inr t \<Rightarrow> True | Inl e \<Rightarrow> False) = True"
    by code_simp
  then show ?thesis by (simp add: demo_scan_def split: sum.splits)
qed

theorem discovery_one_candidate_per_identity_witness:
  "topology_ok demo_scan \<and> map cc_name (tp_components demo_scan) = [''flask'', ''db'', ''api'']"
proof
  show "topology_ok demo_scan"
    by (rule discovery_one_candidate_per_identity [OF demo_scan_run])
  show "map cc_name (tp_components demo_scan) = [''flask'', ''db'', ''api'']"
    by code_simp
qed

theorem discovered_candidates_are_traced_witness:
  "topology_traced ''r'' ''v'' (set (dict_keys demo_files)) demo_scan \<and>
   map rd_name (tp_resources demo_scan) = [''PostgreSQL''] \<and>
   map ic_component_name (tp_interfaces demo_scan) = [''flask'']"
proof (intro conjI)
  show "topology_traced ''r'' ''v'' (set (dict_keys demo_files)) demo_scan"
    by (rule discovered_candidates_are_traced [OF demo_scan_run])
  show "map rd_name (tp_resources demo_scan) = [''PostgreSQL'']"
    by code_simp
  show "map ic_component_name (tp_interfaces demo_scan) = [''flask'']"
    by code_simp
qed

definition demo_module :: terraform_block where
  "demo_module = \<lparr>tb_type = ''module'', tb_label = ''postgres'', tb_body = [(''name'', JStr ''db'')]\<rparr>"

theorem terraform_modules_yield_nothing_witness:
  "terraform_block_found (\<lambda>n. 0) ''main.tf'' demo_module demo_scan = demo_scan"
proof (rule terraform_modules_yield_nothing)
  have "terraform_blocks True ''module postgres db {'' = [demo_module]"
    by code_simp
  then show "demo_module \<in> set (terraform_blocks True ''module postgres db {'')" by simp
  show "tb_type demo_module = ''module''" by (simp add: demo_module_def)
qed

definition demo_pyproject :: string where
  "demo_pyproject =
     ''name = '' @ json_key ''jobs'' @ [char_of (10::nat)] @ ''celery = '' @ json_key ''5''"

theorem named_project_is_a_backend_witness:
  "pyproject_dependencies demo_pyproject = [''celery''] \<and>
   map (\<lambda>c. (cc_name c, cc_type c))
     (tp_components (detect_pyproject (\<lambda>n. 0) demo_pyproject (new_topology ''r'' ''v'' 0))) =
   [(''jobs'', Backend_Service)]"
proof
  show "pyproject_dependencies demo_pyproject = [''celery'']"
    by code_simp
  have "project_name demo_pyproject = Some ''jobs''"
    by code_simp
  then show "map (\<lambda>c. (cc_name c, cc_type c))
     (tp_components (detect_pyproject (\<lambda>n. 0) demo_pyproject (new_topology ''r'' ''v'' 0))) =
     [(''jobs'', Backend_Service)]"
    by (rule named_project_is_a_backend) (simp_all add: new_topology_def)
qed

end
