(* ===== verification/Graph_Projection.thy ===== *)
theory Graph_Projection
  imports Topology Codec
begin

text \<open>
  The projection of the canonical state into the knowledge graph
  (\<open>application/graph_projection.py\<close>): projects, repositories, requirements, work items,
  components, decisions, and for a revision its files and symbols, with the relations between
  them. The service reads the in-memory stores and writes the in-memory graph. The SHA-256 of a
  file's identifier is a parameter; the confidence of a relation is kept in hundredths.
\<close>

subsection \<open>Entities and relations\<close>

record projection_sources =
  gs_repos :: repository_set
  gs_requirements :: requirement_store
  gs_catalog :: software_catalog
  gs_decisions :: document_store
  gs_code :: code_graph

record projection =
  pn_project_id :: uuid
  pn_entities :: "graph_entity list"
  pn_relations :: "graph_relation list"

text \<open>\<open>GraphEntity(...)\<close> and \<open>GraphRelation(...)\<close> with the defaults the service leaves.\<close>

definition projected_entity :: "string option \<Rightarrow> uuid \<Rightarrow> uuid option \<Rightarrow> graph_label \<Rightarrow> uuid
    \<Rightarrow> (string \<times> json) list \<Rightarrow> graph_entity" where
  "projected_entity rvn p repo label i props =
     \<lparr>ge_id = i, ge_label = label, ge_project_id = Some p, ge_properties = props,
      ge_repository_id = repo, ge_revision = rvn, ge_provenance = []\<rparr>"

definition projected_relation :: "string option \<Rightarrow> uuid \<Rightarrow> relation_type \<Rightarrow> uuid \<Rightarrow> graph_relation" where
  "projected_relation rvn s ty ob =
     \<lparr>gr_subject = s, gr_type = ty, gr_object = ob, gr_properties = [], gr_repository_id = None,
      gr_revision = rvn, gr_provenance = []\<rparr>"

text \<open>
  What one step of the service appends: entities and relations. Both lists only grow, so the
  lists of the run are the concatenations over the steps.
\<close>

type_synonym projected = "graph_entity list \<times> graph_relation list"

definition append_all :: "projected list \<Rightarrow> projected" where
  "append_all ps = (concat (map fst ps), concat (map snd ps))"

definition project_repository :: "string option \<Rightarrow> uuid \<Rightarrow> repository \<Rightarrow> projected" where
  "project_repository rvn p r =
     ([projected_entity rvn p (Some (rp_id r)) L_Repository (rp_id r)
         [(''name'', JStr (rp_name r)), (''clone_url'', JStr (rp_clone_url r))]],
      [projected_relation rvn p R_Part_Of (rp_id r)])"

definition requirement_entity :: "string option \<Rightarrow> uuid \<Rightarrow> requirement \<Rightarrow> graph_entity" where
  "requirement_entity rvn p m =
     projected_entity rvn p None L_Requirement (rm_id m)
       [(''key'', JStr (case rm_key m of None \<Rightarrow> [] | Some k \<Rightarrow> k)), (''title'', JStr (rm_title m)),
        (''status'', JStr (requirement_status_value (rm_status m)))]"

definition project_requirement :: "string option \<Rightarrow> uuid \<Rightarrow> requirement \<Rightarrow> projected" where
  "project_requirement rvn p m =
     ([requirement_entity rvn p m],
      projected_relation rvn (rm_id m) R_Part_Of p #
      (case rm_parent_id m of None \<Rightarrow> [] | Some a \<Rightarrow> [projected_relation rvn (rm_id m) R_Derived_From a]))"

definition project_work_item :: "string option \<Rightarrow> uuid \<Rightarrow> work_item \<Rightarrow> projected" where
  "project_work_item rvn p w =
     ([projected_entity rvn p None L_Work_Item (wi_id w)
         [(''title'', JStr (wi_title w)), (''type'', JStr (work_item_type_value (wi_type w))),
          (''implementation_status'', JStr (implementation_status_value (wi_implementation w)))]],
      projected_relation rvn (wi_id w) R_Part_Of p #
      map (projected_relation rvn (wi_id w) R_Implements) (wi_requirement_refs w))"

definition project_component :: "string option \<Rightarrow> uuid \<Rightarrow> software_component \<Rightarrow> projected" where
  "project_component rvn p c =
     ([projected_entity rvn p None L_Component (sm_id c)
         [(''name'', JStr (sm_name c)), (''component_type'', JStr (component_type_value (sm_type c)))]],
      projected_relation rvn (sm_id c) R_Part_Of p #
      map (projected_relation rvn (sm_id c) R_Depends_On) (sm_repository_ids c))"

text \<open>\<open>component_by_name\<close>: the identifier of the last component of each name.\<close>

definition component_ids :: "software_component list \<Rightarrow> (string, uuid) dict" where
  "component_ids cs = fold (\<lambda>c. dict_set (sm_name c) (sm_id c)) cs []"

text \<open>A component whose name is not empty and occurs in the text, without case.\<close>

definition mentioned :: "string \<Rightarrow> (string, uuid) dict \<Rightarrow> uuid list" where
  "mentioned lowered names =
     map snd (filter (\<lambda>(n, i). n \<noteq> [] \<and> contains (lower n) lowered) names)"

definition requirement_mentions :: "string option \<Rightarrow> (string, uuid) dict \<Rightarrow> graph_entity
    \<Rightarrow> graph_relation list" where
  "requirement_mentions rvn names e =
     (let content = join '' '' [py_str (jget (ge_properties e) ''key''), py_str (jget (ge_properties e) ''title'')]
      in map (projected_relation rvn (ge_id e) R_References) (mentioned (lower content) names))"

definition project_decision :: "string option \<Rightarrow> uuid \<Rightarrow> (string, uuid) dict \<Rightarrow> adr_record \<Rightarrow> projected" where
  "project_decision rvn p names d =
     ([projected_entity rvn p None L_Decision (de_id d)
         [(''title'', JStr (de_title d)), (''status'', JStr (decision_status_value (de_status d)))]],
      projected_relation rvn (de_id d) R_Part_Of p #
      map (projected_relation rvn (de_id d) R_References) (mentioned (lower (de_title d)) names))"

subsection \<open>The code graph of a revision\<close>

text \<open>\<open>uuid.UUID(digest)\<close> of 32 hexadecimal digits.\<close>

definition uuid_of_hex :: "string \<Rightarrow> uuid" where
  "uuid_of_hex h =
     join ''-'' [take 8 h, take 4 (drop 8 h), take 4 (drop 12 h), take 4 (drop 16 h), drop 20 h]"

definition file_entity_id :: "(string \<Rightarrow> string) \<Rightarrow> uuid \<Rightarrow> string \<Rightarrow> string \<Rightarrow> uuid" where
  "file_entity_id sha r v path = uuid_of_hex (take 32 (sha (utf8 (join '':'' [r, v, path]))))"

fun map_code_relation :: "code_relation_type \<Rightarrow> relation_type" where
  "map_code_relation Imports = R_Imports"
| "map_code_relation Calls = R_Calls"
| "map_code_relation Instantiates = R_References"
| "map_code_relation Inherits = R_Derived_From"
| "map_code_relation Overrides = R_References"
| "map_code_relation Reads = R_Reads"
| "map_code_relation Writes = R_Writes"
| "map_code_relation Tests = R_Tests"
| "map_code_relation Implements = R_References"

record code_projection =
  cp_out :: projected
  cp_files :: "(string, uuid) dict"
  cp_symbols :: "(string, uuid) dict"

definition append_out :: "projected \<Rightarrow> code_projection \<Rightarrow> code_projection" where
  "append_out es c = c\<lparr>cp_out := (fst (cp_out c) @ fst es, snd (cp_out c) @ snd es)\<rparr>"

definition file_label :: "symbol \<Rightarrow> graph_label" where
  "file_label s =
     (if truthy (jget (sy_metadata s) ''is_test'') \<or> is_test_path (sy_path s) then L_Test else L_File)"

definition project_file :: "(string \<Rightarrow> string) \<Rightarrow> uuid \<Rightarrow> uuid \<Rightarrow> string \<Rightarrow> symbol \<Rightarrow> code_projection
    \<Rightarrow> code_projection" where
  "project_file sha p r v s c =
     (if dict_get (cp_files c) (sy_path s) \<noteq> None then c
      else (let i = file_entity_id sha r v (sy_path s) in
            append_out
              ([projected_entity (Some v) p (Some r) (file_label s) i
                  [(''path'', JStr (sy_path s)), (''module'', JStr (si_module (sy_identity s)))]],
               [projected_relation (Some v) i R_Part_Of r])
              (c\<lparr>cp_files := dict_set (sy_path s) i (cp_files c)\<rparr>)))"

text \<open>A class is made part of its file a second time.\<close>

definition project_symbol :: "(string \<Rightarrow> string) \<Rightarrow> uuid \<Rightarrow> uuid \<Rightarrow> string \<Rightarrow> symbol \<Rightarrow> code_projection
    \<Rightarrow> code_projection" where
  "project_symbol sha p r v s c0 =
     (let c = project_file sha p r v s c0;
          f = the (dict_get (cp_files c) (sy_path s));
          part = projected_relation (Some v) (sy_id s) R_Part_Of f in
      append_out
        ([projected_entity (Some v) p (Some r) L_Symbol (sy_id s)
            [(''name'', JStr (sy_name s)), (''qualified_name'', JStr (sy_qualified_name s)),
             (''kind'', JStr (symbol_kind_value (sy_kind s)))]],
         part # (if symbol_kind_value (sy_kind s) = ''class'' then [part] else []))
        (c\<lparr>cp_symbols := dict_set (symbol_key s) (sy_id s) (cp_symbols c)\<rparr>))"

definition project_code_relation :: "uuid \<Rightarrow> string \<Rightarrow> (string, uuid) dict \<Rightarrow> code_relation
    \<Rightarrow> graph_relation option" where
  "project_code_relation r v symbols x =
     (case (dict_get symbols (identity_key (cr_source x)), dict_get symbols (identity_key (cr_target x))) of
        (Some a, Some b) \<Rightarrow>
          Some ((projected_relation (Some v) a (map_code_relation (cr_type x)) b)
            \<lparr>gr_repository_id := Some r, gr_properties := [(''confidence'', JInt (cr_confidence x))]\<rparr>)
      | _ \<Rightarrow> None)"

definition project_code_graph :: "(string \<Rightarrow> string) \<Rightarrow> code_graph \<Rightarrow> uuid \<Rightarrow> string \<Rightarrow> uuid \<Rightarrow> projected" where
  "project_code_graph sha g p v r =
     (let c = fold (project_symbol sha p r v) (list_symbols r v g)
                \<lparr>cp_out = ([], []), cp_files = [], cp_symbols = []\<rparr>
      in (fst (cp_out c),
          snd (cp_out c) @ List.map_filter (project_code_relation r v (cp_symbols c)) (list_relations r v g)))"

subsection \<open>The service\<close>

definition project_state :: "(string \<Rightarrow> string) \<Rightarrow> projection_sources \<Rightarrow> project \<Rightarrow> string option \<Rightarrow> projected" where
  "project_state sha so pr rvn =
     (let p = pj_id pr;
          repos = repositories_of_project p (gs_repos so);
          requirements = requirements_of_project p (gs_requirements so);
          components = list_components p (gs_catalog so);
          names = component_ids components
      in append_all
           ([([projected_entity rvn p None L_Project p [(''name'', JStr (pj_name pr))]], [])] @
            map (project_repository rvn p) repos @
            map (project_requirement rvn p) requirements @
            map (project_work_item rvn p) (work_items_of_project p (gs_repos so)) @
            map (project_component rvn p) components @
            map (\<lambda>m. ([], requirement_mentions rvn names (requirement_entity rvn p m))) requirements @
            map (project_decision rvn p names) (decisions_of_project p (gs_decisions so)) @
            (case rvn of None \<Rightarrow> []
             | Some v \<Rightarrow> map (\<lambda>x. project_code_graph sha (gs_code so) p v (rp_id x)) repos)))"

definition project_graph :: "(string \<Rightarrow> string) \<Rightarrow> projection_sources \<Rightarrow> project \<Rightarrow> string option
    \<Rightarrow> knowledge_graph \<Rightarrow> projection \<times> knowledge_graph" where
  "project_graph sha so pr rvn g =
     (let (es, rs) = project_state sha so pr rvn in
      (\<lparr>pn_project_id = pj_id pr, pn_entities = es, pn_relations = rs\<rparr>,
       upsert_relations rs (upsert_entities es g)))"

subsection \<open>Projecting again\<close>

lemma fold_set_keys:
  "set (map f es) \<subseteq> set (map fst d) \<Longrightarrow> map fst (fold (\<lambda>e. dict_set (f e) e) es d) = map fst d"
proof (induction es arbitrary: d)
  case (Cons e es)
  have keys: "map fst (dict_set (f e) e d) = map fst d"
    using Cons.prems by (simp add: update_keys)
  have "map fst (fold (\<lambda>e. dict_set (f e) e) es (dict_set (f e) e d)) = map fst (dict_set (f e) e d)"
    by (rule Cons.IH) (use Cons.prems in \<open>simp only: keys\<close>, simp)
  with keys show ?case by simp
qed simp

lemma fold_dict_get:
  "dict_get (fold (\<lambda>e. dict_set (f e) e) es d) k =
     (case List.find (\<lambda>e. f e = k) (rev es) of Some e \<Rightarrow> Some e | None \<Rightarrow> dict_get d k)"
proof (induction es arbitrary: d)
  case (Cons e es)
  have find: "List.find P (xs @ [x]) = (case List.find P xs of Some y \<Rightarrow> Some y
      | None \<Rightarrow> if P x then Some x else None)" for P :: "'a \<Rightarrow> bool" and xs x
    by (induction xs) auto
  from Cons [of "dict_set (f e) e d"] show ?case
    by (auto simp: find store_simps split: option.split)
qed simp

lemma fold_set_ok: "dict_ok d \<Longrightarrow> dict_ok (fold (\<lambda>e. dict_set (f e) e) es d)"
  by (induction es arbitrary: d) auto

lemma fold_set_covers: "set (map f es) \<subseteq> set (map fst (fold (\<lambda>e. dict_set (f e) e) es d))"
proof
  fix k assume "k \<in> set (map f es)"
  then have "List.find (\<lambda>e. f e = k) (rev es) \<noteq> None" by (auto simp: find_None_iff)
  then have "dict_get (fold (\<lambda>e. dict_set (f e) e) es d) k \<noteq> None"
    by (auto simp: fold_dict_get)
  then show "k \<in> set (map fst (fold (\<lambda>e. dict_set (f e) e) es d))"
    by (auto simp: dest!: map_of_SomeD intro: rev_image_eqI)
qed

lemma dict_eqI:
  assumes "map fst d = map fst d'" and "distinct (map fst d)" and "\<And>k. dict_get d k = dict_get d' k"
  shows "d = d'"
  using assms
proof (induction d arbitrary: d')
  case (Cons x d)
  obtain k v where x: "x = (k, v)" by (cases x)
  obtain v' e where d': "d' = (k, v') # e" "map fst d = map fst e"
    using Cons.prems(1) by (cases d') (auto simp: x)
  have "v = v'" using Cons.prems(3) [of k] by (simp add: x d')
  have fresh: "dict_get d k = None" "dict_get e k = None"
    using Cons.prems(2) by (simp_all add: x d' map_of_eq_None_iff)
      (metis list.set_map d'(2))
  have same: "dict_get d j = dict_get e j" for j
    using Cons.prems(3) [of j] fresh by (auto simp: x d' split: if_splits)
  have "d = e" using Cons.prems(2) d'(2) same by (intro Cons.IH) (simp_all add: x)
  with \<open>v = v'\<close> show ?case by (simp add: x d')
qed simp

lemma upsert_entities_twice:
  assumes "dict_ok (kg_entities g)"
  shows "kg_entities (upsert_entities es (upsert_entities es g)) = kg_entities (upsert_entities es g)"
proof (rule dict_eqI)
  let ?d = "fold (\<lambda>e. dict_set (ge_id e) e) es (kg_entities g)"
  show "map fst (kg_entities (upsert_entities es (upsert_entities es g))) =
      map fst (kg_entities (upsert_entities es g))"
    by (simp add: upsert_entities_def fold_set_keys fold_set_covers del: set_map)
  have "dict_ok ?d" by (rule fold_set_ok) (rule assms)
  then show "distinct (map fst (kg_entities (upsert_entities es (upsert_entities es g))))"
    using fold_set_ok [of ?d ge_id es] by (simp add: upsert_entities_def dict_ok_def)
  show "dict_get (kg_entities (upsert_entities es (upsert_entities es g))) k =
      dict_get (kg_entities (upsert_entities es g)) k" for k
    by (simp add: upsert_entities_def fold_dict_get split: option.split)
qed

text \<open>The list of each subject grows by its new relations, in their order.\<close>

lemma append_to_keys: "map fst (append_to k v d) = (if k \<in> set (map fst d) then map fst d else map fst d @ [k])"
  by (simp add: append_to_def update_keys)

definition grow :: "(graph_relation \<Rightarrow> uuid) \<Rightarrow> graph_relation list \<Rightarrow> (uuid, graph_relation list) dict
    \<Rightarrow> (uuid, graph_relation list) dict" where
  "grow f rs d = fold (\<lambda>r. append_to (f r) r) rs d"

lemma upsert_relations_grow:
  "kg_out (upsert_relations rs g) = grow gr_subject rs (kg_out g) \<and>
   kg_in (upsert_relations rs g) = grow gr_object rs (kg_in g)"
proof (induction rs arbitrary: g)
  case (Cons r rs)
  let ?g = "g\<lparr>kg_out := append_to (gr_subject r) r (kg_out g), kg_in := append_to (gr_object r) r (kg_in g)\<rparr>"
  have "upsert_relations (r # rs) g = upsert_relations rs ?g" by (simp add: upsert_relations_def)
  with Cons.IH [of ?g] show ?case by (simp add: grow_def)
qed (simp_all add: upsert_relations_def grow_def)

lemma grow_get: "get_list (grow f rs d) k = get_list d k @ filter (\<lambda>r. f r = k) rs"
proof (induction rs arbitrary: d)
  case (Cons r rs)
  from Cons [of "append_to (f r) r d"] show ?case by (auto simp: grow_def store_simps)
qed (simp add: grow_def)

lemma grow_ok: "dict_ok d \<Longrightarrow> dict_ok (grow f rs d)"
  by (induction rs arbitrary: d) (simp_all add: grow_def append_to_def)

lemma grow_keys: "set (map f rs) \<subseteq> set (map fst d) \<Longrightarrow> map fst (grow f rs d) = map fst d"
proof (induction rs arbitrary: d)
  case (Cons r rs)
  have same: "map fst (append_to (f r) r d) = map fst d"
    using Cons.prems by (simp only: append_to_keys) simp
  have "map fst (grow f rs (append_to (f r) r d)) = map fst (append_to (f r) r d)"
    by (rule Cons.IH) (use Cons.prems in \<open>simp only: same\<close>, simp)
  with same show ?case by (simp add: grow_def)
qed (simp add: grow_def)

lemma grow_covers: "set (map f rs) \<subseteq> set (map fst (grow f rs d))"
proof
  fix k assume "k \<in> set (map f rs)"
  then have "get_list (grow f rs d) k \<noteq> []" by (auto simp: grow_get filter_empty_conv)
  then have "dict_get (grow f rs d) k \<noteq> None" by (auto simp: get_list_def split: option.splits)
  then show "k \<in> set (map fst (grow f rs d))"
    by (auto dest!: map_of_SomeD intro: rev_image_eqI)
qed

lemma dict_values_get:
  assumes "dict_ok d"
  shows "dict_values d = map (get_list d) (map fst d)"
proof -
  have "get_list d k = v" if "(k, v) \<in> set d" for k v
    using assms that by (simp add: dict_ok_def get_list_def)
  then show ?thesis by (auto simp: dict_values_def intro!: map_cong)
qed

lemma grow_values:
  assumes "dict_ok d"
  shows "dict_values (grow f rs (grow f rs d)) =
    map (\<lambda>k. get_list (grow f rs d) k @ filter (\<lambda>r. f r = k) rs) (map fst (grow f rs d))"
proof -
  have "dict_ok (grow f rs (grow f rs d))" by (intro grow_ok assms)
  moreover have "map fst (grow f rs (grow f rs d)) = map fst (grow f rs d)"
    by (rule grow_keys [OF grow_covers])
  ultimately show ?thesis by (simp add: dict_values_get grow_get del: map_map)
qed

text \<open>Repeated relations of one group are dropped by the search.\<close>

lemma keep_first_repeated:
  assumes "\<And>k. k \<in> set ks \<Longrightarrow> set (m k) \<subseteq> set (l k)"
  shows "keep_first key seen (filter P (concat (map (\<lambda>k. l k @ m k) ks))) =
    keep_first key seen (filter P (concat (map l ks)))"
  using assms
proof (induction ks arbitrary: seen)
  case (Cons k ks)
  let ?L = "filter P (l k)" and ?M = "filter P (m k)"
  define s1 where "s1 = map key (keep_first key seen ?L) @ seen"
  have keys: "set s1 = key ` set ?L \<union> set seen"
    using keep_first_keys [of key seen ?L] by (auto simp: s1_def)
  have "key ` set ?M \<subseteq> set s1" using Cons.prems [of k] keys by auto
  then have M: "keep_first key s1 ?M = []" by (rule keep_first_seen)
  have "keep_first key seen (filter P (concat (map (\<lambda>k. l k @ m k) (k # ks)))) =
      keep_first key seen ?L @ keep_first key s1 (filter P (concat (map (\<lambda>k. l k @ m k) ks)))"
    by (simp add: keep_first_append M s1_def [symmetric])
  also have "keep_first key s1 (filter P (concat (map (\<lambda>k. l k @ m k) ks))) =
      keep_first key s1 (filter P (concat (map l ks)))"
    by (rule Cons.IH) (use Cons.prems in simp)
  finally show ?case by (simp add: keep_first_append s1_def)
qed simp

lemma find_relations_twice:
  assumes "dict_ok (kg_out g)"
  shows "find_relations ty s ob rvn (upsert_relations rs (upsert_entities es
           (upsert_relations rs g))) = find_relations ty s ob rvn (upsert_relations rs g)"
proof -
  let ?d = "grow gr_subject rs (kg_out g)"
  have "kg_out (upsert_relations rs (upsert_entities es (upsert_relations rs g))) = grow gr_subject rs ?d"
    by (simp add: upsert_relations_grow upsert_entities_def)
  moreover have "dict_values (grow gr_subject rs ?d) =
      map (\<lambda>k. get_list ?d k @ filter (\<lambda>r. gr_subject r = k) rs) (map fst ?d)"
    by (rule grow_values) (rule assms)
  moreover have "dict_values ?d = map (get_list ?d) (map fst ?d)"
    by (intro dict_values_get grow_ok assms)
  moreover have "keep_first relation_key [] (filter P (concat (map
        (\<lambda>k. get_list ?d k @ filter (\<lambda>r. gr_subject r = k) rs) (map fst ?d)))) =
      keep_first relation_key [] (filter P (concat (map (get_list ?d) (map fst ?d))))" for P
    by (rule keep_first_repeated) (simp add: grow_get)
  ultimately show ?thesis
    by (simp add: find_relations_def upsert_relations_grow)
qed

text \<open>A search depends only on the sets of neighbours.\<close>

lemma bfs_cong:
  assumes "kg_entities g = kg_entities h"
    and "\<And>n. set (get_list (kg_out g) n) = set (get_list (kg_out h) n)"
    and "\<And>n. set (get_list (kg_in g) n) = set (get_list (kg_in h) n)"
  shows "set (bfs g starts ts depth dir rvn) = set (bfs h starts ts depth dir rvn)"
proof -
  have "edge_rel (neighbours g dir ts rvn) = edge_rel (neighbours h dir ts rvn)"
    using assms(2,3) by (cases dir) (simp_all add: edge_rel_def neighbours_def)
  then show ?thesis by (simp add: bfs_ids assms(1))
qed


subsection \<open>Where the relations start\<close>

lemma code_ids:
  "dict_get (cp_symbols (fold (project_symbol sha p r v) ss c)) k = Some i \<Longrightarrow>
     (\<exists>s \<in> set ss. sy_id s = i) \<or> dict_get (cp_symbols c) k = Some i"
proof (induction ss arbitrary: c)
  case (Cons s ss)
  have "cp_symbols (project_symbol sha p r v s c) = dict_set (symbol_key s) (sy_id s) (cp_symbols c)"
    by (simp add: project_symbol_def project_file_def append_out_def Let_def)
  with Cons.IH [of "project_symbol sha p r v s c"] Cons.prems show ?case
    by (auto simp: store_simps split: if_splits)
qed simp

text \<open>
  Every relation of a projection starts at an entity it projects; the other end may be an object
  no entity stands for.
\<close>

definition starts_known :: "projected \<Rightarrow> bool" where
  "starts_known p \<longleftrightarrow> gr_subject ` set (snd p) \<subseteq> ge_id ` set (fst p)"

lemma starts_known_append: "\<lbrakk>starts_known p; starts_known q\<rbrakk> \<Longrightarrow> starts_known (fst p @ fst q, snd p @ snd q)"
  by (auto simp: starts_known_def)

lemma projected_fields [simp]:
  "gr_subject (projected_relation v s ty ob) = s" "ge_id (projected_entity v p r l i ps) = i"
  by (simp_all add: projected_relation_def projected_entity_def)

lemma starts_project_file: "starts_known (cp_out c) \<Longrightarrow> starts_known (cp_out (project_file sha p r v s c))"
  by (simp add: project_file_def append_out_def Let_def) (auto simp: starts_known_def)

lemma starts_project_symbol: "starts_known (cp_out c) \<Longrightarrow> starts_known (cp_out (project_symbol sha p r v s c))"
  using starts_project_file [of c sha p r v s]
  by (simp add: project_symbol_def append_out_def Let_def) (auto simp: starts_known_def)

lemma symbols_projected:
  "\<lbrakk>starts_known (cp_out c); \<And>k i. dict_get (cp_symbols c) k = Some i \<Longrightarrow> i \<in> ge_id ` set (fst (cp_out c))\<rbrakk>
    \<Longrightarrow> starts_known (cp_out (fold (project_symbol sha p r v) ss c)) \<and>
      (\<forall>k i. dict_get (cp_symbols (fold (project_symbol sha p r v) ss c)) k = Some i \<longrightarrow>
         i \<in> ge_id ` set (fst (cp_out (fold (project_symbol sha p r v) ss c))))"
proof (induction ss arbitrary: c)
  case (Cons s ss)
  let ?c = "project_symbol sha p r v s c"
  have grows: "set (fst (cp_out c)) \<subseteq> set (fst (cp_out ?c))"
    and own: "sy_id s \<in> ge_id ` set (fst (cp_out ?c))"
    and syms: "cp_symbols ?c = dict_set (symbol_key s) (sy_id s) (cp_symbols c)"
    by (auto simp: project_symbol_def project_file_def append_out_def Let_def)
  have "i \<in> ge_id ` set (fst (cp_out ?c))" if "dict_get (cp_symbols ?c) k = Some i" for k i
    using that own Cons.prems(2) [of k i] grows by (auto simp: syms store_simps split: if_splits)
  with Cons.IH [of ?c] starts_project_symbol [OF Cons.prems(1)] show ?case by simp
qed auto

lemma starts_code_graph: "starts_known (project_code_graph sha g p v r)"
proof -
  define c where "c = fold (project_symbol sha p r v) (list_symbols r v g)
      \<lparr>cp_out = ([], []), cp_files = [], cp_symbols = []\<rparr>"
  have c: "starts_known (cp_out c)"
    "\<And>k i. dict_get (cp_symbols c) k = Some i \<Longrightarrow> i \<in> ge_id ` set (fst (cp_out c))"
    using symbols_projected [of "\<lparr>cp_out = ([], []), cp_files = [], cp_symbols = []\<rparr>" sha p r v "list_symbols r v g"]
    by (simp_all add: c_def starts_known_def)
  have "gr_subject y \<in> ge_id ` set (fst (cp_out c))"
    if "project_code_relation r v (cp_symbols c) x = Some y" for x y
    using that c(2) by (auto simp: project_code_relation_def split: option.splits)
  then have "starts_known (fst (cp_out c), snd (cp_out c) @
      List.map_filter (project_code_relation r v (cp_symbols c)) (list_relations r v g))"
    using c(1) by (auto simp: starts_known_def set_map_filter')
  then show ?thesis by (simp add: project_code_graph_def c_def Let_def)
qed

definition entities_scoped :: "uuid \<Rightarrow> string option \<Rightarrow> projected \<Rightarrow> bool" where
  "entities_scoped p rvn q \<longleftrightarrow> (\<forall>e \<in> set (fst q). ge_project_id e = Some p \<and> ge_revision e = rvn)"

lemma scoped_entity [simp]:
  "ge_project_id (projected_entity rvn p r l i ps) = Some p" "ge_revision (projected_entity rvn p r l i ps) = rvn"
  by (simp_all add: projected_entity_def)

lemma scoped_code_symbols:
  "entities_scoped p (Some v) (cp_out c) \<Longrightarrow>
     entities_scoped p (Some v) (cp_out (fold (project_symbol sha p r v) ss c))"
proof (induction ss arbitrary: c)
  case (Cons s ss)
  have "entities_scoped p (Some v) (cp_out (project_symbol sha p r v s c))"
    using Cons.prems by (auto simp: entities_scoped_def project_symbol_def project_file_def append_out_def Let_def)
  with Cons.IH show ?case by simp
qed simp

lemma scoped_code_graph: "entities_scoped p (Some v) (project_code_graph sha g p v r)"
  using scoped_code_symbols [of p v "\<lparr>cp_out = ([], []), cp_files = [], cp_symbols = []\<rparr>"]
  by (simp add: project_code_graph_def Let_def entities_scoped_def)

lemma append_all_scoped: "(\<And>q. q \<in> set ps \<Longrightarrow> entities_scoped p rvn q) \<Longrightarrow> entities_scoped p rvn (append_all ps)"
  by (auto simp: entities_scoped_def append_all_def)

lemma append_all_starts:
  assumes "\<And>q. q \<in> set ps \<Longrightarrow> gr_subject ` set (snd q) \<subseteq> ge_id ` set (fst q) \<union> known"
    and "known \<subseteq> ge_id ` set (fst (append_all ps))"
  shows "starts_known (append_all ps)"
proof -
  have "gr_subject x \<in> ge_id ` set (fst (append_all ps))" if "q \<in> set ps" "x \<in> set (snd q)" for q x
  proof -
    have "gr_subject x \<in> ge_id ` set (fst q) \<union> known" using assms(1) [OF that(1)] that(2) by blast
    moreover have "ge_id ` set (fst q) \<subseteq> ge_id ` set (fst (append_all ps))"
      using that(1) by (auto simp: append_all_def)
    ultimately show ?thesis using assms(2) by blast
  qed
  then show ?thesis by (auto simp: starts_known_def append_all_def)
qed

lemmas projection_steps = project_repository_def project_requirement_def project_work_item_def
  project_component_def project_decision_def requirement_entity_def

text \<open>
  Every entity of a projection carries the project and the revision it was projected for, and
  every relation starts at an entity of the same projection: the graph holds no claim about an
  object the projection did not see.
\<close>

theorem projection_is_scoped:
  "(\<forall>e \<in> set (pn_entities (fst (project_graph sha so pr rvn g))).
      ge_project_id e = Some (pj_id pr) \<and> ge_revision e = rvn) \<and>
   gr_subject ` set (pn_relations (fst (project_graph sha so pr rvn g))) \<subseteq>
     ge_id ` set (pn_entities (fst (project_graph sha so pr rvn g)))"
proof -
  define p where "p = pj_id pr"
  define requirements where "requirements = requirements_of_project p (gs_requirements so)"
  define names where "names = component_ids (list_components p (gs_catalog so))"
  define root where "root = ([projected_entity rvn p None L_Project p [(''name'', JStr (pj_name pr))]], [] :: graph_relation list)"
  define steps where "steps = [root] @
      map (project_repository rvn p) (repositories_of_project p (gs_repos so)) @
      map (project_requirement rvn p) requirements @
      map (project_work_item rvn p) (work_items_of_project p (gs_repos so)) @
      map (project_component rvn p) (list_components p (gs_catalog so)) @
      map (\<lambda>m. ([], requirement_mentions rvn names (requirement_entity rvn p m))) requirements @
      map (project_decision rvn p names) (decisions_of_project p (gs_decisions so)) @
      (case rvn of None \<Rightarrow> []
       | Some v \<Rightarrow> map (\<lambda>x. project_code_graph sha (gs_code so) p v (rp_id x)) (repositories_of_project p (gs_repos so)))"
  have state: "project_state sha so pr rvn = append_all steps"
    unfolding project_state_def steps_def root_def names_def requirements_def p_def Let_def
    by (rule refl)
  have scoped: "entities_scoped p rvn (append_all steps)"
  proof (rule append_all_scoped)
    fix q assume "q \<in> set steps"
    then consider (code) v r where "rvn = Some v" "q = project_code_graph sha (gs_code so) p v r"
      | (other) "\<forall>e \<in> set (fst q). ge_project_id e = Some p \<and> ge_revision e = rvn"
      by (auto simp: steps_def root_def projection_steps split: option.splits)
    then show "entities_scoped p rvn q"
      by cases (simp_all add: scoped_code_graph, simp add: entities_scoped_def)
  qed
  have starts: "starts_known (append_all steps)"
  proof (rule append_all_starts)
    show "insert p (rm_id ` set requirements) \<subseteq> ge_id ` set (fst (append_all steps))"
      by (auto simp: append_all_def steps_def root_def image_Un image_UN projection_steps)
    fix q assume "q \<in> set steps"
    then consider v r where "q = project_code_graph sha (gs_code so) p v r"
      | r where "q = project_repository rvn p r" | m where "q = project_requirement rvn p m"
      | w where "q = project_work_item rvn p w" | c where "q = project_component rvn p c"
      | m where "m \<in> set requirements" "q = ([], requirement_mentions rvn names (requirement_entity rvn p m))"
      | d where "q = project_decision rvn p names d" | "q = root"
      unfolding steps_def by (auto split: option.splits)
    then show "gr_subject ` set (snd q) \<subseteq> ge_id ` set (fst q) \<union> insert p (rm_id ` set requirements)"
    proof cases
      case 1
      then show ?thesis using starts_code_graph [of sha "gs_code so" p v r] unfolding starts_known_def by blast
    qed (auto simp: projection_steps requirement_mentions_def root_def Let_def split: option.split)
  qed
  have "pn_entities (fst (project_graph sha so pr rvn g)) = fst (append_all steps)"
    "pn_relations (fst (project_graph sha so pr rvn g)) = snd (append_all steps)"
    by (simp_all add: project_graph_def state split: prod.split)
  with scoped starts show ?thesis by (simp add: entities_scoped_def starts_known_def p_def)
qed

subsection \<open>A concrete projection\<close>

definition demo_projection_sources :: projection_sources where
  "demo_projection_sources =
     \<lparr>gs_repos = empty_repositories\<lparr>st_repositories := [(''r'', \<lparr>rp_id = ''r'', rp_project_id = ''p'',
          rp_name = ''core'', rp_clone_url = [], rp_default_branch = ''main'', rp_current_revision = None,
          rp_external_refs = []\<rparr>)]\<rparr>,
      gs_requirements = [], gs_catalog = empty_catalog, gs_decisions = empty_document_store,
      gs_code = empty_code_graph\<rparr>"

definition demo_projected_project :: project where
  "demo_projected_project =
     \<lparr>pj_id = ''p'', pj_name = ''shop'', pj_description = None, pj_status = Active, pj_parent_id = None,
      pj_repositories = [], pj_external_refs = []\<rparr>"

definition demo_project_again :: "knowledge_graph \<Rightarrow> knowledge_graph" where
  "demo_project_again g = snd (project_graph (\<lambda>s. s) demo_projection_sources demo_projected_project (Some ''v'') g)"


theorem projection_is_scoped_witness:
  "map (\<lambda>e. (ge_project_id e, ge_revision e)) (pn_entities (fst (project_graph (\<lambda>s. s) demo_projection_sources
      demo_projected_project (Some ''v'') empty_knowledge_graph))) = replicate 2 (Some ''p'', Some ''v'') \<and>
   map gr_subject (pn_relations (fst (project_graph (\<lambda>s. s) demo_projection_sources demo_projected_project
      (Some ''v'') empty_knowledge_graph))) = [''p'']"
proof
  let ?es = "pn_entities (fst (project_graph (\<lambda>s. s) demo_projection_sources demo_projected_project
      (Some ''v'') empty_knowledge_graph))"
  have "pj_id demo_projected_project = ''p''" by (simp add: demo_projected_project_def)
  then have "\<forall>e \<in> set ?es. ge_project_id e = Some ''p'' \<and> ge_revision e = Some ''v''"
    using projection_is_scoped [of "\<lambda>s. s" demo_projection_sources demo_projected_project "Some ''v''"
        empty_knowledge_graph] by simp
  moreover have "length ?es = 2" by code_simp
  ultimately show "map (\<lambda>e. (ge_project_id e, ge_revision e)) ?es = replicate 2 (Some ''p'', Some ''v'')"
    by (intro replicate_eqI) auto
  show "map gr_subject (pn_relations (fst (project_graph (\<lambda>s. s) demo_projection_sources demo_projected_project
      (Some ''v'') empty_knowledge_graph))) = [''p'']"
    by code_simp
qed

end
