(* ===== verification/Document_Parsers.thy ===== *)
theory Document_Parsers
  imports Text_Search Documents
begin

text \<open>
  The parsers that turn an artifact into nodes: Markdown (\<open>adapters/parsers/markdown.py\<close>), the
  XWiki syntax (\<open>adapters/parsers/xwiki_syntax.py\<close>) and HTML (\<open>adapters/parsers/html.py\<close>), with the
  builder of a node tree the first two share.

  The tokens of \<open>markdown-it-py\<close> and the elements of BeautifulSoup come from parameters: a token
  has the fields the code reads, and an element what the calls of the code on it return. The
  decoding of UTF-8 with replacement and of base64 are parameters too. The identifier of the
  \<open>n\<close>-th node is \<open>ids n\<close>.
\<close>

subsection \<open>Nodes and artifacts\<close>

record block_table =
  bt_headers :: "string list"
  bt_rows :: "string list list"

record block_node = parsed_node +
  bn_code_blocks :: "(string option \<times> string) list"
  bn_tables :: "block_table list"

record text_decoding =
  dx_utf8 :: "string \<Rightarrow> string"
  dx_base64 :: "string \<Rightarrow> exn + string"

text \<open>\<open>_decode\<close>; the parser of HTML does not know data references.\<close>

definition no_content :: exn where
  "no_content = Exn ''ValueError'' ''SourceArtifact must carry content or a raw bytes reference to be parsed''"

definition after_comma :: "string \<Rightarrow> string" where
  "after_comma s = tl (dropWhile (\<lambda>c. c \<noteq> CHR '','') s)"

definition decode_artifact :: "text_decoding \<Rightarrow> source_artifact \<Rightarrow> exn + string" where
  "decode_artifact dx a =
     (case sa_content a of
        Some bytes \<Rightarrow> Inr (dx_utf8 dx bytes)
      | None \<Rightarrow>
          (let ref = or_text (sa_raw_bytes_ref a) [] in
           if ref = [] then Inl no_content
           else if starts_with ref ''data:''
           then (case dx_base64 dx (after_comma ref) of Inl e \<Rightarrow> Inl e | Inr bytes \<Rightarrow> Inr (dx_utf8 dx bytes))
           else Inr ref))"

definition decode_html :: "text_decoding \<Rightarrow> source_artifact \<Rightarrow> exn + string" where
  "decode_html dx a =
     (case sa_content a of
        Some bytes \<Rightarrow> Inr (dx_utf8 dx bytes)
      | None \<Rightarrow>
          (let ref = or_text (sa_raw_bytes_ref a) [] in if ref = [] then Inl no_content else Inr ref))"

definition mime_in :: "string list \<Rightarrow> source_artifact \<Rightarrow> bool" where
  "mime_in ms a \<longleftrightarrow> (case sa_mime_type a of None \<Rightarrow> False | Some m \<Rightarrow> m \<noteq> [] \<and> m \<in> set ms)"

definition artifact_name :: "source_artifact \<Rightarrow> string" where
  "artifact_name a = lower (or_text (sa_file_name a) (sa_source_uri a))"

subsection \<open>The builder\<close>

text \<open>
  The stack holds the positions of the open sections, the innermost first. A node is the object
  the stack and the list share, so a child is entered at the position of its parent.
\<close>

record node_builder =
  nb_nodes :: "block_node list"
  nb_stack :: "nat list"
  nb_content :: "string list"
  nb_links :: "string list"
  nb_order :: nat

definition new_node_builder :: node_builder where
  "new_node_builder = \<lparr>nb_nodes = [], nb_stack = [], nb_content = [], nb_links = [], nb_order = 0\<rparr>"

definition parent_node :: "node_builder \<Rightarrow> block_node option" where
  "parent_node b = (case nb_stack b of [] \<Rightarrow> None | i # is \<Rightarrow> Some (nb_nodes b ! i))"

definition parent_path :: "node_builder \<Rightarrow> string list" where
  "parent_path b = (case parent_node b of None \<Rightarrow> [] | Some n \<Rightarrow> pn_heading_path n)"

definition blank_node :: "(nat \<Rightarrow> uuid) \<Rightarrow> document_node_type \<Rightarrow> node_builder \<Rightarrow> block_node" where
  "blank_node ids ty b =
     \<lparr>pn_id = ids (nb_order b), pn_type = ty, pn_title = None, pn_heading_path = parent_path b,
      pn_content = [], pn_parent_id = None, pn_child_ids = [], pn_links = [], pn_references = [],
      pn_order = 0, bn_code_blocks = [], bn_tables = []\<rparr>"

definition attach_node :: "block_node \<Rightarrow> node_builder \<Rightarrow> node_builder" where
  "attach_node node b =
     (let n = node\<lparr>pn_order := int (nb_order b)\<rparr> in
      case nb_stack b of
        [] \<Rightarrow> b\<lparr>nb_nodes := nb_nodes b @ [n], nb_order := Suc (nb_order b)\<rparr>
      | i # is \<Rightarrow>
          (let p = nb_nodes b ! i in
           b\<lparr>nb_nodes := (nb_nodes b)[i := p\<lparr>pn_child_ids := pn_child_ids p @ [pn_id n]\<rparr>] @
                [n\<lparr>pn_parent_id := Some (pn_id p)\<rparr>],
             nb_order := Suc (nb_order b)\<rparr>))"

definition flush_content :: "(nat \<Rightarrow> uuid) \<Rightarrow> node_builder \<Rightarrow> node_builder" where
  "flush_content ids b =
     (let content = strip (join newline (nb_content b)); links = nb_links b;
          b' = b\<lparr>nb_content := [], nb_links := []\<rparr>
      in if content = [] then b'
         else attach_node ((blank_node ids Paragraph_Node b')\<lparr>pn_content := content, pn_links := links\<rparr>) b')"

definition builder_heading :: "(nat \<Rightarrow> uuid) \<Rightarrow> nat \<Rightarrow> string \<Rightarrow> string list \<Rightarrow> node_builder \<Rightarrow> node_builder" where
  "builder_heading ids level title links b0 =
     (let b1 = flush_content ids b0;
          b2 = b1\<lparr>nb_stack := drop (length (nb_stack b1) - (level - 1)) (nb_stack b1)\<rparr>;
          i = length (nb_nodes b2);
          b3 = attach_node ((blank_node ids Section_Node b2)
                 \<lparr>pn_title := Some title, pn_heading_path := parent_path b2 @ [title], pn_links := links\<rparr>) b2
      in b3\<lparr>nb_stack := replicate (level - length (nb_stack b3)) i @ nb_stack b3\<rparr>)"

definition builder_paragraph :: "string \<Rightarrow> string list \<Rightarrow> node_builder \<Rightarrow> node_builder" where
  "builder_paragraph s links b =
     (if strip s = [] then b
      else b\<lparr>nb_content := nb_content b @ [strip s], nb_links := nb_links b @ links\<rparr>)"

definition builder_code_block :: "(nat \<Rightarrow> uuid) \<Rightarrow> string option \<Rightarrow> string \<Rightarrow> node_builder \<Rightarrow> node_builder" where
  "builder_code_block ids lang content b0 =
     (let b = flush_content ids b0 in
      attach_node ((blank_node ids Code_Block_Node b)
        \<lparr>bn_code_blocks := [(lang, content)], pn_content := content\<rparr>) b)"

definition table_row :: "string list \<Rightarrow> string" where
  "table_row cells = ''| '' @ join '' | '' cells @ '' |''"

definition render_table :: "block_table \<Rightarrow> string" where
  "render_table t = join newline (map table_row (bt_headers t # bt_rows t))"

definition builder_table :: "(nat \<Rightarrow> uuid) \<Rightarrow> block_table \<Rightarrow> node_builder \<Rightarrow> node_builder" where
  "builder_table ids t b0 =
     (let b = flush_content ids b0 in
      attach_node ((blank_node ids Table_Node b)\<lparr>bn_tables := [t], pn_content := render_table t\<rparr>) b)"

text \<open>A list is attached at once: the paragraph collected so far is not flushed before it.\<close>

definition builder_list :: "(nat \<Rightarrow> uuid) \<Rightarrow> string \<Rightarrow> node_builder \<Rightarrow> node_builder" where
  "builder_list ids content b =
     attach_node ((blank_node ids List_Node b)\<lparr>pn_content := content\<rparr>) b"

definition builder_finish :: "(nat \<Rightarrow> uuid) \<Rightarrow> node_builder \<Rightarrow> block_node list" where
  "builder_finish ids b = nb_nodes (flush_content ids b)"

text \<open>\<open>flush_list\<close> of both parsers.\<close>

definition flush_list :: "(nat \<Rightarrow> uuid) \<Rightarrow> string list \<Rightarrow> node_builder \<Rightarrow> node_builder" where
  "flush_list ids xs b = (if xs = [] then b else builder_list ids (join newline xs) b)"

subsection \<open>Markdown\<close>

record inline_token =
  it_type :: string
  it_content :: string
  it_href :: "string option"

record md_token =
  mt_type :: string
  mt_tag :: string
  mt_info :: string
  mt_content :: string
  mt_children :: "inline_token list"

definition inline_text :: "inline_token list \<Rightarrow> string" where
  "inline_text ts =
     concat (map (\<lambda>t. if it_type t = ''text'' \<or> it_type t = ''code_inline'' then it_content t
                      else if it_type t = ''softbreak'' \<or> it_type t = ''hardbreak'' then newline else []) ts)"

definition inline_links :: "inline_token list \<Rightarrow> string list" where
  "inline_links ts =
     List.map_filter (\<lambda>t. if it_type t = ''link_open'' \<and> it_href t \<noteq> Some [] then it_href t else None) ts"

text \<open>The first row with cells is the header.\<close>

definition row_cells :: "md_token list \<Rightarrow> string list" where
  "row_cells row = map (\<lambda>t. inline_text (mt_children t)) (filter (\<lambda>t. mt_type t = ''inline'') row)"

definition table_step :: "string list \<Rightarrow> block_table \<Rightarrow> block_table" where
  "table_step cells t =
     (if bt_headers t = [] then t\<lparr>bt_headers := cells\<rparr> else t\<lparr>bt_rows := bt_rows t @ [cells]\<rparr>)"

definition table_from_tokens :: "md_token list list \<Rightarrow> block_table" where
  "table_from_tokens rows = fold (\<lambda>r. table_step (row_cells r)) rows \<lparr>bt_headers = [], bt_rows = []\<rparr>"

text \<open>
  The cells of a row up to its close, with what follows; and the rows of a table up to its
  close. A cell is the token after its opening token, which must be there.
\<close>

definition index_error :: exn where
  "index_error = Exn ''IndexError'' ''list index out of range''"

fun read_row :: "md_token list \<Rightarrow> md_token list \<Rightarrow> exn + md_token list \<times> md_token list" where
  "read_row cells [] = Inr (cells, [])"
| "read_row cells (t # ts) =
     (if mt_type t = ''tr_close'' then Inr (cells, t # ts)
      else if mt_type t = ''th_open'' \<or> mt_type t = ''td_open''
      then (case ts of [] \<Rightarrow> Inl index_error | u # us \<Rightarrow> read_row (cells @ [u]) ts)
      else read_row cells ts)"

lemma read_row_shorter: "read_row cells ts = Inr (row, rest) \<Longrightarrow> length rest \<le> length ts"
proof (induction ts arbitrary: cells)
  case (Cons t ts)
  consider "mt_type t = ''tr_close''" "rest = t # ts" | cells' where "read_row cells' ts = Inr (row, rest)"
    using Cons.prems by (auto split: if_splits list.splits)
  then show ?case
  proof cases
    case 2
    from Cons.IH [OF this] show ?thesis by simp
  qed simp
qed simp

function read_table :: "md_token list list \<Rightarrow> md_token list \<Rightarrow> exn + md_token list list \<times> md_token list" where
  "read_table rows ts =
     (case ts of
        [] \<Rightarrow> Inr (rows, [])
      | t # us \<Rightarrow>
          if mt_type t = ''table_close'' then Inr (rows, us)
          else if mt_type t = ''tr_open''
          then (case read_row [] us of
                  Inl e \<Rightarrow> Inl e
                | Inr (row, rest) \<Rightarrow> read_table (rows @ [row]) rest)
          else read_table rows us)"
  by pat_completeness auto
termination
  by (relation "measure (length \<circ> snd)") (auto dest: read_row_shorter)

declare read_table.simps [simp del]

lemma read_table_shorter: "read_table rows ts = Inr (found, rest) \<Longrightarrow> length rest \<le> length ts"
proof (induction "length ts" arbitrary: rows ts rule: less_induct)
  case less
  show ?case
  proof (cases ts)
    case Nil
    with less.prems show ?thesis by (simp add: read_table.simps)
  next
    case (Cons t us)
    consider "rest = us" | row mid where "read_row [] us = Inr (row, mid)" "read_table (rows @ [row]) mid = Inr (found, rest)"
      | "read_table rows us = Inr (found, rest)"
      using less.prems unfolding Cons by (subst (asm) read_table.simps) (auto split: if_splits sum.splits prod.splits)
    then show ?thesis
    proof cases
      case 2
      have "length mid \<le> length us" using 2(1) by (rule read_row_shorter)
      with less.hyps [OF _ 2(2)] show ?thesis by (simp add: Cons)
    next
      case 3
      with less.hyps [OF _ 3] show ?thesis by (simp add: Cons)
    qed (simp add: Cons)
  qed
qed

text \<open>The language of a fence is the first word of its information string.\<close>

definition fence_language :: "md_token \<Rightarrow> exn + string option" where
  "fence_language t =
     (if mt_type t = ''fence''
      then (let s = strip (mt_info t) in
            if s = [] then Inl index_error else Inr (Some (takeWhile (\<lambda>c. \<not> is_space c) s)))
      else Inr None)"

definition heading_level :: "md_token \<Rightarrow> exn + nat" where
  "heading_level t =
     (case mt_tag t of
        h # d # rest \<Rightarrow>
          if 48 \<le> code d \<and> code d \<le> 57 then Inr (code d - 48) else Inl (Exn ''ValueError'' ''int'')
      | _ \<Rightarrow> Inl (Exn ''IndexError'' ''string index out of range''))"

type_synonym md_state = "node_builder \<times> string list"

definition list_item_text :: "md_token list \<Rightarrow> string" where
  "list_item_text ts =
     (case List.find (\<lambda>t. mt_type t = ''inline'') (take 3 ts) of
        None \<Rightarrow> ''-''
      | Some t \<Rightarrow> let s = inline_text (mt_children t) in if s = [] then ''-'' else ''- '' @ s)"

text \<open>One turn of the loop over the tokens: the tokens left and the new state.\<close>

definition md_step :: "(nat \<Rightarrow> uuid) \<Rightarrow> md_token \<Rightarrow> md_token list \<Rightarrow> md_state
    \<Rightarrow> exn + md_token list \<times> md_state" where
  "md_step ids t us st =
     (let (b, xs) = st; flushed = flush_list ids xs b; ty = mt_type t in
      if ty = ''heading_open''
      then (case heading_level t of
              Inl e \<Rightarrow> Inl e
            | Inr level \<Rightarrow>
                (case us of
                   [] \<Rightarrow> Inl index_error
                 | u # rest \<Rightarrow>
                     Inr (drop 1 rest,
                       (builder_heading ids level (inline_text (mt_children u)) (inline_links (mt_children u)) b, xs))))
      else if ty = ''paragraph_open''
      then (case us of
              [] \<Rightarrow> Inl index_error
            | u # rest \<Rightarrow>
                Inr (drop 1 rest, (builder_paragraph (inline_text (mt_children u)) (inline_links (mt_children u)) b, xs)))
      else if ty = ''fence'' \<or> ty = ''code_block''
      then (case fence_language t of
              Inl e \<Rightarrow> Inl e
            | Inr lang \<Rightarrow> Inr (us, (builder_code_block ids lang (mt_content t) flushed, [])))
      else if ty = ''table_open''
      then (case read_table [] us of
              Inl e \<Rightarrow> Inl e
            | Inr (rows, rest) \<Rightarrow> Inr (rest, (builder_table ids (table_from_tokens rows) flushed, [])))
      else if ty = ''bullet_list_open'' \<or> ty = ''ordered_list_open'' then Inr (us, (flushed, []))
      else if ty = ''list_item_open'' then Inr (drop 1 us, (b, xs @ [list_item_text us]))
      else if ty = ''list_item_close'' then Inr (us, st)
      else if ty = ''list_close'' \<or> ty = ''bullet_list_close'' \<or> ty = ''ordered_list_close''
      then Inr (us, (flushed, []))
      else Inr (us, st))"

lemma md_step_shorter:
  assumes "md_step ids t us st = Inr (rest, st')"
  shows "length rest \<le> length us"
proof (cases "mt_type t = ''table_open''")
  case True
  with assms show ?thesis
    by (auto simp: md_step_def Let_def split: sum.splits prod.splits dest: read_table_shorter)
next
  case False
  with assms show ?thesis
    by (auto simp: md_step_def Let_def split: if_splits sum.splits prod.splits list.splits)
qed

function md_walk :: "(nat \<Rightarrow> uuid) \<Rightarrow> md_token list \<Rightarrow> md_state \<Rightarrow> exn + md_state" where
  "md_walk ids ts st =
     (case ts of
        [] \<Rightarrow> Inr st
      | t # us \<Rightarrow>
          (case md_step ids t us st of
             Inl e \<Rightarrow> Inl e
           | Inr (rest, st') \<Rightarrow> md_walk ids rest st'))"
  by pat_completeness auto
termination
  by (relation "measure (\<lambda>(ids, ts, st). length ts)") (auto dest: md_step_shorter)

declare md_walk.simps [simp del]

lemma md_walk_simps [simp]:
  "md_walk ids [] st = Inr st"
  "md_walk ids (t # us) st =
     (case md_step ids t us st of Inl e \<Rightarrow> Inl e | Inr (rest, st') \<Rightarrow> md_walk ids rest st')"
  by (subst md_walk.simps, simp)+

text \<open>Front matter between two lines of three dashes.\<close>

definition strip_quotes :: "string \<Rightarrow> string" where
  "strip_quotes s =
     (let q = (\<lambda>c. code c = 34 \<or> code c = 39) in rev (dropWhile q (rev (dropWhile q s))))"

definition front_line :: "string \<Rightarrow> (string \<times> json) list \<Rightarrow> (string \<times> json) list" where
  "front_line line fm =
     (let key = takeWhile (\<lambda>c. c \<noteq> CHR '':'') line; k = strip key in
      if CHR '':'' \<in> set line \<and> k \<noteq> []
      then dict_set k (JStr (strip_quotes (strip (drop (Suc (length key)) line)))) fm else fm)"

definition extract_front_matter :: "string \<Rightarrow> (string \<times> json) list \<times> string" where
  "extract_front_matter s =
     (let lines = split_lines [] s;
          inner = takeWhile (\<lambda>l. strip l \<noteq> ''---'') (tl lines)
      in if \<not> starts_with s ''---'' \<or> length lines < 3 \<or> Suc (length inner) = length lines then ([], s)
         else (fold front_line inner [],
               dropWhile (\<lambda>c. code c = 10) (join newline (drop (length inner + 2) lines))))"

definition markdown_title :: "string \<Rightarrow> string option" where
  "markdown_title body =
     map_option (\<lambda>l. strip (drop 2 l)) (List.find (\<lambda>l. starts_with l ''# '') (split_lines [] body))"

definition dump_front_matter :: "(string \<times> json) list \<Rightarrow> string" where
  "dump_front_matter fm = join newline (map (\<lambda>(k, v). k @ '': '' @ py_str v) fm)"

record block_document =
  bd_title :: "string option"
  bd_front_matter :: "(string \<times> json) list"
  bd_nodes :: "block_node list"

text \<open>The node of the front matter is put before the others and has the order 0 as well.\<close>

definition front_matter_node :: "uuid \<Rightarrow> (string \<times> json) list \<Rightarrow> block_node" where
  "front_matter_node i fm =
     \<lparr>pn_id = i, pn_type = Front_Matter_Node, pn_title = Some ''Front Matter'', pn_heading_path = [],
      pn_content = dump_front_matter fm, pn_parent_id = None, pn_child_ids = [], pn_links = [],
      pn_references = [], pn_order = 0, bn_code_blocks = [], bn_tables = []\<rparr>"

definition markdown_nodes :: "(nat \<Rightarrow> uuid) \<Rightarrow> md_token list \<Rightarrow> exn + block_node list" where
  "markdown_nodes ids ts =
     (case md_walk ids ts (new_node_builder, []) of
        Inl e \<Rightarrow> Inl e
      | Inr (b, xs) \<Rightarrow> Inr (builder_finish ids (flush_list ids xs b)))"

definition markdown_blocks :: "(nat \<Rightarrow> uuid) \<Rightarrow> (string \<Rightarrow> md_token list) \<Rightarrow> string \<Rightarrow> exn + block_document" where
  "markdown_blocks ids md s =
     (let (fm, body) = extract_front_matter s in
      case markdown_nodes ids (md body) of
        Inl e \<Rightarrow> Inl e
      | Inr nodes \<Rightarrow>
          Inr \<lparr>bd_title = markdown_title body, bd_front_matter = fm,
               bd_nodes = (if fm = [] then [] else [front_matter_node (ids (length nodes)) fm]) @ nodes\<rparr>)"

text \<open>What the ingestion reads of a document: the nodes without their code blocks and tables.\<close>

definition document_of_blocks :: "source_artifact \<Rightarrow> block_document \<Rightarrow> parsed_document" where
  "document_of_blocks a d =
     \<lparr>pd_source = a, pd_title = bd_title d, pd_type = General_Doc, pd_front_matter = bd_front_matter d,
      pd_nodes = map parsed_node.truncate (bd_nodes d), pd_unresolved = [], pd_adr = None\<rparr>"

definition markdown_can :: "source_artifact \<Rightarrow> bool" where
  "markdown_can a \<longleftrightarrow>
     mime_in [''text/markdown'', ''text/x-markdown''] a \<or>
     list_ex (ends_with (artifact_name a)) [''.md'', ''.markdown'', ''.mdown'', ''.mkd'']"

definition markdown_parse :: "text_decoding \<Rightarrow> (nat \<Rightarrow> uuid) \<Rightarrow> (string \<Rightarrow> md_token list) \<Rightarrow> source_artifact
    \<Rightarrow> exn + parsed_document" where
  "markdown_parse dx ids md a =
     (case decode_artifact dx a of
        Inl e \<Rightarrow> Inl e
      | Inr s \<Rightarrow>
          (case markdown_blocks ids md s of
             Inl e \<Rightarrow> Inl e | Inr d \<Rightarrow> Inr (document_of_blocks a d)))"

definition markdown_parser :: "text_decoding \<Rightarrow> (nat \<Rightarrow> uuid) \<Rightarrow> (string \<Rightarrow> md_token list) \<Rightarrow> parser" where
  "markdown_parser dx ids md =
     \<lparr>ps_name = ''markdown'', ps_can = markdown_can, ps_parse = markdown_parse dx ids md\<rparr>"

subsection \<open>The XWiki syntax\<close>

text \<open>
  \<open>^(={1,6})\s*(.*?)\s*\1$\<close>: the longest mark of at most six signs with which the line starts
  and, beyond it, ends.
\<close>

definition xwiki_heading :: "string \<Rightarrow> (nat \<times> string) option" where
  "xwiki_heading line =
     (let k = min 6 (length (takeWhile (\<lambda>c. c = CHR ''='') line));
          fits = (\<lambda>n. 2 * n \<le> length line \<and> ends_with line (replicate n CHR ''=''))
      in map_option (\<lambda>n. (n, strip (take (length line - 2 * n) (drop n line))))
           (List.find fits (rev [1..<Suc k])))"

text \<open>\<open>^\s*\*\s+(.*)$\<close>, and the same with a number sign.\<close>

definition xwiki_item :: "char \<Rightarrow> string \<Rightarrow> string option" where
  "xwiki_item mark line =
     (case skip_spaces line of
        c # d # rest \<Rightarrow> if c = mark \<and> is_space d then Some (skip_spaces rest) else None
      | _ \<Rightarrow> None)"

text \<open>\<open>^\s*;\s*(.*?)\s*:\s*(.*)$\<close>.\<close>

definition xwiki_definition :: "string \<Rightarrow> (string \<times> string) option" where
  "xwiki_definition line =
     (case skip_spaces line of
        [] \<Rightarrow> None
      | c # rest \<Rightarrow>
          (let s = skip_spaces rest; prefix = takeWhile (\<lambda>x. x \<noteq> CHR '':'') s in
           if c = CHR '';'' \<and> CHR '':'' \<in> set s
           then Some (strip_right prefix, skip_spaces (drop (Suc (length prefix)) s)) else None))"

text \<open>\<open>^\s*\|.*\|\s*$\<close>.\<close>

definition xwiki_table_line :: "string \<Rightarrow> bool" where
  "xwiki_table_line line =
     (let s = strip line in 2 \<le> length s \<and> hd s = CHR ''|'' \<and> last s = CHR ''|'')"

text \<open>
  \<open>^\{\{code(?:\s+language="?([^"\s}]+)"?)?.*\}\}\s*$\<close>: whether a line opens a block of code, and
  the language it names.
\<close>

definition code_language :: "string \<Rightarrow> string option" where
  "code_language rest =
     (case Option.bind (if rest \<noteq> [] \<and> is_space (hd rest) then Some (skip_spaces rest) else None)
             (after_literal ''language='') of
        None \<Rightarrow> None
      | Some s \<Rightarrow>
          (let u = (case s of c # cs \<Rightarrow> if code c = 34 then cs else s | [] \<Rightarrow> []);
               name = takeWhile (\<lambda>c. code c \<noteq> 34 \<and> \<not> is_space c \<and> c \<noteq> CHR ''}'') u
           in if name = [] then None else Some name))"

definition xwiki_code_start :: "string \<Rightarrow> string option option" where
  "xwiki_code_start line =
     (case after_literal ''{{code'' line of
        None \<Rightarrow> None
      | Some rest \<Rightarrow> if ends_with (strip_right rest) ''}}'' then Some (code_language rest) else None)"

definition xwiki_code_end :: "string \<Rightarrow> bool" where
  "xwiki_code_end line \<longleftrightarrow> strip_right line = ''{{/code}}''"

text \<open>\<open>\{\{([^}\n]*)\}\}\<close> at the start of the line.\<close>

definition xwiki_macro :: "string \<Rightarrow> bool" where
  "xwiki_macro line =
     (case after_literal ''{{'' line of
        None \<Rightarrow> False
      | Some s \<Rightarrow> starts_with (dropWhile (\<lambda>c. c \<noteq> CHR ''}'' \<and> code c \<noteq> 10) s) ''}}'')"

text \<open>
  \<open>\[\[([^\]|>]+?)(?:(?:\|)|(?:>>))([^\]]+?)?\]\]\<close>: the first group is recorded as the target and
  the second, when there is one, is what stays in the text.
\<close>

definition xwiki_link :: "string \<Rightarrow> (string \<times> string list \<times> string) option" where
  "xwiki_link s =
     Option.bind (after_literal ''[['' s) (\<lambda>r.
       let first = takeWhile (\<lambda>c. c \<notin> {CHR '']'', CHR ''|'', CHR ''>''}) r;
           sep = drop (length first) r
       in if first = [] then None
          else Option.bind (case after_literal ''|'' sep of Some x \<Rightarrow> Some x | None \<Rightarrow> after_literal ''>>'' sep)
            (\<lambda>u. let second = takeWhile (\<lambda>c. c \<noteq> CHR '']'') u in
                 map_option (\<lambda>rest. (strip (if second = [] then strip first else second), [strip first], rest))
                   (after_literal '']]'' (drop (length second) u))))"

definition inline_marks :: "string list" where
  "inline_marks = [''**'', ''//'', ''__'', ''##'', ''~~'']"

definition strip_inline :: "string \<Rightarrow> string \<times> string list" where
  "strip_inline s =
     (let (plain, links) = substitute xwiki_link s in
      (strip (fold (\<lambda>m t. fst (substitute (between_marks m) t)) inline_marks plain), links))"

definition strip_bars :: "string \<Rightarrow> string" where
  "strip_bars s = rev (dropWhile (\<lambda>c. c = CHR ''|'') (rev (dropWhile (\<lambda>c. c = CHR ''|'') s)))"

definition split_table_row :: "string \<Rightarrow> string list" where
  "split_table_row line =
     filter (\<lambda>c. c \<noteq> []) (map strip (split_on CHR ''|'' (strip_bars (strip line))))"

definition xwiki_title :: "string \<Rightarrow> string option" where
  "xwiki_title body =
     (case List.map_filter xwiki_heading (split_lines [] body) of
        [] \<Rightarrow> None | (n, title) # rest \<Rightarrow> Some title)"

record xwiki_state =
  xs_builder :: node_builder
  xs_list :: "string list"
  xs_table :: "string list list"
  xs_code :: "(string option \<times> string list) option"

text \<open>A table of one row is dropped.\<close>

definition xwiki_flush_list :: "(nat \<Rightarrow> uuid) \<Rightarrow> xwiki_state \<Rightarrow> xwiki_state" where
  "xwiki_flush_list ids s = s\<lparr>xs_builder := flush_list ids (xs_list s) (xs_builder s), xs_list := []\<rparr>"

definition xwiki_flush_table :: "(nat \<Rightarrow> uuid) \<Rightarrow> xwiki_state \<Rightarrow> xwiki_state" where
  "xwiki_flush_table ids s =
     (case xs_table s of
        h # r # rows \<Rightarrow>
          s\<lparr>xs_builder := builder_table ids \<lparr>bt_headers = h, bt_rows = r # rows\<rparr> (xs_builder s), xs_table := []\<rparr>
      | _ \<Rightarrow> s\<lparr>xs_table := []\<rparr>)"

definition xwiki_flush :: "(nat \<Rightarrow> uuid) \<Rightarrow> xwiki_state \<Rightarrow> xwiki_state" where
  "xwiki_flush ids s = xwiki_flush_table ids (xwiki_flush_list ids s)"

text \<open>The text of a list item, whichever of the three forms the line has.\<close>

definition xwiki_list_line :: "string \<Rightarrow> string option" where
  "xwiki_list_line line =
     (case xwiki_item CHR ''*'' line of
        Some item \<Rightarrow> Some (''* '' @ fst (strip_inline item))
      | None \<Rightarrow>
          (case xwiki_item CHR ''#'' line of
             Some item \<Rightarrow> Some (''# '' @ fst (strip_inline item))
           | None \<Rightarrow>
               map_option (\<lambda>(term, descr). ''; '' @ fst (strip_inline term) @ '': '' @ fst (strip_inline descr))
                 (xwiki_definition line)))"

definition xwiki_code_line :: "(nat \<Rightarrow> uuid) \<Rightarrow> string option \<Rightarrow> string list \<Rightarrow> string \<Rightarrow> xwiki_state \<Rightarrow> xwiki_state" where
  "xwiki_code_line ids lang ls line s =
     (if xwiki_code_end line
      then s\<lparr>xs_builder := builder_code_block ids lang (join newline ls) (xs_builder s), xs_code := None\<rparr>
      else s\<lparr>xs_code := Some (lang, ls @ [line])\<rparr>)"

definition xwiki_text_line :: "(nat \<Rightarrow> uuid) \<Rightarrow> string \<Rightarrow> xwiki_state \<Rightarrow> xwiki_state" where
  "xwiki_text_line ids line s =
     (let s' = xwiki_flush ids s; (content, links) = strip_inline line in
      if strip line = [] \<or> content = [] then s'
      else s'\<lparr>xs_builder := builder_paragraph content links (xs_builder s')\<rparr>)"

definition xwiki_line :: "(nat \<Rightarrow> uuid) \<Rightarrow> string \<Rightarrow> xwiki_state \<Rightarrow> xwiki_state" where
  "xwiki_line ids line s =
     (case xs_code s of
        Some (lang, ls) \<Rightarrow> xwiki_code_line ids lang ls line s
      | None \<Rightarrow>
          (case xwiki_code_start line of
             Some lang \<Rightarrow> (xwiki_flush ids s)\<lparr>xs_code := Some (lang, [])\<rparr>
           | None \<Rightarrow>
               if xwiki_macro line then xwiki_flush ids s
               else (case xwiki_heading line of
                       Some (level, title) \<Rightarrow>
                         (let s' = xwiki_flush ids s; (plain, links) = strip_inline title in
                          s'\<lparr>xs_builder := builder_heading ids level plain links (xs_builder s')\<rparr>)
                     | None \<Rightarrow>
                         if xwiki_table_line line
                         then (let s' = xwiki_flush_list ids s in
                               s'\<lparr>xs_table := xs_table s' @ [split_table_row line]\<rparr>)
                         else (case xwiki_list_line line of
                                 Some item \<Rightarrow>
                                   (let s' = xwiki_flush_table ids s in s'\<lparr>xs_list := xs_list s' @ [item]\<rparr>)
                               | None \<Rightarrow> xwiki_text_line ids line s))))"

definition new_xwiki_state :: xwiki_state where
  "new_xwiki_state = \<lparr>xs_builder = new_node_builder, xs_list = [], xs_table = [], xs_code = None\<rparr>"

definition xwiki_close :: "(nat \<Rightarrow> uuid) \<Rightarrow> xwiki_state \<Rightarrow> xwiki_state" where
  "xwiki_close ids s =
     xwiki_flush ids
       (case xs_code s of
          None \<Rightarrow> s
        | Some (lang, ls) \<Rightarrow> s\<lparr>xs_builder := builder_code_block ids lang (join newline ls) (xs_builder s)\<rparr>)"

definition xwiki_nodes :: "(nat \<Rightarrow> uuid) \<Rightarrow> string \<Rightarrow> block_node list" where
  "xwiki_nodes ids body =
     builder_finish ids (xs_builder (xwiki_close ids (fold (xwiki_line ids) (split_lines [] body) new_xwiki_state)))"

definition xwiki_page_title :: "source_artifact \<Rightarrow> string option" where
  "xwiki_page_title a =
     (let name = after_final CHR ''/'' (rstrip_char CHR ''/'' (sa_source_uri a)) in
      if name \<noteq> [] \<and> name \<noteq> ''WebHome'' then Some name else None)"

definition xwiki_blocks :: "(nat \<Rightarrow> uuid) \<Rightarrow> source_artifact \<Rightarrow> string \<Rightarrow> block_document" where
  "xwiki_blocks ids a body =
     \<lparr>bd_title = (case xwiki_title body of None \<Rightarrow> xwiki_page_title a | Some s \<Rightarrow> Some s),
      bd_front_matter = [(''syntax'',
        JStr (py_str (py_or (jget (sa_metadata a) ''syntax'') (JStr ''xwiki/2.1''))))],
      bd_nodes = xwiki_nodes ids body\<rparr>"

definition xwiki_can :: "source_artifact \<Rightarrow> bool" where
  "xwiki_can a \<longleftrightarrow>
     mime_in [''text/x-xwiki'', ''application/x-xwiki''] a \<or>
     (let v = py_or (jget (sa_metadata a) ''syntax'') (jget (sa_metadata a) ''xwiki_syntax'') in
      truthy v \<and> starts_with (py_str v) ''xwiki/'') \<or>
     ends_with (artifact_name a) ''.xwiki''"

definition xwiki_parse :: "text_decoding \<Rightarrow> (nat \<Rightarrow> uuid) \<Rightarrow> source_artifact \<Rightarrow> exn + parsed_document" where
  "xwiki_parse dx ids a =
     (case decode_artifact dx a of
        Inl e \<Rightarrow> Inl e | Inr body \<Rightarrow> Inr (document_of_blocks a (xwiki_blocks ids a body)))"

definition xwiki_parser :: "text_decoding \<Rightarrow> (nat \<Rightarrow> uuid) \<Rightarrow> parser" where
  "xwiki_parser dx ids = \<lparr>ps_name = ''xwiki'', ps_can = xwiki_can, ps_parse = xwiki_parse dx ids\<rparr>"

subsection \<open>HTML\<close>

text \<open>
  An element: its name, the text and the lines \<open>get_text\<close> returns (joined by a space and by a
  line feed), the text of its direct \<open>li\<close> children, the cells of its rows, the \<open>href\<close> values of
  its anchors, and its child elements. Text nodes are not walked.
\<close>

datatype html_element = Html_Element (el_name: string) (el_text: string) (el_lines: string)
  (el_items: "string list") (el_rows: "string list list") (el_hrefs: "string list")
  (el_children: "html_element list")

definition heading_tags :: "string list" where
  "heading_tags = [''h1'', ''h2'', ''h3'', ''h4'', ''h5'', ''h6'']"

definition html_table :: "html_element \<Rightarrow> block_table" where
  "html_table e =
     (case filter (\<lambda>r. r \<noteq> []) (el_rows e) of
        [] \<Rightarrow> \<lparr>bt_headers = [], bt_rows = []\<rparr> | h # rows \<Rightarrow> \<lparr>bt_headers = h, bt_rows = rows\<rparr>)"

definition html_links :: "html_element \<Rightarrow> string list" where
  "html_links e = fold (\<lambda>h ls. if h \<in> set ls then ls else ls @ [h]) (el_hrefs e) []"

definition html_node :: "uuid \<Rightarrow> document_node_type \<Rightarrow> string list \<Rightarrow> int \<Rightarrow> block_node" where
  "html_node i ty path order =
     \<lparr>pn_id = i, pn_type = ty, pn_title = None, pn_heading_path = path, pn_content = [],
      pn_parent_id = None, pn_child_ids = [], pn_links = [], pn_references = [], pn_order = order,
      bn_code_blocks = [], bn_tables = []\<rparr>"

text \<open>
  The walk over the children of an element: the path of headings and the list of nodes are
  shared with the walks inside, the order of a node is the walk's own.
\<close>

type_synonym html_state = "string list \<times> block_node list"

definition html_leaf :: "(nat \<Rightarrow> uuid) \<Rightarrow> html_element \<Rightarrow> int \<Rightarrow> html_state \<Rightarrow> block_node option \<times> string list" where
  "html_leaf ids e order st =
     (let (path, nodes) = st; tag = el_name e; mk = (\<lambda>ty p. html_node (ids (length nodes)) ty p order) in
      if tag \<in> set heading_tags
      then (let p = take (code (tag ! 1) - 49) path @ [el_text e] in
            (Some ((mk Section_Node p)\<lparr>pn_title := Some (el_text e)\<rparr>), p))
      else if tag = ''table''
      then (Some ((mk Table_Node path)\<lparr>bn_tables := [html_table e], pn_content := render_table (html_table e)\<rparr>), path)
      else if tag = ''pre''
      then (Some ((mk Code_Block_Node path)\<lparr>bn_code_blocks := [(None, el_lines e)], pn_content := el_lines e\<rparr>), path)
      else if tag = ''ul'' \<or> tag = ''ol''
      then (Some ((mk List_Node path)\<lparr>pn_content :=
              join newline (map (append ''- '') (filter (\<lambda>i. i \<noteq> []) (el_items e)))\<rparr>), path)
      else if tag \<in> {''p'', ''div'', ''section'', ''article'', ''main'', ''blockquote''} \<and> el_lines e \<noteq> []
      then (Some ((mk Paragraph_Node path)\<lparr>pn_content := el_lines e, pn_links := html_links e\<rparr>), path)
      else (None, path))"

fun html_walk :: "(nat \<Rightarrow> uuid) \<Rightarrow> int \<Rightarrow> html_element list \<Rightarrow> html_state \<Rightarrow> html_state" where
  "html_walk ids order [] st = st"
| "html_walk ids order (Html_Element name s ls items rows hrefs children # es) st =
     (case html_leaf ids (Html_Element name s ls items rows hrefs children) order st of
        (Some n, path) \<Rightarrow> html_walk ids (order + 1) es (path, snd st @ [n])
      | (None, path) \<Rightarrow>
          html_walk ids order es
            (if name \<in> {''div'', ''section'', ''article'', ''main''} then html_walk ids order children st else st))"

definition html_can :: "source_artifact \<Rightarrow> bool" where
  "html_can a \<longleftrightarrow>
     mime_in [''text/html'', ''application/xhtml+xml''] a \<or>
     list_ex (ends_with (artifact_name a)) [''.html'', ''.htm'', ''.xhtml'']"

text \<open>
  The page: its title and first \<open>h1\<close>, if there are any, and the element whose children are
  walked, once the noise is removed.
\<close>

record html_page =
  hp_title :: "string option"
  hp_first_heading :: "string option"
  hp_body :: html_element

definition html_blocks :: "(nat \<Rightarrow> uuid) \<Rightarrow> html_page \<Rightarrow> block_document" where
  "html_blocks ids page =
     \<lparr>bd_title = (case hp_title page of None \<Rightarrow> hp_first_heading page | Some s \<Rightarrow> Some s),
      bd_front_matter = [], bd_nodes = snd (html_walk ids 0 (el_children (hp_body page)) ([], []))\<rparr>"

definition html_parse :: "text_decoding \<Rightarrow> (nat \<Rightarrow> uuid) \<Rightarrow> (string \<Rightarrow> html_page) \<Rightarrow> source_artifact
    \<Rightarrow> exn + parsed_document" where
  "html_parse dx ids soup a =
     (case decode_html dx a of
        Inl e \<Rightarrow> Inl e | Inr s \<Rightarrow> Inr (document_of_blocks a (html_blocks ids (soup s))))"

definition html_parser :: "text_decoding \<Rightarrow> (nat \<Rightarrow> uuid) \<Rightarrow> (string \<Rightarrow> html_page) \<Rightarrow> parser" where
  "html_parser dx ids soup = \<lparr>ps_name = ''html'', ps_can = html_can, ps_parse = html_parse dx ids soup\<rparr>"

subsection \<open>The tree a builder makes\<close>

text \<open>
  The nodes are numbered by their position, a parent is an earlier section, the path of headings
  of a node goes through its parents, and a node lists exactly its children, in order.
\<close>

definition own_heading :: "block_node \<Rightarrow> string list" where
  "own_heading n = (if pn_type n = Section_Node then [the (pn_title n)] else [])"

definition parent_linked :: "(nat \<Rightarrow> uuid) \<Rightarrow> block_node list \<Rightarrow> nat \<Rightarrow> bool" where
  "parent_linked ids ns k \<longleftrightarrow>
     (case pn_parent_id (ns ! k) of
        None \<Rightarrow> pn_heading_path (ns ! k) = own_heading (ns ! k)
      | Some p \<Rightarrow> \<exists>j < k. p = ids j \<and> pn_type (ns ! j) = Section_Node \<and>
          pn_heading_path (ns ! k) = pn_heading_path (ns ! j) @ own_heading (ns ! k))"

definition tree_ok :: "(nat \<Rightarrow> uuid) \<Rightarrow> block_node list \<Rightarrow> bool" where
  "tree_ok ids ns \<longleftrightarrow>
     (\<forall>k < length ns. pn_id (ns ! k) = ids k \<and> pn_order (ns ! k) = int k \<and> parent_linked ids ns k \<and>
        pn_child_ids (ns ! k) = map pn_id (filter (\<lambda>n. pn_parent_id n = Some (ids k)) ns))"

definition node_builder_ok :: "(nat \<Rightarrow> uuid) \<Rightarrow> node_builder \<Rightarrow> bool" where
  "node_builder_ok ids b \<longleftrightarrow>
     tree_ok ids (nb_nodes b) \<and> nb_order b = length (nb_nodes b) \<and>
     (\<forall>i \<in> set (nb_stack b). i < length (nb_nodes b) \<and> pn_type (nb_nodes b ! i) = Section_Node)"

lemma new_node_builder_ok [simp]: "node_builder_ok ids new_node_builder"
  by (simp add: node_builder_ok_def new_node_builder_def tree_ok_def)

text \<open>A node that is ready to be attached: its path goes on from the parent of the builder.\<close>

definition attachable :: "(nat \<Rightarrow> uuid) \<Rightarrow> node_builder \<Rightarrow> block_node \<Rightarrow> bool" where
  "attachable ids b n \<longleftrightarrow>
     pn_id n = ids (nb_order b) \<and> pn_parent_id n = None \<and> pn_child_ids n = [] \<and>
     pn_heading_path n = parent_path b @ own_heading n"

lemma blank_attachable:
  "ty \<noteq> Section_Node \<Longrightarrow> attachable ids b (blank_node ids ty b)"
  by (simp add: attachable_def blank_node_def own_heading_def)

lemma tree_okD:
  assumes "tree_ok ids ns" and "k < length ns"
  shows "pn_id (ns ! k) = ids k" "pn_order (ns ! k) = int k" "parent_linked ids ns k"
    "pn_child_ids (ns ! k) = map pn_id (filter (\<lambda>n. pn_parent_id n = Some (ids k)) ns)"
  using assms by (simp_all add: tree_ok_def)

lemma no_children_yet:
  assumes ok: "tree_ok ids ns" and inj: "inj ids"
  shows "filter (\<lambda>m. pn_parent_id m = Some (ids (length ns))) ns = []"
proof -
  have "pn_parent_id (ns ! k) \<noteq> Some (ids (length ns))" if k: "k < length ns" for k
  proof
    assume p: "pn_parent_id (ns ! k) = Some (ids (length ns))"
    have "parent_linked ids ns k" using tree_okD [OF ok k] by simp
    with p obtain j where "j < k" "ids (length ns) = ids j" by (auto simp: parent_linked_def)
    with k inj show False by (auto dest: injD)
  qed
  then show ?thesis by (auto simp: filter_empty_conv in_set_conv_nth)
qed

lemma parent_linked_cong:
  assumes same: "\<And>j. j \<le> k \<Longrightarrow> pn_parent_id (ms ! j) = pn_parent_id (ns ! j) \<and>
      pn_type (ms ! j) = pn_type (ns ! j) \<and> pn_title (ms ! j) = pn_title (ns ! j) \<and>
      pn_heading_path (ms ! j) = pn_heading_path (ns ! j)"
  shows "parent_linked ids ms k \<longleftrightarrow> parent_linked ids ns k"
  unfolding parent_linked_def own_heading_def
  using same by (simp add: less_imp_le cong: conj_cong option.case_cong)

lemma tree_ok_root:
  assumes ok: "tree_ok ids ns" and inj: "inj ids"
    and n: "pn_id n = ids (length ns)" "pn_order n = int (length ns)" "pn_parent_id n = None"
      "pn_child_ids n = []" "pn_heading_path n = own_heading n"
  shows "tree_ok ids (ns @ [n])"
proof -
  note none = no_children_yet [OF ok inj]
  have old: "parent_linked ids (ns @ [n]) k \<longleftrightarrow> parent_linked ids ns k" if k: "k < length ns" for k
  proof -
    have "(ns @ [n]) ! j = ns ! j" if "j \<le> k" for j using that k by (simp add: nth_append)
    then show ?thesis by (intro parent_linked_cong) simp
  qed
  show ?thesis
    unfolding tree_ok_def
  proof (intro allI impI)
    fix k assume "k < length (ns @ [n])"
    then consider "k < length ns" | "k = length ns" by fastforce
    then show "pn_id ((ns @ [n]) ! k) = ids k \<and> pn_order ((ns @ [n]) ! k) = int k \<and>
      parent_linked ids (ns @ [n]) k \<and>
      pn_child_ids ((ns @ [n]) ! k) = map pn_id (filter (\<lambda>m. pn_parent_id m = Some (ids k)) (ns @ [n]))"
    proof cases
      case 1
      with ok old n(3) show ?thesis by (simp add: tree_ok_def nth_append)
    next
      case 2
      with n none show ?thesis by (simp add: parent_linked_def)
    qed
  qed
qed

text \<open>Entering a child at its parent, and the child behind the others.\<close>

lemma tree_ok_child:
  assumes ok: "tree_ok ids ns" and inj: "inj ids" and i: "i < length ns" "pn_type (ns ! i) = Section_Node"
    and n: "pn_id n = ids (length ns)" "pn_order n = int (length ns)" "pn_parent_id n = Some (ids i)"
      "pn_child_ids n = []" "pn_heading_path n = pn_heading_path (ns ! i) @ own_heading n"
    and p: "p = (ns ! i)\<lparr>pn_child_ids := pn_child_ids (ns ! i) @ [ids (length ns)]\<rparr>"
  shows "tree_ok ids (ns[i := p] @ [n])"
proof -
  let ?ms = "ns[i := p]"
  have fields: "pn_id (?ms ! k) = pn_id (ns ! k)" "pn_order (?ms ! k) = pn_order (ns ! k)"
    "pn_parent_id (?ms ! k) = pn_parent_id (ns ! k)" "pn_type (?ms ! k) = pn_type (ns ! k)"
    "pn_heading_path (?ms ! k) = pn_heading_path (ns ! k)" "pn_title (?ms ! k) = pn_title (ns ! k)" for k
    using i(1) by (simp_all add: p nth_list_update)
  have children: "map pn_id (filter (\<lambda>m. pn_parent_id m = Some q) ?ms) =
      map pn_id (filter (\<lambda>m. pn_parent_id m = Some q) ns)" for q
  proof -
    have pairs: "map (\<lambda>m. (pn_parent_id m, pn_id m)) ?ms = map (\<lambda>m. (pn_parent_id m, pn_id m)) ns"
      by (rule nth_equalityI) (simp_all add: fields)
    have "map pn_id (filter (\<lambda>m. pn_parent_id m = Some q) xs) =
        map snd (filter (\<lambda>x. fst x = Some q) (map (\<lambda>m. (pn_parent_id m, pn_id m)) xs))" for xs :: "block_node list"
      by (induction xs) auto
    then show ?thesis by (simp only: pairs)
  qed
  note none = no_children_yet [OF ok inj]
  have old: "parent_linked ids (?ms @ [n]) k \<longleftrightarrow> parent_linked ids ns k" if "k < length ns" for k
  proof (rule parent_linked_cong)
    fix j assume "j \<le> k"
    with that have "(?ms @ [n]) ! j = ?ms ! j" by (simp add: nth_append)
    then show "pn_parent_id ((?ms @ [n]) ! j) = pn_parent_id (ns ! j) \<and>
      pn_type ((?ms @ [n]) ! j) = pn_type (ns ! j) \<and> pn_title ((?ms @ [n]) ! j) = pn_title (ns ! j) \<and>
      pn_heading_path ((?ms @ [n]) ! j) = pn_heading_path (ns ! j)"
      by (simp add: fields)
  qed
  show ?thesis
    unfolding tree_ok_def
  proof (intro allI impI)
    fix k assume "k < length (?ms @ [n])"
    then consider "k < length ns" "k \<noteq> i" | "k = i" | "k = length ns" by fastforce
    then show "pn_id ((?ms @ [n]) ! k) = ids k \<and> pn_order ((?ms @ [n]) ! k) = int k \<and>
      parent_linked ids (?ms @ [n]) k \<and>
      pn_child_ids ((?ms @ [n]) ! k) = map pn_id (filter (\<lambda>m. pn_parent_id m = Some (ids k)) (?ms @ [n]))"
    proof cases
      case 1
      have "ids k \<noteq> ids i" using 1(2) inj by (auto dest: injD)
      with 1 ok old [OF 1(1)] n(3) show ?thesis
        by (simp add: tree_ok_def nth_append fields children)
    next
      case 2
      with ok old [OF i(1)] i n(1,3) show ?thesis
        by (simp add: tree_ok_def nth_append fields children) (simp add: p)
    next
      case 3
      with n i have "parent_linked ids (?ms @ [n]) k"
        by (auto simp: parent_linked_def nth_append fields intro!: exI [of _ i])
      with 3 n i none show ?thesis
        using children [of "ids (length ns)"] inj by (auto simp: nth_append dest: injD)
    qed
  qed
qed

text \<open>Attaching a node, and every operation of the builder, keeps the tree.\<close>

lemma attach_node_nodes:
  "length (nb_nodes (attach_node n b)) = Suc (length (nb_nodes b))"
  "nb_stack (attach_node n b) = nb_stack b"
  "nb_content (attach_node n b) = nb_content b" "nb_links (attach_node n b) = nb_links b"
  "nb_order (attach_node n b) = Suc (nb_order b)"
  by (auto simp: attach_node_def Let_def split: list.split)

lemma attach_node_types:
  "i < length (nb_nodes b) \<Longrightarrow> pn_type (nb_nodes (attach_node n b) ! i) = pn_type (nb_nodes b ! i)"
  "pn_type (nb_nodes (attach_node n b) ! length (nb_nodes b)) = pn_type n"
  by (cases "i = hd (nb_stack b)"; auto simp: attach_node_def Let_def nth_append split: list.split)+

lemma attach_node_ok:
  assumes ok: "node_builder_ok ids b" and inj: "inj ids" and n: "attachable ids b n"
  shows "node_builder_ok ids (attach_node n b)"
proof -
  have order: "nb_order b = length (nb_nodes b)" and tree: "tree_ok ids (nb_nodes b)"
    using ok by (simp_all add: node_builder_ok_def)
  have "tree_ok ids (nb_nodes (attach_node n b))"
  proof (cases "nb_stack b")
    case Nil
    then show ?thesis
      using n order
      by (auto simp: attach_node_def Let_def attachable_def parent_path_def parent_node_def own_heading_def
          intro!: tree_ok_root [OF tree inj])
  next
    case (Cons i js)
    with ok have i: "i < length (nb_nodes b)" "pn_type (nb_nodes b ! i) = Section_Node"
      by (simp_all add: node_builder_ok_def)
    from tree_okD [OF tree i(1)] have id: "pn_id (nb_nodes b ! i) = ids i" by simp
    have "tree_ok ids ((nb_nodes b)[i := (nb_nodes b ! i)\<lparr>pn_child_ids := pn_child_ids (nb_nodes b ! i) @ [ids (length (nb_nodes b))]\<rparr>] @
        [n\<lparr>pn_order := int (nb_order b), pn_parent_id := Some (ids i)\<rparr>])"
      by (rule tree_ok_child [OF tree inj i])
        (use n order Cons in \<open>simp_all add: attachable_def parent_path_def parent_node_def own_heading_def\<close>)
    with Cons n order id show ?thesis by (simp add: attach_node_def Let_def attachable_def)
  qed
  with ok order show ?thesis
    by (auto simp: node_builder_ok_def attach_node_nodes attach_node_types)
qed

lemma node_builder_ok_update [simp]:
  "node_builder_ok ids (b\<lparr>nb_content := c\<rparr>) \<longleftrightarrow> node_builder_ok ids b"
  "node_builder_ok ids (b\<lparr>nb_links := ls\<rparr>) \<longleftrightarrow> node_builder_ok ids b"
  by (simp_all add: node_builder_ok_def)

text \<open>A node with other fields than those of the tree set is as good as the blank one.\<close>

lemma attachable_update [simp]:
  "attachable ids b (n\<lparr>pn_content := c\<rparr>) \<longleftrightarrow> attachable ids b n"
  "attachable ids b (n\<lparr>pn_links := ls\<rparr>) \<longleftrightarrow> attachable ids b n"
  "attachable ids b (n\<lparr>bn_code_blocks := bs\<rparr>) \<longleftrightarrow> attachable ids b n"
  "attachable ids b (n\<lparr>bn_tables := ts\<rparr>) \<longleftrightarrow> attachable ids b n"
  by (simp_all add: attachable_def own_heading_def)

lemma flush_content_ok:
  assumes "node_builder_ok ids b" and "inj ids"
  shows "node_builder_ok ids (flush_content ids b)"
  using assms by (auto simp: flush_content_def Let_def blank_attachable intro!: attach_node_ok)

lemma builder_code_block_ok:
  assumes "node_builder_ok ids b" and "inj ids"
  shows "node_builder_ok ids (builder_code_block ids lang content b)"
  using assms by (auto simp: builder_code_block_def Let_def blank_attachable intro!: attach_node_ok flush_content_ok)

lemma builder_table_ok:
  assumes "node_builder_ok ids b" and "inj ids"
  shows "node_builder_ok ids (builder_table ids t b)"
  using assms by (auto simp: builder_table_def Let_def blank_attachable intro!: attach_node_ok flush_content_ok)

lemma flush_list_ok:
  assumes "node_builder_ok ids b" and "inj ids"
  shows "node_builder_ok ids (flush_list ids xs b)"
  using assms by (auto simp: flush_list_def builder_list_def blank_attachable intro!: attach_node_ok)

lemma builder_paragraph_ok:
  "node_builder_ok ids b \<Longrightarrow> node_builder_ok ids (builder_paragraph s links b)"
  by (simp add: builder_paragraph_def)

lemma builder_heading_ok:
  assumes ok: "node_builder_ok ids b" and inj: "inj ids"
  shows "node_builder_ok ids (builder_heading ids level title links b)"
proof -
  define b1 where "b1 = flush_content ids b"
  define b2 where "b2 = b1\<lparr>nb_stack := drop (length (nb_stack b1) - (level - 1)) (nb_stack b1)\<rparr>"
  define n where "n = (blank_node ids Section_Node b2)
      \<lparr>pn_title := Some title, pn_heading_path := parent_path b2 @ [title], pn_links := links\<rparr>"
  define b3 where "b3 = attach_node n b2"
  have "node_builder_ok ids b1" using flush_content_ok [OF ok inj] by (simp add: b1_def)
  then have ok2: "node_builder_ok ids b2" by (auto simp: b2_def node_builder_ok_def dest: in_set_dropD)
  moreover have "attachable ids b2 n" by (simp add: n_def attachable_def blank_node_def own_heading_def)
  ultimately have ok3: "node_builder_ok ids b3" using attach_node_ok inj by (simp add: b3_def)
  have "pn_type (nb_nodes b3 ! length (nb_nodes b2)) = Section_Node"
    by (simp add: b3_def attach_node_types n_def blank_node_def)
  with ok3 have "node_builder_ok ids (b3\<lparr>nb_stack := replicate (level - length (nb_stack b3)) (length (nb_nodes b2)) @ nb_stack b3\<rparr>)"
    by (auto simp: node_builder_ok_def b3_def attach_node_nodes)
  then show ?thesis by (simp add: builder_heading_def Let_def b1_def b2_def b3_def n_def)
qed

lemmas builder_ok = flush_content_ok builder_code_block_ok builder_table_ok flush_list_ok
  builder_paragraph_ok builder_heading_ok

lemma md_step_ok:
  assumes "md_step ids t us (b, xs) = Inr (rest, (b', xs'))" and "node_builder_ok ids b" and "inj ids"
  shows "node_builder_ok ids b'"
  using assms by (auto simp: md_step_def Let_def split: if_splits sum.splits prod.splits list.splits intro!: builder_ok)

lemma md_walk_ok:
  assumes "md_walk ids ts st = Inr st'" and "node_builder_ok ids (fst st)" and "inj ids"
  shows "node_builder_ok ids (fst st')"
  using assms
proof (induction "length ts" arbitrary: ts st rule: less_induct)
  case less
  show ?case
  proof (cases ts)
    case (Cons t us)
    with less.prems(1) obtain rest b xs where step: "md_step ids t us st = Inr (rest, (b, xs))"
      and walk: "md_walk ids rest (b, xs) = Inr st'"
      by (auto split: sum.splits)
    have "length rest \<le> length us" using step by (rule md_step_shorter)
    moreover have "node_builder_ok ids b" using md_step_ok [of ids t us "fst st" "snd st"] step less.prems(2,3) by simp
    ultimately show ?thesis using less.hyps [OF _ walk] less.prems(3) Cons by simp
  qed (use less.prems in simp)
qed

lemma builder_finish_ok:
  "node_builder_ok ids b \<Longrightarrow> inj ids \<Longrightarrow> tree_ok ids (builder_finish ids b)"
  using flush_content_ok [of ids b] by (simp add: builder_finish_def node_builder_ok_def)

lemma xwiki_flush_ok:
  assumes "node_builder_ok ids (xs_builder s)" and "inj ids"
  shows "node_builder_ok ids (xs_builder (xwiki_flush_list ids s))"
    "node_builder_ok ids (xs_builder (xwiki_flush_table ids s))"
    "node_builder_ok ids (xs_builder (xwiki_flush ids s))"
  using assms
  by (auto simp: xwiki_flush_def xwiki_flush_list_def xwiki_flush_table_def intro!: builder_ok split: list.split)

lemma xwiki_line_ok:
  assumes "node_builder_ok ids (xs_builder s)" and "inj ids"
  shows "node_builder_ok ids (xs_builder (xwiki_line ids line s))"
  using assms
  by (auto simp: xwiki_line_def xwiki_code_line_def xwiki_text_line_def Let_def
      intro!: builder_ok xwiki_flush_ok split: option.split prod.split)

lemma xwiki_lines_ok:
  assumes "node_builder_ok ids (xs_builder s)" and "inj ids"
  shows "node_builder_ok ids (xs_builder (fold (xwiki_line ids) ls s))"
  using assms by (induction ls arbitrary: s) (auto intro: xwiki_line_ok)

lemma xwiki_close_ok:
  assumes "node_builder_ok ids (xs_builder s)" and "inj ids"
  shows "node_builder_ok ids (xs_builder (xwiki_close ids s))"
  using assms by (auto simp: xwiki_close_def intro!: xwiki_flush_ok builder_ok split: option.split)

subsection \<open>Properties\<close>


definition demo_node_ids :: "nat \<Rightarrow> uuid" where
  "demo_node_ids n = replicate n CHR ''x''"

lemma inj_demo_node_ids [simp]: "inj demo_node_ids"
  by (rule injI) (metis demo_node_ids_def length_replicate)

definition md_leaf :: "string \<Rightarrow> string \<Rightarrow> string \<Rightarrow> md_token" where
  "md_leaf ty tag s = \<lparr>mt_type = ty, mt_tag = tag, mt_info = [], mt_content = [],
     mt_children = [\<lparr>it_type = ''text'', it_content = s, it_href = None\<rparr>]\<rparr>"

definition md_heading :: "string \<Rightarrow> string \<Rightarrow> md_token list" where
  "md_heading tag s = [md_leaf ''heading_open'' tag [], md_leaf ''inline'' [] s, md_leaf ''heading_close'' tag []]"

definition md_paragraph :: "string \<Rightarrow> md_token list" where
  "md_paragraph s = [md_leaf ''paragraph_open'' ''p'' [], md_leaf ''inline'' [] s, md_leaf ''paragraph_close'' ''p'' []]"

definition md_bullets :: "string list \<Rightarrow> md_token list" where
  "md_bullets items = md_leaf ''bullet_list_open'' ''ul'' [] #
     concat (map (\<lambda>s. md_leaf ''list_item_open'' ''li'' [] # md_paragraph s @ [md_leaf ''list_item_close'' ''li'' []]) items) @
     [md_leaf ''bullet_list_close'' ''ul'' []]"


text \<open>Paragraphs only wait in the builder.\<close>

lemma md_walk_paragraph:
  "md_walk ids (md_paragraph s @ ts) (b, xs) = md_walk ids ts (builder_paragraph s [] b, xs)"
  by (simp add: md_paragraph_def md_leaf_def md_step_def Let_def inline_text_def inline_links_def)

lemma md_walk_paragraphs:
  "md_walk ids (concat (map md_paragraph ss) @ ts) (b, xs) =
    md_walk ids ts (fold (\<lambda>s. builder_paragraph s []) ss b, xs)"
  by (induction ss arbitrary: b) (simp_all add: md_walk_paragraph)

text \<open>
  C37: A fenced block of code without a language stops the Markdown parser: the first word of its
  empty information string is taken, which raises \<open>IndexError\<close>, so that no such document is ever
  parsed, whatever paragraphs come before the fence and whatever follows it.
\<close>

theorem plain_fence_stops_markdown:
  assumes fence: "mt_type t = ''fence''" "strip (mt_info t) = []"
    and body: "decode_artifact dx a = Inr s" "md (snd (extract_front_matter s)) = concat (map md_paragraph ss) @ t # ts"
  shows "markdown_parse dx ids md a = Inl index_error"
proof -
  obtain fm main where split: "extract_front_matter s = (fm, main)" by (cases "extract_front_matter s")
  have "markdown_nodes ids (md main) = Inl index_error"
    using fence body(2)
    by (simp add: split markdown_nodes_def md_walk_paragraphs md_step_def Let_def fence_language_def)
  with body(1) show ?thesis by (simp add: markdown_parse_def markdown_blocks_def split)
qed

definition plain_fence :: md_token where
  "plain_fence = (md_leaf ''fence'' ''code'' [])\<lparr>mt_content := ''make test''\<rparr>"

definition plain_decoding :: text_decoding where
  "plain_decoding = \<lparr>dx_utf8 = (\<lambda>s. s), dx_base64 = Inr\<rparr>"

theorem plain_fence_stops_markdown_witness:
  "markdown_parse plain_decoding demo_node_ids (\<lambda>s. md_paragraph ''Run:'' @ [plain_fence])
     ((new_artifact ''README.md'' ''git'')\<lparr>sa_content := Some ''Run:''\<rparr>) = Inl index_error"
  by (rule plain_fence_stops_markdown [where s = "''Run:''" and ss = "[''Run:'']" and t = plain_fence and ts = "[]"])
    (simp_all add: plain_fence_def md_leaf_def strip_def decode_artifact_def new_artifact_def plain_decoding_def)

text \<open>The node a heading makes, its path, and the sections open after it.\<close>

lemma attach_node_paths:
  "i < length (nb_nodes b) \<Longrightarrow> pn_heading_path (nb_nodes (attach_node n b) ! i) = pn_heading_path (nb_nodes b ! i)"
  "pn_heading_path (nb_nodes (attach_node n b) ! length (nb_nodes b)) = pn_heading_path n"
  by (cases "i = hd (nb_stack b)"; auto simp: attach_node_def Let_def nth_append split: list.split)+

lemma flush_content_idle:
  "nb_content b = [] \<Longrightarrow> nb_nodes (flush_content ids b) = nb_nodes b"
  by (simp add: flush_content_def strip_def)

lemma flush_content_fields [simp]:
  "nb_stack (flush_content ids b) = nb_stack b" "nb_content (flush_content ids b) = []"
  by (simp_all add: flush_content_def Let_def attach_node_nodes)

lemma flush_content_grows:
  "i < length (nb_nodes b) \<Longrightarrow> i < length (nb_nodes (flush_content ids b))"
  by (simp add: flush_content_def Let_def attach_node_nodes)

definition open_at :: "nat \<Rightarrow> node_builder \<Rightarrow> nat list" where
  "open_at level b = drop (length (nb_stack b) - (level - 1)) (nb_stack b)"

definition path_of :: "block_node list \<Rightarrow> nat list \<Rightarrow> string list" where
  "path_of ns is = (case is of [] \<Rightarrow> [] | i # js \<Rightarrow> pn_heading_path (ns ! i))"

lemma builder_heading_facts:
  fixes ids :: "nat \<Rightarrow> uuid" and level title links b
  defines "ms \<equiv> nb_nodes (flush_content ids b)"
  shows "length (nb_nodes (builder_heading ids level title links b)) = Suc (length ms)"
    "nb_content (builder_heading ids level title links b) = []"
    "nb_stack (builder_heading ids level title links b) =
      replicate (level - length (open_at level b)) (length ms) @ open_at level b"
    "pn_heading_path (nb_nodes (builder_heading ids level title links b) ! length ms) =
      path_of ms (open_at level b) @ [title]"
    "i < length ms \<Longrightarrow> pn_heading_path (nb_nodes (builder_heading ids level title links b) ! i) = pn_heading_path (ms ! i)"
proof -
  define b1 where "b1 = flush_content ids b"
  define b2 where "b2 = b1\<lparr>nb_stack := open_at level b\<rparr>"
  define n where "n = (blank_node ids Section_Node b2)
      \<lparr>pn_title := Some title, pn_heading_path := parent_path b2 @ [title], pn_links := links\<rparr>"
  define b3 where "b3 = attach_node n b2"
  have eq: "builder_heading ids level title links b =
      b3\<lparr>nb_stack := replicate (level - length (nb_stack b3)) (length (nb_nodes b2)) @ nb_stack b3\<rparr>"
    by (simp add: builder_heading_def Let_def b1_def b2_def b3_def n_def open_at_def)
  have ms: "nb_nodes b2 = ms" "nb_stack b2 = open_at level b" "nb_content b2 = []"
    by (simp_all add: ms_def b2_def b1_def)
  show "length (nb_nodes (builder_heading ids level title links b)) = Suc (length ms)"
    "nb_content (builder_heading ids level title links b) = []"
    "nb_stack (builder_heading ids level title links b) =
      replicate (level - length (open_at level b)) (length ms) @ open_at level b"
    "i < length ms \<Longrightarrow> pn_heading_path (nb_nodes (builder_heading ids level title links b) ! i) = pn_heading_path (ms ! i)"
    using attach_node_paths(1) [of i b2 n] by (simp_all add: eq b3_def attach_node_nodes ms)
  have "pn_heading_path n = path_of ms (open_at level b) @ [title]"
    by (simp add: n_def parent_path_def parent_node_def path_of_def ms split: list.split)
  then show "pn_heading_path (nb_nodes (builder_heading ids level title links b) ! length ms) =
      path_of ms (open_at level b) @ [title]"
    using attach_node_paths(2) [of n b2] by (simp add: eq b3_def ms)
qed

text \<open>
  Two headings of one level in a row are siblings only when the level is at most one deeper
  than the sections open before them. When the first of them skips a level, it is put on the stack once for every
  level it skips, and the second becomes a child of the first, its heading path going through
  the title of the first.
\<close>

theorem skipped_level_nests_siblings:
  assumes ok: "node_builder_ok ids b" and level: "0 < level"
  shows "let b1 = builder_heading ids level t1 l1 b; b2 = builder_heading ids level t2 l2 b1;
           p1 = pn_heading_path (last (nb_nodes b1)); p2 = pn_heading_path (last (nb_nodes b2))
         in p2 = (if level \<le> Suc (length (nb_stack b)) then butlast p1 else p1) @ [t2]"
proof -
  let ?ms = "nb_nodes (flush_content ids b)" and ?S = "open_at level b"
  define b1 where "b1 = builder_heading ids level t1 l1 b"
  define b2 where "b2 = builder_heading ids level t2 l2 b1"
  note f1 = builder_heading_facts [where ids = ids and level = level and title = t1 and links = l1 and b = b, folded b1_def]
  have ms1: "nb_nodes (flush_content ids b1) = nb_nodes b1" using f1(2) by (rule flush_content_idle)
  note f2 = builder_heading_facts [where ids = ids and level = level and title = t2 and links = l2 and b = b1, folded b2_def, unfolded ms1]
  have k: "length ?S = min (level - 1) (length (nb_stack b))" by (simp add: open_at_def)
  have S1: "open_at level b1 = replicate (level - length ?S - 1) (length ?ms) @ ?S"
  proof -
    have "level - length ?S = Suc (level - length ?S - 1)" using level k by simp
    then have "nb_stack b1 = length ?ms # replicate (level - length ?S - 1) (length ?ms) @ ?S"
      using f1(3) by (metis append_Cons replicate_Suc)
    moreover have "length (nb_stack b1) - (level - 1) = 1" using level k by (simp add: f1(3))
    ultimately show ?thesis by (simp add: open_at_def [of level b1])
  qed
  have p1: "pn_heading_path (last (nb_nodes b1)) = path_of ?ms ?S @ [t1]"
    using f1(1,4) by (metis diff_Suc_1 last_conv_nth length_0_conv nat.distinct(1))
  have p2: "pn_heading_path (last (nb_nodes b2)) = path_of (nb_nodes b1) (open_at level b1) @ [t2]"
    using f2(1,4) by (metis diff_Suc_1 last_conv_nth length_0_conv nat.distinct(1))
  have "path_of (nb_nodes b1) (open_at level b1) =
      (if level \<le> Suc (length (nb_stack b)) then path_of ?ms ?S else path_of ?ms ?S @ [t1])"
  proof (cases "level \<le> Suc (length (nb_stack b))")
    case True
    with level have "open_at level b1 = ?S" by (simp add: S1 k)
    moreover have "path_of (nb_nodes b1) ?S = path_of ?ms ?S"
    proof (cases ?S)
      case (Cons i js)
      then have "i \<in> set (nb_stack b)" by (metis in_set_dropD list.set_intros(1) open_at_def)
      with ok have "i < length ?ms" by (auto simp: node_builder_ok_def dest: flush_content_grows)
      with f1(5) Cons show ?thesis by (simp add: path_of_def)
    qed (simp add: path_of_def)
    ultimately show ?thesis using True by simp
  next
    case False
    then have "level - length ?S - 1 = Suc (level - length ?S - 2)" by (simp add: k)
    then have "open_at level b1 = length ?ms # replicate (level - length ?S - 2) (length ?ms) @ ?S"
      by (simp add: S1)
    with False f1(4) show ?thesis by (simp add: path_of_def)
  qed
  with p1 p2 show ?thesis by (simp add: Let_def b1_def b2_def)
qed

text \<open>\<open># A\<close>, \<open>### B\<close>, \<open>### C\<close>: the heading \<open>C\<close> is filed below \<open>B\<close>.\<close>

theorem skipped_level_nests_siblings_witness:
  "pn_heading_path (last (nb_nodes (builder_heading demo_node_ids 3 ''C'' []
      (builder_heading demo_node_ids 3 ''B'' [] (builder_heading demo_node_ids 1 ''A'' [] new_node_builder))))) =
    [''A'', ''B'', ''C'']"
proof -
  define b where "b = builder_heading demo_node_ids 1 ''A'' [] new_node_builder"
  have "node_builder_ok demo_node_ids b" by (simp add: b_def builder_heading_ok)
  from skipped_level_nests_siblings [OF this, of 3 "''B''" "[]" "''C''" "[]"]
  have "pn_heading_path (last (nb_nodes (builder_heading demo_node_ids 3 ''C'' [] (builder_heading demo_node_ids 3 ''B'' [] b)))) =
      (if 3 \<le> Suc (length (nb_stack b)) then butlast (pn_heading_path (last (nb_nodes (builder_heading demo_node_ids 3 ''B'' [] b))))
       else pn_heading_path (last (nb_nodes (builder_heading demo_node_ids 3 ''B'' [] b)))) @ [''C'']"
    by (simp add: Let_def)
  also have "length (nb_stack b) = 1" unfolding b_def by code_simp
  also have "pn_heading_path (last (nb_nodes (builder_heading demo_node_ids 3 ''B'' [] b))) = [''A'', ''B'']"
    unfolding b_def by code_simp
  finally show ?thesis by (simp add: b_def)
qed

text \<open>
  The items of a list only wait in the buffer; when the list closes its node is attached although a
  paragraph is waiting, so the node of the list stands before the paragraph that introduces it.
\<close>

lemma md_walk_item:
  "md_walk ids (md_leaf ''list_item_open'' ''li'' [] # md_paragraph s @ md_leaf ''list_item_close'' ''li'' [] # ts) (b, xs) =
    md_walk ids ts (b, xs @ [if s = [] then ''-'' else ''- '' @ s])"
  by (simp add: md_paragraph_def md_leaf_def md_step_def Let_def list_item_text_def inline_text_def)

lemma md_walk_items:
  "md_walk ids (concat (map (\<lambda>s. md_leaf ''list_item_open'' ''li'' [] # md_paragraph s @ [md_leaf ''list_item_close'' ''li'' []]) items) @ ts) (b, xs) =
    md_walk ids ts (b, xs @ map (\<lambda>s. if s = [] then ''-'' else ''- '' @ s) items)"
  by (induction items arbitrary: xs) (simp_all add: md_walk_item del: md_walk_simps(2))

lemma md_walk_list_mark:
  "md_walk ids (md_leaf ''bullet_list_open'' ''ul'' [] # ts) (b, xs) = md_walk ids ts (flush_list ids xs b, [])"
  "md_walk ids (md_leaf ''bullet_list_close'' ''ul'' [] # ts) (b, xs) = md_walk ids ts (flush_list ids xs b, [])"
  by (simp_all add: md_leaf_def md_step_def)

lemma md_walk_bullets:
  "md_walk ids (md_bullets items) (b, []) =
    Inr (flush_list ids (map (\<lambda>s. if s = [] then ''-'' else ''- '' @ s) items) b, [])"
  by (simp add: md_bullets_def md_walk_list_mark md_walk_items flush_list_def [of _ "[]"] del: md_walk_simps(2))

theorem list_overtakes_paragraph:
  assumes s: "strip (strip s) \<noteq> []" and items: "items \<noteq> []"
  shows "map_sum id (map (\<lambda>n. (pn_type n, pn_content n))) (markdown_nodes ids (md_paragraph s @ md_bullets items)) =
    Inr [(List_Node, join newline (map (\<lambda>s. if s = [] then ''-'' else ''- '' @ s) items)),
         (Paragraph_Node, strip (strip s))]"
proof -
  have "strip s \<noteq> []"
  proof
    assume "strip s = []"
    moreover have "strip [] = []" by (simp add: strip_def)
    ultimately show False using s by simp
  qed
  with s items show ?thesis
    by (simp add: markdown_nodes_def md_walk_paragraph md_walk_bullets Let_def flush_list_def builder_list_def
        builder_finish_def flush_content_def attach_node_def new_node_builder_def blank_node_def builder_paragraph_def
        del: md_walk_simps(2))
qed

end
