(* ===== verification/Runtime_Evidence.thy ===== *)
theory Runtime_Evidence
  imports Code_Graph Context_Engine
begin

text \<open>
  What is observed when the software runs: \<open>domain/runtime.py\<close>, the in-memory evidence
  (\<open>adapters/in_memory/runtime.py\<close>) and the services over it (\<open>application/runtime.py\<close>): the import of
  coverage and of trace spans, the reconciliation with the static call graph, and the selection of
  tests.

  The identifier and the time of the observation stored after \<open>n\<close> others are \<open>draw n\<close>. A set is
  iterated in an order that \<open>order\<close> stands for. A combined score is kept in hundredths and the score
  of a test in tenths: the code adds multiples of 0.05 and of 0.1, and two scores that differ do so
  by far more than the rounding of floats.
\<close>

subsection \<open>Observations\<close>

datatype runtime_evidence_kind = Ev_Trace | Ev_Coverage | Ev_Log_Event | Ev_Service_Call
  | Ev_Database_Access | Ev_Message_Publish | Ev_Message_Consume

record runtime_observation =
  ro_id :: uuid
  ro_kind :: runtime_evidence_kind
  ro_project_id :: "uuid option"
  ro_repository_id :: "uuid option"
  ro_revision :: "string option"
  ro_execution_id :: "uuid option"
  ro_work_item_id :: "uuid option"
  ro_source :: string
  ro_target :: string
  ro_symbols :: "string list"
  ro_detail :: "(string \<times> json) list"
  ro_occurred_at :: datetime

type_synonym evidence_draw = "nat \<Rightarrow> uuid \<times> datetime"

record coverage_record =
  cov_test_name :: string
  cov_test_path :: string
  cov_files :: "string list"
  cov_symbols :: "(string, string list) dict"

record runtime_dependency =
  rdp_relation :: string
  rdp_source :: string
  rdp_target :: string
  rdp_count :: int
  rdp_observations :: "uuid list"

record static_runtime_reconciliation =
  srr_symbol :: string
  srr_static_dependents :: "string list"
  srr_static_files :: "string list"
  srr_runtime_covers :: "string list"
  srr_runtime_files :: "string list"
  srr_combined_score :: int

record targeted_test =
  tt_name :: string
  tt_path :: string
  tt_reasons :: "string list"
  tt_score :: int

record advanced_test_selection =
  ats_selected :: "targeted_test list"
  ats_via_runtime :: int
  ats_via_call_graph :: int
  ats_via_changed :: int
  ats_via_history :: int

subsection \<open>The in-memory evidence\<close>

type_synonym runtime_evidence = "runtime_observation list"

definition save_evidence :: "runtime_observation \<Rightarrow> runtime_evidence \<Rightarrow> runtime_evidence" where
  "save_evidence ob s = s @ [ob]"

definition evidence_of_revision :: "uuid \<Rightarrow> string \<Rightarrow> runtime_evidence \<Rightarrow> runtime_observation list" where
  "evidence_of_revision repo rvn s =
     filter (\<lambda>ob. ro_repository_id ob = Some repo \<and> ro_revision ob = Some rvn) s"

definition evidence_of_execution :: "uuid \<Rightarrow> runtime_evidence \<Rightarrow> runtime_observation list" where
  "evidence_of_execution ex s = filter (\<lambda>ob. ro_execution_id ob = Some ex) s"

definition evidence_of_project :: "uuid \<Rightarrow> runtime_evidence \<Rightarrow> runtime_observation list" where
  "evidence_of_project p s = filter (\<lambda>ob. ro_project_id ob = Some p) s"

definition evidence_for_symbol :: "uuid \<Rightarrow> string \<Rightarrow> string \<Rightarrow> runtime_evidence \<Rightarrow> runtime_observation list" where
  "evidence_for_symbol repo rvn q s = filter (\<lambda>ob. q \<in> set (ro_symbols ob)) (evidence_of_revision repo rvn s)"

text \<open>A \<open>defaultdict(list)\<close> whose entries are extended, one element after the other.\<close>

definition extend_at :: "'k \<Rightarrow> 'v list \<Rightarrow> ('k, 'v list) dict \<Rightarrow> ('k, 'v list) dict" where
  "extend_at k vs d = dict_set k ((case dict_get d k of None \<Rightarrow> [] | Some us \<Rightarrow> us) @ vs) d"

definition gathered :: "('x \<Rightarrow> 'k) \<Rightarrow> ('x \<Rightarrow> 'v list) \<Rightarrow> 'x list \<Rightarrow> ('k, 'v list) dict" where
  "gathered key vals xs = fold (\<lambda>x. extend_at (key x) (vals x)) xs []"

definition entry_at :: "('k, 'v list) dict \<Rightarrow> 'k \<Rightarrow> 'v list" where
  "entry_at d k = (case dict_get d k of None \<Rightarrow> [] | Some vs \<Rightarrow> vs)"

text \<open>\<open>str(obs.detail.get("test_path", test_path))\<close>, the last observation last.\<close>

definition test_path_of :: "runtime_observation list \<Rightarrow> string" where
  "test_path_of obs =
     fold (\<lambda>ob path. case map_of (ro_detail ob) ''test_path'' of None \<Rightarrow> path | Some v \<Rightarrow> py_str v) obs []"

definition sorted_entries :: "('k, 'v::linorder list) dict \<Rightarrow> ('k, 'v list) dict" where
  "sorted_entries d = map (\<lambda>(k, vs). (k, sorted_set vs)) d"

definition coverage_of_test :: "string \<Rightarrow> runtime_observation list \<Rightarrow> coverage_record" where
  "coverage_of_test test obs =
     (let by_file = gathered ro_target ro_symbols obs in
      \<lparr>cov_test_name = test, cov_test_path = test_path_of obs,
       cov_files = sort (dict_keys by_file), cov_symbols = sorted_entries by_file\<rparr>)"

definition coverage_for_revision :: "uuid \<Rightarrow> string \<Rightarrow> runtime_evidence \<Rightarrow> coverage_record list" where
  "coverage_for_revision repo rvn s =
     map (\<lambda>(test, obs). coverage_of_test test obs)
       (gathered ro_source (\<lambda>ob. [ob])
          (filter (\<lambda>ob. ro_kind ob = Ev_Coverage) (evidence_of_revision repo rvn s)))"

definition relation_for_kind :: "runtime_evidence_kind \<Rightarrow> string option" where
  "relation_for_kind k =
     (case k of
        Ev_Service_Call \<Rightarrow> Some ''SERVICE_CALLS''
      | Ev_Database_Access \<Rightarrow> Some ''QUERY_ACCESSES''
      | Ev_Message_Publish \<Rightarrow> Some ''PUBLISHES_TO''
      | Ev_Message_Consume \<Rightarrow> Some ''CONSUMES_FROM''
      | _ \<Rightarrow> None)"

definition edge_of :: "runtime_observation \<Rightarrow> (string \<times> string \<times> string) option" where
  "edge_of ob =
     (case relation_for_kind (ro_kind ob) of
        None \<Rightarrow> None
      | Some rel \<Rightarrow> if ro_source ob = [] \<or> ro_target ob = [] then None else Some (rel, ro_source ob, ro_target ob))"

definition dependency_of :: "(string \<times> string \<times> string) \<times> runtime_observation list \<Rightarrow> runtime_dependency" where
  "dependency_of x =
     (let ((rel, src, tgt), obs) = x in
      \<lparr>rdp_relation = rel, rdp_source = src, rdp_target = tgt, rdp_count = int (length obs),
       rdp_observations = map ro_id obs\<rparr>)"

definition dependencies_for_revision :: "uuid \<Rightarrow> string \<Rightarrow> runtime_evidence \<Rightarrow> runtime_dependency list" where
  "dependencies_for_revision repo rvn s =
     map dependency_of
       (sort_key (\<lambda>x. - int (length (snd x)))
          (gathered (\<lambda>ob. the (edge_of ob)) (\<lambda>ob. [ob])
             (filter (\<lambda>ob. edge_of ob \<noteq> None) (evidence_of_revision repo rvn s))))"

subsection \<open>Recording\<close>

definition new_evidence :: "uuid \<times> datetime \<Rightarrow> runtime_evidence_kind \<Rightarrow> uuid option \<Rightarrow> string option
    \<Rightarrow> uuid option \<Rightarrow> uuid option \<Rightarrow> string \<Rightarrow> string \<Rightarrow> runtime_observation" where
  "new_evidence it kind repo rvn ex p src tgt =
     \<lparr>ro_id = fst it, ro_kind = kind, ro_project_id = p, ro_repository_id = repo, ro_revision = rvn,
      ro_execution_id = ex, ro_work_item_id = None, ro_source = src, ro_target = tgt, ro_symbols = [],
      ro_detail = [], ro_occurred_at = snd it\<rparr>"

definition record_evidence :: "evidence_draw \<Rightarrow> runtime_evidence_kind \<Rightarrow> uuid option \<Rightarrow> string option
    \<Rightarrow> uuid option \<Rightarrow> uuid option \<Rightarrow> uuid option \<Rightarrow> string \<Rightarrow> string \<Rightarrow> string list option
    \<Rightarrow> (string \<times> json) list option \<Rightarrow> runtime_evidence \<Rightarrow> runtime_observation \<times> runtime_evidence" where
  "record_evidence draw kind repo rvn ex p w src tgt syms det s =
     (let ob = (new_evidence (draw (length s)) kind repo rvn ex p src tgt)
            \<lparr>ro_work_item_id := w, ro_symbols := (case syms of None \<Rightarrow> [] | Some xs \<Rightarrow> xs),
             ro_detail := (case det of None \<Rightarrow> [] | Some d \<Rightarrow> d)\<rparr>
      in (ob, save_evidence ob s))"

text \<open>The import of the coverage of one test: an observation per executed file.\<close>

definition symbols_by_path :: "uuid \<Rightarrow> string \<Rightarrow> string list \<Rightarrow> code_graph \<Rightarrow> (string, string list) dict" where
  "symbols_by_path repo rvn files g =
     gathered sy_path (\<lambda>x. [sy_qualified_name x]) (filter (\<lambda>x. sy_path x \<in> set files) (list_symbols repo rvn g))"

definition coverage_observation :: "uuid \<times> datetime \<Rightarrow> uuid \<Rightarrow> string \<Rightarrow> uuid option \<Rightarrow> uuid option
    \<Rightarrow> string \<Rightarrow> string \<Rightarrow> (string, string list) dict \<Rightarrow> string \<Rightarrow> runtime_observation" where
  "coverage_observation it repo rvn ex p test test_path by_path path =
     (new_evidence it Ev_Coverage (Some repo) (Some rvn) ex p test path)
       \<lparr>ro_symbols := entry_at by_path path, ro_detail := [(''test_path'', JStr test_path)]\<rparr>"

definition import_coverage :: "evidence_draw \<Rightarrow> uuid \<Rightarrow> string \<Rightarrow> string \<Rightarrow> string \<Rightarrow> string list
    \<Rightarrow> uuid option \<Rightarrow> uuid option \<Rightarrow> code_graph \<Rightarrow> runtime_evidence \<Rightarrow> coverage_record \<times> runtime_evidence" where
  "import_coverage draw repo rvn test test_path files ex p g s =
     (let by_path = symbols_by_path repo rvn files g in
      (\<lparr>cov_test_name = test, cov_test_path = test_path, cov_files = sorted_set files,
        cov_symbols = sorted_entries by_path\<rparr>,
       fold (\<lambda>path t. save_evidence (coverage_observation (draw (length t)) repo rvn ex p test test_path by_path path) t)
         files s))"

text \<open>The import of spans, as dictionaries.\<close>

definition get_or :: "(string \<times> json) list \<Rightarrow> string \<Rightarrow> json \<Rightarrow> json" where
  "get_or d k v = (case map_of d k of None \<Rightarrow> v | Some w \<Rightarrow> w)"

definition span_kind :: "(string \<times> json) list \<Rightarrow> runtime_evidence_kind" where
  "span_kind span =
     (let kv = get_or span ''kind'' (JStr ''internal'');
          db = (case get_or span ''attributes'' (JDict []) of
                  JDict d \<Rightarrow> py_str (get_or d ''db.system'' (JStr [])) | _ \<Rightarrow> [])
      in if kv = JStr ''server'' \<or> contains ''client'' (py_str kv) then Ev_Service_Call
         else if db \<noteq> [] then Ev_Database_Access else Ev_Trace)"

definition span_observation :: "uuid \<times> datetime \<Rightarrow> string \<Rightarrow> uuid option \<Rightarrow> string option \<Rightarrow> uuid option
    \<Rightarrow> uuid option \<Rightarrow> (string \<times> json) list \<Rightarrow> runtime_observation" where
  "span_observation it trace repo rvn ex p span =
     (let parent = py_str (get_or span ''parent'' (JStr [])) in
      (new_evidence it (span_kind span) repo rvn ex p (if parent = [] then trace else parent)
         (py_str (get_or span ''name'' (JStr ''span''))))
        \<lparr>ro_detail := fold (\<lambda>(k, v). dict_set k v) span [(''trace_id'', JStr trace)]\<rparr>)"

fun ingest_trace :: "evidence_draw \<Rightarrow> string \<Rightarrow> (string \<times> json) list list \<Rightarrow> uuid option \<Rightarrow> string option
    \<Rightarrow> uuid option \<Rightarrow> uuid option \<Rightarrow> runtime_evidence \<Rightarrow> runtime_observation list \<times> runtime_evidence" where
  "ingest_trace draw trace [] repo rvn ex p s = ([], s)"
| "ingest_trace draw trace (span # spans) repo rvn ex p s =
     (let ob = span_observation (draw (length s)) trace repo rvn ex p span;
          (obs, s') = ingest_trace draw trace spans repo rvn ex p (save_evidence ob s)
      in (ob # obs, s'))"

subsection \<open>Reconciliation\<close>

definition calls_of :: "string \<Rightarrow> code_relation list \<Rightarrow> code_relation list" where
  "calls_of q rels = filter (\<lambda>r. cr_type r = Calls \<and> si_qualified_name (cr_target r) = q) rels"

definition reconcile_runtime :: "uuid \<Rightarrow> string \<Rightarrow> string \<Rightarrow> code_graph \<Rightarrow> runtime_evidence \<Rightarrow> static_runtime_reconciliation" where
  "reconcile_runtime repo rvn q g s =
     (let calls = calls_of q (list_relations repo rvn g);
          obs = evidence_for_symbol repo rvn q s;
          dependents = sorted_set (map (\<lambda>r. si_qualified_name (cr_source r)) calls);
          covers = sorted_set (map ro_source (filter (\<lambda>ob. ro_source ob \<noteq> [] \<and> ro_kind ob = Ev_Coverage) obs))
      in \<lparr>srr_symbol = q, srr_static_dependents = dependents,
          srr_static_files = sorted_set (map cr_source_path calls), srr_runtime_covers = covers,
          srr_runtime_files = sorted_set (filter (\<lambda>t. t \<noteq> []) (map ro_target obs)),
          srr_combined_score = min 100 (50 + 10 * int (length covers) + 5 * int (length dependents))\<rparr>)"

subsection \<open>The selection of tests\<close>

definition is_test_name :: "string \<Rightarrow> bool" where
  "is_test_name q =
     (let l = after_last (CHR ''.'') q in starts_with l ''test_'' \<or> starts_with l ''Test'')"

definition tests_by_symbol :: "code_relation list \<Rightarrow> (string, string list) dict" where
  "tests_by_symbol rels =
     gathered (\<lambda>r. si_qualified_name (cr_target r)) (\<lambda>r. [si_qualified_name (cr_source r)])
       (filter (\<lambda>r. cr_type r = Tests \<and> is_test_name (si_qualified_name (cr_source r))) rels)"

definition runtime_test_paths :: "symbol list \<Rightarrow> (string, string) dict" where
  "runtime_test_paths ss =
     fold (\<lambda>x. dict_set (sy_qualified_name x) (sy_path x)) (filter (\<lambda>x. is_test_name (sy_qualified_name x)) ss) []"

definition blank_test :: "(string, string) dict \<Rightarrow> string \<Rightarrow> targeted_test" where
  "blank_test paths t =
     \<lparr>tt_name = t, tt_path = (case dict_get paths t of None \<Rightarrow> [] | Some p \<Rightarrow> p), tt_reasons = [], tt_score = 0\<rparr>"

type_synonym selection = "(string, targeted_test) dict"

text \<open>Another reason for a test, which is entered when it is new.\<close>

definition score_test :: "(string, string) dict \<Rightarrow> string \<Rightarrow> int \<Rightarrow> string \<Rightarrow> selection \<Rightarrow> selection" where
  "score_test paths why points t sel =
     (let x = (case dict_get sel t of None \<Rightarrow> blank_test paths t | Some y \<Rightarrow> y) in
      dict_set t (x\<lparr>tt_reasons := tt_reasons x @ [why], tt_score := tt_score x + points\<rparr>) sel)"

definition graph_reason :: "string \<Rightarrow> string" where
  "graph_reason c = ''tests '' @ c @ '' via call graph''"

definition graph_step :: "(string, string) dict \<Rightarrow> string \<times> string \<Rightarrow> selection \<times> int \<Rightarrow> selection \<times> int" where
  "graph_step paths ct st =
     (let (c, t) = ct; (sel, n) = st in
      (score_test paths (graph_reason c) 5 t sel, if dict_get sel t = None then n + 1 else n))"

text \<open>The guard looks for a reason that no branch ever writes.\<close>

definition runtime_step :: "(string, string) dict \<Rightarrow> string \<Rightarrow> selection \<times> int \<Rightarrow> selection \<times> int" where
  "runtime_step paths t st =
     (let (sel, n) = st;
          sel' = (if dict_get sel t = None then dict_set t (blank_test paths t) sel else sel);
          x = the (dict_get sel' t)
      in if ''runtime coverage'' \<in> set (tt_reasons x) then (sel', n)
         else (score_test paths ''exercised changed symbols at runtime'' 8 t sel', n + 1))"

definition history_step :: "(string, string) dict \<Rightarrow> string \<Rightarrow> selection \<times> int \<Rightarrow> selection \<times> int" where
  "history_step paths t st =
     (let (sel, n) = st in
      if dict_get sel t = None
      then (dict_set t ((blank_test paths t)\<lparr>tt_reasons := [''historical failure''], tt_score := 3\<rparr>) sel, n + 1)
      else (sel, n))"

definition covered_tests :: "uuid \<Rightarrow> string \<Rightarrow> string list \<Rightarrow> runtime_evidence \<Rightarrow> string list" where
  "covered_tests repo rvn changed s =
     remdups (map ro_source (filter (\<lambda>ob. ro_kind ob = Ev_Coverage \<and> set (ro_symbols ob) \<inter> set changed \<noteq> {})
       (evidence_of_revision repo rvn s)))"

definition graph_tests :: "string list \<Rightarrow> code_relation list \<Rightarrow> (string \<times> string) list" where
  "graph_tests changed rels =
     concat (map (\<lambda>c. map (\<lambda>t. (c, t)) (entry_at (tests_by_symbol rels) c)) changed)"

definition select_tests :: "(string list \<Rightarrow> string list) \<Rightarrow> uuid \<Rightarrow> string \<Rightarrow> string list \<Rightarrow> string list option
    \<Rightarrow> code_graph \<Rightarrow> runtime_evidence \<Rightarrow> advanced_test_selection" where
  "select_tests order repo rvn changed history g s =
     (let paths = runtime_test_paths (list_symbols repo rvn g);
          (sel1, n1) = fold (graph_step paths) (graph_tests changed (list_relations repo rvn g)) ([], 0);
          (sel2, n2) = fold (runtime_step paths) (order (covered_tests repo rvn changed s)) (sel1, 0);
          (sel3, n3) = fold (history_step paths)
             (order (remdups (case history of None \<Rightarrow> [] | Some h \<Rightarrow> h))) (sel2, 0)
      in \<lparr>ats_selected = sort_decreasing tt_score (dict_values sel3), ats_via_runtime = n2,
          ats_via_call_graph = n1, ats_via_changed = 0, ats_via_history = n3\<rparr>)"

subsection \<open>Gathering\<close>

lemma gathered_snoc: "gathered key vals (xs @ [x]) = extend_at (key x) (vals x) (gathered key vals xs)"
  by (simp add: gathered_def)

lemma gathered_ok [simp]: "dict_ok (gathered key vals xs)"
  by (induction xs rule: rev_induct) (simp_all add: gathered_snoc extend_at_def, simp add: gathered_def)

lemma gathered_get:
  "dict_get (gathered key vals xs) k =
    (if k \<in> key ` set xs then Some (concat (map vals (filter (\<lambda>x. key x = k) xs))) else None)"
proof (induction xs rule: rev_induct)
  case (snoc x xs)
  have none: "filter (\<lambda>y. key y = k) xs = []" if "k \<notin> key ` set xs"
    using that by (auto simp: filter_empty_conv)
  have step: "dict_get (gathered key vals (xs @ [x])) k =
      (if key x = k then Some ((case dict_get (gathered key vals xs) k of None \<Rightarrow> [] | Some us \<Rightarrow> us) @ vals x)
       else dict_get (gathered key vals xs) k)"
    by (auto simp: gathered_snoc extend_at_def store_simps)
  show ?case unfolding step snoc.IH by (auto simp: none)
qed (simp add: gathered_def)

lemma gathered_keys: "set (dict_keys (gathered key vals xs)) = key ` set xs"
proof -
  have "k \<in> set (dict_keys (gathered key vals xs)) \<longleftrightarrow> k \<in> key ` set xs" for k
    using gathered_get [of key vals xs k] unfolding dict_keys_def
    by (auto simp: map_of_eq_None_iff split: if_splits)
      (metis (no_types, lifting) image_eqI map_of_eq_None_iff option.distinct(1))
  then show ?thesis by blast
qed

lemma gathered_one:
  assumes "xs \<noteq> []" and "\<And>x. x \<in> set xs \<Longrightarrow> key x = k"
  shows "gathered key (\<lambda>x. [x]) xs = [(k, xs)]"
  using assms
proof (induction xs rule: rev_induct)
  case (snoc x xs)
  then show ?case by (cases "xs = []") (simp_all add: gathered_snoc extend_at_def, simp add: gathered_def extend_at_def)
qed simp

lemma dict_set_behind: "k \<notin> fst ` set e \<Longrightarrow> dict_set k v (e @ d) = e @ dict_set k v d"
  by (induction e) auto

lemma gathered_append:
  assumes "key ` set xs \<inter> key ` set ys = {}"
  shows "gathered key vals (xs @ ys) = gathered key vals xs @ gathered key vals ys"
  using assms
proof (induction ys rule: rev_induct)
  case (snoc y ys)
  have none: "dict_get (gathered key vals xs) (key y) = None"
    using snoc.prems by (auto simp: gathered_get)
  then have out: "key y \<notin> fst ` set (gathered key vals xs)" by (simp add: map_of_eq_None_iff)
  note dict_set_behind [OF out]
  moreover have "dict_get (gathered key vals xs @ d) (key y) = dict_get d (key y)" for d
    by (simp add: map_add_def none split: option.split)
  ultimately show ?case
    using snoc by (simp add: gathered_snoc extend_at_def flip: append_assoc)
qed (simp add: gathered_def)

subsection \<open>Coverage\<close>

lemma fold_saved:
  "fold (\<lambda>x t. save_evidence (f (length t) x) t) xs s = s @ map2 f [length s..<length s + length xs] xs"
proof (induction xs arbitrary: s)
  case (Cons x xs)
  then show ?case by (simp add: save_evidence_def upt_conv_Cons del: upt_Suc)
qed simp

definition imported :: "evidence_draw \<Rightarrow> uuid \<Rightarrow> string \<Rightarrow> string \<Rightarrow> string \<Rightarrow> string list
    \<Rightarrow> uuid option \<Rightarrow> uuid option \<Rightarrow> code_graph \<Rightarrow> runtime_evidence \<Rightarrow> runtime_observation list" where
  "imported draw repo rvn test test_path files ex p g s =
     map2 (\<lambda>n. coverage_observation (draw n) repo rvn ex p test test_path (symbols_by_path repo rvn files g))
       [length s..<length s + length files] files"

lemma import_coverage_state:
  "snd (import_coverage draw repo rvn test test_path files ex p g s) =
    s @ imported draw repo rvn test test_path files ex p g s"
  by (simp add: import_coverage_def imported_def Let_def fold_saved
      [where f = "\<lambda>n. coverage_observation (draw n) repo rvn ex p test test_path (symbols_by_path repo rvn files g)"])

lemma imported_members:
  assumes "ob \<in> set (imported draw repo rvn test test_path files ex p g s)"
  shows "ro_kind ob = Ev_Coverage" "ro_repository_id ob = Some repo" "ro_revision ob = Some rvn"
    "ro_source ob = test" "ro_symbols ob = entry_at (symbols_by_path repo rvn files g) (ro_target ob)"
    "ro_detail ob = [(''test_path'', JStr test_path)]"
  using assms
  by (auto simp: imported_def coverage_observation_def new_evidence_def dest!: set_zip_rightD split_list)

lemma imported_targets:
  "map ro_target (imported draw repo rvn test test_path files ex p g s) = files"
proof -
  have "map ro_target (map2 (\<lambda>n. coverage_observation (draw n) repo rvn ex p test test_path d) ns fs) = fs"
    if "length ns = length fs" for ns fs d
    using that by (induction ns fs rule: list_induct2) (simp_all add: coverage_observation_def new_evidence_def)
  then show ?thesis by (simp add: imported_def)
qed

lemma coverage_names:
  "map cov_test_name (coverage_for_revision repo rvn s) =
    dict_keys (gathered ro_source (\<lambda>ob. [ob])
      (filter (\<lambda>ob. ro_kind ob = Ev_Coverage) (evidence_of_revision repo rvn s)))"
  by (simp add: coverage_for_revision_def dict_keys_def coverage_of_test_def Let_def case_prod_beta)

lemma sorted_entries_at: "entry_at (sorted_entries d) k = sorted_set (entry_at d k)"
  by (induction d) (auto simp: sorted_entries_def entry_at_def)

lemma sorted_entries_keys [simp]: "dict_keys (sorted_entries d) = dict_keys d"
  by (simp add: sorted_entries_def dict_keys_def case_prod_beta comp_def)

lemma sorted_set_cong: "set xs = set ys \<Longrightarrow> sorted_set xs = sorted_set ys"
  by (simp add: sorted_set_def sorted_distinct_set_unique)

lemma sort_dict_keys: "dict_ok d \<Longrightarrow> sort (dict_keys d) = sorted_set (dict_keys d)"
  by (simp add: sorted_set_def dict_ok_def dict_keys_def distinct_remdups_id)

lemma test_path_of_imported:
  assumes "obs \<noteq> []" and "\<And>ob. ob \<in> set obs \<Longrightarrow> ro_detail ob = [(''test_path'', JStr path)]"
  shows "test_path_of obs = path"
  using assms
proof (induction obs rule: rev_induct)
  case (snoc ob obs)
  then show ?case by (simp add: test_path_of_def py_str_def)
qed simp

text \<open>
  Importing the coverage of a test that has none yet for the revision adds exactly one coverage
  record to what the evidence answers and changes no other: its test, path and files are those of
  the record the import returns, and so are the symbols of every file; files without symbols are
  listed as well.
\<close>

theorem imported_coverage_is_answered:
  assumes new: "test \<notin> cov_test_name ` set (coverage_for_revision repo rvn s)" and files: "files \<noteq> []"
  shows "let r = import_coverage draw repo rvn test test_path files ex p g s in \<exists>c. coverage_for_revision repo rvn (snd r) = coverage_for_revision repo rvn s @ [c] \<and>
    cov_test_name c = cov_test_name (fst r) \<and> cov_test_path c = cov_test_path (fst r) \<and>
    cov_files c = cov_files (fst r) \<and> entry_at (cov_symbols c) = entry_at (cov_symbols (fst r)) \<and>
    set (dict_keys (cov_symbols c)) = set files"
proof -
  define os where "os = imported draw repo rvn test test_path files ex p g s"
  define D where "D = symbols_by_path repo rvn files g"
  define covs where "covs = filter (\<lambda>ob. ro_kind ob = Ev_Coverage) (evidence_of_revision repo rvn s)"
  define c where "c = coverage_of_test test os"
  define r where "r = import_coverage draw repo rvn test test_path files ex p g s"
  note os = imported_members [of _ draw repo rvn test test_path files ex p g s, folded os_def D_def]
  have targets: "map ro_target os = files" by (simp add: os_def imported_targets)
  have "filter (\<lambda>ob. ro_kind ob = Ev_Coverage) (evidence_of_revision repo rvn (s @ os)) = covs @ os"
    using os(1-3) by (simp add: evidence_of_revision_def covs_def)
  moreover have "gathered ro_source (\<lambda>ob. [ob]) (covs @ os) =
      gathered ro_source (\<lambda>ob. [ob]) covs @ gathered ro_source (\<lambda>ob. [ob]) os"
  proof (rule gathered_append)
    have "set (map cov_test_name (coverage_for_revision repo rvn s)) = ro_source ` set covs"
      unfolding coverage_names gathered_keys covs_def by (rule refl)
    with new os(4) show "ro_source ` set covs \<inter> ro_source ` set os = {}" by auto
  qed
  moreover have "gathered ro_source (\<lambda>ob. [ob]) os = [(test, os)]"
    using os(4) files targets by (intro gathered_one) auto
  ultimately have listed: "coverage_for_revision repo rvn (snd r) = coverage_for_revision repo rvn s @ [c]"
    by (simp add: coverage_for_revision_def r_def import_coverage_state os_def [symmetric] covs_def [symmetric] c_def)
  have r: "cov_test_name (fst r) = test" "cov_test_path (fst r) = test_path" "cov_files (fst r) = sorted_set files"
    "cov_symbols (fst r) = sorted_entries D"
    by (simp_all add: r_def import_coverage_def D_def Let_def)
  have syms: "set (entry_at (gathered ro_target ro_symbols os) k) = set (entry_at D k)" for k
  proof (cases "k \<in> set files")
    case True
    with targets obtain ob where "ob \<in> set os" "ro_target ob = k" by (metis image_iff set_map)
    with os(5) have "set (concat (map ro_symbols (filter (\<lambda>x. ro_target x = k) os))) = set (entry_at D k)" by auto
    moreover have "k \<in> ro_target ` set os" using True targets by (metis set_map)
    ultimately show ?thesis by (simp only: entry_at_def gathered_get if_True option.case)
  next
    case False
    then have "entry_at D k = []" "k \<notin> ro_target ` set os"
      using targets by (auto simp: entry_at_def D_def symbols_by_path_def gathered_get)
    then show ?thesis by (simp add: entry_at_def gathered_get)
  qed
  have keys: "set (dict_keys (gathered ro_target ro_symbols os)) = set files"
    using targets by (metis gathered_keys set_map)
  have "cov_files c = sorted_set files"
    using sorted_set_cong [OF keys] by (simp add: c_def coverage_of_test_def Let_def sort_dict_keys)
  moreover have "cov_test_path c = test_path"
    using os(6) files targets
    by (simp add: c_def coverage_of_test_def Let_def) (rule test_path_of_imported, auto)
  moreover have "entry_at (cov_symbols c) = entry_at (cov_symbols (fst r))"
  proof (rule ext)
    fix k
    from sorted_set_cong [OF syms] show "entry_at (cov_symbols c) k = entry_at (cov_symbols (fst r)) k"
      by (simp add: c_def coverage_of_test_def Let_def r sorted_entries_at)
  qed
  moreover have "set (dict_keys (cov_symbols c)) = set files"
    using keys by (simp add: c_def coverage_of_test_def Let_def)
  moreover have "cov_test_name c = test" by (simp add: c_def coverage_of_test_def Let_def)
  ultimately show ?thesis using listed r unfolding r_def [symmetric] Let_def by (intro exI [of _ c]) simp
qed

subsection \<open>The scores of a selection\<close>

definition score_at :: "selection \<Rightarrow> string \<Rightarrow> int option" where
  "score_at sel t = map_option tt_score (dict_get sel t)"

definition points_at :: "selection \<Rightarrow> string \<Rightarrow> int" where
  "points_at sel t = (case score_at sel t of None \<Rightarrow> 0 | Some n \<Rightarrow> n)"

text \<open>The entries stand under their own names, and no reason is the one the runtime guard looks for.\<close>

definition selection_ok :: "selection \<Rightarrow> bool" where
  "selection_ok sel \<longleftrightarrow> dict_ok sel \<and>
     (\<forall>t x. dict_get sel t = Some x \<longrightarrow> tt_name x = t \<and> ''runtime coverage'' \<notin> set (tt_reasons x))"

lemma selection_okI:
  assumes "selection_ok sel" and "tt_name x = t" and "''runtime coverage'' \<notin> set (tt_reasons x)"
  shows "selection_ok (dict_set t x sel)"
  using assms by (auto simp: selection_ok_def store_simps)

lemma score_test_ok:
  assumes ok: "selection_ok sel" and why: "why \<noteq> ''runtime coverage''"
  shows "selection_ok (score_test paths why points t sel)"
  unfolding score_test_def Let_def
  by (rule selection_okI [OF ok])
    (use ok why in \<open>auto simp: selection_ok_def blank_test_def split: option.split\<close>)

lemma score_at_score_test:
  "score_at (score_test paths why points t sel) u =
    (if u = t then Some (points_at sel t + points) else score_at sel u)"
  by (auto simp: score_at_def points_at_def score_test_def Let_def blank_test_def store_simps split: option.split)

lemma graph_reason_other [simp]: "graph_reason c \<noteq> ''runtime coverage''"
  by (simp add: graph_reason_def)

lemma graph_steps:
  assumes "selection_ok sel"
  shows "selection_ok (fst (fold (graph_step paths) cts (sel, n))) \<and>
    score_at (fst (fold (graph_step paths) cts (sel, n))) t =
      (if t \<in> snd ` set cts then Some (points_at sel t + 5 * int (count_list (map snd cts) t)) else score_at sel t)"
  using assms
proof (induction cts arbitrary: sel n)
  case (Cons ct cts)
  obtain c u where ct: "ct = (c, u)" by (cases ct)
  obtain m where step: "graph_step paths ct (sel, n) = (score_test paths (graph_reason c) 5 u sel, m)"
    by (simp add: graph_step_def ct)
  have ok: "selection_ok (score_test paths (graph_reason c) 5 u sel)" using Cons.prems by (simp add: score_test_ok)
  have none: "count_list (map snd cts) u = 0" if "u \<notin> snd ` set cts" using that by simp
  have fold: "fold (graph_step paths) (ct # cts) (sel, n) =
      fold (graph_step paths) cts (score_test paths (graph_reason c) 5 u sel, m)"
    by (simp add: step)
  show ?case
    unfolding fold using Cons.IH [OF ok, of m] none
    by (auto simp: ct points_at_def score_at_score_test)
qed simp

lemma runtime_steps:
  assumes "selection_ok sel" and "distinct ts"
  shows "selection_ok (fst (fold (runtime_step paths) ts (sel, n))) \<and>
    snd (fold (runtime_step paths) ts (sel, n)) = n + int (length ts) \<and>
    score_at (fst (fold (runtime_step paths) ts (sel, n))) t =
      (if t \<in> set ts then Some (points_at sel t + 8) else score_at sel t)"
  using assms
proof (induction ts arbitrary: sel n)
  case (Cons u ts)
  define sel' where "sel' = (if dict_get sel u = None then dict_set u (blank_test paths u) sel else sel)"
  have ok': "selection_ok sel'"
    using Cons.prems(1) by (auto simp: sel'_def blank_test_def intro!: selection_okI)
  have "''runtime coverage'' \<notin> set (tt_reasons (the (dict_get sel' u)))"
    using Cons.prems(1) by (auto simp: sel'_def store_simps blank_test_def selection_ok_def)
  then have step: "runtime_step paths u (sel, n) =
      (score_test paths ''exercised changed symbols at runtime'' 8 u sel', n + 1)"
    by (simp add: runtime_step_def Let_def sel'_def)
  have ok: "selection_ok (score_test paths ''exercised changed symbols at runtime'' 8 u sel')"
    using ok' by (intro score_test_ok) simp_all
  have "points_at sel' u = points_at sel u" "\<And>t. t \<noteq> u \<Longrightarrow> score_at sel' t = score_at sel t"
    by (auto simp: sel'_def points_at_def score_at_def store_simps blank_test_def)
  then show ?case
    using Cons.IH [OF ok, of "n + 1"] Cons.prems(2)
    by (auto simp: step points_at_def score_at_score_test)
qed simp

lemma history_steps:
  assumes "selection_ok sel"
  shows "selection_ok (fst (fold (history_step paths) ts (sel, n))) \<and>
    score_at (fst (fold (history_step paths) ts (sel, n))) t =
      (if score_at sel t = None \<and> t \<in> set ts then Some 3 else score_at sel t)"
  using assms
proof (induction ts arbitrary: sel n)
  case (Cons u ts)
  show ?case
  proof (cases "dict_get sel u")
    case None
    define sel' where "sel' = dict_set u ((blank_test paths u)\<lparr>tt_reasons := [''historical failure''], tt_score := 3\<rparr>) sel"
    have ok: "selection_ok sel'" unfolding sel'_def by (rule selection_okI [OF Cons.prems]) (simp_all add: blank_test_def)
    have "history_step paths u (sel, n) = (sel', n + 1)" using None by (simp add: history_step_def sel'_def)
    with Cons.IH [OF ok, of "n + 1"] None show ?thesis
      by (auto simp: sel'_def score_at_def store_simps)
  next
    case (Some x)
    then have "history_step paths u (sel, n) = (sel, n)" by (simp add: history_step_def)
    with Cons.IH [OF Cons.prems, of n] Some show ?thesis by (auto simp: score_at_def)
  qed
qed simp

text \<open>
  The evidence for a test: the relations by which it tests the changed symbols, and whether a
  coverage observation of it exercised one of them.
\<close>

definition test_relations :: "string list \<Rightarrow> code_relation list \<Rightarrow> string \<Rightarrow> nat" where
  "test_relations changed rels t =
     sum_list (map (\<lambda>c. length (filter (\<lambda>r. cr_type r = Tests \<and> si_qualified_name (cr_target r) = c \<and>
       si_qualified_name (cr_source r) = t) rels)) changed)"

definition exercised :: "uuid \<Rightarrow> string \<Rightarrow> string list \<Rightarrow> runtime_evidence \<Rightarrow> string \<Rightarrow> bool" where
  "exercised repo rvn changed s t \<longleftrightarrow>
     (\<exists>ob \<in> set (evidence_of_revision repo rvn s).
        ro_kind ob = Ev_Coverage \<and> ro_source ob = t \<and> set (ro_symbols ob) \<inter> set changed \<noteq> {})"

definition expected_score :: "uuid \<Rightarrow> string \<Rightarrow> string list \<Rightarrow> string list \<Rightarrow> code_graph \<Rightarrow> runtime_evidence \<Rightarrow> string \<Rightarrow> int option" where
  "expected_score repo rvn changed history g s t =
     (let n = (if is_test_name t then test_relations changed (list_relations repo rvn g) t else 0);
          e = exercised repo rvn changed s t
      in if n \<noteq> 0 \<or> e then Some (5 * int n + (if e then 8 else 0))
         else if t \<in> set history then Some 3 else None)"

lemma count_list_map: "count_list (map f xs) t = length (filter (\<lambda>x. f x = t) xs)"
  by (induction xs) auto

lemma entry_at_gathered:
  "entry_at (gathered key (\<lambda>x. [f x]) xs) k = map f (filter (\<lambda>x. key x = k) xs)"
proof -
  have "concat (map (\<lambda>x. [f x]) ys) = map f ys" for ys by (induction ys) simp_all
  moreover have "filter (\<lambda>x. key x = k) xs = []" if "k \<notin> key ` set xs"
    using that by (auto simp: filter_empty_conv)
  ultimately show ?thesis by (simp add: entry_at_def gathered_get)
qed

lemma graph_tests_count:
  "count_list (map snd (graph_tests changed rels)) t = (if is_test_name t then test_relations changed rels t else 0)"
proof -
  have "count_list (entry_at (tests_by_symbol rels) c) t =
      (if is_test_name t then length (filter (\<lambda>r. cr_type r = Tests \<and> si_qualified_name (cr_target r) = c \<and>
         si_qualified_name (cr_source r) = t) rels) else 0)" for c
    by (auto simp: tests_by_symbol_def entry_at_gathered count_list_map filter_empty_conv
        intro!: arg_cong [where f = length] filter_cong)
  moreover have "map snd (graph_tests changed rels) = concat (map (entry_at (tests_by_symbol rels)) changed)"
    by (simp add: graph_tests_def map_concat comp_def)
  moreover have "count_list (concat xss) t = sum_list (map (\<lambda>xs. count_list xs t) xss)" for xss
    by (induction xss) simp_all
  ultimately show ?thesis by (simp add: test_relations_def comp_def)
qed

lemma covered_tests_set: "t \<in> set (covered_tests repo rvn changed s) \<longleftrightarrow> exercised repo rvn changed s t"
  by (auto simp: covered_tests_def exercised_def)

lemma selection_scores:
  assumes ok: "selection_ok sel"
  shows "{(tt_name x, tt_score x) | x. x \<in> set (dict_values sel)} = {(t, n). score_at sel t = Some n}"
proof -
  have listed: "x \<in> set (dict_values sel) \<longleftrightarrow> (\<exists>t. dict_get sel t = Some x)" for x
    using ok by (intro dict_values_iff) (simp add: selection_ok_def)
  have name: "tt_name x = t" if "dict_get sel t = Some x" for t x
    using ok that by (simp add: selection_ok_def)
  show ?thesis
    unfolding listed score_at_def by (auto dest: name)
qed

text \<open>
  C39: What the selection of tests answers. Whatever the order in which sets are iterated, every test
  is listed once, in the order of decreasing scores, and the score is the evidence for it: five
  tenths for every relation by which it tests a changed symbol and eight tenths when coverage
  observed it exercising one; a test with neither is listed with three tenths when it is in the
  history of failures, and not at all otherwise.
\<close>

theorem selected_tests_scored:
  assumes order: "\<And>xs. mset (order xs) = mset xs"
  shows "let r = select_tests order repo rvn changed history g s; sel = ats_selected r in
    distinct (map tt_name sel) \<and> sorted_wrt (\<lambda>a b. tt_score b \<le> tt_score a) sel \<and>
    {(tt_name x, tt_score x) | x. x \<in> set sel} =
      {(t, n). expected_score repo rvn changed (case history of None \<Rightarrow> [] | Some h \<Rightarrow> h) g s t = Some n} \<and>
    ats_via_runtime r = int (card {t. exercised repo rvn changed s t})"
proof -
  define paths where "paths = runtime_test_paths (list_symbols repo rvn g)"
  define cts where "cts = graph_tests changed (list_relations repo rvn g)"
  define cov where "cov = covered_tests repo rvn changed s"
  define hist where "hist = (case history of None \<Rightarrow> [] | Some h \<Rightarrow> h)"
  define st1 where "st1 = fold (graph_step paths) cts ([], 0)"
  define st2 where "st2 = fold (runtime_step paths) (order cov) (fst st1, 0)"
  define st3 where "st3 = fold (history_step paths) (order (remdups hist)) (fst st2, 0)"
  have members: "set (order xs) = set xs" "distinct (order xs) = distinct xs" "length (order xs) = length xs" for xs
    using order [of xs] by (metis set_mset_mset, metis mset_eq_imp_distinct_iff, metis size_mset)
  have some: "t \<in> snd ` set cts \<longleftrightarrow> count_list (map snd cts) t \<noteq> 0" for t
    using count_list_0_iff [of "map snd cts" t] by auto
  have ok1: "selection_ok (fst st1)"
    and score1: "score_at (fst st1) t =
      (if count_list (map snd cts) t \<noteq> 0 then Some (5 * int (count_list (map snd cts) t)) else None)" for t
    unfolding some [symmetric] using graph_steps [of "[]" paths cts 0 t] by (auto simp: st1_def selection_ok_def score_at_def points_at_def)
  have dist: "distinct (order cov)" by (simp add: members cov_def covered_tests_def)
  have ok2: "selection_ok (fst st2)" and n2: "snd st2 = int (length cov)"
    and score2: "score_at (fst st2) t = (if t \<in> set cov then Some (points_at (fst st1) t + 8) else score_at (fst st1) t)" for t
    using runtime_steps [OF ok1 dist, of paths 0 t] by (simp_all add: st2_def members)
  have ok3: "selection_ok (fst st3)"
    and score3: "score_at (fst st3) t = (if score_at (fst st2) t = None \<and> t \<in> set hist then Some 3 else score_at (fst st2) t)" for t
    using history_steps [OF ok2, of paths "order (remdups hist)" 0 t] by (simp_all add: st3_def members)
  have expected: "score_at (fst st3) t = expected_score repo rvn changed hist g s t" for t
    using graph_tests_count [of changed "list_relations repo rvn g" t] covered_tests_set [of t repo rvn changed s]
    by (auto simp: score3 score2 score1 points_at_def expected_score_def Let_def cts_def cov_def)
  have "select_tests order repo rvn changed history g s =
      \<lparr>ats_selected = sort_decreasing tt_score (dict_values (fst st3)), ats_via_runtime = snd st2,
       ats_via_call_graph = snd st1, ats_via_changed = 0, ats_via_history = snd st3\<rparr>"
    by (simp add: select_tests_def Let_def case_prod_beta st3_def st2_def st1_def paths_def cts_def cov_def hist_def)
  moreover have "map tt_name (dict_values (fst st3)) = map fst (fst st3)"
  proof -
    have "tt_name x = t" if "(t, x) \<in> set (fst st3)" for t x
      using ok3 that by (auto simp: selection_ok_def dict_ok_def)
    then show ?thesis by (auto simp: dict_values_def)
  qed
  then have "distinct (map tt_name (dict_values (fst st3)))" using ok3 by (simp add: selection_ok_def dict_ok_def)
  then have "distinct (map tt_name (sort_decreasing tt_score (dict_values (fst st3))))"
    using mset_eq_imp_distinct_iff [of "map tt_name (sort_decreasing tt_score (dict_values (fst st3)))"
        "map tt_name (dict_values (fst st3))"] by (simp add: sort_decreasing_perm)
  moreover note selection_scores [OF ok3]
  moreover have "set cov = {t. exercised repo rvn changed s t}" by (auto simp: cov_def covered_tests_set)
  then have "int (length cov) = int (card {t. exercised repo rvn changed s t})"
    using distinct_card [of cov] by (simp add: cov_def covered_tests_def)
  ultimately show ?thesis
    by (simp add: Let_def sorted_sort_decreasing expected n2 hist_def [symmetric])
qed

subsection \<open>Dependencies\<close>

lemma pair_image: "(\<lambda>p. (fst p, f (snd p), g (snd p))) ` A = {(x, f y, g y) | x y. (x, y) \<in> A}"
  by force

text \<open>
  The dependencies of a revision are the edges its observations name: every edge with at least one
  observation of a call, a query or a message between two named ends is listed once, with exactly the
  observations of it in their order and their number, the most observed edges first.
\<close>

theorem observed_dependencies:
  "let obs = evidence_of_revision repo rvn s; deps = dependencies_for_revision repo rvn s;
       edge = (\<lambda>d :: runtime_dependency. (rdp_relation d, rdp_source d, rdp_target d))
   in distinct (map edge deps) \<and> sorted_wrt (\<lambda>d e. rdp_count e \<le> rdp_count d) deps \<and>
      {(edge d, rdp_observations d, rdp_count d) | d. d \<in> set deps} =
        {(x, map ro_id xs, int (length xs)) | x xs. xs = filter (\<lambda>ob. edge_of ob = Some x) obs \<and> xs \<noteq> []}"
proof -
  define obs where "obs = evidence_of_revision repo rvn s"
  define d where "d = gathered (\<lambda>ob. the (edge_of ob)) (\<lambda>ob. [ob]) (filter (\<lambda>ob. edge_of ob \<noteq> None) obs)"
  define edge :: "runtime_dependency \<Rightarrow> _" where "edge = (\<lambda>d. (rdp_relation d, rdp_source d, rdp_target d))"
  have edge: "edge (dependency_of x) = fst x" "rdp_observations (dependency_of x) = map ro_id (snd x)"
    "rdp_count (dependency_of x) = int (length (snd x))" for x
    by (simp_all add: edge_def dependency_of_def case_prod_beta)
  have deps: "dependencies_for_revision repo rvn s = map dependency_of (sort_key (\<lambda>x. - int (length (snd x))) d)"
    by (simp add: dependencies_for_revision_def d_def obs_def)
  have members: "(x, xs) \<in> set d \<longleftrightarrow> xs = filter (\<lambda>ob. edge_of ob = Some x) obs \<and> xs \<noteq> []" for x xs
  proof -
    have "(x, xs) \<in> set d \<longleftrightarrow> dict_get d x = Some xs"
      using gathered_ok [of "\<lambda>ob. the (edge_of ob)" "\<lambda>ob. [ob]"] by (simp add: d_def dict_ok_def)
    moreover have "filter (\<lambda>ob. the (edge_of ob) = x) (filter (\<lambda>ob. edge_of ob \<noteq> None) obs) =
        filter (\<lambda>ob. edge_of ob = Some x) obs"
      unfolding filter_filter
      by (rule filter_cong [OF refl]) (metis option.distinct(1) option.exhaust_sel option.sel)
    moreover have "x \<in> (\<lambda>ob. the (edge_of ob)) ` set (filter (\<lambda>ob. edge_of ob \<noteq> None) obs) \<longleftrightarrow>
        filter (\<lambda>ob. edge_of ob = Some x) obs \<noteq> []"
      unfolding filter_empty_conv image_iff set_filter mem_Collect_eq bex_simps
      by (metis option.sel option.distinct(1) option.exhaust_sel)
    ultimately show ?thesis by (auto simp: d_def gathered_get)
  qed
  have "{(edge e, rdp_observations e, rdp_count e) | e. e \<in> set (dependencies_for_revision repo rvn s)} =
      (\<lambda>e. (edge e, rdp_observations e, rdp_count e)) ` dependency_of ` set d"
    by (simp add: deps Setcompr_eq_image)
  also have "\<dots> = {(x, map ro_id xs, int (length xs)) | x xs. (x, xs) \<in> set d}"
    unfolding image_image edge by (rule pair_image [where f = "map ro_id" and g = "\<lambda>xs. int (length xs)"])
  finally have "{(edge e, rdp_observations e, rdp_count e) | e. e \<in> set (dependencies_for_revision repo rvn s)} =
      {(x, map ro_id xs, int (length xs)) | x xs. xs = filter (\<lambda>ob. edge_of ob = Some x) obs \<and> xs \<noteq> []}"
    unfolding members .
  moreover have "distinct (map edge (dependencies_for_revision repo rvn s))"
  proof -
    have "distinct (map fst d)" using gathered_ok by (simp add: d_def dict_ok_def)
    then have "distinct (map fst (sort_key (\<lambda>x. - int (length (snd x))) d))"
      using mset_eq_imp_distinct_iff [of "map fst (sort_key (\<lambda>x. - int (length (snd x))) d)" "map fst d"] by simp
    then show ?thesis by (simp add: deps edge comp_def)
  qed
  moreover have "sorted_wrt (\<lambda>d e. rdp_count e \<le> rdp_count d) (dependencies_for_revision repo rvn s)"
    unfolding deps sorted_wrt_map edge
    by (rule sorted_wrt_mono_rel [OF _ sorted_sort_key [of "\<lambda>x. - int (length (snd x))" d, unfolded sorted_map]]) simp
  ultimately show ?thesis by (simp add: Let_def obs_def edge_def)
qed

text \<open>
  A root span whose parent is null, as exporters write it, is filed under the source \<open>None\<close> and not
  under its trace.
\<close>

lemma null_parent_is_a_source:
  "map_of span ''parent'' = Some JNull \<Longrightarrow> ro_source (span_observation it trace repo rvn ex p span) = ''None''"
  by (simp add: span_observation_def new_evidence_def get_or_def py_str_def)

subsection \<open>A concrete revision\<close>

definition demo_evidence_draw :: evidence_draw where
  "demo_evidence_draw n = (replicate n CHR ''o'', int n)"

theorem imported_coverage_is_answered_witness:
  "\<exists>c. coverage_for_revision ''r'' ''v'' (snd (import_coverage demo_evidence_draw ''r'' ''v'' ''test_f'' ''tests/t.py''
      [''app/a.py'', ''README''] None None demo_graph [])) = [c] \<and>
     cov_files c = [''README'', ''app/a.py''] \<and> entry_at (cov_symbols c) ''app/a.py'' = [''app.f'']"
proof -
  let ?r = "import_coverage demo_evidence_draw ''r'' ''v'' ''test_f'' ''tests/t.py''
      [''app/a.py'', ''README''] None None demo_graph []"
  have "coverage_for_revision ''r'' ''v'' [] = []" by code_simp
  with imported_coverage_is_answered [of "''test_f''" "''r''" "''v''" "[]" "[''app/a.py'', ''README'']"
      demo_evidence_draw "''tests/t.py''" None None demo_graph]
  obtain c where "coverage_for_revision ''r'' ''v'' (snd ?r) = [c]" "cov_files c = cov_files (fst ?r)"
    "entry_at (cov_symbols c) = entry_at (cov_symbols (fst ?r))"
    by (auto simp: Let_def)
  moreover have "cov_files (fst ?r) = [''README'', ''app/a.py'']" by code_simp
  moreover have "entry_at (cov_symbols (fst ?r)) ''app/a.py'' = [''app.f'']" by code_simp
  ultimately show ?thesis by auto
qed

definition demo_tested_graph :: code_graph where
  "demo_tested_graph = save_relations [(demo_call ''test_f'' ''app.f'')\<lparr>cr_type := Tests\<rparr>] demo_graph"

definition demo_selection :: "targeted_test list" where
  "demo_selection = ats_selected (select_tests (\<lambda>xs. xs) ''r'' ''v'' [''app.f''] (Some [''test_old'']) demo_tested_graph
     (snd (import_coverage demo_evidence_draw ''r'' ''v'' ''test_f'' ''tests/t.py'' [''app/a.py''] None None demo_graph [])))"

theorem selected_tests_scored_witness:
  "distinct (map tt_name demo_selection) \<and>
   map (\<lambda>x. (tt_name x, tt_score x)) demo_selection = [(''test_f'', 13), (''test_old'', 3)]"
proof
  show "distinct (map tt_name demo_selection)"
    using selected_tests_scored [of "\<lambda>xs. xs" "''r''" "''v''" "[''app.f'']" "Some [''test_old'']" demo_tested_graph]
    by (simp add: Let_def demo_selection_def)
  show "map (\<lambda>x. (tt_name x, tt_score x)) demo_selection = [(''test_f'', 13), (''test_old'', 3)]" by code_simp
qed

end
