(* ===== verification/Provisioning.thy ===== *)
theory Provisioning
  imports Repositories Openproject
begin

text \<open>
  The provisioning of projects (\<open>application/provisioning.py\<close>): creating a canonical project, creating
  external projects for it, and linking external projects that exist, over the in-memory projects.

  A configured port is a function of its arguments and of the external state \<open>'e\<close>, which it may
  change whether it answers or raises; a port that is not configured is \<open>None\<close>.
\<close>

subsection \<open>The service\<close>

record 'e provisioning_ports =
  pp_work_management :: "(string \<Rightarrow> string option \<Rightarrow> 'e \<Rightarrow> ('e, external_reference) outcome) option"
  pp_source_control :: "(string \<Rightarrow> string option \<Rightarrow> 'e \<Rightarrow> ('e, external_reference) outcome) option"
  pp_documentation :: "(string \<Rightarrow> 'e \<Rightarrow> ('e, external_reference) outcome) option"

record external_projects =
  ep_work_management :: "string option"
  ep_source_control :: "string option"
  ep_documentation :: "string option"

record provisioning_result =
  pvr_project :: project
  pvr_added :: "external_reference list"
  pvr_details :: "string list"

type_synonym 'e provisioning_state = "repository_set \<times> 'e"

definition create_canonical :: "uuid \<Rightarrow> string \<Rightarrow> string option \<Rightarrow> 'e provisioning_state \<Rightarrow> project \<times> 'e provisioning_state" where
  "create_canonical i name descr st =
     (let (s, e) = st;
          p = \<lparr>pj_id = i, pj_name = name, pj_description = descr, pj_status = Planned, pj_parent_id = None,
               pj_repositories = [], pj_external_refs = []\<rparr>
      in (p, (save_project p s, e)))"

definition load_project :: "uuid \<Rightarrow> 'e provisioning_state \<Rightarrow> exn + project" where
  "load_project i st =
     (case get_item i (st_projects (fst st)) of
        None \<Rightarrow> Inl (Exn ''ValueError'' (''project '' @ i @ '' not found''))
      | Some p \<Rightarrow> Inr p)"

definition same_ref :: "external_reference \<Rightarrow> external_reference \<Rightarrow> bool" where
  "same_ref a b \<longleftrightarrow>
     ref_provider a = ref_provider b \<and> ref_external_type a = ref_external_type b \<and>
     ref_external_id a = ref_external_id b"

definition merge_ref :: "external_reference \<Rightarrow> external_reference list \<Rightarrow> external_reference list" where
  "merge_ref r refs = (if list_ex (\<lambda>x. same_ref x r) refs then refs else refs @ [r])"

definition persist_refs :: "provisioning_result \<Rightarrow> 'e provisioning_state \<Rightarrow> provisioning_result \<times> 'e provisioning_state" where
  "persist_refs r st =
     (if pvr_added r = [] then (r, st)
      else (let p = (pvr_project r)\<lparr>pj_external_refs := fold merge_ref (pvr_added r) (pj_external_refs (pvr_project r))\<rparr>
            in (r\<lparr>pvr_project := p\<rparr>, (save_project p (fst st), snd st))))"

definition try_provide :: "string \<Rightarrow> ('e \<Rightarrow> ('e, external_reference) outcome) option
    \<Rightarrow> provisioning_result \<times> 'e \<Rightarrow> provisioning_result \<times> 'e" where
  "try_provide label create re =
     (let (r, e) = re; detail = (\<lambda>d r. r\<lparr>pvr_details := pvr_details r @ [label @ d]\<rparr>) in
      case create of
        None \<Rightarrow> (detail '': not configured, skipped'' r, e)
      | Some f \<Rightarrow>
          (case f e of
             (Inr ref, e') \<Rightarrow>
               (detail ('': created '' @ ref_external_id ref) (r\<lparr>pvr_added := pvr_added r @ [ref]\<rparr>), e')
           | (Inl x, e') \<Rightarrow>
               (if exn_type x = ''NotImplementedError'' then (detail '': creation not supported by provider'' r, e')
                else (detail ('': provisioning failed ('' @ exn_msg x @ '')'') r, e'))))"

text \<open>\<open>description or None\<close>, and the name of a space.\<close>

definition described :: "string option \<Rightarrow> string option" where
  "described d = (if d = Some [] then None else d)"

definition space_name :: "string \<Rightarrow> string" where
  "space_name name = (let s = filter is_alnum (strip name) in if s = [] then ''Project'' else s)"

definition provide_all :: "'e provisioning_ports \<Rightarrow> project \<Rightarrow> provisioning_result \<times> 'e \<Rightarrow> provisioning_result \<times> 'e" where
  "provide_all ports p re =
     (let d = described (pj_description p) in
      try_provide ''documentation'' (map_option (\<lambda>f. f (space_name (pj_name p))) (pp_documentation ports))
        (try_provide ''source control'' (map_option (\<lambda>f. f (pj_name p) d) (pp_source_control ports))
          (try_provide ''work management'' (map_option (\<lambda>f. f (pj_name p) d) (pp_work_management ports)) re)))"

definition provision :: "'e provisioning_ports \<Rightarrow> uuid \<Rightarrow> 'e provisioning_state
    \<Rightarrow> ('e provisioning_state, provisioning_result) outcome" where
  "provision ports i st =
     (case load_project i st of
        Inl x \<Rightarrow> (Inl x, st)
      | Inr p \<Rightarrow>
          (let (r, e) = provide_all ports p (\<lparr>pvr_project = p, pvr_added = [], pvr_details = []\<rparr>, snd st);
               (r', st') = persist_refs r (fst st, e)
           in (Inr r', st')))"

definition create_connected :: "'e provisioning_ports \<Rightarrow> uuid \<Rightarrow> string \<Rightarrow> string option \<Rightarrow> 'e provisioning_state
    \<Rightarrow> ('e provisioning_state, provisioning_result) outcome" where
  "create_connected ports i name descr st =
     (let (p, st') = create_canonical i name descr st in provision ports (pj_id p) st')"

definition link_candidates :: "external_projects \<Rightarrow> (string \<times> string option \<times> string) list" where
  "link_candidates x =
     [(''openproject'', ep_work_management x, ''project''), (''gitlab'', ep_source_control x, ''project''),
      (''xwiki'', ep_documentation x, ''space'')]"

definition link_candidate :: "string \<times> string option \<times> string \<Rightarrow> provisioning_result \<Rightarrow> provisioning_result" where
  "link_candidate c r =
     (let (provider, x, ty) = c; i = (case x of None \<Rightarrow> [] | Some i \<Rightarrow> i);
          ref = \<lparr>ref_provider = provider, ref_external_id = i, ref_external_type = Some ty, ref_url = None,
                 ref_namespace = None\<rparr>;
          p = pvr_project r
      in if i = [] then r
         else if list_ex (\<lambda>y. same_ref y ref) (pj_external_refs p)
         then r\<lparr>pvr_details := pvr_details r @ [provider @ '': already linked ('' @ i @ '')'']\<rparr>
         else r\<lparr>pvr_project := p\<lparr>pj_external_refs := pj_external_refs p @ [ref]\<rparr>,
                pvr_added := pvr_added r @ [ref],
                pvr_details := pvr_details r @ [provider @ '': linked existing '' @ i]\<rparr>)"

definition link_existing :: "uuid \<Rightarrow> external_projects \<Rightarrow> 'e provisioning_state
    \<Rightarrow> ('e provisioning_state, provisioning_result) outcome" where
  "link_existing i x st =
     (case load_project i st of
        Inl e \<Rightarrow> (Inl e, st)
      | Inr p \<Rightarrow>
          (let (r, st') = persist_refs (fold link_candidate (link_candidates x)
                 \<lparr>pvr_project = p, pvr_added = [], pvr_details = []\<rparr>) st
           in (Inr r, st')))"

subsection \<open>Merging references\<close>

lemma merge_refs_extend: "\<exists>new. fold merge_ref rs refs = refs @ new \<and> set new \<subseteq> set rs"
proof (induction rs arbitrary: refs)
  case (Cons r rs)
  from Cons [of "merge_ref r refs"] show ?case by (auto simp: merge_ref_def split: if_splits)
qed simp

lemma merge_refs_covered: "r \<in> set rs \<Longrightarrow> list_ex (\<lambda>x. same_ref x r) (fold merge_ref rs refs)"
proof (induction rs arbitrary: refs)
  case (Cons s rs)
  show ?case
  proof (cases "r = s")
    case True
    obtain new where "fold merge_ref rs (merge_ref s refs) = merge_ref s refs @ new"
      using merge_refs_extend by blast
    moreover have "list_ex (\<lambda>x. same_ref x r) (merge_ref s refs)"
      by (simp add: True merge_ref_def same_ref_def)
    ultimately show ?thesis by simp
  next
    case False
    with Cons show ?thesis by simp
  qed
qed simp

lemma merge_refs_known: "\<forall>r \<in> set rs. list_ex (\<lambda>x. same_ref x r) refs \<Longrightarrow> fold merge_ref rs refs = refs"
  by (induction rs) (simp_all add: merge_ref_def)

subsection \<open>What provisioning does\<close>

lemma try_provide_facts:
  "pvr_project (fst (try_provide label create re)) = pvr_project (fst re)"
  "length (pvr_details (fst (try_provide label create re))) = Suc (length (pvr_details (fst re)))"
  "\<exists>new. pvr_added (fst (try_provide label create re)) = pvr_added (fst re) @ new"
  by (auto simp: try_provide_def Let_def split: prod.split option.split sum.split)

lemma provide_all_facts:
  "pvr_project (fst (provide_all ports p re)) = pvr_project (fst re)"
  "length (pvr_details (fst (provide_all ports p re))) = 3 + length (pvr_details (fst re))"
  by (simp_all add: provide_all_def Let_def try_provide_facts)

lemma project_saved:
  "get_item k (st_projects (save_project p s)) = (if k = pj_id p then Some p else get_item k (st_projects s))"
  by (simp add: save_project_def collection.fetch_put)

lemma provisioning_keeps:
  assumes stored: "get_item i (st_projects s) = Some p" and own: "pj_id p = i"
  shows "\<exists>r s' e'. provision ports i (s, e) = (Inr r, (s', e')) \<and>
    length (pvr_details r) = 3 \<and>
    (\<exists>new. pvr_project r = p\<lparr>pj_external_refs := pj_external_refs p @ new\<rparr> \<and> set new \<subseteq> set (pvr_added r)) \<and>
    (\<forall>ref \<in> set (pvr_added r). list_ex (\<lambda>x. same_ref x ref) (pj_external_refs (pvr_project r))) \<and>
    get_item i (st_projects s') = Some (pvr_project r) \<and>
    (\<forall>k. k \<noteq> i \<longrightarrow> get_item k (st_projects s') = get_item k (st_projects s))"
proof -
  let ?r0 = "\<lparr>pvr_project = p, pvr_added = [], pvr_details = []\<rparr>"
  obtain r e' where all: "provide_all ports p (?r0, e) = (r, e')" by fastforce
  have r: "pvr_project r = p" "length (pvr_details r) = 3"
    using provide_all_facts [of ports p "(?r0, e)"] by (simp_all add: all)
  have "snd (snd (persist_refs r (s, e'))) = e'" by (simp add: persist_refs_def Let_def)
  then obtain r' s' where persist: "persist_refs r (s, e') = (r', (s', e'))" by (metis prod.collapse)
  have run: "provision ports i (s, e) = (Inr r', (s', e'))"
    by (simp add: provision_def load_project_def stored all persist)
  obtain new where new: "fold merge_ref (pvr_added r) (pj_external_refs p) = pj_external_refs p @ new"
    "set new \<subseteq> set (pvr_added r)"
    using merge_refs_extend by blast
  have p': "pvr_project r' = p\<lparr>pj_external_refs := pj_external_refs p @ new\<rparr>"
    "pvr_added r' = pvr_added r" "pvr_details r' = pvr_details r"
    using persist r(1) new by (auto simp: persist_refs_def Let_def split: if_splits)
  have s': "s' = (if pvr_added r = [] then s else save_project (pvr_project r') s)"
    using persist by (auto simp: persist_refs_def Let_def split: if_splits)
  have "get_item k (st_projects s') = (if k = i then Some (pvr_project r') else get_item k (st_projects s))" for k
    using stored own new p' by (auto simp: s' project_saved)
  moreover have "list_ex (\<lambda>x. same_ref x ref) (pj_external_refs (pvr_project r'))" if "ref \<in> set (pvr_added r')" for ref
    using merge_refs_covered [of ref "pvr_added r" "pj_external_refs p"] that p' new(1) by simp
  ultimately show ?thesis
    using run r(2) p' new(2) by (intro exI [of _ r'] exI [of _ s'] exI [of _ e']) auto
qed

text \<open>What a run asks of the configured ports depends on the name and the description alone.\<close>

definition call_port :: "('e \<Rightarrow> ('e, external_reference) outcome) option \<Rightarrow> 'e \<Rightarrow> 'e" where
  "call_port create e = (case create of None \<Rightarrow> e | Some f \<Rightarrow> snd (f e))"

definition port_calls :: "'e provisioning_ports \<Rightarrow> project \<Rightarrow> 'e \<Rightarrow> 'e" where
  "port_calls ports p e =
     (let d = described (pj_description p) in
      call_port (map_option (\<lambda>f. f (space_name (pj_name p))) (pp_documentation ports))
        (call_port (map_option (\<lambda>f. f (pj_name p) d) (pp_source_control ports))
          (call_port (map_option (\<lambda>f. f (pj_name p) d) (pp_work_management ports)) e)))"

lemma try_provide_calls: "snd (try_provide label create re) = call_port create (snd re)"
  by (simp add: try_provide_def call_port_def Let_def split: prod.split option.split sum.split)

lemma provide_all_calls: "snd (provide_all ports p re) = port_calls ports p (snd re)"
  by (simp add: provide_all_def port_calls_def Let_def try_provide_calls)

lemma provision_calls:
  assumes "get_item i (st_projects s) = Some p"
  shows "snd (snd (provision ports i (s, e))) = port_calls ports p e"
proof -
  have "snd (snd (persist_refs r st)) = snd st" for r and st :: "'a provisioning_state"
    by (simp add: persist_refs_def Let_def)
  with assms show ?thesis
    by (simp add: provision_def load_project_def case_prod_beta provide_all_calls)
qed

text \<open>
  C40: Provisioning a project again creates again. A second run asks every configured port for a new
  external project with the arguments of the first, although the first run has linked the
  project to what they created.
\<close>

theorem provisioning_creates_again:
  assumes stored: "get_item i (st_projects s) = Some p" and own: "pj_id p = i"
    and first: "provision ports i (s, e) = (Inr r, (s', e'))"
  shows "e' = port_calls ports p e \<and> snd (snd (provision ports i (s', e'))) = port_calls ports p e'"
proof -
  from provisioning_keeps [OF stored own, of ports e] first
  obtain new where "get_item i (st_projects s') = Some (p\<lparr>pj_external_refs := pj_external_refs p @ new\<rparr>)"
    by auto
  from provision_calls [OF this, of ports e'] provision_calls [OF stored, of ports e] first
  show ?thesis by (simp add: port_calls_def)
qed

subsection \<open>What linking does\<close>

definition names_linked :: "string \<times> string option \<times> string \<Rightarrow> project \<Rightarrow> bool" where
  "names_linked c p \<longleftrightarrow>
     (let (provider, x, ty) = c in
      x = None \<or> x = Some [] \<or>
      (\<exists>y \<in> set (pj_external_refs p). ref_provider y = provider \<and> ref_external_type y = Some ty \<and>
         Some (ref_external_id y) = x))"

lemma link_candidate_links: "names_linked c (pvr_project (link_candidate c r))"
  by (auto simp: names_linked_def link_candidate_def same_ref_def Let_def list_ex_iff split: prod.split option.split)

lemma link_candidate_keeps: "names_linked c (pvr_project r) \<Longrightarrow> names_linked c (pvr_project (link_candidate d r))"
  by (auto simp: names_linked_def link_candidate_def Let_def split: prod.split option.split)

lemma link_candidate_linked:
  "names_linked c (pvr_project r) \<Longrightarrow>
    pvr_project (link_candidate c r) = pvr_project r \<and> pvr_added (link_candidate c r) = pvr_added r"
  by (auto simp: names_linked_def link_candidate_def same_ref_def Let_def list_ex_iff split: prod.split option.split)

lemma link_fold_keeps: "names_linked c (pvr_project r) \<Longrightarrow> names_linked c (pvr_project (fold link_candidate cs r))"
  by (induction cs arbitrary: r) (simp_all add: link_candidate_keeps)

lemma link_fold_links: "c \<in> set cs \<Longrightarrow> names_linked c (pvr_project (fold link_candidate cs r))"
  by (induction cs arbitrary: r) (auto simp: link_candidate_links link_fold_keeps)

lemma link_fold_linked:
  "\<forall>c \<in> set cs. names_linked c (pvr_project r) \<Longrightarrow>
    pvr_project (fold link_candidate cs r) = pvr_project r \<and> pvr_added (fold link_candidate cs r) = pvr_added r"
proof (induction cs arbitrary: r)
  case (Cons c cs)
  then show ?case using link_candidate_linked [of c r] by simp
qed simp

lemma link_candidate_added:
  "\<exists>new. pvr_added (link_candidate c r) = pvr_added r @ new \<and>
    pvr_project (link_candidate c r) =
      (pvr_project r)\<lparr>pj_external_refs := pj_external_refs (pvr_project r) @ new\<rparr>"
  by (cases c) (simp add: link_candidate_def Let_def)

lemma link_fold_added:
  "\<exists>new. pvr_added (fold link_candidate cs r) = pvr_added r @ new \<and>
    pvr_project (fold link_candidate cs r) =
      (pvr_project r)\<lparr>pj_external_refs := pj_external_refs (pvr_project r) @ new\<rparr>"
proof (induction cs arbitrary: r)
  case (Cons c cs)
  obtain xs where "pvr_added (link_candidate c r) = pvr_added r @ xs"
    "pvr_project (link_candidate c r) = (pvr_project r)\<lparr>pj_external_refs := pj_external_refs (pvr_project r) @ xs\<rparr>"
    using link_candidate_added by blast
  with Cons [of "link_candidate c r"] show ?case by auto
qed simp

text \<open>
  Linking is idempotent. Linking existing external projects to a stored project returns and links
  every one that was named; linking them again adds nothing, leaves the project as it is and
  stores nothing.
\<close>

theorem linking_is_idempotent:
  assumes stored: "get_item i (st_projects s) = Some p" and own: "pj_id p = i"
  shows "\<exists>r s' r2. link_existing i x (s, e) = (Inr r, (s', e)) \<and>
    (\<forall>c \<in> set (link_candidates x). names_linked c (pvr_project r)) \<and>
    get_item i (st_projects s') = Some (pvr_project r) \<and>
    link_existing i x (s', e) = (Inr r2, (s', e)) \<and> pvr_added r2 = [] \<and> pvr_project r2 = pvr_project r"
proof -
  let ?r0 = "\<lambda>p. \<lparr>pvr_project = p, pvr_added = [], pvr_details = []\<rparr>"
  define r where "r = fold link_candidate (link_candidates x) (?r0 p)"
  obtain new where new: "pvr_added r = new" "pvr_project r = p\<lparr>pj_external_refs := pj_external_refs p @ new\<rparr>"
    using link_fold_added [of "link_candidates x" "?r0 p"] by (auto simp: r_def)
  have known: "fold merge_ref new (pj_external_refs (pvr_project r)) = pj_external_refs (pvr_project r)"
    by (rule merge_refs_known) (auto simp: new(2) list_ex_iff same_ref_def)
  define s' where "s' = (if new = [] then s else save_project (pvr_project r) s)"
  have run: "link_existing i x (s, e) = (Inr r, (s', e))"
    using known new by (simp add: link_existing_def load_project_def stored r_def [symmetric] persist_refs_def Let_def s'_def)
  have all: "\<forall>c \<in> set (link_candidates x). names_linked c (pvr_project r)" by (simp add: r_def link_fold_links)
  have get: "get_item i (st_projects s') = Some (pvr_project r)"
    using stored own new by (simp add: s'_def project_saved)
  define r2 where "r2 = fold link_candidate (link_candidates x) (?r0 (pvr_project r))"
  have r2: "pvr_added r2 = []" "pvr_project r2 = pvr_project r"
    using link_fold_linked [of "link_candidates x" "?r0 (pvr_project r)"] all by (simp_all add: r2_def)
  then have "link_existing i x (s', e) = (Inr r2, (s', e))"
    by (simp add: link_existing_def load_project_def get r2_def [symmetric] persist_refs_def)
  with run all get r2 show ?thesis by blast
qed

subsection \<open>A concrete provisioning\<close>

text \<open>A source control that numbers its projects.\<close>

definition demo_provisioning_ports :: "nat provisioning_ports" where
  "demo_provisioning_ports = \<lparr>pp_work_management = None,
     pp_source_control = Some (\<lambda>name d n. (Inr \<lparr>ref_provider = ''gitlab'', ref_external_id = str_nat n,
       ref_external_type = Some ''project'', ref_url = None, ref_namespace = None\<rparr>, Suc n)),
     pp_documentation = Some (\<lambda>name n. (Inl (Exn ''NotImplementedError'' []), n))\<rparr>"

definition demo_provisioned :: "nat \<Rightarrow> nat provisioning_state" where
  "demo_provisioned k = ((\<lambda>st. snd (provision demo_provisioning_ports ''p'' st)) ^^ k)
     (snd (create_canonical ''p'' ''Shop 2'' None (empty_repositories, 0)))"

theorem provisioning_creates_again_witness:
  "snd (demo_provisioned 2) = 2 \<and>
   map_option (map ref_external_id \<circ> pj_external_refs) (get_item ''p'' (st_projects (fst (demo_provisioned 2)))) =
     Some [''0'', ''1'']"
proof
  let ?s = "fst (demo_provisioned 0)"
  define p0 where "p0 = fst (create_canonical ''p'' ''Shop 2'' None (empty_repositories, 0 :: nat))"
  have stored: "get_item ''p'' (st_projects ?s) = Some p0" "pj_id p0 = ''p''" "demo_provisioned 0 = (?s, 0)"
    by (simp_all add: p0_def demo_provisioned_def create_canonical_def project_saved Let_def)
  obtain r s' e' where run: "provision demo_provisioning_ports ''p'' (?s, 0) = (Inr r, (s', e'))"
    using provisioning_keeps [OF stored(1,2), of demo_provisioning_ports 0] by (elim exE conjE) (rule that)
  have again: "demo_provisioned 2 = snd (provision demo_provisioning_ports ''p'' (s', e'))"
    using run stored(3) by (simp add: demo_provisioned_def numeral_2_eq_2)
  have "port_calls demo_provisioning_ports p0 k = Suc k" for k
    by (simp add: port_calls_def call_port_def demo_provisioning_ports_def Let_def)
  with provisioning_creates_again [OF stored(1,2) run]
  have "snd (snd (provision demo_provisioning_ports ''p'' (s', e'))) = Suc (Suc 0)" by auto
  then show "snd (demo_provisioned 2) = 2" unfolding again by simp
  show "map_option (map ref_external_id \<circ> pj_external_refs) (get_item ''p'' (st_projects (fst (demo_provisioned 2)))) =
     Some [''0'', ''1'']"
    by code_simp
qed

theorem linking_is_idempotent_witness:
  "\<exists>r s' r2. link_existing ''p'' \<lparr>ep_work_management = Some ''7'', ep_source_control = None, ep_documentation = None\<rparr>
      (demo_provisioned 1) = (Inr r, (s', 1)) \<and>
     names_linked (''openproject'', Some ''7'', ''project'') (pvr_project r) \<and>
     link_existing ''p'' \<lparr>ep_work_management = Some ''7'', ep_source_control = None, ep_documentation = None\<rparr>
      (s', 1 :: nat) = (Inr r2, (s', 1)) \<and> pvr_added r2 = []"
proof -
  let ?x = "\<lparr>ep_work_management = Some ''7'', ep_source_control = None, ep_documentation = None\<rparr>"
  have "map_option pj_id (get_item ''p'' (st_projects (fst (demo_provisioned 1)))) = Some ''p''" by code_simp
  moreover have "snd (demo_provisioned 1) = 1" by code_simp
  ultimately obtain s0 p where st: "demo_provisioned 1 = (s0, 1)"
    and p: "get_item ''p'' (st_projects s0) = Some p" "pj_id p = ''p''"
    by (cases "demo_provisioned 1") auto
  have mem: "(''openproject'', Some ''7'', ''project'') \<in> set (link_candidates ?x)" by (simp add: link_candidates_def)
  obtain r s' r2 where "link_existing ''p'' ?x (s0, 1 :: nat) = (Inr r, (s', 1))"
    "\<forall>c \<in> set (link_candidates ?x). names_linked c (pvr_project r)"
    "link_existing ''p'' ?x (s', 1 :: nat) = (Inr r2, (s', 1))" "pvr_added r2 = []"
    using linking_is_idempotent [OF p, of ?x "1 :: nat"] by blast
  with mem have "link_existing ''p'' ?x (s0, 1 :: nat) = (Inr r, (s', 1)) \<and>
      names_linked (''openproject'', Some ''7'', ''project'') (pvr_project r) \<and>
      link_existing ''p'' ?x (s', 1 :: nat) = (Inr r2, (s', 1)) \<and> pvr_added r2 = []"
    by simp
  then show ?thesis unfolding st by blast
qed

end
