(* ===== verification/Documentation_Sync.thy ===== *)
theory Documentation_Sync
  imports Documents Repositories Topology Observations Code_Graph
begin

text \<open>
  The synchronisation of documentation: the mapping of XWiki pages and the publication policy
  (\<open>application/xwiki_sync.py\<close>), the resolution of pages to projects, the cursors and the cycle over
  one space (\<open>application/xwiki_ingestion.py\<close>), and the reconciliation of declared and discovered
  catalogs (\<open>application/documentation_catalog_sync.py\<close>).

  The documentation port is a pair of functions of the external state \<open>'p\<close>, which they may change
  whether they answer or raise. What the ingestion of the \<open>n\<close>-th page of a cycle draws is \<open>ws n\<close>; the
  clock is read as \<open>ck_start\<close> when the cursor is looked up and as \<open>ck_end\<close> when it is advanced.
\<close>

subsection \<open>XWiki pages\<close>

definition xwiki_ref :: "string \<Rightarrow> string \<Rightarrow> external_reference" where
  "xwiki_ref wiki page =
     \<lparr>ref_provider = ''xwiki'', ref_external_id = page, ref_external_type = Some ''page'', ref_url = None,
      ref_namespace = Some wiki\<rparr>"

definition page_name :: "(string \<times> json) list \<Rightarrow> string" where
  "page_name page = py_str (py_or (py_or (jget page ''id'') (jget page ''reference'')) (JStr []))"

definition to_source_artifact :: "(string \<Rightarrow> string) \<Rightarrow> string \<Rightarrow> (string \<times> json) list \<Rightarrow> source_artifact" where
  "to_source_artifact enc wiki page =
     \<lparr>sa_source_uri = page_name page, sa_provider = ''xwiki'', sa_mime_type = Some ''text/html'',
      sa_file_name = Some (page_name page),
      sa_revision = Some (py_str (py_or (jget page ''version'') (JStr []))), sa_content_hash = None,
      sa_raw_bytes_ref = None,
      sa_content = Some (enc (py_str (py_or (py_or (jget page ''content'') (jget page ''source'')) (JStr [])))),
      sa_metadata = [(''wiki'', JStr wiki), (''title'', jget page ''title''), (''parent'', jget page ''parent'')]\<rparr>"

definition document_type_for_page :: "(string \<times> json) list \<Rightarrow> document_type" where
  "document_type_for_page page =
     (let n = lower (page_name page) in
      if contains ''adr'' n \<or> contains ''decision'' n then Adr_Doc
      else if contains ''requirement'' n \<or> contains ''req-'' n then Requirements_Doc
      else if contains ''architecture'' n then Architecture_Doc else General_Doc)"

text \<open>\<open>show_time\<close> is \<open>datetime.isoformat\<close>; the id, the correlation and the time of the event are drawn.\<close>

definition emit_changed :: "(datetime \<Rightarrow> string) \<Rightarrow> uuid \<times> uuid \<times> datetime \<Rightarrow> 'x handler_table option
    \<Rightarrow> external_reference \<Rightarrow> datetime option \<Rightarrow> 'x event_state \<Rightarrow> ('x event_state, event_envelope) outcome" where
  "emit_changed show_time drawn bus r since s =
     (let (i, corr, now) = drawn;
          e = \<lparr>ev_id = i, ev_type = DOCUMENT_CHANGED, ev_occurred_at = now, ev_project_id = None,
               ev_correlation_id = corr, ev_causation_id = None, ev_source = ''xwiki.sync'',
               ev_idempotency_key = None,
               ev_payload = [(''provider'', JStr ''xwiki''), (''external_id'', JStr (ref_external_id r)),
                 (''namespace'', jopt JStr (ref_namespace r)), (''since'', jopt (JStr \<circ> show_time) since)]\<rparr>
      in (case bus of
            None \<Rightarrow> (Inr e, s)
          | Some run \<Rightarrow> (case publish run e s of (Inl x, s') \<Rightarrow> (Inl x, s') | (Inr _, s') \<Rightarrow> (Inr e, s'))))"

definition publishable_types :: "observation_type list" where
  "publishable_types = [Architecture_Violation, Conflict, Dependency_Discovered, Human_Action_Required]"

definition may_publish :: "observation \<Rightarrow> bool" where
  "may_publish ob \<longleftrightarrow> ob_type ob \<in> set publishable_types \<and> ob_visibility ob \<noteq> Vis_Internal"

subsection \<open>The project of a page\<close>

text \<open>\<open>^[^.:]+:\<close>, removed.\<close>

definition without_wiki :: "string \<Rightarrow> string" where
  "without_wiki s =
     (let wiki = takeWhile (\<lambda>c. c \<noteq> CHR ''.'' \<and> c \<noteq> CHR '':'') s; rest = drop (length wiki) s in
      if wiki \<noteq> [] \<and> rest \<noteq> [] \<and> hd rest = CHR '':'' then tl rest else s)"

definition extract_space :: "string \<Rightarrow> string" where
  "extract_space page =
     (let raw = without_wiki (strip page);
          parts = filter (\<lambda>p. p \<noteq> []) (split_on (CHR ''/'') (map (\<lambda>c. if c = CHR ''.'' then CHR ''/'' else c) raw))
      in case parts of
           [] \<Rightarrow> raw
         | p # ps \<Rightarrow> if CHR ''/'' \<in> set raw \<and> 3 \<le> length parts then hd ps else p)"

definition resolve_page :: "external_reference \<Rightarrow> repository_set \<Rightarrow> project option" where
  "resolve_page r s = project_by_ref ''xwiki'' (extract_space (ref_external_id r)) (Some ''space'') s"

subsection \<open>Cursors\<close>

definition space_key :: "uuid \<Rightarrow> string \<Rightarrow> string" where
  "space_key project space = ''project:'' @ project @ '':space:'' @ space"

definition space_since :: "datetime \<Rightarrow> uuid \<Rightarrow> string \<Rightarrow> repository_set \<Rightarrow> datetime option \<times> repository_set" where
  "space_since now project space s =
     (let (w, s') = get_or_create_watermark now ''xwiki'' (space_key project space) s in (wm_last_synced_at w, s'))"

definition advance_space :: "datetime \<Rightarrow> uuid \<Rightarrow> string \<Rightarrow> datetime option \<Rightarrow> string option \<Rightarrow> repository_set
    \<Rightarrow> repository_set" where
  "advance_space now project space synced newest s =
     (let (w, s') = get_or_create_watermark now ''xwiki'' (space_key project space) s in
      save_watermark (w\<lparr>wm_last_synced_at := Some (case synced of None \<Rightarrow> now | Some t \<Rightarrow> t),
        wm_last_external_id := (case newest of None \<Rightarrow> wm_last_external_id w
          | Some x \<Rightarrow> if x = [] then wm_last_external_id w else Some x),
        wm_updated_at := now\<rparr>) s')"

text \<open>The stored cursor of a space.\<close>

definition space_cursor :: "uuid \<Rightarrow> string \<Rightarrow> repository_set \<Rightarrow> datetime option" where
  "space_cursor project space s =
     Option.bind (dict_get (st_watermarks s) (''xwiki'', space_key project space)) wm_last_synced_at"

subsection \<open>One cycle over a space\<close>

record 'p documentation_port =
  dpo_changed :: "datetime option \<Rightarrow> string list \<Rightarrow> 'p \<Rightarrow> ('p, external_reference list) outcome"
  dpo_fetch :: "external_reference \<Rightarrow> 'p \<Rightarrow> ('p, source_artifact) outcome"

record sync_clock =
  ck_start :: datetime
  ck_end :: datetime

record space_sync_result =
  ssr_project_id :: uuid
  ssr_space :: string
  ssr_since :: "datetime option"
  ssr_discovered :: int
  ssr_ingested :: int
  ssr_unchanged :: int
  ssr_failed :: int
  ssr_details :: "string list"

type_synonym ('x, 'p) documentation_state = "'x document_state \<times> 'p"

text \<open>One page: \<open>None\<close> when its space is not mapped, otherwise whether a version was created.\<close>

definition sync_page :: "'x document_service \<Rightarrow> document_draws \<Rightarrow> bool \<Rightarrow> 'p documentation_port
    \<Rightarrow> external_reference \<Rightarrow> repository_set \<Rightarrow> ('x, 'p) documentation_state
    \<Rightarrow> (('x, 'p) documentation_state, bool option) outcome" where
  "sync_page sv w mapped port r s st =
     (case resolve_page r s of
        None \<Rightarrow> (Inr None, st)
      | Some project \<Rightarrow>
          (case dpo_fetch port r (snd st) of
             (Inl e, p) \<Rightarrow> (Inl e, (fst st, p))
           | (Inr a, p) \<Rightarrow>
               (case ingest_document sv w a (pj_id project)
                       (if mapped then Some (document_type_for_page [(''id'', JStr (ref_external_id r))]) else None)
                       None None (fst st) of
                  (Inl e, d) \<Rightarrow> (Inl e, (d, p))
                | (Inr res, d) \<Rightarrow> (Inr (Some (dr_created res)), (d, p)))))"

definition count_page :: "external_reference \<Rightarrow> exn + bool option \<Rightarrow> space_sync_result \<Rightarrow> space_sync_result" where
  "count_page r answer res =
     (case answer of
        Inl e \<Rightarrow> res\<lparr>ssr_failed := ssr_failed res + 1, ssr_details := ssr_details res @ [ref_external_id r @ '': '' @ exn_text e]\<rparr>
      | Inr None \<Rightarrow> res\<lparr>ssr_failed := ssr_failed res + 1,
          ssr_details := ssr_details res @ [ref_external_id r @ '': unmapped space '' @ extract_space (ref_external_id r)]\<rparr>
      | Inr (Some created) \<Rightarrow>
          if created then res\<lparr>ssr_ingested := ssr_ingested res + 1\<rparr> else res\<lparr>ssr_unchanged := ssr_unchanged res + 1\<rparr>)"

fun sync_pages :: "'x document_service \<Rightarrow> (nat \<Rightarrow> document_draws) \<Rightarrow> bool \<Rightarrow> 'p documentation_port \<Rightarrow> repository_set
    \<Rightarrow> nat \<Rightarrow> external_reference list \<Rightarrow> space_sync_result \<Rightarrow> ('x, 'p) documentation_state
    \<Rightarrow> space_sync_result \<times> ('x, 'p) documentation_state" where
  "sync_pages sv ws mapped port s n [] res st = (res, st)"
| "sync_pages sv ws mapped port s n (r # rs) res st =
     (let (answer, st') = sync_page sv (ws n) mapped port r s st in
      sync_pages sv ws mapped port s (Suc n) rs (count_page r answer res) st')"

definition sync_space :: "'x document_service \<Rightarrow> (nat \<Rightarrow> document_draws) \<Rightarrow> bool \<Rightarrow> 'p documentation_port \<Rightarrow> sync_clock
    \<Rightarrow> project \<Rightarrow> string \<Rightarrow> repository_set \<times> ('x, 'p) documentation_state
    \<Rightarrow> (repository_set \<times> ('x, 'p) documentation_state, space_sync_result) outcome" where
  "sync_space sv ws mapped port ck project space st0 =
     (let (s0, d0, p0) = st0; (since, s) = space_since (ck_start ck) (pj_id project) space s0 in
      case dpo_changed port since [space] p0 of
        (Inl e, p) \<Rightarrow> (Inl e, (s, d0, p))
      | (Inr refs, p) \<Rightarrow>
          (let (res, st) = sync_pages sv ws mapped port s 0 refs
                 \<lparr>ssr_project_id = pj_id project, ssr_space = space, ssr_since = since,
                  ssr_discovered = int (length refs), ssr_ingested = 0, ssr_unchanged = 0, ssr_failed = 0,
                  ssr_details = []\<rparr> (d0, p);
               s' = (if ssr_failed res = 0 \<and> (ssr_discovered res > 0 \<or> since \<noteq> None)
                     then advance_space (ck_end ck) (pj_id project) space None
                            (if refs = [] then None else Some (ref_external_id (last refs))) s
                     else s)
           in (Inr res, (s', st))))"

text \<open>
  One document of any provider: fetched, then ingested; without an ingestion service the
  change is only announced.
\<close>

record document_sync_result =
  dsr_ref :: external_reference
  dsr_artifact :: source_artifact
  dsr_published :: bool
  dsr_document_id :: "uuid option"
  dsr_version_id :: "uuid option"

definition announced_document :: "uuid \<Rightarrow> uuid \<Rightarrow> source_artifact \<Rightarrow> document" where
  "announced_document i project a =
     \<lparr>dc_id = i, dc_project_id = project, dc_type = General_Doc, dc_title = or_text (sa_file_name a) (sa_source_uri a),
      dc_source = \<lparr>do_provider = sa_provider a, do_uri = sa_source_uri a, do_mime_type = None, do_external_ref = None\<rparr>,
      dc_current_version = None, dc_external_refs = []\<rparr>"

definition sync_document :: "'x document_service option \<Rightarrow> 'x handler_table \<Rightarrow> (document \<Rightarrow> json) \<Rightarrow> document_draws
    \<Rightarrow> 'p documentation_port \<Rightarrow> external_reference \<Rightarrow> uuid \<Rightarrow> ('x, 'p) documentation_state
    \<Rightarrow> (('x, 'p) documentation_state, document_sync_result) outcome" where
  "sync_document sv run dump w port r project st =
     (case dpo_fetch port r (snd st) of
        (Inl e, p) \<Rightarrow> (Inl e, (fst st, p))
      | (Inr a, p) \<Rightarrow>
          (case sv of
             Some service \<Rightarrow>
               (case ingest_document service w a project None None None (fst st) of
                  (Inl e, d) \<Rightarrow> (Inl e, (d, p))
                | (Inr res, d) \<Rightarrow>
                    (Inr \<lparr>dsr_ref = r, dsr_artifact = a, dsr_published = True,
                          dsr_document_id = Some (dc_id (dr_document res)),
                          dsr_version_id = Some (dv_id (dr_version res))\<rparr>, (d, p)))
           | None \<Rightarrow>
               (case publish run (model_to_envelope (dd_event w) (dd_fresh w) (dd_now w)
                        (DocumentChanged (dump (announced_document (dd_document w) project a)))
                        (ref_provider r) None None None None) (snd (fst st)) of
                  (Inl e, b) \<Rightarrow> (Inl e, ((fst (fst st), b), p))
                | (Inr _, b) \<Rightarrow>
                    (Inr \<lparr>dsr_ref = r, dsr_artifact = a, dsr_published = True, dsr_document_id = None,
                          dsr_version_id = None\<rparr>, ((fst (fst st), b), p)))))"

definition project_spaces :: "project \<Rightarrow> string list" where
  "project_spaces p =
     map ref_external_id
       (filter (\<lambda>r. ref_provider r = ''xwiki'' \<and> ref_external_type r = Some ''space'') (pj_external_refs p))"

text \<open>All spaces of a project; the \<open>k\<close>-th cycle draws \<open>ws k\<close> and reads the clock \<open>ck k\<close>.\<close>

fun sync_spaces :: "'x document_service \<Rightarrow> (nat \<Rightarrow> nat \<Rightarrow> document_draws) \<Rightarrow> bool \<Rightarrow> 'p documentation_port
    \<Rightarrow> (nat \<Rightarrow> sync_clock) \<Rightarrow> project \<Rightarrow> nat \<Rightarrow> string list \<Rightarrow> repository_set \<times> ('x, 'p) documentation_state
    \<Rightarrow> (repository_set \<times> ('x, 'p) documentation_state, space_sync_result list) outcome" where
  "sync_spaces sv ws mapped port ck project k [] st = (Inr [], st)"
| "sync_spaces sv ws mapped port ck project k (x # xs) st =
     then_do (sync_space sv (ws k) mapped port (ck k) project x st) (\<lambda>r st'.
       then_do (sync_spaces sv ws mapped port ck project (Suc k) xs st') (\<lambda>rs st''. (Inr (r # rs), st'')))"

definition sync_project_spaces :: "'x document_service \<Rightarrow> (nat \<Rightarrow> nat \<Rightarrow> document_draws) \<Rightarrow> bool \<Rightarrow> 'p documentation_port
    \<Rightarrow> (nat \<Rightarrow> sync_clock) \<Rightarrow> project \<Rightarrow> repository_set \<times> ('x, 'p) documentation_state
    \<Rightarrow> (repository_set \<times> ('x, 'p) documentation_state, space_sync_result list) outcome" where
  "sync_project_spaces sv ws mapped port ck project st =
     sync_spaces sv ws mapped port ck project 0 (project_spaces project) st"

subsection \<open>Declared and discovered catalogs\<close>

record catalog_conflict =
  cf_name :: string
  cf_declared :: string
  cf_discovered :: string

record catalog_result =
  cgr_project_id :: uuid
  cgr_conflicts :: "catalog_conflict list"
  cgr_merged :: "software_component list"

definition discovered_by_name :: "software_component list \<Rightarrow> (string, software_component) dict" where
  "discovered_by_name cs = fold (\<lambda>c. dict_set (sm_name c) c) cs []"

definition compare_declared :: "(string, software_component) dict \<Rightarrow> software_component
    \<Rightarrow> catalog_conflict list \<times> software_component list \<Rightarrow> catalog_conflict list \<times> software_component list" where
  "compare_declared found c st =
     (case dict_get found (sm_name c) of
        None \<Rightarrow> (fst st, snd st @ [c])
      | Some d \<Rightarrow>
          ((if sm_type d \<noteq> sm_type c
            then fst st @ [\<lparr>cf_name = sm_name c, cf_declared = component_type_value (sm_type c),
                           cf_discovered = component_type_value (sm_type d)\<rparr>]
            else fst st), snd st @ [d]))"

definition reconcile_catalog :: "uuid \<Rightarrow> software_component list option \<Rightarrow> software_component list option \<Rightarrow> catalog_result" where
  "reconcile_catalog project declared derived =
     (case (declared, derived) of
        (Some ds, Some es) \<Rightarrow>
          (let (conflicts, merged) = fold (compare_declared (discovered_by_name es)) ds ([], [])
           in \<lparr>cgr_project_id = project, cgr_conflicts = conflicts, cgr_merged = first_per_key sm_name [] (merged @ es)\<rparr>)
      | _ \<Rightarrow> \<lparr>cgr_project_id = project, cgr_conflicts = [], cgr_merged = []\<rparr>)"

subsection \<open>Cursors move only after a whole cycle\<close>

lemma get_or_create_cursor:
  assumes "get_or_create_watermark now p k s = (w, s')"
  shows "dict_get (st_watermarks s') (p, k) = Some w"
    and "(q, l) \<noteq> (p, k) \<Longrightarrow> dict_get (st_watermarks s') (q, l) = dict_get (st_watermarks s) (q, l)"
    and "wm_last_synced_at w = Option.bind (dict_get (st_watermarks s) (p, k)) wm_last_synced_at"
    and "\<not> (dict_get (st_watermarks s) (p, k) \<noteq> None \<and> s' \<noteq> s)"
  using assms
  by (auto simp: get_or_create_watermark_def save_watermark_def new_watermark_def store_simps split: option.splits)

lemma space_since_facts:
  assumes "space_since now p x s = (since, s')"
  shows "since = space_cursor p x s" and "space_cursor p x s' = space_cursor p x s"
    and "k \<noteq> (''xwiki'', space_key p x) \<Longrightarrow> dict_get (st_watermarks s') k = dict_get (st_watermarks s) k"
    and "s'\<lparr>st_watermarks := st_watermarks s\<rparr> = s"
proof -
  obtain w where w: "get_or_create_watermark now ''xwiki'' (space_key p x) s = (w, s')" "since = wm_last_synced_at w"
    using assms by (auto simp: space_since_def split: prod.splits)
  show "since = space_cursor p x s" "space_cursor p x s' = space_cursor p x s"
    using get_or_create_cursor(1,3) [OF w(1)] w(2) by (simp_all add: space_cursor_def)
  show "k \<noteq> (''xwiki'', space_key p x) \<Longrightarrow> dict_get (st_watermarks s') k = dict_get (st_watermarks s) k"
    using get_or_create_cursor(2) [OF w(1), of "fst k" "snd k"] by simp
  show "s'\<lparr>st_watermarks := st_watermarks s\<rparr> = s"
    using w(1) by (auto simp: get_or_create_watermark_def save_watermark_def split: option.splits)
qed

text \<open>The watermarks are stored under their own keys.\<close>

definition watermarks_keyed :: "repository_set \<Rightarrow> bool" where
  "watermarks_keyed s \<longleftrightarrow>
     (\<forall>k w. dict_get (st_watermarks s) k = Some w \<longrightarrow> (wm_provider w, wm_sync_key w) = k)"

lemma get_or_create_keyed:
  assumes "watermarks_keyed s" and "get_or_create_watermark now p k s = (w, s')"
  shows "watermarks_keyed s'" and "wm_provider w = p" "wm_sync_key w = k"
  using assms
  by (auto simp: watermarks_keyed_def get_or_create_watermark_def save_watermark_def new_watermark_def store_simps
      split: option.splits if_splits)

lemma space_since_keyed: "watermarks_keyed s \<Longrightarrow> watermarks_keyed (snd (space_since now p x s))"
  by (auto simp: space_since_def split: prod.split dest: get_or_create_keyed)

lemma advance_space_facts:
  assumes "watermarks_keyed s"
  shows "space_cursor p x (advance_space now p x None newest s) = Some now"
    and "k \<noteq> (''xwiki'', space_key p x) \<Longrightarrow>
      dict_get (st_watermarks (advance_space now p x None newest s)) k = dict_get (st_watermarks s) k"
    and "(advance_space now p x None newest s)\<lparr>st_watermarks := st_watermarks s\<rparr> = s"
    and "watermarks_keyed (advance_space now p x None newest s)"
proof -
  obtain w s' where w: "get_or_create_watermark now ''xwiki'' (space_key p x) s = (w, s')" by fastforce
  note key = get_or_create_keyed [OF assms w]
  show "space_cursor p x (advance_space now p x None newest s) = Some now"
    using key by (simp add: advance_space_def w save_watermark_def space_cursor_def store_simps)
  show "dict_get (st_watermarks (advance_space now p x None newest s)) k = dict_get (st_watermarks s) k"
    if "k \<noteq> (''xwiki'', space_key p x)"
    using key that get_or_create_cursor(2) [OF w, of "fst k" "snd k"]
    by (simp add: advance_space_def w save_watermark_def store_simps)
  have "s'\<lparr>st_watermarks := st_watermarks s\<rparr> = s"
    using w by (auto simp: get_or_create_watermark_def save_watermark_def split: option.splits)
  then show "(advance_space now p x None newest s)\<lparr>st_watermarks := st_watermarks s\<rparr> = s"
    by (simp add: advance_space_def w save_watermark_def)
  show "watermarks_keyed (advance_space now p x None newest s)"
    using key by (auto simp: advance_space_def w save_watermark_def watermarks_keyed_def store_simps)
qed

lemma sync_pages_facts:
  assumes "sync_pages sv ws mapped port s n refs res st = (res', st')"
  shows "ssr_project_id res' = ssr_project_id res \<and> ssr_space res' = ssr_space res \<and> ssr_since res' = ssr_since res \<and>
    ssr_discovered res' = ssr_discovered res \<and>
    ssr_ingested res' + ssr_unchanged res' + ssr_failed res' =
      ssr_ingested res + ssr_unchanged res + ssr_failed res + int (length refs) \<and>
    ssr_failed res \<le> ssr_failed res' \<and>
    int (length (ssr_details res')) - ssr_failed res' = int (length (ssr_details res)) - ssr_failed res"
  using assms
proof (induction refs arbitrary: n res st)
  case (Cons r refs)
  obtain answer st1 where page: "sync_page sv (ws n) mapped port r s st = (answer, st1)" by (metis surj_pair)
  with Cons.prems have "sync_pages sv ws mapped port s (Suc n) refs (count_page r answer res) st1 = (res', st')" by simp
  note IH = Cons.IH [OF this]
  have "ssr_project_id (count_page r answer res) = ssr_project_id res" "ssr_space (count_page r answer res) = ssr_space res"
    "ssr_since (count_page r answer res) = ssr_since res" "ssr_discovered (count_page r answer res) = ssr_discovered res"
    "ssr_ingested (count_page r answer res) + ssr_unchanged (count_page r answer res) + ssr_failed (count_page r answer res) =
      ssr_ingested res + ssr_unchanged res + ssr_failed res + 1"
    "ssr_failed res \<le> ssr_failed (count_page r answer res)"
    "int (length (ssr_details (count_page r answer res))) - ssr_failed (count_page r answer res) =
      int (length (ssr_details res)) - ssr_failed res"
    by (simp_all add: count_page_def split: sum.split option.split)
  with IH show ?case by simp
qed simp


subsection \<open>What the reconciliation of catalogs keeps\<close>

definition discovered_as :: "software_component list \<Rightarrow> string \<Rightarrow> software_component option" where
  "discovered_as es name =
     (let xs = filter (\<lambda>e. sm_name e = name) es in if xs = [] then None else Some (last xs))"

lemma discovered_by_name_get: "dict_get (discovered_by_name es) name = discovered_as es name"
  by (induction es rule: rev_induct) (auto simp: discovered_by_name_def discovered_as_def Let_def store_simps)

lemma discovered_asD: "discovered_as es name = Some d \<Longrightarrow> d \<in> set es \<and> sm_name d = name"
  using last_in_set [of "filter (\<lambda>e. sm_name e = name) es"]
  by (auto simp: discovered_as_def Let_def split: if_splits)

lemma discovered_as_None: "discovered_as es name = None \<longleftrightarrow> name \<notin> sm_name ` set es"
  by (auto simp: discovered_as_def Let_def filter_empty_conv)

lemma compare_declared_fold:
  "fold (compare_declared (discovered_by_name es)) ds (cs, ms) =
    (cs @ concat (map (\<lambda>c. case discovered_as es (sm_name c) of None \<Rightarrow> [] | Some d \<Rightarrow>
        if sm_type d \<noteq> sm_type c
        then [\<lparr>cf_name = sm_name c, cf_declared = component_type_value (sm_type c),
               cf_discovered = component_type_value (sm_type d)\<rparr>] else []) ds),
     ms @ map (\<lambda>c. case discovered_as es (sm_name c) of None \<Rightarrow> c | Some d \<Rightarrow> d) ds)"
  by (induction ds arbitrary: cs ms)
    (auto simp: compare_declared_def discovered_by_name_get split: option.split)

text \<open>
  What the reconciliation of a declared with a discovered catalog keeps. Every name of either
  is listed once; a name that was discovered is listed with a discovered component, also when it was
  declared with another type, and any other with the declared one; a conflict is
  recorded for exactly the declared components whose discovered namesake has another type.
\<close>

theorem catalog_reconciliation_prefers_discovered:
  "let r = reconcile_catalog p (Some ds) (Some es); ms = cgr_merged r in
    distinct (map sm_name ms) \<and> sm_name ` set ms = sm_name ` set ds \<union> sm_name ` set es \<and>
    (\<forall>c \<in> set ms. if sm_name c \<in> sm_name ` set es then c \<in> set es else c \<in> set ds) \<and>
    cf_name ` set (cgr_conflicts r) =
      sm_name ` {c \<in> set ds. \<exists>d. discovered_as es (sm_name c) = Some d \<and> sm_type d \<noteq> sm_type c}"
proof -
  define pick where "pick = (\<lambda>c. case discovered_as es (sm_name c) of None \<Rightarrow> c | Some d \<Rightarrow> d)"
  define r where "r = reconcile_catalog p (Some ds) (Some es)"
  have merged: "cgr_merged r = first_per_key sm_name [] (map pick ds @ es)"
    and conflicts: "cgr_conflicts r = concat (map (\<lambda>c. case discovered_as es (sm_name c) of None \<Rightarrow> [] | Some d \<Rightarrow>
        if sm_type d \<noteq> sm_type c
        then [\<lparr>cf_name = sm_name c, cf_declared = component_type_value (sm_type c),
               cf_discovered = component_type_value (sm_type d)\<rparr>] else []) ds)"
    by (simp_all add: r_def reconcile_catalog_def compare_declared_fold pick_def)
  have pick_name: "sm_name (pick c) = sm_name c" for c
    by (auto simp: pick_def dest: discovered_asD split: option.split)
  have pick_from: "if sm_name (pick c) \<in> sm_name ` set es then pick c \<in> set es else pick c = c" for c
    unfolding pick_name using discovered_as_None [of es "sm_name c"]
    by (auto simp: pick_def dest: discovered_asD split: option.split)
  have "sm_name ` set (cgr_merged r) = sm_name ` set ds \<union> sm_name ` set es"
    using first_per_key_keys [of sm_name "[]" "map pick ds @ es"]
    by (simp add: merged image_Un image_image pick_name)
  moreover have "if sm_name c \<in> sm_name ` set es then c \<in> set es else c \<in> set ds" if "c \<in> set (cgr_merged r)" for c
  proof -
    have "c \<in> set es \<or> (\<exists>b \<in> set ds. c = pick b)"
      using that first_per_key_subset [of sm_name "[]" "map pick ds @ es"] by (auto simp: merged)
    then show ?thesis
    proof
      assume "\<exists>b \<in> set ds. c = pick b"
      then obtain b where "b \<in> set ds" "c = pick b" by blast
      with pick_from [of b] show ?thesis by (auto split: if_splits)
    qed auto
  qed
  moreover have "cf_name ` set (cgr_conflicts r) =
      sm_name ` {c \<in> set ds. \<exists>d. discovered_as es (sm_name c) = Some d \<and> sm_type d \<noteq> sm_type c}"
    unfolding conflicts by (force simp: image_iff split: option.splits if_splits)
  moreover have "distinct (map sm_name (cgr_merged r))" using first_per_key_distinct [of sm_name "[]" "map pick ds @ es"] by (simp add: merged)
  ultimately show ?thesis by (simp add: Let_def r_def)
qed

subsection \<open>A concrete space\<close>

definition demo_component :: "string \<Rightarrow> component_type \<Rightarrow> software_component" where
  "demo_component i t =
     \<lparr>sm_id = i, sm_project_id = ''p'', sm_name = ''api'', sm_type = t, sm_repository_ids = [], sm_owner = None,
      sm_lifecycle = None, sm_provenance = [], sm_external_refs = []\<rparr>"

definition demo_merged :: "software_component list" where
  "demo_merged = cgr_merged (reconcile_catalog ''p'' (Some [demo_component ''declared'' Frontend_Application])
     (Some [demo_component ''discovered'' Backend_Service]))"

theorem catalog_reconciliation_prefers_discovered_witness:
  "distinct (map sm_name demo_merged) \<and> map sm_id demo_merged = [''discovered'']"
proof
  show "distinct (map sm_name demo_merged)"
    using catalog_reconciliation_prefers_discovered [of "''p''" "[demo_component ''declared'' Frontend_Application]"
        "[demo_component ''discovered'' Backend_Service]"]
    by (simp only: Let_def demo_merged_def)
  show "map sm_id demo_merged = [''discovered'']" by code_simp
qed

text \<open>A wiki that cannot be reached for one of its two pages.\<close>

definition demo_wiki :: "unit documentation_port" where
  "demo_wiki = \<lparr>dpo_changed = (\<lambda>since spaces p. (Inr [xwiki_ref ''w'' ''ADAS.A'', xwiki_ref ''w'' ''Other.B''], p)),
     dpo_fetch = (\<lambda>r p. (Inl (Exn ''TimeoutError'' []), p))\<rparr>"

definition demo_wiki_project :: project where
  "demo_wiki_project = \<lparr>pj_id = ''p'', pj_name = ''adas'', pj_description = None, pj_status = Active, pj_parent_id = None,
     pj_repositories = [], pj_external_refs = [\<lparr>ref_provider = ''xwiki'', ref_external_id = ''ADAS'',
       ref_external_type = Some ''space'', ref_url = None, ref_namespace = None\<rparr>]\<rparr>"


end
