(* ===== verification/Spec2Isabelle.thy ===== *)
theory Spec2Isabelle
  imports Worker Engineering_Workflow Access_Control Scheduler Context_Engine Sync Webhooks
    Documents Planning Command_Handlers Repository_Contract Code_Indexing Topology_Detectors
    Graph_Projection Document_Parsers Runtime_Evidence Provisioning Documentation_Sync
begin

text \<open>
  A verification library of the Brain, the service under \<open>src/brain\<close> that connects a work
  management tool (OpenProject), source control (GitLab), documents and a code graph with the
  execution of engineering tasks by a coding agent.

  \<^bold>\<open>The parts and how they interact.\<close> A webhook (\<open>api/routes/webhooks.py\<close>) or the scheduler
  (\<open>scheduler/reconciliation.py\<close>) learns of a change. Changes of the work management tool go
  through one ingestion service (\<open>application/openproject_ingestion.py\<close>), which writes the state
  repositories, projects a part of the knowledge graph and publishes canonical events on the
  bus. Subscribers of the bus (\<open>application/event_handlers.py\<close>) write the journal of
  observations and put commands on a queue. A worker (\<open>workers/loop.py\<close>) takes the commands
  and hands each to its handler. An execution of a task runs through the workflow engine and
  the engineering workflow, is verified, and becomes a pull request when policies and the
  verification allow it.

  \<^bold>\<open>The theories\<close>, each beside the code it models. The opening text of each says more.

    \<^item> Prelude: what all share. Python's exceptions as values, insertion-ordered dictionaries, the
      interface \<open>keyed_store\<close> of a store with its laws, collections of hints. Json: the dynamic
      values of bodies and payloads. Domain: the entities of \<open>domain/*.py\<close>, a record per class.
    \<^item> Commands, Worker: \<open>domain/commands.py\<close>, the queue of \<open>adapters/in_memory\<close>, the dispatcher
      and \<open>workers/loop.py\<close>. The locale \<open>queue_contract\<close> is what the loop relies on.
    \<^item> Workflow_Engine, Engineering_Workflow, Verification: \<open>application/workflow_engine.py\<close> with
      its checkpoints and executors, \<open>orchestration/*.py\<close>, \<open>application/verification_engine.py\<close>
      with the gate of pull requests.
    \<^item> Policy, Access_Control: \<open>application/policy_service.py\<close> with risk and approvals; identities,
      keys, rate limits, workspace locks and the audit log. The locale \<open>lock_service\<close> is the
      contract of the lock.
    \<^item> Code_Graph, Knowledge_Graph: symbols with impact analysis; the in-memory graph with its
      traversals, the reconciliation of claims and the check of integrity.
    \<^item> Python_Ast, Code_Indexing: the parser of Python files (\<open>adapters/code_intelligence\<close>) over
      syntax trees, the resolver of names, and the indexing of a revision into the code graph
      (\<open>application/code_intelligence.py\<close>).
    \<^item> Topology, Topology_Detectors, Graph_Projection: the software model with its in-memory catalog
      and the merge and reconciliation of what is discovered; the four detectors that read the files
      of a revision; the projection of the canonical state into the knowledge graph
      (\<open>application/graph_projection.py\<close>).
    \<^item> Runtime_Evidence: observations of running software, coverage, and the selection of tests
      (\<open>application/runtime.py\<close>).
    \<^item> Events, Observations: the typed events, the bus, the event log and the incoming processor; the
      journal, its policy and its projection to human tools.
    \<^item> Repositories, Pull_Request, Scheduler: \<open>adapters/in_memory/repositories.py\<close>, the classes of
      files and revisions; the pull request service, feedback and the handlers of events; the
      periodic jobs.
    \<^item> Context_Engine, Planning: the selection of a context under a token budget; plans from
      requirements with their validation.
    \<^item> Documents: the parser registry, the parser of decision records, the store of documents with
      its versions and the ingestion of a document. Text_Search: lines, literal prefixes, searches and
      substitutions, which stand for the regular expressions of the code. Document_Parsers: the
      parsers of Markdown, XWiki syntax and HTML with the builder of the node tree
      (\<open>adapters/parsers\<close>). Documentation_Sync: the cycle over a wiki space with its cursor and the
      reconciliation of catalogs (\<open>application/xwiki_ingestion.py\<close>,
      \<open>application/documentation_catalog_sync.py\<close>).
    \<^item> Provisioning: creating and linking external projects (\<open>application/provisioning.py\<close>).
    \<^item> Command_Handlers: the handlers the container installs for each command
      (\<open>application/command_handlers.py\<close>), with the services, ports and executors they call.
    \<^item> Openproject, Ingestion, Reingestion, Sync, Webhooks: the parser and the adapter of the tool,
      the ingestion of one snapshot, what a second ingestion does, the bootstrap and the pull of a
      whole project, and the routes. The locales \<open>ingestion_frame\<close> and \<open>silent_frame\<close> carry a
      relation between states through every step of the ingestion.
    \<^item> Sql, Tables, Codec, Rows, Postgres: the PostgreSQL repositories
      (\<open>adapters/postgresql/*.py\<close>). A database session is the record \<open>sql\<close> of the statements the code
      issues, and \<open>sql_laws\<close> is what the code relies on of a database; \<open>list_sql\<close> is a database of
      lists of rows that has the laws. Tables holds the schema, Codec and Rows the translation of
      entities to rows and back, Postgres an operation per method.
    \<^item> Persistence, Stored_Checkpoints, Repository_Contract: that a row written is the entity read,
      that a saved workflow state is loaded again, and that the in-memory and the PostgreSQL
      repositories keep one specification. The locales \<open>keyed_entity\<close>, \<open>stored_entity\<close>,
      \<open>updatable_entity\<close> and \<open>owner_entity\<close> carry these proofs and are interpreted on every table
      they fit.

  \<^bold>\<open>How code becomes definitions.\<close> A class with fields is a record with a prefix per record, an
  enumeration a datatype, a dictionary an association list in insertion order, an exception a
  value on the left of a sum, beside the state it leaves. A method that changes state takes and
  returns the state. Fresh identifiers and the clock are arguments (\<open>draws\<close>). Text is a list of
  characters below 256, scores are in fixed-point units or come from parameters. Calls that
  leave the program (providers, the graph, the executor, a hash, an embedding) are parameters on
  an explicit world and may raise.

  \<^bold>\<open>What the lemmas show.\<close> Each theory proves first what its stores keep (well-formedness,
  fresh keys, one entry per key), then one lemma per operation and branch, and last its
  properties. Several properties state what the code does where this differs from what its
  comments promise; the opening text of the property says so.

  \<^bold>\<open>Loops and fuel.\<close> The loop of the workflow engine takes fuel, and more than the rank of the
  stage plus three times the retries left is shown to be enough. A run of the engineering
  pipeline needs as much fuel as there are stages, the worker one unit for each message and
  attempt. The page loops of the synchronisation need a page more than the provider has. Every
  other recursion is structural or has a termination proof.

  \<^bold>\<open>Not modelled.\<close> The engine and session factory of PostgreSQL, the adapters of Neo4j, Weaviate
  and Redis, the HTTP transports, git processes and the executor processes do I/O: they are the
  parameters above, and the in-memory adapters the code has for each stand for the stores. The
  routes other than the webhooks, the command line, the settings and the assembly of the container only
  wire and render; of the container the installation of the handlers is modelled. The tokens of
  Markdown, the elements of HTML, YAML and JSON texts and Python syntax trees come from third-party
  parsers and are parameters; PDF and office conversion, embeddings and semantic indexing, lexical scores
  (floating-point logarithms), metrics and logs are left out. Migrations are scripts for the
  database. Concurrency within a process is not modelled: the code awaits one operation at a time,
  and the interleavings that matter are the orders in which operations are called.
\<close>

section \<open>The whole brain\<close>


definition demo_worker :: "(unit, int) container worker_state" where
  "demo_worker =
     \<lparr>queue = enqueue (demo_envelope (VerifyExecutionCommand ''x'' ''w''))
        (enqueue (demo_envelope (ExecuteWorkItemCommand ''w'' None)) empty_queue),
      failures = [], stopping = False, ext = demo_container\<rparr>"


end
